(* ===== verification/Prelude.thy ===== *)
theory Prelude
  imports Complex_Main "HOL-Library.Word"
begin

section \<open>Shared vocabulary of the development\<close>

text \<open>
  What every component uses: the three ways a Swift call can end (it returns, it throws, it traps),
  the assertion helpers of \<^verbatim>\<open>Common/Common/Assertable.swift\<close>, the 64-bit \<open>Int\<close> of Swift with its
  overflow trap, the option-valued array subscript, and the list lemmas shared by the components.
  \<^item> \<open>outcome\<close> is the result type of a call: \<open>Ok\<close> for a return, \<open>Throw\<close> for a thrown error,
    \<open>Trap\<close> for \<open>preconditionFailure\<close>, a failed \<open>try!\<close>, a forced unwrap of nil and an arithmetic trap;
  \<^item> \<open>outcome_simps\<close> collects the rules that run such calls symbolically.
\<close>

named_theorems outcome_simps \<open>rules that evaluate sequences of calls\<close>

subsection \<open>Calls that return, throw or trap\<close>

datatype ('e, 'a) outcome = Ok 'a | Throw 'e | Trap

definition obind :: "('e, 'a) outcome \<Rightarrow> ('a \<Rightarrow> ('e, 'b) outcome) \<Rightarrow> ('e, 'b) outcome" where
  "obind r f = (case r of Ok a \<Rightarrow> f a | Throw e \<Rightarrow> Throw e | Trap \<Rightarrow> Trap)"

definition omap :: "('a \<Rightarrow> 'b) \<Rightarrow> ('e, 'a) outcome \<Rightarrow> ('e, 'b) outcome" where
  "omap f r = (case r of Ok a \<Rightarrow> Ok (f a) | Throw e \<Rightarrow> Throw e | Trap \<Rightarrow> Trap)"

text \<open>\<open>try!\<close>: a thrown error ends the program.\<close>

definition tryBang :: "('e, 'a) outcome \<Rightarrow> ('f, 'a) outcome" where
  "tryBang r = (case r of Ok a \<Rightarrow> Ok a | Throw _ \<Rightarrow> Trap | Trap \<Rightarrow> Trap)"

text \<open>\<open>try\<close> in a function whose error type embeds the callee's.\<close>

definition rethrow :: "('e \<Rightarrow> 'f) \<Rightarrow> ('e, 'a) outcome \<Rightarrow> ('f, 'a) outcome" where
  "rethrow g r = (case r of Ok a \<Rightarrow> Ok a | Throw e \<Rightarrow> Throw (g e) | Trap \<Rightarrow> Trap)"

text \<open>\<open>x!\<close>: unwrapping nil ends the program.\<close>

definition unwrap :: "'a option \<Rightarrow> ('e, 'a) outcome" where
  "unwrap x = (case x of None \<Rightarrow> Trap | Some a \<Rightarrow> Ok a)"

definition precondition :: "bool \<Rightarrow> ('e, unit) outcome" where
  "precondition b = (if b then Ok () else Trap)"

lemma obind_simps [simp, outcome_simps]:
  "obind (Ok a) f = f a"
  "obind (Throw e) f = Throw e"
  "obind Trap f = Trap"
  by (simp_all add: obind_def)

lemma omap_simps [simp, outcome_simps]:
  "omap g (Ok a) = Ok (g a)"
  "omap g (Throw e) = Throw e"
  "omap g Trap = Trap"
  by (simp_all add: omap_def)

lemma tryBang_simps [simp, outcome_simps]:
  "tryBang (Ok a) = Ok a"
  "tryBang (Throw e) = Trap"
  "tryBang Trap = Trap"
  by (simp_all add: tryBang_def)

lemma rethrow_simps [simp, outcome_simps]:
  "rethrow h (Ok a) = Ok a"
  "rethrow h (Throw e) = Throw (h e)"
  "rethrow h Trap = Trap"
  by (simp_all add: rethrow_def)

lemma unwrap_simps [simp, outcome_simps]:
  "unwrap None = Trap"
  "unwrap (Some a) = Ok a"
  by (simp_all add: unwrap_def)

lemma precondition_simps [simp, outcome_simps]:
  "precondition True = Ok ()"
  "precondition False = Trap"
  by (simp_all add: precondition_def)

lemma obind_eq_Ok: "obind r f = Ok b \<longleftrightarrow> (\<exists>a. r = Ok a \<and> f a = Ok b)"
  by (cases r) auto

lemma omap_eq_Ok: "omap g r = Ok b \<longleftrightarrow> (\<exists>a. r = Ok a \<and> b = g a)"
  by (cases r) auto

lemma rethrow_eq_Ok: "rethrow h r = Ok b \<longleftrightarrow> r = Ok b"
  by (cases r) auto

lemma tryBang_eq_Ok: "tryBang r = Ok b \<longleftrightarrow> r = Ok b"
  by (cases r) auto

lemma unwrap_eq_Ok: "unwrap x = Ok a \<longleftrightarrow> x = Some a"
  by (cases x) auto

lemma precondition_eq_Ok: "precondition b = Ok u \<longleftrightarrow> b"
  by (cases b) auto

lemmas outcome_Ok_iff = obind_eq_Ok omap_eq_Ok rethrow_eq_Ok tryBang_eq_Ok unwrap_eq_Ok
  precondition_eq_Ok

lemma obind_assoc: "obind (obind r f) g = obind r (\<lambda>x. obind (f x) g)"
  by (cases r) auto

subsection \<open>Stateful calls\<close>

text \<open>
  A call that changes state before it may throw: the state it leaves behind is part of the result in
  every case.
\<close>

type_synonym ('s, 'e, 'a) action = "'s \<Rightarrow> ('e, 'a) outcome \<times> 's"

definition act_return :: "'a \<Rightarrow> ('s, 'e, 'a) action" where
  "act_return a = (\<lambda>s. (Ok a, s))"

definition act_bind :: "('s, 'e, 'a) action \<Rightarrow> ('a \<Rightarrow> ('s, 'e, 'b) action) \<Rightarrow> ('s, 'e, 'b) action" where
  "act_bind m f = (\<lambda>s. case m s of
      (Ok a, s') \<Rightarrow> f a s'
    | (Throw e, s') \<Rightarrow> (Throw e, s')
    | (Trap, s') \<Rightarrow> (Trap, s'))"

definition act_lift :: "('e, 'a) outcome \<Rightarrow> ('s, 'e, 'a) action" where
  "act_lift r = (\<lambda>s. (r, s))"

definition act_get :: "('s \<Rightarrow> 'a) \<Rightarrow> ('s, 'e, 'a) action" where
  "act_get f = (\<lambda>s. (Ok (f s), s))"

text \<open>A part of the state updated by a fallible operation, and left alone when the operation fails.\<close>

definition act_update :: "('s \<Rightarrow> ('e, 'p) outcome) \<Rightarrow> ('p \<Rightarrow> 's \<Rightarrow> 's) \<Rightarrow> ('s, 'e, unit) action" where
  "act_update f put = (\<lambda>s. case f s of
      Ok p \<Rightarrow> (Ok (), put p s)
    | Throw e \<Rightarrow> (Throw e, s)
    | Trap \<Rightarrow> (Trap, s))"

lemma act_bind_apply [outcome_simps]:
  "m s = (Ok a, s') \<Longrightarrow> act_bind m f s = f a s'"
  "m s = (Throw e, s') \<Longrightarrow> act_bind m f s = (Throw e, s')"
  "m s = (Trap, s') \<Longrightarrow> act_bind m f s = (Trap, s')"
  by (simp_all add: act_bind_def)

lemma act_run [simp, outcome_simps]:
  "act_return a s = (Ok a, s)"
  "act_lift r s = (r, s)"
  "act_get h s = (Ok (h s), s)"
  "act_bind (act_return a) f s = f a s"
  "act_bind (act_get h) f s = f (h s) s"
  "act_bind (act_lift (Ok a)) f s = f a s"
  "act_bind (act_lift (Throw e)) f s = (Throw e, s)"
  "act_bind (act_lift Trap) f s = (Trap, s)"
  by (simp_all add: act_return_def act_lift_def act_get_def act_bind_def)

subsection \<open>Assertable: asserting with an error to throw\<close>

definition assertArgument :: "bool \<Rightarrow> 'e \<Rightarrow> ('e, unit) outcome" where
  "assertArgument b e = (if \<not> b then Throw e else Ok ())"

definition assertNil :: "'a option \<Rightarrow> 'e \<Rightarrow> ('e, unit) outcome" where
  "assertNil x e = (if x \<noteq> None then Throw e else Ok ())"

definition assertNotNil :: "'a option \<Rightarrow> 'e \<Rightarrow> ('e, unit) outcome" where
  "assertNotNil x e = (if x = None then Throw e else Ok ())"

definition assertTrue :: "bool \<Rightarrow> 'e \<Rightarrow> ('e, unit) outcome" where
  "assertTrue b e = (if \<not> b then Throw e else Ok ())"

definition assertFalse :: "bool \<Rightarrow> 'e \<Rightarrow> ('e, unit) outcome" where
  "assertFalse b e = assertTrue (\<not> b) e"

definition assertEqual :: "'a \<Rightarrow> 'a \<Rightarrow> 'e \<Rightarrow> ('e, unit) outcome" where
  "assertEqual x y e = (if x \<noteq> y then Throw e else Ok ())"

definition assertNotEqual :: "'a \<Rightarrow> 'a \<Rightarrow> 'e \<Rightarrow> ('e, unit) outcome" where
  "assertNotEqual x y e = (if x = y then Throw e else Ok ())"

lemmas assert_defs = assertArgument_def assertNil_def assertNotNil_def assertTrue_def
  assertFalse_def assertEqual_def assertNotEqual_def

lemma assert_eq_Ok:
  "assertArgument b e = Ok u \<longleftrightarrow> b"
  "assertNil x e = Ok u \<longleftrightarrow> x = None"
  "assertNotNil x e = Ok u \<longleftrightarrow> x \<noteq> None"
  "assertTrue b e = Ok u \<longleftrightarrow> b"
  "assertFalse b e = Ok u \<longleftrightarrow> \<not> b"
  "assertEqual v w e = Ok u \<longleftrightarrow> v = w"
  "assertNotEqual v w e = Ok u \<longleftrightarrow> v \<noteq> w"
  by (simp_all add: assert_defs)

lemma assert_run [simp, outcome_simps]:
  "assertArgument True e = Ok ()"   "assertArgument False e = Throw e"
  "assertTrue True e = Ok ()"       "assertTrue False e = Throw e"
  "assertFalse False e = Ok ()"     "assertFalse True e = Throw e"
  "assertNil None e = Ok ()"        "assertNil (Some a) e = Throw e"
  "assertNotNil (Some a) e = Ok ()" "assertNotNil None e = Throw e"
  by (simp_all add: assert_defs)

subsection \<open>Swift integers\<close>

text \<open>
  \<open>Int\<close> has 64 bits and its \<open>+\<close>, \<open>-\<close> and \<open>*\<close> trap on overflow: the mathematical result is
  computed and \<open>swift_int\<close> lets it through when it is in range.
\<close>

definition int_range :: "int \<Rightarrow> bool" where
  "int_range n \<longleftrightarrow> - (2 ^ 63) \<le> n \<and> n < 2 ^ 63"

definition swift_int :: "int \<Rightarrow> ('e, int) outcome" where
  "swift_int n = (if int_range n then Ok n else Trap)"

lemma swift_int_eq_Ok: "swift_int n = Ok m \<longleftrightarrow> int_range n \<and> m = n"
  by (auto simp: swift_int_def)

lemma swift_int_no_Throw [simp]: "swift_int n \<noteq> Throw e"
  by (simp add: swift_int_def)

subsection \<open>Arrays\<close>

definition safe_get :: "'a list \<Rightarrow> int \<Rightarrow> 'a option" where
  "safe_get xs i = (if 0 \<le> i \<and> i < int (length xs) then Some (xs ! nat i) else None)"

text \<open>\<open>firstIndex(where:)\<close> and \<open>first(where:)\<close>.\<close>

fun firstIndex :: "('a \<Rightarrow> bool) \<Rightarrow> 'a list \<Rightarrow> nat option" where
  "firstIndex P [] = None"
| "firstIndex P (x # xs) = (if P x then Some 0 else map_option Suc (firstIndex P xs))"

lemma firstIndex_None: "firstIndex P xs = None \<longleftrightarrow> (\<forall>x \<in> set xs. \<not> P x)"
  by (induction xs) auto

lemma firstIndex_Some:
  "firstIndex P xs = Some i \<Longrightarrow> i < length xs \<and> P (xs ! i) \<and> (\<forall>j < i. \<not> P (xs ! j))"
proof (induction xs arbitrary: i)
  case Nil
  then show ?case by simp
next
  case (Cons x xs)
  show ?case
  proof (cases "P x")
    case True
    with Cons.prems show ?thesis by auto
  next
    case False
    with Cons.prems obtain k where k: "firstIndex P xs = Some k" and i: "i = Suc k"
      by auto
    have IH: "k < length xs \<and> P (xs ! k) \<and> (\<forall>j < k. \<not> P (xs ! j))"
      by (rule Cons.IH [OF k])
    then show ?thesis
      using False i by (auto simp: less_Suc_eq_0_disj)
  qed
qed

lemma firstIndex_append:
  "firstIndex P (xs @ ys) =
     (case firstIndex P xs of Some i \<Rightarrow> Some i | None \<Rightarrow> map_option (\<lambda>j. length xs + j) (firstIndex P ys))"
  by (cases "firstIndex P ys"; induction xs) (auto split: option.splits)

lemma find_SomeD: "List.find P xs = Some x \<Longrightarrow> x \<in> set xs \<and> P x"
  by (induction xs) (auto split: if_splits)

lemma find_filter: "List.find P xs = (case filter P xs of [] \<Rightarrow> None | x # _ \<Rightarrow> Some x)"
  by (induction xs) auto

subsection \<open>Text\<close>

text \<open>\<open>lowercased()\<close>, on ASCII text.\<close>

definition lower :: "char \<Rightarrow> char" where
  "lower c = (if 65 \<le> (of_char c :: nat) \<and> (of_char c :: nat) \<le> 90 then char_of (of_char c + 32 :: nat) else c)"

definition lowercased :: "string \<Rightarrow> string" where
  "lowercased s = map lower s"

lemma lower_special [simp]:
  "lower CHR ''0'' = CHR ''0''" "lower CHR ''x'' = CHR ''x''" "lower CHR ''X'' = CHR ''x''"
  by code_simp+

lemma of_char_lower: "of_char (lower c) =
  (if 65 \<le> (of_char c :: nat) \<and> (of_char c :: nat) \<le> 90 then of_char c + 32 else of_char c :: nat)"
  by (simp add: lower_def of_char_of take_bit_eq_mod)

lemma char_eq_code: "c = d \<longleftrightarrow> of_char c = (of_char d :: nat)"
  by simp

lemma lower_eq: "lower c = CHR ''0'' \<longleftrightarrow> c = CHR ''0''" "lower c \<noteq> CHR ''X''"
  "lower c = CHR ''x'' \<longleftrightarrow> c = CHR ''x'' \<or> c = CHR ''X''"
  unfolding char_eq_code of_char_lower by auto

lemma lowercased_simps [simp]:
  "lowercased [] = []" "lowercased (c # s) = lower c # lowercased s" "lowercased (s @ t) = lowercased s @ lowercased t"
  "length (lowercased s) = length s"
  by (simp_all add: lowercased_def)

lemma lower_idem [simp]: "lower (lower c) = lower c"
  unfolding char_eq_code of_char_lower by simp

lemma lowercased_idem [simp]: "lowercased (lowercased s) = lowercased s"
  by (simp add: lowercased_def)

end
