(* ===== verification/Access.thy ===== *)
theory Access
  imports Prelude
begin

section \<open>Access control: policy, session, gatekeeper\<close>

text \<open>
  The three entities of \<^verbatim>\<open>IdentityAccess/IdentityAccessDomainModel/Gatekeeper\<close>: the value object
  \<open>AuthenticationPolicy\<close>, the entity \<open>Session\<close> and the aggregate root \<open>Gatekeeper\<close>, with every method
  as a function that returns the updated entity. \<open>Date\<close> and \<open>TimeInterval\<close> are seconds as exact reals.
  A fresh session identifier (\<open>UUID().uuidString\<close>) is an argument of the operation that draws it.

  The section ends with the step relation of a gatekeeper, its invariant and what the invariant gives:
  no reachable gatekeeper can form an inverted time range, a session excludes failed attempts, and
  the lock-out after the maximum number of failures.
\<close>

type_synonym date = real
type_synonym timeInterval = real
type_synonym sessionID = string
type_synonym gatekeeperID = string

datatype policy_error =
    sessionDurationMustBePositive
  | maxFailedAttemptsMustBePositive
  | blockDurationMustBeNonNegative

datatype session_error =
    invalidDuration
  | sessionWasActiveAlready
  | sessionIsNotActive
  | sessionWasFinishedAlready

datatype gatekeeper_error = durationIsNotPositive | accessBlocked

datatype access_error =
    PolicyError policy_error
  | SessionError session_error
  | GatekeeperError gatekeeper_error

subsection \<open>AuthenticationPolicy\<close>

record policy =
  sessionDuration :: timeInterval
  maxFailedAttempts :: int
  blockDuration :: timeInterval

definition policy_init :: "timeInterval \<Rightarrow> int \<Rightarrow> timeInterval \<Rightarrow> (policy_error, policy) outcome" where
  "policy_init sd mx bd =
     obind (assertTrue (sd > 0) sessionDurationMustBePositive) (\<lambda>_.
     obind (assertTrue (mx > 0) maxFailedAttemptsMustBePositive) (\<lambda>_.
     obind (assertTrue (bd \<ge> 0) blockDurationMustBeNonNegative) (\<lambda>_.
     Ok \<lparr>sessionDuration = sd, maxFailedAttempts = mx, blockDuration = bd\<rparr>)))"

definition withSessionDuration :: "policy \<Rightarrow> timeInterval \<Rightarrow> (policy_error, policy) outcome" where
  "withSessionDuration p v = policy_init v (maxFailedAttempts p) (blockDuration p)"

definition withMaxFailedAttempts :: "policy \<Rightarrow> int \<Rightarrow> (policy_error, policy) outcome" where
  "withMaxFailedAttempts p v = policy_init (sessionDuration p) v (blockDuration p)"

definition withBlockDuration :: "policy \<Rightarrow> timeInterval \<Rightarrow> (policy_error, policy) outcome" where
  "withBlockDuration p v = policy_init (sessionDuration p) (maxFailedAttempts p) v"

subsection \<open>Session\<close>

record session =
  session_id :: sessionID
  duration :: timeInterval
  startedAt :: "date option"
  endedAt :: "date option"
  updatedAt :: "date option"

definition session_init :: "sessionID \<Rightarrow> timeInterval \<Rightarrow> (session_error, session) outcome" where
  "session_init i d =
     obind (assertTrue (d > 0) invalidDuration) (\<lambda>_.
     Ok \<lparr>session_id = i, duration = d, startedAt = None, endedAt = None, updatedAt = None\<rparr>)"

definition session_restore ::
  "sessionID \<Rightarrow> timeInterval \<Rightarrow> date option \<Rightarrow> date option \<Rightarrow> date option
   \<Rightarrow> (session_error, session) outcome" where
  "session_restore i d st en up =
     obind (session_init i d) (\<lambda>s. Ok (s\<lparr>startedAt := st, endedAt := en, updatedAt := up\<rparr>))"

text \<open>Forming \<open>(startTime ... endTime)\<close> traps when the upper bound is below the lower one.\<close>

definition isActiveAt :: "session \<Rightarrow> date \<Rightarrow> (session_error, bool) outcome" where
  "isActiveAt s time =
     (if endedAt s \<noteq> None then Ok False
      else case startedAt s of
        None \<Rightarrow> Ok False
      | Some startTime \<Rightarrow>
          let endTime = (case updatedAt s of
                           Some updateTime \<Rightarrow> updateTime + duration s
                         | None \<Rightarrow> startTime + duration s)
          in obind (precondition (startTime \<le> endTime)) (\<lambda>_.
             Ok (startTime \<le> time \<and> time \<le> endTime)))"

definition session_start :: "session \<Rightarrow> date \<Rightarrow> (session_error, session) outcome" where
  "session_start s time =
     obind (assertNil (endedAt s) sessionWasFinishedAlready) (\<lambda>_.
     obind (isActiveAt s time) (\<lambda>active.
     obind (assertFalse active sessionWasActiveAlready) (\<lambda>_.
     Ok (s\<lparr>startedAt := Some time\<rparr>))))"

definition session_finish :: "session \<Rightarrow> date \<Rightarrow> (session_error, session) outcome" where
  "session_finish s time =
     obind (isActiveAt s time) (\<lambda>active.
     obind (assertTrue active sessionIsNotActive) (\<lambda>_.
     Ok (s\<lparr>endedAt := Some time\<rparr>)))"

definition session_renew :: "session \<Rightarrow> date \<Rightarrow> (session_error, session) outcome" where
  "session_renew s time =
     obind (isActiveAt s time) (\<lambda>active.
     obind (assertTrue active sessionIsNotActive) (\<lambda>_.
     Ok (s\<lparr>updatedAt := Some time\<rparr>)))"

subsection \<open>Gatekeeper\<close>

record gatekeeper =
  gatekeeper_id :: gatekeeperID
  policy_of :: policy
  session_of :: "session option"
  failedAttemptCount :: int
  accessDeniedAt :: "date option"

definition gatekeeper_init :: "gatekeeperID \<Rightarrow> policy \<Rightarrow> gatekeeper" where
  "gatekeeper_init i p =
     \<lparr>gatekeeper_id = i, policy_of = p, session_of = None, failedAttemptCount = 0, accessDeniedAt = None\<rparr>"

definition gatekeeper_restore ::
  "gatekeeperID \<Rightarrow> session option \<Rightarrow> policy \<Rightarrow> int \<Rightarrow> date option \<Rightarrow> gatekeeper" where
  "gatekeeper_restore i s p n d =
     (gatekeeper_init i p)\<lparr>session_of := s, failedAttemptCount := n, accessDeniedAt := d\<rparr>"

definition gatekeeper_reset :: "gatekeeper \<Rightarrow> gatekeeper" where
  "gatekeeper_reset g = g\<lparr>session_of := None, failedAttemptCount := 0, accessDeniedAt := None\<rparr>"

text \<open>The \<open>didSet\<close> observer of \<open>policy\<close> resets the gatekeeper after every assignment.\<close>

definition set_policy :: "gatekeeper \<Rightarrow> policy \<Rightarrow> gatekeeper" where
  "set_policy g p = gatekeeper_reset (g\<lparr>policy_of := p\<rparr>)"

definition changeSessionDuration :: "gatekeeper \<Rightarrow> timeInterval \<Rightarrow> (access_error, gatekeeper) outcome" where
  "changeSessionDuration g v =
     omap (set_policy g) (rethrow PolicyError (withSessionDuration (policy_of g) v))"

definition changeMaxFailedAttempts :: "gatekeeper \<Rightarrow> int \<Rightarrow> (access_error, gatekeeper) outcome" where
  "changeMaxFailedAttempts g v =
     omap (set_policy g) (rethrow PolicyError (withMaxFailedAttempts (policy_of g) v))"

definition changeBlockDuration :: "gatekeeper \<Rightarrow> timeInterval \<Rightarrow> (access_error, gatekeeper) outcome" where
  "changeBlockDuration g v =
     omap (set_policy g) (rethrow PolicyError (withBlockDuration (policy_of g) v))"

definition isAccessPossible :: "gatekeeper \<Rightarrow> date \<Rightarrow> bool" where
  "isAccessPossible g time =
     (case accessDeniedAt g of
        None \<Rightarrow> True
      | Some deniedTime \<Rightarrow>
          let blockLiftTime = deniedTime + blockDuration (policy_of g);
              isBlockPeriodExpired = (time \<ge> blockLiftTime);
              hasMoreAttempts = (failedAttemptCount g < maxFailedAttempts (policy_of g))
          in hasMoreAttempts \<or> isBlockPeriodExpired)"

definition assertNotBlocked :: "gatekeeper \<Rightarrow> date \<Rightarrow> (access_error, unit) outcome" where
  "assertNotBlocked g time = assertTrue (isAccessPossible g time) (GatekeeperError accessBlocked)"

definition allowAccess ::
  "gatekeeper \<Rightarrow> sessionID \<Rightarrow> date \<Rightarrow> (access_error, gatekeeper \<times> sessionID) outcome" where
  "allowAccess g uuid time =
     obind (assertNotBlocked g time) (\<lambda>_.
     obind (rethrow SessionError (session_init uuid (sessionDuration (policy_of g)))) (\<lambda>s0.
     obind (rethrow SessionError (session_start s0 time)) (\<lambda>s.
     Ok (g\<lparr>session_of := Some s, failedAttemptCount := 0, accessDeniedAt := None\<rparr>, session_id s))))"

definition denyAccess :: "gatekeeper \<Rightarrow> date \<Rightarrow> (access_error, gatekeeper) outcome" where
  "denyAccess g time =
     obind (swift_int (failedAttemptCount g + 1)) (\<lambda>n.
     Ok (g\<lparr>session_of := None, failedAttemptCount := n, accessDeniedAt := Some time\<rparr>))"

definition hasAccess :: "gatekeeper \<Rightarrow> sessionID \<Rightarrow> date \<Rightarrow> (session_error, bool) outcome" where
  "hasAccess g i time =
     (case session_of g of
        None \<Rightarrow> Ok False
      | Some s \<Rightarrow> if session_id s = i then isActiveAt s time else Ok False)"

text \<open>\<open>session?.renew(time)\<close> does nothing without a session.\<close>

definition useAccess :: "gatekeeper \<Rightarrow> date \<Rightarrow> (access_error, gatekeeper) outcome" where
  "useAccess g time =
     obind (assertNotBlocked g time) (\<lambda>_.
     case session_of g of
       None \<Rightarrow> Ok g
     | Some s \<Rightarrow> omap (\<lambda>s'. g\<lparr>session_of := Some s'\<rparr>) (rethrow SessionError (session_renew s time)))"

subsection \<open>Well-formedness\<close>

definition policy_ok :: "policy \<Rightarrow> bool" where
  "policy_ok p \<longleftrightarrow> sessionDuration p > 0 \<and> maxFailedAttempts p > 0 \<and> blockDuration p \<ge> 0"

definition session_ok :: "session \<Rightarrow> bool" where
  "session_ok s \<longleftrightarrow> duration s > 0 \<and> endedAt s = None \<and>
     (case startedAt s of
        None \<Rightarrow> False
      | Some t \<Rightarrow> (case updatedAt s of None \<Rightarrow> True | Some u \<Rightarrow> t \<le> u))"

definition gatekeeper_ok :: "gatekeeper \<Rightarrow> bool" where
  "gatekeeper_ok g \<longleftrightarrow>
     policy_ok (policy_of g) \<and>
     failedAttemptCount g \<ge> 0 \<and>
     (accessDeniedAt g = None \<longleftrightarrow> failedAttemptCount g = 0) \<and>
     (case session_of g of
        None \<Rightarrow> True
      | Some s \<Rightarrow> session_ok s \<and> duration s = sessionDuration (policy_of g) \<and> failedAttemptCount g = 0)"

lemmas session_defs = session_init_def session_restore_def session_start_def session_finish_def
  session_renew_def isActiveAt_def

lemmas gatekeeper_defs = set_policy_def gatekeeper_reset_def changeSessionDuration_def
  changeMaxFailedAttempts_def changeBlockDuration_def allowAccess_def denyAccess_def useAccess_def
  assertNotBlocked_def withSessionDuration_def withMaxFailedAttempts_def withBlockDuration_def

lemma policy_init_eq_Ok:
  "policy_init sd mx bd = Ok p \<longleftrightarrow>
     p = \<lparr>sessionDuration = sd, maxFailedAttempts = mx, blockDuration = bd\<rparr> \<and> policy_ok p"
  by (auto simp: policy_init_def policy_ok_def outcome_Ok_iff assert_eq_Ok)

lemma policy_init_ok: "policy_init sd mx bd = Ok p \<Longrightarrow> policy_ok p"
  by (auto simp: policy_init_eq_Ok)

text \<open>On a well-formed session the query never traps and is a plain interval test.\<close>

definition session_expiry :: "session \<Rightarrow> date" where
  "session_expiry s = (case updatedAt s of Some u \<Rightarrow> u | None \<Rightarrow> the (startedAt s)) + duration s"

lemma isActiveAt_ok:
  assumes "session_ok s"
  shows "isActiveAt s t = Ok (the (startedAt s) \<le> t \<and> t \<le> session_expiry s)"
  using assms by (auto simp: isActiveAt_def session_ok_def session_expiry_def split: option.splits)

lemma session_renew_ok: "session_ok s \<Longrightarrow> session_renew s t = Ok s' \<Longrightarrow> session_ok s' \<and> duration s' = duration s"
  by (auto simp: session_renew_def isActiveAt_ok outcome_Ok_iff assert_eq_Ok)
     (auto simp: session_ok_def split: option.splits)

lemma session_start_fresh:
  "session_init i d = Ok s \<Longrightarrow> session_start s t =
     Ok \<lparr>session_id = i, duration = d, startedAt = Some t, endedAt = None, updatedAt = None\<rparr>"
  by (auto simp: session_init_def session_start_def isActiveAt_def outcome_Ok_iff assert_eq_Ok)

lemma allowAccess_eq_Ok:
  "allowAccess g uuid t = Ok r \<longleftrightarrow>
     isAccessPossible g t \<and> sessionDuration (policy_of g) > 0 \<and>
     r = (g\<lparr>session_of := Some \<lparr>session_id = uuid, duration = sessionDuration (policy_of g),
              startedAt = Some t, endedAt = None, updatedAt = None\<rparr>,
            failedAttemptCount := 0, accessDeniedAt := None\<rparr>, uuid)"
  by (auto simp: allowAccess_def assertNotBlocked_def session_init_def session_start_def
      isActiveAt_def outcome_Ok_iff assert_eq_Ok)

lemma denyAccess_eq_Ok:
  "denyAccess g t = Ok g' \<longleftrightarrow> int_range (failedAttemptCount g + 1) \<and>
     g' = g\<lparr>session_of := None, failedAttemptCount := failedAttemptCount g + 1, accessDeniedAt := Some t\<rparr>"
  by (auto simp: denyAccess_def outcome_Ok_iff swift_int_eq_Ok)

subsection \<open>Steps of a gatekeeper and its reachable states\<close>

inductive gatekeeper_step :: "gatekeeper \<Rightarrow> gatekeeper \<Rightarrow> bool" where
  allow: "allowAccess g uuid t = Ok (g', i) \<Longrightarrow> gatekeeper_step g g'"
| deny: "denyAccess g t = Ok g' \<Longrightarrow> gatekeeper_step g g'"
| useA: "useAccess g t = Ok g' \<Longrightarrow> gatekeeper_step g g'"
| resetA: "gatekeeper_step g (gatekeeper_reset g)"
| sessionDur: "changeSessionDuration g v = Ok g' \<Longrightarrow> gatekeeper_step g g'"
| maxAttempts: "changeMaxFailedAttempts g n = Ok g' \<Longrightarrow> gatekeeper_step g g'"
| blockDur: "changeBlockDuration g v = Ok g' \<Longrightarrow> gatekeeper_step g g'"

inductive gatekeeper_reachable :: "gatekeeper \<Rightarrow> bool" where
  start: "policy_init sd mx bd = Ok p \<Longrightarrow> gatekeeper_reachable (gatekeeper_init i p)"
| step: "gatekeeper_reachable g \<Longrightarrow> gatekeeper_step g g' \<Longrightarrow> gatekeeper_reachable g'"

lemma gatekeeper_init_ok: "policy_ok p \<Longrightarrow> gatekeeper_ok (gatekeeper_init i p)"
  by (simp add: gatekeeper_ok_def gatekeeper_init_def)

lemma set_policy_ok: "policy_ok p \<Longrightarrow> gatekeeper_ok (set_policy g p)"
  by (simp add: gatekeeper_ok_def set_policy_def gatekeeper_reset_def)

lemma useAccess_ok:
  assumes "gatekeeper_ok g" "useAccess g t = Ok g'"
  shows "gatekeeper_ok g'"
proof (cases "session_of g")
  case None
  with assms show ?thesis by (auto simp: useAccess_def outcome_Ok_iff)
next
  case (Some s)
  with assms(2) obtain s' where s': "session_renew s t = Ok s'" "g' = g\<lparr>session_of := Some s'\<rparr>"
    by (auto simp: useAccess_def outcome_Ok_iff)
  moreover have "session_ok s" "duration s = sessionDuration (policy_of g)" "failedAttemptCount g = 0"
    using assms(1) Some by (auto simp: gatekeeper_ok_def)
  ultimately show ?thesis
    using assms(1) session_renew_ok [of s t s'] by (auto simp: gatekeeper_ok_def)
qed

lemma gatekeeper_step_ok: "gatekeeper_step g g' \<Longrightarrow> gatekeeper_ok g \<Longrightarrow> gatekeeper_ok g'"
proof (induction rule: gatekeeper_step.induct)
  case (allow g uuid t g' i)
  then show ?case by (auto simp: allowAccess_eq_Ok gatekeeper_ok_def session_ok_def)
next
  case (deny g t g')
  then show ?case by (auto simp: denyAccess_eq_Ok gatekeeper_ok_def)
next
  case (useA g t g')
  then show ?case by (auto intro: useAccess_ok)
next
  case (resetA g)
  then show ?case by (simp add: gatekeeper_reset_def gatekeeper_ok_def)
qed (auto simp: gatekeeper_defs outcome_Ok_iff policy_init_eq_Ok gatekeeper_ok_def)

lemma gatekeeper_reachable_ok: "gatekeeper_reachable g \<Longrightarrow> gatekeeper_ok g"
  by (induction rule: gatekeeper_reachable.induct)
     (auto intro: gatekeeper_init_ok policy_init_ok gatekeeper_step_ok)

subsection \<open>Consecutive failures\<close>

fun deny_all :: "gatekeeper \<Rightarrow> date list \<Rightarrow> (access_error, gatekeeper) outcome" where
  "deny_all g [] = Ok g"
| "deny_all g (t # ts) = obind (denyAccess g t) (\<lambda>g'. deny_all g' ts)"

lemma deny_all_run:
  assumes "0 \<le> failedAttemptCount g" "failedAttemptCount g + int (length ts) < 2 ^ 63" "ts \<noteq> []"
  shows "deny_all g ts = Ok (g\<lparr>session_of := None,
           failedAttemptCount := failedAttemptCount g + int (length ts), accessDeniedAt := Some (last ts)\<rparr>)"
  using assms
proof (induction ts arbitrary: g)
  case Nil
  then show ?case by simp
next
  case (Cons t ts)
  let ?g = "g\<lparr>session_of := None, failedAttemptCount := failedAttemptCount g + 1, accessDeniedAt := Some t\<rparr>"
  have step: "denyAccess g t = Ok ?g"
    using Cons.prems by (auto simp: denyAccess_eq_Ok int_range_def)
  show ?case
  proof (cases "ts = []")
    case True
    with step show ?thesis by simp
  next
    case False
    have "deny_all ?g ts = Ok (?g\<lparr>session_of := None,
        failedAttemptCount := failedAttemptCount ?g + int (length ts), accessDeniedAt := Some (last ts)\<rparr>)"
      by (rule Cons.IH) (use Cons.prems False in auto)
    with step False show ?thesis by (simp add: algebra_simps)
  qed
qed

subsection \<open>Properties\<close>

text \<open>
  C2. In every gatekeeper the program can reach, a session excludes lock-out: no failed attempt is
  counted, access is possible at any time, and asking whether the session gives access never traps
  and answers exactly whether the time is between its start and its expiry.
\<close>

theorem reachable_session_not_blocked:
  assumes "gatekeeper_reachable g" and "session_of g = Some s"
  shows "failedAttemptCount g = 0 \<and> isAccessPossible g t \<and>
         duration s = sessionDuration (policy_of g) \<and>
         hasAccess g (session_id s) t' = Ok (the (startedAt s) \<le> t' \<and> t' \<le> session_expiry s)"
proof -
  have "gatekeeper_ok g" by (rule gatekeeper_reachable_ok [OF assms(1)])
  then have ok: "session_ok s" "failedAttemptCount g = 0" "accessDeniedAt g = None"
      "duration s = sessionDuration (policy_of g)"
    using assms(2) by (auto simp: gatekeeper_ok_def)
  show ?thesis
    using ok assms(2) by (simp add: isAccessPossible_def hasAccess_def isActiveAt_ok)
qed

definition sample_policy :: policy where
  "sample_policy = \<lparr>sessionDuration = 60, maxFailedAttempts = 3, blockDuration = 15\<rparr>"

definition sample_session :: session where
  "sample_session = \<lparr>session_id = ''s1'', duration = 60, startedAt = Some 100, endedAt = None, updatedAt = None\<rparr>"

definition sample_gatekeeper :: gatekeeper where
  "sample_gatekeeper = (gatekeeper_init ''gk'' sample_policy)\<lparr>session_of := Some sample_session\<rparr>"

lemma sample_gatekeeper_reachable: "gatekeeper_reachable sample_gatekeeper"
proof (rule gatekeeper_reachable.step)
  show "gatekeeper_reachable (gatekeeper_init ''gk'' sample_policy)"
    by (rule gatekeeper_reachable.start [of 60 3 15]) (simp add: policy_init_eq_Ok sample_policy_def policy_ok_def)
  show "gatekeeper_step (gatekeeper_init ''gk'' sample_policy) sample_gatekeeper"
    by (rule gatekeeper_step.allow [of _ "''s1''" 100])
       (simp add: allowAccess_eq_Ok gatekeeper_init_def isAccessPossible_def sample_policy_def
          sample_session_def sample_gatekeeper_def)
qed

theorem reachable_session_not_blocked_witness:
  "failedAttemptCount sample_gatekeeper = 0 \<and> isAccessPossible sample_gatekeeper 0 \<and>
   hasAccess sample_gatekeeper ''s1'' 160 = Ok True \<and> hasAccess sample_gatekeeper ''s1'' 161 = Ok False"
proof -
  have s: "session_of sample_gatekeeper = Some sample_session"
    by (simp add: sample_gatekeeper_def)
  note r = reachable_session_not_blocked [OF sample_gatekeeper_reachable s]
  show ?thesis
    using r [of 0 160] r [of 0 161] by (simp add: sample_session_def session_expiry_def)
qed

text \<open>
  C18. Lock-out: after any non-empty sequence of failed attempts on a new gatekeeper, access is possible
  at a time exactly when fewer than the maximum number of attempts have failed or the block duration
  has passed since the last failure. In particular the failure count survives the end of the block,
  so one further failure blocks again.
\<close>

theorem lockout_after_failures:
  assumes "policy_ok p" and "ts \<noteq> []" and "int (length ts) < 2 ^ 63"
  shows "\<exists>g. deny_all (gatekeeper_init i p) ts = Ok g \<and> session_of g = None \<and>
          (\<forall>t. isAccessPossible g t \<longleftrightarrow>
             int (length ts) < maxFailedAttempts p \<or> last ts + blockDuration p \<le> t)"
proof -
  have "deny_all (gatekeeper_init i p) ts = Ok ((gatekeeper_init i p)\<lparr>session_of := None,
      failedAttemptCount := failedAttemptCount (gatekeeper_init i p) + int (length ts),
      accessDeniedAt := Some (last ts)\<rparr>)"
    by (rule deny_all_run) (use assms in \<open>simp_all add: gatekeeper_init_def\<close>)
  then show ?thesis
    by (simp add: gatekeeper_init_def isAccessPossible_def)
qed

theorem lockout_after_failures_witness:
  "\<exists>g. deny_all (gatekeeper_init ''gk'' sample_policy) [1, 2, 3] = Ok g \<and>
       \<not> isAccessPossible g 17 \<and> isAccessPossible g 18"
proof -
  have p: "policy_ok sample_policy" by (simp add: policy_ok_def sample_policy_def)
  obtain g where g: "deny_all (gatekeeper_init ''gk'' sample_policy) [1, 2, 3] = Ok g"
    and poss: "\<forall>t. isAccessPossible g t \<longleftrightarrow>
       int (length [1, 2, 3::real]) < maxFailedAttempts sample_policy \<or>
       last [1, 2, 3] + blockDuration sample_policy \<le> t"
    using lockout_after_failures [OF p, of "[1, 2, 3]" "''gk''"] by auto
  from poss have "\<not> isAccessPossible g 17 \<and> isAccessPossible g 18"
    by (simp add: sample_policy_def)
  with g show ?thesis by blast
qed

text \<open>
  Session window: access allowed at \<open>t\<close> lasts exactly from \<open>t\<close> to \<open>t\<close> plus the session duration;
  using the access inside the window moves the end to the time of use plus the duration, and using it
  outside the window throws \<open>sessionIsNotActive\<close>.
\<close>

theorem session_window:
  assumes "allowAccess g uuid t = Ok (g1, i)"
  shows "hasAccess g1 i t' = Ok (t \<le> t' \<and> t' \<le> t + sessionDuration (policy_of g)) \<and>
    (if t \<le> u \<and> u \<le> t + sessionDuration (policy_of g)
     then \<exists>g2. useAccess g1 u = Ok g2 \<and>
           hasAccess g2 i t' = Ok (t \<le> t' \<and> t' \<le> u + sessionDuration (policy_of g))
     else useAccess g1 u = Throw (SessionError sessionIsNotActive))"
proof -
  let ?d = "sessionDuration (policy_of g)"
  from assms have d: "?d > 0" and i: "i = uuid" and g1: "g1 = g\<lparr>session_of := Some \<lparr>session_id = uuid,
      duration = ?d, startedAt = Some t, endedAt = None, updatedAt = None\<rparr>,
      failedAttemptCount := 0, accessDeniedAt := None\<rparr>"
    by (auto simp: allowAccess_eq_Ok)
  have "hasAccess g1 i t' = Ok (t \<le> t' \<and> t' \<le> t + ?d)"
    using d by (simp add: g1 i hasAccess_def isActiveAt_def precondition_def)
  moreover have "\<exists>g2. useAccess g1 u = Ok g2 \<and> hasAccess g2 i t' = Ok (t \<le> t' \<and> t' \<le> u + ?d)"
    if "t \<le> u \<and> u \<le> t + ?d"
    using d that by (simp add: g1 i useAccess_def assertNotBlocked_def isAccessPossible_def
        session_renew_def hasAccess_def isActiveAt_def precondition_def)
  moreover have "useAccess g1 u = Throw (SessionError sessionIsNotActive)" if "\<not> (t \<le> u \<and> u \<le> t + ?d)"
    using d that by (auto simp: g1 i useAccess_def assertNotBlocked_def isAccessPossible_def
        session_renew_def isActiveAt_def precondition_def assert_defs)
  ultimately show ?thesis by simp
qed

theorem session_window_witness:
  "hasAccess sample_gatekeeper ''s1'' 160 = Ok True \<and>
   (\<exists>g2. useAccess sample_gatekeeper 150 = Ok g2 \<and> hasAccess g2 ''s1'' 210 = Ok True) \<and>
   useAccess sample_gatekeeper 161 = Throw (SessionError sessionIsNotActive)"
proof -
  have a: "allowAccess (gatekeeper_init ''gk'' sample_policy) ''s1'' 100 = Ok (sample_gatekeeper, ''s1'')"
    by (simp add: allowAccess_eq_Ok gatekeeper_init_def isAccessPossible_def sample_policy_def
        sample_session_def sample_gatekeeper_def)
  show ?thesis
    using session_window [OF a, of 160 150] session_window [OF a, of 210 150] session_window [OF a, of 0 161]
    by (simp add: gatekeeper_init_def sample_policy_def)
qed

text \<open>
  Restarting an expired session that had been renewed leaves the stale renewal time in place:
  \<open>start\<close> returns normally, and from then on every query whether the session is active traps on an
  inverted range. Gatekeepers are safe from it (C1) because they always start a new session.
\<close>

theorem restart_of_renewed_session_traps:
  assumes "duration s > 0" "endedAt s = None" "startedAt s = Some t0" "updatedAt s = Some u"
    and "t0 \<le> u" "u + duration s < t1"
  shows "\<exists>s'. session_start s t1 = Ok s' \<and> (\<forall>t. isActiveAt s' t = Trap)"
proof -
  have "isActiveAt s t1 = Ok False"
    using assms by (simp add: isActiveAt_def)
  then have "session_start s t1 = Ok (s\<lparr>startedAt := Some t1\<rparr>)"
    using assms(2) by (simp add: session_start_def)
  moreover have "isActiveAt (s\<lparr>startedAt := Some t1\<rparr>) t = Trap" for t
    using assms by (simp add: isActiveAt_def precondition_def)
  ultimately show ?thesis by blast
qed

theorem restart_of_renewed_session_traps_witness:
  "\<exists>s'. session_start (sample_session\<lparr>updatedAt := Some 110\<rparr>) 200 = Ok s' \<and> (\<forall>t. isActiveAt s' t = Trap)"
  by (rule restart_of_renewed_session_traps [of _ 100 110]) (simp_all add: sample_session_def)

end
