(* ===== verification/Identity.thy ===== *)
theory Identity
  imports Access
begin

section \<open>Identity: user, repositories, registration and authentication\<close>

text \<open>
  \<^verbatim>\<open>IdentityAccessDomainModel/User\<close>, \<^verbatim>\<open>IdentityAccessDomainModel/IdentityService\<close>, the in-memory
  repositories of \<^verbatim>\<open>IdentityAccessImplementations/persistence\<close> and
  \<^verbatim>\<open>IdentityAccessApplication/AuthenticationApplicationService.swift\<close>.

  The services find their collaborators in \<open>DomainRegistry\<close>: here an environment record holds the
  operations of the two repositories (the protocols \<open>SingleUserRepository\<close> and
  \<open>SingleGatekeeperRepository\<close>), the encryption service and the biometric service, whose answers are
  parameters. The repositories' states are threaded through every call, also when the call throws.
  The locale \<open>single_repositories\<close> states what the services rely on; it is interpreted on the in-memory
  repositories. A draw of a new identifier is an argument of the operation that makes it.

  A string is a list of Latin-1 characters, each one \<open>Character\<close> of Swift (so no CR-LF pair).
\<close>

unbundle bit_operations_syntax

type_synonym userID = string

subsection \<open>User\<close>

record user =
  user_id :: userID
  password :: string
  sessionID :: "sessionID option"

definition changePassword :: "user \<Rightarrow> string \<Rightarrow> string \<Rightarrow> user" where
  "changePassword u old new = u\<lparr>password := new\<rparr>"

definition user_init :: "userID \<Rightarrow> string \<Rightarrow> user" where
  "user_init i pw = changePassword \<lparr>user_id = i, password = '''', sessionID = None\<rparr> '''' pw"

definition attachSession :: "user \<Rightarrow> sessionID \<Rightarrow> user" where
  "attachSession u i = u\<lparr>sessionID := Some i\<rparr>"

definition user_eq :: "user \<Rightarrow> user \<Rightarrow> bool" where
  "user_eq a b \<longleftrightarrow> user_id a = user_id b"

subsection \<open>Errors\<close>

datatype registration_error =
    userAlreadyRegistered
  | emptyPassword
  | passwordTooShort
  | passwordTooLong
  | passwordMissingLetter
  | passwordMissingDigit
  | passwordHasTrippleChar

datatype user_repository_error = primaryUserAlreadyExists | userNotFound

datatype identity_error =
    RegistrationError registration_error
  | primaryUserNotFound
  | gatekeeperNotFound
  | AccessError access_error
  | UserRepositoryError user_repository_error
  | BiometricError string

subsection \<open>Password validation\<close>

text \<open>\<open>CharacterSet.letters\<close> and \<open>CharacterSet.decimalDigits\<close> on Latin-1.\<close>

definition is_letter :: "char \<Rightarrow> bool" where
  "is_letter c \<longleftrightarrow> (let n = (of_char c :: nat) in
     65 \<le> n \<and> n \<le> 90 \<or> 97 \<le> n \<and> n \<le> 122 \<or> n = 170 \<or> n = 181 \<or> n = 186 \<or>
     192 \<le> n \<and> n \<le> 214 \<or> 216 \<le> n \<and> n \<le> 246 \<or> 248 \<le> n)"

definition is_decimalDigit :: "char \<Rightarrow> bool" where
  "is_decimalDigit c \<longleftrightarrow> (let n = (of_char c :: nat) in 48 \<le> n \<and> n \<le> 57)"

definition hasLetter :: "string \<Rightarrow> bool" where
  "hasLetter s \<longleftrightarrow> list_ex is_letter s"

definition hasDecimalDigit :: "string \<Rightarrow> bool" where
  "hasDecimalDigit s \<longleftrightarrow> list_ex is_decimalDigit s"

text \<open>The loop over \<open>dropFirst()\<close> with its two variables.\<close>

fun tripple_loop :: "'c \<Rightarrow> nat \<Rightarrow> 'c list \<Rightarrow> bool" where
  "tripple_loop previous sequenceLength [] = True"
| "tripple_loop previous sequenceLength (c # cs) =
     (if c = previous
      then (if sequenceLength + 1 = 3 then False else tripple_loop previous (sequenceLength + 1) cs)
      else tripple_loop c 1 cs)"

definition hasNoTrippleChar :: "'c list \<Rightarrow> bool" where
  "hasNoTrippleChar s = (if \<not> length s > 2 then True else tripple_loop (hd s) 1 (tl s))"

definition validatePlaintextPassword :: "string \<Rightarrow> (identity_error, unit) outcome" where
  "validatePlaintextPassword pw =
     obind (assertArgument (pw \<noteq> []) (RegistrationError emptyPassword)) (\<lambda>_.
     obind (assertArgument (length pw \<ge> 6) (RegistrationError passwordTooShort)) (\<lambda>_.
     obind (assertArgument (hasLetter pw) (RegistrationError passwordMissingLetter)) (\<lambda>_.
     obind (assertArgument (hasDecimalDigit pw) (RegistrationError passwordMissingDigit)) (\<lambda>_.
     assertArgument (hasNoTrippleChar pw) (RegistrationError passwordHasTrippleChar)))))"

subsection \<open>PasswordValidator of the onboarding screens\<close>

definition minInputLength :: nat where
  "minInputLength = 8"

definition validateMinLength :: "string \<Rightarrow> bool" where
  "validateMinLength input \<longleftrightarrow> length input \<ge> minInputLength"

definition validateAtLeastOneLetterAndOneDigit :: "string \<Rightarrow> bool" where
  "validateAtLeastOneLetterAndOneDigit input \<longleftrightarrow> hasLetter input \<and> hasDecimalDigit input"

definition validateNoTrippleChar :: "string \<Rightarrow> bool" where
  "validateNoTrippleChar input \<longleftrightarrow> input \<noteq> [] \<and> hasNoTrippleChar input"

definition validate_equals :: "string \<Rightarrow> string \<Rightarrow> bool" where
  "validate_equals input other \<longleftrightarrow> input = other"

subsection \<open>The collaborators of the services\<close>

datatype biometryType = none | touchID | faceID

record biometric_service =
  isAuthenticationAvailable :: bool
  biometry_type :: biometryType
  activate :: "(identity_error, unit) outcome"
  authenticate :: bool

record 'u user_repository =
  saveUser :: "'u \<Rightarrow> user \<Rightarrow> (identity_error, 'u) outcome"
  removeUser :: "'u \<Rightarrow> user \<Rightarrow> (identity_error, 'u) outcome"
  primaryUser :: "'u \<Rightarrow> user option"
  userWithPassword :: "'u \<Rightarrow> string \<Rightarrow> user option"

record 'g gatekeeper_repository =
  saveGatekeeper :: "'g \<Rightarrow> gatekeeper \<Rightarrow> (identity_error, 'g) outcome"
  removeGatekeeper :: "'g \<Rightarrow> gatekeeper \<Rightarrow> (identity_error, 'g) outcome"
  theGatekeeper :: "'g \<Rightarrow> gatekeeper option"

record ('u, 'g) domain_registry =
  userRepository :: "'u user_repository"
  gatekeeperRepository :: "'g gatekeeper_repository"
  encrypted :: "string \<Rightarrow> string"
  biometricService :: biometric_service

record ('u, 'g) store =
  users :: 'u
  keepers :: 'g

definition save_user :: "('u, 'g) domain_registry \<Rightarrow> user \<Rightarrow> (('u, 'g) store, identity_error, unit) action" where
  "save_user R u = act_update (\<lambda>s. saveUser (userRepository R) (users s) u) (\<lambda>r s. s\<lparr>users := r\<rparr>)"

definition remove_user :: "('u, 'g) domain_registry \<Rightarrow> user \<Rightarrow> (('u, 'g) store, identity_error, unit) action" where
  "remove_user R u = act_update (\<lambda>s. removeUser (userRepository R) (users s) u) (\<lambda>r s. s\<lparr>users := r\<rparr>)"

definition save_gatekeeper ::
  "('u, 'g) domain_registry \<Rightarrow> gatekeeper \<Rightarrow> (('u, 'g) store, identity_error, unit) action" where
  "save_gatekeeper R g =
     act_update (\<lambda>s. saveGatekeeper (gatekeeperRepository R) (keepers s) g) (\<lambda>r s. s\<lparr>keepers := r\<rparr>)"

definition get_user :: "('u, 'g) domain_registry \<Rightarrow> ('u, 'g) store \<Rightarrow> user option" where
  "get_user R s = primaryUser (userRepository R) (users s)"

definition get_gatekeeper :: "('u, 'g) domain_registry \<Rightarrow> ('u, 'g) store \<Rightarrow> gatekeeper option" where
  "get_gatekeeper R s = theGatekeeper (gatekeeperRepository R) (keepers s)"

subsection \<open>IdentityService\<close>

definition isUserAuthenticated ::
  "('u, 'g) domain_registry \<Rightarrow> ('u, 'g) store \<Rightarrow> date \<Rightarrow> (session_error, bool) outcome" where
  "isUserAuthenticated R s time =
     (case get_gatekeeper R s of
        None \<Rightarrow> Ok False
      | Some g \<Rightarrow> (case Option.bind (get_user R s) sessionID of
                      None \<Rightarrow> Ok False
                    | Some i \<Rightarrow> hasAccess g i time))"

definition createGatekeeper ::
  "('u, 'g) domain_registry \<Rightarrow> gatekeeperID \<Rightarrow> timeInterval \<Rightarrow> int \<Rightarrow> timeInterval
   \<Rightarrow> (('u, 'g) store, identity_error, gatekeeper) action" where
  "createGatekeeper R nextId sd mx bd =
     act_bind (act_lift (rethrow (AccessError \<circ> PolicyError) (policy_init sd mx bd))) (\<lambda>p.
     let g = gatekeeper_init nextId p in
     act_bind (save_gatekeeper R g) (\<lambda>_. act_return g))"

definition registerUser ::
  "('u, 'g) domain_registry \<Rightarrow> userID \<Rightarrow> string \<Rightarrow> (('u, 'g) store, identity_error, userID) action" where
  "registerUser R nextId pw =
     act_bind (act_get (\<lambda>s. get_user R s \<noteq> None)) (\<lambda>isRegistered.
     act_bind (act_lift (assertArgument (\<not> isRegistered) (RegistrationError userAlreadyRegistered))) (\<lambda>_.
     act_bind (act_lift (validatePlaintextPassword pw)) (\<lambda>_.
     let u = user_init nextId (encrypted R pw) in
     act_bind (save_user R u) (\<lambda>_.
     act_bind (act_lift (activate (biometricService R))) (\<lambda>_.
     act_return (user_id u))))))"

definition updatePrimaryUserPassword ::
  "('u, 'g) domain_registry \<Rightarrow> string \<Rightarrow> (('u, 'g) store, identity_error, unit) action" where
  "updatePrimaryUserPassword R pw =
     act_bind (act_get (get_user R)) (\<lambda>found.
     act_bind (act_lift (assertNotNil found primaryUserNotFound)) (\<lambda>_.
     act_bind (act_lift (validatePlaintextPassword pw)) (\<lambda>_.
     act_bind (act_get (get_user R)) (\<lambda>primary.
     act_bind (act_lift (unwrap primary)) (\<lambda>u.
     save_user R (user_init (user_id u) (encrypted R pw)))))))"

text \<open>
  The private \<open>authenticate(at:_:)\<close> with its closure \<open>lookup\<close> and the drawn session identifier. The
  guard \<open>isAccessPossible\<close> makes \<open>allowAccess\<close> pass its own block check.
\<close>

definition authenticate_with ::
  "('u, 'g) domain_registry \<Rightarrow> sessionID \<Rightarrow> date \<Rightarrow> (('u, 'g) store \<Rightarrow> user option)
   \<Rightarrow> (('u, 'g) store, identity_error, userID option) action" where
  "authenticate_with R uuid time lookup =
     act_bind (act_get (get_gatekeeper R)) (\<lambda>found.
     case found of
       None \<Rightarrow> act_lift (Throw gatekeeperNotFound)
     | Some g \<Rightarrow>
         if \<not> isAccessPossible g time then act_return None
         else act_bind (act_get lookup) (\<lambda>who.
           case who of
             None \<Rightarrow>
               act_bind (act_lift (rethrow AccessError (denyAccess g time))) (\<lambda>g'.
               act_bind (save_gatekeeper R g') (\<lambda>_.
               act_return None))
           | Some u \<Rightarrow>
               act_bind (act_lift (rethrow AccessError (allowAccess g uuid time))) (\<lambda>(g', i).
               act_bind (save_gatekeeper R g') (\<lambda>_.
               act_bind (save_user R (attachSession u i)) (\<lambda>_.
               act_return (Some (user_id u)))))))"

definition authenticateUser_password ::
  "('u, 'g) domain_registry \<Rightarrow> sessionID \<Rightarrow> string \<Rightarrow> date
   \<Rightarrow> (('u, 'g) store, identity_error, userID option) action" where
  "authenticateUser_password R uuid pw time =
     authenticate_with R uuid time
       (\<lambda>s. userWithPassword (userRepository R) (users s) (encrypted R pw))"

definition authenticateUserBiometrically ::
  "('u, 'g) domain_registry \<Rightarrow> sessionID \<Rightarrow> date \<Rightarrow> (('u, 'g) store, identity_error, userID option) action" where
  "authenticateUserBiometrically R uuid time =
     authenticate_with R uuid time
       (\<lambda>s. if \<not> authenticate (biometricService R) then None else get_user R s)"

subsection \<open>AuthenticationApplicationService\<close>

text \<open>\<open>AuthenticationMethod\<close> is an \<open>OptionSet\<close> over a 64-bit raw value.\<close>

type_synonym authenticationMethod = "64 word"

definition method_password :: authenticationMethod where
  "method_password = push_bit 0 1"

definition method_touchID :: authenticationMethod where
  "method_touchID = push_bit 1 1"

definition method_faceID :: authenticationMethod where
  "method_faceID = push_bit 2 1"

definition method_biometry :: authenticationMethod where
  "method_biometry = method_touchID OR method_faceID"

definition method_contains :: "authenticationMethod \<Rightarrow> authenticationMethod \<Rightarrow> bool" where
  "method_contains a b \<longleftrightarrow> a AND b = b"

definition intersects :: "authenticationMethod \<Rightarrow> authenticationMethod \<Rightarrow> bool" where
  "intersects a b \<longleftrightarrow> \<not> a AND b = 0"

record authenticationRequest =
  request_method :: authenticationMethod
  request_password :: "string option"

definition request_init :: "authenticationMethod \<Rightarrow> string option \<Rightarrow> ('e, authenticationRequest) outcome" where
  "request_init m pw =
     obind (precondition (m = method_biometry \<and> pw = None \<or> m = method_password \<and> pw \<noteq> None)) (\<lambda>_.
     Ok \<lparr>request_method = m, request_password = pw\<rparr>)"

definition request_biometry :: "('e, authenticationRequest) outcome" where
  "request_biometry = request_init method_biometry None"

definition request_with_password :: "string \<Rightarrow> ('e, authenticationRequest) outcome" where
  "request_with_password pw = request_init method_password (Some pw)"

datatype authenticationResult = success userID | failure | blocked

definition isSuccess :: "authenticationResult \<Rightarrow> bool" where
  "isSuccess r \<longleftrightarrow> (case r of success _ \<Rightarrow> True | _ \<Rightarrow> False)"

definition service_isAccessPossible :: "('u, 'g) domain_registry \<Rightarrow> ('u, 'g) store \<Rightarrow> date \<Rightarrow> bool" where
  "service_isAccessPossible R s now =
     (case get_gatekeeper R s of None \<Rightarrow> False | Some g \<Rightarrow> isAccessPossible g now)"

definition blockedPeriodDuration :: "('u, 'g) domain_registry \<Rightarrow> ('u, 'g) store \<Rightarrow> timeInterval" where
  "blockedPeriodDuration R s =
     (case get_gatekeeper R s of None \<Rightarrow> 15 | Some g \<Rightarrow> blockDuration (policy_of g))"

definition maxPasswordAttempts :: "('u, 'g) domain_registry \<Rightarrow> ('u, 'g) store \<Rightarrow> int" where
  "maxPasswordAttempts R s =
     (case get_gatekeeper R s of None \<Rightarrow> 5 | Some g \<Rightarrow> maxFailedAttempts (policy_of g))"

definition service_sessionDuration :: "('u, 'g) domain_registry \<Rightarrow> ('u, 'g) store \<Rightarrow> timeInterval" where
  "service_sessionDuration R s =
     (case get_gatekeeper R s of None \<Rightarrow> 60 | Some g \<Rightarrow> sessionDuration (policy_of g))"

definition isUserRegistered :: "('u, 'g) domain_registry \<Rightarrow> ('u, 'g) store \<Rightarrow> bool" where
  "isUserRegistered R s \<longleftrightarrow> get_user R s \<noteq> None"

definition isAuthenticationBlocked :: "('u, 'g) domain_registry \<Rightarrow> ('u, 'g) store \<Rightarrow> date \<Rightarrow> bool" where
  "isAuthenticationBlocked R s now =
     (case get_gatekeeper R s of None \<Rightarrow> False | Some g \<Rightarrow> \<not> isAccessPossible g now)"

definition isAuthenticationMethodSupported :: "('u, 'g) domain_registry \<Rightarrow> authenticationMethod \<Rightarrow> bool" where
  "isAuthenticationMethodSupported R m =
     (let set0 = method_password;
          set1 = (if biometry_type (biometricService R) = touchID then set0 OR method_touchID else set0);
          set2 = (if biometry_type (biometricService R) = faceID then set1 OR method_faceID else set1)
      in intersects set2 m)"

definition isAuthenticationMethodPossible ::
  "('u, 'g) domain_registry \<Rightarrow> ('u, 'g) store \<Rightarrow> date \<Rightarrow> authenticationMethod \<Rightarrow> bool" where
  "isAuthenticationMethodPossible R s now m =
     (if \<not> service_isAccessPossible R s now then False
      else let avail = isAuthenticationAvailable (biometricService R);
               set0 = method_password;
               set1 = (if isAuthenticationMethodSupported R method_faceID \<and> avail
                       then set0 OR method_faceID else set0);
               set2 = (if isAuthenticationMethodSupported R method_touchID \<and> avail
                       then set1 OR method_touchID else set1)
           in intersects set2 m)"

text \<open>The clock is read once for the attempt (\<open>time\<close>) and once more for the answer (\<open>later\<close>).\<close>

definition authenticateUser ::
  "('u, 'g) domain_registry \<Rightarrow> sessionID \<Rightarrow> date \<Rightarrow> date \<Rightarrow> authenticationRequest
   \<Rightarrow> (('u, 'g) store, identity_error, authenticationResult) action" where
  "authenticateUser R uuid time later req =
     act_bind
       (if request_method req = method_password
        then act_bind (act_lift (unwrap (request_password req))) (\<lambda>pw. authenticateUser_password R uuid pw time)
        else if method_contains method_biometry (request_method req)
        then authenticateUserBiometrically R uuid time
        else act_lift Trap)
     (\<lambda>who. case who of
        Some i \<Rightarrow> act_return (success i)
      | None \<Rightarrow> act_bind (act_get (\<lambda>s. service_isAccessPossible R s later)) (\<lambda>possible.
                 act_return (if possible then failure else blocked)))"

definition configure_gatekeeper ::
  "('u, 'g) domain_registry \<Rightarrow> (gatekeeper \<Rightarrow> (access_error, gatekeeper) outcome)
   \<Rightarrow> (('u, 'g) store, identity_error, unit) action" where
  "configure_gatekeeper R change =
     act_bind (act_get (get_gatekeeper R)) (\<lambda>found.
     case found of
       None \<Rightarrow> act_return ()
     | Some g \<Rightarrow> act_bind (act_lift (rethrow AccessError (change g))) (save_gatekeeper R))"

definition configureSession where
  "configureSession R d = configure_gatekeeper R (\<lambda>g. changeSessionDuration g d)"

definition configureMaxPasswordAttempts where
  "configureMaxPasswordAttempts R n = configure_gatekeeper R (\<lambda>g. changeMaxFailedAttempts g n)"

definition configureBlockDuration where
  "configureBlockDuration R d = configure_gatekeeper R (\<lambda>g. changeBlockDuration g d)"

definition createAuthenticationPolicy ::
  "('u, 'g) domain_registry \<Rightarrow> gatekeeperID \<Rightarrow> timeInterval \<Rightarrow> int \<Rightarrow> timeInterval
   \<Rightarrow> (('u, 'g) store, identity_error, unit) action" where
  "createAuthenticationPolicy R nextId sd mx bd =
     act_bind (createGatekeeper R nextId sd mx bd) (\<lambda>_. act_return ())"

definition service_reset :: "('u, 'g) domain_registry \<Rightarrow> (('u, 'g) store, identity_error, unit) action" where
  "service_reset R =
     act_bind (act_bind (act_get (get_user R)) (\<lambda>found.
       case found of None \<Rightarrow> act_return () | Some u \<Rightarrow> remove_user R u)) (\<lambda>_.
     act_bind (act_get (get_gatekeeper R)) (\<lambda>found.
       case found of None \<Rightarrow> act_return () | Some g \<Rightarrow> save_gatekeeper R (gatekeeper_reset g)))"

subsection \<open>The in-memory repositories\<close>

definition assertEmptyOrUserExists :: "user option \<Rightarrow> user \<Rightarrow> user_repository_error \<Rightarrow> (identity_error, unit) outcome" where
  "assertEmptyOrUserExists stored u e =
     (case stored of
        None \<Rightarrow> Ok ()
      | Some v \<Rightarrow> if \<not> user_eq u v then Throw (UserRepositoryError e) else Ok ())"

definition mem_saveUser :: "user option \<Rightarrow> user \<Rightarrow> (identity_error, user option) outcome" where
  "mem_saveUser stored u =
     obind (assertEmptyOrUserExists stored u primaryUserAlreadyExists) (\<lambda>_. Ok (Some u))"

definition mem_removeUser :: "user option \<Rightarrow> user \<Rightarrow> (identity_error, user option) outcome" where
  "mem_removeUser stored u =
     obind (assertEmptyOrUserExists stored u userNotFound) (\<lambda>_. Ok None)"

definition mem_primaryUser :: "user option \<Rightarrow> user option" where
  "mem_primaryUser stored = stored"

definition mem_user :: "user option \<Rightarrow> string \<Rightarrow> user option" where
  "mem_user stored pw =
     (if map_option password (mem_primaryUser stored) = Some pw then mem_primaryUser stored else None)"

definition mem_user_repository :: "user option user_repository" where
  "mem_user_repository = \<lparr>saveUser = mem_saveUser, removeUser = mem_removeUser,
     primaryUser = mem_primaryUser, userWithPassword = mem_user\<rparr>"

definition mem_saveGatekeeper :: "gatekeeper option \<Rightarrow> gatekeeper \<Rightarrow> (identity_error, gatekeeper option) outcome" where
  "mem_saveGatekeeper stored g = Ok (Some g)"

definition mem_removeGatekeeper ::
  "gatekeeper option \<Rightarrow> gatekeeper \<Rightarrow> (identity_error, gatekeeper option) outcome" where
  "mem_removeGatekeeper stored g =
     (if map_option gatekeeper_id stored = Some (gatekeeper_id g) then Ok None else Ok stored)"

definition mem_gatekeeper :: "gatekeeper option \<Rightarrow> gatekeeper option" where
  "mem_gatekeeper stored = stored"

definition mem_gatekeeper_repository :: "gatekeeper option gatekeeper_repository" where
  "mem_gatekeeper_repository = \<lparr>saveGatekeeper = mem_saveGatekeeper,
     removeGatekeeper = mem_removeGatekeeper, theGatekeeper = mem_gatekeeper\<rparr>"

definition mem_registry :: "(string \<Rightarrow> string) \<Rightarrow> biometric_service \<Rightarrow> (user option, gatekeeper option) domain_registry" where
  "mem_registry enc bio = \<lparr>userRepository = mem_user_repository,
     gatekeeperRepository = mem_gatekeeper_repository, encrypted = enc, biometricService = bio\<rparr>"

lemmas mem_repository_defs = mem_user_repository_def mem_saveUser_def mem_removeUser_def
  mem_primaryUser_def mem_user_def mem_gatekeeper_repository_def mem_saveGatekeeper_def
  mem_removeGatekeeper_def mem_gatekeeper_def assertEmptyOrUserExists_def user_eq_def

subsection \<open>What the services rely on\<close>

locale single_repositories =
  fixes R :: "('u, 'g) domain_registry"
    and okU :: "'u \<Rightarrow> bool"
    and okG :: "'g \<Rightarrow> bool"
  assumes user_saved: "okU r \<Longrightarrow>
      (\<And>v. primaryUser (userRepository R) r = Some v \<Longrightarrow> user_id v = user_id u) \<Longrightarrow>
      \<exists>r'. saveUser (userRepository R) r u = Ok r' \<and> okU r' \<and> primaryUser (userRepository R) r' = Some u"
    and user_found: "okU r \<Longrightarrow>
      userWithPassword (userRepository R) r pw =
        (case primaryUser (userRepository R) r of
           None \<Rightarrow> None | Some v \<Rightarrow> if password v = pw then Some v else None)"
    and user_removed: "okU r \<Longrightarrow> primaryUser (userRepository R) r = Some u \<Longrightarrow>
      \<exists>r'. removeUser (userRepository R) r u = Ok r' \<and> okU r' \<and> primaryUser (userRepository R) r' = None"
    and gatekeeper_saved: "okG q \<Longrightarrow>
      \<exists>q'. saveGatekeeper (gatekeeperRepository R) q g = Ok q' \<and> okG q' \<and>
           theGatekeeper (gatekeeperRepository R) q' = Some g"
begin

lemma save_user_run:
  assumes "okU (users s)" and "\<And>v. get_user R s = Some v \<Longrightarrow> user_id v = user_id u"
  obtains s' where "save_user R u s = (Ok (), s')" "okU (users s')" "keepers s' = keepers s"
    "get_user R s' = Some u" "get_gatekeeper R s' = get_gatekeeper R s"
proof -
  obtain r' where "saveUser (userRepository R) (users s) u = Ok r'" "okU r'"
      "primaryUser (userRepository R) r' = Some u"
    using user_saved [OF assms(1), of u] assms(2) unfolding get_user_def by blast
  then show thesis
    by (intro that [of "s\<lparr>users := r'\<rparr>"])
       (simp_all add: save_user_def act_update_def get_user_def get_gatekeeper_def)
qed

lemma save_gatekeeper_run:
  assumes "okG (keepers s)"
  obtains s' where "save_gatekeeper R g s = (Ok (), s')" "okG (keepers s')" "users s' = users s"
    "get_gatekeeper R s' = Some g" "get_user R s' = get_user R s"
proof -
  obtain q' where "saveGatekeeper (gatekeeperRepository R) (keepers s) g = Ok q'" "okG q'"
      "theGatekeeper (gatekeeperRepository R) q' = Some g"
    using gatekeeper_saved [OF assms] by blast
  then show thesis
    by (intro that [of "s\<lparr>keepers := q'\<rparr>"])
       (simp_all add: save_gatekeeper_def act_update_def get_user_def get_gatekeeper_def)
qed

lemma register_new:
  assumes "okU (users s)" "get_user R s = None" "validatePlaintextPassword pw = Ok ()"
  obtains s' where "okU (users s')" "keepers s' = keepers s" "get_gatekeeper R s' = get_gatekeeper R s"
    "get_user R s' = Some (user_init i (encrypted R pw))"
    "registerUser R i pw s = (obind (activate (biometricService R)) (\<lambda>_. Ok i), s')"
proof -
  let ?u = "user_init i (encrypted R pw)"
  obtain s' where s': "save_user R ?u s = (Ok (), s')" "okU (users s')" "keepers s' = keepers s"
      "get_user R s' = Some ?u" "get_gatekeeper R s' = get_gatekeeper R s"
    using save_user_run [of s ?u] assms(1,2) by (metis option.distinct(1))
  have "registerUser R i pw s = (obind (activate (biometricService R)) (\<lambda>_. Ok i), s')"
    using assms s'(1)
    by (cases "activate (biometricService R)")
       (simp_all add: registerUser_def act_bind_apply user_init_def changePassword_def)
  with s' show thesis by (intro that)
qed

lemma authenticate_found:
  assumes "okU (users s)" "okG (keepers s)"
    and "get_gatekeeper R s = Some g" "isAccessPossible g t" "sessionDuration (policy_of g) > 0"
    and "lookup s = Some u" "get_user R s = Some u"
  obtains s' g' where "authenticate_with R uuid t lookup s = (Ok (Some (user_id u)), s')"
    "okU (users s')" "okG (keepers s')" "get_user R s' = Some (attachSession u uuid)"
    "get_gatekeeper R s' = Some g'" "allowAccess g uuid t = Ok (g', uuid)"
proof -
  obtain g' where g': "allowAccess g uuid t = Ok (g', uuid)"
    using assms by (auto simp: allowAccess_eq_Ok)
  obtain s1 where s1: "save_gatekeeper R g' s = (Ok (), s1)" "okG (keepers s1)" "users s1 = users s"
      "get_gatekeeper R s1 = Some g'" "get_user R s1 = get_user R s"
    using save_gatekeeper_run [OF assms(2)] by blast
  obtain s2 where s2: "save_user R (attachSession u uuid) s1 = (Ok (), s2)" "okU (users s2)"
      "keepers s2 = keepers s1" "get_user R s2 = Some (attachSession u uuid)"
      "get_gatekeeper R s2 = get_gatekeeper R s1"
    using save_user_run [of s1 "attachSession u uuid"] assms s1 by (auto simp: attachSession_def)
  have "authenticate_with R uuid t lookup s = (Ok (Some (user_id u)), s2)"
    using assms g' s1 s2 by (simp add: authenticate_with_def act_bind_apply)
  with s1 s2 g' show thesis by (intro that [of s2 g']) simp_all
qed

lemma authenticate_unknown:
  assumes "okG (keepers s)" "get_gatekeeper R s = Some g" "isAccessPossible g t" "lookup s = None"
    and "denyAccess g t = Ok g'"
  obtains s' where "authenticate_with R uuid t lookup s = (Ok None, s')" "okG (keepers s')"
    "users s' = users s" "get_user R s' = get_user R s" "get_gatekeeper R s' = Some g'"
proof -
  obtain s1 where s1: "save_gatekeeper R g' s = (Ok (), s1)" "okG (keepers s1)" "users s1 = users s"
      "get_gatekeeper R s1 = Some g'" "get_user R s1 = get_user R s"
    using save_gatekeeper_run [OF assms(1)] by blast
  with assms have "authenticate_with R uuid t lookup s = (Ok None, s1)"
    by (simp add: authenticate_with_def act_bind_apply)
  with s1 show thesis by (intro that)
qed

lemma authenticate_blocked:
  assumes "get_gatekeeper R s = Some g" "\<not> isAccessPossible g t"
  shows "authenticate_with R uuid t lookup s = (Ok None, s)"
  using assms by (simp add: authenticate_with_def)

lemma password_lookup:
  assumes "okU (users s)" "get_user R s = Some u"
  shows "userWithPassword (userRepository R) (users s) e = (if password u = e then Some u else None)"
  using assms user_found [OF assms(1)] by (simp add: get_user_def)

text \<open>The whole answer of the application service to a password.\<close>

lemma password_answer:
  assumes "okU (users s)" "okG (keepers s)"
    and g: "get_gatekeeper R s = Some g" "policy_ok (policy_of g)" "0 \<le> failedAttemptCount g"
      "failedAttemptCount g < 2 ^ 63 - 1"
    and u: "get_user R s = Some u"
    and req: "request_with_password pw = (Ok req :: (identity_error, authenticationRequest) outcome)"
  obtains s' g' where
    "okU (users s')" "okG (keepers s')" "get_gatekeeper R s' = Some g'"
    "authenticateUser R uuid t later req s =
       (Ok (if isAccessPossible g t \<and> password u = encrypted R pw then success (user_id u)
            else if isAccessPossible g' later then failure else blocked), s')"
    "if \<not> isAccessPossible g t then s' = s \<and> g' = g
     else if password u = encrypted R pw
     then get_user R s' = Some (attachSession u uuid) \<and> allowAccess g uuid t = Ok (g', uuid)
     else users s' = users s \<and> denyAccess g t = Ok g'"
proof -
  let ?find = "\<lambda>s. userWithPassword (userRepository R) (users s) (encrypted R pw)"
  have req': "request_method req = method_password" "request_password req = Some pw"
    using req by (auto simp: request_with_password_def request_init_def outcome_Ok_iff)
  have run: "authenticateUser R uuid t later req s =
      (Ok (case who of Some i \<Rightarrow> success i
           | None \<Rightarrow> if service_isAccessPossible R s' later then failure else blocked), s')"
    if "authenticate_with R uuid t ?find s = (Ok who, s')" for who s'
    using that req' by (cases who) (simp_all add: authenticateUser_def authenticateUser_password_def act_bind_def)
  consider "\<not> isAccessPossible g t" | "isAccessPossible g t" "password u = encrypted R pw"
    | "isAccessPossible g t" "password u \<noteq> encrypted R pw" by blast
  then show thesis
  proof cases
    case 1
    show thesis
      using assms(1,2) g 1 run [OF authenticate_blocked [OF g(1) 1]]
      by (intro that [of s g]) (simp_all add: service_isAccessPossible_def)
  next
    case 2
    have "?find s = Some u" using password_lookup [OF assms(1) u] 2 by simp
    then obtain s' g' where a: "authenticate_with R uuid t ?find s = (Ok (Some (user_id u)), s')"
        "okU (users s')" "okG (keepers s')" "get_user R s' = Some (attachSession u uuid)"
        "get_gatekeeper R s' = Some g'" "allowAccess g uuid t = Ok (g', uuid)"
      using authenticate_found [of s g t ?find u uuid, OF assms(1,2) g(1) 2(1)] g(2) u
      unfolding policy_ok_def by blast
    show thesis
      using a 2 run [OF a(1)] by (intro that [of s' g']) simp_all
  next
    case 3
    have none: "?find s = None" using password_lookup [OF assms(1) u] 3 by simp
    obtain g' where d: "denyAccess g t = Ok g'"
      using g by (auto simp: denyAccess_eq_Ok int_range_def)
    obtain s' where a: "authenticate_with R uuid t ?find s = (Ok None, s')" "okG (keepers s')"
        "users s' = users s" "get_user R s' = get_user R s" "get_gatekeeper R s' = Some g'"
      using authenticate_unknown [of s g t ?find, OF assms(2) g(1) 3(1) none d] by blast
    show thesis
      using a 3 d assms(1) run [OF a(1)]
      by (intro that [of s' g']) (simp_all add: service_isAccessPossible_def)
  qed
qed

end

text \<open>The in-memory repositories keep the promises, with no invariant to maintain.\<close>

interpretation mem: single_repositories "mem_registry enc bio" "\<lambda>_. True" "\<lambda>_. True"
proof unfold_locales
  show "\<exists>r'. saveUser (userRepository (mem_registry enc bio)) r u = Ok r' \<and> True \<and>
          primaryUser (userRepository (mem_registry enc bio)) r' = Some u"
    if "\<And>v. primaryUser (userRepository (mem_registry enc bio)) r = Some v \<Longrightarrow> user_id v = user_id u" for r u
    using that by (cases r) (simp_all add: mem_registry_def mem_repository_defs)
qed (simp_all add: mem_registry_def mem_repository_defs split: option.splits)

subsection \<open>The character loop\<close>

text \<open>The specification: no three equal characters in a row.\<close>

definition tripple_free :: "'c list \<Rightarrow> bool" where
  "tripple_free s \<longleftrightarrow> (\<forall>i. i + 2 < length s \<longrightarrow> \<not> (s ! i = s ! (i + 1) \<and> s ! (i + 1) = s ! (i + 2)))"

lemma tripple_free_short: "length s \<le> 2 \<Longrightarrow> tripple_free s"
  by (auto simp: tripple_free_def)

lemma all_nat_shift: "(\<forall>i. P i) \<longleftrightarrow> P 0 \<and> (\<forall>i. P (Suc i))"
  using not0_implies_Suc by metis

lemma tripple_free_Cons3:
  "tripple_free (a # b # c # s) \<longleftrightarrow> \<not> (a = b \<and> b = c) \<and> tripple_free (b # c # s)"
  unfolding tripple_free_def
  by (subst all_nat_shift) simp

lemma tripple_free_Cons_neq: "p \<noteq> c \<Longrightarrow> tripple_free (p # c # s) = tripple_free (c # s)"
  by (cases s) (simp_all add: tripple_free_Cons3 tripple_free_short)

lemma tripple_loop_both:
  "tripple_loop p 1 s = tripple_free (p # s) \<and> tripple_loop p 2 s = tripple_free (p # p # s)"
proof (induction s arbitrary: p)
  case Nil
  show ?case by (simp add: tripple_free_short)
next
  case (Cons c s)
  show ?case
  proof (cases "c = p")
    case True
    then show ?thesis using Cons.IH [of p] by (simp add: tripple_free_Cons3 numeral_2_eq_2)
  next
    case False
    then show ?thesis using Cons.IH [of c] by (simp add: tripple_free_Cons3 tripple_free_Cons_neq)
  qed
qed

lemmas tripple_loop_spec = tripple_loop_both [THEN conjunct1]

lemma hasNoTrippleChar_iff: "hasNoTrippleChar s \<longleftrightarrow> tripple_free s"
  by (cases s) (auto simp: hasNoTrippleChar_def tripple_free_short tripple_loop_spec [simplified])

subsection \<open>Properties\<close>

text \<open>
  Password rule: validation accepts exactly the passwords of at least six characters with a letter,
  a decimal digit and no three equal characters in a row; there is no upper bound on the length and
  any letter will do. Every password the onboarding screens accept is accepted.
\<close>

theorem password_rule:
  "(validatePlaintextPassword pw = Ok () \<longleftrightarrow>
      6 \<le> length pw \<and> (\<exists>c \<in> set pw. is_letter c) \<and> (\<exists>c \<in> set pw. is_decimalDigit c) \<and>
      \<not> (\<exists>i. i + 2 < length pw \<and> pw ! i = pw ! (i + 1) \<and> pw ! (i + 1) = pw ! (i + 2))) \<and>
   (validateMinLength pw \<and> validateAtLeastOneLetterAndOneDigit pw \<and> validateNoTrippleChar pw \<longrightarrow>
      validatePlaintextPassword pw = Ok ())"
proof -
  have iff: "validatePlaintextPassword pw = Ok () \<longleftrightarrow>
      6 \<le> length pw \<and> hasLetter pw \<and> hasDecimalDigit pw \<and> hasNoTrippleChar pw"
    by (auto simp: validatePlaintextPassword_def outcome_Ok_iff assert_eq_Ok)
  have "validateMinLength pw \<and> validateAtLeastOneLetterAndOneDigit pw \<and> validateNoTrippleChar pw \<longrightarrow>
      validatePlaintextPassword pw = Ok ()"
    unfolding iff by (auto simp: validateMinLength_def minInputLength_def
        validateAtLeastOneLetterAndOneDigit_def validateNoTrippleChar_def)
  moreover note iff [unfolded hasNoTrippleChar_iff tripple_free_def hasLetter_def hasDecimalDigit_def]
  ultimately show ?thesis by (auto simp: list_ex_iff)
qed

theorem password_rule_witness:
  "validatePlaintextPassword ''abcdef12'' = Ok ()"
proof -
  have "validateMinLength ''abcdef12'' \<and> validateAtLeastOneLetterAndOneDigit ''abcdef12'' \<and>
      validateNoTrippleChar ''abcdef12''"
    by code_simp
  with password_rule [of "''abcdef12''"] show ?thesis by blast
qed

definition sample_bio :: biometric_service where
  "sample_bio = \<lparr>isAuthenticationAvailable = False, biometry_type = none, activate = Ok (), authenticate = False\<rparr>"

definition sample_store :: "user option \<Rightarrow> (user option, gatekeeper option) store" where
  "sample_store u = \<lparr>users = u, keepers = Some (gatekeeper_init ''gk'' sample_policy)\<rparr>"

definition sample_user :: user where
  "sample_user = user_init ''u1'' ''21fedcba''"

lemma sample_gatekeeper_init:
  "get_gatekeeper (mem_registry enc bio) (sample_store u) = Some (gatekeeper_init ''gk'' sample_policy)"
  "policy_ok (policy_of (gatekeeper_init ''gk'' sample_policy))"
  "isAccessPossible (gatekeeper_init ''gk'' sample_policy) t"
  "failedAttemptCount (gatekeeper_init ''gk'' sample_policy) = 0"
  by (simp_all add: get_gatekeeper_def mem_registry_def mem_repository_defs sample_store_def
      gatekeeper_init_def policy_ok_def sample_policy_def isAccessPossible_def)

text \<open>
  C16. The application service's answer to a password, for the in-memory repositories: while blocked
  nothing changes and no password helps; otherwise the right password gives success, a session in the
  gatekeeper and its identifier in the user, and a wrong one counts a failure, after which the answer
  is \<open>blocked\<close> exactly when the gatekeeper no longer lets anyone in.
\<close>

theorem password_authentication:
  assumes "get_gatekeeper (mem_registry enc bio) s = Some g" "policy_ok (policy_of g)"
    and "0 \<le> failedAttemptCount g" "failedAttemptCount g < 2 ^ 63 - 1"
    and "get_user (mem_registry enc bio) s = Some u"
    and "request_with_password pw = (Ok req :: (identity_error, authenticationRequest) outcome)"
  shows "\<exists>s' g'. get_gatekeeper (mem_registry enc bio) s' = Some g' \<and>
    authenticateUser (mem_registry enc bio) uuid t later req s =
      (Ok (if isAccessPossible g t \<and> password u = enc pw then success (user_id u)
           else if isAccessPossible g' later then failure else blocked), s') \<and>
    (if \<not> isAccessPossible g t then s' = s \<and> g' = g
     else if password u = enc pw
     then get_user (mem_registry enc bio) s' = Some (attachSession u uuid) \<and>
          allowAccess g uuid t = Ok (g', uuid)
     else users s' = users s \<and> denyAccess g t = Ok g')"
proof -
  have e: "encrypted (mem_registry enc bio) pw = enc pw" by (simp add: mem_registry_def)
  show ?thesis
    using mem.password_answer [of enc bio s g u pw req uuid t later, OF TrueI TrueI assms, unfolded e] by blast
qed

theorem password_authentication_witness:
  "\<exists>s'. authenticateUser (mem_registry rev sample_bio) ''s1'' 100 101
          \<lparr>request_method = method_password, request_password = Some ''abcdef12''\<rparr> (sample_store (Some sample_user))
        = (Ok (success ''u1''), s')"
proof -
  let ?req = "\<lparr>request_method = method_password, request_password = Some ''abcdef12''\<rparr>"
  have u: "get_user (mem_registry rev sample_bio) (sample_store (Some sample_user)) = Some sample_user"
    by (simp add: get_user_def mem_registry_def mem_repository_defs sample_store_def)
  have req: "request_with_password ''abcdef12'' = (Ok ?req :: (identity_error, authenticationRequest) outcome)"
    by (simp add: request_with_password_def request_init_def)
  have n: "0 \<le> failedAttemptCount (gatekeeper_init ''gk'' sample_policy)"
    "failedAttemptCount (gatekeeper_init ''gk'' sample_policy) < 2 ^ 63 - 1"
    by (simp_all add: sample_gatekeeper_init)
  have pw: "password sample_user = rev ''abcdef12''" "user_id sample_user = ''u1''"
    by (simp_all add: sample_user_def user_init_def changePassword_def)
  show ?thesis
    using password_authentication [OF sample_gatekeeper_init(1,2) n u req, of "''s1''" 100 101]
    unfolding pw by (auto simp: sample_gatekeeper_init)
qed

text \<open>
  Registering and then authenticating: with no user registered, a valid password and a gatekeeper
  that lets people in, registration returns the new identifier; the same password then authenticates,
  and the user counts as authenticated exactly during the session; a password with another hash does
  not, and leaves the user unauthenticated.
\<close>

theorem register_then_authenticate:
  assumes "get_user (mem_registry enc bio) s = None" "validatePlaintextPassword pw = Ok ()"
    and "activate bio = Ok ()"
    and "get_gatekeeper (mem_registry enc bio) s = Some g" "policy_ok (policy_of g)" "isAccessPossible g t"
    and "int_range (failedAttemptCount g + 1)"
  shows "\<exists>s1. registerUser (mem_registry enc bio) i pw s = (Ok i, s1) \<and>
     (\<exists>s2. authenticateUser_password (mem_registry enc bio) uuid pw t s1 = (Ok (Some i), s2) \<and>
        (\<forall>t'. isUserAuthenticated (mem_registry enc bio) s2 t' =
                Ok (t \<le> t' \<and> t' \<le> t + sessionDuration (policy_of g)))) \<and>
     (\<forall>pw'. enc pw' \<noteq> enc pw \<longrightarrow>
        (\<exists>s2. authenticateUser_password (mem_registry enc bio) uuid pw' t s1 = (Ok None, s2) \<and>
           (\<forall>t'. isUserAuthenticated (mem_registry enc bio) s2 t' = Ok False)))"
proof -
  let ?R = "mem_registry enc bio" and ?u = "user_init i (enc pw)"
  have R: "encrypted ?R p = enc p" "biometricService ?R = bio" for p by (simp_all add: mem_registry_def)
  obtain s1 where s1: "get_gatekeeper ?R s1 = Some g" "get_user ?R s1 = Some ?u"
      "registerUser ?R i pw s = (Ok i, s1)"
    using mem.register_new [of enc bio s pw i, OF TrueI assms(1,2)] assms(3,4) R by auto
  let ?find = "\<lambda>p s. userWithPassword (userRepository ?R) (users s) (enc p)"
  have found: "?find p s1 = (if enc p = enc pw then Some ?u else None)" for p
    using mem.password_lookup [of enc bio s1 ?u "enc p", OF TrueI s1(2)]
    by (auto simp: user_init_def changePassword_def)
  have d: "sessionDuration (policy_of g) > 0" using assms(5) by (simp add: policy_ok_def)
  obtain s2 g' where s2: "authenticate_with ?R uuid t (?find pw) s1 = (Ok (Some (user_id ?u)), s2)"
      "get_user ?R s2 = Some (attachSession ?u uuid)" "get_gatekeeper ?R s2 = Some g'"
      "allowAccess g uuid t = Ok (g', uuid)"
    using mem.authenticate_found [of enc bio s1 g t "?find pw" ?u uuid, OF TrueI TrueI s1(1) assms(6) d _ s1(2)]
      found by auto
  have "isUserAuthenticated ?R s2 t' = Ok (t \<le> t' \<and> t' \<le> t + sessionDuration (policy_of g))" for t'
    using s2(2-4) d by (auto simp: isUserAuthenticated_def attachSession_def allowAccess_eq_Ok
        hasAccess_def isActiveAt_def precondition_def)
  moreover have "\<exists>s2. authenticateUser_password ?R uuid pw' t s1 = (Ok None, s2) \<and>
      (\<forall>t'. isUserAuthenticated ?R s2 t' = Ok False)" if ne: "enc pw' \<noteq> enc pw" for pw'
  proof -
    obtain g'' where g'': "denyAccess g t = Ok g''" using assms(7) by (auto simp: denyAccess_eq_Ok)
    obtain s3 where "authenticate_with ?R uuid t (?find pw') s1 = (Ok None, s3)"
        "get_user ?R s3 = get_user ?R s1" "get_gatekeeper ?R s3 = Some g''"
      using mem.authenticate_unknown [of enc bio s1 g t "?find pw'", OF TrueI s1(1) assms(6) _ g''] found [of pw'] ne
      by auto
    then show ?thesis
      using s1(2) by (auto simp: authenticateUser_password_def R isUserAuthenticated_def
          user_init_def changePassword_def)
  qed
  ultimately show ?thesis
    using s1(3) s2(1) by (auto simp: authenticateUser_password_def R user_init_def changePassword_def)
qed

theorem register_then_authenticate_witness:
  "\<exists>s1 s2. registerUser (mem_registry rev sample_bio) ''u1'' ''abcdef12'' (sample_store None) = (Ok ''u1'', s1) \<and>
     authenticateUser_password (mem_registry rev sample_bio) ''s1'' ''abcdef12'' 100 s1 = (Ok (Some ''u1''), s2) \<and>
     isUserAuthenticated (mem_registry rev sample_bio) s2 160 = Ok True"
proof -
  have none: "get_user (mem_registry rev sample_bio) (sample_store None) = None"
    by (simp add: get_user_def mem_registry_def mem_repository_defs sample_store_def)
  have valid: "validatePlaintextPassword ''abcdef12'' = Ok ()" by code_simp
  have act: "activate sample_bio = Ok ()" by (simp add: sample_bio_def)
  have range: "int_range (failedAttemptCount (gatekeeper_init ''gk'' sample_policy) + 1)"
    by (simp add: sample_gatekeeper_init int_range_def)
  have dur: "sessionDuration (policy_of (gatekeeper_init ''gk'' sample_policy)) = 60"
    by (simp add: gatekeeper_init_def sample_policy_def)
  obtain s1 s2 where "registerUser (mem_registry rev sample_bio) ''u1'' ''abcdef12'' (sample_store None) = (Ok ''u1'', s1)"
    "authenticateUser_password (mem_registry rev sample_bio) ''s1'' ''abcdef12'' 100 s1 = (Ok (Some ''u1''), s2)"
    "\<forall>t'. isUserAuthenticated (mem_registry rev sample_bio) s2 t' = Ok (100 \<le> t' \<and> t' \<le> 100 + 60)"
    using register_then_authenticate [where i = "''u1''" and uuid = "''s1''" and t = 100,
        OF none valid act sample_gatekeeper_init(1-3) range, unfolded dur] by blast
  then show ?thesis by auto
qed

end
