(* ===== verification/Tx.thy ===== *)
theory Tx
  imports Prelude
begin

section \<open>Transactions and their states\<close>

text \<open>
  \<^verbatim>\<open>MultisigWalletDomainModel/Transaction/Transaction.swift\<close> and \<^verbatim>\<open>TransactionStatus.swift\<close>: the entity
  \<open>Transaction\<close>, its supporting value types, and the State pattern of \<open>TransactionStatus\<close>. The private
  state object is determined by its code, so the record holds the code; a method the class of the
  current status does not override is the method of the base class, which traps (or discards). The
  current date is an argument of every operation that reads it. A \<open>try!\<close> on a failed assertion traps.

  The section ends with the step relation of a transaction, its invariant and the status graph.
\<close>

subsection \<open>Value types\<close>

type_synonym date = real
type_synonym bytes = "8 word list"
type_synonym address = string
type_synonym transactionID = string
type_synonym walletID = string
type_synonym accountID = string

definition address_zero :: address where
  "address_zero = ''0x0000000000000000000000000000000000000000''"

record token =
  token_code :: string
  token_name :: string
  decimals :: int
  token_address :: address
  logoUrl :: string

definition token_id :: "token \<Rightarrow> string" where
  "token_id t = token_address t"

definition Ether :: token where
  "Ether = \<lparr>token_code = ''ETH'', token_name = ''Ether'', decimals = 18,
            token_address = ''0x'' @ replicate 40 CHR ''0'', logoUrl = ''''\<rparr>"

record tokenAmount =
  amount_of :: int
  token_of :: token

definition ether :: "int \<Rightarrow> tokenAmount" where
  "ether n = \<lparr>amount_of = n, token_of = Ether\<rparr>"

datatype transactionType = transfer | walletRecovery | replaceRecoveryPhrase
  | replaceBrowserExtension | connectBrowserExtension | disconnectBrowserExtension

datatype walletOperation = call | delegateCall | create

record signature =
  sig_address :: address
  sig_data :: bytes

record feeEstimate =
  gas :: int
  dataGas :: int
  operationalGas :: int
  gasPrice :: tokenAmount

definition totalDisplayedToUser :: "feeEstimate \<Rightarrow> tokenAmount" where
  "totalDisplayedToUser e =
     \<lparr>amount_of = amount_of (gasPrice e) * (gas e + dataGas e + operationalGas e),
      token_of = token_of (gasPrice e)\<rparr>"

definition totalSubmittedToBlockchain :: "feeEstimate \<Rightarrow> tokenAmount" where
  "totalSubmittedToBlockchain e =
     \<lparr>amount_of = amount_of (gasPrice e) * (gas e + dataGas e), token_of = token_of (gasPrice e)\<rparr>"

subsection \<open>The transaction\<close>

datatype code = draft | signing | pending | rejected | failed | success | discarded

definition code_rawValue :: "code \<Rightarrow> int" where
  "code_rawValue c = (case c of draft \<Rightarrow> 0 | signing \<Rightarrow> 1 | pending \<Rightarrow> 2 | rejected \<Rightarrow> 3
     | failed \<Rightarrow> 4 | success \<Rightarrow> 5 | discarded \<Rightarrow> 6)"

record transaction =
  tx_id :: transactionID
  tx_type :: transactionType
  sender :: "address option"
  recipient :: "address option"
  amount :: "tokenAmount option"
  fee :: "tokenAmount option"
  status :: code
  signatures :: "signature list"
  createdDate :: "date option"
  updatedDate :: "date option"
  rejectedDate :: "date option"
  submittedDate :: "date option"
  processedDate :: "date option"
  transactionHash :: "string option"
  tx_hash :: "bytes option"
  fee_estimate :: "feeEstimate option"
  tx_data :: "bytes option"
  operation :: "walletOperation option"
  nonce :: "string option"
  tx_walletID :: walletID
  tx_accountID :: accountID

datatype tx_error =
    invalidStatusForEditing code
  | invalidStatusForSigning code
  | invalidStatusForSetHash code
  | senderNotSet
  | recipientNotSet
  | amountNotSet
  | feeNotSet
  | transactionHashNotSet

definition timestampCreated :: "transaction \<Rightarrow> date \<Rightarrow> transaction" where
  "timestampCreated tx d = tx\<lparr>createdDate := Some d\<rparr>"

definition timestampUpdated :: "transaction \<Rightarrow> date \<Rightarrow> transaction" where
  "timestampUpdated tx d = tx\<lparr>updatedDate := Some d\<rparr>"

definition timestampRejected :: "transaction \<Rightarrow> date \<Rightarrow> transaction" where
  "timestampRejected tx d = tx\<lparr>rejectedDate := Some d\<rparr>"

definition timestampSubmitted :: "transaction \<Rightarrow> date \<Rightarrow> transaction" where
  "timestampSubmitted tx d = tx\<lparr>submittedDate := Some d\<rparr>"

definition timestampProcessed :: "transaction \<Rightarrow> date \<Rightarrow> transaction" where
  "timestampProcessed tx d = tx\<lparr>processedDate := Some d\<rparr>"

definition tx_init :: "date \<Rightarrow> transactionID \<Rightarrow> transactionType \<Rightarrow> walletID \<Rightarrow> accountID \<Rightarrow> transaction" where
  "tx_init now i ty w a =
     timestampUpdated (timestampCreated
       \<lparr>tx_id = i, tx_type = ty, sender = None, recipient = None, amount = None, fee = None,
        status = draft, signatures = [], createdDate = None, updatedDate = None, rejectedDate = None,
        submittedDate = None, processedDate = None, transactionHash = None, tx_hash = None,
        fee_estimate = None, tx_data = None, operation = None, nonce = None,
        tx_walletID = w, tx_accountID = a\<rparr> now) now"

definition change_status :: "transaction \<Rightarrow> code \<Rightarrow> transaction" where
  "change_status tx c = tx\<lparr>status := c\<rparr>"

definition resetParameters :: "transaction \<Rightarrow> transaction" where
  "resetParameters tx = tx\<lparr>transactionHash := None, createdDate := None, updatedDate := None,
     rejectedDate := None, submittedDate := None, processedDate := None, signatures := []\<rparr>"

subsection \<open>The status classes\<close>

definition canChangeParameters :: "code \<Rightarrow> bool" where
  "canChangeParameters c = (case c of draft \<Rightarrow> True | _ \<Rightarrow> False)"

definition canChangeBlockchainHash :: "code \<Rightarrow> bool" where
  "canChangeBlockchainHash c = (case c of draft \<Rightarrow> True | signing \<Rightarrow> True | _ \<Rightarrow> False)"

definition canChangeSignatures :: "code \<Rightarrow> bool" where
  "canChangeSignatures c = (case c of draft \<Rightarrow> True | signing \<Rightarrow> True | _ \<Rightarrow> False)"

definition draft_proceed :: "date \<Rightarrow> transaction \<Rightarrow> (tx_error, transaction) outcome" where
  "draft_proceed now tx =
     obind (tryBang (assertNotNil (sender tx) senderNotSet)) (\<lambda>_.
     obind (tryBang (assertNotNil (recipient tx) recipientNotSet)) (\<lambda>_.
     obind (tryBang (assertNotNil (amount tx) amountNotSet)) (\<lambda>_.
     obind (tryBang (assertNotNil (fee tx) feeNotSet)) (\<lambda>_.
     Ok (timestampUpdated (change_status tx signing) now)))))"

definition signing_proceed :: "date \<Rightarrow> transaction \<Rightarrow> (tx_error, transaction) outcome" where
  "signing_proceed now tx =
     obind (tryBang (assertNotNil (transactionHash tx) transactionHashNotSet)) (\<lambda>_.
     Ok (timestampUpdated (timestampSubmitted (change_status tx pending) now) now))"

definition signing_reject :: "date \<Rightarrow> transaction \<Rightarrow> transaction" where
  "signing_reject now tx = timestampUpdated (timestampRejected (change_status tx rejected) now) now"

definition pending_succeed :: "date \<Rightarrow> transaction \<Rightarrow> transaction" where
  "pending_succeed now tx = timestampUpdated (timestampProcessed (change_status tx success) now) now"

definition pending_fail :: "date \<Rightarrow> transaction \<Rightarrow> transaction" where
  "pending_fail now tx = timestampUpdated (timestampProcessed (change_status tx failed) now) now"

definition discard :: "date \<Rightarrow> transaction \<Rightarrow> (tx_error, transaction) outcome" where
  "discard now tx = (case status tx of
      discarded \<Rightarrow> Trap
    | _ \<Rightarrow> Ok (change_status (timestampUpdated tx now) discarded))"

definition reset :: "transaction \<Rightarrow> (tx_error, transaction) outcome" where
  "reset tx = (case status tx of
      rejected \<Rightarrow> Ok (change_status (resetParameters tx) draft)
    | discarded \<Rightarrow> Ok (change_status (resetParameters tx) draft)
    | _ \<Rightarrow> Trap)"

definition proceed :: "date \<Rightarrow> transaction \<Rightarrow> (tx_error, transaction) outcome" where
  "proceed now tx = (case status tx of
      draft \<Rightarrow> draft_proceed now tx
    | signing \<Rightarrow> signing_proceed now tx
    | _ \<Rightarrow> Trap)"

definition stepBack :: "transaction \<Rightarrow> (tx_error, transaction) outcome" where
  "stepBack tx = (case status tx of
      signing \<Rightarrow> Ok (change_status tx draft)
    | pending \<Rightarrow> Ok (change_status tx signing)
    | _ \<Rightarrow> Trap)"

definition reject :: "date \<Rightarrow> transaction \<Rightarrow> (tx_error, transaction) outcome" where
  "reject now tx = (case status tx of signing \<Rightarrow> Ok (signing_reject now tx) | _ \<Rightarrow> Trap)"

definition succeed :: "date \<Rightarrow> transaction \<Rightarrow> (tx_error, transaction) outcome" where
  "succeed now tx = (case status tx of pending \<Rightarrow> Ok (pending_succeed now tx) | _ \<Rightarrow> Trap)"

definition fail :: "date \<Rightarrow> transaction \<Rightarrow> (tx_error, transaction) outcome" where
  "fail now tx = (case status tx of pending \<Rightarrow> Ok (pending_fail now tx) | _ \<Rightarrow> Trap)"

subsection \<open>Editing\<close>

definition assertCanChangeParameters :: "transaction \<Rightarrow> (tx_error, unit) outcome" where
  "assertCanChangeParameters tx =
     tryBang (assertTrue (canChangeParameters (status tx)) (invalidStatusForEditing (status tx)))"

text \<open>All \<open>change(...)\<close> methods have the shape: assert, assign, stamp.\<close>

definition changing :: "date \<Rightarrow> (transaction \<Rightarrow> transaction) \<Rightarrow> transaction \<Rightarrow> (tx_error, transaction) outcome" where
  "changing now assign tx =
     obind (assertCanChangeParameters tx) (\<lambda>_. Ok (timestampUpdated (assign tx) now))"

definition change_amount where
  "change_amount now v = changing now (\<lambda>tx. tx\<lparr>amount := v\<rparr>)"

definition change_sender where
  "change_sender now v = changing now (\<lambda>tx. tx\<lparr>sender := v\<rparr>)"

definition change_recipient where
  "change_recipient now v = changing now (\<lambda>tx. tx\<lparr>recipient := v\<rparr>)"

definition change_fee where
  "change_fee now v = changing now (\<lambda>tx. tx\<lparr>fee := v\<rparr>)"

definition change_feeEstimate where
  "change_feeEstimate now v = changing now (\<lambda>tx. tx\<lparr>fee_estimate := v\<rparr>)"

definition change_data where
  "change_data now v = changing now (\<lambda>tx. tx\<lparr>tx_data := v\<rparr>)"

definition change_operation where
  "change_operation now v = changing now (\<lambda>tx. tx\<lparr>operation := v\<rparr>)"

definition change_nonce where
  "change_nonce now v = changing now (\<lambda>tx. tx\<lparr>nonce := v\<rparr>)"

definition change_hash where
  "change_hash now v = changing now (\<lambda>tx. tx\<lparr>tx_hash := v\<rparr>)"

definition set_hash :: "date \<Rightarrow> string \<Rightarrow> transaction \<Rightarrow> (tx_error, transaction) outcome" where
  "set_hash now h tx =
     obind (tryBang (assertTrue (canChangeBlockchainHash (status tx)) (invalidStatusForSetHash (status tx)))) (\<lambda>_.
     Ok (timestampUpdated (tx\<lparr>transactionHash := Some h\<rparr>) now))"

definition assertSignaturesEditable :: "transaction \<Rightarrow> (tx_error, unit) outcome" where
  "assertSignaturesEditable tx =
     tryBang (assertTrue (canChangeSignatures (status tx)) (invalidStatusForSigning (status tx)))"

definition add_signature :: "date \<Rightarrow> signature \<Rightarrow> transaction \<Rightarrow> (tx_error, transaction) outcome" where
  "add_signature now s tx =
     obind (assertSignaturesEditable tx) (\<lambda>_.
     if s \<in> set (signatures tx) then Ok tx
     else Ok (timestampUpdated (tx\<lparr>signatures := signatures tx @ [s]\<rparr>) now))"

text \<open>\<open>remove(at:)\<close> of the first occurrence.\<close>

definition remove_signature :: "date \<Rightarrow> signature \<Rightarrow> transaction \<Rightarrow> (tx_error, transaction) outcome" where
  "remove_signature now s tx =
     obind (assertSignaturesEditable tx) (\<lambda>_.
     case firstIndex (\<lambda>x. x = s) (signatures tx) of
       None \<Rightarrow> Ok tx
     | Some i \<Rightarrow> Ok (timestampUpdated
         (tx\<lparr>signatures := take i (signatures tx) @ drop (Suc i) (signatures tx)\<rparr>) now))"

definition isSignedBy :: "transaction \<Rightarrow> address \<Rightarrow> bool" where
  "isSignedBy tx a \<longleftrightarrow> list_ex (\<lambda>s. sig_address s = a) (signatures tx)"

subsection \<open>What is sent to the blockchain\<close>

definition isERC20Transfer :: "transaction \<Rightarrow> bool" where
  "isERC20Transfer tx = (case amount tx of None \<Rightarrow> False | Some a \<Rightarrow> token_id (token_of a) \<noteq> token_id Ether)"

definition ethTo :: "transaction \<Rightarrow> address" where
  "ethTo tx =
     (let result = (if isERC20Transfer tx then map_option (token_address \<circ> token_of) (amount tx) else recipient tx)
      in case result of None \<Rightarrow> address_zero | Some a \<Rightarrow> a)"

definition ethValue :: "transaction \<Rightarrow> int" where
  "ethValue tx =
     (let result = (if isERC20Transfer tx then Some 0 else map_option amount_of (amount tx))
      in case result of None \<Rightarrow> 0 | Some n \<Rightarrow> n)"

lemmas tx_stamp_defs = timestampCreated_def timestampUpdated_def timestampRejected_def
  timestampSubmitted_def timestampProcessed_def change_status_def resetParameters_def

lemmas tx_status_defs = canChangeParameters_def canChangeBlockchainHash_def canChangeSignatures_def
  draft_proceed_def signing_proceed_def signing_reject_def pending_succeed_def pending_fail_def

lemmas tx_event_defs = discard_def reset_def proceed_def stepBack_def reject_def succeed_def fail_def

lemmas tx_edit_defs = change_amount_def change_sender_def change_recipient_def change_fee_def
  change_feeEstimate_def change_data_def change_operation_def change_nonce_def change_hash_def
  changing_def assertCanChangeParameters_def set_hash_def add_signature_def remove_signature_def
  assertSignaturesEditable_def

subsection \<open>Events, steps, reachable transactions\<close>

datatype tx_event = Discard date | Reset | Proceed date | StepBack | Reject date | Succeed date | Fail date

fun tx_apply :: "tx_event \<Rightarrow> transaction \<Rightarrow> (tx_error, transaction) outcome" where
  "tx_apply (Discard t) tx = discard t tx"
| "tx_apply Reset tx = reset tx"
| "tx_apply (Proceed t) tx = proceed t tx"
| "tx_apply StepBack tx = stepBack tx"
| "tx_apply (Reject t) tx = reject t tx"
| "tx_apply (Succeed t) tx = succeed t tx"
| "tx_apply (Fail t) tx = fail t tx"

inductive tx_step :: "transaction \<Rightarrow> transaction \<Rightarrow> bool" where
  event: "tx_apply e tx = Ok tx' \<Longrightarrow> tx_step tx tx'"
| amountS: "change_amount t a tx = Ok tx' \<Longrightarrow> tx_step tx tx'"
| senderS: "change_sender t s tx = Ok tx' \<Longrightarrow> tx_step tx tx'"
| recipientS: "change_recipient t s tx = Ok tx' \<Longrightarrow> tx_step tx tx'"
| feeS: "change_fee t a tx = Ok tx' \<Longrightarrow> tx_step tx tx'"
| estimateS: "change_feeEstimate t e' tx = Ok tx' \<Longrightarrow> tx_step tx tx'"
| dataS: "change_data t d tx = Ok tx' \<Longrightarrow> tx_step tx tx'"
| operationS: "change_operation t p tx = Ok tx' \<Longrightarrow> tx_step tx tx'"
| nonceS: "change_nonce t n tx = Ok tx' \<Longrightarrow> tx_step tx tx'"
| hashS: "change_hash t d tx = Ok tx' \<Longrightarrow> tx_step tx tx'"
| setHashS: "set_hash t h tx = Ok tx' \<Longrightarrow> tx_step tx tx'"
| addS: "add_signature t g tx = Ok tx' \<Longrightarrow> tx_step tx tx'"
| removeS: "remove_signature t g tx = Ok tx' \<Longrightarrow> tx_step tx tx'"
| createdS: "tx_step tx (timestampCreated tx t)"
| updatedS: "tx_step tx (timestampUpdated tx t)"
| rejectedS: "tx_step tx (timestampRejected tx t)"
| submittedS: "tx_step tx (timestampSubmitted tx t)"
| processedS: "tx_step tx (timestampProcessed tx t)"

inductive tx_reachable :: "transaction \<Rightarrow> bool" where
  start: "tx_reachable (tx_init now i ty w a)"
| step: "tx_reachable tx \<Longrightarrow> tx_step tx tx' \<Longrightarrow> tx_reachable tx'"

definition tx_ok :: "transaction \<Rightarrow> bool" where
  "tx_ok tx \<longleftrightarrow>
     distinct (signatures tx) \<and>
     (status tx \<in> {signing, pending, rejected, failed, success} \<longrightarrow>
        sender tx \<noteq> None \<and> recipient tx \<noteq> None \<and> amount tx \<noteq> None \<and> fee tx \<noteq> None) \<and>
     (status tx \<in> {pending, failed, success} \<longrightarrow> transactionHash tx \<noteq> None \<and> submittedDate tx \<noteq> None) \<and>
     (status tx \<in> {failed, success} \<longrightarrow> processedDate tx \<noteq> None) \<and>
     (status tx = rejected \<longrightarrow> rejectedDate tx \<noteq> None)"

text \<open>The parameters an editing operation may assign, as one record for comparison.\<close>

definition parameters_of where
  "parameters_of tx = (sender tx, recipient tx, amount tx, fee tx, fee_estimate tx, tx_data tx,
     operation tx, nonce tx, tx_hash tx)"

text \<open>The status graph.\<close>

fun tx_next :: "tx_event \<Rightarrow> code \<Rightarrow> code option" where
  "tx_next (Discard _) c = (if c = discarded then None else Some discarded)"
| "tx_next Reset c = (if c = rejected \<or> c = discarded then Some draft else None)"
| "tx_next (Proceed _) c = (if c = draft then Some signing else if c = signing then Some pending else None)"
| "tx_next StepBack c = (if c = signing then Some draft else if c = pending then Some signing else None)"
| "tx_next (Reject _) c = (if c = signing then Some rejected else None)"
| "tx_next (Succeed _) c = (if c = pending then Some success else None)"
| "tx_next (Fail _) c = (if c = pending then Some failed else None)"

text \<open>What \<open>proceed\<close> asks of the transaction.\<close>

fun tx_ready :: "tx_event \<Rightarrow> transaction \<Rightarrow> bool" where
  "tx_ready (Proceed _) tx =
     (case status tx of
        draft \<Rightarrow> sender tx \<noteq> None \<and> recipient tx \<noteq> None \<and> amount tx \<noteq> None \<and> fee tx \<noteq> None
      | signing \<Rightarrow> transactionHash tx \<noteq> None
      | _ \<Rightarrow> True)"
| "tx_ready _ tx = True"

lemma changing_eq_Ok:
  "changing t f tx = Ok tx' \<longleftrightarrow> status tx = draft \<and> tx' = (f tx)\<lparr>updatedDate := Some t\<rparr>"
  by (cases "status tx")
     (auto simp: changing_def assertCanChangeParameters_def canChangeParameters_def timestampUpdated_def)

lemma set_hash_eq_Ok:
  "set_hash t h tx = Ok tx' \<longleftrightarrow> status tx \<in> {draft, signing} \<and>
     tx' = tx\<lparr>transactionHash := Some h, updatedDate := Some t\<rparr>"
  by (cases "status tx") (auto simp: set_hash_def canChangeBlockchainHash_def timestampUpdated_def)

lemma remove_at_firstIndex:
  "firstIndex (\<lambda>x. x = s) xs = Some i \<Longrightarrow> take i xs @ drop (Suc i) xs = remove1 s xs"
  by (induction xs arbitrary: i) (auto split: if_splits)

lemma firstIndex_eq_None: "firstIndex (\<lambda>x. x = s) xs = None \<longleftrightarrow> s \<notin> set xs"
  by (auto simp: firstIndex_None)

lemma add_signature_eq_Ok:
  "add_signature t s tx = Ok tx' \<longleftrightarrow> status tx \<in> {draft, signing} \<and>
     tx' = (if s \<in> set (signatures tx) then tx
            else tx\<lparr>signatures := signatures tx @ [s], updatedDate := Some t\<rparr>)"
  by (cases "status tx")
     (auto simp: add_signature_def assertSignaturesEditable_def canChangeSignatures_def timestampUpdated_def)

lemma remove_signature_eq_Ok:
  "remove_signature t s tx = Ok tx' \<longleftrightarrow> status tx \<in> {draft, signing} \<and>
     tx' = (if s \<in> set (signatures tx) then tx\<lparr>signatures := remove1 s (signatures tx), updatedDate := Some t\<rparr>
            else tx)"
proof (cases "firstIndex (\<lambda>x. x = s) (signatures tx)")
  case None
  then have "s \<notin> set (signatures tx)" by (simp add: firstIndex_eq_None)
  with None show ?thesis
    by (cases "status tx") (auto simp: remove_signature_def assertSignaturesEditable_def canChangeSignatures_def)
next
  case (Some i)
  then have "s \<in> set (signatures tx)" using firstIndex_eq_None [of s "signatures tx"] by auto
  with Some show ?thesis
    by (cases "status tx")
       (auto simp: remove_signature_def assertSignaturesEditable_def canChangeSignatures_def
          timestampUpdated_def remove_at_firstIndex)
qed

lemmas tx_edit_eq_Ok = change_amount_def change_sender_def change_recipient_def change_fee_def
  change_feeEstimate_def change_data_def change_operation_def change_nonce_def change_hash_def
  changing_eq_Ok set_hash_eq_Ok add_signature_eq_Ok remove_signature_eq_Ok

lemma tx_apply_result:
  "tx_apply e tx = (if tx_next e (status tx) \<noteq> None \<and> tx_ready e tx
     then Ok (the_tx e tx) else Trap)" if "the_tx = (\<lambda>e tx. case e of
        Discard t \<Rightarrow> tx\<lparr>updatedDate := Some t, status := discarded\<rparr>
      | Reset \<Rightarrow> (resetParameters tx)\<lparr>status := draft\<rparr>
      | Proceed t \<Rightarrow> (if status tx = draft then tx\<lparr>status := signing, updatedDate := Some t\<rparr>
                      else tx\<lparr>status := pending, submittedDate := Some t, updatedDate := Some t\<rparr>)
      | StepBack \<Rightarrow> tx\<lparr>status := the (tx_next StepBack (status tx))\<rparr>
      | Reject t \<Rightarrow> tx\<lparr>status := rejected, rejectedDate := Some t, updatedDate := Some t\<rparr>
      | Succeed t \<Rightarrow> tx\<lparr>status := success, processedDate := Some t, updatedDate := Some t\<rparr>
      | Fail t \<Rightarrow> tx\<lparr>status := failed, processedDate := Some t, updatedDate := Some t\<rparr>)"
  unfolding that
  by (cases e; cases "status tx")
     (simp_all add: tx_event_defs tx_status_defs tx_stamp_defs assert_defs)

lemmas tx_apply_eq = tx_apply_result [OF refl]

lemma tx_step_ok: "tx_step tx tx' \<Longrightarrow> tx_ok tx \<Longrightarrow> tx_ok tx'"
proof (induction rule: tx_step.induct)
  case (event e tx tx')
  then show ?case
    by (cases e; cases "status tx"; clarsimp simp: tx_apply_eq tx_ok_def resetParameters_def split: if_splits)
qed (auto simp: tx_edit_eq_Ok tx_ok_def tx_stamp_defs split: if_splits)

lemma tx_init_ok: "tx_ok (tx_init now i ty w a)"
  by (simp add: tx_ok_def tx_init_def tx_stamp_defs)

lemma tx_reachable_ok: "tx_reachable tx \<Longrightarrow> tx_ok tx"
  by (induction rule: tx_reachable.induct) (auto intro: tx_init_ok tx_step_ok)

lemma tx_step_frozen:
  "tx_step tx tx' \<Longrightarrow> status tx \<noteq> draft \<Longrightarrow> parameters_of tx' = parameters_of tx"
proof (induction rule: tx_step.induct)
  case (event e tx tx')
  then show ?case
    by (cases e; cases "status tx"; clarsimp simp: tx_apply_eq parameters_of_def resetParameters_def split: if_splits)
qed (auto simp: tx_edit_eq_Ok parameters_of_def tx_stamp_defs split: if_splits)

subsection \<open>Properties\<close>

definition sample_token_amount :: tokenAmount where
  "sample_token_amount = ether 100"

definition sample_draft :: transaction where
  "sample_draft = (tx_init 1 ''tx1'' transfer ''w1'' ''0x0:w1'')\<lparr>sender := Some ''0x1'', recipient := Some ''0x2'',
     amount := Some sample_token_amount, fee := Some sample_token_amount\<rparr>"

definition sample_pending :: transaction where
  "sample_pending = sample_draft\<lparr>status := pending, transactionHash := Some ''0xabc'',
     submittedDate := Some 3, updatedDate := Some 3\<rparr>"

lemma sample_draft_steps:
  "tx_step (tx_init 1 ''tx1'' transfer ''w1'' ''0x0:w1'')
     ((tx_init 1 ''tx1'' transfer ''w1'' ''0x0:w1'')\<lparr>sender := Some ''0x1''\<rparr>)"
  "tx_step ((tx_init 1 ''tx1'' transfer ''w1'' ''0x0:w1'')\<lparr>sender := Some ''0x1''\<rparr>)
     ((tx_init 1 ''tx1'' transfer ''w1'' ''0x0:w1'')\<lparr>sender := Some ''0x1'', recipient := Some ''0x2''\<rparr>)"
  "tx_step ((tx_init 1 ''tx1'' transfer ''w1'' ''0x0:w1'')\<lparr>sender := Some ''0x1'', recipient := Some ''0x2''\<rparr>)
     ((tx_init 1 ''tx1'' transfer ''w1'' ''0x0:w1'')\<lparr>sender := Some ''0x1'', recipient := Some ''0x2'',
        amount := Some sample_token_amount\<rparr>)"
  "tx_step ((tx_init 1 ''tx1'' transfer ''w1'' ''0x0:w1'')\<lparr>sender := Some ''0x1'', recipient := Some ''0x2'',
        amount := Some sample_token_amount\<rparr>) sample_draft"
  by (rule senderS [of 1 "Some ''0x1''"] recipientS [of 1 "Some ''0x2''"] amountS [of 1 "Some sample_token_amount"]
        feeS [of 1 "Some sample_token_amount"],
      simp add: tx_edit_eq_Ok tx_init_def tx_stamp_defs sample_draft_def)+

lemma sample_pending_reachable: "tx_reachable sample_pending"
proof -
  have "tx_reachable sample_draft"
    by (meson tx_reachable.intros sample_draft_steps)
  moreover have "tx_step sample_draft (sample_draft\<lparr>transactionHash := Some ''0xabc'', updatedDate := Some 2\<rparr>)"
    by (rule setHashS [of 2 "''0xabc''"]) (simp add: set_hash_eq_Ok sample_draft_def tx_init_def tx_stamp_defs)
  moreover have "tx_step (sample_draft\<lparr>transactionHash := Some ''0xabc'', updatedDate := Some 2\<rparr>)
      (sample_draft\<lparr>transactionHash := Some ''0xabc'', updatedDate := Some 2, status := signing\<rparr>)"
    by (rule event [of "Proceed 2"]) (simp add: tx_apply_eq sample_draft_def tx_init_def tx_stamp_defs)
  moreover have "tx_step (sample_draft\<lparr>transactionHash := Some ''0xabc'', updatedDate := Some 2, status := signing\<rparr>)
      sample_pending"
    by (rule event [of "Proceed 3"])
       (simp add: tx_apply_eq sample_pending_def sample_draft_def tx_init_def tx_stamp_defs)
  ultimately show ?thesis by (meson tx_reachable.step)
qed

text \<open>
  C6. Reachable transactions are complete for their status: signatures are never duplicated; once out of
  the draft (and not discarded) sender, recipient, amount and fee are set; a pending, failed or
  successful transaction has its blockchain hash and submission date, a processed one its processing
  date and a rejected one its rejection date.
\<close>

theorem reachable_transaction_complete:
  assumes "tx_reachable tx"
  shows "distinct (signatures tx) \<and>
    (status tx \<in> {signing, pending, rejected, failed, success} \<longrightarrow>
       sender tx \<noteq> None \<and> recipient tx \<noteq> None \<and> amount tx \<noteq> None \<and> fee tx \<noteq> None) \<and>
    (status tx \<in> {pending, failed, success} \<longrightarrow> transactionHash tx \<noteq> None \<and> submittedDate tx \<noteq> None) \<and>
    (status tx \<in> {failed, success} \<longrightarrow> processedDate tx \<noteq> None) \<and>
    (status tx = rejected \<longrightarrow> rejectedDate tx \<noteq> None)"
  using tx_reachable_ok [OF assms] unfolding tx_ok_def .

theorem reachable_transaction_complete_witness:
  "status sample_pending = pending \<and> transactionHash sample_pending \<noteq> None \<and> fee sample_pending \<noteq> None"
proof -
  have "status sample_pending = pending" by (simp add: sample_pending_def)
  with reachable_transaction_complete [OF sample_pending_reachable] show ?thesis by simp
qed

text \<open>
  C19. The status graph is exactly the documented one: an event succeeds if and only if the graph has an
  edge for it from the current status and, for \<open>proceed\<close>, the required fields are set; it then leads
  to the edge's target. In every other case it traps.
\<close>

theorem transaction_status_graph:
  "case tx_next e (status tx) of
     None \<Rightarrow> tx_apply e tx = Trap
   | Some c \<Rightarrow> if tx_ready e tx then \<exists>tx'. tx_apply e tx = Ok tx' \<and> status tx' = c \<and> tx_id tx' = tx_id tx
                else tx_apply e tx = Trap"
  by (cases e; cases "status tx") (simp_all add: tx_apply_eq resetParameters_def)

text \<open>
  C32. Outside the draft status the parameters are frozen: no operation, whatever it is, changes sender,
  recipient, amount, fee, fee estimate, data, operation, nonce or hash, along any sequence of steps
  that stays out of the draft status.
\<close>

theorem parameters_frozen_outside_draft:
  assumes "rtranclp (\<lambda>a b. tx_step a b \<and> status a \<noteq> draft) tx tx'"
  shows "parameters_of tx' = parameters_of tx"
  using assms
  by (induction rule: rtranclp_induct) (auto simp: tx_step_frozen)

theorem parameters_frozen_outside_draft_witness:
  "parameters_of (sample_pending\<lparr>status := failed, processedDate := Some 9, updatedDate := Some 9\<rparr>)
     = parameters_of sample_pending"
proof -
  have "tx_step sample_pending (sample_pending\<lparr>status := failed, processedDate := Some 9, updatedDate := Some 9\<rparr>)"
    by (rule event [of "Fail 9"]) (simp add: tx_apply_eq sample_pending_def)
  then show ?thesis
    by (intro parameters_frozen_outside_draft) (simp add: r_into_rtranclp sample_pending_def)
qed

text \<open>
  Signatures: where they are editable, adding one makes the transaction signed by its address and
  never stores it twice, and removing a signature that was just added restores the list; elsewhere
  both operations trap.
\<close>

theorem signatures_add_remove:
  "if status tx \<in> {draft, signing}
   then \<exists>tx1. add_signature t s tx = Ok tx1 \<and> isSignedBy tx1 (sig_address s) \<and>
          set (signatures tx1) = insert s (set (signatures tx)) \<and>
          (distinct (signatures tx) \<longrightarrow> distinct (signatures tx1)) \<and>
          (s \<notin> set (signatures tx) \<longrightarrow>
             (\<exists>tx2. remove_signature t' s tx1 = Ok tx2 \<and> signatures tx2 = signatures tx))
   else add_signature t s tx = Trap \<and> remove_signature t s tx = Trap"
proof (cases "status tx \<in> {draft, signing}")
  case True
  define tx1 where "tx1 = (if s \<in> set (signatures tx) then tx
      else tx\<lparr>signatures := signatures tx @ [s], updatedDate := Some t\<rparr>)"
  have add: "add_signature t s tx = Ok tx1" using True by (simp add: add_signature_eq_Ok tx1_def)
  have "\<exists>tx2. remove_signature t' s tx1 = Ok tx2 \<and> signatures tx2 = signatures tx" if "s \<notin> set (signatures tx)"
    using that True by (simp add: remove_signature_eq_Ok tx1_def remove1_append)
  then show ?thesis
    using True add by (auto simp: tx1_def isSignedBy_def list_ex_iff)
next
  case False
  then show ?thesis
    by (cases "status tx") (simp_all add: add_signature_def remove_signature_def
        assertSignaturesEditable_def canChangeSignatures_def)
qed

theorem signatures_add_remove_witness:
  "\<exists>tx1. add_signature 1 \<lparr>sig_address = ''0x1'', sig_data = []\<rparr> sample_draft = Ok tx1 \<and> isSignedBy tx1 ''0x1''"
proof -
  have "status sample_draft \<in> {draft, signing}"
    by (simp add: sample_draft_def tx_init_def tx_stamp_defs)
  with signatures_add_remove [of sample_draft 1 "\<lparr>sig_address = ''0x1'', sig_data = []\<rparr>" 1]
  show ?thesis by (simp, blast)
qed

text \<open>
  Stepping back keeps signatures: after a transaction in signing is stepped back and its amount
  changed, it proceeds to signing again with all earlier signatures, although they were given for
  other parameters.
\<close>

theorem step_back_keeps_stale_signatures:
  assumes "status tx = signing" "tx_ok tx"
  shows "\<exists>tx1 tx2 tx3. stepBack tx = Ok tx1 \<and> change_amount t (Some a) tx1 = Ok tx2 \<and> proceed t tx2 = Ok tx3 \<and>
     status tx3 = signing \<and> amount tx3 = Some a \<and> signatures tx3 = signatures tx"
  using assms
  by (simp add: stepBack_def tx_edit_eq_Ok proceed_def draft_proceed_def tx_stamp_defs tx_ok_def assert_defs)

theorem step_back_keeps_stale_signatures_witness:
  "\<exists>tx1 tx2 tx3. stepBack (sample_draft\<lparr>status := signing\<rparr>) = Ok tx1 \<and>
     change_amount 5 (Some (ether 7)) tx1 = Ok tx2 \<and> proceed 5 tx2 = Ok tx3 \<and> amount tx3 = Some (ether 7)"
proof -
  have "tx_ok (sample_draft\<lparr>status := signing\<rparr>)" "status (sample_draft\<lparr>status := signing\<rparr>) = signing"
    by (simp_all add: tx_ok_def sample_draft_def tx_init_def tx_stamp_defs)
  then show ?thesis
    using step_back_keeps_stale_signatures [of "sample_draft\<lparr>status := signing\<rparr>" 5 "ether 7"] by blast
qed

text \<open>
  Routing on the blockchain: a transfer of ether goes to the recipient with its amount, a transfer of
  another token goes to the token contract with no ether; and the fee shown to the user exceeds the fee
  submitted by the price of the operational gas.
\<close>

theorem transfer_routing_and_fees:
  "(amount tx = Some a \<and> recipient tx = Some r \<longrightarrow>
      (ethTo tx, ethValue tx) = (if token_address (token_of a) = token_address Ether then (r, amount_of a)
                                 else (token_address (token_of a), 0))) \<and>
   amount_of (totalDisplayedToUser e) =
     amount_of (totalSubmittedToBlockchain e) + amount_of (gasPrice e) * operationalGas e \<and>
   token_of (totalDisplayedToUser e) = token_of (totalSubmittedToBlockchain e)"
  by (auto simp: ethTo_def ethValue_def isERC20Transfer_def token_id_def totalDisplayedToUser_def
      totalSubmittedToBlockchain_def algebra_simps)

theorem transfer_routing_and_fees_witness:
  "(ethTo sample_draft, ethValue sample_draft) = (''0x2'', 100)"
  using transfer_routing_and_fees [of sample_draft sample_token_amount "''0x2''"]
  by (simp add: sample_draft_def sample_token_amount_def ether_def tx_init_def tx_stamp_defs)

end
