(* ===== verification/Wallet.thy ===== *)
theory Wallet
  imports Tx "HOL-Library.List_Lexorder" "HOL-Library.Char_ord"
begin

section \<open>Wallet, its states and the portfolio\<close>

text \<open>
  \<^verbatim>\<open>MultisigWalletDomainModel/Wallet/Owner.swift\<close>, \<^verbatim>\<open>Wallet.swift\<close>, \<^verbatim>\<open>WalletStates.swift\<close> and
  \<^verbatim>\<open>Portfolio/Portfolio.swift\<close>. A wallet holds one object per state; the record keeps which of them is
  current. The methods of the states also save the wallet in its repository and publish domain events:
  \<open>world\<close> holds the wallet, the repository's copy and the events published so far, and \<open>ether_account\<close>,
  the wallet's ether account in the account repository (its balance may be unknown).
\<close>

subsection \<open>Owners\<close>

datatype ownerRole = thisDevice | browserExtension | paperWallet | paperWalletDerived | unknown

record owner =
  owner_address :: address
  owner_role :: ownerRole

type_synonym ownerList = "owner list"

definition first_with :: "ownerRole \<Rightarrow> ownerList \<Rightarrow> owner option" where
  "first_with r os = List.find (\<lambda>x. owner_role x = r) os"

definition sortedOwners :: "ownerList \<Rightarrow> owner list" where
  "sortedOwners os = sort_key (\<lambda>x. lowercased (owner_address x)) os"

definition remove_with :: "ownerRole \<Rightarrow> ownerList \<Rightarrow> ownerList" where
  "remove_with r os = filter (\<lambda>x. \<not> owner_role x = r) os"

subsection \<open>The wallet\<close>

datatype wstate = DraftState | DeployingState | NotEnoughFundsState | CreationStartedState
  | FinalizingDeploymentState | ReadyToUseState | RecoveryDraftState | RecoveryInProgressState
  | RecoveryPostProcessingState | WaitingForFirstDepositState

datatype wallet_error = ownerNotFound | invalidState

record wallet =
  wallet_id :: walletID
  state :: wstate
  address_of :: "address option"
  feePaymentTokenAddress :: "address option"
  creationTransactionHash :: "string option"
  minimumDeploymentTransactionAmount :: "int option"
  confirmationCount :: int
  owners :: ownerList
  masterCopyAddress :: "address option"
  contractVersion :: "string option"

definition canChangeOwners :: "wstate \<Rightarrow> bool" where
  "canChangeOwners s \<longleftrightarrow> s \<in> {DraftState, ReadyToUseState, RecoveryDraftState}"

definition canChangeTransactionHash :: "wstate \<Rightarrow> bool" where
  "canChangeTransactionHash s \<longleftrightarrow> s = FinalizingDeploymentState"

definition canChangeAddress :: "wstate \<Rightarrow> bool" where
  "canChangeAddress s \<longleftrightarrow> s \<in> {DeployingState, RecoveryDraftState}"

definition isReadyToUse :: "wstate \<Rightarrow> bool" where
  "isReadyToUse s \<longleftrightarrow> s = ReadyToUseState"

definition isCreationInProgress :: "wstate \<Rightarrow> bool" where
  "isCreationInProgress s \<longleftrightarrow> s \<in> {DeployingState, WaitingForFirstDepositState, NotEnoughFundsState,
     CreationStartedState, FinalizingDeploymentState}"

definition isRecoveryInProgress :: "wstate \<Rightarrow> bool" where
  "isRecoveryInProgress s \<longleftrightarrow> s \<in> {RecoveryInProgressState, RecoveryPostProcessingState}"

definition isFinalizingRecovery :: "wstate \<Rightarrow> bool" where
  "isFinalizingRecovery s \<longleftrightarrow> s = RecoveryPostProcessingState"

definition assertCanChangeOwners :: "wallet \<Rightarrow> (wallet_error, unit) outcome" where
  "assertCanChangeOwners w = tryBang (assertTrue (canChangeOwners (state w)) invalidState)"

definition owner_with :: "wallet \<Rightarrow> ownerRole \<Rightarrow> owner option" where
  "owner_with w r = first_with r (owners w)"

definition allOwners :: "wallet \<Rightarrow> owner list" where
  "allOwners w = sortedOwners (owners w)"

definition addOwner :: "wallet \<Rightarrow> owner \<Rightarrow> (wallet_error, wallet) outcome" where
  "addOwner w x =
     obind (assertCanChangeOwners w) (\<lambda>_.
     if owner_role x = unknown then Ok (w\<lparr>owners := owners w @ [x]\<rparr>)
     else Ok (w\<lparr>owners := remove_with (owner_role x) (owners w) @ [x]\<rparr>))"

definition assertOwnerExists :: "wallet \<Rightarrow> ownerRole \<Rightarrow> (wallet_error, unit) outcome" where
  "assertOwnerExists w r = tryBang (assertNotNil (owner_with w r) ownerNotFound)"

definition removeOwner :: "wallet \<Rightarrow> ownerRole \<Rightarrow> (wallet_error, wallet) outcome" where
  "removeOwner w r =
     obind (assertCanChangeOwners w) (\<lambda>_.
     obind (assertOwnerExists w r) (\<lambda>_.
     Ok (w\<lparr>owners := remove_with r (owners w)\<rparr>)))"

definition contains_owner :: "wallet \<Rightarrow> owner \<Rightarrow> bool" where
  "contains_owner w x \<longleftrightarrow> x \<in> set (owners w)"

definition wallet_empty :: "walletID \<Rightarrow> wallet" where
  "wallet_empty i = \<lparr>wallet_id = i, state = DraftState, address_of = None, feePaymentTokenAddress = None,
     creationTransactionHash = None, minimumDeploymentTransactionAmount = None, confirmationCount = 1,
     owners = [], masterCopyAddress = None, contractVersion = None\<rparr>"

definition wallet_init :: "walletID \<Rightarrow> address \<Rightarrow> (wallet_error, wallet) outcome" where
  "wallet_init i a = addOwner (wallet_empty i) \<lparr>owner_address = a, owner_role = thisDevice\<rparr>"

fun addOwners :: "wallet \<Rightarrow> owner list \<Rightarrow> (wallet_error, wallet) outcome" where
  "addOwners w [] = Ok w"
| "addOwners w (x # xs) = obind (addOwner w x) (\<lambda>w'. addOwners w' xs)"

definition wallet_restore ::
  "walletID \<Rightarrow> wstate \<Rightarrow> ownerList \<Rightarrow> address option \<Rightarrow> address option \<Rightarrow> int option \<Rightarrow> string option
   \<Rightarrow> int \<Rightarrow> address option \<Rightarrow> string option \<Rightarrow> (wallet_error, wallet) outcome" where
  "wallet_restore i s os a feeToken minAmount hash confirmations masterCopy version =
     obind (addOwners (wallet_empty i) os) (\<lambda>w.
     Ok (w\<lparr>state := s, address_of := a, feePaymentTokenAddress := feeToken,
           minimumDeploymentTransactionAmount := minAmount, creationTransactionHash := hash,
           confirmationCount := confirmations, masterCopyAddress := masterCopy, contractVersion := version\<rparr>))"

definition prepareForRecovery :: "wallet \<Rightarrow> wallet" where
  "prepareForRecovery w = w\<lparr>state := RecoveryDraftState,
     owners := filter (\<lambda>x. owner_role x = thisDevice) (owners w), confirmationCount := 1\<rparr>"

definition prepareForCreation :: "wallet \<Rightarrow> wallet" where
  "prepareForCreation w =
     (if state w = DraftState then w
      else w\<lparr>state := DraftState,
             owners := filter (\<lambda>x. owner_role x = thisDevice) (owners w), confirmationCount := 1\<rparr>)"

definition assignCreationTransaction :: "wallet \<Rightarrow> string option \<Rightarrow> (wallet_error, wallet) outcome" where
  "assignCreationTransaction w h =
     obind (tryBang (assertTrue (canChangeTransactionHash (state w)) invalidState)) (\<lambda>_.
     Ok (w\<lparr>creationTransactionHash := h\<rparr>))"

definition changeAddress :: "wallet \<Rightarrow> address option \<Rightarrow> (wallet_error, wallet) outcome" where
  "changeAddress w a =
     obind (tryBang (assertTrue (canChangeAddress (state w)) invalidState)) (\<lambda>_.
     Ok (w\<lparr>address_of := a\<rparr>))"

definition changeConfirmationCount :: "wallet \<Rightarrow> int \<Rightarrow> wallet" where
  "changeConfirmationCount w n = w\<lparr>confirmationCount := n\<rparr>"

definition changeFeePaymentToken :: "wallet \<Rightarrow> address \<Rightarrow> wallet" where
  "changeFeePaymentToken w a = w\<lparr>feePaymentTokenAddress := Some a\<rparr>"

definition updateMinimumTransactionAmount :: "wallet \<Rightarrow> int \<Rightarrow> (wallet_error, wallet) outcome" where
  "updateMinimumTransactionAmount w n =
     obind (tryBang (assertTrue (canChangeAddress (state w)) invalidState)) (\<lambda>_.
     Ok (w\<lparr>minimumDeploymentTransactionAmount := Some n\<rparr>))"

definition changeMasterCopy :: "wallet \<Rightarrow> address option \<Rightarrow> wallet" where
  "changeMasterCopy w a = w\<lparr>masterCopyAddress := a\<rparr>"

definition changeContractVersion :: "wallet \<Rightarrow> string option \<Rightarrow> wallet" where
  "changeContractVersion w v = w\<lparr>contractVersion := v\<rparr>"

definition wallet_reset :: "wallet \<Rightarrow> wallet" where
  "wallet_reset w = w\<lparr>creationTransactionHash := None, address_of := None,
     minimumDeploymentTransactionAmount := None\<rparr>"

subsection \<open>The states\<close>

datatype wallet_event = DeploymentStarted | StartedWaitingForFirstDeposit | DeploymentAborted
  | StartedWaitingForRemainingFeeAmount | CreationStarted | DeploymentFunded | WalletCreated
  | WalletCreationFailed | RecoveryStarted | RecoveryAborted | WalletRecovered | WalletRecoveryFailed

record world =
  the_wallet :: wallet
  saved :: "wallet option"
  published :: "wallet_event list"
  ether_account :: "int option option"

definition publish :: "wallet_event \<Rightarrow> world \<Rightarrow> world" where
  "publish e x = x\<lparr>published := published x @ [e]\<rparr>"

definition save_wallet :: "world \<Rightarrow> world" where
  "save_wallet x = x\<lparr>saved := Some (the_wallet x)\<rparr>"

definition set_state :: "wstate \<Rightarrow> world \<Rightarrow> world" where
  "set_state s x = x\<lparr>the_wallet := (the_wallet x)\<lparr>state := s\<rparr>\<rparr>"

definition requiredRoles :: "ownerRole list" where
  "requiredRoles = [thisDevice, paperWallet, paperWalletDerived]"

definition hasAllRoles :: "wallet \<Rightarrow> bool" where
  "hasAllRoles w = foldl (\<lambda>b r. b \<and> owner_with w r \<noteq> None) True requiredRoles"

definition isDeployable :: "wallet \<Rightarrow> bool" where
  "isDeployable w \<longleftrightarrow> state w = DraftState \<and> hasAllRoles w"

text \<open>\<open>resume\<close> of the states in which it only republishes the event that led there.\<close>

definition resume_published :: "world \<Rightarrow> world" where
  "resume_published x = (case state (the_wallet x) of
      DeployingState \<Rightarrow> publish DeploymentStarted x
    | WaitingForFirstDepositState \<Rightarrow> publish StartedWaitingForFirstDeposit x
    | NotEnoughFundsState \<Rightarrow> publish StartedWaitingForRemainingFeeAmount x
    | CreationStartedState \<Rightarrow> publish DeploymentFunded x
    | FinalizingDeploymentState \<Rightarrow> publish CreationStarted x
    | RecoveryInProgressState \<Rightarrow> publish RecoveryStarted x
    | _ \<Rightarrow> x)"

text \<open>The common body: change the state, save, resume the new state.\<close>

definition move_to :: "wstate \<Rightarrow> world \<Rightarrow> world" where
  "move_to s x = resume_published (save_wallet (set_state s x))"

definition wallet_proceed :: "world \<Rightarrow> (wallet_error, world) outcome" where
  "wallet_proceed x = (case state (the_wallet x) of
      DraftState \<Rightarrow> Ok (move_to DeployingState x)
    | DeployingState \<Rightarrow> Ok (move_to WaitingForFirstDepositState x)
    | WaitingForFirstDepositState \<Rightarrow>
        (case minimumDeploymentTransactionAmount (the_wallet x) of
           None \<Rightarrow> Trap
         | Some minimumBalance \<Rightarrow>
             obind (unwrap (ether_account x)) (\<lambda>bal.
             let balance = (case bal of None \<Rightarrow> 0 | Some b \<Rightarrow> b)
             in Ok (move_to (if balance < minimumBalance then NotEnoughFundsState else CreationStartedState) x)))
    | NotEnoughFundsState \<Rightarrow> Ok (move_to CreationStartedState x)
    | CreationStartedState \<Rightarrow> Ok (move_to FinalizingDeploymentState x)
    | FinalizingDeploymentState \<Rightarrow> Ok (publish WalletCreated (save_wallet (set_state ReadyToUseState x)))
    | ReadyToUseState \<Rightarrow> Ok x
    | RecoveryDraftState \<Rightarrow> Ok (move_to RecoveryInProgressState x)
    | RecoveryInProgressState \<Rightarrow> Ok (move_to RecoveryPostProcessingState x)
    | RecoveryPostProcessingState \<Rightarrow> Ok (publish WalletRecovered (save_wallet (set_state ReadyToUseState x))))"

definition wallet_resume :: "world \<Rightarrow> (wallet_error, world) outcome" where
  "wallet_resume x = (case state (the_wallet x) of
      DraftState \<Rightarrow>
        (if \<not> (hasAllRoles (the_wallet x) \<and> length (allOwners (the_wallet x)) \<le> 4) then Trap
         else let confirmations = (if owner_with (the_wallet x) browserExtension = None then 1 else 2)
              in wallet_proceed (x\<lparr>the_wallet := changeConfirmationCount (the_wallet x) confirmations\<rparr>))
    | RecoveryDraftState \<Rightarrow> wallet_proceed x
    | _ \<Rightarrow> Ok (resume_published x))"

definition abort_to :: "wstate \<Rightarrow> wallet_event \<Rightarrow> world \<Rightarrow> world" where
  "abort_to s e x = (let y = set_state s x
     in publish e (save_wallet (y\<lparr>the_wallet := wallet_reset (the_wallet y)\<rparr>)))"

definition wallet_cancel :: "world \<Rightarrow> world" where
  "wallet_cancel x = (case state (the_wallet x) of
      DeployingState \<Rightarrow> abort_to DraftState DeploymentAborted x
    | WaitingForFirstDepositState \<Rightarrow> abort_to DraftState DeploymentAborted x
    | NotEnoughFundsState \<Rightarrow> abort_to DraftState DeploymentAborted x
    | CreationStartedState \<Rightarrow> abort_to DraftState DeploymentAborted x
    | FinalizingDeploymentState \<Rightarrow> publish WalletCreationFailed x
    | RecoveryInProgressState \<Rightarrow> abort_to RecoveryDraftState RecoveryAborted x
    | RecoveryPostProcessingState \<Rightarrow> abort_to RecoveryDraftState WalletRecoveryFailed x
    | _ \<Rightarrow> x)"

lemmas world_defs = publish_def save_wallet_def set_state_def move_to_def resume_published_def
  abort_to_def wallet_reset_def changeConfirmationCount_def

subsection \<open>Portfolio\<close>

datatype portfolio_error = walletAlreadyExists | walletNotFound

record portfolio =
  portfolio_id :: string
  selectedWallet :: "walletID option"
  wallets :: "walletID list"

definition portfolio_init :: "string \<Rightarrow> portfolio" where
  "portfolio_init i = \<lparr>portfolio_id = i, selectedWallet = None, wallets = []\<rparr>"

definition hasWallet :: "portfolio \<Rightarrow> walletID \<Rightarrow> bool" where
  "hasWallet p w \<longleftrightarrow> w \<in> set (wallets p)"

definition addWallet :: "portfolio \<Rightarrow> walletID \<Rightarrow> (portfolio_error, portfolio) outcome" where
  "addWallet p w =
     obind (tryBang (assertFalse (hasWallet p w) walletAlreadyExists)) (\<lambda>_.
     let p1 = (if wallets p = [] then p\<lparr>selectedWallet := Some w\<rparr> else p)
     in Ok (p1\<lparr>wallets := wallets p1 @ [w]\<rparr>))"

definition removeWallet :: "portfolio \<Rightarrow> walletID \<Rightarrow> (portfolio_error, portfolio) outcome" where
  "removeWallet p w =
     obind (unwrap (firstIndex (\<lambda>x. x = w) (wallets p))) (\<lambda>index.
     let p1 = p\<lparr>wallets := take index (wallets p) @ drop (Suc index) (wallets p)\<rparr>
     in Ok (if wallets p1 = [] then p1\<lparr>selectedWallet := None\<rparr> else p1))"

definition selectWallet :: "portfolio \<Rightarrow> walletID \<Rightarrow> (portfolio_error, portfolio) outcome" where
  "selectWallet p w =
     obind (tryBang (assertTrue (hasWallet p w) walletNotFound)) (\<lambda>_.
     Ok (p\<lparr>selectedWallet := Some w\<rparr>))"

fun addWallets :: "portfolio \<Rightarrow> walletID list \<Rightarrow> (portfolio_error, portfolio) outcome" where
  "addWallets p [] = Ok p"
| "addWallets p (w # ws) = obind (addWallet p w) (\<lambda>p'. addWallets p' ws)"

definition portfolio_restore :: "string \<Rightarrow> walletID list \<Rightarrow> walletID option \<Rightarrow> (portfolio_error, portfolio) outcome" where
  "portfolio_restore i ws sel =
     obind (addWallets (portfolio_init i) ws) (\<lambda>p.
     case sel of None \<Rightarrow> Ok p | Some w \<Rightarrow> selectWallet p w)"

subsection \<open>Owners have different roles\<close>

definition roles_unique :: "ownerList \<Rightarrow> bool" where
  "roles_unique os \<longleftrightarrow> distinct (filter (\<lambda>r. r \<noteq> unknown) (map owner_role os))"

lemma roles_unique_Nil [simp]: "roles_unique []"
  by (simp add: roles_unique_def)

lemma roles_unique_append_Cons:
  "roles_unique (os @ [x]) \<longleftrightarrow>
     roles_unique os \<and> (owner_role x = unknown \<or> (\<forall>y \<in> set os. owner_role y \<noteq> owner_role x))"
  by (auto simp: roles_unique_def image_iff)

lemma roles_unique_filter: "roles_unique os \<Longrightarrow> roles_unique (filter P os)"
  unfolding roles_unique_def
  by (induction os) auto

lemma remove_with_absent: "\<forall>y \<in> set os. owner_role y \<noteq> r \<Longrightarrow> remove_with r os = os"
  by (simp add: remove_with_def)

lemma addOwner_eq_Ok:
  "addOwner w x = Ok w' \<longleftrightarrow> canChangeOwners (state w) \<and>
     w' = w\<lparr>owners := (if owner_role x = unknown then owners w else remove_with (owner_role x) (owners w)) @ [x]\<rparr>"
  by (auto simp: addOwner_def assertCanChangeOwners_def outcome_Ok_iff assert_eq_Ok)

lemma removeOwner_eq_Ok:
  "removeOwner w r = Ok w' \<longleftrightarrow> canChangeOwners (state w) \<and> owner_with w r \<noteq> None \<and>
     w' = w\<lparr>owners := remove_with r (owners w)\<rparr>"
  by (auto simp: removeOwner_def assertCanChangeOwners_def assertOwnerExists_def outcome_Ok_iff assert_eq_Ok)

lemma addOwner_unique: "addOwner w x = Ok w' \<Longrightarrow> roles_unique (owners w) \<Longrightarrow> roles_unique (owners w')"
  by (auto simp: addOwner_eq_Ok roles_unique_append_Cons remove_with_def roles_unique_filter)

lemma addOwners_unique:
  "canChangeOwners (state w) \<Longrightarrow> roles_unique (owners w @ os) \<Longrightarrow>
     addOwners w os = Ok (w\<lparr>owners := owners w @ os\<rparr>)"
proof (induction os arbitrary: w)
  case Nil
  then show ?case by simp
next
  case (Cons x os)
  have u: "roles_unique (owners w @ [x])"
    using Cons.prems(2) by (auto simp: roles_unique_def)
  then have add: "addOwner w x = Ok (w\<lparr>owners := owners w @ [x]\<rparr>)"
    using Cons.prems(1) by (auto simp: addOwner_eq_Ok roles_unique_append_Cons remove_with_absent)
  have "addOwners (w\<lparr>owners := owners w @ [x]\<rparr>) os = Ok (w\<lparr>owners := owners w @ x # os\<rparr>)"
    using Cons.IH [of "w\<lparr>owners := owners w @ [x]\<rparr>"] Cons.prems by simp
  with add show ?case by simp
qed

subsection \<open>Steps of a wallet\<close>

inductive world_step :: "world \<Rightarrow> world \<Rightarrow> bool" where
  resumeW: "wallet_resume x = Ok y \<Longrightarrow> world_step x y"
| proceedW: "wallet_proceed x = Ok y \<Longrightarrow> world_step x y"
| cancelW: "world_step x (wallet_cancel x)"
| addW: "addOwner (the_wallet x) w = Ok v \<Longrightarrow> world_step x (x\<lparr>the_wallet := v\<rparr>)"
| removeW: "removeOwner (the_wallet x) r = Ok v \<Longrightarrow> world_step x (x\<lparr>the_wallet := v\<rparr>)"
| recoveryW: "world_step x (x\<lparr>the_wallet := prepareForRecovery (the_wallet x)\<rparr>)"
| creationW: "world_step x (x\<lparr>the_wallet := prepareForCreation (the_wallet x)\<rparr>)"
| hashW: "assignCreationTransaction (the_wallet x) h = Ok v \<Longrightarrow> world_step x (x\<lparr>the_wallet := v\<rparr>)"
| addressW: "changeAddress (the_wallet x) a = Ok v \<Longrightarrow> world_step x (x\<lparr>the_wallet := v\<rparr>)"
| minimumW: "updateMinimumTransactionAmount (the_wallet x) n = Ok v \<Longrightarrow> world_step x (x\<lparr>the_wallet := v\<rparr>)"
| confirmW: "world_step x (x\<lparr>the_wallet := changeConfirmationCount (the_wallet x) n\<rparr>)"
| feeTokenW: "world_step x (x\<lparr>the_wallet := changeFeePaymentToken (the_wallet x) f\<rparr>)"
| masterW: "world_step x (x\<lparr>the_wallet := changeMasterCopy (the_wallet x) m\<rparr>)"
| versionW: "world_step x (x\<lparr>the_wallet := changeContractVersion (the_wallet x) c\<rparr>)"
| balanceW: "world_step x (x\<lparr>ether_account := b\<rparr>)"

inductive world_reachable :: "world \<Rightarrow> bool" where
  start: "wallet_init i a = Ok w \<Longrightarrow>
    world_reachable \<lparr>the_wallet = w, saved = None, published = [], ether_account = b\<rparr>"
| step: "world_reachable x \<Longrightarrow> world_step x y \<Longrightarrow> world_reachable y"

text \<open>The states and their events leave the owners alone.\<close>

lemma move_to_owners: "owners (the_wallet (move_to s x)) = owners (the_wallet x)"
  by (cases s) (simp_all add: world_defs)

lemma proceed_owners: "wallet_proceed x = Ok y \<Longrightarrow> owners (the_wallet y) = owners (the_wallet x)"
  by (cases "state (the_wallet x)")
     (auto simp: wallet_proceed_def move_to_owners outcome_Ok_iff Let_def publish_def save_wallet_def
        set_state_def split: option.splits)

lemma resume_owners: "wallet_resume x = Ok y \<Longrightarrow> owners (the_wallet y) = owners (the_wallet x)"
  by (cases "state (the_wallet x)")
     (auto simp: wallet_resume_def resume_published_def publish_def changeConfirmationCount_def
        dest: proceed_owners split: if_splits)

lemma cancel_owners: "owners (the_wallet (wallet_cancel x)) = owners (the_wallet x)"
  by (cases "state (the_wallet x)") (simp_all add: wallet_cancel_def world_defs Let_def)

lemma world_step_unique:
  "world_step x y \<Longrightarrow> roles_unique (owners (the_wallet x)) \<Longrightarrow> roles_unique (owners (the_wallet y))"
proof (induction rule: world_step.induct)
  case (resumeW x y)
  then show ?case by (simp add: resume_owners)
next
  case (proceedW x y)
  then show ?case by (simp add: proceed_owners)
next
  case (cancelW x)
  then show ?case by (simp add: cancel_owners)
next
  case (addW x w v)
  then show ?case by (auto dest: addOwner_unique)
qed (auto simp: removeOwner_eq_Ok remove_with_def roles_unique_filter prepareForRecovery_def
    prepareForCreation_def assignCreationTransaction_def changeAddress_def updateMinimumTransactionAmount_def
    changeConfirmationCount_def changeFeePaymentToken_def changeMasterCopy_def changeContractVersion_def
    outcome_Ok_iff)

lemma world_reachable_unique: "world_reachable x \<Longrightarrow> roles_unique (owners (the_wallet x))"
  by (induction rule: world_reachable.induct)
     (auto simp: wallet_init_def wallet_empty_def intro: world_step_unique addOwner_unique)

subsection \<open>Properties\<close>

definition sample_owner :: "ownerRole \<Rightarrow> owner" where
  "sample_owner r = \<lparr>owner_address = ''0x1'', owner_role = r\<rparr>"

definition sample_wallet :: wallet where
  "sample_wallet = (wallet_empty ''w1'')\<lparr>owners := [sample_owner thisDevice, sample_owner paperWallet,
     sample_owner paperWalletDerived]\<rparr>"

definition sample_world :: world where
  "sample_world = \<lparr>the_wallet = sample_wallet, saved = None, published = [], ether_account = Some (Some 5)\<rparr>"

lemma sample_world_reachable: "world_reachable sample_world"
proof -
  let ?w = "\<lambda>os. (wallet_empty ''w1'')\<lparr>owners := os\<rparr>"
  let ?x = "\<lambda>os. \<lparr>the_wallet = ?w os, saved = None, published = [], ether_account = Some (Some 5)\<rparr>"
  have add: "addOwner (?w os) (sample_owner r) = Ok (?w (os @ [sample_owner r]))"
    if "\<forall>y \<in> set os. owner_role y \<noteq> r" "r \<noteq> unknown" for os r
    using that by (simp add: addOwner_eq_Ok wallet_empty_def canChangeOwners_def sample_owner_def remove_with_absent)
  have "wallet_init ''w1'' ''0x1'' = Ok (?w [sample_owner thisDevice])"
    using add [of "[]" thisDevice] by (simp add: wallet_init_def sample_owner_def wallet_empty_def)
  then have r: "world_reachable (?x [sample_owner thisDevice])" by (rule world_reachable.start)
  have s1: "world_step (?x [sample_owner thisDevice]) (?x [sample_owner thisDevice, sample_owner paperWallet])"
    using addW [of "?x [sample_owner thisDevice]"] add [of "[sample_owner thisDevice]" paperWallet]
    by (force simp: sample_owner_def)
  have s2: "world_step (?x [sample_owner thisDevice, sample_owner paperWallet]) sample_world"
    using addW [of "?x [sample_owner thisDevice, sample_owner paperWallet]"]
      add [of "[sample_owner thisDevice, sample_owner paperWallet]" paperWalletDerived]
    by (force simp: sample_owner_def sample_world_def sample_wallet_def)
  show ?thesis using r s1 s2 by (meson world_reachable.step)
qed

text \<open>
  Owners: in every wallet the program can reach, no two owners share a role other than \<open>unknown\<close>, and
  such a wallet survives being stored and restored field by field.
\<close>

theorem wallet_owners_and_restore:
  assumes "world_reachable x"
  shows "roles_unique (owners (the_wallet x)) \<and>
    (let w = the_wallet x in
     wallet_restore (wallet_id w) (state w) (owners w) (address_of w) (feePaymentTokenAddress w)
       (minimumDeploymentTransactionAmount w) (creationTransactionHash w) (confirmationCount w)
       (masterCopyAddress w) (contractVersion w) = Ok w)"
proof -
  have u: "roles_unique (owners (the_wallet x))" by (rule world_reachable_unique [OF assms])
  have "addOwners (wallet_empty i) (owners (the_wallet x)) =
      Ok ((wallet_empty i)\<lparr>owners := owners (the_wallet x)\<rparr>)" for i
    using addOwners_unique [of "wallet_empty i" "owners (the_wallet x)"] u
    by (simp add: wallet_empty_def canChangeOwners_def)
  then show ?thesis
    using u by (simp add: wallet_restore_def wallet_empty_def Let_def)
qed

theorem wallet_owners_and_restore_witness: "roles_unique (owners (the_wallet sample_world))"
  using wallet_owners_and_restore [OF sample_world_reachable] by blast

text \<open>
  C21. Deployment runs through: a draft wallet with the three required roles and at most four owners,
  resumed, given its minimum amount while deploying and moved on, becomes ready to use; it waits for the
  missing amount exactly when the ether balance is below the minimum, publishes the events of the way in
  order, ends up saved as it is, and asks for two confirmations exactly when there is a browser extension.
\<close>

fun proceed_times :: "nat \<Rightarrow> world \<Rightarrow> (wallet_error, world) outcome" where
  "proceed_times 0 x = Ok x"
| "proceed_times (Suc n) x = obind (wallet_proceed x) (proceed_times n)"

theorem deployment_reaches_ready:
  assumes "isDeployable (the_wallet x)" "length (owners (the_wallet x)) \<le> 4"
    and "ether_account x = Some bal"
  defines "balance \<equiv> (case bal of None \<Rightarrow> 0 | Some b \<Rightarrow> b)"
  shows "\<exists>x1 w1 y. wallet_resume x = Ok x1 \<and>
     updateMinimumTransactionAmount (the_wallet x1) m = Ok w1 \<and>
     proceed_times (if balance < m then 5 else 4) (x1\<lparr>the_wallet := w1\<rparr>) = Ok y \<and>
     isReadyToUse (state (the_wallet y)) \<and> saved y = Some (the_wallet y) \<and>
     owners (the_wallet y) = owners (the_wallet x) \<and>
     confirmationCount (the_wallet y) = (if owner_with (the_wallet x) browserExtension = None then 1 else 2) \<and>
     published y = published x @ [DeploymentStarted, StartedWaitingForFirstDeposit] @
       (if balance < m then [StartedWaitingForRemainingFeeAmount] else []) @
       [DeploymentFunded, CreationStarted, WalletCreated]"
proof -
  let ?c = "if owner_with (the_wallet x) browserExtension = None then 1 else 2"
  define x0 where "x0 = x\<lparr>the_wallet := changeConfirmationCount (the_wallet x) ?c\<rparr>"
  have draft: "state (the_wallet x) = DraftState" "hasAllRoles (the_wallet x)"
    using assms(1) by (simp_all add: isDeployable_def)
  have "length (allOwners (the_wallet x)) \<le> 4"
    using assms(2) by (simp add: allOwners_def sortedOwners_def)
  then have r: "wallet_resume x = Ok (move_to DeployingState x0)"
    using draft by (simp add: wallet_resume_def x0_def wallet_proceed_def changeConfirmationCount_def)
  have st: "state (the_wallet (move_to DeployingState x0)) = DeployingState"
    by (simp add: world_defs)
  then have m: "updateMinimumTransactionAmount (the_wallet (move_to DeployingState x0)) m =
      Ok ((the_wallet (move_to DeployingState x0))\<lparr>minimumDeploymentTransactionAmount := Some m\<rparr>)"
    by (simp add: updateMinimumTransactionAmount_def canChangeAddress_def)
  show ?thesis
    using r m assms(3)
    by (cases "balance < m")
       (simp_all add: wallet_proceed_def world_defs x0_def balance_def isReadyToUse_def eval_nat_numeral)
qed

theorem deployment_reaches_ready_witness:
  "\<exists>x1 w1 y. wallet_resume sample_world = Ok x1 \<and> updateMinimumTransactionAmount (the_wallet x1) 7 = Ok w1 \<and>
     proceed_times 5 (x1\<lparr>the_wallet := w1\<rparr>) = Ok y \<and> isReadyToUse (state (the_wallet y))"
proof -
  have "isDeployable (the_wallet sample_world)" "length (owners (the_wallet sample_world)) \<le> 4"
    "ether_account sample_world = Some (Some 5)"
    by (simp_all add: isDeployable_def hasAllRoles_def requiredRoles_def sample_world_def sample_wallet_def
        wallet_empty_def owner_with_def first_with_def sample_owner_def)
  from deployment_reaches_ready [OF this, of 7] show ?thesis by auto
qed

text \<open>
  Cancelling: from every state before the deployment is finalised the wallet goes back to a draft with
  address, hash and minimum cleared and its owners kept, saved, with one \<open>DeploymentAborted\<close>; a recovery
  goes back to its draft likewise; a deployment that is being finalised only reports the failure; in the
  other states nothing happens.
\<close>

theorem cancel_effect:
  "wallet_cancel x =
     (let w = the_wallet x;
          back = (\<lambda>s e. let w' = w\<lparr>state := s, creationTransactionHash := None, address_of := None,
                                    minimumDeploymentTransactionAmount := None\<rparr>
                         in x\<lparr>the_wallet := w', saved := Some w', published := published x @ [e]\<rparr>)
      in if isCreationInProgress (state w) \<and> state w \<noteq> FinalizingDeploymentState then back DraftState DeploymentAborted
         else if state w = FinalizingDeploymentState then x\<lparr>published := published x @ [WalletCreationFailed]\<rparr>
         else if isRecoveryInProgress (state w)
         then back RecoveryDraftState (if isFinalizingRecovery (state w) then WalletRecoveryFailed else RecoveryAborted)
         else x)"
  by (cases "state (the_wallet x)")
     (simp_all add: wallet_cancel_def world_defs Let_def isCreationInProgress_def isRecoveryInProgress_def
        isFinalizingRecovery_def)

subsection \<open>The portfolio\<close>

lemma addWallet_eq_Ok:
  "addWallet p w = Ok p' \<longleftrightarrow> w \<notin> set (wallets p) \<and>
     p' = p\<lparr>wallets := wallets p @ [w], selectedWallet := (if wallets p = [] then Some w else selectedWallet p)\<rparr>"
  by (auto simp: addWallet_def hasWallet_def outcome_Ok_iff assert_eq_Ok Let_def)

lemma selectWallet_eq_Ok:
  "selectWallet p w = Ok p' \<longleftrightarrow> w \<in> set (wallets p) \<and> p' = p\<lparr>selectedWallet := Some w\<rparr>"
  by (auto simp: selectWallet_def hasWallet_def outcome_Ok_iff assert_eq_Ok)

lemma removeWallet_result:
  "removeWallet p w = (if w \<in> set (wallets p)
     then Ok (p\<lparr>wallets := remove1 w (wallets p),
                selectedWallet := (if remove1 w (wallets p) = [] then None else selectedWallet p)\<rparr>)
     else Trap)"
proof (cases "firstIndex (\<lambda>x. x = w) (wallets p)")
  case None
  then have "w \<notin> set (wallets p)" by (simp add: firstIndex_eq_None)
  with None show ?thesis by (simp add: removeWallet_def)
next
  case (Some i)
  then have "w \<in> set (wallets p)" using firstIndex_eq_None [of w "wallets p"] by auto
  then show ?thesis
    unfolding removeWallet_def Some unwrap_simps obind_simps remove_at_firstIndex [OF Some] Let_def by simp
qed

inductive portfolio_reachable :: "portfolio \<Rightarrow> bool" where
  start: "portfolio_reachable (portfolio_init i)"
| addP: "portfolio_reachable p \<Longrightarrow> addWallet p w = Ok p' \<Longrightarrow> portfolio_reachable p'"
| removeP: "portfolio_reachable p \<Longrightarrow> removeWallet p w = Ok p' \<Longrightarrow> portfolio_reachable p'"
| selectP: "portfolio_reachable p \<Longrightarrow> selectWallet p w = Ok p' \<Longrightarrow> portfolio_reachable p'"

lemma portfolio_reachable_ok:
  "portfolio_reachable p \<Longrightarrow> distinct (wallets p) \<and> (selectedWallet p = None \<longleftrightarrow> wallets p = [])"
  by (induction rule: portfolio_reachable.induct)
     (auto simp: portfolio_init_def addWallet_eq_Ok selectWallet_eq_Ok removeWallet_result split: if_splits)

text \<open>
  Portfolio: wallets are never listed twice, and some wallet is selected exactly when there is one;
  the selected wallet is one of the list, except after the selected wallet itself was removed while
  others remain: the portfolio then keeps selecting the removed wallet. Removing an unknown wallet traps.
\<close>

theorem portfolio_selection:
  assumes "portfolio_reachable p"
  shows "distinct (wallets p) \<and> (selectedWallet p = None \<longleftrightarrow> wallets p = []) \<and>
    (w \<notin> set (wallets p) \<longrightarrow> removeWallet p w = Trap) \<and>
    (w \<in> set (wallets p) \<longrightarrow> (\<exists>p'. removeWallet p w = Ok p' \<and> set (wallets p') = set (wallets p) - {w} \<and>
       (selectedWallet p = Some w \<and> wallets p' \<noteq> [] \<longrightarrow>
          selectedWallet p' = Some w \<and> w \<notin> set (wallets p'))))"
  using portfolio_reachable_ok [OF assms] by (auto simp: removeWallet_result)

theorem portfolio_selection_witness:
  "\<exists>p p'. portfolio_reachable p \<and> removeWallet p ''a'' = Ok p' \<and> selectedWallet p' = Some ''a'' \<and> wallets p' = [''b'']"
proof -
  let ?p1 = "\<lparr>portfolio_id = ''p'', selectedWallet = Some ''a'', wallets = [''a'']\<rparr>"
  let ?p2 = "?p1\<lparr>wallets := [''a'', ''b'']\<rparr>"
  have "portfolio_reachable ?p1"
    by (rule addP [OF start [of "''p''"], of "''a''"]) (simp add: addWallet_eq_Ok portfolio_init_def)
  then have r: "portfolio_reachable ?p2"
    by (rule addP [of _ "''b''"]) (simp add: addWallet_eq_Ok)
  from portfolio_selection [OF r, of "''a''"] obtain p' where
    p': "removeWallet ?p2 ''a'' = Ok p'" by auto
  then have "selectedWallet p' = Some ''a''" "wallets p' = [''b'']"
    by (auto simp: removeWallet_result)
  with r p' show ?thesis by blast
qed

end
