(* ===== verification/TxService.thy ===== *)
theory TxService
  imports Wallet "HOL-Library.Multiset" "HOL-Library.Product_Lexorder"
begin

section \<open>The transaction service\<close>

text \<open>
  \<^verbatim>\<open>MultisigWalletDomainModel/Wallet/TransactionDomainService.swift\<close> over the protocol
  \<open>TransactionRepository\<close> and its in-memory implementation (\<^verbatim>\<open>BaseInMemoryRepository.swift\<close>,
  \<^verbatim>\<open>InMemoryTransactionRepository.swift\<close>). The Ethereum node answers through two functions that may throw;
  the calendar's start of day is a parameter. The in-memory repository is a set of object references
  compared by identifier: storing a stored object that the caller has changed is replacing its value,
  so it is a list with at most one entry per identifier, in an unspecified order.

  \<open>Array.sorted(by:)\<close> is stable insertion by the comparator; the locale \<open>comparator\<close> says what a
  comparator must satisfy for the result to be sorted, and is interpreted on the one of the service.
\<close>

subsection \<open>Sorting by a comparator\<close>

fun insert_by :: "('a \<Rightarrow> 'a \<Rightarrow> bool) \<Rightarrow> 'a \<Rightarrow> 'a list \<Rightarrow> 'a list" where
  "insert_by lt x [] = [x]"
| "insert_by lt x (y # ys) = (if lt y x then y # insert_by lt x ys else x # y # ys)"

definition sorted_by :: "('a \<Rightarrow> 'a \<Rightarrow> bool) \<Rightarrow> 'a list \<Rightarrow> 'a list" where
  "sorted_by lt xs = foldr (insert_by lt) xs []"

lemma mset_insert_by: "mset (insert_by lt x ys) = add_mset x (mset ys)"
  by (induction ys) auto

lemma mset_sorted_by: "mset (sorted_by lt xs) = mset xs"
  by (induction xs) (simp_all add: sorted_by_def mset_insert_by)

lemma set_sorted_by: "set (sorted_by lt xs) = set xs"
  by (metis mset_sorted_by set_mset_mset)

locale comparator =
  fixes lt :: "'a \<Rightarrow> 'a \<Rightarrow> bool"
  assumes asym: "lt x y \<Longrightarrow> \<not> lt y x"
    and neg_trans: "\<not> lt y x \<Longrightarrow> \<not> lt z y \<Longrightarrow> \<not> lt z x"
begin

lemma insert_by_sorted:
  "sorted_wrt (\<lambda>a b. \<not> lt b a) ys \<Longrightarrow> sorted_wrt (\<lambda>a b. \<not> lt b a) (insert_by lt x ys)"
proof (induction ys)
  case (Cons y ys)
  have s: "set (insert_by lt x ys) = insert x (set ys)"
    by (metis mset_insert_by set_mset_mset set_mset_add_mset_insert)
  show ?case
  proof (cases "lt y x")
    case True
    then show ?thesis using Cons asym [of y x] by (auto simp: s)
  next
    case False
    then show ?thesis using Cons neg_trans [of y x] by auto
  qed
qed simp

lemma sorted_by_sorted: "sorted_wrt (\<lambda>a b. \<not> lt b a) (sorted_by lt xs)"
  by (induction xs) (simp_all add: sorted_by_def insert_by_sorted)

end

subsection \<open>Order of transactions\<close>

definition allEventDates :: "transaction \<Rightarrow> date list" where
  "allEventDates tx = List.map_filter id
     [processedDate tx, submittedDate tx, rejectedDate tx, updatedDate tx, createdDate tx]"

text \<open>The \<open>while\<close> loop over the two iterators; \<open>tie\<close> is the answer when both are exhausted.\<close>

fun compare_dates :: "date list \<Rightarrow> date list \<Rightarrow> bool \<Rightarrow> bool" where
  "compare_dates [] (_ # _) tie = True"
| "compare_dates (_ # _) [] tie = False"
| "compare_dates (left # ls) (right # rs) tie = (if left = right then compare_dates ls rs tie else left > right)"
| "compare_dates [] [] tie = tie"

definition tx_less :: "transaction \<Rightarrow> transaction \<Rightarrow> bool" where
  "tx_less lhs rhs = compare_dates (allEventDates lhs) (allEventDates rhs)
     (if status lhs = status rhs then tx_id lhs < tx_id rhs
      else code_rawValue (status lhs) < code_rawValue (status rhs))"

lemma compare_dates_split: "compare_dates l r tie \<longleftrightarrow> compare_dates l r False \<or> (l = r \<and> tie)"
  by (induction l r tie rule: compare_dates.induct) auto

lemma compare_dates_irrefl [simp]: "\<not> compare_dates l l False"
  by (induction l) auto

lemma compare_dates_asym: "compare_dates l r False \<Longrightarrow> \<not> compare_dates r l False"
  by (induction l r False rule: compare_dates.induct) auto

lemma compare_dates_total: "l \<noteq> r \<Longrightarrow> compare_dates l r False \<or> compare_dates r l False"
  by (induction l r False rule: compare_dates.induct) auto

lemma compare_dates_trans:
  "compare_dates a b False \<Longrightarrow> compare_dates b c False \<Longrightarrow> compare_dates a c False"
proof (induction a b False arbitrary: c rule: compare_dates.induct)
  case (1 x xs)
  then show ?case by (cases c) auto
next
  case (3 x xs y ys)
  then show ?case by (cases c) (auto split: if_splits)
qed auto

lemma code_rawValue_inject: "code_rawValue c = code_rawValue d \<longleftrightarrow> c = d"
  by (cases c; cases d) (simp_all add: code_rawValue_def)

text \<open>The comparator is the lexicographic order of dates, status and identifier.\<close>

lemma tx_less_iff:
  "tx_less a b \<longleftrightarrow> compare_dates (allEventDates a) (allEventDates b) False \<or>
     (allEventDates a = allEventDates b \<and>
       (code_rawValue (status a), tx_id a) < (code_rawValue (status b), tx_id b))"
  unfolding tx_less_def
  by (subst compare_dates_split) (auto simp: less_prod_def le_less code_rawValue_inject)

lemma tx_less_asym: "tx_less a b \<Longrightarrow> \<not> tx_less b a"
  unfolding tx_less_iff using compare_dates_asym by fastforce

lemma tx_less_trans: "tx_less a b \<Longrightarrow> tx_less b c \<Longrightarrow> tx_less a c"
  unfolding tx_less_iff using compare_dates_trans less_trans by metis

definition tx_key :: "transaction \<Rightarrow> date list \<times> int \<times> string" where
  "tx_key tx = (allEventDates tx, code_rawValue (status tx), tx_id tx)"

lemma tx_less_cases: "tx_less a b \<or> tx_less b a \<or> tx_key a = tx_key b"
proof (cases "allEventDates a = allEventDates b")
  case True
  then show ?thesis
    unfolding tx_less_iff tx_key_def
    using less_linear [of "(code_rawValue (status a), tx_id a)" "(code_rawValue (status b), tx_id b)"] by auto
next
  case False
  then show ?thesis
    unfolding tx_less_iff using compare_dates_total [OF False] by blast
qed

lemma tx_less_key: "tx_key a = tx_key a' \<Longrightarrow> tx_less c a = tx_less c a'"
  unfolding tx_less_iff tx_key_def by auto

lemma tx_less_total: "tx_id a \<noteq> tx_id b \<Longrightarrow> tx_less a b \<or> tx_less b a"
  using tx_less_cases [of a b] by (auto simp: tx_key_def)

lemma tx_less_neg_trans: "\<not> tx_less b a \<Longrightarrow> \<not> tx_less c b \<Longrightarrow> \<not> tx_less c a"
proof -
  assume ba: "\<not> tx_less b a" and cb: "\<not> tx_less c b"
  from tx_less_cases [of a b] ba consider "tx_less a b" | "tx_key a = tx_key b" by blast
  then show "\<not> tx_less c a"
    using cb tx_less_trans [of c a b] tx_less_key [of a b c] by cases blast+
qed

interpretation tx_order: comparator tx_less
  by unfold_locales (fact tx_less_asym, fact tx_less_neg_trans)

subsection \<open>The repository\<close>

record 'r tx_repository =
  repo_save :: "'r \<Rightarrow> transaction \<Rightarrow> 'r"
  repo_remove :: "'r \<Rightarrow> transaction \<Rightarrow> 'r"
  repo_find :: "'r \<Rightarrow> transactionID \<Rightarrow> transaction option"
  repo_all :: "'r \<Rightarrow> transaction list"

text \<open>
  The in-memory repository holds objects, and a caller that changes an object it found changes the stored one. \<open>mem_write\<close>
  is that change, for the value-passing model. Saving inserts into a set, which keeps a member that is equal to
  the inserted one, that is, has the same identifier. The service saves only objects it found in the repository or created with a new
  identifier, so what it saves is \<open>mem_update\<close>.
\<close>

definition mem_write :: "transaction list \<Rightarrow> transaction \<Rightarrow> transaction list" where
  "mem_write items tx = map (\<lambda>t. if tx_id t = tx_id tx then tx else t) items"

definition mem_save :: "transaction list \<Rightarrow> transaction \<Rightarrow> transaction list" where
  "mem_save items tx = (if list_ex (\<lambda>t. tx_id t = tx_id tx) items then items else items @ [tx])"

definition mem_update :: "transaction list \<Rightarrow> transaction \<Rightarrow> transaction list" where
  "mem_update items tx = mem_save (mem_write items tx) tx"

definition mem_find :: "transaction list \<Rightarrow> transactionID \<Rightarrow> transaction option" where
  "mem_find items i = List.find (\<lambda>t. tx_id t = i) items"

definition mem_remove :: "transaction list \<Rightarrow> transaction \<Rightarrow> transaction list" where
  "mem_remove items tx = (case mem_find items (tx_id tx) of
      None \<Rightarrow> items
    | Some found \<Rightarrow> filter (\<lambda>t. tx_id t \<noteq> tx_id found) items)"

definition mem_all :: "transaction list \<Rightarrow> transaction list" where
  "mem_all items = items"

definition mem_find_hash_status :: "transaction list \<Rightarrow> bytes \<Rightarrow> code \<Rightarrow> transaction option" where
  "mem_find_hash_status items h c = List.find (\<lambda>t. tx_hash t = Some h \<and> status t = c) items"

definition mem_find_hash :: "transaction list \<Rightarrow> bytes \<Rightarrow> transaction option" where
  "mem_find_hash items h = List.find (\<lambda>t. tx_hash t = Some h) items"

definition mem_tx_repository :: "transaction list tx_repository" where
  "mem_tx_repository = \<lparr>repo_save = mem_update, repo_remove = mem_remove, repo_find = mem_find, repo_all = mem_all\<rparr>"

subsection \<open>Operations of the service\<close>

definition removeDraftTransaction :: "'r tx_repository \<Rightarrow> 'r \<Rightarrow> transactionID \<Rightarrow> 'r" where
  "removeDraftTransaction R r i = (case repo_find R r i of
      Some tx \<Rightarrow> if status tx = draft then repo_remove R r tx else r
    | None \<Rightarrow> r)"

definition newDraftTransaction ::
  "'r tx_repository \<Rightarrow> 'r \<Rightarrow> date \<Rightarrow> transactionID \<Rightarrow> wallet \<Rightarrow> (tx_error, 'r \<times> transactionID) outcome" where
  "newDraftTransaction R r now nextID w =
     obind (unwrap (address_of w)) (\<lambda>a.
     obind (change_sender now (Some a)
        (tx_init now nextID transfer (wallet_id w) (token_id Ether @ '':'' @ wallet_id w))) (\<lambda>tx.
     Ok (repo_save R r tx, tx_id tx)))"

definition visible :: "transaction \<Rightarrow> bool" where
  "visible tx \<longleftrightarrow> status tx \<noteq> draft \<and> status tx \<noteq> signing \<and> status tx \<noteq> discarded \<and> status tx \<noteq> rejected"

definition allTransactions :: "'r tx_repository \<Rightarrow> 'r \<Rightarrow> transaction list" where
  "allTransactions R r = sorted_by tx_less (filter visible (repo_all R r))"

datatype groupType = pendingGroup | processedGroup

record transactionGroup =
  group_type :: groupType
  group_date :: "date option"
  group_txs :: "transaction list"

definition append_last :: "transactionGroup list \<Rightarrow> transaction \<Rightarrow> transactionGroup list" where
  "append_last gs tx = butlast gs @ [(last gs)\<lparr>group_txs := group_txs (last gs) @ [tx]\<rparr>]"

definition last_date :: "transactionGroup list \<Rightarrow> date option" where
  "last_date gs = (if gs = [] then None else group_date (last gs))"

fun group_loop :: "(date \<Rightarrow> date) \<Rightarrow> transactionGroup list \<Rightarrow> transactionGroup \<Rightarrow> transaction list
    \<Rightarrow> (tx_error, transactionGroup list \<times> transactionGroup) outcome" where
  "group_loop dateForGrouping groups pend [] = Ok (groups, pend)"
| "group_loop dateForGrouping groups pend (tx # txs) =
     (if status tx = pending
      then group_loop dateForGrouping groups (pend\<lparr>group_txs := group_txs pend @ [tx]\<rparr>) txs
      else case allEventDates tx of
        [] \<Rightarrow> Trap
      | d # _ \<Rightarrow>
          let txDate = dateForGrouping d;
              groups1 = (if last_date groups \<noteq> Some txDate
                         then groups @ [\<lparr>group_type = processedGroup, group_date = Some txDate, group_txs = []\<rparr>]
                         else groups)
          in group_loop dateForGrouping (append_last groups1 tx) pend txs)"

definition grouppedTransactions ::
  "(date \<Rightarrow> date) \<Rightarrow> 'r tx_repository \<Rightarrow> 'r \<Rightarrow> (tx_error, transactionGroup list) outcome" where
  "grouppedTransactions dateForGrouping R r =
     obind (group_loop dateForGrouping []
        \<lparr>group_type = pendingGroup, group_date = None, group_txs = []\<rparr> (allTransactions R r)) (\<lambda>(groups, pend).
     Ok (filter (\<lambda>g. group_txs g \<noteq> []) (pend # groups)))"

record transactionReceipt =
  receipt_status :: code
  blockHash :: string

record ethBlock =
  timestamp_of :: date

record 'e node_service =
  eth_getTransactionReceipt :: "string \<Rightarrow> ('e, transactionReceipt option) outcome"
  eth_getBlockByHash :: "string \<Rightarrow> ('e, ethBlock option) outcome"

record 'r service_state =
  repository :: 'r
  updates_published :: nat

text \<open>The transaction after its receipt: the status change, then \<open>timestamp(transaction:from:)\<close>.\<close>

definition processed_by ::
  "date \<Rightarrow> transactionReceipt \<Rightarrow> ethBlock \<Rightarrow> transaction \<Rightarrow> (tx_error, transaction) outcome" where
  "processed_by now receipt block tx =
     omap (\<lambda>t. timestampUpdated (timestampProcessed t (timestamp_of block)) now)
       (if receipt_status receipt = success then succeed now tx else fail now tx)"

fun update_loop ::
  "'r tx_repository \<Rightarrow> 'e node_service \<Rightarrow> date \<Rightarrow> transaction list \<Rightarrow> bool \<Rightarrow> ('r service_state, 'e, bool) action" where
  "update_loop R N now [] hasUpdates = act_return hasUpdates"
| "update_loop R N now (tx # txs) hasUpdates =
     act_bind (act_lift (unwrap (transactionHash tx))) (\<lambda>h.
     act_bind (act_lift (eth_getTransactionReceipt N h)) (\<lambda>found.
     case found of
       None \<Rightarrow> update_loop R N now txs hasUpdates
     | Some receipt \<Rightarrow>
         act_bind (act_lift (eth_getBlockByHash N (blockHash receipt))) (\<lambda>foundBlock.
         act_bind (act_lift (unwrap foundBlock)) (\<lambda>block.
         act_bind (act_lift (tryBang (processed_by now receipt block tx))) (\<lambda>tx'.
         act_bind (\<lambda>s. (Ok (), s\<lparr>repository := repo_save R (repository s) tx'\<rparr>)) (\<lambda>_.
         update_loop R N now txs True))))))"

definition updatePendingTransactions ::
  "'r tx_repository \<Rightarrow> 'e node_service \<Rightarrow> date \<Rightarrow> ('r service_state, 'e, unit) action" where
  "updatePendingTransactions R N now =
     act_bind (act_get (\<lambda>s. filter (\<lambda>t. status t = pending) (repo_all R (repository s)))) (\<lambda>txs.
     act_bind (update_loop R N now txs False) (\<lambda>hasUpdates.
     if hasUpdates then (\<lambda>s. (Ok (), s\<lparr>updates_published := updates_published s + 1\<rparr>)) else act_return ()))"

fun timestamps_loop ::
  "'r tx_repository \<Rightarrow> 'e node_service \<Rightarrow> date \<Rightarrow> transaction list \<Rightarrow> ('r service_state, 'e, unit) action" where
  "timestamps_loop R N now [] = act_return ()"
| "timestamps_loop R N now (tx # txs) =
     act_bind (act_lift (unwrap (transactionHash tx))) (\<lambda>h.
     act_bind (act_lift (eth_getTransactionReceipt N h)) (\<lambda>found.
     act_bind (act_lift (unwrap found)) (\<lambda>receipt.
     act_bind (act_lift (eth_getBlockByHash N (blockHash receipt))) (\<lambda>foundBlock.
     act_bind (act_lift (unwrap foundBlock)) (\<lambda>block.
     act_bind (\<lambda>s. (Ok (), s\<lparr>repository := repo_save R (repository s)
         (timestampUpdated (timestampProcessed tx (timestamp_of block)) now)\<rparr>)) (\<lambda>_.
     timestamps_loop R N now txs))))))"

definition updateTimestampsOfProcessedTransactions ::
  "'r tx_repository \<Rightarrow> 'e node_service \<Rightarrow> date \<Rightarrow> ('r service_state, 'e, unit) action" where
  "updateTimestampsOfProcessedTransactions R N now =
     act_bind (act_get (\<lambda>s. filter (\<lambda>t. status t = success \<or> status t = failed) (repo_all R (repository s)))) (\<lambda>txs.
     act_bind (timestamps_loop R N now txs) (\<lambda>_.
     if txs \<noteq> [] then (\<lambda>s. (Ok (), s\<lparr>updates_published := updates_published s + 1\<rparr>)) else act_return ()))"

subsection \<open>Groups\<close>

definition day_of :: "(date \<Rightarrow> date) \<Rightarrow> transaction \<Rightarrow> date" where
  "day_of day tx = day (hd (allEventDates tx))"

definition group_ok :: "(date \<Rightarrow> date) \<Rightarrow> transactionGroup \<Rightarrow> bool" where
  "group_ok day g \<longleftrightarrow> group_type g = processedGroup \<and> group_txs g \<noteq> [] \<and>
     (\<forall>t \<in> set (group_txs g). status t \<noteq> pending \<and> group_date g = Some (day_of day t))"

definition groups_ok :: "(date \<Rightarrow> date) \<Rightarrow> transactionGroup list \<Rightarrow> bool" where
  "groups_ok day gs \<longleftrightarrow> (\<forall>g \<in> set gs. group_ok day g) \<and> successively (\<lambda>a b. group_date a \<noteq> group_date b) gs"

lemma groups_ok_new:
  assumes "groups_ok day gs" "status tx \<noteq> pending" "last_date gs \<noteq> Some (day_of day tx)"
  shows "groups_ok day (append_last
           (gs @ [\<lparr>group_type = processedGroup, group_date = Some (day_of day tx), group_txs = []\<rparr>]) tx)"
  using assms
  by (auto simp: groups_ok_def append_last_def group_ok_def last_date_def successively_append_iff)

lemma groups_ok_same:
  assumes "groups_ok day gs" "status tx \<noteq> pending" "last_date gs = Some (day_of day tx)"
  shows "groups_ok day (append_last gs tx)"
proof -
  from assms(3) obtain hs g where gs: "gs = hs @ [g]"
    by (cases gs rule: rev_cases) (auto simp: last_date_def)
  with assms show ?thesis
    by (auto simp: groups_ok_def append_last_def group_ok_def last_date_def successively_append_iff)
qed

lemma concat_append_last:
  "gs \<noteq> [] \<Longrightarrow> concat (map group_txs (append_last gs tx)) = concat (map group_txs gs) @ [tx]"
  by (cases gs rule: rev_cases) (simp_all add: append_last_def)

lemma group_loop_run:
  assumes "groups_ok day gs" "\<And>t. t \<in> set txs \<Longrightarrow> status t \<noteq> pending \<Longrightarrow> allEventDates t \<noteq> []"
  shows "\<exists>gs'. group_loop day gs pend txs =
       Ok (gs', pend\<lparr>group_txs := group_txs pend @ filter (\<lambda>t. status t = pending) txs\<rparr>) \<and>
     groups_ok day gs' \<and>
     concat (map group_txs gs') = concat (map group_txs gs) @ filter (\<lambda>t. status t \<noteq> pending) txs"
  using assms
proof (induction txs arbitrary: gs pend)
  case Nil
  then show ?case by simp
next
  case (Cons tx txs)
  show ?case
  proof (cases "status tx = pending")
    case True
    then show ?thesis
      using Cons.IH [OF Cons.prems(1), of "pend\<lparr>group_txs := group_txs pend @ [tx]\<rparr>"] Cons.prems(2) by simp
  next
    case False
    then obtain d ds where d: "allEventDates tx = d # ds"
      using Cons.prems(2) [of tx] by (cases "allEventDates tx") auto
    then have dd: "day d = day_of day tx" by (simp add: day_of_def)
    define g1 where "g1 = (if last_date gs \<noteq> Some (day d)
        then gs @ [\<lparr>group_type = processedGroup, group_date = Some (day d), group_txs = []\<rparr>] else gs)"
    have "groups_ok day (append_last g1 tx)"
      unfolding g1_def dd using groups_ok_new [OF Cons.prems(1) False] groups_ok_same [OF Cons.prems(1) False]
      by simp
    moreover have "g1 \<noteq> []" unfolding g1_def by (auto simp: last_date_def)
    ultimately show ?thesis
      using Cons.IH [of "append_last g1 tx" pend] Cons.prems(2) False d
      by (auto simp: g1_def [symmetric] concat_append_last Let_def) (auto simp: g1_def)
  qed
qed

lemma group_dates_decreasing:
  assumes "groups_ok day gs" "sorted_wrt (\<lambda>a b. day_of day b \<le> day_of day a) (concat (map group_txs gs))"
  shows "sorted_wrt (\<lambda>a b. the (group_date b) < the (group_date a)) gs"
proof -
  have "successively (\<lambda>a b. the (group_date b) < the (group_date a)) gs"
    using assms
  proof (induction gs rule: induct_list012)
    case (3 g h gs)
    from 3(3) have ok: "group_ok day g" "group_ok day h" "group_date g \<noteq> group_date h"
      by (auto simp: groups_ok_def)
    obtain t u where t: "t \<in> set (group_txs g)" and u: "u \<in> set (group_txs h)"
      using ok hd_in_set unfolding group_ok_def by blast
    have "day_of day u \<le> day_of day t"
      using 3(4) t u by (auto simp: sorted_wrt_append)
    moreover have "group_date g = Some (day_of day t)" "group_date h = Some (day_of day u)"
      using ok t u by (auto simp: group_ok_def)
    ultimately have "the (group_date h) < the (group_date g)" using ok(3) by auto
    moreover have "successively (\<lambda>a b. the (group_date b) < the (group_date a)) (h # gs)"
      using 3 by (auto simp: groups_ok_def sorted_wrt_append)
    ultimately show ?case by simp
  qed simp_all
  then show ?thesis
    by (subst (asm) successively_conv_sorted_wrt) (auto intro: transpI)
qed

lemma not_tx_less_dates:
  assumes "\<not> tx_less b a" "allEventDates a \<noteq> []" "allEventDates b \<noteq> []"
  shows "hd (allEventDates b) \<le> hd (allEventDates a)"
  using assms unfolding tx_less_iff
  by (cases "allEventDates a"; cases "allEventDates b") (auto split: if_splits)

subsection \<open>What the service relies on\<close>

locale transaction_repository =
  fixes R :: "'r tx_repository" and ok :: "'r \<Rightarrow> bool"
  assumes saved_ok: "ok r \<Longrightarrow> ok (repo_save R r t)"
    and all_saved: "ok r \<Longrightarrow> set (repo_all R (repo_save R r t)) = insert t {u \<in> set (repo_all R r). tx_id u \<noteq> tx_id t}"
    and ids_distinct: "ok r \<Longrightarrow> distinct (map tx_id (repo_all R r))"
    and found: "ok r \<Longrightarrow> repo_find R r i = Some t \<longleftrightarrow> t \<in> set (repo_all R r) \<and> tx_id t = i"
    and removed: "ok r \<Longrightarrow> ok (repo_remove R r t) \<and>
      set (repo_all R (repo_remove R r t)) = {u \<in> set (repo_all R r). tx_id u \<noteq> tx_id t}"

definition has_receipt :: "'e node_service \<Rightarrow> transaction \<Rightarrow> bool" where
  "has_receipt N tx \<longleftrightarrow> (\<exists>h rc. transactionHash tx = Some h \<and> eth_getTransactionReceipt N h = Ok (Some rc))"

text \<open>The node knows enough about a transaction for the update to go through.\<close>

definition node_answers :: "'e node_service \<Rightarrow> transaction \<Rightarrow> bool" where
  "node_answers N tx \<longleftrightarrow> (\<exists>h. transactionHash tx = Some h \<and>
     (eth_getTransactionReceipt N h = Ok None \<or>
      (\<exists>rc b. eth_getTransactionReceipt N h = Ok (Some rc) \<and> eth_getBlockByHash N (blockHash rc) = Ok (Some b))))"

definition after_update :: "'e node_service \<Rightarrow> date \<Rightarrow> transaction \<Rightarrow> transaction" where
  "after_update N now tx =
     (case transactionHash tx of None \<Rightarrow> tx | Some h \<Rightarrow>
     (case eth_getTransactionReceipt N h of Ok (Some rc) \<Rightarrow>
     (case eth_getBlockByHash N (blockHash rc) of Ok (Some b) \<Rightarrow>
        tx\<lparr>status := (if receipt_status rc = success then success else failed),
           processedDate := Some (timestamp_of b), updatedDate := Some now\<rparr>
      | _ \<Rightarrow> tx) | _ \<Rightarrow> tx))"

lemma after_update_id [simp]: "tx_id (after_update N now tx) = tx_id tx"
  by (simp add: after_update_def split: option.splits outcome.splits)

lemma update_step_no_receipt:
  assumes "transactionHash tx = Some h" "eth_getTransactionReceipt N h = Ok None"
  shows "update_loop R N now (tx # txs) b s = update_loop R N now txs b s" "after_update N now tx = tx"
  using assms by (simp_all add: after_update_def)

lemma update_step_receipt:
  assumes "status tx = pending" "transactionHash tx = Some h" "eth_getTransactionReceipt N h = Ok (Some rc)"
    "eth_getBlockByHash N (blockHash rc) = Ok (Some bl)"
  shows "update_loop R N now (tx # txs) b s =
    update_loop R N now txs True (s\<lparr>repository := repo_save R (repository s) (after_update N now tx)\<rparr>)"
  using assms
  by (simp add: processed_by_def succeed_def fail_def pending_succeed_def pending_fail_def tx_stamp_defs
      after_update_def act_bind_def)

context transaction_repository
begin

lemma draft_removed:
  "ok r \<Longrightarrow> ok (removeDraftTransaction R r i) \<and>
     set (repo_all R (removeDraftTransaction R r i)) = {u \<in> set (repo_all R r). \<not> (tx_id u = i \<and> status u = draft)}"
proof (cases "repo_find R r i")
  case None
  assume "ok r"
  with None have "tx_id u \<noteq> i" if "u \<in> set (repo_all R r)" for u
    using found [of r i u] that by auto
  with None \<open>ok r\<close> show ?thesis by (auto simp: removeDraftTransaction_def)
next
  case (Some tx)
  assume okr: "ok r"
  have tx: "tx \<in> set (repo_all R r)" "tx_id tx = i" using found [OF okr] Some by auto
  have "(tx_id u = i \<and> status u = draft) \<longleftrightarrow> (tx_id u = tx_id tx \<and> status tx = draft)"
    if "u \<in> set (repo_all R r)" for u
    using ids_distinct [OF okr] that tx by (metis distinct_map inj_onD)
  then have "{u \<in> set (repo_all R r). \<not> (tx_id u = i \<and> status u = draft)} =
      (if status tx = draft then {u \<in> set (repo_all R r). tx_id u \<noteq> tx_id tx} else set (repo_all R r))"
    by (simp cong: conj_cong)
  then show ?thesis
    using Some okr removed [OF okr, of tx] by (simp add: removeDraftTransaction_def)
qed

lemma update_loop_run:
  assumes "ok (repository s)" "distinct (map tx_id txs)" "set txs \<subseteq> set (repo_all R (repository s))"
    and "\<And>t. t \<in> set txs \<Longrightarrow> status t = pending \<and> node_answers N t"
  shows "\<exists>s'. update_loop R N now txs b s = (Ok (b \<or> (\<exists>t \<in> set txs. has_receipt N t)), s') \<and>
     ok (repository s') \<and> updates_published s' = updates_published s \<and>
     set (repo_all R (repository s')) =
       {u \<in> set (repo_all R (repository s)). u \<notin> set txs} \<union> after_update N now ` set txs"
  using assms
proof (induction txs arbitrary: b s)
  case Nil
  then show ?case by simp
next
  case (Cons tx txs)
  let ?A = "set (repo_all R (repository s))"
  have d: "distinct (map tx_id txs)" and other: "\<And>t. t \<in> set txs \<Longrightarrow> tx_id t \<noteq> tx_id tx"
    using Cons.prems(2) by (auto simp: image_iff)
  have prem: "\<And>t. t \<in> set txs \<Longrightarrow> status t = pending \<and> node_answers N t" using Cons.prems(4) by simp
  have same: "u = tx" if "u \<in> ?A" "tx_id u = tx_id tx" for u
    using ids_distinct [OF Cons.prems(1)] that Cons.prems(3) by (metis distinct_map inj_onD list.set_intros(1) subsetD)
  have ans: "status tx = pending" "node_answers N tx" using Cons.prems(4) by simp_all
  then obtain h where h: "transactionHash tx = Some h" by (auto simp: node_answers_def)
  consider (none) "eth_getTransactionReceipt N h = Ok None"
    | (some) rc bl where "eth_getTransactionReceipt N h = Ok (Some rc)" "eth_getBlockByHash N (blockHash rc) = Ok (Some bl)"
    using ans(2) h by (auto simp: node_answers_def)
  then show ?case
  proof cases
    case none
    have "\<not> has_receipt N tx" using h none by (auto simp: has_receipt_def)
    moreover have sub: "set txs \<subseteq> ?A" "tx \<in> ?A" "tx \<notin> set txs" using Cons.prems(3) other by auto
    moreover have "{u \<in> ?A. u \<notin> set txs} = insert tx {u \<in> ?A. u \<notin> set (tx # txs)}" using sub by auto
    ultimately show ?thesis
      using Cons.IH [OF Cons.prems(1) d sub(1) prem, of b] update_step_no_receipt(1) [OF h none, of R now txs b s] update_step_no_receipt(2) [OF h none, of now]
      by (simp del: update_loop.simps)
  next
    case some
    let ?t = "after_update N now tx"
    let ?s = "s\<lparr>repository := repo_save R (repository s) ?t\<rparr>"
    have all1: "set (repo_all R (repository ?s)) = insert ?t {u \<in> ?A. tx_id u \<noteq> tx_id tx}"
      using all_saved [OF Cons.prems(1), of ?t] by simp
    have sub: "set txs \<subseteq> set (repo_all R (repository ?s))"
      unfolding all1 using Cons.prems(3) other by auto
    have "has_receipt N tx" using h some by (auto simp: has_receipt_def)
    moreover have "{u \<in> set (repo_all R (repository ?s)). u \<notin> set txs} = insert ?t {u \<in> ?A. u \<notin> set (tx # txs)}"
      unfolding all1 using same other by (auto dest: other)
    moreover obtain s' where "update_loop R N now txs True ?s = (Ok True, s')" "ok (repository s')"
        "updates_published s' = updates_published s"
        "set (repo_all R (repository s')) =
          {u \<in> set (repo_all R (repository ?s)). u \<notin> set txs} \<union> after_update N now ` set txs"
      using Cons.IH [of ?s True, OF _ d sub prem] saved_ok [OF Cons.prems(1), of ?t] by auto
    ultimately show ?thesis
      using update_step_receipt [OF ans(1) h some, of R now txs b s] by auto
  qed
qed

end

lemma image_if_split:
  "{u \<in> A. u \<notin> {x \<in> A. P x}} \<union> f ` {x \<in> A. P x} = (\<lambda>t. if P t then f t else t) ` A"
  by auto

subsection \<open>The in-memory repository keeps the laws\<close>

lemma mem_update_eq: "mem_update items t = (if list_ex (\<lambda>u. tx_id u = tx_id t) items
   then map (\<lambda>u. if tx_id u = tx_id t then t else u) items else items @ [t])"
proof -
  have "list_ex (\<lambda>u. tx_id u = tx_id t) (mem_write items t) = list_ex (\<lambda>u. tx_id u = tx_id t) items"
    by (auto simp: mem_write_def list_ex_iff)
  moreover have "mem_write items t = items" if "\<not> list_ex (\<lambda>u. tx_id u = tx_id t) items"
    using that unfolding mem_write_def by (intro map_idI) (auto simp: list_ex_iff)
  ultimately show ?thesis by (simp add: mem_update_def mem_save_def) (simp add: mem_write_def)
qed

lemma mem_update_ids: "distinct (map tx_id items) \<Longrightarrow> distinct (map tx_id (mem_update items t))"
proof -
  assume d: "distinct (map tx_id items)"
  have "map tx_id (map (\<lambda>u. if tx_id u = tx_id t then t else u) items) = map tx_id items"
    by (induction items) auto
  with d show ?thesis by (auto simp: mem_update_eq list_ex_iff image_iff simp del: map_map)
qed

lemma mem_update_set: "set (mem_update items t) = insert t {u \<in> set items. tx_id u \<noteq> tx_id t}"
  by (auto simp: mem_update_eq list_ex_iff image_iff)

lemma mem_find_iff:
  assumes "distinct (map tx_id items)"
  shows "mem_find items i = Some t \<longleftrightarrow> t \<in> set items \<and> tx_id t = i"
proof -
  have "t \<in> set items \<and> tx_id t = i" if "mem_find items i = Some t"
    using that by (auto simp: mem_find_def find_Some_iff)
  moreover have "mem_find items i = Some t" if t: "t \<in> set items \<and> tx_id t = i"
  proof (cases "mem_find items i")
    case None
    with t show ?thesis by (auto simp: mem_find_def find_None_iff)
  next
    case (Some u)
    then have "u \<in> set items \<and> tx_id u = i" by (auto simp: mem_find_def find_Some_iff)
    with t assms have "u = t" by (metis distinct_map inj_onD)
    with Some show ?thesis by simp
  qed
  ultimately show ?thesis by blast
qed

lemma mem_remove_eq: "mem_remove items t = filter (\<lambda>u. tx_id u \<noteq> tx_id t) items"
proof (cases "mem_find items (tx_id t)")
  case None
  then have "filter (\<lambda>u. tx_id u \<noteq> tx_id t) items = items"
    by (auto simp: mem_find_def find_None_iff filter_id_conv)
  with None show ?thesis by (simp add: mem_remove_def)
next
  case (Some u)
  then have "tx_id u = tx_id t" by (auto simp: mem_find_def find_Some_iff)
  with Some show ?thesis by (simp add: mem_remove_def)
qed

interpretation mem_txs: transaction_repository mem_tx_repository "\<lambda>items. distinct (map tx_id items)"
  by unfold_locales
     (simp_all add: mem_tx_repository_def mem_all_def mem_update_ids mem_update_set mem_find_iff mem_remove_eq
        distinct_map_filter)

lemma sorted_strictly:
  "distinct (map tx_id xs) \<Longrightarrow> sorted_wrt (\<lambda>a b. \<not> tx_less b a) xs \<Longrightarrow> sorted_wrt tx_less xs"
proof (induction xs)
  case (Cons x xs)
  have "tx_less x y" if "y \<in> set xs" for y
    using Cons.prems that tx_less_total [of x y] by (auto simp: image_iff)
  with Cons show ?case by simp
qed simp

subsection \<open>Properties\<close>

definition sample_failed :: transaction where
  "sample_failed = sample_pending\<lparr>tx_id := ''tx2'', status := failed, processedDate := Some 8\<rparr>"

text \<open>
  The list of transactions shows exactly the stored transactions that are neither drafts nor being
  signed nor rejected nor discarded, and its order is a strict total one: with different identifiers,
  every transaction comes strictly before the ones after it.
\<close>

theorem transactions_listed_in_order:
  "mset (allTransactions R r) = filter_mset visible (mset (repo_all R r)) \<and>
   (distinct (map tx_id (repo_all R r)) \<longrightarrow> sorted_wrt tx_less (allTransactions R r))"
proof (intro conjI impI)
  show "mset (allTransactions R r) = filter_mset visible (mset (repo_all R r))"
    by (simp add: allTransactions_def mset_sorted_by)
  assume d: "distinct (map tx_id (repo_all R r))"
  have m: "mset (map tx_id (allTransactions R r)) = mset (map tx_id (filter visible (repo_all R r)))"
    by (simp add: allTransactions_def mset_sorted_by)
  have "distinct (map tx_id (allTransactions R r))"
    using mset_eq_imp_distinct_iff [OF m] d by (simp add: distinct_map_filter)
  moreover have "sorted_wrt (\<lambda>a b. \<not> tx_less b a) (allTransactions R r)"
    unfolding allTransactions_def by (rule tx_order.sorted_by_sorted)
  ultimately show "sorted_wrt tx_less (allTransactions R r)" by (rule sorted_strictly)
qed

theorem transactions_listed_in_order_witness:
  "sorted_wrt tx_less (allTransactions mem_tx_repository [sample_failed, sample_pending, sample_draft])"
proof -
  have "distinct (map tx_id (repo_all mem_tx_repository [sample_failed, sample_pending]))"
    by (simp add: mem_tx_repository_def mem_all_def sample_failed_def sample_pending_def sample_draft_def
        tx_init_def tx_stamp_defs)
  moreover have "allTransactions mem_tx_repository [sample_failed, sample_pending, sample_draft] =
      allTransactions mem_tx_repository [sample_failed, sample_pending]"
    by (simp add: allTransactions_def mem_tx_repository_def mem_all_def visible_def sample_draft_def
        tx_init_def tx_stamp_defs)
  ultimately show ?thesis
    using transactions_listed_in_order [of mem_tx_repository "[sample_failed, sample_pending]"] by simp
qed

text \<open>
  Grouping by day: when all processed transactions carry a date and the start of day is monotone,
  grouping succeeds; it loses nothing and keeps the order (pending ones first, in one group); no group
  is empty; every processed transaction is in the group of its day; and the days strictly decrease, so
  each day has one group.
\<close>

theorem transactions_grouped_by_day:
  assumes "\<And>t. t \<in> set (allTransactions R r) \<Longrightarrow> allEventDates t \<noteq> []" and "mono day"
  shows "\<exists>pend gs. grouppedTransactions day R r =
       Ok (filter (\<lambda>g. group_txs g \<noteq> []) [\<lparr>group_type = pendingGroup, group_date = None, group_txs = pend\<rparr>] @ gs) \<and>
     pend = filter (\<lambda>t. status t = pending) (allTransactions R r) \<and>
     concat (map group_txs gs) = filter (\<lambda>t. status t \<noteq> pending) (allTransactions R r) \<and>
     (\<forall>g \<in> set gs. group_txs g \<noteq> [] \<and>
        (\<forall>t \<in> set (group_txs g). group_date g = Some (day (hd (allEventDates t))))) \<and>
     sorted_wrt (\<lambda>a b. the (group_date b) < the (group_date a)) gs"
proof -
  let ?xs = "allTransactions R r"
  let ?p = "\<lparr>group_type = pendingGroup, group_date = None, group_txs = []\<rparr>"
  obtain gs where run: "group_loop day [] ?p ?xs = Ok (gs, ?p\<lparr>group_txs := filter (\<lambda>t. status t = pending) ?xs\<rparr>)"
    and ok: "groups_ok day gs" and flat: "concat (map group_txs gs) = filter (\<lambda>t. status t \<noteq> pending) ?xs"
    using group_loop_run [of day "[]" ?xs ?p] assms(1) by (auto simp: groups_ok_def)
  have "sorted_wrt (\<lambda>a b. \<not> tx_less b a) ?xs"
    unfolding allTransactions_def by (rule tx_order.sorted_by_sorted)
  then have "sorted_wrt (\<lambda>a b. \<not> tx_less b a) (concat (map group_txs gs))"
    unfolding flat by (rule sorted_wrt_filter)
  moreover have "day_of day b \<le> day_of day a"
    if "a \<in> set (concat (map group_txs gs))" "b \<in> set (concat (map group_txs gs))" "\<not> tx_less b a" for a b
  proof -
    have "a \<in> set ?xs" "b \<in> set ?xs" using that(1,2) unfolding flat by auto
    then have "hd (allEventDates b) \<le> hd (allEventDates a)"
      using not_tx_less_dates [OF that(3)] assms(1) by blast
    then show ?thesis unfolding day_of_def by (rule monoD [OF assms(2)])
  qed
  ultimately have "sorted_wrt (\<lambda>a b. day_of day b \<le> day_of day a) (concat (map group_txs gs))"
    using sorted_wrt_mono_rel [of "concat (map group_txs gs)" "\<lambda>a b. \<not> tx_less b a"
        "\<lambda>a b. day_of day b \<le> day_of day a"] by blast
  then have dec: "sorted_wrt (\<lambda>a b. the (group_date b) < the (group_date a)) gs"
    by (rule group_dates_decreasing [OF ok])
  have ne: "\<forall>g \<in> set gs. group_txs g \<noteq> []"
    using ok by (auto simp: groups_ok_def group_ok_def)
  then have "filter (\<lambda>g. group_txs g \<noteq> []) gs = gs" by (simp add: filter_id_conv)
  then have "grouppedTransactions day R r =
      Ok (filter (\<lambda>g. group_txs g \<noteq> []) [?p\<lparr>group_txs := filter (\<lambda>t. status t = pending) ?xs\<rparr>] @ gs)"
    by (simp add: grouppedTransactions_def run)
  moreover have "\<forall>g \<in> set gs. group_txs g \<noteq> [] \<and>
      (\<forall>t \<in> set (group_txs g). group_date g = Some (day (hd (allEventDates t))))"
    using ok by (auto simp: groups_ok_def group_ok_def day_of_def)
  ultimately show ?thesis using flat dec by auto
qed

theorem transactions_grouped_by_day_witness:
  "\<exists>gs. grouppedTransactions (\<lambda>d. d) mem_tx_repository [sample_pending] = Ok gs"
proof -
  have "allTransactions mem_tx_repository [sample_pending] = [sample_pending]"
    by (simp add: allTransactions_def mem_tx_repository_def mem_all_def visible_def sample_pending_def sorted_by_def)
  then have "t \<in> set (allTransactions mem_tx_repository [sample_pending]) \<Longrightarrow> allEventDates t \<noteq> []" for t
    by (simp add: allEventDates_def sample_pending_def sample_draft_def tx_init_def tx_stamp_defs
        List.map_filter_simps)
  then have "\<exists>pend gs. grouppedTransactions (\<lambda>d. d) mem_tx_repository [sample_pending] =
      Ok (filter (\<lambda>g. group_txs g \<noteq> []) [\<lparr>group_type = pendingGroup, group_date = None, group_txs = pend\<rparr>] @ gs)"
    using transactions_grouped_by_day [of mem_tx_repository "[sample_pending]" "\<lambda>d. d"] mono_def by metis
  then show ?thesis by blast
qed

text \<open>
  C13. Updating pending transactions, for the in-memory repository: when the node answers for every pending
  transaction, the update succeeds; every pending transaction with a receipt becomes successful or failed
  as the receipt says, dated by its block; every other stored transaction is as before; and the update
  event is published exactly when there was a receipt.
\<close>

theorem pending_transactions_updated:
  assumes "distinct (map tx_id (repository s))"
    and "\<And>t. t \<in> set (repository s) \<Longrightarrow> status t = pending \<Longrightarrow> node_answers N t"
  shows "\<exists>s'. updatePendingTransactions mem_tx_repository N now s = (Ok (), s') \<and>
     set (repository s') =
       (\<lambda>t. if status t = pending then after_update N now t else t) ` set (repository s) \<and>
     updates_published s' = updates_published s +
       (if \<exists>t \<in> set (repository s). status t = pending \<and> has_receipt N t then 1 else 0)"
proof -
  let ?p = "filter (\<lambda>t. status t = pending) (repository s)"
  have all: "repo_all mem_tx_repository r = r" for r
    by (simp add: mem_tx_repository_def mem_all_def)
  have "set ?p \<subseteq> set (repo_all mem_tx_repository (repository s))" by (auto simp: all)
  moreover have "distinct (map tx_id ?p)" using assms(1) by (rule distinct_map_filter)
  moreover have "status t = pending \<and> node_answers N t" if "t \<in> set ?p" for t
    using that assms(2) by simp
  ultimately obtain s1 where s1: "update_loop mem_tx_repository N now ?p False s =
        (Ok (\<exists>t \<in> set ?p. has_receipt N t), s1)" "updates_published s1 = updates_published s"
      "set (repository s1) = {u \<in> set (repository s). u \<notin> set ?p} \<union> after_update N now ` set ?p"
    using mem_txs.update_loop_run [OF assms(1), of ?p N now False] unfolding all simp_thms by blast
  have "{u \<in> set (repository s). u \<notin> set ?p} \<union> after_update N now ` set ?p =
      (\<lambda>t. if status t = pending then after_update N now t else t) ` set (repository s)"
    unfolding set_filter by (rule image_if_split)
  then have all': "set (repository s1) =
      (\<lambda>t. if status t = pending then after_update N now t else t) ` set (repository s)"
    using s1(3) by (rule trans [rotated])
  have ex: "(\<exists>t \<in> set ?p. has_receipt N t) \<longleftrightarrow> (\<exists>t \<in> set (repository s). status t = pending \<and> has_receipt N t)"
    unfolding set_filter by blast
  have "updatePendingTransactions mem_tx_repository N now s = (Ok (),
      if \<exists>t \<in> set ?p. has_receipt N t then s1\<lparr>updates_published := updates_published s1 + 1\<rparr> else s1)"
    using s1(1) by (simp add: updatePendingTransactions_def all act_bind_def)
  then have "updatePendingTransactions mem_tx_repository N now s = (Ok (),
      s1\<lparr>updates_published := updates_published s +
        (if \<exists>t \<in> set (repository s). status t = pending \<and> has_receipt N t then 1 else 0)\<rparr>)"
    unfolding ex s1(2) [symmetric] by (simp split: if_splits)
  with all' show ?thesis by (intro exI conjI) (assumption, simp_all)
qed

definition sample_node :: "nat node_service" where
  "sample_node = \<lparr>eth_getTransactionReceipt = (\<lambda>h. Ok (Some \<lparr>receipt_status = success, blockHash = ''b''\<rparr>)),
     eth_getBlockByHash = (\<lambda>h. Ok (Some \<lparr>timestamp_of = 42\<rparr>))\<rparr>"

theorem pending_transactions_updated_witness:
  "\<exists>s'. updatePendingTransactions mem_tx_repository sample_node 50
          \<lparr>repository = [sample_pending], updates_published = 0\<rparr> = (Ok (), s') \<and> updates_published s' = 1"
proof -
  have "node_answers sample_node sample_pending" "has_receipt sample_node sample_pending" "status sample_pending = pending"
    by (simp_all add: node_answers_def has_receipt_def sample_node_def sample_pending_def)
  then show ?thesis
    using pending_transactions_updated [of "\<lparr>repository = [sample_pending], updates_published = 0\<rparr>" sample_node 50]
    by auto
qed

text \<open>
  When the node throws after an earlier transaction was already updated, the earlier update stays in
  the repository but no update event is published for it.
\<close>

theorem interrupted_update_is_silent:
  assumes "status a = pending" "status b = pending" "tx_id a \<noteq> tx_id b"
    and "has_receipt N a" "node_answers N a"
    and "transactionHash b = Some h" "eth_getTransactionReceipt N h = Throw e"
  shows "updatePendingTransactions mem_tx_repository N now \<lparr>repository = [a, b], updates_published = n\<rparr> =
    (Throw e, \<lparr>repository = [after_update N now a, b], updates_published = n\<rparr>)"
proof -
  obtain ha rc bl where a: "transactionHash a = Some ha" "eth_getTransactionReceipt N ha = Ok (Some rc)"
      "eth_getBlockByHash N (blockHash rc) = Ok (Some bl)"
    using assms(4,5) by (auto simp: has_receipt_def node_answers_def)
  have "update_loop mem_tx_repository N now [b] True s = (Throw e, s)" for s
    using assms(6,7) by simp
  then show ?thesis
    using update_step_receipt [OF assms(1) a, of mem_tx_repository now "[b]" False] assms(1-3)
    by (simp add: updatePendingTransactions_def act_bind_def mem_tx_repository_def mem_all_def mem_update_eq
        del: update_loop.simps)
qed

theorem interrupted_update_is_silent_witness:
  "\<exists>N a b. fst (updatePendingTransactions mem_tx_repository N 50
       \<lparr>repository = [a, b], updates_published = 0\<rparr>) = Throw (1::nat)"
proof -
  let ?N = "sample_node\<lparr>eth_getTransactionReceipt := (\<lambda>h. if h = ''0xabc''
      then Ok (Some \<lparr>receipt_status = success, blockHash = ''b''\<rparr>) else Throw 1)\<rparr>"
  let ?b = "sample_pending\<lparr>tx_id := ''tx2'', transactionHash := Some ''0xdef''\<rparr>"
  have "updatePendingTransactions mem_tx_repository ?N 50 \<lparr>repository = [sample_pending, ?b], updates_published = 0\<rparr> =
    (Throw 1, \<lparr>repository = [after_update ?N 50 sample_pending, ?b], updates_published = 0\<rparr>)"
    by (rule interrupted_update_is_silent [of _ _ _ "''0xdef''"])
       (simp_all add: sample_pending_def sample_draft_def tx_init_def tx_stamp_defs has_receipt_def
          node_answers_def sample_node_def)
  then show ?thesis by (metis fst_conv)
qed

text \<open>
  Removing a draft by identifier removes exactly the stored draft with that identifier; transactions
  in any other status are never removed.
\<close>

theorem only_drafts_removed:
  assumes "distinct (map tx_id items)"
  shows "set (removeDraftTransaction mem_tx_repository items i) =
    {u \<in> set items. \<not> (tx_id u = i \<and> status u = draft)}"
  using mem_txs.draft_removed [OF assms, of i] by (simp add: mem_tx_repository_def mem_all_def)

theorem only_drafts_removed_witness:
  "sample_draft \<notin> set (removeDraftTransaction mem_tx_repository [sample_draft, sample_failed] ''tx1'') \<and>
   sample_failed \<in> set (removeDraftTransaction mem_tx_repository [sample_draft, sample_failed] ''tx1'')"
proof -
  have "distinct (map tx_id [sample_draft, sample_failed])"
    by (simp add: sample_failed_def sample_pending_def sample_draft_def tx_init_def tx_stamp_defs)
  note r = only_drafts_removed [OF this, of "''tx1''"]
  have "tx_id sample_draft = ''tx1''" "status sample_draft = draft" "tx_id sample_failed = ''tx2''"
    by (simp_all add: sample_failed_def sample_draft_def tx_init_def tx_stamp_defs)
  then show ?thesis unfolding r by simp
qed

end
