(* ===== verification/Obj_Mac.thy ===== *)
theory Obj_Mac
  imports Prelude
begin

section \<open>The ASN.1 object table of OpenSSL\<close>

text \<open>
  The macros of \<^verbatim>\<open>Library/iphoneos/include/openssl/obj_mac.h\<close>, the header of the OpenSSL library the
  application links: every object has a short name (\<open>SN_\<close>), a long name (\<open>LN_\<close>), a number (\<open>NID_\<close>)
  and an object identifier (\<open>OBJ_\<close>), each of them optional. An \<open>OBJ_\<close> macro expands to a list of arcs
  and may start with another \<open>OBJ_\<close> macro; the macros that others build on are definitions of their own,
  the tables follow the order of the header.
\<close>

type_synonym oid = "int list"

datatype asn1_object =
  Asn1 (om_macro: string) (om_sn: "string option") (om_ln: "string option")
       (om_nid: "int option") (om_oid: "oid option")

subsection \<open>Identifiers that others extend\<close>

definition OBJ_itu_t :: oid where
  "OBJ_itu_t = [0]"

definition OBJ_iso :: oid where
  "OBJ_iso = [1]"

definition OBJ_joint_iso_itu_t :: oid where
  "OBJ_joint_iso_itu_t = [2]"

definition OBJ_member_body :: oid where
  "OBJ_member_body = OBJ_iso @ [2]"

definition OBJ_identified_organization :: oid where
  "OBJ_identified_organization = OBJ_iso @ [3]"

definition OBJ_certicom_arc :: oid where
  "OBJ_certicom_arc = OBJ_identified_organization @ [132]"

definition OBJ_international_organizations :: oid where
  "OBJ_international_organizations = OBJ_joint_iso_itu_t @ [23]"

definition OBJ_wap :: oid where
  "OBJ_wap = OBJ_international_organizations @ [43]"

definition OBJ_wap_wsg :: oid where
  "OBJ_wap_wsg = OBJ_wap @ [1]"

definition OBJ_selected_attribute_types :: oid where
  "OBJ_selected_attribute_types = OBJ_joint_iso_itu_t @ [5, 1, 5]"

definition OBJ_ISO_US :: oid where
  "OBJ_ISO_US = OBJ_member_body @ [840]"

definition OBJ_X9_57 :: oid where
  "OBJ_X9_57 = OBJ_ISO_US @ [10040]"

definition OBJ_X9cm :: oid where
  "OBJ_X9cm = OBJ_X9_57 @ [4]"

definition OBJ_ansi_X9_62 :: oid where
  "OBJ_ansi_X9_62 = OBJ_ISO_US @ [10045]"

definition OBJ_X9_62_id_fieldType :: oid where
  "OBJ_X9_62_id_fieldType = OBJ_ansi_X9_62 @ [1]"

definition OBJ_X9_62_characteristic_two_field :: oid where
  "OBJ_X9_62_characteristic_two_field = OBJ_X9_62_id_fieldType @ [2]"

definition OBJ_X9_62_id_characteristic_two_basis :: oid where
  "OBJ_X9_62_id_characteristic_two_basis = OBJ_X9_62_characteristic_two_field @ [3]"

definition OBJ_X9_62_id_publicKeyType :: oid where
  "OBJ_X9_62_id_publicKeyType = OBJ_ansi_X9_62 @ [2]"

definition OBJ_X9_62_ellipticCurve :: oid where
  "OBJ_X9_62_ellipticCurve = OBJ_ansi_X9_62 @ [3]"

definition OBJ_X9_62_c_TwoCurve :: oid where
  "OBJ_X9_62_c_TwoCurve = OBJ_X9_62_ellipticCurve @ [0]"

definition OBJ_X9_62_primeCurve :: oid where
  "OBJ_X9_62_primeCurve = OBJ_X9_62_ellipticCurve @ [1]"

definition OBJ_X9_62_id_ecSigType :: oid where
  "OBJ_X9_62_id_ecSigType = OBJ_ansi_X9_62 @ [4]"

definition OBJ_ecdsa_with_Specified :: oid where
  "OBJ_ecdsa_with_Specified = OBJ_X9_62_id_ecSigType @ [3]"

definition OBJ_secg_ellipticCurve :: oid where
  "OBJ_secg_ellipticCurve = OBJ_certicom_arc @ [0]"

definition OBJ_wap_wsg_idm_ecid :: oid where
  "OBJ_wap_wsg_idm_ecid = OBJ_wap_wsg @ [4]"

definition OBJ_rsadsi :: oid where
  "OBJ_rsadsi = OBJ_ISO_US @ [113549]"

definition OBJ_pkcs :: oid where
  "OBJ_pkcs = OBJ_rsadsi @ [1]"

definition OBJ_pkcs1 :: oid where
  "OBJ_pkcs1 = OBJ_pkcs @ [1]"

definition OBJ_pkcs3 :: oid where
  "OBJ_pkcs3 = OBJ_pkcs @ [3]"

definition OBJ_pkcs5 :: oid where
  "OBJ_pkcs5 = OBJ_pkcs @ [5]"

definition OBJ_pkcs7 :: oid where
  "OBJ_pkcs7 = OBJ_pkcs @ [7]"

definition OBJ_pkcs9 :: oid where
  "OBJ_pkcs9 = OBJ_pkcs @ [9]"

definition OBJ_SMIME :: oid where
  "OBJ_SMIME = OBJ_pkcs9 @ [16]"

definition OBJ_id_smime_mod :: oid where
  "OBJ_id_smime_mod = OBJ_SMIME @ [0]"

definition OBJ_id_smime_ct :: oid where
  "OBJ_id_smime_ct = OBJ_SMIME @ [1]"

definition OBJ_id_smime_aa :: oid where
  "OBJ_id_smime_aa = OBJ_SMIME @ [2]"

definition OBJ_id_smime_alg :: oid where
  "OBJ_id_smime_alg = OBJ_SMIME @ [3]"

definition OBJ_id_smime_cd :: oid where
  "OBJ_id_smime_cd = OBJ_SMIME @ [4]"

definition OBJ_id_smime_spq :: oid where
  "OBJ_id_smime_spq = OBJ_SMIME @ [5]"

definition OBJ_id_smime_cti :: oid where
  "OBJ_id_smime_cti = OBJ_SMIME @ [6]"

definition OBJ_certTypes :: oid where
  "OBJ_certTypes = OBJ_pkcs9 @ [22]"

definition OBJ_crlTypes :: oid where
  "OBJ_crlTypes = OBJ_pkcs9 @ [23]"

definition OBJ_pkcs12 :: oid where
  "OBJ_pkcs12 = OBJ_pkcs @ [12]"

definition OBJ_pkcs12_pbeids :: oid where
  "OBJ_pkcs12_pbeids = OBJ_pkcs12 @ [1]"

definition OBJ_pkcs12_Version1 :: oid where
  "OBJ_pkcs12_Version1 = OBJ_pkcs12 @ [10]"

definition OBJ_pkcs12_BagIds :: oid where
  "OBJ_pkcs12_BagIds = OBJ_pkcs12_Version1 @ [1]"

definition OBJ_id_pkix :: oid where
  "OBJ_id_pkix = [1, 3, 6, 1, 5, 5, 7]"

definition OBJ_id_pkix_mod :: oid where
  "OBJ_id_pkix_mod = OBJ_id_pkix @ [0]"

definition OBJ_id_pe :: oid where
  "OBJ_id_pe = OBJ_id_pkix @ [1]"

definition OBJ_id_qt :: oid where
  "OBJ_id_qt = OBJ_id_pkix @ [2]"

definition OBJ_id_kp :: oid where
  "OBJ_id_kp = OBJ_id_pkix @ [3]"

definition OBJ_id_it :: oid where
  "OBJ_id_it = OBJ_id_pkix @ [4]"

definition OBJ_id_pkip :: oid where
  "OBJ_id_pkip = OBJ_id_pkix @ [5]"

definition OBJ_id_alg :: oid where
  "OBJ_id_alg = OBJ_id_pkix @ [6]"

definition OBJ_id_cmc :: oid where
  "OBJ_id_cmc = OBJ_id_pkix @ [7]"

definition OBJ_id_on :: oid where
  "OBJ_id_on = OBJ_id_pkix @ [8]"

definition OBJ_id_pda :: oid where
  "OBJ_id_pda = OBJ_id_pkix @ [9]"

definition OBJ_id_aca :: oid where
  "OBJ_id_aca = OBJ_id_pkix @ [10]"

definition OBJ_id_qcs :: oid where
  "OBJ_id_qcs = OBJ_id_pkix @ [11]"

definition OBJ_id_cct :: oid where
  "OBJ_id_cct = OBJ_id_pkix @ [12]"

definition OBJ_id_ppl :: oid where
  "OBJ_id_ppl = OBJ_id_pkix @ [21]"

definition OBJ_id_ad :: oid where
  "OBJ_id_ad = OBJ_id_pkix @ [48]"

definition OBJ_id_regCtrl :: oid where
  "OBJ_id_regCtrl = OBJ_id_pkip @ [1]"

definition OBJ_id_regInfo :: oid where
  "OBJ_id_regInfo = OBJ_id_pkip @ [2]"

definition OBJ_ad_OCSP :: oid where
  "OBJ_ad_OCSP = OBJ_id_ad @ [1]"

definition OBJ_id_pkix_OCSP :: oid where
  "OBJ_id_pkix_OCSP = OBJ_ad_OCSP"

definition OBJ_algorithm :: oid where
  "OBJ_algorithm = [1, 3, 14, 3, 2]"

definition OBJ_X500 :: oid where
  "OBJ_X500 = [2, 5]"

definition OBJ_X509 :: oid where
  "OBJ_X509 = OBJ_X500 @ [4]"

definition OBJ_X500algorithms :: oid where
  "OBJ_X500algorithms = OBJ_X500 @ [8]"

definition OBJ_id_ce :: oid where
  "OBJ_id_ce = OBJ_X500 @ [29]"

definition OBJ_certificate_policies :: oid where
  "OBJ_certificate_policies = OBJ_id_ce @ [32]"

definition OBJ_ext_key_usage :: oid where
  "OBJ_ext_key_usage = OBJ_id_ce @ [37]"

definition OBJ_netscape :: oid where
  "OBJ_netscape = [2, 16, 840, 1, 113730]"

definition OBJ_netscape_cert_extension :: oid where
  "OBJ_netscape_cert_extension = OBJ_netscape @ [1]"

definition OBJ_netscape_data_type :: oid where
  "OBJ_netscape_data_type = OBJ_netscape @ [2]"

definition OBJ_org :: oid where
  "OBJ_org = OBJ_iso @ [3]"

definition OBJ_dod :: oid where
  "OBJ_dod = OBJ_org @ [6]"

definition OBJ_iana :: oid where
  "OBJ_iana = OBJ_dod @ [1]"

definition OBJ_internet :: oid where
  "OBJ_internet = OBJ_iana"

definition OBJ_Private :: oid where
  "OBJ_Private = OBJ_internet @ [4]"

definition OBJ_Mail :: oid where
  "OBJ_Mail = OBJ_internet @ [7]"

definition OBJ_Enterprises :: oid where
  "OBJ_Enterprises = OBJ_Private @ [1]"

definition OBJ_mime_mhs :: oid where
  "OBJ_mime_mhs = OBJ_Mail @ [1]"

definition OBJ_mime_mhs_headings :: oid where
  "OBJ_mime_mhs_headings = OBJ_mime_mhs @ [1]"

definition OBJ_csor :: oid where
  "OBJ_csor = [2, 16, 840, 1, 101, 3]"

definition OBJ_nistAlgorithms :: oid where
  "OBJ_nistAlgorithms = OBJ_csor @ [4]"

definition OBJ_aes :: oid where
  "OBJ_aes = OBJ_nistAlgorithms @ [1]"

definition OBJ_nist_hashalgs :: oid where
  "OBJ_nist_hashalgs = OBJ_nistAlgorithms @ [2]"

definition OBJ_dsa_with_sha2 :: oid where
  "OBJ_dsa_with_sha2 = OBJ_nistAlgorithms @ [3]"

definition OBJ_holdInstruction :: oid where
  "OBJ_holdInstruction = OBJ_X9_57 @ [2]"

definition OBJ_data :: oid where
  "OBJ_data = OBJ_itu_t @ [9]"

definition OBJ_pss :: oid where
  "OBJ_pss = OBJ_data @ [2342]"

definition OBJ_ucl :: oid where
  "OBJ_ucl = OBJ_pss @ [19200300]"

definition OBJ_pilot :: oid where
  "OBJ_pilot = OBJ_ucl @ [100]"

definition OBJ_pilotAttributeType :: oid where
  "OBJ_pilotAttributeType = OBJ_pilot @ [1]"

definition OBJ_pilotAttributeSyntax :: oid where
  "OBJ_pilotAttributeSyntax = OBJ_pilot @ [3]"

definition OBJ_pilotObjectClass :: oid where
  "OBJ_pilotObjectClass = OBJ_pilot @ [4]"

definition OBJ_id_set :: oid where
  "OBJ_id_set = OBJ_international_organizations @ [42]"

definition OBJ_set_ctype :: oid where
  "OBJ_set_ctype = OBJ_id_set @ [0]"

definition OBJ_set_msgExt :: oid where
  "OBJ_set_msgExt = OBJ_id_set @ [1]"

definition OBJ_set_attr :: oid where
  "OBJ_set_attr = OBJ_id_set @ [3]"

definition OBJ_set_policy :: oid where
  "OBJ_set_policy = OBJ_id_set @ [5]"

definition OBJ_set_certExt :: oid where
  "OBJ_set_certExt = OBJ_id_set @ [7]"

definition OBJ_set_brand :: oid where
  "OBJ_set_brand = OBJ_id_set @ [8]"

definition OBJ_setAttr_Cert :: oid where
  "OBJ_setAttr_Cert = OBJ_set_attr @ [0]"

definition OBJ_setAttr_TokenType :: oid where
  "OBJ_setAttr_TokenType = OBJ_set_attr @ [2]"

definition OBJ_setAttr_IssCap :: oid where
  "OBJ_setAttr_IssCap = OBJ_set_attr @ [3]"

definition OBJ_setAttr_IssCap_CVM :: oid where
  "OBJ_setAttr_IssCap_CVM = OBJ_setAttr_IssCap @ [3]"

definition OBJ_setAttr_IssCap_T2 :: oid where
  "OBJ_setAttr_IssCap_T2 = OBJ_setAttr_IssCap @ [4]"

definition OBJ_setAttr_IssCap_Sig :: oid where
  "OBJ_setAttr_IssCap_Sig = OBJ_setAttr_IssCap @ [5]"

definition OBJ_cryptopro :: oid where
  "OBJ_cryptopro = OBJ_member_body @ [643, 2, 2]"

definition OBJ_cryptocom :: oid where
  "OBJ_cryptocom = OBJ_member_body @ [643, 2, 9]"

definition OBJ_id_GostR3410_94 :: oid where
  "OBJ_id_GostR3410_94 = OBJ_cryptopro @ [20]"

definition OBJ_ntt_ds :: oid where
  "OBJ_ntt_ds = [0, 3, 4401, 5]"

definition OBJ_camellia :: oid where
  "OBJ_camellia = OBJ_ntt_ds @ [3, 1, 9]"

definition OBJ_kisa :: oid where
  "OBJ_kisa = OBJ_member_body @ [410, 200004]"

definition OBJ_x9_63_scheme :: oid where
  "OBJ_x9_63_scheme = [1, 3, 133, 16, 840, 63, 0]"

definition OBJ_secg_scheme :: oid where
  "OBJ_secg_scheme = OBJ_certicom_arc @ [1]"

lemmas OBJ_defs =
  OBJ_itu_t_def
  OBJ_iso_def
  OBJ_joint_iso_itu_t_def
  OBJ_member_body_def
  OBJ_identified_organization_def
  OBJ_certicom_arc_def
  OBJ_international_organizations_def
  OBJ_wap_def
  OBJ_wap_wsg_def
  OBJ_selected_attribute_types_def
  OBJ_ISO_US_def
  OBJ_X9_57_def
  OBJ_X9cm_def
  OBJ_ansi_X9_62_def
  OBJ_X9_62_id_fieldType_def
  OBJ_X9_62_characteristic_two_field_def
  OBJ_X9_62_id_characteristic_two_basis_def
  OBJ_X9_62_id_publicKeyType_def
  OBJ_X9_62_ellipticCurve_def
  OBJ_X9_62_c_TwoCurve_def
  OBJ_X9_62_primeCurve_def
  OBJ_X9_62_id_ecSigType_def
  OBJ_ecdsa_with_Specified_def
  OBJ_secg_ellipticCurve_def
  OBJ_wap_wsg_idm_ecid_def
  OBJ_rsadsi_def
  OBJ_pkcs_def
  OBJ_pkcs1_def
  OBJ_pkcs3_def
  OBJ_pkcs5_def
  OBJ_pkcs7_def
  OBJ_pkcs9_def
  OBJ_SMIME_def
  OBJ_id_smime_mod_def
  OBJ_id_smime_ct_def
  OBJ_id_smime_aa_def
  OBJ_id_smime_alg_def
  OBJ_id_smime_cd_def
  OBJ_id_smime_spq_def
  OBJ_id_smime_cti_def
  OBJ_certTypes_def
  OBJ_crlTypes_def
  OBJ_pkcs12_def
  OBJ_pkcs12_pbeids_def
  OBJ_pkcs12_Version1_def
  OBJ_pkcs12_BagIds_def
  OBJ_id_pkix_def
  OBJ_id_pkix_mod_def
  OBJ_id_pe_def
  OBJ_id_qt_def
  OBJ_id_kp_def
  OBJ_id_it_def
  OBJ_id_pkip_def
  OBJ_id_alg_def
  OBJ_id_cmc_def
  OBJ_id_on_def
  OBJ_id_pda_def
  OBJ_id_aca_def
  OBJ_id_qcs_def
  OBJ_id_cct_def
  OBJ_id_ppl_def
  OBJ_id_ad_def
  OBJ_id_regCtrl_def
  OBJ_id_regInfo_def
  OBJ_ad_OCSP_def
  OBJ_id_pkix_OCSP_def
  OBJ_algorithm_def
  OBJ_X500_def
  OBJ_X509_def
  OBJ_X500algorithms_def
  OBJ_id_ce_def
  OBJ_certificate_policies_def
  OBJ_ext_key_usage_def
  OBJ_netscape_def
  OBJ_netscape_cert_extension_def
  OBJ_netscape_data_type_def
  OBJ_org_def
  OBJ_dod_def
  OBJ_iana_def
  OBJ_internet_def
  OBJ_Private_def
  OBJ_Mail_def
  OBJ_Enterprises_def
  OBJ_mime_mhs_def
  OBJ_mime_mhs_headings_def
  OBJ_csor_def
  OBJ_nistAlgorithms_def
  OBJ_aes_def
  OBJ_nist_hashalgs_def
  OBJ_dsa_with_sha2_def
  OBJ_holdInstruction_def
  OBJ_data_def
  OBJ_pss_def
  OBJ_ucl_def
  OBJ_pilot_def
  OBJ_pilotAttributeType_def
  OBJ_pilotAttributeSyntax_def
  OBJ_pilotObjectClass_def
  OBJ_id_set_def
  OBJ_set_ctype_def
  OBJ_set_msgExt_def
  OBJ_set_attr_def
  OBJ_set_policy_def
  OBJ_set_certExt_def
  OBJ_set_brand_def
  OBJ_setAttr_Cert_def
  OBJ_setAttr_TokenType_def
  OBJ_setAttr_IssCap_def
  OBJ_setAttr_IssCap_CVM_def
  OBJ_setAttr_IssCap_T2_def
  OBJ_setAttr_IssCap_Sig_def
  OBJ_cryptopro_def
  OBJ_cryptocom_def
  OBJ_id_GostR3410_94_def
  OBJ_ntt_ds_def
  OBJ_camellia_def
  OBJ_kisa_def
  OBJ_x9_63_scheme_def
  OBJ_secg_scheme_def

subsection \<open>The table, in the order of the header\<close>

definition obj_mac_01 :: "asn1_object list" where
  "obj_mac_01 = [
   Asn1 ''undef'' (Some ''UNDEF'') (Some ''undefined'') (Some 0) (Some ([0])),
   Asn1 ''itu_t'' (Some ''ITU-T'') (Some ''itu-t'') (Some 645) (Some OBJ_itu_t),
   Asn1 ''ccitt'' (None) (None) (Some 404) (Some (OBJ_itu_t)),
   Asn1 ''iso'' (Some ''ISO'') (Some ''iso'') (Some 181) (Some OBJ_iso),
   Asn1 ''joint_iso_itu_t'' (Some ''JOINT-ISO-ITU-T'') (Some ''joint-iso-itu-t'') (Some 646) (Some OBJ_joint_iso_itu_t),
   Asn1 ''joint_iso_ccitt'' (None) (None) (Some 393) (Some (OBJ_joint_iso_itu_t)),
   Asn1 ''member_body'' (Some ''member-body'') (Some ''ISO Member Body'') (Some 182) (Some OBJ_member_body),
   Asn1 ''identified_organization'' (Some ''identified-organization'') (None) (Some 676) (Some OBJ_identified_organization),
   Asn1 ''hmac_md5'' (Some ''HMAC-MD5'') (Some ''hmac-md5'') (Some 780) (Some (OBJ_identified_organization @ [6, 1, 5, 5, 8, 1, 1])),
   Asn1 ''hmac_sha1'' (Some ''HMAC-SHA1'') (Some ''hmac-sha1'') (Some 781) (Some (OBJ_identified_organization @ [6, 1, 5, 5, 8, 1, 2])),
   Asn1 ''certicom_arc'' (Some ''certicom-arc'') (None) (Some 677) (Some OBJ_certicom_arc),
   Asn1 ''international_organizations'' (Some ''international-organizations'') (Some ''International Organizations'') (Some 647) (Some OBJ_international_organizations),
   Asn1 ''wap'' (Some ''wap'') (None) (Some 678) (Some OBJ_wap),
   Asn1 ''wap_wsg'' (Some ''wap-wsg'') (None) (Some 679) (Some OBJ_wap_wsg),
   Asn1 ''selected_attribute_types'' (Some ''selected-attribute-types'') (Some ''Selected Attribute Types'') (Some 394) (Some OBJ_selected_attribute_types),
   Asn1 ''clearance'' (Some ''clearance'') (None) (Some 395) (Some (OBJ_selected_attribute_types @ [55])),
   Asn1 ''ISO_US'' (Some ''ISO-US'') (Some ''ISO US Member Body'') (Some 183) (Some OBJ_ISO_US),
   Asn1 ''X9_57'' (Some ''X9-57'') (Some ''X9.57'') (Some 184) (Some OBJ_X9_57),
   Asn1 ''X9cm'' (Some ''X9cm'') (Some ''X9.57 CM ?'') (Some 185) (Some OBJ_X9cm),
   Asn1 ''dsa'' (Some ''DSA'') (Some ''dsaEncryption'') (Some 116) (Some (OBJ_X9cm @ [1])),
   Asn1 ''dsaWithSHA1'' (Some ''DSA-SHA1'') (Some ''dsaWithSHA1'') (Some 113) (Some (OBJ_X9cm @ [3])),
   Asn1 ''ansi_X9_62'' (Some ''ansi-X9-62'') (Some ''ANSI X9.62'') (Some 405) (Some OBJ_ansi_X9_62),
   Asn1 ''X9_62_id_fieldType'' (None) (None) (None) (Some OBJ_X9_62_id_fieldType),
   Asn1 ''X9_62_prime_field'' (Some ''prime-field'') (None) (Some 406) (Some (OBJ_X9_62_id_fieldType @ [1])),
   Asn1 ''X9_62_characteristic_two_field'' (Some ''characteristic-two-field'') (None) (Some 407) (Some OBJ_X9_62_characteristic_two_field),
   Asn1 ''X9_62_id_characteristic_two_basis'' (Some ''id-characteristic-two-basis'') (None) (Some 680) (Some OBJ_X9_62_id_characteristic_two_basis),
   Asn1 ''X9_62_onBasis'' (Some ''onBasis'') (None) (Some 681) (Some (OBJ_X9_62_id_characteristic_two_basis @ [1])),
   Asn1 ''X9_62_tpBasis'' (Some ''tpBasis'') (None) (Some 682) (Some (OBJ_X9_62_id_characteristic_two_basis @ [2])),
   Asn1 ''X9_62_ppBasis'' (Some ''ppBasis'') (None) (Some 683) (Some (OBJ_X9_62_id_characteristic_two_basis @ [3])),
   Asn1 ''X9_62_id_publicKeyType'' (None) (None) (None) (Some OBJ_X9_62_id_publicKeyType),
   Asn1 ''X9_62_id_ecPublicKey'' (Some ''id-ecPublicKey'') (None) (Some 408) (Some (OBJ_X9_62_id_publicKeyType @ [1])),
   Asn1 ''X9_62_ellipticCurve'' (None) (None) (None) (Some OBJ_X9_62_ellipticCurve),
   Asn1 ''X9_62_c_TwoCurve'' (None) (None) (None) (Some OBJ_X9_62_c_TwoCurve),
   Asn1 ''X9_62_c2pnb163v1'' (Some ''c2pnb163v1'') (None) (Some 684) (Some (OBJ_X9_62_c_TwoCurve @ [1])),
   Asn1 ''X9_62_c2pnb163v2'' (Some ''c2pnb163v2'') (None) (Some 685) (Some (OBJ_X9_62_c_TwoCurve @ [2])),
   Asn1 ''X9_62_c2pnb163v3'' (Some ''c2pnb163v3'') (None) (Some 686) (Some (OBJ_X9_62_c_TwoCurve @ [3]))]"

definition obj_mac_02 :: "asn1_object list" where
  "obj_mac_02 = [
   Asn1 ''X9_62_c2pnb176v1'' (Some ''c2pnb176v1'') (None) (Some 687) (Some (OBJ_X9_62_c_TwoCurve @ [4])),
   Asn1 ''X9_62_c2tnb191v1'' (Some ''c2tnb191v1'') (None) (Some 688) (Some (OBJ_X9_62_c_TwoCurve @ [5])),
   Asn1 ''X9_62_c2tnb191v2'' (Some ''c2tnb191v2'') (None) (Some 689) (Some (OBJ_X9_62_c_TwoCurve @ [6])),
   Asn1 ''X9_62_c2tnb191v3'' (Some ''c2tnb191v3'') (None) (Some 690) (Some (OBJ_X9_62_c_TwoCurve @ [7])),
   Asn1 ''X9_62_c2onb191v4'' (Some ''c2onb191v4'') (None) (Some 691) (Some (OBJ_X9_62_c_TwoCurve @ [8])),
   Asn1 ''X9_62_c2onb191v5'' (Some ''c2onb191v5'') (None) (Some 692) (Some (OBJ_X9_62_c_TwoCurve @ [9])),
   Asn1 ''X9_62_c2pnb208w1'' (Some ''c2pnb208w1'') (None) (Some 693) (Some (OBJ_X9_62_c_TwoCurve @ [10])),
   Asn1 ''X9_62_c2tnb239v1'' (Some ''c2tnb239v1'') (None) (Some 694) (Some (OBJ_X9_62_c_TwoCurve @ [11])),
   Asn1 ''X9_62_c2tnb239v2'' (Some ''c2tnb239v2'') (None) (Some 695) (Some (OBJ_X9_62_c_TwoCurve @ [12])),
   Asn1 ''X9_62_c2tnb239v3'' (Some ''c2tnb239v3'') (None) (Some 696) (Some (OBJ_X9_62_c_TwoCurve @ [13])),
   Asn1 ''X9_62_c2onb239v4'' (Some ''c2onb239v4'') (None) (Some 697) (Some (OBJ_X9_62_c_TwoCurve @ [14])),
   Asn1 ''X9_62_c2onb239v5'' (Some ''c2onb239v5'') (None) (Some 698) (Some (OBJ_X9_62_c_TwoCurve @ [15])),
   Asn1 ''X9_62_c2pnb272w1'' (Some ''c2pnb272w1'') (None) (Some 699) (Some (OBJ_X9_62_c_TwoCurve @ [16])),
   Asn1 ''X9_62_c2pnb304w1'' (Some ''c2pnb304w1'') (None) (Some 700) (Some (OBJ_X9_62_c_TwoCurve @ [17])),
   Asn1 ''X9_62_c2tnb359v1'' (Some ''c2tnb359v1'') (None) (Some 701) (Some (OBJ_X9_62_c_TwoCurve @ [18])),
   Asn1 ''X9_62_c2pnb368w1'' (Some ''c2pnb368w1'') (None) (Some 702) (Some (OBJ_X9_62_c_TwoCurve @ [19])),
   Asn1 ''X9_62_c2tnb431r1'' (Some ''c2tnb431r1'') (None) (Some 703) (Some (OBJ_X9_62_c_TwoCurve @ [20])),
   Asn1 ''X9_62_primeCurve'' (None) (None) (None) (Some OBJ_X9_62_primeCurve),
   Asn1 ''X9_62_prime192v1'' (Some ''prime192v1'') (None) (Some 409) (Some (OBJ_X9_62_primeCurve @ [1])),
   Asn1 ''X9_62_prime192v2'' (Some ''prime192v2'') (None) (Some 410) (Some (OBJ_X9_62_primeCurve @ [2])),
   Asn1 ''X9_62_prime192v3'' (Some ''prime192v3'') (None) (Some 411) (Some (OBJ_X9_62_primeCurve @ [3])),
   Asn1 ''X9_62_prime239v1'' (Some ''prime239v1'') (None) (Some 412) (Some (OBJ_X9_62_primeCurve @ [4])),
   Asn1 ''X9_62_prime239v2'' (Some ''prime239v2'') (None) (Some 413) (Some (OBJ_X9_62_primeCurve @ [5])),
   Asn1 ''X9_62_prime239v3'' (Some ''prime239v3'') (None) (Some 414) (Some (OBJ_X9_62_primeCurve @ [6])),
   Asn1 ''X9_62_prime256v1'' (Some ''prime256v1'') (None) (Some 415) (Some (OBJ_X9_62_primeCurve @ [7])),
   Asn1 ''X9_62_id_ecSigType'' (None) (None) (None) (Some OBJ_X9_62_id_ecSigType),
   Asn1 ''ecdsa_with_SHA1'' (Some ''ecdsa-with-SHA1'') (None) (Some 416) (Some (OBJ_X9_62_id_ecSigType @ [1])),
   Asn1 ''ecdsa_with_Recommended'' (Some ''ecdsa-with-Recommended'') (None) (Some 791) (Some (OBJ_X9_62_id_ecSigType @ [2])),
   Asn1 ''ecdsa_with_Specified'' (Some ''ecdsa-with-Specified'') (None) (Some 792) (Some OBJ_ecdsa_with_Specified),
   Asn1 ''ecdsa_with_SHA224'' (Some ''ecdsa-with-SHA224'') (None) (Some 793) (Some (OBJ_ecdsa_with_Specified @ [1])),
   Asn1 ''ecdsa_with_SHA256'' (Some ''ecdsa-with-SHA256'') (None) (Some 794) (Some (OBJ_ecdsa_with_Specified @ [2])),
   Asn1 ''ecdsa_with_SHA384'' (Some ''ecdsa-with-SHA384'') (None) (Some 795) (Some (OBJ_ecdsa_with_Specified @ [3])),
   Asn1 ''ecdsa_with_SHA512'' (Some ''ecdsa-with-SHA512'') (None) (Some 796) (Some (OBJ_ecdsa_with_Specified @ [4])),
   Asn1 ''secg_ellipticCurve'' (None) (None) (None) (Some OBJ_secg_ellipticCurve),
   Asn1 ''secp112r1'' (Some ''secp112r1'') (None) (Some 704) (Some (OBJ_secg_ellipticCurve @ [6])),
   Asn1 ''secp112r2'' (Some ''secp112r2'') (None) (Some 705) (Some (OBJ_secg_ellipticCurve @ [7])),
   Asn1 ''secp128r1'' (Some ''secp128r1'') (None) (Some 706) (Some (OBJ_secg_ellipticCurve @ [28])),
   Asn1 ''secp128r2'' (Some ''secp128r2'') (None) (Some 707) (Some (OBJ_secg_ellipticCurve @ [29])),
   Asn1 ''secp160k1'' (Some ''secp160k1'') (None) (Some 708) (Some (OBJ_secg_ellipticCurve @ [9]))]"

definition obj_mac_03 :: "asn1_object list" where
  "obj_mac_03 = [
   Asn1 ''secp160r1'' (Some ''secp160r1'') (None) (Some 709) (Some (OBJ_secg_ellipticCurve @ [8])),
   Asn1 ''secp160r2'' (Some ''secp160r2'') (None) (Some 710) (Some (OBJ_secg_ellipticCurve @ [30])),
   Asn1 ''secp192k1'' (Some ''secp192k1'') (None) (Some 711) (Some (OBJ_secg_ellipticCurve @ [31])),
   Asn1 ''secp224k1'' (Some ''secp224k1'') (None) (Some 712) (Some (OBJ_secg_ellipticCurve @ [32])),
   Asn1 ''secp224r1'' (Some ''secp224r1'') (None) (Some 713) (Some (OBJ_secg_ellipticCurve @ [33])),
   Asn1 ''secp256k1'' (Some ''secp256k1'') (None) (Some 714) (Some (OBJ_secg_ellipticCurve @ [10])),
   Asn1 ''secp384r1'' (Some ''secp384r1'') (None) (Some 715) (Some (OBJ_secg_ellipticCurve @ [34])),
   Asn1 ''secp521r1'' (Some ''secp521r1'') (None) (Some 716) (Some (OBJ_secg_ellipticCurve @ [35])),
   Asn1 ''sect113r1'' (Some ''sect113r1'') (None) (Some 717) (Some (OBJ_secg_ellipticCurve @ [4])),
   Asn1 ''sect113r2'' (Some ''sect113r2'') (None) (Some 718) (Some (OBJ_secg_ellipticCurve @ [5])),
   Asn1 ''sect131r1'' (Some ''sect131r1'') (None) (Some 719) (Some (OBJ_secg_ellipticCurve @ [22])),
   Asn1 ''sect131r2'' (Some ''sect131r2'') (None) (Some 720) (Some (OBJ_secg_ellipticCurve @ [23])),
   Asn1 ''sect163k1'' (Some ''sect163k1'') (None) (Some 721) (Some (OBJ_secg_ellipticCurve @ [1])),
   Asn1 ''sect163r1'' (Some ''sect163r1'') (None) (Some 722) (Some (OBJ_secg_ellipticCurve @ [2])),
   Asn1 ''sect163r2'' (Some ''sect163r2'') (None) (Some 723) (Some (OBJ_secg_ellipticCurve @ [15])),
   Asn1 ''sect193r1'' (Some ''sect193r1'') (None) (Some 724) (Some (OBJ_secg_ellipticCurve @ [24])),
   Asn1 ''sect193r2'' (Some ''sect193r2'') (None) (Some 725) (Some (OBJ_secg_ellipticCurve @ [25])),
   Asn1 ''sect233k1'' (Some ''sect233k1'') (None) (Some 726) (Some (OBJ_secg_ellipticCurve @ [26])),
   Asn1 ''sect233r1'' (Some ''sect233r1'') (None) (Some 727) (Some (OBJ_secg_ellipticCurve @ [27])),
   Asn1 ''sect239k1'' (Some ''sect239k1'') (None) (Some 728) (Some (OBJ_secg_ellipticCurve @ [3])),
   Asn1 ''sect283k1'' (Some ''sect283k1'') (None) (Some 729) (Some (OBJ_secg_ellipticCurve @ [16])),
   Asn1 ''sect283r1'' (Some ''sect283r1'') (None) (Some 730) (Some (OBJ_secg_ellipticCurve @ [17])),
   Asn1 ''sect409k1'' (Some ''sect409k1'') (None) (Some 731) (Some (OBJ_secg_ellipticCurve @ [36])),
   Asn1 ''sect409r1'' (Some ''sect409r1'') (None) (Some 732) (Some (OBJ_secg_ellipticCurve @ [37])),
   Asn1 ''sect571k1'' (Some ''sect571k1'') (None) (Some 733) (Some (OBJ_secg_ellipticCurve @ [38])),
   Asn1 ''sect571r1'' (Some ''sect571r1'') (None) (Some 734) (Some (OBJ_secg_ellipticCurve @ [39])),
   Asn1 ''wap_wsg_idm_ecid'' (None) (None) (None) (Some OBJ_wap_wsg_idm_ecid),
   Asn1 ''wap_wsg_idm_ecid_wtls1'' (Some ''wap-wsg-idm-ecid-wtls1'') (None) (Some 735) (Some (OBJ_wap_wsg_idm_ecid @ [1])),
   Asn1 ''wap_wsg_idm_ecid_wtls3'' (Some ''wap-wsg-idm-ecid-wtls3'') (None) (Some 736) (Some (OBJ_wap_wsg_idm_ecid @ [3])),
   Asn1 ''wap_wsg_idm_ecid_wtls4'' (Some ''wap-wsg-idm-ecid-wtls4'') (None) (Some 737) (Some (OBJ_wap_wsg_idm_ecid @ [4])),
   Asn1 ''wap_wsg_idm_ecid_wtls5'' (Some ''wap-wsg-idm-ecid-wtls5'') (None) (Some 738) (Some (OBJ_wap_wsg_idm_ecid @ [5])),
   Asn1 ''wap_wsg_idm_ecid_wtls6'' (Some ''wap-wsg-idm-ecid-wtls6'') (None) (Some 739) (Some (OBJ_wap_wsg_idm_ecid @ [6])),
   Asn1 ''wap_wsg_idm_ecid_wtls7'' (Some ''wap-wsg-idm-ecid-wtls7'') (None) (Some 740) (Some (OBJ_wap_wsg_idm_ecid @ [7])),
   Asn1 ''wap_wsg_idm_ecid_wtls8'' (Some ''wap-wsg-idm-ecid-wtls8'') (None) (Some 741) (Some (OBJ_wap_wsg_idm_ecid @ [8])),
   Asn1 ''wap_wsg_idm_ecid_wtls9'' (Some ''wap-wsg-idm-ecid-wtls9'') (None) (Some 742) (Some (OBJ_wap_wsg_idm_ecid @ [9])),
   Asn1 ''wap_wsg_idm_ecid_wtls10'' (Some ''wap-wsg-idm-ecid-wtls10'') (None) (Some 743) (Some (OBJ_wap_wsg_idm_ecid @ [10])),
   Asn1 ''wap_wsg_idm_ecid_wtls11'' (Some ''wap-wsg-idm-ecid-wtls11'') (None) (Some 744) (Some (OBJ_wap_wsg_idm_ecid @ [11])),
   Asn1 ''wap_wsg_idm_ecid_wtls12'' (Some ''wap-wsg-idm-ecid-wtls12'') (None) (Some 745) (Some (OBJ_wap_wsg_idm_ecid @ [12]))]"

definition obj_mac_04 :: "asn1_object list" where
  "obj_mac_04 = [
   Asn1 ''cast5_cbc'' (Some ''CAST5-CBC'') (Some ''cast5-cbc'') (Some 108) (Some (OBJ_ISO_US @ [113533, 7, 66, 10])),
   Asn1 ''cast5_ecb'' (Some ''CAST5-ECB'') (Some ''cast5-ecb'') (Some 109) (None),
   Asn1 ''cast5_cfb64'' (Some ''CAST5-CFB'') (Some ''cast5-cfb'') (Some 110) (None),
   Asn1 ''cast5_ofb64'' (Some ''CAST5-OFB'') (Some ''cast5-ofb'') (Some 111) (None),
   Asn1 ''pbeWithMD5AndCast5_CBC'' (None) (Some ''pbeWithMD5AndCast5CBC'') (Some 112) (Some (OBJ_ISO_US @ [113533, 7, 66, 12])),
   Asn1 ''id_PasswordBasedMAC'' (Some ''id-PasswordBasedMAC'') (Some ''password based MAC'') (Some 782) (Some (OBJ_ISO_US @ [113533, 7, 66, 13])),
   Asn1 ''id_DHBasedMac'' (Some ''id-DHBasedMac'') (Some ''Diffie-Hellman based MAC'') (Some 783) (Some (OBJ_ISO_US @ [113533, 7, 66, 30])),
   Asn1 ''rsadsi'' (Some ''rsadsi'') (Some ''RSA Data Security, Inc.'') (Some 1) (Some OBJ_rsadsi),
   Asn1 ''pkcs'' (Some ''pkcs'') (Some ''RSA Data Security, Inc. PKCS'') (Some 2) (Some OBJ_pkcs),
   Asn1 ''pkcs1'' (Some ''pkcs1'') (None) (Some 186) (Some OBJ_pkcs1),
   Asn1 ''rsaEncryption'' (None) (Some ''rsaEncryption'') (Some 6) (Some (OBJ_pkcs1 @ [1])),
   Asn1 ''md2WithRSAEncryption'' (Some ''RSA-MD2'') (Some ''md2WithRSAEncryption'') (Some 7) (Some (OBJ_pkcs1 @ [2])),
   Asn1 ''md4WithRSAEncryption'' (Some ''RSA-MD4'') (Some ''md4WithRSAEncryption'') (Some 396) (Some (OBJ_pkcs1 @ [3])),
   Asn1 ''md5WithRSAEncryption'' (Some ''RSA-MD5'') (Some ''md5WithRSAEncryption'') (Some 8) (Some (OBJ_pkcs1 @ [4])),
   Asn1 ''sha1WithRSAEncryption'' (Some ''RSA-SHA1'') (Some ''sha1WithRSAEncryption'') (Some 65) (Some (OBJ_pkcs1 @ [5])),
   Asn1 ''rsaesOaep'' (Some ''RSAES-OAEP'') (Some ''rsaesOaep'') (Some 919) (Some (OBJ_pkcs1 @ [7])),
   Asn1 ''mgf1'' (Some ''MGF1'') (Some ''mgf1'') (Some 911) (Some (OBJ_pkcs1 @ [8])),
   Asn1 ''pSpecified'' (Some ''PSPECIFIED'') (Some ''pSpecified'') (Some 935) (Some (OBJ_pkcs1 @ [9])),
   Asn1 ''rsassaPss'' (Some ''RSASSA-PSS'') (Some ''rsassaPss'') (Some 912) (Some (OBJ_pkcs1 @ [10])),
   Asn1 ''sha256WithRSAEncryption'' (Some ''RSA-SHA256'') (Some ''sha256WithRSAEncryption'') (Some 668) (Some (OBJ_pkcs1 @ [11])),
   Asn1 ''sha384WithRSAEncryption'' (Some ''RSA-SHA384'') (Some ''sha384WithRSAEncryption'') (Some 669) (Some (OBJ_pkcs1 @ [12])),
   Asn1 ''sha512WithRSAEncryption'' (Some ''RSA-SHA512'') (Some ''sha512WithRSAEncryption'') (Some 670) (Some (OBJ_pkcs1 @ [13])),
   Asn1 ''sha224WithRSAEncryption'' (Some ''RSA-SHA224'') (Some ''sha224WithRSAEncryption'') (Some 671) (Some (OBJ_pkcs1 @ [14])),
   Asn1 ''pkcs3'' (Some ''pkcs3'') (None) (Some 27) (Some OBJ_pkcs3),
   Asn1 ''dhKeyAgreement'' (None) (Some ''dhKeyAgreement'') (Some 28) (Some (OBJ_pkcs3 @ [1])),
   Asn1 ''pkcs5'' (Some ''pkcs5'') (None) (Some 187) (Some OBJ_pkcs5),
   Asn1 ''pbeWithMD2AndDES_CBC'' (Some ''PBE-MD2-DES'') (Some ''pbeWithMD2AndDES-CBC'') (Some 9) (Some (OBJ_pkcs5 @ [1])),
   Asn1 ''pbeWithMD5AndDES_CBC'' (Some ''PBE-MD5-DES'') (Some ''pbeWithMD5AndDES-CBC'') (Some 10) (Some (OBJ_pkcs5 @ [3])),
   Asn1 ''pbeWithMD2AndRC2_CBC'' (Some ''PBE-MD2-RC2-64'') (Some ''pbeWithMD2AndRC2-CBC'') (Some 168) (Some (OBJ_pkcs5 @ [4])),
   Asn1 ''pbeWithMD5AndRC2_CBC'' (Some ''PBE-MD5-RC2-64'') (Some ''pbeWithMD5AndRC2-CBC'') (Some 169) (Some (OBJ_pkcs5 @ [6])),
   Asn1 ''pbeWithSHA1AndDES_CBC'' (Some ''PBE-SHA1-DES'') (Some ''pbeWithSHA1AndDES-CBC'') (Some 170) (Some (OBJ_pkcs5 @ [10])),
   Asn1 ''pbeWithSHA1AndRC2_CBC'' (Some ''PBE-SHA1-RC2-64'') (Some ''pbeWithSHA1AndRC2-CBC'') (Some 68) (Some (OBJ_pkcs5 @ [11]))]"

definition obj_mac_05 :: "asn1_object list" where
  "obj_mac_05 = [
   Asn1 ''id_pbkdf2'' (None) (Some ''PBKDF2'') (Some 69) (Some (OBJ_pkcs5 @ [12])),
   Asn1 ''pbes2'' (None) (Some ''PBES2'') (Some 161) (Some (OBJ_pkcs5 @ [13])),
   Asn1 ''pbmac1'' (None) (Some ''PBMAC1'') (Some 162) (Some (OBJ_pkcs5 @ [14])),
   Asn1 ''pkcs7'' (Some ''pkcs7'') (None) (Some 20) (Some OBJ_pkcs7),
   Asn1 ''pkcs7_data'' (None) (Some ''pkcs7-data'') (Some 21) (Some (OBJ_pkcs7 @ [1])),
   Asn1 ''pkcs7_signed'' (None) (Some ''pkcs7-signedData'') (Some 22) (Some (OBJ_pkcs7 @ [2])),
   Asn1 ''pkcs7_enveloped'' (None) (Some ''pkcs7-envelopedData'') (Some 23) (Some (OBJ_pkcs7 @ [3])),
   Asn1 ''pkcs7_signedAndEnveloped'' (None) (Some ''pkcs7-signedAndEnvelopedData'') (Some 24) (Some (OBJ_pkcs7 @ [4])),
   Asn1 ''pkcs7_digest'' (None) (Some ''pkcs7-digestData'') (Some 25) (Some (OBJ_pkcs7 @ [5])),
   Asn1 ''pkcs7_encrypted'' (None) (Some ''pkcs7-encryptedData'') (Some 26) (Some (OBJ_pkcs7 @ [6])),
   Asn1 ''pkcs9'' (Some ''pkcs9'') (None) (Some 47) (Some OBJ_pkcs9),
   Asn1 ''pkcs9_emailAddress'' (None) (Some ''emailAddress'') (Some 48) (Some (OBJ_pkcs9 @ [1])),
   Asn1 ''pkcs9_unstructuredName'' (None) (Some ''unstructuredName'') (Some 49) (Some (OBJ_pkcs9 @ [2])),
   Asn1 ''pkcs9_contentType'' (None) (Some ''contentType'') (Some 50) (Some (OBJ_pkcs9 @ [3])),
   Asn1 ''pkcs9_messageDigest'' (None) (Some ''messageDigest'') (Some 51) (Some (OBJ_pkcs9 @ [4])),
   Asn1 ''pkcs9_signingTime'' (None) (Some ''signingTime'') (Some 52) (Some (OBJ_pkcs9 @ [5])),
   Asn1 ''pkcs9_countersignature'' (None) (Some ''countersignature'') (Some 53) (Some (OBJ_pkcs9 @ [6])),
   Asn1 ''pkcs9_challengePassword'' (None) (Some ''challengePassword'') (Some 54) (Some (OBJ_pkcs9 @ [7])),
   Asn1 ''pkcs9_unstructuredAddress'' (None) (Some ''unstructuredAddress'') (Some 55) (Some (OBJ_pkcs9 @ [8])),
   Asn1 ''pkcs9_extCertAttributes'' (None) (Some ''extendedCertificateAttributes'') (Some 56) (Some (OBJ_pkcs9 @ [9])),
   Asn1 ''ext_req'' (Some ''extReq'') (Some ''Extension Request'') (Some 172) (Some (OBJ_pkcs9 @ [14])),
   Asn1 ''SMIMECapabilities'' (Some ''SMIME-CAPS'') (Some ''S/MIME Capabilities'') (Some 167) (Some (OBJ_pkcs9 @ [15])),
   Asn1 ''SMIME'' (Some ''SMIME'') (Some ''S/MIME'') (Some 188) (Some OBJ_SMIME),
   Asn1 ''id_smime_mod'' (Some ''id-smime-mod'') (None) (Some 189) (Some OBJ_id_smime_mod),
   Asn1 ''id_smime_ct'' (Some ''id-smime-ct'') (None) (Some 190) (Some OBJ_id_smime_ct),
   Asn1 ''id_smime_aa'' (Some ''id-smime-aa'') (None) (Some 191) (Some OBJ_id_smime_aa),
   Asn1 ''id_smime_alg'' (Some ''id-smime-alg'') (None) (Some 192) (Some OBJ_id_smime_alg),
   Asn1 ''id_smime_cd'' (Some ''id-smime-cd'') (None) (Some 193) (Some OBJ_id_smime_cd),
   Asn1 ''id_smime_spq'' (Some ''id-smime-spq'') (None) (Some 194) (Some OBJ_id_smime_spq),
   Asn1 ''id_smime_cti'' (Some ''id-smime-cti'') (None) (Some 195) (Some OBJ_id_smime_cti),
   Asn1 ''id_smime_mod_cms'' (Some ''id-smime-mod-cms'') (None) (Some 196) (Some (OBJ_id_smime_mod @ [1])),
   Asn1 ''id_smime_mod_ess'' (Some ''id-smime-mod-ess'') (None) (Some 197) (Some (OBJ_id_smime_mod @ [2])),
   Asn1 ''id_smime_mod_oid'' (Some ''id-smime-mod-oid'') (None) (Some 198) (Some (OBJ_id_smime_mod @ [3])),
   Asn1 ''id_smime_mod_msg_v3'' (Some ''id-smime-mod-msg-v3'') (None) (Some 199) (Some (OBJ_id_smime_mod @ [4])),
   Asn1 ''id_smime_mod_ets_eSignature_88'' (Some ''id-smime-mod-ets-eSignature-88'') (None) (Some 200) (Some (OBJ_id_smime_mod @ [5])),
   Asn1 ''id_smime_mod_ets_eSignature_97'' (Some ''id-smime-mod-ets-eSignature-97'') (None) (Some 201) (Some (OBJ_id_smime_mod @ [6])),
   Asn1 ''id_smime_mod_ets_eSigPolicy_88'' (Some ''id-smime-mod-ets-eSigPolicy-88'') (None) (Some 202) (Some (OBJ_id_smime_mod @ [7]))]"

definition obj_mac_06 :: "asn1_object list" where
  "obj_mac_06 = [
   Asn1 ''id_smime_mod_ets_eSigPolicy_97'' (Some ''id-smime-mod-ets-eSigPolicy-97'') (None) (Some 203) (Some (OBJ_id_smime_mod @ [8])),
   Asn1 ''id_smime_ct_receipt'' (Some ''id-smime-ct-receipt'') (None) (Some 204) (Some (OBJ_id_smime_ct @ [1])),
   Asn1 ''id_smime_ct_authData'' (Some ''id-smime-ct-authData'') (None) (Some 205) (Some (OBJ_id_smime_ct @ [2])),
   Asn1 ''id_smime_ct_publishCert'' (Some ''id-smime-ct-publishCert'') (None) (Some 206) (Some (OBJ_id_smime_ct @ [3])),
   Asn1 ''id_smime_ct_TSTInfo'' (Some ''id-smime-ct-TSTInfo'') (None) (Some 207) (Some (OBJ_id_smime_ct @ [4])),
   Asn1 ''id_smime_ct_TDTInfo'' (Some ''id-smime-ct-TDTInfo'') (None) (Some 208) (Some (OBJ_id_smime_ct @ [5])),
   Asn1 ''id_smime_ct_contentInfo'' (Some ''id-smime-ct-contentInfo'') (None) (Some 209) (Some (OBJ_id_smime_ct @ [6])),
   Asn1 ''id_smime_ct_DVCSRequestData'' (Some ''id-smime-ct-DVCSRequestData'') (None) (Some 210) (Some (OBJ_id_smime_ct @ [7])),
   Asn1 ''id_smime_ct_DVCSResponseData'' (Some ''id-smime-ct-DVCSResponseData'') (None) (Some 211) (Some (OBJ_id_smime_ct @ [8])),
   Asn1 ''id_smime_ct_compressedData'' (Some ''id-smime-ct-compressedData'') (None) (Some 786) (Some (OBJ_id_smime_ct @ [9])),
   Asn1 ''id_ct_asciiTextWithCRLF'' (Some ''id-ct-asciiTextWithCRLF'') (None) (Some 787) (Some (OBJ_id_smime_ct @ [27])),
   Asn1 ''id_smime_aa_receiptRequest'' (Some ''id-smime-aa-receiptRequest'') (None) (Some 212) (Some (OBJ_id_smime_aa @ [1])),
   Asn1 ''id_smime_aa_securityLabel'' (Some ''id-smime-aa-securityLabel'') (None) (Some 213) (Some (OBJ_id_smime_aa @ [2])),
   Asn1 ''id_smime_aa_mlExpandHistory'' (Some ''id-smime-aa-mlExpandHistory'') (None) (Some 214) (Some (OBJ_id_smime_aa @ [3])),
   Asn1 ''id_smime_aa_contentHint'' (Some ''id-smime-aa-contentHint'') (None) (Some 215) (Some (OBJ_id_smime_aa @ [4])),
   Asn1 ''id_smime_aa_msgSigDigest'' (Some ''id-smime-aa-msgSigDigest'') (None) (Some 216) (Some (OBJ_id_smime_aa @ [5])),
   Asn1 ''id_smime_aa_encapContentType'' (Some ''id-smime-aa-encapContentType'') (None) (Some 217) (Some (OBJ_id_smime_aa @ [6])),
   Asn1 ''id_smime_aa_contentIdentifier'' (Some ''id-smime-aa-contentIdentifier'') (None) (Some 218) (Some (OBJ_id_smime_aa @ [7])),
   Asn1 ''id_smime_aa_macValue'' (Some ''id-smime-aa-macValue'') (None) (Some 219) (Some (OBJ_id_smime_aa @ [8])),
   Asn1 ''id_smime_aa_equivalentLabels'' (Some ''id-smime-aa-equivalentLabels'') (None) (Some 220) (Some (OBJ_id_smime_aa @ [9])),
   Asn1 ''id_smime_aa_contentReference'' (Some ''id-smime-aa-contentReference'') (None) (Some 221) (Some (OBJ_id_smime_aa @ [10])),
   Asn1 ''id_smime_aa_encrypKeyPref'' (Some ''id-smime-aa-encrypKeyPref'') (None) (Some 222) (Some (OBJ_id_smime_aa @ [11])),
   Asn1 ''id_smime_aa_signingCertificate'' (Some ''id-smime-aa-signingCertificate'') (None) (Some 223) (Some (OBJ_id_smime_aa @ [12])),
   Asn1 ''id_smime_aa_smimeEncryptCerts'' (Some ''id-smime-aa-smimeEncryptCerts'') (None) (Some 224) (Some (OBJ_id_smime_aa @ [13])),
   Asn1 ''id_smime_aa_timeStampToken'' (Some ''id-smime-aa-timeStampToken'') (None) (Some 225) (Some (OBJ_id_smime_aa @ [14])),
   Asn1 ''id_smime_aa_ets_sigPolicyId'' (Some ''id-smime-aa-ets-sigPolicyId'') (None) (Some 226) (Some (OBJ_id_smime_aa @ [15])),
   Asn1 ''id_smime_aa_ets_commitmentType'' (Some ''id-smime-aa-ets-commitmentType'') (None) (Some 227) (Some (OBJ_id_smime_aa @ [16])),
   Asn1 ''id_smime_aa_ets_signerLocation'' (Some ''id-smime-aa-ets-signerLocation'') (None) (Some 228) (Some (OBJ_id_smime_aa @ [17])),
   Asn1 ''id_smime_aa_ets_signerAttr'' (Some ''id-smime-aa-ets-signerAttr'') (None) (Some 229) (Some (OBJ_id_smime_aa @ [18])),
   Asn1 ''id_smime_aa_ets_otherSigCert'' (Some ''id-smime-aa-ets-otherSigCert'') (None) (Some 230) (Some (OBJ_id_smime_aa @ [19])),
   Asn1 ''id_smime_aa_ets_contentTimestamp'' (Some ''id-smime-aa-ets-contentTimestamp'') (None) (Some 231) (Some (OBJ_id_smime_aa @ [20])),
   Asn1 ''id_smime_aa_ets_CertificateRefs'' (Some ''id-smime-aa-ets-CertificateRefs'') (None) (Some 232) (Some (OBJ_id_smime_aa @ [21])),
   Asn1 ''id_smime_aa_ets_RevocationRefs'' (Some ''id-smime-aa-ets-RevocationRefs'') (None) (Some 233) (Some (OBJ_id_smime_aa @ [22])),
   Asn1 ''id_smime_aa_ets_certValues'' (Some ''id-smime-aa-ets-certValues'') (None) (Some 234) (Some (OBJ_id_smime_aa @ [23])),
   Asn1 ''id_smime_aa_ets_revocationValues'' (Some ''id-smime-aa-ets-revocationValues'') (None) (Some 235) (Some (OBJ_id_smime_aa @ [24])),
   Asn1 ''id_smime_aa_ets_escTimeStamp'' (Some ''id-smime-aa-ets-escTimeStamp'') (None) (Some 236) (Some (OBJ_id_smime_aa @ [25])),
   Asn1 ''id_smime_aa_ets_certCRLTimestamp'' (Some ''id-smime-aa-ets-certCRLTimestamp'') (None) (Some 237) (Some (OBJ_id_smime_aa @ [26]))]"

definition obj_mac_07 :: "asn1_object list" where
  "obj_mac_07 = [
   Asn1 ''id_smime_aa_ets_archiveTimeStamp'' (Some ''id-smime-aa-ets-archiveTimeStamp'') (None) (Some 238) (Some (OBJ_id_smime_aa @ [27])),
   Asn1 ''id_smime_aa_signatureType'' (Some ''id-smime-aa-signatureType'') (None) (Some 239) (Some (OBJ_id_smime_aa @ [28])),
   Asn1 ''id_smime_aa_dvcs_dvc'' (Some ''id-smime-aa-dvcs-dvc'') (None) (Some 240) (Some (OBJ_id_smime_aa @ [29])),
   Asn1 ''id_smime_alg_ESDHwith3DES'' (Some ''id-smime-alg-ESDHwith3DES'') (None) (Some 241) (Some (OBJ_id_smime_alg @ [1])),
   Asn1 ''id_smime_alg_ESDHwithRC2'' (Some ''id-smime-alg-ESDHwithRC2'') (None) (Some 242) (Some (OBJ_id_smime_alg @ [2])),
   Asn1 ''id_smime_alg_3DESwrap'' (Some ''id-smime-alg-3DESwrap'') (None) (Some 243) (Some (OBJ_id_smime_alg @ [3])),
   Asn1 ''id_smime_alg_RC2wrap'' (Some ''id-smime-alg-RC2wrap'') (None) (Some 244) (Some (OBJ_id_smime_alg @ [4])),
   Asn1 ''id_smime_alg_ESDH'' (Some ''id-smime-alg-ESDH'') (None) (Some 245) (Some (OBJ_id_smime_alg @ [5])),
   Asn1 ''id_smime_alg_CMS3DESwrap'' (Some ''id-smime-alg-CMS3DESwrap'') (None) (Some 246) (Some (OBJ_id_smime_alg @ [6])),
   Asn1 ''id_smime_alg_CMSRC2wrap'' (Some ''id-smime-alg-CMSRC2wrap'') (None) (Some 247) (Some (OBJ_id_smime_alg @ [7])),
   Asn1 ''id_alg_PWRI_KEK'' (Some ''id-alg-PWRI-KEK'') (None) (Some 893) (Some (OBJ_id_smime_alg @ [9])),
   Asn1 ''id_smime_cd_ldap'' (Some ''id-smime-cd-ldap'') (None) (Some 248) (Some (OBJ_id_smime_cd @ [1])),
   Asn1 ''id_smime_spq_ets_sqt_uri'' (Some ''id-smime-spq-ets-sqt-uri'') (None) (Some 249) (Some (OBJ_id_smime_spq @ [1])),
   Asn1 ''id_smime_spq_ets_sqt_unotice'' (Some ''id-smime-spq-ets-sqt-unotice'') (None) (Some 250) (Some (OBJ_id_smime_spq @ [2])),
   Asn1 ''id_smime_cti_ets_proofOfOrigin'' (Some ''id-smime-cti-ets-proofOfOrigin'') (None) (Some 251) (Some (OBJ_id_smime_cti @ [1])),
   Asn1 ''id_smime_cti_ets_proofOfReceipt'' (Some ''id-smime-cti-ets-proofOfReceipt'') (None) (Some 252) (Some (OBJ_id_smime_cti @ [2])),
   Asn1 ''id_smime_cti_ets_proofOfDelivery'' (Some ''id-smime-cti-ets-proofOfDelivery'') (None) (Some 253) (Some (OBJ_id_smime_cti @ [3])),
   Asn1 ''id_smime_cti_ets_proofOfSender'' (Some ''id-smime-cti-ets-proofOfSender'') (None) (Some 254) (Some (OBJ_id_smime_cti @ [4])),
   Asn1 ''id_smime_cti_ets_proofOfApproval'' (Some ''id-smime-cti-ets-proofOfApproval'') (None) (Some 255) (Some (OBJ_id_smime_cti @ [5])),
   Asn1 ''id_smime_cti_ets_proofOfCreation'' (Some ''id-smime-cti-ets-proofOfCreation'') (None) (Some 256) (Some (OBJ_id_smime_cti @ [6])),
   Asn1 ''friendlyName'' (None) (Some ''friendlyName'') (Some 156) (Some (OBJ_pkcs9 @ [20])),
   Asn1 ''localKeyID'' (None) (Some ''localKeyID'') (Some 157) (Some (OBJ_pkcs9 @ [21])),
   Asn1 ''ms_csp_name'' (Some ''CSPName'') (Some ''Microsoft CSP Name'') (Some 417) (Some ([1, 3, 6, 1, 4, 1, 311, 17, 1])),
   Asn1 ''LocalKeySet'' (Some ''LocalKeySet'') (Some ''Microsoft Local Key set'') (Some 856) (Some ([1, 3, 6, 1, 4, 1, 311, 17, 2])),
   Asn1 ''certTypes'' (None) (None) (None) (Some OBJ_certTypes),
   Asn1 ''x509Certificate'' (None) (Some ''x509Certificate'') (Some 158) (Some (OBJ_certTypes @ [1])),
   Asn1 ''sdsiCertificate'' (None) (Some ''sdsiCertificate'') (Some 159) (Some (OBJ_certTypes @ [2])),
   Asn1 ''crlTypes'' (None) (None) (None) (Some OBJ_crlTypes),
   Asn1 ''x509Crl'' (None) (Some ''x509Crl'') (Some 160) (Some (OBJ_crlTypes @ [1])),
   Asn1 ''pkcs12'' (None) (None) (None) (Some OBJ_pkcs12),
   Asn1 ''pkcs12_pbeids'' (None) (None) (None) (Some OBJ_pkcs12_pbeids),
   Asn1 ''pbe_WithSHA1And128BitRC4'' (Some ''PBE-SHA1-RC4-128'') (Some ''pbeWithSHA1And128BitRC4'') (Some 144) (Some (OBJ_pkcs12_pbeids @ [1])),
   Asn1 ''pbe_WithSHA1And40BitRC4'' (Some ''PBE-SHA1-RC4-40'') (Some ''pbeWithSHA1And40BitRC4'') (Some 145) (Some (OBJ_pkcs12_pbeids @ [2])),
   Asn1 ''pbe_WithSHA1And3_Key_TripleDES_CBC'' (Some ''PBE-SHA1-3DES'') (Some ''pbeWithSHA1And3-KeyTripleDES-CBC'') (Some 146) (Some (OBJ_pkcs12_pbeids @ [3])),
   Asn1 ''pbe_WithSHA1And2_Key_TripleDES_CBC'' (Some ''PBE-SHA1-2DES'') (Some ''pbeWithSHA1And2-KeyTripleDES-CBC'') (Some 147) (Some (OBJ_pkcs12_pbeids @ [4])),
   Asn1 ''pbe_WithSHA1And128BitRC2_CBC'' (Some ''PBE-SHA1-RC2-128'') (Some ''pbeWithSHA1And128BitRC2-CBC'') (Some 148) (Some (OBJ_pkcs12_pbeids @ [5])),
   Asn1 ''pbe_WithSHA1And40BitRC2_CBC'' (Some ''PBE-SHA1-RC2-40'') (Some ''pbeWithSHA1And40BitRC2-CBC'') (Some 149) (Some (OBJ_pkcs12_pbeids @ [6])),
   Asn1 ''pkcs12_Version1'' (None) (None) (None) (Some OBJ_pkcs12_Version1)]"

definition obj_mac_08 :: "asn1_object list" where
  "obj_mac_08 = [
   Asn1 ''pkcs12_BagIds'' (None) (None) (None) (Some OBJ_pkcs12_BagIds),
   Asn1 ''keyBag'' (None) (Some ''keyBag'') (Some 150) (Some (OBJ_pkcs12_BagIds @ [1])),
   Asn1 ''pkcs8ShroudedKeyBag'' (None) (Some ''pkcs8ShroudedKeyBag'') (Some 151) (Some (OBJ_pkcs12_BagIds @ [2])),
   Asn1 ''certBag'' (None) (Some ''certBag'') (Some 152) (Some (OBJ_pkcs12_BagIds @ [3])),
   Asn1 ''crlBag'' (None) (Some ''crlBag'') (Some 153) (Some (OBJ_pkcs12_BagIds @ [4])),
   Asn1 ''secretBag'' (None) (Some ''secretBag'') (Some 154) (Some (OBJ_pkcs12_BagIds @ [5])),
   Asn1 ''safeContentsBag'' (None) (Some ''safeContentsBag'') (Some 155) (Some (OBJ_pkcs12_BagIds @ [6])),
   Asn1 ''md2'' (Some ''MD2'') (Some ''md2'') (Some 3) (Some (OBJ_rsadsi @ [2, 2])),
   Asn1 ''md4'' (Some ''MD4'') (Some ''md4'') (Some 257) (Some (OBJ_rsadsi @ [2, 4])),
   Asn1 ''md5'' (Some ''MD5'') (Some ''md5'') (Some 4) (Some (OBJ_rsadsi @ [2, 5])),
   Asn1 ''md5_sha1'' (Some ''MD5-SHA1'') (Some ''md5-sha1'') (Some 114) (None),
   Asn1 ''hmacWithMD5'' (None) (Some ''hmacWithMD5'') (Some 797) (Some (OBJ_rsadsi @ [2, 6])),
   Asn1 ''hmacWithSHA1'' (None) (Some ''hmacWithSHA1'') (Some 163) (Some (OBJ_rsadsi @ [2, 7])),
   Asn1 ''hmacWithSHA224'' (None) (Some ''hmacWithSHA224'') (Some 798) (Some (OBJ_rsadsi @ [2, 8])),
   Asn1 ''hmacWithSHA256'' (None) (Some ''hmacWithSHA256'') (Some 799) (Some (OBJ_rsadsi @ [2, 9])),
   Asn1 ''hmacWithSHA384'' (None) (Some ''hmacWithSHA384'') (Some 800) (Some (OBJ_rsadsi @ [2, 10])),
   Asn1 ''hmacWithSHA512'' (None) (Some ''hmacWithSHA512'') (Some 801) (Some (OBJ_rsadsi @ [2, 11])),
   Asn1 ''rc2_cbc'' (Some ''RC2-CBC'') (Some ''rc2-cbc'') (Some 37) (Some (OBJ_rsadsi @ [3, 2])),
   Asn1 ''rc2_ecb'' (Some ''RC2-ECB'') (Some ''rc2-ecb'') (Some 38) (None),
   Asn1 ''rc2_cfb64'' (Some ''RC2-CFB'') (Some ''rc2-cfb'') (Some 39) (None),
   Asn1 ''rc2_ofb64'' (Some ''RC2-OFB'') (Some ''rc2-ofb'') (Some 40) (None),
   Asn1 ''rc2_40_cbc'' (Some ''RC2-40-CBC'') (Some ''rc2-40-cbc'') (Some 98) (None),
   Asn1 ''rc2_64_cbc'' (Some ''RC2-64-CBC'') (Some ''rc2-64-cbc'') (Some 166) (None),
   Asn1 ''rc4'' (Some ''RC4'') (Some ''rc4'') (Some 5) (Some (OBJ_rsadsi @ [3, 4])),
   Asn1 ''rc4_40'' (Some ''RC4-40'') (Some ''rc4-40'') (Some 97) (None),
   Asn1 ''des_ede3_cbc'' (Some ''DES-EDE3-CBC'') (Some ''des-ede3-cbc'') (Some 44) (Some (OBJ_rsadsi @ [3, 7])),
   Asn1 ''rc5_cbc'' (Some ''RC5-CBC'') (Some ''rc5-cbc'') (Some 120) (Some (OBJ_rsadsi @ [3, 8])),
   Asn1 ''rc5_ecb'' (Some ''RC5-ECB'') (Some ''rc5-ecb'') (Some 121) (None),
   Asn1 ''rc5_cfb64'' (Some ''RC5-CFB'') (Some ''rc5-cfb'') (Some 122) (None),
   Asn1 ''rc5_ofb64'' (Some ''RC5-OFB'') (Some ''rc5-ofb'') (Some 123) (None),
   Asn1 ''ms_ext_req'' (Some ''msExtReq'') (Some ''Microsoft Extension Request'') (Some 171) (Some ([1, 3, 6, 1, 4, 1, 311, 2, 1, 14])),
   Asn1 ''ms_code_ind'' (Some ''msCodeInd'') (Some ''Microsoft Individual Code Signing'') (Some 134) (Some ([1, 3, 6, 1, 4, 1, 311, 2, 1, 21])),
   Asn1 ''ms_code_com'' (Some ''msCodeCom'') (Some ''Microsoft Commercial Code Signing'') (Some 135) (Some ([1, 3, 6, 1, 4, 1, 311, 2, 1, 22])),
   Asn1 ''ms_ctl_sign'' (Some ''msCTLSign'') (Some ''Microsoft Trust List Signing'') (Some 136) (Some ([1, 3, 6, 1, 4, 1, 311, 10, 3, 1])),
   Asn1 ''ms_sgc'' (Some ''msSGC'') (Some ''Microsoft Server Gated Crypto'') (Some 137) (Some ([1, 3, 6, 1, 4, 1, 311, 10, 3, 3]))]"

definition obj_mac_09 :: "asn1_object list" where
  "obj_mac_09 = [
   Asn1 ''ms_efs'' (Some ''msEFS'') (Some ''Microsoft Encrypted File System'') (Some 138) (Some ([1, 3, 6, 1, 4, 1, 311, 10, 3, 4])),
   Asn1 ''ms_smartcard_login'' (Some ''msSmartcardLogin'') (Some ''Microsoft Smartcardlogin'') (Some 648) (Some ([1, 3, 6, 1, 4, 1, 311, 20, 2, 2])),
   Asn1 ''ms_upn'' (Some ''msUPN'') (Some ''Microsoft Universal Principal Name'') (Some 649) (Some ([1, 3, 6, 1, 4, 1, 311, 20, 2, 3])),
   Asn1 ''idea_cbc'' (Some ''IDEA-CBC'') (Some ''idea-cbc'') (Some 34) (Some ([1, 3, 6, 1, 4, 1, 188, 7, 1, 1, 2])),
   Asn1 ''idea_ecb'' (Some ''IDEA-ECB'') (Some ''idea-ecb'') (Some 36) (None),
   Asn1 ''idea_cfb64'' (Some ''IDEA-CFB'') (Some ''idea-cfb'') (Some 35) (None),
   Asn1 ''idea_ofb64'' (Some ''IDEA-OFB'') (Some ''idea-ofb'') (Some 46) (None),
   Asn1 ''bf_cbc'' (Some ''BF-CBC'') (Some ''bf-cbc'') (Some 91) (Some ([1, 3, 6, 1, 4, 1, 3029, 1, 2])),
   Asn1 ''bf_ecb'' (Some ''BF-ECB'') (Some ''bf-ecb'') (Some 92) (None),
   Asn1 ''bf_cfb64'' (Some ''BF-CFB'') (Some ''bf-cfb'') (Some 93) (None),
   Asn1 ''bf_ofb64'' (Some ''BF-OFB'') (Some ''bf-ofb'') (Some 94) (None),
   Asn1 ''id_pkix'' (Some ''PKIX'') (None) (Some 127) (Some OBJ_id_pkix),
   Asn1 ''id_pkix_mod'' (Some ''id-pkix-mod'') (None) (Some 258) (Some OBJ_id_pkix_mod),
   Asn1 ''id_pe'' (Some ''id-pe'') (None) (Some 175) (Some OBJ_id_pe),
   Asn1 ''id_qt'' (Some ''id-qt'') (None) (Some 259) (Some OBJ_id_qt),
   Asn1 ''id_kp'' (Some ''id-kp'') (None) (Some 128) (Some OBJ_id_kp),
   Asn1 ''id_it'' (Some ''id-it'') (None) (Some 260) (Some OBJ_id_it),
   Asn1 ''id_pkip'' (Some ''id-pkip'') (None) (Some 261) (Some OBJ_id_pkip),
   Asn1 ''id_alg'' (Some ''id-alg'') (None) (Some 262) (Some OBJ_id_alg),
   Asn1 ''id_cmc'' (Some ''id-cmc'') (None) (Some 263) (Some OBJ_id_cmc),
   Asn1 ''id_on'' (Some ''id-on'') (None) (Some 264) (Some OBJ_id_on),
   Asn1 ''id_pda'' (Some ''id-pda'') (None) (Some 265) (Some OBJ_id_pda),
   Asn1 ''id_aca'' (Some ''id-aca'') (None) (Some 266) (Some OBJ_id_aca),
   Asn1 ''id_qcs'' (Some ''id-qcs'') (None) (Some 267) (Some OBJ_id_qcs),
   Asn1 ''id_cct'' (Some ''id-cct'') (None) (Some 268) (Some OBJ_id_cct),
   Asn1 ''id_ppl'' (Some ''id-ppl'') (None) (Some 662) (Some OBJ_id_ppl),
   Asn1 ''id_ad'' (Some ''id-ad'') (None) (Some 176) (Some OBJ_id_ad),
   Asn1 ''id_pkix1_explicit_88'' (Some ''id-pkix1-explicit-88'') (None) (Some 269) (Some (OBJ_id_pkix_mod @ [1])),
   Asn1 ''id_pkix1_implicit_88'' (Some ''id-pkix1-implicit-88'') (None) (Some 270) (Some (OBJ_id_pkix_mod @ [2])),
   Asn1 ''id_pkix1_explicit_93'' (Some ''id-pkix1-explicit-93'') (None) (Some 271) (Some (OBJ_id_pkix_mod @ [3])),
   Asn1 ''id_pkix1_implicit_93'' (Some ''id-pkix1-implicit-93'') (None) (Some 272) (Some (OBJ_id_pkix_mod @ [4])),
   Asn1 ''id_mod_crmf'' (Some ''id-mod-crmf'') (None) (Some 273) (Some (OBJ_id_pkix_mod @ [5])),
   Asn1 ''id_mod_cmc'' (Some ''id-mod-cmc'') (None) (Some 274) (Some (OBJ_id_pkix_mod @ [6])),
   Asn1 ''id_mod_kea_profile_88'' (Some ''id-mod-kea-profile-88'') (None) (Some 275) (Some (OBJ_id_pkix_mod @ [7])),
   Asn1 ''id_mod_kea_profile_93'' (Some ''id-mod-kea-profile-93'') (None) (Some 276) (Some (OBJ_id_pkix_mod @ [8])),
   Asn1 ''id_mod_cmp'' (Some ''id-mod-cmp'') (None) (Some 277) (Some (OBJ_id_pkix_mod @ [9]))]"

definition obj_mac_10 :: "asn1_object list" where
  "obj_mac_10 = [
   Asn1 ''id_mod_qualified_cert_88'' (Some ''id-mod-qualified-cert-88'') (None) (Some 278) (Some (OBJ_id_pkix_mod @ [10])),
   Asn1 ''id_mod_qualified_cert_93'' (Some ''id-mod-qualified-cert-93'') (None) (Some 279) (Some (OBJ_id_pkix_mod @ [11])),
   Asn1 ''id_mod_attribute_cert'' (Some ''id-mod-attribute-cert'') (None) (Some 280) (Some (OBJ_id_pkix_mod @ [12])),
   Asn1 ''id_mod_timestamp_protocol'' (Some ''id-mod-timestamp-protocol'') (None) (Some 281) (Some (OBJ_id_pkix_mod @ [13])),
   Asn1 ''id_mod_ocsp'' (Some ''id-mod-ocsp'') (None) (Some 282) (Some (OBJ_id_pkix_mod @ [14])),
   Asn1 ''id_mod_dvcs'' (Some ''id-mod-dvcs'') (None) (Some 283) (Some (OBJ_id_pkix_mod @ [15])),
   Asn1 ''id_mod_cmp2000'' (Some ''id-mod-cmp2000'') (None) (Some 284) (Some (OBJ_id_pkix_mod @ [16])),
   Asn1 ''info_access'' (Some ''authorityInfoAccess'') (Some ''Authority Information Access'') (Some 177) (Some (OBJ_id_pe @ [1])),
   Asn1 ''biometricInfo'' (Some ''biometricInfo'') (Some ''Biometric Info'') (Some 285) (Some (OBJ_id_pe @ [2])),
   Asn1 ''qcStatements'' (Some ''qcStatements'') (None) (Some 286) (Some (OBJ_id_pe @ [3])),
   Asn1 ''ac_auditEntity'' (Some ''ac-auditEntity'') (None) (Some 287) (Some (OBJ_id_pe @ [4])),
   Asn1 ''ac_targeting'' (Some ''ac-targeting'') (None) (Some 288) (Some (OBJ_id_pe @ [5])),
   Asn1 ''aaControls'' (Some ''aaControls'') (None) (Some 289) (Some (OBJ_id_pe @ [6])),
   Asn1 ''sbgp_ipAddrBlock'' (Some ''sbgp-ipAddrBlock'') (None) (Some 290) (Some (OBJ_id_pe @ [7])),
   Asn1 ''sbgp_autonomousSysNum'' (Some ''sbgp-autonomousSysNum'') (None) (Some 291) (Some (OBJ_id_pe @ [8])),
   Asn1 ''sbgp_routerIdentifier'' (Some ''sbgp-routerIdentifier'') (None) (Some 292) (Some (OBJ_id_pe @ [9])),
   Asn1 ''ac_proxying'' (Some ''ac-proxying'') (None) (Some 397) (Some (OBJ_id_pe @ [10])),
   Asn1 ''sinfo_access'' (Some ''subjectInfoAccess'') (Some ''Subject Information Access'') (Some 398) (Some (OBJ_id_pe @ [11])),
   Asn1 ''proxyCertInfo'' (Some ''proxyCertInfo'') (Some ''Proxy Certificate Information'') (Some 663) (Some (OBJ_id_pe @ [14])),
   Asn1 ''id_qt_cps'' (Some ''id-qt-cps'') (Some ''Policy Qualifier CPS'') (Some 164) (Some (OBJ_id_qt @ [1])),
   Asn1 ''id_qt_unotice'' (Some ''id-qt-unotice'') (Some ''Policy Qualifier User Notice'') (Some 165) (Some (OBJ_id_qt @ [2])),
   Asn1 ''textNotice'' (Some ''textNotice'') (None) (Some 293) (Some (OBJ_id_qt @ [3])),
   Asn1 ''server_auth'' (Some ''serverAuth'') (Some ''TLS Web Server Authentication'') (Some 129) (Some (OBJ_id_kp @ [1])),
   Asn1 ''client_auth'' (Some ''clientAuth'') (Some ''TLS Web Client Authentication'') (Some 130) (Some (OBJ_id_kp @ [2])),
   Asn1 ''code_sign'' (Some ''codeSigning'') (Some ''Code Signing'') (Some 131) (Some (OBJ_id_kp @ [3])),
   Asn1 ''email_protect'' (Some ''emailProtection'') (Some ''E-mail Protection'') (Some 132) (Some (OBJ_id_kp @ [4])),
   Asn1 ''ipsecEndSystem'' (Some ''ipsecEndSystem'') (Some ''IPSec End System'') (Some 294) (Some (OBJ_id_kp @ [5])),
   Asn1 ''ipsecTunnel'' (Some ''ipsecTunnel'') (Some ''IPSec Tunnel'') (Some 295) (Some (OBJ_id_kp @ [6])),
   Asn1 ''ipsecUser'' (Some ''ipsecUser'') (Some ''IPSec User'') (Some 296) (Some (OBJ_id_kp @ [7])),
   Asn1 ''time_stamp'' (Some ''timeStamping'') (Some ''Time Stamping'') (Some 133) (Some (OBJ_id_kp @ [8])),
   Asn1 ''OCSP_sign'' (Some ''OCSPSigning'') (Some ''OCSP Signing'') (Some 180) (Some (OBJ_id_kp @ [9])),
   Asn1 ''dvcs'' (Some ''DVCS'') (Some ''dvcs'') (Some 297) (Some (OBJ_id_kp @ [10])),
   Asn1 ''id_it_caProtEncCert'' (Some ''id-it-caProtEncCert'') (None) (Some 298) (Some (OBJ_id_it @ [1]))]"

definition obj_mac_11 :: "asn1_object list" where
  "obj_mac_11 = [
   Asn1 ''id_it_signKeyPairTypes'' (Some ''id-it-signKeyPairTypes'') (None) (Some 299) (Some (OBJ_id_it @ [2])),
   Asn1 ''id_it_encKeyPairTypes'' (Some ''id-it-encKeyPairTypes'') (None) (Some 300) (Some (OBJ_id_it @ [3])),
   Asn1 ''id_it_preferredSymmAlg'' (Some ''id-it-preferredSymmAlg'') (None) (Some 301) (Some (OBJ_id_it @ [4])),
   Asn1 ''id_it_caKeyUpdateInfo'' (Some ''id-it-caKeyUpdateInfo'') (None) (Some 302) (Some (OBJ_id_it @ [5])),
   Asn1 ''id_it_currentCRL'' (Some ''id-it-currentCRL'') (None) (Some 303) (Some (OBJ_id_it @ [6])),
   Asn1 ''id_it_unsupportedOIDs'' (Some ''id-it-unsupportedOIDs'') (None) (Some 304) (Some (OBJ_id_it @ [7])),
   Asn1 ''id_it_subscriptionRequest'' (Some ''id-it-subscriptionRequest'') (None) (Some 305) (Some (OBJ_id_it @ [8])),
   Asn1 ''id_it_subscriptionResponse'' (Some ''id-it-subscriptionResponse'') (None) (Some 306) (Some (OBJ_id_it @ [9])),
   Asn1 ''id_it_keyPairParamReq'' (Some ''id-it-keyPairParamReq'') (None) (Some 307) (Some (OBJ_id_it @ [10])),
   Asn1 ''id_it_keyPairParamRep'' (Some ''id-it-keyPairParamRep'') (None) (Some 308) (Some (OBJ_id_it @ [11])),
   Asn1 ''id_it_revPassphrase'' (Some ''id-it-revPassphrase'') (None) (Some 309) (Some (OBJ_id_it @ [12])),
   Asn1 ''id_it_implicitConfirm'' (Some ''id-it-implicitConfirm'') (None) (Some 310) (Some (OBJ_id_it @ [13])),
   Asn1 ''id_it_confirmWaitTime'' (Some ''id-it-confirmWaitTime'') (None) (Some 311) (Some (OBJ_id_it @ [14])),
   Asn1 ''id_it_origPKIMessage'' (Some ''id-it-origPKIMessage'') (None) (Some 312) (Some (OBJ_id_it @ [15])),
   Asn1 ''id_it_suppLangTags'' (Some ''id-it-suppLangTags'') (None) (Some 784) (Some (OBJ_id_it @ [16])),
   Asn1 ''id_regCtrl'' (Some ''id-regCtrl'') (None) (Some 313) (Some OBJ_id_regCtrl),
   Asn1 ''id_regInfo'' (Some ''id-regInfo'') (None) (Some 314) (Some OBJ_id_regInfo),
   Asn1 ''id_regCtrl_regToken'' (Some ''id-regCtrl-regToken'') (None) (Some 315) (Some (OBJ_id_regCtrl @ [1])),
   Asn1 ''id_regCtrl_authenticator'' (Some ''id-regCtrl-authenticator'') (None) (Some 316) (Some (OBJ_id_regCtrl @ [2])),
   Asn1 ''id_regCtrl_pkiPublicationInfo'' (Some ''id-regCtrl-pkiPublicationInfo'') (None) (Some 317) (Some (OBJ_id_regCtrl @ [3])),
   Asn1 ''id_regCtrl_pkiArchiveOptions'' (Some ''id-regCtrl-pkiArchiveOptions'') (None) (Some 318) (Some (OBJ_id_regCtrl @ [4])),
   Asn1 ''id_regCtrl_oldCertID'' (Some ''id-regCtrl-oldCertID'') (None) (Some 319) (Some (OBJ_id_regCtrl @ [5])),
   Asn1 ''id_regCtrl_protocolEncrKey'' (Some ''id-regCtrl-protocolEncrKey'') (None) (Some 320) (Some (OBJ_id_regCtrl @ [6])),
   Asn1 ''id_regInfo_utf8Pairs'' (Some ''id-regInfo-utf8Pairs'') (None) (Some 321) (Some (OBJ_id_regInfo @ [1])),
   Asn1 ''id_regInfo_certReq'' (Some ''id-regInfo-certReq'') (None) (Some 322) (Some (OBJ_id_regInfo @ [2])),
   Asn1 ''id_alg_des40'' (Some ''id-alg-des40'') (None) (Some 323) (Some (OBJ_id_alg @ [1])),
   Asn1 ''id_alg_noSignature'' (Some ''id-alg-noSignature'') (None) (Some 324) (Some (OBJ_id_alg @ [2])),
   Asn1 ''id_alg_dh_sig_hmac_sha1'' (Some ''id-alg-dh-sig-hmac-sha1'') (None) (Some 325) (Some (OBJ_id_alg @ [3])),
   Asn1 ''id_alg_dh_pop'' (Some ''id-alg-dh-pop'') (None) (Some 326) (Some (OBJ_id_alg @ [4])),
   Asn1 ''id_cmc_statusInfo'' (Some ''id-cmc-statusInfo'') (None) (Some 327) (Some (OBJ_id_cmc @ [1])),
   Asn1 ''id_cmc_identification'' (Some ''id-cmc-identification'') (None) (Some 328) (Some (OBJ_id_cmc @ [2])),
   Asn1 ''id_cmc_identityProof'' (Some ''id-cmc-identityProof'') (None) (Some 329) (Some (OBJ_id_cmc @ [3])),
   Asn1 ''id_cmc_dataReturn'' (Some ''id-cmc-dataReturn'') (None) (Some 330) (Some (OBJ_id_cmc @ [4])),
   Asn1 ''id_cmc_transactionId'' (Some ''id-cmc-transactionId'') (None) (Some 331) (Some (OBJ_id_cmc @ [5])),
   Asn1 ''id_cmc_senderNonce'' (Some ''id-cmc-senderNonce'') (None) (Some 332) (Some (OBJ_id_cmc @ [6])),
   Asn1 ''id_cmc_recipientNonce'' (Some ''id-cmc-recipientNonce'') (None) (Some 333) (Some (OBJ_id_cmc @ [7])),
   Asn1 ''id_cmc_addExtensions'' (Some ''id-cmc-addExtensions'') (None) (Some 334) (Some (OBJ_id_cmc @ [8]))]"

definition obj_mac_12 :: "asn1_object list" where
  "obj_mac_12 = [
   Asn1 ''id_cmc_encryptedPOP'' (Some ''id-cmc-encryptedPOP'') (None) (Some 335) (Some (OBJ_id_cmc @ [9])),
   Asn1 ''id_cmc_decryptedPOP'' (Some ''id-cmc-decryptedPOP'') (None) (Some 336) (Some (OBJ_id_cmc @ [10])),
   Asn1 ''id_cmc_lraPOPWitness'' (Some ''id-cmc-lraPOPWitness'') (None) (Some 337) (Some (OBJ_id_cmc @ [11])),
   Asn1 ''id_cmc_getCert'' (Some ''id-cmc-getCert'') (None) (Some 338) (Some (OBJ_id_cmc @ [15])),
   Asn1 ''id_cmc_getCRL'' (Some ''id-cmc-getCRL'') (None) (Some 339) (Some (OBJ_id_cmc @ [16])),
   Asn1 ''id_cmc_revokeRequest'' (Some ''id-cmc-revokeRequest'') (None) (Some 340) (Some (OBJ_id_cmc @ [17])),
   Asn1 ''id_cmc_regInfo'' (Some ''id-cmc-regInfo'') (None) (Some 341) (Some (OBJ_id_cmc @ [18])),
   Asn1 ''id_cmc_responseInfo'' (Some ''id-cmc-responseInfo'') (None) (Some 342) (Some (OBJ_id_cmc @ [19])),
   Asn1 ''id_cmc_queryPending'' (Some ''id-cmc-queryPending'') (None) (Some 343) (Some (OBJ_id_cmc @ [21])),
   Asn1 ''id_cmc_popLinkRandom'' (Some ''id-cmc-popLinkRandom'') (None) (Some 344) (Some (OBJ_id_cmc @ [22])),
   Asn1 ''id_cmc_popLinkWitness'' (Some ''id-cmc-popLinkWitness'') (None) (Some 345) (Some (OBJ_id_cmc @ [23])),
   Asn1 ''id_cmc_confirmCertAcceptance'' (Some ''id-cmc-confirmCertAcceptance'') (None) (Some 346) (Some (OBJ_id_cmc @ [24])),
   Asn1 ''id_on_personalData'' (Some ''id-on-personalData'') (None) (Some 347) (Some (OBJ_id_on @ [1])),
   Asn1 ''id_on_permanentIdentifier'' (Some ''id-on-permanentIdentifier'') (Some ''Permanent Identifier'') (Some 858) (Some (OBJ_id_on @ [3])),
   Asn1 ''id_pda_dateOfBirth'' (Some ''id-pda-dateOfBirth'') (None) (Some 348) (Some (OBJ_id_pda @ [1])),
   Asn1 ''id_pda_placeOfBirth'' (Some ''id-pda-placeOfBirth'') (None) (Some 349) (Some (OBJ_id_pda @ [2])),
   Asn1 ''id_pda_gender'' (Some ''id-pda-gender'') (None) (Some 351) (Some (OBJ_id_pda @ [3])),
   Asn1 ''id_pda_countryOfCitizenship'' (Some ''id-pda-countryOfCitizenship'') (None) (Some 352) (Some (OBJ_id_pda @ [4])),
   Asn1 ''id_pda_countryOfResidence'' (Some ''id-pda-countryOfResidence'') (None) (Some 353) (Some (OBJ_id_pda @ [5])),
   Asn1 ''id_aca_authenticationInfo'' (Some ''id-aca-authenticationInfo'') (None) (Some 354) (Some (OBJ_id_aca @ [1])),
   Asn1 ''id_aca_accessIdentity'' (Some ''id-aca-accessIdentity'') (None) (Some 355) (Some (OBJ_id_aca @ [2])),
   Asn1 ''id_aca_chargingIdentity'' (Some ''id-aca-chargingIdentity'') (None) (Some 356) (Some (OBJ_id_aca @ [3])),
   Asn1 ''id_aca_group'' (Some ''id-aca-group'') (None) (Some 357) (Some (OBJ_id_aca @ [4])),
   Asn1 ''id_aca_role'' (Some ''id-aca-role'') (None) (Some 358) (Some (OBJ_id_aca @ [5])),
   Asn1 ''id_aca_encAttrs'' (Some ''id-aca-encAttrs'') (None) (Some 399) (Some (OBJ_id_aca @ [6])),
   Asn1 ''id_qcs_pkixQCSyntax_v1'' (Some ''id-qcs-pkixQCSyntax-v1'') (None) (Some 359) (Some (OBJ_id_qcs @ [1])),
   Asn1 ''id_cct_crs'' (Some ''id-cct-crs'') (None) (Some 360) (Some (OBJ_id_cct @ [1])),
   Asn1 ''id_cct_PKIData'' (Some ''id-cct-PKIData'') (None) (Some 361) (Some (OBJ_id_cct @ [2])),
   Asn1 ''id_cct_PKIResponse'' (Some ''id-cct-PKIResponse'') (None) (Some 362) (Some (OBJ_id_cct @ [3])),
   Asn1 ''id_ppl_anyLanguage'' (Some ''id-ppl-anyLanguage'') (Some ''Any language'') (Some 664) (Some (OBJ_id_ppl @ [0])),
   Asn1 ''id_ppl_inheritAll'' (Some ''id-ppl-inheritAll'') (Some ''Inherit all'') (Some 665) (Some (OBJ_id_ppl @ [1])),
   Asn1 ''Independent'' (Some ''id-ppl-independent'') (Some ''Independent'') (Some 667) (Some (OBJ_id_ppl @ [2])),
   Asn1 ''ad_OCSP'' (Some ''OCSP'') (Some ''OCSP'') (Some 178) (Some OBJ_ad_OCSP),
   Asn1 ''ad_ca_issuers'' (Some ''caIssuers'') (Some ''CA Issuers'') (Some 179) (Some (OBJ_id_ad @ [2])),
   Asn1 ''ad_timeStamping'' (Some ''ad_timestamping'') (Some ''AD Time Stamping'') (Some 363) (Some (OBJ_id_ad @ [3]))]"

definition obj_mac_13 :: "asn1_object list" where
  "obj_mac_13 = [
   Asn1 ''ad_dvcs'' (Some ''AD_DVCS'') (Some ''ad dvcs'') (Some 364) (Some (OBJ_id_ad @ [4])),
   Asn1 ''caRepository'' (Some ''caRepository'') (Some ''CA Repository'') (Some 785) (Some (OBJ_id_ad @ [5])),
   Asn1 ''id_pkix_OCSP'' (None) (None) (None) (Some OBJ_id_pkix_OCSP),
   Asn1 ''id_pkix_OCSP_basic'' (Some ''basicOCSPResponse'') (Some ''Basic OCSP Response'') (Some 365) (Some (OBJ_id_pkix_OCSP @ [1])),
   Asn1 ''id_pkix_OCSP_Nonce'' (Some ''Nonce'') (Some ''OCSP Nonce'') (Some 366) (Some (OBJ_id_pkix_OCSP @ [2])),
   Asn1 ''id_pkix_OCSP_CrlID'' (Some ''CrlID'') (Some ''OCSP CRL ID'') (Some 367) (Some (OBJ_id_pkix_OCSP @ [3])),
   Asn1 ''id_pkix_OCSP_acceptableResponses'' (Some ''acceptableResponses'') (Some ''Acceptable OCSP Responses'') (Some 368) (Some (OBJ_id_pkix_OCSP @ [4])),
   Asn1 ''id_pkix_OCSP_noCheck'' (Some ''noCheck'') (Some ''OCSP No Check'') (Some 369) (Some (OBJ_id_pkix_OCSP @ [5])),
   Asn1 ''id_pkix_OCSP_archiveCutoff'' (Some ''archiveCutoff'') (Some ''OCSP Archive Cutoff'') (Some 370) (Some (OBJ_id_pkix_OCSP @ [6])),
   Asn1 ''id_pkix_OCSP_serviceLocator'' (Some ''serviceLocator'') (Some ''OCSP Service Locator'') (Some 371) (Some (OBJ_id_pkix_OCSP @ [7])),
   Asn1 ''id_pkix_OCSP_extendedStatus'' (Some ''extendedStatus'') (Some ''Extended OCSP Status'') (Some 372) (Some (OBJ_id_pkix_OCSP @ [8])),
   Asn1 ''id_pkix_OCSP_valid'' (Some ''valid'') (None) (Some 373) (Some (OBJ_id_pkix_OCSP @ [9])),
   Asn1 ''id_pkix_OCSP_path'' (Some ''path'') (None) (Some 374) (Some (OBJ_id_pkix_OCSP @ [10])),
   Asn1 ''id_pkix_OCSP_trustRoot'' (Some ''trustRoot'') (Some ''Trust Root'') (Some 375) (Some (OBJ_id_pkix_OCSP @ [11])),
   Asn1 ''algorithm'' (Some ''algorithm'') (Some ''algorithm'') (Some 376) (Some OBJ_algorithm),
   Asn1 ''md5WithRSA'' (Some ''RSA-NP-MD5'') (Some ''md5WithRSA'') (Some 104) (Some (OBJ_algorithm @ [3])),
   Asn1 ''des_ecb'' (Some ''DES-ECB'') (Some ''des-ecb'') (Some 29) (Some (OBJ_algorithm @ [6])),
   Asn1 ''des_cbc'' (Some ''DES-CBC'') (Some ''des-cbc'') (Some 31) (Some (OBJ_algorithm @ [7])),
   Asn1 ''des_ofb64'' (Some ''DES-OFB'') (Some ''des-ofb'') (Some 45) (Some (OBJ_algorithm @ [8])),
   Asn1 ''des_cfb64'' (Some ''DES-CFB'') (Some ''des-cfb'') (Some 30) (Some (OBJ_algorithm @ [9])),
   Asn1 ''rsaSignature'' (Some ''rsaSignature'') (None) (Some 377) (Some (OBJ_algorithm @ [11])),
   Asn1 ''dsa_2'' (Some ''DSA-old'') (Some ''dsaEncryption-old'') (Some 67) (Some (OBJ_algorithm @ [12])),
   Asn1 ''dsaWithSHA'' (Some ''DSA-SHA'') (Some ''dsaWithSHA'') (Some 66) (Some (OBJ_algorithm @ [13])),
   Asn1 ''shaWithRSAEncryption'' (Some ''RSA-SHA'') (Some ''shaWithRSAEncryption'') (Some 42) (Some (OBJ_algorithm @ [15])),
   Asn1 ''des_ede_ecb'' (Some ''DES-EDE'') (Some ''des-ede'') (Some 32) (Some (OBJ_algorithm @ [17])),
   Asn1 ''des_ede3_ecb'' (Some ''DES-EDE3'') (Some ''des-ede3'') (Some 33) (None),
   Asn1 ''des_ede_cbc'' (Some ''DES-EDE-CBC'') (Some ''des-ede-cbc'') (Some 43) (None),
   Asn1 ''des_ede_cfb64'' (Some ''DES-EDE-CFB'') (Some ''des-ede-cfb'') (Some 60) (None),
   Asn1 ''des_ede3_cfb64'' (Some ''DES-EDE3-CFB'') (Some ''des-ede3-cfb'') (Some 61) (None),
   Asn1 ''des_ede_ofb64'' (Some ''DES-EDE-OFB'') (Some ''des-ede-ofb'') (Some 62) (None),
   Asn1 ''des_ede3_ofb64'' (Some ''DES-EDE3-OFB'') (Some ''des-ede3-ofb'') (Some 63) (None),
   Asn1 ''desx_cbc'' (Some ''DESX-CBC'') (Some ''desx-cbc'') (Some 80) (None)]"

definition obj_mac_14 :: "asn1_object list" where
  "obj_mac_14 = [
   Asn1 ''sha'' (Some ''SHA'') (Some ''sha'') (Some 41) (Some (OBJ_algorithm @ [18])),
   Asn1 ''sha1'' (Some ''SHA1'') (Some ''sha1'') (Some 64) (Some (OBJ_algorithm @ [26])),
   Asn1 ''dsaWithSHA1_2'' (Some ''DSA-SHA1-old'') (Some ''dsaWithSHA1-old'') (Some 70) (Some (OBJ_algorithm @ [27])),
   Asn1 ''sha1WithRSA'' (Some ''RSA-SHA1-2'') (Some ''sha1WithRSA'') (Some 115) (Some (OBJ_algorithm @ [29])),
   Asn1 ''ripemd160'' (Some ''RIPEMD160'') (Some ''ripemd160'') (Some 117) (Some ([1, 3, 36, 3, 2, 1])),
   Asn1 ''ripemd160WithRSA'' (Some ''RSA-RIPEMD160'') (Some ''ripemd160WithRSA'') (Some 119) (Some ([1, 3, 36, 3, 3, 1, 2])),
   Asn1 ''sxnet'' (Some ''SXNetID'') (Some ''Strong Extranet ID'') (Some 143) (Some ([1, 3, 101, 1, 4, 1])),
   Asn1 ''X500'' (Some ''X500'') (Some ''directory services (X.500)'') (Some 11) (Some OBJ_X500),
   Asn1 ''X509'' (Some ''X509'') (None) (Some 12) (Some OBJ_X509),
   Asn1 ''commonName'' (Some ''CN'') (Some ''commonName'') (Some 13) (Some (OBJ_X509 @ [3])),
   Asn1 ''surname'' (Some ''SN'') (Some ''surname'') (Some 100) (Some (OBJ_X509 @ [4])),
   Asn1 ''serialNumber'' (None) (Some ''serialNumber'') (Some 105) (Some (OBJ_X509 @ [5])),
   Asn1 ''countryName'' (Some ''C'') (Some ''countryName'') (Some 14) (Some (OBJ_X509 @ [6])),
   Asn1 ''localityName'' (Some ''L'') (Some ''localityName'') (Some 15) (Some (OBJ_X509 @ [7])),
   Asn1 ''stateOrProvinceName'' (Some ''ST'') (Some ''stateOrProvinceName'') (Some 16) (Some (OBJ_X509 @ [8])),
   Asn1 ''streetAddress'' (Some ''street'') (Some ''streetAddress'') (Some 660) (Some (OBJ_X509 @ [9])),
   Asn1 ''organizationName'' (Some ''O'') (Some ''organizationName'') (Some 17) (Some (OBJ_X509 @ [10])),
   Asn1 ''organizationalUnitName'' (Some ''OU'') (Some ''organizationalUnitName'') (Some 18) (Some (OBJ_X509 @ [11])),
   Asn1 ''title'' (Some ''title'') (Some ''title'') (Some 106) (Some (OBJ_X509 @ [12])),
   Asn1 ''description'' (None) (Some ''description'') (Some 107) (Some (OBJ_X509 @ [13])),
   Asn1 ''searchGuide'' (None) (Some ''searchGuide'') (Some 859) (Some (OBJ_X509 @ [14])),
   Asn1 ''businessCategory'' (None) (Some ''businessCategory'') (Some 860) (Some (OBJ_X509 @ [15])),
   Asn1 ''postalAddress'' (None) (Some ''postalAddress'') (Some 861) (Some (OBJ_X509 @ [16])),
   Asn1 ''postalCode'' (None) (Some ''postalCode'') (Some 661) (Some (OBJ_X509 @ [17])),
   Asn1 ''postOfficeBox'' (None) (Some ''postOfficeBox'') (Some 862) (Some (OBJ_X509 @ [18])),
   Asn1 ''physicalDeliveryOfficeName'' (None) (Some ''physicalDeliveryOfficeName'') (Some 863) (Some (OBJ_X509 @ [19])),
   Asn1 ''telephoneNumber'' (None) (Some ''telephoneNumber'') (Some 864) (Some (OBJ_X509 @ [20])),
   Asn1 ''telexNumber'' (None) (Some ''telexNumber'') (Some 865) (Some (OBJ_X509 @ [21])),
   Asn1 ''teletexTerminalIdentifier'' (None) (Some ''teletexTerminalIdentifier'') (Some 866) (Some (OBJ_X509 @ [22])),
   Asn1 ''facsimileTelephoneNumber'' (None) (Some ''facsimileTelephoneNumber'') (Some 867) (Some (OBJ_X509 @ [23])),
   Asn1 ''x121Address'' (None) (Some ''x121Address'') (Some 868) (Some (OBJ_X509 @ [24])),
   Asn1 ''internationaliSDNNumber'' (None) (Some ''internationaliSDNNumber'') (Some 869) (Some (OBJ_X509 @ [25])),
   Asn1 ''registeredAddress'' (None) (Some ''registeredAddress'') (Some 870) (Some (OBJ_X509 @ [26]))]"

definition obj_mac_15 :: "asn1_object list" where
  "obj_mac_15 = [
   Asn1 ''destinationIndicator'' (None) (Some ''destinationIndicator'') (Some 871) (Some (OBJ_X509 @ [27])),
   Asn1 ''preferredDeliveryMethod'' (None) (Some ''preferredDeliveryMethod'') (Some 872) (Some (OBJ_X509 @ [28])),
   Asn1 ''presentationAddress'' (None) (Some ''presentationAddress'') (Some 873) (Some (OBJ_X509 @ [29])),
   Asn1 ''supportedApplicationContext'' (None) (Some ''supportedApplicationContext'') (Some 874) (Some (OBJ_X509 @ [30])),
   Asn1 ''member'' (Some ''member'') (None) (Some 875) (Some (OBJ_X509 @ [31])),
   Asn1 ''owner'' (Some ''owner'') (None) (Some 876) (Some (OBJ_X509 @ [32])),
   Asn1 ''roleOccupant'' (None) (Some ''roleOccupant'') (Some 877) (Some (OBJ_X509 @ [33])),
   Asn1 ''seeAlso'' (Some ''seeAlso'') (None) (Some 878) (Some (OBJ_X509 @ [34])),
   Asn1 ''userPassword'' (None) (Some ''userPassword'') (Some 879) (Some (OBJ_X509 @ [35])),
   Asn1 ''userCertificate'' (None) (Some ''userCertificate'') (Some 880) (Some (OBJ_X509 @ [36])),
   Asn1 ''cACertificate'' (None) (Some ''cACertificate'') (Some 881) (Some (OBJ_X509 @ [37])),
   Asn1 ''authorityRevocationList'' (None) (Some ''authorityRevocationList'') (Some 882) (Some (OBJ_X509 @ [38])),
   Asn1 ''certificateRevocationList'' (None) (Some ''certificateRevocationList'') (Some 883) (Some (OBJ_X509 @ [39])),
   Asn1 ''crossCertificatePair'' (None) (Some ''crossCertificatePair'') (Some 884) (Some (OBJ_X509 @ [40])),
   Asn1 ''name'' (Some ''name'') (Some ''name'') (Some 173) (Some (OBJ_X509 @ [41])),
   Asn1 ''givenName'' (Some ''GN'') (Some ''givenName'') (Some 99) (Some (OBJ_X509 @ [42])),
   Asn1 ''initials'' (Some ''initials'') (Some ''initials'') (Some 101) (Some (OBJ_X509 @ [43])),
   Asn1 ''generationQualifier'' (None) (Some ''generationQualifier'') (Some 509) (Some (OBJ_X509 @ [44])),
   Asn1 ''x500UniqueIdentifier'' (None) (Some ''x500UniqueIdentifier'') (Some 503) (Some (OBJ_X509 @ [45])),
   Asn1 ''dnQualifier'' (Some ''dnQualifier'') (Some ''dnQualifier'') (Some 174) (Some (OBJ_X509 @ [46])),
   Asn1 ''enhancedSearchGuide'' (None) (Some ''enhancedSearchGuide'') (Some 885) (Some (OBJ_X509 @ [47])),
   Asn1 ''protocolInformation'' (None) (Some ''protocolInformation'') (Some 886) (Some (OBJ_X509 @ [48])),
   Asn1 ''distinguishedName'' (None) (Some ''distinguishedName'') (Some 887) (Some (OBJ_X509 @ [49])),
   Asn1 ''uniqueMember'' (None) (Some ''uniqueMember'') (Some 888) (Some (OBJ_X509 @ [50])),
   Asn1 ''houseIdentifier'' (None) (Some ''houseIdentifier'') (Some 889) (Some (OBJ_X509 @ [51])),
   Asn1 ''supportedAlgorithms'' (None) (Some ''supportedAlgorithms'') (Some 890) (Some (OBJ_X509 @ [52])),
   Asn1 ''deltaRevocationList'' (None) (Some ''deltaRevocationList'') (Some 891) (Some (OBJ_X509 @ [53])),
   Asn1 ''dmdName'' (Some ''dmdName'') (None) (Some 892) (Some (OBJ_X509 @ [54])),
   Asn1 ''pseudonym'' (None) (Some ''pseudonym'') (Some 510) (Some (OBJ_X509 @ [65])),
   Asn1 ''role'' (Some ''role'') (Some ''role'') (Some 400) (Some (OBJ_X509 @ [72])),
   Asn1 ''X500algorithms'' (Some ''X500algorithms'') (Some ''directory services - algorithms'') (Some 378) (Some OBJ_X500algorithms),
   Asn1 ''rsa'' (Some ''RSA'') (Some ''rsa'') (Some 19) (Some (OBJ_X500algorithms @ [1, 1])),
   Asn1 ''mdc2WithRSA'' (Some ''RSA-MDC2'') (Some ''mdc2WithRSA'') (Some 96) (Some (OBJ_X500algorithms @ [3, 100])),
   Asn1 ''mdc2'' (Some ''MDC2'') (Some ''mdc2'') (Some 95) (Some (OBJ_X500algorithms @ [3, 101])),
   Asn1 ''id_ce'' (Some ''id-ce'') (None) (Some 81) (Some OBJ_id_ce)]"

definition obj_mac_16 :: "asn1_object list" where
  "obj_mac_16 = [
   Asn1 ''subject_directory_attributes'' (Some ''subjectDirectoryAttributes'') (Some ''X509v3 Subject Directory Attributes'') (Some 769) (Some (OBJ_id_ce @ [9])),
   Asn1 ''subject_key_identifier'' (Some ''subjectKeyIdentifier'') (Some ''X509v3 Subject Key Identifier'') (Some 82) (Some (OBJ_id_ce @ [14])),
   Asn1 ''key_usage'' (Some ''keyUsage'') (Some ''X509v3 Key Usage'') (Some 83) (Some (OBJ_id_ce @ [15])),
   Asn1 ''private_key_usage_period'' (Some ''privateKeyUsagePeriod'') (Some ''X509v3 Private Key Usage Period'') (Some 84) (Some (OBJ_id_ce @ [16])),
   Asn1 ''subject_alt_name'' (Some ''subjectAltName'') (Some ''X509v3 Subject Alternative Name'') (Some 85) (Some (OBJ_id_ce @ [17])),
   Asn1 ''issuer_alt_name'' (Some ''issuerAltName'') (Some ''X509v3 Issuer Alternative Name'') (Some 86) (Some (OBJ_id_ce @ [18])),
   Asn1 ''basic_constraints'' (Some ''basicConstraints'') (Some ''X509v3 Basic Constraints'') (Some 87) (Some (OBJ_id_ce @ [19])),
   Asn1 ''crl_number'' (Some ''crlNumber'') (Some ''X509v3 CRL Number'') (Some 88) (Some (OBJ_id_ce @ [20])),
   Asn1 ''crl_reason'' (Some ''CRLReason'') (Some ''X509v3 CRL Reason Code'') (Some 141) (Some (OBJ_id_ce @ [21])),
   Asn1 ''invalidity_date'' (Some ''invalidityDate'') (Some ''Invalidity Date'') (Some 142) (Some (OBJ_id_ce @ [24])),
   Asn1 ''delta_crl'' (Some ''deltaCRL'') (Some ''X509v3 Delta CRL Indicator'') (Some 140) (Some (OBJ_id_ce @ [27])),
   Asn1 ''issuing_distribution_point'' (Some ''issuingDistributionPoint'') (Some ''X509v3 Issuing Distrubution Point'') (Some 770) (Some (OBJ_id_ce @ [28])),
   Asn1 ''certificate_issuer'' (Some ''certificateIssuer'') (Some ''X509v3 Certificate Issuer'') (Some 771) (Some (OBJ_id_ce @ [29])),
   Asn1 ''name_constraints'' (Some ''nameConstraints'') (Some ''X509v3 Name Constraints'') (Some 666) (Some (OBJ_id_ce @ [30])),
   Asn1 ''crl_distribution_points'' (Some ''crlDistributionPoints'') (Some ''X509v3 CRL Distribution Points'') (Some 103) (Some (OBJ_id_ce @ [31])),
   Asn1 ''certificate_policies'' (Some ''certificatePolicies'') (Some ''X509v3 Certificate Policies'') (Some 89) (Some OBJ_certificate_policies),
   Asn1 ''any_policy'' (Some ''anyPolicy'') (Some ''X509v3 Any Policy'') (Some 746) (Some (OBJ_certificate_policies @ [0])),
   Asn1 ''policy_mappings'' (Some ''policyMappings'') (Some ''X509v3 Policy Mappings'') (Some 747) (Some (OBJ_id_ce @ [33])),
   Asn1 ''authority_key_identifier'' (Some ''authorityKeyIdentifier'') (Some ''X509v3 Authority Key Identifier'') (Some 90) (Some (OBJ_id_ce @ [35])),
   Asn1 ''policy_constraints'' (Some ''policyConstraints'') (Some ''X509v3 Policy Constraints'') (Some 401) (Some (OBJ_id_ce @ [36])),
   Asn1 ''ext_key_usage'' (Some ''extendedKeyUsage'') (Some ''X509v3 Extended Key Usage'') (Some 126) (Some OBJ_ext_key_usage),
   Asn1 ''freshest_crl'' (Some ''freshestCRL'') (Some ''X509v3 Freshest CRL'') (Some 857) (Some (OBJ_id_ce @ [46])),
   Asn1 ''inhibit_any_policy'' (Some ''inhibitAnyPolicy'') (Some ''X509v3 Inhibit Any Policy'') (Some 748) (Some (OBJ_id_ce @ [54])),
   Asn1 ''target_information'' (Some ''targetInformation'') (Some ''X509v3 AC Targeting'') (Some 402) (Some (OBJ_id_ce @ [55])),
   Asn1 ''no_rev_avail'' (Some ''noRevAvail'') (Some ''X509v3 No Revocation Available'') (Some 403) (Some (OBJ_id_ce @ [56])),
   Asn1 ''anyExtendedKeyUsage'' (Some ''anyExtendedKeyUsage'') (Some ''Any Extended Key Usage'') (Some 910) (Some (OBJ_ext_key_usage @ [0])),
   Asn1 ''netscape'' (Some ''Netscape'') (Some ''Netscape Communications Corp.'') (Some 57) (Some OBJ_netscape),
   Asn1 ''netscape_cert_extension'' (Some ''nsCertExt'') (Some ''Netscape Certificate Extension'') (Some 58) (Some OBJ_netscape_cert_extension),
   Asn1 ''netscape_data_type'' (Some ''nsDataType'') (Some ''Netscape Data Type'') (Some 59) (Some OBJ_netscape_data_type),
   Asn1 ''netscape_cert_type'' (Some ''nsCertType'') (Some ''Netscape Cert Type'') (Some 71) (Some (OBJ_netscape_cert_extension @ [1]))]"

definition obj_mac_17 :: "asn1_object list" where
  "obj_mac_17 = [
   Asn1 ''netscape_base_url'' (Some ''nsBaseUrl'') (Some ''Netscape Base Url'') (Some 72) (Some (OBJ_netscape_cert_extension @ [2])),
   Asn1 ''netscape_revocation_url'' (Some ''nsRevocationUrl'') (Some ''Netscape Revocation Url'') (Some 73) (Some (OBJ_netscape_cert_extension @ [3])),
   Asn1 ''netscape_ca_revocation_url'' (Some ''nsCaRevocationUrl'') (Some ''Netscape CA Revocation Url'') (Some 74) (Some (OBJ_netscape_cert_extension @ [4])),
   Asn1 ''netscape_renewal_url'' (Some ''nsRenewalUrl'') (Some ''Netscape Renewal Url'') (Some 75) (Some (OBJ_netscape_cert_extension @ [7])),
   Asn1 ''netscape_ca_policy_url'' (Some ''nsCaPolicyUrl'') (Some ''Netscape CA Policy Url'') (Some 76) (Some (OBJ_netscape_cert_extension @ [8])),
   Asn1 ''netscape_ssl_server_name'' (Some ''nsSslServerName'') (Some ''Netscape SSL Server Name'') (Some 77) (Some (OBJ_netscape_cert_extension @ [12])),
   Asn1 ''netscape_comment'' (Some ''nsComment'') (Some ''Netscape Comment'') (Some 78) (Some (OBJ_netscape_cert_extension @ [13])),
   Asn1 ''netscape_cert_sequence'' (Some ''nsCertSequence'') (Some ''Netscape Certificate Sequence'') (Some 79) (Some (OBJ_netscape_data_type @ [5])),
   Asn1 ''ns_sgc'' (Some ''nsSGC'') (Some ''Netscape Server Gated Crypto'') (Some 139) (Some (OBJ_netscape @ [4, 1])),
   Asn1 ''org'' (Some ''ORG'') (Some ''org'') (Some 379) (Some OBJ_org),
   Asn1 ''dod'' (Some ''DOD'') (Some ''dod'') (Some 380) (Some OBJ_dod),
   Asn1 ''iana'' (Some ''IANA'') (Some ''iana'') (Some 381) (Some OBJ_iana),
   Asn1 ''internet'' (None) (None) (None) (Some OBJ_internet),
   Asn1 ''Directory'' (Some ''directory'') (Some ''Directory'') (Some 382) (Some (OBJ_internet @ [1])),
   Asn1 ''Management'' (Some ''mgmt'') (Some ''Management'') (Some 383) (Some (OBJ_internet @ [2])),
   Asn1 ''Experimental'' (Some ''experimental'') (Some ''Experimental'') (Some 384) (Some (OBJ_internet @ [3])),
   Asn1 ''Private'' (Some ''private'') (Some ''Private'') (Some 385) (Some OBJ_Private),
   Asn1 ''Security'' (Some ''security'') (Some ''Security'') (Some 386) (Some (OBJ_internet @ [5])),
   Asn1 ''SNMPv2'' (Some ''snmpv2'') (Some ''SNMPv2'') (Some 387) (Some (OBJ_internet @ [6])),
   Asn1 ''Mail'' (None) (Some ''Mail'') (Some 388) (Some OBJ_Mail),
   Asn1 ''Enterprises'' (Some ''enterprises'') (Some ''Enterprises'') (Some 389) (Some OBJ_Enterprises),
   Asn1 ''dcObject'' (Some ''dcobject'') (Some ''dcObject'') (Some 390) (Some (OBJ_Enterprises @ [1466, 344])),
   Asn1 ''mime_mhs'' (Some ''mime-mhs'') (Some ''MIME MHS'') (Some 504) (Some OBJ_mime_mhs),
   Asn1 ''mime_mhs_headings'' (Some ''mime-mhs-headings'') (Some ''mime-mhs-headings'') (Some 505) (Some OBJ_mime_mhs_headings),
   Asn1 ''mime_mhs_bodies'' (Some ''mime-mhs-bodies'') (Some ''mime-mhs-bodies'') (Some 506) (Some (OBJ_mime_mhs @ [2])),
   Asn1 ''id_hex_partial_message'' (Some ''id-hex-partial-message'') (Some ''id-hex-partial-message'') (Some 507) (Some (OBJ_mime_mhs_headings @ [1])),
   Asn1 ''id_hex_multipart_message'' (Some ''id-hex-multipart-message'') (Some ''id-hex-multipart-message'') (Some 508) (Some (OBJ_mime_mhs_headings @ [2])),
   Asn1 ''rle_compression'' (Some ''RLE'') (Some ''run length compression'') (Some 124) (Some ([1, 1, 1, 1, 666, 1])),
   Asn1 ''zlib_compression'' (Some ''ZLIB'') (Some ''zlib compression'') (Some 125) (Some (OBJ_id_smime_alg @ [8])),
   Asn1 ''csor'' (None) (None) (None) (Some OBJ_csor),
   Asn1 ''nistAlgorithms'' (None) (None) (None) (Some OBJ_nistAlgorithms),
   Asn1 ''aes'' (None) (None) (None) (Some OBJ_aes)]"

definition obj_mac_18 :: "asn1_object list" where
  "obj_mac_18 = [
   Asn1 ''aes_128_ecb'' (Some ''AES-128-ECB'') (Some ''aes-128-ecb'') (Some 418) (Some (OBJ_aes @ [1])),
   Asn1 ''aes_128_cbc'' (Some ''AES-128-CBC'') (Some ''aes-128-cbc'') (Some 419) (Some (OBJ_aes @ [2])),
   Asn1 ''aes_128_ofb128'' (Some ''AES-128-OFB'') (Some ''aes-128-ofb'') (Some 420) (Some (OBJ_aes @ [3])),
   Asn1 ''aes_128_cfb128'' (Some ''AES-128-CFB'') (Some ''aes-128-cfb'') (Some 421) (Some (OBJ_aes @ [4])),
   Asn1 ''id_aes128_wrap'' (Some ''id-aes128-wrap'') (None) (Some 788) (Some (OBJ_aes @ [5])),
   Asn1 ''aes_128_gcm'' (Some ''id-aes128-GCM'') (Some ''aes-128-gcm'') (Some 895) (Some (OBJ_aes @ [6])),
   Asn1 ''aes_128_ccm'' (Some ''id-aes128-CCM'') (Some ''aes-128-ccm'') (Some 896) (Some (OBJ_aes @ [7])),
   Asn1 ''id_aes128_wrap_pad'' (Some ''id-aes128-wrap-pad'') (None) (Some 897) (Some (OBJ_aes @ [8])),
   Asn1 ''aes_192_ecb'' (Some ''AES-192-ECB'') (Some ''aes-192-ecb'') (Some 422) (Some (OBJ_aes @ [21])),
   Asn1 ''aes_192_cbc'' (Some ''AES-192-CBC'') (Some ''aes-192-cbc'') (Some 423) (Some (OBJ_aes @ [22])),
   Asn1 ''aes_192_ofb128'' (Some ''AES-192-OFB'') (Some ''aes-192-ofb'') (Some 424) (Some (OBJ_aes @ [23])),
   Asn1 ''aes_192_cfb128'' (Some ''AES-192-CFB'') (Some ''aes-192-cfb'') (Some 425) (Some (OBJ_aes @ [24])),
   Asn1 ''id_aes192_wrap'' (Some ''id-aes192-wrap'') (None) (Some 789) (Some (OBJ_aes @ [25])),
   Asn1 ''aes_192_gcm'' (Some ''id-aes192-GCM'') (Some ''aes-192-gcm'') (Some 898) (Some (OBJ_aes @ [26])),
   Asn1 ''aes_192_ccm'' (Some ''id-aes192-CCM'') (Some ''aes-192-ccm'') (Some 899) (Some (OBJ_aes @ [27])),
   Asn1 ''id_aes192_wrap_pad'' (Some ''id-aes192-wrap-pad'') (None) (Some 900) (Some (OBJ_aes @ [28])),
   Asn1 ''aes_256_ecb'' (Some ''AES-256-ECB'') (Some ''aes-256-ecb'') (Some 426) (Some (OBJ_aes @ [41])),
   Asn1 ''aes_256_cbc'' (Some ''AES-256-CBC'') (Some ''aes-256-cbc'') (Some 427) (Some (OBJ_aes @ [42])),
   Asn1 ''aes_256_ofb128'' (Some ''AES-256-OFB'') (Some ''aes-256-ofb'') (Some 428) (Some (OBJ_aes @ [43])),
   Asn1 ''aes_256_cfb128'' (Some ''AES-256-CFB'') (Some ''aes-256-cfb'') (Some 429) (Some (OBJ_aes @ [44])),
   Asn1 ''id_aes256_wrap'' (Some ''id-aes256-wrap'') (None) (Some 790) (Some (OBJ_aes @ [45])),
   Asn1 ''aes_256_gcm'' (Some ''id-aes256-GCM'') (Some ''aes-256-gcm'') (Some 901) (Some (OBJ_aes @ [46])),
   Asn1 ''aes_256_ccm'' (Some ''id-aes256-CCM'') (Some ''aes-256-ccm'') (Some 902) (Some (OBJ_aes @ [47])),
   Asn1 ''id_aes256_wrap_pad'' (Some ''id-aes256-wrap-pad'') (None) (Some 903) (Some (OBJ_aes @ [48])),
   Asn1 ''aes_128_cfb1'' (Some ''AES-128-CFB1'') (Some ''aes-128-cfb1'') (Some 650) (None),
   Asn1 ''aes_192_cfb1'' (Some ''AES-192-CFB1'') (Some ''aes-192-cfb1'') (Some 651) (None),
   Asn1 ''aes_256_cfb1'' (Some ''AES-256-CFB1'') (Some ''aes-256-cfb1'') (Some 652) (None),
   Asn1 ''aes_128_cfb8'' (Some ''AES-128-CFB8'') (Some ''aes-128-cfb8'') (Some 653) (None),
   Asn1 ''aes_192_cfb8'' (Some ''AES-192-CFB8'') (Some ''aes-192-cfb8'') (Some 654) (None),
   Asn1 ''aes_256_cfb8'' (Some ''AES-256-CFB8'') (Some ''aes-256-cfb8'') (Some 655) (None),
   Asn1 ''aes_128_ctr'' (Some ''AES-128-CTR'') (Some ''aes-128-ctr'') (Some 904) (None),
   Asn1 ''aes_192_ctr'' (Some ''AES-192-CTR'') (Some ''aes-192-ctr'') (Some 905) (None),
   Asn1 ''aes_256_ctr'' (Some ''AES-256-CTR'') (Some ''aes-256-ctr'') (Some 906) (None)]"

definition obj_mac_19 :: "asn1_object list" where
  "obj_mac_19 = [
   Asn1 ''aes_128_xts'' (Some ''AES-128-XTS'') (Some ''aes-128-xts'') (Some 913) (None),
   Asn1 ''aes_256_xts'' (Some ''AES-256-XTS'') (Some ''aes-256-xts'') (Some 914) (None),
   Asn1 ''des_cfb1'' (Some ''DES-CFB1'') (Some ''des-cfb1'') (Some 656) (None),
   Asn1 ''des_cfb8'' (Some ''DES-CFB8'') (Some ''des-cfb8'') (Some 657) (None),
   Asn1 ''des_ede3_cfb1'' (Some ''DES-EDE3-CFB1'') (Some ''des-ede3-cfb1'') (Some 658) (None),
   Asn1 ''des_ede3_cfb8'' (Some ''DES-EDE3-CFB8'') (Some ''des-ede3-cfb8'') (Some 659) (None),
   Asn1 ''nist_hashalgs'' (None) (None) (None) (Some OBJ_nist_hashalgs),
   Asn1 ''sha256'' (Some ''SHA256'') (Some ''sha256'') (Some 672) (Some (OBJ_nist_hashalgs @ [1])),
   Asn1 ''sha384'' (Some ''SHA384'') (Some ''sha384'') (Some 673) (Some (OBJ_nist_hashalgs @ [2])),
   Asn1 ''sha512'' (Some ''SHA512'') (Some ''sha512'') (Some 674) (Some (OBJ_nist_hashalgs @ [3])),
   Asn1 ''sha224'' (Some ''SHA224'') (Some ''sha224'') (Some 675) (Some (OBJ_nist_hashalgs @ [4])),
   Asn1 ''dsa_with_sha2'' (None) (None) (None) (Some OBJ_dsa_with_sha2),
   Asn1 ''dsa_with_SHA224'' (Some ''dsa_with_SHA224'') (None) (Some 802) (Some (OBJ_dsa_with_sha2 @ [1])),
   Asn1 ''dsa_with_SHA256'' (Some ''dsa_with_SHA256'') (None) (Some 803) (Some (OBJ_dsa_with_sha2 @ [2])),
   Asn1 ''hold_instruction_code'' (Some ''holdInstructionCode'') (Some ''Hold Instruction Code'') (Some 430) (Some (OBJ_id_ce @ [23])),
   Asn1 ''holdInstruction'' (None) (None) (None) (Some OBJ_holdInstruction),
   Asn1 ''hold_instruction_none'' (Some ''holdInstructionNone'') (Some ''Hold Instruction None'') (Some 431) (Some (OBJ_holdInstruction @ [1])),
   Asn1 ''hold_instruction_call_issuer'' (Some ''holdInstructionCallIssuer'') (Some ''Hold Instruction Call Issuer'') (Some 432) (Some (OBJ_holdInstruction @ [2])),
   Asn1 ''hold_instruction_reject'' (Some ''holdInstructionReject'') (Some ''Hold Instruction Reject'') (Some 433) (Some (OBJ_holdInstruction @ [3])),
   Asn1 ''data'' (Some ''data'') (None) (Some 434) (Some OBJ_data),
   Asn1 ''pss'' (Some ''pss'') (None) (Some 435) (Some OBJ_pss),
   Asn1 ''ucl'' (Some ''ucl'') (None) (Some 436) (Some OBJ_ucl),
   Asn1 ''pilot'' (Some ''pilot'') (None) (Some 437) (Some OBJ_pilot),
   Asn1 ''pilotAttributeType'' (None) (Some ''pilotAttributeType'') (Some 438) (Some OBJ_pilotAttributeType),
   Asn1 ''pilotAttributeSyntax'' (None) (Some ''pilotAttributeSyntax'') (Some 439) (Some OBJ_pilotAttributeSyntax),
   Asn1 ''pilotObjectClass'' (None) (Some ''pilotObjectClass'') (Some 440) (Some OBJ_pilotObjectClass),
   Asn1 ''pilotGroups'' (None) (Some ''pilotGroups'') (Some 441) (Some (OBJ_pilot @ [10])),
   Asn1 ''iA5StringSyntax'' (None) (Some ''iA5StringSyntax'') (Some 442) (Some (OBJ_pilotAttributeSyntax @ [4])),
   Asn1 ''caseIgnoreIA5StringSyntax'' (None) (Some ''caseIgnoreIA5StringSyntax'') (Some 443) (Some (OBJ_pilotAttributeSyntax @ [5])),
   Asn1 ''pilotObject'' (None) (Some ''pilotObject'') (Some 444) (Some (OBJ_pilotObjectClass @ [3])),
   Asn1 ''pilotPerson'' (None) (Some ''pilotPerson'') (Some 445) (Some (OBJ_pilotObjectClass @ [4])),
   Asn1 ''account'' (Some ''account'') (None) (Some 446) (Some (OBJ_pilotObjectClass @ [5])),
   Asn1 ''document'' (Some ''document'') (None) (Some 447) (Some (OBJ_pilotObjectClass @ [6])),
   Asn1 ''room'' (Some ''room'') (None) (Some 448) (Some (OBJ_pilotObjectClass @ [7])),
   Asn1 ''documentSeries'' (None) (Some ''documentSeries'') (Some 449) (Some (OBJ_pilotObjectClass @ [9])),
   Asn1 ''Domain'' (Some ''domain'') (Some ''Domain'') (Some 392) (Some (OBJ_pilotObjectClass @ [13])),
   Asn1 ''rFC822localPart'' (None) (Some ''rFC822localPart'') (Some 450) (Some (OBJ_pilotObjectClass @ [14]))]"

definition obj_mac_20 :: "asn1_object list" where
  "obj_mac_20 = [
   Asn1 ''dNSDomain'' (None) (Some ''dNSDomain'') (Some 451) (Some (OBJ_pilotObjectClass @ [15])),
   Asn1 ''domainRelatedObject'' (None) (Some ''domainRelatedObject'') (Some 452) (Some (OBJ_pilotObjectClass @ [17])),
   Asn1 ''friendlyCountry'' (None) (Some ''friendlyCountry'') (Some 453) (Some (OBJ_pilotObjectClass @ [18])),
   Asn1 ''simpleSecurityObject'' (None) (Some ''simpleSecurityObject'') (Some 454) (Some (OBJ_pilotObjectClass @ [19])),
   Asn1 ''pilotOrganization'' (None) (Some ''pilotOrganization'') (Some 455) (Some (OBJ_pilotObjectClass @ [20])),
   Asn1 ''pilotDSA'' (None) (Some ''pilotDSA'') (Some 456) (Some (OBJ_pilotObjectClass @ [21])),
   Asn1 ''qualityLabelledData'' (None) (Some ''qualityLabelledData'') (Some 457) (Some (OBJ_pilotObjectClass @ [22])),
   Asn1 ''userId'' (Some ''UID'') (Some ''userId'') (Some 458) (Some (OBJ_pilotAttributeType @ [1])),
   Asn1 ''textEncodedORAddress'' (None) (Some ''textEncodedORAddress'') (Some 459) (Some (OBJ_pilotAttributeType @ [2])),
   Asn1 ''rfc822Mailbox'' (Some ''mail'') (Some ''rfc822Mailbox'') (Some 460) (Some (OBJ_pilotAttributeType @ [3])),
   Asn1 ''info'' (Some ''info'') (None) (Some 461) (Some (OBJ_pilotAttributeType @ [4])),
   Asn1 ''favouriteDrink'' (None) (Some ''favouriteDrink'') (Some 462) (Some (OBJ_pilotAttributeType @ [5])),
   Asn1 ''roomNumber'' (None) (Some ''roomNumber'') (Some 463) (Some (OBJ_pilotAttributeType @ [6])),
   Asn1 ''photo'' (Some ''photo'') (None) (Some 464) (Some (OBJ_pilotAttributeType @ [7])),
   Asn1 ''userClass'' (None) (Some ''userClass'') (Some 465) (Some (OBJ_pilotAttributeType @ [8])),
   Asn1 ''host'' (Some ''host'') (None) (Some 466) (Some (OBJ_pilotAttributeType @ [9])),
   Asn1 ''manager'' (Some ''manager'') (None) (Some 467) (Some (OBJ_pilotAttributeType @ [10])),
   Asn1 ''documentIdentifier'' (None) (Some ''documentIdentifier'') (Some 468) (Some (OBJ_pilotAttributeType @ [11])),
   Asn1 ''documentTitle'' (None) (Some ''documentTitle'') (Some 469) (Some (OBJ_pilotAttributeType @ [12])),
   Asn1 ''documentVersion'' (None) (Some ''documentVersion'') (Some 470) (Some (OBJ_pilotAttributeType @ [13])),
   Asn1 ''documentAuthor'' (None) (Some ''documentAuthor'') (Some 471) (Some (OBJ_pilotAttributeType @ [14])),
   Asn1 ''documentLocation'' (None) (Some ''documentLocation'') (Some 472) (Some (OBJ_pilotAttributeType @ [15])),
   Asn1 ''homeTelephoneNumber'' (None) (Some ''homeTelephoneNumber'') (Some 473) (Some (OBJ_pilotAttributeType @ [20])),
   Asn1 ''secretary'' (Some ''secretary'') (None) (Some 474) (Some (OBJ_pilotAttributeType @ [21])),
   Asn1 ''otherMailbox'' (None) (Some ''otherMailbox'') (Some 475) (Some (OBJ_pilotAttributeType @ [22])),
   Asn1 ''lastModifiedTime'' (None) (Some ''lastModifiedTime'') (Some 476) (Some (OBJ_pilotAttributeType @ [23])),
   Asn1 ''lastModifiedBy'' (None) (Some ''lastModifiedBy'') (Some 477) (Some (OBJ_pilotAttributeType @ [24])),
   Asn1 ''domainComponent'' (Some ''DC'') (Some ''domainComponent'') (Some 391) (Some (OBJ_pilotAttributeType @ [25])),
   Asn1 ''aRecord'' (None) (Some ''aRecord'') (Some 478) (Some (OBJ_pilotAttributeType @ [26])),
   Asn1 ''pilotAttributeType27'' (None) (Some ''pilotAttributeType27'') (Some 479) (Some (OBJ_pilotAttributeType @ [27])),
   Asn1 ''mXRecord'' (None) (Some ''mXRecord'') (Some 480) (Some (OBJ_pilotAttributeType @ [28])),
   Asn1 ''nSRecord'' (None) (Some ''nSRecord'') (Some 481) (Some (OBJ_pilotAttributeType @ [29])),
   Asn1 ''sOARecord'' (None) (Some ''sOARecord'') (Some 482) (Some (OBJ_pilotAttributeType @ [30])),
   Asn1 ''cNAMERecord'' (None) (Some ''cNAMERecord'') (Some 483) (Some (OBJ_pilotAttributeType @ [31])),
   Asn1 ''associatedDomain'' (None) (Some ''associatedDomain'') (Some 484) (Some (OBJ_pilotAttributeType @ [37])),
   Asn1 ''associatedName'' (None) (Some ''associatedName'') (Some 485) (Some (OBJ_pilotAttributeType @ [38])),
   Asn1 ''homePostalAddress'' (None) (Some ''homePostalAddress'') (Some 486) (Some (OBJ_pilotAttributeType @ [39]))]"

definition obj_mac_21 :: "asn1_object list" where
  "obj_mac_21 = [
   Asn1 ''personalTitle'' (None) (Some ''personalTitle'') (Some 487) (Some (OBJ_pilotAttributeType @ [40])),
   Asn1 ''mobileTelephoneNumber'' (None) (Some ''mobileTelephoneNumber'') (Some 488) (Some (OBJ_pilotAttributeType @ [41])),
   Asn1 ''pagerTelephoneNumber'' (None) (Some ''pagerTelephoneNumber'') (Some 489) (Some (OBJ_pilotAttributeType @ [42])),
   Asn1 ''friendlyCountryName'' (None) (Some ''friendlyCountryName'') (Some 490) (Some (OBJ_pilotAttributeType @ [43])),
   Asn1 ''organizationalStatus'' (None) (Some ''organizationalStatus'') (Some 491) (Some (OBJ_pilotAttributeType @ [45])),
   Asn1 ''janetMailbox'' (None) (Some ''janetMailbox'') (Some 492) (Some (OBJ_pilotAttributeType @ [46])),
   Asn1 ''mailPreferenceOption'' (None) (Some ''mailPreferenceOption'') (Some 493) (Some (OBJ_pilotAttributeType @ [47])),
   Asn1 ''buildingName'' (None) (Some ''buildingName'') (Some 494) (Some (OBJ_pilotAttributeType @ [48])),
   Asn1 ''dSAQuality'' (None) (Some ''dSAQuality'') (Some 495) (Some (OBJ_pilotAttributeType @ [49])),
   Asn1 ''singleLevelQuality'' (None) (Some ''singleLevelQuality'') (Some 496) (Some (OBJ_pilotAttributeType @ [50])),
   Asn1 ''subtreeMinimumQuality'' (None) (Some ''subtreeMinimumQuality'') (Some 497) (Some (OBJ_pilotAttributeType @ [51])),
   Asn1 ''subtreeMaximumQuality'' (None) (Some ''subtreeMaximumQuality'') (Some 498) (Some (OBJ_pilotAttributeType @ [52])),
   Asn1 ''personalSignature'' (None) (Some ''personalSignature'') (Some 499) (Some (OBJ_pilotAttributeType @ [53])),
   Asn1 ''dITRedirect'' (None) (Some ''dITRedirect'') (Some 500) (Some (OBJ_pilotAttributeType @ [54])),
   Asn1 ''audio'' (Some ''audio'') (None) (Some 501) (Some (OBJ_pilotAttributeType @ [55])),
   Asn1 ''documentPublisher'' (None) (Some ''documentPublisher'') (Some 502) (Some (OBJ_pilotAttributeType @ [56])),
   Asn1 ''id_set'' (Some ''id-set'') (Some ''Secure Electronic Transactions'') (Some 512) (Some OBJ_id_set),
   Asn1 ''set_ctype'' (Some ''set-ctype'') (Some ''content types'') (Some 513) (Some OBJ_set_ctype),
   Asn1 ''set_msgExt'' (Some ''set-msgExt'') (Some ''message extensions'') (Some 514) (Some OBJ_set_msgExt),
   Asn1 ''set_attr'' (Some ''set-attr'') (None) (Some 515) (Some OBJ_set_attr),
   Asn1 ''set_policy'' (Some ''set-policy'') (None) (Some 516) (Some OBJ_set_policy),
   Asn1 ''set_certExt'' (Some ''set-certExt'') (Some ''certificate extensions'') (Some 517) (Some OBJ_set_certExt),
   Asn1 ''set_brand'' (Some ''set-brand'') (None) (Some 518) (Some OBJ_set_brand),
   Asn1 ''setct_PANData'' (Some ''setct-PANData'') (None) (Some 519) (Some (OBJ_set_ctype @ [0])),
   Asn1 ''setct_PANToken'' (Some ''setct-PANToken'') (None) (Some 520) (Some (OBJ_set_ctype @ [1])),
   Asn1 ''setct_PANOnly'' (Some ''setct-PANOnly'') (None) (Some 521) (Some (OBJ_set_ctype @ [2])),
   Asn1 ''setct_OIData'' (Some ''setct-OIData'') (None) (Some 522) (Some (OBJ_set_ctype @ [3])),
   Asn1 ''setct_PI'' (Some ''setct-PI'') (None) (Some 523) (Some (OBJ_set_ctype @ [4])),
   Asn1 ''setct_PIData'' (Some ''setct-PIData'') (None) (Some 524) (Some (OBJ_set_ctype @ [5])),
   Asn1 ''setct_PIDataUnsigned'' (Some ''setct-PIDataUnsigned'') (None) (Some 525) (Some (OBJ_set_ctype @ [6])),
   Asn1 ''setct_HODInput'' (Some ''setct-HODInput'') (None) (Some 526) (Some (OBJ_set_ctype @ [7])),
   Asn1 ''setct_AuthResBaggage'' (Some ''setct-AuthResBaggage'') (None) (Some 527) (Some (OBJ_set_ctype @ [8])),
   Asn1 ''setct_AuthRevReqBaggage'' (Some ''setct-AuthRevReqBaggage'') (None) (Some 528) (Some (OBJ_set_ctype @ [9])),
   Asn1 ''setct_AuthRevResBaggage'' (Some ''setct-AuthRevResBaggage'') (None) (Some 529) (Some (OBJ_set_ctype @ [10])),
   Asn1 ''setct_CapTokenSeq'' (Some ''setct-CapTokenSeq'') (None) (Some 530) (Some (OBJ_set_ctype @ [11])),
   Asn1 ''setct_PInitResData'' (Some ''setct-PInitResData'') (None) (Some 531) (Some (OBJ_set_ctype @ [12]))]"

definition obj_mac_22 :: "asn1_object list" where
  "obj_mac_22 = [
   Asn1 ''setct_PI_TBS'' (Some ''setct-PI-TBS'') (None) (Some 532) (Some (OBJ_set_ctype @ [13])),
   Asn1 ''setct_PResData'' (Some ''setct-PResData'') (None) (Some 533) (Some (OBJ_set_ctype @ [14])),
   Asn1 ''setct_AuthReqTBS'' (Some ''setct-AuthReqTBS'') (None) (Some 534) (Some (OBJ_set_ctype @ [16])),
   Asn1 ''setct_AuthResTBS'' (Some ''setct-AuthResTBS'') (None) (Some 535) (Some (OBJ_set_ctype @ [17])),
   Asn1 ''setct_AuthResTBSX'' (Some ''setct-AuthResTBSX'') (None) (Some 536) (Some (OBJ_set_ctype @ [18])),
   Asn1 ''setct_AuthTokenTBS'' (Some ''setct-AuthTokenTBS'') (None) (Some 537) (Some (OBJ_set_ctype @ [19])),
   Asn1 ''setct_CapTokenData'' (Some ''setct-CapTokenData'') (None) (Some 538) (Some (OBJ_set_ctype @ [20])),
   Asn1 ''setct_CapTokenTBS'' (Some ''setct-CapTokenTBS'') (None) (Some 539) (Some (OBJ_set_ctype @ [21])),
   Asn1 ''setct_AcqCardCodeMsg'' (Some ''setct-AcqCardCodeMsg'') (None) (Some 540) (Some (OBJ_set_ctype @ [22])),
   Asn1 ''setct_AuthRevReqTBS'' (Some ''setct-AuthRevReqTBS'') (None) (Some 541) (Some (OBJ_set_ctype @ [23])),
   Asn1 ''setct_AuthRevResData'' (Some ''setct-AuthRevResData'') (None) (Some 542) (Some (OBJ_set_ctype @ [24])),
   Asn1 ''setct_AuthRevResTBS'' (Some ''setct-AuthRevResTBS'') (None) (Some 543) (Some (OBJ_set_ctype @ [25])),
   Asn1 ''setct_CapReqTBS'' (Some ''setct-CapReqTBS'') (None) (Some 544) (Some (OBJ_set_ctype @ [26])),
   Asn1 ''setct_CapReqTBSX'' (Some ''setct-CapReqTBSX'') (None) (Some 545) (Some (OBJ_set_ctype @ [27])),
   Asn1 ''setct_CapResData'' (Some ''setct-CapResData'') (None) (Some 546) (Some (OBJ_set_ctype @ [28])),
   Asn1 ''setct_CapRevReqTBS'' (Some ''setct-CapRevReqTBS'') (None) (Some 547) (Some (OBJ_set_ctype @ [29])),
   Asn1 ''setct_CapRevReqTBSX'' (Some ''setct-CapRevReqTBSX'') (None) (Some 548) (Some (OBJ_set_ctype @ [30])),
   Asn1 ''setct_CapRevResData'' (Some ''setct-CapRevResData'') (None) (Some 549) (Some (OBJ_set_ctype @ [31])),
   Asn1 ''setct_CredReqTBS'' (Some ''setct-CredReqTBS'') (None) (Some 550) (Some (OBJ_set_ctype @ [32])),
   Asn1 ''setct_CredReqTBSX'' (Some ''setct-CredReqTBSX'') (None) (Some 551) (Some (OBJ_set_ctype @ [33])),
   Asn1 ''setct_CredResData'' (Some ''setct-CredResData'') (None) (Some 552) (Some (OBJ_set_ctype @ [34])),
   Asn1 ''setct_CredRevReqTBS'' (Some ''setct-CredRevReqTBS'') (None) (Some 553) (Some (OBJ_set_ctype @ [35])),
   Asn1 ''setct_CredRevReqTBSX'' (Some ''setct-CredRevReqTBSX'') (None) (Some 554) (Some (OBJ_set_ctype @ [36])),
   Asn1 ''setct_CredRevResData'' (Some ''setct-CredRevResData'') (None) (Some 555) (Some (OBJ_set_ctype @ [37])),
   Asn1 ''setct_PCertReqData'' (Some ''setct-PCertReqData'') (None) (Some 556) (Some (OBJ_set_ctype @ [38])),
   Asn1 ''setct_PCertResTBS'' (Some ''setct-PCertResTBS'') (None) (Some 557) (Some (OBJ_set_ctype @ [39])),
   Asn1 ''setct_BatchAdminReqData'' (Some ''setct-BatchAdminReqData'') (None) (Some 558) (Some (OBJ_set_ctype @ [40])),
   Asn1 ''setct_BatchAdminResData'' (Some ''setct-BatchAdminResData'') (None) (Some 559) (Some (OBJ_set_ctype @ [41])),
   Asn1 ''setct_CardCInitResTBS'' (Some ''setct-CardCInitResTBS'') (None) (Some 560) (Some (OBJ_set_ctype @ [42])),
   Asn1 ''setct_MeAqCInitResTBS'' (Some ''setct-MeAqCInitResTBS'') (None) (Some 561) (Some (OBJ_set_ctype @ [43])),
   Asn1 ''setct_RegFormResTBS'' (Some ''setct-RegFormResTBS'') (None) (Some 562) (Some (OBJ_set_ctype @ [44])),
   Asn1 ''setct_CertReqData'' (Some ''setct-CertReqData'') (None) (Some 563) (Some (OBJ_set_ctype @ [45])),
   Asn1 ''setct_CertReqTBS'' (Some ''setct-CertReqTBS'') (None) (Some 564) (Some (OBJ_set_ctype @ [46])),
   Asn1 ''setct_CertResData'' (Some ''setct-CertResData'') (None) (Some 565) (Some (OBJ_set_ctype @ [47])),
   Asn1 ''setct_CertInqReqTBS'' (Some ''setct-CertInqReqTBS'') (None) (Some 566) (Some (OBJ_set_ctype @ [48])),
   Asn1 ''setct_ErrorTBS'' (Some ''setct-ErrorTBS'') (None) (Some 567) (Some (OBJ_set_ctype @ [49])),
   Asn1 ''setct_PIDualSignedTBE'' (Some ''setct-PIDualSignedTBE'') (None) (Some 568) (Some (OBJ_set_ctype @ [50]))]"

definition obj_mac_23 :: "asn1_object list" where
  "obj_mac_23 = [
   Asn1 ''setct_PIUnsignedTBE'' (Some ''setct-PIUnsignedTBE'') (None) (Some 569) (Some (OBJ_set_ctype @ [51])),
   Asn1 ''setct_AuthReqTBE'' (Some ''setct-AuthReqTBE'') (None) (Some 570) (Some (OBJ_set_ctype @ [52])),
   Asn1 ''setct_AuthResTBE'' (Some ''setct-AuthResTBE'') (None) (Some 571) (Some (OBJ_set_ctype @ [53])),
   Asn1 ''setct_AuthResTBEX'' (Some ''setct-AuthResTBEX'') (None) (Some 572) (Some (OBJ_set_ctype @ [54])),
   Asn1 ''setct_AuthTokenTBE'' (Some ''setct-AuthTokenTBE'') (None) (Some 573) (Some (OBJ_set_ctype @ [55])),
   Asn1 ''setct_CapTokenTBE'' (Some ''setct-CapTokenTBE'') (None) (Some 574) (Some (OBJ_set_ctype @ [56])),
   Asn1 ''setct_CapTokenTBEX'' (Some ''setct-CapTokenTBEX'') (None) (Some 575) (Some (OBJ_set_ctype @ [57])),
   Asn1 ''setct_AcqCardCodeMsgTBE'' (Some ''setct-AcqCardCodeMsgTBE'') (None) (Some 576) (Some (OBJ_set_ctype @ [58])),
   Asn1 ''setct_AuthRevReqTBE'' (Some ''setct-AuthRevReqTBE'') (None) (Some 577) (Some (OBJ_set_ctype @ [59])),
   Asn1 ''setct_AuthRevResTBE'' (Some ''setct-AuthRevResTBE'') (None) (Some 578) (Some (OBJ_set_ctype @ [60])),
   Asn1 ''setct_AuthRevResTBEB'' (Some ''setct-AuthRevResTBEB'') (None) (Some 579) (Some (OBJ_set_ctype @ [61])),
   Asn1 ''setct_CapReqTBE'' (Some ''setct-CapReqTBE'') (None) (Some 580) (Some (OBJ_set_ctype @ [62])),
   Asn1 ''setct_CapReqTBEX'' (Some ''setct-CapReqTBEX'') (None) (Some 581) (Some (OBJ_set_ctype @ [63])),
   Asn1 ''setct_CapResTBE'' (Some ''setct-CapResTBE'') (None) (Some 582) (Some (OBJ_set_ctype @ [64])),
   Asn1 ''setct_CapRevReqTBE'' (Some ''setct-CapRevReqTBE'') (None) (Some 583) (Some (OBJ_set_ctype @ [65])),
   Asn1 ''setct_CapRevReqTBEX'' (Some ''setct-CapRevReqTBEX'') (None) (Some 584) (Some (OBJ_set_ctype @ [66])),
   Asn1 ''setct_CapRevResTBE'' (Some ''setct-CapRevResTBE'') (None) (Some 585) (Some (OBJ_set_ctype @ [67])),
   Asn1 ''setct_CredReqTBE'' (Some ''setct-CredReqTBE'') (None) (Some 586) (Some (OBJ_set_ctype @ [68])),
   Asn1 ''setct_CredReqTBEX'' (Some ''setct-CredReqTBEX'') (None) (Some 587) (Some (OBJ_set_ctype @ [69])),
   Asn1 ''setct_CredResTBE'' (Some ''setct-CredResTBE'') (None) (Some 588) (Some (OBJ_set_ctype @ [70])),
   Asn1 ''setct_CredRevReqTBE'' (Some ''setct-CredRevReqTBE'') (None) (Some 589) (Some (OBJ_set_ctype @ [71])),
   Asn1 ''setct_CredRevReqTBEX'' (Some ''setct-CredRevReqTBEX'') (None) (Some 590) (Some (OBJ_set_ctype @ [72])),
   Asn1 ''setct_CredRevResTBE'' (Some ''setct-CredRevResTBE'') (None) (Some 591) (Some (OBJ_set_ctype @ [73])),
   Asn1 ''setct_BatchAdminReqTBE'' (Some ''setct-BatchAdminReqTBE'') (None) (Some 592) (Some (OBJ_set_ctype @ [74])),
   Asn1 ''setct_BatchAdminResTBE'' (Some ''setct-BatchAdminResTBE'') (None) (Some 593) (Some (OBJ_set_ctype @ [75])),
   Asn1 ''setct_RegFormReqTBE'' (Some ''setct-RegFormReqTBE'') (None) (Some 594) (Some (OBJ_set_ctype @ [76])),
   Asn1 ''setct_CertReqTBE'' (Some ''setct-CertReqTBE'') (None) (Some 595) (Some (OBJ_set_ctype @ [77])),
   Asn1 ''setct_CertReqTBEX'' (Some ''setct-CertReqTBEX'') (None) (Some 596) (Some (OBJ_set_ctype @ [78])),
   Asn1 ''setct_CertResTBE'' (Some ''setct-CertResTBE'') (None) (Some 597) (Some (OBJ_set_ctype @ [79])),
   Asn1 ''setct_CRLNotificationTBS'' (Some ''setct-CRLNotificationTBS'') (None) (Some 598) (Some (OBJ_set_ctype @ [80])),
   Asn1 ''setct_CRLNotificationResTBS'' (Some ''setct-CRLNotificationResTBS'') (None) (Some 599) (Some (OBJ_set_ctype @ [81])),
   Asn1 ''setct_BCIDistributionTBS'' (Some ''setct-BCIDistributionTBS'') (None) (Some 600) (Some (OBJ_set_ctype @ [82])),
   Asn1 ''setext_genCrypt'' (Some ''setext-genCrypt'') (Some ''generic cryptogram'') (Some 601) (Some (OBJ_set_msgExt @ [1])),
   Asn1 ''setext_miAuth'' (Some ''setext-miAuth'') (Some ''merchant initiated auth'') (Some 602) (Some (OBJ_set_msgExt @ [3])),
   Asn1 ''setext_pinSecure'' (Some ''setext-pinSecure'') (None) (Some 603) (Some (OBJ_set_msgExt @ [4])),
   Asn1 ''setext_pinAny'' (Some ''setext-pinAny'') (None) (Some 604) (Some (OBJ_set_msgExt @ [5])),
   Asn1 ''setext_track2'' (Some ''setext-track2'') (None) (Some 605) (Some (OBJ_set_msgExt @ [7]))]"

definition obj_mac_24 :: "asn1_object list" where
  "obj_mac_24 = [
   Asn1 ''setext_cv'' (Some ''setext-cv'') (Some ''additional verification'') (Some 606) (Some (OBJ_set_msgExt @ [8])),
   Asn1 ''set_policy_root'' (Some ''set-policy-root'') (None) (Some 607) (Some (OBJ_set_policy @ [0])),
   Asn1 ''setCext_hashedRoot'' (Some ''setCext-hashedRoot'') (None) (Some 608) (Some (OBJ_set_certExt @ [0])),
   Asn1 ''setCext_certType'' (Some ''setCext-certType'') (None) (Some 609) (Some (OBJ_set_certExt @ [1])),
   Asn1 ''setCext_merchData'' (Some ''setCext-merchData'') (None) (Some 610) (Some (OBJ_set_certExt @ [2])),
   Asn1 ''setCext_cCertRequired'' (Some ''setCext-cCertRequired'') (None) (Some 611) (Some (OBJ_set_certExt @ [3])),
   Asn1 ''setCext_tunneling'' (Some ''setCext-tunneling'') (None) (Some 612) (Some (OBJ_set_certExt @ [4])),
   Asn1 ''setCext_setExt'' (Some ''setCext-setExt'') (None) (Some 613) (Some (OBJ_set_certExt @ [5])),
   Asn1 ''setCext_setQualf'' (Some ''setCext-setQualf'') (None) (Some 614) (Some (OBJ_set_certExt @ [6])),
   Asn1 ''setCext_PGWYcapabilities'' (Some ''setCext-PGWYcapabilities'') (None) (Some 615) (Some (OBJ_set_certExt @ [7])),
   Asn1 ''setCext_TokenIdentifier'' (Some ''setCext-TokenIdentifier'') (None) (Some 616) (Some (OBJ_set_certExt @ [8])),
   Asn1 ''setCext_Track2Data'' (Some ''setCext-Track2Data'') (None) (Some 617) (Some (OBJ_set_certExt @ [9])),
   Asn1 ''setCext_TokenType'' (Some ''setCext-TokenType'') (None) (Some 618) (Some (OBJ_set_certExt @ [10])),
   Asn1 ''setCext_IssuerCapabilities'' (Some ''setCext-IssuerCapabilities'') (None) (Some 619) (Some (OBJ_set_certExt @ [11])),
   Asn1 ''setAttr_Cert'' (Some ''setAttr-Cert'') (None) (Some 620) (Some OBJ_setAttr_Cert),
   Asn1 ''setAttr_PGWYcap'' (Some ''setAttr-PGWYcap'') (Some ''payment gateway capabilities'') (Some 621) (Some (OBJ_set_attr @ [1])),
   Asn1 ''setAttr_TokenType'' (Some ''setAttr-TokenType'') (None) (Some 622) (Some OBJ_setAttr_TokenType),
   Asn1 ''setAttr_IssCap'' (Some ''setAttr-IssCap'') (Some ''issuer capabilities'') (Some 623) (Some OBJ_setAttr_IssCap),
   Asn1 ''set_rootKeyThumb'' (Some ''set-rootKeyThumb'') (None) (Some 624) (Some (OBJ_setAttr_Cert @ [0])),
   Asn1 ''set_addPolicy'' (Some ''set-addPolicy'') (None) (Some 625) (Some (OBJ_setAttr_Cert @ [1])),
   Asn1 ''setAttr_Token_EMV'' (Some ''setAttr-Token-EMV'') (None) (Some 626) (Some (OBJ_setAttr_TokenType @ [1])),
   Asn1 ''setAttr_Token_B0Prime'' (Some ''setAttr-Token-B0Prime'') (None) (Some 627) (Some (OBJ_setAttr_TokenType @ [2])),
   Asn1 ''setAttr_IssCap_CVM'' (Some ''setAttr-IssCap-CVM'') (None) (Some 628) (Some OBJ_setAttr_IssCap_CVM),
   Asn1 ''setAttr_IssCap_T2'' (Some ''setAttr-IssCap-T2'') (None) (Some 629) (Some OBJ_setAttr_IssCap_T2),
   Asn1 ''setAttr_IssCap_Sig'' (Some ''setAttr-IssCap-Sig'') (None) (Some 630) (Some OBJ_setAttr_IssCap_Sig),
   Asn1 ''setAttr_GenCryptgrm'' (Some ''setAttr-GenCryptgrm'') (Some ''generate cryptogram'') (Some 631) (Some (OBJ_setAttr_IssCap_CVM @ [1])),
   Asn1 ''setAttr_T2Enc'' (Some ''setAttr-T2Enc'') (Some ''encrypted track 2'') (Some 632) (Some (OBJ_setAttr_IssCap_T2 @ [1])),
   Asn1 ''setAttr_T2cleartxt'' (Some ''setAttr-T2cleartxt'') (Some ''cleartext track 2'') (Some 633) (Some (OBJ_setAttr_IssCap_T2 @ [2])),
   Asn1 ''setAttr_TokICCsig'' (Some ''setAttr-TokICCsig'') (Some ''ICC or token signature'') (Some 634) (Some (OBJ_setAttr_IssCap_Sig @ [1])),
   Asn1 ''setAttr_SecDevSig'' (Some ''setAttr-SecDevSig'') (Some ''secure device signature'') (Some 635) (Some (OBJ_setAttr_IssCap_Sig @ [2])),
   Asn1 ''set_brand_IATA_ATA'' (Some ''set-brand-IATA-ATA'') (None) (Some 636) (Some (OBJ_set_brand @ [1])),
   Asn1 ''set_brand_Diners'' (Some ''set-brand-Diners'') (None) (Some 637) (Some (OBJ_set_brand @ [30])),
   Asn1 ''set_brand_AmericanExpress'' (Some ''set-brand-AmericanExpress'') (None) (Some 638) (Some (OBJ_set_brand @ [34])),
   Asn1 ''set_brand_JCB'' (Some ''set-brand-JCB'') (None) (Some 639) (Some (OBJ_set_brand @ [35])),
   Asn1 ''set_brand_Visa'' (Some ''set-brand-Visa'') (None) (Some 640) (Some (OBJ_set_brand @ [4]))]"

definition obj_mac_25 :: "asn1_object list" where
  "obj_mac_25 = [
   Asn1 ''set_brand_MasterCard'' (Some ''set-brand-MasterCard'') (None) (Some 641) (Some (OBJ_set_brand @ [5])),
   Asn1 ''set_brand_Novus'' (Some ''set-brand-Novus'') (None) (Some 642) (Some (OBJ_set_brand @ [6011])),
   Asn1 ''des_cdmf'' (Some ''DES-CDMF'') (Some ''des-cdmf'') (Some 643) (Some (OBJ_rsadsi @ [3, 10])),
   Asn1 ''rsaOAEPEncryptionSET'' (Some ''rsaOAEPEncryptionSET'') (None) (Some 644) (Some (OBJ_rsadsi @ [1, 1, 6])),
   Asn1 ''ipsec3'' (Some ''Oakley-EC2N-3'') (Some ''ipsec3'') (Some 749) (None),
   Asn1 ''ipsec4'' (Some ''Oakley-EC2N-4'') (Some ''ipsec4'') (Some 750) (None),
   Asn1 ''whirlpool'' (Some ''whirlpool'') (None) (Some 804) (Some (OBJ_iso @ [0, 10118, 3, 0, 55])),
   Asn1 ''cryptopro'' (Some ''cryptopro'') (None) (Some 805) (Some OBJ_cryptopro),
   Asn1 ''cryptocom'' (Some ''cryptocom'') (None) (Some 806) (Some OBJ_cryptocom),
   Asn1 ''id_GostR3411_94_with_GostR3410_2001'' (Some ''id-GostR3411-94-with-GostR3410-2001'') (Some ''GOST R 34.11-94 with GOST R 34.10-2001'') (Some 807) (Some (OBJ_cryptopro @ [3])),
   Asn1 ''id_GostR3411_94_with_GostR3410_94'' (Some ''id-GostR3411-94-with-GostR3410-94'') (Some ''GOST R 34.11-94 with GOST R 34.10-94'') (Some 808) (Some (OBJ_cryptopro @ [4])),
   Asn1 ''id_GostR3411_94'' (Some ''md_gost94'') (Some ''GOST R 34.11-94'') (Some 809) (Some (OBJ_cryptopro @ [9])),
   Asn1 ''id_HMACGostR3411_94'' (Some ''id-HMACGostR3411-94'') (Some ''HMAC GOST 34.11-94'') (Some 810) (Some (OBJ_cryptopro @ [10])),
   Asn1 ''id_GostR3410_2001'' (Some ''gost2001'') (Some ''GOST R 34.10-2001'') (Some 811) (Some (OBJ_cryptopro @ [19])),
   Asn1 ''id_GostR3410_94'' (Some ''gost94'') (Some ''GOST R 34.10-94'') (Some 812) (Some OBJ_id_GostR3410_94),
   Asn1 ''id_Gost28147_89'' (Some ''gost89'') (Some ''GOST 28147-89'') (Some 813) (Some (OBJ_cryptopro @ [21])),
   Asn1 ''gost89_cnt'' (Some ''gost89-cnt'') (None) (Some 814) (None),
   Asn1 ''id_Gost28147_89_MAC'' (Some ''gost-mac'') (Some ''GOST 28147-89 MAC'') (Some 815) (Some (OBJ_cryptopro @ [22])),
   Asn1 ''id_GostR3411_94_prf'' (Some ''prf-gostr3411-94'') (Some ''GOST R 34.11-94 PRF'') (Some 816) (Some (OBJ_cryptopro @ [23])),
   Asn1 ''id_GostR3410_2001DH'' (Some ''id-GostR3410-2001DH'') (Some ''GOST R 34.10-2001 DH'') (Some 817) (Some (OBJ_cryptopro @ [98])),
   Asn1 ''id_GostR3410_94DH'' (Some ''id-GostR3410-94DH'') (Some ''GOST R 34.10-94 DH'') (Some 818) (Some (OBJ_cryptopro @ [99])),
   Asn1 ''id_Gost28147_89_CryptoPro_KeyMeshing'' (Some ''id-Gost28147-89-CryptoPro-KeyMeshing'') (None) (Some 819) (Some (OBJ_cryptopro @ [14, 1])),
   Asn1 ''id_Gost28147_89_None_KeyMeshing'' (Some ''id-Gost28147-89-None-KeyMeshing'') (None) (Some 820) (Some (OBJ_cryptopro @ [14, 0])),
   Asn1 ''id_GostR3411_94_TestParamSet'' (Some ''id-GostR3411-94-TestParamSet'') (None) (Some 821) (Some (OBJ_cryptopro @ [30, 0])),
   Asn1 ''id_GostR3411_94_CryptoProParamSet'' (Some ''id-GostR3411-94-CryptoProParamSet'') (None) (Some 822) (Some (OBJ_cryptopro @ [30, 1])),
   Asn1 ''id_Gost28147_89_TestParamSet'' (Some ''id-Gost28147-89-TestParamSet'') (None) (Some 823) (Some (OBJ_cryptopro @ [31, 0])),
   Asn1 ''id_Gost28147_89_CryptoPro_A_ParamSet'' (Some ''id-Gost28147-89-CryptoPro-A-ParamSet'') (None) (Some 824) (Some (OBJ_cryptopro @ [31, 1])),
   Asn1 ''id_Gost28147_89_CryptoPro_B_ParamSet'' (Some ''id-Gost28147-89-CryptoPro-B-ParamSet'') (None) (Some 825) (Some (OBJ_cryptopro @ [31, 2])),
   Asn1 ''id_Gost28147_89_CryptoPro_C_ParamSet'' (Some ''id-Gost28147-89-CryptoPro-C-ParamSet'') (None) (Some 826) (Some (OBJ_cryptopro @ [31, 3])),
   Asn1 ''id_Gost28147_89_CryptoPro_D_ParamSet'' (Some ''id-Gost28147-89-CryptoPro-D-ParamSet'') (None) (Some 827) (Some (OBJ_cryptopro @ [31, 4])),
   Asn1 ''id_Gost28147_89_CryptoPro_Oscar_1_1_ParamSet'' (Some ''id-Gost28147-89-CryptoPro-Oscar-1-1-ParamSet'') (None) (Some 828) (Some (OBJ_cryptopro @ [31, 5])),
   Asn1 ''id_Gost28147_89_CryptoPro_Oscar_1_0_ParamSet'' (Some ''id-Gost28147-89-CryptoPro-Oscar-1-0-ParamSet'') (None) (Some 829) (Some (OBJ_cryptopro @ [31, 6])),
   Asn1 ''id_Gost28147_89_CryptoPro_RIC_1_ParamSet'' (Some ''id-Gost28147-89-CryptoPro-RIC-1-ParamSet'') (None) (Some 830) (Some (OBJ_cryptopro @ [31, 7])),
   Asn1 ''id_GostR3410_94_TestParamSet'' (Some ''id-GostR3410-94-TestParamSet'') (None) (Some 831) (Some (OBJ_cryptopro @ [32, 0])),
   Asn1 ''id_GostR3410_94_CryptoPro_A_ParamSet'' (Some ''id-GostR3410-94-CryptoPro-A-ParamSet'') (None) (Some 832) (Some (OBJ_cryptopro @ [32, 2]))]"

definition obj_mac_26 :: "asn1_object list" where
  "obj_mac_26 = [
   Asn1 ''id_GostR3410_94_CryptoPro_B_ParamSet'' (Some ''id-GostR3410-94-CryptoPro-B-ParamSet'') (None) (Some 833) (Some (OBJ_cryptopro @ [32, 3])),
   Asn1 ''id_GostR3410_94_CryptoPro_C_ParamSet'' (Some ''id-GostR3410-94-CryptoPro-C-ParamSet'') (None) (Some 834) (Some (OBJ_cryptopro @ [32, 4])),
   Asn1 ''id_GostR3410_94_CryptoPro_D_ParamSet'' (Some ''id-GostR3410-94-CryptoPro-D-ParamSet'') (None) (Some 835) (Some (OBJ_cryptopro @ [32, 5])),
   Asn1 ''id_GostR3410_94_CryptoPro_XchA_ParamSet'' (Some ''id-GostR3410-94-CryptoPro-XchA-ParamSet'') (None) (Some 836) (Some (OBJ_cryptopro @ [33, 1])),
   Asn1 ''id_GostR3410_94_CryptoPro_XchB_ParamSet'' (Some ''id-GostR3410-94-CryptoPro-XchB-ParamSet'') (None) (Some 837) (Some (OBJ_cryptopro @ [33, 2])),
   Asn1 ''id_GostR3410_94_CryptoPro_XchC_ParamSet'' (Some ''id-GostR3410-94-CryptoPro-XchC-ParamSet'') (None) (Some 838) (Some (OBJ_cryptopro @ [33, 3])),
   Asn1 ''id_GostR3410_2001_TestParamSet'' (Some ''id-GostR3410-2001-TestParamSet'') (None) (Some 839) (Some (OBJ_cryptopro @ [35, 0])),
   Asn1 ''id_GostR3410_2001_CryptoPro_A_ParamSet'' (Some ''id-GostR3410-2001-CryptoPro-A-ParamSet'') (None) (Some 840) (Some (OBJ_cryptopro @ [35, 1])),
   Asn1 ''id_GostR3410_2001_CryptoPro_B_ParamSet'' (Some ''id-GostR3410-2001-CryptoPro-B-ParamSet'') (None) (Some 841) (Some (OBJ_cryptopro @ [35, 2])),
   Asn1 ''id_GostR3410_2001_CryptoPro_C_ParamSet'' (Some ''id-GostR3410-2001-CryptoPro-C-ParamSet'') (None) (Some 842) (Some (OBJ_cryptopro @ [35, 3])),
   Asn1 ''id_GostR3410_2001_CryptoPro_XchA_ParamSet'' (Some ''id-GostR3410-2001-CryptoPro-XchA-ParamSet'') (None) (Some 843) (Some (OBJ_cryptopro @ [36, 0])),
   Asn1 ''id_GostR3410_2001_CryptoPro_XchB_ParamSet'' (Some ''id-GostR3410-2001-CryptoPro-XchB-ParamSet'') (None) (Some 844) (Some (OBJ_cryptopro @ [36, 1])),
   Asn1 ''id_GostR3410_94_a'' (Some ''id-GostR3410-94-a'') (None) (Some 845) (Some (OBJ_id_GostR3410_94 @ [1])),
   Asn1 ''id_GostR3410_94_aBis'' (Some ''id-GostR3410-94-aBis'') (None) (Some 846) (Some (OBJ_id_GostR3410_94 @ [2])),
   Asn1 ''id_GostR3410_94_b'' (Some ''id-GostR3410-94-b'') (None) (Some 847) (Some (OBJ_id_GostR3410_94 @ [3])),
   Asn1 ''id_GostR3410_94_bBis'' (Some ''id-GostR3410-94-bBis'') (None) (Some 848) (Some (OBJ_id_GostR3410_94 @ [4])),
   Asn1 ''id_Gost28147_89_cc'' (Some ''id-Gost28147-89-cc'') (Some ''GOST 28147-89 Cryptocom ParamSet'') (Some 849) (Some (OBJ_cryptocom @ [1, 6, 1])),
   Asn1 ''id_GostR3410_94_cc'' (Some ''gost94cc'') (Some ''GOST 34.10-94 Cryptocom'') (Some 850) (Some (OBJ_cryptocom @ [1, 5, 3])),
   Asn1 ''id_GostR3410_2001_cc'' (Some ''gost2001cc'') (Some ''GOST 34.10-2001 Cryptocom'') (Some 851) (Some (OBJ_cryptocom @ [1, 5, 4])),
   Asn1 ''id_GostR3411_94_with_GostR3410_94_cc'' (Some ''id-GostR3411-94-with-GostR3410-94-cc'') (Some ''GOST R 34.11-94 with GOST R 34.10-94 Cryptocom'') (Some 852) (Some (OBJ_cryptocom @ [1, 3, 3])),
   Asn1 ''id_GostR3411_94_with_GostR3410_2001_cc'' (Some ''id-GostR3411-94-with-GostR3410-2001-cc'') (Some ''GOST R 34.11-94 with GOST R 34.10-2001 Cryptocom'') (Some 853) (Some (OBJ_cryptocom @ [1, 3, 4])),
   Asn1 ''id_GostR3410_2001_ParamSet_cc'' (Some ''id-GostR3410-2001-ParamSet-cc'') (Some ''GOST R 3410-2001 Parameter Set Cryptocom'') (Some 854) (Some (OBJ_cryptocom @ [1, 8, 1])),
   Asn1 ''camellia_128_cbc'' (Some ''CAMELLIA-128-CBC'') (Some ''camellia-128-cbc'') (Some 751) (Some ([1, 2, 392, 200011, 61, 1, 1, 1, 2])),
   Asn1 ''camellia_192_cbc'' (Some ''CAMELLIA-192-CBC'') (Some ''camellia-192-cbc'') (Some 752) (Some ([1, 2, 392, 200011, 61, 1, 1, 1, 3])),
   Asn1 ''camellia_256_cbc'' (Some ''CAMELLIA-256-CBC'') (Some ''camellia-256-cbc'') (Some 753) (Some ([1, 2, 392, 200011, 61, 1, 1, 1, 4])),
   Asn1 ''id_camellia128_wrap'' (Some ''id-camellia128-wrap'') (None) (Some 907) (Some ([1, 2, 392, 200011, 61, 1, 1, 3, 2])),
   Asn1 ''id_camellia192_wrap'' (Some ''id-camellia192-wrap'') (None) (Some 908) (Some ([1, 2, 392, 200011, 61, 1, 1, 3, 3])),
   Asn1 ''id_camellia256_wrap'' (Some ''id-camellia256-wrap'') (None) (Some 909) (Some ([1, 2, 392, 200011, 61, 1, 1, 3, 4])),
   Asn1 ''ntt_ds'' (None) (None) (None) (Some OBJ_ntt_ds),
   Asn1 ''camellia'' (None) (None) (None) (Some OBJ_camellia),
   Asn1 ''camellia_128_ecb'' (Some ''CAMELLIA-128-ECB'') (Some ''camellia-128-ecb'') (Some 754) (Some (OBJ_camellia @ [1])),
   Asn1 ''camellia_128_ofb128'' (Some ''CAMELLIA-128-OFB'') (Some ''camellia-128-ofb'') (Some 766) (Some (OBJ_camellia @ [3])),
   Asn1 ''camellia_128_cfb128'' (Some ''CAMELLIA-128-CFB'') (Some ''camellia-128-cfb'') (Some 757) (Some (OBJ_camellia @ [4])),
   Asn1 ''camellia_192_ecb'' (Some ''CAMELLIA-192-ECB'') (Some ''camellia-192-ecb'') (Some 755) (Some (OBJ_camellia @ [21])),
   Asn1 ''camellia_192_ofb128'' (Some ''CAMELLIA-192-OFB'') (Some ''camellia-192-ofb'') (Some 767) (Some (OBJ_camellia @ [23]))]"

definition obj_mac_27 :: "asn1_object list" where
  "obj_mac_27 = [
   Asn1 ''camellia_192_cfb128'' (Some ''CAMELLIA-192-CFB'') (Some ''camellia-192-cfb'') (Some 758) (Some (OBJ_camellia @ [24])),
   Asn1 ''camellia_256_ecb'' (Some ''CAMELLIA-256-ECB'') (Some ''camellia-256-ecb'') (Some 756) (Some (OBJ_camellia @ [41])),
   Asn1 ''camellia_256_ofb128'' (Some ''CAMELLIA-256-OFB'') (Some ''camellia-256-ofb'') (Some 768) (Some (OBJ_camellia @ [43])),
   Asn1 ''camellia_256_cfb128'' (Some ''CAMELLIA-256-CFB'') (Some ''camellia-256-cfb'') (Some 759) (Some (OBJ_camellia @ [44])),
   Asn1 ''camellia_128_cfb1'' (Some ''CAMELLIA-128-CFB1'') (Some ''camellia-128-cfb1'') (Some 760) (None),
   Asn1 ''camellia_192_cfb1'' (Some ''CAMELLIA-192-CFB1'') (Some ''camellia-192-cfb1'') (Some 761) (None),
   Asn1 ''camellia_256_cfb1'' (Some ''CAMELLIA-256-CFB1'') (Some ''camellia-256-cfb1'') (Some 762) (None),
   Asn1 ''camellia_128_cfb8'' (Some ''CAMELLIA-128-CFB8'') (Some ''camellia-128-cfb8'') (Some 763) (None),
   Asn1 ''camellia_192_cfb8'' (Some ''CAMELLIA-192-CFB8'') (Some ''camellia-192-cfb8'') (Some 764) (None),
   Asn1 ''camellia_256_cfb8'' (Some ''CAMELLIA-256-CFB8'') (Some ''camellia-256-cfb8'') (Some 765) (None),
   Asn1 ''kisa'' (Some ''KISA'') (Some ''kisa'') (Some 773) (Some OBJ_kisa),
   Asn1 ''seed_ecb'' (Some ''SEED-ECB'') (Some ''seed-ecb'') (Some 776) (Some (OBJ_kisa @ [1, 3])),
   Asn1 ''seed_cbc'' (Some ''SEED-CBC'') (Some ''seed-cbc'') (Some 777) (Some (OBJ_kisa @ [1, 4])),
   Asn1 ''seed_cfb128'' (Some ''SEED-CFB'') (Some ''seed-cfb'') (Some 779) (Some (OBJ_kisa @ [1, 5])),
   Asn1 ''seed_ofb128'' (Some ''SEED-OFB'') (Some ''seed-ofb'') (Some 778) (Some (OBJ_kisa @ [1, 6])),
   Asn1 ''hmac'' (Some ''HMAC'') (Some ''hmac'') (Some 855) (None),
   Asn1 ''cmac'' (Some ''CMAC'') (Some ''cmac'') (Some 894) (None),
   Asn1 ''rc4_hmac_md5'' (Some ''RC4-HMAC-MD5'') (Some ''rc4-hmac-md5'') (Some 915) (None),
   Asn1 ''aes_128_cbc_hmac_sha1'' (Some ''AES-128-CBC-HMAC-SHA1'') (Some ''aes-128-cbc-hmac-sha1'') (Some 916) (None),
   Asn1 ''aes_192_cbc_hmac_sha1'' (Some ''AES-192-CBC-HMAC-SHA1'') (Some ''aes-192-cbc-hmac-sha1'') (Some 917) (None),
   Asn1 ''aes_256_cbc_hmac_sha1'' (Some ''AES-256-CBC-HMAC-SHA1'') (Some ''aes-256-cbc-hmac-sha1'') (Some 918) (None),
   Asn1 ''aes_128_cbc_hmac_sha256'' (Some ''AES-128-CBC-HMAC-SHA256'') (Some ''aes-128-cbc-hmac-sha256'') (Some 948) (None),
   Asn1 ''aes_192_cbc_hmac_sha256'' (Some ''AES-192-CBC-HMAC-SHA256'') (Some ''aes-192-cbc-hmac-sha256'') (Some 949) (None),
   Asn1 ''aes_256_cbc_hmac_sha256'' (Some ''AES-256-CBC-HMAC-SHA256'') (Some ''aes-256-cbc-hmac-sha256'') (Some 950) (None),
   Asn1 ''dhpublicnumber'' (Some ''dhpublicnumber'') (Some ''X9.42 DH'') (Some 920) (Some (OBJ_ISO_US @ [10046, 2, 1])),
   Asn1 ''brainpoolP160r1'' (Some ''brainpoolP160r1'') (None) (Some 921) (Some ([1, 3, 36, 3, 3, 2, 8, 1, 1, 1])),
   Asn1 ''brainpoolP160t1'' (Some ''brainpoolP160t1'') (None) (Some 922) (Some ([1, 3, 36, 3, 3, 2, 8, 1, 1, 2])),
   Asn1 ''brainpoolP192r1'' (Some ''brainpoolP192r1'') (None) (Some 923) (Some ([1, 3, 36, 3, 3, 2, 8, 1, 1, 3])),
   Asn1 ''brainpoolP192t1'' (Some ''brainpoolP192t1'') (None) (Some 924) (Some ([1, 3, 36, 3, 3, 2, 8, 1, 1, 4])),
   Asn1 ''brainpoolP224r1'' (Some ''brainpoolP224r1'') (None) (Some 925) (Some ([1, 3, 36, 3, 3, 2, 8, 1, 1, 5])),
   Asn1 ''brainpoolP224t1'' (Some ''brainpoolP224t1'') (None) (Some 926) (Some ([1, 3, 36, 3, 3, 2, 8, 1, 1, 6])),
   Asn1 ''brainpoolP256r1'' (Some ''brainpoolP256r1'') (None) (Some 927) (Some ([1, 3, 36, 3, 3, 2, 8, 1, 1, 7])),
   Asn1 ''brainpoolP256t1'' (Some ''brainpoolP256t1'') (None) (Some 928) (Some ([1, 3, 36, 3, 3, 2, 8, 1, 1, 8])),
   Asn1 ''brainpoolP320r1'' (Some ''brainpoolP320r1'') (None) (Some 929) (Some ([1, 3, 36, 3, 3, 2, 8, 1, 1, 9])),
   Asn1 ''brainpoolP320t1'' (Some ''brainpoolP320t1'') (None) (Some 930) (Some ([1, 3, 36, 3, 3, 2, 8, 1, 1, 10]))]"

definition obj_mac_28 :: "asn1_object list" where
  "obj_mac_28 = [
   Asn1 ''brainpoolP384r1'' (Some ''brainpoolP384r1'') (None) (Some 931) (Some ([1, 3, 36, 3, 3, 2, 8, 1, 1, 11])),
   Asn1 ''brainpoolP384t1'' (Some ''brainpoolP384t1'') (None) (Some 932) (Some ([1, 3, 36, 3, 3, 2, 8, 1, 1, 12])),
   Asn1 ''brainpoolP512r1'' (Some ''brainpoolP512r1'') (None) (Some 933) (Some ([1, 3, 36, 3, 3, 2, 8, 1, 1, 13])),
   Asn1 ''brainpoolP512t1'' (Some ''brainpoolP512t1'') (None) (Some 934) (Some ([1, 3, 36, 3, 3, 2, 8, 1, 1, 14])),
   Asn1 ''x9_63_scheme'' (None) (None) (None) (Some OBJ_x9_63_scheme),
   Asn1 ''secg_scheme'' (None) (None) (None) (Some OBJ_secg_scheme),
   Asn1 ''dhSinglePass_stdDH_sha1kdf_scheme'' (Some ''dhSinglePass-stdDH-sha1kdf-scheme'') (None) (Some 936) (Some (OBJ_x9_63_scheme @ [2])),
   Asn1 ''dhSinglePass_stdDH_sha224kdf_scheme'' (Some ''dhSinglePass-stdDH-sha224kdf-scheme'') (None) (Some 937) (Some (OBJ_secg_scheme @ [11, 0])),
   Asn1 ''dhSinglePass_stdDH_sha256kdf_scheme'' (Some ''dhSinglePass-stdDH-sha256kdf-scheme'') (None) (Some 938) (Some (OBJ_secg_scheme @ [11, 1])),
   Asn1 ''dhSinglePass_stdDH_sha384kdf_scheme'' (Some ''dhSinglePass-stdDH-sha384kdf-scheme'') (None) (Some 939) (Some (OBJ_secg_scheme @ [11, 2])),
   Asn1 ''dhSinglePass_stdDH_sha512kdf_scheme'' (Some ''dhSinglePass-stdDH-sha512kdf-scheme'') (None) (Some 940) (Some (OBJ_secg_scheme @ [11, 3])),
   Asn1 ''dhSinglePass_cofactorDH_sha1kdf_scheme'' (Some ''dhSinglePass-cofactorDH-sha1kdf-scheme'') (None) (Some 941) (Some (OBJ_x9_63_scheme @ [3])),
   Asn1 ''dhSinglePass_cofactorDH_sha224kdf_scheme'' (Some ''dhSinglePass-cofactorDH-sha224kdf-scheme'') (None) (Some 942) (Some (OBJ_secg_scheme @ [14, 0])),
   Asn1 ''dhSinglePass_cofactorDH_sha256kdf_scheme'' (Some ''dhSinglePass-cofactorDH-sha256kdf-scheme'') (None) (Some 943) (Some (OBJ_secg_scheme @ [14, 1])),
   Asn1 ''dhSinglePass_cofactorDH_sha384kdf_scheme'' (Some ''dhSinglePass-cofactorDH-sha384kdf-scheme'') (None) (Some 944) (Some (OBJ_secg_scheme @ [14, 2])),
   Asn1 ''dhSinglePass_cofactorDH_sha512kdf_scheme'' (Some ''dhSinglePass-cofactorDH-sha512kdf-scheme'') (None) (Some 945) (Some (OBJ_secg_scheme @ [14, 3])),
   Asn1 ''dh_std_kdf'' (Some ''dh-std-kdf'') (None) (Some 946) (None),
   Asn1 ''dh_cofactor_kdf'' (Some ''dh-cofactor-kdf'') (None) (Some 947) (None),
   Asn1 ''ct_precert_scts'' (Some ''ct_precert_scts'') (Some ''CT Precertificate SCTs'') (Some 951) (Some ([1, 3, 6, 1, 4, 1, 11129, 2, 4, 2])),
   Asn1 ''ct_precert_poison'' (Some ''ct_precert_poison'') (Some ''CT Precertificate Poison'') (Some 952) (Some ([1, 3, 6, 1, 4, 1, 11129, 2, 4, 3])),
   Asn1 ''ct_precert_signer'' (Some ''ct_precert_signer'') (Some ''CT Precertificate Signer'') (Some 953) (Some ([1, 3, 6, 1, 4, 1, 11129, 2, 4, 4])),
   Asn1 ''ct_cert_scts'' (Some ''ct_cert_scts'') (Some ''CT Certificate SCTs'') (Some 954) (Some ([1, 3, 6, 1, 4, 1, 11129, 2, 4, 5])),
   Asn1 ''jurisdictionLocalityName'' (Some ''jurisdictionL'') (Some ''jurisdictionLocalityName'') (Some 955) (Some ([1, 3, 6, 1, 4, 1, 311, 60, 2, 1, 1])),
   Asn1 ''jurisdictionStateOrProvinceName'' (Some ''jurisdictionST'') (Some ''jurisdictionStateOrProvinceName'') (Some 956) (Some ([1, 3, 6, 1, 4, 1, 311, 60, 2, 1, 2])),
   Asn1 ''jurisdictionCountryName'' (Some ''jurisdictionC'') (Some ''jurisdictionCountryName'') (Some 957) (Some ([1, 3, 6, 1, 4, 1, 311, 60, 2, 1, 3]))]"

definition obj_mac :: "asn1_object list" where
  "obj_mac = obj_mac_01 @ obj_mac_02 @ obj_mac_03 @ obj_mac_04 @ obj_mac_05 @ obj_mac_06 @ obj_mac_07 @ obj_mac_08 @ obj_mac_09 @ obj_mac_10 @ obj_mac_11 @ obj_mac_12 @ obj_mac_13 @ obj_mac_14 @ obj_mac_15 @ obj_mac_16 @ obj_mac_17 @ obj_mac_18 @ obj_mac_19 @ obj_mac_20 @ obj_mac_21 @ obj_mac_22 @ obj_mac_23 @ obj_mac_24 @ obj_mac_25 @ obj_mac_26 @ obj_mac_27 @ obj_mac_28"

lemmas obj_mac_table_defs = obj_mac_01_def obj_mac_02_def obj_mac_03_def obj_mac_04_def obj_mac_05_def obj_mac_06_def obj_mac_07_def obj_mac_08_def obj_mac_09_def obj_mac_10_def obj_mac_11_def obj_mac_12_def obj_mac_13_def obj_mac_14_def obj_mac_15_def obj_mac_16_def obj_mac_17_def obj_mac_18_def obj_mac_19_def obj_mac_20_def obj_mac_21_def obj_mac_22_def obj_mac_23_def obj_mac_24_def obj_mac_25_def obj_mac_26_def obj_mac_27_def obj_mac_28_def

end
