(* ===== verification/Objects_Fallback.thy ===== *)
theory Objects_Fallback
  imports Obj_Mac
begin

section \<open>The fallback object table of objects.h\<close>

text \<open>
  \<^verbatim>\<open>Library/iphoneos/include/openssl/objects.h\<close> carries, for builds without \<open>USE_OBJ_MAC\<close>, an older table
  of the same macros. Its identifiers are the constants \<open>FB_\<close>.
\<close>

definition FB_algorithm :: oid where
  "FB_algorithm = [1, 3, 14, 3, 2]"

definition FB_rsadsi :: oid where
  "FB_rsadsi = [1, 2, 840, 113549]"

definition FB_pkcs :: oid where
  "FB_pkcs = FB_rsadsi @ [1]"

definition FB_X500 :: oid where
  "FB_X500 = [2, 5]"

definition FB_X509 :: oid where
  "FB_X509 = FB_X500 @ [4]"

definition FB_pkcs7 :: oid where
  "FB_pkcs7 = FB_pkcs @ [7]"

definition FB_pkcs3 :: oid where
  "FB_pkcs3 = FB_pkcs @ [3]"

definition FB_pkcs9 :: oid where
  "FB_pkcs9 = FB_pkcs @ [9]"

definition FB_netscape :: oid where
  "FB_netscape = [2, 16, 840, 1, 113730]"

definition FB_netscape_cert_extension :: oid where
  "FB_netscape_cert_extension = FB_netscape @ [1]"

definition FB_netscape_data_type :: oid where
  "FB_netscape_data_type = FB_netscape @ [2]"

definition FB_id_ce :: oid where
  "FB_id_ce = [2, 5, 29]"

definition FB_id_pkix :: oid where
  "FB_id_pkix = [1, 3, 6, 1, 5, 5, 7]"

definition FB_id_kp :: oid where
  "FB_id_kp = FB_id_pkix @ [3]"

definition FB_pkcs12 :: oid where
  "FB_pkcs12 = FB_pkcs @ [12]"

definition FB_pkcs12_pbeids :: oid where
  "FB_pkcs12_pbeids = FB_pkcs12 @ [1]"

definition FB_pkcs12_Version1 :: oid where
  "FB_pkcs12_Version1 = FB_pkcs12 @ [10]"

definition FB_pkcs12_BagIds :: oid where
  "FB_pkcs12_BagIds = FB_pkcs12_Version1 @ [1]"

definition FB_certTypes :: oid where
  "FB_certTypes = FB_pkcs9 @ [22]"

definition FB_crlTypes :: oid where
  "FB_crlTypes = FB_pkcs9 @ [23]"

definition FB_id_pe :: oid where
  "FB_id_pe = FB_id_pkix @ [1]"

definition FB_id_ad :: oid where
  "FB_id_ad = FB_id_pkix @ [48]"

lemmas FB_defs =
  FB_algorithm_def
  FB_rsadsi_def
  FB_pkcs_def
  FB_X500_def
  FB_X509_def
  FB_pkcs7_def
  FB_pkcs3_def
  FB_pkcs9_def
  FB_netscape_def
  FB_netscape_cert_extension_def
  FB_netscape_data_type_def
  FB_id_ce_def
  FB_id_pkix_def
  FB_id_kp_def
  FB_pkcs12_def
  FB_pkcs12_pbeids_def
  FB_pkcs12_Version1_def
  FB_pkcs12_BagIds_def
  FB_certTypes_def
  FB_crlTypes_def
  FB_id_pe_def
  FB_id_ad_def

definition objects_01 :: "asn1_object list" where
  "objects_01 = [
   Asn1 ''undef'' (Some ''UNDEF'') (Some ''undefined'') (Some 0) (Some ([0])),
   Asn1 ''algorithm'' (Some ''Algorithm'') (Some ''algorithm'') (Some 38) (Some FB_algorithm),
   Asn1 ''rsadsi'' (None) (Some ''rsadsi'') (Some 1) (Some FB_rsadsi),
   Asn1 ''pkcs'' (None) (Some ''pkcs'') (Some 2) (Some FB_pkcs),
   Asn1 ''md2'' (Some ''MD2'') (Some ''md2'') (Some 3) (Some (FB_rsadsi @ [2, 2])),
   Asn1 ''md5'' (Some ''MD5'') (Some ''md5'') (Some 4) (Some (FB_rsadsi @ [2, 5])),
   Asn1 ''rc4'' (Some ''RC4'') (Some ''rc4'') (Some 5) (Some (FB_rsadsi @ [3, 4])),
   Asn1 ''rsaEncryption'' (None) (Some ''rsaEncryption'') (Some 6) (Some (FB_pkcs @ [1, 1])),
   Asn1 ''md2WithRSAEncryption'' (Some ''RSA-MD2'') (Some ''md2WithRSAEncryption'') (Some 7) (Some (FB_pkcs @ [1, 2])),
   Asn1 ''md5WithRSAEncryption'' (Some ''RSA-MD5'') (Some ''md5WithRSAEncryption'') (Some 8) (Some (FB_pkcs @ [1, 4])),
   Asn1 ''pbeWithMD2AndDES_CBC'' (Some ''PBE-MD2-DES'') (Some ''pbeWithMD2AndDES-CBC'') (Some 9) (Some (FB_pkcs @ [5, 1])),
   Asn1 ''pbeWithMD5AndDES_CBC'' (Some ''PBE-MD5-DES'') (Some ''pbeWithMD5AndDES-CBC'') (Some 10) (Some (FB_pkcs @ [5, 3])),
   Asn1 ''X500'' (None) (Some ''X500'') (Some 11) (Some FB_X500),
   Asn1 ''X509'' (None) (Some ''X509'') (Some 12) (Some FB_X509),
   Asn1 ''commonName'' (Some ''CN'') (Some ''commonName'') (Some 13) (Some (FB_X509 @ [3])),
   Asn1 ''countryName'' (Some ''C'') (Some ''countryName'') (Some 14) (Some (FB_X509 @ [6])),
   Asn1 ''localityName'' (Some ''L'') (Some ''localityName'') (Some 15) (Some (FB_X509 @ [7])),
   Asn1 ''stateOrProvinceName'' (Some ''ST'') (Some ''stateOrProvinceName'') (Some 16) (Some (FB_X509 @ [8])),
   Asn1 ''organizationName'' (Some ''O'') (Some ''organizationName'') (Some 17) (Some (FB_X509 @ [10])),
   Asn1 ''organizationalUnitName'' (Some ''OU'') (Some ''organizationalUnitName'') (Some 18) (Some (FB_X509 @ [11])),
   Asn1 ''rsa'' (Some ''RSA'') (Some ''rsa'') (Some 19) (Some (FB_X500 @ [8, 1, 1])),
   Asn1 ''pkcs7'' (None) (Some ''pkcs7'') (Some 20) (Some FB_pkcs7),
   Asn1 ''pkcs7_data'' (None) (Some ''pkcs7-data'') (Some 21) (Some (FB_pkcs7 @ [1])),
   Asn1 ''pkcs7_signed'' (None) (Some ''pkcs7-signedData'') (Some 22) (Some (FB_pkcs7 @ [2])),
   Asn1 ''pkcs7_enveloped'' (None) (Some ''pkcs7-envelopedData'') (Some 23) (Some (FB_pkcs7 @ [3])),
   Asn1 ''pkcs7_signedAndEnveloped'' (None) (Some ''pkcs7-signedAndEnvelopedData'') (Some 24) (Some (FB_pkcs7 @ [4])),
   Asn1 ''pkcs7_digest'' (None) (Some ''pkcs7-digestData'') (Some 25) (Some (FB_pkcs7 @ [5])),
   Asn1 ''pkcs7_encrypted'' (None) (Some ''pkcs7-encryptedData'') (Some 26) (Some (FB_pkcs7 @ [6])),
   Asn1 ''pkcs3'' (None) (Some ''pkcs3'') (Some 27) (Some FB_pkcs3),
   Asn1 ''dhKeyAgreement'' (None) (Some ''dhKeyAgreement'') (Some 28) (Some (FB_pkcs3 @ [1])),
   Asn1 ''des_ecb'' (Some ''DES-ECB'') (Some ''des-ecb'') (Some 29) (Some (FB_algorithm @ [6])),
   Asn1 ''des_cfb64'' (Some ''DES-CFB'') (Some ''des-cfb'') (Some 30) (Some (FB_algorithm @ [9]))]"

definition objects_02 :: "asn1_object list" where
  "objects_02 = [
   Asn1 ''des_cbc'' (Some ''DES-CBC'') (Some ''des-cbc'') (Some 31) (Some (FB_algorithm @ [7])),
   Asn1 ''des_ede'' (Some ''DES-EDE'') (Some ''des-ede'') (Some 32) (Some (FB_algorithm @ [17])),
   Asn1 ''des_ede3'' (Some ''DES-EDE3'') (Some ''des-ede3'') (Some 33) (None),
   Asn1 ''idea_cbc'' (Some ''IDEA-CBC'') (Some ''idea-cbc'') (Some 34) (Some ([1, 3, 6, 1, 4, 1, 188, 7, 1, 1, 2])),
   Asn1 ''idea_cfb64'' (Some ''IDEA-CFB'') (Some ''idea-cfb'') (Some 35) (None),
   Asn1 ''idea_ecb'' (Some ''IDEA-ECB'') (Some ''idea-ecb'') (Some 36) (None),
   Asn1 ''rc2_cbc'' (Some ''RC2-CBC'') (Some ''rc2-cbc'') (Some 37) (Some (FB_rsadsi @ [3, 2])),
   Asn1 ''rc2_ecb'' (Some ''RC2-ECB'') (Some ''rc2-ecb'') (Some 38) (None),
   Asn1 ''rc2_cfb64'' (Some ''RC2-CFB'') (Some ''rc2-cfb'') (Some 39) (None),
   Asn1 ''rc2_ofb64'' (Some ''RC2-OFB'') (Some ''rc2-ofb'') (Some 40) (None),
   Asn1 ''sha'' (Some ''SHA'') (Some ''sha'') (Some 41) (Some (FB_algorithm @ [18])),
   Asn1 ''shaWithRSAEncryption'' (Some ''RSA-SHA'') (Some ''shaWithRSAEncryption'') (Some 42) (Some (FB_algorithm @ [15])),
   Asn1 ''des_ede_cbc'' (Some ''DES-EDE-CBC'') (Some ''des-ede-cbc'') (Some 43) (None),
   Asn1 ''des_ede3_cbc'' (Some ''DES-EDE3-CBC'') (Some ''des-ede3-cbc'') (Some 44) (Some (FB_rsadsi @ [3, 7])),
   Asn1 ''des_ofb64'' (Some ''DES-OFB'') (Some ''des-ofb'') (Some 45) (Some (FB_algorithm @ [8])),
   Asn1 ''idea_ofb64'' (Some ''IDEA-OFB'') (Some ''idea-ofb'') (Some 46) (None),
   Asn1 ''pkcs9'' (None) (Some ''pkcs9'') (Some 47) (Some FB_pkcs9),
   Asn1 ''pkcs9_emailAddress'' (Some ''Email'') (Some ''emailAddress'') (Some 48) (Some (FB_pkcs9 @ [1])),
   Asn1 ''pkcs9_unstructuredName'' (None) (Some ''unstructuredName'') (Some 49) (Some (FB_pkcs9 @ [2])),
   Asn1 ''pkcs9_contentType'' (None) (Some ''contentType'') (Some 50) (Some (FB_pkcs9 @ [3])),
   Asn1 ''pkcs9_messageDigest'' (None) (Some ''messageDigest'') (Some 51) (Some (FB_pkcs9 @ [4])),
   Asn1 ''pkcs9_signingTime'' (None) (Some ''signingTime'') (Some 52) (Some (FB_pkcs9 @ [5])),
   Asn1 ''pkcs9_countersignature'' (None) (Some ''countersignature'') (Some 53) (Some (FB_pkcs9 @ [6])),
   Asn1 ''pkcs9_challengePassword'' (None) (Some ''challengePassword'') (Some 54) (Some (FB_pkcs9 @ [7])),
   Asn1 ''pkcs9_unstructuredAddress'' (None) (Some ''unstructuredAddress'') (Some 55) (Some (FB_pkcs9 @ [8])),
   Asn1 ''pkcs9_extCertAttributes'' (None) (Some ''extendedCertificateAttributes'') (Some 56) (Some (FB_pkcs9 @ [9])),
   Asn1 ''netscape'' (Some ''Netscape'') (Some ''Netscape Communications Corp.'') (Some 57) (Some FB_netscape),
   Asn1 ''netscape_cert_extension'' (Some ''nsCertExt'') (Some ''Netscape Certificate Extension'') (Some 58) (Some FB_netscape_cert_extension),
   Asn1 ''netscape_data_type'' (Some ''nsDataType'') (Some ''Netscape Data Type'') (Some 59) (Some FB_netscape_data_type),
   Asn1 ''des_ede_cfb64'' (Some ''DES-EDE-CFB'') (Some ''des-ede-cfb'') (Some 60) (None),
   Asn1 ''des_ede3_cfb64'' (Some ''DES-EDE3-CFB'') (Some ''des-ede3-cfb'') (Some 61) (None),
   Asn1 ''des_ede_ofb64'' (Some ''DES-EDE-OFB'') (Some ''des-ede-ofb'') (Some 62) (None),
   Asn1 ''des_ede3_ofb64'' (Some ''DES-EDE3-OFB'') (Some ''des-ede3-ofb'') (Some 63) (None)]"

definition objects_03 :: "asn1_object list" where
  "objects_03 = [
   Asn1 ''sha1'' (Some ''SHA1'') (Some ''sha1'') (Some 64) (Some (FB_algorithm @ [26])),
   Asn1 ''sha1WithRSAEncryption'' (Some ''RSA-SHA1'') (Some ''sha1WithRSAEncryption'') (Some 65) (Some (FB_pkcs @ [1, 5])),
   Asn1 ''dsaWithSHA'' (Some ''DSA-SHA'') (Some ''dsaWithSHA'') (Some 66) (Some (FB_algorithm @ [13])),
   Asn1 ''dsa_2'' (Some ''DSA-old'') (Some ''dsaEncryption-old'') (Some 67) (Some (FB_algorithm @ [12])),
   Asn1 ''pbeWithSHA1AndRC2_CBC'' (Some ''PBE-SHA1-RC2-64'') (Some ''pbeWithSHA1AndRC2-CBC'') (Some 68) (Some (FB_pkcs @ [5, 11])),
   Asn1 ''id_pbkdf2'' (None) (Some ''PBKDF2'') (Some 69) (Some (FB_pkcs @ [5, 12])),
   Asn1 ''dsaWithSHA1_2'' (Some ''DSA-SHA1-old'') (Some ''dsaWithSHA1-old'') (Some 70) (Some (FB_algorithm @ [27])),
   Asn1 ''netscape_cert_type'' (Some ''nsCertType'') (Some ''Netscape Cert Type'') (Some 71) (Some (FB_netscape_cert_extension @ [1])),
   Asn1 ''netscape_base_url'' (Some ''nsBaseUrl'') (Some ''Netscape Base Url'') (Some 72) (Some (FB_netscape_cert_extension @ [2])),
   Asn1 ''netscape_revocation_url'' (Some ''nsRevocationUrl'') (Some ''Netscape Revocation Url'') (Some 73) (Some (FB_netscape_cert_extension @ [3])),
   Asn1 ''netscape_ca_revocation_url'' (Some ''nsCaRevocationUrl'') (Some ''Netscape CA Revocation Url'') (Some 74) (Some (FB_netscape_cert_extension @ [4])),
   Asn1 ''netscape_renewal_url'' (Some ''nsRenewalUrl'') (Some ''Netscape Renewal Url'') (Some 75) (Some (FB_netscape_cert_extension @ [7])),
   Asn1 ''netscape_ca_policy_url'' (Some ''nsCaPolicyUrl'') (Some ''Netscape CA Policy Url'') (Some 76) (Some (FB_netscape_cert_extension @ [8])),
   Asn1 ''netscape_ssl_server_name'' (Some ''nsSslServerName'') (Some ''Netscape SSL Server Name'') (Some 77) (Some (FB_netscape_cert_extension @ [12])),
   Asn1 ''netscape_comment'' (Some ''nsComment'') (Some ''Netscape Comment'') (Some 78) (Some (FB_netscape_cert_extension @ [13])),
   Asn1 ''netscape_cert_sequence'' (Some ''nsCertSequence'') (Some ''Netscape Certificate Sequence'') (Some 79) (Some (FB_netscape_data_type @ [5])),
   Asn1 ''desx_cbc'' (Some ''DESX-CBC'') (Some ''desx-cbc'') (Some 80) (None),
   Asn1 ''id_ce'' (Some ''id-ce'') (None) (Some 81) (Some FB_id_ce),
   Asn1 ''subject_key_identifier'' (Some ''subjectKeyIdentifier'') (Some ''X509v3 Subject Key Identifier'') (Some 82) (Some (FB_id_ce @ [14])),
   Asn1 ''key_usage'' (Some ''keyUsage'') (Some ''X509v3 Key Usage'') (Some 83) (Some (FB_id_ce @ [15])),
   Asn1 ''private_key_usage_period'' (Some ''privateKeyUsagePeriod'') (Some ''X509v3 Private Key Usage Period'') (Some 84) (Some (FB_id_ce @ [16])),
   Asn1 ''subject_alt_name'' (Some ''subjectAltName'') (Some ''X509v3 Subject Alternative Name'') (Some 85) (Some (FB_id_ce @ [17])),
   Asn1 ''issuer_alt_name'' (Some ''issuerAltName'') (Some ''X509v3 Issuer Alternative Name'') (Some 86) (Some (FB_id_ce @ [18])),
   Asn1 ''basic_constraints'' (Some ''basicConstraints'') (Some ''X509v3 Basic Constraints'') (Some 87) (Some (FB_id_ce @ [19])),
   Asn1 ''crl_number'' (Some ''crlNumber'') (Some ''X509v3 CRL Number'') (Some 88) (Some (FB_id_ce @ [20])),
   Asn1 ''certificate_policies'' (Some ''certificatePolicies'') (Some ''X509v3 Certificate Policies'') (Some 89) (Some (FB_id_ce @ [32])),
   Asn1 ''authority_key_identifier'' (Some ''authorityKeyIdentifier'') (Some ''X509v3 Authority Key Identifier'') (Some 90) (Some (FB_id_ce @ [35])),
   Asn1 ''bf_cbc'' (Some ''BF-CBC'') (Some ''bf-cbc'') (Some 91) (Some ([1, 3, 6, 1, 4, 1, 3029, 1, 2])),
   Asn1 ''bf_ecb'' (Some ''BF-ECB'') (Some ''bf-ecb'') (Some 92) (None)]"

definition objects_04 :: "asn1_object list" where
  "objects_04 = [
   Asn1 ''bf_cfb64'' (Some ''BF-CFB'') (Some ''bf-cfb'') (Some 93) (None),
   Asn1 ''bf_ofb64'' (Some ''BF-OFB'') (Some ''bf-ofb'') (Some 94) (None),
   Asn1 ''mdc2'' (Some ''MDC2'') (Some ''mdc2'') (Some 95) (Some ([2, 5, 8, 3, 101])),
   Asn1 ''mdc2WithRSA'' (Some ''RSA-MDC2'') (Some ''mdc2withRSA'') (Some 96) (Some ([2, 5, 8, 3, 100])),
   Asn1 ''rc4_40'' (Some ''RC4-40'') (Some ''rc4-40'') (Some 97) (None),
   Asn1 ''rc2_40_cbc'' (Some ''RC2-40-CBC'') (Some ''rc2-40-cbc'') (Some 98) (None),
   Asn1 ''givenName'' (Some ''G'') (Some ''givenName'') (Some 99) (Some (FB_X509 @ [42])),
   Asn1 ''surname'' (Some ''S'') (Some ''surname'') (Some 100) (Some (FB_X509 @ [4])),
   Asn1 ''initials'' (Some ''I'') (Some ''initials'') (Some 101) (Some (FB_X509 @ [43])),
   Asn1 ''uniqueIdentifier'' (Some ''UID'') (Some ''uniqueIdentifier'') (Some 102) (Some (FB_X509 @ [45])),
   Asn1 ''crl_distribution_points'' (Some ''crlDistributionPoints'') (Some ''X509v3 CRL Distribution Points'') (Some 103) (Some (FB_id_ce @ [31])),
   Asn1 ''md5WithRSA'' (Some ''RSA-NP-MD5'') (Some ''md5WithRSA'') (Some 104) (Some (FB_algorithm @ [3])),
   Asn1 ''serialNumber'' (Some ''SN'') (Some ''serialNumber'') (Some 105) (Some (FB_X509 @ [5])),
   Asn1 ''title'' (Some ''T'') (Some ''title'') (Some 106) (Some (FB_X509 @ [12])),
   Asn1 ''description'' (Some ''D'') (Some ''description'') (Some 107) (Some (FB_X509 @ [13])),
   Asn1 ''cast5_cbc'' (Some ''CAST5-CBC'') (Some ''cast5-cbc'') (Some 108) (Some ([1, 2, 840, 113533, 7, 66, 10])),
   Asn1 ''cast5_ecb'' (Some ''CAST5-ECB'') (Some ''cast5-ecb'') (Some 109) (None),
   Asn1 ''cast5_cfb64'' (Some ''CAST5-CFB'') (Some ''cast5-cfb'') (Some 110) (None),
   Asn1 ''cast5_ofb64'' (Some ''CAST5-OFB'') (Some ''cast5-ofb'') (Some 111) (None),
   Asn1 ''pbeWithMD5AndCast5_CBC'' (None) (Some ''pbeWithMD5AndCast5CBC'') (Some 112) (Some ([1, 2, 840, 113533, 7, 66, 12])),
   Asn1 ''dsaWithSHA1'' (Some ''DSA-SHA1'') (Some ''dsaWithSHA1'') (Some 113) (Some ([1, 2, 840, 10040, 4, 3])),
   Asn1 ''md5_sha1'' (Some ''MD5-SHA1'') (Some ''md5-sha1'') (Some 114) (None),
   Asn1 ''sha1WithRSA'' (Some ''RSA-SHA1-2'') (Some ''sha1WithRSA'') (Some 115) (Some (FB_algorithm @ [29])),
   Asn1 ''dsa'' (Some ''DSA'') (Some ''dsaEncryption'') (Some 116) (Some ([1, 2, 840, 10040, 4, 1])),
   Asn1 ''ripemd160'' (Some ''RIPEMD160'') (Some ''ripemd160'') (Some 117) (Some ([1, 3, 36, 3, 2, 1])),
   Asn1 ''ripemd160WithRSA'' (Some ''RSA-RIPEMD160'') (Some ''ripemd160WithRSA'') (Some 119) (Some ([1, 3, 36, 3, 3, 1, 2])),
   Asn1 ''rc5_cbc'' (Some ''RC5-CBC'') (Some ''rc5-cbc'') (Some 120) (Some (FB_rsadsi @ [3, 8])),
   Asn1 ''rc5_ecb'' (Some ''RC5-ECB'') (Some ''rc5-ecb'') (Some 121) (None)]"

definition objects_05 :: "asn1_object list" where
  "objects_05 = [
   Asn1 ''rc5_cfb64'' (Some ''RC5-CFB'') (Some ''rc5-cfb'') (Some 122) (None),
   Asn1 ''rc5_ofb64'' (Some ''RC5-OFB'') (Some ''rc5-ofb'') (Some 123) (None),
   Asn1 ''rle_compression'' (Some ''RLE'') (Some ''run length compression'') (Some 124) (Some ([1, 1, 1, 1, 666, 1])),
   Asn1 ''zlib_compression'' (Some ''ZLIB'') (Some ''zlib compression'') (Some 125) (Some ([1, 1, 1, 1, 666, 2])),
   Asn1 ''ext_key_usage'' (Some ''extendedKeyUsage'') (Some ''X509v3 Extended Key Usage'') (Some 126) (Some (FB_id_ce @ [37])),
   Asn1 ''id_pkix'' (Some ''PKIX'') (None) (Some 127) (Some FB_id_pkix),
   Asn1 ''id_kp'' (Some ''id-kp'') (None) (Some 128) (Some FB_id_kp),
   Asn1 ''server_auth'' (Some ''serverAuth'') (Some ''TLS Web Server Authentication'') (Some 129) (Some (FB_id_kp @ [1])),
   Asn1 ''client_auth'' (Some ''clientAuth'') (Some ''TLS Web Client Authentication'') (Some 130) (Some (FB_id_kp @ [2])),
   Asn1 ''code_sign'' (Some ''codeSigning'') (Some ''Code Signing'') (Some 131) (Some (FB_id_kp @ [3])),
   Asn1 ''email_protect'' (Some ''emailProtection'') (Some ''E-mail Protection'') (Some 132) (Some (FB_id_kp @ [4])),
   Asn1 ''time_stamp'' (Some ''timeStamping'') (Some ''Time Stamping'') (Some 133) (Some (FB_id_kp @ [8])),
   Asn1 ''ms_code_ind'' (Some ''msCodeInd'') (Some ''Microsoft Individual Code Signing'') (Some 134) (Some ([1, 3, 6, 1, 4, 1, 311, 2, 1, 21])),
   Asn1 ''ms_code_com'' (Some ''msCodeCom'') (Some ''Microsoft Commercial Code Signing'') (Some 135) (Some ([1, 3, 6, 1, 4, 1, 311, 2, 1, 22])),
   Asn1 ''ms_ctl_sign'' (Some ''msCTLSign'') (Some ''Microsoft Trust List Signing'') (Some 136) (Some ([1, 3, 6, 1, 4, 1, 311, 10, 3, 1])),
   Asn1 ''ms_sgc'' (Some ''msSGC'') (Some ''Microsoft Server Gated Crypto'') (Some 137) (Some ([1, 3, 6, 1, 4, 1, 311, 10, 3, 3])),
   Asn1 ''ms_efs'' (Some ''msEFS'') (Some ''Microsoft Encrypted File System'') (Some 138) (Some ([1, 3, 6, 1, 4, 1, 311, 10, 3, 4])),
   Asn1 ''ns_sgc'' (Some ''nsSGC'') (Some ''Netscape Server Gated Crypto'') (Some 139) (Some (FB_netscape @ [4, 1])),
   Asn1 ''delta_crl'' (Some ''deltaCRL'') (Some ''X509v3 Delta CRL Indicator'') (Some 140) (Some (FB_id_ce @ [27])),
   Asn1 ''crl_reason'' (Some ''CRLReason'') (Some ''CRL Reason Code'') (Some 141) (Some (FB_id_ce @ [21])),
   Asn1 ''invalidity_date'' (Some ''invalidityDate'') (Some ''Invalidity Date'') (Some 142) (Some (FB_id_ce @ [24])),
   Asn1 ''sxnet'' (Some ''SXNetID'') (Some ''Strong Extranet ID'') (Some 143) (Some ([1, 3, 101, 1, 4, 1])),
   Asn1 ''pkcs12'' (None) (None) (None) (Some FB_pkcs12),
   Asn1 ''pkcs12_pbeids'' (None) (None) (None) (Some FB_pkcs12_pbeids),
   Asn1 ''pbe_WithSHA1And128BitRC4'' (Some ''PBE-SHA1-RC4-128'') (Some ''pbeWithSHA1And128BitRC4'') (Some 144) (Some (FB_pkcs12_pbeids @ [1])),
   Asn1 ''pbe_WithSHA1And40BitRC4'' (Some ''PBE-SHA1-RC4-40'') (Some ''pbeWithSHA1And40BitRC4'') (Some 145) (Some (FB_pkcs12_pbeids @ [2])),
   Asn1 ''pbe_WithSHA1And3_Key_TripleDES_CBC'' (Some ''PBE-SHA1-3DES'') (Some ''pbeWithSHA1And3-KeyTripleDES-CBC'') (Some 146) (Some (FB_pkcs12_pbeids @ [3])),
   Asn1 ''pbe_WithSHA1And2_Key_TripleDES_CBC'' (Some ''PBE-SHA1-2DES'') (Some ''pbeWithSHA1And2-KeyTripleDES-CBC'') (Some 147) (Some (FB_pkcs12_pbeids @ [4])),
   Asn1 ''pbe_WithSHA1And128BitRC2_CBC'' (Some ''PBE-SHA1-RC2-128'') (Some ''pbeWithSHA1And128BitRC2-CBC'') (Some 148) (Some (FB_pkcs12_pbeids @ [5])),
   Asn1 ''pbe_WithSHA1And40BitRC2_CBC'' (Some ''PBE-SHA1-RC2-40'') (Some ''pbeWithSHA1And40BitRC2-CBC'') (Some 149) (Some (FB_pkcs12_pbeids @ [6])),
   Asn1 ''pkcs12_Version1'' (None) (None) (None) (Some FB_pkcs12_Version1),
   Asn1 ''pkcs12_BagIds'' (None) (None) (None) (Some FB_pkcs12_BagIds)]"

definition objects_06 :: "asn1_object list" where
  "objects_06 = [
   Asn1 ''keyBag'' (None) (Some ''keyBag'') (Some 150) (Some (FB_pkcs12_BagIds @ [1])),
   Asn1 ''pkcs8ShroudedKeyBag'' (None) (Some ''pkcs8ShroudedKeyBag'') (Some 151) (Some (FB_pkcs12_BagIds @ [2])),
   Asn1 ''certBag'' (None) (Some ''certBag'') (Some 152) (Some (FB_pkcs12_BagIds @ [3])),
   Asn1 ''crlBag'' (None) (Some ''crlBag'') (Some 153) (Some (FB_pkcs12_BagIds @ [4])),
   Asn1 ''secretBag'' (None) (Some ''secretBag'') (Some 154) (Some (FB_pkcs12_BagIds @ [5])),
   Asn1 ''safeContentsBag'' (None) (Some ''safeContentsBag'') (Some 155) (Some (FB_pkcs12_BagIds @ [6])),
   Asn1 ''friendlyName'' (None) (Some ''friendlyName'') (Some 156) (Some (FB_pkcs9 @ [20])),
   Asn1 ''localKeyID'' (None) (Some ''localKeyID'') (Some 157) (Some (FB_pkcs9 @ [21])),
   Asn1 ''certTypes'' (None) (None) (None) (Some FB_certTypes),
   Asn1 ''x509Certificate'' (None) (Some ''x509Certificate'') (Some 158) (Some (FB_certTypes @ [1])),
   Asn1 ''sdsiCertificate'' (None) (Some ''sdsiCertificate'') (Some 159) (Some (FB_certTypes @ [2])),
   Asn1 ''crlTypes'' (None) (None) (None) (Some FB_crlTypes),
   Asn1 ''x509Crl'' (None) (Some ''x509Crl'') (Some 160) (Some (FB_crlTypes @ [1])),
   Asn1 ''pbes2'' (None) (Some ''PBES2'') (Some 161) (Some (FB_pkcs @ [5, 13])),
   Asn1 ''pbmac1'' (None) (Some ''PBMAC1'') (Some 162) (Some (FB_pkcs @ [5, 14])),
   Asn1 ''hmacWithSHA1'' (None) (Some ''hmacWithSHA1'') (Some 163) (Some (FB_rsadsi @ [2, 7])),
   Asn1 ''id_qt_cps'' (Some ''id-qt-cps'') (Some ''Policy Qualifier CPS'') (Some 164) (Some (FB_id_pkix @ [2, 1])),
   Asn1 ''id_qt_unotice'' (Some ''id-qt-unotice'') (Some ''Policy Qualifier User Notice'') (Some 165) (Some (FB_id_pkix @ [2, 2])),
   Asn1 ''rc2_64_cbc'' (Some ''RC2-64-CBC'') (Some ''rc2-64-cbc'') (Some 166) (None),
   Asn1 ''SMIMECapabilities'' (Some ''SMIME-CAPS'') (Some ''S/MIME Capabilities'') (Some 167) (Some (FB_pkcs9 @ [15])),
   Asn1 ''pbeWithMD2AndRC2_CBC'' (Some ''PBE-MD2-RC2-64'') (Some ''pbeWithMD2AndRC2-CBC'') (Some 168) (Some (FB_pkcs @ [5, 4])),
   Asn1 ''pbeWithMD5AndRC2_CBC'' (Some ''PBE-MD5-RC2-64'') (Some ''pbeWithMD5AndRC2-CBC'') (Some 169) (Some (FB_pkcs @ [5, 6])),
   Asn1 ''pbeWithSHA1AndDES_CBC'' (Some ''PBE-SHA1-DES'') (Some ''pbeWithSHA1AndDES-CBC'') (Some 170) (Some (FB_pkcs @ [5, 10])),
   Asn1 ''ms_ext_req'' (Some ''msExtReq'') (Some ''Microsoft Extension Request'') (Some 171) (Some ([1, 3, 6, 1, 4, 1, 311, 2, 1, 14])),
   Asn1 ''ext_req'' (Some ''extReq'') (Some ''Extension Request'') (Some 172) (Some (FB_pkcs9 @ [14])),
   Asn1 ''name'' (Some ''name'') (Some ''name'') (Some 173) (Some (FB_X509 @ [41])),
   Asn1 ''dnQualifier'' (Some ''dnQualifier'') (Some ''dnQualifier'') (Some 174) (Some (FB_X509 @ [46])),
   Asn1 ''id_pe'' (Some ''id-pe'') (None) (Some 175) (Some FB_id_pe),
   Asn1 ''id_ad'' (Some ''id-ad'') (None) (Some 176) (Some FB_id_ad),
   Asn1 ''info_access'' (Some ''authorityInfoAccess'') (Some ''Authority Information Access'') (Some 177) (Some (FB_id_pe @ [1])),
   Asn1 ''ad_OCSP'' (Some ''OCSP'') (Some ''OCSP'') (Some 178) (Some (FB_id_ad @ [1])),
   Asn1 ''ad_ca_issuers'' (Some ''caIssuers'') (Some ''CA Issuers'') (Some 179) (Some (FB_id_ad @ [2])),
   Asn1 ''OCSP_sign'' (Some ''OCSPSigning'') (Some ''OCSP Signing'') (Some 180) (Some (FB_id_kp @ [9]))]"

definition objects_fallback :: "asn1_object list" where
  "objects_fallback = objects_01 @ objects_02 @ objects_03 @ objects_04 @ objects_05 @ objects_06"

lemmas objects_table_defs = objects_01_def objects_02_def objects_03_def objects_04_def objects_05_def objects_06_def

end
