(* ===== verification/Obj_Check.thy ===== *)
theory Obj_Check
  imports Objects_Fallback
begin

section \<open>Consistency of the object tables\<close>

text \<open>
  What the users of the object numbers rely on: a number names one object. That 951 numbers are pairwise different is shown without comparing them pairwise: the
  sum of \<open>2 ^ n\<close> over the numbers is computed table by table, and a list whose sum has as many binary
  ones as the list has members has no repetition.
\<close>

subsection \<open>Sums of powers of two\<close>

definition weight :: "nat list \<Rightarrow> nat" where
  "weight xs = sum_list (map (\<lambda>n. 2 ^ n) xs)"

lemma weight_simps [simp]:
  "weight [] = 0" "weight (x # xs) = 2 ^ x + weight xs" "weight (xs @ ys) = weight xs + weight ys"
  by (simp_all add: weight_def)

definition halve :: "nat list \<Rightarrow> nat list" where
  "halve xs = map (\<lambda>n. n - 1) (filter (\<lambda>n. n \<noteq> 0) xs)"

lemma halve_simps [simp]:
  "halve [] = []" "halve (0 # xs) = halve xs" "halve (Suc n # xs) = n # halve xs"
  by (simp_all add: halve_def)

lemma weight_halve: "weight xs = count_list xs 0 + 2 * weight (halve xs)"
proof (induction xs)
  case (Cons x xs)
  then show ?case by (cases x) simp_all
qed simp

lemma length_halve: "length xs = count_list xs 0 + length (halve xs)"
proof (induction xs)
  case (Cons x xs)
  then show ?case by (cases x) simp_all
qed simp

lemma distinct_halve: "count_list xs 0 \<le> 1 \<Longrightarrow> distinct (halve xs) \<Longrightarrow> distinct xs"
proof (induction xs)
  case (Cons x xs)
  show ?case
  proof (cases x)
    case 0
    with Cons show ?thesis by (auto simp: count_list_0_iff)
  next
    case (Suc n)
    have "n \<in> set (halve xs)" if "Suc n \<in> set xs"
      unfolding halve_def using that by force
    with Cons Suc show ?thesis by auto
  qed
qed simp

lemma set_halve: "set (halve xs) = {n. Suc n \<in> set xs}"
proof (induction xs)
  case (Cons x xs)
  then show ?case by (cases x) auto
qed simp

lemma set_eq_halve:
  "(0 \<in> set xs \<longleftrightarrow> 0 \<in> set ys) \<Longrightarrow> set (halve xs) = set (halve ys) \<Longrightarrow> set xs = set ys"
  unfolding set_halve by (rule set_eqI) (metis mem_Collect_eq not0_implies_Suc)

lemma count_distinct: "distinct ys \<Longrightarrow> count_list ys a \<le> 1"
  by (induction ys) (auto simp: count_list_0_iff)

lemma count_halve_replicate:
  "weight (replicate k 0 @ xs) = k + weight xs"
  by (induction k) simp_all

text \<open>The number of terms is at least the number of ones, with equality only when nothing repeats.\<close>

lemma weight_distinct:
  assumes "distinct ys" "weight xs = weight ys"
  shows "length ys \<le> length xs \<and> (length xs = length ys \<longrightarrow> distinct xs \<and> set xs = set ys)"
  using assms
proof (induction "weight xs" arbitrary: xs ys rule: less_induct)
  case less
  let ?z = "count_list xs 0" and ?o = "count_list ys 0"
  show ?case
  proof (cases "weight xs = 0")
    case True
    then have "xs = []" by (cases xs) simp_all
    with less.prems True show ?thesis by (cases ys) simp_all
  next
    case False
    have o: "?o \<le> 1" by (rule count_distinct [OF less.prems(1)])
    have dy: "distinct (halve ys)"
      using less.prems(1) unfolding halve_def by (auto simp: distinct_map inj_on_def)
    have eq: "?z + 2 * weight (halve xs) = ?o + 2 * weight (halve ys)"
      using less.prems(2) weight_halve [of xs] weight_halve [of ys] by simp
    then have zo: "?z mod 2 = ?o" using o by presburger
    let ?xs = "replicate (?z div 2) 0 @ halve xs"
    have w: "weight ?xs = weight (halve ys)"
      using eq zo o unfolding count_halve_replicate by presburger
    have "weight ?xs < weight xs"
      using False weight_halve [of xs] unfolding count_halve_replicate by linarith
    from less.hyps [OF this dy w]
    have IH: "length (halve ys) \<le> length ?xs" "length ?xs = length (halve ys) \<Longrightarrow> distinct ?xs \<and> set ?xs = set (halve ys)"
      by auto
    have len: "length xs = ?z + length (halve xs)" "length ys = ?o + length (halve ys)"
      by (rule length_halve)+
    have le: "length ys \<le> length xs" using IH(1) len zo by simp
    moreover have "distinct xs \<and> set xs = set ys" if "length xs = length ys"
    proof -
      have z: "?z div 2 = 0" and l: "length ?xs = length (halve ys)"
        using that IH(1) len zo o div_mult_mod_eq [of ?z 2] unfolding length_append length_replicate
        by linarith+
      have "?z = ?o" using z zo by presburger
      then have "0 \<in> set xs \<longleftrightarrow> 0 \<in> set ys" by (metis count_list_0_iff)
      moreover have "?z \<le> 1" using z by simp
      ultimately show ?thesis
        using IH(2) [OF l] z distinct_halve [of xs] set_eq_halve [of xs ys] by simp
    qed
    ultimately show ?thesis by blast
  qed
qed

subsection \<open>Numbers\<close>

definition nids :: "asn1_object list \<Rightarrow> nat list" where
  "nids t = map nat (List.map_filter om_nid t)"

lemma nids_append: "nids (a @ b) = nids a @ nids b"
  by (simp add: nids_def List.map_filter_def)

lemma nids_obj_mac_01: "nids obj_mac_01 = [0, 645, 404, 181, 646, 393, 182, 676, 780, 781, 677, 647, 678, 679, 394, 395, 183, 184, 185, 116, 113, 405, 406, 407, 680, 681, 682, 683, 408, 684, 685, 686]"
  by (simp add: nids_def obj_mac_01_def)

lemma weight_obj_mac_01: "weight (nids obj_mac_01) = 19077342318191111395110659954869024303760234483007979314792473067013039513244700678268724869566000558730001287022535170696769055116349822427720065378398161297395053812963933547368465664198323202108870059450950625631473673254860356583425" "length (nids obj_mac_01) = 32"
  by (simp_all add: nids_obj_mac_01)

lemma nids_obj_mac_02: "nids obj_mac_02 = [687, 688, 689, 690, 691, 692, 693, 694, 695, 696, 697, 698, 699, 700, 701, 702, 703, 409, 410, 411, 412, 413, 414, 415, 416, 791, 792, 793, 794, 795, 796, 704, 705, 706, 707, 708]"
  by (simp add: nids_def obj_mac_02_def)

lemma weight_obj_mac_02: "weight (nids obj_mac_02) = 820478338420763318880919266004593707494380375419414186329736349677970754604592250550393279426564844486521280921875166298474989498225976612473738557605314980493121101619919832863163032501486212928441805944841780366931536659845820093476896768" "length (nids obj_mac_02) = 36"
  by (simp_all add: nids_obj_mac_02)

lemma nids_obj_mac_03: "nids obj_mac_03 = [709, 710, 711, 712, 713, 714, 715, 716, 717, 718, 719, 720, 721, 722, 723, 724, 725, 726, 727, 728, 729, 730, 731, 732, 733, 734, 735, 736, 737, 738, 739, 740, 741, 742, 743, 744, 745]"
  by (simp add: nids_def obj_mac_03_def)

lemma weight_obj_mac_03: "weight (nids obj_mac_03) = 370149157593110294178520826929737596485154034057448195336257392865971885910731818916662601191764588896395399739562864719433413519335346508975213458836239558899523542307645492836078267371489504941771551390366897419208886321152" "length (nids obj_mac_03) = 37"
  by (simp_all add: nids_obj_mac_03)

lemma nids_obj_mac_04: "nids obj_mac_04 = [108, 109, 110, 111, 112, 782, 783, 1, 2, 186, 6, 7, 396, 8, 65, 919, 911, 935, 912, 668, 669, 670, 671, 27, 28, 187, 9, 10, 168, 169, 170, 68]"
  by (simp add: nids_def obj_mac_04_def)

lemma weight_obj_mac_04: "weight (nids obj_mac_04) = 290437473526262834103753832298651138554422822296507353429274492908364266405614118673730134648886547638155583836335999447571363080445270486162761411341570861500494756649389494062072356573732750553918846507870386356119568978085065996979467769037822143938242284806187455501087885232070" "length (nids obj_mac_04) = 32"
  by (simp_all add: nids_obj_mac_04)

lemma nids_obj_mac_05: "nids obj_mac_05 = [69, 161, 162, 20, 21, 22, 23, 24, 25, 26, 47, 48, 49, 50, 51, 52, 53, 54, 55, 56, 172, 167, 188, 189, 190, 191, 192, 193, 194, 195, 196, 197, 198, 199, 200, 201, 202]"
  by (simp add: nids_def obj_mac_05_def)

lemma weight_obj_mac_05: "weight (nids obj_mac_05) = 12855112041395612462697676345891937183417085165976467763363840" "length (nids obj_mac_05) = 37"
  by (simp_all add: nids_obj_mac_05)

lemma nids_obj_mac_06: "nids obj_mac_06 = [203, 204, 205, 206, 207, 208, 209, 210, 211, 786, 787, 212, 213, 214, 215, 216, 217, 218, 219, 220, 221, 222, 223, 224, 225, 226, 227, 228, 229, 230, 231, 232, 233, 234, 235, 236, 237]"
  by (simp add: nids_def obj_mac_06_def)

lemma weight_obj_mac_06: "weight (nids obj_mac_06) = 1220949908364231129287082237070542809535783384213117949291306972368903302823052747470965368811930106947557967027606184163675928037253301711492313730285186165666837936143740799103446807151581681142215163200054503351429278917079477652553728" "length (nids obj_mac_06) = 37"
  by (simp_all add: nids_obj_mac_06)

lemma nids_obj_mac_07: "nids obj_mac_07 = [238, 239, 240, 241, 242, 243, 244, 245, 246, 247, 893, 248, 249, 250, 251, 252, 253, 254, 255, 256, 156, 157, 417, 856, 158, 159, 160, 144, 145, 146, 147, 148, 149]"
  by (simp add: nids_def obj_mac_07_def)

lemma weight_obj_mac_07: "weight (nids obj_mac_07) = 66036816392438636871085973929282729907368508193639142879982256854681623380599415854309787815265782739543440582531448542088114594545463384358961054337276201218855952810755890822909649617700527289588944922964254002489936491910579202116548855651819749365145280456479997952" "length (nids obj_mac_07) = 33"
  by (simp_all add: nids_obj_mac_07)

lemma nids_obj_mac_08: "nids obj_mac_08 = [150, 151, 152, 153, 154, 155, 3, 257, 4, 114, 797, 163, 798, 799, 800, 801, 37, 38, 39, 40, 98, 166, 5, 97, 44, 120, 121, 122, 123, 171, 134, 135, 136, 137]"
  by (simp add: nids_def obj_mac_08_def)

lemma weight_obj_mac_08: "weight (nids obj_mac_08) = 25838555927409435312059425689044873963935938498974144121535499020585644296543324277145549778377272876628853403549553806727819106409712539686408004702781966428618735852200984888676819205050252461673943216912223411979198879484989575100662546488" "length (nids obj_mac_08) = 34"
  by (simp_all add: nids_obj_mac_08)

lemma nids_obj_mac_09: "nids obj_mac_09 = [138, 648, 649, 34, 36, 35, 46, 91, 92, 93, 94, 127, 258, 175, 259, 128, 260, 261, 262, 263, 264, 265, 266, 267, 268, 662, 176, 269, 270, 271, 272, 273, 274, 275, 276, 277]"
  by (simp add: nids_def obj_mac_09_def)

lemma weight_obj_mac_09: "weight (nids obj_mac_09) = 19139766886649577740255457050268332528902485900360230805094714314448748074252440661164132669198787872812188550907518323132425373968228366517988210511213074445961394937148109429443022779112800361906176" "length (nids obj_mac_09) = 36"
  by (simp_all add: nids_obj_mac_09)

lemma nids_obj_mac_10: "nids obj_mac_10 = [278, 279, 280, 281, 282, 283, 284, 177, 285, 286, 287, 288, 289, 290, 291, 292, 397, 398, 663, 164, 165, 293, 129, 130, 131, 132, 294, 295, 296, 133, 180, 297, 298]"
  by (simp add: nids_def obj_mac_10_def)

lemma weight_obj_mac_10: "weight (nids obj_mac_10) = 38272525864510487788655081260950309410329935801733327822136058989190002861848049762206296538910113384124006609375501010061394051596140196032117339880905751816728483441456585818962745113045706825793536" "length (nids obj_mac_10) = 33"
  by (simp_all add: nids_obj_mac_10)

lemma nids_obj_mac_11: "nids obj_mac_11 = [299, 300, 301, 302, 303, 304, 305, 306, 307, 308, 309, 310, 311, 312, 784, 313, 314, 315, 316, 317, 318, 319, 320, 321, 322, 323, 324, 325, 326, 327, 328, 329, 330, 331, 332, 333, 334]"
  by (simp add: nids_def obj_mac_11_def)

lemma weight_obj_mac_11: "weight (nids obj_mac_11) = 101745825697019260773923519755878567461315282017759829107608914364075275235254395622580447400994175578963163918967182013639660669771108545949716002894962438891731385938163266506874893816216204471759715715585152198897406882165000813674496" "length (nids obj_mac_11) = 37"
  by (simp_all add: nids_obj_mac_11)

lemma nids_obj_mac_12: "nids obj_mac_12 = [335, 336, 337, 338, 339, 340, 341, 342, 343, 344, 345, 346, 347, 858, 348, 349, 351, 352, 353, 354, 355, 356, 357, 358, 399, 359, 360, 361, 362, 664, 665, 667, 178, 179, 363]"
  by (simp add: nids_def obj_mac_12_def)

lemma weight_obj_mac_12: "weight (nids obj_mac_12) = 1921924308174003258872616370050369756495810455948672905390384239604252910761873729022277917643592092084867962123371591728272948873534031349767035960819871033343297972925446368057121211656117313439791244456960446071410130975778359624926938753715359553593278464" "length (nids obj_mac_12) = 35"
  by (simp_all add: nids_obj_mac_12)

lemma nids_obj_mac_13: "nids obj_mac_13 = [364, 785, 365, 366, 367, 368, 369, 370, 371, 372, 373, 374, 375, 376, 104, 29, 31, 45, 30, 377, 67, 66, 42, 32, 33, 43, 60, 61, 62, 63, 80]"
  by (simp add: nids_def obj_mac_13_def)

lemma weight_obj_mac_13: "weight (nids obj_mac_13) = 203491651394038521547847039511757134922630564035519658215217828728150550470508791245160894801988351157926327837934364027279936958312354291271745835484072889614118255532185078891353132286090666247472113912407339893978446018250158584627200" "length (nids obj_mac_13) = 31"
  by (simp_all add: nids_obj_mac_13)

lemma nids_obj_mac_14: "nids obj_mac_14 = [41, 64, 70, 115, 117, 119, 143, 11, 12, 13, 100, 105, 14, 15, 16, 660, 17, 18, 106, 107, 859, 860, 861, 661, 862, 863, 864, 865, 866, 867, 868, 869, 870]"
  by (simp add: nids_def obj_mac_14_def)

lemma weight_obj_mac_14: "weight (nids obj_mac_14) = 15740560083945086690166728070712528305700687634219631095140350993000761038641418888896513591607832015216038224433418794446905317504847008505357847093769586874517791737849905190071056184149735563049476203974739150067336567186591730479307690626293080229435530541056" "length (nids obj_mac_14) = 33"
  by (simp_all add: nids_obj_mac_14)

lemma nids_obj_mac_15: "nids obj_mac_15 = [871, 872, 873, 874, 875, 876, 877, 878, 879, 880, 881, 882, 883, 884, 173, 99, 101, 509, 503, 174, 885, 886, 887, 888, 889, 890, 891, 892, 510, 400, 378, 19, 96, 95, 81]"
  by (simp add: nids_def obj_mac_15_def)

lemma weight_obj_mac_15: "weight (nids obj_mac_15) = 66036800647554223232607776430091272362226870540835935134466647677204174682956300624255142200629955713695183364850387697731961693836664896304127213233969456820920295212596859421470271712543808219619838758732003041204584242048541900409682616564430925333580300419995271168" "length (nids obj_mac_15) = 35"
  by (simp_all add: nids_obj_mac_15)

lemma nids_obj_mac_16: "nids obj_mac_16 = [769, 82, 83, 84, 85, 86, 87, 88, 141, 142, 140, 770, 771, 666, 103, 89, 746, 747, 90, 401, 126, 857, 748, 402, 403, 910, 57, 58, 59, 71]"
  by (simp add: nids_def obj_mac_16_def)

lemma weight_obj_mac_16: "weight (nids obj_mac_16) = 8655577598126740357198889123073837517513001350216576520477998941128637184761614033449152192406370050336192665853092885620129814000460927007917373135978912546144058709939985116977599284462448126056739447760965651602930705935473275403434576108791738203193760221393757201760256" "length (nids obj_mac_16) = 30"
  by (simp_all add: nids_obj_mac_16)

lemma nids_obj_mac_17: "nids obj_mac_17 = [72, 73, 74, 75, 76, 77, 78, 79, 139, 379, 380, 381, 382, 383, 384, 385, 386, 387, 388, 389, 390, 504, 505, 506, 507, 508, 124, 125]"
  by (simp add: nids_def obj_mac_17_def)

lemma weight_obj_mac_17: "weight (nids obj_mac_17) = 1623601741516486367526542089626489184541679935282216147280045931390935442135516463989477094082656633521409503274250427740389023701902297395815039601999872" "length (nids obj_mac_17) = 28"
  by (simp_all add: nids_obj_mac_17)

lemma nids_obj_mac_18: "nids obj_mac_18 = [418, 419, 420, 421, 788, 895, 896, 897, 422, 423, 424, 425, 789, 898, 899, 900, 426, 427, 428, 429, 790, 901, 902, 903, 650, 651, 652, 653, 654, 655, 904, 905, 906]"
  by (simp add: nids_def obj_mac_18_def)

lemma weight_obj_mac_18: "weight (nids obj_mac_18) = 1081683052500274591906415709616567763242872378125116023236433764390514371152500067932094234540121480253403587291137792656481334637670938349109558294306993315693831210223241348497738262765554720478799535082919002709877444041179760159061305477820561863903161392335428301881344" "length (nids obj_mac_18) = 33"
  by (simp_all add: nids_obj_mac_18)

lemma nids_obj_mac_19: "nids obj_mac_19 = [913, 914, 656, 657, 658, 659, 672, 673, 674, 675, 802, 803, 430, 431, 432, 433, 434, 435, 436, 437, 438, 439, 440, 441, 442, 443, 444, 445, 446, 447, 448, 449, 392, 450]"
  by (simp add: nids_def obj_mac_19_def)

lemma weight_obj_mac_19: "weight (nids obj_mac_19) = 207733862355041745509681640865733073965088264712870849403289686815726171298782473835055673985873507065072784598971383364445534934967986517772267445629251315435633973301670596152847202182750981592364860259528336266878625721152090861696448280450675384509530367824668064521125888" "length (nids obj_mac_19) = 34"
  by (simp_all add: nids_obj_mac_19)

lemma nids_obj_mac_20: "nids obj_mac_20 = [451, 452, 453, 454, 455, 456, 457, 458, 459, 460, 461, 462, 463, 464, 465, 466, 467, 468, 469, 470, 471, 472, 473, 474, 475, 476, 477, 391, 478, 479, 480, 481, 482, 483, 484, 485, 486]"
  by (simp add: nids_def obj_mac_20_def)

lemma weight_obj_mac_20: "weight (nids obj_mac_20) = 399583814434632295822479590294174153465855019325458893557291928916845867602104462243989379361260896289499381617314973638392480665503872088935497728" "length (nids obj_mac_20) = 37"
  by (simp_all add: nids_obj_mac_20)

lemma nids_obj_mac_21: "nids obj_mac_21 = [487, 488, 489, 490, 491, 492, 493, 494, 495, 496, 497, 498, 499, 500, 501, 502, 512, 513, 514, 515, 516, 517, 518, 519, 520, 521, 522, 523, 524, 525, 526, 527, 528, 529, 530, 531]"
  by (simp add: nids_def obj_mac_21_def)

lemma weight_obj_mac_21: "weight (nids obj_mac_21) = 14059092226326284033040527775593595833297055707773669433828740640409569690512607844854852851267146101116116285932679625947272005695544309607777859032663646535680" "length (nids obj_mac_21) = 36"
  by (simp_all add: nids_obj_mac_21)

lemma nids_obj_mac_22: "nids obj_mac_22 = [532, 533, 534, 535, 536, 537, 538, 539, 540, 541, 542, 543, 544, 545, 546, 547, 548, 549, 550, 551, 552, 553, 554, 555, 556, 557, 558, 559, 560, 561, 562, 563, 564, 565, 566, 567, 568]"
  by (simp add: nids_def obj_mac_22_def)

lemma weight_obj_mac_22: "weight (nids obj_mac_22) = 1932268761494570066739728456769710739312944971544249695833924136247319709980368219828498483696214286837157149087157585742952786533261467996448034650205388764408286770364416" "length (nids obj_mac_22) = 37"
  by (simp_all add: nids_obj_mac_22)

lemma nids_obj_mac_23: "nids obj_mac_23 = [569, 570, 571, 572, 573, 574, 575, 576, 577, 578, 579, 580, 581, 582, 583, 584, 585, 586, 587, 588, 589, 590, 591, 592, 593, 594, 595, 596, 597, 598, 599, 600, 601, 602, 603, 604, 605]"
  by (simp add: nids_def obj_mac_23_def)

lemma weight_obj_mac_23: "weight (nids obj_mac_23) = 265568996406451280583285474103886637719330565191366497934868851600873162304700361798436470920346545951153703454142018699657538580237671080374238495555422221635182095043348119108452352" "length (nids obj_mac_23) = 37"
  by (simp_all add: nids_obj_mac_23)

lemma nids_obj_mac_24: "nids obj_mac_24 = [606, 607, 608, 609, 610, 611, 612, 613, 614, 615, 616, 617, 618, 619, 620, 621, 622, 623, 624, 625, 626, 627, 628, 629, 630, 631, 632, 633, 634, 635, 636, 637, 638, 639, 640]"
  by (simp add: nids_def obj_mac_24_def)

lemma weight_obj_mac_24: "weight (nids obj_mac_24) = 9124881234978821440873959662055788546510222700832323302294869074198828265317152993081399501265161548424669976312744149878254158935077586327678969019739668387120695672748614264748051774977343488" "length (nids obj_mac_24) = 35"
  by (simp_all add: nids_obj_mac_24)

lemma nids_obj_mac_25: "nids obj_mac_25 = [641, 642, 643, 644, 749, 750, 804, 805, 806, 807, 808, 809, 810, 811, 812, 813, 814, 815, 816, 817, 818, 819, 820, 821, 822, 823, 824, 825, 826, 827, 828, 829, 830, 831, 832]"
  by (simp add: nids_def obj_mac_25_def)

lemma weight_obj_mac_25: "weight (nids obj_mac_25) = 57277807730261691482759908365651830629186963832751431872644841381338507300079711229048053295893275986603541876373454390673708040664786886716077582843479007702990736061025329091494032219525295385590251997096460800752518175137022065768769957664277921792" "length (nids obj_mac_25) = 35"
  by (simp_all add: nids_obj_mac_25)

lemma nids_obj_mac_26: "nids obj_mac_26 = [833, 834, 835, 836, 837, 838, 839, 840, 841, 842, 843, 844, 845, 846, 847, 848, 849, 850, 851, 852, 853, 854, 751, 752, 753, 907, 908, 909, 754, 766, 757, 755, 767]"
  by (simp add: nids_def obj_mac_26_def)

lemma weight_obj_mac_26: "weight (nids obj_mac_26) = 7573630398360897211947624400505752480208833850296013018148714227077527572580798398842337525815314055174408998125007666848732987693568115142255972124420350933313767451362493335951162990978387258068961909352253657001675984358034120492418230285631471405299792614334748084404224" "length (nids obj_mac_26) = 33"
  by (simp_all add: nids_obj_mac_26)

lemma nids_obj_mac_27: "nids obj_mac_27 = [758, 756, 768, 759, 760, 761, 762, 763, 764, 765, 773, 776, 777, 779, 778, 855, 894, 915, 916, 917, 918, 948, 949, 950, 920, 921, 922, 923, 924, 925, 926, 927, 928, 929, 930]"
  by (simp add: nids_def obj_mac_27_def)

lemma weight_obj_mac_27: "weight (nids obj_mac_27) = 16654607522304407288718764828544008909356851613695427911374310859004008005313202355165027173220428364972206630597605752776943656356654769012394644300030665255840196556682734709219883093260458791773941997285864004865043364198195849462860286008776571458991652059708028910611713375265095680" "length (nids obj_mac_27) = 35"
  by (simp_all add: nids_obj_mac_27)

lemma nids_obj_mac_28: "nids obj_mac_28 = [931, 932, 933, 934, 936, 937, 938, 939, 940, 941, 942, 943, 944, 945, 946, 947, 951, 952, 953, 954, 955, 956, 957]"
  by (simp add: nids_def obj_mac_28_def)

lemma weight_obj_mac_28: "weight (nids obj_mac_28) = 2419673604889996791651315065946275167174230127588611143637541667377804785146459169888626222804916287084774682245709812958630586637332540999072256215367181296540009156574833664804126032311996142876396691129162274491166168928842819085357904507665487971651962842411794587246067816362605019136" "length (nids obj_mac_28) = 23"
  by (simp_all add: nids_obj_mac_28)

lemmas nids_weights = weight_obj_mac_01 weight_obj_mac_02 weight_obj_mac_03 weight_obj_mac_04 weight_obj_mac_05 weight_obj_mac_06 weight_obj_mac_07 weight_obj_mac_08 weight_obj_mac_09 weight_obj_mac_10 weight_obj_mac_11 weight_obj_mac_12 weight_obj_mac_13 weight_obj_mac_14 weight_obj_mac_15 weight_obj_mac_16 weight_obj_mac_17 weight_obj_mac_18 weight_obj_mac_19 weight_obj_mac_20 weight_obj_mac_21 weight_obj_mac_22 weight_obj_mac_23 weight_obj_mac_24 weight_obj_mac_25 weight_obj_mac_26 weight_obj_mac_27 weight_obj_mac_28


lemma weight_upt: "a \<le> b \<Longrightarrow> weight [a..<b] + 2 ^ a = 2 ^ b"
proof (induction b)
  case (Suc b)
  then show ?case by (cases "a = Suc b") (simp_all del: upt_Suc add: upt_Suc_append)
qed simp

definition nid_spec :: "nat list" where
  "nid_spec = [0..<102] @ [103..<118] @ [119..<350] @ [351..<511] @ [512..<772] @ [773..<774] @ [776..<958]"

lemma weight_spec: "weight nid_spec + (2 ^ 102 + 2 ^ 118 + 2 ^ 350 + 2 ^ 511 + 2 ^ 772 + 2 ^ 774 + 2 ^ 775) + 1 = 2 ^ 958"
proof -
  have u: "weight [0..<102] + 2 ^ 0 = 2 ^ 102" "weight [103..<118] + 2 ^ 103 = 2 ^ 118"
    "weight [119..<350] + 2 ^ 119 = 2 ^ 350" "weight [351..<511] + 2 ^ 351 = 2 ^ 511"
    "weight [512..<772] + 2 ^ 512 = 2 ^ 772" "weight [773..<774] + 2 ^ 773 = 2 ^ 774"
    "weight [776..<958] + 2 ^ 776 = 2 ^ 958"
    by (rule weight_upt, simp)+
  have p: "(2::nat) ^ 103 = 2 ^ 102 + 2 ^ 102" "(2::nat) ^ 119 = 2 ^ 118 + 2 ^ 118"
    "(2::nat) ^ 351 = 2 ^ 350 + 2 ^ 350" "(2::nat) ^ 512 = 2 ^ 511 + 2 ^ 511"
    "(2::nat) ^ 773 = 2 ^ 772 + 2 ^ 772" "(2::nat) ^ 776 = 2 ^ 775 + 2 ^ 774 + 2 ^ 774" "(2::nat) ^ 0 = 1"
    by simp_all
  show ?thesis
    unfolding nid_spec_def weight_simps using u [unfolded p] by linarith
qed

lemma nids_weight: "weight (nids obj_mac) + (2 ^ 102 + 2 ^ 118 + 2 ^ 350 + 2 ^ 511 + 2 ^ 772 + 2 ^ 774 + 2 ^ 775) + 1 = 2 ^ 958"
  unfolding obj_mac_def nids_append weight_simps nids_weights by simp


lemma nid_spec_set: "set nid_spec = {0..957} - {102, 118, 350, 511, 772, 774, 775}"
  unfolding nid_spec_def set_append set_upt by auto

lemma nid_spec_distinct: "distinct nid_spec"
  unfolding nid_spec_def distinct_append set_append set_upt distinct_upt by auto

lemma nid_lengths: "length (nids obj_mac) = 951" "length nid_spec = 951"
  unfolding obj_mac_def nids_append length_append nids_weights nid_spec_def length_upt by simp_all

subsection \<open>Properties\<close>

text \<open>
  C36. The object numbers of the table are all different, and they are the numbers from 0 to 957
  except seven: no two objects of the header share a number.
\<close>

theorem nids_unique:
  "distinct (nids obj_mac) \<and> set (nids obj_mac) = {0..957} - {102, 118, 350, 511, 772, 774, 775}"
proof -
  have "weight (nids obj_mac) = weight nid_spec"
    using nids_weight weight_spec by linarith
  from weight_distinct [OF nid_spec_distinct this] show ?thesis
    by (simp only: nid_lengths nid_spec_set simp_thms)
qed

text \<open>
  The fallback table does not have unique numbers: \<open>algorithm\<close> and \<open>rc2_ecb\<close> are both 38 there,
  while the main table numbers \<open>algorithm\<close> 376.
\<close>

theorem fallback_number_clash:
  "\<exists>a \<in> set objects_fallback. \<exists>b \<in> set objects_fallback. om_macro a = ''algorithm'' \<and>
     om_macro b = ''rc2_ecb'' \<and> om_nid a = Some 38 \<and> om_nid b = Some 38"
proof -
  have "\<exists>a \<in> set objects_01. om_macro a = ''algorithm'' \<and> om_nid a = Some 38"
    by (simp add: objects_01_def)
  moreover have "\<exists>b \<in> set objects_02. om_macro b = ''rc2_ecb'' \<and> om_nid b = Some 38"
    by (simp add: objects_02_def)
  ultimately show ?thesis
    unfolding objects_fallback_def set_append by blast
qed

end
