(* ===== verification/Err.thy ===== *)
theory Err
  imports Prelude
begin

section \<open>Error codes of OpenSSL\<close>

text \<open>
  \<^verbatim>\<open>Library/iphoneos/include/openssl/err.h\<close>: an error is an \<open>unsigned long\<close> (64 bits on the device) that
  packs a library, a function and a reason; the macros that pack and unpack it, the library numbers and
  the reasons that all libraries share.
\<close>

unbundle bit_operations_syntax

subsection \<open>Library numbers and shared reasons\<close>

definition ERR_LIB_NONE :: "64 word" where "ERR_LIB_NONE = 1"
definition ERR_LIB_SYS :: "64 word" where "ERR_LIB_SYS = 2"
definition ERR_LIB_BN :: "64 word" where "ERR_LIB_BN = 3"
definition ERR_LIB_RSA :: "64 word" where "ERR_LIB_RSA = 4"
definition ERR_LIB_DH :: "64 word" where "ERR_LIB_DH = 5"
definition ERR_LIB_EVP :: "64 word" where "ERR_LIB_EVP = 6"
definition ERR_LIB_BUF :: "64 word" where "ERR_LIB_BUF = 7"
definition ERR_LIB_OBJ :: "64 word" where "ERR_LIB_OBJ = 8"
definition ERR_LIB_PEM :: "64 word" where "ERR_LIB_PEM = 9"
definition ERR_LIB_DSA :: "64 word" where "ERR_LIB_DSA = 10"
definition ERR_LIB_X509 :: "64 word" where "ERR_LIB_X509 = 11"
definition ERR_LIB_ASN1 :: "64 word" where "ERR_LIB_ASN1 = 13"
definition ERR_LIB_CONF :: "64 word" where "ERR_LIB_CONF = 14"
definition ERR_LIB_CRYPTO :: "64 word" where "ERR_LIB_CRYPTO = 15"
definition ERR_LIB_EC :: "64 word" where "ERR_LIB_EC = 16"
definition ERR_LIB_SSL :: "64 word" where "ERR_LIB_SSL = 20"
definition ERR_LIB_BIO :: "64 word" where "ERR_LIB_BIO = 32"
definition ERR_LIB_PKCS7 :: "64 word" where "ERR_LIB_PKCS7 = 33"
definition ERR_LIB_X509V3 :: "64 word" where "ERR_LIB_X509V3 = 34"
definition ERR_LIB_PKCS12 :: "64 word" where "ERR_LIB_PKCS12 = 35"
definition ERR_LIB_RAND :: "64 word" where "ERR_LIB_RAND = 36"
definition ERR_LIB_DSO :: "64 word" where "ERR_LIB_DSO = 37"
definition ERR_LIB_ENGINE :: "64 word" where "ERR_LIB_ENGINE = 38"
definition ERR_LIB_OCSP :: "64 word" where "ERR_LIB_OCSP = 39"
definition ERR_LIB_UI :: "64 word" where "ERR_LIB_UI = 40"
definition ERR_LIB_COMP :: "64 word" where "ERR_LIB_COMP = 41"
definition ERR_LIB_ECDSA :: "64 word" where "ERR_LIB_ECDSA = 42"
definition ERR_LIB_ECDH :: "64 word" where "ERR_LIB_ECDH = 43"
definition ERR_LIB_STORE :: "64 word" where "ERR_LIB_STORE = 44"
definition ERR_LIB_FIPS :: "64 word" where "ERR_LIB_FIPS = 45"
definition ERR_LIB_CMS :: "64 word" where "ERR_LIB_CMS = 46"
definition ERR_LIB_TS :: "64 word" where "ERR_LIB_TS = 47"
definition ERR_LIB_HMAC :: "64 word" where "ERR_LIB_HMAC = 48"
definition ERR_LIB_JPAKE :: "64 word" where "ERR_LIB_JPAKE = 49"
definition ERR_LIB_USER :: "64 word" where "ERR_LIB_USER = 128"

definition ERR_R_FATAL :: "64 word" where "ERR_R_FATAL = 64"
definition ERR_R_SYS_LIB :: "64 word" where "ERR_R_SYS_LIB = ERR_LIB_SYS"
definition ERR_R_BN_LIB :: "64 word" where "ERR_R_BN_LIB = ERR_LIB_BN"
definition ERR_R_RSA_LIB :: "64 word" where "ERR_R_RSA_LIB = ERR_LIB_RSA"
definition ERR_R_DH_LIB :: "64 word" where "ERR_R_DH_LIB = ERR_LIB_DH"
definition ERR_R_EVP_LIB :: "64 word" where "ERR_R_EVP_LIB = ERR_LIB_EVP"
definition ERR_R_BUF_LIB :: "64 word" where "ERR_R_BUF_LIB = ERR_LIB_BUF"
definition ERR_R_OBJ_LIB :: "64 word" where "ERR_R_OBJ_LIB = ERR_LIB_OBJ"
definition ERR_R_PEM_LIB :: "64 word" where "ERR_R_PEM_LIB = ERR_LIB_PEM"
definition ERR_R_DSA_LIB :: "64 word" where "ERR_R_DSA_LIB = ERR_LIB_DSA"
definition ERR_R_X509_LIB :: "64 word" where "ERR_R_X509_LIB = ERR_LIB_X509"
definition ERR_R_ASN1_LIB :: "64 word" where "ERR_R_ASN1_LIB = ERR_LIB_ASN1"
definition ERR_R_CONF_LIB :: "64 word" where "ERR_R_CONF_LIB = ERR_LIB_CONF"
definition ERR_R_CRYPTO_LIB :: "64 word" where "ERR_R_CRYPTO_LIB = ERR_LIB_CRYPTO"
definition ERR_R_EC_LIB :: "64 word" where "ERR_R_EC_LIB = ERR_LIB_EC"
definition ERR_R_SSL_LIB :: "64 word" where "ERR_R_SSL_LIB = ERR_LIB_SSL"
definition ERR_R_BIO_LIB :: "64 word" where "ERR_R_BIO_LIB = ERR_LIB_BIO"
definition ERR_R_PKCS7_LIB :: "64 word" where "ERR_R_PKCS7_LIB = ERR_LIB_PKCS7"
definition ERR_R_X509V3_LIB :: "64 word" where "ERR_R_X509V3_LIB = ERR_LIB_X509V3"
definition ERR_R_PKCS12_LIB :: "64 word" where "ERR_R_PKCS12_LIB = ERR_LIB_PKCS12"
definition ERR_R_RAND_LIB :: "64 word" where "ERR_R_RAND_LIB = ERR_LIB_RAND"
definition ERR_R_DSO_LIB :: "64 word" where "ERR_R_DSO_LIB = ERR_LIB_DSO"
definition ERR_R_ENGINE_LIB :: "64 word" where "ERR_R_ENGINE_LIB = ERR_LIB_ENGINE"
definition ERR_R_OCSP_LIB :: "64 word" where "ERR_R_OCSP_LIB = ERR_LIB_OCSP"
definition ERR_R_UI_LIB :: "64 word" where "ERR_R_UI_LIB = ERR_LIB_UI"
definition ERR_R_COMP_LIB :: "64 word" where "ERR_R_COMP_LIB = ERR_LIB_COMP"
definition ERR_R_ECDSA_LIB :: "64 word" where "ERR_R_ECDSA_LIB = ERR_LIB_ECDSA"
definition ERR_R_ECDH_LIB :: "64 word" where "ERR_R_ECDH_LIB = ERR_LIB_ECDH"
definition ERR_R_STORE_LIB :: "64 word" where "ERR_R_STORE_LIB = ERR_LIB_STORE"
definition ERR_R_TS_LIB :: "64 word" where "ERR_R_TS_LIB = ERR_LIB_TS"
definition ERR_R_NESTED_ASN1_ERROR :: "64 word" where "ERR_R_NESTED_ASN1_ERROR = 58"
definition ERR_R_BAD_ASN1_OBJECT_HEADER :: "64 word" where "ERR_R_BAD_ASN1_OBJECT_HEADER = 59"
definition ERR_R_BAD_GET_ASN1_OBJECT_CALL :: "64 word" where "ERR_R_BAD_GET_ASN1_OBJECT_CALL = 60"
definition ERR_R_EXPECTING_AN_ASN1_SEQUENCE :: "64 word" where "ERR_R_EXPECTING_AN_ASN1_SEQUENCE = 61"
definition ERR_R_ASN1_LENGTH_MISMATCH :: "64 word" where "ERR_R_ASN1_LENGTH_MISMATCH = 62"
definition ERR_R_MISSING_ASN1_EOS :: "64 word" where "ERR_R_MISSING_ASN1_EOS = 63"
definition ERR_R_MALLOC_FAILURE :: "64 word" where "ERR_R_MALLOC_FAILURE = 1 OR ERR_R_FATAL"
definition ERR_R_SHOULD_NOT_HAVE_BEEN_CALLED :: "64 word" where "ERR_R_SHOULD_NOT_HAVE_BEEN_CALLED = 2 OR ERR_R_FATAL"
definition ERR_R_PASSED_NULL_PARAMETER :: "64 word" where "ERR_R_PASSED_NULL_PARAMETER = 3 OR ERR_R_FATAL"
definition ERR_R_INTERNAL_ERROR :: "64 word" where "ERR_R_INTERNAL_ERROR = 4 OR ERR_R_FATAL"
definition ERR_R_DISABLED :: "64 word" where "ERR_R_DISABLED = 5 OR ERR_R_FATAL"

definition ERR_LIBS :: "64 word list" where
  "ERR_LIBS = [ERR_LIB_NONE, ERR_LIB_SYS, ERR_LIB_BN, ERR_LIB_RSA, ERR_LIB_DH, ERR_LIB_EVP, ERR_LIB_BUF, ERR_LIB_OBJ, ERR_LIB_PEM, ERR_LIB_DSA, ERR_LIB_X509, ERR_LIB_ASN1, ERR_LIB_CONF, ERR_LIB_CRYPTO, ERR_LIB_EC, ERR_LIB_SSL, ERR_LIB_BIO, ERR_LIB_PKCS7, ERR_LIB_X509V3, ERR_LIB_PKCS12, ERR_LIB_RAND, ERR_LIB_DSO, ERR_LIB_ENGINE, ERR_LIB_OCSP, ERR_LIB_UI, ERR_LIB_COMP, ERR_LIB_ECDSA, ERR_LIB_ECDH, ERR_LIB_STORE, ERR_LIB_FIPS, ERR_LIB_CMS, ERR_LIB_TS, ERR_LIB_HMAC, ERR_LIB_JPAKE, ERR_LIB_USER]"

definition ERR_REASONS :: "64 word list" where
  "ERR_REASONS = [ERR_R_SYS_LIB, ERR_R_BN_LIB, ERR_R_RSA_LIB, ERR_R_DH_LIB, ERR_R_EVP_LIB, ERR_R_BUF_LIB, ERR_R_OBJ_LIB, ERR_R_PEM_LIB, ERR_R_DSA_LIB, ERR_R_X509_LIB, ERR_R_ASN1_LIB, ERR_R_CONF_LIB, ERR_R_CRYPTO_LIB, ERR_R_EC_LIB, ERR_R_SSL_LIB, ERR_R_BIO_LIB, ERR_R_PKCS7_LIB, ERR_R_X509V3_LIB, ERR_R_PKCS12_LIB, ERR_R_RAND_LIB, ERR_R_DSO_LIB, ERR_R_ENGINE_LIB, ERR_R_OCSP_LIB, ERR_R_UI_LIB, ERR_R_COMP_LIB, ERR_R_ECDSA_LIB, ERR_R_ECDH_LIB, ERR_R_STORE_LIB, ERR_R_TS_LIB, ERR_R_NESTED_ASN1_ERROR, ERR_R_BAD_ASN1_OBJECT_HEADER, ERR_R_BAD_GET_ASN1_OBJECT_CALL, ERR_R_EXPECTING_AN_ASN1_SEQUENCE, ERR_R_ASN1_LENGTH_MISMATCH, ERR_R_MISSING_ASN1_EOS]"

definition ERR_FATAL_REASONS :: "64 word list" where
  "ERR_FATAL_REASONS = [ERR_R_MALLOC_FAILURE, ERR_R_SHOULD_NOT_HAVE_BEEN_CALLED, ERR_R_PASSED_NULL_PARAMETER, ERR_R_INTERNAL_ERROR, ERR_R_DISABLED]"

lemmas ERR_defs = ERR_LIBS_def ERR_REASONS_def ERR_FATAL_REASONS_def
  ERR_LIB_NONE_def
  ERR_LIB_SYS_def
  ERR_LIB_BN_def
  ERR_LIB_RSA_def
  ERR_LIB_DH_def
  ERR_LIB_EVP_def
  ERR_LIB_BUF_def
  ERR_LIB_OBJ_def
  ERR_LIB_PEM_def
  ERR_LIB_DSA_def
  ERR_LIB_X509_def
  ERR_LIB_ASN1_def
  ERR_LIB_CONF_def
  ERR_LIB_CRYPTO_def
  ERR_LIB_EC_def
  ERR_LIB_SSL_def
  ERR_LIB_BIO_def
  ERR_LIB_PKCS7_def
  ERR_LIB_X509V3_def
  ERR_LIB_PKCS12_def
  ERR_LIB_RAND_def
  ERR_LIB_DSO_def
  ERR_LIB_ENGINE_def
  ERR_LIB_OCSP_def
  ERR_LIB_UI_def
  ERR_LIB_COMP_def
  ERR_LIB_ECDSA_def
  ERR_LIB_ECDH_def
  ERR_LIB_STORE_def
  ERR_LIB_FIPS_def
  ERR_LIB_CMS_def
  ERR_LIB_TS_def
  ERR_LIB_HMAC_def
  ERR_LIB_JPAKE_def
  ERR_LIB_USER_def
  ERR_R_SYS_LIB_def
  ERR_R_BN_LIB_def
  ERR_R_RSA_LIB_def
  ERR_R_DH_LIB_def
  ERR_R_EVP_LIB_def
  ERR_R_BUF_LIB_def
  ERR_R_OBJ_LIB_def
  ERR_R_PEM_LIB_def
  ERR_R_DSA_LIB_def
  ERR_R_X509_LIB_def
  ERR_R_ASN1_LIB_def
  ERR_R_CONF_LIB_def
  ERR_R_CRYPTO_LIB_def
  ERR_R_EC_LIB_def
  ERR_R_SSL_LIB_def
  ERR_R_BIO_LIB_def
  ERR_R_PKCS7_LIB_def
  ERR_R_X509V3_LIB_def
  ERR_R_PKCS12_LIB_def
  ERR_R_RAND_LIB_def
  ERR_R_DSO_LIB_def
  ERR_R_ENGINE_LIB_def
  ERR_R_OCSP_LIB_def
  ERR_R_UI_LIB_def
  ERR_R_COMP_LIB_def
  ERR_R_ECDSA_LIB_def
  ERR_R_ECDH_LIB_def
  ERR_R_STORE_LIB_def
  ERR_R_TS_LIB_def
  ERR_R_NESTED_ASN1_ERROR_def
  ERR_R_BAD_ASN1_OBJECT_HEADER_def
  ERR_R_BAD_GET_ASN1_OBJECT_CALL_def
  ERR_R_EXPECTING_AN_ASN1_SEQUENCE_def
  ERR_R_ASN1_LENGTH_MISMATCH_def
  ERR_R_MISSING_ASN1_EOS_def
  ERR_R_FATAL_def
  ERR_R_MALLOC_FAILURE_def
  ERR_R_SHOULD_NOT_HAVE_BEEN_CALLED_def
  ERR_R_PASSED_NULL_PARAMETER_def
  ERR_R_INTERNAL_ERROR_def
  ERR_R_DISABLED_def

subsection \<open>Packing\<close>

definition ERR_PACK :: "64 word \<Rightarrow> 64 word \<Rightarrow> 64 word \<Rightarrow> 64 word" where
  "ERR_PACK l f r = ((l AND 0xff) * 0x1000000) OR ((f AND 0xfff) * 0x1000) OR (r AND 0xfff)"

text \<open>The results are cast to \<open>int\<close>.\<close>

definition ERR_GET_LIB :: "64 word \<Rightarrow> 32 word" where
  "ERR_GET_LIB e = ucast (drop_bit 24 e AND 0xff)"

definition ERR_GET_FUNC :: "64 word \<Rightarrow> 32 word" where
  "ERR_GET_FUNC e = ucast (drop_bit 12 e AND 0xfff)"

definition ERR_GET_REASON :: "64 word \<Rightarrow> 32 word" where
  "ERR_GET_REASON e = ucast (e AND 0xfff)"

definition ERR_FATAL_ERROR :: "64 word \<Rightarrow> 32 word" where
  "ERR_FATAL_ERROR e = ucast (e AND ERR_R_FATAL)"

lemma field_masks:
  "x AND 0xff = take_bit 8 x" "x AND 0xfff = take_bit 12 x" for x :: "64 word"
  by (simp_all add: take_bit_eq_mask mask_eq_exp_minus_1)

lemma ERR_PACK_eq: "ERR_PACK l f r = push_bit 24 (take_bit 8 l) OR push_bit 12 (take_bit 12 f) OR take_bit 12 r"
  unfolding ERR_PACK_def field_masks by (simp add: push_bit_eq_mult)

lemma ERR_PACK_bits:
  "bit (ERR_PACK l f r) i \<longleftrightarrow>
     (24 \<le> i \<and> i < 32 \<and> bit l (i - 24)) \<or> (12 \<le> i \<and> i < 24 \<and> bit f (i - 12)) \<or> (i < 12 \<and> bit r i)"
  unfolding ERR_PACK_eq bit_or_iff bit_push_bit_iff bit_take_bit_iff possible_bit_def
  by auto

lemma packed_lib: "ERR_GET_LIB (ERR_PACK l f r) = ucast (l AND 0xff)"
  unfolding ERR_GET_LIB_def field_masks
  by (rule arg_cong [of _ _ ucast], rule bit_word_eqI)
     (auto simp: bit_take_bit_iff bit_drop_bit_eq ERR_PACK_bits)

lemma packed_func: "ERR_GET_FUNC (ERR_PACK l f r) = ucast (f AND 0xfff)"
  unfolding ERR_GET_FUNC_def field_masks
  by (rule arg_cong [of _ _ ucast], rule bit_word_eqI)
     (auto simp: bit_take_bit_iff bit_drop_bit_eq ERR_PACK_bits)

lemma packed_reason: "ERR_GET_REASON (ERR_PACK l f r) = ucast (r AND 0xfff)"
  unfolding ERR_GET_REASON_def field_masks
  by (rule arg_cong [of _ _ ucast], rule bit_word_eqI) (auto simp: bit_take_bit_iff ERR_PACK_bits)

lemma fatal_of_pack: "ERR_FATAL_ERROR (ERR_PACK l f r) = ucast (r AND 64)"
proof -
  have "take_bit 12 (ERR_PACK l f r) = take_bit 12 r"
    by (rule bit_word_eqI) (auto simp: bit_take_bit_iff ERR_PACK_bits)
  moreover have "x AND 64 = take_bit 12 x AND 64" for x :: "64 word"
    by (simp add: take_bit_eq_mask mask_eq_exp_minus_1 and.assoc)
  ultimately have "ERR_PACK l f r AND 64 = r AND 64" by metis
  then show ?thesis by (simp add: ERR_FATAL_ERROR_def ERR_R_FATAL_def)
qed

subsection \<open>Properties\<close>

text \<open>
  Packing and unpacking an error: each field comes back reduced to its width, whatever the other
  fields are, and a packed error fits in 32 bits.
\<close>

theorem error_pack_round_trip:
  "ERR_GET_LIB (ERR_PACK l f r) = ucast (l AND 0xff) \<and>
   ERR_GET_FUNC (ERR_PACK l f r) = ucast (f AND 0xfff) \<and>
   ERR_GET_REASON (ERR_PACK l f r) = ucast (r AND 0xfff) \<and>
   ERR_PACK l f r = take_bit 32 (ERR_PACK l f r)"
proof -
  have "ERR_PACK l f r = take_bit 32 (ERR_PACK l f r)"
    by (rule bit_word_eqI) (auto simp: bit_take_bit_iff ERR_PACK_bits)
  then show ?thesis using packed_lib packed_func packed_reason by blast
qed

text \<open>
  The shared reasons: library numbers are pairwise different and survive packing, and among the
  shared reasons the fatal flag is set exactly for the five fatal ones.
\<close>

theorem error_codes_consistent:
  "distinct ERR_LIBS \<and>
   (\<forall>l \<in> set ERR_LIBS. \<forall>f r. ERR_GET_LIB (ERR_PACK l f r) = ucast l) \<and>
   (\<forall>r \<in> set ERR_REASONS. \<forall>l f. ERR_FATAL_ERROR (ERR_PACK l f r) = 0) \<and>
   (\<forall>r \<in> set ERR_FATAL_REASONS. \<forall>l f. ERR_FATAL_ERROR (ERR_PACK l f r) \<noteq> 0)"
proof (intro conjI)
  show "distinct ERR_LIBS" by (simp add: ERR_defs)
  have "\<forall>l \<in> set ERR_LIBS. l AND 0xff = l" by (simp add: ERR_defs)
  then show "\<forall>l \<in> set ERR_LIBS. \<forall>f r. ERR_GET_LIB (ERR_PACK l f r) = ucast l"
    using packed_lib by metis
  have "\<forall>r \<in> set ERR_REASONS. r AND 64 = 0" by (simp add: ERR_defs)
  then show "\<forall>r \<in> set ERR_REASONS. \<forall>l f. ERR_FATAL_ERROR (ERR_PACK l f r) = 0"
    unfolding fatal_of_pack by simp
  have "\<forall>r \<in> set ERR_FATAL_REASONS. r AND 64 = 64" by (simp add: ERR_defs)
  then show "\<forall>r \<in> set ERR_FATAL_REASONS. \<forall>l f. ERR_FATAL_ERROR (ERR_PACK l f r) \<noteq> 0"
    unfolding fatal_of_pack by simp
qed

theorem error_codes_consistent_witness:
  "ERR_GET_LIB (ERR_PACK ERR_LIB_SSL 1 2) = 20 \<and> ERR_FATAL_ERROR (ERR_PACK 20 1 ERR_R_MALLOC_FAILURE) \<noteq> 0"
proof -
  have "ERR_LIB_SSL \<in> set ERR_LIBS" "ERR_R_MALLOC_FAILURE \<in> set ERR_FATAL_REASONS"
    by (simp_all add: ERR_LIBS_def ERR_FATAL_REASONS_def)
  with error_codes_consistent show ?thesis by (auto simp: ERR_LIB_SSL_def)
qed

end
