(* ===== verification/Err_Codes.thy ===== *)
theory Err_Codes
  imports Err "HOL-Library.Multiset"
begin

section \<open>Function and reason codes of the OpenSSL libraries\<close>

text \<open>
  The codes that the libraries of OpenSSL pass to \<open>ERR_PUT_error\<close>: each header under
  \<^verbatim>\<open>Library/iphoneos/include/openssl\<close> ends with the numbers of its functions (\<open><LIB>_F_*\<close>) and of its
  reasons (\<open><LIB>_R_*\<close>), here as tables in the order of the header with the prefix left out, and the
  alerts of \<^verbatim>\<open>ssl3.h\<close>, \<^verbatim>\<open>tls1.h\<close> and \<^verbatim>\<open>ssl.h\<close>. Shown are that a packed error names one library, one function and
  one reason, and that the reasons of alerts are the alert numbers plus the offset.
\<close>

type_synonym code_table = "(string \<times> int) list"

subsection \<open>The tables\<close>

definition SYS_functions :: code_table where
  "SYS_functions = [(''FOPEN'', 1), (''CONNECT'', 2), (''GETSERVBYNAME'', 3), (''SOCKET'', 4), (''IOCTLSOCKET'', 5), (''BIND'', 6), (''LISTEN'', 7),
    (''ACCEPT'', 8), (''WSASTARTUP'', 9), (''OPENDIR'', 10), (''FREAD'', 11), (''FFLUSH'', 18)]"

definition BN_functions :: code_table where
  "BN_functions = [(''BNRAND'', 127), (''BN_BLINDING_CONVERT_EX'', 100), (''BN_BLINDING_CREATE_PARAM'', 128), (''BN_BLINDING_INVERT_EX'', 101),
    (''BN_BLINDING_NEW'', 102), (''BN_BLINDING_UPDATE'', 103), (''BN_BN2DEC'', 104), (''BN_BN2HEX'', 105), (''BN_CTX_GET'', 116),
    (''BN_CTX_NEW'', 106), (''BN_CTX_START'', 129), (''BN_DIV'', 107), (''BN_DIV_NO_BRANCH'', 138), (''BN_DIV_RECP'', 130), (''BN_EXP'', 123),
    (''BN_EXPAND2'', 108), (''BN_EXPAND_INTERNAL'', 120), (''BN_GF2M_MOD'', 131), (''BN_GF2M_MOD_EXP'', 132), (''BN_GF2M_MOD_MUL'', 133),
    (''BN_GF2M_MOD_SOLVE_QUAD'', 134), (''BN_GF2M_MOD_SOLVE_QUAD_ARR'', 135), (''BN_GF2M_MOD_SQR'', 136), (''BN_GF2M_MOD_SQRT'', 137),
    (''BN_LSHIFT'', 145), (''BN_MOD_EXP2_MONT'', 118), (''BN_MOD_EXP_MONT'', 109), (''BN_MOD_EXP_MONT_CONSTTIME'', 124),
    (''BN_MOD_EXP_MONT_WORD'', 117), (''BN_MOD_EXP_RECP'', 125), (''BN_MOD_EXP_SIMPLE'', 126), (''BN_MOD_INVERSE'', 110),
    (''BN_MOD_INVERSE_NO_BRANCH'', 139), (''BN_MOD_LSHIFT_QUICK'', 119), (''BN_MOD_MUL_RECIPROCAL'', 111), (''BN_MOD_SQRT'', 121),
    (''BN_MPI2BN'', 112), (''BN_NEW'', 113), (''BN_RAND'', 114), (''BN_RAND_RANGE'', 122), (''BN_RSHIFT'', 146), (''BN_USUB'', 115)]"

definition BN_reasons :: code_table where
  "BN_reasons = [(''ARG2_LT_ARG3'', 100), (''BAD_RECIPROCAL'', 101), (''BIGNUM_TOO_LONG'', 114), (''BITS_TOO_SMALL'', 118),
    (''CALLED_WITH_EVEN_MODULUS'', 102), (''DIV_BY_ZERO'', 103), (''ENCODING_ERROR'', 104), (''EXPAND_ON_STATIC_BIGNUM_DATA'', 105),
    (''INPUT_NOT_REDUCED'', 110), (''INVALID_LENGTH'', 106), (''INVALID_RANGE'', 115), (''INVALID_SHIFT'', 119), (''NOT_A_SQUARE'', 111),
    (''NOT_INITIALIZED'', 107), (''NO_INVERSE'', 108), (''NO_SOLUTION'', 116), (''P_IS_NOT_PRIME'', 112), (''TOO_MANY_ITERATIONS'', 113),
    (''TOO_MANY_TEMPORARY_VARIABLES'', 109)]"

definition RSA_functions :: code_table where
  "RSA_functions = [(''CHECK_PADDING_MD'', 140), (''DO_RSA_PRINT'', 146), (''INT_RSA_VERIFY'', 145), (''MEMORY_LOCK'', 100),
    (''OLD_RSA_PRIV_DECODE'', 147), (''PKEY_RSA_CTRL'', 143), (''PKEY_RSA_CTRL_STR'', 144), (''PKEY_RSA_SIGN'', 142), (''PKEY_RSA_VERIFY'', 154),
    (''PKEY_RSA_VERIFYRECOVER'', 141), (''RSA_ALGOR_TO_MD'', 157), (''RSA_BUILTIN_KEYGEN'', 129), (''RSA_CHECK_KEY'', 123), (''RSA_CMS_DECRYPT'', 158),
    (''RSA_EAY_PRIVATE_DECRYPT'', 101), (''RSA_EAY_PRIVATE_ENCRYPT'', 102), (''RSA_EAY_PUBLIC_DECRYPT'', 103), (''RSA_EAY_PUBLIC_ENCRYPT'', 104),
    (''RSA_GENERATE_KEY'', 105), (''RSA_GENERATE_KEY_EX'', 155), (''RSA_ITEM_VERIFY'', 156), (''RSA_MEMORY_LOCK'', 130), (''RSA_MGF1_TO_MD'', 159),
    (''RSA_NEW_METHOD'', 106), (''RSA_NULL'', 124), (''RSA_NULL_MOD_EXP'', 131), (''RSA_NULL_PRIVATE_DECRYPT'', 132),
    (''RSA_NULL_PRIVATE_ENCRYPT'', 133), (''RSA_NULL_PUBLIC_DECRYPT'', 134), (''RSA_NULL_PUBLIC_ENCRYPT'', 135), (''RSA_PADDING_ADD_NONE'', 107),
    (''RSA_PADDING_ADD_PKCS1_OAEP'', 121), (''RSA_PADDING_ADD_PKCS1_OAEP_MGF1'', 160), (''RSA_PADDING_ADD_PKCS1_PSS'', 125),
    (''RSA_PADDING_ADD_PKCS1_PSS_MGF1'', 148), (''RSA_PADDING_ADD_PKCS1_TYPE_1'', 108), (''RSA_PADDING_ADD_PKCS1_TYPE_2'', 109),
    (''RSA_PADDING_ADD_SSLV23'', 110), (''RSA_PADDING_ADD_X931'', 127), (''RSA_PADDING_CHECK_NONE'', 111), (''RSA_PADDING_CHECK_PKCS1_OAEP'', 122),
    (''RSA_PADDING_CHECK_PKCS1_OAEP_MGF1'', 161), (''RSA_PADDING_CHECK_PKCS1_TYPE_1'', 112), (''RSA_PADDING_CHECK_PKCS1_TYPE_2'', 113),
    (''RSA_PADDING_CHECK_SSLV23'', 114), (''RSA_PADDING_CHECK_X931'', 128), (''RSA_PRINT'', 115), (''RSA_PRINT_FP'', 116),
    (''RSA_PRIVATE_DECRYPT'', 150), (''RSA_PRIVATE_ENCRYPT'', 151), (''RSA_PRIV_DECODE'', 137), (''RSA_PRIV_ENCODE'', 138), (''RSA_PSS_TO_CTX'', 162),
    (''RSA_PUBLIC_DECRYPT'', 152), (''RSA_PUBLIC_ENCRYPT'', 153), (''RSA_PUB_DECODE'', 139), (''RSA_SETUP_BLINDING'', 136), (''RSA_SIGN'', 117),
    (''RSA_SIGN_ASN1_OCTET_STRING'', 118), (''RSA_VERIFY'', 119), (''RSA_VERIFY_ASN1_OCTET_STRING'', 120), (''RSA_VERIFY_PKCS1_PSS'', 126),
    (''RSA_VERIFY_PKCS1_PSS_MGF1'', 149)]"

definition RSA_reasons :: code_table where
  "RSA_reasons = [(''ALGORITHM_MISMATCH'', 100), (''BAD_E_VALUE'', 101), (''BAD_FIXED_HEADER_DECRYPT'', 102), (''BAD_PAD_BYTE_COUNT'', 103),
    (''BAD_SIGNATURE'', 104), (''BLOCK_TYPE_IS_NOT_01'', 106), (''BLOCK_TYPE_IS_NOT_02'', 107), (''DATA_GREATER_THAN_MOD_LEN'', 108),
    (''DATA_TOO_LARGE'', 109), (''DATA_TOO_LARGE_FOR_KEY_SIZE'', 110), (''DATA_TOO_LARGE_FOR_MODULUS'', 132), (''DATA_TOO_SMALL'', 111),
    (''DATA_TOO_SMALL_FOR_KEY_SIZE'', 122), (''DIGEST_DOES_NOT_MATCH'', 166), (''DIGEST_TOO_BIG_FOR_RSA_KEY'', 112),
    (''DMP1_NOT_CONGRUENT_TO_D'', 124), (''DMQ1_NOT_CONGRUENT_TO_D'', 125), (''D_E_NOT_CONGRUENT_TO_1'', 123), (''FIRST_OCTET_INVALID'', 133),
    (''ILLEGAL_OR_UNSUPPORTED_PADDING_MODE'', 144), (''INVALID_DIGEST'', 160), (''INVALID_DIGEST_LENGTH'', 143), (''INVALID_HEADER'', 137),
    (''INVALID_KEYBITS'', 145), (''INVALID_LABEL'', 161), (''INVALID_MESSAGE_LENGTH'', 131), (''INVALID_MGF1_MD'', 156),
    (''INVALID_OAEP_PARAMETERS'', 162), (''INVALID_PADDING'', 138), (''INVALID_PADDING_MODE'', 141), (''INVALID_PSS_PARAMETERS'', 149),
    (''INVALID_PSS_SALTLEN'', 146), (''INVALID_SALT_LENGTH'', 150), (''INVALID_TRAILER'', 139), (''INVALID_X931_DIGEST'', 142),
    (''IQMP_NOT_INVERSE_OF_Q'', 126), (''KEY_SIZE_TOO_SMALL'', 120), (''LAST_OCTET_INVALID'', 134), (''MODULUS_TOO_LARGE'', 105),
    (''NON_FIPS_RSA_METHOD'', 157), (''NO_PUBLIC_EXPONENT'', 140), (''NULL_BEFORE_BLOCK_MISSING'', 113), (''N_DOES_NOT_EQUAL_P_Q'', 127),
    (''OAEP_DECODING_ERROR'', 121), (''OPERATION_NOT_ALLOWED_IN_FIPS_MODE'', 158), (''OPERATION_NOT_SUPPORTED_FOR_THIS_KEYTYPE'', 148),
    (''PADDING_CHECK_FAILED'', 114), (''PKCS_DECODING_ERROR'', 159), (''P_NOT_PRIME'', 128), (''Q_NOT_PRIME'', 129),
    (''RSA_OPERATIONS_NOT_SUPPORTED'', 130), (''SLEN_CHECK_FAILED'', 136), (''SLEN_RECOVERY_FAILED'', 135), (''SSLV3_ROLLBACK_ATTACK'', 115),
    (''THE_ASN1_OBJECT_IDENTIFIER_IS_NOT_KNOWN_FOR_THIS_MD'', 116), (''UNKNOWN_ALGORITHM_TYPE'', 117), (''UNKNOWN_DIGEST'', 163),
    (''UNKNOWN_MASK_DIGEST'', 151), (''UNKNOWN_PADDING_TYPE'', 118), (''UNKNOWN_PSS_DIGEST'', 152), (''UNSUPPORTED_ENCRYPTION_TYPE'', 164),
    (''UNSUPPORTED_LABEL_SOURCE'', 165), (''UNSUPPORTED_MASK_ALGORITHM'', 153), (''UNSUPPORTED_MASK_PARAMETER'', 154),
    (''UNSUPPORTED_SIGNATURE_TYPE'', 155), (''VALUE_MISSING'', 147), (''WRONG_SIGNATURE_LENGTH'', 119)]"

definition DH_functions :: code_table where
  "DH_functions = [(''COMPUTE_KEY'', 102), (''DHPARAMS_PRINT_FP'', 101), (''DH_BUILTIN_GENPARAMS'', 106), (''DH_CMS_DECRYPT'', 117),
    (''DH_CMS_SET_PEERKEY'', 118), (''DH_CMS_SET_SHARED_INFO'', 119), (''DH_COMPUTE_KEY'', 114), (''DH_GENERATE_KEY'', 115),
    (''DH_GENERATE_PARAMETERS_EX'', 116), (''DH_NEW_METHOD'', 105), (''DH_PARAM_DECODE'', 107), (''DH_PRIV_DECODE'', 110), (''DH_PRIV_ENCODE'', 111),
    (''DH_PUB_DECODE'', 108), (''DH_PUB_ENCODE'', 109), (''DO_DH_PRINT'', 100), (''GENERATE_KEY'', 103), (''GENERATE_PARAMETERS'', 104),
    (''PKEY_DH_DERIVE'', 112), (''PKEY_DH_KEYGEN'', 113)]"

definition DH_reasons :: code_table where
  "DH_reasons = [(''BAD_GENERATOR'', 101), (''BN_DECODE_ERROR'', 109), (''BN_ERROR'', 106), (''DECODE_ERROR'', 104), (''INVALID_PUBKEY'', 102),
    (''KDF_PARAMETER_ERROR'', 112), (''KEYS_NOT_SET'', 108), (''KEY_SIZE_TOO_SMALL'', 110), (''MODULUS_TOO_LARGE'', 103), (''NON_FIPS_METHOD'', 111),
    (''NO_PARAMETERS_SET'', 107), (''NO_PRIVATE_VALUE'', 100), (''PARAMETER_ENCODING_ERROR'', 105), (''PEER_KEY_ERROR'', 113),
    (''SHARED_INFO_ERROR'', 114)]"

definition EVP_functions :: code_table where
  "EVP_functions = [(''AESNI_INIT_KEY'', 165), (''AESNI_XTS_CIPHER'', 176), (''AES_INIT_KEY'', 133), (''AES_T4_INIT_KEY'', 178), (''AES_XTS'', 172),
    (''AES_XTS_CIPHER'', 175), (''ALG_MODULE_INIT'', 177), (''CAMELLIA_INIT_KEY'', 159), (''CMAC_INIT'', 173), (''CMLL_T4_INIT_KEY'', 179),
    (''D2I_PKEY'', 100), (''DO_SIGVER_INIT'', 161), (''DSAPKEY2PKCS8'', 134), (''DSA_PKEY2PKCS8'', 135), (''ECDSA_PKEY2PKCS8'', 129),
    (''ECKEY_PKEY2PKCS8'', 132), (''EVP_CIPHERINIT_EX'', 123), (''EVP_CIPHER_CTX_COPY'', 163), (''EVP_CIPHER_CTX_CTRL'', 124),
    (''EVP_CIPHER_CTX_SET_KEY_LENGTH'', 122), (''EVP_DECRYPTFINAL_EX'', 101), (''EVP_DIGESTINIT_EX'', 128), (''EVP_ENCRYPTFINAL_EX'', 127),
    (''EVP_MD_CTX_COPY_EX'', 110), (''EVP_MD_SIZE'', 162), (''EVP_OPENINIT'', 102), (''EVP_PBE_ALG_ADD'', 115), (''EVP_PBE_ALG_ADD_TYPE'', 160),
    (''EVP_PBE_CIPHERINIT'', 116), (''EVP_PKCS82PKEY'', 111), (''EVP_PKCS82PKEY_BROKEN'', 136), (''EVP_PKEY2PKCS8_BROKEN'', 113),
    (''EVP_PKEY_COPY_PARAMETERS'', 103), (''EVP_PKEY_CTX_CTRL'', 137), (''EVP_PKEY_CTX_CTRL_STR'', 150), (''EVP_PKEY_CTX_DUP'', 156),
    (''EVP_PKEY_DECRYPT'', 104), (''EVP_PKEY_DECRYPT_INIT'', 138), (''EVP_PKEY_DECRYPT_OLD'', 151), (''EVP_PKEY_DERIVE'', 153),
    (''EVP_PKEY_DERIVE_INIT'', 154), (''EVP_PKEY_DERIVE_SET_PEER'', 155), (''EVP_PKEY_ENCRYPT'', 105), (''EVP_PKEY_ENCRYPT_INIT'', 139),
    (''EVP_PKEY_ENCRYPT_OLD'', 152), (''EVP_PKEY_GET1_DH'', 119), (''EVP_PKEY_GET1_DSA'', 120), (''EVP_PKEY_GET1_ECDSA'', 130),
    (''EVP_PKEY_GET1_EC_KEY'', 131), (''EVP_PKEY_GET1_RSA'', 121), (''EVP_PKEY_KEYGEN'', 146), (''EVP_PKEY_KEYGEN_INIT'', 147),
    (''EVP_PKEY_NEW'', 106), (''EVP_PKEY_PARAMGEN'', 148), (''EVP_PKEY_PARAMGEN_INIT'', 149), (''EVP_PKEY_SIGN'', 140), (''EVP_PKEY_SIGN_INIT'', 141),
    (''EVP_PKEY_VERIFY'', 142), (''EVP_PKEY_VERIFY_INIT'', 143), (''EVP_PKEY_VERIFY_RECOVER'', 144), (''EVP_PKEY_VERIFY_RECOVER_INIT'', 145),
    (''EVP_RIJNDAEL'', 126), (''EVP_SIGNFINAL'', 107), (''EVP_VERIFYFINAL'', 108), (''FIPS_CIPHERINIT'', 166), (''FIPS_CIPHER_CTX_COPY'', 170),
    (''FIPS_CIPHER_CTX_CTRL'', 167), (''FIPS_CIPHER_CTX_SET_KEY_LENGTH'', 171), (''FIPS_DIGESTINIT'', 168), (''FIPS_MD_CTX_COPY'', 169),
    (''HMAC_INIT_EX'', 174), (''INT_CTX_NEW'', 157), (''PKCS5_PBE_KEYIVGEN'', 117), (''PKCS5_V2_PBE_KEYIVGEN'', 118),
    (''PKCS5_V2_PBKDF2_KEYIVGEN'', 164), (''PKCS8_SET_BROKEN'', 112), (''PKEY_SET_TYPE'', 158), (''RC2_MAGIC_TO_METH'', 109), (''RC5_CTRL'', 125)]"

definition EVP_reasons :: code_table where
  "EVP_reasons = [(''AES_IV_SETUP_FAILED'', 162), (''AES_KEY_SETUP_FAILED'', 143), (''ASN1_LIB'', 140), (''BAD_BLOCK_LENGTH'', 136),
    (''BAD_DECRYPT'', 100), (''BAD_KEY_LENGTH'', 137), (''BN_DECODE_ERROR'', 112), (''BN_PUBKEY_ERROR'', 113), (''BUFFER_TOO_SMALL'', 155),
    (''CAMELLIA_KEY_SETUP_FAILED'', 157), (''CIPHER_PARAMETER_ERROR'', 122), (''COMMAND_NOT_SUPPORTED'', 147), (''CTRL_NOT_IMPLEMENTED'', 132),
    (''CTRL_OPERATION_NOT_IMPLEMENTED'', 133), (''DATA_NOT_MULTIPLE_OF_BLOCK_LENGTH'', 138), (''DECODE_ERROR'', 114), (''DIFFERENT_KEY_TYPES'', 101),
    (''DIFFERENT_PARAMETERS'', 153), (''DISABLED_FOR_FIPS'', 163), (''ENCODE_ERROR'', 115), (''ERROR_LOADING_SECTION'', 165),
    (''ERROR_SETTING_FIPS_MODE'', 166), (''EVP_PBE_CIPHERINIT_ERROR'', 119), (''EXPECTING_AN_RSA_KEY'', 127), (''EXPECTING_A_DH_KEY'', 128),
    (''EXPECTING_A_DSA_KEY'', 129), (''EXPECTING_A_ECDSA_KEY'', 141), (''EXPECTING_A_EC_KEY'', 142), (''FIPS_MODE_NOT_SUPPORTED'', 167),
    (''INITIALIZATION_ERROR'', 134), (''INPUT_NOT_INITIALIZED'', 111), (''INVALID_DIGEST'', 152), (''INVALID_FIPS_MODE'', 168), (''INVALID_KEY'', 171),
    (''INVALID_KEY_LENGTH'', 130), (''INVALID_OPERATION'', 148), (''IV_TOO_LARGE'', 102), (''KEYGEN_FAILURE'', 120), (''MESSAGE_DIGEST_IS_NULL'', 159),
    (''METHOD_NOT_SUPPORTED'', 144), (''MISSING_PARAMETERS'', 103), (''NO_CIPHER_SET'', 131), (''NO_DEFAULT_DIGEST'', 158), (''NO_DIGEST_SET'', 139),
    (''NO_DSA_PARAMETERS'', 116), (''NO_KEY_SET'', 154), (''NO_OPERATION_SET'', 149), (''NO_SIGN_FUNCTION_CONFIGURED'', 104),
    (''NO_VERIFY_FUNCTION_CONFIGURED'', 105), (''OPERATION_NOT_SUPPORTED_FOR_THIS_KEYTYPE'', 150), (''OPERATON_NOT_INITIALIZED'', 151),
    (''PKCS8_UNKNOWN_BROKEN_TYPE'', 117), (''PRIVATE_KEY_DECODE_ERROR'', 145), (''PRIVATE_KEY_ENCODE_ERROR'', 146), (''PUBLIC_KEY_NOT_RSA'', 106),
    (''TOO_LARGE'', 164), (''UNKNOWN_CIPHER'', 160), (''UNKNOWN_DIGEST'', 161), (''UNKNOWN_OPTION'', 169), (''UNKNOWN_PBE_ALGORITHM'', 121),
    (''UNSUPORTED_NUMBER_OF_ROUNDS'', 135), (''UNSUPPORTED_ALGORITHM'', 156), (''UNSUPPORTED_CIPHER'', 107), (''UNSUPPORTED_KEYLENGTH'', 123),
    (''UNSUPPORTED_KEY_DERIVATION_FUNCTION'', 124), (''UNSUPPORTED_KEY_SIZE'', 108), (''UNSUPPORTED_PRF'', 125),
    (''UNSUPPORTED_PRIVATE_KEY_ALGORITHM'', 118), (''UNSUPPORTED_SALT_TYPE'', 126), (''WRAP_MODE_NOT_ALLOWED'', 170),
    (''WRONG_FINAL_BLOCK_LENGTH'', 109), (''WRONG_PUBLIC_KEY_TYPE'', 110)]"

definition BUF_functions :: code_table where
  "BUF_functions = [(''BUF_MEMDUP'', 103), (''BUF_MEM_GROW'', 100), (''BUF_MEM_GROW_CLEAN'', 105), (''BUF_MEM_NEW'', 101), (''BUF_STRDUP'', 102),
    (''BUF_STRNDUP'', 104)]"

definition OBJ_functions :: code_table where
  "OBJ_functions = [(''OBJ_ADD_OBJECT'', 105), (''OBJ_CREATE'', 100), (''OBJ_DUP'', 101), (''OBJ_NAME_NEW_INDEX'', 106), (''OBJ_NID2LN'', 102),
    (''OBJ_NID2OBJ'', 103), (''OBJ_NID2SN'', 104)]"

definition OBJ_reasons :: code_table where
  "OBJ_reasons = [(''MALLOC_FAILURE'', 100), (''UNKNOWN_NID'', 101)]"

definition PEM_functions :: code_table where
  "PEM_functions = [(''B2I_DSS'', 127), (''B2I_PVK_BIO'', 128), (''B2I_RSA'', 129), (''CHECK_BITLEN_DSA'', 130), (''CHECK_BITLEN_RSA'', 131),
    (''D2I_PKCS8PRIVATEKEY_BIO'', 120), (''D2I_PKCS8PRIVATEKEY_FP'', 121), (''DO_B2I'', 132), (''DO_B2I_BIO'', 133), (''DO_BLOB_HEADER'', 134),
    (''DO_PK8PKEY'', 126), (''DO_PK8PKEY_FP'', 125), (''DO_PVK_BODY'', 135), (''DO_PVK_HEADER'', 136), (''I2B_PVK'', 137), (''I2B_PVK_BIO'', 138),
    (''LOAD_IV'', 101), (''PEM_ASN1_READ'', 102), (''PEM_ASN1_READ_BIO'', 103), (''PEM_ASN1_WRITE'', 104), (''PEM_ASN1_WRITE_BIO'', 105),
    (''PEM_DEF_CALLBACK'', 100), (''PEM_DO_HEADER'', 106), (''PEM_F_PEM_WRITE_PKCS8PRIVATEKEY'', 118), (''PEM_GET_EVP_CIPHER_INFO'', 107),
    (''PEM_PK8PKEY'', 119), (''PEM_READ'', 108), (''PEM_READ_BIO'', 109), (''PEM_READ_BIO_DHPARAMS'', 141), (''PEM_READ_BIO_PARAMETERS'', 140),
    (''PEM_READ_BIO_PRIVATEKEY'', 123), (''PEM_READ_DHPARAMS'', 142), (''PEM_READ_PRIVATEKEY'', 124), (''PEM_SEALFINAL'', 110),
    (''PEM_SEALINIT'', 111), (''PEM_SIGNFINAL'', 112), (''PEM_WRITE'', 113), (''PEM_WRITE_BIO'', 114), (''PEM_WRITE_PRIVATEKEY'', 139),
    (''PEM_X509_INFO_READ'', 115), (''PEM_X509_INFO_READ_BIO'', 116), (''PEM_X509_INFO_WRITE_BIO'', 117)]"

definition PEM_reasons :: code_table where
  "PEM_reasons = [(''BAD_BASE64_DECODE'', 100), (''BAD_DECRYPT'', 101), (''BAD_END_LINE'', 102), (''BAD_IV_CHARS'', 103),
    (''BAD_MAGIC_NUMBER'', 116), (''BAD_PASSWORD_READ'', 104), (''BAD_VERSION_NUMBER'', 117), (''BIO_WRITE_FAILURE'', 118), (''CIPHER_IS_NULL'', 127),
    (''ERROR_CONVERTING_PRIVATE_KEY'', 115), (''EXPECTING_PRIVATE_KEY_BLOB'', 119), (''EXPECTING_PUBLIC_KEY_BLOB'', 120), (''HEADER_TOO_LONG'', 128),
    (''INCONSISTENT_HEADER'', 121), (''KEYBLOB_HEADER_PARSE_ERROR'', 122), (''KEYBLOB_TOO_SHORT'', 123), (''NOT_DEK_INFO'', 105),
    (''NOT_ENCRYPTED'', 106), (''NOT_PROC_TYPE'', 107), (''NO_START_LINE'', 108), (''PROBLEMS_GETTING_PASSWORD'', 109), (''PUBLIC_KEY_NO_RSA'', 110),
    (''PVK_DATA_TOO_SHORT'', 124), (''PVK_TOO_SHORT'', 125), (''READ_KEY'', 111), (''SHORT_HEADER'', 112), (''UNSUPPORTED_CIPHER'', 113),
    (''UNSUPPORTED_ENCRYPTION'', 114), (''UNSUPPORTED_KEY_COMPONENTS'', 126)]"

definition DSA_functions :: code_table where
  "DSA_functions = [(''D2I_DSA_SIG'', 110), (''DO_DSA_PRINT'', 104), (''DSAPARAMS_PRINT'', 100), (''DSAPARAMS_PRINT_FP'', 101),
    (''DSA_BUILTIN_PARAMGEN2'', 126), (''DSA_DO_SIGN'', 112), (''DSA_DO_VERIFY'', 113), (''DSA_GENERATE_KEY'', 124),
    (''DSA_GENERATE_PARAMETERS_EX'', 123), (''DSA_NEW_METHOD'', 103), (''DSA_PARAM_DECODE'', 119), (''DSA_PRINT_FP'', 105), (''DSA_PRIV_DECODE'', 115),
    (''DSA_PRIV_ENCODE'', 116), (''DSA_PUB_DECODE'', 117), (''DSA_PUB_ENCODE'', 118), (''DSA_SIGN'', 106), (''DSA_SIGN_SETUP'', 107),
    (''DSA_SIG_NEW'', 109), (''DSA_SIG_PRINT'', 125), (''DSA_VERIFY'', 108), (''I2D_DSA_SIG'', 111), (''OLD_DSA_PRIV_DECODE'', 122),
    (''PKEY_DSA_CTRL'', 120), (''PKEY_DSA_KEYGEN'', 121), (''SIG_CB'', 114)]"

definition DSA_reasons :: code_table where
  "DSA_reasons = [(''BAD_Q_VALUE'', 102), (''BN_DECODE_ERROR'', 108), (''BN_ERROR'', 109), (''DATA_TOO_LARGE_FOR_KEY_SIZE'', 100),
    (''DECODE_ERROR'', 104), (''INVALID_DIGEST_TYPE'', 106), (''INVALID_PARAMETERS'', 112), (''MISSING_PARAMETERS'', 101),
    (''MODULUS_TOO_LARGE'', 103), (''NEED_NEW_SETUP_VALUES'', 110), (''NON_FIPS_DSA_METHOD'', 111), (''NO_PARAMETERS_SET'', 107),
    (''PARAMETER_ENCODING_ERROR'', 105), (''Q_NOT_PRIME'', 113)]"

definition X509_functions :: code_table where
  "X509_functions = [(''ADD_CERT_DIR'', 100), (''BY_FILE_CTRL'', 101), (''CHECK_NAME_CONSTRAINTS'', 106), (''CHECK_POLICY'', 145), (''DIR_CTRL'', 102),
    (''GET_CERT_BY_SUBJECT'', 103), (''NETSCAPE_SPKI_B64_DECODE'', 129), (''NETSCAPE_SPKI_B64_ENCODE'', 130), (''X509AT_ADD1_ATTR'', 135),
    (''X509V3_ADD_EXT'', 104), (''X509_ATTRIBUTE_CREATE_BY_NID'', 136), (''X509_ATTRIBUTE_CREATE_BY_OBJ'', 137),
    (''X509_ATTRIBUTE_CREATE_BY_TXT'', 140), (''X509_ATTRIBUTE_GET0_DATA'', 139), (''X509_ATTRIBUTE_SET1_DATA'', 138),
    (''X509_CHECK_PRIVATE_KEY'', 128), (''X509_CRL_DIFF'', 105), (''X509_CRL_PRINT_FP'', 147), (''X509_EXTENSION_CREATE_BY_NID'', 108),
    (''X509_EXTENSION_CREATE_BY_OBJ'', 109), (''X509_GET_PUBKEY_PARAMETERS'', 110), (''X509_LOAD_CERT_CRL_FILE'', 132), (''X509_LOAD_CERT_FILE'', 111),
    (''X509_LOAD_CRL_FILE'', 112), (''X509_NAME_ADD_ENTRY'', 113), (''X509_NAME_ENTRY_CREATE_BY_NID'', 114), (''X509_NAME_ENTRY_CREATE_BY_TXT'', 131),
    (''X509_NAME_ENTRY_SET_OBJECT'', 115), (''X509_NAME_ONELINE'', 116), (''X509_NAME_PRINT'', 117), (''X509_PRINT_EX_FP'', 118),
    (''X509_PUBKEY_GET'', 119), (''X509_PUBKEY_SET'', 120), (''X509_REQ_CHECK_PRIVATE_KEY'', 144), (''X509_REQ_PRINT_EX'', 121),
    (''X509_REQ_PRINT_FP'', 122), (''X509_REQ_TO_X509'', 123), (''X509_STORE_ADD_CERT'', 124), (''X509_STORE_ADD_CRL'', 125),
    (''X509_STORE_CTX_GET1_ISSUER'', 146), (''X509_STORE_CTX_INIT'', 143), (''X509_STORE_CTX_NEW'', 142), (''X509_STORE_CTX_PURPOSE_INHERIT'', 134),
    (''X509_TO_X509_REQ'', 126), (''X509_TRUST_ADD'', 133), (''X509_TRUST_SET'', 141), (''X509_VERIFY_CERT'', 127)]"

definition X509_reasons :: code_table where
  "X509_reasons = [(''AKID_MISMATCH'', 110), (''BAD_X509_FILETYPE'', 100), (''BASE64_DECODE_ERROR'', 118), (''CANT_CHECK_DH_KEY'', 114),
    (''CERT_ALREADY_IN_HASH_TABLE'', 101), (''CRL_ALREADY_DELTA'', 127), (''CRL_VERIFY_FAILURE'', 131), (''ERR_ASN1_LIB'', 102),
    (''IDP_MISMATCH'', 128), (''INVALID_DIRECTORY'', 113), (''INVALID_FIELD_NAME'', 119), (''INVALID_TRUST'', 123), (''ISSUER_MISMATCH'', 129),
    (''KEY_TYPE_MISMATCH'', 115), (''KEY_VALUES_MISMATCH'', 116), (''LOADING_CERT_DIR'', 103), (''LOADING_DEFAULTS'', 104),
    (''METHOD_NOT_SUPPORTED'', 124), (''NAME_TOO_LONG'', 134), (''NEWER_CRL_NOT_NEWER'', 132), (''NO_CERT_SET_FOR_US_TO_VERIFY'', 105),
    (''NO_CRL_NUMBER'', 130), (''PUBLIC_KEY_DECODE_ERROR'', 125), (''PUBLIC_KEY_ENCODE_ERROR'', 126), (''SHOULD_RETRY'', 106),
    (''UNABLE_TO_FIND_PARAMETERS_IN_CHAIN'', 107), (''UNABLE_TO_GET_CERTS_PUBLIC_KEY'', 108), (''UNKNOWN_KEY_TYPE'', 117), (''UNKNOWN_NID'', 109),
    (''UNKNOWN_PURPOSE_ID'', 121), (''UNKNOWN_TRUST_ID'', 120), (''UNSUPPORTED_ALGORITHM'', 111), (''WRONG_LOOKUP_TYPE'', 112), (''WRONG_TYPE'', 122)]"

definition ASN1_functions :: code_table where
  "ASN1_functions = [(''A2D_ASN1_OBJECT'', 100), (''A2I_ASN1_ENUMERATED'', 101), (''A2I_ASN1_INTEGER'', 102), (''A2I_ASN1_STRING'', 103),
    (''APPEND_EXP'', 176), (''ASN1_BIT_STRING_SET_BIT'', 183), (''ASN1_CB'', 177), (''ASN1_CHECK_TLEN'', 104), (''ASN1_COLLATE_PRIMITIVE'', 105),
    (''ASN1_COLLECT'', 106), (''ASN1_D2I_EX_PRIMITIVE'', 108), (''ASN1_D2I_FP'', 109), (''ASN1_D2I_READ_BIO'', 107), (''ASN1_DIGEST'', 184),
    (''ASN1_DO_ADB'', 110), (''ASN1_DUP'', 111), (''ASN1_ENUMERATED_SET'', 112), (''ASN1_ENUMERATED_TO_BN'', 113), (''ASN1_EX_C2I'', 204),
    (''ASN1_FIND_END'', 190), (''ASN1_GENERALIZEDTIME_ADJ'', 216), (''ASN1_GENERALIZEDTIME_SET'', 185), (''ASN1_GENERATE_V3'', 178),
    (''ASN1_GET_OBJECT'', 114), (''ASN1_HEADER_NEW'', 115), (''ASN1_I2D_BIO'', 116), (''ASN1_I2D_FP'', 117), (''ASN1_INTEGER_SET'', 118),
    (''ASN1_INTEGER_TO_BN'', 119), (''ASN1_ITEM_D2I_FP'', 206), (''ASN1_ITEM_DUP'', 191), (''ASN1_ITEM_EX_COMBINE_NEW'', 121),
    (''ASN1_ITEM_EX_D2I'', 120), (''ASN1_ITEM_I2D_BIO'', 192), (''ASN1_ITEM_I2D_FP'', 193), (''ASN1_ITEM_PACK'', 198), (''ASN1_ITEM_SIGN'', 195),
    (''ASN1_ITEM_SIGN_CTX'', 220), (''ASN1_ITEM_UNPACK'', 199), (''ASN1_ITEM_VERIFY'', 197), (''ASN1_MBSTRING_NCOPY'', 122),
    (''ASN1_OBJECT_NEW'', 123), (''ASN1_OUTPUT_DATA'', 214), (''ASN1_PACK_STRING'', 124), (''ASN1_PCTX_NEW'', 205), (''ASN1_PKCS5_PBE_SET'', 125),
    (''ASN1_SEQ_PACK'', 126), (''ASN1_SEQ_UNPACK'', 127), (''ASN1_SIGN'', 128), (''ASN1_STR2TYPE'', 179), (''ASN1_STRING_SET'', 186),
    (''ASN1_STRING_TABLE_ADD'', 129), (''ASN1_STRING_TYPE_NEW'', 130), (''ASN1_TEMPLATE_EX_D2I'', 132), (''ASN1_TEMPLATE_NEW'', 133),
    (''ASN1_TEMPLATE_NOEXP_D2I'', 131), (''ASN1_TIME_ADJ'', 217), (''ASN1_TIME_SET'', 175), (''ASN1_TYPE_GET_INT_OCTETSTRING'', 134),
    (''ASN1_TYPE_GET_OCTETSTRING'', 135), (''ASN1_UNPACK_STRING'', 136), (''ASN1_UTCTIME_ADJ'', 218), (''ASN1_UTCTIME_SET'', 187),
    (''ASN1_VERIFY'', 137), (''B64_READ_ASN1'', 209), (''B64_WRITE_ASN1'', 210), (''BIO_NEW_NDEF'', 208), (''BITSTR_CB'', 180),
    (''BN_TO_ASN1_ENUMERATED'', 138), (''BN_TO_ASN1_INTEGER'', 139), (''C2I_ASN1_BIT_STRING'', 189), (''C2I_ASN1_INTEGER'', 194),
    (''C2I_ASN1_OBJECT'', 196), (''COLLECT_DATA'', 140), (''D2I_ASN1_BIT_STRING'', 141), (''D2I_ASN1_BOOLEAN'', 142), (''D2I_ASN1_BYTES'', 143),
    (''D2I_ASN1_GENERALIZEDTIME'', 144), (''D2I_ASN1_HEADER'', 145), (''D2I_ASN1_INTEGER'', 146), (''D2I_ASN1_OBJECT'', 147), (''D2I_ASN1_SET'', 148),
    (''D2I_ASN1_TYPE_BYTES'', 149), (''D2I_ASN1_UINTEGER'', 150), (''D2I_ASN1_UTCTIME'', 151), (''D2I_AUTOPRIVATEKEY'', 207),
    (''D2I_NETSCAPE_RSA'', 152), (''D2I_NETSCAPE_RSA_2'', 153), (''D2I_PRIVATEKEY'', 154), (''D2I_PUBLICKEY'', 155), (''D2I_RSA_NET'', 200),
    (''D2I_RSA_NET_2'', 201), (''D2I_X509'', 156), (''D2I_X509_CINF'', 157), (''D2I_X509_PKEY'', 159), (''I2D_ASN1_BIO_STREAM'', 211),
    (''I2D_ASN1_SET'', 188), (''I2D_ASN1_TIME'', 160), (''I2D_DSA_PUBKEY'', 161), (''I2D_EC_PUBKEY'', 181), (''I2D_PRIVATEKEY'', 163),
    (''I2D_PUBLICKEY'', 164), (''I2D_RSA_NET'', 162), (''I2D_RSA_PUBKEY'', 165), (''LONG_C2I'', 166), (''OID_MODULE_INIT'', 174),
    (''PARSE_TAGGING'', 182), (''PKCS5_PBE2_SET_IV'', 167), (''PKCS5_PBE_SET'', 202), (''PKCS5_PBE_SET0_ALGOR'', 215), (''PKCS5_PBKDF2_SET'', 219),
    (''SMIME_READ_ASN1'', 212), (''SMIME_TEXT'', 213), (''X509_CINF_NEW'', 168), (''X509_CRL_ADD0_REVOKED'', 169), (''X509_INFO_NEW'', 170),
    (''X509_NAME_ENCODE'', 203), (''X509_NAME_EX_D2I'', 158), (''X509_NAME_EX_NEW'', 171), (''X509_NEW'', 172), (''X509_PKEY_NEW'', 173)]"

definition ASN1_reasons :: code_table where
  "ASN1_reasons = [(''ADDING_OBJECT'', 171), (''ASN1_PARSE_ERROR'', 203), (''ASN1_SIG_PARSE_ERROR'', 204), (''AUX_ERROR'', 100), (''BAD_CLASS'', 101),
    (''BAD_OBJECT_HEADER'', 102), (''BAD_PASSWORD_READ'', 103), (''BAD_TAG'', 104), (''BMPSTRING_IS_WRONG_LENGTH'', 214), (''BN_LIB'', 105),
    (''BOOLEAN_IS_WRONG_LENGTH'', 106), (''BUFFER_TOO_SMALL'', 107), (''CIPHER_HAS_NO_OBJECT_IDENTIFIER'', 108), (''CONTEXT_NOT_INITIALISED'', 217),
    (''DATA_IS_WRONG'', 109), (''DECODE_ERROR'', 110), (''DECODING_ERROR'', 111), (''DEPTH_EXCEEDED'', 174),
    (''DIGEST_AND_KEY_TYPE_NOT_SUPPORTED'', 198), (''ENCODE_ERROR'', 112), (''ERROR_GETTING_TIME'', 173), (''ERROR_LOADING_SECTION'', 172),
    (''ERROR_PARSING_SET_ELEMENT'', 113), (''ERROR_SETTING_CIPHER_PARAMS'', 114), (''EXPECTING_AN_INTEGER'', 115), (''EXPECTING_AN_OBJECT'', 116),
    (''EXPECTING_A_BOOLEAN'', 117), (''EXPECTING_A_TIME'', 118), (''EXPLICIT_LENGTH_MISMATCH'', 119), (''EXPLICIT_TAG_NOT_CONSTRUCTED'', 120),
    (''FIELD_MISSING'', 121), (''FIRST_NUM_TOO_LARGE'', 122), (''HEADER_TOO_LONG'', 123), (''ILLEGAL_BITSTRING_FORMAT'', 175),
    (''ILLEGAL_BOOLEAN'', 176), (''ILLEGAL_CHARACTERS'', 124), (''ILLEGAL_FORMAT'', 177), (''ILLEGAL_HEX'', 178), (''ILLEGAL_IMPLICIT_TAG'', 179),
    (''ILLEGAL_INTEGER'', 180), (''ILLEGAL_NESTED_TAGGING'', 181), (''ILLEGAL_NULL'', 125), (''ILLEGAL_NULL_VALUE'', 182), (''ILLEGAL_OBJECT'', 183),
    (''ILLEGAL_OPTIONAL_ANY'', 126), (''ILLEGAL_OPTIONS_ON_ITEM_TEMPLATE'', 170), (''ILLEGAL_TAGGED_ANY'', 127), (''ILLEGAL_TIME_VALUE'', 184),
    (''INTEGER_NOT_ASCII_FORMAT'', 185), (''INTEGER_TOO_LARGE_FOR_LONG'', 128), (''INVALID_BIT_STRING_BITS_LEFT'', 220),
    (''INVALID_BMPSTRING_LENGTH'', 129), (''INVALID_DIGIT'', 130), (''INVALID_MIME_TYPE'', 205), (''INVALID_MODIFIER'', 186),
    (''INVALID_NUMBER'', 187), (''INVALID_OBJECT_ENCODING'', 216), (''INVALID_SEPARATOR'', 131), (''INVALID_TIME_FORMAT'', 132),
    (''INVALID_UNIVERSALSTRING_LENGTH'', 133), (''INVALID_UTF8STRING'', 134), (''IV_TOO_LARGE'', 135), (''LENGTH_ERROR'', 136), (''LIST_ERROR'', 188),
    (''MIME_NO_CONTENT_TYPE'', 206), (''MIME_PARSE_ERROR'', 207), (''MIME_SIG_PARSE_ERROR'', 208), (''MISSING_EOC'', 137),
    (''MISSING_SECOND_NUMBER'', 138), (''MISSING_VALUE'', 189), (''MSTRING_NOT_UNIVERSAL'', 139), (''MSTRING_WRONG_TAG'', 140),
    (''NESTED_ASN1_STRING'', 197), (''NON_HEX_CHARACTERS'', 141), (''NOT_ASCII_FORMAT'', 190), (''NOT_ENOUGH_DATA'', 142), (''NO_CONTENT_TYPE'', 209),
    (''NO_DEFAULT_DIGEST'', 201), (''NO_MATCHING_CHOICE_TYPE'', 143), (''NO_MULTIPART_BODY_FAILURE'', 210), (''NO_MULTIPART_BOUNDARY'', 211),
    (''NO_SIG_CONTENT_TYPE'', 212), (''NULL_IS_WRONG_LENGTH'', 144), (''OBJECT_NOT_ASCII_FORMAT'', 191), (''ODD_NUMBER_OF_CHARS'', 145),
    (''PRIVATE_KEY_HEADER_MISSING'', 146), (''SECOND_NUMBER_TOO_LARGE'', 147), (''SEQUENCE_LENGTH_MISMATCH'', 148),
    (''SEQUENCE_NOT_CONSTRUCTED'', 149), (''SEQUENCE_OR_SET_NEEDS_CONFIG'', 192), (''SHORT_LINE'', 150), (''SIG_INVALID_MIME_TYPE'', 213),
    (''STREAMING_NOT_SUPPORTED'', 202), (''STRING_TOO_LONG'', 151), (''STRING_TOO_SHORT'', 152), (''TAG_VALUE_TOO_HIGH'', 153),
    (''THE_ASN1_OBJECT_IDENTIFIER_IS_NOT_KNOWN_FOR_THIS_MD'', 154), (''TIME_NOT_ASCII_FORMAT'', 193), (''TOO_LONG'', 155),
    (''TYPE_NOT_CONSTRUCTED'', 156), (''TYPE_NOT_PRIMITIVE'', 218), (''UNABLE_TO_DECODE_RSA_KEY'', 157), (''UNABLE_TO_DECODE_RSA_PRIVATE_KEY'', 158),
    (''UNEXPECTED_EOC'', 159), (''UNIVERSALSTRING_IS_WRONG_LENGTH'', 215), (''UNKNOWN_FORMAT'', 160), (''UNKNOWN_MESSAGE_DIGEST_ALGORITHM'', 161),
    (''UNKNOWN_OBJECT_TYPE'', 162), (''UNKNOWN_PUBLIC_KEY_TYPE'', 163), (''UNKNOWN_SIGNATURE_ALGORITHM'', 199), (''UNKNOWN_TAG'', 194),
    (''UNKOWN_FORMAT'', 195), (''UNSUPPORTED_ANY_DEFINED_BY_TYPE'', 164), (''UNSUPPORTED_CIPHER'', 165), (''UNSUPPORTED_ENCRYPTION_ALGORITHM'', 166),
    (''UNSUPPORTED_PUBLIC_KEY_TYPE'', 167), (''UNSUPPORTED_TYPE'', 196), (''WRONG_PUBLIC_KEY_TYPE'', 200), (''WRONG_TAG'', 168), (''WRONG_TYPE'', 169)]"

definition CONF_functions :: code_table where
  "CONF_functions = [(''CONF_DUMP_FP'', 104), (''CONF_LOAD'', 100), (''CONF_LOAD_BIO'', 102), (''CONF_LOAD_FP'', 103), (''CONF_MODULES_LOAD'', 116),
    (''CONF_PARSE_LIST'', 119), (''DEF_LOAD'', 120), (''DEF_LOAD_BIO'', 121), (''MODULE_INIT'', 115), (''MODULE_LOAD_DSO'', 117),
    (''MODULE_RUN'', 118), (''NCONF_DUMP_BIO'', 105), (''NCONF_DUMP_FP'', 106), (''NCONF_GET_NUMBER'', 107), (''NCONF_GET_NUMBER_E'', 112),
    (''NCONF_GET_SECTION'', 108), (''NCONF_GET_STRING'', 109), (''NCONF_LOAD'', 113), (''NCONF_LOAD_BIO'', 110), (''NCONF_LOAD_FP'', 114),
    (''NCONF_NEW'', 111), (''STR_COPY'', 101)]"

definition CONF_reasons :: code_table where
  "CONF_reasons = [(''ERROR_LOADING_DSO'', 110), (''LIST_CANNOT_BE_NULL'', 115), (''MISSING_CLOSE_SQUARE_BRACKET'', 100),
    (''MISSING_EQUAL_SIGN'', 101), (''MISSING_FINISH_FUNCTION'', 111), (''MISSING_INIT_FUNCTION'', 112), (''MODULE_INITIALIZATION_ERROR'', 109),
    (''NO_CLOSE_BRACE'', 102), (''NO_CONF'', 105), (''NO_CONF_OR_ENVIRONMENT_VARIABLE'', 106), (''NO_SECTION'', 107), (''NO_SUCH_FILE'', 114),
    (''NO_VALUE'', 108), (''UNABLE_TO_CREATE_NEW_SECTION'', 103), (''UNKNOWN_MODULE_NAME'', 113), (''VARIABLE_EXPANSION_TOO_LONG'', 116),
    (''VARIABLE_HAS_NO_VALUE'', 104)]"

definition CRYPTO_functions :: code_table where
  "CRYPTO_functions = [(''CRYPTO_GET_EX_NEW_INDEX'', 100), (''CRYPTO_GET_NEW_DYNLOCKID'', 103), (''CRYPTO_GET_NEW_LOCKID'', 101),
    (''CRYPTO_SET_EX_DATA'', 102), (''DEF_ADD_INDEX'', 104), (''DEF_GET_CLASS'', 105), (''FIPS_MODE_SET'', 109), (''INT_DUP_EX_DATA'', 106),
    (''INT_FREE_EX_DATA'', 107), (''INT_NEW_EX_DATA'', 108)]"

definition CRYPTO_reasons :: code_table where
  "CRYPTO_reasons = [(''FIPS_MODE_NOT_SUPPORTED'', 101), (''NO_DYNLOCK_CREATE_CALLBACK'', 100)]"

definition EC_functions :: code_table where
  "EC_functions = [(''BN_TO_FELEM'', 224), (''COMPUTE_WNAF'', 143), (''D2I_ECPARAMETERS'', 144), (''D2I_ECPKPARAMETERS'', 145),
    (''D2I_ECPRIVATEKEY'', 146), (''DO_EC_KEY_PRINT'', 221), (''ECDH_CMS_DECRYPT'', 238), (''ECDH_CMS_SET_SHARED_INFO'', 239),
    (''ECKEY_PARAM2TYPE'', 223), (''ECKEY_PARAM_DECODE'', 212), (''ECKEY_PRIV_DECODE'', 213), (''ECKEY_PRIV_ENCODE'', 214),
    (''ECKEY_PUB_DECODE'', 215), (''ECKEY_PUB_ENCODE'', 216), (''ECKEY_TYPE2PARAM'', 220), (''ECPARAMETERS_PRINT'', 147),
    (''ECPARAMETERS_PRINT_FP'', 148), (''ECPKPARAMETERS_PRINT'', 149), (''ECPKPARAMETERS_PRINT_FP'', 150), (''ECP_NISTZ256_GET_AFFINE'', 240),
    (''ECP_NISTZ256_MULT_PRECOMPUTE'', 243), (''ECP_NISTZ256_POINTS_MUL'', 241), (''ECP_NISTZ256_PRE_COMP_NEW'', 244),
    (''ECP_NISTZ256_SET_WORDS'', 245), (''ECP_NISTZ256_WINDOWED_MUL'', 242), (''ECP_NIST_MOD_192'', 203), (''ECP_NIST_MOD_224'', 204),
    (''ECP_NIST_MOD_256'', 205), (''ECP_NIST_MOD_521'', 206), (''EC_ASN1_GROUP2CURVE'', 153), (''EC_ASN1_GROUP2FIELDID'', 154),
    (''EC_ASN1_GROUP2PARAMETERS'', 155), (''EC_ASN1_GROUP2PKPARAMETERS'', 156), (''EC_ASN1_PARAMETERS2GROUP'', 157),
    (''EC_ASN1_PKPARAMETERS2GROUP'', 158), (''EC_EX_DATA_SET_DATA'', 211), (''EC_GF2M_MONTGOMERY_POINT_MULTIPLY'', 208),
    (''EC_GF2M_SIMPLE_GROUP_CHECK_DISCRIMINANT'', 159), (''EC_GF2M_SIMPLE_GROUP_SET_CURVE'', 195), (''EC_GF2M_SIMPLE_OCT2POINT'', 160),
    (''EC_GF2M_SIMPLE_POINT2OCT'', 161), (''EC_GF2M_SIMPLE_POINT_GET_AFFINE_COORDINATES'', 162),
    (''EC_GF2M_SIMPLE_POINT_SET_AFFINE_COORDINATES'', 163), (''EC_GF2M_SIMPLE_SET_COMPRESSED_COORDINATES'', 164), (''EC_GFP_MONT_FIELD_DECODE'', 133),
    (''EC_GFP_MONT_FIELD_ENCODE'', 134), (''EC_GFP_MONT_FIELD_MUL'', 131), (''EC_GFP_MONT_FIELD_SET_TO_ONE'', 209), (''EC_GFP_MONT_FIELD_SQR'', 132),
    (''EC_GFP_MONT_GROUP_SET_CURVE'', 189), (''EC_GFP_MONT_GROUP_SET_CURVE_GFP'', 135), (''EC_GFP_NISTP224_GROUP_SET_CURVE'', 225),
    (''EC_GFP_NISTP224_POINTS_MUL'', 228), (''EC_GFP_NISTP224_POINT_GET_AFFINE_COORDINATES'', 226), (''EC_GFP_NISTP256_GROUP_SET_CURVE'', 230),
    (''EC_GFP_NISTP256_POINTS_MUL'', 231), (''EC_GFP_NISTP256_POINT_GET_AFFINE_COORDINATES'', 232), (''EC_GFP_NISTP521_GROUP_SET_CURVE'', 233),
    (''EC_GFP_NISTP521_POINTS_MUL'', 234), (''EC_GFP_NISTP521_POINT_GET_AFFINE_COORDINATES'', 235), (''EC_GFP_NIST_FIELD_MUL'', 200),
    (''EC_GFP_NIST_FIELD_SQR'', 201), (''EC_GFP_NIST_GROUP_SET_CURVE'', 202), (''EC_GFP_SIMPLE_GROUP_CHECK_DISCRIMINANT'', 165),
    (''EC_GFP_SIMPLE_GROUP_SET_CURVE'', 166), (''EC_GFP_SIMPLE_GROUP_SET_CURVE_GFP'', 100), (''EC_GFP_SIMPLE_GROUP_SET_GENERATOR'', 101),
    (''EC_GFP_SIMPLE_MAKE_AFFINE'', 102), (''EC_GFP_SIMPLE_OCT2POINT'', 103), (''EC_GFP_SIMPLE_POINT2OCT'', 104),
    (''EC_GFP_SIMPLE_POINTS_MAKE_AFFINE'', 137), (''EC_GFP_SIMPLE_POINT_GET_AFFINE_COORDINATES'', 167),
    (''EC_GFP_SIMPLE_POINT_GET_AFFINE_COORDINATES_GFP'', 105), (''EC_GFP_SIMPLE_POINT_SET_AFFINE_COORDINATES'', 168),
    (''EC_GFP_SIMPLE_POINT_SET_AFFINE_COORDINATES_GFP'', 128), (''EC_GFP_SIMPLE_SET_COMPRESSED_COORDINATES'', 169),
    (''EC_GFP_SIMPLE_SET_COMPRESSED_COORDINATES_GFP'', 129), (''EC_GROUP_CHECK'', 170), (''EC_GROUP_CHECK_DISCRIMINANT'', 171),
    (''EC_GROUP_COPY'', 106), (''EC_GROUP_GET0_GENERATOR'', 139), (''EC_GROUP_GET_COFACTOR'', 140), (''EC_GROUP_GET_CURVE_GF2M'', 172),
    (''EC_GROUP_GET_CURVE_GFP'', 130), (''EC_GROUP_GET_DEGREE'', 173), (''EC_GROUP_GET_ORDER'', 141), (''EC_GROUP_GET_PENTANOMIAL_BASIS'', 193),
    (''EC_GROUP_GET_TRINOMIAL_BASIS'', 194), (''EC_GROUP_NEW'', 108), (''EC_GROUP_NEW_BY_CURVE_NAME'', 174), (''EC_GROUP_NEW_FROM_DATA'', 175),
    (''EC_GROUP_PRECOMPUTE_MULT'', 142), (''EC_GROUP_SET_CURVE_GF2M'', 176), (''EC_GROUP_SET_CURVE_GFP'', 109), (''EC_GROUP_SET_EXTRA_DATA'', 110),
    (''EC_GROUP_SET_GENERATOR'', 111), (''EC_KEY_CHECK_KEY'', 177), (''EC_KEY_COPY'', 178), (''EC_KEY_GENERATE_KEY'', 179), (''EC_KEY_NEW'', 182),
    (''EC_KEY_PRINT'', 180), (''EC_KEY_PRINT_FP'', 181), (''EC_KEY_SET_PUBLIC_KEY_AFFINE_COORDINATES'', 229), (''EC_POINTS_MAKE_AFFINE'', 136),
    (''EC_POINT_ADD'', 112), (''EC_POINT_CMP'', 113), (''EC_POINT_COPY'', 114), (''EC_POINT_DBL'', 115),
    (''EC_POINT_GET_AFFINE_COORDINATES_GF2M'', 183), (''EC_POINT_GET_AFFINE_COORDINATES_GFP'', 116),
    (''EC_POINT_GET_JPROJECTIVE_COORDINATES_GFP'', 117), (''EC_POINT_INVERT'', 210), (''EC_POINT_IS_AT_INFINITY'', 118),
    (''EC_POINT_IS_ON_CURVE'', 119), (''EC_POINT_MAKE_AFFINE'', 120), (''EC_POINT_MUL'', 184), (''EC_POINT_NEW'', 121), (''EC_POINT_OCT2POINT'', 122),
    (''EC_POINT_POINT2OCT'', 123), (''EC_POINT_SET_AFFINE_COORDINATES_GF2M'', 185), (''EC_POINT_SET_AFFINE_COORDINATES_GFP'', 124),
    (''EC_POINT_SET_COMPRESSED_COORDINATES_GF2M'', 186), (''EC_POINT_SET_COMPRESSED_COORDINATES_GFP'', 125),
    (''EC_POINT_SET_JPROJECTIVE_COORDINATES_GFP'', 126), (''EC_POINT_SET_TO_INFINITY'', 127), (''EC_PRE_COMP_DUP'', 207), (''EC_PRE_COMP_NEW'', 196),
    (''EC_WNAF_MUL'', 187), (''EC_WNAF_PRECOMPUTE_MULT'', 188), (''I2D_ECPARAMETERS'', 190), (''I2D_ECPKPARAMETERS'', 191),
    (''I2D_ECPRIVATEKEY'', 192), (''I2O_ECPUBLICKEY'', 151), (''NISTP224_PRE_COMP_NEW'', 227), (''NISTP256_PRE_COMP_NEW'', 236),
    (''NISTP521_PRE_COMP_NEW'', 237), (''O2I_ECPUBLICKEY'', 152), (''OLD_EC_PRIV_DECODE'', 222), (''PKEY_EC_CTRL'', 197), (''PKEY_EC_CTRL_STR'', 198),
    (''PKEY_EC_DERIVE'', 217), (''PKEY_EC_KEYGEN'', 199), (''PKEY_EC_PARAMGEN'', 219), (''PKEY_EC_SIGN'', 218)]"

definition EC_reasons :: code_table where
  "EC_reasons = [(''ASN1_ERROR'', 115), (''ASN1_UNKNOWN_FIELD'', 116), (''BIGNUM_OUT_OF_RANGE'', 144), (''BUFFER_TOO_SMALL'', 100),
    (''COORDINATES_OUT_OF_RANGE'', 146), (''D2I_ECPKPARAMETERS_FAILURE'', 117), (''DECODE_ERROR'', 142), (''DISCRIMINANT_IS_ZERO'', 118),
    (''EC_GROUP_NEW_BY_NAME_FAILURE'', 119), (''FIELD_TOO_LARGE'', 143), (''GF2M_NOT_SUPPORTED'', 147), (''GROUP2PKPARAMETERS_FAILURE'', 120),
    (''I2D_ECPKPARAMETERS_FAILURE'', 121), (''INCOMPATIBLE_OBJECTS'', 101), (''INVALID_ARGUMENT'', 112), (''INVALID_COMPRESSED_POINT'', 110),
    (''INVALID_COMPRESSION_BIT'', 109), (''INVALID_CURVE'', 141), (''INVALID_DIGEST'', 151), (''INVALID_DIGEST_TYPE'', 138),
    (''INVALID_ENCODING'', 102), (''INVALID_FIELD'', 103), (''INVALID_FORM'', 104), (''INVALID_GROUP_ORDER'', 122),
    (''INVALID_PENTANOMIAL_BASIS'', 132), (''INVALID_PRIVATE_KEY'', 123), (''INVALID_TRINOMIAL_BASIS'', 137), (''KDF_PARAMETER_ERROR'', 148),
    (''KEYS_NOT_SET'', 140), (''MISSING_PARAMETERS'', 124), (''MISSING_PRIVATE_KEY'', 125), (''NOT_A_NIST_PRIME'', 135),
    (''NOT_A_SUPPORTED_NIST_PRIME'', 136), (''NOT_IMPLEMENTED'', 126), (''NOT_INITIALIZED'', 111), (''NO_FIELD_MOD'', 133),
    (''NO_PARAMETERS_SET'', 139), (''PASSED_NULL_PARAMETER'', 134), (''PEER_KEY_ERROR'', 149), (''PKPARAMETERS2GROUP_FAILURE'', 127),
    (''POINT_AT_INFINITY'', 106), (''POINT_IS_NOT_ON_CURVE'', 107), (''SHARED_INFO_ERROR'', 150), (''SLOT_FULL'', 108), (''UNDEFINED_GENERATOR'', 113),
    (''UNDEFINED_ORDER'', 128), (''UNKNOWN_GROUP'', 129), (''UNKNOWN_ORDER'', 114), (''UNSUPPORTED_FIELD'', 131), (''WRONG_CURVE_PARAMETERS'', 145),
    (''WRONG_ORDER'', 130)]"

definition SSL_functions_1 :: code_table where
  "SSL_functions_1 = [(''CHECK_SUITEB_CIPHER_LIST'', 331), (''CLIENT_CERTIFICATE'', 100), (''CLIENT_FINISHED'', 167), (''CLIENT_HELLO'', 101),
    (''CLIENT_MASTER_KEY'', 102), (''D2I_SSL_SESSION'', 103), (''DO_DTLS1_WRITE'', 245), (''DO_SSL3_WRITE'', 104), (''DTLS1_ACCEPT'', 246),
    (''DTLS1_ADD_CERT_TO_BUF'', 295), (''DTLS1_BUFFER_RECORD'', 247), (''DTLS1_CHECK_TIMEOUT_NUM'', 316), (''DTLS1_CLIENT_HELLO'', 248),
    (''DTLS1_CONNECT'', 249), (''DTLS1_ENC'', 250), (''DTLS1_GET_HELLO_VERIFY'', 251), (''DTLS1_GET_MESSAGE'', 252),
    (''DTLS1_GET_MESSAGE_FRAGMENT'', 253), (''DTLS1_GET_RECORD'', 254), (''DTLS1_HANDLE_TIMEOUT'', 297), (''DTLS1_HEARTBEAT'', 305),
    (''DTLS1_OUTPUT_CERT_CHAIN'', 255), (''DTLS1_PREPROCESS_FRAGMENT'', 288), (''DTLS1_PROCESS_BUFFERED_RECORDS'', 424),
    (''DTLS1_PROCESS_OUT_OF_SEQ_MESSAGE'', 256), (''DTLS1_PROCESS_RECORD'', 257), (''DTLS1_READ_BYTES'', 258), (''DTLS1_READ_FAILED'', 259),
    (''DTLS1_SEND_CERTIFICATE_REQUEST'', 260), (''DTLS1_SEND_CLIENT_CERTIFICATE'', 261), (''DTLS1_SEND_CLIENT_KEY_EXCHANGE'', 262),
    (''DTLS1_SEND_CLIENT_VERIFY'', 263), (''DTLS1_SEND_HELLO_VERIFY_REQUEST'', 264), (''DTLS1_SEND_SERVER_CERTIFICATE'', 265),
    (''DTLS1_SEND_SERVER_HELLO'', 266), (''DTLS1_SEND_SERVER_KEY_EXCHANGE'', 267), (''DTLS1_WRITE_APP_DATA_BYTES'', 268),
    (''GET_CLIENT_FINISHED'', 105), (''GET_CLIENT_HELLO'', 106), (''GET_CLIENT_MASTER_KEY'', 107), (''GET_SERVER_FINISHED'', 108),
    (''GET_SERVER_HELLO'', 109), (''GET_SERVER_STATIC_DH_KEY'', 340), (''GET_SERVER_VERIFY'', 110), (''I2D_SSL_SESSION'', 111), (''READ_N'', 112),
    (''REQUEST_CERTIFICATE'', 113), (''SERVER_FINISH'', 239), (''SERVER_HELLO'', 114), (''SERVER_VERIFY'', 240), (''SSL23_ACCEPT'', 115),
    (''SSL23_CLIENT_HELLO'', 116), (''SSL23_CONNECT'', 117), (''SSL23_GET_CLIENT_HELLO'', 118), (''SSL23_GET_SERVER_HELLO'', 119),
    (''SSL23_PEEK'', 237), (''SSL23_READ'', 120), (''SSL23_WRITE'', 121), (''SSL2_ACCEPT'', 122), (''SSL2_CONNECT'', 123), (''SSL2_ENC_INIT'', 124),
    (''SSL2_GENERATE_KEY_MATERIAL'', 241), (''SSL2_PEEK'', 234), (''SSL2_READ'', 125), (''SSL2_READ_INTERNAL'', 236), (''SSL2_SET_CERTIFICATE'', 126),
    (''SSL2_WRITE'', 127), (''SSL3_ACCEPT'', 128), (''SSL3_ADD_CERT_TO_BUF'', 296), (''SSL3_CALLBACK_CTRL'', 233), (''SSL3_CHANGE_CIPHER_STATE'', 129),
    (''SSL3_CHECK_CERT_AND_ALGORITHM'', 130), (''SSL3_CHECK_CLIENT_HELLO'', 304), (''SSL3_CHECK_FINISHED'', 339), (''SSL3_CLIENT_HELLO'', 131),
    (''SSL3_CONNECT'', 132), (''SSL3_CTRL'', 213), (''SSL3_CTX_CTRL'', 133), (''SSL3_DIGEST_CACHED_RECORDS'', 293),
    (''SSL3_DO_CHANGE_CIPHER_SPEC'', 292), (''SSL3_ENC'', 134), (''SSL3_GENERATE_KEY_BLOCK'', 238), (''SSL3_GENERATE_MASTER_SECRET'', 388),
    (''SSL3_GET_CERTIFICATE_REQUEST'', 135), (''SSL3_GET_CERT_STATUS'', 289), (''SSL3_GET_CERT_VERIFY'', 136), (''SSL3_GET_CLIENT_CERTIFICATE'', 137),
    (''SSL3_GET_CLIENT_HELLO'', 138), (''SSL3_GET_CLIENT_KEY_EXCHANGE'', 139), (''SSL3_GET_FINISHED'', 140), (''SSL3_GET_KEY_EXCHANGE'', 141),
    (''SSL3_GET_MESSAGE'', 142), (''SSL3_GET_NEW_SESSION_TICKET'', 283), (''SSL3_GET_NEXT_PROTO'', 306), (''SSL3_GET_RECORD'', 143),
    (''SSL3_GET_SERVER_CERTIFICATE'', 144), (''SSL3_GET_SERVER_DONE'', 145), (''SSL3_GET_SERVER_HELLO'', 146), (''SSL3_HANDSHAKE_MAC'', 285),
    (''SSL3_NEW_SESSION_TICKET'', 287), (''SSL3_OUTPUT_CERT_CHAIN'', 147), (''SSL3_PEEK'', 235), (''SSL3_READ_BYTES'', 148), (''SSL3_READ_N'', 149),
    (''SSL3_SEND_CERTIFICATE_REQUEST'', 150), (''SSL3_SEND_CLIENT_CERTIFICATE'', 151), (''SSL3_SEND_CLIENT_KEY_EXCHANGE'', 152),
    (''SSL3_SEND_CLIENT_VERIFY'', 153), (''SSL3_SEND_SERVER_CERTIFICATE'', 154), (''SSL3_SEND_SERVER_HELLO'', 242),
    (''SSL3_SEND_SERVER_KEY_EXCHANGE'', 155), (''SSL3_SETUP_KEY_BLOCK'', 157), (''SSL3_SETUP_READ_BUFFER'', 156), (''SSL3_SETUP_WRITE_BUFFER'', 291),
    (''SSL3_WRITE_BYTES'', 158), (''SSL3_WRITE_PENDING'', 159), (''SSL_ADD_CERT_CHAIN'', 318), (''SSL_ADD_CERT_TO_BUF'', 319)]"

definition SSL_functions_2 :: code_table where
  "SSL_functions_2 = [(''SSL_ADD_CLIENTHELLO_RENEGOTIATE_EXT'', 298), (''SSL_ADD_CLIENTHELLO_TLSEXT'', 277), (''SSL_ADD_CLIENTHELLO_USE_SRTP_EXT'', 307),
    (''SSL_ADD_DIR_CERT_SUBJECTS_TO_STACK'', 215), (''SSL_ADD_FILE_CERT_SUBJECTS_TO_STACK'', 216), (''SSL_ADD_SERVERHELLO_RENEGOTIATE_EXT'', 299),
    (''SSL_ADD_SERVERHELLO_TLSEXT'', 278), (''SSL_ADD_SERVERHELLO_USE_SRTP_EXT'', 308), (''SSL_BAD_METHOD'', 160), (''SSL_BUILD_CERT_CHAIN'', 332),
    (''SSL_BYTES_TO_CIPHER_LIST'', 161), (''SSL_CERT_DUP'', 221), (''SSL_CERT_INST'', 222), (''SSL_CERT_INSTANTIATE'', 214), (''SSL_CERT_NEW'', 162),
    (''SSL_CHECK_PRIVATE_KEY'', 163), (''SSL_CHECK_SERVERHELLO_TLSEXT'', 280), (''SSL_CHECK_SRVR_ECC_CERT_AND_ALG'', 279),
    (''SSL_CIPHER_PROCESS_RULESTR'', 230), (''SSL_CIPHER_STRENGTH_SORT'', 231), (''SSL_CLEAR'', 164), (''SSL_COMP_ADD_COMPRESSION_METHOD'', 165),
    (''SSL_CONF_CMD'', 334), (''SSL_CREATE_CIPHER_LIST'', 166), (''SSL_CTRL'', 232), (''SSL_CTX_CHECK_PRIVATE_KEY'', 168),
    (''SSL_CTX_MAKE_PROFILES'', 309), (''SSL_CTX_NEW'', 169), (''SSL_CTX_SET_CIPHER_LIST'', 269), (''SSL_CTX_SET_CLIENT_CERT_ENGINE'', 290),
    (''SSL_CTX_SET_PURPOSE'', 226), (''SSL_CTX_SET_SESSION_ID_CONTEXT'', 219), (''SSL_CTX_SET_SSL_VERSION'', 170), (''SSL_CTX_SET_TRUST'', 229),
    (''SSL_CTX_USE_CERTIFICATE'', 171), (''SSL_CTX_USE_CERTIFICATE_ASN1'', 172), (''SSL_CTX_USE_CERTIFICATE_CHAIN_FILE'', 220),
    (''SSL_CTX_USE_CERTIFICATE_FILE'', 173), (''SSL_CTX_USE_PRIVATEKEY'', 174), (''SSL_CTX_USE_PRIVATEKEY_ASN1'', 175),
    (''SSL_CTX_USE_PRIVATEKEY_FILE'', 176), (''SSL_CTX_USE_PSK_IDENTITY_HINT'', 272), (''SSL_CTX_USE_RSAPRIVATEKEY'', 177),
    (''SSL_CTX_USE_RSAPRIVATEKEY_ASN1'', 178), (''SSL_CTX_USE_RSAPRIVATEKEY_FILE'', 179), (''SSL_CTX_USE_SERVERINFO'', 336),
    (''SSL_CTX_USE_SERVERINFO_FILE'', 337), (''SSL_DO_HANDSHAKE'', 180), (''SSL_GET_NEW_SESSION'', 181), (''SSL_GET_PREV_SESSION'', 217),
    (''SSL_GET_SERVER_CERT_INDEX'', 322), (''SSL_GET_SERVER_SEND_CERT'', 182), (''SSL_GET_SERVER_SEND_PKEY'', 317), (''SSL_GET_SIGN_PKEY'', 183),
    (''SSL_INIT_WBIO_BUFFER'', 184), (''SSL_LOAD_CLIENT_CA_FILE'', 185), (''SSL_NEW'', 186), (''SSL_PARSE_CLIENTHELLO_RENEGOTIATE_EXT'', 300),
    (''SSL_PARSE_CLIENTHELLO_TLSEXT'', 302), (''SSL_PARSE_CLIENTHELLO_USE_SRTP_EXT'', 310), (''SSL_PARSE_SERVERHELLO_RENEGOTIATE_EXT'', 301),
    (''SSL_PARSE_SERVERHELLO_TLSEXT'', 303), (''SSL_PARSE_SERVERHELLO_USE_SRTP_EXT'', 311), (''SSL_PEEK'', 270),
    (''SSL_PREPARE_CLIENTHELLO_TLSEXT'', 281), (''SSL_PREPARE_SERVERHELLO_TLSEXT'', 282), (''SSL_READ'', 223), (''SSL_RSA_PRIVATE_DECRYPT'', 187),
    (''SSL_RSA_PUBLIC_ENCRYPT'', 188), (''SSL_SCAN_CLIENTHELLO_TLSEXT'', 320), (''SSL_SCAN_SERVERHELLO_TLSEXT'', 321), (''SSL_SESSION_DUP'', 348),
    (''SSL_SESSION_NEW'', 189), (''SSL_SESSION_PRINT_FP'', 190), (''SSL_SESSION_SET1_ID_CONTEXT'', 312), (''SSL_SESS_CERT_NEW'', 225),
    (''SSL_SET_CERT'', 191), (''SSL_SET_CIPHER_LIST'', 271), (''SSL_SET_FD'', 192), (''SSL_SET_PKEY'', 193), (''SSL_SET_PURPOSE'', 227),
    (''SSL_SET_RFD'', 194), (''SSL_SET_SESSION'', 195), (''SSL_SET_SESSION_ID_CONTEXT'', 218), (''SSL_SET_SESSION_TICKET_EXT'', 294),
    (''SSL_SET_TRUST'', 228), (''SSL_SET_WFD'', 196), (''SSL_SHUTDOWN'', 224), (''SSL_SRP_CTX_INIT'', 313), (''SSL_UNDEFINED_CONST_FUNCTION'', 243),
    (''SSL_UNDEFINED_FUNCTION'', 197), (''SSL_UNDEFINED_VOID_FUNCTION'', 244), (''SSL_USE_CERTIFICATE'', 198), (''SSL_USE_CERTIFICATE_ASN1'', 199),
    (''SSL_USE_CERTIFICATE_FILE'', 200), (''SSL_USE_PRIVATEKEY'', 201), (''SSL_USE_PRIVATEKEY_ASN1'', 202), (''SSL_USE_PRIVATEKEY_FILE'', 203),
    (''SSL_USE_PSK_IDENTITY_HINT'', 273), (''SSL_USE_RSAPRIVATEKEY'', 204), (''SSL_USE_RSAPRIVATEKEY_ASN1'', 205),
    (''SSL_USE_RSAPRIVATEKEY_FILE'', 206), (''SSL_VERIFY_CERT_CHAIN'', 207), (''SSL_WRITE'', 208), (''TLS12_CHECK_PEER_SIGALG'', 333),
    (''TLS1_CERT_VERIFY_MAC'', 286), (''TLS1_CHANGE_CIPHER_STATE'', 209), (''TLS1_CHECK_SERVERHELLO_TLSEXT'', 274), (''TLS1_ENC'', 210),
    (''TLS1_EXPORT_KEYING_MATERIAL'', 314), (''TLS1_GET_CURVELIST'', 338), (''TLS1_HEARTBEAT'', 315), (''TLS1_PREPARE_CLIENTHELLO_TLSEXT'', 275),
    (''TLS1_PREPARE_SERVERHELLO_TLSEXT'', 276), (''TLS1_PRF'', 284), (''TLS1_SETUP_KEY_BLOCK'', 211), (''TLS1_SET_SERVER_SIGALGS'', 335),
    (''WRITE_PENDING'', 212)]"

definition SSL_functions :: code_table where
  "SSL_functions = SSL_functions_1 @ SSL_functions_2"

definition SSL_reasons_1 :: code_table where
  "SSL_reasons_1 = [(''APP_DATA_IN_HANDSHAKE'', 100), (''ATTEMPT_TO_REUSE_SESSION_IN_DIFFERENT_CONTEXT'', 272), (''BAD_ALERT_RECORD'', 101),
    (''BAD_AUTHENTICATION_TYPE'', 102), (''BAD_CHANGE_CIPHER_SPEC'', 103), (''BAD_CHECKSUM'', 104), (''BAD_DATA'', 390),
    (''BAD_DATA_RETURNED_BY_CALLBACK'', 106), (''BAD_DECOMPRESSION'', 107), (''BAD_DH_G_LENGTH'', 108), (''BAD_DH_G_VALUE'', 375),
    (''BAD_DH_PUB_KEY_LENGTH'', 109), (''BAD_DH_PUB_KEY_VALUE'', 393), (''BAD_DH_P_LENGTH'', 110), (''BAD_DH_P_VALUE'', 395),
    (''BAD_DIGEST_LENGTH'', 111), (''BAD_DSA_SIGNATURE'', 112), (''BAD_ECC_CERT'', 304), (''BAD_ECDSA_SIGNATURE'', 305), (''BAD_ECPOINT'', 306),
    (''BAD_HANDSHAKE_LENGTH'', 332), (''BAD_HELLO_REQUEST'', 105), (''BAD_LENGTH'', 271), (''BAD_MAC_DECODE'', 113), (''BAD_MAC_LENGTH'', 333),
    (''BAD_MESSAGE_TYPE'', 114), (''BAD_PACKET_LENGTH'', 115), (''BAD_PROTOCOL_VERSION_NUMBER'', 116), (''BAD_PSK_IDENTITY_HINT_LENGTH'', 316),
    (''BAD_RESPONSE_ARGUMENT'', 117), (''BAD_RSA_DECRYPT'', 118), (''BAD_RSA_ENCRYPT'', 119), (''BAD_RSA_E_LENGTH'', 120),
    (''BAD_RSA_MODULUS_LENGTH'', 121), (''BAD_RSA_SIGNATURE'', 122), (''BAD_SIGNATURE'', 123), (''BAD_SRP_A_LENGTH'', 347),
    (''BAD_SRP_B_LENGTH'', 348), (''BAD_SRP_G_LENGTH'', 349), (''BAD_SRP_N_LENGTH'', 350), (''BAD_SRP_PARAMETERS'', 371), (''BAD_SRP_S_LENGTH'', 351),
    (''BAD_SRTP_MKI_VALUE'', 352), (''BAD_SRTP_PROTECTION_PROFILE_LIST'', 353), (''BAD_SSL_FILETYPE'', 124), (''BAD_SSL_SESSION_ID_LENGTH'', 125),
    (''BAD_STATE'', 126), (''BAD_VALUE'', 384), (''BAD_WRITE_RETRY'', 127), (''BIO_NOT_SET'', 128), (''BLOCK_CIPHER_PAD_IS_WRONG'', 129),
    (''BN_LIB'', 130), (''CA_DN_LENGTH_MISMATCH'', 131), (''CA_DN_TOO_LONG'', 132), (''CCS_RECEIVED_EARLY'', 133),
    (''CERTIFICATE_VERIFY_FAILED'', 134), (''CERT_CB_ERROR'', 377), (''CERT_LENGTH_MISMATCH'', 135), (''CHALLENGE_IS_DIFFERENT'', 136),
    (''CIPHER_CODE_WRONG_LENGTH'', 137), (''CIPHER_OR_HASH_UNAVAILABLE'', 138), (''CIPHER_TABLE_SRC_ERROR'', 139), (''CLIENTHELLO_TLSEXT'', 226),
    (''COMPRESSED_LENGTH_TOO_LONG'', 140), (''COMPRESSION_DISABLED'', 343), (''COMPRESSION_FAILURE'', 141),
    (''COMPRESSION_ID_NOT_WITHIN_PRIVATE_RANGE'', 307), (''COMPRESSION_LIBRARY_ERROR'', 142), (''CONNECTION_ID_IS_DIFFERENT'', 143),
    (''CONNECTION_TYPE_NOT_SET'', 144), (''COOKIE_MISMATCH'', 308), (''DATA_BETWEEN_CCS_AND_FINISHED'', 145), (''DATA_LENGTH_TOO_LONG'', 146),
    (''DECRYPTION_FAILED'', 147), (''DECRYPTION_FAILED_OR_BAD_RECORD_MAC'', 281), (''DH_KEY_TOO_SMALL'', 372),
    (''DH_PUBLIC_VALUE_LENGTH_IS_WRONG'', 148), (''DIGEST_CHECK_FAILED'', 149), (''DTLS_MESSAGE_TOO_BIG'', 334), (''DUPLICATE_COMPRESSION_ID'', 309),
    (''ECC_CERT_NOT_FOR_KEY_AGREEMENT'', 317), (''ECC_CERT_NOT_FOR_SIGNING'', 318), (''ECC_CERT_SHOULD_HAVE_RSA_SIGNATURE'', 322),
    (''ECC_CERT_SHOULD_HAVE_SHA1_SIGNATURE'', 323), (''ECDH_REQUIRED_FOR_SUITEB_MODE'', 374), (''ECGROUP_TOO_LARGE_FOR_CIPHER'', 310),
    (''EMPTY_SRTP_PROTECTION_PROFILE_LIST'', 354), (''ENCRYPTED_LENGTH_TOO_LONG'', 150), (''ERROR_GENERATING_TMP_RSA_KEY'', 282),
    (''ERROR_IN_RECEIVED_CIPHER_LIST'', 151), (''EXCESSIVE_MESSAGE_SIZE'', 152), (''EXTRA_DATA_IN_MESSAGE'', 153), (''GOT_A_FIN_BEFORE_A_CCS'', 154),
    (''GOT_NEXT_PROTO_BEFORE_A_CCS'', 355), (''GOT_NEXT_PROTO_WITHOUT_EXTENSION'', 356), (''HTTPS_PROXY_REQUEST'', 155), (''HTTP_REQUEST'', 156),
    (''ILLEGAL_PADDING'', 283), (''ILLEGAL_SUITEB_DIGEST'', 380), (''INAPPROPRIATE_FALLBACK'', 373), (''INCONSISTENT_COMPRESSION'', 340),
    (''INVALID_CHALLENGE_LENGTH'', 158), (''INVALID_COMMAND'', 280), (''INVALID_COMPRESSION_ALGORITHM'', 341), (''INVALID_NULL_CMD_NAME'', 385),
    (''INVALID_PURPOSE'', 278), (''INVALID_SERVERINFO_DATA'', 388), (''INVALID_SRP_USERNAME'', 357), (''INVALID_STATUS_RESPONSE'', 328),
    (''INVALID_TICKET_KEYS_LENGTH'', 325), (''INVALID_TRUST'', 279), (''KEY_ARG_TOO_LONG'', 284), (''KRB5'', 285), (''KRB5_C_CC_PRINC'', 286),
    (''KRB5_C_GET_CRED'', 287), (''KRB5_C_INIT'', 288)]"

definition SSL_reasons_2 :: code_table where
  "SSL_reasons_2 = [(''KRB5_C_MK_REQ'', 289), (''KRB5_S_BAD_TICKET'', 290), (''KRB5_S_INIT'', 291), (''KRB5_S_RD_REQ'', 292),
    (''KRB5_S_TKT_EXPIRED'', 293), (''KRB5_S_TKT_NYV'', 294), (''KRB5_S_TKT_SKEW'', 295), (''LENGTH_MISMATCH'', 159), (''LENGTH_TOO_SHORT'', 160),
    (''LIBRARY_BUG'', 274), (''LIBRARY_HAS_NO_CIPHERS'', 161), (''MESSAGE_TOO_LONG'', 296), (''MISSING_DH_DSA_CERT'', 162), (''MISSING_DH_KEY'', 163),
    (''MISSING_DH_RSA_CERT'', 164), (''MISSING_DSA_SIGNING_CERT'', 165), (''MISSING_ECDH_CERT'', 382), (''MISSING_ECDSA_SIGNING_CERT'', 381),
    (''MISSING_EXPORT_TMP_DH_KEY'', 166), (''MISSING_EXPORT_TMP_RSA_KEY'', 167), (''MISSING_RSA_CERTIFICATE'', 168),
    (''MISSING_RSA_ENCRYPTING_CERT'', 169), (''MISSING_RSA_SIGNING_CERT'', 170), (''MISSING_SRP_PARAM'', 358), (''MISSING_TMP_DH_KEY'', 171),
    (''MISSING_TMP_ECDH_KEY'', 311), (''MISSING_TMP_RSA_KEY'', 172), (''MISSING_TMP_RSA_PKEY'', 173), (''MISSING_VERIFY_MESSAGE'', 174),
    (''MULTIPLE_SGC_RESTARTS'', 346), (''NON_SSLV2_INITIAL_PACKET'', 175), (''NO_CERTIFICATES_RETURNED'', 176), (''NO_CERTIFICATE_ASSIGNED'', 177),
    (''NO_CERTIFICATE_RETURNED'', 178), (''NO_CERTIFICATE_SET'', 179), (''NO_CERTIFICATE_SPECIFIED'', 180), (''NO_CIPHERS_AVAILABLE'', 181),
    (''NO_CIPHERS_PASSED'', 182), (''NO_CIPHERS_SPECIFIED'', 183), (''NO_CIPHER_LIST'', 184), (''NO_CIPHER_MATCH'', 185),
    (''NO_CLIENT_CERT_METHOD'', 331), (''NO_CLIENT_CERT_RECEIVED'', 186), (''NO_COMPRESSION_SPECIFIED'', 187),
    (''NO_GOST_CERTIFICATE_SENT_BY_PEER'', 330), (''NO_METHOD_SPECIFIED'', 188), (''NO_PEM_EXTENSIONS'', 389), (''NO_PRIVATEKEY'', 189),
    (''NO_PRIVATE_KEY_ASSIGNED'', 190), (''NO_PROTOCOLS_AVAILABLE'', 191), (''NO_PUBLICKEY'', 192), (''NO_RENEGOTIATION'', 339),
    (''NO_REQUIRED_DIGEST'', 324), (''NO_SHARED_CIPHER'', 193), (''NO_SHARED_SIGATURE_ALGORITHMS'', 376), (''NO_SRTP_PROFILES'', 359),
    (''NO_VERIFY_CALLBACK'', 194), (''NULL_SSL_CTX'', 195), (''NULL_SSL_METHOD_PASSED'', 196), (''OLD_SESSION_CIPHER_NOT_RETURNED'', 197),
    (''OLD_SESSION_COMPRESSION_ALGORITHM_NOT_RETURNED'', 344), (''ONLY_DTLS_1_2_ALLOWED_IN_SUITEB_MODE'', 387),
    (''ONLY_TLS_1_2_ALLOWED_IN_SUITEB_MODE'', 379), (''ONLY_TLS_ALLOWED_IN_FIPS_MODE'', 297), (''OPAQUE_PRF_INPUT_TOO_LONG'', 327),
    (''PACKET_LENGTH_TOO_LONG'', 198), (''PARSE_TLSEXT'', 227), (''PATH_TOO_LONG'', 270), (''PEER_DID_NOT_RETURN_A_CERTIFICATE'', 199),
    (''PEER_ERROR'', 200), (''PEER_ERROR_CERTIFICATE'', 201), (''PEER_ERROR_NO_CERTIFICATE'', 202), (''PEER_ERROR_NO_CIPHER'', 203),
    (''PEER_ERROR_UNSUPPORTED_CERTIFICATE_TYPE'', 204), (''PEM_NAME_BAD_PREFIX'', 391), (''PEM_NAME_TOO_SHORT'', 392),
    (''PRE_MAC_LENGTH_TOO_LONG'', 205), (''PROBLEMS_MAPPING_CIPHER_FUNCTIONS'', 206), (''PROTOCOL_IS_SHUTDOWN'', 207),
    (''PSK_IDENTITY_NOT_FOUND'', 223), (''PSK_NO_CLIENT_CB'', 224), (''PSK_NO_SERVER_CB'', 225), (''PUBLIC_KEY_ENCRYPT_ERROR'', 208),
    (''PUBLIC_KEY_IS_NOT_RSA'', 209), (''PUBLIC_KEY_NOT_RSA'', 210), (''READ_BIO_NOT_SET'', 211), (''READ_TIMEOUT_EXPIRED'', 312),
    (''READ_WRONG_PACKET_TYPE'', 212), (''RECORD_LENGTH_MISMATCH'', 213), (''RECORD_TOO_LARGE'', 214), (''RECORD_TOO_SMALL'', 298),
    (''RENEGOTIATE_EXT_TOO_LONG'', 335), (''RENEGOTIATION_ENCODING_ERR'', 336), (''RENEGOTIATION_MISMATCH'', 337), (''REQUIRED_CIPHER_MISSING'', 215),
    (''REQUIRED_COMPRESSSION_ALGORITHM_MISSING'', 342), (''REUSE_CERT_LENGTH_NOT_ZERO'', 216), (''REUSE_CERT_TYPE_NOT_ZERO'', 217),
    (''REUSE_CIPHER_LIST_NOT_ZERO'', 218), (''SCSV_RECEIVED_WHEN_RENEGOTIATING'', 345), (''SERVERHELLO_TLSEXT'', 275),
    (''SESSION_ID_CONTEXT_UNINITIALIZED'', 277), (''SHORT_READ'', 219), (''SHUTDOWN_WHILE_IN_INIT'', 407), (''SIGNATURE_ALGORITHMS_ERROR'', 360),
    (''SIGNATURE_FOR_NON_SIGNING_CERTIFICATE'', 220), (''SRP_A_CALC'', 361), (''SRTP_COULD_NOT_ALLOCATE_PROFILES'', 362),
    (''SRTP_PROTECTION_PROFILE_LIST_TOO_LONG'', 363), (''SRTP_UNKNOWN_PROTECTION_PROFILE'', 364), (''SSL23_DOING_SESSION_ID_REUSE'', 221),
    (''SSL2_CONNECTION_ID_TOO_LONG'', 299), (''SSL3_EXT_INVALID_ECPOINTFORMAT'', 321), (''SSL3_EXT_INVALID_SERVERNAME'', 319),
    (''SSL3_EXT_INVALID_SERVERNAME_TYPE'', 320), (''SSL3_SESSION_ID_TOO_LONG'', 300), (''SSL3_SESSION_ID_TOO_SHORT'', 222)]"

definition SSL_reasons_3 :: code_table where
  "SSL_reasons_3 = [(''SSLV3_ALERT_BAD_CERTIFICATE'', 1042), (''SSLV3_ALERT_BAD_RECORD_MAC'', 1020), (''SSLV3_ALERT_CERTIFICATE_EXPIRED'', 1045),
    (''SSLV3_ALERT_CERTIFICATE_REVOKED'', 1044), (''SSLV3_ALERT_CERTIFICATE_UNKNOWN'', 1046), (''SSLV3_ALERT_DECOMPRESSION_FAILURE'', 1030),
    (''SSLV3_ALERT_HANDSHAKE_FAILURE'', 1040), (''SSLV3_ALERT_ILLEGAL_PARAMETER'', 1047), (''SSLV3_ALERT_NO_CERTIFICATE'', 1041),
    (''SSLV3_ALERT_UNEXPECTED_MESSAGE'', 1010), (''SSLV3_ALERT_UNSUPPORTED_CERTIFICATE'', 1043), (''SSL_CTX_HAS_NO_DEFAULT_SSL_VERSION'', 228),
    (''SSL_HANDSHAKE_FAILURE'', 229), (''SSL_LIBRARY_HAS_NO_CIPHERS'', 230), (''SSL_SESSION_ID_CALLBACK_FAILED'', 301),
    (''SSL_SESSION_ID_CONFLICT'', 302), (''SSL_SESSION_ID_CONTEXT_TOO_LONG'', 273), (''SSL_SESSION_ID_HAS_BAD_LENGTH'', 303),
    (''SSL_SESSION_ID_IS_DIFFERENT'', 231), (''TLSV1_ALERT_ACCESS_DENIED'', 1049), (''TLSV1_ALERT_DECODE_ERROR'', 1050),
    (''TLSV1_ALERT_DECRYPTION_FAILED'', 1021), (''TLSV1_ALERT_DECRYPT_ERROR'', 1051), (''TLSV1_ALERT_EXPORT_RESTRICTION'', 1060),
    (''TLSV1_ALERT_INAPPROPRIATE_FALLBACK'', 1086), (''TLSV1_ALERT_INSUFFICIENT_SECURITY'', 1071), (''TLSV1_ALERT_INTERNAL_ERROR'', 1080),
    (''TLSV1_ALERT_NO_RENEGOTIATION'', 1100), (''TLSV1_ALERT_PROTOCOL_VERSION'', 1070), (''TLSV1_ALERT_RECORD_OVERFLOW'', 1022),
    (''TLSV1_ALERT_UNKNOWN_CA'', 1048), (''TLSV1_ALERT_USER_CANCELLED'', 1090), (''TLSV1_BAD_CERTIFICATE_HASH_VALUE'', 1114),
    (''TLSV1_BAD_CERTIFICATE_STATUS_RESPONSE'', 1113), (''TLSV1_CERTIFICATE_UNOBTAINABLE'', 1111), (''TLSV1_UNRECOGNIZED_NAME'', 1112),
    (''TLSV1_UNSUPPORTED_EXTENSION'', 1110)]"

definition SSL_reasons_4 :: code_table where
  "SSL_reasons_4 = [(''TLS_CLIENT_CERT_REQ_WITH_ANON_CIPHER'', 232), (''TLS_HEARTBEAT_PEER_DOESNT_ACCEPT'', 365), (''TLS_HEARTBEAT_PENDING'', 366),
    (''TLS_ILLEGAL_EXPORTER_LABEL'', 367), (''TLS_INVALID_ECPOINTFORMAT_LIST'', 157), (''TLS_PEER_DID_NOT_RESPOND_WITH_CERTIFICATE_LIST'', 233),
    (''TLS_RSA_ENCRYPTED_VALUE_LENGTH_IS_WRONG'', 234), (''TOO_MANY_WARN_ALERTS'', 409), (''TRIED_TO_USE_UNSUPPORTED_CIPHER'', 235),
    (''UNABLE_TO_DECODE_DH_CERTS'', 236), (''UNABLE_TO_DECODE_ECDH_CERTS'', 313), (''UNABLE_TO_EXTRACT_PUBLIC_KEY'', 237),
    (''UNABLE_TO_FIND_DH_PARAMETERS'', 238), (''UNABLE_TO_FIND_ECDH_PARAMETERS'', 314), (''UNABLE_TO_FIND_PUBLIC_KEY_PARAMETERS'', 239),
    (''UNABLE_TO_FIND_SSL_METHOD'', 240), (''UNABLE_TO_LOAD_SSL2_MD5_ROUTINES'', 241), (''UNABLE_TO_LOAD_SSL3_MD5_ROUTINES'', 242),
    (''UNABLE_TO_LOAD_SSL3_SHA1_ROUTINES'', 243), (''UNEXPECTED_MESSAGE'', 244), (''UNEXPECTED_RECORD'', 245), (''UNINITIALIZED'', 276),
    (''UNKNOWN_ALERT_TYPE'', 246), (''UNKNOWN_CERTIFICATE_TYPE'', 247), (''UNKNOWN_CIPHER_RETURNED'', 248), (''UNKNOWN_CIPHER_TYPE'', 249),
    (''UNKNOWN_CMD_NAME'', 386), (''UNKNOWN_DIGEST'', 368), (''UNKNOWN_KEY_EXCHANGE_TYPE'', 250), (''UNKNOWN_PKEY_TYPE'', 251),
    (''UNKNOWN_PROTOCOL'', 252), (''UNKNOWN_REMOTE_ERROR_TYPE'', 253), (''UNKNOWN_SSL_VERSION'', 254), (''UNKNOWN_STATE'', 255),
    (''UNSAFE_LEGACY_RENEGOTIATION_DISABLED'', 338), (''UNSUPPORTED_CIPHER'', 256), (''UNSUPPORTED_COMPRESSION_ALGORITHM'', 257),
    (''UNSUPPORTED_DIGEST_TYPE'', 326), (''UNSUPPORTED_ELLIPTIC_CURVE'', 315), (''UNSUPPORTED_PROTOCOL'', 258), (''UNSUPPORTED_SSL_VERSION'', 259),
    (''UNSUPPORTED_STATUS_TYPE'', 329), (''USE_SRTP_NOT_NEGOTIATED'', 369), (''WRITE_BIO_NOT_SET'', 260), (''WRONG_CERTIFICATE_TYPE'', 383),
    (''WRONG_CIPHER_RETURNED'', 261), (''WRONG_CURVE'', 378), (''WRONG_MESSAGE_TYPE'', 262), (''WRONG_NUMBER_OF_KEY_BITS'', 263),
    (''WRONG_SIGNATURE_LENGTH'', 264), (''WRONG_SIGNATURE_SIZE'', 265), (''WRONG_SIGNATURE_TYPE'', 370), (''WRONG_SSL_VERSION'', 266),
    (''WRONG_VERSION_NUMBER'', 267), (''X509_LIB'', 268), (''X509_VERIFICATION_SETUP_PROBLEMS'', 269)]"

definition SSL_reasons :: code_table where
  "SSL_reasons = SSL_reasons_1 @ SSL_reasons_2 @ SSL_reasons_3 @ SSL_reasons_4"

definition BIO_functions :: code_table where
  "BIO_functions = [(''ACPT_STATE'', 100), (''BIO_ACCEPT'', 101), (''BIO_BER_GET_HEADER'', 102), (''BIO_CALLBACK_CTRL'', 131), (''BIO_CTRL'', 103),
    (''BIO_GETHOSTBYNAME'', 120), (''BIO_GETS'', 104), (''BIO_GET_ACCEPT_SOCKET'', 105), (''BIO_GET_HOST_IP'', 106), (''BIO_GET_PORT'', 107),
    (''BIO_MAKE_PAIR'', 121), (''BIO_NEW'', 108), (''BIO_NEW_FILE'', 109), (''BIO_NEW_MEM_BUF'', 126), (''BIO_NREAD'', 123), (''BIO_NREAD0'', 124),
    (''BIO_NWRITE'', 125), (''BIO_NWRITE0'', 122), (''BIO_PUTS'', 110), (''BIO_READ'', 111), (''BIO_SOCK_INIT'', 112), (''BIO_WRITE'', 113),
    (''BUFFER_CTRL'', 114), (''CONN_CTRL'', 127), (''CONN_STATE'', 115), (''DGRAM_SCTP_READ'', 132), (''DGRAM_SCTP_WRITE'', 133), (''FILE_CTRL'', 116),
    (''FILE_READ'', 130), (''LINEBUFFER_CTRL'', 129), (''MEM_READ'', 128), (''MEM_WRITE'', 117), (''SSL_NEW'', 118), (''WSASTARTUP'', 119)]"

definition BIO_reasons :: code_table where
  "BIO_reasons = [(''ACCEPT_ERROR'', 100), (''BAD_FOPEN_MODE'', 101), (''BAD_HOSTNAME_LOOKUP'', 102), (''BROKEN_PIPE'', 124),
    (''CONNECT_ERROR'', 103), (''EOF_ON_MEMORY_BIO'', 127), (''ERROR_SETTING_NBIO'', 104), (''ERROR_SETTING_NBIO_ON_ACCEPTED_SOCKET'', 105),
    (''ERROR_SETTING_NBIO_ON_ACCEPT_SOCKET'', 106), (''GETHOSTBYNAME_ADDR_IS_NOT_AF_INET'', 107), (''INVALID_ARGUMENT'', 125),
    (''INVALID_IP_ADDRESS'', 108), (''IN_USE'', 123), (''KEEPALIVE'', 109), (''NBIO_CONNECT_ERROR'', 110), (''NO_ACCEPT_PORT_SPECIFIED'', 111),
    (''NO_HOSTNAME_SPECIFIED'', 112), (''NO_PORT_DEFINED'', 113), (''NO_PORT_SPECIFIED'', 114), (''NO_SUCH_FILE'', 128), (''NULL_PARAMETER'', 115),
    (''TAG_MISMATCH'', 116), (''UNABLE_TO_BIND_SOCKET'', 117), (''UNABLE_TO_CREATE_SOCKET'', 118), (''UNABLE_TO_LISTEN_SOCKET'', 119),
    (''UNINITIALIZED'', 120), (''UNSUPPORTED_METHOD'', 121), (''WRITE_TO_READ_ONLY_BIO'', 126), (''WSASTARTUP'', 122)]"

definition PKCS7_functions :: code_table where
  "PKCS7_functions = [(''B64_READ_PKCS7'', 120), (''B64_WRITE_PKCS7'', 121), (''DO_PKCS7_SIGNED_ATTRIB'', 136), (''I2D_PKCS7_BIO_STREAM'', 140),
    (''PKCS7_ADD0_ATTRIB_SIGNING_TIME'', 135), (''PKCS7_ADD_ATTRIB_SMIMECAP'', 118), (''PKCS7_ADD_CERTIFICATE'', 100), (''PKCS7_ADD_CRL'', 101),
    (''PKCS7_ADD_RECIPIENT_INFO'', 102), (''PKCS7_ADD_SIGNATURE'', 131), (''PKCS7_ADD_SIGNER'', 103), (''PKCS7_BIO_ADD_DIGEST'', 125),
    (''PKCS7_COPY_EXISTING_DIGEST'', 138), (''PKCS7_CTRL'', 104), (''PKCS7_DATADECODE'', 112), (''PKCS7_DATAFINAL'', 128), (''PKCS7_DATAINIT'', 105),
    (''PKCS7_DATASIGN'', 106), (''PKCS7_DATAVERIFY'', 107), (''PKCS7_DECRYPT'', 114), (''PKCS7_DECRYPT_RINFO'', 133), (''PKCS7_ENCODE_RINFO'', 132),
    (''PKCS7_ENCRYPT'', 115), (''PKCS7_FINAL'', 134), (''PKCS7_FIND_DIGEST'', 127), (''PKCS7_GET0_SIGNERS'', 124), (''PKCS7_RECIP_INFO_SET'', 130),
    (''PKCS7_SET_CIPHER'', 108), (''PKCS7_SET_CONTENT'', 109), (''PKCS7_SET_DIGEST'', 126), (''PKCS7_SET_TYPE'', 110), (''PKCS7_SIGN'', 116),
    (''PKCS7_SIGNATUREVERIFY'', 113), (''PKCS7_SIGNER_INFO_SET'', 129), (''PKCS7_SIGNER_INFO_SIGN'', 139), (''PKCS7_SIGN_ADD_SIGNER'', 137),
    (''PKCS7_SIMPLE_SMIMECAP'', 119), (''PKCS7_VERIFY'', 117), (''SMIME_READ_PKCS7'', 122), (''SMIME_TEXT'', 123)]"

definition PKCS7_reasons :: code_table where
  "PKCS7_reasons = [(''CERTIFICATE_VERIFY_ERROR'', 117), (''CIPHER_HAS_NO_OBJECT_IDENTIFIER'', 144), (''CIPHER_NOT_INITIALIZED'', 116),
    (''CONTENT_AND_DATA_PRESENT'', 118), (''CTRL_ERROR'', 152), (''DECODE_ERROR'', 130), (''DECRYPTED_KEY_IS_WRONG_LENGTH'', 100),
    (''DECRYPT_ERROR'', 119), (''DIGEST_FAILURE'', 101), (''ENCRYPTION_CTRL_FAILURE'', 149), (''ENCRYPTION_NOT_SUPPORTED_FOR_THIS_KEY_TYPE'', 150),
    (''ERROR_ADDING_RECIPIENT'', 120), (''ERROR_SETTING_CIPHER'', 121), (''INVALID_MIME_TYPE'', 131), (''INVALID_NULL_POINTER'', 143),
    (''INVALID_SIGNED_DATA_TYPE'', 155), (''MIME_NO_CONTENT_TYPE'', 132), (''MIME_PARSE_ERROR'', 133), (''MIME_SIG_PARSE_ERROR'', 134),
    (''MISSING_CERIPEND_INFO'', 103), (''NO_CONTENT'', 122), (''NO_CONTENT_TYPE'', 135), (''NO_DEFAULT_DIGEST'', 151),
    (''NO_MATCHING_DIGEST_TYPE_FOUND'', 154), (''NO_MULTIPART_BODY_FAILURE'', 136), (''NO_MULTIPART_BOUNDARY'', 137),
    (''NO_RECIPIENT_MATCHES_CERTIFICATE'', 115), (''NO_RECIPIENT_MATCHES_KEY'', 146), (''NO_SIGNATURES_ON_DATA'', 123), (''NO_SIGNERS'', 142),
    (''NO_SIG_CONTENT_TYPE'', 138), (''OPERATION_NOT_SUPPORTED_ON_THIS_TYPE'', 104), (''PKCS7_ADD_SIGNATURE_ERROR'', 124),
    (''PKCS7_ADD_SIGNER_ERROR'', 153), (''PKCS7_DATAFINAL'', 126), (''PKCS7_DATAFINAL_ERROR'', 125), (''PKCS7_DATASIGN'', 145),
    (''PKCS7_PARSE_ERROR'', 139), (''PKCS7_SIG_PARSE_ERROR'', 140), (''PRIVATE_KEY_DOES_NOT_MATCH_CERTIFICATE'', 127), (''SIGNATURE_FAILURE'', 105),
    (''SIGNER_CERTIFICATE_NOT_FOUND'', 128), (''SIGNING_CTRL_FAILURE'', 147), (''SIGNING_NOT_SUPPORTED_FOR_THIS_KEY_TYPE'', 148),
    (''SIG_INVALID_MIME_TYPE'', 141), (''SMIME_TEXT_ERROR'', 129), (''UNABLE_TO_FIND_CERTIFICATE'', 106), (''UNABLE_TO_FIND_MEM_BIO'', 107),
    (''UNABLE_TO_FIND_MESSAGE_DIGEST'', 108), (''UNKNOWN_DIGEST_TYPE'', 109), (''UNKNOWN_OPERATION'', 110), (''UNSUPPORTED_CIPHER_TYPE'', 111),
    (''UNSUPPORTED_CONTENT_TYPE'', 112), (''WRONG_CONTENT_TYPE'', 113), (''WRONG_PKCS7_TYPE'', 114)]"

definition X509V3_functions :: code_table where
  "X509V3_functions = [(''A2I_GENERAL_NAME'', 164), (''ASIDENTIFIERCHOICE_CANONIZE'', 161), (''ASIDENTIFIERCHOICE_IS_CANONICAL'', 162),
    (''COPY_EMAIL'', 122), (''COPY_ISSUER'', 123), (''DO_DIRNAME'', 144), (''DO_EXT_CONF'', 124), (''DO_EXT_I2D'', 135), (''DO_EXT_NCONF'', 151),
    (''DO_I2V_NAME_CONSTRAINTS'', 148), (''GNAMES_FROM_SECTNAME'', 156), (''HEX_TO_STRING'', 111), (''I2S_ASN1_ENUMERATED'', 121),
    (''I2S_ASN1_IA5STRING'', 149), (''I2S_ASN1_INTEGER'', 120), (''I2V_AUTHORITY_INFO_ACCESS'', 138), (''NOTICE_SECTION'', 132), (''NREF_NOS'', 133),
    (''POLICY_SECTION'', 131), (''PROCESS_PCI_VALUE'', 150), (''R2I_CERTPOL'', 130), (''R2I_PCI'', 155), (''S2I_ASN1_IA5STRING'', 100),
    (''S2I_ASN1_INTEGER'', 108), (''S2I_ASN1_OCTET_STRING'', 112), (''S2I_ASN1_SKEY_ID'', 114), (''S2I_SKEY_ID'', 115), (''SET_DIST_POINT_NAME'', 158),
    (''STRING_TO_HEX'', 113), (''SXNET_ADD_ID_ASC'', 125), (''SXNET_ADD_ID_INTEGER'', 126), (''SXNET_ADD_ID_ULONG'', 127), (''SXNET_GET_ID_ASC'', 128),
    (''SXNET_GET_ID_ULONG'', 129), (''V2I_ASIDENTIFIERS'', 163), (''V2I_ASN1_BIT_STRING'', 101), (''V2I_AUTHORITY_INFO_ACCESS'', 139),
    (''V2I_AUTHORITY_KEYID'', 119), (''V2I_BASIC_CONSTRAINTS'', 102), (''V2I_CRLD'', 134), (''V2I_EXTENDED_KEY_USAGE'', 103),
    (''V2I_GENERAL_NAMES'', 118), (''V2I_GENERAL_NAME_EX'', 117), (''V2I_IDP'', 157), (''V2I_IPADDRBLOCKS'', 159), (''V2I_ISSUER_ALT'', 153),
    (''V2I_NAME_CONSTRAINTS'', 147), (''V2I_POLICY_CONSTRAINTS'', 146), (''V2I_POLICY_MAPPINGS'', 145), (''V2I_SUBJECT_ALT'', 154),
    (''V3_ADDR_VALIDATE_PATH_INTERNAL'', 160), (''V3_GENERIC_EXTENSION'', 116), (''X509V3_ADD1_I2D'', 140), (''X509V3_ADD_VALUE'', 105),
    (''X509V3_EXT_ADD'', 104), (''X509V3_EXT_ADD_ALIAS'', 106), (''X509V3_EXT_CONF'', 107), (''X509V3_EXT_FREE'', 165), (''X509V3_EXT_I2D'', 136),
    (''X509V3_EXT_NCONF'', 152), (''X509V3_GET_SECTION'', 142), (''X509V3_GET_STRING'', 143), (''X509V3_GET_VALUE_BOOL'', 110),
    (''X509V3_PARSE_LIST'', 109), (''X509_PURPOSE_ADD'', 137), (''X509_PURPOSE_SET'', 141)]"

definition X509V3_reasons :: code_table where
  "X509V3_reasons = [(''BAD_IP_ADDRESS'', 118), (''BAD_OBJECT'', 119), (''BN_DEC2BN_ERROR'', 100), (''BN_TO_ASN1_INTEGER_ERROR'', 101),
    (''CANNOT_FIND_FREE_FUNCTION'', 168), (''DIRNAME_ERROR'', 149), (''DISTPOINT_ALREADY_SET'', 160), (''DUPLICATE_ZONE_ID'', 133),
    (''ERROR_CONVERTING_ZONE'', 131), (''ERROR_CREATING_EXTENSION'', 144), (''ERROR_IN_EXTENSION'', 128), (''EXPECTED_A_SECTION_NAME'', 137),
    (''EXTENSION_EXISTS'', 145), (''EXTENSION_NAME_ERROR'', 115), (''EXTENSION_NOT_FOUND'', 102), (''EXTENSION_SETTING_NOT_SUPPORTED'', 103),
    (''EXTENSION_VALUE_ERROR'', 116), (''ILLEGAL_EMPTY_EXTENSION'', 151), (''ILLEGAL_HEX_DIGIT'', 113), (''INCORRECT_POLICY_SYNTAX_TAG'', 152),
    (''INVALID_ASNUMBER'', 162), (''INVALID_ASRANGE'', 163), (''INVALID_BOOLEAN_STRING'', 104), (''INVALID_EXTENSION_STRING'', 105),
    (''INVALID_INHERITANCE'', 165), (''INVALID_IPADDRESS'', 166), (''INVALID_MULTIPLE_RDNS'', 161), (''INVALID_NAME'', 106),
    (''INVALID_NULL_ARGUMENT'', 107), (''INVALID_NULL_NAME'', 108), (''INVALID_NULL_VALUE'', 109), (''INVALID_NUMBER'', 140),
    (''INVALID_NUMBERS'', 141), (''INVALID_OBJECT_IDENTIFIER'', 110), (''INVALID_OPTION'', 138), (''INVALID_POLICY_IDENTIFIER'', 134),
    (''INVALID_PROXY_POLICY_SETTING'', 153), (''INVALID_PURPOSE'', 146), (''INVALID_SAFI'', 164), (''INVALID_SECTION'', 135),
    (''INVALID_SYNTAX'', 143), (''ISSUER_DECODE_ERROR'', 126), (''MISSING_VALUE'', 124), (''NEED_ORGANIZATION_AND_NUMBERS'', 142),
    (''NO_CONFIG_DATABASE'', 136), (''NO_ISSUER_CERTIFICATE'', 121), (''NO_ISSUER_DETAILS'', 127), (''NO_POLICY_IDENTIFIER'', 139),
    (''NO_PROXY_CERT_POLICY_LANGUAGE_DEFINED'', 154), (''NO_PUBLIC_KEY'', 114), (''NO_SUBJECT_DETAILS'', 125), (''ODD_NUMBER_OF_DIGITS'', 112),
    (''OPERATION_NOT_DEFINED'', 148), (''OTHERNAME_ERROR'', 147), (''POLICY_LANGUAGE_ALREADY_DEFINED'', 155), (''POLICY_PATH_LENGTH'', 156),
    (''POLICY_PATH_LENGTH_ALREADY_DEFINED'', 157), (''POLICY_SYNTAX_NOT_CURRENTLY_SUPPORTED'', 158),
    (''POLICY_WHEN_PROXY_LANGUAGE_REQUIRES_NO_POLICY'', 159), (''SECTION_NOT_FOUND'', 150), (''UNABLE_TO_GET_ISSUER_DETAILS'', 122),
    (''UNABLE_TO_GET_ISSUER_KEYID'', 123), (''UNKNOWN_BIT_STRING_ARGUMENT'', 111), (''UNKNOWN_EXTENSION'', 129), (''UNKNOWN_EXTENSION_NAME'', 130),
    (''UNKNOWN_OPTION'', 120), (''UNSUPPORTED_OPTION'', 117), (''UNSUPPORTED_TYPE'', 167), (''USER_TOO_LONG'', 132)]"

definition PKCS12_functions :: code_table where
  "PKCS12_functions = [(''PARSE_BAG'', 129), (''PARSE_BAGS'', 103), (''PKCS12_ADD_FRIENDLYNAME'', 100), (''PKCS12_ADD_FRIENDLYNAME_ASC'', 127),
    (''PKCS12_ADD_FRIENDLYNAME_UNI'', 102), (''PKCS12_ADD_LOCALKEYID'', 104), (''PKCS12_CREATE'', 105), (''PKCS12_GEN_MAC'', 107),
    (''PKCS12_INIT'', 109), (''PKCS12_ITEM_DECRYPT_D2I'', 106), (''PKCS12_ITEM_I2D_ENCRYPT'', 108), (''PKCS12_ITEM_PACK_SAFEBAG'', 117),
    (''PKCS12_KEY_GEN_ASC'', 110), (''PKCS12_KEY_GEN_UNI'', 111), (''PKCS12_MAKE_KEYBAG'', 112), (''PKCS12_MAKE_SHKEYBAG'', 113),
    (''PKCS12_NEWPASS'', 128), (''PKCS12_PACK_P7DATA'', 114), (''PKCS12_PACK_P7ENCDATA'', 115), (''PKCS12_PARSE'', 118), (''PKCS12_PBE_CRYPT'', 119),
    (''PKCS12_PBE_KEYIVGEN'', 120), (''PKCS12_SETUP_MAC'', 122), (''PKCS12_SET_MAC'', 123), (''PKCS12_UNPACK_AUTHSAFES'', 130),
    (''PKCS12_UNPACK_P7DATA'', 131), (''PKCS12_VERIFY_MAC'', 126), (''PKCS8_ADD_KEYUSAGE'', 124), (''PKCS8_ENCRYPT'', 125)]"

definition PKCS12_reasons :: code_table where
  "PKCS12_reasons = [(''CANT_PACK_STRUCTURE'', 100), (''CONTENT_TYPE_NOT_DATA'', 121), (''DECODE_ERROR'', 101), (''ENCODE_ERROR'', 102),
    (''ENCRYPT_ERROR'', 103), (''ERROR_SETTING_ENCRYPTED_DATA_TYPE'', 120), (''INVALID_NULL_ARGUMENT'', 104), (''INVALID_NULL_PKCS12_POINTER'', 105),
    (''IV_GEN_ERROR'', 106), (''KEY_GEN_ERROR'', 107), (''MAC_ABSENT'', 108), (''MAC_GENERATION_ERROR'', 109), (''MAC_SETUP_ERROR'', 110),
    (''MAC_STRING_SET_ERROR'', 111), (''MAC_VERIFY_ERROR'', 112), (''MAC_VERIFY_FAILURE'', 113), (''PARSE_ERROR'', 114),
    (''PKCS12_ALGOR_CIPHERINIT_ERROR'', 115), (''PKCS12_CIPHERFINAL_ERROR'', 116), (''PKCS12_PBE_CRYPT_ERROR'', 117),
    (''UNKNOWN_DIGEST_ALGORITHM'', 118), (''UNSUPPORTED_PKCS12_MODE'', 119)]"

definition RAND_functions :: code_table where
  "RAND_functions = [(''RAND_GET_RAND_METHOD'', 101), (''RAND_INIT_FIPS'', 102), (''SSLEAY_RAND_BYTES'', 100)]"

definition RAND_reasons :: code_table where
  "RAND_reasons = [(''DUAL_EC_DRBG_DISABLED'', 104), (''ERROR_INITIALISING_DRBG'', 102), (''ERROR_INSTANTIATING_DRBG'', 103),
    (''NO_FIPS_RANDOM_METHOD_SET'', 101), (''PRNG_NOT_SEEDED'', 100)]"

definition DSO_functions :: code_table where
  "DSO_functions = [(''BEOS_BIND_FUNC'', 144), (''BEOS_BIND_VAR'', 145), (''BEOS_LOAD'', 146), (''BEOS_NAME_CONVERTER'', 147), (''BEOS_UNLOAD'', 148),
    (''DLFCN_BIND_FUNC'', 100), (''DLFCN_BIND_VAR'', 101), (''DLFCN_LOAD'', 102), (''DLFCN_MERGER'', 130), (''DLFCN_NAME_CONVERTER'', 123),
    (''DLFCN_UNLOAD'', 103), (''DL_BIND_FUNC'', 104), (''DL_BIND_VAR'', 105), (''DL_LOAD'', 106), (''DL_MERGER'', 131), (''DL_NAME_CONVERTER'', 124),
    (''DL_UNLOAD'', 107), (''DSO_BIND_FUNC'', 108), (''DSO_BIND_VAR'', 109), (''DSO_CONVERT_FILENAME'', 126), (''DSO_CTRL'', 110), (''DSO_FREE'', 111),
    (''DSO_GET_FILENAME'', 127), (''DSO_GET_LOADED_FILENAME'', 128), (''DSO_GLOBAL_LOOKUP'', 139), (''DSO_LOAD'', 112), (''DSO_MERGE'', 132),
    (''DSO_NEW_METHOD'', 113), (''DSO_PATHBYADDR'', 140), (''DSO_SET_FILENAME'', 129), (''DSO_SET_NAME_CONVERTER'', 122), (''DSO_UP_REF'', 114),
    (''GLOBAL_LOOKUP_FUNC'', 138), (''PATHBYADDR'', 137), (''VMS_BIND_SYM'', 115), (''VMS_LOAD'', 116), (''VMS_MERGER'', 133), (''VMS_UNLOAD'', 117),
    (''WIN32_BIND_FUNC'', 118), (''WIN32_BIND_VAR'', 119), (''WIN32_GLOBALLOOKUP'', 142), (''WIN32_GLOBALLOOKUP_FUNC'', 143), (''WIN32_JOINER'', 135),
    (''WIN32_LOAD'', 120), (''WIN32_MERGER'', 134), (''WIN32_NAME_CONVERTER'', 125), (''WIN32_PATHBYADDR'', 141), (''WIN32_SPLITTER'', 136),
    (''WIN32_UNLOAD'', 121)]"

definition DSO_reasons :: code_table where
  "DSO_reasons = [(''CTRL_FAILED'', 100), (''DSO_ALREADY_LOADED'', 110), (''EMPTY_FILE_STRUCTURE'', 113), (''FAILURE'', 114),
    (''FILENAME_TOO_BIG'', 101), (''FINISH_FAILED'', 102), (''INCORRECT_FILE_SYNTAX'', 115), (''LOAD_FAILED'', 103),
    (''NAME_TRANSLATION_FAILED'', 109), (''NO_FILENAME'', 111), (''NO_FILE_SPECIFICATION'', 116), (''NULL_HANDLE'', 104),
    (''SET_FILENAME_FAILED'', 112), (''STACK_ERROR'', 105), (''SYM_FAILURE'', 106), (''UNLOAD_FAILED'', 107), (''UNSUPPORTED'', 108)]"

definition OCSP_functions :: code_table where
  "OCSP_functions = [(''ASN1_STRING_ENCODE'', 100), (''D2I_OCSP_NONCE'', 102), (''OCSP_BASIC_ADD1_STATUS'', 103), (''OCSP_BASIC_SIGN'', 104),
    (''OCSP_BASIC_VERIFY'', 105), (''OCSP_CERT_ID_NEW'', 101), (''OCSP_CHECK_DELEGATED'', 106), (''OCSP_CHECK_IDS'', 107),
    (''OCSP_CHECK_ISSUER'', 108), (''OCSP_CHECK_VALIDITY'', 115), (''OCSP_MATCH_ISSUERID'', 109), (''OCSP_PARSE_URL'', 114),
    (''OCSP_REQUEST_SIGN'', 110), (''OCSP_REQUEST_VERIFY'', 116), (''OCSP_RESPONSE_GET1_BASIC'', 111), (''OCSP_SENDREQ_BIO'', 112),
    (''OCSP_SENDREQ_NBIO'', 117), (''PARSE_HTTP_LINE1'', 118), (''REQUEST_VERIFY'', 113)]"

definition OCSP_reasons :: code_table where
  "OCSP_reasons = [(''BAD_DATA'', 100), (''CERTIFICATE_VERIFY_ERROR'', 101), (''DIGEST_ERR'', 102), (''ERROR_IN_NEXTUPDATE_FIELD'', 122),
    (''ERROR_IN_THISUPDATE_FIELD'', 123), (''ERROR_PARSING_URL'', 121), (''MISSING_OCSPSIGNING_USAGE'', 103), (''NEXTUPDATE_BEFORE_THISUPDATE'', 124),
    (''NOT_BASIC_RESPONSE'', 104), (''NO_CERTIFICATES_IN_CHAIN'', 105), (''NO_CONTENT'', 106), (''NO_PUBLIC_KEY'', 107), (''NO_RESPONSE_DATA'', 108),
    (''NO_REVOKED_TIME'', 109), (''PRIVATE_KEY_DOES_NOT_MATCH_CERTIFICATE'', 110), (''REQUEST_NOT_SIGNED'', 128),
    (''RESPONSE_CONTAINS_NO_REVOCATION_DATA'', 111), (''ROOT_CA_NOT_TRUSTED'', 112), (''SERVER_READ_ERROR'', 113), (''SERVER_RESPONSE_ERROR'', 114),
    (''SERVER_RESPONSE_PARSE_ERROR'', 115), (''SERVER_WRITE_ERROR'', 116), (''SIGNATURE_FAILURE'', 117), (''SIGNER_CERTIFICATE_NOT_FOUND'', 118),
    (''STATUS_EXPIRED'', 125), (''STATUS_NOT_YET_VALID'', 126), (''STATUS_TOO_OLD'', 127), (''UNKNOWN_MESSAGE_DIGEST'', 119), (''UNKNOWN_NID'', 120),
    (''UNSUPPORTED_REQUESTORNAME_TYPE'', 129)]"

definition UI_functions :: code_table where
  "UI_functions = [(''GENERAL_ALLOCATE_BOOLEAN'', 108), (''GENERAL_ALLOCATE_PROMPT'', 109), (''GENERAL_ALLOCATE_STRING'', 100), (''UI_CTRL'', 111),
    (''UI_DUP_ERROR_STRING'', 101), (''UI_DUP_INFO_STRING'', 102), (''UI_DUP_INPUT_BOOLEAN'', 110), (''UI_DUP_INPUT_STRING'', 103),
    (''UI_DUP_VERIFY_STRING'', 106), (''UI_GET0_RESULT'', 107), (''UI_NEW_METHOD'', 104), (''UI_SET_RESULT'', 105)]"

definition UI_reasons :: code_table where
  "UI_reasons = [(''COMMON_OK_AND_CANCEL_CHARACTERS'', 104), (''INDEX_TOO_LARGE'', 102), (''INDEX_TOO_SMALL'', 103), (''NO_RESULT_BUFFER'', 105),
    (''RESULT_TOO_LARGE'', 100), (''RESULT_TOO_SMALL'', 101), (''UNKNOWN_CONTROL_COMMAND'', 106)]"

definition ECDSA_functions :: code_table where
  "ECDSA_functions = [(''ECDSA_CHECK'', 104), (''ECDSA_DATA_NEW_METHOD'', 100), (''ECDSA_DO_SIGN'', 101), (''ECDSA_DO_VERIFY'', 102),
    (''ECDSA_METHOD_NEW'', 105), (''ECDSA_SIGN_SETUP'', 103)]"

definition ECDSA_reasons :: code_table where
  "ECDSA_reasons = [(''BAD_SIGNATURE'', 100), (''DATA_TOO_LARGE_FOR_KEY_SIZE'', 101), (''ERR_EC_LIB'', 102), (''MISSING_PARAMETERS'', 103),
    (''NEED_NEW_SETUP_VALUES'', 106), (''NON_FIPS_METHOD'', 107), (''RANDOM_NUMBER_GENERATION_FAILED'', 104), (''SIGNATURE_MALLOC_FAILED'', 105)]"

definition ECDH_functions :: code_table where
  "ECDH_functions = [(''ECDH_CHECK'', 102), (''ECDH_COMPUTE_KEY'', 100), (''ECDH_DATA_NEW_METHOD'', 101)]"

definition ECDH_reasons :: code_table where
  "ECDH_reasons = [(''KDF_FAILED'', 102), (''NON_FIPS_METHOD'', 103), (''NO_PRIVATE_VALUE'', 100), (''POINT_ARITHMETIC_FAILURE'', 101)]"

definition CMS_functions :: code_table where
  "CMS_functions = [(''CHECK_CONTENT'', 99), (''CMS_ADD0_CERT'', 164), (''CMS_ADD0_RECIPIENT_KEY'', 100), (''CMS_ADD0_RECIPIENT_PASSWORD'', 165),
    (''CMS_ADD1_RECEIPTREQUEST'', 158), (''CMS_ADD1_RECIPIENT_CERT'', 101), (''CMS_ADD1_SIGNER'', 102), (''CMS_ADD1_SIGNINGTIME'', 103),
    (''CMS_COMPRESS'', 104), (''CMS_COMPRESSEDDATA_CREATE'', 105), (''CMS_COMPRESSEDDATA_INIT_BIO'', 106), (''CMS_COPY_CONTENT'', 107),
    (''CMS_COPY_MESSAGEDIGEST'', 108), (''CMS_DATA'', 109), (''CMS_DATAFINAL'', 110), (''CMS_DATAINIT'', 111), (''CMS_DECRYPT'', 112),
    (''CMS_DECRYPT_SET1_KEY'', 113), (''CMS_DECRYPT_SET1_PASSWORD'', 166), (''CMS_DECRYPT_SET1_PKEY'', 114), (''CMS_DIGESTALGORITHM_FIND_CTX'', 115),
    (''CMS_DIGESTALGORITHM_INIT_BIO'', 116), (''CMS_DIGESTEDDATA_DO_FINAL'', 117), (''CMS_DIGEST_VERIFY'', 118), (''CMS_ENCODE_RECEIPT'', 161),
    (''CMS_ENCRYPT'', 119), (''CMS_ENCRYPTEDCONTENT_INIT_BIO'', 120), (''CMS_ENCRYPTEDDATA_DECRYPT'', 121), (''CMS_ENCRYPTEDDATA_ENCRYPT'', 122),
    (''CMS_ENCRYPTEDDATA_SET1_KEY'', 123), (''CMS_ENVELOPEDDATA_CREATE'', 124), (''CMS_ENVELOPEDDATA_INIT_BIO'', 125),
    (''CMS_ENVELOPED_DATA_INIT'', 126), (''CMS_ENV_ASN1_CTRL'', 171), (''CMS_FINAL'', 127), (''CMS_GET0_CERTIFICATE_CHOICES'', 128),
    (''CMS_GET0_CONTENT'', 129), (''CMS_GET0_ECONTENT_TYPE'', 130), (''CMS_GET0_ENVELOPED'', 131), (''CMS_GET0_REVOCATION_CHOICES'', 132),
    (''CMS_GET0_SIGNED'', 133), (''CMS_MSGSIGDIGEST_ADD1'', 162), (''CMS_RECEIPTREQUEST_CREATE0'', 159), (''CMS_RECEIPT_VERIFY'', 160),
    (''CMS_RECIPIENTINFO_DECRYPT'', 134), (''CMS_RECIPIENTINFO_ENCRYPT'', 169), (''CMS_RECIPIENTINFO_KARI_ENCRYPT'', 178),
    (''CMS_RECIPIENTINFO_KARI_GET0_ALG'', 175), (''CMS_RECIPIENTINFO_KARI_GET0_ORIG_ID'', 173), (''CMS_RECIPIENTINFO_KARI_GET0_REKS'', 172),
    (''CMS_RECIPIENTINFO_KARI_ORIG_ID_CMP'', 174), (''CMS_RECIPIENTINFO_KEKRI_DECRYPT'', 135), (''CMS_RECIPIENTINFO_KEKRI_ENCRYPT'', 136),
    (''CMS_RECIPIENTINFO_KEKRI_GET0_ID'', 137), (''CMS_RECIPIENTINFO_KEKRI_ID_CMP'', 138), (''CMS_RECIPIENTINFO_KTRI_CERT_CMP'', 139),
    (''CMS_RECIPIENTINFO_KTRI_DECRYPT'', 140), (''CMS_RECIPIENTINFO_KTRI_ENCRYPT'', 141), (''CMS_RECIPIENTINFO_KTRI_GET0_ALGS'', 142),
    (''CMS_RECIPIENTINFO_KTRI_GET0_SIGNER_ID'', 143), (''CMS_RECIPIENTINFO_PWRI_CRYPT'', 167), (''CMS_RECIPIENTINFO_SET0_KEY'', 144),
    (''CMS_RECIPIENTINFO_SET0_PASSWORD'', 168), (''CMS_RECIPIENTINFO_SET0_PKEY'', 145), (''CMS_SD_ASN1_CTRL'', 170), (''CMS_SET1_IAS'', 176),
    (''CMS_SET1_KEYID'', 177), (''CMS_SET1_SIGNERIDENTIFIER'', 146), (''CMS_SET_DETACHED'', 147), (''CMS_SIGN'', 148), (''CMS_SIGNED_DATA_INIT'', 149),
    (''CMS_SIGNERINFO_CONTENT_SIGN'', 150), (''CMS_SIGNERINFO_SIGN'', 151), (''CMS_SIGNERINFO_VERIFY'', 152), (''CMS_SIGNERINFO_VERIFY_CERT'', 153),
    (''CMS_SIGNERINFO_VERIFY_CONTENT'', 154), (''CMS_SIGN_RECEIPT'', 163), (''CMS_STREAM'', 155), (''CMS_UNCOMPRESS'', 156), (''CMS_VERIFY'', 157)]"

definition CMS_reasons :: code_table where
  "CMS_reasons = [(''ADD_SIGNER_ERROR'', 99), (''CERTIFICATE_ALREADY_PRESENT'', 175), (''CERTIFICATE_HAS_NO_KEYID'', 160),
    (''CERTIFICATE_VERIFY_ERROR'', 100), (''CIPHER_INITIALISATION_ERROR'', 101), (''CIPHER_PARAMETER_INITIALISATION_ERROR'', 102),
    (''CMS_DATAFINAL_ERROR'', 103), (''CMS_LIB'', 104), (''CONTENTIDENTIFIER_MISMATCH'', 170), (''CONTENT_NOT_FOUND'', 105),
    (''CONTENT_TYPE_MISMATCH'', 171), (''CONTENT_TYPE_NOT_COMPRESSED_DATA'', 106), (''CONTENT_TYPE_NOT_ENVELOPED_DATA'', 107),
    (''CONTENT_TYPE_NOT_SIGNED_DATA'', 108), (''CONTENT_VERIFY_ERROR'', 109), (''CTRL_ERROR'', 110), (''CTRL_FAILURE'', 111), (''DECRYPT_ERROR'', 112),
    (''DIGEST_ERROR'', 161), (''ERROR_GETTING_PUBLIC_KEY'', 113), (''ERROR_READING_MESSAGEDIGEST_ATTRIBUTE'', 114), (''ERROR_SETTING_KEY'', 115),
    (''ERROR_SETTING_RECIPIENTINFO'', 116), (''INVALID_ENCRYPTED_KEY_LENGTH'', 117), (''INVALID_KEY_ENCRYPTION_PARAMETER'', 176),
    (''INVALID_KEY_LENGTH'', 118), (''MD_BIO_INIT_ERROR'', 119), (''MESSAGEDIGEST_ATTRIBUTE_WRONG_LENGTH'', 120),
    (''MESSAGEDIGEST_WRONG_LENGTH'', 121), (''MSGSIGDIGEST_ERROR'', 172), (''MSGSIGDIGEST_VERIFICATION_FAILURE'', 162),
    (''MSGSIGDIGEST_WRONG_LENGTH'', 163), (''NEED_ONE_SIGNER'', 164), (''NOT_A_SIGNED_RECEIPT'', 165), (''NOT_ENCRYPTED_DATA'', 122),
    (''NOT_KEK'', 123), (''NOT_KEY_AGREEMENT'', 181), (''NOT_KEY_TRANSPORT'', 124), (''NOT_PWRI'', 177), (''NOT_SUPPORTED_FOR_THIS_KEY_TYPE'', 125),
    (''NO_CIPHER'', 126), (''NO_CONTENT'', 127), (''NO_CONTENT_TYPE'', 173), (''NO_DEFAULT_DIGEST'', 128), (''NO_DIGEST_SET'', 129), (''NO_KEY'', 130),
    (''NO_KEY_OR_CERT'', 174), (''NO_MATCHING_DIGEST'', 131), (''NO_MATCHING_RECIPIENT'', 132), (''NO_MATCHING_SIGNATURE'', 166),
    (''NO_MSGSIGDIGEST'', 167), (''NO_PASSWORD'', 178), (''NO_PRIVATE_KEY'', 133), (''NO_PUBLIC_KEY'', 134), (''NO_RECEIPT_REQUEST'', 168),
    (''NO_SIGNERS'', 135), (''PRIVATE_KEY_DOES_NOT_MATCH_CERTIFICATE'', 136), (''RECEIPT_DECODE_ERROR'', 169), (''RECIPIENT_ERROR'', 137),
    (''SIGNER_CERTIFICATE_NOT_FOUND'', 138), (''SIGNFINAL_ERROR'', 139), (''SMIME_TEXT_ERROR'', 140), (''STORE_INIT_ERROR'', 141),
    (''TYPE_NOT_COMPRESSED_DATA'', 142), (''TYPE_NOT_DATA'', 143), (''TYPE_NOT_DIGESTED_DATA'', 144), (''TYPE_NOT_ENCRYPTED_DATA'', 145),
    (''TYPE_NOT_ENVELOPED_DATA'', 146), (''UNABLE_TO_FINALIZE_CONTEXT'', 147), (''UNKNOWN_CIPHER'', 148), (''UNKNOWN_DIGEST_ALGORIHM'', 149),
    (''UNKNOWN_ID'', 150), (''UNSUPPORTED_COMPRESSION_ALGORITHM'', 151), (''UNSUPPORTED_CONTENT_TYPE'', 152), (''UNSUPPORTED_KEK_ALGORITHM'', 153),
    (''UNSUPPORTED_KEY_ENCRYPTION_ALGORITHM'', 179), (''UNSUPPORTED_RECIPIENT_TYPE'', 154), (''UNSUPPORTED_RECPIENTINFO_TYPE'', 155),
    (''UNSUPPORTED_TYPE'', 156), (''UNWRAP_ERROR'', 157), (''UNWRAP_FAILURE'', 180), (''VERIFICATION_FAILURE'', 158), (''WRAP_ERROR'', 159)]"

definition TS_functions :: code_table where
  "TS_functions = [(''D2I_TS_RESP'', 147), (''DEF_SERIAL_CB'', 110), (''DEF_TIME_CB'', 111), (''ESS_ADD_SIGNING_CERT'', 112),
    (''ESS_CERT_ID_NEW_INIT'', 113), (''ESS_SIGNING_CERT_NEW_INIT'', 114), (''INT_TS_RESP_VERIFY_TOKEN'', 149), (''PKCS7_TO_TS_TST_INFO'', 148),
    (''TS_ACCURACY_SET_MICROS'', 115), (''TS_ACCURACY_SET_MILLIS'', 116), (''TS_ACCURACY_SET_SECONDS'', 117), (''TS_CHECK_IMPRINTS'', 100),
    (''TS_CHECK_NONCES'', 101), (''TS_CHECK_POLICY'', 102), (''TS_CHECK_SIGNING_CERTS'', 103), (''TS_CHECK_STATUS_INFO'', 104),
    (''TS_COMPUTE_IMPRINT'', 145), (''TS_CONF_SET_DEFAULT_ENGINE'', 146), (''TS_GET_STATUS_TEXT'', 105), (''TS_MSG_IMPRINT_SET_ALGO'', 118),
    (''TS_REQ_SET_MSG_IMPRINT'', 119), (''TS_REQ_SET_NONCE'', 120), (''TS_REQ_SET_POLICY_ID'', 121), (''TS_RESP_CREATE_RESPONSE'', 122),
    (''TS_RESP_CREATE_TST_INFO'', 123), (''TS_RESP_CTX_ADD_FAILURE_INFO'', 124), (''TS_RESP_CTX_ADD_MD'', 125), (''TS_RESP_CTX_ADD_POLICY'', 126),
    (''TS_RESP_CTX_NEW'', 127), (''TS_RESP_CTX_SET_ACCURACY'', 128), (''TS_RESP_CTX_SET_CERTS'', 129), (''TS_RESP_CTX_SET_DEF_POLICY'', 130),
    (''TS_RESP_CTX_SET_SIGNER_CERT'', 131), (''TS_RESP_CTX_SET_STATUS_INFO'', 132), (''TS_RESP_GET_POLICY'', 133),
    (''TS_RESP_SET_GENTIME_WITH_PRECISION'', 134), (''TS_RESP_SET_STATUS_INFO'', 135), (''TS_RESP_SET_TST_INFO'', 150), (''TS_RESP_SIGN'', 136),
    (''TS_RESP_VERIFY_SIGNATURE'', 106), (''TS_RESP_VERIFY_TOKEN'', 107), (''TS_TST_INFO_SET_ACCURACY'', 137), (''TS_TST_INFO_SET_MSG_IMPRINT'', 138),
    (''TS_TST_INFO_SET_NONCE'', 139), (''TS_TST_INFO_SET_POLICY_ID'', 140), (''TS_TST_INFO_SET_SERIAL'', 141), (''TS_TST_INFO_SET_TIME'', 142),
    (''TS_TST_INFO_SET_TSA'', 143), (''TS_VERIFY'', 108), (''TS_VERIFY_CERT'', 109), (''TS_VERIFY_CTX_NEW'', 144)]"

definition TS_reasons :: code_table where
  "TS_reasons = [(''BAD_PKCS7_TYPE'', 132), (''BAD_TYPE'', 133), (''CERTIFICATE_VERIFY_ERROR'', 100), (''COULD_NOT_SET_ENGINE'', 127),
    (''COULD_NOT_SET_TIME'', 115), (''D2I_TS_RESP_INT_FAILED'', 128), (''DETACHED_CONTENT'', 134), (''ESS_ADD_SIGNING_CERT_ERROR'', 116),
    (''ESS_SIGNING_CERTIFICATE_ERROR'', 101), (''INVALID_NULL_POINTER'', 102), (''INVALID_SIGNER_CERTIFICATE_PURPOSE'', 117),
    (''MESSAGE_IMPRINT_MISMATCH'', 103), (''NONCE_MISMATCH'', 104), (''NONCE_NOT_RETURNED'', 105), (''NO_CONTENT'', 106),
    (''NO_TIME_STAMP_TOKEN'', 107), (''PKCS7_ADD_SIGNATURE_ERROR'', 118), (''PKCS7_ADD_SIGNED_ATTR_ERROR'', 119),
    (''PKCS7_TO_TS_TST_INFO_FAILED'', 129), (''POLICY_MISMATCH'', 108), (''PRIVATE_KEY_DOES_NOT_MATCH_CERTIFICATE'', 120),
    (''RESPONSE_SETUP_ERROR'', 121), (''SIGNATURE_FAILURE'', 109), (''THERE_MUST_BE_ONE_SIGNER'', 110), (''TIME_SYSCALL_ERROR'', 122),
    (''TOKEN_NOT_PRESENT'', 130), (''TOKEN_PRESENT'', 131), (''TSA_NAME_MISMATCH'', 111), (''TSA_UNTRUSTED'', 112), (''TST_INFO_SETUP_ERROR'', 123),
    (''TS_DATASIGN'', 124), (''UNACCEPTABLE_POLICY'', 125), (''UNSUPPORTED_MD_ALGORITHM'', 126), (''UNSUPPORTED_VERSION'', 113),
    (''WRONG_CONTENT_TYPE'', 114)]"

definition error_tables :: "(64 word \<times> code_table \<times> code_table) list" where
  "error_tables = [(ERR_LIB_SYS, SYS_functions, []),
    (ERR_LIB_BN, BN_functions, BN_reasons),
    (ERR_LIB_RSA, RSA_functions, RSA_reasons),
    (ERR_LIB_DH, DH_functions, DH_reasons),
    (ERR_LIB_EVP, EVP_functions, EVP_reasons),
    (ERR_LIB_BUF, BUF_functions, []),
    (ERR_LIB_OBJ, OBJ_functions, OBJ_reasons),
    (ERR_LIB_PEM, PEM_functions, PEM_reasons),
    (ERR_LIB_DSA, DSA_functions, DSA_reasons),
    (ERR_LIB_X509, X509_functions, X509_reasons),
    (ERR_LIB_ASN1, ASN1_functions, ASN1_reasons),
    (ERR_LIB_CONF, CONF_functions, CONF_reasons),
    (ERR_LIB_CRYPTO, CRYPTO_functions, CRYPTO_reasons),
    (ERR_LIB_EC, EC_functions, EC_reasons),
    (ERR_LIB_SSL, SSL_functions, SSL_reasons),
    (ERR_LIB_BIO, BIO_functions, BIO_reasons),
    (ERR_LIB_PKCS7, PKCS7_functions, PKCS7_reasons),
    (ERR_LIB_X509V3, X509V3_functions, X509V3_reasons),
    (ERR_LIB_PKCS12, PKCS12_functions, PKCS12_reasons),
    (ERR_LIB_RAND, RAND_functions, RAND_reasons),
    (ERR_LIB_DSO, DSO_functions, DSO_reasons),
    (ERR_LIB_OCSP, OCSP_functions, OCSP_reasons),
    (ERR_LIB_UI, UI_functions, UI_reasons),
    (ERR_LIB_ECDSA, ECDSA_functions, ECDSA_reasons),
    (ERR_LIB_ECDH, ECDH_functions, ECDH_reasons),
    (ERR_LIB_CMS, CMS_functions, CMS_reasons),
    (ERR_LIB_TS, TS_functions, TS_reasons)]"

definition SSL3_alerts :: code_table where
  "SSL3_alerts = [(''CLOSE_NOTIFY'', 0), (''UNEXPECTED_MESSAGE'', 10), (''BAD_RECORD_MAC'', 20), (''DECOMPRESSION_FAILURE'', 30),
    (''HANDSHAKE_FAILURE'', 40), (''NO_CERTIFICATE'', 41), (''BAD_CERTIFICATE'', 42), (''UNSUPPORTED_CERTIFICATE'', 43), (''CERTIFICATE_REVOKED'', 44),
    (''CERTIFICATE_EXPIRED'', 45), (''CERTIFICATE_UNKNOWN'', 46), (''ILLEGAL_PARAMETER'', 47)]"

definition TLS1_alerts :: code_table where
  "TLS1_alerts = [(''DECRYPTION_FAILED'', 21), (''RECORD_OVERFLOW'', 22), (''UNKNOWN_CA'', 48), (''ACCESS_DENIED'', 49), (''DECODE_ERROR'', 50),
    (''DECRYPT_ERROR'', 51), (''EXPORT_RESTRICTION'', 60), (''PROTOCOL_VERSION'', 70), (''INSUFFICIENT_SECURITY'', 71), (''INTERNAL_ERROR'', 80),
    (''INAPPROPRIATE_FALLBACK'', 86), (''USER_CANCELLED'', 90), (''NO_RENEGOTIATION'', 100), (''UNSUPPORTED_EXTENSION'', 110),
    (''CERTIFICATE_UNOBTAINABLE'', 111), (''UNRECOGNIZED_NAME'', 112), (''BAD_CERTIFICATE_STATUS_RESPONSE'', 113),
    (''BAD_CERTIFICATE_HASH_VALUE'', 114), (''UNKNOWN_PSK_IDENTITY'', 115)]"

definition SSL_AD_REASON_OFFSET :: int where
  "SSL_AD_REASON_OFFSET = 1000"

definition SSL_alerts :: "(string \<times> code_table) list" where
  "SSL_alerts = [(''CLOSE_NOTIFY'', SSL3_alerts), (''UNEXPECTED_MESSAGE'', SSL3_alerts), (''BAD_RECORD_MAC'', SSL3_alerts),
    (''DECRYPTION_FAILED'', TLS1_alerts), (''RECORD_OVERFLOW'', TLS1_alerts), (''DECOMPRESSION_FAILURE'', SSL3_alerts),
    (''HANDSHAKE_FAILURE'', SSL3_alerts), (''NO_CERTIFICATE'', SSL3_alerts), (''BAD_CERTIFICATE'', SSL3_alerts),
    (''UNSUPPORTED_CERTIFICATE'', SSL3_alerts), (''CERTIFICATE_REVOKED'', SSL3_alerts), (''CERTIFICATE_EXPIRED'', SSL3_alerts),
    (''CERTIFICATE_UNKNOWN'', SSL3_alerts), (''ILLEGAL_PARAMETER'', SSL3_alerts), (''UNKNOWN_CA'', TLS1_alerts), (''ACCESS_DENIED'', TLS1_alerts),
    (''DECODE_ERROR'', TLS1_alerts), (''DECRYPT_ERROR'', TLS1_alerts), (''EXPORT_RESTRICTION'', TLS1_alerts), (''PROTOCOL_VERSION'', TLS1_alerts),
    (''INSUFFICIENT_SECURITY'', TLS1_alerts), (''INTERNAL_ERROR'', TLS1_alerts), (''USER_CANCELLED'', TLS1_alerts),
    (''NO_RENEGOTIATION'', TLS1_alerts), (''UNSUPPORTED_EXTENSION'', TLS1_alerts), (''CERTIFICATE_UNOBTAINABLE'', TLS1_alerts),
    (''UNRECOGNIZED_NAME'', TLS1_alerts), (''BAD_CERTIFICATE_STATUS_RESPONSE'', TLS1_alerts), (''BAD_CERTIFICATE_HASH_VALUE'', TLS1_alerts),
    (''UNKNOWN_PSK_IDENTITY'', TLS1_alerts), (''INAPPROPRIATE_FALLBACK'', TLS1_alerts)]"

subsection \<open>Codes that differ\<close>

text \<open>No repetition, checked range by range: the pivots split the codes into ranges.\<close>

fun apart :: "int list \<Rightarrow> int list \<Rightarrow> bool" where
  "apart [] cs = distinct cs"
| "apart (k # ks) cs = (distinct (filter (\<lambda>c. c < k) cs) \<and> apart ks (filter (\<lambda>c. k \<le> c) cs))"

lemma apart_distinct: "apart ks cs \<Longrightarrow> distinct cs"
proof (induction ks arbitrary: cs)
  case (Cons k ks)
  have "mset cs = mset (filter (\<lambda>c. c < k) cs @ filter (\<lambda>c. k \<le> c) cs)"
    using multiset_partition [of "mset cs" "\<lambda>c. c < k"] by (simp add: not_less)
  moreover have "distinct (filter (\<lambda>c. c < k) cs @ filter (\<lambda>c. k \<le> c) cs)" using Cons by auto
  ultimately show ?case using mset_eq_imp_distinct_iff by metis
qed simp

definition well_coded :: "int \<Rightarrow> code_table \<Rightarrow> bool" where
  "well_coded low t \<longleftrightarrow> list_all (\<lambda>(_, c). low \<le> c \<and> c < 4096) t \<and> distinct (map snd t)"

lemmas function_tables =
  SYS_functions_def BN_functions_def RSA_functions_def DH_functions_def EVP_functions_def BUF_functions_def OBJ_functions_def
  PEM_functions_def DSA_functions_def X509_functions_def ASN1_functions_def CONF_functions_def CRYPTO_functions_def EC_functions_def
  SSL_functions_1_def SSL_functions_2_def SSL_functions_def BIO_functions_def PKCS7_functions_def X509V3_functions_def PKCS12_functions_def
  RAND_functions_def DSO_functions_def OCSP_functions_def UI_functions_def ECDSA_functions_def ECDH_functions_def CMS_functions_def
  TS_functions_def

lemmas reason_tables =
  BN_reasons_def RSA_reasons_def DH_reasons_def EVP_reasons_def OBJ_reasons_def PEM_reasons_def DSA_reasons_def X509_reasons_def
  ASN1_reasons_def CONF_reasons_def CRYPTO_reasons_def EC_reasons_def SSL_reasons_1_def SSL_reasons_2_def SSL_reasons_3_def SSL_reasons_4_def SSL_reasons_def
  BIO_reasons_def PKCS7_reasons_def X509V3_reasons_def PKCS12_reasons_def RAND_reasons_def DSO_reasons_def OCSP_reasons_def UI_reasons_def
  ECDSA_reasons_def ECDH_reasons_def CMS_reasons_def TS_reasons_def

definition spread :: "int \<Rightarrow> int list \<Rightarrow> bool" where
  "spread low cs \<longleftrightarrow> list_all (\<lambda>c. low \<le> c \<and> c < 4096) cs \<and>
     apart [110, 120, 130, 140, 150, 170, 190, 210, 230, 260, 290, 320, 350, 400, 1000] cs"

lemma spread_well_coded: "spread low (map snd t) \<Longrightarrow> well_coded low t"
  unfolding spread_def well_coded_def using apart_distinct [of _ "map snd t"] by (auto simp: list_all_iff simp del: apart.simps)

lemma functions_spread: "list_all (spread 0) (map (\<lambda>(l, f, r). map snd f) error_tables)"
  unfolding error_tables_def function_tables append.simps list.map snd_conv prod.case by code_simp

lemma reasons_spread: "list_all (spread 70) (map (\<lambda>(l, f, r). map snd r) error_tables)"
  unfolding error_tables_def reason_tables append.simps list.map snd_conv prod.case by code_simp

lemma tables_well_coded: "(l, f, r) \<in> set error_tables \<Longrightarrow> well_coded 0 f \<and> well_coded 70 r"
  using functions_spread reasons_spread spread_well_coded by (fastforce simp: list_all_iff)

subsection \<open>Properties\<close>

lemma small_field: "0 \<le> c \<Longrightarrow> c < 4096 \<Longrightarrow> uint (ucast (of_int c AND 0xfff :: 64 word) :: 32 word) = c"
proof -
  assume c: "0 \<le> c" "c < 4096"
  then have "take_bit n c = c" if "12 \<le> n" for n
    using that power_increasing [of 12 n "2 :: int"] by (simp add: take_bit_int_eq_self)
  then show ?thesis by (simp add: field_masks unsigned_ucast_eq unsigned_take_bit_eq uint_word_of_int_eq)
qed

lemma code_names: "well_coded low t \<Longrightarrow> (n, c) \<in> set t \<Longrightarrow> (m, c) \<in> set t \<Longrightarrow> n = m"
  unfolding well_coded_def distinct_map using inj_onD [of snd "set t" "(n, c)" "(m, c)"] by simp

lemma well_coded_range: "well_coded low t \<Longrightarrow> (n, c) \<in> set t \<Longrightarrow> low \<le> c \<and> c < 4096"
  by (auto simp: well_coded_def list_all_iff)

lemma shared_reasons_low: "\<forall>r \<in> set (ERR_REASONS @ ERR_FATAL_REASONS). r < 70"
  by (simp add: ERR_defs)

lemma library_fields: "\<forall>l \<in> set (map fst error_tables). uint (ucast (l AND 0xff) :: 32 word) = uint l"
  by (simp add: error_tables_def ERR_defs)

lemma libraries_once: "distinct (map fst error_tables)"
  by (simp add: error_tables_def ERR_defs)

text \<open>C38. A packed error says where and why it was raised: two libraries, functions and reasons of the headers whose packed errors agree
  are the same library, function and reason, and the reason is none of those all libraries share.\<close>

theorem error_identifies:
  assumes "(l, fs, rs) \<in> set error_tables" "(f, fc) \<in> set fs" "(r, rc) \<in> set rs"
    and "(l', fs', rs') \<in> set error_tables" "(f', fc') \<in> set fs'" "(r', rc') \<in> set rs'"
    and "ERR_PACK l (of_int fc) (of_int rc) = ERR_PACK l' (of_int fc') (of_int rc')"
  shows "l = l' \<and> f = f' \<and> r = r' \<and> of_int rc \<notin> set (ERR_REASONS @ ERR_FATAL_REASONS)"
proof -
  note coded = tables_well_coded [OF assms(1)] tables_well_coded [OF assms(4)]
  note ranges = well_coded_range [OF _ assms(2)] well_coded_range [OF _ assms(3)]
    well_coded_range [OF _ assms(5)] well_coded_range [OF _ assms(6)]
  have small: "0 \<le> fc" "fc < 4096" "70 \<le> rc" "rc < 4096" "0 \<le> fc'" "fc' < 4096" "70 \<le> rc'" "rc' < 4096"
    using coded ranges by blast+
  then have nonneg: "0 \<le> rc" "0 \<le> rc'" by linarith+
  have "(ucast (l AND 0xff) :: 32 word) = ucast (l' AND 0xff)" using assms(7) packed_lib by metis
  moreover have "uint (ucast (l AND 0xff) :: 32 word) = uint l" "uint (ucast (l' AND 0xff) :: 32 word) = uint l'"
    using library_fields assms(1,4) by force+
  ultimately have l: "l = l'" by (simp add: word_uint_eq_iff)
  then have same: "fs = fs'" "rs = rs'" using libraries_once assms(1,4) by (metis eq_key_imp_eq_value prod.inject)+
  with small nonneg have "fc = fc'" "rc = rc'"
    using assms(7) packed_func packed_reason small_field [of fc] small_field [of fc'] small_field [of rc] small_field [of rc'] by metis+
  moreover have "(70 :: 64 word) \<le> of_int rc" using small(3,4) by (simp add: word_le_def uint_word_of_int_eq take_bit_int_eq_self)
  then have "of_int rc \<notin> set (ERR_REASONS @ ERR_FATAL_REASONS)" using shared_reasons_low by (metis leD)
  ultimately show ?thesis using l same code_names coded assms(2,3,5,6) by blast
qed

theorem error_identifies_witness:
  "ERR_PACK ERR_LIB_RAND (of_int 101) (of_int 100) \<noteq> ERR_PACK ERR_LIB_ECDH (of_int 101) (of_int 100) \<and>
   (of_int 100 :: 64 word) \<notin> set (ERR_REASONS @ ERR_FATAL_REASONS)"
proof -
  have t: "(ERR_LIB_RAND, RAND_functions, RAND_reasons) \<in> set error_tables" "(ERR_LIB_ECDH, ECDH_functions, ECDH_reasons) \<in> set error_tables"
    by (simp_all add: error_tables_def)
  have e: "(''RAND_GET_RAND_METHOD'', 101) \<in> set RAND_functions" "(''PRNG_NOT_SEEDED'', 100) \<in> set RAND_reasons"
    "(''ECDH_DATA_NEW_METHOD'', 101) \<in> set ECDH_functions" "(''NO_PRIVATE_VALUE'', 100) \<in> set ECDH_reasons"
    by (simp_all add: RAND_functions_def RAND_reasons_def ECDH_functions_def ECDH_reasons_def)
  have "ERR_LIB_RAND \<noteq> ERR_LIB_ECDH" by (simp add: ERR_defs)
  then show ?thesis
    using error_identifies [OF t(1) e(1,2) t(2) e(3,4)] error_identifies [OF t(1) e(1,2) t(1) e(1,2) refl] by blast
qed

text \<open>The value of an alert of \<^verbatim>\<open>ssl.h\<close>.\<close>

definition alert_value :: "string \<times> code_table \<Rightarrow> int" where
  "alert_value a = the (map_of (snd a) (fst a))"

definition alert_reasons :: "string \<Rightarrow> string list" where
  "alert_reasons n = [''SSLV3_ALERT_'' @ n, ''TLSV1_ALERT_'' @ n, ''TLSV1_'' @ n]"

lemma high_reasons: "filter (\<lambda>(n, c). 1000 \<le> c) SSL_reasons = [
    (''SSLV3_ALERT_BAD_CERTIFICATE'', 1042), (''SSLV3_ALERT_BAD_RECORD_MAC'', 1020), (''SSLV3_ALERT_CERTIFICATE_EXPIRED'', 1045),
    (''SSLV3_ALERT_CERTIFICATE_REVOKED'', 1044), (''SSLV3_ALERT_CERTIFICATE_UNKNOWN'', 1046), (''SSLV3_ALERT_DECOMPRESSION_FAILURE'', 1030),
    (''SSLV3_ALERT_HANDSHAKE_FAILURE'', 1040), (''SSLV3_ALERT_ILLEGAL_PARAMETER'', 1047), (''SSLV3_ALERT_NO_CERTIFICATE'', 1041),
    (''SSLV3_ALERT_UNEXPECTED_MESSAGE'', 1010), (''SSLV3_ALERT_UNSUPPORTED_CERTIFICATE'', 1043), (''TLSV1_ALERT_ACCESS_DENIED'', 1049),
    (''TLSV1_ALERT_DECODE_ERROR'', 1050), (''TLSV1_ALERT_DECRYPTION_FAILED'', 1021), (''TLSV1_ALERT_DECRYPT_ERROR'', 1051),
    (''TLSV1_ALERT_EXPORT_RESTRICTION'', 1060), (''TLSV1_ALERT_INAPPROPRIATE_FALLBACK'', 1086),
    (''TLSV1_ALERT_INSUFFICIENT_SECURITY'', 1071), (''TLSV1_ALERT_INTERNAL_ERROR'', 1080), (''TLSV1_ALERT_NO_RENEGOTIATION'', 1100),
    (''TLSV1_ALERT_PROTOCOL_VERSION'', 1070), (''TLSV1_ALERT_RECORD_OVERFLOW'', 1022), (''TLSV1_ALERT_UNKNOWN_CA'', 1048),
    (''TLSV1_ALERT_USER_CANCELLED'', 1090), (''TLSV1_BAD_CERTIFICATE_HASH_VALUE'', 1114), (''TLSV1_BAD_CERTIFICATE_STATUS_RESPONSE'', 1113),
    (''TLSV1_CERTIFICATE_UNOBTAINABLE'', 1111), (''TLSV1_UNRECOGNIZED_NAME'', 1112), (''TLSV1_UNSUPPORTED_EXTENSION'', 1110)]"
proof -
  have "list_all (\<lambda>c. c < 1000) (map snd (SSL_reasons_1 @ SSL_reasons_2))" "list_all (\<lambda>c. c < 1000) (map snd SSL_reasons_4)"
    unfolding SSL_reasons_1_def SSL_reasons_2_def SSL_reasons_4_def append.simps list.map snd_conv by simp_all
  then have "filter (\<lambda>(n, c). 1000 \<le> c) (SSL_reasons_1 @ SSL_reasons_2) = []" "filter (\<lambda>(n, c). 1000 \<le> c) SSL_reasons_4 = []"
    by (simp_all add: list_all_iff filter_empty_conv case_prod_unfold ball_Un not_le)
  then show ?thesis by (simp add: SSL_reasons_def SSL_reasons_3_def)
qed

text \<open>Reasons of alerts: every alert but the closing one and the unknown PSK identity has a reason of its name whose code is the alert
  plus the offset, and every reason from the offset on comes from an alert.\<close>

theorem alerts_have_reasons:
  "(\<forall>a \<in> set SSL_alerts. fst a \<notin> {''CLOSE_NOTIFY'', ''UNKNOWN_PSK_IDENTITY''} \<longrightarrow>
      (\<exists>n \<in> set (alert_reasons (fst a)). (n, SSL_AD_REASON_OFFSET + alert_value a) \<in> set SSL_reasons)) \<and>
   (\<forall>(n, c) \<in> set SSL_reasons. SSL_AD_REASON_OFFSET \<le> c \<longrightarrow> (\<exists>a \<in> set SSL_alerts. n \<in> set (alert_reasons (fst a)) \<and> c = SSL_AD_REASON_OFFSET + alert_value a)) \<and>
   (\<forall>n. (n, SSL_AD_REASON_OFFSET + 115) \<notin> set SSL_reasons)"
proof -
  let ?high = "filter (\<lambda>(n, c). 1000 \<le> c) SSL_reasons"
  have high: "(n, c) \<in> set ?high \<longleftrightarrow> (n, c) \<in> set SSL_reasons \<and> 1000 \<le> c" for n c by simp
  have "list_all (\<lambda>a. if fst a \<in> {''CLOSE_NOTIFY'', ''UNKNOWN_PSK_IDENTITY''} then True else
      list_ex (\<lambda>(n, c). if c = SSL_AD_REASON_OFFSET + alert_value a then n \<in> set (alert_reasons (fst a)) else False) ?high) SSL_alerts"
    unfolding high_reasons by code_simp
  then have "\<exists>n \<in> set (alert_reasons (fst a)). (n, SSL_AD_REASON_OFFSET + alert_value a) \<in> set ?high"
    if "a \<in> set SSL_alerts" "fst a \<notin> {''CLOSE_NOTIFY'', ''UNKNOWN_PSK_IDENTITY''}" for a
    using that unfolding list_all_iff list_ex_iff case_prod_unfold by (metis (no_types, lifting) prod.collapse)
  moreover have "let as = map (\<lambda>a. (fst a, alert_value a)) SSL_alerts in list_all (\<lambda>(n, c). list_ex (\<lambda>(m, v).
      if c = SSL_AD_REASON_OFFSET + v then n \<in> set (alert_reasons m) else False) as) ?high"
    unfolding high_reasons by code_simp
  then have "\<exists>a \<in> set SSL_alerts. n \<in> set (alert_reasons (fst a)) \<and> c = SSL_AD_REASON_OFFSET + alert_value a" if "(n, c) \<in> set ?high" for n c
    using that unfolding Let_def list_all_iff list_ex_iff case_prod_unfold set_map bex_simps
    by (metis (no_types, lifting) prod.sel)
  moreover have "list_all (\<lambda>(n, c). c \<noteq> SSL_AD_REASON_OFFSET + 115) ?high" unfolding high_reasons by code_simp
  then have "(n, SSL_AD_REASON_OFFSET + 115) \<notin> set ?high" for n unfolding list_all_iff by blast
  ultimately show ?thesis unfolding high by (auto simp: SSL_AD_REASON_OFFSET_def)
qed

theorem alerts_have_reasons_witness:
  "\<exists>a \<in> set SSL_alerts. ''TLSV1_UNRECOGNIZED_NAME'' \<in> set (alert_reasons (fst a)) \<and> 1112 = SSL_AD_REASON_OFFSET + alert_value a"
proof -
  have "(''TLSV1_UNRECOGNIZED_NAME'', 1112) \<in> set SSL_reasons" by (simp add: SSL_reasons_def SSL_reasons_3_def)
  moreover have "SSL_AD_REASON_OFFSET \<le> 1112" by (simp add: SSL_AD_REASON_OFFSET_def)
  ultimately show ?thesis using alerts_have_reasons by blast
qed

end
