(* ===== verification/Wire.thy ===== *)
theory Wire
  imports Prelude
begin

section \<open>Inline functions of the protocol-buffer headers\<close>

text \<open>
  The code that \<^verbatim>\<open>Library/Firebase/Messaging/Protobuf.framework/Headers\<close> carries in headers and that is
  compiled into the application: the ZigZag conversions, the logical shifts and the data type predicates
  of \<^verbatim>\<open>GPBUtilities_PackagePrivate.h\<close>, with the enumerations of \<^verbatim>\<open>GPBRuntimeTypes.h\<close> and
  \<^verbatim>\<open>GPBDescriptor_PackagePrivate.h\<close> they use. \<open>int32_t\<close> and \<open>uint32_t\<close> are 32-bit words (64-bit ones
  likewise): a cast between them keeps the bits, a right shift of a signed value is arithmetic.
\<close>

unbundle bit_operations_syntax

subsection \<open>Shifts and ZigZag\<close>

definition GPBLogicalRightShift32 :: "32 word \<Rightarrow> nat \<Rightarrow> 32 word" where
  "GPBLogicalRightShift32 v spaces = drop_bit spaces v"

definition GPBLogicalRightShift64 :: "64 word \<Rightarrow> nat \<Rightarrow> 64 word" where
  "GPBLogicalRightShift64 v spaces = drop_bit spaces v"

definition GPBDecodeZigZag32 :: "32 word \<Rightarrow> 32 word" where
  "GPBDecodeZigZag32 n = GPBLogicalRightShift32 n 1 XOR - (n AND 1)"

definition GPBDecodeZigZag64 :: "64 word \<Rightarrow> 64 word" where
  "GPBDecodeZigZag64 n = GPBLogicalRightShift64 n 1 XOR - (n AND 1)"

definition GPBEncodeZigZag32 :: "32 word \<Rightarrow> 32 word" where
  "GPBEncodeZigZag32 n = push_bit 1 n XOR signed_drop_bit 31 n"

definition GPBEncodeZigZag64 :: "64 word \<Rightarrow> 64 word" where
  "GPBEncodeZigZag64 n = push_bit 1 n XOR signed_drop_bit 63 n"

subsection \<open>The conversions bit by bit, at any width\<close>

lemma bit_minus_parity: "bit (- (e AND 1) :: 'a::len word) i \<longleftrightarrow> i < LENGTH('a) \<and> bit e 0"
proof (cases "odd e")
  case True
  then have "e AND 1 = 1" by (simp add: and_one_eq odd_iff_mod_2_eq_one)
  with True show ?thesis by (simp add: bit_0)
next
  case False
  then have "e AND 1 = 0" by (simp add: and_one_eq even_iff_mod_2_eq_zero)
  with False show ?thesis by (simp add: bit_0)
qed

lemma bit_sign_fill:
  "bit (signed_drop_bit (LENGTH('a) - 1) n :: 'a::len word) i \<longleftrightarrow> i < LENGTH('a) \<and> bit n (LENGTH('a) - 1)"
  by (cases i) (auto simp: bit_signed_drop_bit_iff not_less dest: bit_imp_le_length)

lemma zigzag_decode_encode:
  fixes n :: "'a::len word"
  defines "e \<equiv> push_bit 1 n XOR signed_drop_bit (LENGTH('a) - 1) n"
  shows "drop_bit 1 e XOR - (e AND 1) = n"
proof (rule bit_word_eqI)
  fix i assume i: "i < LENGTH('a)"
  let ?s = "bit n (LENGTH('a) - 1)"
  have e: "bit e j \<longleftrightarrow> j < LENGTH('a) \<and> ((1 \<le> j \<and> bit n (j - 1)) \<noteq> ?s)" for j
    unfolding e_def bit_xor_iff bit_push_bit_iff bit_sign_fill by auto
  have "bit (drop_bit 1 e XOR - (e AND 1)) i \<longleftrightarrow> bit e (i + 1) \<noteq> bit e 0"
    using i by (simp add: bit_xor_iff bit_drop_bit_eq bit_minus_parity)
  also have "\<dots> \<longleftrightarrow> bit n i"
    using i by (cases "i = LENGTH('a) - 1") (auto simp: e)
  finally show "bit (drop_bit 1 e XOR - (e AND 1)) i \<longleftrightarrow> bit n i" .
qed

lemma zigzag_encode_decode:
  fixes e :: "'a::len word"
  defines "n \<equiv> drop_bit 1 e XOR - (e AND 1)"
  shows "push_bit 1 n XOR signed_drop_bit (LENGTH('a) - 1) n = e"
proof (rule bit_word_eqI)
  fix i assume i: "i < LENGTH('a)"
  have n: "bit n j \<longleftrightarrow> j < LENGTH('a) \<and> (bit e (j + 1) \<noteq> bit e 0)" for j
    unfolding n_def by (auto simp: bit_xor_iff bit_drop_bit_eq bit_minus_parity dest: bit_imp_le_length)
  have sign: "bit n (LENGTH('a) - 1) \<longleftrightarrow> bit e 0"
    using n [of "LENGTH('a) - 1"] bit_imp_le_length [of e "LENGTH('a)"] by auto
  show "bit (push_bit 1 n XOR signed_drop_bit (LENGTH('a) - 1) n) i \<longleftrightarrow> bit e i"
    unfolding bit_xor_iff bit_push_bit_iff bit_sign_fill sign n using i by (cases i) auto
qed

text \<open>What the encoding means for the numbers: small absolute values get small codes.\<close>

lemma sint_by_sign:
  "sint n = uint n - (if bit n (LENGTH('a) - 1) then 2 ^ LENGTH('a) else 0)" for n :: "'a::len word"
proof -
  have "sint n = take_bit LENGTH('a) (uint n) - 2 ^ LENGTH('a) * of_bool (bit (uint n) (LENGTH('a) - 1))"
    using signed_take_bit_eq_take_bit_minus [of "LENGTH('a) - 1" "uint n"]
    by (simp add: sint_uint)
  moreover have "take_bit LENGTH('a) (uint n) = uint n"
    by (simp add: take_bit_eq_mod mod_pos_pos_trivial uint_lt2p)
  ultimately show ?thesis by (simp add: bit_uint_iff)
qed

lemma uint_sign_bounds:
  "if bit n (LENGTH('a) - 1) then 2 ^ (LENGTH('a) - 1) \<le> uint n else uint n < 2 ^ (LENGTH('a) - 1)"
  for n :: "'a::len word"
  using sint_by_sign [of n] sint_lt [of n] sint_ge [of n] power_Suc [of "2::int" "LENGTH('a) - 1"]
  by (auto split: if_splits)

lemma uint_double:
  "uint (push_bit 1 n) = 2 * uint n - (if bit n (LENGTH('a) - 1) then 2 ^ LENGTH('a) else 0)"
  for n :: "'a::len word"
proof -
  have p: "(2::int) ^ LENGTH('a) = 2 * 2 ^ (LENGTH('a) - 1)"
    by (metis Suc_diff_1 len_gt_0 power_Suc)
  have "uint (push_bit 1 n) = (2 * uint n) mod 2 ^ LENGTH('a)"
    by (simp add: uint_word_ariths mult.commute)
  moreover have "(2 * uint n) mod 2 ^ LENGTH('a) = 2 * uint n - (if bit n (LENGTH('a) - 1) then 2 ^ LENGTH('a) else 0)"
  proof (cases "bit n (LENGTH('a) - 1)")
    case True
    have "(2 * uint n) mod 2 ^ LENGTH('a) = (2 * uint n - 2 ^ LENGTH('a)) mod 2 ^ LENGTH('a)"
      by (simp add: minus_mod_self2)
    also have "\<dots> = 2 * uint n - 2 ^ LENGTH('a)"
      using uint_sign_bounds [of n] uint_lt2p [of n] True by (intro mod_pos_pos_trivial) (auto simp: p)
    finally show ?thesis using True by simp
  next
    case False
    then show ?thesis using uint_sign_bounds [of n] by (simp add: mod_pos_pos_trivial p)
  qed
  ultimately show ?thesis by simp
qed

lemma sign_fill_cases:
  "signed_drop_bit (LENGTH('a) - 1) n = (if bit n (LENGTH('a) - 1) then - 1 else 0)" for n :: "'a::len word"
  by (rule bit_word_eqI) (simp add: bit_sign_fill [simplified])

lemma uint_complement: "uint (NOT x) = 2 ^ LENGTH('a) - 1 - uint x" for x :: "'a::len word"
proof -
  have "uint (NOT x) = (- uint x - 1) mod 2 ^ LENGTH('a)"
    by (simp add: not_eq_complement uint_word_ariths mod_simps)
  also have "\<dots> = (2 ^ LENGTH('a) - 1 - uint x) mod 2 ^ LENGTH('a)"
    by (metis (no_types, opaque_lifting) add.commute diff_add_eq minus_diff_commute mod_add_self2 uminus_add_conv_diff)
  also have "\<dots> = 2 ^ LENGTH('a) - 1 - uint x"
    using uint_lt2p [of x] uint_ge_0 [of x] by (intro mod_pos_pos_trivial) linarith+
  finally show ?thesis .
qed

lemma zigzag_value:
  fixes n :: "'a::len word"
  shows "uint (push_bit 1 n XOR signed_drop_bit (LENGTH('a) - 1) n) =
         (if 0 \<le> sint n then 2 * sint n else - 2 * sint n - 1)"
proof (cases "bit n (LENGTH('a) - 1)")
  case True
  then have v: "sint n = uint n - 2 ^ LENGTH('a)" by (simp add: sint_by_sign)
  then have neg: "sint n < 0" using uint_lt2p [of n] by simp
  have e: "push_bit 1 n XOR signed_drop_bit (LENGTH('a) - 1) n = NOT (push_bit 1 n)"
    unfolding sign_fill_cases using True by simp
  show ?thesis
    unfolding e uint_complement uint_double if_P [OF True] if_not_P [OF neg [unfolded not_le [symmetric]]] v
    using uint_lt2p [of n] by (simp add: not_le)
next
  case False
  then have v: "sint n = uint n" by (simp add: sint_by_sign)
  have e: "push_bit 1 n XOR signed_drop_bit (LENGTH('a) - 1) n = push_bit 1 n"
    unfolding sign_fill_cases using False by simp
  show ?thesis
    unfolding e uint_double v if_not_P [OF False] by simp
qed


subsection \<open>Data types and field descriptions\<close>

datatype GPBDataType =
    GPBDataTypeBool | GPBDataTypeFixed32 | GPBDataTypeSFixed32 | GPBDataTypeFloat
  | GPBDataTypeFixed64 | GPBDataTypeSFixed64 | GPBDataTypeDouble | GPBDataTypeInt32
  | GPBDataTypeInt64 | GPBDataTypeSInt32 | GPBDataTypeSInt64 | GPBDataTypeUInt32
  | GPBDataTypeUInt64 | GPBDataTypeBytes | GPBDataTypeString | GPBDataTypeMessage
  | GPBDataTypeGroup | GPBDataTypeEnum

type_synonym GPBFieldFlags = "16 word"

definition GPBFieldRepeated :: GPBFieldFlags where
  "GPBFieldRepeated = push_bit 1 1"

definition GPBFieldMapKeyMask :: GPBFieldFlags where
  "GPBFieldMapKeyMask = push_bit 8 0xF"

definition GPBFieldMapKey :: "GPBDataType \<Rightarrow> GPBFieldFlags option" where
  "GPBFieldMapKey t = (case t of
      GPBDataTypeInt32 \<Rightarrow> Some (push_bit 8 1) | GPBDataTypeInt64 \<Rightarrow> Some (push_bit 8 2)
    | GPBDataTypeUInt32 \<Rightarrow> Some (push_bit 8 3) | GPBDataTypeUInt64 \<Rightarrow> Some (push_bit 8 4)
    | GPBDataTypeSInt32 \<Rightarrow> Some (push_bit 8 5) | GPBDataTypeSInt64 \<Rightarrow> Some (push_bit 8 6)
    | GPBDataTypeFixed32 \<Rightarrow> Some (push_bit 8 7) | GPBDataTypeFixed64 \<Rightarrow> Some (push_bit 8 8)
    | GPBDataTypeSFixed32 \<Rightarrow> Some (push_bit 8 9) | GPBDataTypeSFixed64 \<Rightarrow> Some (push_bit 8 10)
    | GPBDataTypeBool \<Rightarrow> Some (push_bit 8 11) | GPBDataTypeString \<Rightarrow> Some (push_bit 8 12)
    | _ \<Rightarrow> None)"

record GPBMessageFieldDescription =
  number :: "32 word"
  hasIndex :: "32 word"
  field_offset :: "32 word"
  flags :: GPBFieldFlags
  dataType :: GPBDataType

definition GPBDataTypeIsObject :: "GPBDataType \<Rightarrow> bool" where
  "GPBDataTypeIsObject t = (case t of
      GPBDataTypeBytes \<Rightarrow> True | GPBDataTypeString \<Rightarrow> True | GPBDataTypeMessage \<Rightarrow> True
    | GPBDataTypeGroup \<Rightarrow> True | _ \<Rightarrow> False)"

definition GPBDataTypeIsMessage :: "GPBDataType \<Rightarrow> bool" where
  "GPBDataTypeIsMessage t = (case t of
      GPBDataTypeMessage \<Rightarrow> True | GPBDataTypeGroup \<Rightarrow> True | _ \<Rightarrow> False)"

definition GPBFieldDataTypeIsMessage :: "GPBMessageFieldDescription \<Rightarrow> bool" where
  "GPBFieldDataTypeIsMessage d = GPBDataTypeIsMessage (dataType d)"

definition GPBFieldDataTypeIsObject :: "GPBMessageFieldDescription \<Rightarrow> bool" where
  "GPBFieldDataTypeIsObject d = GPBDataTypeIsObject (dataType d)"

definition GPBFieldIsMapOrArray :: "GPBMessageFieldDescription \<Rightarrow> bool" where
  "GPBFieldIsMapOrArray d \<longleftrightarrow> flags d AND (GPBFieldRepeated OR GPBFieldMapKeyMask) \<noteq> 0"

definition GPBFieldStoresObject :: "GPBMessageFieldDescription \<Rightarrow> bool" where
  "GPBFieldStoresObject d =
     (if flags d AND (GPBFieldRepeated OR GPBFieldMapKeyMask) \<noteq> 0 then True
      else GPBDataTypeIsObject (dataType d))"

subsection \<open>Properties\<close>

text \<open>
  C39. ZigZag at 32 and 64 bits: decoding inverts encoding and encoding inverts decoding, for every bit
  pattern, and the code of a signed number is twice the number, or one less than twice its absolute
  value when it is negative.
\<close>

theorem zigzag_round_trip:
  "GPBDecodeZigZag32 (GPBEncodeZigZag32 n) = n \<and> GPBEncodeZigZag32 (GPBDecodeZigZag32 n) = n \<and>
   uint (GPBEncodeZigZag32 n) = (if 0 \<le> sint n then 2 * sint n else - 2 * sint n - 1) \<and>
   GPBDecodeZigZag64 (GPBEncodeZigZag64 m) = m \<and> GPBEncodeZigZag64 (GPBDecodeZigZag64 m) = m \<and>
   uint (GPBEncodeZigZag64 m) = (if 0 \<le> sint m then 2 * sint m else - 2 * sint m - 1)"
proof -
  have len: "LENGTH(32) - 1 = 31" "LENGTH(64) - 1 = 63" by simp_all
  note defs = GPBDecodeZigZag32_def GPBEncodeZigZag32_def GPBLogicalRightShift32_def
    GPBDecodeZigZag64_def GPBEncodeZigZag64_def GPBLogicalRightShift64_def
  show ?thesis
    unfolding defs
    using zigzag_decode_encode [of n, unfolded len] zigzag_encode_decode [of n, unfolded len]
      zigzag_value [of n, unfolded len] zigzag_decode_encode [of m, unfolded len]
      zigzag_encode_decode [of m, unfolded len] zigzag_value [of m, unfolded len]
    by (intro conjI)
qed

text \<open>
  Storage of fields: a field stores an object exactly when it is repeated, is a map (for each of the
  twelve key types), or holds bytes, a string or a message.
\<close>

theorem field_stores_object:
  "(GPBFieldStoresObject d \<longleftrightarrow>
      bit (flags d) 1 \<or> bit (flags d) 8 \<or> bit (flags d) 9 \<or> bit (flags d) 10 \<or> bit (flags d) 11 \<or>
      GPBFieldDataTypeIsMessage d \<or> dataType d \<in> {GPBDataTypeBytes, GPBDataTypeString}) \<and>
   (case GPBFieldMapKey t of Some k \<Rightarrow> GPBFieldStoresObject (d\<lparr>flags := k\<rparr>) | None \<Rightarrow> True)"
proof -
  have mask: "GPBFieldRepeated OR GPBFieldMapKeyMask = 0xF02"
    by (simp add: GPBFieldRepeated_def GPBFieldMapKeyMask_def)
  have bits: "w AND 0xF02 \<noteq> 0 \<longleftrightarrow> bit w 1 \<or> bit w 8 \<or> bit w 9 \<or> bit w 10 \<or> bit w 11" for w :: "16 word"
  proof -
    have "w AND 0xF02 = 0 \<longleftrightarrow> list_all (\<lambda>i. \<not> (bit w i \<and> bit (0xF02 :: 16 word) i)) [0..<16]"
      unfolding list_all_iff by (auto simp: bit_eq_iff bit_and_iff dest: bit_imp_le_length)
    also have "\<dots> \<longleftrightarrow> \<not> (bit w 1 \<or> bit w 8 \<or> bit w 9 \<or> bit w 10 \<or> bit w 11)"
      by (simp add: upt_rec eval_nat_numeral)
    finally show ?thesis by blast
  qed
  show ?thesis
    unfolding GPBFieldStoresObject_def mask bits
    by (cases t; cases "dataType d")
       (simp_all add: GPBDataTypeIsObject_def GPBFieldDataTypeIsMessage_def GPBDataTypeIsMessage_def
          GPBFieldMapKey_def)
qed

end
