(* ===== verification/Back_Swizzling.thy ===== *)
theory Back_Swizzling
  imports Prelude
begin

section \<open>Back button: the swizzled navigation controller\<close>

text \<open>
  \<^verbatim>\<open>UINavigationController+BackSwizzling.m\<close> replaces \<open>navigationBar:shouldPopItem:\<close> of the navigation
  controller by a method that first asks the original one and then fires the action of the previous
  item's back button. Modelled are the exchange of the implementations in \<open>+load\<close>, over the method
  tables the Objective-C runtime keeps for a class and its superclasses, and the body of the new method.
  What the original method answers and what actions do are parameters.
\<close>

subsection \<open>Method tables\<close>

text \<open>
  A class has its own methods; \<open>inherited\<close> are the methods of its superclasses, which the superclasses and their other
  subclasses use as well. A table maps a selector to an implementation, which may be the null pointer (\<open>None\<close>). A reference to a method points into
  one of the two tables, and setting the implementation of an inherited method writes into the table of the superclass. A reference may
  be null as well: \<open>class_getInstanceMethod\<close> answers null when no class has the method, the implementation of a null
  reference is null, and exchanging with a null reference does nothing.
\<close>

type_synonym selector = string

type_synonym 'imp method_table = "selector \<rightharpoonup> 'imp option"

record 'imp objc_class =
  own :: "'imp method_table"
  inherited :: "'imp method_table"

datatype method_reference = OwnMethod selector | InheritedMethod selector

definition class_getInstanceMethod :: "'imp objc_class \<Rightarrow> selector \<Rightarrow> method_reference option" where
  "class_getInstanceMethod c s =
     (if own c s \<noteq> None then Some (OwnMethod s) else if inherited c s \<noteq> None then Some (InheritedMethod s) else None)"

definition method_getImplementation :: "'imp objc_class \<Rightarrow> method_reference option \<Rightarrow> 'imp option" where
  "method_getImplementation c m = (case m of
      None \<Rightarrow> None
    | Some (OwnMethod s) \<Rightarrow> Option.bind (own c s) id
    | Some (InheritedMethod s) \<Rightarrow> Option.bind (inherited c s) id)"

definition method_setImplementation :: "'imp objc_class \<Rightarrow> method_reference \<Rightarrow> 'imp option \<Rightarrow> 'imp objc_class" where
  "method_setImplementation c m i = (case m of
      OwnMethod s \<Rightarrow> c\<lparr>own := (own c)(s \<mapsto> i)\<rparr>
    | InheritedMethod s \<Rightarrow> c\<lparr>inherited := (inherited c)(s \<mapsto> i)\<rparr>)"

definition class_addMethod :: "'imp objc_class \<Rightarrow> selector \<Rightarrow> 'imp option \<Rightarrow> bool \<times> 'imp objc_class" where
  "class_addMethod c s i = (case own c s of
      Some _ \<Rightarrow> (False, c)
    | None \<Rightarrow> (True, c\<lparr>own := (own c)(s \<mapsto> i)\<rparr>))"

definition class_replaceMethod :: "'imp objc_class \<Rightarrow> selector \<Rightarrow> 'imp option \<Rightarrow> 'imp objc_class" where
  "class_replaceMethod c s i = c\<lparr>own := (own c)(s \<mapsto> i)\<rparr>"

definition method_exchangeImplementations ::
  "'imp objc_class \<Rightarrow> method_reference option \<Rightarrow> method_reference option \<Rightarrow> 'imp objc_class" where
  "method_exchangeImplementations c m m' = (case (m, m') of
      (Some a, Some b) \<Rightarrow> method_setImplementation (method_setImplementation c a (method_getImplementation c m')) b (method_getImplementation c m)
    | _ \<Rightarrow> c)"

text \<open>What a message with this selector reaches.\<close>

definition dispatched :: "'imp objc_class \<Rightarrow> selector \<Rightarrow> 'imp option" where
  "dispatched c s = method_getImplementation c (class_getInstanceMethod c s)"

subsection \<open>Loading\<close>

definition originalSelector :: selector where
  "originalSelector = ''navigationBar:shouldPopItem:''"

definition swizzledSelector :: selector where
  "swizzledSelector = ''xxx_navigationBar:shouldPopItem:''"

text \<open>
  \<open>+load\<close>: the block runs at most once (\<open>dispatch_once\<close>, the flag is the first component).
\<close>

definition swizzle_block :: "'imp objc_class \<Rightarrow> 'imp objc_class" where
  "swizzle_block c =
     (let originalMethod = class_getInstanceMethod c originalSelector;
          swizzledMethod = class_getInstanceMethod c swizzledSelector;
          (didAddMethod, c1) = class_addMethod c originalSelector (method_getImplementation c swizzledMethod)
      in if didAddMethod then class_replaceMethod c1 swizzledSelector (method_getImplementation c1 originalMethod)
         else method_exchangeImplementations c1 originalMethod swizzledMethod)"

definition load :: "bool \<times> 'imp objc_class \<Rightarrow> bool \<times> 'imp objc_class" where
  "load st = (if fst st then st else (True, swizzle_block (snd st)))"

subsection \<open>The new method\<close>

record ('target, 'action) bar_button_item =
  target :: "'target option"
  action :: "'action option"

record ('target, 'action) navigation_item =
  item_ref :: nat
  backBarButtonItem :: "('target, 'action) bar_button_item option"

text \<open>
  Messages to nil answer nil, so a missing back button has neither target nor action. The result is the
  answer together with the call made, if any: the target, the action and the sender.
\<close>

definition xxx_navigationBar_shouldPopItem ::
  "bool \<Rightarrow> ('t, 'a) navigation_item list \<Rightarrow> ('t, 'a) navigation_item
   \<Rightarrow> bool \<times> ('t \<times> 'a \<times> ('t, 'a) bar_button_item) option" where
  "xxx_navigationBar_shouldPopItem original items item =
     (let shouldPop = original in
      if \<not> shouldPop then (shouldPop, None)
      else case firstIndex (\<lambda>i. item_ref i = item_ref item) items of
        None \<Rightarrow> (shouldPop, None)
      | Some itemIndex \<Rightarrow>
          if itemIndex < 1 then (shouldPop, None)
          else let previousItem = items ! (itemIndex - 1);
                   sel = Option.bind (backBarButtonItem previousItem) action;
                   targ = Option.bind (backBarButtonItem previousItem) target
               in case (targ, sel, backBarButtonItem previousItem) of
                    (Some t, Some a, Some sender) \<Rightarrow> (shouldPop, Some (t, a, sender))
                  | _ \<Rightarrow> (shouldPop, None))"

lemma selectors_differ: "originalSelector \<noteq> swizzledSelector"
  by (simp add: originalSelector_def swizzledSelector_def)

lemmas runtime_defs = dispatched_def class_getInstanceMethod_def method_getImplementation_def method_setImplementation_def
  class_addMethod_def class_replaceMethod_def method_exchangeImplementations_def

subsection \<open>Properties\<close>

text \<open>
  C40. Loading the category exchanges the two methods, whether the class implements the original method
  itself or inherits it: callers of \<open>navigationBar:shouldPopItem:\<close> reach the new method, its call of
  \<open>xxx_navigationBar:shouldPopItem:\<close> reaches the original one, no other method changes, the methods of the superclasses stay
  as they are, and loading again changes nothing. The category implements the swizzled method in the class itself.
\<close>

theorem load_swizzles_once:
  assumes "dispatched c originalSelector = Some orig" and "own c swizzledSelector = Some (Some new)"
  shows "\<exists>c'. load (False, c) = (True, c') \<and>
     dispatched c' originalSelector = Some new \<and> dispatched c' swizzledSelector = Some orig \<and>
     (\<forall>s. s \<noteq> originalSelector \<and> s \<noteq> swizzledSelector \<longrightarrow> dispatched c' s = dispatched c s) \<and>
     inherited c' = inherited c \<and> load (True, c') = (True, c')"
proof (cases "own c originalSelector")
  case None
  then have "inherited c originalSelector = Some (Some orig)"
    using assms(1) by (auto simp: runtime_defs split: if_splits option.splits)
  with None assms(2) selectors_differ show ?thesis by (auto simp: load_def swizzle_block_def runtime_defs Let_def)
next
  case (Some i)
  then have "own c originalSelector = Some (Some orig)" using assms(1) by (simp add: runtime_defs)
  with assms(2) selectors_differ show ?thesis by (auto simp: load_def swizzle_block_def runtime_defs Let_def)
qed

theorem load_swizzles_once_witness:
  "\<exists>c'. load (False, \<lparr>own = [swizzledSelector \<mapsto> Some (1::nat)], inherited = [originalSelector \<mapsto> Some 0]\<rparr>) = (True, c') \<and>
     dispatched c' originalSelector = Some 1 \<and> dispatched c' swizzledSelector = Some 0 \<and>
     inherited c' = [originalSelector \<mapsto> Some 0]"
proof -
  let ?c = "\<lparr>own = [swizzledSelector \<mapsto> Some (1::nat)], inherited = [originalSelector \<mapsto> Some 0]\<rparr>"
  have "dispatched ?c originalSelector = Some 0" "own ?c swizzledSelector = Some (Some 1)"
    using selectors_differ by (simp_all add: runtime_defs)
  from load_swizzles_once [OF this] show ?thesis by auto
qed

text \<open>
  The new method never changes the answer of the original one, and it fires an action exactly when
  the original agrees to pop, the item is on the bar with an item before it, and the back button of the
  item before it has both a target and an action; then it fires that action with that button as sender.
\<close>

theorem swizzled_answer_and_action:
  "fst (xxx_navigationBar_shouldPopItem original items item) = original \<and>
   (snd (xxx_navigationBar_shouldPopItem original items item) = Some (t, a, b) \<longleftrightarrow>
     original \<and> (\<exists>i. firstIndex (\<lambda>j. item_ref j = item_ref item) items = Some (Suc i) \<and>
       backBarButtonItem (items ! i) = Some b \<and> target b = Some t \<and> action b = Some a))"
proof (cases "firstIndex (\<lambda>j. item_ref j = item_ref item) items")
  case None
  then show ?thesis by (simp add: xxx_navigationBar_shouldPopItem_def)
next
  case (Some k)
  then show ?thesis
    by (cases k; cases "backBarButtonItem (items ! (k - 1))")
       (auto simp: xxx_navigationBar_shouldPopItem_def Let_def split: option.splits)
qed

end
