(* ===== verification/Abi.thy ===== *)
theory Abi
  imports Tx
begin

section \<open>Hex text, addresses and the contract ABI\<close>

text \<open>
  \<^verbatim>\<open>Common/Common/Data+Padding.swift\<close>, \<^verbatim>\<open>MultisigWalletDomainModel/Ethereum/Data+InitWithHex.swift\<close>, the
  type \<open>Address\<close> of \<^verbatim>\<open>ExternallyOwnedAccount.swift\<close> and \<^verbatim>\<open>EthereumContractProxy.swift\<close>.

  Three libraries the repository only links do part of the work, so they are parameters, the fields of
  \<open>hex_functions\<close>: BigInt's text in radix 16 and its reading of big-endian data, CryptoSwift's reading and
  writing of hex, and the hash of the encryption service. The locale \<open>hex_library\<close> states the documented
  behaviour the encoder relies on; \<open>reference_library\<close> is a complete implementation of it, on which the
  locale is interpreted and the witnesses run.

  \<open>Data\<close> is a list of bytes that starts at index 0. A \<open>BigUInt\<close> is a natural number. Conversions to \<open>Int\<close>
  and slices out of range trap.
\<close>

subsection \<open>Padding\<close>

definition leftPadded :: "nat \<Rightarrow> bytes \<Rightarrow> bytes" where
  "leftPadded n d = (if length d \<ge> n then d else replicate (n - length d) 0 @ d)"

definition rightPadded :: "nat \<Rightarrow> bytes \<Rightarrow> bytes" where
  "rightPadded n d = (if length d \<ge> n then d else d @ replicate (n - length d) 0)"

definition endTruncated :: "nat \<Rightarrow> bytes \<Rightarrow> bytes" where
  "endTruncated n d = (if \<not> length d > n then d else take n d)"

text \<open>\<open>suffix(n)\<close> of the standard library.\<close>

definition data_suffix :: "nat \<Rightarrow> bytes \<Rightarrow> bytes" where
  "data_suffix n d = drop (length d - n) d"

subsection \<open>The libraries\<close>

record hex_functions =
  hexText :: "nat \<Rightarrow> string"
  fromData :: "bytes \<Rightarrow> nat"
  dataFromHex :: "string \<Rightarrow> bytes"
  toHexString :: "bytes \<Rightarrow> string"
  hash_of :: "bytes \<Rightarrow> bytes"

text \<open>The value of a byte sequence in network order.\<close>

definition big_endian :: "bytes \<Rightarrow> nat" where
  "big_endian d = foldl (\<lambda>n b. 256 * n + unat b) 0 d"

definition has_hex_prefix :: "string \<Rightarrow> bool" where
  "has_hex_prefix s \<longleftrightarrow> take 2 s = ''0x'' \<or> take 2 s = ''0X''"

locale hex_library =
  fixes L :: hex_functions
  assumes fromData_big_endian: "fromData L d = big_endian d"
    and text_value: "big_endian (dataFromHex L ((if odd (length (hexText L n)) then ''0'' else '''') @ hexText L n)) = n"
    and text_minimal: "n > 0 \<Longrightarrow>
      hd (dataFromHex L ((if odd (length (hexText L n)) then ''0'' else '''') @ hexText L n)) \<noteq> 0"
    and text_zero: "length (dataFromHex L ((if odd (length (hexText L 0)) then ''0'' else '''') @ hexText L 0)) \<le> 1"
    and text_plain: "\<not> has_hex_prefix (hexText L n)"
    and hex_round_trip: "dataFromHex L (toHexString L d) = d"
    and hex_even: "even (length (toHexString L d))"
    and hex_plain: "\<not> has_hex_prefix (toHexString L d)"
    and hex_case: "take 2 s \<noteq> ''0X'' \<Longrightarrow> dataFromHex L (lowercased s) = dataFromHex L s"
    and hex_prefix: "\<not> has_hex_prefix s \<Longrightarrow> dataFromHex L (''0x'' @ s) = dataFromHex L s"
    and hex_lower: "lowercased (toHexString L d) = toHexString L d"
    and hash_size: "length (hash_of L d) = 32"

subsection \<open>Data(ethHex:)\<close>

fun strip_prefixes :: "string \<Rightarrow> string" where
  "strip_prefixes (a # b # s) = (if has_hex_prefix [a, b] then strip_prefixes s else a # b # s)"
| "strip_prefixes s = s"

definition ethHex :: "hex_functions \<Rightarrow> string \<Rightarrow> bytes" where
  "ethHex L s =
     (let v = strip_prefixes s;
          paddingToByte = (if length v mod 2 = 1 then ''0'' else '''')
      in dataFromHex L (paddingToByte @ v))"

subsection \<open>Address\<close>

definition address_init :: "hex_functions \<Rightarrow> string \<Rightarrow> ('e, address) outcome" where
  "address_init L v =
     obind (precondition (take 2 v = ''0x'')) (\<lambda>_.
     obind (precondition (length (ethHex L v) = 20 \<or> ethHex L v = [])) (\<lambda>_. Ok v))"

definition isZero :: "address \<Rightarrow> bool" where
  "isZero a \<longleftrightarrow> a = address_zero"

definition address_of_uint :: "hex_functions \<Rightarrow> nat \<Rightarrow> ('e, address) outcome" where
  "address_of_uint L n =
     (let d = leftPadded 20 (endTruncated 20 (ethHex L (hexText L n)))
      in address_init L (''0x'' @ toHexString L d))"

subsection \<open>EthereumContractProxy\<close>

definition ascii :: "string \<Rightarrow> bytes" where
  "ascii s = map (\<lambda>c. of_nat (of_char c)) s"

definition method_id :: "hex_functions \<Rightarrow> string \<Rightarrow> bytes" where
  "method_id L selector = take 4 (hash_of L (ascii selector))"

definition encodeUInt :: "hex_functions \<Rightarrow> nat \<Rightarrow> bytes" where
  "encodeUInt L n = data_suffix 32 (leftPadded 32 (ethHex L (hexText L n)))"

text \<open>The overload on signed integers converts to \<open>BigUInt\<close>, which traps on a negative one.\<close>

definition encodeInt :: "hex_functions \<Rightarrow> int \<Rightarrow> ('e, bytes) outcome" where
  "encodeInt L i = obind (precondition (0 \<le> i)) (\<lambda>_. Ok (encodeUInt L (nat i)))"

definition decodeUInt :: "hex_functions \<Rightarrow> bytes \<Rightarrow> nat" where
  "decodeUInt L d = fromData L (if length d > 32 then take 32 d else d)"

definition decodeAddress :: "hex_functions \<Rightarrow> bytes \<Rightarrow> ('e, address) outcome" where
  "decodeAddress L d = address_of_uint L (decodeUInt L d)"

definition encodeAddress :: "hex_functions \<Rightarrow> address \<Rightarrow> bytes" where
  "encodeAddress L a = encodeUInt L (fromData L (ethHex L a))"

definition headUInt :: "hex_functions \<Rightarrow> nat \<Rightarrow> bytes" where
  "headUInt L n = encodeUInt L n"

definition tailUInt :: "hex_functions \<Rightarrow> nat \<Rightarrow> bytes" where
  "tailUInt L n = []"

definition encodeTupleUInt :: "hex_functions \<Rightarrow> nat list \<Rightarrow> bytes" where
  "encodeTupleUInt L ns = concat (map (headUInt L) ns @ map (tailUInt L) ns)"

definition encodeArrayUInt :: "hex_functions \<Rightarrow> nat list \<Rightarrow> bytes" where
  "encodeArrayUInt L ns = encodeUInt L 32 @ encodeUInt L (length ns) @ encodeTupleUInt L ns"

text \<open>\<open>Int(n)\<close> traps above the largest \<open>Int\<close>.\<close>

definition to_Int :: "nat \<Rightarrow> ('e, nat) outcome" where
  "to_Int n = (if n < 2 ^ 63 then Ok n else Trap)"

text \<open>The 32-byte slices that \<open>stride\<close> visits.\<close>

fun chunks :: "nat \<Rightarrow> bytes \<Rightarrow> bytes list" where
  "chunks 0 d = []"
| "chunks (Suc k) d = take 32 d # chunks k (drop 32 d)"

definition decodeTupleUInt :: "hex_functions \<Rightarrow> bytes \<Rightarrow> nat \<Rightarrow> ('e, nat list) outcome" where
  "decodeTupleUInt L d count =
     obind (to_Int (count * 32)) (\<lambda>n.
     if length d < n then Ok [] else Ok (map (decodeUInt L) (chunks count d)))"

definition decodeArrayUInt :: "hex_functions \<Rightarrow> bytes \<Rightarrow> ('e, nat list) outcome" where
  "decodeArrayUInt L d =
     (if d = [] then Ok []
      else let offset = decodeUInt L d in
        if \<not> offset < length d then Ok []
        else obind (to_Int offset) (\<lambda>o'.
          let rest = drop o' d; count = decodeUInt L rest in
          if \<not> (1 + count) * 32 \<ge> length rest then Ok []
          else obind (to_Int count) (\<lambda>n.
            obind (precondition (32 \<le> length rest)) (\<lambda>_. decodeTupleUInt L (drop 32 rest) n))))"

definition encodeArrayAddress :: "hex_functions \<Rightarrow> address list \<Rightarrow> bytes" where
  "encodeArrayAddress L as = encodeArrayUInt L (map (\<lambda>a. fromData L (ethHex L a)) as)"

fun addresses_of_uints :: "hex_functions \<Rightarrow> nat list \<Rightarrow> ('e, address list) outcome" where
  "addresses_of_uints L [] = Ok []"
| "addresses_of_uints L (n # ns) =
     obind (address_of_uint L n) (\<lambda>a. obind (addresses_of_uints L ns) (\<lambda>as. Ok (a # as)))"

definition decodeArrayAddress :: "hex_functions \<Rightarrow> bytes \<Rightarrow> ('e, address list) outcome" where
  "decodeArrayAddress L d = obind (decodeArrayUInt L d) (addresses_of_uints L)"

definition encodeBool :: "hex_functions \<Rightarrow> bool \<Rightarrow> bytes" where
  "encodeBool L b = encodeUInt L (if b then 1 else 0)"

definition decodeBool :: "hex_functions \<Rightarrow> bytes \<Rightarrow> bool" where
  "decodeBool L d = (if decodeUInt L d = 0 then False else True)"

definition encodeBytes :: "hex_functions \<Rightarrow> bytes \<Rightarrow> bytes" where
  "encodeBytes L d =
     (let byteLength = (if length d mod 32 = 0 then length d else length d + 32 - length d mod 32)
      in encodeUInt L (length d) @ rightPadded byteLength d)"

definition decodeBytes :: "hex_functions \<Rightarrow> bytes \<Rightarrow> ('e, bytes) outcome" where
  "decodeBytes L d = obind (to_Int (decodeUInt L d)) (\<lambda>count. Ok (take count (drop 32 d)))"

definition invocation :: "hex_functions \<Rightarrow> string \<Rightarrow> bytes list \<Rightarrow> bytes" where
  "invocation L selector args = method_id L selector @ concat args"

subsection \<open>Values of byte sequences\<close>

lemma big_endian_from:
  "foldl (\<lambda>n x. 256 * n + unat x) k (b :: bytes) = k * 256 ^ length b + foldl (\<lambda>n x. 256 * n + unat x) 0 b"
proof (induction b rule: rev_induct)
  case (snoc x b)
  show ?case using snoc.IH by (simp add: distrib_left)
qed simp

lemma big_endian_append: "big_endian (a @ b) = big_endian a * 256 ^ length b + big_endian b"
  by (simp add: big_endian_def big_endian_from [of "foldl (\<lambda>n x. 256 * n + unat x) 0 a"])

lemma big_endian_Nil [simp]: "big_endian [] = 0"
  by (simp add: big_endian_def)

lemma big_endian_single [simp]: "big_endian [b] = unat b"
  by (simp add: big_endian_def)

lemma big_endian_Cons: "big_endian (b # d) = unat b * 256 ^ length d + big_endian d"
  using big_endian_append [of "[b]" d] by simp

lemma unat_byte_less: "unat (b :: 8 word) < 256"
  using unsigned_less [of b, where ?'a = nat] by simp

lemma big_endian_less: "big_endian d < 256 ^ length d"
proof (induction d)
  case (Cons b d)
  have "unat b * 256 ^ length d + big_endian d < (unat b + 1) * 256 ^ length d"
    using Cons.IH by (simp add: algebra_simps)
  also have "\<dots> \<le> 256 * 256 ^ length d"
    using unat_byte_less [of b] by (intro mult_right_mono) simp_all
  finally show ?case by (simp add: big_endian_Cons)
qed simp

lemma big_endian_replicate [simp]: "big_endian (replicate k 0) = 0"
  by (induction k) (simp_all add: big_endian_Cons)

lemma big_endian_leftPadded [simp]: "big_endian (leftPadded n d) = big_endian d"
  by (simp add: leftPadded_def big_endian_append)

lemma big_endian_suffix: "big_endian (data_suffix k d) = big_endian d mod 256 ^ k"
proof (cases "k \<le> length d")
  case True
  have "d = take (length d - k) d @ data_suffix k d" by (simp add: data_suffix_def)
  then have "big_endian d = big_endian (take (length d - k) d) * 256 ^ k + big_endian (data_suffix k d)"
    using big_endian_append [of "take (length d - k) d" "data_suffix k d"] True by (simp add: data_suffix_def)
  moreover have "big_endian (data_suffix k d) < 256 ^ k"
    using big_endian_less [of "data_suffix k d"] True by (simp add: data_suffix_def)
  ultimately show ?thesis by simp
next
  case False
  have "big_endian d < 256 ^ k"
    using big_endian_less [of d] False by (meson le_less_trans less_le_trans linear nat_less_le one_le_numeral power_increasing)
  with False show ?thesis by (simp add: data_suffix_def)
qed

lemma big_endian_inject: "length a = length b \<Longrightarrow> big_endian a = big_endian b \<Longrightarrow> a = b"
proof (induction a b rule: list_induct2)
  case (Cons x a y b)
  have lt: "big_endian a < 256 ^ length b" "big_endian b < 256 ^ length b"
    using big_endian_less [of a] big_endian_less [of b] Cons.hyps by simp_all
  have eq: "unat x * 256 ^ length b + big_endian a = unat y * 256 ^ length b + big_endian b"
    using Cons.prems Cons.hyps by (simp add: big_endian_Cons)
  have "unat x = (unat x * 256 ^ length b + big_endian a) div 256 ^ length b" using lt by simp
  also have "\<dots> = unat y" unfolding eq using lt by simp
  finally have "x = y" by (rule unsigned_word_eqI)
  with eq Cons.IH show ?case by simp
qed simp

lemma length_leftPadded [simp]: "length (leftPadded n d) = max n (length d)"
  by (simp add: leftPadded_def)

lemma length_suffix_leftPadded [simp]: "length (data_suffix n (leftPadded n d)) = n"
  by (simp add: data_suffix_def)

subsection \<open>What the laws of the libraries give\<close>

lemma strip_prefixes_plain [simp]: "\<not> has_hex_prefix s \<Longrightarrow> strip_prefixes s = s"
  by (cases s rule: strip_prefixes.cases) (auto simp: has_hex_prefix_def)

lemma strip_prefixes_0x [simp]: "strip_prefixes (CHR ''0'' # CHR ''x'' # s) = strip_prefixes s"
  by (simp add: has_hex_prefix_def)

lemma big_endian_lower: "d \<noteq> [] \<Longrightarrow> hd d \<noteq> 0 \<Longrightarrow> 256 ^ (length d - 1) \<le> big_endian d"
proof (cases d)
  case (Cons b e)
  assume "hd d \<noteq> 0"
  with Cons have "1 \<le> unat b" by (simp add: Suc_le_eq unsigned_eq_0_iff flip: neq0_conv)
  then have "1 * 256 ^ length e \<le> unat b * 256 ^ length e" by (intro mult_right_mono) simp_all
  with Cons show ?thesis by (simp add: big_endian_Cons trans_le_add1)
qed simp

lemma length_chunks [simp]: "length (chunks k d) = k"
  by (induction k arbitrary: d) simp_all

lemma round_up: "(n + 32 - n mod 32) mod 32 = (0 :: nat) \<and> n \<le> n + 32 - n mod 32"
proof -
  obtain q m where n: "n = q * 32 + m" "m < 32" using that [of "n div 32" "n mod 32"] by simp
  then have "n mod 32 = m" "n + 32 - m = (q + 1) * 32" by simp_all
  with n show ?thesis by simp
qed

lemma strip_prefixes_lowercased: "strip_prefixes (lowercased s) = lowercased (strip_prefixes s)"
  by (induction s rule: strip_prefixes.induct) (auto simp: lowercased_def has_hex_prefix_def lower_eq)

lemma strip_prefixes_stripped: "\<not> has_hex_prefix (strip_prefixes s)"
  by (induction s rule: strip_prefixes.induct) (auto simp: has_hex_prefix_def)

context hex_library
begin

lemma ethHex_lowercased: "take 1 (strip_prefixes s) \<noteq> ''X'' \<Longrightarrow> ethHex L (lowercased s) = ethHex L s"
proof -
  let ?t = "strip_prefixes s"
  assume "take 1 ?t \<noteq> ''X''"
  then have "dataFromHex L (''0'' @ lowercased ?t) = dataFromHex L (''0'' @ ?t)"
    using hex_case [of "''0'' @ ?t"] by (cases ?t) auto
  moreover have "dataFromHex L (lowercased ?t) = dataFromHex L ?t"
    using strip_prefixes_stripped [of s] by (intro hex_case) (auto simp: has_hex_prefix_def)
  ultimately show ?thesis by (simp add: ethHex_def Let_def strip_prefixes_lowercased)
qed

lemma address_init_lowercased: "address_init L a = Ok a \<Longrightarrow> take 1 (strip_prefixes a) \<noteq> ''X'' \<Longrightarrow>
  address_init L (lowercased a) = Ok (lowercased a)"
proof -
  assume "address_init L a = Ok a" and x: "take 1 (strip_prefixes a) \<noteq> ''X''"
  then have a: "take 2 a = ''0x''" "length (ethHex L a) = 20 \<or> ethHex L a = []"
    by (auto simp: address_init_def precondition_def split: if_splits)
  then have "take 2 (lowercased a) = ''0x''" by (simp add: lowercased_def take_map)
  with a x show ?thesis by (auto simp: address_init_def ethHex_lowercased)
qed

lemma ethHex_text:
  "ethHex L (hexText L n) = dataFromHex L ((if odd (length (hexText L n)) then ''0'' else '''') @ hexText L n)"
  using text_plain [of n] by (simp add: ethHex_def Let_def odd_iff_mod_2_eq_one)

lemma value_of_text [simp]: "big_endian (ethHex L (hexText L n)) = n"
  unfolding ethHex_text by (rule text_value)

lemma size_of_text: "n < 256 ^ k \<Longrightarrow> 0 < k \<Longrightarrow> length (ethHex L (hexText L n)) \<le> k"
proof (cases "n = 0")
  case True
  then show "0 < k \<Longrightarrow> ?thesis" using text_zero by (simp add: ethHex_text)
next
  case False
  assume n: "n < 256 ^ k"
  let ?d = "ethHex L (hexText L n)"
  have "?d \<noteq> []" using False value_of_text [of n] big_endian_Nil by metis
  moreover have "hd ?d \<noteq> 0" using False text_minimal [of n] by (simp add: ethHex_text)
  ultimately have "256 ^ (length ?d - 1) \<le> n" using big_endian_lower [of ?d] by simp
  then have "(256 :: nat) ^ (length ?d - 1) < 256 ^ k" using n by (rule le_less_trans)
  then have "length ?d - 1 < k" by simp
  then show ?thesis by simp
qed

lemma length_encodeUInt [simp]: "length (encodeUInt L n) = 32"
  by (simp add: encodeUInt_def)

lemma value_encodeUInt: "big_endian (encodeUInt L n) = n mod 2 ^ 256"
proof -
  have "(256 :: nat) ^ 32 = 2 ^ 256" by simp
  then show ?thesis by (simp add: encodeUInt_def big_endian_suffix)
qed

lemma decode_encodeUInt [simp]: "decodeUInt L (encodeUInt L n @ rest) = n mod 2 ^ 256"
  using value_encodeUInt [of n] by (simp add: decodeUInt_def fromData_big_endian)

lemma ethHex_hex [simp]: "ethHex L (''0x'' @ toHexString L d) = d"
  using hex_plain [of d] hex_even [of d] hex_round_trip [of d]
  by (simp add: ethHex_def Let_def even_iff_mod_2_eq_zero has_hex_prefix_def)

lemma address_of_small: "n < 2 ^ 160 \<Longrightarrow>
  \<exists>d. length d = 20 \<and> big_endian d = n \<and> address_of_uint L n = Ok (''0x'' @ toHexString L d)"
proof -
  assume "n < 2 ^ 160"
  moreover have "(2 :: nat) ^ 160 = 256 ^ 20" by simp
  ultimately have len: "length (ethHex L (hexText L n)) \<le> 20" using size_of_text [of n 20] by simp
  let ?d = "leftPadded 20 (ethHex L (hexText L n))"
  have "endTruncated 20 (ethHex L (hexText L n)) = ethHex L (hexText L n)"
    using len by (simp add: endTruncated_def)
  moreover have "length ?d = 20" using len by simp
  moreover have "big_endian ?d = n" by simp
  moreover have "address_init L (''0x'' @ toHexString L ?d) = Ok (''0x'' @ toHexString L ?d)"
    using \<open>length ?d = 20\<close> ethHex_hex [of ?d] by (simp add: address_init_def)
  ultimately show ?thesis by (auto simp: address_of_uint_def Let_def intro!: exI [of _ ?d])
qed

lemma address_of_value: "length d = 20 \<Longrightarrow> address_of_uint L (big_endian d) = Ok (''0x'' @ toHexString L d)"
proof -
  assume d: "length d = 20"
  have "(256 :: nat) ^ 20 = 2 ^ 160" by simp
  then have "big_endian d < 2 ^ 160" using big_endian_less [of d] d by simp
  then show ?thesis using address_of_small [of "big_endian d"] big_endian_inject d by metis
qed

lemma decode_encodeAddress: "length d = 20 \<Longrightarrow>
  decodeAddress L (encodeAddress L (''0x'' @ toHexString L d) @ rest) = Ok (''0x'' @ toHexString L d)"
proof -
  assume d: "length d = 20"
  have "(256 :: nat) ^ 20 \<le> 2 ^ 256" by simp
  then have "big_endian d mod 2 ^ 256 = big_endian d" using big_endian_less [of d] d by simp
  then show ?thesis using address_of_value [OF d]
    by (simp add: decodeAddress_def encodeAddress_def fromData_big_endian del: append_Cons append.simps(2))
qed

lemma encodeTuple: "encodeTupleUInt L ns = concat (map (encodeUInt L) ns)"
  by (simp add: encodeTupleUInt_def headUInt_def [abs_def] tailUInt_def [abs_def] comp_def)

lemma length_encodeTuple [simp]: "length (encodeTupleUInt L ns) = 32 * length ns"
  unfolding encodeTuple by (induction ns) simp_all

lemma decode_chunks:
  "map (decodeUInt L) (chunks (length ns) (encodeTupleUInt L ns @ rest)) = map (\<lambda>n. n mod 2 ^ 256) ns"
proof (induction ns)
  case (Cons n ns)
  have "decodeUInt L (encodeUInt L n) = n mod 2 ^ 256" using decode_encodeUInt [of n "[]"] by simp
  then show ?case using Cons.IH by (simp add: encodeTuple)
qed simp

lemma decode_encodeTuple: "length ns * 32 < 2 ^ 63 \<Longrightarrow>
  decodeTupleUInt L (encodeTupleUInt L ns @ rest) (length ns) = Ok (map (\<lambda>n. n mod 2 ^ 256) ns)"
  using decode_chunks [of ns rest] by (simp add: decodeTupleUInt_def to_Int_def)

lemma decode_encodeArray: "length ns * 32 < 2 ^ 63 \<Longrightarrow>
  decodeArrayUInt L (encodeArrayUInt L ns @ rest) = Ok (if rest = [] then map (\<lambda>n. n mod 2 ^ 256) ns else [])"
proof -
  assume n: "length ns * 32 < 2 ^ 63"
  define d where "d = encodeArrayUInt L ns @ rest"
  define r where "r = encodeUInt L (length ns) @ encodeTupleUInt L ns @ rest"
  have d: "d = encodeUInt L 32 @ r" by (simp add: d_def r_def encodeArrayUInt_def)
  have offset: "decodeUInt L d = 32" unfolding d decode_encodeUInt by simp
  have drops: "drop 32 d = r" "drop 32 r = encodeTupleUInt L ns @ rest" by (simp_all add: d r_def)
  have len: "length d = 32 + length r" "length r = 32 + 32 * length ns + length rest" by (simp_all add: d r_def)
  have "length ns < 2 ^ 256" using n by simp
  then have count: "decodeUInt L r = length ns" unfolding r_def decode_encodeUInt by simp
  have "d \<noteq> []" using len by auto
  moreover have "length ns < 2 ^ 63" using n by simp
  ultimately have "decodeArrayUInt L d = Ok (if rest = [] then map (\<lambda>n. n mod 2 ^ 256) ns else [])"
    using decode_encodeTuple [OF n, of rest]
    by (auto simp: decodeArrayUInt_def Let_def offset drops count len to_Int_def)
  then show ?thesis by (simp add: d_def)
qed

lemma decode_addresses: "list_all (\<lambda>d. length d = 20) ds \<Longrightarrow>
  addresses_of_uints L (map big_endian ds) = Ok (map (\<lambda>d. ''0x'' @ toHexString L d) ds)"
  by (induction ds) (simp_all add: address_of_value)

lemma decode_encodeArrayAddress: "length ds * 32 < 2 ^ 63 \<Longrightarrow> list_all (\<lambda>d. length d = 20) ds \<Longrightarrow>
  decodeArrayAddress L (encodeArrayAddress L (map (\<lambda>d. ''0x'' @ toHexString L d) ds)) =
    Ok (map (\<lambda>d. ''0x'' @ toHexString L d) ds)"
proof -
  assume n: "length ds * 32 < 2 ^ 63" and ds: "list_all (\<lambda>d. length d = 20) ds"
  have word: "big_endian d mod 2 ^ 256 = big_endian d" if "length d = 20" for d
  proof -
    have "(256 :: nat) ^ 20 \<le> 2 ^ 256" by simp
    then show ?thesis using big_endian_less [of d] that by simp
  qed
  have "map ((\<lambda>n. n mod 2 ^ 256) \<circ> big_endian) ds = map big_endian ds"
    using ds word by (simp add: list_all_iff)
  moreover have "map (\<lambda>a. fromData L (ethHex L a)) (map (\<lambda>d. ''0x'' @ toHexString L d) ds) = map big_endian ds"
    using ethHex_hex by (simp add: fromData_big_endian)
  moreover have len: "length (map big_endian ds) * 32 < 2 ^ 63" using n by simp
  ultimately show ?thesis
    by (simp only: decodeArrayAddress_def encodeArrayAddress_def map_map obind_simps simp_thms if_True
        decode_encodeArray [OF len, of "[]", unfolded append_Nil2] decode_addresses [OF ds])
qed

lemma decode_padded_address: "length d = 20 \<Longrightarrow>
  decodeAddress L (replicate 12 0 @ d @ rest) = Ok (''0x'' @ toHexString L d)"
proof -
  assume d: "length d = 20"
  then have "take 32 (replicate 12 0 @ d @ rest) = replicate 12 0 @ d" by simp
  moreover have "replicate 12 0 @ d @ rest = replicate 12 0 @ d" if "\<not> 32 < length (replicate 12 0 @ d @ rest)"
    using that d by simp
  ultimately have "decodeUInt L (replicate 12 0 @ d @ rest) = big_endian d"
    by (auto simp: decodeUInt_def fromData_big_endian big_endian_append)
  then show ?thesis using address_of_value [OF d] by (simp add: decodeAddress_def)
qed

lemma decode_wide_address: "length w = 32 \<Longrightarrow> hd w \<noteq> 0 \<Longrightarrow>
  decodeAddress L (w @ rest) = Ok (''0x'' @ toHexString L (take 20 w))"
proof -
  assume w: "length w = 32" "hd w \<noteq> 0"
  let ?n = "big_endian w" let ?d = "ethHex L (hexText L ?n)"
  have "w \<noteq> []" using w by auto
  then have "256 ^ 31 \<le> ?n" using big_endian_lower [of w] w by simp
  moreover have "?n < 256 ^ length ?d" using big_endian_less [of ?d] by simp
  ultimately have "(256 :: nat) ^ 31 < 256 ^ length ?d" by (rule le_less_trans)
  then have "31 < length ?d" by (rule power_less_imp_less_exp [rotated]) simp
  moreover have "length ?d \<le> 32" using size_of_text [of ?n 32] big_endian_less [of w] w by simp
  ultimately have d: "?d = w" using w big_endian_inject [of ?d w] by simp
  have "decodeUInt L (w @ rest) = ?n" using w by (auto simp: decodeUInt_def fromData_big_endian)
  moreover have "leftPadded 20 (endTruncated 20 w) = take 20 w" using w by (simp add: leftPadded_def endTruncated_def)
  moreover have "address_init L (''0x'' @ toHexString L (take 20 w)) = Ok (''0x'' @ toHexString L (take 20 w))"
    using w ethHex_hex [of "take 20 w"] by (simp add: address_init_def)
  ultimately show ?thesis by (simp add: decodeAddress_def address_of_uint_def d Let_def)
qed

lemma decode_encodeBytes: "length d < 2 ^ 63 \<Longrightarrow>
  decodeBytes L (encodeBytes L d @ rest) = Ok d \<and> length (encodeBytes L d) mod 32 = 0"
proof -
  assume d: "length d < 2 ^ 63"
  let ?n = "if length d mod 32 = 0 then length d else length d + 32 - length d mod 32"
  have "length d < 2 ^ 256" using d by simp
  then have count: "decodeUInt L (encodeUInt L (length d) @ rightPadded ?n d @ rest) = length d"
    unfolding decode_encodeUInt by simp
  have n: "length d \<le> ?n" "?n mod 32 = 0" using round_up [of "length d"] by auto
  then have "take (length d) (rightPadded ?n d @ rest) = d" "length (rightPadded ?n d) = ?n"
    by (simp_all add: rightPadded_def)
  with n(2) show ?thesis using d
    by (simp add: decodeBytes_def encodeBytes_def Let_def count to_Int_def)
qed

end

subsection \<open>A reference implementation of the libraries\<close>

definition digit :: "nat \<Rightarrow> char" where
  "digit k = ''0123456789abcdef'' ! k"

definition digit_value :: "char \<Rightarrow> nat" where
  "digit_value c = (let k = of_char c in if k < 58 then k - 48 else if k < 97 then k - 55 else k - 87)"

fun hex_digits :: "nat \<Rightarrow> string" where
  "hex_digits n = (if n < 16 then [digit n] else hex_digits (n div 16) @ [digit (n mod 16)])"

fun read_hex :: "string \<Rightarrow> bytes" where
  "read_hex (a # b # s) = of_nat (16 * digit_value a + digit_value b) # read_hex s"
| "read_hex [a] = [of_nat (16 * digit_value a)]"
| "read_hex [] = []"

definition write_hex :: "bytes \<Rightarrow> string" where
  "write_hex d = concat (map (\<lambda>b. [digit (unat b div 16), digit (unat b mod 16)]) d)"

definition read_prefixed :: "string \<Rightarrow> bytes" where
  "read_prefixed s = read_hex (if take 2 s = ''0x'' then drop 2 s else s)"

definition reference_library :: hex_functions where
  "reference_library = \<lparr>hexText = hex_digits, fromData = big_endian, dataFromHex = read_prefixed,
     toHexString = write_hex, hash_of = (\<lambda>d. take 32 (d @ replicate 32 0))\<rparr>"

declare hex_digits.simps [simp del]

definition hex_value :: "string \<Rightarrow> nat" where
  "hex_value s = foldl (\<lambda>n c. 16 * n + digit_value c) 0 s"

abbreviation hex_string :: "string \<Rightarrow> bool" where
  "hex_string s \<equiv> list_all (\<lambda>c. c \<in> digit ` {..<16}) s"

lemma digit_value_digit [simp]: "k < 16 \<Longrightarrow> digit_value (digit k) = k"
proof -
  have "list_all (\<lambda>k. digit_value (digit k) = k) [0..<16]" by code_simp
  then show "k < 16 \<Longrightarrow> ?thesis" by (simp add: list_all_iff)
qed

lemma digit_not_x: "k < 16 \<Longrightarrow> digit k \<noteq> CHR ''x'' \<and> digit k \<noteq> CHR ''X''"
proof -
  have "list_all (\<lambda>k. digit k \<noteq> CHR ''x'' \<and> digit k \<noteq> CHR ''X'') [0..<16]" by code_simp
  then show "k < 16 \<Longrightarrow> ?thesis" by (simp add: list_all_iff)
qed

lemma hex_string_plain: "hex_string s \<Longrightarrow> \<not> has_hex_prefix s"
  using digit_not_x by (cases s rule: strip_prefixes.cases) (auto simp: has_hex_prefix_def)

lemma hex_string_digits: "hex_string (hex_digits n)"
  by (induction n rule: hex_digits.induct) (subst hex_digits.simps, auto)

lemma hex_string_write: "hex_string (write_hex d)"
  using unat_byte_less by (induction d) (auto simp: write_hex_def less_mult_imp_div_less)

lemma hex_value_digits [simp]: "hex_value (hex_digits n) = n"
  by (induction n rule: hex_digits.induct) (subst hex_digits.simps, auto simp: hex_value_def)

lemma hex_value_from:
  "foldl (\<lambda>n c. 16 * n + digit_value c) k s = k * 16 ^ length s + hex_value s"
proof (induction s rule: rev_induct)
  case (snoc x b)
  show ?case using snoc.IH by (simp add: hex_value_def distrib_left)
qed (simp add: hex_value_def)

lemma hex_value_Cons: "hex_value (c # s) = digit_value c * 16 ^ length s + hex_value s"
  using hex_value_from [of "digit_value c" s] by (simp add: hex_value_def)

lemma read_hex_even: "even (length s) \<Longrightarrow> length (read_hex s) = length s div 2"
  by (induction s rule: read_hex.induct) simp_all

lemma byte_of_digits: "a < 16 \<Longrightarrow> b < 16 \<Longrightarrow> unat (of_nat (16 * a + b) :: 8 word) = 16 * a + b"
  by (simp add: unsigned_of_nat take_bit_eq_mod del: of_nat_add of_nat_mult of_nat_numeral)

lemma read_hex_value: "even (length s) \<Longrightarrow> hex_string s \<Longrightarrow> big_endian (read_hex s) = hex_value s"
proof (induction s rule: read_hex.induct)
  case (1 a b s)
  obtain k where k: "length s = 2 * k" using 1(2) by (auto elim: evenE)
  then have "16 ^ length s = (256 :: nat) ^ length (read_hex s)"
    using read_hex_even [of s] by (simp add: power_mult)
  moreover have "digit_value a < 16" "digit_value b < 16" using 1(3) by auto
  ultimately show ?case using 1 byte_of_digits [of "digit_value a" "digit_value b"]
    by (simp add: big_endian_Cons hex_value_Cons algebra_simps)
qed (simp_all add: hex_value_def)

lemma hex_round_trip_reference: "read_hex (write_hex d) = d"
proof (induction d)
  case (Cons b d)
  have "unat b div 16 < 16" using unat_byte_less [of b] by (simp add: less_mult_imp_div_less)
  with Cons show ?case by (simp add: write_hex_def)
qed (simp add: write_hex_def)

lemma hex_digits_first: "0 < n \<Longrightarrow> hex_digits n \<noteq> [] \<and> 0 < digit_value (hd (hex_digits n))"
  by (induction n rule: hex_digits.induct) (subst (1 2) hex_digits.simps, auto)

lemma length_write_hex: "length (write_hex d) = 2 * length d"
  by (induction d) (simp_all add: write_hex_def)

lemma text_first_byte: "0 < n \<Longrightarrow>
  hd (read_hex ((if odd (length (hex_digits n)) then ''0'' else '''') @ hex_digits n)) \<noteq> 0"
proof -
  assume "0 < n"
  then obtain c s where s: "hex_digits n = c # s" "0 < digit_value c" "c \<in> digit ` {..<16}"
    using hex_digits_first [of n] hex_string_digits [of n] by (cases "hex_digits n") auto
  have zero: "digit_value CHR ''0'' = 0" by code_simp
  have byte: "(of_nat k :: 8 word) \<noteq> 0" if "0 < k" "k < 256" for k
    using that by (simp add: word_of_nat_eq_0_iff nat_dvd_not_less)
  show ?thesis
  proof (cases "even (length (hex_digits n))")
    case True
    then obtain e t where "s = e # t" using s(1) by (cases s) auto
    moreover have "digit_value e < 16"
      using calculation hex_string_digits [of n] s(1) by auto
    ultimately show ?thesis using True s byte [of "16 * digit_value c + digit_value e"] by auto
  next
    case False
    then show ?thesis using s zero byte [of "digit_value c"] by auto
  qed
qed

lemma reference_text_value:
  "big_endian (read_hex ((if odd (length (hex_digits n)) then ''0'' else '''') @ hex_digits n)) = n"
proof -
  let ?s = "(if odd (length (hex_digits n)) then ''0'' else '''') @ hex_digits n"
  have "CHR ''0'' = digit 0" by code_simp
  then have "CHR ''0'' \<in> digit ` {..<16}" by (rule image_eqI) simp
  then have "hex_string ?s" using hex_string_digits [of n] by simp
  moreover have "even (length ?s)" by simp
  moreover have "digit_value CHR ''0'' = 0" by code_simp
  then have "hex_value ?s = n" by (simp add: hex_value_Cons)
  ultimately show ?thesis using read_hex_value [of ?s] by simp
qed

lemma digit_value_lower [simp]: "digit_value (lower c) = digit_value c"
proof -
  have "of_char c < (256 :: nat)" by simp
  then show ?thesis by (simp add: digit_value_def lower_def Let_def of_char_of take_bit_eq_mod)
qed

lemma read_hex_lowercased: "read_hex (lowercased s) = read_hex s"
  by (induction s rule: read_hex.induct) (simp_all add: lowercased_def)

lemma lower_digit: "k < 16 \<Longrightarrow> lower (digit k) = digit k"
proof -
  have "list_all (\<lambda>k. lower (digit k) = digit k) [0..<16]" by code_simp
  then show "k < 16 \<Longrightarrow> ?thesis" by (simp add: list_all_iff)
qed

lemma hex_string_lowercased: "hex_string s \<Longrightarrow> lowercased s = s"
  by (induction s) (auto simp: lowercased_def lower_digit)

lemma read_prefixed_plain: "\<not> has_hex_prefix s \<Longrightarrow> read_prefixed s = read_hex s"
  by (auto simp: read_prefixed_def has_hex_prefix_def)

lemma read_prefixed_digits:
  "read_prefixed ((if odd (length (hex_digits n)) then ''0'' else '''') @ hex_digits n) =
     read_hex ((if odd (length (hex_digits n)) then ''0'' else '''') @ hex_digits n)"
proof -
  have "CHR ''0'' = digit 0" by code_simp
  then have "CHR ''0'' \<in> digit ` {..<16}" by (rule image_eqI) simp
  then have "hex_string ((if odd (length (hex_digits n)) then ''0'' else '''') @ hex_digits n)" using hex_string_digits [of n] by simp
  then show ?thesis by (intro read_prefixed_plain hex_string_plain)
qed

lemma read_prefixed_lowercased: "take 2 s \<noteq> ''0X'' \<Longrightarrow> read_prefixed (lowercased s) = read_prefixed s"
proof -
  assume s: "take 2 s \<noteq> ''0X''"
  have "take 2 (lowercased s) = lowercased (take 2 s)" "drop 2 (lowercased s) = lowercased (drop 2 s)"
    by (simp_all add: lowercased_def take_map drop_map)
  moreover have "lowercased (take 2 s) = ''0x'' \<longleftrightarrow> take 2 s = ''0x''"
    using s by (cases s rule: strip_prefixes.cases) (auto simp: lower_eq)
  ultimately show ?thesis by (simp add: read_prefixed_def read_hex_lowercased)
qed

interpretation reference: hex_library reference_library
proof unfold_locales
  show "length (dataFromHex reference_library ((if odd (length (hexText reference_library 0)) then ''0'' else '''')
      @ hexText reference_library 0)) \<le> 1"
    using read_prefixed_digits [of 0] by (simp add: reference_library_def hex_digits.simps)
  show "dataFromHex reference_library (''0x'' @ s) = dataFromHex reference_library s" if "\<not> has_hex_prefix s" for s
    using that by (simp add: reference_library_def read_prefixed_plain) (simp add: read_prefixed_def)
qed (simp_all only: reference_library_def hex_functions.select_convs read_prefixed_digits reference_text_value text_first_byte
       not_False_eq_True, simp_all add: hex_string_plain hex_string_digits hex_string_write
       hex_round_trip_reference length_write_hex read_prefixed_plain read_prefixed_lowercased hex_string_lowercased)

subsection \<open>Properties of the encoding\<close>

text \<open>
  A \<open>uint256\<close> takes 32 bytes, and reading them back, whatever follows, gives the number modulo
  \<open>2 ^ 256\<close>: larger numbers are cut to their low 256 bits. A negative \<open>Int\<close> traps. A \<open>bool\<close> comes back as it was.
  Bytes of dynamic length are encoded in whole words of 32 bytes and come back, whatever follows.
\<close>

theorem uint_bytes_round_trip:
  assumes "hex_library L" and "length d < 2 ^ 63"
  shows "length (encodeUInt L n) = 32 \<and>
    decodeUInt L (encodeUInt L n @ rest) = n mod 2 ^ 256 \<and>
    encodeInt L i = (if i < 0 then Trap else Ok (encodeUInt L (nat i))) \<and>
    decodeBool L (encodeBool L b @ rest) = b \<and>
    decodeBytes L (encodeBytes L d @ rest) = Ok d \<and> length (encodeBytes L d) mod 32 = 0"
  using hex_library.length_encodeUInt [OF assms(1)] hex_library.decode_encodeUInt [OF assms(1)]
  by (simp add: encodeInt_def decodeBool_def encodeBool_def hex_library.decode_encodeBytes [OF assms])

theorem uint_bytes_round_trip_witness:
  "decodeUInt reference_library (encodeUInt reference_library (2 ^ 256 + 7) @ [1]) = 7"
  using uint_bytes_round_trip [OF reference.hex_library_axioms, of "[]" "2 ^ 256 + 7" "[1]"] by simp

text \<open>
  An array of \<open>uint256\<close> at the end of the data decodes to its items modulo \<open>2 ^ 256\<close>, and an array of
  20-byte addresses to the addresses. The guard on the size asks that the counted items reach the end of the data,
  so an array that anything follows decodes to the empty list.
\<close>

theorem array_round_trip:
  assumes "hex_library L" and "length ns * 32 < 2 ^ 63" and "length ds * 32 < 2 ^ 63"
    and "list_all (\<lambda>d. length d = 20) ds"
  shows "decodeArrayUInt L (encodeArrayUInt L ns @ rest) = Ok (if rest = [] then map (\<lambda>n. n mod 2 ^ 256) ns else []) \<and>
    decodeArrayAddress L (encodeArrayAddress L (map (\<lambda>d. ''0x'' @ toHexString L d) ds)) =
      Ok (map (\<lambda>d. ''0x'' @ toHexString L d) ds)"
  by (intro conjI hex_library.decode_encodeArray [OF assms(1,2)]
      hex_library.decode_encodeArrayAddress [OF assms(1,3,4)])

theorem array_round_trip_witness:
  "decodeArrayUInt reference_library (encodeArrayUInt reference_library [5, 2 ^ 256 + 6] @ [0]) =
     Ok (if [0 :: 8 word] = [] then map (\<lambda>n. n mod 2 ^ 256) [5, 2 ^ 256 + 6] else []) \<and>
   decodeArrayAddress reference_library
     (encodeArrayAddress reference_library (map (\<lambda>d. ''0x'' @ toHexString reference_library d) [replicate 20 7])) =
     Ok (map (\<lambda>d. ''0x'' @ toHexString reference_library d) [replicate 20 7])"
  by (rule array_round_trip [OF reference.hex_library_axioms]) simp_all

text \<open>
  Addresses: a 20-byte address survives encoding and decoding. A word whose 12 leading bytes are zero decodes
  to the address of its last 20 bytes; a word that starts with a nonzero byte decodes, without an error, to the
  address of its \<^emph>\<open>first\<close> 20 bytes.
\<close>

theorem address_round_trip:
  assumes "hex_library L" and "length d = 20" and "length w = 32" and "hd w \<noteq> 0"
  shows "decodeAddress L (encodeAddress L (''0x'' @ toHexString L d) @ rest) = Ok (''0x'' @ toHexString L d) \<and>
    decodeAddress L (replicate 12 0 @ d @ rest) = Ok (''0x'' @ toHexString L d) \<and>
    decodeAddress L (w @ rest) = Ok (''0x'' @ toHexString L (take 20 w))"
  by (intro conjI hex_library.decode_encodeAddress [OF assms(1,2)] hex_library.decode_padded_address [OF assms(1,2)]
      hex_library.decode_wide_address [OF assms(1,3,4)])

theorem address_round_trip_witness:
  "decodeAddress reference_library (encodeAddress reference_library
       (''0x'' @ toHexString reference_library (replicate 20 7)) @ [1]) =
     Ok (''0x'' @ toHexString reference_library (replicate 20 7)) \<and>
   decodeAddress reference_library (replicate 12 0 @ replicate 20 7 @ [1]) =
     Ok (''0x'' @ toHexString reference_library (replicate 20 7)) \<and>
   decodeAddress reference_library ((replicate 20 7 @ replicate 12 8) @ [1]) =
     Ok (''0x'' @ toHexString reference_library (take 20 (replicate 20 7 @ replicate 12 8)))"
  by (rule address_round_trip [OF reference.hex_library_axioms]) simp_all

end
