(* ===== verification/Contracts.thy ===== *)
theory Contracts
  imports Abi
begin

section \<open>Contract proxies and the owner linked list\<close>

text \<open>
  \<^verbatim>\<open>ERC20TokenContractProxy.swift\<close>, \<^verbatim>\<open>SafeOwnerManagerContractProxy.swift\<close>, \<^verbatim>\<open>GnosisSafeContractProxy.swift\<close>,
  \<^verbatim>\<open>MultiSendContractProxy.swift\<close>, \<^verbatim>\<open>WalletProxyContractProxy.swift\<close> and the struct \<open>OwnerLinkedList\<close> of
  \<^verbatim>\<open>RecoveryDomainService.swift\<close>, over the encoding of the theory \<open>Abi\<close>.

  The Ethereum node is a parameter: \<open>eth_call\<close> takes a contract and data and returns bytes or throws. A decoder
  returns nil (\<open>None\<close>) where the source does and traps where \<open>removeFirst\<close>, \<open>advanced(by:)\<close> or \<open>Int(_:)\<close> does.
\<close>

subsection \<open>Data operations of the standard library\<close>

definition removeFirst :: "nat \<Rightarrow> bytes \<Rightarrow> ('e, bytes) outcome" where
  "removeFirst n d = (if n \<le> length d then Ok (drop n d) else Trap)"

text \<open>\<open>advanced(by:)\<close> asks for a nonempty rest.\<close>

definition advanced :: "nat \<Rightarrow> bytes \<Rightarrow> ('e, bytes) outcome" where
  "advanced n d = (if n < length d then Ok (drop n d) else Trap)"

subsection \<open>Calls to the node\<close>

type_synonym 'e eth_call = "address \<Rightarrow> bytes \<Rightarrow> ('e, bytes) outcome"

definition invoke :: "hex_functions \<Rightarrow> 'e eth_call \<Rightarrow> address \<Rightarrow> string \<Rightarrow> bytes list \<Rightarrow> ('e, bytes) outcome" where
  "invoke L eth_call contract selector args = eth_call contract (invocation L selector args)"

subsection \<open>ERC20 tokens\<close>

definition transferMethodSignature :: string where
  "transferMethodSignature = ''transfer(address,uint256)''"

definition balance_of :: "hex_functions \<Rightarrow> 'e eth_call \<Rightarrow> address \<Rightarrow> address \<Rightarrow> ('e, int) outcome" where
  "balance_of L eth_call contract a =
     omap (\<lambda>d. int (decodeUInt L d)) (invoke L eth_call contract ''balanceOf(address)'' [encodeAddress L a])"

definition transfer :: "hex_functions \<Rightarrow> address \<Rightarrow> int \<Rightarrow> ('e, bytes) outcome" where
  "transfer L dest amt =
     obind (encodeInt L amt) (\<lambda>a. Ok (invocation L transferMethodSignature [encodeAddress L dest, a]))"

definition decodedTransfer :: "hex_functions \<Rightarrow> bytes \<Rightarrow> ('e, (address \<times> int) option) outcome" where
  "decodedTransfer L d =
     (let head = invocation L transferMethodSignature [] in
      if take (length head) d \<noteq> head then Ok None
      else let arguments = drop (length head) d in
        obind (decodeAddress L arguments) (\<lambda>dest.
        obind (removeFirst 32 arguments) (\<lambda>arguments.
        let amt = decodeUInt L arguments in
        obind (removeFirst 32 arguments) (\<lambda>arguments.
        if arguments \<noteq> [] then Ok None else Ok (Some (dest, int amt))))))"

subsection \<open>Owners of the safe\<close>

definition sentinelAddress :: "hex_functions \<Rightarrow> address" where
  "sentinelAddress L = ''0x'' @ toHexString L (leftPadded 20 [1])"

definition getOwners :: "hex_functions \<Rightarrow> 'e eth_call \<Rightarrow> address \<Rightarrow> ('e, address list) outcome" where
  "getOwners L eth_call contract = obind (invoke L eth_call contract ''getOwners()'' []) (decodeArrayAddress L)"

definition previousOwner :: "hex_functions \<Rightarrow> 'e eth_call \<Rightarrow> address \<Rightarrow> address \<Rightarrow> ('e, address option) outcome" where
  "previousOwner L eth_call contract owner =
     obind (getOwners L eth_call contract) (\<lambda>owners.
     case firstIndex (\<lambda>a. lowercased a = lowercased owner) owners of
       None \<Rightarrow> Ok None
     | Some index \<Rightarrow> Ok (Some (if index > 0 then owners ! (index - 1) else sentinelAddress L)))"

definition isOwner :: "hex_functions \<Rightarrow> 'e eth_call \<Rightarrow> address \<Rightarrow> address \<Rightarrow> ('e, bool) outcome" where
  "isOwner L eth_call contract a =
     omap (decodeBool L) (invoke L eth_call contract ''isOwner(address)'' [encodeAddress L a])"

definition getThreshold :: "hex_functions \<Rightarrow> 'e eth_call \<Rightarrow> address \<Rightarrow> ('e, nat) outcome" where
  "getThreshold L eth_call contract =
     obind (invoke L eth_call contract ''getThreshold()'' []) (\<lambda>d. to_Int (decodeUInt L d))"

definition safe_nonce :: "hex_functions \<Rightarrow> 'e eth_call \<Rightarrow> address \<Rightarrow> ('e, nat) outcome" where
  "safe_nonce L eth_call contract = omap (decodeUInt L) (invoke L eth_call contract ''nonce()'' [])"

definition addOwner_data :: "hex_functions \<Rightarrow> address \<Rightarrow> int \<Rightarrow> ('e, bytes) outcome" where
  "addOwner_data L a threshold =
     obind (encodeInt L threshold) (\<lambda>t.
     Ok (invocation L ''addOwnerWithThreshold(address,uint256)'' [encodeAddress L a, t]))"

definition decodeAddOwnerArguments :: "hex_functions \<Rightarrow> bytes \<Rightarrow> ('e, (address \<times> nat) option) outcome" where
  "decodeAddOwnerArguments L d =
     (let argumentLength = 32; selector = method_id L ''addOwnerWithThreshold(address,uint256)'' in
      if \<not> (length d = length selector + 2 * argumentLength \<and> take (length selector) d = selector) then Ok None
      else
        obind (removeFirst (length selector) d) (\<lambda>input.
        obind (decodeAddress L input) (\<lambda>newOwner.
        obind (removeFirst argumentLength input) (\<lambda>input.
        obind (to_Int (decodeUInt L input)) (\<lambda>threshold. Ok (Some (newOwner, threshold)))))))"

definition changeThreshold_data :: "hex_functions \<Rightarrow> int \<Rightarrow> ('e, bytes) outcome" where
  "changeThreshold_data L newValue =
     obind (encodeInt L newValue) (\<lambda>t. Ok (invocation L ''changeThreshold(uint256)'' [t]))"

definition swapOwner_data :: "hex_functions \<Rightarrow> address \<Rightarrow> address \<Rightarrow> address \<Rightarrow> bytes" where
  "swapOwner_data L prevOwner old new =
     invocation L ''swapOwner(address,address,address)''
       [encodeAddress L prevOwner, encodeAddress L old, encodeAddress L new]"

definition decodeSwapOwnerArguments ::
    "hex_functions \<Rightarrow> bytes \<Rightarrow> ('e, (address \<times> address \<times> address) option) outcome" where
  "decodeSwapOwnerArguments L d =
     (let argumentLength = 32; selector = method_id L ''swapOwner(address,address,address)'' in
      if \<not> (length d = length selector + 3 * argumentLength \<and> take (length selector) d = selector) then Ok None
      else
        obind (removeFirst (length selector) d) (\<lambda>input.
        obind (decodeAddress L input) (\<lambda>prevOwner.
        obind (removeFirst argumentLength input) (\<lambda>input.
        obind (decodeAddress L input) (\<lambda>old.
        obind (removeFirst argumentLength input) (\<lambda>input.
        obind (decodeAddress L input) (\<lambda>new. Ok (Some (prevOwner, old, new)))))))))"

definition removeOwner_data :: "hex_functions \<Rightarrow> address \<Rightarrow> address \<Rightarrow> int \<Rightarrow> ('e, bytes) outcome" where
  "removeOwner_data L prevOwner owner threshold =
     obind (encodeInt L threshold) (\<lambda>t.
     Ok (invocation L ''removeOwner(address,address,uint256)'' [encodeAddress L prevOwner, encodeAddress L owner, t]))"

subsection \<open>Set-up of a safe\<close>

definition setupSignature :: string where
  "setupSignature = ''setup(address[],uint256,address,bytes,address,uint256,address)''"

record setup_arguments =
  setup_owners :: "address list"
  setup_threshold :: int
  setup_to :: address
  setup_data :: bytes
  setup_paymentToken :: address
  setup_payment :: int
  setup_paymentReceiver :: address

definition setup_call :: "hex_functions \<Rightarrow> setup_arguments \<Rightarrow> ('e, bytes) outcome" where
  "setup_call L a =
     obind (encodeInt L (setup_threshold a)) (\<lambda>threshold.
     obind (to_Int (7 * 32 + 1 * 32 + length (setup_owners a) * 32)) (\<lambda>dataOffset.
     obind (encodeInt L (setup_payment a)) (\<lambda>payment.
     Ok (invocation L setupSignature
       ([encodeUInt L (7 * 32),
         threshold,
         encodeAddress L (setup_to a),
         encodeUInt L dataOffset,
         encodeAddress L (setup_paymentToken a),
         payment,
         encodeAddress L (setup_paymentReceiver a),
         encodeUInt L (length (setup_owners a))] @
        map (encodeAddress L) (setup_owners a) @
        [encodeBytes L (setup_data a), if setup_data a = [] then encodeUInt L 0 else []])))))"

text \<open>The closure of \<open>(0..<n).map\<close>, which consumes the data.\<close>

fun decode_owners :: "hex_functions \<Rightarrow> nat \<Rightarrow> bytes \<Rightarrow> ('e, address list) outcome" where
  "decode_owners L 0 d = Ok []"
| "decode_owners L (Suc n) d =
     obind (decodeAddress L d) (\<lambda>a.
     obind (removeFirst 32 d) (\<lambda>rest.
     obind (decode_owners L n rest) (\<lambda>as. Ok (a # as))))"

text \<open>The decoder reads the head word by word; each word is dropped after it is read.\<close>

definition decodeSetup :: "hex_functions \<Rightarrow> bytes \<Rightarrow> ('e, setup_arguments option) outcome" where
  "decodeSetup L d =
     (let selector = method_id L setupSignature in
      if take (length selector) d \<noteq> selector then Ok None
      else
        obind (removeFirst (length selector) d) (\<lambda>input.
        let addressArrayOffset = decodeUInt L input in
        obind (removeFirst 32 input) (\<lambda>input.
        obind (to_Int (decodeUInt L input)) (\<lambda>threshold.
        obind (removeFirst 32 input) (\<lambda>input.
        obind (decodeAddress L input) (\<lambda>to.
        obind (removeFirst 32 input) (\<lambda>input.
        let dataOffset = decodeUInt L input in
        obind (removeFirst 32 input) (\<lambda>input.
        obind (decodeAddress L input) (\<lambda>paymentToken.
        obind (removeFirst 32 input) (\<lambda>input.
        let payment = int (decodeUInt L input) in
        obind (removeFirst 32 input) (\<lambda>input.
        obind (decodeAddress L input) (\<lambda>paymentReceiver.
        obind (removeFirst 32 input) (\<lambda>_.
        obind (advanced (length selector) d) (\<lambda>body.
        obind (to_Int addressArrayOffset) (\<lambda>offset.
        obind (advanced offset body) (\<lambda>addressArrayData.
        obind (to_Int (decodeUInt L addressArrayData)) (\<lambda>addressArrayLength.
        obind (removeFirst 32 addressArrayData) (\<lambda>addressArrayData.
        obind (decode_owners L addressArrayLength addressArrayData) (\<lambda>owners.
        obind (to_Int dataOffset) (\<lambda>offset.
        obind (advanced offset body) (\<lambda>dataArgumentData.
        obind (to_Int (decodeUInt L dataArgumentData)) (\<lambda>dataArgumentLength.
        obind (removeFirst 32 dataArgumentData) (\<lambda>dataArgumentData.
        Ok (Some \<lparr>setup_owners = owners, setup_threshold = int threshold, setup_to = to,
                  setup_data = take dataArgumentLength dataArgumentData, setup_paymentToken = paymentToken,
                  setup_payment = payment, setup_paymentReceiver = paymentReceiver\<rparr>))))))))))))))))))))))))"

subsection \<open>Batches of calls\<close>

datatype multiSendTransactionOperation = MS_call | MS_delegateCall

primrec ms_rawValue :: "multiSendTransactionOperation \<Rightarrow> nat" where
  "ms_rawValue MS_call = 0"
| "ms_rawValue MS_delegateCall = 1"

record multiSendTransaction =
  ms_operation :: multiSendTransactionOperation
  ms_to :: address
  ms_value :: int
  ms_data :: bytes

definition ms_encode :: "hex_functions \<Rightarrow> multiSendTransaction \<Rightarrow> bytes" where
  "ms_encode L tx =
     encodeUInt L (ms_rawValue (ms_operation tx)) @ encodeAddress L (ms_to tx) @
     encodeUInt L (nat \<bar>ms_value tx\<bar>) @ encodeUInt L (4 * 32) @ encodeBytes L (ms_data tx)"

definition multiSend :: "hex_functions \<Rightarrow> multiSendTransaction list \<Rightarrow> bytes" where
  "multiSend L transactions =
     (let argumentData = concat (map (ms_encode L) transactions)
      in invocation L ''multiSend(bytes)'' [encodeUInt L 32 @ encodeBytes L argumentData])"

subsection \<open>Master copy\<close>

definition proxy_masterCopyAddress ::
    "hex_functions \<Rightarrow> (address \<Rightarrow> nat \<Rightarrow> ('e, bytes) outcome) \<Rightarrow> address \<Rightarrow> ('e, address option) outcome" where
  "proxy_masterCopyAddress L eth_getStorageAt contract =
     obind (eth_getStorageAt contract 0) (\<lambda>d. omap Some (decodeAddress L d))"

subsection \<open>OwnerLinkedList\<close>

type_synonym owner_linked_list = "address list"

definition normalized :: "hex_functions \<Rightarrow> address \<Rightarrow> ('e, address) outcome" where
  "normalized L a = address_init L (lowercased a)"

definition ol_init :: "hex_functions \<Rightarrow> owner_linked_list" where
  "ol_init L = [sentinelAddress L]"

definition ol_add :: "hex_functions \<Rightarrow> owner_linked_list \<Rightarrow> address \<Rightarrow> ('e, owner_linked_list) outcome" where
  "ol_add L list owner =
     (if list = [] then Trap
      else let sentinel = last list; list1 = butlast list;
               list2 = (if list1 = [] then list1 @ [sentinel] else list1)
           in obind (normalized L owner) (\<lambda>a. Ok ((list2 @ [a]) @ [sentinel])))"

definition ol_replace ::
    "hex_functions \<Rightarrow> owner_linked_list \<Rightarrow> address \<Rightarrow> address \<Rightarrow> ('e, owner_linked_list) outcome" where
  "ol_replace L list oldOwner newOwner =
     obind (normalized L oldOwner) (\<lambda>old.
     case firstIndex (\<lambda>a. a = old) list of
       None \<Rightarrow> Ok list
     | Some index \<Rightarrow> obind (normalized L newOwner) (\<lambda>new. Ok (list [index := new])))"

definition ol_remove :: "hex_functions \<Rightarrow> owner_linked_list \<Rightarrow> address \<Rightarrow> ('e, owner_linked_list) outcome" where
  "ol_remove L list address =
     obind (normalized L address) (\<lambda>a.
     case firstIndex (\<lambda>x. x = a) list of
       None \<Rightarrow> Ok list
     | Some index \<Rightarrow> Ok (take index list @ drop (Suc index) list))"

definition ol_addressBefore :: "hex_functions \<Rightarrow> owner_linked_list \<Rightarrow> address \<Rightarrow> ('e, address) outcome" where
  "ol_addressBefore L list owner =
     obind (normalized L owner) (\<lambda>a.
     obind (unwrap (firstIndex (\<lambda>x. x = a) list)) (\<lambda>index.
     if index = 0 then Trap else Ok (list ! (index - 1))))"

definition ol_contains :: "hex_functions \<Rightarrow> owner_linked_list \<Rightarrow> address \<Rightarrow> ('e, bool) outcome" where
  "ol_contains L list owner = omap (\<lambda>a. a \<in> set list) (normalized L owner)"

definition ol_firstAddress :: "hex_functions \<Rightarrow> owner_linked_list \<Rightarrow> address option" where
  "ol_firstAddress L list = List.find (\<lambda>a. a \<noteq> sentinelAddress L) list"

fun ol_add_all :: "hex_functions \<Rightarrow> owner_linked_list \<Rightarrow> address list \<Rightarrow> ('e, owner_linked_list) outcome" where
  "ol_add_all L list [] = Ok list"
| "ol_add_all L list (a # as) = obind (ol_add L list a) (\<lambda>l. ol_add_all L l as)"

subsection \<open>Round trips of the calls\<close>

text \<open>The text form of an address, and the addresses that \<open>Address.init\<close> accepts, but for texts such as \<open>0xX1234\<close>, which it
  accepts as empty and which lower-casing turns into an address it refuses.\<close>

definition address_text :: "hex_functions \<Rightarrow> bytes \<Rightarrow> address" where
  "address_text L d = ''0x'' @ toHexString L d"

definition valid_address :: "hex_functions \<Rightarrow> address \<Rightarrow> bool" where
  "valid_address L a \<longleftrightarrow> take 2 a = ''0x'' \<and> take 1 (strip_prefixes a) \<noteq> ''X'' \<and>
     (length (ethHex L a) = 20 \<or> ethHex L a = [])"

text \<open>The linked list of the owners \<open>os\<close>: the sentinel closes the chain at both ends. Only the list of a fresh
  object is the single sentinel.\<close>

definition represents :: "hex_functions \<Rightarrow> address list \<Rightarrow> owner_linked_list \<Rightarrow> bool" where
  "represents L os l \<longleftrightarrow>
     (l = sentinelAddress L # os @ [sentinelAddress L] \<or> os = [] \<and> l = [sentinelAddress L]) \<and>
     distinct os \<and> sentinelAddress L \<notin> set os"

lemma firstIndex_chain: "s \<notin> set os \<Longrightarrow> x \<noteq> s \<Longrightarrow>
  firstIndex (\<lambda>a. a = x) (s # os @ [s]) = map_option Suc (firstIndex (\<lambda>a. a = x) os)"
  by (simp add: firstIndex_append split: option.splits)

lemma map_update_distinct: "distinct xs \<Longrightarrow> i < length xs \<Longrightarrow> xs ! i = x \<Longrightarrow>
  map (\<lambda>y. if y = x then z else y) xs = xs [i := z]"
proof (rule nth_equalityI)
  fix j
  assume xs: "distinct xs" "i < length xs" "xs ! i = x" and "j < length (map (\<lambda>y. if y = x then z else y) xs)"
  then have j: "j < length xs" by simp
  then have "xs ! j = x \<longleftrightarrow> i = j" using xs nth_eq_iff_index_eq [of xs j i] by auto
  with j xs(2) show "map (\<lambda>y. if y = x then z else y) xs ! j = xs [i := z] ! j" by (simp add: nth_list_update)
qed simp

lemma firstIndex_absent: "x \<notin> set os \<Longrightarrow> firstIndex (\<lambda>a. a = x) os = None"
  by (auto simp: firstIndex_None)

lemma firstIndex_present: "x \<in> set os \<Longrightarrow> \<exists>i < length os. firstIndex (\<lambda>a. a = x) os = Some i \<and> os ! i = x"
  using firstIndex_None [of "\<lambda>a. a = x" os] firstIndex_Some [of "\<lambda>a. a = x" os] by (metis not_None_eq)

named_theorems call_simps \<open>rules that read an encoded call word by word\<close>

context hex_library
begin

lemma length_method_id [simp]: "length (method_id L s) = 4"
  by (simp add: method_id_def hash_size)

lemma length_encodeAddress [simp]: "length (encodeAddress L a) = 32"
  by (simp add: encodeAddress_def)

lemma read_words [call_simps]:
  "removeFirst 32 (encodeUInt L n @ r) = Ok r"
  "removeFirst 32 (encodeAddress L a @ r) = Ok r"
  "removeFirst 32 (encodeUInt L n) = Ok []"
  "removeFirst 32 (encodeAddress L a) = Ok []"
  "removeFirst 4 (method_id L s @ r) = Ok r"
  "length d = 20 \<Longrightarrow> decodeAddress L (encodeAddress L (address_text L d) @ r) = Ok (address_text L d)"
  "length d = 20 \<Longrightarrow> decodeAddress L (encodeAddress L (address_text L d)) = Ok (address_text L d)"
  "decodeUInt L (encodeUInt L n) = n mod 2 ^ 256"
  using decode_encodeAddress [of d r] decode_encodeAddress [of d "[]"] decode_encodeUInt [of n "[]"]
  by (simp_all add: removeFirst_def address_text_def)

lemma to_Int_word [call_simps]: "n < 2 ^ 63 \<Longrightarrow> to_Int (n mod 2 ^ 256) = Ok n"
  by (simp add: to_Int_def)

lemma encodeInt_nonneg [call_simps]: "0 \<le> i \<Longrightarrow> encodeInt L i = Ok (encodeUInt L (nat i))"
  by (simp add: encodeInt_def)

lemma transfer_decodes: "length d = 20 \<Longrightarrow> 0 \<le> amt \<Longrightarrow>
  \<exists>c. transfer L (address_text L d) amt = Ok c \<and>
      decodedTransfer L (c @ rest) = Ok (if rest = [] then Some (address_text L d, amt mod 2 ^ 256) else None)"
  by (simp add: transfer_def decodedTransfer_def invocation_def Let_def call_simps of_nat_mod)

lemma addOwner_decodes: "length d = 20 \<Longrightarrow> t < 2 ^ 63 \<Longrightarrow>
  \<exists>c. addOwner_data L (address_text L d) (int t) = Ok c \<and>
      decodeAddOwnerArguments L c = Ok (Some (address_text L d, t))"
  by (simp add: addOwner_data_def decodeAddOwnerArguments_def invocation_def Let_def call_simps to_Int_def)

lemma swapOwner_decodes: "length p = 20 \<Longrightarrow> length old = 20 \<Longrightarrow> length new = 20 \<Longrightarrow>
  decodeSwapOwnerArguments L (swapOwner_data L (address_text L p) (address_text L old) (address_text L new)) =
    Ok (Some (address_text L p, address_text L old, address_text L new))"
  by (simp add: swapOwner_data_def decodeSwapOwnerArguments_def invocation_def Let_def call_simps)

lemma decode_owners_encoded: "list_all (\<lambda>d. length d = 20) ds \<Longrightarrow>
  decode_owners L (length ds) (concat (map (encodeAddress L \<circ> address_text L) ds) @ rest) = Ok (map (address_text L) ds)"
  by (induction ds) (simp_all add: call_simps)

lemma length_owners: "length (concat (map (encodeAddress L \<circ> address_text L) ds)) = 32 * length ds"
  by (induction ds) simp_all

text \<open>The two tails of a set-up call, found at the offsets that its head gives.\<close>

lemma setup_tails:
  fixes h1 h2 h3 h4 h5 h6 h7 c r :: bytes
  assumes "length h1 = 32" "length h2 = 32" "length h3 = 32" "length h4 = 32" "length h5 = 32" "length h6 = 32"
    and "length h7 = 32" "length c = 32" "length os = 32 * n" "r \<noteq> []"
  shows "advanced 224 (h1 @ h2 @ h3 @ h4 @ h5 @ h6 @ h7 @ c @ os @ r) = Ok (c @ os @ r)"
    and "advanced (256 + n * 32) (h1 @ h2 @ h3 @ h4 @ h5 @ h6 @ h7 @ c @ os @ r) = Ok r"
  using assms by (simp_all add: advanced_def)

lemma setup_decodes:
  assumes "list_all (\<lambda>d. length d = 20) owners" "length owners < 2 ^ 57" "t < 2 ^ 63"
    and "length to = 20" "length token = 20" "length receiver = 20" "0 \<le> payment" "length d < 2 ^ 63"
  shows "\<exists>c. setup_call L \<lparr>setup_owners = map (address_text L) owners, setup_threshold = int t,
        setup_to = address_text L to, setup_data = d, setup_paymentToken = address_text L token,
        setup_payment = payment, setup_paymentReceiver = address_text L receiver\<rparr> = Ok c \<and>
      decodeSetup L c = Ok (Some \<lparr>setup_owners = map (address_text L) owners, setup_threshold = int t,
        setup_to = address_text L to, setup_data = d, setup_paymentToken = address_text L token,
        setup_payment = payment mod 2 ^ 256, setup_paymentReceiver = address_text L receiver\<rparr>)"
proof -
  define os where "os = concat (map (encodeAddress L \<circ> address_text L) owners)"
  define pad where "pad = rightPadded (if length d mod 32 = 0 then length d else length d + 32 - length d mod 32) d"
  define z where "z = (if d = [] then encodeUInt L 0 else [])"
  define body where "body = encodeUInt L 224 @ encodeUInt L t @ encodeAddress L (address_text L to) @
    encodeUInt L (256 + length owners * 32) @ encodeAddress L (address_text L token) @ encodeUInt L (nat payment) @
    encodeAddress L (address_text L receiver) @ encodeUInt L (length owners) @ os @ encodeUInt L (length d) @ pad @ z"
  have len: "length os = 32 * length owners" by (simp add: os_def length_owners)
  have call: "setup_call L \<lparr>setup_owners = map (address_text L) owners, setup_threshold = int t,
        setup_to = address_text L to, setup_data = d, setup_paymentToken = address_text L token,
        setup_payment = payment, setup_paymentReceiver = address_text L receiver\<rparr> =
      Ok (method_id L setupSignature @ body)"
    using assms(2,7)
    by (simp add: setup_call_def to_Int_def call_simps invocation_def body_def os_def pad_def z_def encodeBytes_def
        Let_def comp_def)
  have "length (encodeUInt L (length d) @ pad @ z) \<noteq> 0" by simp
  then have nonempty: "encodeUInt L (length d) @ pad @ z \<noteq> []" by force
  have tails: "advanced 224 body = Ok (encodeUInt L (length owners) @ os @ encodeUInt L (length d) @ pad @ z)"
    "advanced (256 + length owners * 32) body = Ok (encodeUInt L (length d) @ pad @ z)"
    unfolding body_def by (rule setup_tails [OF _ _ _ _ _ _ _ _ len nonempty]; simp)+
  have data: "take (length d) pad @ take (length d - length pad) z = d"
    using round_up [of "length d"] by (auto simp: pad_def rightPadded_def)
  have start: "advanced 4 (method_id L setupSignature @ body) = Ok body"
    using nonempty by (simp add: advanced_def body_def)
  note reads = tails [unfolded body_def] start [unfolded body_def] decode_owners_encoded [OF assms(1), folded os_def]
  have "decodeSetup L (method_id L setupSignature @ body) = Ok (Some \<lparr>setup_owners = map (address_text L) owners, setup_threshold = int t,
        setup_to = address_text L to, setup_data = d, setup_paymentToken = address_text L token,
        setup_payment = payment mod 2 ^ 256, setup_paymentReceiver = address_text L receiver\<rparr>)"
    using assms
    by (simp add: decodeSetup_def Let_def call_simps reads body_def to_Int_def data of_nat_mod)
  with call show ?thesis by blast
qed

lemma normalized_valid: "valid_address L a \<Longrightarrow> normalized L a = Ok (lowercased a)"
  using address_init_lowercased [of a] by (auto simp: normalized_def valid_address_def address_init_def)

lemma sentinel_lower [simp]: "lowercased (sentinelAddress L) = sentinelAddress L"
  by (simp add: sentinelAddress_def hex_lower)

lemma text_not_X: "take 1 (toHexString L d) \<noteq> ''X''"
  using hex_lower [of d] lower_eq(2) by (cases "toHexString L d") (auto simp: lowercased_def)

lemma strip_text: "strip_prefixes (toHexString L d) = toHexString L d"
  using hex_plain [of d] by (cases "toHexString L d" rule: strip_prefixes.cases) (auto simp: has_hex_prefix_def)

lemma valid_text: "length d = 20 \<Longrightarrow> valid_address L (address_text L d)"
  using ethHex_hex [of d] text_not_X [of d] strip_text [of d] by (simp add: valid_address_def address_text_def)

lemma lowercased_text [simp]: "lowercased (address_text L d) = address_text L d"
  by (simp add: address_text_def hex_lower)

lemma ol_add_owner: "valid_address L a \<Longrightarrow> ol_add L (ol_init L) a = Ok ([sentinelAddress L, lowercased a] @ [sentinelAddress L])"
  by (simp add: ol_add_def ol_init_def normalized_valid Let_def)

lemma ol_add_more: "valid_address L a \<Longrightarrow>
  ol_add L (sentinelAddress L # os @ [sentinelAddress L]) a = Ok (sentinelAddress L # (os @ [lowercased a]) @ [sentinelAddress L])"
  by (simp add: ol_add_def normalized_valid Let_def butlast_append)

lemma ol_add_all_more: "list_all (valid_address L) as \<Longrightarrow>
  ol_add_all L (sentinelAddress L # os @ [sentinelAddress L]) as =
    Ok (sentinelAddress L # (os @ map lowercased as) @ [sentinelAddress L])"
proof (induction as arbitrary: os)
  case (Cons a as)
  then show ?case using Cons.IH [of "os @ [lowercased a]"] by (simp add: ol_add_more [simplified])
qed simp

lemma represents_init: "represents L [] (ol_init L)"
  by (simp add: represents_def ol_init_def)

lemma represents_add: "represents L os l \<Longrightarrow> valid_address L a \<Longrightarrow> lowercased a \<notin> set os \<Longrightarrow>
  lowercased a \<noteq> sentinelAddress L \<Longrightarrow> \<exists>l'. ol_add L l a = Ok l' \<and> represents L (os @ [lowercased a]) l'"
  using ol_add_owner [of a] ol_add_more [of a os] by (auto simp: represents_def ol_init_def)

lemma chain_index: "represents L os l \<Longrightarrow> x \<noteq> sentinelAddress L \<Longrightarrow>
  firstIndex (\<lambda>a. a = x) l = map_option Suc (firstIndex (\<lambda>a. a = x) os)"
  using firstIndex_chain [of "sentinelAddress L" os x] by (auto simp: represents_def)

lemma chain_form: "represents L os l \<Longrightarrow> os \<noteq> [] \<Longrightarrow> l = sentinelAddress L # os @ [sentinelAddress L]"
  by (auto simp: represents_def)

lemma represents_replace:
  assumes "represents L os l" "valid_address L a" "valid_address L b" "lowercased a \<noteq> sentinelAddress L"
    and "lowercased b \<noteq> sentinelAddress L" "lowercased b \<notin> set os"
  shows "\<exists>l'. ol_replace L l a b = Ok l' \<and>
    represents L (map (\<lambda>x. if x = lowercased a then lowercased b else x) os) l'"
proof (cases "lowercased a \<in> set os")
  case False
  then have "map (\<lambda>x. if x = lowercased a then lowercased b else x) os = os" by (auto intro: map_idI)
  with assms False show ?thesis
    by (simp add: ol_replace_def normalized_valid chain_index firstIndex_absent)
next
  case True
  then obtain i where i: "i < length os" "firstIndex (\<lambda>x. x = lowercased a) os = Some i" "os ! i = lowercased a"
    using firstIndex_present [OF True] by (elim exE conjE)
  have l: "l = sentinelAddress L # os @ [sentinelAddress L]" using chain_form [OF assms(1)] i by force
  have d: "distinct os" "sentinelAddress L \<notin> set os" using assms(1) by (simp_all add: represents_def)
  have map: "map (\<lambda>x. if x = lowercased a then lowercased b else x) os = os [i := lowercased b]"
    by (rule map_update_distinct [OF d(1) i(1,3)])
  have "sentinelAddress L \<notin> set (os [i := lowercased b])"
    using set_update_subset_insert [of os i "lowercased b"] d(2) assms(5) by auto
  moreover have "distinct (os [i := lowercased b])" using d assms(6) i by (simp add: distinct_list_update)
  moreover have "l [Suc i := lowercased b] = sentinelAddress L # os [i := lowercased b] @ [sentinelAddress L]"
    using i by (simp add: l list_update_append)
  ultimately have "represents L (os [i := lowercased b]) (l [Suc i := lowercased b])"
    by (simp add: represents_def)
  moreover have "ol_replace L l a b = Ok (l [Suc i := lowercased b])"
    using assms(2-4) i chain_index [OF assms(1,4)] by (simp add: ol_replace_def normalized_valid)
  ultimately show ?thesis unfolding map by blast
qed

lemma represents_remove:
  assumes "represents L os l" "valid_address L a" "lowercased a \<noteq> sentinelAddress L"
  shows "\<exists>l'. ol_remove L l a = Ok l' \<and> represents L (remove1 (lowercased a) os) l'"
proof (cases "lowercased a \<in> set os")
  case False
  with assms show ?thesis
    by (simp add: ol_remove_def normalized_valid chain_index firstIndex_absent remove1_idem)
next
  case True
  then obtain i where i: "i < length os" "firstIndex (\<lambda>x. x = lowercased a) os = Some i" "os ! i = lowercased a"
    using firstIndex_present [OF True] by (elim exE conjE)
  have l: "l = sentinelAddress L # os @ [sentinelAddress L]" using chain_form [OF assms(1)] i by force
  have d: "distinct os" "sentinelAddress L \<notin> set os" using assms(1) by (simp_all add: represents_def)
  have "remove1 (lowercased a) os = take i os @ drop (Suc i) os"
  proof -
    have "os = take i os @ lowercased a # drop (Suc i) os" using i id_take_nth_drop [of i os] by simp
    moreover have "lowercased a \<notin> set (take i os)"
      using d(1) calculation by (metis distinct_append disjoint_iff list.set_intros(1))
    ultimately show ?thesis by (metis remove1_append remove1.simps(2))
  qed
  moreover have "take (Suc i) l @ drop (Suc (Suc i)) l =
      sentinelAddress L # (take i os @ drop (Suc i) os) @ [sentinelAddress L]"
    using i by (simp add: l)
  moreover have "distinct (remove1 (lowercased a) os)" "sentinelAddress L \<notin> set (remove1 (lowercased a) os)"
    using d notin_set_remove1 by fastforce+
  ultimately have "represents L (remove1 (lowercased a) os) (take (Suc i) l @ drop (Suc (Suc i)) l)"
    unfolding represents_def by simp
  moreover have "ol_remove L l a = Ok (take (Suc i) l @ drop (Suc (Suc i)) l)"
    using assms(2) i chain_index [OF assms(1,3)] by (simp add: ol_remove_def normalized_valid)
  ultimately show ?thesis by blast
qed

lemma represents_before:
  assumes "represents L os l" "valid_address L a"
  shows "ol_addressBefore L l a =
    (case firstIndex (\<lambda>x. x = lowercased a) os of None \<Rightarrow> Trap | Some i \<Rightarrow> Ok (if i = 0 then sentinelAddress L else os ! (i - 1)))"
proof (cases "lowercased a = sentinelAddress L")
  case True
  then have "firstIndex (\<lambda>x. x = lowercased a) l = Some 0" "lowercased a \<notin> set os"
    using assms(1) by (auto simp: represents_def)
  then show ?thesis using assms by (simp add: ol_addressBefore_def normalized_valid firstIndex_absent)
next
  case False
  note idx = chain_index [OF assms(1) False]
  show ?thesis
  proof (cases "firstIndex (\<lambda>x. x = lowercased a) os")
    case None
    then show ?thesis using assms idx by (simp add: ol_addressBefore_def normalized_valid)
  next
    case (Some i)
    then have i: "i < length os" using firstIndex_Some [of _ os i] by blast
    then have "os \<noteq> []" by auto
    then have "l = sentinelAddress L # os @ [sentinelAddress L]" by (rule chain_form [OF assms(1)])
    with i have "l ! i = (if i = 0 then sentinelAddress L else os ! (i - 1))"
      by (cases i) (simp_all add: nth_append)
    then show ?thesis using assms idx Some by (simp add: ol_addressBefore_def normalized_valid)
  qed
qed

lemma represents_contains: "represents L os l \<Longrightarrow> valid_address L a \<Longrightarrow> lowercased a \<noteq> sentinelAddress L \<Longrightarrow>
  ol_contains L l a = Ok (lowercased a \<in> set os)"
  by (auto simp: represents_def ol_contains_def normalized_valid)

lemma represents_first: "represents L os l \<Longrightarrow> ol_firstAddress L l = (if os = [] then None else Some (hd os))"
  by (cases os) (auto simp: represents_def ol_firstAddress_def)

lemma add_all_represents: "list_all (valid_address L) as \<Longrightarrow> distinct (map lowercased as) \<Longrightarrow>
  sentinelAddress L \<notin> lowercased ` set as \<Longrightarrow>
  \<exists>l. ol_add_all L (ol_init L) as = Ok l \<and> represents L (map lowercased as) l"
proof (cases as)
  case (Cons a bs)
  assume as: "list_all (valid_address L) as" "distinct (map lowercased as)" "sentinelAddress L \<notin> lowercased ` set as"
  then have "ol_add_all L (ol_init L) as = Ok (sentinelAddress L # map lowercased as @ [sentinelAddress L])"
    by (simp add: Cons ol_add_owner ol_add_all_more [of bs "[lowercased a]", simplified])
  moreover have "represents L (map lowercased as) (sentinelAddress L # map lowercased as @ [sentinelAddress L])"
    using as(2,3) by (simp add: represents_def)
  ultimately show ?thesis by blast
qed (use represents_init in \<open>simp add: ol_init_def\<close>)

end

lemma firstIndex_map: "firstIndex P (map f xs) = firstIndex (\<lambda>x. P (f x)) xs"
  by (induction xs) simp_all

subsection \<open>Properties of the calls\<close>

text \<open>
  A token transfer: the encoded call decodes to its recipient and its amount modulo \<open>2 ^ 256\<close>; the same call with
  anything appended, and data that starts with another selector, are not transfers.
\<close>

theorem transfer_round_trip:
  assumes "hex_library L" and "length d = 20" and "0 \<le> amt"
    and "take 4 other \<noteq> method_id L transferMethodSignature"
  shows "(\<exists>c. transfer L (address_text L d) amt = Ok c \<and>
      decodedTransfer L (c @ rest) = Ok (if rest = [] then Some (address_text L d, amt mod 2 ^ 256) else None)) \<and>
    decodedTransfer L other = Ok None"
proof
  show "decodedTransfer L other = Ok None"
    using assms(4) hex_library.length_method_id [OF assms(1)] by (simp add: decodedTransfer_def invocation_def Let_def)
qed (rule hex_library.transfer_decodes [OF assms(1-3)])

theorem transfer_round_trip_witness:
  "(\<exists>c. transfer reference_library (address_text reference_library (replicate 20 7)) 5 = Ok c \<and>
      decodedTransfer reference_library (c @ []) =
        Ok (if [] = ([] :: bytes) then Some (address_text reference_library (replicate 20 7), 5 mod 2 ^ 256) else None)) \<and>
    decodedTransfer reference_library [0, 0, 0, 0] = Ok None"
proof (rule transfer_round_trip [OF reference.hex_library_axioms])
  have "method_id reference_library transferMethodSignature = [0x74, 0x72, 0x61, 0x6e]"
    by (simp add: method_id_def reference_library_def transferMethodSignature_def ascii_def)
  then show "take 4 [0, 0, 0, 0] \<noteq> method_id reference_library transferMethodSignature" by simp
qed simp_all

text \<open>
  The calls that change the owners of a safe decode to the arguments they were built from: adding an owner with a
  threshold, and swapping an owner for another after its predecessor.
\<close>

theorem owner_calls_round_trip:
  assumes "hex_library L" and "length p = 20" and "length old = 20" and "length new = 20" and "t < 2 ^ 63"
  shows "(\<exists>c. addOwner_data L (address_text L new) (int t) = Ok c \<and>
      decodeAddOwnerArguments L c = Ok (Some (address_text L new, t))) \<and>
    decodeSwapOwnerArguments L (swapOwner_data L (address_text L p) (address_text L old) (address_text L new)) =
      Ok (Some (address_text L p, address_text L old, address_text L new))"
  by (intro conjI hex_library.addOwner_decodes hex_library.swapOwner_decodes assms)

theorem owner_calls_round_trip_witness:
  "(\<exists>c. addOwner_data reference_library (address_text reference_library (replicate 20 3)) (int 2) = Ok c \<and>
      decodeAddOwnerArguments reference_library c = Ok (Some (address_text reference_library (replicate 20 3), 2))) \<and>
    decodeSwapOwnerArguments reference_library (swapOwner_data reference_library
        (address_text reference_library (replicate 20 1)) (address_text reference_library (replicate 20 2))
        (address_text reference_library (replicate 20 3))) =
      Ok (Some (address_text reference_library (replicate 20 1), address_text reference_library (replicate 20 2),
        address_text reference_library (replicate 20 3)))"
  by (rule owner_calls_round_trip [OF reference.hex_library_axioms]) simp_all

text \<open>
  C33. The set-up call of a safe decodes to its owners, threshold, delegate call and payment; the payment is cut to
  256 bits. The two dynamic arguments are found through the offsets of the head.
\<close>

theorem setup_round_trip:
  assumes "hex_library L"
    and "list_all (\<lambda>d. length d = 20) owners" "length owners < 2 ^ 57" "t < 2 ^ 63"
    and "length to = 20" "length token = 20" "length receiver = 20" "0 \<le> payment" "length d < 2 ^ 63"
  shows "\<exists>c. setup_call L \<lparr>setup_owners = map (address_text L) owners, setup_threshold = int t,
        setup_to = address_text L to, setup_data = d, setup_paymentToken = address_text L token,
        setup_payment = payment, setup_paymentReceiver = address_text L receiver\<rparr> = Ok c \<and>
      decodeSetup L c = Ok (Some \<lparr>setup_owners = map (address_text L) owners, setup_threshold = int t,
        setup_to = address_text L to, setup_data = d, setup_paymentToken = address_text L token,
        setup_payment = payment mod 2 ^ 256, setup_paymentReceiver = address_text L receiver\<rparr>)"
  by (rule hex_library.setup_decodes [OF assms])

theorem setup_round_trip_witness:
  "\<exists>c. setup_call reference_library \<lparr>setup_owners = map (address_text reference_library) [replicate 20 1, replicate 20 2],
        setup_threshold = int 2, setup_to = address_text reference_library (replicate 20 0), setup_data = [9],
        setup_paymentToken = address_text reference_library (replicate 20 0), setup_payment = 11,
        setup_paymentReceiver = address_text reference_library (replicate 20 0)\<rparr> = Ok c \<and>
      decodeSetup reference_library c = Ok (Some
       \<lparr>setup_owners = map (address_text reference_library) [replicate 20 1, replicate 20 2],
        setup_threshold = int 2, setup_to = address_text reference_library (replicate 20 0), setup_data = [9],
        setup_paymentToken = address_text reference_library (replicate 20 0), setup_payment = 11 mod 2 ^ 256,
        setup_paymentReceiver = address_text reference_library (replicate 20 0)\<rparr>)"
  by (rule setup_round_trip [OF reference.hex_library_axioms]) simp_all

text \<open>
  C34. The predecessor of an owner is found in two ways, which agree: for the owners the contract returns (valid, not
  the sentinel, distinct up to case), the list that \<open>OwnerLinkedList\<close> builds from them answers
  \<open>addressBefore\<close> with the predecessor that \<open>previousOwner\<close> finds, in lower case; where \<open>previousOwner\<close> finds
  none, \<open>addressBefore\<close> traps.
\<close>

theorem predecessor_agrees:
  fixes eth_call :: "'e eth_call"
  assumes "hex_library L" and "getOwners L eth_call contract = Ok owners"
    and "list_all (valid_address L) owners" "distinct (map lowercased owners)"
    and "sentinelAddress L \<notin> lowercased ` set owners" "valid_address L owner"
  shows "\<exists>list p. ol_add_all L (ol_init L) owners = (Ok list :: ('e, owner_linked_list) outcome) \<and>
    previousOwner L eth_call contract owner = Ok p \<and>
    (ol_addressBefore L list owner :: ('e, address) outcome) = (case p of None \<Rightarrow> Trap | Some a \<Rightarrow> Ok (lowercased a)) \<and>
    (p = None) = (lowercased owner \<notin> lowercased ` set owners)"
proof -
  obtain list where list: "ol_add_all L (ol_init L) owners = (Ok list :: ('e, owner_linked_list) outcome)" "represents L (map lowercased owners) list"
    using hex_library.add_all_represents [OF assms(1,3-5)] by blast
  let ?i = "firstIndex (\<lambda>a. lowercased a = lowercased owner) owners"
  have before: "(ol_addressBefore L list owner :: ('e, address) outcome) = (case ?i of None \<Rightarrow> Trap
      | Some i \<Rightarrow> Ok (if i = 0 then sentinelAddress L else map lowercased owners ! (i - 1)))"
    unfolding hex_library.represents_before [OF assms(1) list(2) assms(6)] firstIndex_map ..
  have absent: "(?i = None) = (lowercased owner \<notin> lowercased ` set owners)"
    unfolding firstIndex_None image_iff by metis
  show ?thesis
  proof (cases ?i)
    case None
    with list absent before show ?thesis by (intro exI [of _ list] exI [of _ None]) (simp add: previousOwner_def assms(2))
  next
    case (Some i)
    then have "i < length owners" using firstIndex_Some [of _ owners i] by blast
    with Some list absent before show ?thesis
      by (intro exI [of _ list] exI [of _ "Some (if i > 0 then owners ! (i - 1) else sentinelAddress L)"])
        (auto simp: previousOwner_def assms(2) hex_library.sentinel_lower [OF assms(1)])
  qed
qed

definition sample_owners :: "bytes list" where
  "sample_owners = [replicate 20 2, replicate 20 3]"

definition sample_node :: "unit eth_call" where
  "sample_node contract d = Ok (encodeArrayAddress reference_library (map (address_text reference_library) sample_owners))"

lemma sample_texts:
  "address_text reference_library (replicate 20 2) \<noteq> address_text reference_library (replicate 20 3)"
  "address_text reference_library (replicate 20 2) \<noteq> sentinelAddress reference_library"
  "address_text reference_library (replicate 20 3) \<noteq> sentinelAddress reference_library"
  by code_simp+

lemma sample_getOwners:
  "getOwners reference_library sample_node c = Ok (map (address_text reference_library) sample_owners)"
proof -
  have "list_all (\<lambda>d. length d = 20) sample_owners" "length sample_owners * 32 < 2 ^ 63"
    by (simp_all add: sample_owners_def)
  then show ?thesis
    by (simp add: getOwners_def invoke_def sample_node_def address_text_def [abs_def]
        reference.decode_encodeArrayAddress [simplified])
qed

theorem predecessor_agrees_witness:
  "\<exists>list p. ol_add_all reference_library (ol_init reference_library) (map (address_text reference_library) sample_owners) =
      (Ok list :: (unit, owner_linked_list) outcome) \<and>
    previousOwner reference_library sample_node ''0x'' (address_text reference_library (replicate 20 3)) = Ok p \<and>
    (ol_addressBefore reference_library list (address_text reference_library (replicate 20 3)) :: (unit, address) outcome) =
      (case p of None \<Rightarrow> Trap | Some a \<Rightarrow> Ok (lowercased a)) \<and> p \<noteq> None"
proof -
  have valid: "valid_address reference_library (address_text reference_library (replicate 20 2))"
    "valid_address reference_library (address_text reference_library (replicate 20 3))"
    by (rule reference.valid_text; simp)+
  show ?thesis
    using predecessor_agrees [OF reference.hex_library_axioms sample_getOwners, of "address_text reference_library (replicate 20 3)" "''0x''"]
      valid sample_texts by (simp add: sample_owners_def)
qed

text \<open>
  C17. \<open>OwnerLinkedList\<close> is the list of owners between two sentinels: adding appends an owner, replacing exchanges it in
  its place, removing takes it out, all in lower case and without repetition, and the queries answer for that list.
\<close>

theorem owner_list_refines:
  assumes "hex_library L" and "represents L os l" and "valid_address L a" "lowercased a \<noteq> sentinelAddress L"
    and "valid_address L b" "lowercased b \<noteq> sentinelAddress L" "lowercased b \<notin> set os"
  shows "(\<exists>l'. ol_add L l b = Ok l' \<and> represents L (os @ [lowercased b]) l') \<and>
    (\<exists>l'. ol_replace L l a b = Ok l' \<and> represents L (map (\<lambda>x. if x = lowercased a then lowercased b else x) os) l') \<and>
    (\<exists>l'. ol_remove L l a = Ok l' \<and> represents L (remove1 (lowercased a) os) l') \<and>
    ol_contains L l a = Ok (lowercased a \<in> set os) \<and>
    ol_firstAddress L l = (if os = [] then None else Some (hd os)) \<and>
    represents L [] (ol_init L)"
  by (intro conjI hex_library.represents_add hex_library.represents_replace hex_library.represents_remove
      hex_library.represents_contains hex_library.represents_first hex_library.represents_init assms)

theorem owner_list_refines_witness:
  "\<exists>l'. ol_replace reference_library
      [sentinelAddress reference_library, address_text reference_library (replicate 20 2), sentinelAddress reference_library]
      (address_text reference_library (replicate 20 2)) (address_text reference_library (replicate 20 3)) = Ok l' \<and>
    represents reference_library (map (\<lambda>x. if x = lowercased (address_text reference_library (replicate 20 2))
        then lowercased (address_text reference_library (replicate 20 3)) else x)
      [address_text reference_library (replicate 20 2)]) l'"
proof (rule owner_list_refines [OF reference.hex_library_axioms, THEN conjunct2, THEN conjunct1])
  show "represents reference_library [address_text reference_library (replicate 20 2)]
      [sentinelAddress reference_library, address_text reference_library (replicate 20 2), sentinelAddress reference_library]"
    using sample_texts by (simp add: represents_def)
qed (use sample_texts reference.valid_text in simp_all)

end
