(* ===== verification/Registry.thy ===== *)
theory Registry
  imports TxService Contracts
begin

section \<open>The registry of repositories\<close>

text \<open>
  What the domain services share through \<open>DomainRegistry\<close>: the repositories of wallets, accounts, transactions, externally
  owned accounts, token list items and monitored transactions, the portfolio, and the logs of published events
  and posted errors. A dictionary-backed repository is a list with one entry per key (its order is not
  specified); an object that is loaded is a value, which the service changes and saves, as with the repositories the app
  runs on. The locale \<open>keyed_repository\<close> states the laws the services rely on and is interpreted on every repository.
\<close>

subsection \<open>Repositories keyed by an identifier\<close>

definition store_get :: "('a \<Rightarrow> 'k) \<Rightarrow> 'k \<Rightarrow> 'a list \<Rightarrow> 'a option" where
  "store_get key k xs = List.find (\<lambda>x. key x = k) xs"

fun store_put :: "('a \<Rightarrow> 'k) \<Rightarrow> 'a \<Rightarrow> 'a list \<Rightarrow> 'a list" where
  "store_put key x [] = [x]"
| "store_put key x (y # ys) = (if key y = key x then x # ys else y # store_put key x ys)"

definition store_del :: "('a \<Rightarrow> 'k) \<Rightarrow> 'k \<Rightarrow> 'a list \<Rightarrow> 'a list" where
  "store_del key k xs = filter (\<lambda>x. key x \<noteq> k) xs"

locale keyed_repository =
  fixes key :: "'a \<Rightarrow> 'k"
    and save :: "'a \<Rightarrow> 's \<Rightarrow> 's"
    and find :: "'k \<Rightarrow> 's \<Rightarrow> 'a option"
    and remove :: "'k \<Rightarrow> 's \<Rightarrow> 's"
  assumes find_save: "find k (save x s) = (if k = key x then Some x else find k s)"
    and find_remove: "find k (remove k' s) = (if k = k' then None else find k s)"
    and find_key: "find k s = Some x \<Longrightarrow> key x = k"
begin

lemma save_twice: "find k (save y (save x s)) = (if key x = key y then find k (save y s) else
    if k = key y then Some y else if k = key x then Some x else find k s)"
  by (simp add: find_save)

lemma save_found: "find (key x) s = Some x \<Longrightarrow> find k (save x s) = find k s"
  by (auto simp: find_save)

lemma remove_saved: "find k (remove (key x) (save x s)) = (if k = key x then None else find k s)"
  by (simp add: find_save find_remove)

end

lemma store_get_put: "store_get key k (store_put key x xs) = (if k = key x then Some x else store_get key k xs)"
  by (induction xs) (auto simp: store_get_def)

lemma store_get_del: "store_get key k (store_del key k' xs) = (if k = k' then None else store_get key k xs)"
  by (induction xs) (auto simp: store_get_def store_del_def)

lemma store_get_key: "store_get key k xs = Some x \<Longrightarrow> key x = k"
  by (auto simp: store_get_def find_Some_iff)

lemma store_put_keys: "map key (store_put key x xs) = (if key x \<in> key ` set xs then map key xs else map key xs @ [key x])"
  by (induction xs) auto

lemma store_put_twice: "key x = key y \<Longrightarrow> store_put key y (store_put key x xs) = store_put key y xs"
  by (induction xs) auto

lemma store_del_absent: "store_get key k xs = None \<Longrightarrow> store_del key k xs = xs"
  by (auto simp: store_get_def store_del_def find_None_iff intro!: filter_True)

lemma store_put_distinct: "distinct (map key xs) \<Longrightarrow> distinct (map key (store_put key x xs))"
  by (simp add: store_put_keys)

subsection \<open>Entities that other services keep\<close>

record eoa =
  eoa_address :: address
  eoa_mnemonic :: "string list"
  privateKey :: bytes
  publicKey :: bytes
  derivedIndex :: int

record account =
  account_id :: accountID
  balance :: "int option"

record monitorEntry =
  entry_transactionID :: transactionID
  entry_createdDate :: date

datatype tokenListItemStatus = regular | whitelisted | blacklisted

record tokenListItem =
  item_token :: token
  item_status :: tokenListItemStatus
  canPayTransactionFee :: bool
  sortingId :: "int option"
  item_updated :: date

definition item_id :: "tokenListItem \<Rightarrow> string" where
  "item_id x = token_id (item_token x)"

datatype domain_event = WalletEvent wallet_event | TokensDisplayListChanged | TokenListMerged
  | AccountsBalancesUpdated | WalletAddressChanged | WalletRecoveryAccountsAccepted
  | WalletBecameReadyForRecovery | TransactionStatusUpdated | WalletTransactionHashIsKnown

subsection \<open>The registry\<close>

record 'x registry =
  reg_wallets :: "wallet list"
  reg_portfolio :: "portfolio option"
  reg_accounts :: "account list"
  reg_txs :: "transaction list"
  reg_eoas :: "eoa list"
  reg_items :: "tokenListItem list"
  reg_monitor :: "monitorEntry list"
  reg_events :: "domain_event list"
  reg_errors :: "'x list"

definition save_wallet_in :: "wallet \<Rightarrow> 'x registry \<Rightarrow> 'x registry" where
  "save_wallet_in w s = s\<lparr>reg_wallets := store_put wallet_id w (reg_wallets s)\<rparr>"

definition find_wallet :: "walletID \<Rightarrow> 'x registry \<Rightarrow> wallet option" where
  "find_wallet i s = store_get wallet_id i (reg_wallets s)"

definition remove_wallet_in :: "walletID \<Rightarrow> 'x registry \<Rightarrow> 'x registry" where
  "remove_wallet_in i s = s\<lparr>reg_wallets := store_del wallet_id i (reg_wallets s)\<rparr>"

definition save_account :: "account \<Rightarrow> 'x registry \<Rightarrow> 'x registry" where
  "save_account a s = s\<lparr>reg_accounts := store_put account_id a (reg_accounts s)\<rparr>"

definition remove_account :: "accountID \<Rightarrow> 'x registry \<Rightarrow> 'x registry" where
  "remove_account i s = s\<lparr>reg_accounts := store_del account_id i (reg_accounts s)\<rparr>"

definition find_account :: "accountID \<Rightarrow> 'x registry \<Rightarrow> account option" where
  "find_account i s = store_get account_id i (reg_accounts s)"

definition save_eoa :: "eoa \<Rightarrow> 'x registry \<Rightarrow> 'x registry" where
  "save_eoa a s = s\<lparr>reg_eoas := store_put eoa_address a (reg_eoas s)\<rparr>"

definition remove_eoa :: "address \<Rightarrow> 'x registry \<Rightarrow> 'x registry" where
  "remove_eoa i s = s\<lparr>reg_eoas := store_del eoa_address i (reg_eoas s)\<rparr>"

definition find_eoa :: "address \<Rightarrow> 'x registry \<Rightarrow> eoa option" where
  "find_eoa i s = store_get eoa_address i (reg_eoas s)"

definition save_tx :: "transaction \<Rightarrow> 'x registry \<Rightarrow> 'x registry" where
  "save_tx tx s = s\<lparr>reg_txs := store_put tx_id tx (reg_txs s)\<rparr>"

definition remove_tx :: "transactionID \<Rightarrow> 'x registry \<Rightarrow> 'x registry" where
  "remove_tx i s = s\<lparr>reg_txs := store_del tx_id i (reg_txs s)\<rparr>"

definition find_tx :: "transactionID \<Rightarrow> 'x registry \<Rightarrow> transaction option" where
  "find_tx i s = store_get tx_id i (reg_txs s)"

definition find_tx_type :: "transactionType \<Rightarrow> walletID \<Rightarrow> 'x registry \<Rightarrow> transaction option" where
  "find_tx_type ty w s = List.find (\<lambda>tx. tx_type tx = ty \<and> tx_walletID tx = w) (reg_txs s)"

definition save_entry :: "monitorEntry \<Rightarrow> 'x registry \<Rightarrow> 'x registry" where
  "save_entry e s = s\<lparr>reg_monitor := store_put entry_transactionID e (reg_monitor s)\<rparr>"

definition remove_entry :: "transactionID \<Rightarrow> 'x registry \<Rightarrow> 'x registry" where
  "remove_entry i s = s\<lparr>reg_monitor := store_del entry_transactionID i (reg_monitor s)\<rparr>"

definition find_entry :: "transactionID \<Rightarrow> 'x registry \<Rightarrow> monitorEntry option" where
  "find_entry i s = store_get entry_transactionID i (reg_monitor s)"

definition publish_event :: "domain_event \<Rightarrow> 'x registry \<Rightarrow> 'x registry" where
  "publish_event e s = s\<lparr>reg_events := reg_events s @ [e]\<rparr>"

definition post_error :: "'x \<Rightarrow> 'x registry \<Rightarrow> 'x registry" where
  "post_error e s = s\<lparr>reg_errors := reg_errors s @ [e]\<rparr>"

definition selectedWallet_of :: "'x registry \<Rightarrow> wallet option" where
  "selectedWallet_of s = (case reg_portfolio s of
      None \<Rightarrow> None
    | Some p \<Rightarrow> (case selectedWallet p of None \<Rightarrow> None | Some i \<Rightarrow> find_wallet i s))"

definition find_wallet_address :: "address \<Rightarrow> 'x registry \<Rightarrow> wallet option" where
  "find_wallet_address a s = List.find (\<lambda>w. address_of w = Some a) (reg_wallets s)"

lemmas registry_defs = save_wallet_in_def find_wallet_def remove_wallet_in_def save_account_def remove_account_def
  find_account_def save_eoa_def remove_eoa_def find_eoa_def save_tx_def remove_tx_def find_tx_def save_entry_def
  remove_entry_def find_entry_def publish_event_def post_error_def

interpretation wallet_repo: keyed_repository wallet_id save_wallet_in find_wallet remove_wallet_in
  by (unfold_locales, simp_all add: registry_defs store_get_put store_get_del) (erule store_get_key)

interpretation account_repo: keyed_repository account_id save_account find_account remove_account
  by (unfold_locales, simp_all add: registry_defs store_get_put store_get_del) (erule store_get_key)

interpretation eoa_repo: keyed_repository eoa_address save_eoa find_eoa remove_eoa
  by (unfold_locales, simp_all add: registry_defs store_get_put store_get_del) (erule store_get_key)

interpretation tx_repo: keyed_repository tx_id save_tx find_tx remove_tx
  by (unfold_locales, simp_all add: registry_defs store_get_put store_get_del) (erule store_get_key)

interpretation entry_repo: keyed_repository entry_transactionID save_entry find_entry remove_entry
  by (unfold_locales, simp_all add: registry_defs store_get_put store_get_del) (erule store_get_key)

text \<open>An operation leaves alone what it does not name.\<close>

lemma registry_frame [simp]:
  "find_wallet i (save_account a s) = find_wallet i s" "find_wallet i (save_eoa e s) = find_wallet i s"
  "find_wallet i (save_tx tx s) = find_wallet i s" "find_wallet i (publish_event ev s) = find_wallet i s"
  "find_wallet i (post_error x s) = find_wallet i s" "find_wallet i (remove_eoa b s) = find_wallet i s"
  "find_wallet i (remove_tx j s) = find_wallet i s" "find_wallet i (save_entry m s) = find_wallet i s"
  "find_wallet i (remove_entry j s) = find_wallet i s"
  "find_account k (save_wallet_in w s) = find_account k s" "find_account k (save_eoa e s) = find_account k s"
  "find_account k (save_tx tx s) = find_account k s" "find_account k (publish_event ev s) = find_account k s"
  "find_account k (post_error x s) = find_account k s" "find_account k (remove_eoa b s) = find_account k s"
  "find_account k (remove_tx j s) = find_account k s"
  "find_eoa b (save_wallet_in w s) = find_eoa b s" "find_eoa b (save_account a s) = find_eoa b s"
  "find_eoa b (save_tx tx s) = find_eoa b s" "find_eoa b (publish_event ev s) = find_eoa b s"
  "find_eoa b (post_error x s) = find_eoa b s" "find_eoa b (remove_tx j s) = find_eoa b s"
  "reg_portfolio (save_wallet_in w s) = reg_portfolio s" "reg_portfolio (save_account a s) = reg_portfolio s"
  "reg_portfolio (save_eoa e s) = reg_portfolio s" "reg_portfolio (save_tx tx s) = reg_portfolio s"
  "reg_portfolio (publish_event ev s) = reg_portfolio s" "reg_portfolio (post_error x s) = reg_portfolio s"
  "reg_portfolio (remove_eoa b s) = reg_portfolio s" "reg_portfolio (remove_tx j s) = reg_portfolio s"
  "reg_portfolio (save_entry m s) = reg_portfolio s" "reg_portfolio (remove_entry j s) = reg_portfolio s"
  "reg_txs (save_wallet_in w s) = reg_txs s" "reg_txs (save_account a s) = reg_txs s" "reg_txs (save_eoa e s) = reg_txs s"
  "reg_txs (publish_event ev s) = reg_txs s" "reg_txs (post_error x s) = reg_txs s" "reg_txs (remove_eoa b s) = reg_txs s"
  "reg_items (save_wallet_in w s) = reg_items s" "reg_items (save_account a s) = reg_items s"
  "reg_items (save_tx tx s) = reg_items s" "reg_items (publish_event ev s) = reg_items s"
  by (simp_all add: registry_defs)

lemma selectedWallet_frame [simp]:
  "selectedWallet_of (publish_event ev s) = selectedWallet_of s" "selectedWallet_of (post_error x s) = selectedWallet_of s"
  "selectedWallet_of (save_tx tx s) = selectedWallet_of s" "selectedWallet_of (remove_tx j s) = selectedWallet_of s"
  "selectedWallet_of (save_eoa e s) = selectedWallet_of s" "selectedWallet_of (remove_eoa b s) = selectedWallet_of s"
  "selectedWallet_of (save_account a s) = selectedWallet_of s"
  by (simp_all add: selectedWallet_of_def cong: option.case_cong)

lemma selectedWallet_saved:
  "selectedWallet_of s = Some w \<Longrightarrow> wallet_id w' = wallet_id w \<Longrightarrow> selectedWallet_of (save_wallet_in w' s) = Some w'"
  using wallet_repo.find_key [of _ s w]
  by (auto simp: selectedWallet_of_def wallet_repo.find_save split: option.splits)

lemma save_wallet_twice: "wallet_id w = wallet_id w' \<Longrightarrow> save_wallet_in w' (save_wallet_in w s) = save_wallet_in w' s"
  by (simp add: save_wallet_in_def store_put_twice)

lemma save_tx_twice: "tx_id x = tx_id y \<Longrightarrow> save_tx y (save_tx x s) = save_tx y s"
  by (simp add: save_tx_def store_put_twice)

subsection \<open>Wallet operations that save and publish\<close>

text \<open>
  The states of a wallet save it and publish events themselves (the \<open>world\<close> of the theory \<open>Wallet\<close>). Such an operation
  runs on a loaded wallet; what it saved and published goes to the registry. No wallet operation throws.
\<close>

definition ether_account_id :: "walletID \<Rightarrow> accountID" where
  "ether_account_id w = token_id Ether @ '':'' @ w"

definition to_world :: "wallet \<Rightarrow> 'x registry \<Rightarrow> world" where
  "to_world w s = \<lparr>the_wallet = w, saved = None, published = [],
     ether_account = map_option balance (find_account (ether_account_id (wallet_id w)) s)\<rparr>"

definition from_world :: "world \<Rightarrow> 'x registry \<Rightarrow> 'x registry" where
  "from_world x s =
     (let s1 = (case saved x of None \<Rightarrow> s | Some w \<Rightarrow> save_wallet_in w s)
      in s1\<lparr>reg_events := reg_events s1 @ map WalletEvent (published x)\<rparr>)"

definition on_wallet :: "(world \<Rightarrow> (wallet_error, world) outcome) \<Rightarrow> wallet \<Rightarrow> ('x registry, 'e, wallet) action" where
  "on_wallet f w s = (case f (to_world w s) of
      Ok x \<Rightarrow> (Ok (the_wallet x), from_world x s)
    | _ \<Rightarrow> (Trap, s))"

definition load_selected :: "('x registry, 'e, wallet) action" where
  "load_selected = (\<lambda>s. (unwrap (selectedWallet_of s), s))"

definition act_do :: "('s \<Rightarrow> 's) \<Rightarrow> ('s, 'e, unit) action" where
  "act_do f s = (Ok (), f s)"

text \<open>A change of a loaded object by an operation that cannot throw, only trap.\<close>

definition act_change :: "('f, 'a) outcome \<Rightarrow> ('s, 'e, 'a) action" where
  "act_change r = act_lift (tryBang r)"

lemma act_do_run [simp, outcome_simps]:
  "act_do f s = (Ok (), f s)"
  "act_bind (act_do f) g s = g () (f s)"
  by (simp_all add: act_do_def act_bind_def)

lemma act_change_run [simp, outcome_simps]:
  "act_change (Ok a) s = (Ok a, s)"
  "act_bind (act_change (Ok a)) g s = g a s"
  "act_bind (act_change Trap) g s = (Trap, s)"
  "act_bind (act_change (Throw e)) g s = (Trap, s)"
  by (simp_all add: act_change_def)

lemma load_selected_run [outcome_simps]:
  "selectedWallet_of s = Some w \<Longrightarrow> act_bind load_selected f s = f w s"
  "selectedWallet_of s = None \<Longrightarrow> act_bind load_selected f s = (Trap, s)"
  by (simp_all add: load_selected_def act_bind_def)

end
