(* ===== verification/Accounts.thy ===== *)
theory Accounts
  imports Registry
begin

section \<open>Accounts, balances and token lists\<close>

text \<open>
  \<^verbatim>\<open>MultisigWalletDomainModel/Account/Account.swift\<close>, \<^verbatim>\<open>AccountUpdateDomainService.swift\<close>,
  \<^verbatim>\<open>Ethereum/Token/TokenList.swift\<close>, \<^verbatim>\<open>TokenListItemRepository.swift\<close>, \<^verbatim>\<open>TokenListMerger.swift\<close> and the in-memory
  repository of token list items. The node answers balances and contract calls; the repository of items reads
  the current date for the item it makes up for Ether. Sorting numbers count whitelisted tokens, so their
  sums are far from the bounds of \<open>Int\<close>. Where the source iterates over a set, the model takes the order of the list.
\<close>

subsection \<open>Account identifiers\<close>

text \<open>\<open>split(separator:)\<close>, which leaves out empty parts.\<close>

fun split_runs :: "char \<Rightarrow> string \<Rightarrow> string \<Rightarrow> string list" where
  "split_runs c run [] = (if run = [] then [] else [run])"
| "split_runs c run (x # xs) =
     (if x = c then (if run = [] then split_runs c [] xs else run # split_runs c [] xs)
      else split_runs c (run @ [x]) xs)"

definition idSeparator :: char where
  "idSeparator = CHR '':''"

definition accountID_init :: "string \<Rightarrow> ('e, accountID) outcome" where
  "accountID_init i = obind (precondition (length (split_runs idSeparator [] i) = 2)) (\<lambda>_. Ok i)"

definition accountID_of :: "string \<Rightarrow> walletID \<Rightarrow> accountID" where
  "accountID_of tokenID walletID = tokenID @ [idSeparator] @ walletID"

definition accountID_part :: "nat \<Rightarrow> accountID \<Rightarrow> ('e, string) outcome" where
  "accountID_part k i = (let parts = split_runs idSeparator [] i in if k < length parts then Ok (parts ! k) else Trap)"

definition accountID_walletID :: "accountID \<Rightarrow> ('e, walletID) outcome" where
  "accountID_walletID i = accountID_part 1 i"

definition accountID_tokenID :: "accountID \<Rightarrow> ('e, string) outcome" where
  "accountID_tokenID i = accountID_part 0 i"

subsection \<open>Accounts\<close>

definition account_init :: "string \<Rightarrow> walletID \<Rightarrow> int option \<Rightarrow> account" where
  "account_init tokenID walletID b = \<lparr>account_id = accountID_of tokenID walletID, balance = b\<rparr>"

definition account_update :: "int \<Rightarrow> account \<Rightarrow> account" where
  "account_update newAmount a = a\<lparr>balance := Some newAmount\<rparr>"

definition account_add :: "int \<Rightarrow> account \<Rightarrow> account" where
  "account_add n a = a\<lparr>balance := Some ((case balance a of None \<Rightarrow> 0 | Some b \<Rightarrow> b) + n)\<rparr>"

definition account_withdraw :: "int \<Rightarrow> account \<Rightarrow> ('e, account) outcome" where
  "account_withdraw n a = (case balance a of
      None \<Rightarrow> Trap
    | Some b \<Rightarrow> obind (precondition (b \<ge> n)) (\<lambda>_. Ok (a\<lparr>balance := Some (b - n)\<rparr>)))"

definition account_isEqual :: "account \<Rightarrow> account \<Rightarrow> ('e, bool) outcome" where
  "account_isEqual a b =
     (if \<not> (account_id a = account_id b \<and> balance a = balance b) then Ok False
      else obind (accountID_walletID (account_id a)) (\<lambda>v.
           obind (accountID_walletID (account_id b)) (\<lambda>w. Ok (v = w))))"

subsection \<open>Token list items\<close>

definition item_init :: "date \<Rightarrow> token \<Rightarrow> tokenListItemStatus \<Rightarrow> bool \<Rightarrow> int option \<Rightarrow> tokenListItem" where
  "item_init now t st pays n = \<lparr>item_token = t, item_status = st, canPayTransactionFee = pays,
     sortingId = n, item_updated = now\<rparr>"

definition item_blacklist :: "tokenListItem \<Rightarrow> tokenListItem" where
  "item_blacklist x = x\<lparr>item_status := blacklisted\<rparr>"

definition item_whitelist :: "tokenListItem \<Rightarrow> tokenListItem" where
  "item_whitelist x = x\<lparr>item_status := whitelisted\<rparr>"

definition updateSortingId :: "int option \<Rightarrow> tokenListItem \<Rightarrow> tokenListItem" where
  "updateSortingId n x = x\<lparr>sortingId := n\<rparr>"

definition find_item :: "date \<Rightarrow> string \<Rightarrow> tokenListItem list \<Rightarrow> tokenListItem option" where
  "find_item now i items =
     (if i = token_id Ether then Some (item_init now Ether whitelisted True None)
      else store_get item_id i items)"

definition remove_item :: "tokenListItem \<Rightarrow> tokenListItem list \<Rightarrow> tokenListItem list" where
  "remove_item x items = store_del item_id (item_id x) items"

definition code_less :: "tokenListItem \<Rightarrow> tokenListItem \<Rightarrow> bool" where
  "code_less x y \<longleftrightarrow> token_code (item_token x) < token_code (item_token y)"

definition sortingId_less :: "tokenListItem \<Rightarrow> tokenListItem \<Rightarrow> bool" where
  "sortingId_less x y = (case (sortingId x, sortingId y) of
      (Some a, Some b) \<Rightarrow> a < b
    | (Some a, None) \<Rightarrow> True
    | _ \<Rightarrow> False)"

definition all_items :: "tokenListItem list \<Rightarrow> tokenListItem list" where
  "all_items items = sorted_by code_less items"

definition whitelisted_items :: "tokenListItem list \<Rightarrow> tokenListItem list" where
  "whitelisted_items items = sorted_by sortingId_less (filter (\<lambda>x. item_status x = whitelisted) items)"

definition paymentTokens :: "tokenListItem list \<Rightarrow> tokenListItem list" where
  "paymentTokens items = sorted_by code_less (filter canPayTransactionFee items)"

definition lastWhitelistedId :: "tokenListItem list \<Rightarrow> int" where
  "lastWhitelistedId items =
     (let ws = whitelisted_items items
      in if ws = [] then -1 else case sortingId (last ws) of None \<Rightarrow> -1 | Some n \<Rightarrow> n)"

definition prepareToSave :: "date \<Rightarrow> tokenListItem \<Rightarrow> tokenListItem list \<Rightarrow> tokenListItem" where
  "prepareToSave now x items =
     (if (case find_item now (item_id x) items of Some e \<Rightarrow> item_status e = whitelisted | None \<Rightarrow> False)
      then (if item_status x \<noteq> whitelisted then updateSortingId None x else x)
      else (if item_status x = whitelisted then updateSortingId (Some (lastWhitelistedId items + 1)) x else x))"

definition save_item :: "date \<Rightarrow> tokenListItem \<Rightarrow> tokenListItem list \<Rightarrow> tokenListItem list" where
  "save_item now x items = store_put item_id (prepareToSave now x items) items"

text \<open>
  \<open>whitelist\<close> and \<open>blacklist\<close> replace the item of a token that must be stored. The balance update that \<open>whitelist\<close>
  starts on another queue is \<open>updateAccountBalance\<close> below, run later with its errors ignored.
\<close>

definition set_item_status ::
    "tokenListItemStatus \<Rightarrow> date \<Rightarrow> token \<Rightarrow> tokenListItem list \<Rightarrow> ('e, tokenListItem list) outcome" where
  "set_item_status st now t items =
     obind (unwrap (find_item now (token_id t) items)) (\<lambda>existing.
     Ok (save_item now (item_init now t st (canPayTransactionFee existing) None) items))"

definition whitelist :: "date \<Rightarrow> token \<Rightarrow> ('x registry, 'e, unit) action" where
  "whitelist now t =
     act_bind (\<lambda>s. (set_item_status whitelisted now t (reg_items s), s)) (\<lambda>items.
     act_do (\<lambda>s. publish_event TokensDisplayListChanged (s\<lparr>reg_items := items\<rparr>)))"

definition blacklist :: "date \<Rightarrow> token \<Rightarrow> ('x registry, 'e, unit) action" where
  "blacklist now t =
     act_bind (\<lambda>s. (set_item_status blacklisted now t (reg_items s), s)) (\<lambda>items.
     act_do (\<lambda>s. publish_event TokensDisplayListChanged (s\<lparr>reg_items := items\<rparr>)))"

datatype tokens_list_error = notEqualToWhitelistedAmount | notAmongWhitelistedToken

fun rearrange_loop :: "date \<Rightarrow> tokenListItem list \<Rightarrow> nat \<Rightarrow> token list
    \<Rightarrow> tokenListItem list \<times> tokens_list_error list \<Rightarrow> tokenListItem list \<times> tokens_list_error list" where
  "rearrange_loop now ws index [] r = r"
| "rearrange_loop now ws index (t # ts) (items, errors) = rearrange_loop now ws (Suc index) ts
     (case List.find (\<lambda>x. token_id (item_token x) = token_id t) ws of
        Some x \<Rightarrow>
          if sortingId x = Some (int index) then (items, errors)
          else (save_item now (updateSortingId (Some (int index)) x) items, errors)
      | None \<Rightarrow> (items, errors @ [notAmongWhitelistedToken]))"

definition rearrange :: "date \<Rightarrow> token list \<Rightarrow> tokenListItem list \<Rightarrow> tokenListItem list \<times> tokens_list_error list" where
  "rearrange now tokens items =
     (let ws = whitelisted_items items
      in rearrange_loop now ws 0 tokens
           (items, if length tokens \<noteq> length ws then [notEqualToWhitelistedAmount] else []))"

definition rearrange_tokens :: "(tokens_list_error \<Rightarrow> 'x) \<Rightarrow> date \<Rightarrow> token list \<Rightarrow> ('x registry, 'e, unit) action" where
  "rearrange_tokens wrap now tokens = act_do (\<lambda>s.
     let (items, errors) = rearrange now tokens (reg_items s)
     in publish_event TokensDisplayListChanged (fold post_error (map wrap errors) (s\<lparr>reg_items := items\<rparr>)))"

subsection \<open>Merging the list of the service\<close>

definition deleteNotInList :: "tokenListItem list \<Rightarrow> tokenListItem list \<Rightarrow> tokenListItem list" where
  "deleteNotInList tokenList items =
     fold remove_item
       (filter (\<lambda>x. item_status x \<noteq> whitelisted \<and> item_id x \<notin> item_id ` set tokenList) (all_items items)) items"

definition updateWithTokenInfoOnly :: "date \<Rightarrow> tokenListItem \<Rightarrow> tokenListItem \<Rightarrow> tokenListItem list \<Rightarrow> tokenListItem list" where
  "updateWithTokenInfoOnly now x latest items =
     save_item now (item_init now (item_token latest) (item_status x) (canPayTransactionFee latest) (sortingId x)) items"

fun updateListed_loop :: "date \<Rightarrow> tokenListItem list \<Rightarrow> tokenListItem list
    \<Rightarrow> tokenListItem list \<times> tokenListItem list \<Rightarrow> tokenListItem list \<times> tokenListItem list" where
  "updateListed_loop now listed [] r = r"
| "updateListed_loop now listed (latest # ls) (items, remaining) = updateListed_loop now listed ls
     (case List.find (\<lambda>x. token_id (item_token x) = token_id (item_token latest)) listed of
        Some x \<Rightarrow> (updateWithTokenInfoOnly now x latest items, remaining)
      | None \<Rightarrow> (items, remaining @ [latest]))"

definition mergeStoredTokenItems :: "date \<Rightarrow> tokenListItem list \<Rightarrow> tokenListItem list \<Rightarrow> tokenListItem list" where
  "mergeStoredTokenItems now tokenList items =
     (let items1 = deleteNotInList tokenList items;
          listed = filter (\<lambda>x. item_status x = whitelisted \<or> item_status x = blacklisted) (all_items items1);
          (items2, remaining) = updateListed_loop now listed tokenList (items1, [])
      in fold (save_item now) remaining items2)"

definition merge_token_list :: "date \<Rightarrow> tokenListItem list \<Rightarrow> ('x registry, 'e, unit) action" where
  "merge_token_list now tokenList = act_do (\<lambda>s.
     publish_event TokenListMerged (s\<lparr>reg_items := mergeStoredTokenItems now tokenList (reg_items s)\<rparr>))"

subsection \<open>Updating balances\<close>

record 'e node =
  node_getBalance :: "address \<Rightarrow> ('e, int) outcome"
  node_call :: "'e eth_call"

definition remote_balance ::
    "hex_functions \<Rightarrow> 'e node \<Rightarrow> date \<Rightarrow> accountID \<Rightarrow> ('x registry, 'e, int option) action" where
  "remote_balance L N now i =
     act_bind (act_lift (accountID_walletID i)) (\<lambda>walletID.
     act_bind (act_get (find_wallet walletID)) (\<lambda>found.
     case found of
       None \<Rightarrow> act_return None
     | Some w \<Rightarrow> (case address_of w of
         None \<Rightarrow> act_return None
       | Some a \<Rightarrow>
           act_bind (act_lift (accountID_tokenID i)) (\<lambda>tokenID.
           if tokenID = token_id Ether then act_lift (omap Some (node_getBalance N a))
           else act_bind (act_get (\<lambda>s. find_item now tokenID (reg_items s))) (\<lambda>item.
                act_bind (act_lift (unwrap item)) (\<lambda>x.
                act_lift (omap Some (balance_of L (node_call N) (token_address (item_token x)) a))))))))"

fun updateBalances_loop ::
    "hex_functions \<Rightarrow> 'e node \<Rightarrow> date \<Rightarrow> accountID list \<Rightarrow> ('x registry, 'e, unit) action" where
  "updateBalances_loop L N now [] = act_return ()"
| "updateBalances_loop L N now (i # is) =
     act_bind (remote_balance L N now i) (\<lambda>found.
     case found of
       None \<Rightarrow> updateBalances_loop L N now is
     | Some b \<Rightarrow>
         act_bind (act_get (find_account i)) (\<lambda>a.
         act_bind (act_lift (unwrap a)) (\<lambda>a.
         act_bind (act_do (save_account (account_update b a))) (\<lambda>_.
         updateBalances_loop L N now is))))"

definition tokenIds :: "tokenListItem list \<Rightarrow> string list" where
  "tokenIds items = map item_id (whitelisted_items items) @ map item_id (paymentTokens items)"

text \<open>The walletID of an account is read from its identifier; the accounts of the selected wallet.\<close>

fun accounts_of :: "walletID \<Rightarrow> account list \<Rightarrow> ('e, accountID list) outcome" where
  "accounts_of w [] = Ok []"
| "accounts_of w (a # as) =
     obind (accountID_walletID (account_id a)) (\<lambda>v.
     obind (accounts_of w as) (\<lambda>is. Ok (if v = w then account_id a # is else is)))"

definition selectedWalletAccounts :: "('x registry, 'e, accountID list) action" where
  "selectedWalletAccounts = (\<lambda>s. case selectedWallet_of s of
      None \<Rightarrow> (Ok [], s)
    | Some w \<Rightarrow> (accounts_of (wallet_id w) (reg_accounts s), s))"

fun token_parts :: "accountID list \<Rightarrow> ('e, string list) outcome" where
  "token_parts [] = Ok []"
| "token_parts (i # is) = obind (accountID_tokenID i) (\<lambda>t. obind (token_parts is) (\<lambda>ts. Ok (t # ts)))"

definition addMissingAccounts :: "('x registry, 'e, unit) action" where
  "addMissingAccounts =
     act_bind (act_get selectedWallet_of) (\<lambda>found.
     case found of
       None \<Rightarrow> act_return ()
     | Some w \<Rightarrow>
         act_bind selectedWalletAccounts (\<lambda>is.
         act_bind (act_lift (token_parts is)) (\<lambda>present.
         act_do (\<lambda>s. fold (\<lambda>t. save_account (account_init t (wallet_id w) None))
           (filter (\<lambda>t. t \<notin> set present) (remdups (tokenIds (reg_items s)))) s))))"

fun select_tokens :: "string list \<Rightarrow> accountID list \<Rightarrow> ('e, accountID list) outcome" where
  "select_tokens ids [] = Ok []"
| "select_tokens ids (i # is) =
     obind (accountID_tokenID i) (\<lambda>t.
     obind (select_tokens ids is) (\<lambda>rest.
     Ok (if t = token_id Ether \<or> t \<in> set ids then i # rest else rest)))"

definition updateListedBalances :: "hex_functions \<Rightarrow> 'e node \<Rightarrow> date \<Rightarrow> ('x registry, 'e, unit) action" where
  "updateListedBalances L N now =
     act_bind selectedWalletAccounts (\<lambda>is.
     act_bind (act_get (\<lambda>s. tokenIds (reg_items s))) (\<lambda>ids.
     act_bind (act_lift (select_tokens ids is)) (\<lambda>chosen.
     updateBalances_loop L N now chosen)))"

definition updateAccountsBalances ::
    "hex_functions \<Rightarrow> 'e node \<Rightarrow> bool \<Rightarrow> date \<Rightarrow> ('x registry, 'e, unit) action" where
  "updateAccountsBalances L N isMainThread now =
     act_bind (act_lift (precondition (\<not> isMainThread))) (\<lambda>_.
     act_bind addMissingAccounts (\<lambda>_.
     act_bind (updateListedBalances L N now) (\<lambda>_.
     act_do (publish_event AccountsBalancesUpdated))))"

definition updateAccountBalance ::
    "hex_functions \<Rightarrow> 'e node \<Rightarrow> bool \<Rightarrow> date \<Rightarrow> token \<Rightarrow> ('x registry, 'e, unit) action" where
  "updateAccountBalance L N isMainThread now t =
     act_bind (act_lift (precondition (\<not> isMainThread))) (\<lambda>_.
     act_bind (act_get selectedWallet_of) (\<lambda>found.
     case found of
       None \<Rightarrow> act_return ()
     | Some w \<Rightarrow>
         let i = accountID_of (token_id t) (wallet_id w) in
         act_bind (act_do (\<lambda>s. if find_account i s = None
             then save_account (account_init (token_id t) (wallet_id w) None) s else s)) (\<lambda>_.
         act_bind (updateBalances_loop L N now [i]) (\<lambda>_.
         act_do (publish_event AccountsBalancesUpdated)))))"

subsection \<open>Identifiers and balances\<close>

lemma split_runs_plain: "c \<notin> set t \<Longrightarrow> split_runs c run t = (if run @ t = [] then [] else [run @ t])"
  by (induction t arbitrary: run) auto

lemma split_runs_sep: "c \<notin> set t \<Longrightarrow> run @ t \<noteq> [] \<Longrightarrow> split_runs c run (t @ c # w) = (run @ t) # split_runs c [] w"
  by (induction t arbitrary: run) auto

lemma split_accountID: "idSeparator \<notin> set t \<Longrightarrow> idSeparator \<notin> set w \<Longrightarrow> t \<noteq> [] \<Longrightarrow> w \<noteq> [] \<Longrightarrow>
  split_runs idSeparator [] (accountID_of t w) = [t, w]"
  using split_runs_sep [of idSeparator t "[]" w] split_runs_plain [of idSeparator w "[]"]
  by (simp add: accountID_of_def)

lemma accountID_parts: "idSeparator \<notin> set t \<Longrightarrow> idSeparator \<notin> set w \<Longrightarrow> t \<noteq> [] \<Longrightarrow> w \<noteq> [] \<Longrightarrow>
  accountID_walletID (accountID_of t w) = Ok w \<and> accountID_tokenID (accountID_of t w) = Ok t \<and>
  accountID_init (accountID_of t w) = Ok (accountID_of t w)"
  by (simp add: accountID_walletID_def accountID_tokenID_def accountID_part_def accountID_init_def split_accountID Let_def)

subsection \<open>Order of token list items\<close>

interpretation by_code: comparator code_less
  by unfold_locales (auto simp: code_less_def)

interpretation by_sortingId: comparator sortingId_less
  by unfold_locales (auto simp: sortingId_less_def split: option.splits)

definition items_ok :: "tokenListItem list \<Rightarrow> bool" where
  "items_ok items \<longleftrightarrow> distinct (map item_id items) \<and> token_id Ether \<notin> item_id ` set items \<and>
     (\<forall>x \<in> set items. item_status x = whitelisted \<longrightarrow> (\<exists>n \<ge> 0. sortingId x = Some n)) \<and>
     (\<forall>x \<in> set items. \<forall>y \<in> set items. item_status x = whitelisted \<longrightarrow> item_status y = whitelisted \<longrightarrow>
        sortingId x = sortingId y \<longrightarrow> x = y)"

lemma store_put_set: "distinct (map key xs) \<Longrightarrow> set (store_put key x xs) = insert x {y \<in> set xs. key y \<noteq> key x}"
  by (induction xs) (auto, metis imageI)

lemma store_get_distinct: "distinct (map key xs) \<Longrightarrow> store_get key k xs = Some x \<longleftrightarrow> x \<in> set xs \<and> key x = k"
  by (induction xs) (auto simp: store_get_def)

lemma store_get_None: "store_get key k xs = None \<longleftrightarrow> k \<notin> key ` set xs"
  by (auto simp: store_get_def find_None_iff)

lemma whitelisted_set: "set (whitelisted_items items) = {x \<in> set items. item_status x = whitelisted}"
  by (simp add: whitelisted_items_def set_sorted_by)

lemma lastWhitelistedId_max:
  assumes "items_ok items" "x \<in> set items" "item_status x = whitelisted" "sortingId x = Some n"
  shows "n \<le> lastWhitelistedId items"
proof -
  let ?ws = "whitelisted_items items"
  have x: "x \<in> set ?ws" using assms(2,3) by (simp add: whitelisted_set)
  then have "?ws \<noteq> []" by auto
  then have ws: "?ws = butlast ?ws @ [last ?ws]" "last ?ws \<in> set ?ws" by simp_all
  have "sorted_wrt (\<lambda>a b. \<not> sortingId_less b a) ?ws"
    unfolding whitelisted_items_def by (rule by_sortingId.sorted_by_sorted)
  then have "x = last ?ws \<or> \<not> sortingId_less (last ?ws) x"
    using x ws(1) sorted_wrt_append [of "\<lambda>a b. \<not> sortingId_less b a" "butlast ?ws" "[last ?ws]"]
    by (metis Un_iff append_Nil empty_iff empty_set list.set_intros(1) set_ConsD set_append)
  moreover obtain m where m: "sortingId (last ?ws) = Some m"
    using ws(2) assms(1) by (auto simp: whitelisted_set items_ok_def)
  ultimately have "n \<le> m" using assms(4) by (auto simp: sortingId_less_def)
  moreover have "lastWhitelistedId items = m" using m x by (auto simp: lastWhitelistedId_def Let_def)
  ultimately show ?thesis by simp
qed

lemma lastWhitelistedId_nonneg: "items_ok items \<Longrightarrow> -1 \<le> lastWhitelistedId items"
proof (cases "whitelisted_items items = []")
  case False
  assume ok: "items_ok items"
  have "last (whitelisted_items items) \<in> {x \<in> set items. item_status x = whitelisted}"
    using last_in_set [OF False] by (simp add: whitelisted_set)
  then obtain n where "0 \<le> n" "sortingId (last (whitelisted_items items)) = Some n"
    using ok by (auto simp: items_ok_def)
  then show ?thesis using False by (simp add: lastWhitelistedId_def Let_def)
qed (simp add: lastWhitelistedId_def Let_def)

lemma items_ok_insert:
  assumes "items_ok items" "item_id x \<noteq> token_id Ether"
    and "item_status x = whitelisted \<Longrightarrow> \<exists>n \<ge> 0. sortingId x = Some n \<and>
      (\<forall>y \<in> set items. item_status y = whitelisted \<longrightarrow> item_id y \<noteq> item_id x \<longrightarrow> sortingId y \<noteq> Some n)"
  shows "items_ok (store_put item_id x items)"
proof -
  have d: "distinct (map item_id items)" using assms(1) by (simp add: items_ok_def)
  show ?thesis
    unfolding items_ok_def store_put_set [OF d]
  proof (intro conjI ballI impI)
    show "distinct (map item_id (store_put item_id x items))" by (rule store_put_distinct [OF d])
    show "token_id Ether \<notin> item_id ` insert x {y \<in> set items. item_id y \<noteq> item_id x}"
      using assms(1,2) by (auto simp: items_ok_def)
  next
    fix y assume "y \<in> insert x {y \<in> set items. item_id y \<noteq> item_id x}" "item_status y = whitelisted"
    then show "\<exists>n \<ge> 0. sortingId y = Some n" using assms(1,3) by (auto simp: items_ok_def)
  next
    fix y z
    assume "y \<in> insert x {y \<in> set items. item_id y \<noteq> item_id x}" "z \<in> insert x {y \<in> set items. item_id y \<noteq> item_id x}"
      "item_status y = whitelisted" "item_status z = whitelisted" "sortingId y = sortingId z"
    then show "y = z" using assms(1,3) unfolding items_ok_def by fastforce
  qed
qed

lemma find_item_stored: "items_ok items \<Longrightarrow> i \<noteq> token_id Ether \<Longrightarrow>
  find_item now i items = Some e \<longleftrightarrow> e \<in> set items \<and> item_id e = i"
  by (simp add: find_item_def items_ok_def store_get_distinct)

text \<open>Saving keeps the invariant, unless it overwrites the number of a whitelisted item.\<close>

lemma save_item_ok:
  assumes "items_ok items" "item_id x \<noteq> token_id Ether"
    and "\<And>e. e \<in> set items \<Longrightarrow> item_id e = item_id x \<Longrightarrow> item_status e = whitelisted \<Longrightarrow> item_status x = whitelisted
      \<Longrightarrow> sortingId x = sortingId e"
  shows "items_ok (save_item now x items)"
proof (cases "\<exists>e \<in> set items. item_id e = item_id x \<and> item_status e = whitelisted")
  case True
  then obtain e where e: "e \<in> set items" "item_id e = item_id x" "item_status e = whitelisted" by blast
  then have "find_item now (item_id x) items = Some e" using find_item_stored [OF assms(1,2)] by blast
  then have prep: "prepareToSave now x items = (if item_status x \<noteq> whitelisted then updateSortingId None x else x)"
    using e(3) by (simp add: prepareToSave_def)
  show ?thesis unfolding save_item_def prep
  proof (rule items_ok_insert [OF assms(1)])
    assume w: "item_status (if item_status x \<noteq> whitelisted then updateSortingId None x else x) = whitelisted"
    then have x: "item_status x = whitelisted" by (auto simp: updateSortingId_def split: if_splits)
    obtain n where n: "0 \<le> n" "sortingId e = Some n" using e assms(1) by (auto simp: items_ok_def)
    have "sortingId y \<noteq> Some n" if "y \<in> set items" "item_status y = whitelisted" "item_id y \<noteq> item_id x" for y
      using that e n assms(1) unfolding items_ok_def by metis
    with n x assms(3) [OF e x] show "\<exists>n \<ge> 0. sortingId (if item_status x \<noteq> whitelisted then updateSortingId None x else x) = Some n \<and>
      (\<forall>y \<in> set items. item_status y = whitelisted \<longrightarrow>
        item_id y \<noteq> item_id (if item_status x \<noteq> whitelisted then updateSortingId None x else x) \<longrightarrow> sortingId y \<noteq> Some n)"
      by auto
  qed (use assms(2) in \<open>auto simp: updateSortingId_def item_id_def\<close>)
next
  case False
  then have prep: "prepareToSave now x items =
      (if item_status x = whitelisted then updateSortingId (Some (lastWhitelistedId items + 1)) x else x)"
    using find_item_stored [OF assms(1,2)] by (auto simp: prepareToSave_def split: option.splits)
  have fresh: "sortingId y \<noteq> Some (lastWhitelistedId items + 1)" if "y \<in> set items" "item_status y = whitelisted" for y
    using lastWhitelistedId_max [OF assms(1) that] by fastforce
  show ?thesis unfolding save_item_def prep
    by (rule items_ok_insert [OF assms(1)])
      (use assms(2) fresh lastWhitelistedId_nonneg [OF assms(1)] in \<open>auto simp: updateSortingId_def item_id_def split: if_splits\<close>)
qed

lemma image_filter_diff: "f ` {x \<in> A. f x \<notin> B} = f ` A - B"
  by auto

lemma union_diff_eq: "R = T - S \<Longrightarrow> S \<subseteq> I \<Longrightarrow> I \<subseteq> T \<union> W \<Longrightarrow> W \<subseteq> I \<Longrightarrow> I \<union> R = T \<union> W"
  by blast

lemma items_ok_filter: "items_ok items \<Longrightarrow> items_ok (filter P items)"
  by (auto simp: items_ok_def distinct_map_filter)

lemma fold_remove: "fold remove_item ys items = filter (\<lambda>x. item_id x \<notin> item_id ` set ys) items"
  by (induction ys arbitrary: items) (auto simp: remove_item_def store_del_def intro: filter_cong)

text \<open>What a user decided about a token: its status and its place.\<close>

definition item_mark :: "tokenListItem \<Rightarrow> string \<times> tokenListItemStatus \<times> int option" where
  "item_mark x = (item_id x, item_status x, sortingId x)"

lemma save_item_set: "items_ok items \<Longrightarrow>
  set (save_item now x items) = insert (prepareToSave now x items) {y \<in> set items. item_id y \<noteq> item_id x}"
  using store_put_set [of item_id items "prepareToSave now x items"]
  by (auto simp: save_item_def items_ok_def prepareToSave_def updateSortingId_def item_id_def)

lemma prepareToSave_id [simp]: "item_id (prepareToSave now x items) = item_id x"
  by (simp add: prepareToSave_def updateSortingId_def item_id_def)

text \<open>Saving an item with the mark of the stored one keeps the marks.\<close>

lemma save_same_mark:
  assumes "items_ok items" "e \<in> set items" "item_mark x = item_mark e" "item_status e \<noteq> regular"
  shows "items_ok (save_item now x items)" "item_mark ` set (save_item now x items) = item_mark ` set items"
proof -
  have x: "item_id x = item_id e" "item_status x = item_status e" "sortingId x = sortingId e"
    using assms(3) by (simp_all add: item_mark_def)
  have ne: "item_id x \<noteq> token_id Ether" using assms(1,2) x(1) unfolding items_ok_def by (metis imageI)
  have same: "y = e" if "y \<in> set items" "item_id y = item_id e" for y
    using that assms(1,2) by (auto simp: items_ok_def distinct_map inj_on_def)
  have "find_item now (item_id x) items = Some e" using find_item_stored [OF assms(1) ne] assms(2) x by auto
  then have prep: "prepareToSave now x items = x" using x assms(4) by (auto simp: prepareToSave_def)
  show "items_ok (save_item now x items)"
    by (rule save_item_ok [OF assms(1) ne]) (use same x in auto)
  show "item_mark ` set (save_item now x items) = item_mark ` set items"
    unfolding save_item_set [OF assms(1)] prep x(1) using assms(2,3) same by (auto simp: image_iff)
qed

text \<open>The data of the service about a token, its token and whether fees can be paid with it, are stored.\<close>

definition stores_data :: "tokenListItem list \<Rightarrow> tokenListItem \<Rightarrow> bool" where
  "stores_data items l \<longleftrightarrow> (\<exists>y \<in> set items. item_token y = item_token l \<and> canPayTransactionFee y = canPayTransactionFee l)"

lemma prepareToSave_data [simp]: "item_token (prepareToSave now x items) = item_token x"
  "canPayTransactionFee (prepareToSave now x items) = canPayTransactionFee x"
  by (simp_all add: prepareToSave_def updateSortingId_def)

lemma save_item_stores: "items_ok items \<Longrightarrow> stores_data (save_item now x items) x"
  by (auto simp: stores_data_def save_item_set)

lemma stores_data_later: "stores_data items l \<Longrightarrow> {y \<in> set items. item_id y \<notin> I} \<subseteq> set items' \<Longrightarrow> item_id l \<notin> I \<Longrightarrow> stores_data items' l"
  unfolding stores_data_def item_id_def by fastforce

lemma updateListed_ok:
  assumes "distinct (map item_id ls)" "items_ok items"
    and "\<And>l x. l \<in> set ls \<Longrightarrow> List.find (\<lambda>x. item_id x = item_id l) listed = Some x \<Longrightarrow> x \<in> set items \<and> item_status x \<noteq> regular"
    and "updateListed_loop now listed ls (items, remaining) = (items', remaining')"
  shows "items_ok items' \<and> item_mark ` set items' = item_mark ` set items \<and>
    remaining' = remaining @ filter (\<lambda>l. List.find (\<lambda>x. item_id x = item_id l) listed = None) ls \<and>
    {y \<in> set items. item_id y \<notin> item_id ` set ls} \<subseteq> set items' \<and>
    (\<forall>l \<in> set ls. List.find (\<lambda>x. item_id x = item_id l) listed \<noteq> None \<longrightarrow> stores_data items' l)"
  using assms
proof (induction ls arbitrary: items remaining)
  case (Cons l ls)
  show ?case
  proof (cases "List.find (\<lambda>x. item_id x = item_id l) listed")
    case None
    have "updateListed_loop now listed ls (items, remaining @ [l]) = (items', remaining')"
      using Cons.prems(4) None by (simp add: item_id_def)
    moreover have "z \<in> set items \<and> item_status z \<noteq> regular"
      if "l' \<in> set ls" "List.find (\<lambda>x. item_id x = item_id l') listed = Some z" for l' z
      using Cons.prems(3) [of l' z] that by simp
    ultimately show ?thesis using Cons.IH [of items "remaining @ [l]"] Cons.prems(1,2) None by auto
  next
    case (Some x)
    let ?y = "item_init now (item_token l) (item_status x) (canPayTransactionFee l) (sortingId x)"
    have x: "x \<in> set items" "item_status x \<noteq> regular" using Cons.prems(3) [of l x] Some by auto
    have "item_id x = item_id l" using Some by (auto simp: find_Some_iff)
    then have mark: "item_mark ?y = item_mark x" by (simp add: item_mark_def item_init_def item_id_def)
    note step = save_same_mark [OF Cons.prems(2) x(1) mark x(2)]
    have keep: "z \<in> set (save_item now ?y items)" if "z \<in> set items" "item_id z \<noteq> item_id l" for z
      using that \<open>item_id x = item_id l\<close> mark by (auto simp: save_item_set [OF Cons.prems(2)] item_mark_def)
    have prems: "z \<in> set (save_item now ?y items) \<and> item_status z \<noteq> regular"
      if l': "l' \<in> set ls" and z: "List.find (\<lambda>x. item_id x = item_id l') listed = Some z" for l' z
    proof -
      have "item_id l' \<noteq> item_id l" using Cons.prems(1) l' by (metis distinct.simps(2) image_eqI list.map(2) set_map)
      moreover have "item_id z = item_id l'" using z by (auto simp: find_Some_iff)
      ultimately show ?thesis using keep [of z] Cons.prems(3) [of l' z] l' z by simp
    qed
    have "updateListed_loop now listed ls (save_item now ?y items, remaining) = (items', remaining')"
      using Cons.prems(4) Some by (simp add: item_id_def updateWithTokenInfoOnly_def)
    have "distinct (map item_id ls)" using Cons.prems(1) by simp
    note IH = Cons.IH [OF this step(1) _ \<open>updateListed_loop now listed ls (save_item now ?y items, remaining) = (items', remaining')\<close>]
    have IH: "items_ok items' \<and> item_mark ` set items' = item_mark ` set (save_item now ?y items) \<and>
      remaining' = remaining @ filter (\<lambda>l. List.find (\<lambda>x. item_id x = item_id l) listed = None) ls \<and>
      {y \<in> set (save_item now ?y items). item_id y \<notin> item_id ` set ls} \<subseteq> set items' \<and>
      (\<forall>l \<in> set ls. List.find (\<lambda>x. item_id x = item_id l) listed \<noteq> None \<longrightarrow> stores_data items' l)"
      by (rule IH) (rule prems)
    then have others: "{y \<in> set (save_item now ?y items). item_id y \<notin> item_id ` set ls} \<subseteq> set items'" by blast
    have fresh: "item_id l \<notin> item_id ` set ls" using Cons.prems(1) by simp
    have "item_token ?y = item_token l" "canPayTransactionFee ?y = canPayTransactionFee l" by (simp_all add: item_init_def)
    then have "stores_data (save_item now ?y items) l"
      using save_item_stores [OF Cons.prems(2), of now ?y] by (simp add: stores_data_def)
    then have "stores_data items' l" using stores_data_later [OF _ others fresh] by simp
    moreover have "{y \<in> set items. item_id y \<notin> item_id ` set (l # ls)} \<subseteq> set items'" using keep others by auto
    ultimately show ?thesis using IH step(2) Some by simp
  qed
qed simp

lemma save_all_ok:
  assumes "distinct (map item_id rs)" "items_ok items" "token_id Ether \<notin> item_id ` set rs"
    and "\<And>r e. r \<in> set rs \<Longrightarrow> e \<in> set items \<Longrightarrow> item_id e = item_id r \<Longrightarrow> item_status e \<noteq> whitelisted"
  shows "items_ok (fold (save_item now) rs items) \<and>
    {y \<in> set items. item_id y \<notin> item_id ` set rs} \<subseteq> set (fold (save_item now) rs items) \<and>
    item_id ` set (fold (save_item now) rs items) = item_id ` set items \<union> item_id ` set rs \<and>
    (\<forall>r \<in> set rs. stores_data (fold (save_item now) rs items) r)"
  using assms
proof (induction rs arbitrary: items)
  case (Cons r rs)
  have ok: "items_ok (save_item now r items)"
    by (rule save_item_ok) (use Cons.prems in auto)
  have set: "set (save_item now r items) = insert (prepareToSave now r items) {y \<in> set items. item_id y \<noteq> item_id r}"
    by (rule save_item_set [OF Cons.prems(2)])
  have "item_status e \<noteq> whitelisted"
    if "r' \<in> set rs" "e \<in> set (save_item now r items)" "item_id e = item_id r'" for r' e
    using that Cons.prems(1) Cons.prems(4) [of r' e] by (auto simp: set)
  then have IH: "items_ok (fold (save_item now) rs (save_item now r items)) \<and>
      {y \<in> set (save_item now r items). item_id y \<notin> item_id ` set rs} \<subseteq> set (fold (save_item now) rs (save_item now r items)) \<and>
      item_id ` set (fold (save_item now) rs (save_item now r items)) = item_id ` set (save_item now r items) \<union> item_id ` set rs \<and>
      (\<forall>r' \<in> set rs. stores_data (fold (save_item now) rs (save_item now r items)) r')"
    using Cons.IH [OF _ ok] Cons.prems(1,3) by simp
  moreover have "stores_data (fold (save_item now) rs (save_item now r items)) r"
    by (rule stores_data_later [OF save_item_stores [OF Cons.prems(2), of now r] IH [THEN conjunct2, THEN conjunct1]])
      (use Cons.prems(1) in simp)
  moreover have "item_id ` set (save_item now r items) = insert (item_id r) (item_id ` set items)"
    unfolding set by auto
  ultimately show ?case by (auto simp: set)
qed simp

text \<open>What the merge leaves before the remaining items are saved: the whitelisted items and those of the list, with their marks, and in
  \<open>remaining\<close> the items of the list that the user has made no choice about.\<close>

definition kept_items :: "tokenListItem list \<Rightarrow> tokenListItem list \<Rightarrow> tokenListItem set" where
  "kept_items tokenList items = {x \<in> set items. item_status x = whitelisted \<or> item_id x \<in> item_id ` set tokenList}"

lemma deleted_items:
  assumes "items_ok items"
  shows "set (deleteNotInList tokenList items) = kept_items tokenList items" "items_ok (deleteNotInList tokenList items)"
proof -
  have inj: "x = y" if "x \<in> set items" "y \<in> set items" "item_id x = item_id y" for x y
    using that assms by (auto simp: items_ok_def distinct_map inj_on_def)
  show "set (deleteNotInList tokenList items) = kept_items tokenList items"
    unfolding deleteNotInList_def fold_remove kept_items_def using inj by (auto simp: all_items_def set_sorted_by)
  show "items_ok (deleteNotInList tokenList items)" using assms by (simp add: deleteNotInList_def fold_remove items_ok_filter)
qed

lemma merge_middle:
  assumes "items_ok items" "distinct (map item_id tokenList)"
  obtains items2 remaining where
    "mergeStoredTokenItems now tokenList items = fold (save_item now) remaining items2" "items_ok items2"
    "item_mark ` set items2 = item_mark ` kept_items tokenList items" "distinct (map item_id remaining)"
    "set remaining = {l \<in> set tokenList. item_id l \<notin> item_id ` {x \<in> kept_items tokenList items. item_status x \<noteq> regular}}"
    "{x \<in> kept_items tokenList items. item_id x \<notin> item_id ` set tokenList} \<subseteq> set items2"
    "\<And>l. l \<in> set tokenList \<Longrightarrow> l \<notin> set remaining \<Longrightarrow> stores_data items2 l"
proof -
  define items1 where "items1 = deleteNotInList tokenList items"
  define listed where "listed = filter (\<lambda>x. item_status x = whitelisted \<or> item_status x = blacklisted) (all_items items1)"
  note set1 = deleted_items [OF assms(1), of tokenList, folded items1_def]
  obtain items2 remaining where loop: "updateListed_loop now listed tokenList (items1, []) = (items2, remaining)"
    by (rule prod.exhaust)
  have listed_set: "set listed = {x \<in> kept_items tokenList items. item_status x \<noteq> regular}"
  proof -
    have "st = whitelisted \<or> st = blacklisted \<longleftrightarrow> st \<noteq> regular" for st by (cases st) simp_all
    then show ?thesis by (simp add: listed_def all_items_def set_sorted_by set1)
  qed
  have found: "List.find (\<lambda>x. item_id x = i) listed = Some x \<Longrightarrow> x \<in> set items1 \<and> item_status x \<noteq> regular" for i x
    using find_SomeD [of "\<lambda>x. item_id x = i" listed x] listed_set set1 by auto
  have mid: "items_ok items2 \<and> item_mark ` set items2 = item_mark ` set items1 \<and>
      remaining = [] @ filter (\<lambda>l. List.find (\<lambda>x. item_id x = item_id l) listed = None) tokenList \<and>
      {y \<in> set items1. item_id y \<notin> item_id ` set tokenList} \<subseteq> set items2 \<and>
      (\<forall>l \<in> set tokenList. List.find (\<lambda>x. item_id x = item_id l) listed \<noteq> None \<longrightarrow> stores_data items2 l)"
    by (rule updateListed_ok [OF assms(2) set1(2) _ loop]) (use found in blast)
  show thesis
  proof (rule that)
    show "mergeStoredTokenItems now tokenList items = fold (save_item now) remaining items2"
      using loop by (simp add: mergeStoredTokenItems_def items1_def listed_def Let_def)
    show "stores_data items2 l" if "l \<in> set tokenList" "l \<notin> set remaining" for l using that mid by auto
    show "set remaining = {l \<in> set tokenList. item_id l \<notin> item_id ` {x \<in> kept_items tokenList items. item_status x \<noteq> regular}}"
      unfolding listed_set [symmetric] using mid by (auto simp: find_None_iff image_iff)
  qed (use mid set1 assms(2) in \<open>simp_all add: distinct_map_filter\<close>)
qed

lemma mark_ids: "item_mark ` A = item_mark ` B \<Longrightarrow> item_id ` A = item_id ` B"
proof -
  have "item_id ` A = fst ` item_mark ` A" for A by (simp add: image_image item_mark_def)
  then show "item_mark ` A = item_mark ` B \<Longrightarrow> item_id ` A = item_id ` B" by metis
qed

text \<open>
  C26. Merging the token list of the service keeps what the user decided and takes over the latest data: for a list with different
  tokens and without Ether, the whitelisted tokens, and the blacklisted ones that are still listed, keep status and place; every listed
  token is stored with the token data and the fee flag of the list; a whitelisted token that is not listed any more stays as
  it is. The tokens stored afterwards are exactly the listed and the whitelisted ones, so a blacklisted token that is not listed any more is
  deleted. Whitelisted tokens keep having different places.
\<close>

theorem merge_keeps_choices:
  assumes "items_ok items" and "distinct (map item_id tokenList)" and "token_id Ether \<notin> item_id ` set tokenList"
  shows "items_ok (mergeStoredTokenItems now tokenList items) \<and>
    (\<forall>x \<in> set items. item_status x = whitelisted \<or> item_status x = blacklisted \<and> item_id x \<in> item_id ` set tokenList \<longrightarrow>
       item_mark x \<in> item_mark ` set (mergeStoredTokenItems now tokenList items)) \<and>
    item_id ` set (mergeStoredTokenItems now tokenList items) =
      item_id ` set tokenList \<union> item_id ` {x \<in> set items. item_status x = whitelisted} \<and>
    (\<forall>l \<in> set tokenList. \<exists>y \<in> set (mergeStoredTokenItems now tokenList items).
       item_token y = item_token l \<and> canPayTransactionFee y = canPayTransactionFee l) \<and>
    (\<forall>x \<in> set items. item_status x = whitelisted \<and> item_id x \<notin> item_id ` set tokenList \<longrightarrow>
       x \<in> set (mergeStoredTokenItems now tokenList items))"
proof -
  let ?kept = "kept_items tokenList items"
  obtain items2 remaining where merge: "mergeStoredTokenItems now tokenList items = fold (save_item now) remaining items2"
    and ok: "items_ok items2" and marks: "item_mark ` set items2 = item_mark ` ?kept" and once: "distinct (map item_id remaining)"
    and rem: "set remaining = {l \<in> set tokenList. item_id l \<notin> item_id ` {x \<in> ?kept. item_status x \<noteq> regular}}"
    and old: "{x \<in> ?kept. item_id x \<notin> item_id ` set tokenList} \<subseteq> set items2"
    and new: "\<And>l. l \<in> set tokenList \<Longrightarrow> l \<notin> set remaining \<Longrightarrow> stores_data items2 l"
    by (rule merge_middle [OF assms(1,2), of now]) (rule that)
  have unlisted: "item_status e = regular" if r: "r \<in> set remaining" "item_id e = item_id r" and e: "e \<in> set items2" for r e
  proof -
    obtain x where "x \<in> ?kept" "item_mark x = item_mark e" using marks e by (metis image_iff)
    then have x: "x \<in> ?kept" "item_id x = item_id r" "item_status x = item_status e" using r(2) by (simp_all add: item_mark_def)
    then show ?thesis using r(1) unfolding rem by (metis (mono_tags, lifting) imageI mem_Collect_eq)
  qed
  have fin: "items_ok (fold (save_item now) remaining items2) \<and>
      {y \<in> set items2. item_id y \<notin> item_id ` set remaining} \<subseteq> set (fold (save_item now) remaining items2) \<and>
      item_id ` set (fold (save_item now) remaining items2) = item_id ` set items2 \<union> item_id ` set remaining \<and>
      (\<forall>r \<in> set remaining. stores_data (fold (save_item now) remaining items2) r)"
  proof (rule save_all_ok [OF once ok])
    show "token_id Ether \<notin> item_id ` set remaining" using assms(3) unfolding rem by blast
    show "item_status e \<noteq> whitelisted" if "r \<in> set remaining" "e \<in> set items2" "item_id e = item_id r" for r e
      using unlisted [OF that(1,3,2)] by simp
  qed
  note final = fin [THEN conjunct2, THEN conjunct1]
  have rest: "item_id ` set remaining = item_id ` set tokenList - item_id ` {x \<in> ?kept. item_status x \<noteq> regular}"
    unfolding rem by (rule image_filter_diff)
  have kept: "item_id ` ?kept \<subseteq> item_id ` set tokenList \<union> item_id ` {x \<in> set items. item_status x = whitelisted}"
    "item_id ` {x \<in> set items. item_status x = whitelisted} \<subseteq> item_id ` ?kept" "item_id ` {x \<in> ?kept. item_status x \<noteq> regular} \<subseteq> item_id ` ?kept"
    by (auto simp: kept_items_def)
  have "item_id ` set items2 \<union> item_id ` set remaining =
      item_id ` set tokenList \<union> item_id ` {x \<in> set items. item_status x = whitelisted}"
    unfolding mark_ids [OF marks] by (rule union_diff_eq [OF rest kept(3,1,2)])
  moreover have "item_mark x \<in> item_mark ` set (fold (save_item now) remaining items2)"
    if "x \<in> set items" "item_status x = whitelisted \<or> item_status x = blacklisted \<and> item_id x \<in> item_id ` set tokenList" for x
  proof -
    have "x \<in> ?kept" using that by (auto simp: kept_items_def)
    then obtain y where y: "y \<in> set items2" "item_mark y = item_mark x" using marks by (metis image_iff)
    then have "item_id y \<notin> item_id ` set remaining" using unlisted [of _ y] that(2) by (fastforce simp: item_mark_def)
    then show ?thesis using y fin by (metis (mono_tags, lifting) image_eqI mem_Collect_eq subsetD)
  qed
  moreover have "stores_data (fold (save_item now) remaining items2) l" if l: "l \<in> set tokenList" for l
  proof (cases "l \<in> set remaining")
    case False
    have "l = r" if "r \<in> set remaining" "item_id l = item_id r" for r
      using that l assms(2) unfolding rem distinct_map inj_on_def by blast
    then have "item_id l \<notin> item_id ` set remaining" using False by blast
    with new [OF l False] show ?thesis using stores_data_later [OF _ final] by blast
  qed (use fin in simp)
  moreover have "x \<in> set (fold (save_item now) remaining items2)"
    if "x \<in> set items" "item_status x = whitelisted" "item_id x \<notin> item_id ` set tokenList" for x
  proof -
    have "x \<in> set items2" "item_id x \<notin> item_id ` set remaining" using that old unfolding rem by (auto simp: kept_items_def)
    then show ?thesis using final by blast
  qed
  ultimately show ?thesis using fin by (simp add: merge stores_data_def)
qed

definition sample_item :: "char \<Rightarrow> tokenListItemStatus \<Rightarrow> int option \<Rightarrow> tokenListItem" where
  "sample_item c st n = item_init 0 \<lparr>token_code = [c], token_name = [c], decimals = 18, token_address = ''0x'' @ [c],
     logoUrl = ''''\<rparr> st False n"

lemma sample_item_sel [simp]: "item_id (sample_item c st n) = ''0x'' @ [c]" "item_status (sample_item c st n) = st"
  "sortingId (sample_item c st n) = n"
  by (simp_all add: sample_item_def item_init_def item_id_def token_id_def)

lemma Ether_not_sample: "token_id Ether \<noteq> ''0x'' @ [c]"
  by (simp add: token_id_def Ether_def numeral_eq_Suc)

theorem merge_keeps_choices_witness:
  "item_mark (sample_item CHR ''a'' whitelisted (Some 3)) \<in> item_mark `
     set (mergeStoredTokenItems 7 [sample_item CHR ''a'' regular None, sample_item CHR ''b'' whitelisted None]
       [sample_item CHR ''a'' whitelisted (Some 3)])"
proof -
  have "items_ok [sample_item CHR ''a'' whitelisted (Some 3)]"
    using Ether_not_sample by (simp add: items_ok_def)
  moreover have "distinct (map item_id [sample_item CHR ''a'' regular None, sample_item CHR ''b'' whitelisted None])"
    "token_id Ether \<notin> item_id ` set [sample_item CHR ''a'' regular None, sample_item CHR ''b'' whitelisted None]"
    using Ether_not_sample by simp_all
  ultimately have "\<forall>x \<in> set [sample_item CHR ''a'' whitelisted (Some 3)].
      item_status x = whitelisted \<or> item_status x = blacklisted \<and>
        item_id x \<in> item_id ` set [sample_item CHR ''a'' regular None, sample_item CHR ''b'' whitelisted None] \<longrightarrow>
      item_mark x \<in> item_mark ` set (mergeStoredTokenItems 7
        [sample_item CHR ''a'' regular None, sample_item CHR ''b'' whitelisted None] [sample_item CHR ''a'' whitelisted (Some 3)])"
    by (rule merge_keeps_choices [THEN conjunct2, THEN conjunct1])
  then show ?thesis by (simp only: list.set ball_simps sample_item_sel simp_thms)
qed

text \<open>
  Whitelisting a stored token gives it the next place after all whitelisted ones and keeps the places different.
  Whitelisting it once more takes its place away, and the numbering of later tokens starts again.
\<close>

theorem whitelist_places:
  assumes "items_ok items" and "x \<in> set items" and "item_id x = token_id t"
  shows "\<exists>items'. set_item_status whitelisted now t items = Ok items' \<and>
    (item_status x \<noteq> whitelisted \<longrightarrow> items_ok items' \<and>
       (\<exists>y \<in> set items'. item_token y = t \<and> item_status y = whitelisted \<and> sortingId y = Some (lastWhitelistedId items + 1))) \<and>
    (item_status x = whitelisted \<longrightarrow> \<not> items_ok items' \<and>
       (\<exists>y \<in> set items'. item_token y = t \<and> item_status y = whitelisted \<and> sortingId y = None))"
proof -
  let ?y = "item_init now t whitelisted (canPayTransactionFee x) None"
  have ne: "token_id t \<noteq> token_id Ether" using assms unfolding items_ok_def by (metis imageI)
  have find: "find_item now (token_id t) items = Some x" using find_item_stored [OF assms(1) ne] assms(2,3) by blast
  have y: "item_id ?y = token_id t" "item_status ?y = whitelisted" "sortingId ?y = None" "item_token ?y = t"
    by (simp_all add: item_init_def item_id_def)
  have same: "e = x" if "e \<in> set items" "item_id e = token_id t" for e
    using that assms by (auto simp: items_ok_def distinct_map inj_on_def)
  have prep: "prepareToSave now ?y items = (if item_status x = whitelisted then ?y
      else updateSortingId (Some (lastWhitelistedId items + 1)) ?y)"
    using find y by (simp add: prepareToSave_def)
  have "prepareToSave now ?y items \<in> set (save_item now ?y items)" unfolding save_item_set [OF assms(1)] by simp
  then have stored: "\<exists>z \<in> set (save_item now ?y items). item_token z = t \<and> item_status z = whitelisted \<and>
      sortingId z = (if item_status x = whitelisted then None else Some (lastWhitelistedId items + 1))"
    using prep y by (intro bexI [of _ "prepareToSave now ?y items"]) (auto simp: updateSortingId_def)
  have "items_ok (save_item now ?y items)" if "item_status x \<noteq> whitelisted"
    by (rule save_item_ok [OF assms(1)]) (use ne y same that in auto)
  moreover have "\<not> items_ok (save_item now ?y items)" if "item_status x = whitelisted"
    using stored that by (auto simp: items_ok_def)
  ultimately show ?thesis using stored
    by (intro exI [of _ "save_item now ?y items"]) (cases "item_status x = whitelisted"; simp add: set_item_status_def find)
qed

theorem whitelist_places_witness:
  "\<exists>items'. set_item_status whitelisted 1 (item_token (sample_item CHR ''a'' regular None)) [sample_item CHR ''a'' regular None] =
     (Ok items' :: (unit, tokenListItem list) outcome) \<and> items_ok items'"
proof -
  have "items_ok [sample_item CHR ''a'' regular None]" using Ether_not_sample by (simp add: items_ok_def)
  then show ?thesis
    using whitelist_places [of "[sample_item CHR ''a'' regular None]" "sample_item CHR ''a'' regular None"
        "item_token (sample_item CHR ''a'' regular None)" 1, where ?'a = unit]
    by (auto simp: item_id_def)
qed

subsection \<open>Balances follow the node\<close>

definition plain_id :: "string \<Rightarrow> bool" where
  "plain_id t \<longleftrightarrow> t \<noteq> [] \<and> idSeparator \<notin> set t"

lemma plain_parts:
  "plain_id t \<Longrightarrow> plain_id v \<Longrightarrow> accountID_walletID (accountID_of t v) = Ok v"
  "plain_id t \<Longrightarrow> plain_id v \<Longrightarrow> accountID_tokenID (accountID_of t v) = Ok t"
  by (simp_all add: plain_id_def accountID_parts)

definition node_answer :: "hex_functions \<Rightarrow> 'e node \<Rightarrow> date \<Rightarrow> string \<Rightarrow> address \<Rightarrow> tokenListItem list \<Rightarrow> ('e, int) outcome" where
  "node_answer L N now t a items =
     (if t = token_id Ether then node_getBalance N a
      else case find_item now t items of
        None \<Rightarrow> Trap
      | Some x \<Rightarrow> balance_of L (node_call N) (token_address (item_token x)) a)"

lemma remote_balance_answer:
  assumes "plain_id t" "plain_id (wallet_id w)" "find_wallet (wallet_id w) s = Some w" "address_of w = Some a"
  shows "remote_balance L N now (accountID_of t (wallet_id w)) s = (omap Some (node_answer L N now t a (reg_items s)), s)"
  using assms by (auto simp: remote_balance_def plain_parts act_bind_def node_answer_def split: option.splits)

lemma selectedWallet_found: "selectedWallet_of s = Some w \<Longrightarrow> find_wallet (wallet_id w) s = Some w"
  by (auto simp: selectedWallet_of_def dest: wallet_repo.find_key split: option.splits)

lemma store_put_put: "key x = key y \<Longrightarrow> store_put key y (store_put key x xs) = store_put key y xs"
  by (induction xs) auto

lemma save_account_twice: "account_id a = account_id b \<Longrightarrow> save_account b (save_account a s) = save_account b s"
  by (simp add: save_account_def store_put_put)

text \<open>
  \<open>updateAccountBalance\<close> makes the account of a token of the selected wallet when there is none, stores in it the
  balance the node answers, leaves every other account alone and publishes the event. When the node fails, the
  account is there with the balance it had (unknown for a new one), the error is passed on and no event is published.
\<close>

theorem updateAccountBalance_result:
  assumes sel: "selectedWallet_of s = Some w" and addr: "address_of w = Some a"
    and ids: "plain_id (token_id t)" "plain_id (wallet_id w)"
  shows "updateAccountBalance L N False now t s =
    (let i = accountID_of (token_id t) (wallet_id w);
         s' = (if find_account i s = None then save_account \<lparr>account_id = i, balance = None\<rparr> s else s)
     in case node_answer L N now (token_id t) a (reg_items s) of
          Ok b \<Rightarrow> (Ok (), publish_event AccountsBalancesUpdated (save_account \<lparr>account_id = i, balance = Some b\<rparr> s))
        | Throw e \<Rightarrow> (Throw e, s')
        | Trap \<Rightarrow> (Trap, s'))"
proof -
  let ?i = "accountID_of (token_id t) (wallet_id w)"
  let ?s = "if find_account ?i s = None then save_account \<lparr>account_id = ?i, balance = None\<rparr> s else s"
  have fw: "find_wallet (wallet_id w) ?s = Some w" and it: "reg_items ?s = reg_items s"
    using selectedWallet_found [OF sel] by simp_all
  have rb: "remote_balance L N now ?i ?s = (omap Some (node_answer L N now (token_id t) a (reg_items s)), ?s)"
    using remote_balance_answer [OF ids fw addr, of L N now] unfolding it .
  obtain x where x: "find_account ?i ?s = Some x" "account_id x = ?i"
    "\<And>b. save_account (account_update b x) ?s = save_account \<lparr>account_id = ?i, balance = Some b\<rparr> s"
  proof (cases "find_account ?i s")
    case None
    then show ?thesis
      by (intro that [of "\<lparr>account_id = ?i, balance = None\<rparr>"])
        (simp_all add: account_repo.find_save account_update_def save_account_twice)
  next
    case (Some y)
    then have "account_id y = ?i" by (rule account_repo.find_key)
    then show ?thesis using Some by (cases y) (intro that [of y], simp_all add: account_update_def)
  qed
  have loop: "updateBalances_loop L N now [?i] ?s = (case node_answer L N now (token_id t) a (reg_items s) of
      Ok b \<Rightarrow> (Ok (), save_account \<lparr>account_id = ?i, balance = Some b\<rparr> s) | Throw e \<Rightarrow> (Throw e, ?s) | Trap \<Rightarrow> (Trap, ?s))"
    using x by (cases "node_answer L N now (token_id t) a (reg_items s)") (simp_all add: act_bind_def rb split del: if_split)
  show ?thesis
    unfolding updateAccountBalance_def account_init_def
    using sel loop by (cases "node_answer L N now (token_id t) a (reg_items s)")
      (simp_all add: Let_def act_bind_def act_do_def del: updateBalances_loop.simps split del: if_split)
qed

definition sample_registry :: "unit registry" where
  "sample_registry = \<lparr>reg_wallets = [(wallet_empty ''w'')\<lparr>address_of := Some ''0xa''\<rparr>],
     reg_portfolio = Some \<lparr>portfolio_id = ''p'', selectedWallet = Some ''w'', wallets = [''w'']\<rparr>,
     reg_accounts = [], reg_txs = [], reg_eoas = [], reg_items = [], reg_monitor = [], reg_events = [], reg_errors = []\<rparr>"

definition sample_balance_node :: "unit node" where
  "sample_balance_node = \<lparr>node_getBalance = (\<lambda>a. Ok 5), node_call = (\<lambda>a d. Throw ())\<rparr>"

theorem updateAccountBalance_result_witness:
  "find_account (accountID_of (token_id Ether) ''w'')
     (snd (updateAccountBalance reference_library sample_balance_node False 0 Ether sample_registry)) =
   Some \<lparr>account_id = accountID_of (token_id Ether) ''w'', balance = Some 5\<rparr>"
proof -
  let ?w = "(wallet_empty ''w'')\<lparr>address_of := Some ''0xa''\<rparr>"
  have "selectedWallet_of sample_registry = Some ?w"
    by (simp add: selectedWallet_of_def sample_registry_def find_wallet_def store_get_def wallet_empty_def)
  moreover have "plain_id (token_id Ether)" "plain_id ''w''"
    by (simp_all add: plain_id_def token_id_def Ether_def idSeparator_def numeral_eq_Suc)
  ultimately show ?thesis
    using updateAccountBalance_result [of sample_registry ?w "''0xa''" Ether reference_library sample_balance_node 0]
    by (simp add: wallet_empty_def sample_balance_node_def node_answer_def Let_def account_repo.find_save)
qed

end
