(* ===== verification/Relay.thy ===== *)
theory Relay
  imports Accounts
begin

section \<open>Relay requests, contract metadata and what lies outside\<close>

text \<open>
  The requests \<^verbatim>\<open>EstimateTransactionRequest.swift\<close> and \<^verbatim>\<open>SubmitTransactionRequest.swift\<close> with the checks of their
  initialisers, the mapping of HTTP failures to errors of the recovery service, and
  \<^verbatim>\<open>InMemorySafeContractMetadataRepository.swift\<close>, which answers for the contracts the app knows. The record
  \<open>outside\<close> collects the calls that leave the program: the Ethereum node, the relay service and the
  cryptographic functions of \<open>EncryptionDomainService\<close>.
\<close>

subsection \<open>Decimal text\<close>

fun decimal_nat :: "nat \<Rightarrow> string" where
  "decimal_nat n = (if n < 10 then [char_of (48 + n)] else decimal_nat (n div 10) @ [char_of (48 + n mod 10)])"

declare decimal_nat.simps [simp del]

definition decimal :: "int \<Rightarrow> string" where
  "decimal i = (if i < 0 then CHR ''-'' # decimal_nat (nat (- i)) else decimal_nat (nat i))"

definition is_digit :: "char \<Rightarrow> bool" where
  "is_digit c \<longleftrightarrow> 48 \<le> (of_char c :: nat) \<and> (of_char c :: nat) \<le> 57"

text \<open>The text that \<open>BigInt(_:)\<close> reads: digits after an optional sign.\<close>

definition integer_text :: "string \<Rightarrow> bool" where
  "integer_text s \<longleftrightarrow>
     (let digits = (case s of c # cs \<Rightarrow> if c = CHR ''-'' \<or> c = CHR ''+'' then cs else s | [] \<Rightarrow> [])
      in digits \<noteq> [] \<and> list_all is_digit digits)"

lemma is_digit_char: "n < 10 \<Longrightarrow> is_digit (char_of (48 + n :: nat))"
  by (simp add: is_digit_def of_char_of take_bit_eq_mod)

lemma decimal_nat_digits: "decimal_nat n \<noteq> [] \<and> list_all is_digit (decimal_nat n)"
proof (induction n rule: decimal_nat.induct)
  case (1 n)
  then show ?case by (subst (1 2) decimal_nat.simps) (simp add: is_digit_char)
qed

lemma integer_text_decimal [simp]: "integer_text (decimal i)"
proof -
  have "\<not> is_digit CHR ''-''" "\<not> is_digit CHR ''+''" by (simp_all add: is_digit_def)
  then show ?thesis
    using decimal_nat_digits [of "nat (- i)"] decimal_nat_digits [of "nat i"]
    by (cases "decimal_nat (nat i)") (auto simp: integer_text_def decimal_def Let_def)
qed

text \<open>\<open>BigUInt(_:)\<close> of decimal text.\<close>

definition decimal_value :: "char \<Rightarrow> nat" where
  "decimal_value c = of_char c - 48"

definition nat_of_text :: "string \<Rightarrow> nat option" where
  "nat_of_text s = (if s \<noteq> [] \<and> list_all is_digit s then Some (foldl (\<lambda>n c. 10 * n + decimal_value c) 0 s) else None)"

lemma decimal_value_char: "n < 10 \<Longrightarrow> decimal_value (char_of (48 + n :: nat)) = n"
  by (simp add: decimal_value_def of_char_of take_bit_eq_mod)

lemma nat_of_decimal: "nat_of_text (decimal (int n)) = Some n"
proof -
  have "foldl (\<lambda>n c. 10 * n + decimal_value c) 0 (decimal_nat n) = n"
  proof (induction n rule: decimal_nat.induct)
    case (1 n)
    then show ?case by (subst decimal_nat.simps) (simp add: decimal_value_char)
  qed
  then show ?thesis using decimal_nat_digits [of n] by (simp add: nat_of_text_def decimal_def)
qed

subsection \<open>Contract metadata\<close>

record masterCopyMetadata =
  mc_address :: address
  mc_version :: string
  txTypeHash :: bytes
  domainSeparatorHash :: bytes
  proxyCode :: bytes

record safeContractMetadata =
  multiSendContractAddress :: address
  proxyFactoryAddress :: address
  safeFunderAddress :: address
  md_metadata :: "masterCopyMetadata list"

definition metadata_for :: "safeContractMetadata \<Rightarrow> address \<Rightarrow> masterCopyMetadata option" where
  "metadata_for m a = List.find (\<lambda>x. lowercased (mc_address x) = lowercased a) (md_metadata m)"

definition isValidMasterCopy :: "safeContractMetadata \<Rightarrow> address \<Rightarrow> bool" where
  "isValidMasterCopy m a = list_ex (\<lambda>x. lowercased (mc_address x) = lowercased a) (md_metadata m)"

definition isValidProxyFactory :: "safeContractMetadata \<Rightarrow> address \<Rightarrow> bool" where
  "isValidProxyFactory m a \<longleftrightarrow> lowercased (proxyFactoryAddress m) = lowercased a"

definition isValidPaymentRecevier :: "safeContractMetadata \<Rightarrow> address \<Rightarrow> bool" where
  "isValidPaymentRecevier m a \<longleftrightarrow> lowercased (safeFunderAddress m) = lowercased a \<or> a = address_zero"

definition md_version :: "safeContractMetadata \<Rightarrow> address \<Rightarrow> string option" where
  "md_version m a = map_option mc_version (metadata_for m a)"

definition deploymentCode :: "hex_functions \<Rightarrow> safeContractMetadata \<Rightarrow> address \<Rightarrow> bytes option" where
  "deploymentCode L m a = (case metadata_for m a of None \<Rightarrow> None | Some x \<Rightarrow> Some (proxyCode x @ encodeAddress L a))"

definition EIP712SafeAppTxTypeHash :: "safeContractMetadata \<Rightarrow> address \<Rightarrow> bytes option" where
  "EIP712SafeAppTxTypeHash m a = map_option txTypeHash (metadata_for m a)"

definition EIP712SafeAppDomainSeparatorTypeHash :: "safeContractMetadata \<Rightarrow> address \<Rightarrow> bytes option" where
  "EIP712SafeAppDomainSeparatorTypeHash m a = map_option domainSeparatorHash (metadata_for m a)"

lemma isValidMasterCopy_version: "isValidMasterCopy m a \<longleftrightarrow> md_version m a \<noteq> None"
  by (auto simp: isValidMasterCopy_def md_version_def metadata_for_def list_ex_iff find_None_iff)

subsection \<open>Estimates\<close>

definition ethData :: "hex_functions \<Rightarrow> transaction \<Rightarrow> string" where
  "ethData L tx = (case tx_data tx of None \<Rightarrow> '''' | Some d \<Rightarrow> ''0x'' @ toHexString L d)"

record estimateRequest =
  est_safe :: string
  est_to :: "string option"
  est_value :: string
  est_data :: "string option"
  est_operation :: walletOperation
  est_gasToken :: "string option"

definition estimateRequest_init :: "hex_functions \<Rightarrow> address \<Rightarrow> address option \<Rightarrow> string \<Rightarrow> string option
    \<Rightarrow> walletOperation \<Rightarrow> string option \<Rightarrow> ('e, estimateRequest) outcome" where
  "estimateRequest_init L safe to value data op gasToken =
     obind (precondition (integer_text value)) (\<lambda>_.
     obind (case data of None \<Rightarrow> Ok () | Some d \<Rightarrow> precondition (d = [] \<or> ethHex L d \<noteq> [])) (\<lambda>_.
     Ok \<lparr>est_safe = safe, est_to = to, est_value = value, est_data = data, est_operation = op, est_gasToken = gasToken\<rparr>))"

record estimateResponse =
  rsp_safeTxGas :: int
  rsp_dataGas :: int
  rsp_gasPrice :: int
  rsp_operationalGas :: int
  rsp_lastUsedNonce :: "int option"
  rsp_gasToken :: string

definition nextNonce :: "estimateResponse \<Rightarrow> ('e, int) outcome" where
  "nextNonce r = (case rsp_lastUsedNonce r of Some n \<Rightarrow> swift_int (n + 1) | None \<Rightarrow> Ok 0)"

definition estimateResponse_init :: "int \<Rightarrow> int \<Rightarrow> int \<Rightarrow> int \<Rightarrow> int option \<Rightarrow> string \<Rightarrow> estimateResponse" where
  "estimateResponse_init safeTxGas data_gas operational_gas gas_price lastUsedNonce gasToken =
     \<lparr>rsp_safeTxGas = safeTxGas, rsp_dataGas = data_gas, rsp_gasPrice = gas_price, rsp_operationalGas = data_gas,
      rsp_lastUsedNonce = lastUsedNonce, rsp_gasToken = gasToken\<rparr>"

definition rsp_totalDisplayedToUser :: "estimateResponse \<Rightarrow> int" where
  "rsp_totalDisplayedToUser r = rsp_gasPrice r * (rsp_dataGas r + rsp_safeTxGas r + rsp_operationalGas r)"

subsection \<open>Submission\<close>

record ethSignature =
  sig_r :: string
  sig_s :: string
  sig_v :: int

record submitRequest =
  sub_safe :: string
  sub_to :: string
  sub_value :: string
  sub_data :: string
  sub_operation :: walletOperation
  sub_signatures :: "ethSignature list"
  sub_safeTxGas :: string
  sub_dataGas :: string
  sub_gasPrice :: string
  sub_gasToken :: "string option"
  sub_nonce :: string

definition submitRequest_init :: "hex_functions \<Rightarrow> (string \<Rightarrow> address option) \<Rightarrow> transaction \<Rightarrow> ethSignature list
    \<Rightarrow> ('e, submitRequest) outcome" where
  "submitRequest_init L address_from tx sigs =
     obind (unwrap (sender tx)) (\<lambda>sender.
     obind (unwrap (address_from sender)) (\<lambda>safe.
     obind (unwrap (address_from (ethTo tx))) (\<lambda>to.
     obind (unwrap (operation tx)) (\<lambda>op.
     obind (unwrap (fee_estimate tx)) (\<lambda>e.
     obind (unwrap (nonce tx)) (\<lambda>n.
     Ok \<lparr>sub_safe = safe, sub_to = to, sub_value = decimal (ethValue tx), sub_data = ethData L tx, sub_operation = op,
         sub_signatures = sigs, sub_safeTxGas = decimal (gas e), sub_dataGas = decimal (dataGas e),
         sub_gasPrice = decimal (amount_of (gasPrice e)), sub_gasToken = Some (token_id (token_of (gasPrice e))),
         sub_nonce = n\<rparr>))))))"

subsection \<open>Errors\<close>

datatype recoveryServiceError =
    invalidContractAddress
  | recoveryAccountsNotFound
  | recoveryPhraseInvalid
  | unsupportedOwnerCount string
  | unsupportedWalletConfiguration string
  | failedToChangeOwners
  | failedToChangeConfirmationCount
  | failedToCreateValidTransactionData
  | R_walletNotFound
  | failedToCreateValidTransaction
  | internalServerError

text \<open>An error of a service call: of the recovery service, of the browser extension services, a network request that failed with an HTTP status (or with no
  HTTP response), or any other.\<close>

datatype extensionServiceError = insufficientBalance | browserExtensionNotConnected | browserExtensionAlreadyExists
  | X_recoveryPhraseInvalid | recoveryPhraseHasNoOwnership

datatype 'e service_error = RecoveryError recoveryServiceError | ExtensionError extensionServiceError
  | NetworkRequestFailed "int option" 'e | OtherError 'e

fun serviceError :: "'e service_error \<Rightarrow> 'e service_error" where
  "serviceError (NetworkRequestFailed (Some code) e) =
     (if code = 400 then RecoveryError failedToCreateValidTransactionData
      else if code = 404 then RecoveryError R_walletNotFound
      else if code = 422 then RecoveryError failedToCreateValidTransaction
      else if code = 500 then RecoveryError internalServerError
      else NetworkRequestFailed (Some code) e)"
| "serviceError e = e"

subsection \<open>Calls that leave the program\<close>

record 'e outside =
  out_lib :: hex_functions
  out_node :: "'e service_error node"
  out_getStorageAt :: "address \<Rightarrow> nat \<Rightarrow> ('e service_error, bytes) outcome"
  out_metadata :: safeContractMetadata
  out_address :: "string \<Rightarrow> address option"
  out_hash :: "transaction \<Rightarrow> bytes"
  out_sign :: "transaction \<Rightarrow> bytes \<Rightarrow> bytes"
  out_ethSignature :: "signature \<Rightarrow> ethSignature"
  out_derive_phrase :: "string \<Rightarrow> eoa option"
  out_derive_at :: "eoa \<Rightarrow> int \<Rightarrow> eoa"
  out_estimate :: "estimateRequest \<Rightarrow> ('e service_error, estimateResponse) outcome"
  out_submit :: "submitRequest \<Rightarrow> ('e service_error, string) outcome"

abbreviation owners_contract :: "'e outside \<Rightarrow> address \<Rightarrow> ('e service_error, address list) outcome" where
  "owners_contract E a \<equiv> getOwners (out_lib E) (node_call (out_node E)) a"

abbreviation threshold_contract :: "'e outside \<Rightarrow> address \<Rightarrow> ('e service_error, nat) outcome" where
  "threshold_contract E a \<equiv> getThreshold (out_lib E) (node_call (out_node E)) a"

text \<open>A \<open>do ... catch\<close> block: the state at the throw is the state the handler sees.\<close>

definition act_catch :: "('s, 'e, 'a) action \<Rightarrow> ('e \<Rightarrow> ('s, 'e, 'a) action) \<Rightarrow> ('s, 'e, 'a) action" where
  "act_catch m h s = (case m s of (Throw e, s') \<Rightarrow> h e s' | r \<Rightarrow> r)"

lemma act_catch_run [outcome_simps]:
  "m s = (Ok a, s') \<Longrightarrow> act_catch m h s = (Ok a, s')"
  "m s = (Trap, s') \<Longrightarrow> act_catch m h s = (Trap, s')"
  "m s = (Throw e, s') \<Longrightarrow> act_catch m h s = h e s'"
  by (simp_all add: act_catch_def)

subsection \<open>Concrete addresses\<close>

definition sample_address :: "8 word \<Rightarrow> address" where
  "sample_address k = address_text reference_library (replicate 20 k)"

lemma sample_address_eq: "sample_address j = sample_address k \<longleftrightarrow> j = k"
proof
  assume "sample_address j = sample_address k"
  then have "ethHex reference_library (sample_address j) = ethHex reference_library (sample_address k)" by simp
  then show "j = k" unfolding sample_address_def address_text_def reference.ethHex_hex by (simp add: numeral_eq_Suc)
qed simp

lemma sample_address_sentinel: "sample_address k \<noteq> sentinelAddress reference_library"
proof
  assume "sample_address k = sentinelAddress reference_library"
  then have "ethHex reference_library (sample_address k) = ethHex reference_library (sentinelAddress reference_library)" by simp
  then have "replicate 20 k = leftPadded 20 [1]"
    unfolding sample_address_def address_text_def sentinelAddress_def reference.ethHex_hex .
  then show False by (auto simp: leftPadded_def numeral_eq_Suc)
qed

lemma sample_address_low [simp]: "lowercased (sample_address k) = sample_address k"
  by (simp add: sample_address_def)

lemma sample_address_valid: "valid_address reference_library (sample_address k)"
  unfolding sample_address_def by (rule reference.valid_text) simp

end
