(* ===== verification/Retry.thy ===== *)
theory Retry
  imports Prelude
begin

section \<open>Retrying and repeating\<close>

text \<open>
  \<^verbatim>\<open>MultisigWalletDomainModel/Wallet/RetryWithIncreasingDelay.swift\<close> and \<^verbatim>\<open>Repeater.swift\<close>: the two loops the
  deployment service polls the network with. The closure is an action on a state \<open>inner\<close>; the waits
  of \<open>Timer.wait\<close> are logged. \<open>RetryWithIncreasingDelay\<close> is a counted loop and therefore total. The loop of \<open>Repeater\<close>
  ends only when somebody stops the repeater, so it is a partial function: \<open>None\<close> is not returning. While
  the repeater waits, other threads run: \<open>during_wait\<close> is what they do to the state (they may stop the repeater).
\<close>

subsection \<open>RetryWithIncreasingDelay\<close>

record retry =
  maxAttempts :: int
  retry_delay :: real
  delayIncrement :: real

definition retry_init :: "int \<Rightarrow> real \<Rightarrow> ('e, retry) outcome" where
  "retry_init attempts startDelay =
     obind (precondition (attempts > 0)) (\<lambda>_.
     Ok \<lparr>maxAttempts = attempts, retry_delay = startDelay, delayIncrement = startDelay\<rparr>)"

record 's timed =
  inner :: 's
  waits :: "real list"

text \<open>The body of the \<open>for\<close> loop, with the attempts that are left and the last error.\<close>

fun retry_loop :: "nat \<Rightarrow> ('s, 'e, 'a) action \<Rightarrow> 'e option \<Rightarrow> retry \<times> 's timed \<Rightarrow> ('e, 'a) outcome \<times> retry \<times> 's timed" where
  "retry_loop 0 main error (r, s) = (case error of None \<Rightarrow> Trap | Some e \<Rightarrow> Throw e, r, s)"
| "retry_loop (Suc k) main error (r, s) = (case main (inner s) of
      (Ok a, x) \<Rightarrow> (Ok a, r, s\<lparr>inner := x\<rparr>)
    | (Trap, x) \<Rightarrow> (Trap, r, s\<lparr>inner := x\<rparr>)
    | (Throw e, x) \<Rightarrow>
        retry_loop k main (Some e)
          (r\<lparr>retry_delay := retry_delay r + delayIncrement r\<rparr>,
           s\<lparr>inner := x, waits := waits s @ [retry_delay r]\<rparr>))"

definition retry_start :: "('s, 'e, 'a) action \<Rightarrow> retry \<times> 's timed \<Rightarrow> ('e, 'a) outcome \<times> retry \<times> 's timed" where
  "retry_start main = (\<lambda>(r, s). retry_loop (nat (maxAttempts r)) main None (r, s))"

subsection \<open>Repeater\<close>

datatype repeater_state = rep_stopped | rep_running | rep_waiting

record 's repeating =
  rep_inner :: 's
  rep_state :: repeater_state
  rep_waits :: "real list"

definition isStopped :: "'s repeating \<Rightarrow> bool" where
  "isStopped s \<longleftrightarrow> rep_state s = rep_stopped"

definition rep_stop :: "'s repeating \<Rightarrow> 's repeating" where
  "rep_stop s = s\<lparr>rep_state := rep_stopped\<rparr>"

definition rep_wait :: "real \<Rightarrow> ('s repeating \<Rightarrow> 's repeating) \<Rightarrow> 's repeating \<Rightarrow> 's repeating" where
  "rep_wait delay during_wait s = during_wait (s\<lparr>rep_waits := rep_waits s @ [delay]\<rparr>)"

partial_function (option) rep_loop ::
  "real \<Rightarrow> ('s repeating \<Rightarrow> 's repeating) \<Rightarrow> ('s repeating, 'e, unit) action \<Rightarrow> 's repeating
   \<Rightarrow> (('e, unit) outcome \<times> 's repeating) option" where
  "rep_loop delay during_wait main s = (case main (s\<lparr>rep_state := rep_running\<rparr>) of
      (Ok u, s1) \<Rightarrow>
        if isStopped s1 then Some (Ok (), s1)
        else let s2 = rep_wait delay during_wait (s1\<lparr>rep_state := rep_waiting\<rparr>)
             in if \<not> isStopped s2 then rep_loop delay during_wait main s2 else Some (Ok (), s2)
    | (Throw e, s1) \<Rightarrow> Some (Throw e, s1)
    | (Trap, s1) \<Rightarrow> Some (Trap, s1))"

definition rep_start ::
  "real \<Rightarrow> ('s repeating \<Rightarrow> 's repeating) \<Rightarrow> ('s repeating, 'e, unit) action \<Rightarrow> 's repeating
   \<Rightarrow> (('e, unit) outcome \<times> 's repeating) option" where
  "rep_start delay during_wait main s =
     (if \<not> isStopped s then Some (Ok (), s) else rep_loop delay during_wait main s)"

subsection \<open>Attempts and delays\<close>

text \<open>The closure throws \<open>k\<close> times in a row: the state it leaves and the last error.\<close>

fun throws :: "nat \<Rightarrow> ('s, 'e, 'a) action \<Rightarrow> 'e option \<Rightarrow> 's \<Rightarrow> ('s \<times> 'e option) option" where
  "throws 0 main error x = Some (x, error)"
| "throws (Suc k) main error x = (case main x of (Throw e, y) \<Rightarrow> throws k main (Some e) y | _ \<Rightarrow> None)"

lemma retry_loop_throws:
  "throws k main error (inner s) = Some (x, error') \<Longrightarrow> k \<le> n \<Longrightarrow>
   retry_loop n main error (r, s) = retry_loop (n - k) main error'
     (r\<lparr>retry_delay := retry_delay r + real k * delayIncrement r\<rparr>,
      s\<lparr>inner := x, waits := waits s @ map (\<lambda>i. retry_delay r + real i * delayIncrement r) [0..<k]\<rparr>)"
proof (induction k arbitrary: n r s error)
  case 0
  then show ?case by (cases s) simp
next
  case (Suc k)
  obtain e y where main: "main (inner s) = (Throw e, y)"
    using Suc.prems(1) by (auto split: prod.splits outcome.splits)
  obtain m where n: "n = Suc m" "k \<le> m" using Suc.prems(2) by (cases n) auto
  have "throws k main (Some e) y = Some (x, error')" using Suc.prems(1) main by simp
  then show ?case
    using Suc.IH [of "Some e" "s\<lparr>inner := y, waits := waits s @ [retry_delay r]\<rparr>" m
        "r\<lparr>retry_delay := retry_delay r + delayIncrement r\<rparr>"] n main
    by (simp add: upt_conv_Cons [of 0 "Suc k"] map_Suc_upt [symmetric] comp_def algebra_simps del: upt_Suc)
qed

lemma sum_delays: "sum_list (map (\<lambda>i. d + real i * d) [0..<n]) = d * real (n * (n + 1) div 2)"
proof -
  have twice: "2 * sum_list (map (\<lambda>i. d + real i * d) [0..<n]) = d * real (n * (n + 1))"
    by (induction n) (simp_all add: algebra_simps)
  have even: "real (n * (n + 1)) = 2 * real (n * (n + 1) div 2)" by (simp add: real_of_nat_div)
  have "2 * sum_list (map (\<lambda>i. d + real i * d) [0..<n]) = 2 * (d * real (n * (n + 1) div 2))"
    unfolding twice by (subst even) simp
  then show ?thesis by (simp only: mult_cancel_left) simp
qed

lemma throws_error: "throws (Suc k) main error x = Some (y, error') \<Longrightarrow> \<exists>e. error' = Some e"
  by (induction k arbitrary: error x) (auto split: prod.splits outcome.splits)

text \<open>
  Bounds of retrying: with \<open>n > 0\<close> attempts and start delay \<open>d\<close>, when the first \<open>k < n\<close> calls of the closure throw
  and the next one returns, the result is that of the closure and the waits were \<open>d, 2d, ..., kd\<close>; when the first
  \<open>n\<close> calls throw, the last error is rethrown and the closure is not called again, after waits that add up to
  \<open>d * n(n+1)/2\<close>; without attempts the initialiser traps.
\<close>

theorem retry_bounds:
  fixes main :: "('s, 'e, 'a) action"
  assumes "0 < n" and "throws k main None (inner s) = Some (x, error)"
  shows "\<exists>r. retry_init (int n) d = (Ok r :: ('e, retry) outcome) \<and>
    (k < n \<and> main x = (Ok a, y) \<longrightarrow>
       (\<exists>r'. retry_start main (r, s) = (Ok a, r', s\<lparr>inner := y, waits := waits s @ map (\<lambda>i. d + real i * d) [0..<k]\<rparr>))) \<and>
    (k = n \<longrightarrow>
       (\<exists>e r' ws. error = Some e \<and> sum_list ws = d * real (n * (n + 1) div 2) \<and> length ws = n \<and>
          retry_start main (r, s) = (Throw e, r', s\<lparr>inner := x, waits := waits s @ ws\<rparr>))) \<and>
    retry_init 0 d = (Trap :: ('e, retry) outcome)"
proof -
  let ?r = "\<lparr>maxAttempts = int n, retry_delay = d, delayIncrement = d\<rparr>"
  let ?w = "\<lambda>j. map (\<lambda>i. d + real i * d) [0..<j]"
  have run: "retry_start main (?r, s) = retry_loop (n - k) main error
      (?r\<lparr>retry_delay := d + real k * d\<rparr>, s\<lparr>inner := x, waits := waits s @ ?w k\<rparr>)" if "k \<le> n"
    using retry_loop_throws [OF assms(2) that, of ?r] by (simp add: retry_start_def)
  have returns: "\<exists>r'. retry_start main (?r, s) = (Ok a, r', s\<lparr>inner := y, waits := waits s @ ?w k\<rparr>)"
    if less: "k < n" and main: "main x = (Ok a, y)"
  proof -
    obtain j where "n - k = Suc j" using less by (metis Suc_diff_Suc)
    then show ?thesis using run less main by simp
  qed
  have throws: "\<exists>e r' ws. error = Some e \<and> sum_list ws = d * real (n * (n + 1) div 2) \<and> length ws = n \<and>
      retry_start main (?r, s) = (Throw e, r', s\<lparr>inner := x, waits := waits s @ ws\<rparr>)" if kn: "k = n"
  proof -
    obtain j where "k = Suc j" using assms(1) kn by (cases k) auto
    then have "throws (Suc j) main None (inner s) = Some (x, error)" using assms(2) by simp
    from throws_error [OF this] obtain e where "error = Some e" ..
    then show ?thesis using run kn sum_delays [of d n]
      by (intro exI [of _ e] exI [of _ "?r\<lparr>retry_delay := d + real k * d\<rparr>"] exI [of _ "?w n"]) simp
  qed
  show ?thesis using assms(1) returns throws by (intro exI [of _ ?r]) (simp add: retry_init_def)
qed

definition sample_poll :: "(nat, string, nat) action" where
  "sample_poll n = (if n < 2 then (Throw ''busy'', n + 1) else (Ok n, n))"

theorem retry_bounds_witness:
  "\<exists>r r'. retry_init (int 3) 5 = (Ok r :: (string, retry) outcome) \<and>
     retry_start sample_poll (r, \<lparr>inner = 0, waits = []\<rparr>) = (Ok 2, r', \<lparr>inner = 2, waits = [5, 10]\<rparr>)"
proof -
  have "throws 2 sample_poll None (0 :: nat) = Some (2, Some ''busy'')"
    by (simp add: sample_poll_def numeral_2_eq_2)
  moreover have "sample_poll 2 = (Ok 2, 2)" by (simp add: sample_poll_def)
  moreover have "map (\<lambda>i. 5 + real i * 5) [0..<2] = [5, 10]" by (simp add: numeral_2_eq_2)
  ultimately show ?thesis
    using retry_bounds [of 3 2 sample_poll "\<lparr>inner = 0, waits = []\<rparr>" 2 "Some ''busy''" 5 2 2] by auto
qed

subsection \<open>Rounds of a repeater\<close>

text \<open>The state after \<open>k\<close> rounds in which the closure returned and nobody stopped the repeater.\<close>

fun rounds :: "nat \<Rightarrow> real \<Rightarrow> ('s repeating \<Rightarrow> 's repeating) \<Rightarrow> ('s repeating, 'e, unit) action
    \<Rightarrow> 's repeating \<Rightarrow> 's repeating option" where
  "rounds 0 delay during_wait main s = Some s"
| "rounds (Suc k) delay during_wait main s = (case main (s\<lparr>rep_state := rep_running\<rparr>) of
      (Ok u, s1) \<Rightarrow>
        if isStopped s1 then None
        else let s2 = rep_wait delay during_wait (s1\<lparr>rep_state := rep_waiting\<rparr>)
             in if isStopped s2 then None else rounds k delay during_wait main s2
    | _ \<Rightarrow> None)"

text \<open>The ways in which the next round is the last one.\<close>

definition last_round :: "real \<Rightarrow> ('s repeating \<Rightarrow> 's repeating) \<Rightarrow> ('s repeating, 'e, unit) action
    \<Rightarrow> 's repeating \<Rightarrow> ('e, unit) outcome \<times> 's repeating \<Rightarrow> bool" where
  "last_round delay during_wait main s res = (case main (s\<lparr>rep_state := rep_running\<rparr>) of
      (Ok u, s1) \<Rightarrow>
        if isStopped s1 then res = (Ok (), s1)
        else let s2 = rep_wait delay during_wait (s1\<lparr>rep_state := rep_waiting\<rparr>)
             in isStopped s2 \<and> res = (Ok (), s2)
    | (Throw e, s1) \<Rightarrow> res = (Throw e, s1)
    | (Trap, s1) \<Rightarrow> res = (Trap, s1))"

lemma rep_loop_rounds:
  "rounds k delay during_wait main s = Some s' \<Longrightarrow> rep_loop delay during_wait main s = rep_loop delay during_wait main s'"
proof (induction k arbitrary: s)
  case (Suc k)
  then show ?case
    by (subst rep_loop.simps) (auto simp: Let_def split: prod.splits outcome.splits if_splits)
qed simp

lemma rep_loop_last: "last_round delay during_wait main s res \<Longrightarrow> rep_loop delay during_wait main s = Some res"
  by (subst rep_loop.simps) (auto simp: last_round_def Let_def split: prod.splits outcome.splits if_splits)

lemma rep_loop_returns:
  fixes main :: "('s repeating, 'e, unit) action"
  assumes "rep_loop delay during_wait main s = Some res"
  shows "\<exists>k s'. rounds k delay during_wait main s = Some s' \<and> last_round delay during_wait main s' res"
proof (rule rep_loop.raw_induct [where P = "\<lambda>d w m s res. \<exists>k s'. rounds k d w m s = Some s' \<and> last_round d w m s' res", OF _ assms])
  fix loop d w res and m :: "('s repeating, 'e, unit) action" and s :: "'s repeating"
  assume IH: "\<And>d w (m :: ('s repeating, 'e, unit) action) s res. loop d w m s = Some res \<Longrightarrow>
      \<exists>k s'. rounds k d w m s = Some s' \<and> last_round d w m s' res"
    and body: "(case m (s\<lparr>rep_state := rep_running\<rparr>) of
      (Ok u, s1) \<Rightarrow>
        if isStopped s1 then Some (Ok (), s1)
        else let s2 = rep_wait d w (s1\<lparr>rep_state := rep_waiting\<rparr>)
             in if \<not> isStopped s2 then loop d w m s2 else Some (Ok (), s2)
    | (Throw e, s1) \<Rightarrow> Some (Throw e, s1)
    | (Trap, s1) \<Rightarrow> Some (Trap, s1)) = Some res"
  show "\<exists>k s'. rounds k d w m s = Some s' \<and> last_round d w m s' res"
  proof (cases "last_round d w m s res")
    case True
    then show ?thesis by (intro exI [of _ 0] exI [of _ s]) simp
  next
    case False
    obtain r s1 where main: "m (s\<lparr>rep_state := rep_running\<rparr>) = (r, s1)" by (rule prod.exhaust)
    let ?s2 = "rep_wait d w (s1\<lparr>rep_state := rep_waiting\<rparr>)"
    have go: "r = Ok () \<and> \<not> isStopped s1 \<and> \<not> isStopped ?s2 \<and> loop d w m ?s2 = Some res"
      using body False main by (cases r) (auto simp: last_round_def Let_def split: if_splits)
    then obtain k s' where "rounds k d w m ?s2 = Some s'" "last_round d w m s' res"
      using IH [of d w m ?s2 res] by blast
    with go main show ?thesis by (intro exI [of _ "Suc k"] exI [of _ s']) simp
  qed
qed

text \<open>
  The specification speaks of the work alone. A closure does something to the state, answers and may call \<open>stop\<close>;
  what happens during a wait may call \<open>stop\<close> as well.
\<close>

definition stopping_closure :: "('s \<Rightarrow> ('e, unit) outcome \<times> bool \<times> 's) \<Rightarrow> ('s repeating, 'e, unit) action" where
  "stopping_closure work s = (case work (rep_inner s) of (r, stops, x) \<Rightarrow>
     (r, if stops then rep_stop (s\<lparr>rep_inner := x\<rparr>) else s\<lparr>rep_inner := x\<rparr>))"

definition stopping_wait :: "('s \<Rightarrow> bool \<times> 's) \<Rightarrow> 's repeating \<Rightarrow> 's repeating" where
  "stopping_wait others s = (case others (rep_inner s) of (stops, x) \<Rightarrow>
     if stops then rep_stop (s\<lparr>rep_inner := x\<rparr>) else s\<lparr>rep_inner := x\<rparr>)"

text \<open>The work \<open>k\<close> times in a row, with what others do in between, when nobody throws or stops.\<close>

fun quiet :: "nat \<Rightarrow> ('s \<Rightarrow> ('e, unit) outcome \<times> bool \<times> 's) \<Rightarrow> ('s \<Rightarrow> bool \<times> 's) \<Rightarrow> 's \<Rightarrow> 's option" where
  "quiet 0 work others x = Some x"
| "quiet (Suc k) work others x = (case work x of
      (Ok u, False, y) \<Rightarrow> (case others y of (False, z) \<Rightarrow> quiet k work others z | _ \<Rightarrow> None)
    | _ \<Rightarrow> None)"

lemma stopping_apply:
  "work x = (r, a, y) \<Longrightarrow> stopping_closure work \<lparr>rep_inner = x, rep_state = st, rep_waits = ws\<rparr> =
     (r, \<lparr>rep_inner = y, rep_state = (if a then rep_stopped else st), rep_waits = ws\<rparr>)"
  "others x = (b, y) \<Longrightarrow> stopping_wait others \<lparr>rep_inner = x, rep_state = st, rep_waits = ws\<rparr> =
     \<lparr>rep_inner = y, rep_state = (if b then rep_stopped else st), rep_waits = ws\<rparr>"
  by (simp_all add: stopping_closure_def stopping_wait_def rep_stop_def)

lemma rounds_quiet:
  "rounds k delay (stopping_wait others) (stopping_closure work) \<lparr>rep_inner = x, rep_state = st, rep_waits = ws\<rparr> =
     map_option (\<lambda>y. \<lparr>rep_inner = y, rep_state = (if k = 0 then st else rep_waiting), rep_waits = ws @ replicate k delay\<rparr>)
       (quiet k work others x)"
proof (induction k arbitrary: x st ws)
  case (Suc k)
  obtain r a y where w: "work x = (r, a, y)" by (metis prod.exhaust)
  obtain b z where o: "others y = (b, z)" by (rule prod.exhaust)
  show ?case
    by (cases r; cases a; cases b) (simp_all add: w o stopping_apply rep_wait_def isStopped_def Let_def Suc.IH)
qed simp

lemma last_round_work:
  "last_round delay (stopping_wait others) (stopping_closure work) \<lparr>rep_inner = x, rep_state = st, rep_waits = ws\<rparr> (r, t) \<longleftrightarrow>
     (\<exists>stops y. work x = (r, stops, y) \<and> (stops \<or> r \<noteq> Ok ()) \<and>
        t = \<lparr>rep_inner = y, rep_state = (if stops then rep_stopped else rep_running), rep_waits = ws\<rparr>) \<or>
     (\<exists>y z. work x = (Ok (), False, y) \<and> others y = (True, z) \<and> r = Ok () \<and>
        t = \<lparr>rep_inner = z, rep_state = rep_stopped, rep_waits = ws @ [delay]\<rparr>)"
proof -
  obtain q a y where w: "work x = (q, a, y)" by (metis prod.exhaust)
  obtain b z where o: "others y = (b, z)" by (rule prod.exhaust)
  show ?thesis
    by (cases q; cases a; cases b) (auto simp: w o last_round_def stopping_apply rep_wait_def isStopped_def Let_def)
qed

text \<open>
  C35. Termination of a repeater, for a closure that works on the state, answers and may call \<open>stop\<close>, while others may do the same during the waits.
  Started while stopped, it returns if and only if, after some number \<open>k\<close> of rounds that nobody ended, either
  the closure stops the repeater or throws or traps, after exactly \<open>k\<close> waits of the configured delay, or others stop it during the next wait, after
  exactly \<open>k + 1\<close>; it answers what the closure answered, and the repeater is stopped again unless the closure threw or trapped without
  stopping it. A start while the repeater is not stopped does nothing, so
  such a closure leaves it unusable.
\<close>

theorem repeater_termination:
  assumes "rep_state s = rep_stopped"
  shows "(rep_start delay (stopping_wait others) (stopping_closure work) s = Some (r, t)) =
      (\<exists>k x. quiet k work others (rep_inner s) = Some x \<and>
         ((\<exists>stops y. work x = (r, stops, y) \<and> (stops \<or> r \<noteq> Ok ()) \<and>
             t = \<lparr>rep_inner = y, rep_state = (if stops then rep_stopped else rep_running), rep_waits = rep_waits s @ replicate k delay\<rparr>) \<or>
          (\<exists>y z. work x = (Ok (), False, y) \<and> others y = (True, z) \<and> r = Ok () \<and>
             t = \<lparr>rep_inner = z, rep_state = rep_stopped, rep_waits = rep_waits s @ replicate (Suc k) delay\<rparr>))) \<and>
    (\<forall>t'. rep_state t' \<noteq> rep_stopped \<longrightarrow> rep_start delay (stopping_wait others) (stopping_closure work) t' = Some (Ok (), t'))"
proof -
  let ?w = "stopping_wait others" and ?c = "stopping_closure work"
  obtain x ws where s: "s = \<lparr>rep_inner = x, rep_state = rep_stopped, rep_waits = ws\<rparr>" using assms by (cases s) simp
  have "rep_start delay ?w ?c s = rep_loop delay ?w ?c s" using assms by (simp add: rep_start_def isStopped_def)
  then have "(rep_start delay ?w ?c s = Some (r, t)) = (\<exists>k s'. rounds k delay ?w ?c s = Some s' \<and> last_round delay ?w ?c s' (r, t))"
    using rep_loop_returns [of delay ?w ?c s "(r, t)"] rep_loop_rounds [of _ delay ?w ?c s] rep_loop_last [of delay ?w ?c _ "(r, t)"]
    by metis
  also have "\<dots> = (\<exists>k y. quiet k work others x = Some y \<and> last_round delay ?w ?c
      \<lparr>rep_inner = y, rep_state = (if k = 0 then rep_stopped else rep_waiting), rep_waits = ws @ replicate k delay\<rparr> (r, t))"
    unfolding s rounds_quiet map_option_eq_Some by blast
  finally have "(rep_start delay ?w ?c s = Some (r, t)) = (\<exists>k y. quiet k work others x = Some y \<and> last_round delay ?w ?c
      \<lparr>rep_inner = y, rep_state = (if k = 0 then rep_stopped else rep_waiting), rep_waits = ws @ replicate k delay\<rparr> (r, t))" .
  moreover have "rep_start delay ?w ?c t' = Some (Ok (), t')" if "rep_state t' \<noteq> rep_stopped" for t'
    using that by (simp add: rep_start_def isStopped_def)
  ultimately show ?thesis
    unfolding last_round_work append.assoc replicate_append_same replicate_Suc [symmetric] unfolding s repeating.select_convs by blast
qed

definition sample_work :: "nat \<Rightarrow> (string, unit) outcome \<times> bool \<times> nat" where
  "sample_work n = (Ok (), n = 1, if n = 1 then n else n + 1)"

theorem repeater_termination_witness:
  "rep_start 5 (stopping_wait (\<lambda>n. (False, n))) (stopping_closure sample_work) \<lparr>rep_inner = 0, rep_state = rep_stopped, rep_waits = []\<rparr> =
     Some (Ok (), \<lparr>rep_inner = 1, rep_state = rep_stopped, rep_waits = [5]\<rparr>)"
proof -
  have "quiet 1 sample_work (\<lambda>n. (False, n)) 0 = Some 1" "sample_work 1 = (Ok (), True, 1)"
    by (simp_all add: sample_work_def)
  then show ?thesis
    using repeater_termination [of "\<lparr>rep_inner = 0, rep_state = rep_stopped, rep_waits = []\<rparr>" 5 "\<lambda>n. (False, n)" sample_work
        "Ok ()" "\<lparr>rep_inner = 1, rep_state = rep_stopped, rep_waits = [5]\<rparr>"]
    by (simp, intro exI [of _ "Suc 0"]) auto
qed

end
