(* ===== verification/Deployment.thy ===== *)
theory Deployment
  imports Relay Retry
begin

section \<open>Deployment of a wallet\<close>

text \<open>
  \<^verbatim>\<open>MultisigWalletDomainModel/Wallet/DeploymentDomainService.swift\<close>, \<^verbatim>\<open>SafeCreationResponseValidator.swift\<close> and
  \<^verbatim>\<open>SafeCreationRequest.swift\<close>. Every handler of a domain event is an operation of its own: the event publisher runs it on
  another queue after the operation that published the event. A handler works on the wallet object it loaded, the registry and
  the network, which answers differently from call to call. A handler that polls may never return (\<open>None\<close>);
  \<open>during_wait\<close> is what other threads do while it waits. \<open>exit\<close> ends the program and is modelled as a trap.
  The background synchronisation that \<open>creationStarted\<close> starts is left out.
\<close>

subsection \<open>Requests and responses\<close>

record safeCreationRequest =
  saltNonce :: string
  req_owners :: "string list"
  req_threshold :: int
  req_paymentToken :: string

definition safeCreationRequest_init :: "nat \<Rightarrow> address list \<Rightarrow> int \<Rightarrow> address \<Rightarrow> ('e, safeCreationRequest) outcome" where
  "safeCreationRequest_init salt os confs paymentToken =
     obind (precondition (os \<noteq> [])) (\<lambda>_.
     obind (precondition (1 \<le> confs \<and> confs \<le> int (length os))) (\<lambda>_.
     obind (precondition (list_all (\<lambda>a. a \<noteq> address_zero) os)) (\<lambda>_.
     Ok \<lparr>saltNonce = decimal (int salt), req_owners = os, req_threshold = confs, req_paymentToken = paymentToken\<rparr>)))"

record safeCreationResponse =
  res_safe :: string
  res_masterCopy :: string
  res_proxyFactory :: string
  res_paymentToken :: string
  res_payment :: int
  res_paymentReceiver :: string
  res_setupData :: string
  gasEstimated :: int
  gasPriceEstimated :: int

subsection \<open>The validator\<close>

datatype safeCreationValidationError = invalidSignature | invalidTransaction | invalidPaymentToken | invalidMasterCopy
  | invalidProxyFactory | invalidPaymentReceiver | invalidSetupData | deploymentCodeNotFound | invalidAddress

text \<open>Errors that reach the service: of the network services, of URL loading, of the validator, and others.\<close>

datatype 'e deployment_error = networkError | serverError | clientError | UrlError 'e
  | ValidationError safeCreationValidationError | OtherFailure 'e

fun addresses_init :: "hex_functions \<Rightarrow> string list \<Rightarrow> ('e, address list) outcome" where
  "addresses_init L [] = Ok []"
| "addresses_init L (a # as) = obind (address_init L a) (\<lambda>x. obind (addresses_init L as) (\<lambda>xs. Ok (x # xs)))"

definition expectedSetupData :: "hex_functions \<Rightarrow> safeCreationResponse \<Rightarrow> safeCreationRequest \<Rightarrow> ('e, bytes) outcome" where
  "expectedSetupData L response request =
     obind (addresses_init L (req_owners request)) (\<lambda>os.
     obind (address_init L (req_paymentToken request)) (\<lambda>token.
     obind (address_init L (res_paymentReceiver response)) (\<lambda>receiver.
     setup_call L \<lparr>setup_owners = os, setup_threshold = req_threshold request, setup_to = address_zero, setup_data = [],
       setup_paymentToken = token, setup_payment = res_payment response, setup_paymentReceiver = receiver\<rparr>)))"

definition setupDataValue :: "hex_functions \<Rightarrow> safeCreationResponse \<Rightarrow> bytes" where
  "setupDataValue L response = dataFromHex L (res_setupData response)"

definition create2_address ::
    "hex_functions \<Rightarrow> safeContractMetadata \<Rightarrow> safeCreationResponse \<Rightarrow> safeCreationRequest \<Rightarrow> ('e, address) outcome" where
  "create2_address L m response request =
     obind (unwrap (nat_of_text (saltNonce request))) (\<lambda>nonce.
     let salt = hash_of L (hash_of L (setupDataValue L response) @ encodeUInt L nonce) in
     obind (precondition (length salt = 32)) (\<lambda>_.
     obind (address_init L (res_masterCopy response)) (\<lambda>masterCopy.
     obind (unwrap (deploymentCode L m masterCopy)) (\<lambda>initCode.
     let initAddress = dataFromHex L (proxyFactoryAddress m) in
     obind (precondition (length initAddress = 20)) (\<lambda>_.
     let preimage = [0xff] @ initAddress @ salt @ hash_of L initCode in
     obind (precondition (length preimage = 85)) (\<lambda>_.
     obind (advanced 12 (hash_of L preimage)) (\<lambda>rest.
     address_init L (''0x'' @ toHexString L (take 20 rest)))))))))"

definition validate_response :: "hex_functions \<Rightarrow> safeContractMetadata \<Rightarrow> safeCreationResponse \<Rightarrow> safeCreationRequest
    \<Rightarrow> ('e deployment_error, unit) outcome" where
  "validate_response L m response request =
     obind (assertEqual (res_paymentToken response) (req_paymentToken request) (ValidationError invalidPaymentToken)) (\<lambda>_.
     obind (address_init L (res_masterCopy response)) (\<lambda>masterCopy.
     obind (assertTrue (isValidMasterCopy m masterCopy) (ValidationError invalidMasterCopy)) (\<lambda>_.
     obind (address_init L (res_proxyFactory response)) (\<lambda>proxyFactory.
     obind (assertTrue (isValidProxyFactory m proxyFactory) (ValidationError invalidProxyFactory)) (\<lambda>_.
     obind (address_init L (res_paymentReceiver response)) (\<lambda>receiver.
     obind (assertTrue (isValidPaymentRecevier m receiver) (ValidationError invalidPaymentReceiver)) (\<lambda>_.
     obind (expectedSetupData L response request) (\<lambda>expected.
     obind (assertEqual (setupDataValue L response) expected (ValidationError invalidSetupData)) (\<lambda>_.
     obind (address_init L (res_safe response)) (\<lambda>safe.
     obind (create2_address L m response request) (\<lambda>a.
     assertEqual (lowercased safe) (lowercased a) (ValidationError invalidAddress))))))))))))"

subsection \<open>Network, configuration and handlers\<close>

record ('n, 'e) network =
  net_getBalance :: "address \<Rightarrow> ('n, 'e deployment_error, int) action"
  net_receipt :: "string \<Rightarrow> ('n, 'e deployment_error, transactionReceipt option) action"
  net_createSafe :: "safeCreationRequest \<Rightarrow> ('n, 'e deployment_error, safeCreationResponse) action"
  net_startCreation :: "address \<Rightarrow> ('n, 'e deployment_error, unit) action"
  net_transactionHash :: "address \<Rightarrow> ('n, 'e deployment_error, string option) action"
  net_notifyWalletCreated :: "walletID \<Rightarrow> ('n, 'e deployment_error, unit) action"

record parameters =
  repeatDelay :: real
  retryAttempts :: int
  par_retryDelay :: real

definition parameters_standard :: parameters where
  "parameters_standard = \<lparr>repeatDelay = 5, retryAttempts = 3, par_retryDelay = 5\<rparr>"

record configuration =
  cfg_balance :: parameters
  cfg_deploymentStatus :: parameters
  cfg_transactionStatus :: parameters

definition configuration_standard :: configuration where
  "configuration_standard = \<lparr>cfg_balance = parameters_standard, cfg_deploymentStatus = parameters_standard,
     cfg_transactionStatus = parameters_standard\<rparr>"

record ('n, 'e) handling =
  h_wallet :: wallet
  h_reg :: "'e deployment_error registry"
  h_net :: 'n

type_synonym ('n, 'e, 'a) handler = "(('n, 'e) handling, 'e deployment_error, 'a) action"
type_synonym ('n, 'e) polled =
  "(('n, 'e) handling \<Rightarrow> (('e deployment_error, unit) outcome \<times> ('n, 'e) handling) option)"

definition h_wallet_do :: "(wallet \<Rightarrow> (wallet_error, wallet) outcome) \<Rightarrow> ('n, 'e, unit) handler" where
  "h_wallet_do f h = (case f (h_wallet h) of Ok w \<Rightarrow> (Ok (), h\<lparr>h_wallet := w\<rparr>) | _ \<Rightarrow> (Trap, h))"

definition h_transition :: "(world \<Rightarrow> (wallet_error, world) outcome) \<Rightarrow> ('n, 'e, unit) handler" where
  "h_transition f h = (case on_wallet f (h_wallet h) (h_reg h) of
      (Ok w, s) \<Rightarrow> (Ok (), h\<lparr>h_wallet := w, h_reg := s\<rparr>)
    | (Throw e, s) \<Rightarrow> (Throw e, h\<lparr>h_reg := s\<rparr>)
    | (Trap, s) \<Rightarrow> (Trap, h\<lparr>h_reg := s\<rparr>))"

definition h_proceed :: "('n, 'e, unit) handler" where
  "h_proceed = h_transition wallet_proceed"

definition h_cancel :: "('n, 'e, unit) handler" where
  "h_cancel = h_transition (\<lambda>x. Ok (wallet_cancel x))"

definition on_net :: "('n, 'e deployment_error, 'a) action \<Rightarrow> ('n, 'e, 'a) handler" where
  "on_net m h = (case m (h_net h) of (r, n) \<Rightarrow> (r, h\<lparr>h_net := n\<rparr>))"

definition on_reg :: "('e deployment_error registry \<Rightarrow> 'e deployment_error registry) \<Rightarrow> ('n, 'e, unit) handler" where
  "on_reg f h = (Ok (), h\<lparr>h_reg := f (h_reg h)\<rparr>)"

definition retrying :: "parameters \<Rightarrow> ('n, 'e, 'a) handler \<Rightarrow> ('n, 'e, 'a) handler" where
  "retrying p m h = (case (retry_init (retryAttempts p) (par_retryDelay p) :: (unit, retry) outcome) of
      Ok r \<Rightarrow> (case retry_start m (r, \<lparr>inner = h, waits = []\<rparr>) of (res, _, t) \<Rightarrow> (res, inner t))
    | _ \<Rightarrow> (Trap, h))"

definition keepsWallet :: "'e deployment_error \<Rightarrow> bool" where
  "keepsWallet e = (case e of networkError \<Rightarrow> True | clientError \<Rightarrow> True | UrlError _ \<Rightarrow> True | _ \<Rightarrow> False)"

definition handleError :: "('n, 'e) polled \<Rightarrow> 'e deployment_error registry \<times> 'n
    \<Rightarrow> (('e deployment_error, unit) outcome \<times> 'e deployment_error registry \<times> 'n) option" where
  "handleError closure = (\<lambda>(s, n). case selectedWallet_of s of
      None \<Rightarrow> Some (Trap, s, n)
    | Some w \<Rightarrow> map_option (\<lambda>(r, h). case r of
          Throw e \<Rightarrow>
            let h = h\<lparr>h_reg := post_error e (h_reg h)\<rparr> in
            if keepsWallet e then (Ok (), h_reg h, h_net h)
            else (case h_cancel h of (r, h) \<Rightarrow> (r, h_reg h, h_net h))
        | _ \<Rightarrow> (r, h_reg h, h_net h))
      (closure \<lparr>h_wallet = w, h_reg = s, h_net = n\<rparr>))"

definition returning :: "('n, 'e, unit) handler \<Rightarrow> ('n, 'e) polled" where
  "returning m h = Some (m h)"

definition h_seq :: "('n, 'e) polled \<Rightarrow> ('n, 'e) polled \<Rightarrow> ('n, 'e) polled" where
  "h_seq f g h = (case f h of None \<Rightarrow> None | Some (Ok _, h') \<Rightarrow> g h' | Some r \<Rightarrow> Some r)"

text \<open>\<open>repeat\<close>: a fresh repeater, started; the closure may stop it.\<close>

definition rep_lift :: "('s, 'e, 'a) action \<Rightarrow> ('s repeating, 'e, 'a) action" where
  "rep_lift m t = (case m (rep_inner t) of (r, x) \<Rightarrow> (r, t\<lparr>rep_inner := x\<rparr>))"

definition h_repeat :: "(('n, 'e) handling repeating \<Rightarrow> ('n, 'e) handling repeating) \<Rightarrow> real
    \<Rightarrow> (('n, 'e) handling repeating, 'e deployment_error, unit) action \<Rightarrow> ('n, 'e) polled" where
  "h_repeat during_wait delay closure h =
     map_option (\<lambda>(r, t). (r, rep_inner t))
       (rep_start delay during_wait closure \<lparr>rep_inner = h, rep_state = rep_stopped, rep_waits = []\<rparr>)"

subsection \<open>The event handlers\<close>

definition prepareForCreation_selected :: "('x registry, 'e, unit) action" where
  "prepareForCreation_selected =
     act_bind load_selected (\<lambda>w. act_do (save_wallet_in (prepareForCreation (wallet_reset w))))"

text \<open>\<open>start\<close> subscribes the handlers and resumes the wallet, which publishes the event of its state.\<close>

definition deployment_start :: "('x registry, 'e, unit) action" where
  "deployment_start = act_bind load_selected (\<lambda>w. act_bind (on_wallet wallet_resume w) (\<lambda>_. act_return ()))"

definition deploymentStarted :: "hex_functions \<Rightarrow> safeContractMetadata \<Rightarrow> ('n, 'e) network \<Rightarrow> nat \<Rightarrow> ('n, 'e) polled" where
  "deploymentStarted L m N salt = returning
     (act_bind (\<lambda>h. (safeCreationRequest_init salt (map owner_address (allOwners (h_wallet h)))
         (confirmationCount (h_wallet h)) (token_address Ether), h)) (\<lambda>request.
      act_bind (on_net (net_createSafe N request)) (\<lambda>response.
      act_bind (act_lift (validate_response L m response request)) (\<lambda>_.
      act_bind (act_lift (address_init L (res_safe response))) (\<lambda>safe.
      act_bind (h_wallet_do (\<lambda>w. changeAddress w (Some safe))) (\<lambda>_.
      act_bind (h_wallet_do (\<lambda>w. updateMinimumTransactionAmount w (res_payment response))) (\<lambda>_.
      act_bind (act_lift (address_init L (res_masterCopy response))) (\<lambda>masterCopy.
      act_bind (h_wallet_do (\<lambda>w. Ok (changeMasterCopy w (Some masterCopy)))) (\<lambda>_.
      act_bind (h_wallet_do (\<lambda>w. Ok (changeContractVersion w (md_version m masterCopy)))) (\<lambda>_.
      h_proceed))))))))))"

definition balance_retried :: "('n, 'e) network \<Rightarrow> parameters \<Rightarrow> address \<Rightarrow> ('n, 'e, int) handler" where
  "balance_retried N p a = retrying p (on_net (net_getBalance N a))"

definition updateBalance :: "('n, 'e) network \<Rightarrow> parameters \<Rightarrow> ('n, 'e, int) handler" where
  "updateBalance N p =
     act_bind (\<lambda>h. (unwrap (address_of (h_wallet h)), h)) (\<lambda>a.
     act_bind (balance_retried N p a) (\<lambda>b.
     act_bind (\<lambda>h. (unwrap (find_account (accountID_of (token_id Ether) (wallet_id (h_wallet h))) (h_reg h)), h)) (\<lambda>account.
     act_bind (on_reg (save_account (account_update b account))) (\<lambda>_.
     act_return b))))"

text \<open>The closures of the two waits for funds; \<open>enough\<close> is the condition of the guard.\<close>

definition funding_closure :: "('n, 'e) network \<Rightarrow> parameters \<Rightarrow> (wallet \<Rightarrow> int \<Rightarrow> ('e deployment_error, bool) outcome)
    \<Rightarrow> (('n, 'e) handling repeating, 'e deployment_error, unit) action" where
  "funding_closure N p enough =
     act_bind (rep_lift (updateBalance N p)) (\<lambda>b.
     act_bind (\<lambda>t. (enough (h_wallet (rep_inner t)) b, t)) (\<lambda>ok.
     if \<not> ok then act_return () else
     act_bind (act_do rep_stop) (\<lambda>_. rep_lift h_proceed)))"

definition waitingForFirstDeposit :: "('n, 'e) network \<Rightarrow> configuration
    \<Rightarrow> (('n, 'e) handling repeating \<Rightarrow> ('n, 'e) handling repeating) \<Rightarrow> ('n, 'e) polled" where
  "waitingForFirstDeposit N c during_wait =
     h_repeat during_wait (repeatDelay (cfg_balance c)) (funding_closure N (cfg_balance c) (\<lambda>w b. Ok (b > 0)))"

definition waitingForRemainingAmount :: "('n, 'e) network \<Rightarrow> configuration
    \<Rightarrow> (('n, 'e) handling repeating \<Rightarrow> ('n, 'e) handling repeating) \<Rightarrow> ('n, 'e) polled" where
  "waitingForRemainingAmount N c during_wait =
     h_repeat during_wait (repeatDelay (cfg_balance c)) (funding_closure N (cfg_balance c)
       (\<lambda>w b. obind (unwrap (minimumDeploymentTransactionAmount w)) (\<lambda>m. Ok (b \<ge> m))))"

definition walletFunded :: "('n, 'e) network \<Rightarrow> ('n, 'e) polled" where
  "walletFunded N = returning
     (act_bind (\<lambda>h. (unwrap (address_of (h_wallet h)), h)) (\<lambda>a.
      act_bind (on_net (net_startCreation N a)) (\<lambda>_. h_proceed)))"

definition hash_closure :: "('n, 'e) network \<Rightarrow> parameters \<Rightarrow> (('n, 'e) handling repeating, 'e deployment_error, unit) action" where
  "hash_closure N p =
     act_bind (\<lambda>t. (unwrap (address_of (h_wallet (rep_inner t))), t)) (\<lambda>a.
     act_bind (rep_lift (retrying p (on_net (net_transactionHash N a)))) (\<lambda>found.
     case found of
       None \<Rightarrow> act_return ()
     | Some hash \<Rightarrow>
         act_bind (rep_lift (h_wallet_do (\<lambda>w. assignCreationTransaction w (Some hash)))) (\<lambda>_.
         act_bind (act_do rep_stop) (\<lambda>_.
         rep_lift (\<lambda>h. (Ok (), h\<lparr>h_reg := publish_event WalletTransactionHashIsKnown (save_wallet_in (h_wallet h) (h_reg h))\<rparr>))))))"

definition waitForCreationTransactionHash :: "('n, 'e) network \<Rightarrow> configuration
    \<Rightarrow> (('n, 'e) handling repeating \<Rightarrow> ('n, 'e) handling repeating) \<Rightarrow> ('n, 'e) polled" where
  "waitForCreationTransactionHash N c during_wait h =
     (if creationTransactionHash (h_wallet h) \<noteq> None then Some (on_reg (publish_event WalletTransactionHashIsKnown) h)
      else h_repeat during_wait (repeatDelay (cfg_deploymentStatus c)) (hash_closure N (cfg_deploymentStatus c)) h)"

definition completion_closure :: "('n, 'e) network \<Rightarrow> parameters \<Rightarrow> (('n, 'e) handling repeating, 'e deployment_error, unit) action" where
  "completion_closure N p =
     act_bind (\<lambda>t. (unwrap (creationTransactionHash (h_wallet (rep_inner t))), t)) (\<lambda>hash.
     act_bind (rep_lift (retrying p (on_net (net_receipt N hash)))) (\<lambda>found.
     case found of
       None \<Rightarrow> act_return ()
     | Some receipt \<Rightarrow>
         act_bind (act_do rep_stop) (\<lambda>_.
         rep_lift (if receipt_status receipt = success then h_proceed else h_cancel))))"

definition waitForCreationTransactionCompletion :: "('n, 'e) network \<Rightarrow> configuration
    \<Rightarrow> (('n, 'e) handling repeating \<Rightarrow> ('n, 'e) handling repeating) \<Rightarrow> ('n, 'e) polled" where
  "waitForCreationTransactionCompletion N c during_wait =
     h_repeat during_wait (repeatDelay (cfg_transactionStatus c)) (completion_closure N (cfg_transactionStatus c))"

definition creationStarted :: "('n, 'e) network \<Rightarrow> configuration
    \<Rightarrow> (('n, 'e) handling repeating \<Rightarrow> ('n, 'e) handling repeating) \<Rightarrow> ('n, 'e) polled" where
  "creationStarted N c during_wait =
     h_seq (waitForCreationTransactionHash N c during_wait) (waitForCreationTransactionCompletion N c during_wait)"

definition walletCreated :: "('n, 'e) network \<Rightarrow> ('n, 'e) polled" where
  "walletCreated N = returning
     (act_bind (\<lambda>h. on_net (net_notifyWalletCreated N (wallet_id (h_wallet h))) h) (\<lambda>_.
      act_bind (\<lambda>h. (unwrap (owner_with (h_wallet h) paperWallet), h)) (\<lambda>p.
      act_bind (on_reg (remove_eoa (owner_address p))) (\<lambda>_.
      act_bind (\<lambda>h. (unwrap (owner_with (h_wallet h) paperWalletDerived), h)) (\<lambda>d.
      on_reg (remove_eoa (owner_address d)))))))"

definition deploymentAborted :: "'s repeating list \<Rightarrow> 's repeating list" where
  "deploymentAborted repeaters = map rep_stop repeaters"

definition creationFailed :: "('s, 'e, unit) action" where
  "creationFailed = act_lift Trap"

subsection \<open>What the validator accepts\<close>

lemma address_init_valid: "valid_address L a \<Longrightarrow> address_init L a = Ok a"
  by (auto simp: valid_address_def address_init_def)

lemma addresses_init_texts:
  "hex_library L \<Longrightarrow> list_all (\<lambda>d. length d = 20) ds \<Longrightarrow> addresses_init L (map (address_text L) ds) = Ok (map (address_text L) ds)"
  by (induction ds) (simp_all add: address_init_valid hex_library.valid_text)

lemma validate_response_Ok:
  assumes "validate_response L m response request = (Ok () :: ('e deployment_error, unit) outcome)"
  shows "address_init L (res_masterCopy response) = (Ok (res_masterCopy response) :: ('e deployment_error, address) outcome)"
    and "address_init L (res_safe response) = (Ok (res_safe response) :: ('e deployment_error, address) outcome)"
    and "isValidMasterCopy m (res_masterCopy response)" "isValidProxyFactory m (res_proxyFactory response)"
    and "isValidPaymentRecevier m (res_paymentReceiver response)" "res_paymentToken response = req_paymentToken request"
    and "expectedSetupData L response request = (Ok (setupDataValue L response) :: ('e deployment_error, bytes) outcome)"
    and "\<exists>a. create2_address L m response request = (Ok a :: ('e deployment_error, address) outcome) \<and> lowercased (res_safe response) = lowercased a"
  using assms by (auto simp: validate_response_def outcome_Ok_iff assert_eq_Ok address_init_def)

text \<open>The text \<open>a\<close> is the 20-byte address, in the lower-case form that decoding gives, with the value of the text \<open>b\<close>.\<close>

definition same_address :: "hex_functions \<Rightarrow> address \<Rightarrow> address \<Rightarrow> bool" where
  "same_address L a b \<longleftrightarrow> (\<exists>d. length d = 20 \<and> a = address_text L d \<and> big_endian d = big_endian (ethHex L b))"

lemma address_init_bytes: "address_init L a = (Ok b :: ('e, address) outcome) \<longleftrightarrow>
  b = a \<and> take 2 a = ''0x'' \<and> (length (ethHex L a) = 20 \<or> ethHex L a = [])"
  by (auto simp: address_init_def outcome_Ok_iff precondition_def split: if_splits)

lemma addresses_init_same:
  assumes "hex_library L" "addresses_init L as = (Ok bs :: ('e, address list) outcome)"
  shows "bs = as \<and> (\<exists>ds. list_all (\<lambda>d. length d = 20) ds \<and> map (encodeAddress L) as = map (encodeAddress L) (map (address_text L) ds) \<and>
    list_all2 (same_address L) (map (address_text L) ds) as)"
  using assms(2)
proof (induction as arbitrary: bs)
  case (Cons a as)
  then obtain xs where a: "address_init L a = (Ok a :: ('e, address) outcome)" and xs: "addresses_init L as = (Ok xs :: ('e, address list) outcome)"
    and bs: "bs = a # xs"
    by (auto simp: outcome_Ok_iff address_init_bytes)
  obtain d where d: "length d = 20" "big_endian d = big_endian (ethHex L a)"
    using a [unfolded address_init_bytes] big_endian_replicate [of 20] by (metis big_endian_replicate length_replicate replicate_0)
  have "encodeAddress L (address_text L d) = encodeAddress L a"
    using d unfolding encodeAddress_def address_text_def hex_library.ethHex_hex [OF assms(1)] hex_library.fromData_big_endian [OF assms(1)] by simp
  moreover obtain ds where "list_all (\<lambda>d. length d = 20) ds" "map (encodeAddress L) as = map (encodeAddress L) (map (address_text L) ds)"
    "list_all2 (same_address L) (map (address_text L) ds) as" "xs = as"
    using Cons.IH [OF xs] by blast
  moreover have "same_address L (address_text L d) a" using d by (auto simp: same_address_def)
  ultimately show ?case using d bs by (intro conjI exI [of _ "d # ds"]) simp_all
qed simp

text \<open>The set-up data depends on the addresses through their values only.\<close>

lemma setup_call_addresses:
  "map (encodeAddress L) os = map (encodeAddress L) os' \<Longrightarrow> encodeAddress L token = encodeAddress L token' \<Longrightarrow>
   encodeAddress L receiver = encodeAddress L receiver' \<Longrightarrow>
   setup_call L \<lparr>setup_owners = os, setup_threshold = t, setup_to = to, setup_data = d, setup_paymentToken = token,
     setup_payment = p, setup_paymentReceiver = receiver\<rparr> =
   setup_call L \<lparr>setup_owners = os', setup_threshold = t, setup_to = to, setup_data = d, setup_paymentToken = token',
     setup_payment = p, setup_paymentReceiver = receiver'\<rparr>"
  by (frule map_eq_imp_length_eq) (simp add: setup_call_def)

lemma setup_call_positive:
  assumes "setup_call L a = (Ok c :: ('e, bytes) outcome)"
  shows "0 \<le> setup_threshold a" "0 \<le> setup_payment a"
  using assms by (auto simp: setup_call_def outcome_Ok_iff encodeInt_def precondition_def split: if_splits)

lemma expected_setup_decodes:
  assumes hex: "hex_library L" and zero: "address_text L (replicate 20 0) = address_zero"
    and size: "length (req_owners request) < 2 ^ 57" "req_threshold request < 2 ^ 63"
    and ok: "expectedSetupData L response request = (Ok c :: ('e, bytes) outcome)"
  shows "\<exists>args. decodeSetup L c = (Ok (Some args) :: ('e, setup_arguments option) outcome) \<and>
    list_all2 (same_address L) (setup_owners args) (req_owners request) \<and> setup_threshold args = req_threshold request \<and>
    setup_to args = address_zero \<and> setup_data args = [] \<and> same_address L (setup_paymentToken args) (req_paymentToken request) \<and>
    setup_payment args = res_payment response mod 2 ^ 256 \<and> same_address L (setup_paymentReceiver args) (res_paymentReceiver response)"
proof -
  obtain os token receiver where ini: "addresses_init L (req_owners request) = (Ok os :: ('e, address list) outcome)"
      "addresses_init L [req_paymentToken request] = (Ok [token] :: ('e, address list) outcome)"
      "addresses_init L [res_paymentReceiver response] = (Ok [receiver] :: ('e, address list) outcome)"
    and call: "setup_call L \<lparr>setup_owners = os, setup_threshold = req_threshold request, setup_to = address_zero, setup_data = [],
       setup_paymentToken = token, setup_payment = res_payment response, setup_paymentReceiver = receiver\<rparr> = (Ok c :: ('e, bytes) outcome)"
    using ok by (auto simp: expectedSetupData_def outcome_Ok_iff)
  obtain ds where ds: "list_all (\<lambda>d. length d = 20) ds" "map (encodeAddress L) os = map (encodeAddress L) (map (address_text L) ds)"
    "list_all2 (same_address L) (map (address_text L) ds) (req_owners request)"
    using addresses_init_same [OF hex ini(1)] by blast
  obtain dt where dt: "length dt = 20" "encodeAddress L token = encodeAddress L (address_text L dt)"
    "same_address L (address_text L dt) (req_paymentToken request)"
    using addresses_init_same [OF hex ini(2)] by (auto simp: list_all2_Cons2)
  obtain dr where dr: "length dr = 20" "encodeAddress L receiver = encodeAddress L (address_text L dr)"
    "same_address L (address_text L dr) (res_paymentReceiver response)"
    using addresses_init_same [OF hex ini(3)] by (auto simp: list_all2_Cons2)
  obtain t where t: "req_threshold request = int t" "t < 2 ^ 63"
    using setup_call_positive(1) [OF call] size(2) by (intro that [of "nat (req_threshold request)"]) auto
  have len: "length ds < 2 ^ 57" using size(1) list_all2_lengthD [OF ds(3)] by simp
  have "0 \<le> res_payment response" using setup_call_positive(2) [OF call] by simp
  let ?args = "\<lambda>p. \<lparr>setup_owners = map (address_text L) ds, setup_threshold = int t, setup_to = address_text L (replicate 20 0),
    setup_data = [], setup_paymentToken = address_text L dt, setup_payment = p, setup_paymentReceiver = address_text L dr\<rparr>"
  obtain c' where "setup_call L (?args (res_payment response)) = (Ok c' :: ('e, bytes) outcome)"
    "decodeSetup L c' = (Ok (Some (?args (res_payment response mod 2 ^ 256))) :: ('e, setup_arguments option) outcome)"
    using hex_library.setup_decodes [OF hex ds(1) len t(2) _ dt(1) dr(1) \<open>0 \<le> res_payment response\<close>, of "replicate 20 0" "[]"] by auto
  then have "decodeSetup L c = (Ok (Some (?args (res_payment response mod 2 ^ 256))) :: ('e, setup_arguments option) outcome)"
    using call unfolding setup_call_addresses [OF ds(2) dt(2) dr(2)] t(1) zero by simp
  then show ?thesis using ds(3) dt(3) dr(3) t(1) zero by simp
qed

text \<open>The address of the create2 instruction, written out.\<close>

lemma create2_address_value:
  assumes hex: "hex_library L" and salt: "saltNonce request = decimal (int k)"
    and ok: "create2_address L m response request = (Ok a :: ('e, address) outcome)"
  shows "\<exists>x n w. List.find (\<lambda>x. lowercased (mc_address x) = lowercased (res_masterCopy response)) (md_metadata m) = Some x \<and>
    length n = 32 \<and> big_endian n = k mod 2 ^ 256 \<and>
    length w = 32 \<and> big_endian w = big_endian (ethHex L (res_masterCopy response)) mod 2 ^ 256 \<and>
    a = ''0x'' @ toHexString L (take 20 (drop 12 (hash_of L ([0xff] @ dataFromHex L (proxyFactoryAddress m) @
      hash_of L (hash_of L (dataFromHex L (res_setupData response)) @ n) @ hash_of L (proxyCode x @ w)))))"
proof -
  have nonce: "nat_of_text (saltNonce request) = Some k" using nat_of_decimal salt by simp
  obtain x where x: "List.find (\<lambda>x. lowercased (mc_address x) = lowercased (res_masterCopy response)) (md_metadata m) = Some x"
    and a: "a = ''0x'' @ toHexString L (take 20 (drop 12 (hash_of L ([0xff] @ dataFromHex L (proxyFactoryAddress m) @
      hash_of L (hash_of L (dataFromHex L (res_setupData response)) @ encodeUInt L k) @
      hash_of L (proxyCode x @ encodeAddress L (res_masterCopy response))))))"
    using ok
    by (auto simp: create2_address_def nonce outcome_Ok_iff Let_def address_init_bytes deploymentCode_def metadata_for_def setupDataValue_def
        advanced_def unwrap_def precondition_def split: option.splits if_splits)
  show ?thesis
    by (intro exI [of _ x] exI [of _ "encodeUInt L k"] exI [of _ "encodeAddress L (res_masterCopy response)"] conjI x a)
      (simp_all add: encodeAddress_def hex_library.length_encodeUInt [OF hex] hex_library.value_encodeUInt [OF hex]
        hex_library.fromData_big_endian [OF hex])
qed

text \<open>
  C3. A response of the relay that passes validation deploys the safe that was asked for. Its set-up call decodes to
  exactly the owners, the threshold and the payment token of the request, whatever the case of their texts, with no delegate call and
  the payment and the receiver the response names; the receiver is the funder of the metadata or the zero address. The master copy and the
  proxy factory are known. The address is the last 20 bytes of the hash of \<open>0xff\<close>, the proxy factory, the salt, which is the hash of the
  hash of that set-up call and the 32-byte nonce of the request, and the hash of the creation code of the master copy. The request has
  fewer than \<open>2^57\<close> owners and its threshold is an \<open>Int\<close>; its nonce is the decimal text that the request is created with.
\<close>

theorem validated_safe_is_requested:
  assumes hex: "hex_library L" and zero: "address_text L (replicate 20 0) = address_zero"
    and request: "length (req_owners request) < 2 ^ 57" "req_threshold request < 2 ^ 63" "saltNonce request = decimal (int k)"
    and valid: "validate_response L m response request = (Ok () :: ('e deployment_error, unit) outcome)"
  shows "(\<exists>args. decodeSetup L (dataFromHex L (res_setupData response)) = (Ok (Some args) :: ('e deployment_error, setup_arguments option) outcome) \<and>
      list_all2 (same_address L) (setup_owners args) (req_owners request) \<and> setup_threshold args = req_threshold request \<and>
      setup_to args = address_zero \<and> setup_data args = [] \<and> same_address L (setup_paymentToken args) (req_paymentToken request) \<and>
      setup_payment args = res_payment response mod 2 ^ 256 \<and> same_address L (setup_paymentReceiver args) (res_paymentReceiver response)) \<and>
    lowercased (res_proxyFactory response) = lowercased (proxyFactoryAddress m) \<and>
    (lowercased (res_paymentReceiver response) = lowercased (safeFunderAddress m) \<or> res_paymentReceiver response = address_zero) \<and>
    (\<exists>x n w. List.find (\<lambda>x. lowercased (mc_address x) = lowercased (res_masterCopy response)) (md_metadata m) = Some x \<and>
      length n = 32 \<and> big_endian n = k mod 2 ^ 256 \<and>
      length w = 32 \<and> big_endian w = big_endian (ethHex L (res_masterCopy response)) mod 2 ^ 256 \<and>
      lowercased (res_safe response) = ''0x'' @ toHexString L (take 20 (drop 12 (hash_of L ([0xff] @ dataFromHex L (proxyFactoryAddress m) @
        hash_of L (hash_of L (dataFromHex L (res_setupData response)) @ n) @ hash_of L (proxyCode x @ w))))))"
proof -
  note ok = validate_response_Ok [OF valid]
  obtain a where a: "create2_address L m response request = (Ok a :: ('e deployment_error, address) outcome)"
    "lowercased (res_safe response) = lowercased a"
    using ok(8) by blast
  have low: "lowercased (''0x'' @ toHexString L d) = ''0x'' @ toHexString L d" for d
    using hex_library.lowercased_text [OF hex, of d] by (simp add: address_text_def)
  have "lowercased (res_safe response) = a" using create2_address_value [OF hex request(3) a(1)] a(2) low by auto
  then show ?thesis
    using expected_setup_decodes [OF hex zero request(1,2) ok(7), unfolded setupDataValue_def]
      create2_address_value [OF hex request(3) a(1)] ok(4,5)
    unfolding isValidProxyFactory_def isValidPaymentRecevier_def by (intro conjI) (simp_all only: disj_comms eq_commute)
qed

text \<open>A request and a response that passes.\<close>

definition sample_metadata :: safeContractMetadata where
  "sample_metadata = \<lparr>multiSendContractAddress = sample_address 8, proxyFactoryAddress = sample_address 8,
     safeFunderAddress = sample_address 8, md_metadata = [\<lparr>mc_address = sample_address 6, mc_version = ''1.0.0'',
       txTypeHash = [], domainSeparatorHash = [], proxyCode = [1, 2]\<rparr>]\<rparr>"

definition sample_request :: safeCreationRequest where
  "sample_request = \<lparr>saltNonce = decimal (int 42), req_owners = map sample_address [2, 3], req_threshold = int 1,
     req_paymentToken = sample_address 0\<rparr>"

definition blank_response :: "string \<Rightarrow> address \<Rightarrow> safeCreationResponse" where
  "blank_response d a = \<lparr>res_safe = a, res_masterCopy = sample_address 6, res_proxyFactory = sample_address 8,
     res_paymentToken = sample_address 0, res_payment = 11, res_paymentReceiver = sample_address 8, res_setupData = d,
     gasEstimated = 1, gasPriceEstimated = 1\<rparr>"

lemma sample_create2: "\<exists>a. \<forall>b. create2_address reference_library sample_metadata (blank_response d b) sample_request = (Ok a :: ('e, address) outcome) \<and>
  address_init reference_library a = (Ok a :: ('e, address) outcome)"
proof -
  have deploy: "deploymentCode reference_library sample_metadata (sample_address 6) = Some ([1, 2] @ encodeAddress reference_library (sample_address 6))"
    by (simp add: deploymentCode_def metadata_for_def sample_metadata_def)
  have len: "length (dataFromHex reference_library (sample_address 8)) = 20"
    unfolding sample_address_def address_text_def using reference.hex_prefix reference.hex_plain reference.hex_round_trip by simp
  have init: "address_init reference_library (sample_address 6) = (Ok (sample_address 6) :: ('e, address) outcome)"
    by (rule address_init_valid [OF sample_address_valid])
  have ok: "address_init reference_library (''0x'' @ toHexString reference_library (take 20 (drop 12 (hash_of reference_library x)))) =
      (Ok (''0x'' @ toHexString reference_library (take 20 (drop 12 (hash_of reference_library x)))) :: ('e, address) outcome)" for x
    unfolding address_text_def [symmetric] by (rule address_init_valid [OF reference.valid_text]) (simp add: reference.hash_size)
  show ?thesis
    using deploy init len ok
    by (simp add: create2_address_def blank_response_def sample_request_def nat_of_decimal [of 42, simplified] Let_def reference.hash_size
        advanced_def sample_metadata_def setupDataValue_def)
qed

lemma sample_setup: "\<exists>c. \<forall>d a. expectedSetupData reference_library (blank_response d a) sample_request = (Ok c :: ('e, bytes) outcome)"
proof -
  have init: "address_init reference_library (sample_address k) = (Ok (sample_address k) :: ('e, address) outcome)" for k
    by (rule address_init_valid [OF sample_address_valid])
  obtain c where "setup_call reference_library \<lparr>setup_owners = map sample_address [2, 3], setup_threshold = 1,
      setup_to = address_zero, setup_data = [], setup_paymentToken = sample_address 0, setup_payment = 11,
      setup_paymentReceiver = sample_address 8\<rparr> = (Ok c :: ('e, bytes) outcome)"
    by (simp add: setup_call_def to_Int_def encodeInt_def)
  then show ?thesis
    by (intro exI [of _ c]) (simp add: expectedSetupData_def blank_response_def sample_request_def init)
qed

theorem validated_safe_is_requested_witness:
  "\<exists>response. validate_response reference_library sample_metadata response sample_request = (Ok () :: (unit deployment_error, unit) outcome) \<and>
    (\<exists>args. decodeSetup reference_library (setupDataValue reference_library response) =
        (Ok (Some args) :: (unit deployment_error, setup_arguments option) outcome) \<and> list_all2 (same_address reference_library) (setup_owners args) (map sample_address [2, 3]) \<and>
      setup_threshold args = 1)"
proof -
  let ?L = reference_library
  obtain c where c: "\<And>d a. expectedSetupData ?L (blank_response d a) sample_request = (Ok c :: (unit deployment_error, bytes) outcome)"
    using sample_setup by blast
  let ?d = "toHexString ?L c"
  obtain a where a: "\<And>b. create2_address ?L sample_metadata (blank_response ?d b) sample_request = (Ok a :: (unit deployment_error, address) outcome)"
    "address_init ?L a = (Ok a :: (unit deployment_error, address) outcome)"
    using sample_create2 [of ?d, where ?'e = "unit deployment_error"] by blast
  let ?r = "blank_response ?d a"
  have init: "address_init ?L (sample_address k) = (Ok (sample_address k) :: (unit deployment_error, address) outcome)" for k
    by (rule address_init_valid [OF sample_address_valid])
  have sel: "res_safe ?r = a" "res_masterCopy ?r = sample_address 6" "res_proxyFactory ?r = sample_address 8"
      "res_paymentToken ?r = sample_address 0" "res_paymentReceiver ?r = sample_address 8" "res_payment ?r = 11"
      "setupDataValue ?L ?r = c"
    by (simp_all add: blank_response_def setupDataValue_def reference.hex_round_trip)
  have req: "req_owners sample_request = map sample_address [2, 3]" "req_threshold sample_request = 1"
    "saltNonce sample_request = decimal (int 42)" "req_paymentToken sample_request = sample_address 0"
    by (simp_all add: sample_request_def)
  have valid: "validate_response ?L sample_metadata ?r sample_request = (Ok () :: (unit deployment_error, unit) outcome)"
    using c [of ?d a] a init req(4)
    by (simp add: validate_response_def sel assertEqual_def isValidMasterCopy_def isValidProxyFactory_def isValidPaymentRecevier_def
        sample_metadata_def)
  have zero: "address_text ?L (replicate 20 0) = address_zero" by code_simp
  show ?thesis
    using validated_safe_is_requested [OF reference.hex_library_axioms zero _ _ req(3) valid] valid req(1,2)
    by (intro exI [of _ ?r]) (auto simp: setupDataValue_def)
qed

subsection \<open>Starting a deployment\<close>

lemma handler_run [simp]:
  "on_net m \<lparr>h_wallet = w, h_reg = s, h_net = n\<rparr> = (case m n of (r, n') \<Rightarrow> (r, \<lparr>h_wallet = w, h_reg = s, h_net = n'\<rparr>))"
  "on_reg f \<lparr>h_wallet = w, h_reg = s, h_net = n\<rparr> = (Ok (), \<lparr>h_wallet = w, h_reg = f s, h_net = n\<rparr>)"
  "h_wallet_do g \<lparr>h_wallet = w, h_reg = s, h_net = n\<rparr> =
     (case g w of Ok w' \<Rightarrow> (Ok (), \<lparr>h_wallet = w', h_reg = s, h_net = n\<rparr>) | _ \<Rightarrow> (Trap, \<lparr>h_wallet = w, h_reg = s, h_net = n\<rparr>))"
  by (auto simp: on_net_def on_reg_def h_wallet_do_def split: outcome.split prod.split)

lemma deploying_transitions: "state w = DeployingState \<Longrightarrow>
  h_proceed \<lparr>h_wallet = w, h_reg = s, h_net = n\<rparr> = (Ok (), \<lparr>h_wallet = w\<lparr>state := WaitingForFirstDepositState\<rparr>,
    h_reg = publish_event (WalletEvent StartedWaitingForFirstDeposit) (save_wallet_in (w\<lparr>state := WaitingForFirstDepositState\<rparr>) s), h_net = n\<rparr>)"
  "state w = DeployingState \<Longrightarrow>
  h_cancel \<lparr>h_wallet = w, h_reg = s, h_net = n\<rparr> = (Ok (), \<lparr>h_wallet = wallet_reset (w\<lparr>state := DraftState\<rparr>),
    h_reg = publish_event (WalletEvent DeploymentAborted) (save_wallet_in (wallet_reset (w\<lparr>state := DraftState\<rparr>)) s), h_net = n\<rparr>)"
  by (simp_all add: h_proceed_def h_cancel_def h_transition_def on_wallet_def to_world_def from_world_def wallet_proceed_def
      wallet_cancel_def world_defs publish_event_def Let_def save_wallet_in_def)

text \<open>The answer to a creation request after validation.\<close>

definition checked_answer :: "hex_functions \<Rightarrow> safeContractMetadata \<Rightarrow> safeCreationRequest \<Rightarrow> ('e deployment_error, safeCreationResponse) outcome
    \<Rightarrow> ('e deployment_error, safeCreationResponse) outcome" where
  "checked_answer L m request answer = obind answer (\<lambda>r. obind (validate_response L m r request) (\<lambda>_. Ok r))"

text \<open>
  C20. The start of a deployment on every answer of the relay. A response that passes validation gives the wallet its address, fee,
  master copy and version, and the service waits for the first deposit. An error of the relay or of the validator is
  posted; a failed network request or a client error leaves the wallet deploying, so that it can be resumed, and any other error makes
  it a draft again.
\<close>

theorem deployment_started_outcome:
  fixes N :: "('n, 'e) network"
  assumes sel: "selectedWallet_of s = Some w" and st: "state w = DeployingState"
    and req: "safeCreationRequest_init salt (map owner_address (allOwners w)) (confirmationCount w) (token_address Ether) =
      (Ok request :: ('e deployment_error, safeCreationRequest) outcome)"
    and net: "net_createSafe N request n = (answer, n')"
  shows "handleError (deploymentStarted L m N salt) (s, n) =
    (case checked_answer L m request answer of
       Ok r \<Rightarrow> Some (Ok (), publish_event (WalletEvent StartedWaitingForFirstDeposit) (save_wallet_in
           (w\<lparr>address_of := Some (res_safe r), minimumDeploymentTransactionAmount := Some (res_payment r),
              masterCopyAddress := Some (res_masterCopy r), contractVersion := map_option mc_version (List.find (\<lambda>x. lowercased (mc_address x) = lowercased (res_masterCopy r)) (md_metadata m)),
              state := WaitingForFirstDepositState\<rparr>) s), n')
     | Throw e \<Rightarrow> Some (Ok (), if e \<in> {networkError, clientError} \<union> range UrlError then post_error e s
           else publish_event (WalletEvent DeploymentAborted) (save_wallet_in (wallet_reset (w\<lparr>state := DraftState\<rparr>)) (post_error e s)), n')
     | Trap \<Rightarrow> Some (Trap, s, n'))"
proof (cases "checked_answer L m request answer")
  case (Ok r)
  then have answer: "answer = Ok r" and valid: "validate_response L m r request = (Ok () :: ('e deployment_error, unit) outcome)"
    by (auto simp: checked_answer_def outcome_Ok_iff)
  note ok = validate_response_Ok(1,2) [OF valid]
  have "changeAddress w (Some (res_safe r)) = Ok (w\<lparr>address_of := Some (res_safe r)\<rparr>)"
    "updateMinimumTransactionAmount (w\<lparr>address_of := Some (res_safe r)\<rparr>) (res_payment r) =
      Ok (w\<lparr>address_of := Some (res_safe r), minimumDeploymentTransactionAmount := Some (res_payment r)\<rparr>)"
    using st by (simp_all add: changeAddress_def updateMinimumTransactionAmount_def canChangeAddress_def)
  then show ?thesis
    using Ok answer valid ok req net st sel
    by (simp add: handleError_def deploymentStarted_def returning_def act_bind_def changeMasterCopy_def changeContractVersion_def
        deploying_transitions md_version_def metadata_for_def)
next
  case (Throw e)
  have keeps: "keepsWallet e \<longleftrightarrow> e \<in> {networkError, clientError} \<union> range UrlError"
    by (auto simp: keepsWallet_def split: deployment_error.splits)
  have "handleError (deploymentStarted L m N salt) (s, n) = Some (Ok (), if keepsWallet e then post_error e s
      else publish_event (WalletEvent DeploymentAborted) (save_wallet_in (wallet_reset (w\<lparr>state := DraftState\<rparr>)) (post_error e s)), n')"
    using Throw req net st sel
    by (cases answer)
      (auto simp: checked_answer_def handleError_def deploymentStarted_def returning_def act_bind_def deploying_transitions Let_def
        outcome_Ok_iff obind_def split: outcome.splits)
  then show ?thesis unfolding keeps Throw by simp
next
  case Trap
  then show ?thesis
    using req net st sel
    by (cases answer)
      (auto simp: checked_answer_def handleError_def deploymentStarted_def returning_def act_bind_def obind_def split: outcome.splits)
qed

definition deploying_wallet :: wallet where
  "deploying_wallet = (wallet_empty ''w'')\<lparr>state := DeployingState,
     owners := [\<lparr>owner_address = sample_address 2, owner_role = thisDevice\<rparr>]\<rparr>"

definition one_wallet :: "wallet \<Rightarrow> 'x registry" where
  "one_wallet w = \<lparr>reg_wallets = [w], reg_portfolio = Some \<lparr>portfolio_id = ''p'', selectedWallet = Some ''w'', wallets = [''w'']\<rparr>,
     reg_accounts = [\<lparr>account_id = accountID_of (token_id Ether) ''w'', balance = None\<rparr>], reg_txs = [], reg_eoas = [], reg_items = [],
     reg_monitor = [], reg_events = [], reg_errors = []\<rparr>"

lemma one_wallet_selected: "wallet_id w = ''w'' \<Longrightarrow> selectedWallet_of (one_wallet w) = Some w"
  by (simp add: selectedWallet_of_def one_wallet_def find_wallet_def store_get_def)

definition sample_network :: "(nat, unit) network" where
  "sample_network = \<lparr>net_getBalance = (\<lambda>a n. (Ok (if n < 2 then 0 else 7), Suc n)), net_receipt = (\<lambda>h n. (Ok None, n)),
     net_createSafe = (\<lambda>r n. (Throw serverError, n)), net_startCreation = (\<lambda>a n. (Ok (), n)),
     net_transactionHash = (\<lambda>a n. (Ok None, n)), net_notifyWalletCreated = (\<lambda>w n. (Throw networkError, n))\<rparr>"

theorem deployment_started_outcome_witness:
  "\<exists>s'. handleError (deploymentStarted reference_library sample_metadata sample_network 42) (one_wallet deploying_wallet, 0) = Some (Ok (), s', 0) \<and>
    find_wallet ''w'' s' = Some (wallet_reset (deploying_wallet\<lparr>state := DraftState\<rparr>))"
proof -
  have w: "wallet_id deploying_wallet = ''w''" "state deploying_wallet = DeployingState"
    by (simp_all add: deploying_wallet_def wallet_empty_def)
  have "sample_address 2 \<noteq> address_zero" by code_simp
  then have req: "safeCreationRequest_init 42 (map owner_address (allOwners deploying_wallet)) (confirmationCount deploying_wallet) (token_address Ether) =
      (Ok \<lparr>saltNonce = decimal (int 42), req_owners = [sample_address 2], req_threshold = 1, req_paymentToken = token_address Ether\<rparr>
        :: (unit deployment_error, safeCreationRequest) outcome)"
    by (simp add: safeCreationRequest_init_def allOwners_def sortedOwners_def deploying_wallet_def wallet_empty_def)
  show ?thesis
    using deployment_started_outcome [OF one_wallet_selected [OF w(1)] w(2) req, of sample_network 0 "Throw serverError" 0] w(1)
    by (simp add: sample_network_def checked_answer_def image_iff wallet_repo.find_save wallet_reset_def)
qed

subsection \<open>Waiting for funds\<close>

lemma retrying_returns: "0 < retryAttempts p \<Longrightarrow> m h = (Ok b, h') \<Longrightarrow> retrying p m h = (Ok b, h')"
  by (cases "nat (retryAttempts p)") (simp_all add: retrying_def retry_init_def retry_start_def)

lemma updateBalance_run:
  assumes "0 < retryAttempts p" "address_of w = Some a" "net_getBalance N a n = (Ok b, n')"
    and "find_account (accountID_of (token_id Ether) (wallet_id w)) s = Some account"
  shows "updateBalance N p \<lparr>h_wallet = w, h_reg = s, h_net = n\<rparr> =
    (Ok b, \<lparr>h_wallet = w, h_reg = save_account \<lparr>account_id = accountID_of (token_id Ether) (wallet_id w), balance = Some b\<rparr> s, h_net = n'\<rparr>)"
proof -
  have "balance_retried N p a \<lparr>h_wallet = w, h_reg = s, h_net = n\<rparr> = (Ok b, \<lparr>h_wallet = w, h_reg = s, h_net = n'\<rparr>)"
    unfolding balance_retried_def by (rule retrying_returns [OF assms(1)]) (simp add: assms(3))
  moreover have "account_update b account = \<lparr>account_id = accountID_of (token_id Ether) (wallet_id w), balance = Some b\<rparr>"
    using account_repo.find_key [OF assms(4)] by (cases account) (simp add: account_update_def)
  ultimately show ?thesis using assms(2,4) by (simp add: updateBalance_def act_bind_def)
qed

text \<open>The account of a wallet after some polls.\<close>

definition polled_from :: "wallet \<Rightarrow> 'x registry \<Rightarrow> 'x registry \<Rightarrow> bool" where
  "polled_from w s s' \<longleftrightarrow> s' = s \<or> (\<exists>b. s' = save_account \<lparr>account_id = accountID_of (token_id Ether) (wallet_id w), balance = Some b\<rparr> s)"

lemma polled_account: "polled_from w s s' \<Longrightarrow> find_account (accountID_of (token_id Ether) (wallet_id w)) s = Some account \<Longrightarrow>
  \<exists>account'. find_account (accountID_of (token_id Ether) (wallet_id w)) s' = Some account'"
  by (auto simp: polled_from_def account_repo.find_save)

lemma polled_save: "polled_from w s s' \<Longrightarrow>
  save_account \<lparr>account_id = accountID_of (token_id Ether) (wallet_id w), balance = Some b\<rparr> s' =
  save_account \<lparr>account_id = accountID_of (token_id Ether) (wallet_id w), balance = Some b\<rparr> s"
  by (auto simp: polled_from_def save_account_twice)

lemma funding_rounds:
  fixes N :: "('n, 'e) network"
  assumes p: "0 < retryAttempts p" and a: "address_of w = Some a"
    and account: "find_account (accountID_of (token_id Ether) (wallet_id w)) s = Some account"
  shows "rep_inner t = \<lparr>h_wallet = w, h_reg = s', h_net = ns 0\<rparr> \<Longrightarrow> polled_from w s s' \<Longrightarrow>
    (\<And>i. i < k \<Longrightarrow> net_getBalance N a (ns i) = (Ok (bal i), ns (Suc i)) \<and> enough w (bal i) = Ok False) \<Longrightarrow>
    \<exists>t' s''. rounds k d id (funding_closure N p enough) t = Some t' \<and> rep_inner t' = \<lparr>h_wallet = w, h_reg = s'', h_net = ns k\<rparr> \<and> polled_from w s s''"
proof (induction k arbitrary: t s' ns bal)
  case 0
  then show ?case by auto
next
  case (Suc k)
  let ?s = "save_account \<lparr>account_id = accountID_of (token_id Ether) (wallet_id w), balance = Some (bal 0)\<rparr> s'"
  obtain account' where account': "find_account (accountID_of (token_id Ether) (wallet_id w)) s' = Some account'"
    using polled_account [OF Suc.prems(2) account] by blast
  have ub: "updateBalance N p \<lparr>h_wallet = w, h_reg = s', h_net = ns 0\<rparr> = (Ok (bal 0), \<lparr>h_wallet = w, h_reg = ?s, h_net = ns 1\<rparr>)"
    using Suc.prems(3) [of 0] by (intro updateBalance_run [OF p a _ account']) simp
  let ?t = "t\<lparr>rep_state := rep_running, rep_inner := \<lparr>h_wallet = w, h_reg = ?s, h_net = ns 1\<rparr>\<rparr>"
  have main: "funding_closure N p enough (t\<lparr>rep_state := rep_running\<rparr>) = (Ok (), ?t)"
    using Suc.prems(1) Suc.prems(3) [of 0] ub by (simp add: funding_closure_def act_bind_def rep_lift_def)
  let ?u = "rep_wait d id (?t\<lparr>rep_state := rep_waiting\<rparr>)"
  have "\<exists>t' s''. rounds k d id (funding_closure N p enough) ?u = Some t' \<and> rep_inner t' = \<lparr>h_wallet = w, h_reg = s'', h_net = (\<lambda>i. ns (Suc i)) k\<rparr> \<and> polled_from w s s''"
    by (rule Suc.IH [of _ ?s _ "\<lambda>i. bal (Suc i)"])
      (use Suc.prems(3) polled_save [OF Suc.prems(2)] in \<open>auto simp: rep_wait_def polled_from_def\<close>)
  moreover have "rounds (Suc k) d id (funding_closure N p enough) t = rounds k d id (funding_closure N p enough) ?u"
    using main by (simp add: isStopped_def rep_wait_def Let_def)
  ultimately show ?case by (simp only:)
qed

lemma first_deposit_proceed:
  assumes "state w = WaitingForFirstDepositState" "minimumDeploymentTransactionAmount w = Some least"
    and "find_account (accountID_of (token_id Ether) (wallet_id w)) s = Some \<lparr>account_id = i, balance = Some b\<rparr>"
  shows "h_proceed \<lparr>h_wallet = w, h_reg = s, h_net = n\<rparr> =
    (let w' = w\<lparr>state := (if b < least then NotEnoughFundsState else CreationStartedState)\<rparr>
     in (Ok (), \<lparr>h_wallet = w', h_reg = publish_event (WalletEvent (if b < least then StartedWaitingForRemainingFeeAmount else DeploymentFunded))
       (save_wallet_in w' s), h_net = n\<rparr>))"
proof -
  have "ether_account_id (wallet_id w) = accountID_of (token_id Ether) (wallet_id w)"
    by (simp add: ether_account_id_def accountID_of_def idSeparator_def)
  then show ?thesis
    using assms by (simp add: h_proceed_def h_transition_def on_wallet_def to_world_def from_world_def wallet_proceed_def
        world_defs publish_event_def Let_def save_wallet_in_def)
qed

text \<open>
  C25. Waiting for the first deposit ends with the first poll of a positive balance, after one wait of the configured delay for
  every poll before. The balance is stored, and the wallet goes on to creation if it covers the fee and
  waits for the rest otherwise.
\<close>

theorem first_deposit_ends_wait:
  fixes N :: "('n, 'e) network"
  assumes sel: "selectedWallet_of s = Some w" and st: "state w = WaitingForFirstDepositState"
    and w: "address_of w = Some a" "minimumDeploymentTransactionAmount w = Some least"
    and account: "find_account (accountID_of (token_id Ether) (wallet_id w)) s = Some account"
    and p: "0 < retryAttempts (cfg_balance c)"
    and polls: "\<forall>i \<le> k. net_getBalance N a (ns i) = (Ok (bal i), ns (Suc i))" "\<forall>i < k. bal i \<le> 0" "0 < bal k"
  shows "handleError (waitingForFirstDeposit N c id) (s, ns 0) =
    (let w' = w\<lparr>state := (if bal k < least then NotEnoughFundsState else CreationStartedState)\<rparr>
     in Some (Ok (), publish_event (WalletEvent (if bal k < least then StartedWaitingForRemainingFeeAmount else DeploymentFunded))
       (save_wallet_in w' (save_account \<lparr>account_id = accountID_of (token_id Ether) (wallet_id w), balance = Some (bal k)\<rparr> s)), ns (Suc k)))"
proof -
  let ?i = "accountID_of (token_id Ether) (wallet_id w)" and ?p = "cfg_balance c"
  let ?main = "funding_closure N ?p (\<lambda>w b. Ok (b > 0))"
  let ?t = "\<lparr>rep_inner = \<lparr>h_wallet = w, h_reg = s, h_net = ns 0\<rparr>, rep_state = rep_stopped, rep_waits = []\<rparr>"
  have polls0: "net_getBalance N a (ns i) = (Ok (bal i), ns (Suc i)) \<and> (Ok (bal i > 0) :: ('e deployment_error, bool) outcome) = Ok False" if "i < k" for i
    using that polls(1,2) [rule_format, of i] by auto
  obtain t' s' where t': "rounds k (repeatDelay ?p) id ?main ?t = Some t'" "rep_inner t' = \<lparr>h_wallet = w, h_reg = s', h_net = ns k\<rparr>" "polled_from w s s'"
    using funding_rounds [OF p w(1) account, of ?t s ns k N bal "\<lambda>w b. Ok (b > 0)" "repeatDelay ?p"] polls0
    by (auto simp: polled_from_def)
  obtain account' where account': "find_account ?i s' = Some account'" using polled_account [OF t'(3) account] by blast
  let ?s = "save_account \<lparr>account_id = ?i, balance = Some (bal k)\<rparr> s"
  have ub: "updateBalance N ?p \<lparr>h_wallet = w, h_reg = s', h_net = ns k\<rparr> = (Ok (bal k), \<lparr>h_wallet = w, h_reg = ?s, h_net = ns (Suc k)\<rparr>)"
    using updateBalance_run [OF p w(1) polls(1) [rule_format, OF order_refl] account'] unfolding polled_save [OF t'(3)] .
  have stored: "find_account ?i ?s = Some \<lparr>account_id = ?i, balance = Some (bal k)\<rparr>" by (simp add: account_repo.find_save)
  let ?h = "snd (h_proceed \<lparr>h_wallet = w, h_reg = ?s, h_net = ns (Suc k)\<rparr>)"
  note proceed = first_deposit_proceed [OF st w(2) stored]
  have "?main (t'\<lparr>rep_state := rep_running\<rparr>) = (Ok (), t'\<lparr>rep_state := rep_stopped, rep_inner := ?h\<rparr>)"
    using t'(2) ub polls(3) by (simp add: proceed funding_closure_def act_bind_def rep_lift_def rep_stop_def Let_def)
  then have "last_round (repeatDelay ?p) id ?main t' (Ok (), t'\<lparr>rep_state := rep_stopped, rep_inner := ?h\<rparr>)"
    by (simp add: last_round_def isStopped_def)
  then have "rep_loop (repeatDelay ?p) id ?main ?t = Some (Ok (), t'\<lparr>rep_state := rep_stopped, rep_inner := ?h\<rparr>)"
    unfolding rep_loop_rounds [OF t'(1)] by (rule rep_loop_last)
  then show ?thesis
    using sel by (simp add: proceed handleError_def waitingForFirstDeposit_def h_repeat_def rep_start_def isStopped_def Let_def)
qed

definition waiting_wallet :: wallet where
  "waiting_wallet = (wallet_empty ''w'')\<lparr>state := WaitingForFirstDepositState, address_of := Some (sample_address 9),
     minimumDeploymentTransactionAmount := Some 10\<rparr>"

theorem first_deposit_ends_wait_witness:
  "\<exists>s'. handleError (waitingForFirstDeposit sample_network configuration_standard id) (one_wallet waiting_wallet, 0) = Some (Ok (), s', 3) \<and>
    find_wallet ''w'' s' = Some (waiting_wallet\<lparr>state := NotEnoughFundsState\<rparr>)"
proof -
  have w: "wallet_id waiting_wallet = ''w''" "state waiting_wallet = WaitingForFirstDepositState" "address_of waiting_wallet = Some (sample_address 9)"
    "minimumDeploymentTransactionAmount waiting_wallet = Some 10"
    by (simp_all add: waiting_wallet_def wallet_empty_def)
  have account: "find_account (accountID_of (token_id Ether) (wallet_id waiting_wallet)) (one_wallet waiting_wallet) =
      Some \<lparr>account_id = accountID_of (token_id Ether) ''w'', balance = None\<rparr>"
    using w(1) by (simp add: one_wallet_def find_account_def store_get_def)
  have "handleError (waitingForFirstDeposit sample_network configuration_standard id) (one_wallet waiting_wallet, 0) =
    (let w' = waiting_wallet\<lparr>state := (if (7 :: int) < 10 then NotEnoughFundsState else CreationStartedState)\<rparr>
     in Some (Ok (), publish_event (WalletEvent (if (7 :: int) < 10 then StartedWaitingForRemainingFeeAmount else DeploymentFunded))
       (save_wallet_in w' (save_account \<lparr>account_id = accountID_of (token_id Ether) (wallet_id waiting_wallet), balance = Some 7\<rparr> (one_wallet waiting_wallet))), Suc 2))"
    using first_deposit_ends_wait [OF one_wallet_selected [OF w(1)] w(2-4) account, of configuration_standard 2 sample_network id "\<lambda>i. if i < 2 then 0 else 7"]
    by (simp add: sample_network_def configuration_standard_def parameters_standard_def)
  then show ?thesis using w(1) by (simp add: Let_def wallet_repo.find_save)
qed

subsection \<open>The created wallet\<close>

text \<open>
  When a wallet has been created, the keys of its recovery phrase are deleted from the device, but only after the
  owners were notified: when the notification fails, the error is posted and both keys stay.
\<close>

theorem created_wallet_keys:
  assumes sel: "selectedWallet_of s = Some w" and st: "state w = ReadyToUseState"
    and keys: "owner_with w paperWallet = Some p" "owner_with w paperWalletDerived = Some q"
    and net: "net_notifyWalletCreated N (wallet_id w) n = (answer, n')"
  shows "\<exists>s'. handleError (walletCreated N) (s, n) = Some (if answer = Trap then Trap else Ok (), s', n') \<and>
    (case answer of
       Ok _ \<Rightarrow> find_eoa (owner_address p) s' = None \<and> find_eoa (owner_address q) s' = None \<and> reg_errors s' = reg_errors s
     | Throw e \<Rightarrow> reg_eoas s' = reg_eoas s \<and> reg_errors s' = reg_errors s @ [e]
     | Trap \<Rightarrow> s' = s) \<and> reg_wallets s' = reg_wallets s"
proof -
  have cancel: "h_cancel \<lparr>h_wallet = w, h_reg = t, h_net = n'\<rparr> = (Ok (), \<lparr>h_wallet = w, h_reg = t, h_net = n'\<rparr>)" for t
    using st by (simp add: h_cancel_def h_transition_def on_wallet_def to_world_def from_world_def wallet_cancel_def)
  show ?thesis
    using sel keys net
    by (cases answer)
      (simp_all add: handleError_def walletCreated_def returning_def act_bind_def Let_def cancel eoa_repo.find_remove registry_defs
        store_get_del)
qed

theorem created_wallet_keys_witness:
  "\<exists>s'. handleError (walletCreated sample_network) (one_wallet (waiting_wallet\<lparr>state := ReadyToUseState,
      owners := [\<lparr>owner_address = sample_address 2, owner_role = paperWallet\<rparr>, \<lparr>owner_address = sample_address 3, owner_role = paperWalletDerived\<rparr>]\<rparr>), 0) =
    Some (Ok (), s', 0) \<and> reg_errors s' = [networkError]"
proof -
  let ?w = "waiting_wallet\<lparr>state := ReadyToUseState,
      owners := [\<lparr>owner_address = sample_address 2, owner_role = paperWallet\<rparr>, \<lparr>owner_address = sample_address 3, owner_role = paperWalletDerived\<rparr>]\<rparr>"
  have w: "wallet_id ?w = ''w''" by (simp add: waiting_wallet_def wallet_empty_def)
  show ?thesis
    using created_wallet_keys [OF one_wallet_selected [OF w], of "\<lparr>owner_address = sample_address 2, owner_role = paperWallet\<rparr>"
        "\<lparr>owner_address = sample_address 3, owner_role = paperWalletDerived\<rparr>" sample_network 0 "Throw networkError" 0]
    by (auto simp: sample_network_def owner_with_def first_with_def one_wallet_def)
qed

end
