(* ===== verification/Extension.thy ===== *)
theory Extension
  imports Relay
begin

section \<open>Browser extension services\<close>

text \<open>
  \<^verbatim>\<open>ReplaceBrowserExtensionDomainService.swift\<close> and its two subclasses in \<^verbatim>\<open>ConnectBrowserExtensionDomainService.swift\<close> and
  \<^verbatim>\<open>DisconnectBrowserExtensionDomainService.swift\<close>. The class is an argument of every operation, and an overridden method is a
  case on it. The proxy that tests inject is absent, so the owner contract is that of the selected wallet. The
  call \<open>deletePair\<close> of the communication service is an argument; its notification after a success, whose errors are
  ignored, leaves no trace in the registry.
\<close>

datatype extension_service = ReplaceService | ConnectService | DisconnectService

type_synonym ('e, 'a) service = "('e service_error registry, 'e service_error, 'a) action"

primrec transactionType_of :: "extension_service \<Rightarrow> transactionType" where
  "transactionType_of ReplaceService = replaceBrowserExtension"
| "transactionType_of ConnectService = connectBrowserExtension"
| "transactionType_of DisconnectService = disconnectBrowserExtension"

definition isAvailable :: "extension_service \<Rightarrow> 'x registry \<Rightarrow> bool" where
  "isAvailable K s = (case selectedWallet_of s of
      None \<Rightarrow> False
    | Some w \<Rightarrow> (if K = ConnectService then owner_with w browserExtension = None else owner_with w browserExtension \<noteq> None))"

text \<open>\<open>requiredWallet.address!\<close>, the address of the owner contract.\<close>

definition contract_address :: "('e, address) service" where
  "contract_address = act_bind load_selected (\<lambda>w. act_lift (unwrap (address_of w)))"

definition find_required :: "transactionID \<Rightarrow> ('e, transaction) service" where
  "find_required i = act_bind (act_get (find_tx i)) (\<lambda>found. act_lift (unwrap found))"

subsection \<open>Creation and validation\<close>

definition createTransaction :: "extension_service \<Rightarrow> date \<Rightarrow> transactionID \<Rightarrow> ('e, transactionID) service" where
  "createTransaction K now nextID =
     act_bind load_selected (\<lambda>w.
     let tokenID = (case feePaymentTokenAddress w of Some a \<Rightarrow> a | None \<Rightarrow> token_id Ether);
         tx = tx_init now nextID (transactionType_of K) (wallet_id w) (accountID_of tokenID (wallet_id w)) in
     act_bind (act_change (change_amount now (Some (ether 0)) tx)) (\<lambda>tx.
     act_bind (act_lift (unwrap (address_of w))) (\<lambda>a.
     act_bind (act_change (change_sender now (Some a) tx)) (\<lambda>tx.
     act_bind (act_do (save_tx tx)) (\<lambda>_. act_return (tx_id tx))))))"

definition deleteTransaction :: "transactionID \<Rightarrow> ('e, unit) service" where
  "deleteTransaction i = act_bind (find_required i) (\<lambda>tx. act_do (remove_tx (tx_id tx)))"

definition remoteOwnersList :: "'e outside \<Rightarrow> ('e, owner_linked_list option) service" where
  "remoteOwnersList E =
     act_bind contract_address (\<lambda>a.
     case owners_contract E a of
       Trap \<Rightarrow> act_lift Trap
     | Throw _ \<Rightarrow> act_return None
     | Ok remoteOwners \<Rightarrow>
         if remoteOwners = [] then act_return None
         else act_lift (omap Some (ol_add_all (out_lib E) (ol_init (out_lib E)) remoteOwners)))"

text \<open>The list of the zero address that stands in when the owners cannot be read.\<close>

definition zero_list :: "hex_functions \<Rightarrow> ('e, owner_linked_list) outcome" where
  "zero_list L = ol_add L (ol_init L) address_zero"

definition address_two :: address where
  "address_two = ''0x0000000000000000000000000000000000000002''"

definition removal_data :: "hex_functions \<Rightarrow> owner_linked_list \<Rightarrow> address \<Rightarrow> ('e, bytes) outcome" where
  "removal_data L list a = obind (ol_addressBefore L list a) (\<lambda>pre. removeOwner_data L pre a 1)"

definition dummyTransactionData :: "'e outside \<Rightarrow> extension_service \<Rightarrow> ('e, bytes) service" where
  "dummyTransactionData E K =
     (let L = out_lib E in
      case K of
        ReplaceService \<Rightarrow>
          act_bind (remoteOwnersList E) (\<lambda>found.
          case Option.bind found (\<lambda>list. map_option (Pair list) (ol_firstAddress L list)) of
            Some (list, toSwap) \<Rightarrow>
              act_bind (act_lift (ol_addressBefore L list toSwap)) (\<lambda>pre.
              act_bind contract_address (\<lambda>a. act_return (swapOwner_data L pre toSwap a)))
          | None \<Rightarrow>
              act_bind (act_lift (zero_list L)) (\<lambda>list.
              act_bind (act_lift (ol_addressBefore L list address_zero)) (\<lambda>pre.
              act_return (swapOwner_data L pre address_zero address_zero))))
      | ConnectService \<Rightarrow>
          act_bind (act_get selectedWallet_of) (\<lambda>w.
          act_bind contract_address (\<lambda>_.
          act_lift (addOwner_data L (case Option.bind w address_of of Some a \<Rightarrow> a | None \<Rightarrow> address_two) 2)))
      | DisconnectService \<Rightarrow>
          act_bind (remoteOwnersList E) (\<lambda>found.
          act_bind (act_get selectedWallet_of) (\<lambda>w.
          act_bind (act_lift (case (found, Option.bind w (\<lambda>w. owner_with w browserExtension)) of
              (Some list, Some ext) \<Rightarrow> obind (ol_contains L list (owner_address ext)) (\<lambda>b.
                Ok (if b then Some (list, owner_address ext) else None))
            | _ \<Rightarrow> Ok None)) (\<lambda>toDelete.
          case toDelete of
            Some (list, a) \<Rightarrow> act_lift (removal_data L list a)
          | None \<Rightarrow> act_lift (obind (zero_list L) (\<lambda>list. removal_data L list address_zero))))))"

definition addDummyData :: "'e outside \<Rightarrow> extension_service \<Rightarrow> date \<Rightarrow> transactionID \<Rightarrow> ('e, unit) service" where
  "addDummyData E K now i =
     act_bind (find_required i) (\<lambda>tx.
     act_bind contract_address (\<lambda>a.
     act_bind (act_change (change_recipient now (Some a) tx)) (\<lambda>tx.
     act_bind (act_change (change_operation now (Some call) tx)) (\<lambda>tx.
     act_bind (dummyTransactionData E K) (\<lambda>d.
     act_bind (act_change (change_data now (Some d) tx)) (\<lambda>tx.
     act_do (save_tx tx)))))))"

definition removeDummyData :: "date \<Rightarrow> transactionID \<Rightarrow> ('e, unit) service" where
  "removeDummyData now i =
     act_bind (find_required i) (\<lambda>tx.
     act_bind (act_change (change_recipient now None tx)) (\<lambda>tx.
     act_bind (act_change (change_operation now None tx)) (\<lambda>tx.
     act_bind (act_change (change_data now None tx)) (\<lambda>tx.
     act_do (save_tx tx)))))"

definition stepBackToDraft :: "transactionID \<Rightarrow> ('e, unit) service" where
  "stepBackToDraft i =
     act_bind (find_required i) (\<lambda>tx.
     if status tx = signing then act_bind (act_change (stepBack tx)) (\<lambda>tx. act_do (save_tx tx)) else act_return ())"

definition fee_token :: "date \<Rightarrow> string \<Rightarrow> 'x registry \<Rightarrow> token" where
  "fee_token now i s = (case find_item now i (reg_items s) of Some x \<Rightarrow> item_token x | None \<Rightarrow> Ether)"

definition estimateNetworkFee :: "'e outside \<Rightarrow> date \<Rightarrow> transactionID \<Rightarrow> ('e, tokenAmount) service" where
  "estimateNetworkFee E now i =
     act_bind (find_required i) (\<lambda>tx.
     act_bind (act_lift (unwrap (sender tx))) (\<lambda>safe.
     act_bind (act_lift (unwrap (operation tx))) (\<lambda>op.
     act_bind load_selected (\<lambda>w.
     act_bind (act_lift (estimateRequest_init (out_lib E) safe (Some (ethTo tx)) (decimal (ethValue tx))
       (Some (ethData (out_lib E) tx)) op (feePaymentTokenAddress w))) (\<lambda>request.
     act_bind (act_lift (out_estimate E request)) (\<lambda>r.
     act_bind (act_get (fee_token now (rsp_gasToken r))) (\<lambda>t.
     let e = \<lparr>gas = rsp_safeTxGas r, dataGas = rsp_dataGas r, operationalGas = rsp_operationalGas r,
              gasPrice = \<lparr>amount_of = rsp_gasPrice r, token_of = t\<rparr>\<rparr> in
     act_bind (act_change (change_fee now (Some (totalSubmittedToBlockchain e)) tx)) (\<lambda>tx.
     act_bind (act_change (change_feeEstimate now (Some e) tx)) (\<lambda>tx.
     act_bind (act_lift (nextNonce r)) (\<lambda>n.
     act_bind (act_change (change_nonce now (Some (decimal n)) tx)) (\<lambda>tx.
     act_bind (act_do (save_tx tx)) (\<lambda>_. act_return (totalDisplayedToUser e)))))))))))))"

definition accountBalance :: "date \<Rightarrow> transactionID \<Rightarrow> ('e, tokenAmount) service" where
  "accountBalance now i =
     act_bind (find_required i) (\<lambda>tx.
     act_bind (act_get (find_account (tx_accountID tx))) (\<lambda>found.
     act_bind (act_lift (unwrap found)) (\<lambda>account.
     act_bind (act_lift (accountID_tokenID (account_id account))) (\<lambda>tokenID.
     act_bind (act_get (fee_token now tokenID)) (\<lambda>t.
     act_return \<lparr>amount_of = (case balance account of Some b \<Rightarrow> b | None \<Rightarrow> 0), token_of = t\<rparr>)))))"

definition resultingBalance :: "date \<Rightarrow> transactionID \<Rightarrow> tokenAmount \<Rightarrow> ('e, tokenAmount) service" where
  "resultingBalance now i change =
     act_bind (accountBalance now i) (\<lambda>b.
     act_return \<lparr>amount_of = amount_of b + amount_of change, token_of = token_of b\<rparr>)"

definition validateOwners :: "extension_service \<Rightarrow> ('e, unit) service" where
  "validateOwners K =
     act_bind load_selected (\<lambda>w.
     act_lift (if K = ConnectService
       then assertNil (owner_with w browserExtension) (ExtensionError browserExtensionAlreadyExists)
       else assertNotNil (owner_with w browserExtension) (ExtensionError browserExtensionNotConnected)))"

definition validate_transaction :: "extension_service \<Rightarrow> date \<Rightarrow> transactionID \<Rightarrow> ('e, unit) service" where
  "validate_transaction K now i =
     act_bind (find_required i) (\<lambda>tx.
     act_bind (act_lift (precondition (fee tx \<noteq> None))) (\<lambda>_.
     act_bind (act_lift (unwrap (fee_estimate tx))) (\<lambda>e.
     act_bind (act_lift (swift_int (dataGas e + gas e))) (\<lambda>n.
     act_bind (act_lift (swift_int (n + operationalGas e))) (\<lambda>n.
     act_bind (resultingBalance now i \<lparr>amount_of = - n * amount_of (gasPrice e), token_of = token_of (gasPrice e)\<rparr>) (\<lambda>b.
     act_bind (act_lift (assertTrue (amount_of b \<ge> 0) (ExtensionError insufficientBalance))) (\<lambda>_.
     validateOwners K)))))))"

subsection \<open>Connecting the extension\<close>

definition validateNewOwnerAddress :: "'e outside \<Rightarrow> string \<Rightarrow> ('e, unit) service" where
  "validateNewOwnerAddress E address =
     act_bind (remoteOwnersList E) (\<lambda>found.
     act_lift (case found of
         None \<Rightarrow> Throw (ExtensionError browserExtensionAlreadyExists)
       | Some list \<Rightarrow>
           obind (address_init (out_lib E) address) (\<lambda>a.
           obind (ol_contains (out_lib E) list a) (\<lambda>b.
           if b then Throw (ExtensionError browserExtensionAlreadyExists) else Ok ()))))"

text \<open>The argument of the call in the data: for a disconnection the inherited decoder of swaps.\<close>

definition newOwner_argument :: "hex_functions \<Rightarrow> extension_service \<Rightarrow> bytes \<Rightarrow> ('e, address option) outcome" where
  "newOwner_argument L K d =
     (if K = ConnectService then omap (map_option fst) (decodeAddOwnerArguments L d)
      else omap (map_option (\<lambda>(pre, old, new). new)) (decodeSwapOwnerArguments L d))"

definition newOwnerAddress :: "'e outside \<Rightarrow> extension_service \<Rightarrow> transactionID \<Rightarrow> ('e, address option) service" where
  "newOwnerAddress E K i =
     act_bind (find_required i) (\<lambda>tx.
     case tx_data tx of
       None \<Rightarrow> act_return None
     | Some d \<Rightarrow> act_bind contract_address (\<lambda>_. act_lift (newOwner_argument (out_lib E) K d)))"

definition realTransactionData :: "'e outside \<Rightarrow> extension_service \<Rightarrow> string \<Rightarrow> ('e, bytes option) service" where
  "realTransactionData E K newAddress =
     (let L = out_lib E in
      case K of
        ReplaceService \<Rightarrow>
          act_bind load_selected (\<lambda>w.
          act_bind (act_lift (unwrap (owner_with w browserExtension))) (\<lambda>ext.
          act_bind (remoteOwnersList E) (\<lambda>found.
          case found of
            None \<Rightarrow> act_return None
          | Some list \<Rightarrow>
              act_bind (act_lift (ol_contains L list (owner_address ext))) (\<lambda>b.
              if \<not> b then act_return None else
              act_bind (act_lift (ol_addressBefore L list (owner_address ext))) (\<lambda>pre.
              act_bind (act_lift (address_init L newAddress)) (\<lambda>new.
              act_return (Some (swapOwner_data L pre (owner_address ext) new))))))))
      | ConnectService \<Rightarrow>
          act_bind contract_address (\<lambda>_.
          act_bind (act_lift (address_init L newAddress)) (\<lambda>new.
          act_lift (omap Some (addOwner_data L new 2))))
      | DisconnectService \<Rightarrow>
          act_bind (act_get selectedWallet_of) (\<lambda>w.
          case Option.bind w (\<lambda>w. owner_with w browserExtension) of
            None \<Rightarrow> act_return None
          | Some ext \<Rightarrow>
              act_bind (remoteOwnersList E) (\<lambda>found.
              case found of
                None \<Rightarrow> act_return None
              | Some list \<Rightarrow>
                  act_bind (act_lift (ol_contains L list (owner_address ext))) (\<lambda>b.
                  if \<not> b then act_return None else act_lift (omap Some (removal_data L list (owner_address ext)))))))"

text \<open>\<open>update\<close>; the disconnecting service has its own, without an address, and the argument plays no part there.\<close>

definition update_transaction :: "'e outside \<Rightarrow> extension_service \<Rightarrow> date \<Rightarrow> transactionID \<Rightarrow> string \<Rightarrow> ('e, unit) service" where
  "update_transaction E K now i newAddress =
     act_bind (stepBackToDraft i) (\<lambda>_.
     act_bind (find_required i) (\<lambda>tx.
     act_bind (realTransactionData E K newAddress) (\<lambda>d.
     act_bind (act_change (change_data now d tx)) (\<lambda>tx.
     act_do (save_tx tx)))))"

subsection \<open>Signing\<close>

definition updateHash :: "'e outside \<Rightarrow> date \<Rightarrow> transactionID \<Rightarrow> ('e, unit) service" where
  "updateHash E now i =
     act_bind (find_required i) (\<lambda>tx.
     act_bind (act_change (change_hash now (Some (out_hash E tx)) tx)) (\<lambda>tx.
     act_do (save_tx tx)))"

definition signingEOA :: "'e outside \<Rightarrow> string \<Rightarrow> (eoa \<times> eoa) option" where
  "signingEOA E phrase = map_option (\<lambda>primary. (primary, out_derive_at E primary 1)) (out_derive_phrase E phrase)"

definition owns :: "address list \<Rightarrow> eoa \<Rightarrow> bool" where
  "owns contractOwners x = list_ex (\<lambda>a. lowercased a = lowercased (eoa_address x)) contractOwners"

definition isContractOwners :: "'e outside \<Rightarrow> eoa \<times> eoa \<Rightarrow> ('e, bool) service" where
  "isContractOwners E pair =
     act_bind contract_address (\<lambda>a.
     act_lift (omap (\<lambda>os. owns os (fst pair) \<and> owns os (snd pair)) (owners_contract E a)))"

definition sign_with :: "'e outside \<Rightarrow> date \<Rightarrow> eoa \<Rightarrow> transaction \<Rightarrow> (tx_error, transaction) outcome" where
  "sign_with E now x tx = add_signature now \<lparr>sig_address = eoa_address x, sig_data = out_sign E tx (privateKey x)\<rparr> tx"

definition sign_transaction :: "'e outside \<Rightarrow> date \<Rightarrow> transactionID \<Rightarrow> string \<Rightarrow> ('e, unit) service" where
  "sign_transaction E now i phrase =
     (case signingEOA E phrase of
        None \<Rightarrow> act_lift (Throw (ExtensionError X_recoveryPhraseInvalid))
      | Some pair \<Rightarrow>
          act_bind (isContractOwners E pair) (\<lambda>ok.
          if \<not> ok then act_lift (Throw (ExtensionError recoveryPhraseHasNoOwnership)) else
          act_bind (updateHash E now i) (\<lambda>_.
          act_bind (find_required i) (\<lambda>tx.
          act_bind (act_change (proceed now tx)) (\<lambda>tx.
          act_bind (act_change (sign_with E now (fst pair) tx)) (\<lambda>tx.
          act_bind (act_change (sign_with E now (snd pair) tx)) (\<lambda>tx.
          act_do (save_tx tx))))))))"

subsection \<open>Post-processing\<close>

type_synonym 'e delete_pair = "walletID \<Rightarrow> address \<Rightarrow> ('e service_error, unit) outcome"

definition registerPostProcessing :: "transactionID \<Rightarrow> date \<Rightarrow> 'x registry \<Rightarrow> 'x registry" where
  "registerPostProcessing i timestamp = save_entry \<lparr>entry_transactionID = i, entry_createdDate = timestamp\<rparr>"

definition unregisterPostProcessing :: "transactionID \<Rightarrow> 'x registry \<Rightarrow> 'x registry" where
  "unregisterPostProcessing i s = (case find_entry i s of None \<Rightarrow> s | Some e \<Rightarrow> remove_entry (entry_transactionID e) s)"

definition removeOldOwner :: "'e delete_pair \<Rightarrow> wallet \<Rightarrow> ('e, wallet) service" where
  "removeOldOwner deletePair w =
     (case owner_with w browserExtension of
        None \<Rightarrow> act_return w
      | Some old \<Rightarrow>
          act_bind (act_lift (deletePair (wallet_id w) (owner_address old))) (\<lambda>_.
          act_change (removeOwner w (owner_role old))))"

definition add_extension :: "'e outside \<Rightarrow> address \<Rightarrow> wallet \<Rightarrow> ('e, wallet) service" where
  "add_extension E new w =
     act_bind (act_lift (case out_address E new of Some a \<Rightarrow> Ok a | None \<Rightarrow> address_init (out_lib E) new)) (\<lambda>a.
     act_bind (act_change (addOwner w \<lparr>owner_address = a, owner_role = browserExtension\<rparr>)) (\<lambda>w.
     act_bind (act_do (save_wallet_in w)) (\<lambda>_. act_return w)))"

definition processSuccess :: "'e outside \<Rightarrow> 'e delete_pair \<Rightarrow> extension_service \<Rightarrow> address \<Rightarrow> wallet \<Rightarrow> ('e, unit) service" where
  "processSuccess E deletePair K new w =
     (if K = ConnectService then
        act_bind (add_extension E new w) (\<lambda>w. act_do (save_wallet_in (changeConfirmationCount w 2)))
      else
        act_bind (removeOldOwner deletePair w) (\<lambda>w.
        act_bind (add_extension E new w) (\<lambda>_. act_return ())))"

definition postProcess :: "'e outside \<Rightarrow> 'e delete_pair \<Rightarrow> extension_service \<Rightarrow> transactionID \<Rightarrow> ('e, unit) service" where
  "postProcess E deletePair K i =
     act_bind (act_get (\<lambda>s. case find_tx i s of
         None \<Rightarrow> None
       | Some tx \<Rightarrow> if tx_type tx = transactionType_of K \<and> (status tx = success \<or> status tx = failed)
           then map_option (Pair tx) (find_wallet (tx_walletID tx) s) else None)) (\<lambda>found.
     case found of
       None \<Rightarrow> act_return ()
     | Some (tx, w) \<Rightarrow>
         if K = DisconnectService then
           act_bind (if status tx = success
             then act_bind (removeOldOwner deletePair w) (\<lambda>w. act_do (save_wallet_in (changeConfirmationCount w 1)))
             else act_return ()) (\<lambda>_.
           act_do (unregisterPostProcessing i))
         else
           act_bind (newOwnerAddress E K i) (\<lambda>new.
           case new of
             None \<Rightarrow> act_do (unregisterPostProcessing i)
           | Some a \<Rightarrow>
               act_bind (if status tx = success then processSuccess E deletePair K a w
                 else act_lift (deletePair (tx_walletID tx) a)) (\<lambda>_.
               act_do (unregisterPostProcessing i))))"

fun postProcess_all :: "'e outside \<Rightarrow> 'e delete_pair \<Rightarrow> extension_service \<Rightarrow> monitorEntry list \<Rightarrow> ('e, unit) service" where
  "postProcess_all E deletePair K [] = act_return ()"
| "postProcess_all E deletePair K (e # es) =
     act_bind (postProcess E deletePair K (entry_transactionID e)) (\<lambda>_. postProcess_all E deletePair K es)"

definition entry_less :: "monitorEntry \<Rightarrow> monitorEntry \<Rightarrow> bool" where
  "entry_less x y \<longleftrightarrow> entry_createdDate x < entry_createdDate y"

definition postProcessTransactions :: "'e outside \<Rightarrow> 'e delete_pair \<Rightarrow> extension_service \<Rightarrow> ('e, unit) service" where
  "postProcessTransactions E deletePair K =
     act_bind (act_get (\<lambda>s. sorted_by entry_less (reg_monitor s))) (postProcess_all E deletePair K)"

definition doNotCleanUpStatuses :: "code list" where
  "doNotCleanUpStatuses = [rejected, success, failed, pending]"

definition cleanUpStaleTransactions :: "extension_service \<Rightarrow> 'x registry \<Rightarrow> 'x registry" where
  "cleanUpStaleTransactions K s =
     fold (\<lambda>tx. remove_tx (tx_id tx))
       (filter (\<lambda>tx. tx_type tx = transactionType_of K \<and> status tx \<notin> set doNotCleanUpStatuses) (reg_txs s)) s"

end
