(* ===== verification/Recovery.thy ===== *)
theory Recovery
  imports Relay
begin

section \<open>Recovery of a wallet\<close>

text \<open>
  \<^verbatim>\<open>MultisigWalletDomainModel/Wallet/RecoveryDomainService.swift\<close>: the recovery service and the class
  \<open>RecoveryTransactionBuilder\<close>, over the registry of repositories and the calls of \<open>outside\<close>. The builder is an object with
  implicitly unwrapped properties: a property that is not set is \<open>None\<close> and reading it traps. Its steps run on the
  pair of the builder and the registry. \<open>assert\<close> is not compiled into the app and \<open>print\<close> only into debug builds, so
  both are left out. The subscription to \<open>TransactionStatusUpdated\<close> is the value \<open>True\<close> that
  \<open>subscribeForTransactionProcessing\<close> returns; its closure is the operation \<open>transactionStatusUpdated\<close>. The notification of the
  server at the end of \<open>postProcessing\<close> is sent with \<open>try?\<close>: its errors are ignored and it leaves no trace in the registry, so
  it is left out.
\<close>

subsection \<open>Schemes and the builder\<close>

record walletScheme =
  confirmations :: int
  owners_count :: int

definition withoutExtension :: walletScheme where
  "withoutExtension = \<lparr>confirmations = 1, owners_count = 3\<rparr>"

definition withExtension :: walletScheme where
  "withExtension = \<lparr>confirmations = 2, owners_count = 4\<rparr>"

definition scheme_description :: "walletScheme \<Rightarrow> string" where
  "scheme_description x = ''('' @ decimal (confirmations x) @ ''/'' @ decimal (owners_count x) @ '')''"

definition supportedModifiableOwnerCounts :: "int list" where
  "supportedModifiableOwnerCounts = [1, 2]"

definition supportedSchemes :: "walletScheme list" where
  "supportedSchemes = [withoutExtension, withExtension]"

record builder =
  b_wallet :: wallet
  b_accountID :: accountID
  oldScheme :: "walletScheme option"
  newScheme :: "walletScheme option"
  readonlyOwnerAddresses :: "string list option"
  ownerList :: "owner_linked_list option"
  modifiableOwners :: "owner list option"
  b_multiSend :: address
  ownerContract :: address
  b_transaction :: transaction

text \<open>Changes of the transaction that the builder holds; the \<open>change\<close> methods only trap.\<close>

definition edit_tx :: "(transaction \<Rightarrow> (tx_error, transaction) outcome) \<Rightarrow> builder \<Rightarrow> ('e, builder) outcome" where
  "edit_tx f b = obind (tryBang (f (b_transaction b))) (\<lambda>tx. Ok (b\<lparr>b_transaction := tx\<rparr>))"

definition builder_init :: "date \<Rightarrow> transactionID \<Rightarrow> address \<Rightarrow> 'x registry \<Rightarrow> ('e, builder) outcome" where
  "builder_init now txID ms s =
     obind (unwrap (selectedWallet_of s)) (\<lambda>w.
     let accountID = accountID_of (token_id Ether) (wallet_id w) in
     obind (unwrap (address_of w)) (\<lambda>a.
     let b = \<lparr>b_wallet = w, b_accountID = accountID, oldScheme = None, newScheme = None, readonlyOwnerAddresses = None,
              ownerList = None, modifiableOwners = None, b_multiSend = ms, ownerContract = a,
              b_transaction = tx_init now txID walletRecovery (wallet_id w) accountID\<rparr> in
     obind (edit_tx (change_sender now (Some a)) b) (edit_tx (change_amount now (Some (ether 0))))))"

subsection \<open>Reading the safe\<close>

definition oldWalletScheme :: "wallet \<Rightarrow> walletScheme" where
  "oldWalletScheme w = \<lparr>confirmations = confirmationCount w,
     owners_count = int (length (filter (\<lambda>x. owner_role x = unknown) (owners w)))\<rparr>"

definition newWalletScheme :: "wallet \<Rightarrow> walletScheme" where
  "newWalletScheme w = \<lparr>confirmations = (if owner_with w browserExtension = None then 1 else 2),
     owners_count = int (length (filter (\<lambda>x. owner_role x \<noteq> unknown) (owners w)))\<rparr>"

definition ownerLinkedList :: "hex_functions \<Rightarrow> wallet \<Rightarrow> ('e, owner_linked_list) outcome" where
  "ownerLinkedList L w =
     ol_add_all L (ol_init L) (map owner_address (filter (\<lambda>x. owner_role x = unknown) (owners w)))"

definition readonlyAddresses :: "wallet \<Rightarrow> string list" where
  "readonlyAddresses w = map (\<lambda>x. lowercased (owner_address x))
     (filter (\<lambda>x. owner_role x = paperWallet \<or> owner_role x = paperWalletDerived) (owners w))"

definition mutableOwners :: "wallet \<Rightarrow> owner list" where
  "mutableOwners w = filter (\<lambda>x. owner_role x = unknown \<and> lowercased (owner_address x) \<notin> set (readonlyAddresses w)) (owners w)"

text \<open>A step of the builder, and a call on the registry, in the state of both.\<close>

type_synonym 'e run = "builder \<times> 'e service_error registry"

definition step :: "(builder \<Rightarrow> ('e service_error, builder) outcome) \<Rightarrow> ('e run, 'e service_error, unit) action" where
  "step f = act_update (f \<circ> fst) (\<lambda>b r. (b, snd r))"

definition on_registry :: "('e service_error registry, 'e service_error, 'a) action \<Rightarrow> ('e run, 'e service_error, 'a) action" where
  "on_registry m = (\<lambda>(b, s). case m s of (r, s') \<Rightarrow> (r, (b, s')))"

definition change_wallet :: "(wallet \<Rightarrow> (wallet_error, wallet) outcome) \<Rightarrow> builder \<Rightarrow> ('e, builder) outcome" where
  "change_wallet f b = obind (tryBang (f (b_wallet b))) (\<lambda>w. Ok (b\<lparr>b_wallet := w\<rparr>))"

definition unknown_owner :: "address \<Rightarrow> owner" where
  "unknown_owner a = \<lparr>owner_address = a, owner_role = unknown\<rparr>"

definition read_schemes :: "hex_functions \<Rightarrow> builder \<Rightarrow> ('e, builder) outcome" where
  "read_schemes L b =
     (let w = b_wallet b;
          b1 = b\<lparr>oldScheme := Some (oldWalletScheme w), newScheme := Some (newWalletScheme w)\<rparr>
      in obind (ownerLinkedList L w) (\<lambda>list.
         Ok (b1\<lparr>ownerList := Some list, readonlyOwnerAddresses := Some (readonlyAddresses w),
               modifiableOwners := Some (mutableOwners w)\<rparr>)))"

definition pullData :: "'e outside \<Rightarrow> bool \<Rightarrow> date \<Rightarrow> ('e run, 'e service_error, unit) action" where
  "pullData E isMainThread now =
     act_catch
       (act_bind (step (change_wallet (\<lambda>w. removeOwner w unknown))) (\<lambda>_.
        act_bind (\<lambda>r. (owners_contract E (ownerContract (fst r)), r)) (\<lambda>remoteOwners.
        act_bind (step (change_wallet (\<lambda>w. addOwners w (map unknown_owner remoteOwners)))) (\<lambda>_.
        act_bind (\<lambda>r. (threshold_contract E (ownerContract (fst r)), r)) (\<lambda>remoteThreshold.
        act_bind (step (change_wallet (\<lambda>w. Ok (changeConfirmationCount w (int remoteThreshold))))) (\<lambda>_.
        act_bind (step (read_schemes (out_lib E))) (\<lambda>_.
        on_registry (updateAccountsBalances (out_lib E) (out_node E) isMainThread now))))))))
       (\<lambda>e. on_registry (act_do (post_error e)))"

definition isSupportedSafeOwners :: "('e run, 'e service_error, bool) action" where
  "isSupportedSafeOwners =
     act_bind (\<lambda>r. (unwrap (modifiableOwners (fst r)), r)) (\<lambda>ms.
     if int (length ms) \<notin> set supportedModifiableOwnerCounts
     then act_bind (on_registry (act_do (post_error (RecoveryError (unsupportedWalletConfiguration
            (''Expected one of [1, 2] mutable owners, but found '' @ decimal (int (length ms)))))))) (\<lambda>_. act_return False)
     else act_return True)"

definition isSupportedScheme :: "('e run, 'e service_error, bool) action" where
  "isSupportedScheme =
     act_bind (\<lambda>r. (unwrap (oldScheme (fst r)), r)) (\<lambda>old.
     act_bind (\<lambda>r. (if old \<in> set supportedSchemes then omap Some (unwrap (newScheme (fst r))) else Ok None, r)) (\<lambda>new.
     if (case new of Some n \<Rightarrow> n \<in> set supportedSchemes | None \<Rightarrow> False) then act_return True
     else act_bind (on_registry (act_do (post_error (RecoveryError (unsupportedWalletConfiguration
            (''Expected [(1/3), (2/4)] confirmations/owners, but got '' @ scheme_description old)))))) (\<lambda>_. act_return False)))"

subsection \<open>Building the data\<close>

definition takeModifiable :: "builder \<Rightarrow> ('e, owner \<times> builder) outcome" where
  "takeModifiable b =
     obind (unwrap (modifiableOwners b)) (\<lambda>ms.
     case ms of [] \<Rightarrow> Trap | m # rest \<Rightarrow> Ok (m, b\<lparr>modifiableOwners := Some rest\<rparr>))"

definition swapOwnerData :: "hex_functions \<Rightarrow> ownerRole \<Rightarrow> builder \<Rightarrow> ('e, bytes \<times> builder) outcome" where
  "swapOwnerData L role b =
     obind (takeModifiable b) (\<lambda>(old, b).
     obind (unwrap (ownerList b)) (\<lambda>list.
     obind (ol_addressBefore L list (owner_address old)) (\<lambda>before.
     obind (unwrap (owner_with (b_wallet b) role)) (\<lambda>new.
     obind (normalized L (owner_address new)) (\<lambda>n.
     obind (normalized L (owner_address old)) (\<lambda>m.
     if n = m then Ok ([], b)
     else
       let d = swapOwner_data L before (owner_address old) (owner_address new) in
       obind (ol_replace L list (owner_address old) (owner_address new)) (\<lambda>list.
       Ok (d, b\<lparr>ownerList := Some list\<rparr>))))))))"

definition addOwnerData :: "hex_functions \<Rightarrow> ownerRole \<Rightarrow> builder \<Rightarrow> ('e, bytes \<times> builder) outcome" where
  "addOwnerData L role b =
     obind (unwrap (owner_with (b_wallet b) role)) (\<lambda>new.
     obind (unwrap (ownerList b)) (\<lambda>list.
     obind (ol_contains L list (owner_address new)) (\<lambda>present.
     if present then Ok ([], b)
     else
       obind (unwrap (newScheme b)) (\<lambda>scheme.
       obind (addOwner_data L (owner_address new) (confirmations scheme)) (\<lambda>d.
       obind (ol_add L list (owner_address new)) (\<lambda>list.
       Ok (d, b\<lparr>ownerList := Some list,
                b_wallet := changeConfirmationCount (b_wallet b) (confirmations scheme)\<rparr>)))))))"

definition removeOwnerData :: "hex_functions \<Rightarrow> builder \<Rightarrow> ('e, bytes \<times> builder) outcome" where
  "removeOwnerData L b =
     obind (takeModifiable b) (\<lambda>(old, b).
     obind (unwrap (ownerList b)) (\<lambda>list.
     obind (ol_addressBefore L list (owner_address old)) (\<lambda>before.
     obind (unwrap (newScheme b)) (\<lambda>scheme.
     obind (removeOwner_data L before (owner_address old) (confirmations scheme)) (\<lambda>d.
     obind (ol_remove L list (owner_address old)) (\<lambda>list.
     Ok (d, b\<lparr>ownerList := Some list,
              b_wallet := changeConfirmationCount (b_wallet b) (confirmations scheme)\<rparr>)))))))"

definition multiSendData :: "hex_functions \<Rightarrow> bytes list \<Rightarrow> builder \<Rightarrow> ('e, bytes) outcome" where
  "multiSendData L input b =
     obind (unwrap (address_of (b_wallet b))) (\<lambda>a.
     Ok (multiSend L (map (\<lambda>d. \<lparr>ms_operation = MS_call, ms_to = a, ms_value = 0, ms_data = d\<rparr>)
       (filter (\<lambda>d. d \<noteq> []) input))))"

definition buildTransactionData :: "'e outside \<Rightarrow> date \<Rightarrow> bytes list \<Rightarrow> builder \<Rightarrow> ('e service_error, builder) outcome" where
  "buildTransactionData E now data b =
     (let input = filter (\<lambda>d. d \<noteq> []) data in
      if length input \<le> 1 then
        obind (unwrap (address_of (b_wallet b))) (\<lambda>a.
        obind (edit_tx (change_recipient now (Some a)) b) (\<lambda>b.
        obind (edit_tx (change_operation now (Some call)) b) (\<lambda>b.
        edit_tx (change_data now (case input of [] \<Rightarrow> None | d # _ \<Rightarrow> Some d)) b)))
      else
        obind (unwrap (out_address E (b_multiSend b))) (\<lambda>a.
        obind (edit_tx (change_recipient now (Some a)) b) (\<lambda>b.
        obind (multiSendData (out_lib E) input b) (\<lambda>d.
        obind (edit_tx (change_data now (Some d)) b) (\<lambda>b.
        edit_tx (change_operation now (Some delegateCall)) b)))))"

text \<open>The second change of the owners: add, swap or remove.\<close>

definition second_change :: "hex_functions \<Rightarrow> walletScheme \<Rightarrow> walletScheme \<Rightarrow> builder \<Rightarrow> ('e, bytes \<times> builder) outcome" where
  "second_change L old new b =
     (if old = withoutExtension then addOwnerData L browserExtension b
      else if new = withExtension then swapOwnerData L browserExtension b else removeOwnerData L b)"

definition buildData :: "'e outside \<Rightarrow> date \<Rightarrow> builder \<Rightarrow> ('e service_error, builder) outcome" where
  "buildData E now b =
     (let L = out_lib E in
      obind (unwrap (oldScheme b)) (\<lambda>old.
      obind (unwrap (newScheme b)) (\<lambda>new.
      if old \<in> set supportedSchemes \<and> new \<in> set supportedSchemes then
        obind (swapOwnerData L thisDevice b) (\<lambda>(d1, b).
        if old = withoutExtension \<and> new = withoutExtension then buildTransactionData E now [d1] b
        else
          obind (second_change L old new b) (\<lambda>(d2, b). buildTransactionData E now [d1, d2] b))
      else Trap)))"

subsection \<open>Estimating, sealing and signing\<close>

definition estimate :: "'e outside \<Rightarrow> ('e run, 'e service_error, estimateResponse option) action" where
  "estimate E =
     act_bind (on_registry load_selected) (\<lambda>w.
     act_bind (act_get (b_transaction \<circ> fst)) (\<lambda>tx.
     act_bind (act_lift (unwrap (out_address E (ethTo tx)))) (\<lambda>to.
     act_bind (act_lift (unwrap (sender tx))) (\<lambda>safe.
     act_bind (act_lift (unwrap (operation tx))) (\<lambda>op.
     act_bind (act_lift (estimateRequest_init (out_lib E) safe (Some to) (decimal (ethValue tx))
       (Some (ethData (out_lib E) tx)) op (feePaymentTokenAddress w))) (\<lambda>request.
     act_catch (act_lift (omap Some (out_estimate E request)))
       (\<lambda>e. act_bind (on_registry (act_do (post_error (serviceError e)))) (\<lambda>_. act_return None))))))))"

definition calculateFees :: "date \<Rightarrow> estimateResponse \<Rightarrow> ('e run, 'e service_error, unit) action" where
  "calculateFees now r =
     act_bind (act_get (\<lambda>x. find_item now (rsp_gasToken r) (reg_items (snd x)))) (\<lambda>item.
     let feeToken = (case item of Some x \<Rightarrow> item_token x | None \<Rightarrow> Ether);
         e = \<lparr>gas = rsp_safeTxGas r, dataGas = rsp_dataGas r, operationalGas = rsp_operationalGas r,
              gasPrice = \<lparr>amount_of = rsp_gasPrice r, token_of = feeToken\<rparr>\<rparr> in
     act_bind (step (edit_tx (change_fee now (Some (totalSubmittedToBlockchain e))))) (\<lambda>_.
     act_bind (step (edit_tx (change_feeEstimate now (Some e)))) (\<lambda>_.
     act_bind (act_lift (nextNonce r)) (\<lambda>n.
     step (edit_tx (change_nonce now (Some (decimal n)))))))) "

definition seal :: "'e outside \<Rightarrow> date \<Rightarrow> builder \<Rightarrow> ('e service_error, builder) outcome" where
  "seal E now b =
     obind (edit_tx (change_hash now (Some (out_hash E (b_transaction b)))) b) (edit_tx (proceed now))"

definition sign_as :: "'e outside \<Rightarrow> date \<Rightarrow> ownerRole \<Rightarrow> ('e run, 'e service_error, unit) action" where
  "sign_as E now role =
     act_bind (\<lambda>r. (unwrap (owner_with (b_wallet (fst r)) role), r)) (\<lambda>own.
     act_bind (act_get (\<lambda>r. find_eoa (owner_address own) (snd r))) (\<lambda>found.
     act_bind (act_lift (unwrap found)) (\<lambda>account.
     step (\<lambda>b. edit_tx (add_signature now
       \<lparr>sig_address = eoa_address account, sig_data = out_sign E (b_transaction b) (privateKey account)\<rparr>) b))))"

definition sign :: "'e outside \<Rightarrow> date \<Rightarrow> ('e run, 'e service_error, unit) action" where
  "sign E now =
     act_bind (sign_as E now paperWallet) (\<lambda>_.
     act_bind (\<lambda>r. (unwrap (oldScheme (fst r)), r)) (\<lambda>old.
     if confirmations old = 2 then sign_as E now paperWalletDerived else act_return ()))"

definition save_run :: "('e run, 'e service_error, unit) action" where
  "save_run = act_do (\<lambda>(b, s). (b, save_wallet_in (b_wallet b) (save_tx (b_transaction b) s)))"

definition builder_main :: "'e outside \<Rightarrow> bool \<Rightarrow> date \<Rightarrow> ('e run, 'e service_error, unit) action" where
  "builder_main E isMainThread now =
     act_bind (pullData E isMainThread now) (\<lambda>_.
     act_bind isSupportedSafeOwners (\<lambda>ok.
     if \<not> ok then act_return () else
     act_bind isSupportedScheme (\<lambda>ok.
     if \<not> ok then act_return () else
     act_bind (step (buildData E now)) (\<lambda>_.
     act_bind (estimate E) (\<lambda>estimation.
     case estimation of
       None \<Rightarrow> act_return ()
     | Some r \<Rightarrow>
         act_bind (calculateFees now r) (\<lambda>_.
         act_bind (step (seal E now)) (\<lambda>_.
         act_bind (sign E now) (\<lambda>_.
         act_bind save_run (\<lambda>_.
         on_registry (act_do (publish_event WalletBecameReadyForRecovery)))))))))))"

subsection \<open>The recovery service: drafts and addresses\<close>

definition newOwner :: "eoa \<Rightarrow> ('x registry, 'e, address) action" where
  "newOwner generated = act_bind (act_do (save_eoa generated)) (\<lambda>_. act_return (eoa_address generated))"

definition newWallet :: "walletID \<Rightarrow> address \<Rightarrow> ('x registry, 'e, wallet) action" where
  "newWallet nextID own =
     act_bind (act_change (wallet_init nextID own)) (\<lambda>w.
     let w = prepareForRecovery w in
     act_bind (act_do (save_wallet_in w)) (\<lambda>_.
     act_bind (act_do (save_account (account_init (token_id Ether) (wallet_id w) None))) (\<lambda>_.
     act_return w)))"

definition the_portfolio :: "string \<Rightarrow> ('x registry, 'e, portfolio) action" where
  "the_portfolio nextID =
     act_bind (act_get reg_portfolio) (\<lambda>found.
     case found of
       Some p \<Rightarrow> act_return p
     | None \<Rightarrow>
         let p = portfolio_init nextID in
         act_bind (act_do (\<lambda>s. s\<lparr>reg_portfolio := Some p\<rparr>)) (\<lambda>_. act_return p))"

definition createRecoverDraftWallet :: "eoa \<Rightarrow> walletID \<Rightarrow> string \<Rightarrow> ('x registry, 'e, unit) action" where
  "createRecoverDraftWallet generated walletID portfolioID =
     act_bind (newOwner generated) (\<lambda>own.
     act_bind (newWallet walletID own) (\<lambda>w.
     act_bind (the_portfolio portfolioID) (\<lambda>p.
     act_bind (act_change (addWallet p (wallet_id w))) (\<lambda>p.
     act_bind (act_change (selectWallet p (wallet_id w))) (\<lambda>p.
     act_do (\<lambda>s. s\<lparr>reg_portfolio := Some p\<rparr>))))))"

definition prepareForRecovery_selected :: "('x registry, 'e, unit) action" where
  "prepareForRecovery_selected =
     act_bind load_selected (\<lambda>w. act_do (save_wallet_in (prepareForRecovery (wallet_reset w))))"

definition validate :: "'e outside \<Rightarrow> address \<Rightarrow> ('e service_error, unit) outcome" where
  "validate E a =
     obind (proxy_masterCopyAddress (out_lib E) (out_getStorageAt E) a) (\<lambda>masterCopy.
     obind (assertNotNil masterCopy (RecoveryError invalidContractAddress)) (\<lambda>_.
     obind (unwrap masterCopy) (\<lambda>m.
     assertTrue (isValidMasterCopy (out_metadata E) m) (RecoveryError invalidContractAddress))))"

definition changeWallet_address :: "address \<Rightarrow> ('x registry, 'e, unit) action" where
  "changeWallet_address a =
     act_bind load_selected (\<lambda>w.
     act_bind (act_change (changeAddress w (Some a))) (\<lambda>w.
     act_do (\<lambda>s. publish_event WalletAddressChanged (save_wallet_in w s))))"

definition pullWalletData :: "'e outside \<Rightarrow> ('e service_error registry, 'e service_error, unit) action" where
  "pullWalletData E =
     act_bind load_selected (\<lambda>w.
     act_bind (act_lift (unwrap (address_of w))) (\<lambda>a.
     act_bind (act_lift (owners_contract E a)) (\<lambda>existing.
     act_bind (act_lift (threshold_contract E a)) (\<lambda>confirmationCount.
     act_bind (act_change (addOwners w (map unknown_owner existing))) (\<lambda>w.
     let w = changeConfirmationCount w (int confirmationCount) in
     act_bind (act_lift (unwrap (address_of w))) (\<lambda>a.
     act_bind (act_lift (proxy_masterCopyAddress (out_lib E) (out_getStorageAt E) a)) (\<lambda>masterCopy.
     case masterCopy of
       None \<Rightarrow> act_lift (Throw (RecoveryError invalidContractAddress))
     | Some m \<Rightarrow>
         act_do (save_wallet_in
           (changeContractVersion (changeMasterCopy w (Some m)) (md_version (out_metadata E) m))))))))))"

definition change_recovery_address :: "'e outside \<Rightarrow> address \<Rightarrow> ('e service_error registry, 'e service_error, unit) action" where
  "change_recovery_address E a =
     act_catch
       (act_bind (act_lift (validate E a)) (\<lambda>_.
        act_bind (changeWallet_address a) (\<lambda>_.
        pullWalletData E)))
       (\<lambda>e. act_do (post_error (serviceError e)))"

definition recovery_owner :: "hex_functions \<Rightarrow> eoa \<Rightarrow> ('e, owner) outcome" where
  "recovery_owner L x = obind (address_init L (lowercased (eoa_address x))) (\<lambda>a. Ok (unknown_owner a))"

definition save_account_once :: "eoa \<Rightarrow> 'x registry \<Rightarrow> 'x registry" where
  "save_account_once x s = (if find_eoa (eoa_address x) s = None then save_eoa x s else s)"

definition provide :: "'e outside \<Rightarrow> string \<Rightarrow> ('e service_error registry, 'e service_error, unit) action" where
  "provide E phrase =
     act_bind load_selected (\<lambda>w.
     case out_derive_phrase E phrase of
       None \<Rightarrow> act_do (post_error (RecoveryError recoveryPhraseInvalid))
     | Some recovery \<Rightarrow>
         let derived = out_derive_at E recovery 1 in
         act_bind (act_lift (recovery_owner (out_lib E) recovery)) (\<lambda>o1.
         act_bind (act_lift (if contains_owner w o1
             then obind (recovery_owner (out_lib E) derived) (\<lambda>o2. Ok (contains_owner w o2)) else Ok False)) (\<lambda>has.
         if \<not> has then act_do (post_error (RecoveryError recoveryAccountsNotFound))
         else
           act_bind (act_do (save_account_once recovery)) (\<lambda>_.
           act_bind (act_do (save_account_once derived)) (\<lambda>_.
           act_bind (act_change (addOwner w \<lparr>owner_address = eoa_address recovery, owner_role = paperWallet\<rparr>)) (\<lambda>w.
           act_bind (act_change (addOwner w \<lparr>owner_address = eoa_address derived, owner_role = paperWalletDerived\<rparr>)) (\<lambda>w.
           act_do (\<lambda>s. publish_event WalletRecoveryAccountsAccepted (save_wallet_in w s)))))))))"

subsection \<open>The recovery service: the transaction\<close>

definition remove_recovery_tx :: "wallet \<Rightarrow> 'x registry \<Rightarrow> 'x registry" where
  "remove_recovery_tx w s = (case find_tx_type walletRecovery (wallet_id w) s of None \<Rightarrow> s | Some tx \<Rightarrow> remove_tx (tx_id tx) s)"

definition createRecoveryTransaction ::
    "'e outside \<Rightarrow> bool \<Rightarrow> date \<Rightarrow> transactionID \<Rightarrow> ('e service_error registry, 'e service_error, unit) action" where
  "createRecoveryTransaction E isMainThread now nextID =
     act_bind load_selected (\<lambda>w.
     act_bind (act_do (remove_recovery_tx w)) (\<lambda>_.
     act_bind (\<lambda>s. (builder_init now nextID (multiSendContractAddress (out_metadata E)) s, s)) (\<lambda>b s.
     case builder_main E isMainThread now (b, s) of (r, (_, s')) \<Rightarrow> (r, s'))))"

definition isRecoveryTransactionReadyToSubmit :: "'x registry \<Rightarrow> ('e, bool) outcome" where
  "isRecoveryTransactionReadyToSubmit s =
     obind (unwrap (selectedWallet_of s)) (\<lambda>w.
     Ok (case find_tx_type walletRecovery (wallet_id w) s of
           None \<Rightarrow> False
         | Some tx \<Rightarrow> (case Option.bind (find_account (tx_accountID tx) s) balance of
             None \<Rightarrow> False
           | Some b \<Rightarrow> (case fee_estimate tx of
               None \<Rightarrow> False
             | Some e \<Rightarrow> b \<ge> amount_of (totalDisplayedToUser e)))))"

definition load_recovery :: "('x registry, 'e, wallet \<times> transaction) action" where
  "load_recovery =
     act_bind load_selected (\<lambda>w.
     act_bind (act_get (find_tx_type walletRecovery (wallet_id w))) (\<lambda>found.
     act_bind (act_lift (unwrap found)) (\<lambda>tx. act_return (w, tx))))"

definition isRecoveryInProgress_selected :: "'x registry \<Rightarrow> bool" where
  "isRecoveryInProgress_selected s =
     (case selectedWallet_of s of None \<Rightarrow> False | Some w \<Rightarrow> isRecoveryInProgress (state w))"

definition cancelRecovery :: "('x registry, 'e, unit) action" where
  "cancelRecovery =
     act_bind load_selected (\<lambda>w.
     act_bind (act_do (remove_recovery_tx w)) (\<lambda>_.
     act_do (save_wallet_in (prepareForRecovery (wallet_reset w)))))"

definition cancel_wallet :: "wallet \<Rightarrow> ('x registry, 'e, wallet) action" where
  "cancel_wallet = on_wallet (\<lambda>x. Ok (wallet_cancel x))"

definition postProcessing :: "'e outside \<Rightarrow> ('e service_error registry, 'e service_error, unit) action" where
  "postProcessing E =
     act_bind load_recovery (\<lambda>(w, tx).
     act_catch
       (act_bind (act_lift (unwrap (address_of w))) (\<lambda>a.
        act_bind (act_lift (owners_contract E a)) (\<lambda>remote.
        let remoteOwners = sort (map lowercased remote);
            localOwners = sort (map (\<lambda>x. lowercased (owner_address x)) (filter (\<lambda>x. owner_role x \<noteq> unknown) (owners w))) in
        act_bind (act_lift (assertEqual localOwners remoteOwners (RecoveryError failedToChangeOwners))) (\<lambda>_.
        act_bind (act_lift (threshold_contract E a)) (\<lambda>remoteThreshold.
        act_bind (act_lift (assertEqual (confirmationCount w) (int remoteThreshold)
          (RecoveryError failedToChangeConfirmationCount))) (\<lambda>_.
        act_bind (act_lift (unwrap (owner_with w paperWallet))) (\<lambda>p.
        act_bind (act_do (remove_eoa (owner_address p))) (\<lambda>_.
        act_bind (act_lift (unwrap (owner_with w paperWalletDerived))) (\<lambda>d.
        act_bind (act_do (remove_eoa (owner_address d))) (\<lambda>_.
        act_bind (on_wallet wallet_proceed w) (\<lambda>w.
        act_bind (act_change (removeOwner w unknown)) (\<lambda>w.
        act_do (save_wallet_in w)))))))))))))
       (\<lambda>e.
        act_bind (cancel_wallet w) (\<lambda>_.
        act_bind cancelRecovery (\<lambda>_.
        act_do (post_error e)))))"

definition handleTransactionProgress ::
    "'e outside \<Rightarrow> transaction \<Rightarrow> wallet \<Rightarrow> ('e service_error registry, 'e service_error, unit) action" where
  "handleTransactionProgress E tx w =
     (if status tx = success then act_bind (on_wallet wallet_proceed w) (\<lambda>_. postProcessing E)
      else if status tx = failed then
        act_bind (on_wallet wallet_proceed w) (\<lambda>w.
        act_bind (cancel_wallet w) (\<lambda>_. cancelRecovery))
      else act_return ())"

definition subscribeForTransactionProcessing :: "('x registry, 'e, bool) action" where
  "subscribeForTransactionProcessing = act_bind load_recovery (\<lambda>(w, tx). act_return (status tx = pending))"

text \<open>The subscriber; it answers whether it stays subscribed.\<close>

definition transactionStatusUpdated :: "'e outside \<Rightarrow> wallet \<Rightarrow> ('e service_error registry, 'e service_error, bool) action" where
  "transactionStatusUpdated E w =
     act_bind (act_get (find_tx_type walletRecovery (wallet_id w))) (\<lambda>found.
     case found of
       None \<Rightarrow> act_return False
     | Some tx \<Rightarrow>
         if status tx = pending then act_return True
         else act_bind (handleTransactionProgress E tx w) (\<lambda>_. act_return False))"

definition sig_less :: "signature \<Rightarrow> signature \<Rightarrow> bool" where
  "sig_less x y \<longleftrightarrow> lowercased (sig_address x) < lowercased (sig_address y)"

definition submitRecoveryTransaction :: "'e outside \<Rightarrow> date \<Rightarrow> ('e service_error registry, 'e service_error, bool) action" where
  "submitRecoveryTransaction E now =
     act_bind load_recovery (\<lambda>(w, tx).
     let sigs = map (out_ethSignature E) (sorted_by sig_less (signatures tx)) in
     act_bind (act_lift (submitRequest_init (out_lib E) (out_address E) tx sigs)) (\<lambda>request.
     case out_submit E request of
       Trap \<Rightarrow> act_lift Trap
     | Throw e \<Rightarrow> act_bind (act_do (post_error (serviceError e))) (\<lambda>_. act_return False)
     | Ok hash \<Rightarrow>
         act_bind (act_change (set_hash now hash tx)) (\<lambda>tx.
         act_bind (act_change (proceed now tx)) (\<lambda>tx.
         act_bind (act_do (save_tx tx)) (\<lambda>_.
         act_bind (on_wallet wallet_proceed w) (\<lambda>w.
         act_bind (act_do (save_wallet_in w)) (\<lambda>_.
         subscribeForTransactionProcessing)))))))"

definition resume_recovery :: "'e outside \<Rightarrow> date \<Rightarrow> ('e service_error registry, 'e service_error, bool) action" where
  "resume_recovery E now =
     act_bind load_recovery (\<lambda>(w, tx).
     if \<not> isReadyToUse (state w) \<and> \<not> isRecoveryInProgress (state w) \<and> status tx = signing then submitRecoveryTransaction E now
     else if isFinalizingRecovery (state w) \<and> status tx = success then act_bind (postProcessing E) (\<lambda>_. act_return False)
     else if isRecoveryInProgress (state w) \<and> status tx = pending then subscribeForTransactionProcessing
     else if isRecoveryInProgress (state w) \<and> (status tx = success \<or> status tx = failed) then
       act_bind (handleTransactionProgress E tx w) (\<lambda>_. act_return False)
     else act_lift Trap)"

end
