(* ===== verification/Settings.thy ===== *)
theory Settings
  imports Extension Recovery
begin

section \<open>Wallet settings: replacing the recovery phrase\<close>

text \<open>
  \<^verbatim>\<open>WalletSettingsDomainService.swift\<close>. The subscriber that \<open>updateRecoveryPhraseTransaction\<close> installs is the record of
  what its closure captures, the wallet object of the method among them, and \<open>phraseTransactionUpdated\<close> is its body. A wallet that
  the closure loads is another object than the captured one.
\<close>

definition isReplaceRecoveryAvailable :: "'x registry \<Rightarrow> bool" where
  "isReplaceRecoveryAvailable s = (case selectedWallet_of s of None \<Rightarrow> False | Some w \<Rightarrow> owner_with w paperWallet \<noteq> None)"

definition createReplaceRecoveryPhraseTransaction :: "'e outside \<Rightarrow> date \<Rightarrow> transactionID \<Rightarrow> ('e, transactionID) service" where
  "createReplaceRecoveryPhraseTransaction E now nextID =
     act_bind load_selected (\<lambda>w.
     let tx = tx_init now nextID replaceRecoveryPhrase (wallet_id w) (accountID_of (token_id Ether) (wallet_id w)) in
     act_bind (act_lift (unwrap (address_of w))) (\<lambda>a.
     act_bind (act_change (change_sender now (Some a) tx)) (\<lambda>tx.
     act_bind (act_lift (unwrap (out_address E (multiSendContractAddress (out_metadata E))))) (\<lambda>ms.
     act_bind (act_change (change_recipient now (Some ms) tx)) (\<lambda>tx.
     act_bind (act_change (change_amount now (Some (ether 0)) tx)) (\<lambda>tx.
     act_bind (act_change (change_operation now (Some delegateCall) tx)) (\<lambda>tx.
     act_bind (act_do (save_tx tx)) (\<lambda>_. act_return (tx_id tx)))))))))"

text \<open>One swap: the call, and the list after it.\<close>

definition swap_in :: "hex_functions \<Rightarrow> owner_linked_list \<Rightarrow> address \<Rightarrow> address \<Rightarrow> ('e, bytes \<times> owner_linked_list) outcome" where
  "swap_in L list old new =
     obind (ol_addressBefore L list old) (\<lambda>pre.
     obind (ol_replace L list old new) (\<lambda>list.
     Ok (swapOwner_data L pre old new, list)))"

text \<open>The two calls to the safe in one batch.\<close>

definition phrase_data :: "hex_functions \<Rightarrow> address \<Rightarrow> bytes list \<Rightarrow> bytes" where
  "phrase_data L a calls = multiSend L (map (\<lambda>d. \<lparr>ms_operation = MS_call, ms_to = a, ms_value = 0, ms_data = d\<rparr>) calls)"

text \<open>The address of twenty equal bytes that stands for an owner not known yet.\<close>

definition fake_owner :: "hex_functions \<Rightarrow> 8 word \<Rightarrow> ('e, address) outcome" where
  "fake_owner L k = address_init L (''0x'' @ toHexString L (replicate 20 k))"

definition phrase_calculateFees :: "estimateResponse \<Rightarrow> ('e, tokenAmount \<times> feeEstimate \<times> int) outcome" where
  "phrase_calculateFees r =
     (let e = \<lparr>gas = rsp_safeTxGas r, dataGas = rsp_dataGas r, operationalGas = rsp_operationalGas r,
              gasPrice = \<lparr>amount_of = rsp_gasPrice r, token_of = Ether\<rparr>\<rparr> in
      obind (swift_int (gas e + dataGas e)) (\<lambda>n.
      obind (nextNonce r) (\<lambda>next.
      Ok (\<lparr>amount_of = n * amount_of (gasPrice e), token_of = Ether\<rparr>, e, next))))"

text \<open>The request both methods build.\<close>

definition phrase_estimate :: "'e outside \<Rightarrow> wallet \<Rightarrow> address \<Rightarrow> bytes \<Rightarrow> ('e service_error, estimateResponse) outcome" where
  "phrase_estimate E w a d =
     obind (unwrap (out_address E (multiSendContractAddress (out_metadata E)))) (\<lambda>to.
     obind (estimateRequest_init (out_lib E) a (Some to) (decimal 0) (Some (''0x'' @ toHexString (out_lib E) d)) delegateCall
       (feePaymentTokenAddress w)) (out_estimate E))"

definition estimateRecoveryPhraseTransaction :: "'e outside \<Rightarrow> date \<Rightarrow> transactionID \<Rightarrow> ('e, unit) service" where
  "estimateRecoveryPhraseTransaction E now i =
     act_bind load_selected (\<lambda>w.
     act_bind (find_required i) (\<lambda>tx.
     if tx_data tx \<noteq> None then act_return () else
     act_catch
       (act_bind (act_lift (unwrap (address_of w))) (\<lambda>a.
        act_bind (act_lift (owners_contract E a)) (\<lambda>remoteOwners.
        act_bind (act_lift (ol_add_all (out_lib E) (ol_init (out_lib E)) remoteOwners)) (\<lambda>list.
        act_bind (act_lift (unwrap (safe_get list 1))) (\<lambda>old1.
        act_bind (act_lift (fake_owner (out_lib E) 1)) (\<lambda>new1.
        act_bind (act_lift (swap_in (out_lib E) list old1 new1)) (\<lambda>(d1, list).
        act_bind (act_lift (unwrap (safe_get list 2))) (\<lambda>old2.
        act_bind (act_lift (fake_owner (out_lib E) 2)) (\<lambda>new2.
        act_bind (act_lift (swap_in (out_lib E) list old2 new2)) (\<lambda>(d2, list).
        act_bind (act_lift (phrase_estimate E w a (phrase_data (out_lib E) a [d1, d2]))) (\<lambda>r.
        act_bind (act_lift (phrase_calculateFees r)) (\<lambda>(fee, e, n).
        act_bind (act_change (change_fee now (Some fee) tx)) (\<lambda>tx.
        act_bind (act_change (change_feeEstimate now (Some e) tx)) (\<lambda>tx.
        act_bind (act_change (change_nonce now (Some (decimal n)) tx)) (\<lambda>tx.
        act_do (save_tx tx))))))))))))))))
       (\<lambda>e. act_do (post_error e))))"

definition isRecoveryPhraseTransactionReadyToStart :: "transactionID \<Rightarrow> 'x registry \<Rightarrow> ('e, bool) outcome" where
  "isRecoveryPhraseTransactionReadyToStart i s =
     obind (unwrap (find_tx i s)) (\<lambda>tx.
     Ok (case Option.bind (find_account (tx_accountID tx) s) balance of
           None \<Rightarrow> False
         | Some b \<Rightarrow> (case fee_estimate tx of None \<Rightarrow> False | Some e \<Rightarrow> b \<ge> amount_of (totalDisplayedToUser e))))"

text \<open>\<open>modifiableOwners.remove(at:)\<close> of the first owner with the address of a role.\<close>

definition without_role :: "hex_functions \<Rightarrow> wallet \<Rightarrow> ownerRole \<Rightarrow> address list \<Rightarrow> ('e, address list) outcome" where
  "without_role L w r remote = (case owner_with w r of
      None \<Rightarrow> Ok remote
    | Some x \<Rightarrow> obind (normalized L (owner_address x)) (\<lambda>a. Ok (remove1 a remote)))"

record phrase_subscription =
  ph_transaction :: transactionID
  ph_wallet :: wallet
  ph_walletID :: walletID
  ph_first :: address
  ph_second :: address
  ph_paper :: address

definition updateRecoveryPhraseTransaction ::
    "'e outside \<Rightarrow> date \<Rightarrow> transactionID \<Rightarrow> address \<Rightarrow> ('e, phrase_subscription option) service" where
  "updateRecoveryPhraseTransaction E now i newPaperWallet =
     act_bind load_selected (\<lambda>w.
     act_bind (find_required i) (\<lambda>tx.
     act_bind (act_get (find_eoa newPaperWallet)) (\<lambda>found.
     act_bind (act_lift (unwrap found)) (\<lambda>paper.
     let L = out_lib E; derived = out_derive_at E paper 1 in
     act_catch
       (act_bind (act_lift (unwrap (address_of w))) (\<lambda>a.
        act_bind (act_lift (owners_contract E a)) (\<lambda>remoteOwners.
        act_bind (act_lift (ol_add_all L (ol_init L) remoteOwners)) (\<lambda>list.
        act_bind (act_lift (without_role L w thisDevice remoteOwners)) (\<lambda>modifiable.
        act_bind (act_lift (without_role L w browserExtension modifiable)) (\<lambda>modifiable.
        act_bind (act_lift (unwrap (safe_get modifiable 0))) (\<lambda>old1.
        act_bind (act_lift (swap_in L list old1 (eoa_address paper))) (\<lambda>(d1, list).
        act_bind (act_lift (unwrap (safe_get modifiable 1))) (\<lambda>old2.
        act_bind (act_lift (swap_in L list old2 (eoa_address derived))) (\<lambda>(d2, list).
        let d = phrase_data L a [d1, d2] in
        act_bind (act_lift (phrase_estimate E w a d)) (\<lambda>r.
        act_bind (act_lift (phrase_calculateFees r)) (\<lambda>(fee, e, n).
        act_bind (act_change (change_fee now (Some fee) tx)) (\<lambda>tx.
        act_bind (act_change (change_feeEstimate now (Some e) tx)) (\<lambda>tx.
        act_bind (act_change (change_nonce now (Some (decimal n)) tx)) (\<lambda>tx.
        act_bind (act_change (change_data now (Some d) tx)) (\<lambda>tx.
        act_bind (act_change (change_hash now (Some (out_hash E tx)) tx)) (\<lambda>tx.
        act_bind (act_change (proceed now tx)) (\<lambda>tx.
        act_bind (act_do (save_tx tx)) (\<lambda>_.
        act_bind (act_change (addOwners w (map unknown_owner [eoa_address paper, eoa_address derived]))) (\<lambda>w.
        act_bind (act_do (save_wallet_in w)) (\<lambda>_.
        act_return (Some \<lparr>ph_transaction = i, ph_wallet = w, ph_walletID = wallet_id w, ph_first = eoa_address paper,
          ph_second = eoa_address derived, ph_paper = newPaperWallet\<rparr>))))))))))))))))))))))
       (\<lambda>e. act_bind (act_do (post_error e)) (\<lambda>_. act_return None))))))"

text \<open>The subscriber; it answers whether it stays subscribed. On success the new owners go to a wallet loaded inside the branch.\<close>

definition phraseTransactionUpdated :: "phrase_subscription \<Rightarrow> ('x registry, 'e, bool) action" where
  "phraseTransactionUpdated c =
     act_bind (act_get (find_tx (ph_transaction c))) (\<lambda>found.
     case found of
       None \<Rightarrow> act_return False
     | Some tx \<Rightarrow>
         if status tx = pending then act_return True
         else
           act_bind (if status tx = success
             then act_bind (act_get (find_wallet (ph_walletID c))) (\<lambda>found.
                  act_bind (act_lift (unwrap found)) (\<lambda>inner.
                  act_bind (act_change (addOwners inner
                    [\<lparr>owner_address = ph_first c, owner_role = paperWallet\<rparr>,
                     \<lparr>owner_address = ph_second c, owner_role = paperWalletDerived\<rparr>])) (\<lambda>_.
                  act_return ())))
             else act_return ()) (\<lambda>_.
           act_bind (act_change (removeOwner (ph_wallet c) unknown)) (\<lambda>w.
           act_bind (act_do (save_wallet_in w)) (\<lambda>_.
           act_bind (act_do (\<lambda>s. if find_eoa (ph_paper c) s \<noteq> None then remove_eoa (ph_paper c) s else s)) (\<lambda>_.
           act_return False)))))"

definition cancelPhraseRecovery :: "('e, unit) service" where
  "cancelPhraseRecovery =
     act_bind load_selected (\<lambda>w.
     act_bind (act_change (removeOwner w unknown)) (\<lambda>w.
     act_do (save_wallet_in w)))"

end
