(* ===== verification/Owner_Manager.thy ===== *)
theory Owner_Manager
  imports Contracts
begin

section \<open>What a safe does with the calls it is sent\<close>

text \<open>
  The owner manager of the Safe contract keeps its owners in a linked list that starts at the sentinel. Its code is not part of the
  repository; the step relation \<open>safe_call\<close> is its documented behaviour, for the calls the app encodes: an owner that is swapped or
  removed is named together with the owner before it in the list, a new owner must not be an owner yet
  and goes to the front, neither the sentinel nor the zero address can become an owner, and the threshold must be between one and the number of owners. A call that meets none of
  the rules is reverted, so a transaction is useful only if every call has a step. The state is the list of
  owners, in lower case, with the threshold.
\<close>

type_synonym safe_owners = "address list \<times> int"

inductive safe_call :: "hex_functions \<Rightarrow> safe_owners \<Rightarrow> bytes \<Rightarrow> safe_owners \<Rightarrow> bool" for L where
  swap: "i < length os \<Longrightarrow> os ! i = lowercased old \<Longrightarrow> lowercased new \<notin> set os \<Longrightarrow> lowercased new \<notin> {sentinelAddress L, address_zero} \<Longrightarrow>
    safe_call L (os, t) (swapOwner_data L ((sentinelAddress L # os) ! i) old new) (os [i := lowercased new], t)"
| add: "lowercased new \<notin> set os \<Longrightarrow> lowercased new \<notin> {sentinelAddress L, address_zero} \<Longrightarrow> 1 \<le> t' \<Longrightarrow> t' \<le> int (length os) + 1 \<Longrightarrow>
    safe_call L (os, t) (invocation L ''addOwnerWithThreshold(address,uint256)'' [encodeAddress L new, encodeUInt L (nat t')])
      (lowercased new # os, t')"
| remove: "i < length os \<Longrightarrow> os ! i = lowercased old \<Longrightarrow> 1 \<le> t' \<Longrightarrow> t' < int (length os) \<Longrightarrow>
    safe_call L (os, t) (invocation L ''removeOwner(address,address,uint256)''
      [encodeAddress L ((sentinelAddress L # os) ! i), encodeAddress L old, encodeUInt L (nat t')])
      (take i os @ drop (Suc i) os, t')"

text \<open>The calls of a batch, one after the other.\<close>

inductive safe_calls :: "hex_functions \<Rightarrow> safe_owners \<Rightarrow> bytes list \<Rightarrow> safe_owners \<Rightarrow> bool" for L where
  none: "safe_calls L x [] x"
| more: "safe_call L x c y \<Longrightarrow> safe_calls L y cs z \<Longrightarrow> safe_calls L x (c # cs) z"

lemma safe_calls_one: "safe_call L x c y \<Longrightarrow> safe_calls L x [c] y"
  by (rule more [OF _ none])

lemma safe_calls_two: "safe_call L x c y \<Longrightarrow> safe_call L y d z \<Longrightarrow> safe_calls L x [c, d] z"
  by (rule more [OF _ safe_calls_one])

text \<open>A safe never gets an owner twice, never makes the sentinel an owner, and never has more confirmations to ask for than owners.\<close>

definition safe_ok :: "hex_functions \<Rightarrow> safe_owners \<Rightarrow> bool" where
  "safe_ok L x \<longleftrightarrow> distinct (fst x) \<and> sentinelAddress L \<notin> set (fst x) \<and> 1 \<le> snd x \<and> snd x \<le> int (length (fst x))"

lemma take_drop_remove1: "distinct os \<Longrightarrow> i < length os \<Longrightarrow> take i os @ drop (Suc i) os = remove1 (os ! i) os"
proof (induction os arbitrary: i)
  case (Cons a os)
  then show ?case by (cases i) auto
qed simp

lemma safe_call_ok: "safe_call L x c y \<Longrightarrow> safe_ok L x \<Longrightarrow> safe_ok L y"
proof (induction rule: safe_call.induct)
  case (swap i os old new t)
  then show ?case by (auto simp: safe_ok_def distinct_list_update dest: set_update_subset_insert [THEN subsetD])
next
  case (remove i os old t' t)
  then have d: "distinct os" by (simp add: safe_ok_def)
  show ?case using remove take_drop_remove1 [OF d remove(1)] d by (auto simp: safe_ok_def length_remove1 in_set_conv_nth)
qed (auto simp: safe_ok_def)

lemma safe_calls_ok: "safe_calls L x cs y \<Longrightarrow> safe_ok L x \<Longrightarrow> safe_ok L y"
  by (induction rule: safe_calls.induct) (auto intro: safe_call_ok)

text \<open>The calls as the proxies encode them.\<close>

lemma safe_swap:
  assumes "distinct os" "i < length os" "os ! i = lowercased old" "lowercased new \<notin> set os" "lowercased new \<notin> {sentinelAddress L, address_zero}"
  shows "safe_call L (os, t) (swapOwner_data L ((sentinelAddress L # os) ! i) old new)
    (map (\<lambda>y. if y = lowercased old then lowercased new else y) os, t)"
  using safe_call.swap [OF assms(2-5), of t] map_update_distinct [OF assms(1-3)] by simp

lemma safe_add:
  assumes "hex_library L" "addOwner_data L new t' = (Ok c :: ('e, bytes) outcome)" "lowercased new \<notin> set os"
    and "lowercased new \<notin> {sentinelAddress L, address_zero}" "1 \<le> t'" "t' \<le> int (length os) + 1"
  shows "safe_call L (os, t) c (lowercased new # os, t')"
  using assms(2) safe_call.add [OF assms(3-6)] assms(5) by (simp add: addOwner_data_def hex_library.encodeInt_nonneg [OF assms(1)])

lemma safe_remove:
  assumes "hex_library L" "removeOwner_data L ((sentinelAddress L # os) ! i) old t' = (Ok c :: ('e, bytes) outcome)"
    and "distinct os" "i < length os" "os ! i = lowercased old" "1 \<le> t'" "t' < int (length os)"
  shows "safe_call L (os, t) c (remove1 (lowercased old) os, t')"
  using assms(2) safe_call.remove [OF assms(4-7)] assms(6) take_drop_remove1 [OF assms(3,4)] assms(5)
  by (auto simp: removeOwner_data_def hex_library.encodeInt_nonneg [OF assms(1)])

section \<open>What the multi-send contract reads\<close>

text \<open>
  The multi-send contract, which is not part of the repository either, takes one argument of type \<open>bytes\<close> and reads calls from it
  until it is used up: the operation, the address and the value as words, the offset of the data, which is the word after the four, and
  the data with its length, padded with zeros to whole words. \<open>batch\<close> relates the bytes to the calls read from them.
\<close>

definition is_word :: "nat \<Rightarrow> bytes \<Rightarrow> bool" where
  "is_word n w \<longleftrightarrow> length w = 32 \<and> big_endian w = n"

definition is_padding :: "bytes \<Rightarrow> bytes \<Rightarrow> bool" where
  "is_padding d z \<longleftrightarrow> set z \<subseteq> {0} \<and> length z < 32 \<and> 32 dvd length (d @ z)"

inductive batch :: "bytes \<Rightarrow> (nat \<times> nat \<times> nat \<times> bytes) list \<Rightarrow> bool" where
  batch_end: "batch [] []"
| batch_call: "is_word opn w1 \<Longrightarrow> is_word target w2 \<Longrightarrow> is_word v w3 \<Longrightarrow> is_word 128 w4 \<Longrightarrow> is_word (length d) w5 \<Longrightarrow> is_padding d z \<Longrightarrow>
    batch rest calls \<Longrightarrow> batch (w1 @ w2 @ w3 @ w4 @ w5 @ d @ z @ rest) ((opn, target, v, d) # calls)"

definition multi_send_reads :: "hex_functions \<Rightarrow> bytes \<Rightarrow> (nat \<times> nat \<times> nat \<times> bytes) list \<Rightarrow> bool" where
  "multi_send_reads L c calls \<longleftrightarrow> (\<exists>w1 w2 d z. c = take 4 (hash_of L (ascii ''multiSend(bytes)'')) @ w1 @ w2 @ d @ z \<and>
     is_word 32 w1 \<and> is_word (length d) w2 \<and> is_padding d z \<and> batch d calls)"

context hex_library
begin

lemma encode_is_word: "is_word (n mod 2 ^ 256) (encodeUInt L n)"
  by (simp add: is_word_def value_encodeUInt)

lemma encodeBytes_padded:
  assumes "length d < 2 ^ 256"
  obtains w z where "encodeBytes L d = w @ d @ z" "is_word (length d) w" "is_padding d z"
proof -
  define k where "k = (if length d mod 32 = 0 then length d else length d + 32 - length d mod 32)"
  have k: "length d \<le> k" "k - length d < 32" "k mod 32 = 0"
  proof -
    define q r where "q = length d div 32" and "r = length d mod 32"
    have "length d = 32 * q + r" "r < 32" by (simp_all add: q_def r_def)
    moreover from this have "k = (if r = 0 then 32 * q else 32 * Suc q)" by (simp add: k_def r_def [symmetric])
    ultimately show "length d \<le> k" "k - length d < 32" "k mod 32 = 0" by simp_all
  qed
  have "encodeBytes L d = encodeUInt L (length d) @ d @ replicate (k - length d) 0"
    using k(1) by (simp add: encodeBytes_def Let_def rightPadded_def k_def [symmetric])
  moreover have "is_word (length d) (encodeUInt L (length d))" using encode_is_word [of "length d"] assms by simp
  moreover have "is_padding d (replicate (k - length d) 0)" using k by (auto simp: is_padding_def)
  ultimately show thesis by (rule that)
qed

lemma encoded_batch:
  assumes "list_all (\<lambda>x. length (ms_data x) < 2 ^ 256 \<and> 0 \<le> ms_value x \<and> ms_value x < 2 ^ 256) txs"
  shows "batch (concat (map (ms_encode L) txs))
    (map (\<lambda>x. (ms_rawValue (ms_operation x), big_endian (ethHex L (ms_to x)) mod 2 ^ 256, nat (ms_value x), ms_data x)) txs)"
  using assms
proof (induction txs)
  case (Cons x txs)
  obtain w z where w: "encodeBytes L (ms_data x) = w @ ms_data x @ z" "is_word (length (ms_data x)) w" "is_padding (ms_data x) z"
    using encodeBytes_padded [of "ms_data x"] Cons.prems by auto
  have opn: "is_word (ms_rawValue (ms_operation x)) (encodeUInt L (ms_rawValue (ms_operation x)))"
    using encode_is_word [of "ms_rawValue (ms_operation x)"] by (cases "ms_operation x") simp_all
  have "nat (ms_value x) < 2 ^ 256" using Cons.prems by (simp add: nat_less_iff)
  then have v: "is_word (nat (ms_value x)) (encodeUInt L (nat \<bar>ms_value x\<bar>))"
    using encode_is_word [of "nat (ms_value x)"] Cons.prems by simp
  have target: "is_word (big_endian (ethHex L (ms_to x)) mod 2 ^ 256) (encodeAddress L (ms_to x))"
    using encode_is_word by (simp add: encodeAddress_def fromData_big_endian)
  have off: "is_word 128 (encodeUInt L (4 * 32))" using encode_is_word [of 128] by simp
  show ?case
    using batch_call [OF opn target v off w(2,3)] Cons by (simp add: ms_encode_def w(1))
qed (simp add: batch_end)

lemma multiSend_reads:
  assumes "list_all (\<lambda>x. length (ms_data x) < 2 ^ 256 \<and> 0 \<le> ms_value x \<and> ms_value x < 2 ^ 256) txs"
    and "length (concat (map (ms_encode L) txs)) < 2 ^ 256"
  shows "multi_send_reads L (multiSend L txs)
    (map (\<lambda>x. (ms_rawValue (ms_operation x), big_endian (ethHex L (ms_to x)) mod 2 ^ 256, nat (ms_value x), ms_data x)) txs)"
proof -
  obtain w z where w: "encodeBytes L (concat (map (ms_encode L) txs)) = w @ concat (map (ms_encode L) txs) @ z"
    "is_word (length (concat (map (ms_encode L) txs))) w" "is_padding (concat (map (ms_encode L) txs)) z"
    using encodeBytes_padded [OF assms(2)] by blast
  have "is_word 32 (encodeUInt L 32)" using encode_is_word [of 32] by simp
  then show ?thesis
    unfolding multi_send_reads_def multiSend_def Let_def invocation_def method_id_def
    using w encoded_batch [OF assms(1)] by (intro exI conjI) simp_all
qed

end

end
