(* ===== verification/Recovery_Owners.thy ===== *)
theory Recovery_Owners
  imports Recovery Owner_Manager
begin

section \<open>The owners that a recovery transaction leaves\<close>

text \<open>
  What \<open>buildData\<close> of the theory \<open>Recovery\<close> computes: the wallets that can be recovered, the owners that may change, each
  change of the owner list with the call it puts into the transaction, and the final list of owners.
\<close>

subsection \<open>Owners by role\<close>

lemma first_with_unique: "roles_unique os \<Longrightarrow> y \<in> set os \<Longrightarrow> owner_role y \<noteq> unknown \<Longrightarrow> first_with (owner_role y) os = Some y"
  by (induction os) (auto simp: roles_unique_def first_with_def split: if_splits)

lemma first_with_role: "first_with r os = Some y \<Longrightarrow> y \<in> set os \<and> owner_role y = r"
  by (auto simp: first_with_def dest: find_SomeD)

lemma known_owners:
  assumes "roles_unique (owners w)" "owner_with w thisDevice = Some d" "owner_with w paperWallet = Some p"
    and "owner_with w paperWalletDerived = Some q" "owner_with w browserExtension = x"
  shows "{y \<in> set (owners w). owner_role y \<noteq> unknown} = {d, p, q} \<union> set_option x"
proof (intro subset_antisym subsetI)
  fix y assume y: "y \<in> {y \<in> set (owners w). owner_role y \<noteq> unknown}"
  then have "owner_with w (owner_role y) = Some y"
    using first_with_unique [OF assms(1)] by (simp add: owner_with_def)
  then show "y \<in> {d, p, q} \<union> set_option x" using assms(2-5) y by (cases "owner_role y") auto
next
  fix y assume "y \<in> {d, p, q} \<union> set_option x"
  then show "y \<in> {y \<in> set (owners w). owner_role y \<noteq> unknown}"
    using assms(2-5) by (auto simp: owner_with_def dest: first_with_role)
qed

lemma length_filter_removed:
  assumes "distinct (map f xs)" "R \<subseteq> f ` set xs" "finite R"
  shows "length (filter (\<lambda>x. f x \<notin> R) xs) + card R = length xs"
proof -
  have "f ` set (filter (\<lambda>x. f x \<in> R) xs) = R" using assms(2) by auto
  moreover have "distinct (map f (filter (\<lambda>x. f x \<in> R) xs))" using assms(1) by (simp add: distinct_map_filter)
  ultimately have "length (filter (\<lambda>x. f x \<in> R) xs) = card R"
    using distinct_card [of "map f (filter (\<lambda>x. f x \<in> R) xs)"] by simp
  then show ?thesis using sum_length_filter_compl [of "\<lambda>x. f x \<in> R" xs] by simp
qed

abbreviation low :: "owner \<Rightarrow> string" where
  "low x \<equiv> lowercased (owner_address x)"

definition usable :: "hex_functions \<Rightarrow> owner \<Rightarrow> bool" where
  "usable L x \<longleftrightarrow> valid_address L (owner_address x) \<and> low x \<notin> {sentinelAddress L, address_zero}"

lemma invocation_nonempty: "hex_library L \<Longrightarrow> invocation L s args \<noteq> []"
  using hex_library.length_method_id [of L s] by (auto simp: invocation_def)

lemma swapOwnerData_run:
  assumes "hex_library L" "ownerList b = Some l" "represents L os l" "modifiableOwners b = Some (m # ms)"
    and "low m \<in> set os" "owner_with (b_wallet b) r = Some n" "usable L m" "usable L n" "low n \<notin> set os"
  shows "\<exists>pre l'. swapOwnerData L r b = (Ok (swapOwner_data L pre (owner_address m) (owner_address n),
      b\<lparr>modifiableOwners := Some ms, ownerList := Some l'\<rparr>) :: ('e, bytes \<times> builder) outcome) \<and>
    represents L (map (\<lambda>y. if y = low m then low n else y) os) l' \<and>
    (\<forall>t. safe_call L (os, t) (swapOwner_data L pre (owner_address m) (owner_address n))
      (map (\<lambda>y. if y = low m then low n else y) os, t))"
proof -
  note hex = hex_library.normalized_valid [OF assms(1)] hex_library.represents_before [OF assms(1)]
  obtain i where i: "i < length os" "firstIndex (\<lambda>a. a = low m) os = Some i" "os ! i = low m"
    using firstIndex_present [OF assms(5)] by blast
  obtain l' where l': "ol_replace L l (owner_address m) (owner_address n) = (Ok l' :: ('e, owner_linked_list) outcome)"
    "represents L (map (\<lambda>y. if y = low m then low n else y) os) l'"
    using hex_library.represents_replace [OF assms(1,3)] assms(7-9) unfolding usable_def by blast
  have pre: "ol_addressBefore L l (owner_address m) = (Ok ((sentinelAddress L # os) ! i) :: ('e, address) outcome)"
    using assms(7) i by (cases i) (simp_all add: usable_def hex_library.represents_before [OF assms(1,3)])
  have "low n \<noteq> low m" using assms(5,9) by auto
  then have "swapOwnerData L r b = (Ok (swapOwner_data L ((sentinelAddress L # os) ! i) (owner_address m) (owner_address n),
      b\<lparr>modifiableOwners := Some ms, ownerList := Some l'\<rparr>) :: ('e, bytes \<times> builder) outcome)"
    using assms(2,4,6-8) l'(1) pre
    by (simp add: swapOwnerData_def takeModifiable_def usable_def hex Let_def)
  moreover have "distinct os" using assms(3) by (simp add: represents_def)
  ultimately show ?thesis using l'(2) safe_swap [of os i "owner_address m" "owner_address n" L] i assms(8,9)
    unfolding usable_def by blast
qed

lemma addOwnerData_run:
  assumes "hex_library L" "ownerList b = Some l" "represents L os l" "owner_with (b_wallet b) r = Some n" "usable L n"
    and "low n \<notin> set os" "newScheme b = Some sc" "1 \<le> confirmations sc" "confirmations sc \<le> int (length os) + 1"
  shows "\<exists>c l'. addOwnerData L r b = (Ok (c, b\<lparr>ownerList := Some l',
      b_wallet := changeConfirmationCount (b_wallet b) (confirmations sc)\<rparr>) :: ('e, bytes \<times> builder) outcome) \<and>
    c \<noteq> [] \<and> represents L (os @ [low n]) l' \<and> (\<forall>t. safe_call L (os, t) c (low n # os, confirmations sc))"
proof -
  obtain l' where l': "ol_add L l (owner_address n) = (Ok l' :: ('e, owner_linked_list) outcome)" "represents L (os @ [low n]) l'"
    using hex_library.represents_add [OF assms(1,3)] assms(5,6) unfolding usable_def by blast
  have contains: "ol_contains L l (owner_address n) = (Ok False :: ('e, bool) outcome)"
    using assms(5,6) by (simp add: hex_library.represents_contains [OF assms(1,3)] usable_def)
  obtain c where c: "addOwner_data L (owner_address n) (confirmations sc) = (Ok c :: ('e, bytes) outcome)" "c \<noteq> []"
    using assms(8) invocation_nonempty [OF assms(1)] by (simp add: addOwner_data_def hex_library.encodeInt_nonneg [OF assms(1)])
  have "safe_call L (os, t) c (low n # os, confirmations sc)" for t
    by (rule safe_add [OF assms(1) c(1)]) (use assms(5,6,8,9) in \<open>simp_all add: usable_def\<close>)
  then show ?thesis using assms(2,4,7) l' contains c by (auto simp: addOwnerData_def)
qed

lemma removeOwnerData_run:
  assumes "hex_library L" "ownerList b = Some l" "represents L os l" "modifiableOwners b = Some (m # ms)"
    and "low m \<in> set os" "usable L m" "newScheme b = Some sc" "1 \<le> confirmations sc" "confirmations sc < int (length os)"
  shows "\<exists>c l'. removeOwnerData L b = (Ok (c, b\<lparr>modifiableOwners := Some ms, ownerList := Some l',
      b_wallet := changeConfirmationCount (b_wallet b) (confirmations sc)\<rparr>) :: ('e, bytes \<times> builder) outcome) \<and>
    c \<noteq> [] \<and> represents L (remove1 (low m) os) l' \<and> (\<forall>t. safe_call L (os, t) c (remove1 (low m) os, confirmations sc))"
proof -
  obtain i where i: "i < length os" "firstIndex (\<lambda>a. a = low m) os = Some i" "os ! i = low m"
    using firstIndex_present [OF assms(5)] by blast
  obtain l' where l': "ol_remove L l (owner_address m) = (Ok l' :: ('e, owner_linked_list) outcome)" "represents L (remove1 (low m) os) l'"
    using hex_library.represents_remove [OF assms(1,3)] assms(6) unfolding usable_def by blast
  let ?pre = "(sentinelAddress L # os) ! i"
  have pre: "ol_addressBefore L l (owner_address m) = (Ok ?pre :: ('e, address) outcome)"
    using assms(6) i by (cases i) (simp_all add: usable_def hex_library.represents_before [OF assms(1,3)])
  obtain c where c: "removeOwner_data L ?pre (owner_address m) (confirmations sc) = (Ok c :: ('e, bytes) outcome)" "c \<noteq> []"
    using assms(8) invocation_nonempty [OF assms(1)] by (simp add: removeOwner_data_def hex_library.encodeInt_nonneg [OF assms(1)])
  have "distinct os" using assms(3) by (simp add: represents_def)
  then have "safe_call L (os, t) c (remove1 (low m) os, confirmations sc)" for t
    by (rule safe_remove [OF assms(1) c(1)]) (use i assms(8,9) in simp_all)
  then show ?thesis using assms(2,4,7) l' pre c by (auto simp: removeOwnerData_def takeModifiable_def)
qed

lemma edit_tx_draft:
  assumes "status (b_transaction b) = draft"
  shows "edit_tx (change_recipient now v) b = (Ok (b\<lparr>b_transaction := (b_transaction b)\<lparr>recipient := v, updatedDate := Some now\<rparr>\<rparr>) :: ('e, builder) outcome)"
    and "edit_tx (change_operation now p) b = (Ok (b\<lparr>b_transaction := (b_transaction b)\<lparr>operation := p, updatedDate := Some now\<rparr>\<rparr>) :: ('e, builder) outcome)"
    and "edit_tx (change_data now d) b = (Ok (b\<lparr>b_transaction := (b_transaction b)\<lparr>tx_data := d, updatedDate := Some now\<rparr>\<rparr>) :: ('e, builder) outcome)"
  using assms by (simp_all add: edit_tx_def tx_edit_defs tx_status_defs tx_stamp_defs assert_defs)

lemma buildTransactionData_one:
  assumes "status (b_transaction b) = draft" "address_of (b_wallet b) = Some a" "d \<noteq> []"
  shows "buildTransactionData E now [d] b = Ok (b\<lparr>b_transaction := (b_transaction b)\<lparr>recipient := Some a, updatedDate := Some now,
      operation := Some call, tx_data := Some d\<rparr>\<rparr>)"
  using assms by (simp add: buildTransactionData_def edit_tx_draft)

lemma buildTransactionData_two:
  assumes "status (b_transaction b) = draft" "address_of (b_wallet b) = Some a" "d \<noteq> []" "d' \<noteq> []"
    and "out_address E (b_multiSend b) = Some m"
  shows "buildTransactionData E now [d, d'] b = Ok (b\<lparr>b_transaction := (b_transaction b)\<lparr>recipient := Some m, updatedDate := Some now,
      operation := Some delegateCall, tx_data := Some (multiSend (out_lib E) (map (\<lambda>d. \<lparr>ms_operation = MS_call, ms_to = a,
        ms_value = 0, ms_data = d\<rparr>) [d, d']))\<rparr>\<rparr>)"
  using assms by (simp add: buildTransactionData_def multiSendData_def edit_tx_draft)

lemma set_replace: "a \<in> set os \<Longrightarrow> set (map (\<lambda>y. if y = a then b else y) os) = insert b (set os - {a})"
  by auto

text \<open>A wallet that can be recovered: it has the owners of all roles, the paper wallet's accounts are owners of the safe,
  and the new device and extension are not.\<close>

definition recoverable :: "hex_functions \<Rightarrow> wallet \<Rightarrow> bool" where
  "recoverable L w \<longleftrightarrow>
     (let us = filter (\<lambda>x. owner_role x = unknown) (owners w); ks = filter (\<lambda>x. owner_role x \<noteq> unknown) (owners w) in
      roles_unique (owners w) \<and> hasAllRoles w \<and> list_all (usable L) (owners w) \<and>
      distinct (map low us) \<and> distinct (map low ks) \<and>
      list_all (\<lambda>k. low k \<in> low ` set us \<longleftrightarrow> owner_role k \<in> {paperWallet, paperWalletDerived}) ks)"

lemma recoverable_owners:
  assumes "recoverable L w"
  obtains d p q where "owner_with w thisDevice = Some d" "owner_with w paperWallet = Some p"
    "owner_with w paperWalletDerived = Some q"
    "{y \<in> set (owners w). owner_role y \<noteq> unknown} = {d, p, q} \<union> set_option (owner_with w browserExtension)"
    "set (readonlyAddresses w) = {low p, low q}" "low p \<noteq> low q"
proof -
  obtain d p q where dpq: "owner_with w thisDevice = Some d" "owner_with w paperWallet = Some p"
    "owner_with w paperWalletDerived = Some q"
    using assms by (auto simp: recoverable_def hasAllRoles_def requiredRoles_def Let_def)
  have known: "{y \<in> set (owners w). owner_role y \<noteq> unknown} = {d, p, q} \<union> set_option (owner_with w browserExtension)"
    using known_owners dpq assms by (auto simp: recoverable_def Let_def)
  have roles: "owner_role d = thisDevice" "owner_role p = paperWallet" "owner_role q = paperWalletDerived"
    "\<And>x. owner_with w browserExtension = Some x \<Longrightarrow> owner_role x = browserExtension"
    using dpq by (auto simp: owner_with_def dest: first_with_role)
  have "{y \<in> set (owners w). owner_role y = paperWallet \<or> owner_role y = paperWalletDerived} = {p, q}"
  proof -
    have "{y \<in> set (owners w). owner_role y = paperWallet \<or> owner_role y = paperWalletDerived} =
        {y \<in> {y \<in> set (owners w). owner_role y \<noteq> unknown}. owner_role y = paperWallet \<or> owner_role y = paperWalletDerived}" by auto
    also have "\<dots> = {p, q}" unfolding known using roles by (auto split: option.splits)
    finally show ?thesis .
  qed
  then have ro: "set (readonlyAddresses w) = {low p, low q}" by (auto simp: readonlyAddresses_def)
  have "distinct (map low (filter (\<lambda>x. owner_role x \<noteq> unknown) (owners w)))" using assms by (simp add: recoverable_def Let_def)
  moreover have "p \<in> {y \<in> set (owners w). owner_role y \<noteq> unknown}" "q \<in> {y \<in> set (owners w). owner_role y \<noteq> unknown}" "p \<noteq> q"
    unfolding known using roles by auto
  ultimately have "low p \<noteq> low q" by (auto simp: distinct_map inj_on_def)
  with dpq known ro show ?thesis by (rule that)
qed

lemma recoverable_known:
  assumes "recoverable L w" "k \<in> set (owners w)" "owner_role k \<noteq> unknown"
  shows "usable L k" "low k \<in> low ` {y \<in> set (owners w). owner_role y = unknown} \<longleftrightarrow> owner_role k \<in> {paperWallet, paperWalletDerived}"
    "k' \<in> set (owners w) \<Longrightarrow> owner_role k' \<noteq> unknown \<Longrightarrow> low k = low k' \<Longrightarrow> k = k'"
  using assms by (auto simp: recoverable_def Let_def list_all_iff distinct_map inj_on_def)

text \<open>The owners that may change are those of the safe that the paper wallet does not hold.\<close>

lemma mutable_owners:
  assumes "recoverable L w"
  shows "length (mutableOwners w) + 2 = length (filter (\<lambda>x. owner_role x = unknown) (owners w))"
    and "low ` {y \<in> set (owners w). owner_role y = unknown} = set (readonlyAddresses w) \<union> low ` set (mutableOwners w)"
    and "low ` set (mutableOwners w) \<inter> set (readonlyAddresses w) = {}"
    and "distinct (map low (mutableOwners w))"
    and "list_all (usable L) (mutableOwners w)"
proof -
  obtain d p q where o: "owner_with w paperWallet = Some p" "owner_with w paperWalletDerived = Some q"
    "set (readonlyAddresses w) = {low p, low q}" "low p \<noteq> low q"
    by (rule recoverable_owners [OF assms])
  let ?us = "filter (\<lambda>x. owner_role x = unknown) (owners w)"
  have m: "mutableOwners w = filter (\<lambda>x. low x \<notin> set (readonlyAddresses w)) ?us"
    by (simp add: mutableOwners_def conj_commute)
  have d: "distinct (map low ?us)" using assms by (simp add: recoverable_def Let_def)
  have "low p \<in> low ` {y \<in> set (owners w). owner_role y = unknown}" "low q \<in> low ` {y \<in> set (owners w). owner_role y = unknown}"
    using recoverable_known(2) [OF assms, of p] recoverable_known(2) [OF assms, of q] o(1,2)
    by (auto simp: owner_with_def dest!: first_with_role)
  then have sub: "set (readonlyAddresses w) \<subseteq> low ` set ?us" using o(3) by simp
  show "length (mutableOwners w) + 2 = length ?us"
    using length_filter_removed [OF d sub] o(3,4) unfolding m by simp
  show "low ` {y \<in> set (owners w). owner_role y = unknown} = set (readonlyAddresses w) \<union> low ` set (mutableOwners w)"
    using sub unfolding m by auto
  show "low ` set (mutableOwners w) \<inter> set (readonlyAddresses w) = {}" unfolding m by auto
  show "distinct (map low (mutableOwners w))" using d unfolding m by (rule distinct_map_filter)
  show "list_all (usable L) (mutableOwners w)"
    using assms by (auto simp: recoverable_def Let_def list_all_iff mutableOwners_def)
qed

lemma read_schemes_run:
  assumes "hex_library L" "recoverable L (b_wallet b)"
  shows "\<exists>l. read_schemes L b = (Ok (b\<lparr>oldScheme := Some (oldWalletScheme (b_wallet b)), newScheme := Some (newWalletScheme (b_wallet b)),
      ownerList := Some l, readonlyOwnerAddresses := Some (readonlyAddresses (b_wallet b)),
      modifiableOwners := Some (mutableOwners (b_wallet b))\<rparr>) :: ('e, builder) outcome) \<and>
    represents L (map low (filter (\<lambda>x. owner_role x = unknown) (owners (b_wallet b)))) l"
proof -
  let ?as = "map owner_address (filter (\<lambda>x. owner_role x = unknown) (owners (b_wallet b)))"
  have "list_all (valid_address L) ?as" "distinct (map lowercased ?as)" "sentinelAddress L \<notin> lowercased ` set ?as"
    using assms(2) by (auto simp: recoverable_def Let_def list_all_iff usable_def comp_def)
  then obtain l where "ol_add_all L (ol_init L) ?as = (Ok l :: ('e, owner_linked_list) outcome)" "represents L (map lowercased ?as) l"
    using hex_library.add_all_represents [OF assms(1)] by blast
  then show ?thesis by (intro exI [of _ l]) (simp add: read_schemes_def ownerLinkedList_def Let_def comp_def)
qed

text \<open>The calls of the transaction that the builder sends.\<close>

definition carries :: "'e outside \<Rightarrow> builder \<Rightarrow> bytes list \<Rightarrow> bool" where
  "carries E b calls \<longleftrightarrow>
     (let tx = b_transaction b in
      case calls of
        [c] \<Rightarrow> recipient tx = address_of (b_wallet b) \<and> operation tx = Some call \<and> tx_data tx = Some c
      | _ \<Rightarrow> recipient tx = out_address E (b_multiSend b) \<and> operation tx = Some delegateCall \<and>
          tx_data tx = Some (multiSend (out_lib E) (map (\<lambda>c. \<lparr>ms_operation = MS_call, ms_to = the (address_of (b_wallet b)),
            ms_value = 0, ms_data = c\<rparr>) calls)))"

text \<open>What a step of the builder leaves alone.\<close>

definition same_frame :: "builder \<Rightarrow> builder \<Rightarrow> bool" where
  "same_frame b b' \<longleftrightarrow> b_transaction b' = b_transaction b \<and> b_multiSend b' = b_multiSend b \<and>
     address_of (b_wallet b') = address_of (b_wallet b) \<and> owners (b_wallet b') = owners (b_wallet b)"

lemma first_swap:
  assumes hex: "hex_library L" and rec: "recoverable L (b_wallet b)" and scheme: "mutableOwners (b_wallet b) = m # ms"
    and bs: "ownerList b = Some l" "modifiableOwners b = Some (m # ms)"
      "represents L (map low (filter (\<lambda>x. owner_role x = unknown) (owners (b_wallet b)))) l"
    and d: "owner_with (b_wallet b) thisDevice = Some d"
  shows "\<exists>pre l' os. swapOwnerData L thisDevice b = (Ok (swapOwner_data L pre (owner_address m) (owner_address d),
      b\<lparr>modifiableOwners := Some ms, ownerList := Some l'\<rparr>) :: ('e, bytes \<times> builder) outcome) \<and> represents L os l' \<and>
    set os = {low d} \<union> set (readonlyAddresses (b_wallet b)) \<union> low ` set ms \<and>
    (\<forall>t. safe_call L (map low (filter (\<lambda>x. owner_role x = unknown) (owners (b_wallet b))), t)
      (swapOwner_data L pre (owner_address m) (owner_address d)) (os, t))"
proof -
  let ?w = "b_wallet b"
  let ?os = "map low (filter (\<lambda>x. owner_role x = unknown) (owners ?w))"
  have set: "set ?os = set (readonlyAddresses ?w) \<union> low ` set (m # ms)" using mutable_owners(2) [OF rec] scheme by simp
  have dk: "d \<in> set (owners ?w)" "owner_role d = thisDevice" using d by (auto simp: owner_with_def dest: first_with_role)
  have fresh: "low d \<notin> set ?os" using recoverable_known(2) [OF rec dk(1)] dk(2) by simp
  have us: "usable L m" "usable L d"
    using mutable_owners(5) [OF rec] scheme recoverable_known(1) [OF rec dk(1)] dk(2) by simp_all
  have m: "low m \<in> set ?os" using set by simp
  obtain pre l' where "swapOwnerData L thisDevice b = (Ok (swapOwner_data L pre (owner_address m) (owner_address d),
      b\<lparr>modifiableOwners := Some ms, ownerList := Some l'\<rparr>) :: ('e, bytes \<times> builder) outcome)"
    "represents L (map (\<lambda>y. if y = low m then low d else y) ?os) l'"
    "\<forall>t. safe_call L (?os, t) (swapOwner_data L pre (owner_address m) (owner_address d)) (map (\<lambda>y. if y = low m then low d else y) ?os, t)"
    using swapOwnerData_run [OF hex bs(1,3,2) m d us fresh, where ?'e = 'e] by blast
  moreover have "insert (low d) (set ?os - {low m}) = {low d} \<union> set (readonlyAddresses ?w) \<union> low ` set ms"
    using mutable_owners(3,4) [OF rec] unfolding set scheme by auto
  ultimately show ?thesis using set_replace [OF m, of "low d"] by (intro exI conjI) (assumption, assumption, simp only:, assumption)
qed

lemma extension_owner:
  assumes "recoverable L w" "owner_with w browserExtension = Some x" "owner_with w thisDevice = Some d"
  shows "usable L x" "low x \<notin> {low d} \<union> set (readonlyAddresses w) \<union> low ` set (mutableOwners w)"
proof -
  have x: "x \<in> set (owners w)" "owner_role x = browserExtension" and d: "d \<in> set (owners w)" "owner_role d = thisDevice"
    using assms by (auto simp: owner_with_def dest: first_with_role)
  show "usable L x" using recoverable_known(1) [OF assms(1) x(1)] x(2) by simp
  have "low x \<noteq> low d" using recoverable_known(3) [OF assms(1) x(1), of d] x d by auto
  moreover have "low x \<notin> set (readonlyAddresses w) \<union> low ` set (mutableOwners w)"
    using recoverable_known(2) [OF assms(1) x(1)] mutable_owners(2) [OF assms(1)] x(2) by simp
  ultimately show "low x \<notin> {low d} \<union> set (readonlyAddresses w) \<union> low ` set (mutableOwners w)" by blast
qed

lemma changeable_owner:
  assumes "recoverable L w" "owner_with w thisDevice = Some d" "m \<in> set (mutableOwners w)"
  shows "low m \<noteq> low d" "low m \<notin> set (readonlyAddresses w)"
proof -
  show "low m \<notin> set (readonlyAddresses w)" using mutable_owners(3) [OF assms(1)] assms(3) by blast
  have "d \<in> set (owners w)" "owner_role d = thisDevice" using assms(2) by (auto simp: owner_with_def dest: first_with_role)
  then have "low d \<notin> set (readonlyAddresses w) \<union> low ` set (mutableOwners w)"
    using recoverable_known(2) [OF assms(1), of d] mutable_owners(2) [OF assms(1)] by simp
  then show "low m \<noteq> low d" using assms(3) by (metis UnI2 imageI)
qed

lemma swap_nonempty: "hex_library L \<Longrightarrow> swapOwner_data L pre a b \<noteq> []"
  by (simp add: swapOwner_data_def invocation_nonempty)

lemma scheme_neq [simp]: "withoutExtension \<noteq> withExtension" "withExtension \<noteq> withoutExtension"
  by (simp_all add: withoutExtension_def withExtension_def)

lemma recoverable_length:
  assumes "recoverable L w" "set (readonlyAddresses w) \<subseteq> set os"
  shows "2 \<le> length os"
proof -
  obtain p q where ro: "set (readonlyAddresses w) = {low p, low q}" "low p \<noteq> low q" by (rule recoverable_owners [OF assms(1)])
  have "card {low p, low q} \<le> card (set os)" using assms(2) unfolding ro(1) by (intro card_mono) simp
  moreover have "card {low p, low q} = 2" using ro(2) by simp
  ultimately show ?thesis using card_length [of os] by linarith
qed

text \<open>The second call of the recovery, by cases: the extension is added, takes the place of the old one, or the old one is removed.\<close>

lemma second_change_add:
  assumes hex: "hex_library L" and rec: "recoverable L (b_wallet b)"
    and bs: "ownerList b = Some l" "represents L os l" "newScheme b = Some withExtension"
    and d: "owner_with (b_wallet b) thisDevice = Some d" and os: "set os = {low d} \<union> set (readonlyAddresses (b_wallet b))"
    and x: "owner_with (b_wallet b) browserExtension = Some x" and len: "2 \<le> length os"
  shows "\<exists>c b' os'. second_change L withoutExtension withExtension b = (Ok (c, b') :: ('e, bytes \<times> builder) outcome) \<and> c \<noteq> [] \<and> same_frame b b' \<and>
    confirmationCount (b_wallet b') = confirmations withExtension \<and> safe_call L (os, confirmations withoutExtension) c (os', confirmations withExtension) \<and>
    set os' = {low d} \<union> set (readonlyAddresses (b_wallet b)) \<union> low ` set_option (owner_with (b_wallet b) browserExtension)"
proof -
  note ext = extension_owner [OF rec x d]
  have n: "1 \<le> confirmations withExtension" "confirmations withExtension \<le> int (length os) + 1" using len by (simp_all add: withExtension_def)
  have fresh: "low x \<notin> set os" using ext(2) os by simp
  obtain c l' where "addOwnerData L browserExtension b = (Ok (c, b\<lparr>ownerList := Some l',
      b_wallet := changeConfirmationCount (b_wallet b) (confirmations withExtension)\<rparr>) :: ('e, bytes \<times> builder) outcome)"
    "c \<noteq> []" "safe_call L (os, confirmations withoutExtension) c (low x # os, confirmations withExtension)"
    using addOwnerData_run [OF hex bs(1,2) x ext(1) fresh bs(3) n, where ?'e = 'e] by blast
  moreover have "set (low x # os) = {low d} \<union> set (readonlyAddresses (b_wallet b)) \<union> low ` set_option (owner_with (b_wallet b) browserExtension)"
    unfolding list.set os x by simp
  ultimately show ?thesis
    by (intro exI [of _ c] exI [of _ "b\<lparr>ownerList := Some l', b_wallet := changeConfirmationCount (b_wallet b) (confirmations withExtension)\<rparr>"]
        exI [of _ "low x # os"])
      (simp add: second_change_def same_frame_def changeConfirmationCount_def)
qed

lemma second_change_swap:
  assumes hex: "hex_library L" and rec: "recoverable L (b_wallet b)"
    and bs: "ownerList b = Some l" "represents L os l" "modifiableOwners b = Some [m]"
    and d: "owner_with (b_wallet b) thisDevice = Some d" and os: "set os = {low d} \<union> set (readonlyAddresses (b_wallet b)) \<union> {low m}"
    and m: "m \<in> set (mutableOwners (b_wallet b))" and x: "owner_with (b_wallet b) browserExtension = Some x"
    and count: "confirmationCount (b_wallet b) = confirmations withExtension"
  shows "\<exists>c b' os'. second_change L withExtension withExtension b = (Ok (c, b') :: ('e, bytes \<times> builder) outcome) \<and> c \<noteq> [] \<and> same_frame b b' \<and>
    confirmationCount (b_wallet b') = confirmations withExtension \<and> safe_call L (os, confirmations withExtension) c (os', confirmations withExtension) \<and>
    set os' = {low d} \<union> set (readonlyAddresses (b_wallet b)) \<union> low ` set_option (owner_with (b_wallet b) browserExtension)"
proof -
  note ext = extension_owner [OF rec x d]
  have fresh: "low x \<notin> set os" using ext(2) os m by auto
  have there: "low m \<in> set os" "usable L m" using os m mutable_owners(5) [OF rec] by (auto simp: list_all_iff)
  obtain pre l' where "swapOwnerData L browserExtension b = (Ok (swapOwner_data L pre (owner_address m) (owner_address x),
      b\<lparr>modifiableOwners := Some [], ownerList := Some l'\<rparr>) :: ('e, bytes \<times> builder) outcome)"
    "safe_call L (os, confirmations withExtension) (swapOwner_data L pre (owner_address m) (owner_address x))
      (map (\<lambda>y. if y = low m then low x else y) os, confirmations withExtension)"
    using swapOwnerData_run [OF hex bs there(1) x there(2) ext(1) fresh, where ?'e = 'e] by blast
  moreover have "set (map (\<lambda>y. if y = low m then low x else y) os) =
      {low d} \<union> set (readonlyAddresses (b_wallet b)) \<union> low ` set_option (owner_with (b_wallet b) browserExtension)"
    unfolding set_replace [OF there(1)] os using changeable_owner [OF rec d m] x by auto
  ultimately show ?thesis using count swap_nonempty [OF hex]
    by (intro exI [of _ "swapOwner_data L pre (owner_address m) (owner_address x)"]
        exI [of _ "b\<lparr>modifiableOwners := Some [], ownerList := Some l'\<rparr>"]
        exI [of _ "map (\<lambda>y. if y = low m then low x else y) os"])
      (simp add: second_change_def same_frame_def)
qed

lemma second_change_remove:
  assumes hex: "hex_library L" and rec: "recoverable L (b_wallet b)"
    and bs: "ownerList b = Some l" "represents L os l" "modifiableOwners b = Some [m]" "newScheme b = Some withoutExtension"
    and d: "owner_with (b_wallet b) thisDevice = Some d" and os: "set os = {low d} \<union> set (readonlyAddresses (b_wallet b)) \<union> {low m}"
    and m: "m \<in> set (mutableOwners (b_wallet b))" and x: "owner_with (b_wallet b) browserExtension = None" and len: "2 \<le> length os"
  shows "\<exists>c b' os'. second_change L withExtension withoutExtension b = (Ok (c, b') :: ('e, bytes \<times> builder) outcome) \<and> c \<noteq> [] \<and> same_frame b b' \<and>
    confirmationCount (b_wallet b') = confirmations withoutExtension \<and> safe_call L (os, confirmations withExtension) c (os', confirmations withoutExtension) \<and>
    set os' = {low d} \<union> set (readonlyAddresses (b_wallet b)) \<union> low ` set_option (owner_with (b_wallet b) browserExtension)"
proof -
  have n: "1 \<le> confirmations withoutExtension" "confirmations withoutExtension < int (length os)" using len by (simp_all add: withoutExtension_def)
  have there: "low m \<in> set os" "usable L m" using os m mutable_owners(5) [OF rec] by (auto simp: list_all_iff)
  obtain c l' where "removeOwnerData L b = (Ok (c, b\<lparr>modifiableOwners := Some [], ownerList := Some l',
      b_wallet := changeConfirmationCount (b_wallet b) (confirmations withoutExtension)\<rparr>) :: ('e, bytes \<times> builder) outcome)"
    "c \<noteq> []" "safe_call L (os, confirmations withExtension) c (remove1 (low m) os, confirmations withoutExtension)"
    using removeOwnerData_run [OF hex bs(1-3) there bs(4) n, where ?'e = 'e] by blast
  moreover have "set (remove1 (low m) os) = {low d} \<union> set (readonlyAddresses (b_wallet b)) \<union> low ` set_option (owner_with (b_wallet b) browserExtension)"
  proof -
    have "set (remove1 (low m) os) = set os - {low m}" using bs(2) by (simp add: represents_def)
    then show ?thesis using os changeable_owner [OF rec d m] x by auto
  qed
  ultimately show ?thesis
    by (intro exI [of _ c] exI [of _ "b\<lparr>modifiableOwners := Some [], ownerList := Some l',
          b_wallet := changeConfirmationCount (b_wallet b) (confirmations withoutExtension)\<rparr>"]
        exI [of _ "remove1 (low m) os"])
      (simp add: second_change_def same_frame_def changeConfirmationCount_def withExtension_def withoutExtension_def)
qed

lemma second_change_run:
  assumes hex: "hex_library L" and rec: "recoverable L (b_wallet b)"
    and bs: "ownerList b = Some l" "represents L os l" "newScheme b = Some new" "modifiableOwners b = Some ms"
    and d: "owner_with (b_wallet b) thisDevice = Some d"
    and os: "set os = {low d} \<union> set (readonlyAddresses (b_wallet b)) \<union> low ` set ms"
    and ms: "if old = withoutExtension then ms = [] else \<exists>m. ms = [m] \<and> m \<in> set (mutableOwners (b_wallet b))"
    and new: "new = (if owner_with (b_wallet b) browserExtension = None then withoutExtension else withExtension)"
    and cases: "old \<in> {withoutExtension, withExtension}" "\<not> (old = withoutExtension \<and> new = withoutExtension)"
    and count: "confirmationCount (b_wallet b) = confirmations old"
  shows "\<exists>c b' os'. second_change L old new b = (Ok (c, b') :: ('e, bytes \<times> builder) outcome) \<and> c \<noteq> [] \<and> same_frame b b' \<and>
    confirmationCount (b_wallet b') = confirmations new \<and> safe_call L (os, confirmations old) c (os', confirmations new) \<and>
    set os' = {low d} \<union> set (readonlyAddresses (b_wallet b)) \<union> low ` set_option (owner_with (b_wallet b) browserExtension)"
proof -
  let ?x = "owner_with (b_wallet b) browserExtension"
  have "set (readonlyAddresses (b_wallet b)) \<subseteq> set os" unfolding os by blast
  then have len: "2 \<le> length os" by (rule recoverable_length [OF rec])
  consider (add) x where "old = withoutExtension" "?x = Some x" "new = withExtension" "ms = []"
    | (swap) x m where "old = withExtension" "?x = Some x" "new = withExtension" "ms = [m]" "m \<in> set (mutableOwners (b_wallet b))"
    | (remove) m where "old = withExtension" "?x = None" "new = withoutExtension" "ms = [m]" "m \<in> set (mutableOwners (b_wallet b))"
    using cases ms new by (cases ?x) (auto simp: withExtension_def withoutExtension_def split: if_splits)
  then show ?thesis
  proof cases
    case add
    show ?thesis unfolding add(1,3)
      by (rule second_change_add [OF hex rec bs(1,2) bs(3) [unfolded add(3)] d _ add(2) len]) (use os add(4) in simp)
  next
    case swap
    show ?thesis unfolding swap(1,3)
      by (rule second_change_swap [OF hex rec bs(1,2) bs(4) [unfolded swap(4)] d _ swap(5,2) count [unfolded swap(1)]]) (use os swap(4) in simp)
  next
    case remove
    show ?thesis unfolding remove(1,3)
      by (rule second_change_remove [OF hex rec bs(1,2) bs(4) [unfolded remove(4)] bs(3) [unfolded remove(3)] d _ remove(5,2) len])
        (use os remove(4) in simp)
  qed
qed

lemma schemes_of:
  assumes "recoverable L w" "oldWalletScheme w \<in> set supportedSchemes" "newWalletScheme w \<in> set supportedSchemes"
  shows "newWalletScheme w = (if owner_with w browserExtension = None then withoutExtension else withExtension)"
    and "oldWalletScheme w \<in> {withoutExtension, withExtension}" "confirmationCount w = confirmations (oldWalletScheme w)"
    and "length (mutableOwners w) = (if oldWalletScheme w = withoutExtension then 1 else 2)"
proof -
  show "newWalletScheme w = (if owner_with w browserExtension = None then withoutExtension else withExtension)"
    using assms(3) by (auto simp: supportedSchemes_def newWalletScheme_def withoutExtension_def withExtension_def)
  show "oldWalletScheme w \<in> {withoutExtension, withExtension}" using assms(2) by (simp add: supportedSchemes_def)
  show "confirmationCount w = confirmations (oldWalletScheme w)" by (simp add: oldWalletScheme_def)
  show "length (mutableOwners w) = (if oldWalletScheme w = withoutExtension then 1 else 2)"
    using mutable_owners(1) [OF assms(1)] assms(2)
    by (auto simp: supportedSchemes_def oldWalletScheme_def withoutExtension_def withExtension_def)
qed

lemma build_start:
  assumes hex: "hex_library L" and rec: "recoverable L (b_wallet b)"
    and old: "oldWalletScheme (b_wallet b) \<in> set supportedSchemes" and new: "newWalletScheme (b_wallet b) \<in> set supportedSchemes"
    and d: "owner_with (b_wallet b) thisDevice = Some d"
  shows "\<exists>b1 b2 pre m ms l os. read_schemes L b = (Ok b1 :: ('e, builder) outcome) \<and>
    oldScheme b1 = Some (oldWalletScheme (b_wallet b)) \<and> newScheme b1 = Some (newWalletScheme (b_wallet b)) \<and>
    swapOwnerData L thisDevice b1 = (Ok (swapOwner_data L pre (owner_address m) (owner_address d), b2) :: ('e, bytes \<times> builder) outcome) \<and>
    mutableOwners (b_wallet b) = m # ms \<and> b_wallet b2 = b_wallet b \<and> ownerList b2 = Some l \<and> modifiableOwners b2 = Some ms \<and>
    newScheme b2 = Some (newWalletScheme (b_wallet b)) \<and> b_transaction b2 = b_transaction b \<and> b_multiSend b2 = b_multiSend b \<and>
    represents L os l \<and> set os = {low d} \<union> set (readonlyAddresses (b_wallet b)) \<union> low ` set ms \<and>
    (\<forall>t. safe_call L (map low (filter (\<lambda>x. owner_role x = unknown) (owners (b_wallet b))), t)
      (swapOwner_data L pre (owner_address m) (owner_address d)) (os, t))"
proof -
  let ?w = "b_wallet b"
  obtain m ms where m: "mutableOwners ?w = m # ms"
    using schemes_of(4) [OF rec old new] by (cases "mutableOwners ?w") (auto split: if_splits)
  obtain l0 where l0: "read_schemes L b = (Ok (b\<lparr>oldScheme := Some (oldWalletScheme ?w), newScheme := Some (newWalletScheme ?w),
      ownerList := Some l0, readonlyOwnerAddresses := Some (readonlyAddresses ?w),
      modifiableOwners := Some (mutableOwners ?w)\<rparr>) :: ('e, builder) outcome)"
    "represents L (map low (filter (\<lambda>x. owner_role x = unknown) (owners ?w))) l0"
    using read_schemes_run [OF hex rec, where ?'e = 'e] by blast
  define b1 where "b1 = b\<lparr>oldScheme := Some (oldWalletScheme ?w), newScheme := Some (newWalletScheme ?w),
      ownerList := Some l0, readonlyOwnerAddresses := Some (readonlyAddresses ?w),
      modifiableOwners := Some (mutableOwners ?w)\<rparr>"
  have b1: "b_wallet b1 = ?w" "ownerList b1 = Some l0" "modifiableOwners b1 = Some (m # ms)" "b_transaction b1 = b_transaction b"
    "b_multiSend b1 = b_multiSend b" "oldScheme b1 = Some (oldWalletScheme ?w)" "newScheme b1 = Some (newWalletScheme ?w)"
    by (simp_all add: b1_def m)
  obtain pre l1 os1 where "swapOwnerData L thisDevice b1 = (Ok (swapOwner_data L pre (owner_address m) (owner_address d),
      b1\<lparr>modifiableOwners := Some ms, ownerList := Some l1\<rparr>) :: ('e, bytes \<times> builder) outcome)" "represents L os1 l1"
    "set os1 = {low d} \<union> set (readonlyAddresses ?w) \<union> low ` set ms"
    "\<forall>t. safe_call L (map low (filter (\<lambda>x. owner_role x = unknown) (owners ?w)), t)
      (swapOwner_data L pre (owner_address m) (owner_address d)) (os1, t)"
    using first_swap [OF hex _ _ b1(2,3), where ?'e = 'e, unfolded b1(1)] rec m(1) l0(2) d by blast
  with l0(1) b1 m show ?thesis unfolding b1_def [symmetric]
    by (intro exI [of _ b1] exI [of _ "b1\<lparr>modifiableOwners := Some ms, ownerList := Some l1\<rparr>"] exI [of _ pre] exI [of _ m]
        exI [of _ ms] exI [of _ l1] exI [of _ os1]) simp
qed

text \<open>How many calls the builder makes: one when the scheme stays without extension, two otherwise, in one batch.\<close>

lemma buildData_one:
  fixes E :: "'e outside"
  assumes "oldScheme b1 = Some withoutExtension" "newScheme b1 = Some withoutExtension"
    and "swapOwnerData (out_lib E) thisDevice b1 = (Ok (c, b2) :: ('e service_error, bytes \<times> builder) outcome)" "c \<noteq> []"
    and "status (b_transaction b2) = draft" "address_of (b_wallet b2) = Some a"
  shows "\<exists>b'. buildData E now b1 = Ok b' \<and> carries E b' [c] \<and> b_wallet b' = b_wallet b2"
proof -
  let ?b = "b2\<lparr>b_transaction := (b_transaction b2)\<lparr>recipient := Some a, updatedDate := Some now, operation := Some call, tx_data := Some c\<rparr>\<rparr>"
  have "buildData E now b1 = Ok ?b"
    using assms(1-3) buildTransactionData_one [OF assms(5,6,4)] by (simp add: buildData_def Let_def supportedSchemes_def)
  moreover have "carries E ?b [c]" using assms(6) by (simp add: carries_def)
  ultimately show ?thesis by (intro exI [of _ ?b]) simp
qed

lemma buildData_two:
  fixes E :: "'e outside"
  assumes "oldScheme b1 = Some old" "newScheme b1 = Some new" "old \<in> set supportedSchemes" "new \<in> set supportedSchemes"
    and "\<not> (old = withoutExtension \<and> new = withoutExtension)"
    and "swapOwnerData (out_lib E) thisDevice b1 = (Ok (c, b2) :: ('e service_error, bytes \<times> builder) outcome)" "c \<noteq> []"
    and "second_change (out_lib E) old new b2 = (Ok (c', b3) :: ('e service_error, bytes \<times> builder) outcome)" "c' \<noteq> []"
    and "status (b_transaction b3) = draft" "address_of (b_wallet b3) = Some a" "out_address E (b_multiSend b3) = Some send"
  shows "\<exists>b'. buildData E now b1 = Ok b' \<and> carries E b' [c, c'] \<and> b_wallet b' = b_wallet b3"
proof -
  let ?b = "b3\<lparr>b_transaction := (b_transaction b3)\<lparr>recipient := Some send, updatedDate := Some now,
    operation := Some delegateCall, tx_data := Some (multiSend (out_lib E) (map (\<lambda>d. \<lparr>ms_operation = MS_call, ms_to = a,
      ms_value = 0, ms_data = d\<rparr>) [c, c']))\<rparr>\<rparr>"
  have "buildData E now b1 = Ok ?b"
    using assms(1-6,8) buildTransactionData_two [OF assms(10,11,7,9,12)] by (auto simp: buildData_def Let_def)
  moreover have "carries E ?b [c, c']" using assms(11,12) by (simp add: carries_def)
  ultimately show ?thesis by (intro exI [of _ ?b]) simp
qed

text \<open>
  C1. The recovery transaction hands the safe to the recovered keys. For a wallet that can be recovered, in all four
  combinations of a safe with or without browser extension before and after, the safe accepts every call the builder encodes, and
  carrying them out leaves exactly the wallet's device, extension (if any) and paper wallet keys as its owners, with the threshold of
  the new scheme, which is also the one the wallet records. One call is sent to the safe itself, two go through
  the multi-send contract as a delegate call.
\<close>

theorem recovery_data_restores_owners:
  fixes E :: "'e outside"
  assumes hex: "hex_library (out_lib E)" and rec: "recoverable (out_lib E) (b_wallet b)"
    and old: "oldWalletScheme (b_wallet b) \<in> set supportedSchemes" and new: "newWalletScheme (b_wallet b) \<in> set supportedSchemes"
    and tx: "status (b_transaction b) = draft" and addr: "address_of (b_wallet b) = Some a" "out_address E (b_multiSend b) = Some send"
  shows "\<exists>b1 b2 os calls. read_schemes (out_lib E) b = (Ok b1 :: ('e service_error, builder) outcome) \<and> buildData E now b1 = Ok b2 \<and>
    carries E b2 calls \<and>
    safe_calls (out_lib E) (map low (filter (\<lambda>x. owner_role x = unknown) (owners (b_wallet b))), confirmationCount (b_wallet b))
      calls (os, confirmationCount (b_wallet b2)) \<and>
    set os = low ` {y \<in> set (owners (b_wallet b)). owner_role y \<noteq> unknown} \<and>
    confirmationCount (b_wallet b2) = confirmations (newWalletScheme (b_wallet b)) \<and> owners (b_wallet b2) = owners (b_wallet b)"
proof -
  let ?L = "out_lib E" and ?w = "b_wallet b"
  note sc = schemes_of [OF rec old new]
  obtain d p q where d: "owner_with ?w thisDevice = Some d"
    and known: "{y \<in> set (owners ?w). owner_role y \<noteq> unknown} = {d, p, q} \<union> set_option (owner_with ?w browserExtension)"
    and ro: "set (readonlyAddresses ?w) = {low p, low q}"
    by (rule recoverable_owners [OF rec])
  have final: "low ` {y \<in> set (owners ?w). owner_role y \<noteq> unknown} =
      {low d} \<union> set (readonlyAddresses ?w) \<union> low ` set_option (owner_with ?w browserExtension)"
    unfolding known ro by auto
  obtain b1 b2 pre m ms l os where run: "read_schemes ?L b = (Ok b1 :: ('e service_error, builder) outcome)"
      "oldScheme b1 = Some (oldWalletScheme ?w)" "newScheme b1 = Some (newWalletScheme ?w)"
      "swapOwnerData ?L thisDevice b1 = (Ok (swapOwner_data ?L pre (owner_address m) (owner_address d), b2) :: ('e service_error, bytes \<times> builder) outcome)"
    and m: "mutableOwners ?w = m # ms"
    and b2: "b_wallet b2 = ?w" "ownerList b2 = Some l" "modifiableOwners b2 = Some ms" "newScheme b2 = Some (newWalletScheme ?w)"
      "b_transaction b2 = b_transaction b" "b_multiSend b2 = b_multiSend b"
    and os: "represents ?L os l" "set os = {low d} \<union> set (readonlyAddresses ?w) \<union> low ` set ms"
    and first: "\<forall>t. safe_call ?L (map low (filter (\<lambda>x. owner_role x = unknown) (owners ?w)), t)
      (swapOwner_data ?L pre (owner_address m) (owner_address d)) (os, t)"
    using build_start [OF hex rec old new d, where ?'e = "'e service_error"] by (elim exE conjE)
  let ?c = "swapOwner_data ?L pre (owner_address m) (owner_address d)"
  note ne = swap_nonempty [OF hex, of pre "owner_address m" "owner_address d"]
  show ?thesis
  proof (cases "oldWalletScheme ?w = withoutExtension \<and> newWalletScheme ?w = withoutExtension")
    case True
    have ms: "ms = []" "owner_with ?w browserExtension = None" using True sc m by (auto split: if_splits)
    have count: "confirmationCount ?w = confirmations (newWalletScheme ?w)" using True sc(3) by simp
    obtain b' where b': "buildData E now b1 = Ok b'" "carries E b' [?c]" "b_wallet b' = ?w"
      using buildData_one [OF _ _ run(4) ne] run(2,3) True tx addr b2(1,5) by auto
    show ?thesis
      by (rule exI [of _ b1], rule exI [of _ b'], rule exI [of _ os], rule exI [of _ "[?c]"])
        (use b' run(1) b2 os ms final count safe_calls_one first in simp)
  next
    case False
    have ms: "if oldWalletScheme ?w = withoutExtension then ms = [] else \<exists>m. ms = [m] \<and> m \<in> set (mutableOwners ?w)"
      using sc(4) m by (cases ms) (auto split: if_splits)
    obtain c b3 os' where s2: "second_change ?L (oldWalletScheme ?w) (newWalletScheme ?w) b2 = (Ok (c, b3) :: ('e service_error, bytes \<times> builder) outcome)"
        "c \<noteq> []" "same_frame b2 b3" "confirmationCount (b_wallet b3) = confirmations (newWalletScheme ?w)"
        "safe_call ?L (os, confirmations (oldWalletScheme ?w)) c (os', confirmations (newWalletScheme ?w))"
        "set os' = {low d} \<union> set (readonlyAddresses ?w) \<union> low ` set_option (owner_with ?w browserExtension)"
      using second_change_run [OF hex _ b2(2) os(1) b2(4,3), where ?'e = "'e service_error", unfolded b2(1), OF rec d os(2) ms sc(1,2) False sc(3)]
      by (elim exE conjE)
    obtain b' where b': "buildData E now b1 = Ok b'" "carries E b' [?c, c]" "b_wallet b' = b_wallet b3"
      using buildData_two [OF run(2,3) old new False run(4) ne s2(1,2), of a send now] tx addr b2 s2(3) by (auto simp: same_frame_def)
    have ow: "owners (b_wallet b3) = owners ?w" using s2(3) b2(1) by (simp add: same_frame_def)
    have calls: "safe_calls ?L (map low (filter (\<lambda>x. owner_role x = unknown) (owners ?w)), confirmationCount ?w) [?c, c]
        (os', confirmations (newWalletScheme ?w))"
      unfolding sc(3) by (rule safe_calls_two [OF first [rule_format] s2(5)])
    show ?thesis
      by (rule exI [of _ b1], rule exI [of _ b'], rule exI [of _ os'], rule exI [of _ "[?c, c]"])
        (use b' ow run(1) s2(4,6) final calls in simp)
  qed
qed

text \<open>Concrete owners.\<close>

definition sample_known :: "ownerRole \<Rightarrow> 8 word \<Rightarrow> owner" where
  "sample_known r k = \<lparr>owner_address = sample_address k, owner_role = r\<rparr>"

lemma sample_known_sel [simp]: "owner_role (sample_known r k) = r" "owner_address (sample_known r k) = sample_address k"
  by (simp_all add: sample_known_def)

lemma sample_address_nonzero: "k \<noteq> 0 \<Longrightarrow> sample_address k \<noteq> address_zero"
proof -
  have "address_zero = sample_address 0" by code_simp
  then show "k \<noteq> 0 \<Longrightarrow> ?thesis" using sample_address_eq [of k 0] by metis
qed

lemma sample_known_usable: "k \<noteq> 0 \<Longrightarrow> usable reference_library (sample_known r k)"
  using sample_address_sentinel sample_address_valid sample_address_nonzero by (simp add: usable_def)

definition lost_wallet :: wallet where
  "lost_wallet = (wallet_empty ''w'')\<lparr>state := RecoveryDraftState, address_of := Some (sample_address 9),
     owners := map (sample_known unknown) [5, 3, 4] @ [sample_known thisDevice 7, sample_known paperWallet 3, sample_known paperWalletDerived 4]\<rparr>"

lemma lost_wallet_recoverable: "recoverable reference_library lost_wallet"
  by (simp add: recoverable_def lost_wallet_def roles_unique_def hasAllRoles_def requiredRoles_def owner_with_def
      first_with_def sample_address_eq sample_known_usable)

definition sample_outside :: "unit outside" where
  "sample_outside = \<lparr>out_lib = reference_library,
     out_node = \<lparr>node_getBalance = (\<lambda>a. Throw (OtherError ())), node_call = (\<lambda>a d. Throw (OtherError ()))\<rparr>,
     out_getStorageAt = (\<lambda>a n. Throw (OtherError ())),
     out_metadata = \<lparr>multiSendContractAddress = sample_address 8, proxyFactoryAddress = sample_address 8,
       safeFunderAddress = sample_address 8, md_metadata = []\<rparr>,
     out_address = Some, out_hash = (\<lambda>tx. [1]), out_sign = (\<lambda>tx k. k),
     out_ethSignature = (\<lambda>x. \<lparr>sig_r = '''', sig_s = '''', sig_v = 27\<rparr>), out_derive_phrase = (\<lambda>p. None), out_derive_at = (\<lambda>e n. e),
     out_estimate = (\<lambda>r. Throw (OtherError ())), out_submit = (\<lambda>r. Throw (OtherError ()))\<rparr>"

definition sample_builder :: builder where
  "sample_builder = \<lparr>b_wallet = lost_wallet, b_accountID = '''', oldScheme = None, newScheme = None, readonlyOwnerAddresses = None,
     ownerList = None, modifiableOwners = None, b_multiSend = sample_address 8, ownerContract = sample_address 9,
     b_transaction = tx_init 0 ''t'' walletRecovery ''w'' ''''\<rparr>"

theorem recovery_data_restores_owners_witness:
  "\<exists>b1 b2 os calls. read_schemes reference_library sample_builder = (Ok b1 :: (unit service_error, builder) outcome) \<and>
    buildData sample_outside 0 b1 = Ok b2 \<and> carries sample_outside b2 calls \<and>
    safe_calls reference_library ([sample_address 5, sample_address 3, sample_address 4], 1) calls (os, 1) \<and>
    set os = {sample_address 7, sample_address 3, sample_address 4}"
proof -
  have b: "b_wallet sample_builder = lost_wallet" "out_lib sample_outside = reference_library"
    by (simp_all add: sample_builder_def sample_outside_def)
  have schemes: "oldWalletScheme (b_wallet sample_builder) \<in> set supportedSchemes" "newWalletScheme (b_wallet sample_builder) \<in> set supportedSchemes"
    unfolding b by (simp_all add: lost_wallet_def oldWalletScheme_def newWalletScheme_def supportedSchemes_def withoutExtension_def
        wallet_empty_def owner_with_def first_with_def)
  have tx: "status (b_transaction sample_builder) = draft" "address_of (b_wallet sample_builder) = Some (sample_address 9)"
    "out_address sample_outside (b_multiSend sample_builder) = Some (sample_address 8)"
    by (simp_all add: sample_builder_def tx_init_def tx_stamp_defs lost_wallet_def sample_outside_def)
  have hex: "hex_library (out_lib sample_outside)" "recoverable (out_lib sample_outside) (b_wallet sample_builder)"
    unfolding b using reference.hex_library_axioms lost_wallet_recoverable by simp_all
  have known: "low ` {y \<in> set (owners lost_wallet). owner_role y \<noteq> unknown} = {sample_address 7, sample_address 3, sample_address 4}"
    unfolding set_filter [symmetric] by (simp add: lost_wallet_def)
  have start: "map low (filter (\<lambda>x. owner_role x = unknown) (owners lost_wallet)) = [sample_address 5, sample_address 3, sample_address 4]"
    "confirmationCount lost_wallet = 1" "confirmations (newWalletScheme lost_wallet) = 1"
    by (simp_all add: lost_wallet_def wallet_empty_def newWalletScheme_def owner_with_def first_with_def)
  obtain b1 b2 os calls where run: "read_schemes reference_library sample_builder = (Ok b1 :: (unit service_error, builder) outcome)"
    "buildData sample_outside 0 b1 = Ok b2" "carries sample_outside b2 calls"
    "safe_calls reference_library ([sample_address 5, sample_address 3, sample_address 4], 1) calls (os, confirmationCount (b_wallet b2))"
    "set os = {sample_address 7, sample_address 3, sample_address 4}" "confirmationCount (b_wallet b2) = 1"
    using recovery_data_restores_owners [OF hex schemes tx, of 0] unfolding b start known by (elim exE conjE)
  then show ?thesis by (intro exI [of _ b1] exI [of _ b2] exI [of _ os] exI [of _ calls]) simp
qed

end
