(* ===== verification/Recovery_Service.thy ===== *)
theory Recovery_Service
  imports Recovery_Owners
begin

section \<open>The course of a recovery\<close>

text \<open>
  Properties of the recovery service: a failed read of the safe while the transaction is built, the acceptance of a recovery
  phrase, the submission, and what happens when the transaction is mined.
\<close>

subsection \<open>A failed read of the safe\<close>

lemma step_run [simp]: "step f (b, s) = (case f b of Ok b' \<Rightarrow> (Ok (), (b', s)) | Throw e \<Rightarrow> (Throw e, (b, s)) | Trap \<Rightarrow> (Trap, (b, s)))"
  by (simp add: step_def act_update_def split: outcome.split)

lemma on_registry_run [simp]: "on_registry m (b, s) = (case m s of (r, s') \<Rightarrow> (r, (b, s')))"
  by (simp add: on_registry_def)

lemma builder_init_run:
  assumes "selectedWallet_of s = Some w" "address_of w = Some a"
  shows "\<exists>b. builder_init now i ms s = (Ok b :: ('e, builder) outcome) \<and> b_wallet b = w \<and> ownerContract b = a \<and>
    b_multiSend b = ms \<and> modifiableOwners b = None \<and>
    status (b_transaction b) = draft \<and> sender (b_transaction b) = Some a \<and> amount (b_transaction b) = Some (ether 0) \<and>
    tx_type (b_transaction b) = walletRecovery \<and> tx_walletID (b_transaction b) = wallet_id w \<and> tx_id (b_transaction b) = i \<and>
    signatures (b_transaction b) = []"
  using assms by (simp add: builder_init_def Let_def edit_tx_def tx_edit_defs tx_status_defs tx_stamp_defs assert_defs tx_init_def)

lemma remove_recovery_frame [simp]:
  "selectedWallet_of (remove_recovery_tx w s) = selectedWallet_of s" "reg_errors (remove_recovery_tx w s) = reg_errors s"
  "reg_wallets (remove_recovery_tx w s) = reg_wallets s"
  by (simp_all add: remove_recovery_tx_def remove_tx_def selectedWallet_of_def find_wallet_def split: option.splits)

lemma owner_of_role: "owner_with w r \<noteq> None \<longleftrightarrow> (\<exists>y \<in> set (owners w). owner_role y = r)"
  by (auto simp: owner_with_def first_with_def find_None_iff)

lemma pullData_fails:
  assumes "removeOwner (b_wallet b) unknown = Ok w'" "owners_contract E (ownerContract b) = Throw e"
  shows "pullData E isMainThread now (b, s) = (Ok (), (b\<lparr>b_wallet := w'\<rparr>, post_error e s))"
  using assms by (simp add: pullData_def act_catch_def act_bind_def change_wallet_def)

text \<open>
  A network failure while the recovery transaction is prepared ends the program: when the owners of the safe cannot be
  read, the error is posted and the builder goes on to count owners it never got.
\<close>

theorem failed_pull_traps:
  assumes "selectedWallet_of s = Some w" "address_of w = Some a" "canChangeOwners (state w)" "owner_with w unknown \<noteq> None"
    and "owners_contract E a = Throw e"
  shows "\<exists>s'. createRecoveryTransaction E isMainThread now i s = (Trap, s') \<and> reg_errors s' = reg_errors s @ [e] \<and>
    reg_wallets s' = reg_wallets s"
proof -
  let ?s = "remove_recovery_tx w s"
  have "selectedWallet_of ?s = Some w" using assms(1) by simp
  then obtain b where b: "builder_init now i (multiSendContractAddress (out_metadata E)) ?s = (Ok b :: ('a service_error, builder) outcome)"
    "b_wallet b = w" "ownerContract b = a" "modifiableOwners b = None"
    using builder_init_run [OF _ assms(2), where ?'e = "'a service_error"] by blast
  have "removeOwner w unknown = Ok (w\<lparr>owners := remove_with unknown (owners w)\<rparr>)"
    using assms(3,4) by (simp add: removeOwner_eq_Ok)
  then have pull: "pullData E isMainThread now (b, ?s) = (Ok (), (b\<lparr>b_wallet := w\<lparr>owners := remove_with unknown (owners w)\<rparr>\<rparr>, post_error e ?s))"
    using assms(5) b by (intro pullData_fails) simp_all
  have "builder_main E isMainThread now (b, ?s) =
      (Trap, (b\<lparr>b_wallet := w\<lparr>owners := remove_with unknown (owners w)\<rparr>\<rparr>, post_error e ?s))"
    by (simp add: builder_main_def act_bind_def pull isSupportedSafeOwners_def b)
  then show ?thesis
    using assms(1) b(1) by (simp add: createRecoveryTransaction_def load_selected_def act_bind_def post_error_def)
qed

definition lost_registry :: "unit service_error registry" where
  "lost_registry = \<lparr>reg_wallets = [lost_wallet],
     reg_portfolio = Some \<lparr>portfolio_id = ''p'', selectedWallet = Some ''w'', wallets = [''w'']\<rparr>,
     reg_accounts = [], reg_txs = [], reg_eoas = [], reg_items = [], reg_monitor = [], reg_events = [], reg_errors = []\<rparr>"

lemma lost_registry_selected: "selectedWallet_of lost_registry = Some lost_wallet"
  by (simp add: selectedWallet_of_def lost_registry_def find_wallet_def store_get_def lost_wallet_def wallet_empty_def)

theorem failed_pull_traps_witness:
  "\<exists>s'. createRecoveryTransaction sample_outside False 0 ''t'' lost_registry = (Trap, s') \<and>
    reg_errors s' = reg_errors lost_registry @ [OtherError ()] \<and> reg_wallets s' = reg_wallets lost_registry"
  by (rule failed_pull_traps [of _ lost_wallet "sample_address 9"])
    (simp_all add: lost_registry_selected lost_wallet_def canChangeOwners_def owner_with_def first_with_def
      getOwners_def invoke_def sample_outside_def)

subsection \<open>After the transaction is mined\<close>

lemma finish_recovery: "state w = RecoveryPostProcessingState \<Longrightarrow>
  on_wallet wallet_proceed w s = (Ok (w\<lparr>state := ReadyToUseState\<rparr>),
    publish_event (WalletEvent WalletRecovered) (save_wallet_in (w\<lparr>state := ReadyToUseState\<rparr>) s))"
  by (simp add: on_wallet_def to_world_def from_world_def wallet_proceed_def world_defs publish_event_def Let_def save_wallet_in_def)

lemma fail_recovery: "state w = RecoveryPostProcessingState \<Longrightarrow>
  cancel_wallet w s = (Ok (wallet_reset (w\<lparr>state := RecoveryDraftState\<rparr>)),
    publish_event (WalletEvent WalletRecoveryFailed) (save_wallet_in (wallet_reset (w\<lparr>state := RecoveryDraftState\<rparr>)) s))"
  by (simp add: cancel_wallet_def on_wallet_def to_world_def from_world_def wallet_cancel_def world_defs publish_event_def
      Let_def save_wallet_in_def)

lemma cancelRecovery_run: "selectedWallet_of s = Some w \<Longrightarrow>
  cancelRecovery s = (Ok (), save_wallet_in (prepareForRecovery (wallet_reset w)) (remove_recovery_tx w s))"
  by (simp add: cancelRecovery_def load_selected_run)

lemma load_recovery_run: "selectedWallet_of s = Some w \<Longrightarrow> find_tx_type walletRecovery (wallet_id w) s = Some tx \<Longrightarrow>
  load_recovery s = (Ok (w, tx), s)"
  by (simp add: load_recovery_def load_selected_run)

definition local_owners :: "wallet \<Rightarrow> string list" where
  "local_owners w = sort (map (\<lambda>x. lowercased (owner_address x)) (filter (\<lambda>x. owner_role x \<noteq> unknown) (owners w)))"

text \<open>
  C9. After the recovery transaction is mined the wallet becomes ready only when the safe confirms it: its owners must be the
  wallet's known owners and its threshold the wallet's. Then the keys of the recovery phrase are deleted and the former
  owners dropped. Otherwise the keys stay, the transaction is removed, the wallet is a draft again and the error is posted.
\<close>

theorem recovery_confirmed_by_safe:
  assumes sel: "selectedWallet_of s = Some w" and st: "state w = RecoveryPostProcessingState"
    and tx: "find_tx_type walletRecovery (wallet_id w) s = Some tx" and a: "address_of w = Some a"
    and keys: "owner_with w paperWallet = Some p" "owner_with w paperWalletDerived = Some q" "owner_with w unknown \<noteq> None"
    and safe: "owners_contract E a = Ok remote" "threshold_contract E a = Ok t"
  shows "\<exists>s'. postProcessing E s = (Ok (), s') \<and>
    (if local_owners w = sort (map lowercased remote) \<and> confirmationCount w = int t
     then find_wallet (wallet_id w) s' = Some (w\<lparr>state := ReadyToUseState, owners := remove_with unknown (owners w)\<rparr>) \<and>
       find_eoa (owner_address p) s' = None \<and> find_eoa (owner_address q) s' = None \<and>
       reg_events s' = reg_events s @ [WalletEvent WalletRecovered] \<and> reg_errors s' = reg_errors s
     else find_wallet (wallet_id w) s' = Some (prepareForRecovery (wallet_reset w)) \<and>
       reg_eoas s' = reg_eoas s \<and> find_tx (tx_id tx) s' = None \<and>
       reg_events s' = reg_events s @ [WalletEvent WalletRecoveryFailed] \<and>
       reg_errors s' = reg_errors s @ [RecoveryError (if local_owners w = sort (map lowercased remote)
         then failedToChangeConfirmationCount else failedToChangeOwners)])"
proof (cases "local_owners w = sort (map lowercased remote) \<and> confirmationCount w = int t")
  case True
  have rm: "removeOwner (w\<lparr>state := ReadyToUseState\<rparr>) unknown = Ok (w\<lparr>state := ReadyToUseState, owners := remove_with unknown (owners w)\<rparr>)"
    using keys(3) by (simp add: removeOwner_eq_Ok canChangeOwners_def owner_with_def)
  have "postProcessing E s = (Ok (), save_wallet_in (w\<lparr>state := ReadyToUseState, owners := remove_with unknown (owners w)\<rparr>)
      (publish_event (WalletEvent WalletRecovered) (save_wallet_in (w\<lparr>state := ReadyToUseState\<rparr>)
        (remove_eoa (owner_address q) (remove_eoa (owner_address p) s)))))"
    using True a keys safe
    by (simp add: postProcessing_def load_recovery_run [OF sel tx] act_bind_def act_catch_def Let_def local_owners_def assertEqual_def
        finish_recovery [OF st] rm)
  then show ?thesis using True
    by (simp add: wallet_repo.find_save eoa_repo.find_remove) (simp add: registry_defs)
next
  case False
  let ?e = "RecoveryError (if local_owners w = sort (map lowercased remote) then failedToChangeConfirmationCount else failedToChangeOwners)"
  let ?w = "wallet_reset (w\<lparr>state := RecoveryDraftState\<rparr>)"
  let ?s = "publish_event (WalletEvent WalletRecoveryFailed) (save_wallet_in ?w s)"
  have id: "wallet_id ?w = wallet_id w" by (simp add: wallet_reset_def)
  have same_id: "wallet_id (prepareForRecovery (wallet_reset w)) = wallet_id w" by (simp add: prepareForRecovery_def wallet_reset_def)
  have sel': "selectedWallet_of ?s = Some ?w"
    using selectedWallet_saved [OF sel id] by simp
  have tx': "find_tx_type walletRecovery (wallet_id ?w) ?s = Some tx" using tx id by (simp add: find_tx_type_def)
  have same: "prepareForRecovery (wallet_reset ?w) = prepareForRecovery (wallet_reset w)"
    by (simp add: prepareForRecovery_def wallet_reset_def)
  have "postProcessing E s = (Ok (), post_error ?e (save_wallet_in (prepareForRecovery (wallet_reset w)) (remove_tx (tx_id tx) ?s)))"
    using False a safe
    by (simp add: postProcessing_def load_recovery_run [OF sel tx] act_bind_def act_catch_def Let_def local_owners_def assertEqual_def
        fail_recovery [OF st] cancelRecovery_run [OF sel'] same remove_recovery_tx_def tx')
  then show ?thesis using False by (simp add: registry_defs store_get_put store_get_del id same_id)
qed

definition safe_node :: "unit service_error node" where
  "safe_node = \<lparr>node_getBalance = (\<lambda>a. Ok 0), node_call = (\<lambda>a d.
     if d = invocation reference_library ''getOwners()'' []
     then Ok (encodeArrayAddress reference_library (map sample_address [7, 3, 4])) else Ok (encodeUInt reference_library 1))\<rparr>"

lemma safe_node_owners: "getOwners reference_library (node_call safe_node) a = Ok (map sample_address [7, 3, 4])"
proof -
  have "length (map (replicate 20) [7 :: 8 word, 3, 4]) * 32 < 2 ^ 63" "list_all (\<lambda>d. length d = 20) (map (replicate 20) [7 :: 8 word, 3, 4])"
    by simp_all
  then have "decodeArrayAddress reference_library (encodeArrayAddress reference_library
      (map (\<lambda>d. ''0x'' @ toHexString reference_library d) (map (replicate 20) [7, 3, 4]))) =
    (Ok (map (\<lambda>d. ''0x'' @ toHexString reference_library d) (map (replicate 20) [7, 3, 4])) :: (unit service_error, address list) outcome)"
    by (rule reference.decode_encodeArrayAddress)
  then show ?thesis by (simp add: getOwners_def invoke_def safe_node_def sample_address_def address_text_def)
qed

lemma safe_node_threshold: "getThreshold reference_library (node_call safe_node) a = Ok 1"
proof -
  have "method_id reference_library ''getThreshold()'' \<noteq> method_id reference_library ''getOwners()''"
    by (simp add: method_id_def reference_library_def ascii_def)
  then show ?thesis
    by (simp add: getThreshold_def invoke_def safe_node_def invocation_def reference.read_words to_Int_def)
qed

definition mined_wallet :: wallet where
  "mined_wallet = lost_wallet\<lparr>state := RecoveryPostProcessingState\<rparr>"

definition mined_registry :: "unit service_error registry" where
  "mined_registry = lost_registry\<lparr>reg_wallets := [mined_wallet], reg_txs := [tx_init 0 ''t'' walletRecovery ''w'' ''a'']\<rparr>"

theorem recovery_confirmed_by_safe_witness:
  "\<exists>s'. postProcessing (sample_outside\<lparr>out_node := safe_node\<rparr>) mined_registry = (Ok (), s') \<and>
    find_wallet ''w'' s' = Some (mined_wallet\<lparr>state := ReadyToUseState, owners := remove_with unknown (owners mined_wallet)\<rparr>)"
proof -
  let ?E = "sample_outside\<lparr>out_node := safe_node\<rparr>" and ?tx = "tx_init 0 ''t'' walletRecovery ''w'' ''a''"
  have w: "wallet_id mined_wallet = ''w''" "state mined_wallet = RecoveryPostProcessingState" "confirmationCount mined_wallet = 1"
    "address_of mined_wallet = Some (sample_address 9)"
    by (simp_all add: mined_wallet_def lost_wallet_def wallet_empty_def)
  have sel: "selectedWallet_of mined_registry = Some mined_wallet"
    using w(1) by (simp add: selectedWallet_of_def mined_registry_def lost_registry_def find_wallet_def store_get_def)
  have tx: "find_tx_type walletRecovery (wallet_id mined_wallet) mined_registry = Some ?tx"
    using w(1) by (simp add: find_tx_type_def mined_registry_def tx_init_def tx_stamp_defs)
  have keys: "owner_with mined_wallet paperWallet = Some (sample_known paperWallet 3)"
    "owner_with mined_wallet paperWalletDerived = Some (sample_known paperWalletDerived 4)" "owner_with mined_wallet unknown \<noteq> None"
    by (simp_all add: mined_wallet_def lost_wallet_def owner_with_def first_with_def)
  have safe: "owners_contract ?E (sample_address 9) = Ok (map sample_address [7, 3, 4])" "threshold_contract ?E (sample_address 9) = Ok 1"
    using safe_node_owners safe_node_threshold by (simp_all add: sample_outside_def)
  have "local_owners mined_wallet = sort (map lowercased (map sample_address [7, 3, 4]))"
    by (simp add: local_owners_def mined_wallet_def lost_wallet_def)
  then show ?thesis
    using recovery_confirmed_by_safe [OF sel w(2) tx w(4) keys safe] w(1,3) by auto
qed

subsection \<open>Submission\<close>

interpretation by_signer: comparator sig_less
  by unfold_locales (auto simp: sig_less_def)

lemma start_recovery: "state w = RecoveryDraftState \<Longrightarrow>
  on_wallet wallet_proceed w s = (Ok (w\<lparr>state := RecoveryInProgressState\<rparr>),
    publish_event (WalletEvent RecoveryStarted) (save_wallet_in (w\<lparr>state := RecoveryInProgressState\<rparr>) s))"
  by (simp add: on_wallet_def to_world_def from_world_def wallet_proceed_def world_defs publish_event_def Let_def save_wallet_in_def)

lemma find_store_put:
  assumes "distinct (map key xs)" "List.find P xs = Some x" "key y = key x" "P y"
  shows "List.find P (store_put key y xs) = Some y"
  using assms
proof (induction xs)
  case (Cons a xs)
  show ?case
  proof (cases "P a")
    case False
    then have x: "List.find P xs = Some x" using Cons.prems(2) by simp
    then have "key a \<noteq> key y" using find_SomeD [OF x] Cons.prems(1,3) by auto
    then show ?thesis using Cons x False by simp
  qed (use Cons.prems in simp)
qed simp

lemma submit_signing:
  assumes "status tx = signing"
  shows "\<exists>tx1 tx2. set_hash now h tx = Ok tx1 \<and> proceed now tx1 = Ok tx2 \<and>
    tx2 = tx\<lparr>status := pending, transactionHash := Some h, submittedDate := Some now, updatedDate := Some now\<rparr>"
  using assms by (simp add: set_hash_def proceed_def tx_status_defs tx_stamp_defs assert_defs)

text \<open>
  C30. A signed recovery transaction is submitted with its signatures in the order of their signers. When the relay accepts it,
  the transaction is pending with the hash of the relay, the wallet's recovery is in progress and the
  service waits for the transaction. When the relay refuses it, only the error is posted, and submitting can be tried again.
\<close>

theorem recovery_submission:
  fixes E :: "'e outside"
  assumes sel: "selectedWallet_of s = Some w" and st: "state w = RecoveryDraftState"
    and tx: "find_tx_type walletRecovery (wallet_id w) s = Some tx" "status tx = signing" "distinct (map tx_id (reg_txs s))"
    and req: "submitRequest_init (out_lib E) (out_address E) tx (map (out_ethSignature E) (sorted_by sig_less (signatures tx))) =
      (Ok request :: ('e service_error, submitRequest) outcome)"
  shows "(\<exists>sigs. mset sigs = mset (signatures tx) \<and> sub_signatures request = map (out_ethSignature E) sigs \<and>
      sorted_wrt (\<lambda>x y. lowercased (sig_address x) \<le> lowercased (sig_address y)) sigs) \<and>
    (case out_submit E request of
       Ok h \<Rightarrow> \<exists>s'. resume_recovery E now s = (Ok True, s') \<and>
         find_tx (tx_id tx) s' = Some (tx\<lparr>status := pending, transactionHash := Some h, submittedDate := Some now, updatedDate := Some now\<rparr>) \<and>
         find_wallet (wallet_id w) s' = Some (w\<lparr>state := RecoveryInProgressState\<rparr>) \<and>
         reg_events s' = reg_events s @ [WalletEvent RecoveryStarted] \<and> reg_errors s' = reg_errors s
     | Throw e \<Rightarrow> resume_recovery E now s = (Ok False, post_error (serviceError e) s)
     | Trap \<Rightarrow> resume_recovery E now s = (Trap, s))"
proof
  show "\<exists>sigs. mset sigs = mset (signatures tx) \<and> sub_signatures request = map (out_ethSignature E) sigs \<and>
      sorted_wrt (\<lambda>x y. lowercased (sig_address x) \<le> lowercased (sig_address y)) sigs"
    using req by_signer.sorted_by_sorted [of "signatures tx"]
    by (intro exI [of _ "sorted_by sig_less (signatures tx)"])
      (auto simp: submitRequest_init_def outcome_Ok_iff mset_sorted_by sig_less_def not_less)
  have step: "resume_recovery E now s = submitRecoveryTransaction E now s"
    using st tx(2) by (simp add: resume_recovery_def act_bind_def load_recovery_run [OF sel tx(1)] isReadyToUse_def isRecoveryInProgress_def)
  show "case out_submit E request of
       Ok h \<Rightarrow> \<exists>s'. resume_recovery E now s = (Ok True, s') \<and>
         find_tx (tx_id tx) s' = Some (tx\<lparr>status := pending, transactionHash := Some h, submittedDate := Some now, updatedDate := Some now\<rparr>) \<and>
         find_wallet (wallet_id w) s' = Some (w\<lparr>state := RecoveryInProgressState\<rparr>) \<and>
         reg_events s' = reg_events s @ [WalletEvent RecoveryStarted] \<and> reg_errors s' = reg_errors s
     | Throw e \<Rightarrow> resume_recovery E now s = (Ok False, post_error (serviceError e) s)
     | Trap \<Rightarrow> resume_recovery E now s = (Trap, s)"
  proof (cases "out_submit E request")
    case (Ok h)
    let ?tx = "tx\<lparr>status := pending, transactionHash := Some h, submittedDate := Some now, updatedDate := Some now\<rparr>"
    let ?w = "w\<lparr>state := RecoveryInProgressState\<rparr>"
    let ?s = "save_wallet_in ?w (publish_event (WalletEvent RecoveryStarted) (save_wallet_in ?w (save_tx ?tx s)))"
    obtain tx1 where tx1: "set_hash now h tx = Ok tx1" "proceed now tx1 = Ok ?tx" using submit_signing [OF tx(2), of now h] by auto
    have found: "tx_type tx = walletRecovery" "tx_walletID tx = wallet_id w" using find_SomeD [of _ "reg_txs s" tx] tx(1) by (auto simp: find_tx_type_def)
    have sel': "selectedWallet_of ?s = Some ?w" using selectedWallet_saved [of "publish_event (WalletEvent RecoveryStarted) (save_wallet_in ?w (save_tx ?tx s))" ?w ?w]
      selectedWallet_saved [of "save_tx ?tx s" w ?w] sel by simp
    have tx': "find_tx_type walletRecovery (wallet_id ?w) ?s = Some ?tx"
      using find_store_put [OF tx(3), of _ tx ?tx] tx(1) found by (simp add: find_tx_type_def save_tx_def)
    have "resume_recovery E now s = (Ok True, ?s)"
      using req Ok tx1
      by (simp add: step submitRecoveryTransaction_def act_bind_def load_recovery_run [OF sel tx(1)] Let_def start_recovery [OF st]
          subscribeForTransactionProcessing_def load_recovery_run [OF sel' tx'])
    then show ?thesis using Ok by (simp add: registry_defs store_get_put)
  qed (use req in \<open>simp_all add: step submitRecoveryTransaction_def act_bind_def load_recovery_run [OF sel tx(1)] Let_def\<close>)
qed

definition signed_tx :: transaction where
  "signed_tx = (tx_init 0 ''t'' walletRecovery ''w'' ''a'')\<lparr>status := signing, sender := Some (sample_address 9),
     recipient := Some (sample_address 9), amount := Some (ether 0), operation := Some call, nonce := Some ''0'',
     fee_estimate := Some \<lparr>gas = 1, dataGas = 1, operationalGas = 1, gasPrice = ether 1\<rparr>\<rparr>"

definition signed_registry :: "unit service_error registry" where
  "signed_registry = lost_registry\<lparr>reg_txs := [signed_tx]\<rparr>"

theorem recovery_submission_witness:
  "\<exists>s'. resume_recovery (sample_outside\<lparr>out_submit := \<lambda>r. Ok ''0x1''\<rparr>) 5 signed_registry = (Ok True, s') \<and>
    find_wallet ''w'' s' = Some (lost_wallet\<lparr>state := RecoveryInProgressState\<rparr>)"
proof -
  let ?E = "sample_outside\<lparr>out_submit := \<lambda>r. Ok ''0x1''\<rparr>"
  have w: "wallet_id lost_wallet = ''w''" "state lost_wallet = RecoveryDraftState" by (simp_all add: lost_wallet_def wallet_empty_def)
  have sel: "selectedWallet_of signed_registry = Some lost_wallet"
    using w(1) by (simp add: selectedWallet_of_def signed_registry_def lost_registry_def find_wallet_def store_get_def)
  have tx: "find_tx_type walletRecovery (wallet_id lost_wallet) signed_registry = Some signed_tx" "status signed_tx = signing"
    "distinct (map tx_id (reg_txs signed_registry))"
    using w(1) by (simp_all add: find_tx_type_def signed_registry_def signed_tx_def tx_init_def tx_stamp_defs)
  obtain request where req: "submitRequest_init (out_lib ?E) (out_address ?E) signed_tx
      (map (out_ethSignature ?E) (sorted_by sig_less (signatures signed_tx))) = (Ok request :: (unit service_error, submitRequest) outcome)"
    by (simp add: submitRequest_init_def signed_tx_def sample_outside_def)
  show ?thesis using recovery_submission [OF sel w(2) tx req, of 5] w(1) by auto
qed

subsection \<open>Entering the address of a safe\<close>

lemma addOwners_unknown: "canChangeOwners (state w) \<Longrightarrow>
  addOwners w (map unknown_owner as) = Ok (w\<lparr>owners := owners w @ map unknown_owner as\<rparr>)"
proof (induction as arbitrary: w)
  case (Cons a as)
  have "addOwner w (unknown_owner a) = Ok (w\<lparr>owners := owners w @ [unknown_owner a]\<rparr>)"
    using Cons.prems by (simp add: addOwner_eq_Ok unknown_owner_def)
  then show ?case using Cons by simp
qed simp

text \<open>
  Entering the address of a safe. An address whose master copy is not known changes nothing and posts the error. A known one is
  stored and announced before the safe is read; when reading fails it stays stored and the error is posted. When it succeeds,
  the owners of the safe are added to the owners the wallet already has: the owners of a safe entered before remain.
\<close>

theorem recovery_address_change:
  fixes E :: "'e outside"
  assumes sel: "selectedWallet_of s = Some w" and st: "state w = RecoveryDraftState"
    and master: "proxy_masterCopyAddress (out_lib E) (out_getStorageAt E) a = Ok (Some m)"
  shows "change_recovery_address E a s =
    (if \<not> isValidMasterCopy (out_metadata E) m then (Ok (), post_error (RecoveryError invalidContractAddress) s)
     else let s1 = publish_event WalletAddressChanged (save_wallet_in (w\<lparr>address_of := Some a\<rparr>) s) in
       case owners_contract E a of
         Throw e \<Rightarrow> (Ok (), post_error (serviceError e) s1)
       | Trap \<Rightarrow> (Trap, s1)
       | Ok remote \<Rightarrow> (case threshold_contract E a of
           Throw e \<Rightarrow> (Ok (), post_error (serviceError e) s1)
         | Trap \<Rightarrow> (Trap, s1)
         | Ok t \<Rightarrow> (Ok (), save_wallet_in (w\<lparr>address_of := Some a, owners := owners w @ map unknown_owner remote,
             confirmationCount := int t, masterCopyAddress := Some m, contractVersion := md_version (out_metadata E) m\<rparr>) s1)))"
proof (cases "isValidMasterCopy (out_metadata E) m")
  case False
  then show ?thesis using master by (simp add: change_recovery_address_def validate_def act_bind_def act_catch_def)
next
  case True
  let ?w = "w\<lparr>address_of := Some a\<rparr>"
  let ?s = "publish_event WalletAddressChanged (save_wallet_in ?w s)"
  have change: "changeAddress w (Some a) = Ok ?w" using st by (simp add: changeAddress_def canChangeAddress_def)
  have sel': "selectedWallet_of (save_wallet_in ?w s) = Some ?w" using selectedWallet_saved [OF sel, of ?w] by simp
  have run: "change_recovery_address E a s = act_catch (pullWalletData E) (\<lambda>e. act_do (post_error (serviceError e))) ?s"
    using True master
    by (simp add: change_recovery_address_def validate_def act_bind_def act_catch_def changeWallet_address_def load_selected_def sel change)
  have add: "addOwners ?w (map unknown_owner as) = Ok (?w\<lparr>owners := owners w @ map unknown_owner as\<rparr>)" for as
    using addOwners_unknown [of ?w as] st by (simp add: canChangeOwners_def)
  show ?thesis unfolding run
    using True master
    by (cases "owners_contract E a"; cases "threshold_contract E a")
      (simp_all add: pullWalletData_def act_catch_def act_bind_def load_selected_def sel' add Let_def changeConfirmationCount_def
        changeMasterCopy_def changeContractVersion_def)
qed

definition known_safe :: "unit outside" where
  "known_safe = sample_outside\<lparr>out_node := safe_node, out_getStorageAt := \<lambda>a n. Ok (encodeAddress reference_library (sample_address 6)),
     out_metadata := \<lparr>multiSendContractAddress = sample_address 8, proxyFactoryAddress = sample_address 8,
       safeFunderAddress = sample_address 8, md_metadata = [\<lparr>mc_address = sample_address 6, mc_version = ''1.0.0'',
         txTypeHash = [], domainSeparatorHash = [], proxyCode = []\<rparr>]\<rparr>\<rparr>"

theorem recovery_address_change_witness:
  "find_wallet ''w'' (snd (change_recovery_address known_safe (sample_address 2) lost_registry)) =
    Some (lost_wallet\<lparr>address_of := Some (sample_address 2), owners := owners lost_wallet @ map unknown_owner (map sample_address [7, 3, 4]),
      confirmationCount := 1, masterCopyAddress := Some (sample_address 6), contractVersion := Some ''1.0.0''\<rparr>)"
proof -
  have w: "wallet_id lost_wallet = ''w''" "state lost_wallet = RecoveryDraftState" by (simp_all add: lost_wallet_def wallet_empty_def)
  have master: "proxy_masterCopyAddress (out_lib known_safe) (out_getStorageAt known_safe) (sample_address 2) = Ok (Some (sample_address 6))"
    by (simp add: proxy_masterCopyAddress_def known_safe_def sample_outside_def sample_address_def reference.read_words(7))
  have "isValidMasterCopy (out_metadata known_safe) (sample_address 6)"
    "md_version (out_metadata known_safe) (sample_address 6) = Some ''1.0.0''"
    by (simp_all add: isValidMasterCopy_def md_version_def metadata_for_def known_safe_def)
  moreover have "owners_contract known_safe (sample_address 2) = Ok (map sample_address [7, 3, 4])" "threshold_contract known_safe (sample_address 2) = Ok 1"
    using safe_node_owners safe_node_threshold by (simp_all add: known_safe_def sample_outside_def)
  ultimately show ?thesis
    using recovery_address_change [OF lost_registry_selected w(2) master] w(1) by (simp add: Let_def wallet_repo.find_save)
qed

end
