(* ===== verification/Extension_Service.thy ===== *)
theory Extension_Service
  imports Extension Recovery_Service
begin

section \<open>The course of a browser extension transaction\<close>

text \<open>
  Properties of the three browser extension services: the data an update stores and what is read back from it, the signatures
  of the recovery phrase, and what happens to wallet, pairing and monitor when the transaction is mined.
\<close>

subsection \<open>Post-processing\<close>

lemma unregister_removes: "unregisterPostProcessing i s = remove_entry i s"
proof (cases "find_entry i s")
  case None
  then show ?thesis by (simp add: unregisterPostProcessing_def find_entry_def remove_entry_def store_del_absent)
next
  case (Some e)
  then show ?thesis using entry_repo.find_key [OF Some] by (simp add: unregisterPostProcessing_def)
qed

definition extension_owner_at :: "address \<Rightarrow> owner" where
  "extension_owner_at a = \<lparr>owner_address = a, owner_role = browserExtension\<rparr>"

text \<open>What a mined transaction means: the wallet after a success, and the pairing that is then of no use.\<close>

primrec processed_wallet :: "extension_service \<Rightarrow> address \<Rightarrow> wallet \<Rightarrow> wallet" where
  "processed_wallet ReplaceService a w = w\<lparr>owners := remove_with browserExtension (owners w) @ [extension_owner_at a]\<rparr>"
| "processed_wallet ConnectService a w =
     w\<lparr>owners := remove_with browserExtension (owners w) @ [extension_owner_at a], confirmationCount := 2\<rparr>"
| "processed_wallet DisconnectService a w = w\<lparr>owners := remove_with browserExtension (owners w), confirmationCount := 1\<rparr>"

definition obsolete_pair :: "extension_service \<Rightarrow> bool \<Rightarrow> address \<Rightarrow> wallet \<Rightarrow> address option" where
  "obsolete_pair K succeeded new w =
     (if succeeded then if K = ConnectService then None else map_option owner_address (owner_with w browserExtension)
      else if K = DisconnectService then None else Some new)"

lemma removeOldOwner_run:
  assumes "canChangeOwners (state w)"
  shows "removeOldOwner del w s = (case owner_with w browserExtension of
      None \<Rightarrow> (Ok w, s)
    | Some x \<Rightarrow> (case del (wallet_id w) (owner_address x) of
        Ok _ \<Rightarrow> (Ok (w\<lparr>owners := remove_with browserExtension (owners w)\<rparr>), s) | Throw e \<Rightarrow> (Throw e, s) | Trap \<Rightarrow> (Trap, s)))"
proof (cases "owner_with w browserExtension")
  case (Some x)
  then have "owner_role x = browserExtension" using first_with_role by (auto simp: owner_with_def)
  moreover have "removeOwner w browserExtension = Ok (w\<lparr>owners := remove_with browserExtension (owners w)\<rparr>)"
    using assms Some by (simp add: removeOwner_eq_Ok)
  ultimately show ?thesis using Some
    by (cases "del (wallet_id w) (owner_address x)") (simp_all add: removeOldOwner_def act_bind_def)
qed (simp add: removeOldOwner_def)

lemma add_extension_run:
  assumes "canChangeOwners (state w)" "out_address E new = Some a"
  shows "add_extension E new w s = (let w' = w\<lparr>owners := remove_with browserExtension (owners w) @ [extension_owner_at a]\<rparr>
    in (Ok w', save_wallet_in w' s))"
proof -
  have "addOwner w (extension_owner_at a) = Ok (w\<lparr>owners := remove_with browserExtension (owners w) @ [extension_owner_at a]\<rparr>)"
    using assms(1) by (simp add: addOwner_eq_Ok extension_owner_at_def)
  then show ?thesis using assms(2) by (simp add: add_extension_def extension_owner_at_def act_bind_def Let_def)
qed

lemma remove_with_twice [simp]: "remove_with r (remove_with r os) = remove_with r os"
  by (simp add: remove_with_def)

lemma remove_with_no_role: "owner_with w r = None \<Longrightarrow> remove_with r (owners w) = owners w"
  by (simp add: owner_with_def first_with_def remove_with_def find_None_iff)

lemma newOwnerAddress_run:
  assumes "find_tx i s = Some tx" "tx_data tx = Some d" "selectedWallet_of s = Some v" "address_of v = Some c"
  shows "newOwnerAddress E K i s = (newOwner_argument (out_lib E) K d, s)"
  using assms by (simp add: newOwnerAddress_def find_required_def contract_address_def act_bind_def load_selected_def)

text \<open>
  C10. What a mined browser extension transaction leaves behind. After a success the wallet has the new extension in place of the
  old one and the threshold that goes with it, after a failure it is as before. In both cases the pairing that is of no use any more
  is deleted first: the old extension's after a success, the new one's after a failure. When deleting it
  fails, nothing has changed and the transaction is still monitored, so that it is processed again later; otherwise
  it is no longer monitored.
\<close>

theorem extension_post_processing:
  fixes E :: "'e outside"
  assumes tx: "find_tx i s = Some tx" "tx_type tx = transactionType_of K" "status tx \<in> {success, failed}"
    and w: "find_wallet (tx_walletID tx) s = Some w" "canChangeOwners (state w)"
    and sel: "selectedWallet_of s = Some v" "address_of v = Some c"
    and new: "K \<noteq> DisconnectService \<longrightarrow> tx_data tx = Some d \<and> out_address E new = Some a \<and>
      newOwner_argument (out_lib E) K d = (Ok (Some new) :: ('e service_error, address option) outcome)"
  shows "postProcess E del K i s =
    (let done = (Ok (), remove_entry i (if status tx = success then save_wallet_in (processed_wallet K a w) s else s))
     in case obsolete_pair K (status tx = success) new w of
          None \<Rightarrow> done
        | Some p \<Rightarrow> (case del (wallet_id w) p of Ok _ \<Rightarrow> done | Throw e \<Rightarrow> (Throw e, s) | Trap \<Rightarrow> (Trap, s)))"
proof (cases "K = DisconnectService")
  case True
  show ?thesis
    using tx w(1) True remove_with_no_role [of w browserExtension]
    by (cases "owner_with w browserExtension"; cases "del (wallet_id w) (owner_address (the (owner_with w browserExtension)))")
      (auto simp: postProcess_def obsolete_pair_def act_bind_def removeOldOwner_run [OF w(2)] unregister_removes
        changeConfirmationCount_def)
next
  case False
  then have d: "tx_data tx = Some d" "out_address E new = Some a"
    "newOwner_argument (out_lib E) K d = (Ok (Some new) :: ('e service_error, address option) outcome)" using new by auto
  have arg: "newOwnerAddress E K i s = (Ok (Some new), s)" using newOwnerAddress_run [OF tx(1) d(1) sel, of E K] d(3) by simp
  have id: "wallet_id w = tx_walletID tx" using wallet_repo.find_key [OF w(1)] .
  have add: "add_extension E new w' s' = (let w'' = w'\<lparr>owners := remove_with browserExtension (owners w') @ [extension_owner_at a]\<rparr>
      in (Ok w'', save_wallet_in w'' s'))" if "state w' = state w" for w' s'
    using add_extension_run [of w' E new a s'] that w(2) d(2) by simp
  show ?thesis
    using tx w(1) False arg id remove_with_no_role [of w browserExtension]
    by (cases K; cases "owner_with w browserExtension"; cases "del (wallet_id w) (owner_address (the (owner_with w browserExtension)))";
        cases "del (wallet_id w) new")
      (auto simp: postProcess_def processSuccess_def obsolete_pair_def act_bind_def removeOldOwner_run [OF w(2)] add
        unregister_removes changeConfirmationCount_def Let_def save_wallet_twice)
qed

definition paired_wallet :: wallet where
  "paired_wallet = (wallet_empty ''w'')\<lparr>state := ReadyToUseState, address_of := Some (sample_address 9), confirmationCount := 2,
     owners := [sample_known thisDevice 7, sample_known browserExtension 3, sample_known paperWallet 4]\<rparr>"

definition swap_tx :: transaction where
  "swap_tx = (tx_init 0 ''t'' replaceBrowserExtension ''w'' ''a'')\<lparr>status := success,
     tx_data := Some (swapOwner_data reference_library (sample_address 7) (sample_address 3) (sample_address 5))\<rparr>"

definition paired_registry :: "transaction \<Rightarrow> unit service_error registry" where
  "paired_registry tx = lost_registry\<lparr>reg_wallets := [paired_wallet], reg_txs := [tx],
     reg_monitor := [\<lparr>entry_transactionID = ''t'', entry_createdDate = 0\<rparr>]\<rparr>"

lemma paired_registry_found:
  "selectedWallet_of (paired_registry tx) = Some paired_wallet" "find_wallet ''w'' (paired_registry tx) = Some paired_wallet"
  "find_tx (tx_id tx) (paired_registry tx) = Some tx" "address_of paired_wallet = Some (sample_address 9)"
  "canChangeOwners (state paired_wallet)" "wallet_id paired_wallet = ''w''"
  by (simp_all add: selectedWallet_of_def paired_registry_def lost_registry_def find_wallet_def find_tx_def store_get_def
      paired_wallet_def wallet_empty_def canChangeOwners_def)

lemma sample_swap_decodes:
  "decodeSwapOwnerArguments reference_library (swapOwner_data reference_library (sample_address i) (sample_address j) (sample_address k)) =
    Ok (Some (sample_address i, sample_address j, sample_address k))"
  unfolding sample_address_def by (rule reference.swapOwner_decodes) simp_all

theorem extension_post_processing_witness:
  "postProcess sample_outside (\<lambda>w a. Ok ()) ReplaceService ''t'' (paired_registry swap_tx) =
    (Ok (), remove_entry ''t'' (save_wallet_in (processed_wallet ReplaceService (sample_address 5) paired_wallet) (paired_registry swap_tx)))"
proof -
  have tx: "tx_id swap_tx = ''t''" "tx_walletID swap_tx = ''w''" "tx_type swap_tx = transactionType_of ReplaceService" "status swap_tx = success"
    "tx_data swap_tx = Some (swapOwner_data reference_library (sample_address 7) (sample_address 3) (sample_address 5))"
    by (simp_all add: swap_tx_def tx_init_def tx_stamp_defs)
  have arg: "newOwner_argument (out_lib sample_outside) ReplaceService
      (swapOwner_data reference_library (sample_address 7) (sample_address 3) (sample_address 5)) =
      (Ok (Some (sample_address 5)) :: (unit service_error, address option) outcome)" "out_address sample_outside (sample_address 5) = Some (sample_address 5)"
    by (simp_all add: newOwner_argument_def sample_outside_def sample_swap_decodes)
  have "owner_with paired_wallet browserExtension = Some (sample_known browserExtension 3)"
    by (simp add: paired_wallet_def owner_with_def first_with_def)
  then show ?thesis
    using extension_post_processing [where E = sample_outside and i = "''t''" and s = "paired_registry swap_tx" and tx = swap_tx
        and K = ReplaceService and w = paired_wallet and v = paired_wallet and c = "sample_address 9" and new = "sample_address 5"
        and a = "sample_address 5" and del = "\<lambda>w a. Ok ()", OF _ tx(3) _ _ _ _ _ impI [OF conjI [OF tx(5) conjI [OF arg(2,1)]]]]
      paired_registry_found(1-3) [of swap_tx] paired_registry_found(4-) tx by (simp add: obsolete_pair_def Let_def)
qed

subsection \<open>The data of an update\<close>

lemma decode_address_word:
  assumes "hex_library L" "length (ethHex L a) = 20"
  shows "decodeAddress L (encodeAddress L a @ r) = Ok (address_text L (ethHex L a))"
proof -
  have "encodeAddress L a = encodeAddress L (address_text L (ethHex L a))"
    using hex_library.ethHex_hex [OF assms(1)] by (simp add: encodeAddress_def address_text_def)
  then show ?thesis using hex_library.read_words(6) [OF assms] by simp
qed

lemma swap_argument:
  assumes "hex_library L" "length (ethHex L p) = 20" "length (ethHex L old) = 20" "length (ethHex L new) = 20"
  shows "newOwner_argument L ReplaceService (swapOwner_data L p old new) = Ok (Some (address_text L (ethHex L new)))"
  using assms
  by (simp add: decode_address_word [OF assms(1)] decode_address_word [OF assms(1), of _ "[]", simplified] newOwner_argument_def decodeSwapOwnerArguments_def swapOwner_data_def invocation_def Let_def
      hex_library.read_words [OF assms(1)] hex_library.length_method_id [OF assms(1)] hex_library.length_encodeAddress [OF assms(1)])

lemma add_argument:
  assumes "hex_library L" "length (ethHex L new) = 20"
  shows "\<exists>d. addOwner_data L new 2 = (Ok d :: ('e, bytes) outcome) \<and>
    newOwner_argument L ConnectService d = (Ok (Some (address_text L (ethHex L new))) :: ('e, address option) outcome)"
  using assms
  by (simp add: decode_address_word [OF assms(1)] hex_library.length_encodeUInt [OF assms(1)] newOwner_argument_def decodeAddOwnerArguments_def addOwner_data_def invocation_def Let_def to_Int_def
      hex_library.encodeInt_nonneg [OF assms(1)] hex_library.length_encodeAddress [OF assms(1)]
      hex_library.read_words [OF assms(1)] hex_library.length_method_id [OF assms(1)])

lemma stepBackToDraft_run:
  fixes s :: "'e service_error registry"
  assumes "find_tx i s = Some tx" "status tx \<in> {draft, signing}"
  shows "\<exists>s'. stepBackToDraft i s = (Ok (), s') \<and> find_tx i s' = Some (tx\<lparr>status := draft\<rparr>) \<and> selectedWallet_of s' = selectedWallet_of s"
  using assms tx_repo.find_key [OF assms(1)]
  by (cases "status tx") (auto simp: stepBackToDraft_def find_required_def act_bind_def stepBack_def change_status_def tx_repo.find_save)

lemma draft_changes:
  "status tx = draft \<Longrightarrow> change_fee now v tx = Ok (tx\<lparr>fee := v, updatedDate := Some now\<rparr>)"
  "status tx = draft \<Longrightarrow> change_feeEstimate now e tx = Ok (tx\<lparr>fee_estimate := e, updatedDate := Some now\<rparr>)"
  "status tx = draft \<Longrightarrow> change_nonce now m tx = Ok (tx\<lparr>nonce := m, updatedDate := Some now\<rparr>)"
  "status tx = draft \<Longrightarrow> change_data now d tx = Ok (tx\<lparr>tx_data := d, updatedDate := Some now\<rparr>)"
  "status tx = draft \<Longrightarrow> change_hash now h tx = Ok (tx\<lparr>tx_hash := h, updatedDate := Some now\<rparr>)"
  "status tx = draft \<Longrightarrow> sender tx \<noteq> None \<Longrightarrow> recipient tx \<noteq> None \<Longrightarrow> amount tx \<noteq> None \<Longrightarrow> fee tx \<noteq> None \<Longrightarrow>
    proceed now tx = Ok (tx\<lparr>status := signing, updatedDate := Some now\<rparr>)"
  by (auto simp: tx_edit_eq_Ok proceed_def draft_proceed_def tx_stamp_defs)

lemma remoteOwnersList_run:
  fixes E :: "'e outside"
  assumes "hex_library (out_lib E)" "selectedWallet_of s = Some w" "address_of w = Some c" "remote \<noteq> []"
    and "owners_contract E c = Ok (map (address_text (out_lib E)) remote)" "list_all (\<lambda>d. length d = 20) remote" "distinct remote"
    and "sentinelAddress (out_lib E) \<notin> address_text (out_lib E) ` set remote"
  shows "\<exists>l. remoteOwnersList E s = (Ok (Some l), s) \<and> represents (out_lib E) (map (address_text (out_lib E)) remote) l"
proof -
  let ?L = "out_lib E" and ?os = "map (address_text (out_lib E)) remote"
  have inj: "inj (address_text ?L)"
    using hex_library.ethHex_hex [OF assms(1)] by (metis (no_types, lifting) address_text_def injI)
  have low: "map lowercased ?os = ?os" using hex_library.lowercased_text [OF assms(1)] by simp
  have "list_all (valid_address ?L) ?os" using assms(6) hex_library.valid_text [OF assms(1)] by (auto simp: list_all_iff)
  moreover have "distinct (map lowercased ?os)" unfolding low using assms(7) inj_on_subset [OF inj, of "set remote"] by (simp add: distinct_map)
  moreover have "sentinelAddress ?L \<notin> lowercased ` set ?os" using assms(8) unfolding set_map [symmetric] low by simp
  ultimately obtain l where l: "ol_add_all ?L (ol_init ?L) ?os = (Ok l :: ('e service_error, owner_linked_list) outcome)" "represents ?L (map lowercased ?os) l"
    using hex_library.add_all_represents [OF assms(1)] by blast
  have "represents ?L ?os l" using l(2) unfolding low .
  with l(1) show ?thesis
    using assms(2-5) by (simp add: remoteOwnersList_def contract_address_def act_bind_def load_selected_def)
qed

lemma text_hex: "hex_library L \<Longrightarrow> ethHex L (address_text L d) = d"
  using hex_library.ethHex_hex by (simp add: address_text_def)

text \<open>The data of a replacement and of a connection: the safe accepts the call, and the new owner is read back from it.\<close>

lemma replace_data:
  fixes E :: "'e outside"
  assumes hex: "hex_library (out_lib E)" and sel: "selectedWallet_of s = Some w" "address_of w = Some c"
    and remote: "owners_contract E c = Ok (map (address_text (out_lib E)) remote)" "list_all (\<lambda>d. length d = 20) remote" "distinct remote"
      "sentinelAddress (out_lib E) \<notin> address_text (out_lib E) ` set remote"
    and x: "owner_with w browserExtension = Some x" "valid_address (out_lib E) (owner_address x)"
      "ethHex (out_lib E) (owner_address x) \<in> set remote" "low x = address_text (out_lib E) (ethHex (out_lib E) (owner_address x))"
    and new: "take 2 a = ''0x''" "length (ethHex (out_lib E) a) = 20"
      "lowercased a \<notin> {sentinelAddress (out_lib E), address_zero} \<union> address_text (out_lib E) ` set remote"
  shows "\<exists>d. realTransactionData E ReplaceService a s = (Ok (Some d), s) \<and>
    (\<forall>t. \<exists>os. safe_call (out_lib E) (map (address_text (out_lib E)) remote, t) d (os, t) \<and>
      set os = insert (lowercased a) (address_text (out_lib E) ` set remote - {low x})) \<and>
    newOwner_argument (out_lib E) ReplaceService d =
      (Ok (Some (address_text (out_lib E) (ethHex (out_lib E) a))) :: ('e service_error, address option) outcome)"
proof -
  let ?L = "out_lib E" and ?os = "map (address_text (out_lib E)) remote"
  obtain l where l: "remoteOwnersList E s = (Ok (Some l), s)" "represents ?L ?os l"
    using remoteOwnersList_run [OF hex sel _ remote] x(3) by fastforce
  obtain k where k: "k < length remote" "firstIndex (\<lambda>y. y = low x) ?os = Some k"
    using firstIndex_present [of "low x" ?os] x(3,4) by force
  let ?pre = "(sentinelAddress ?L # ?os) ! k"
  let ?d = "swapOwner_data ?L ?pre (owner_address x) a"
  have before: "?pre = (if k = 0 then sentinelAddress ?L else ?os ! (k - 1))" by (cases k) simp_all
  have at: "?os ! k = low x" using firstIndex_Some [OF k(2)] by blast
  have pre: "length (ethHex ?L ?pre) = 20"
    using k(1) remote(2) text_hex [OF hex] by (cases k) (simp_all add: list_all_iff sentinelAddress_def address_text_def)
  have ends: "low x \<noteq> sentinelAddress ?L"
    unfolding x(4) using remote(4) imageI [OF x(3), of "address_text ?L"] by metis
  have "low x \<in> set ?os" using k(1) at by (metis length_map nth_mem)
  then have after: "set (map (\<lambda>y. if y = low x then lowercased a else y) ?os) = insert (lowercased a) (address_text ?L ` set remote - {low x})"
    using set_replace [of "low x" ?os] by simp
  have "safe_call ?L (?os, t) ?d (map (\<lambda>y. if y = low x then lowercased a else y) ?os, t)" for t
    using safe_swap [of ?os k "owner_address x" a ?L t] l(2) k(1) at new(3) by (simp add: represents_def)
  then have "\<forall>t. \<exists>os. safe_call ?L (?os, t) ?d (os, t) \<and> set os = insert (lowercased a) (address_text ?L ` set remote - {low x})"
    using after by blast
  moreover have "length (ethHex ?L (owner_address x)) = 20" using remote(2) x(3) by (auto simp: list_all_iff)
  then have "newOwner_argument ?L ReplaceService ?d = (Ok (Some (address_text ?L (ethHex ?L a))) :: ('e service_error, address option) outcome)"
    by (rule swap_argument [OF hex pre _ new(2)])
  moreover have "realTransactionData E ReplaceService a s = (Ok (Some ?d), s)"
    using x k l(1) sel(1) new ends
    by (simp add: realTransactionData_def act_bind_def load_selected_def hex_library.represents_contains [OF hex l(2)]
        hex_library.represents_before [OF hex l(2)] address_init_def Let_def before)
  ultimately show ?thesis by blast
qed

lemma connect_data:
  fixes E :: "'e outside"
  assumes hex: "hex_library (out_lib E)" and sel: "selectedWallet_of s = Some w" "address_of w = Some c"
    and new: "take 2 a = ''0x''" "length (ethHex (out_lib E) a) = 20"
      "lowercased a \<notin> {sentinelAddress (out_lib E), address_zero} \<union> address_text (out_lib E) ` set remote" "remote \<noteq> []"
  shows "\<exists>d. realTransactionData E ConnectService a s = (Ok (Some d), s) \<and>
    (\<forall>t. safe_call (out_lib E) (map (address_text (out_lib E)) remote, t) d (lowercased a # map (address_text (out_lib E)) remote, 2)) \<and>
    newOwner_argument (out_lib E) ConnectService d =
      (Ok (Some (address_text (out_lib E) (ethHex (out_lib E) a))) :: ('e service_error, address option) outcome)"
proof -
  let ?L = "out_lib E"
  obtain d where d: "addOwner_data ?L a 2 = (Ok d :: ('e service_error, bytes) outcome)"
    "newOwner_argument ?L ConnectService d = (Ok (Some (address_text ?L (ethHex ?L a))) :: ('e service_error, address option) outcome)"
    using add_argument [OF hex new(2), where ?'e = "'e service_error"] by blast
  have "safe_call ?L (map (address_text ?L) remote, t) d (lowercased a # map (address_text ?L) remote, 2)" for t
    by (rule safe_add [OF hex d(1)]) (use new(3,4) in \<open>auto simp: Suc_le_eq\<close>)
  moreover have "realTransactionData E ConnectService a s = (Ok (Some d), s)"
    using d(1) sel new(1,2) by (simp add: realTransactionData_def contract_address_def act_bind_def load_selected_def address_init_def Let_def)
  ultimately show ?thesis using d(2) by blast
qed



subsection \<open>Signing\<close>

text \<open>The transaction with one more signature; one that is there already is not added again.\<close>

definition with_signature :: "date \<Rightarrow> address \<Rightarrow> bytes \<Rightarrow> transaction \<Rightarrow> transaction" where
  "with_signature now a d tx = (if \<lparr>sig_address = a, sig_data = d\<rparr> \<in> set (signatures tx) then tx
     else tx\<lparr>signatures := signatures tx @ [\<lparr>sig_address = a, sig_data = d\<rparr>], updatedDate := Some now\<rparr>)"

lemma sign_with_run: "status tx = signing \<Longrightarrow> sign_with E now x tx = Ok (with_signature now (eoa_address x) (out_sign E tx (privateKey x)) tx)"
  by (simp add: sign_with_def add_signature_eq_Ok with_signature_def)

lemma with_signature_sel [simp]: "status (with_signature now a d tx) = status tx" "tx_id (with_signature now a d tx) = tx_id tx"
  by (simp_all add: with_signature_def)

text \<open>
  C29. Signing with the recovery phrase. A phrase from which no key can be derived, and one whose two keys are not both, in some case of
  their letters, among the owners that the safe reports, are refused and nothing changes. Otherwise the transaction gets the
  hash of its parameters and waits for signatures, and two signatures are added: of the first key over that transaction, and of the second over
  the transaction with the first signature. They go next to the signatures it already has: signatures of an
  earlier version of the data, kept when an update stepped the transaction back, stay among those that are sent.
\<close>

theorem extension_signing:
  fixes E :: "'e outside"
  assumes tx: "find_tx i s = Some tx" "status tx = draft" "tx_ready (Proceed now) tx"
    and sel: "selectedWallet_of s = Some w" "address_of w = Some c" and remote: "owners_contract E c = Ok remote"
  shows "case out_derive_phrase E phrase of
      None \<Rightarrow> sign_transaction E now i phrase s = (Throw (ExtensionError X_recoveryPhraseInvalid), s)
    | Some p \<Rightarrow> let q = out_derive_at E p 1;
          tx1 = tx\<lparr>tx_hash := Some (out_hash E tx), status := signing, updatedDate := Some now\<rparr>;
          tx2 = with_signature now (eoa_address p) (out_sign E tx1 (privateKey p)) tx1;
          tx3 = with_signature now (eoa_address q) (out_sign E tx2 (privateKey q)) tx2
        in sign_transaction E now i phrase s =
          (if {lowercased (eoa_address p), lowercased (eoa_address q)} \<subseteq> lowercased ` set remote then (Ok (), save_tx tx3 s)
           else (Throw (ExtensionError recoveryPhraseHasNoOwnership), s))"
proof (cases "out_derive_phrase E phrase")
  case (Some p)
  define q where "q = out_derive_at E p 1"
  have owns: "owns remote x \<longleftrightarrow> lowercased (eoa_address x) \<in> lowercased ` set remote" for x
    unfolding owns_def list_ex_iff image_iff by metis
  have owners: "isContractOwners E (p, q) s =
      (Ok ({lowercased (eoa_address p), lowercased (eoa_address q)} \<subseteq> lowercased ` set remote), s)"
    using sel remote by (simp add: isContractOwners_def contract_address_def act_bind_def load_selected_def owns)
  have pair: "signingEOA E phrase = Some (p, q)" using Some by (simp add: signingEOA_def q_def)
  have id: "tx_id tx = i" by (rule tx_repo.find_key [OF tx(1)])
  let ?tx0 = "tx\<lparr>tx_hash := Some (out_hash E tx), updatedDate := Some now\<rparr>"
  let ?tx1 = "tx\<lparr>tx_hash := Some (out_hash E tx), status := signing, updatedDate := Some now\<rparr>"
  have hash: "updateHash E now i s = (Ok (), save_tx ?tx0 s)"
    using tx(1,2) by (simp add: updateHash_def find_required_def act_bind_def change_hash_def changing_def tx_edit_defs tx_status_defs tx_stamp_defs)
  have found: "find_tx i (save_tx ?tx0 s) = Some ?tx0" using id by (simp add: tx_repo.find_save)
  have go: "proceed now ?tx0 = Ok ?tx1"
    using tx(2,3) by (auto simp: proceed_def draft_proceed_def tx_stamp_defs)
  define tx2 where "tx2 = with_signature now (eoa_address p) (out_sign E ?tx1 (privateKey p)) ?tx1"
  define tx3 where "tx3 = with_signature now (eoa_address q) (out_sign E tx2 (privateKey q)) tx2"
  have "sign_with E now p ?tx1 = Ok tx2" "sign_with E now q tx2 = Ok tx3" "tx_id tx3 = i"
    using id by (simp_all add: sign_with_run tx2_def tx3_def)
  then have "sign_transaction E now i phrase s =
      (if {lowercased (eoa_address p), lowercased (eoa_address q)} \<subseteq> lowercased ` set remote then (Ok (), save_tx tx3 s)
       else (Throw (ExtensionError recoveryPhraseHasNoOwnership), s))"
    using pair owners hash found go id
    by (simp add: sign_transaction_def act_bind_def find_required_def save_tx_twice del: insert_subset)
  then show ?thesis unfolding Some option.case Let_def q_def [symmetric] tx2_def [symmetric] tx3_def [symmetric] .
qed (simp add: sign_transaction_def signingEOA_def)

definition sample_key :: "8 word \<Rightarrow> eoa" where
  "sample_key k = \<lparr>eoa_address = sample_address k, eoa_mnemonic = [], privateKey = [k], publicKey = [], derivedIndex = 0\<rparr>"

definition draft_tx :: transaction where
  "draft_tx = swap_tx\<lparr>status := draft, sender := Some (sample_address 9), recipient := Some (sample_address 9), amount := Some (ether 0),
     fee := Some (ether 1), signatures := [\<lparr>sig_address = sample_address 3, sig_data = [0]\<rparr>]\<rparr>"

theorem extension_signing_witness:
  "\<exists>tx'. sign_transaction (sample_outside\<lparr>out_node := safe_node, out_derive_phrase := \<lambda>p. Some (sample_key 3), out_derive_at := \<lambda>x n. sample_key 4\<rparr>)
      1 ''t'' ''phrase'' (paired_registry draft_tx) = (Ok (), save_tx tx' (paired_registry draft_tx)) \<and>
    \<lparr>sig_address = sample_address 3, sig_data = [0]\<rparr> \<in> set (signatures tx')"
proof -
  let ?E = "sample_outside\<lparr>out_node := safe_node, out_derive_phrase := \<lambda>p. Some (sample_key 3), out_derive_at := \<lambda>x n. sample_key 4\<rparr>"
  have tx: "find_tx ''t'' (paired_registry draft_tx) = Some draft_tx" "status draft_tx = draft" "tx_ready (Proceed 1) draft_tx"
    using paired_registry_found(3) [of draft_tx] by (simp_all add: draft_tx_def swap_tx_def tx_init_def tx_stamp_defs)
  have owners: "owners_contract ?E (sample_address 9) = Ok (map sample_address [7, 3, 4])"
    using safe_node_owners by (simp add: sample_outside_def)
  have "\<lparr>sig_address = sample_address 3, sig_data = [0]\<rparr> \<in> set (signatures draft_tx)" by (simp add: draft_tx_def)
  then show ?thesis
    using extension_signing [OF tx paired_registry_found(1,4) owners, of "''phrase''"] by (auto simp: Let_def with_signature_def sample_key_def)
qed

end
