(* ===== verification/Settings_Service.thy ===== *)
theory Settings_Service
  imports Settings Extension_Service
begin

section \<open>The course of a recovery phrase replacement\<close>

text \<open>
  Properties of the wallet settings service: the calls that replace the two owners of the old recovery phrase, and what the
  wallet looks like when the transaction is mined.
\<close>

subsection \<open>The calls\<close>

lemma swap_in_run:
  assumes "hex_library L" "represents L os l" "valid_address L old" "lowercased old \<in> set os"
    and "valid_address L new" "lowercased new \<notin> set os" "lowercased new \<notin> {sentinelAddress L, address_zero}"
  shows "\<exists>c l'. swap_in L l old new = (Ok (c, l') :: ('e, bytes \<times> owner_linked_list) outcome) \<and> length c = 100 \<and>
    represents L (map (\<lambda>y. if y = lowercased old then lowercased new else y) os) l' \<and>
    (\<forall>t. safe_call L (os, t) c (map (\<lambda>y. if y = lowercased old then lowercased new else y) os, t))"
proof -
  obtain k where k: "k < length os" "firstIndex (\<lambda>a. a = lowercased old) os = Some k" "os ! k = lowercased old"
    using firstIndex_present [OF assms(4)] by blast
  have old: "lowercased old \<noteq> sentinelAddress L" using assms(2,4) by (auto simp: represents_def)
  obtain l' where l': "ol_replace L l old new = (Ok l' :: ('e, owner_linked_list) outcome)"
    "represents L (map (\<lambda>y. if y = lowercased old then lowercased new else y) os) l'"
    using hex_library.represents_replace [OF assms(1,2,3)] assms(5-7) old by blast
  have "ol_addressBefore L l old = (Ok ((sentinelAddress L # os) ! k) :: ('e, address) outcome)"
    using k by (cases k) (simp_all add: hex_library.represents_before [OF assms(1,2,3)])
  moreover have "distinct os" using assms(2) by (simp add: represents_def)
  moreover have "length (swapOwner_data L ((sentinelAddress L # os) ! k) old new) = 100"
    by (simp add: swapOwner_data_def invocation_def hex_library.length_method_id [OF assms(1)] hex_library.length_encodeAddress [OF assms(1)])
  ultimately show ?thesis using l' safe_swap [OF _ k(1,3) assms(6,7)] by (auto simp: swap_in_def)
qed

text \<open>The owners of the safe that are neither this device nor the browser extension.\<close>

definition paper_owners :: "wallet \<Rightarrow> address list \<Rightarrow> address list" where
  "paper_owners w remote = filter (\<lambda>y. map_option low (owner_with w thisDevice) \<noteq> Some y \<and>
     map_option low (owner_with w browserExtension) \<noteq> Some y) remote"

lemma without_role_run:
  assumes "hex_library L" "distinct remote" "\<And>x. owner_with w r = Some x \<Longrightarrow> valid_address L (owner_address x)"
  shows "without_role L w r remote = Ok (filter (\<lambda>y. map_option low (owner_with w r) \<noteq> Some y) remote)"
proof (cases "owner_with w r")
  case (Some x)
  then have "normalized L (owner_address x) = (Ok (low x) :: ('a, address) outcome)"
    using hex_library.normalized_valid [OF assms(1)] assms(3) by blast
  then show ?thesis using Some assms(2) by (simp add: without_role_def distinct_remove1_removeAll removeAll_filter_not_eq)
qed (simp add: without_role_def)

lemma paper_owners_run:
  assumes "hex_library L" "distinct remote"
    and "\<And>r x. r \<in> {thisDevice, browserExtension} \<Longrightarrow> owner_with w r = Some x \<Longrightarrow> valid_address L (owner_address x)"
  shows "obind (without_role L w thisDevice remote) (without_role L w browserExtension) = Ok (paper_owners w remote)"
  using assms(3) [of thisDevice] assms(3) [of browserExtension] assms(2)
  by (simp add: without_role_run [OF assms(1)] paper_owners_def del: map_option_eq_Some)

definition phrase_subscription_of :: "transactionID \<Rightarrow> wallet \<Rightarrow> address \<Rightarrow> address \<Rightarrow> phrase_subscription" where
  "phrase_subscription_of i w a b = \<lparr>ph_transaction = i,
     ph_wallet = w\<lparr>owners := owners w @ map unknown_owner [a, b]\<rparr>, ph_walletID = wallet_id w, ph_first = a, ph_second = b, ph_paper = a\<rparr>"

lemma phrase_estimate_run:
  assumes "hex_library (out_lib E)" "out_address E (multiSendContractAddress (out_metadata E)) = Some m" "d \<noteq> []"
    and "\<And>q. out_estimate E q = Ok r"
  shows "phrase_estimate E w a d = Ok r"
proof -
  have "ethHex (out_lib E) (''0x'' @ toHexString (out_lib E) d) \<noteq> []" using hex_library.ethHex_hex [OF assms(1)] assms(3) by simp
  then show ?thesis using assms(2,4) by (simp add: phrase_estimate_def estimateRequest_init_def)
qed

lemma phrase_data_nonempty: "hex_library L \<Longrightarrow> phrase_data L a ds \<noteq> []"
  using invocation_nonempty by (simp add: phrase_data_def multiSend_def Let_def)

text \<open>What the multi-send contract reads from the data of a batch.\<close>

lemma phrase_data_reads:
  assumes "hex_library L" "length c1 = 100" "length c2 = 100"
  shows "multi_send_reads L (phrase_data L a [c1, c2])
    [(0, big_endian (ethHex L a) mod 2 ^ 256, 0, c1), (0, big_endian (ethHex L a) mod 2 ^ 256, 0, c2)]"
proof -
  let ?txs = "map (\<lambda>d. \<lparr>ms_operation = MS_call, ms_to = a, ms_value = 0, ms_data = d\<rparr>) [c1, c2]"
  have "length (concat (map (ms_encode L) ?txs)) < 2 ^ 256"
    using assms(2,3) by (simp add: ms_encode_def encodeBytes_def rightPadded_def Let_def
        hex_library.length_encodeUInt [OF assms(1)] hex_library.length_encodeAddress [OF assms(1)])
  then show ?thesis using hex_library.multiSend_reads [OF assms(1), of ?txs] assms(2,3) by (simp add: phrase_data_def)
qed

text \<open>The changes of the parameters of a draft in one step, with the hash of the changed transaction.\<close>

definition phrase_tx :: "'e outside \<Rightarrow> date \<Rightarrow> estimateResponse \<Rightarrow> int \<Rightarrow> bytes \<Rightarrow> transaction \<Rightarrow> transaction" where
  "phrase_tx E now r n d tx =
     (let e = \<lparr>gas = rsp_safeTxGas r, dataGas = rsp_dataGas r, operationalGas = rsp_operationalGas r,
              gasPrice = \<lparr>amount_of = rsp_gasPrice r, token_of = Ether\<rparr>\<rparr>;
          tx1 = tx\<lparr>fee := Some \<lparr>amount_of = (rsp_safeTxGas r + rsp_dataGas r) * rsp_gasPrice r, token_of = Ether\<rparr>,
                  fee_estimate := Some e, nonce := Some (decimal n), tx_data := Some d, updatedDate := Some now\<rparr>
      in tx1\<lparr>tx_hash := Some (out_hash E tx1), status := signing, updatedDate := Some now\<rparr>)"

lemma two_swaps:
  assumes hex: "hex_library L" and l: "represents L remote l" and remote: "list_all (valid_address L) remote" "map lowercased remote = remote"
    and os: "o1 \<in> set remote" "o2 \<in> set remote" "o1 \<noteq> o2"
    and new: "valid_address L n1" "lowercased n1 \<notin> {sentinelAddress L, address_zero} \<union> set remote"
      "valid_address L n2" "lowercased n2 \<notin> {sentinelAddress L, address_zero} \<union> set remote" "lowercased n1 \<noteq> lowercased n2"
  obtains c1 c2 l1 l2 where "swap_in L l o1 n1 = (Ok (c1, l1) :: ('e, bytes \<times> owner_linked_list) outcome)"
    "swap_in L l1 o2 n2 = (Ok (c2, l2) :: ('e, bytes \<times> owner_linked_list) outcome)" "length c1 = 100" "length c2 = 100"
    "\<And>t. safe_calls L (remote, t) [c1, c2] (map (\<lambda>y. if y = o1 then lowercased n1 else if y = o2 then lowercased n2 else y) remote, t)"
proof -
  let ?remote = "map (\<lambda>y. if y = o1 then lowercased n1 else y) remote"
  let ?final = "map (\<lambda>y. if y = o2 then lowercased n2 else y) ?remote"
  have low: "lowercased o1 = o1" "lowercased o2 = o2" "valid_address L o1" "valid_address L o2"
    using os remote map_eq_conv [of lowercased remote "\<lambda>x. x"] by (auto simp: list_all_iff)
  obtain c1 l1 where s1: "swap_in L l o1 n1 = (Ok (c1, l1) :: ('e, bytes \<times> owner_linked_list) outcome)"
    "represents L ?remote l1" "length c1 = 100" "\<And>t. safe_call L (remote, t) c1 (?remote, t)"
    using swap_in_run [OF hex l, of o1 n1, where ?'e = 'e] low os new by auto
  have o2: "lowercased o2 \<in> set ?remote" using os low(2) by auto
  have fresh: "lowercased n2 \<notin> set ?remote" using new by auto
  obtain c2 l2 where s2: "swap_in L l1 o2 n2 = (Ok (c2, l2) :: ('e, bytes \<times> owner_linked_list) outcome)"
    "length c2 = 100" "\<And>t. safe_call L (?remote, t) c2 (?final, t)"
    using swap_in_run [OF hex s1(2) low(4) o2 new(3) fresh, where ?'e = 'e] new(4) unfolding low(2) by blast
  have final: "?final = map (\<lambda>y. if y = o1 then lowercased n1 else if y = o2 then lowercased n2 else y) remote"
    using os new by auto
  show thesis by (rule that [OF s1(1) s2(1) s1(3) s2(2)]) (use safe_calls_two [OF s1(4) s2(3)] in \<open>simp only: final\<close>)
qed

text \<open>
  C11. Replacing the recovery phrase. When the safe can be read and the relay answers, the transaction becomes ready for signing. The
  multi-send contract reads two calls from its data, both to the safe and without value: the first two owners of the safe that are neither
  this device nor the extension are swapped for the two keys of the new
  phrase. The safe accepts both calls, and carrying them out changes nothing else of its owners and threshold. The
  new keys, which are not owners yet and not the sentinel or zero address, are noted among the wallet's owners without a role, and the service waits
  for the transaction.
\<close>

theorem phrase_update_swaps_owners:
  fixes E :: "'e outside"
  assumes hex: "hex_library (out_lib E)" and sel: "selectedWallet_of s = Some w" "address_of w = Some a" "canChangeOwners (state w)"
    and tx: "find_tx i s = Some tx" "status tx = draft" "sender tx \<noteq> None" "recipient tx \<noteq> None" "amount tx \<noteq> None"
    and eoa: "find_eoa p s = Some paper" "out_derive_at E paper 1 = derived"
    and remote: "owners_contract E a = Ok remote" "list_all (valid_address (out_lib E)) remote" "map lowercased remote = remote"
      "distinct remote" "sentinelAddress (out_lib E) \<notin> set remote"
    and roles: "\<forall>r \<in> {thisDevice, browserExtension}. \<forall>x. owner_with w r = Some x \<longrightarrow> valid_address (out_lib E) (owner_address x)"
    and old: "paper_owners w remote = o1 # o2 # rest"
    and new: "\<forall>x \<in> {paper, derived}. valid_address (out_lib E) (eoa_address x) \<and>
        lowercased (eoa_address x) \<notin> {sentinelAddress (out_lib E), address_zero} \<union> set remote"
      "lowercased (eoa_address paper) \<noteq> lowercased (eoa_address derived)"
    and relay: "out_address E (multiSendContractAddress (out_metadata E)) = Some m" "\<And>q. out_estimate E q = Ok r"
      "int_range (rsp_safeTxGas r + rsp_dataGas r)" "nextNonce r = (Ok n :: ('e service_error, int) outcome)"
  shows "\<exists>c1 c2 d. (\<forall>t. safe_calls (out_lib E) (remote, t) [c1, c2] (map (\<lambda>y. if y = o1 then lowercased p
        else if y = o2 then lowercased (eoa_address derived) else y) remote, t)) \<and>
    multi_send_reads (out_lib E) d [(0, big_endian (ethHex (out_lib E) a) mod 2 ^ 256, 0, c1),
      (0, big_endian (ethHex (out_lib E) a) mod 2 ^ 256, 0, c2)] \<and>
    updateRecoveryPhraseTransaction E now i p s = (Ok (Some (phrase_subscription_of i w p (eoa_address derived))),
      save_wallet_in (ph_wallet (phrase_subscription_of i w p (eoa_address derived)))
        (save_tx (phrase_tx E now r n d tx) s))"
proof -
  let ?L = "out_lib E" and ?out = "\<lambda>r. r :: ('e service_error, _) outcome"
  have p: "eoa_address paper = p" by (rule eoa_repo.find_key [OF eoa(1)])
  have "set (o1 # o2 # rest) \<subseteq> set remote" "distinct (o1 # o2 # rest)"
    unfolding old [symmetric] using remote(4) by (auto simp: paper_owners_def)
  then have os: "o1 \<in> set remote" "o2 \<in> set remote" "o1 \<noteq> o2" by auto
  obtain l where l: "ol_add_all ?L (ol_init ?L) remote = (Ok l :: ('e service_error, owner_linked_list) outcome)" "represents ?L remote l"
    using hex_library.add_all_represents [OF hex remote(2)] remote(3-5) by (metis set_map)
  have keys: "valid_address ?L p" "lowercased p \<notin> {sentinelAddress ?L, address_zero} \<union> set remote" "valid_address ?L (eoa_address derived)"
    "lowercased (eoa_address derived) \<notin> {sentinelAddress ?L, address_zero} \<union> set remote" "lowercased p \<noteq> lowercased (eoa_address derived)"
    using new p by simp_all
  obtain c1 c2 l1 l2 where s1: "swap_in ?L l o1 p = (Ok (c1, l1) :: ('e service_error, bytes \<times> owner_linked_list) outcome)"
    and s2: "swap_in ?L l1 o2 (eoa_address derived) = (Ok (c2, l2) :: ('e service_error, bytes \<times> owner_linked_list) outcome)"
    and size: "length c1 = 100" "length c2 = 100"
    and safe: "\<And>t. safe_calls ?L (remote, t) [c1, c2] (map (\<lambda>y. if y = o1 then lowercased p
      else if y = o2 then lowercased (eoa_address derived) else y) remote, t)"
    by (rule two_swaps [OF hex l(2) remote(2,3) os keys]) (rule that)
  define d where "d = phrase_data ?L a [c1, c2]"
  have est: "phrase_estimate E w a d = Ok r"
    by (rule phrase_estimate_run [OF hex relay(1) _ relay(2)]) (simp add: d_def phrase_data_nonempty [OF hex])
  have mods: "obind (without_role ?L w thisDevice remote) (without_role ?L w browserExtension) =
      (Ok (o1 # o2 # rest) :: ('e service_error, address list) outcome)"
    unfolding old [symmetric] by (rule paper_owners_run [OF hex remote(4)]) (use roles in blast)
  then obtain ms where ms: "without_role ?L w thisDevice remote = (Ok ms :: ('e service_error, address list) outcome)"
    "without_role ?L w browserExtension ms = (Ok (o1 # o2 # rest) :: ('e service_error, address list) outcome)"
    by (auto simp: obind_eq_Ok)
  have add: "addOwners w (map unknown_owner [p, eoa_address derived]) =
    Ok (w\<lparr>owners := owners w @ map unknown_owner [p, eoa_address derived]\<rparr>)" by (rule addOwners_unknown [OF sel(3)])
  have fees: "phrase_calculateFees r = (Ok (\<lparr>amount_of = (rsp_safeTxGas r + rsp_dataGas r) * rsp_gasPrice r, token_of = Ether\<rparr>,
      \<lparr>gas = rsp_safeTxGas r, dataGas = rsp_dataGas r, operationalGas = rsp_operationalGas r,
       gasPrice = \<lparr>amount_of = rsp_gasPrice r, token_of = Ether\<rparr>\<rparr>, n) :: ('e service_error, _) outcome)"
    using relay(3,4) by (simp add: phrase_calculateFees_def swift_int_def Let_def)
  have "updateRecoveryPhraseTransaction E now i p s = (Ok (Some (phrase_subscription_of i w p (eoa_address derived))),
      save_wallet_in (ph_wallet (phrase_subscription_of i w p (eoa_address derived))) (save_tx (phrase_tx E now r n d tx) s))"
    using tx sel(2) p est add
    by (simp add: updateRecoveryPhraseTransaction_def act_bind_def act_catch_def load_selected_def sel(1) find_required_def eoa remote(1) l(1)
        ms safe_get_def s1 s2 d_def [symmetric] fees draft_changes Let_def phrase_tx_def phrase_subscription_of_def)
  then show ?thesis using safe phrase_data_reads [OF hex size] unfolding d_def by blast
qed

definition phrase_wallet :: wallet where
  "phrase_wallet = (wallet_empty ''w'')\<lparr>state := ReadyToUseState, address_of := Some (sample_address 9),
     owners := [sample_known thisDevice 7, sample_known paperWallet 3, sample_known paperWalletDerived 4]\<rparr>"

definition phrase_registry :: "unit service_error registry" where
  "phrase_registry = lost_registry\<lparr>reg_wallets := [phrase_wallet], reg_txs := [draft_tx], reg_eoas := [sample_key 5]\<rparr>"

definition phrase_response :: estimateResponse where
  "phrase_response = \<lparr>rsp_safeTxGas = 1, rsp_dataGas = 1, rsp_gasPrice = 1, rsp_operationalGas = 1, rsp_lastUsedNonce = None, rsp_gasToken = ''''\<rparr>"

definition phrase_outside :: "unit outside" where
  "phrase_outside = sample_outside\<lparr>out_node := safe_node, out_derive_at := \<lambda>x n. sample_key 6, out_estimate := \<lambda>q. Ok phrase_response\<rparr>"

lemma phrase_registry_found:
  "selectedWallet_of phrase_registry = Some phrase_wallet" "address_of phrase_wallet = Some (sample_address 9)"
  "canChangeOwners (state phrase_wallet)" "wallet_id phrase_wallet = ''w''" "find_wallet ''w'' phrase_registry = Some phrase_wallet"
  "find_tx ''t'' phrase_registry = Some draft_tx" "find_eoa (sample_address 5) phrase_registry = Some (sample_key 5)"
  by (simp_all add: selectedWallet_of_def phrase_registry_def lost_registry_def find_wallet_def find_tx_def find_eoa_def store_get_def
      phrase_wallet_def wallet_empty_def canChangeOwners_def sample_key_def draft_tx_def swap_tx_def tx_init_def tx_stamp_defs)

theorem phrase_update_swaps_owners_witness:
  "\<exists>s'. updateRecoveryPhraseTransaction phrase_outside 1 ''t'' (sample_address 5) phrase_registry =
    (Ok (Some (phrase_subscription_of ''t'' phrase_wallet (sample_address 5) (sample_address 6))), s')"
proof -
  let ?remote = "map sample_address [7, 3, 4]"
  have L: "out_lib phrase_outside = reference_library" by (simp add: phrase_outside_def sample_outside_def)
  have tx: "status draft_tx = draft" "sender draft_tx \<noteq> None" "recipient draft_tx \<noteq> None" "amount draft_tx \<noteq> None"
    by (simp_all add: draft_tx_def)
  have hex: "hex_library (out_lib phrase_outside)" unfolding L by (rule reference.hex_library_axioms)
  have remote: "owners_contract phrase_outside (sample_address 9) = Ok ?remote"
    using safe_node_owners by (simp add: phrase_outside_def sample_outside_def)
  have list: "list_all (valid_address (out_lib phrase_outside)) ?remote" "map lowercased ?remote = ?remote" "distinct ?remote"
    "sentinelAddress (out_lib phrase_outside) \<notin> set ?remote"
    unfolding L by (simp_all add: sample_address_valid sample_address_eq sample_address_sentinel [symmetric])
  have ow: "owner_with phrase_wallet thisDevice = Some (sample_known thisDevice 7)" "owner_with phrase_wallet browserExtension = None"
    by (simp_all add: phrase_wallet_def owner_with_def first_with_def)
  have roles: "\<forall>r \<in> {thisDevice, browserExtension}. \<forall>x. owner_with phrase_wallet r = Some x \<longrightarrow>
      valid_address (out_lib phrase_outside) (owner_address x)"
    using ow by (auto simp: L sample_address_valid)
  have old: "paper_owners phrase_wallet ?remote = sample_address 3 # sample_address 4 # []"
    by (simp add: paper_owners_def ow sample_address_eq)
  have keys: "find_eoa (sample_address 5) phrase_registry = Some (sample_key 5)" "out_derive_at phrase_outside (sample_key 5) 1 = sample_key 6"
    using phrase_registry_found by (simp_all add: phrase_outside_def)
  have new: "\<forall>x \<in> {sample_key 5, sample_key 6}. valid_address (out_lib phrase_outside) (eoa_address x) \<and>
      lowercased (eoa_address x) \<notin> {sentinelAddress (out_lib phrase_outside), address_zero} \<union> set ?remote"
    unfolding L by (auto simp: sample_key_def sample_address_valid sample_address_eq sample_address_sentinel sample_address_nonzero)
  have differ: "lowercased (eoa_address (sample_key 5)) \<noteq> lowercased (eoa_address (sample_key 6))" by (simp add: sample_key_def sample_address_eq)
  have relay: "out_address phrase_outside (multiSendContractAddress (out_metadata phrase_outside)) = Some (sample_address 8)"
    "\<And>q. out_estimate phrase_outside q = Ok phrase_response"
    "int_range (rsp_safeTxGas phrase_response + rsp_dataGas phrase_response)" "nextNonce phrase_response = (Ok 0 :: (unit service_error, int) outcome)"
    by (simp_all add: phrase_outside_def sample_outside_def phrase_response_def int_range_def nextNonce_def)
  have addr: "eoa_address (sample_key 6) = sample_address 6" by (simp add: sample_key_def)
  show ?thesis
    using phrase_update_swaps_owners [OF hex phrase_registry_found(1-3,6) tx keys remote list roles old new differ relay, where now = 1]
    unfolding addr by (elim exE conjE) (rule exI)
qed

subsection \<open>After the transaction is mined\<close>

text \<open>
  The owners of the new recovery phrase are lost. When the transaction that replaces the phrase is no longer pending, the wallet that is stored
  is the wallet from before, without the owners of unknown role, whether the transaction succeeded or failed: on success
  the new owners are set on another wallet object, which is never saved. The key of the new phrase is deleted all the same.
\<close>

theorem phrase_change_forgets_owners:
  assumes "find_tx i s = Some tx" "status tx \<noteq> pending" "canChangeOwners (state w)"
    and "find_wallet (wallet_id w) s = Some v" "canChangeOwners (state v)"
  shows "\<exists>s'. phraseTransactionUpdated (phrase_subscription_of i w a b) s = (Ok False, s') \<and>
    find_wallet (wallet_id w) s' = Some (w\<lparr>owners := remove_with unknown (owners w)\<rparr>) \<and> find_eoa a s' = None"
proof -
  let ?w = "w\<lparr>owners := remove_with unknown (owners w)\<rparr>" and ?c = "phrase_subscription_of i w a b"
  have "owner_with (ph_wallet ?c) unknown \<noteq> None"
    unfolding owner_of_role by (simp add: phrase_subscription_of_def unknown_owner_def)
  moreover have "remove_with unknown (owners (ph_wallet ?c)) = remove_with unknown (owners w)"
    by (simp add: phrase_subscription_of_def remove_with_def unknown_owner_def)
  ultimately have rm: "removeOwner (ph_wallet ?c) unknown = Ok ?w"
    using assms(3) by (simp add: removeOwner_eq_Ok phrase_subscription_of_def)
  obtain v' where "addOwners v [\<lparr>owner_address = a, owner_role = paperWallet\<rparr>, \<lparr>owner_address = b, owner_role = paperWalletDerived\<rparr>] = Ok v'"
    using assms(5) by (simp add: addOwner_def assertCanChangeOwners_def)
  then have "phraseTransactionUpdated ?c s =
      (Ok False, let s' = save_wallet_in ?w s in if find_eoa a s' \<noteq> None then remove_eoa a s' else s')"
    using assms rm
    by (simp add: phraseTransactionUpdated_def act_bind_def phrase_subscription_of_def Let_def)
  then show ?thesis by (auto simp: Let_def wallet_repo.find_save eoa_repo.find_remove)
qed

theorem phrase_change_forgets_owners_witness:
  "\<exists>s'. phraseTransactionUpdated (phrase_subscription_of ''t'' phrase_wallet (sample_address 5) (sample_address 6))
      (save_tx swap_tx phrase_registry) = (Ok False, s') \<and>
    owner_with (the (find_wallet ''w'' s')) paperWallet = Some (sample_known paperWallet 3) \<and> find_eoa (sample_address 5) s' = None"
proof -
  have "find_tx ''t'' (save_tx swap_tx phrase_registry) = Some swap_tx" "status swap_tx \<noteq> pending"
    by (simp_all add: tx_repo.find_save swap_tx_def tx_init_def tx_stamp_defs)
  moreover have "owner_with (phrase_wallet\<lparr>owners := remove_with unknown (owners phrase_wallet)\<rparr>) paperWallet = Some (sample_known paperWallet 3)"
    by (simp add: owner_with_def first_with_def remove_with_def phrase_wallet_def)
  ultimately show ?thesis
    using phrase_change_forgets_owners [of "''t''" "save_tx swap_tx phrase_registry" swap_tx phrase_wallet phrase_wallet
        "sample_address 5" "sample_address 6"] phrase_registry_found(3-5) by auto
qed

end
