(* ===== verification/Messages.thy ===== *)
theory Messages
  imports Relay "HOL-Library.Monad_Syntax"
begin

section \<open>Messages between the app and the browser extension\<close>

text \<open>
  \<^verbatim>\<open>MultisigWalletDomainModel/NotificationService\<close>: the messages that arrive as push notifications
  (\<^verbatim>\<open>TransactionDecisionMessage.swift\<close>, \<^verbatim>\<open>SendTransactionMessage.swift\<close>, \<^verbatim>\<open>Message+Factory.swift\<close>) with every guard of their
  failable initialisers, the bounds of \<^verbatim>\<open>ECDSASignatureBounds.swift\<close>, the failable initialiser of \<open>Address\<close>, and the
  confirmation request the app sends (\<^verbatim>\<open>HTTPNotificatonService.swift\<close>). The dictionary of a notification maps keys to strings: a value of
  another type fails the cast as an absent one does. BigInt's reading of text is a parameter, \<open>number_functions\<close>; the locale
  \<open>number_library\<close> states what is used of it.
\<close>

subsection \<open>Reading numbers\<close>

record number_functions =
  readBigInt :: "string \<Rightarrow> int option"
  readBigUInt :: "string \<Rightarrow> nat option"
  readHex :: "string \<Rightarrow> int option"

locale number_library =
  fixes N :: number_functions
  assumes bigInt_decimal: "readBigInt N (decimal i) = Some i"
    and bigUInt_decimal: "readBigUInt N (decimal (int n)) = Some n"
    and hex_read: "s \<noteq> [] \<Longrightarrow> hex_string (lowercased s) \<Longrightarrow> readHex N s \<noteq> None"

text \<open>\<open>Int(_:)\<close> of the standard library: digits after an optional sign, nil out of range.\<close>

definition signed_text :: "string \<Rightarrow> int option" where
  "signed_text s = (case s of
      [] \<Rightarrow> None
    | c # cs \<Rightarrow>
        if c = CHR ''-'' then map_option (\<lambda>n. - int n) (nat_of_text cs)
        else if c = CHR ''+'' then map_option int (nat_of_text cs)
        else map_option int (nat_of_text s))"

definition Int_text :: "string \<Rightarrow> int option" where
  "Int_text s = (case signed_text s of Some i \<Rightarrow> if int_range i then Some i else None | None \<Rightarrow> None)"

subsection \<open>Bounds of signatures\<close>

definition secp256k1n :: nat where
  "secp256k1n = 115792089237316195423570985008687907852837564279074904382605163141518161494337"

definition isWithinBounds :: "nat \<Rightarrow> nat \<Rightarrow> int \<Rightarrow> bool" where
  "isWithinBounds r s v \<longleftrightarrow> r < secp256k1n \<and> s < secp256k1n div 2 + 1 \<and> v \<in> {27..28}"

definition isWithinBounds_text :: "number_functions \<Rightarrow> string \<Rightarrow> string \<Rightarrow> int \<Rightarrow> bool" where
  "isWithinBounds_text N r s v = (case (readBigUInt N r, readBigUInt N s) of
      (Some r', Some s') \<Rightarrow> isWithinBounds r' s' v
    | _ \<Rightarrow> False)"

subsection \<open>Addresses from text\<close>

text \<open>\<open>trimmingCharacters(in: .whitespacesAndNewlines)\<close>.\<close>

definition is_blank :: "char \<Rightarrow> bool" where
  "is_blank c \<longleftrightarrow> (of_char c :: nat) \<in> {9, 10, 11, 12, 13, 32, 133, 160}"

definition trimmed :: "string \<Rightarrow> string" where
  "trimmed s = rev (dropWhile is_blank (rev (dropWhile is_blank s)))"

definition address_rawValue :: "number_functions \<Rightarrow> hex_functions \<Rightarrow> string \<Rightarrow> address option" where
  "address_rawValue N L rawValue =
     (let v = take 42 (trimmed rawValue);
          noPrefix = (if take 2 v = ''0x'' then drop 2 v else v)
      in if readHex N noPrefix = None then None
         else let d = ethHex L v in if length d = 20 \<or> d = [] then Some v else None)"

subsection \<open>Incoming messages\<close>

type_synonym userInfo = "string \<Rightarrow> string option"

definition guarded :: "bool \<Rightarrow> unit option" where
  "guarded b = (if b then Some () else None)"

record decisionMessage =
  dec_hash :: bytes
  dec_signature :: ethSignature

record sendTransactionMessage =
  msg_hash :: bytes
  msg_safe :: address
  msg_to :: address
  msg_value :: int
  msg_data :: bytes
  msg_operation :: walletOperation
  msg_txGas :: int
  msg_dataGas :: int
  msg_operationalGas :: int
  msg_gasPrice :: int
  msg_gasToken :: address
  msg_nonce :: int
  msg_signature :: ethSignature

datatype message = TransactionConfirmedMessage decisionMessage | TransactionRejectedMessage decisionMessage
  | SendTransactionMessage sendTransactionMessage

definition operation_rawValue :: "walletOperation \<Rightarrow> int" where
  "operation_rawValue p = (case p of call \<Rightarrow> 0 | delegateCall \<Rightarrow> 1 | create \<Rightarrow> 2)"

definition walletOperation_init :: "int \<Rightarrow> walletOperation option" where
  "walletOperation_init i = (if i = 0 then Some call else if i = 1 then Some delegateCall else if i = 2 then Some create else None)"

definition decision_init :: "number_functions \<Rightarrow> hex_functions \<Rightarrow> string \<Rightarrow> userInfo \<Rightarrow> decisionMessage option" where
  "decision_init N L messageType u = do {
     type \<leftarrow> u ''type''; guarded (type = messageType);
     hashString \<leftarrow> u ''hash'';
     let hash = ethHex L hashString; guarded (hash \<noteq> []);
     r \<leftarrow> u ''r'';
     s \<leftarrow> u ''s'';
     vString \<leftarrow> u ''v''; v \<leftarrow> Int_text vString;
     guarded (isWithinBounds_text N r s v);
     Some \<lparr>dec_hash = hash, dec_signature = \<lparr>sig_r = r, sig_s = s, sig_v = v\<rparr>\<rparr> }"

definition confirmed_messageType :: string where "confirmed_messageType = ''confirmTransaction''"

definition rejected_messageType :: string where "rejected_messageType = ''rejectTransaction''"

definition send_messageType :: string where "send_messageType = ''sendTransaction''"

definition sendTransaction_init :: "number_functions \<Rightarrow> hex_functions \<Rightarrow> userInfo \<Rightarrow> sendTransactionMessage option" where
  "sendTransaction_init N L u = do {
     type \<leftarrow> u ''type''; guarded (type = send_messageType);
     hashString \<leftarrow> u ''hash'';
     let hash = ethHex L hashString; guarded (hash \<noteq> []);
     r \<leftarrow> u ''r'';
     s \<leftarrow> u ''s'';
     vString \<leftarrow> u ''v''; v \<leftarrow> Int_text vString;
     safeString \<leftarrow> u ''safe''; safe \<leftarrow> address_rawValue N L safeString;
     toString \<leftarrow> u ''to''; to \<leftarrow> address_rawValue N L toString;
     valueString \<leftarrow> u ''value''; value \<leftarrow> readBigInt N valueString;
     dataString \<leftarrow> u ''data'';
     let data = ethHex L dataString;
     operationString \<leftarrow> u ''operation''; operationInt \<leftarrow> Int_text operationString;
     op \<leftarrow> walletOperation_init operationInt;
     txGasString \<leftarrow> u ''txGas''; txGas \<leftarrow> Int_text txGasString;
     dataGasString \<leftarrow> u ''dataGas''; dataGas \<leftarrow> Int_text dataGasString;
     operationalGasString \<leftarrow> u ''operationalGas''; operationalGas \<leftarrow> Int_text operationalGasString;
     gasPriceString \<leftarrow> u ''gasPrice''; gasPrice \<leftarrow> readBigInt N gasPriceString;
     gasTokenString \<leftarrow> u ''gasToken''; gasToken \<leftarrow> address_rawValue N L gasTokenString;
     nonceString \<leftarrow> u ''nonce''; nonce \<leftarrow> Int_text nonceString;
     guarded (isWithinBounds_text N r s v);
     Some \<lparr>msg_hash = hash, msg_safe = safe, msg_to = to, msg_value = value, msg_data = data, msg_operation = op,
       msg_txGas = txGas, msg_dataGas = dataGas, msg_operationalGas = operationalGas, msg_gasPrice = gasPrice,
       msg_gasToken = gasToken, msg_nonce = nonce, msg_signature = \<lparr>sig_r = r, sig_s = s, sig_v = v\<rparr>\<rparr> }"

definition message_create :: "number_functions \<Rightarrow> hex_functions \<Rightarrow> userInfo \<Rightarrow> message option" where
  "message_create N L u = (case decision_init N L confirmed_messageType u of
      Some m \<Rightarrow> Some (TransactionConfirmedMessage m)
    | None \<Rightarrow> (case decision_init N L rejected_messageType u of
        Some m \<Rightarrow> Some (TransactionRejectedMessage m)
      | None \<Rightarrow> map_option SendTransactionMessage (sendTransaction_init N L u)))"

subsection \<open>Outgoing messages\<close>

text \<open>The members of the JSON objects; how \<open>JSONEncoder\<close> writes an object is a parameter of the service.\<close>

type_synonym json_object = "(string \<times> string) list"

definition safeCreatedMessage :: "string \<Rightarrow> json_object" where
  "safeCreatedMessage a = [(''type'', ''safeCreation''), (''safe'', a)]"

definition requestConfirmationMessage ::
    "hex_functions \<Rightarrow> (string \<Rightarrow> address option) \<Rightarrow> transaction \<Rightarrow> bytes \<Rightarrow> ('e, json_object) outcome" where
  "requestConfirmationMessage L address_from tx hash =
     obind (unwrap (sender tx)) (\<lambda>sender.
     obind (unwrap (address_from sender)) (\<lambda>safe.
     obind (unwrap (address_from (ethTo tx))) (\<lambda>to.
     obind (unwrap (operation tx)) (\<lambda>op.
     obind (unwrap (fee_estimate tx)) (\<lambda>e.
     obind (unwrap (nonce tx)) (\<lambda>n.
     Ok [(''type'', ''requestConfirmation''),
         (''hash'', ''0x'' @ toHexString L hash),
         (''safe'', safe),
         (''to'', to),
         (''value'', decimal (ethValue tx)),
         (''data'', ethData L tx),
         (''operation'', decimal (operation_rawValue op)),
         (''txGas'', decimal (gas e)),
         (''dataGas'', decimal (dataGas e)),
         (''operationalGas'', decimal (operationalGas e)),
         (''gasPrice'', decimal (amount_of (gasPrice e))),
         (''gasToken'', token_address (token_of (gasPrice e))),
         (''nonce'', n)]))))))"

definition transactionSentMessage ::
    "hex_functions \<Rightarrow> (string \<Rightarrow> address option) \<Rightarrow> transaction \<Rightarrow> ('e, json_object) outcome" where
  "transactionSentMessage L address_from tx =
     obind (unwrap (sender tx)) (\<lambda>sender.
     obind (unwrap (address_from sender)) (\<lambda>safe.
     obind (unwrap (address_from (ethTo tx))) (\<lambda>to.
     obind (unwrap (tx_hash tx)) (\<lambda>hash.
     obind (unwrap (transactionHash tx)) (\<lambda>chainHash.
     Ok [(''type'', ''sendTransactionHash''), (''hash'', ''0x'' @ toHexString L hash), (''chainHash'', chainHash)])))))"

subsection \<open>Numbers and addresses survive the text form\<close>

definition reference_numbers :: number_functions where
  "reference_numbers = \<lparr>readBigInt = signed_text, readBigUInt = nat_of_text,
     readHex = (\<lambda>s. if s \<noteq> [] \<and> hex_string (lowercased s) then Some (int (hex_value (lowercased s))) else None)\<rparr>"

lemma signed_text_decimal: "signed_text (decimal i) = Some i"
proof (cases "i < 0")
  case True
  then show ?thesis using nat_of_decimal [of "nat (- i)"] by (simp add: decimal_def signed_text_def)
next
  case False
  then have eq: "decimal i = decimal_nat (nat i)" "nat_of_text (decimal i) = Some (nat i)"
    using nat_of_decimal [of "nat i"] by (simp_all add: decimal_def)
  obtain c cs where c: "decimal_nat (nat i) = c # cs" "is_digit c"
    using decimal_nat_digits [of "nat i"] by (cases "decimal_nat (nat i)") auto
  then have "c \<noteq> CHR ''-''" "c \<noteq> CHR ''+''" by (auto simp: is_digit_def)
  with eq c False show ?thesis by (simp add: signed_text_def)
qed

lemma Int_text_decimal [simp]: "int_range i \<Longrightarrow> Int_text (decimal i) = Some i"
  by (simp add: Int_text_def signed_text_decimal)

interpretation reference_numbers: number_library reference_numbers
  by unfold_locales (simp_all add: reference_numbers_def signed_text_decimal nat_of_decimal)

text \<open>An address as the extension and the app write it: \<open>0x\<close> and forty hex digits.\<close>

definition written_address :: "hex_functions \<Rightarrow> address \<Rightarrow> bool" where
  "written_address L a \<longleftrightarrow> take 2 a = ''0x'' \<and> length a = 42 \<and> hex_string (lowercased (drop 2 a)) \<and> length (ethHex L a) = 20"

lemma digit_not_blank: "k < 16 \<Longrightarrow> \<not> is_blank (digit k)"
proof -
  have "list_all (\<lambda>k. \<not> is_blank (digit k)) [0..<16]" by code_simp
  then show "k < 16 \<Longrightarrow> ?thesis" by (simp add: list_all_iff)
qed

lemma hex_char_not_blank: "lower c \<in> digit ` {..<16} \<Longrightarrow> \<not> is_blank c"
proof
  assume "lower c \<in> digit ` {..<16}" "is_blank c"
  moreover from this have "lower c = c" by (auto simp: is_blank_def lower_def)
  ultimately show False using digit_not_blank by auto
qed

lemma trimmed_plain: "a \<noteq> [] \<Longrightarrow> \<not> is_blank (hd a) \<Longrightarrow> \<not> is_blank (last a) \<Longrightarrow> trimmed a = a"
proof -
  assume a: "a \<noteq> []" "\<not> is_blank (hd a)" "\<not> is_blank (last a)"
  then have "dropWhile is_blank a = a" by (cases a) simp_all
  moreover have "dropWhile is_blank (rev a) = rev a" using a by (cases a rule: rev_cases) simp_all
  ultimately show ?thesis by (simp add: trimmed_def)
qed

lemma written_address_parts:
  assumes "written_address L a"
  obtains t where "a = ''0x'' @ t" "length t = 40" "hex_string (lowercased t)" "\<not> is_blank (last a)"
proof -
  let ?t = "drop 2 a"
  have a: "a = ''0x'' @ ?t" "length ?t = 40" "hex_string (lowercased ?t)"
    using assms append_take_drop_id [of 2 a] by (simp_all add: written_address_def)
  then have "?t \<noteq> []" by auto
  then have l: "last ?t \<in> set ?t" by (rule last_in_set)
  have "last a = last ?t" using a(2) by (simp add: last_drop)
  moreover have "\<not> is_blank c" if "c \<in> set ?t" for c
    using a(3) that by (intro hex_char_not_blank) (auto simp: lowercased_def list_all_iff)
  ultimately show thesis using that [OF a] l by metis
qed

context number_library
begin

lemma rawValue_written: "written_address L a \<Longrightarrow> address_rawValue N L a = Some a"
proof -
  assume w: "written_address L a"
  then obtain t where t: "a = ''0x'' @ t" "length t = 40" "hex_string (lowercased t)" "\<not> is_blank (last a)"
    by (rule written_address_parts)
  then have "trimmed a = a" by (intro trimmed_plain) (simp_all add: is_blank_def)
  moreover have "readHex N t \<noteq> None" using t(2,3) by (intro hex_read) auto
  moreover have "length (ethHex L a) = 20" using w by (simp add: written_address_def)
  ultimately show ?thesis using t(1,2) by (auto simp: address_rawValue_def Let_def)
qed

lemma bounds_text: "isWithinBounds_text N (decimal (int r)) (decimal (int s)) v = isWithinBounds r s v"
  by (simp add: isWithinBounds_text_def bigUInt_decimal)

end

subsection \<open>Requests that come back\<close>

text \<open>A confirmation request as it comes back with a signature: the type is that of a transaction to send.\<close>

definition returned_request :: "json_object \<Rightarrow> nat \<Rightarrow> nat \<Rightarrow> int \<Rightarrow> userInfo" where
  "returned_request F r s v = (map_of F)(''type'' \<mapsto> send_messageType,
     ''r'' \<mapsto> decimal (int r), ''s'' \<mapsto> decimal (int s), ''v'' \<mapsto> decimal v)"

lemma other_type: "u ''type'' = Some t \<Longrightarrow> t \<noteq> ty \<Longrightarrow> decision_init N L ty u = None"
  by (simp add: decision_init_def guarded_def)

lemma returned_members:
  assumes "requestConfirmationMessage L address_from tx h = (Ok F :: ('e, json_object) outcome)"
    and "address_from (the (sender tx)) = Some safe" "address_from (ethTo tx) = Some to"
    and "operation tx = Some op" "fee_estimate tx = Some e" "nonce tx = Some n"
    and "u = returned_request F r s v"
  shows "u ''type'' = Some send_messageType" "u ''hash'' = Some (''0x'' @ toHexString L h)" "u ''safe'' = Some safe"
    "u ''to'' = Some to" "u ''value'' = Some (decimal (ethValue tx))" "u ''data'' = Some (ethData L tx)"
    "u ''operation'' = Some (decimal (operation_rawValue op))" "u ''txGas'' = Some (decimal (gas e))"
    "u ''dataGas'' = Some (decimal (dataGas e))" "u ''operationalGas'' = Some (decimal (operationalGas e))"
    "u ''gasPrice'' = Some (decimal (amount_of (gasPrice e)))"
    "u ''gasToken'' = Some (token_address (token_of (gasPrice e)))" "u ''nonce'' = Some n"
    "u ''r'' = Some (decimal (int r))" "u ''s'' = Some (decimal (int s))" "u ''v'' = Some (decimal v)"
proof -
  have "F = [(''type'', ''requestConfirmation''), (''hash'', ''0x'' @ toHexString L h), (''safe'', safe), (''to'', to),
      (''value'', decimal (ethValue tx)), (''data'', ethData L tx), (''operation'', decimal (operation_rawValue op)),
      (''txGas'', decimal (gas e)), (''dataGas'', decimal (dataGas e)), (''operationalGas'', decimal (operationalGas e)),
      (''gasPrice'', decimal (amount_of (gasPrice e))), (''gasToken'', token_address (token_of (gasPrice e))), (''nonce'', n)]"
    using assms(1-6) by (cases "sender tx") (simp_all add: requestConfirmationMessage_def)
  then show "u ''type'' = Some send_messageType" "u ''hash'' = Some (''0x'' @ toHexString L h)" "u ''safe'' = Some safe"
    "u ''to'' = Some to" "u ''value'' = Some (decimal (ethValue tx))" "u ''data'' = Some (ethData L tx)"
    "u ''operation'' = Some (decimal (operation_rawValue op))" "u ''txGas'' = Some (decimal (gas e))"
    "u ''dataGas'' = Some (decimal (dataGas e))" "u ''operationalGas'' = Some (decimal (operationalGas e))"
    "u ''gasPrice'' = Some (decimal (amount_of (gasPrice e)))"
    "u ''gasToken'' = Some (token_address (token_of (gasPrice e)))" "u ''nonce'' = Some n"
    "u ''r'' = Some (decimal (int r))" "u ''s'' = Some (decimal (int s))" "u ''v'' = Some (decimal v)"
    by (simp_all add: assms(7) returned_request_def)
qed

text \<open>
  Text form of transactions: the members of the confirmation request that the app sends for a transaction, returned under
  the type of a transaction to send and with a signature within bounds, are read as exactly that transaction: same hash, safe,
  receiver and value on the chain, data, operation, gas numbers, gas token and nonce. With a signature out of bounds they are not
  read as a message at all.
\<close>

lemma returned_request_read:
  assumes "hex_library L" "number_library N"
    and "requestConfirmationMessage L address_from tx h = (Ok F :: ('e, json_object) outcome)"
    and "address_from (the (sender tx)) = Some safe" "address_from (ethTo tx) = Some to"
    and "operation tx = Some op" "fee_estimate tx = Some e" "nonce tx = Some (decimal n)"
    and "h \<noteq> []" "int_range n" "int_range (gas e)" "int_range (dataGas e)" "int_range (operationalGas e)"
    and "written_address L safe" "written_address L to" "written_address L (token_address (token_of (gasPrice e)))"
  shows "message_create N L (returned_request F r s v) =
     (if isWithinBounds r s v
      then Some (SendTransactionMessage \<lparr>msg_hash = h, msg_safe = safe, msg_to = to, msg_value = ethValue tx,
        msg_data = (case tx_data tx of None \<Rightarrow> ethHex L [] | Some d \<Rightarrow> d), msg_operation = op, msg_txGas = gas e,
        msg_dataGas = dataGas e, msg_operationalGas = operationalGas e, msg_gasPrice = amount_of (gasPrice e),
        msg_gasToken = token_address (token_of (gasPrice e)), msg_nonce = n,
        msg_signature = \<lparr>sig_r = decimal (int r), sig_s = decimal (int s), sig_v = v\<rparr>\<rparr>)
      else None)" (is "_ = ?R")
proof -
  define u where "u = returned_request F r s v"
  note u = returned_members [OF assms(3-8) u_def]
  have d: "decision_init N L confirmed_messageType u = None" "decision_init N L rejected_messageType u = None"
    by (rule other_type [where u = u, OF u(1)], simp add: send_messageType_def confirmed_messageType_def rejected_messageType_def)+
  have h: "ethHex L (''0x'' @ toHexString L x) = x" for x by (rule hex_library.ethHex_hex [OF assms(1)])
  have data: "ethHex L (ethData L tx) = (case tx_data tx of None \<Rightarrow> ethHex L [] | Some d \<Rightarrow> d)"
    using h by (cases "tx_data tx") (simp_all add: ethData_def)
  have p: "int_range (operation_rawValue op)" "walletOperation_init (operation_rawValue op) = Some op"
    by (cases op; simp add: operation_rawValue_def walletOperation_init_def int_range_def)+
  have v: "isWithinBounds r s v \<Longrightarrow> int_range v" by (simp add: isWithinBounds_def int_range_def)
  note laws = number_library.rawValue_written [OF assms(2)] number_library.bounds_text [OF assms(2)]
    number_library.bigInt_decimal [OF assms(2)]
  have "message_create N L u = ?R"
  proof (cases "int_range v")
    case True
    then show ?thesis
      using assms(9-16) h [of h] data p laws
      by (simp add: message_create_def d sendTransaction_init_def u guarded_def)
  next
    case False
    then have "Int_text (decimal v) = None" by (simp add: Int_text_def signed_text_decimal)
    moreover have "\<not> isWithinBounds r s v" using False v by blast
    ultimately show ?thesis using assms(9) h [of h]
      by (simp add: message_create_def d sendTransaction_init_def u guarded_def)
  qed
  then show ?thesis by (simp add: u_def)
qed

definition sample_request_tx :: transaction where
  "sample_request_tx = (tx_init 1 ''tx1'' Tx.transfer ''w1'' ''0x0:w1'')\<lparr>sender := Some (sample_address 1),
     recipient := Some (sample_address 2), amount := Some (ether 100), tx_data := Some [1, 2],
     fee_estimate := Some \<lparr>gas = 3, dataGas = 4, operationalGas = 5, gasPrice = ether 6\<rparr>, operation := Some call,
     nonce := Some (decimal 7)\<rparr>"

lemma text_written: "length d = 20 \<Longrightarrow> written_address reference_library (address_text reference_library d)"
proof -
  assume d: "length d = 20"
  have "toHexString reference_library d = write_hex d" by (simp add: reference_library_def)
  then show ?thesis
    using d hex_string_write [of d] length_write_hex [of d] reference.ethHex_hex [of d] reference.hex_lower [of d]
    by (simp add: written_address_def address_text_def)
qed

lemma Ether_written: "written_address reference_library (token_address Ether)"
proof -
  have "token_address Ether = address_text reference_library (replicate 20 0)" by code_simp
  then show ?thesis using text_written [of "replicate 20 0"] by simp
qed

end
