(* ===== verification/App.thy ===== *)
theory App
  imports Messages Extension "HOL-Library.Sublist"
begin

section \<open>The application service: wallets, owners, tokens\<close>

text \<open>
  \<^verbatim>\<open>MultisigWalletApplication/WalletApplicationService.swift\<close> up to its transactions,
  \<^verbatim>\<open>EthereumApplicationService.swift\<close> where it handles keys and signatures, \<^verbatim>\<open>CommunicationDomainService.swift\<close>,
  \<^verbatim>\<open>TokenData.swift\<close> and the checks of \<^verbatim>\<open>HTTPNotificatonService.swift\<close>. The state is the registry together with the log of
  the requests that left the program, in order. An owner type of the application is the owner role with the same raw value.
  Subscriptions and logging are left out.
\<close>

subsection \<open>Errors\<close>

datatype walletApplicationServiceError = invalidWalletState | app_networkError | app_clientError | app_serverError
  | validationFailed | exceededExpirationDate

datatype networkServiceError = net_networkError | net_serverError | net_clientError

datatype feeCalculationError = fee_insufficientBalance | fee_extensionNotFound | fee_extensionExists

text \<open>Errors beside those of the domain services. What a failed network request carries is the text of the response.\<close>

datatype 'x app_failure = AppError walletApplicationServiceError | NetworkServiceError networkServiceError
  | NotificationValidationFailed | FeeError feeCalculationError | ResponseText "string option" 'x

type_synonym 'x app_error = "'x app_failure service_error"

fun response_text :: "'x app_failure \<Rightarrow> string option" where
  "response_text (ResponseText t _) = t"
| "response_text _ = None"

definition error_from_response :: "int option \<Rightarrow> walletApplicationServiceError" where
  "error_from_response code = (case code of
      Some c \<Rightarrow> if 400 \<le> c \<and> c < 500 then app_clientError else app_serverError
    | None \<Rightarrow> app_networkError)"

definition error_from_network :: "networkServiceError \<Rightarrow> walletApplicationServiceError" where
  "error_from_network e = (case e of
      net_clientError \<Rightarrow> app_clientError
    | net_networkError \<Rightarrow> app_networkError
    | net_serverError \<Rightarrow> app_serverError)"

definition notification_error :: "'x app_error \<Rightarrow> 'x app_error" where
  "notification_error e = (case e of
      OtherError NotificationValidationFailed \<Rightarrow> OtherError (AppError validationFailed)
    | NetworkRequestFailed code x \<Rightarrow>
        if (case response_text x of Some t \<Rightarrow> sublist ''Exceeded expiration date'' t | None \<Rightarrow> False)
        then OtherError (AppError exceededExpirationDate)
        else OtherError (AppError (error_from_response code))
    | _ \<Rightarrow> e)"

definition relay_error :: "'x app_error \<Rightarrow> 'x app_error" where
  "relay_error e = (case e of
      OtherError (NetworkServiceError n) \<Rightarrow> OtherError (AppError (error_from_network n))
    | NetworkRequestFailed code _ \<Rightarrow> OtherError (AppError (error_from_response code))
    | _ \<Rightarrow> e)"

subsection \<open>What leaves the program\<close>

record notificationRequest =
  devices :: "string list"
  notification :: string
  not_signature :: ethSignature

record browserExtensionCode =
  expirationDate :: date
  code_signature :: ethSignature
  extensionAddress :: "string option"

record pairingRequest =
  temporaryAuthorization :: browserExtensionCode
  pair_signature :: ethSignature
  deviceOwnerAddress :: "string option"

record deletePairRequest =
  del_device :: string
  del_signature :: ethSignature

record authRequest =
  pushToken :: string
  auth_signatures :: "ethSignature list"
  buildNumber :: int
  versionName :: string
  client :: string
  bundleID :: string
  deviceOwnerAddresses :: "string list"

datatype app_request = SubmitRequest submitRequest | EstimateRequest estimateRequest | NotificationRequest notificationRequest
  | PairingRequest pairingRequest | DeletePairRequest deletePairRequest | AuthRequest authRequest | CreationEstimateRequest int

record creationEstimation =
  paymentTokenAddress :: string
  payment :: int

text \<open>
  The services: those of \<open>outside\<close>, the text functions, and the HTTP client of the notification service with what its
  responses hold (the addresses of a device pair, the items of an authorisation).
\<close>

record authItem =
  auth_owner :: string
  auth_pushToken :: string
  auth_client :: string
  auth_buildNumber :: int
  auth_versionName :: string
  auth_bundle :: string

record 'x app_services =
  app_out :: "'x app_failure outside"
  app_numbers :: number_functions
  app_json :: "json_object \<Rightarrow> string"
  app_url :: "string \<Rightarrow> string option"
  app_read_code :: "string \<Rightarrow> browserExtensionCode option"
  app_extension_address :: "string \<Rightarrow> string option"
  app_sign_message :: "string \<Rightarrow> bytes \<Rightarrow> ethSignature"
  app_recover :: "bytes \<Rightarrow> ethSignature \<Rightarrow> string option"
  app_signature_data :: "ethSignature \<Rightarrow> bytes"
  app_send :: "notificationRequest \<Rightarrow> ('x app_error, unit) outcome"
  app_pair :: "pairingRequest \<Rightarrow> ('x app_error, string list) outcome"
  app_deletePair :: "deletePairRequest \<Rightarrow> ('x app_error, unit) outcome"
  app_auth :: "authRequest \<Rightarrow> ('x app_error, authItem list) outcome"
  app_estimateCreation :: "int \<Rightarrow> ('x app_error, creationEstimation list) outcome"

record 'x app_world =
  app_registry :: "'x app_error registry"
  app_requests :: "app_request list"

type_synonym ('x, 'a) app = "('x app_world, 'x app_error, 'a) action"

definition in_registry :: "('x app_error registry, 'x app_error, 'a) action \<Rightarrow> ('x, 'a) app" where
  "in_registry m w = (case m (app_registry w) of (r, s) \<Rightarrow> (r, w\<lparr>app_registry := s\<rparr>))"

definition ask :: "('x app_error registry \<Rightarrow> 'a) \<Rightarrow> ('x, 'a) app" where
  "ask f w = (Ok (f (app_registry w)), w)"

definition leaving :: "app_request \<Rightarrow> ('x app_error, 'a) outcome \<Rightarrow> ('x, 'a) app" where
  "leaving q r w = (r, w\<lparr>app_requests := app_requests w @ [q]\<rparr>)"

text \<open>Mapping the errors of a block, and \<open>try?\<close>, which forgets an error but not its effects.\<close>

definition mapping_errors :: "('e \<Rightarrow> 'e) \<Rightarrow> ('s, 'e, 'a) action \<Rightarrow> ('s, 'e, 'a) action" where
  "mapping_errors f m = act_catch m (\<lambda>e. act_lift (Throw (f e)))"

definition try_optional :: "('s, 'e, 'a) action \<Rightarrow> ('s, 'e, 'a option) action" where
  "try_optional m = act_catch (act_bind m (\<lambda>a. act_return (Some a))) (\<lambda>_. act_return None)"

subsection \<open>Keys and signatures\<close>

definition role_address :: "ownerRole \<Rightarrow> 'e registry \<Rightarrow> address option" where
  "role_address r s = (case selectedWallet_of s of None \<Rightarrow> None | Some w \<Rightarrow> map_option owner_address (owner_with w r))"

definition eth_sign :: "'x app_services \<Rightarrow> string \<Rightarrow> string \<Rightarrow> ('x, ethSignature option) app" where
  "eth_sign A message a =
     act_bind (act_lift (address_init (out_lib (app_out A)) a)) (\<lambda>eoaAddress.
     ask (\<lambda>s. map_option (\<lambda>k. app_sign_message A message (privateKey k)) (find_eoa eoaAddress s)))"

definition eth_address :: "'x app_services \<Rightarrow> bytes \<Rightarrow> ethSignature \<Rightarrow> ('e, address option) outcome" where
  "eth_address A hash sig = (case app_recover A hash sig of
      None \<Rightarrow> Ok None
    | Some v \<Rightarrow> omap Some (address_init (out_lib (app_out A)) v))"

definition generateExternallyOwnedAccount :: "eoa \<Rightarrow> ('x, string \<times> string list) app" where
  "generateExternallyOwnedAccount generated =
     act_bind (in_registry (act_do (save_eoa generated))) (\<lambda>_.
     act_return (eoa_address generated, eoa_mnemonic generated))"

definition generateDerivedExternallyOwnedAccount :: "'x app_services \<Rightarrow> string \<Rightarrow> ('x, string \<times> string list) app" where
  "generateDerivedExternallyOwnedAccount A a =
     act_bind (act_lift (address_init (out_lib (app_out A)) a)) (\<lambda>a.
     act_bind (ask (find_eoa a)) (\<lambda>found.
     act_bind (act_lift (unwrap found)) (\<lambda>k.
     let derived = out_derive_at (app_out A) k 1 in
     act_bind (in_registry (act_do (save_eoa derived))) (\<lambda>_.
     act_return (eoa_address derived, eoa_mnemonic derived)))))"

definition removeExternallyOwnedAccount :: "'x app_services \<Rightarrow> string \<Rightarrow> ('x, unit) app" where
  "removeExternallyOwnedAccount A a =
     act_bind (act_lift (address_init (out_lib (app_out A)) a)) (\<lambda>a. in_registry (act_do (remove_eoa a)))"

definition findExternallyOwnedAccount :: "'x app_services \<Rightarrow> string \<Rightarrow> ('x, (string \<times> string list) option) app" where
  "findExternallyOwnedAccount A a =
     act_bind (act_lift (address_init (out_lib (app_out A)) a)) (\<lambda>a.
     ask (\<lambda>s. map_option (\<lambda>k. (eoa_address k, eoa_mnemonic k)) (find_eoa a s)))"

subsection \<open>The notification service\<close>

definition http_pair :: "'x app_services \<Rightarrow> pairingRequest \<Rightarrow> ('x, unit) app" where
  "http_pair A q =
     act_bind (leaving (PairingRequest q) (app_pair A q)) (\<lambda>devicePair.
     act_bind (act_lift (unwrap (extensionAddress (temporaryAuthorization q)))) (\<lambda>ext.
     act_bind (act_lift (unwrap (deviceOwnerAddress q))) (\<lambda>device.
     if ext \<in> set devicePair \<and> device \<in> set devicePair then act_return ()
     else act_lift (Throw (OtherError NotificationValidationFailed)))))"

definition http_auth :: "'x app_services \<Rightarrow> authRequest \<Rightarrow> ('x, unit) app" where
  "http_auth A q =
     act_bind (leaving (AuthRequest q) (app_auth A q)) (\<lambda>response.
     if set response = set (map (\<lambda>a. \<lparr>auth_owner = a, auth_pushToken = pushToken q, auth_client = client q,
          auth_buildNumber = buildNumber q, auth_versionName = versionName q, auth_bundle = bundleID q\<rparr>) (deviceOwnerAddresses q))
     then act_return () else act_lift (Throw (OtherError NotificationValidationFailed)))"

definition http_send :: "'x app_services \<Rightarrow> notificationRequest \<Rightarrow> ('x, unit) app" where
  "http_send A q = leaving (NotificationRequest q) (app_send A q)"

definition http_deletePair :: "'x app_services \<Rightarrow> deletePairRequest \<Rightarrow> ('x, unit) app" where
  "http_deletePair A q = leaving (DeletePairRequest q) (app_deletePair A q)"

definition sendNotificationRequest_init :: "string \<Rightarrow> string \<Rightarrow> ethSignature \<Rightarrow> notificationRequest" where
  "sendNotificationRequest_init message a sig = \<lparr>devices = [a], notification = message, not_signature = sig\<rparr>"

definition handleNotificationServiceError :: "('x, 'a) app \<Rightarrow> ('x, 'a) app" where
  "handleNotificationServiceError = mapping_errors notification_error"

definition handleRelayServiceErrors :: "('x, 'a) app \<Rightarrow> ('x, 'a) app" where
  "handleRelayServiceErrors = mapping_errors relay_error"

definition notifyBrowserExtension :: "'x app_services \<Rightarrow> string \<Rightarrow> ('x, unit) app" where
  "notifyBrowserExtension A message =
     act_bind (ask (role_address browserExtension)) (\<lambda>found.
     case found of
       None \<Rightarrow> act_return ()
     | Some ext \<Rightarrow>
         act_bind (ask (role_address thisDevice)) (\<lambda>device.
         act_bind (act_lift (unwrap device)) (\<lambda>sender.
         act_bind (eth_sign A (''GNO'' @ message) sender) (\<lambda>signed.
         act_bind (act_lift (unwrap signed)) (\<lambda>signedAddress.
         handleNotificationServiceError
           (http_send A (sendNotificationRequest_init message ext signedAddress)))))))"

subsection \<open>The communication service\<close>

definition comm_deletePair :: "'x app_services \<Rightarrow> walletID \<Rightarrow> string \<Rightarrow> ('x, unit) app" where
  "comm_deletePair A i a =
     act_bind (ask (find_wallet i)) (\<lambda>found.
     act_bind (act_lift (unwrap found)) (\<lambda>w.
     act_bind (act_lift (unwrap (owner_with w thisDevice))) (\<lambda>device.
     act_bind (ask (find_eoa (owner_address device))) (\<lambda>found.
     act_bind (act_lift (unwrap found)) (\<lambda>k.
     http_deletePair A \<lparr>del_device = a, del_signature = app_sign_message A (''GNO'' @ a) (privateKey k)\<rparr>)))))"

definition comm_notifyWalletCreated :: "'x app_services \<Rightarrow> walletID \<Rightarrow> ('x, unit) app" where
  "comm_notifyWalletCreated A i =
     act_bind (ask (\<lambda>s. do {
       w \<leftarrow> find_wallet i s;
       from \<leftarrow> address_of w;
       ext \<leftarrow> owner_with w browserExtension;
       device \<leftarrow> owner_with w thisDevice;
       k \<leftarrow> find_eoa (owner_address device) s;
       Some (from, owner_address ext, k) })) (\<lambda>found.
     case found of
       None \<Rightarrow> act_return ()
     | Some (from, ext, k) \<Rightarrow>
         let message = app_json A (safeCreatedMessage from) in
         http_send A (sendNotificationRequest_init message ext
           (app_sign_message A (''GNO'' @ message) (privateKey k))))"

subsection \<open>Token data\<close>

record tokenData =
  td_address :: string
  td_code :: string
  td_name :: string
  td_logoURL :: "string option"
  td_decimals :: int
  td_balance :: "int option"

definition tokenData_init :: "'x app_services \<Rightarrow> string \<Rightarrow> string \<Rightarrow> string \<Rightarrow> string \<Rightarrow> int \<Rightarrow> int option \<Rightarrow> tokenData" where
  "tokenData_init A a c n logo ds b = \<lparr>td_address = a, td_code = c, td_name = n,
     td_logoURL = (if logo = [] then None else app_url A logo), td_decimals = ds, td_balance = b\<rparr>"

definition tokenData_of :: "'x app_services \<Rightarrow> token \<Rightarrow> int option \<Rightarrow> tokenData" where
  "tokenData_of A t b = tokenData_init A (token_address t) (token_code t) (token_name t) (logoUrl t) (decimals t) b"

definition td_token :: "'x app_services \<Rightarrow> tokenData \<Rightarrow> ('e, token) outcome" where
  "td_token A d =
     obind (address_init (out_lib (app_out A)) (td_address d)) (\<lambda>a.
     Ok \<lparr>token_code = td_code d, token_name = td_name d, decimals = td_decimals d, token_address = a,
         logoUrl = (case td_logoURL d of None \<Rightarrow> '''' | Some u \<Rightarrow> u)\<rparr>)"

definition tokenData_empty :: "'x app_services \<Rightarrow> tokenData" where
  "tokenData_empty A = tokenData_init A '''' '''' '''' '''' 18 None"

definition td_isEther :: "tokenData \<Rightarrow> bool" where
  "td_isEther d \<longleftrightarrow> td_address d = ''0x0'' \<or> td_address d = ''0x0000000000000000000000000000000000000000''"

definition td_withBalance :: "'x app_services \<Rightarrow> int option \<Rightarrow> tokenData \<Rightarrow> tokenData" where
  "td_withBalance A b d = tokenData_init A (td_address d) (td_code d) (td_name d)
     (case td_logoURL d of None \<Rightarrow> '''' | Some u \<Rightarrow> u) (td_decimals d) b"

definition td_withNonNegativeBalance :: "'x app_services \<Rightarrow> tokenData \<Rightarrow> tokenData" where
  "td_withNonNegativeBalance A d = td_withBalance A (map_option abs (td_balance d)) d"

subsection \<open>Queries about the selected wallet\<close>

definition hasReadyToUseWallet :: "'e registry \<Rightarrow> bool" where
  "hasReadyToUseWallet s = (case selectedWallet_of s of None \<Rightarrow> False | Some w \<Rightarrow> isReadyToUse (state w))"

definition isWalletDeployable :: "'e registry \<Rightarrow> bool" where
  "isWalletDeployable s = (case selectedWallet_of s of None \<Rightarrow> False | Some w \<Rightarrow> isDeployable w)"

definition isSafeCreationInProgress :: "'e registry \<Rightarrow> bool" where
  "isSafeCreationInProgress s = (case selectedWallet_of s of None \<Rightarrow> False | Some w \<Rightarrow> isCreationInProgress (state w))"

definition selectedWalletAddress :: "'e registry \<Rightarrow> string option" where
  "selectedWalletAddress s = (case selectedWallet_of s of None \<Rightarrow> None | Some w \<Rightarrow> address_of w)"

definition canChangeAccount :: "'e registry \<Rightarrow> bool" where
  "canChangeAccount s \<longleftrightarrow> selectedWalletAddress s \<noteq> None"

definition isOwnerExists :: "ownerRole \<Rightarrow> 'e registry \<Rightarrow> bool" where
  "isOwnerExists r s = (case selectedWallet_of s of None \<Rightarrow> False | Some w \<Rightarrow> owner_with w r \<noteq> None)"

datatype walletStateId = Id_draft | Id_deploying | Id_waitingForFirstDeposit | Id_notEnoughFunds | Id_creationStarted
  | Id_transactionHashIsKnown | Id_finalizingDeployment | Id_readyToUse

definition walletStateId_init :: "wstate \<Rightarrow> ('e, walletStateId) outcome" where
  "walletStateId_init x = (case x of
      DraftState \<Rightarrow> Ok Id_draft
    | DeployingState \<Rightarrow> Ok Id_deploying
    | WaitingForFirstDepositState \<Rightarrow> Ok Id_waitingForFirstDeposit
    | NotEnoughFundsState \<Rightarrow> Ok Id_notEnoughFunds
    | CreationStartedState \<Rightarrow> Ok Id_creationStarted
    | FinalizingDeploymentState \<Rightarrow> Ok Id_finalizingDeployment
    | ReadyToUseState \<Rightarrow> Ok Id_readyToUse
    | _ \<Rightarrow> Trap)"

definition walletState :: "'x registry \<Rightarrow> ('e, walletStateId option) outcome" where
  "walletState s = (case selectedWallet_of s of
      None \<Rightarrow> Ok None
    | Some w \<Rightarrow>
        if state w = FinalizingDeploymentState \<and> creationTransactionHash w \<noteq> None then Ok (Some Id_transactionHashIsKnown)
        else omap Some (walletStateId_init (state w)))"

subsection \<open>Accounts and tokens\<close>

definition app_token :: "date \<Rightarrow> string \<Rightarrow> 'e registry \<Rightarrow> token option" where
  "app_token now i s = (if i = token_id Ether then Some Ether else map_option item_token (find_item now i (reg_items s)))"

definition app_findAccount :: "string \<Rightarrow> 'e registry \<Rightarrow> account option" where
  "app_findAccount tokenID s = (case selectedWallet_of s of
      None \<Rightarrow> None
    | Some w \<Rightarrow> find_account (accountID_of tokenID (wallet_id w)) s)"

definition accountBalance :: "string \<Rightarrow> 'e registry \<Rightarrow> int option" where
  "accountBalance tokenID s = (case app_findAccount tokenID s of None \<Rightarrow> None | Some a \<Rightarrow> balance a)"

definition app_tokenData :: "'x app_services \<Rightarrow> date \<Rightarrow> string \<Rightarrow> 'e registry \<Rightarrow> tokenData option" where
  "app_tokenData A now i s = map_option (\<lambda>t. tokenData_of A t (accountBalance (token_id t) s)) (app_token now i s)"

definition feePaymentTokenData :: "'x app_services \<Rightarrow> date \<Rightarrow> 'r registry \<Rightarrow> ('e, tokenData) outcome" where
  "feePaymentTokenData A now s =
     (case (case selectedWallet_of s of None \<Rightarrow> None | Some w \<Rightarrow>
              (case feePaymentTokenAddress w of None \<Rightarrow> None | Some a \<Rightarrow> app_tokenData A now a s)) of
        Some d \<Rightarrow> Ok d
      | None \<Rightarrow> unwrap (app_tokenData A now (token_id Ether) s))"

definition visibleTokens :: "'x app_services \<Rightarrow> bool \<Rightarrow> 'r registry \<Rightarrow> ('e, tokenData list) outcome" where
  "visibleTokens A withEth s = (case selectedWallet_of s of
      None \<Rightarrow> Ok []
    | Some w \<Rightarrow>
        (let tokens = concat (map (\<lambda>x. case find_account (accountID_of (item_id x) (wallet_id w)) s of
               None \<Rightarrow> [] | Some a \<Rightarrow> [tokenData_of A (item_token x) (balance a)]) (whitelisted_items (reg_items s)))
         in if \<not> withEth then Ok tokens
            else obind (unwrap (find_account (accountID_of (token_id Ether) (wallet_id w)) s)) (\<lambda>a.
              Ok (tokenData_of A Ether (balance a) # tokens))))"

definition hiddenTokens :: "'x app_services \<Rightarrow> 'e registry \<Rightarrow> tokenData list" where
  "hiddenTokens A s = map (\<lambda>x. tokenData_of A (item_token x) None)
     (filter (\<lambda>x. item_status x \<noteq> whitelisted) (all_items (reg_items s)))"

definition app_paymentTokens :: "'x app_services \<Rightarrow> 'r registry \<Rightarrow> ('e, tokenData list) outcome" where
  "app_paymentTokens A s = (case selectedWallet_of s of
      None \<Rightarrow> Ok []
    | Some w \<Rightarrow>
        obind (unwrap (find_account (accountID_of (token_id Ether) (wallet_id w)) s)) (\<lambda>a.
        Ok (tokenData_of A Ether (balance a) # map (\<lambda>x. tokenData_of A (item_token x)
          (case find_account (accountID_of (item_id x) (wallet_id w)) s of None \<Rightarrow> None | Some a \<Rightarrow> balance a))
            (paymentTokens (reg_items s)))))"

definition app_whitelist :: "'x app_services \<Rightarrow> date \<Rightarrow> tokenData \<Rightarrow> ('x, unit) app" where
  "app_whitelist A now d = act_bind (act_lift (td_token A d)) (\<lambda>t. in_registry (whitelist now t))"

definition app_blacklist :: "'x app_services \<Rightarrow> date \<Rightarrow> tokenData \<Rightarrow> ('x, unit) app" where
  "app_blacklist A now d = act_bind (act_lift (td_token A d)) (\<lambda>t. in_registry (blacklist now t))"

definition changePaymentToken :: "'x app_services \<Rightarrow> date \<Rightarrow> tokenData \<Rightarrow> ('x, unit) app" where
  "changePaymentToken A now d =
     act_bind (in_registry load_selected) (\<lambda>w.
     act_bind (act_lift (address_init (out_lib (app_out A)) (td_address d))) (\<lambda>a.
     act_bind (in_registry (act_do (save_wallet_in (changeFeePaymentToken w a)))) (\<lambda>_.
     if td_isEther d then act_return () else app_whitelist A now d)))"

definition update_account :: "string \<Rightarrow> int \<Rightarrow> ('x, unit) app" where
  "update_account tokenID newBalance =
     act_bind (ask canChangeAccount) (\<lambda>can.
     act_bind (act_lift (tryBang (assertTrue can invalidWalletState))) (\<lambda>_.
     act_bind (ask (app_findAccount tokenID)) (\<lambda>found.
     act_bind (act_lift (unwrap found)) (\<lambda>a.
     in_registry (act_do (save_account (account_update newBalance a)))))))"

subsection \<open>Wallets and owners\<close>

definition fetchOrCreatePortfolio :: "string \<Rightarrow> 'e registry \<Rightarrow> portfolio" where
  "fetchOrCreatePortfolio portfolioID s = (case reg_portfolio s of Some p \<Rightarrow> p | None \<Rightarrow> portfolio_init portfolioID)"

definition createNewDraftWallet :: "'x app_services \<Rightarrow> eoa \<Rightarrow> walletID \<Rightarrow> string \<Rightarrow> ('x, unit) app" where
  "createNewDraftWallet A generated walletID portfolioID =
     act_bind (ask (fetchOrCreatePortfolio portfolioID)) (\<lambda>p.
     act_bind (generateExternallyOwnedAccount generated) (\<lambda>(a, _).
     act_bind (act_lift (address_init (out_lib (app_out A)) a)) (\<lambda>a.
     act_bind (act_change (wallet_init walletID a)) (\<lambda>w.
     let account = account_init (token_id Ether) (wallet_id w) None in
     act_bind (act_change (addWallet p (wallet_id w))) (\<lambda>p.
     in_registry (act_do (\<lambda>s. save_account account ((save_wallet_in w s)\<lparr>reg_portfolio := Some p\<rparr>))))))))"

definition estimateSafeCreation :: "'x app_services \<Rightarrow> date \<Rightarrow> ('x, tokenData list) app" where
  "estimateSafeCreation A now =
     act_bind (in_registry load_selected) (\<lambda>w.
     let n = int (length (allOwners w)) in
     act_bind (try_optional (leaving (CreationEstimateRequest n) (app_estimateCreation A n))) (\<lambda>response.
     case response of
       None \<Rightarrow> act_return []
     | Some es \<Rightarrow> ask (\<lambda>s. concat (map (\<lambda>e. case app_token now (paymentTokenAddress e) s of
           None \<Rightarrow> [] | Some t \<Rightarrow> [tokenData_of A t (Some (payment e))]) es))))"

definition mutateSelectedWallet :: "(wallet \<Rightarrow> ('x app_error registry, 'x app_error, wallet) action) \<Rightarrow> ('x, unit) app" where
  "mutateSelectedWallet f = in_registry
     (act_bind load_selected (\<lambda>w. act_bind (f w) (\<lambda>w. act_do (save_wallet_in w))))"

definition abortDeployment :: "('x, unit) app" where
  "abortDeployment = mutateSelectedWallet (on_wallet (\<lambda>x. Ok (wallet_cancel x)))"

definition app_addOwner :: "'x app_services \<Rightarrow> string \<Rightarrow> ownerRole \<Rightarrow> ('x, unit) app" where
  "app_addOwner A a r = mutateSelectedWallet (\<lambda>w.
     act_bind (act_lift (address_init (out_lib (app_out A)) a)) (\<lambda>a.
     act_change (addOwner w \<lparr>owner_address = a, owner_role = r\<rparr>)))"

definition removeBrowserExtensionOwner :: "('x, unit) app" where
  "removeBrowserExtensionOwner = mutateSelectedWallet (\<lambda>w.
     if owner_with w browserExtension = None then act_return w else act_change (removeOwner w browserExtension))"

definition browserExtensionCode_from :: "'x app_services \<Rightarrow> string \<Rightarrow> browserExtensionCode option" where
  "browserExtensionCode_from A json =
     map_option (\<lambda>c. c\<lparr>extensionAddress := app_extension_address A json\<rparr>) (app_read_code A json)"

definition createPair :: "'x app_services \<Rightarrow> string \<Rightarrow> ('x, unit) app" where
  "createPair A rawCode =
     (case do { c \<leftarrow> browserExtensionCode_from A rawCode; a \<leftarrow> extensionAddress c; Some (c, a) } of
        None \<Rightarrow> act_lift (Throw (OtherError (AppError validationFailed)))
      | Some (c, a) \<Rightarrow>
          act_bind (ask (role_address thisDevice)) (\<lambda>found.
          act_bind (act_lift (unwrap found)) (\<lambda>device.
          act_bind (eth_sign A (''GNO'' @ a) device) (\<lambda>signed.
          act_bind (act_lift (unwrap signed)) (\<lambda>sig.
          handleNotificationServiceError
            (http_pair A \<lparr>temporaryAuthorization = c, pair_signature = sig, deviceOwnerAddress = Some device\<rparr>))))))"

definition addBrowserExtensionOwner :: "'x app_services \<Rightarrow> string \<Rightarrow> string \<Rightarrow> ('x, unit) app" where
  "addBrowserExtensionOwner A a rawCode =
     act_bind (createPair A rawCode) (\<lambda>_. app_addOwner A a browserExtension)"

definition app_deletePair_with :: "'x app_services \<Rightarrow> string \<Rightarrow> ('x, unit) app" where
  "app_deletePair_with A a = handleNotificationServiceError
     (act_bind (in_registry load_selected) (\<lambda>w. comm_deletePair A (wallet_id w) a))"

definition app_address :: "'x app_services \<Rightarrow> string \<Rightarrow> ('e, string) outcome" where
  "app_address A rawCode = unwrap (app_extension_address A rawCode)"

definition app_authenticate :: "'x app_services \<Rightarrow> string option \<Rightarrow> int option \<Rightarrow> string option \<Rightarrow> string option \<Rightarrow> ('x, unit) app" where
  "app_authenticate A token_option build marketing bundle_option =
     (case token_option of
        None \<Rightarrow> act_return ()
      | Some token \<Rightarrow>
          act_bind (ask (role_address thisDevice)) (\<lambda>found.
          act_bind (act_lift (unwrap found)) (\<lambda>device.
          let number = (case build of Some n \<Rightarrow> n | None \<Rightarrow> 0);
              version = (case marketing of Some v \<Rightarrow> v | None \<Rightarrow> ''0.0.0'');
              name = (case bundle_option of Some b \<Rightarrow> b | None \<Rightarrow> ''io.gnosis.safe'') in
          act_bind (eth_sign A (''GNO'' @ token @ decimal number @ version @ ''ios'' @ name) device) (\<lambda>signed.
          act_bind (act_lift (unwrap signed)) (\<lambda>sig.
          handleNotificationServiceError
            (http_auth A \<lparr>pushToken = token, auth_signatures = [sig], buildNumber = number, versionName = version,
               client = ''ios'', bundleID = name, deviceOwnerAddresses = [device]\<rparr>))))))"

lemmas app_defs = in_registry_def ask_def leaving_def mapping_errors_def try_optional_def

lemma app_run [simp, outcome_simps]:
  "act_bind (ask f) g w = g (f (app_registry w)) w"
  "act_bind (leaving q (Ok a)) h w = h a (w\<lparr>app_requests := app_requests w @ [q]\<rparr>)"
  "act_bind (leaving q (Throw e)) h w = (Throw e, w\<lparr>app_requests := app_requests w @ [q]\<rparr>)"
  "act_bind (leaving q Trap) h w = (Trap, w\<lparr>app_requests := app_requests w @ [q]\<rparr>)"
  "act_bind (in_registry (act_do k)) h' w = h' () (w\<lparr>app_registry := k (app_registry w)\<rparr>)"
  by (simp_all add: ask_def leaving_def act_bind_def in_registry_def)

lemma in_registry_run:
  "m (app_registry w) = (Ok a, s) \<Longrightarrow> act_bind (in_registry m) g w = g a (w\<lparr>app_registry := s\<rparr>)"
  "m (app_registry w) = (Ok a, s) \<Longrightarrow> in_registry m w = (Ok a, w\<lparr>app_registry := s\<rparr>)"
  "m (app_registry w) = (Throw e, s) \<Longrightarrow> in_registry m w = (Throw e, w\<lparr>app_registry := s\<rparr>)"
  "m (app_registry w) = (Trap, s) \<Longrightarrow> in_registry m w = (Trap, w\<lparr>app_registry := s\<rparr>)"
  by (simp_all add: in_registry_def act_bind_def)

lemma mapping_errors_run:
  "mapping_errors f m w = (case m w of (Throw e, w') \<Rightarrow> (Throw (f e), w') | r \<Rightarrow> r)"
  by (simp add: mapping_errors_def act_catch_def split: outcome.splits prod.splits)

lemma try_optional_run:
  "try_optional m w = (case m w of (Ok a, w') \<Rightarrow> (Ok (Some a), w') | (Throw e, w') \<Rightarrow> (Ok None, w') | (Trap, w') \<Rightarrow> (Trap, w'))"
  by (simp add: try_optional_def act_catch_def act_bind_def split: outcome.splits prod.splits)

end
