(* ===== verification/Payments.thy ===== *)
theory Payments
  imports App Extension_Service
begin

section \<open>The application service: transactions and messages\<close>

text \<open>
  \<^verbatim>\<open>MultisigWalletApplication/WalletApplicationService.swift\<close> from its transactions on: estimation, confirmation by the browser
  extension, submission through the relay, and the three kinds of messages that arrive as push notifications. A transaction that is
  loaded is a value; only what is saved reaches the repository. The repository finds by hash are those of the first
  stored transaction.
\<close>

subsection \<open>Presentation\<close>

datatype tdStatus = waitingForConfirmation | td_rejected | readyToSubmit | td_pending | td_failed | td_success | td_discarded

datatype tdType = outgoing | incoming | td_walletRecovery | td_replaceRecoveryPhrase | td_replaceBrowserExtension
  | td_connectBrowserExtension | td_disconnectBrowserExtension

record transactionData =
  data_id :: string
  data_sender :: string
  data_recipient :: string
  amountTokenData :: tokenData
  feeTokenData :: tokenData
  data_status :: tdStatus
  data_type :: tdType
  data_created :: "date option"
  data_updated :: "date option"
  data_submitted :: "date option"
  data_rejected :: "date option"
  data_processed :: "date option"

definition displayDate :: "transactionData \<Rightarrow> date option" where
  "displayDate d = (case List.find (\<lambda>x. x \<noteq> None) [data_processed d, data_rejected d, data_submitted d, data_updated d, data_created d] of
      Some x \<Rightarrow> x | None \<Rightarrow> None)"

primrec tdType_of :: "transactionType \<Rightarrow> tdType" where
  "tdType_of Tx.transfer = outgoing"
| "tdType_of walletRecovery = td_walletRecovery"
| "tdType_of replaceRecoveryPhrase = td_replaceRecoveryPhrase"
| "tdType_of replaceBrowserExtension = td_replaceBrowserExtension"
| "tdType_of connectBrowserExtension = td_connectBrowserExtension"
| "tdType_of disconnectBrowserExtension = td_disconnectBrowserExtension"

primrec recovery_tdStatus :: "code \<Rightarrow> tdStatus" where
  "recovery_tdStatus draft = waitingForConfirmation"
| "recovery_tdStatus signing = readyToSubmit"
| "recovery_tdStatus pending = td_pending"
| "recovery_tdStatus rejected = td_rejected"
| "recovery_tdStatus failed = td_failed"
| "recovery_tdStatus success = td_success"
| "recovery_tdStatus discarded = td_discarded"

definition recovery_transactionData :: "'x app_services \<Rightarrow> date \<Rightarrow> transaction \<Rightarrow> 'r registry \<Rightarrow> ('e, transactionData) outcome" where
  "recovery_transactionData A now tx s =
     (let a = (case amount tx of Some a \<Rightarrow> a | None \<Rightarrow> ether 0) in
      obind (feePaymentTokenData A now s) (\<lambda>d.
      obind (td_token A d) (\<lambda>paymentToken.
      let e = (case fee_estimate tx of Some e \<Rightarrow> e
               | None \<Rightarrow> \<lparr>gas = 0, dataGas = 0, operationalGas = 0, gasPrice = \<lparr>amount_of = 0, token_of = paymentToken\<rparr>\<rparr>) in
      obind (unwrap (sender tx)) (\<lambda>sender.
      obind (unwrap (recipient tx)) (\<lambda>recipient.
      Ok \<lparr>data_id = tx_id tx, data_sender = sender, data_recipient = recipient,
          amountTokenData = tokenData_of A (token_of a) (Some (amount_of a)),
          feeTokenData = tokenData_of A paymentToken (Some (- amount_of (totalDisplayedToUser e))),
          data_status = recovery_tdStatus (status tx), data_type = tdType_of (tx_type tx), data_created = createdDate tx,
          data_updated = updatedDate tx, data_submitted = submittedDate tx, data_rejected = rejectedDate tx,
          data_processed = processedDate tx\<rparr>)))))"

definition status_of :: "transaction \<Rightarrow> 'r registry \<Rightarrow> tdStatus" where
  "status_of tx s =
     (let ext = role_address browserExtension s;
          defaultStatus = (if ext \<noteq> None then waitingForConfirmation else readyToSubmit)
      in case status tx of
          signing \<Rightarrow>
            if (case ext of Some a \<Rightarrow> length (signatures tx) = 1 \<and> isSignedBy tx a | None \<Rightarrow> False)
            then readyToSubmit else defaultStatus
        | rejected \<Rightarrow> td_rejected
        | pending \<Rightarrow> td_pending
        | failed \<Rightarrow> td_failed
        | success \<Rightarrow> td_success
        | discarded \<Rightarrow> td_discarded
        | draft \<Rightarrow> defaultStatus)"

definition transactionData_of :: "'x app_services \<Rightarrow> date \<Rightarrow> transaction \<Rightarrow> 'r registry \<Rightarrow> ('e, transactionData) outcome" where
  "transactionData_of A now tx s =
     (if tx_type tx = replaceBrowserExtension \<or> tx_type tx = disconnectBrowserExtension then recovery_transactionData A now tx s
      else Ok \<lparr>data_id = tx_id tx, data_sender = (case sender tx of Some a \<Rightarrow> a | None \<Rightarrow> ''''),
        data_recipient = (case recipient tx of Some a \<Rightarrow> a | None \<Rightarrow> ''''),
        amountTokenData = (case amount tx of
            Some a \<Rightarrow> tokenData_of A (token_of a)
              (Some ((if tdType_of (tx_type tx) = outgoing then - 1 else 1) * amount_of a))
          | None \<Rightarrow> tokenData_empty A),
        feeTokenData = (case fee tx of Some f \<Rightarrow> tokenData_of A (token_of f) (Some (amount_of f)) | None \<Rightarrow> tokenData_empty A),
        data_status = status_of tx s, data_type = tdType_of (tx_type tx), data_created = createdDate tx,
        data_updated = updatedDate tx, data_submitted = submittedDate tx, data_rejected = rejectedDate tx,
        data_processed = processedDate tx\<rparr>)"

definition the_transaction :: "transactionID \<Rightarrow> ('x, transaction) app" where
  "the_transaction i = act_bind (ask (find_tx i)) (\<lambda>found. act_lift (unwrap found))"

text \<open>\<open>transactionData(id)!\<close>.\<close>

definition the_transactionData :: "'x app_services \<Rightarrow> date \<Rightarrow> transactionID \<Rightarrow> ('x, transactionData) app" where
  "the_transactionData A now i =
     act_bind (the_transaction i) (\<lambda>tx. act_bind (ask (transactionData_of A now tx)) (\<lambda>r. act_lift r))"

subsection \<open>Drafting\<close>

definition updateTransaction :: "'x app_services \<Rightarrow> date \<Rightarrow> transactionID \<Rightarrow> int \<Rightarrow> string \<Rightarrow> string \<Rightarrow> ('x, unit) app" where
  "updateTransaction A now i n tokenID to =
     act_bind (the_transaction i) (\<lambda>tx.
     act_bind (ask (\<lambda>s. find_item now tokenID (reg_items s))) (\<lambda>found.
     act_bind (act_lift (unwrap found)) (\<lambda>item.
     act_bind (act_change (change_amount now (Some \<lparr>amount_of = n, token_of = item_token item\<rparr>) tx)) (\<lambda>tx.
     act_bind (act_lift (address_init (out_lib (app_out A)) to)) (\<lambda>to.
     act_bind (act_change (change_recipient now (Some to) tx)) (\<lambda>tx.
     act_bind (if item_token item \<noteq> Ether
       then act_bind (act_lift (Contracts.transfer (out_lib (app_out A)) to n)) (\<lambda>d. act_change (change_data now (Some d) tx))
       else act_return tx) (\<lambda>tx.
     in_registry (act_do (save_tx tx)))))))))"

definition resetTransaction :: "date \<Rightarrow> transactionID \<Rightarrow> ('x, unit) app" where
  "resetTransaction now i =
     act_bind (the_transaction i) (\<lambda>tx.
     act_bind (act_change (reset tx)) (\<lambda>tx.
     act_bind (act_change (change_fee now None tx)) (\<lambda>tx.
     act_bind (act_change (change_feeEstimate now None tx)) (\<lambda>tx.
     in_registry (act_do (save_tx tx))))))"

subsection \<open>Estimation\<close>

definition estimate_request :: "'x app_services \<Rightarrow> address \<Rightarrow> address \<Rightarrow> string \<Rightarrow> string option \<Rightarrow> ('x, estimateRequest) app" where
  "estimate_request A safe to value data =
     act_bind (in_registry load_selected) (\<lambda>w.
     act_lift (estimateRequest_init (out_lib (app_out A)) safe (Some to) value data call (feePaymentTokenAddress w)))"

definition estimateTransferFee :: "'x app_services \<Rightarrow> int \<Rightarrow> string option \<Rightarrow> ('x, int option) app" where
  "estimateTransferFee A n a =
     act_bind (ask (role_address thisDevice)) (\<lambda>device.
     act_bind (act_lift (unwrap device)) (\<lambda>device.
     act_bind (act_lift (address_init (out_lib (app_out A)) device)) (\<lambda>placeholderAddress.
     let formattedAddress = (case a of None \<Rightarrow> Some placeholderAddress
           | Some t \<Rightarrow> if t = '''' then Some placeholderAddress else out_address (app_out A) t) in
     case formattedAddress of
       None \<Rightarrow> act_return None
     | Some to \<Rightarrow>
         if isZero to then act_return None
         else
           act_bind (ask selectedWalletAddress) (\<lambda>found.
           act_bind (act_lift (unwrap found)) (\<lambda>safe.
           act_bind (act_lift (address_init (out_lib (app_out A)) safe)) (\<lambda>safe.
           act_bind (estimate_request A safe to (decimal n) None) (\<lambda>q.
           act_bind (try_optional (leaving (EstimateRequest q) (out_estimate (app_out A) q))) (\<lambda>response.
           act_return (map_option rsp_totalDisplayedToUser response))))))))) "

definition estimateTokenTransferFee :: "'x app_services \<Rightarrow> int \<Rightarrow> string \<Rightarrow> string option \<Rightarrow> ('x, int option) app" where
  "estimateTokenTransferFee A n tokenID to =
     (let L = out_lib (app_out A) in
     act_bind (ask (role_address thisDevice)) (\<lambda>device.
     act_bind (act_lift (unwrap device)) (\<lambda>device.
     act_bind (act_lift (address_init L device)) (\<lambda>fallbackAddress.
     let a = (case to of None \<Rightarrow> fallbackAddress | Some t \<Rightarrow> if t = '''' then fallbackAddress else t) in
     act_bind (if tokenID \<noteq> token_id Ether
       then act_bind (act_lift (address_init L a)) (\<lambda>a.
            act_bind (act_lift (Contracts.transfer L a n)) (\<lambda>d. act_return (tokenID, Some (''0x'' @ toHexString L d), 0)))
       else act_return (a, None, n)) (\<lambda>(a, data, value).
     act_bind (ask selectedWalletAddress) (\<lambda>found.
     case out_address (app_out A) a of
       None \<Rightarrow> act_return None
     | Some to \<Rightarrow>
         act_bind (act_lift (unwrap found)) (\<lambda>safe.
         case out_address (app_out A) safe of
           None \<Rightarrow> act_return None
         | Some safe \<Rightarrow>
             act_bind (estimate_request A safe to (decimal value) data) (\<lambda>q.
             act_bind (try_optional (leaving (EstimateRequest q) (out_estimate (app_out A) q))) (\<lambda>response.
             act_return (map_option rsp_totalDisplayedToUser response)))))))))) "

definition updateTransaction_fee :: "'x app_services \<Rightarrow> date \<Rightarrow> transaction \<Rightarrow> feeEstimate \<Rightarrow> string \<Rightarrow> ('x, unit) app" where
  "updateTransaction_fee A now tx e n =
     act_bind (act_lift (swift_int (gas e + dataGas e))) (\<lambda>g.
     let f = g * amount_of (gasPrice e) in
     act_bind (act_change (change_feeEstimate now (Some e) tx)) (\<lambda>tx.
     act_bind (act_change (change_fee now (Some \<lparr>amount_of = f, token_of = token_of (gasPrice e)\<rparr>) tx)) (\<lambda>tx.
     act_bind (act_change (change_nonce now (Some n) tx)) (\<lambda>tx.
     act_bind (act_change (change_operation now (Some call) tx)) (\<lambda>tx.
     act_bind (act_change (change_hash now (Some (out_hash (app_out A) tx)) tx)) (\<lambda>tx.
     act_bind (act_change (proceed now tx)) (\<lambda>tx.
     in_registry (act_do (save_tx tx)))))))))"

definition estimateTransactionIfNeeded :: "'x app_services \<Rightarrow> date \<Rightarrow> transactionID \<Rightarrow> ('x, transactionData) app" where
  "estimateTransactionIfNeeded A now i =
     act_bind (the_transaction i) (\<lambda>tx.
     if \<not> (fee_estimate tx = None \<or> (tx_type tx = connectBrowserExtension \<and> status tx = draft))
     then the_transactionData A now i
     else
       act_bind (act_lift (unwrap (out_address (app_out A) (ethTo tx)))) (\<lambda>recipient.
       act_bind (act_lift (unwrap (sender tx))) (\<lambda>sender.
       act_bind (estimate_request A sender recipient (decimal (ethValue tx)) (Some (ethData (out_lib (app_out A)) tx))) (\<lambda>q.
       act_bind (handleRelayServiceErrors (leaving (EstimateRequest q) (out_estimate (app_out A) q))) (\<lambda>response.
       act_bind (ask (app_token now (rsp_gasToken response))) (\<lambda>found.
       act_bind (act_lift (unwrap found)) (\<lambda>token.
       act_bind (act_lift (nextNonce response)) (\<lambda>n.
       act_bind (updateTransaction_fee A now tx
         \<lparr>gas = rsp_safeTxGas response, dataGas = rsp_dataGas response, operationalGas = rsp_operationalGas response,
          gasPrice = \<lparr>amount_of = rsp_gasPrice response, token_of = token\<rparr>\<rparr> (decimal n)) (\<lambda>_.
       the_transactionData A now i)))))))))"

subsection \<open>Confirmation and submission\<close>

definition hasEnoughSignatures :: "transaction \<Rightarrow> 'r registry \<Rightarrow> ('e, bool) outcome" where
  "hasEnoughSignatures tx s =
     obind (unwrap (find_wallet (tx_walletID tx) s)) (\<lambda>w.
     obind (swift_int (confirmationCount w - 1)) (\<lambda>n.
     Ok (int (length (signatures tx)) \<ge> n)))"

definition requestTransactionConfirmationIfNeeded :: "'x app_services \<Rightarrow> date \<Rightarrow> transactionID \<Rightarrow> ('x, transactionData) app" where
  "requestTransactionConfirmationIfNeeded A now i =
     act_bind (the_transaction i) (\<lambda>tx.
     act_bind (ask (hasEnoughSignatures tx)) (\<lambda>r.
     act_bind (act_lift r) (\<lambda>enough.
     if enough then the_transactionData A now i
     else
       act_bind (ask (role_address browserExtension)) (\<lambda>found.
       act_bind (case found of
           None \<Rightarrow> act_return ()
         | Some ext \<Rightarrow>
             if isSignedBy tx ext then act_return ()
             else
               act_bind (act_lift (unwrap (tx_hash tx))) (\<lambda>h.
               act_bind (act_lift (requestConfirmationMessage (out_lib (app_out A)) (out_address (app_out A)) tx h)) (\<lambda>m.
               notifyBrowserExtension A (app_json A m)))) (\<lambda>_.
       the_transactionData A now i)))))"

definition submit_to_relay :: "'x app_services \<Rightarrow> transaction \<Rightarrow> ('x, string) app" where
  "submit_to_relay A tx =
     (let ethSignatures = map (out_ethSignature (app_out A)) (sorted_by sig_less (signatures tx)) in
      handleRelayServiceErrors
        (act_bind (act_lift (submitRequest_init (out_lib (app_out A)) (out_address (app_out A)) tx ethSignatures)) (\<lambda>q.
         leaving (SubmitRequest q) (out_submit (app_out A) q))))"

definition proceedTransaction :: "'x app_services \<Rightarrow> date \<Rightarrow> transaction \<Rightarrow> ('x, transaction) app" where
  "proceedTransaction A now tx =
     act_bind (submit_to_relay A tx) (\<lambda>hash.
     act_bind (act_change (set_hash now hash tx)) (\<lambda>tx.
     act_bind (act_change (proceed now tx)) (\<lambda>tx.
     act_bind (in_registry (act_do (save_tx tx))) (\<lambda>_. act_return tx))))"

definition signTransaction :: "'x app_services \<Rightarrow> date \<Rightarrow> transaction \<Rightarrow> ('x, transaction) app" where
  "signTransaction A now tx =
     act_bind (ask (role_address browserExtension)) (\<lambda>found.
     act_bind (act_lift (case found of None \<Rightarrow> Ok () | Some ext \<Rightarrow> precondition (isSignedBy tx ext))) (\<lambda>_.
     act_bind (ask (role_address thisDevice)) (\<lambda>found.
     act_bind (act_lift (unwrap found)) (\<lambda>myAddress.
     if isSignedBy tx myAddress then act_return tx
     else
       act_bind (ask (find_eoa myAddress)) (\<lambda>found.
       act_bind (act_lift (unwrap found)) (\<lambda>k.
       act_change (add_signature now
         \<lparr>sig_address = myAddress, sig_data = out_sign (app_out A) tx (privateKey k)\<rparr> tx)))))))"

definition submitTransaction :: "'x app_services \<Rightarrow> date \<Rightarrow> transactionID \<Rightarrow> ('x, transactionData) app" where
  "submitTransaction A now i =
     act_bind (the_transaction i) (\<lambda>tx.
     act_bind (if status tx = draft
       then act_bind (requestTransactionConfirmationIfNeeded A now i) (\<lambda>_. the_transaction i)
       else act_return tx) (\<lambda>tx.
     act_bind (if tx_type tx = replaceBrowserExtension \<or> tx_type tx = disconnectBrowserExtension
       then act_bind (proceedTransaction A now tx) (\<lambda>_. act_return ())
       else
         act_bind (signTransaction A now tx) (\<lambda>tx.
         act_bind (proceedTransaction A now tx) (\<lambda>tx.
         act_bind (act_lift (transactionSentMessage (out_lib (app_out A)) (out_address (app_out A)) tx)) (\<lambda>m.
         act_bind (try_optional (notifyBrowserExtension A (app_json A m))) (\<lambda>_.
         act_return ()))))) (\<lambda>_.
     the_transactionData A now i)))"

subsection \<open>Messages\<close>

definition find_hash :: "bytes \<Rightarrow> 'r registry \<Rightarrow> transaction option" where
  "find_hash h s = mem_find_hash (reg_txs s) h"

definition find_hash_status :: "bytes \<Rightarrow> code \<Rightarrow> 'r registry \<Rightarrow> transaction option" where
  "find_hash_status h c s = mem_find_hash_status (reg_txs s) h c"

definition signed_by_extension :: "'x app_services \<Rightarrow> bytes \<Rightarrow> ethSignature \<Rightarrow> 'r registry \<Rightarrow> ('e, address option) outcome" where
  "signed_by_extension A hash sig s =
     obind (eth_address A hash sig) (\<lambda>found.
     Ok (do {
       from \<leftarrow> found;
       ext \<leftarrow> role_address browserExtension s;
       if lowercased from = lowercased ext then Some ext else None }))"

definition transaction_from :: "'x app_services \<Rightarrow> decisionMessage \<Rightarrow> bytes \<Rightarrow> 'r registry \<Rightarrow> ('e, transaction option) outcome" where
  "transaction_from A m hash s = (case find_hash_status (dec_hash m) signing s of
      None \<Rightarrow> Ok None
    | Some tx \<Rightarrow> omap (map_option (\<lambda>_. tx)) (signed_by_extension A hash (dec_signature m) s))"

definition handle_confirmed :: "'x app_services \<Rightarrow> date \<Rightarrow> decisionMessage \<Rightarrow> ('x, transactionID option) app" where
  "handle_confirmed A now m =
     act_bind (ask (transaction_from A m (dec_hash m))) (\<lambda>r.
     act_bind (act_lift r) (\<lambda>found.
     case found of
       None \<Rightarrow> act_return None
     | Some tx \<Rightarrow>
         act_bind (ask (role_address browserExtension)) (\<lambda>ext.
         act_bind (act_lift (unwrap ext)) (\<lambda>ext.
         act_bind (act_change (add_signature now
           \<lparr>sig_address = ext, sig_data = app_signature_data A (dec_signature m)\<rparr> tx)) (\<lambda>tx.
         act_bind (in_registry (act_do (save_tx tx))) (\<lambda>_.
         act_return (Some (tx_id tx))))))))"

definition rejection_hash :: "'x app_services \<Rightarrow> decisionMessage \<Rightarrow> bytes" where
  "rejection_hash A m = (let L = out_lib (app_out A) in
     hash_of L (ascii (''GNO'' @ ''0x'' @ toHexString L (dec_hash m) @ rejected_messageType)))"

definition handle_rejected :: "'x app_services \<Rightarrow> date \<Rightarrow> decisionMessage \<Rightarrow> ('x, transactionID option) app" where
  "handle_rejected A now m =
     act_bind (ask (transaction_from A m (rejection_hash A m))) (\<lambda>r.
     act_bind (act_lift r) (\<lambda>found.
     case found of
       None \<Rightarrow> act_return None
     | Some tx \<Rightarrow>
         act_bind (act_change (reject now tx)) (\<lambda>tx.
         act_bind (in_registry (act_do (save_tx tx))) (\<lambda>_.
         act_return (Some (tx_id tx))))))"

definition message_token :: "address \<Rightarrow> token" where
  "message_token a = \<lparr>token_code = '''', token_name = '''', decimals = 18, token_address = a, logoUrl = ''''\<rparr>"

definition message_estimation :: "sendTransactionMessage \<Rightarrow> feeEstimate" where
  "message_estimation m = \<lparr>gas = msg_txGas m, dataGas = msg_dataGas m, operationalGas = msg_operationalGas m,
     gasPrice = \<lparr>amount_of = msg_gasPrice m, token_of = message_token (msg_gasToken m)\<rparr>\<rparr>"

definition message_fee :: "sendTransactionMessage \<Rightarrow> ('e, tokenAmount) outcome" where
  "message_fee m = (let e = message_estimation m in
     obind (swift_int (gas e + dataGas e)) (\<lambda>g.
     Ok \<lparr>amount_of = g * amount_of (gasPrice e), token_of = token_of (gasPrice e)\<rparr>))"

definition update_with_message :: "'x app_services \<Rightarrow> date \<Rightarrow> sendTransactionMessage \<Rightarrow> transaction \<Rightarrow> (tx_error, transaction) outcome" where
  "update_with_message A now m tx =
     obind (change_recipient now (Some (msg_to m)) tx) (\<lambda>tx.
     obind (change_data now (Some (msg_data m)) tx) (\<lambda>tx.
     obind (change_amount now (Some (ether (msg_value m))) tx) (\<lambda>tx.
     obind (change_operation now (Some (msg_operation m)) tx) (\<lambda>tx.
     obind (change_feeEstimate now (Some (message_estimation m)) tx) (\<lambda>tx.
     obind (message_fee m) (\<lambda>f.
     obind (change_fee now (Some f) tx) (\<lambda>tx.
     obind (change_nonce now (Some (decimal (msg_nonce m))) tx) (\<lambda>tx.
     obind (decodedTransfer (out_lib (app_out A)) (msg_data m)) (\<lambda>transfer.
     case transfer of
       None \<Rightarrow> Ok tx
     | Some (to, n) \<Rightarrow>
         obind (change_recipient now (Some to) tx) (\<lambda>tx.
         change_amount now (Some \<lparr>amount_of = n, token_of = message_token (msg_to m)\<rparr>) tx))))))))))"

text \<open>The draft made for a message, as \<open>newDraftTransaction(in:)\<close> of the transaction service makes it in the registry.\<close>

definition registry_txs :: "'e registry tx_repository" where
  "registry_txs = \<lparr>repo_save = (\<lambda>s tx. save_tx tx s), repo_remove = (\<lambda>s tx. remove_tx (tx_id tx) s),
     repo_find = (\<lambda>s i. find_tx i s), repo_all = reg_txs\<rparr>"

definition draft_in :: "date \<Rightarrow> transactionID \<Rightarrow> wallet \<Rightarrow> ('x, transactionID) app" where
  "draft_in now nextID w x = (case newDraftTransaction registry_txs (app_registry x) now nextID w of
      Ok (s, i) \<Rightarrow> (Ok i, x\<lparr>app_registry := s\<rparr>)
    | _ \<Rightarrow> (Trap, x))"

definition handle_send :: "'x app_services \<Rightarrow> date \<Rightarrow> transactionID \<Rightarrow> sendTransactionMessage \<Rightarrow> ('x, transactionID option) app" where
  "handle_send A now nextID m =
     act_bind (ask (find_hash (msg_hash m))) (\<lambda>found.
     case found of
       Some tx \<Rightarrow> act_return (if status tx = signing then Some (tx_id tx) else None)
     | None \<Rightarrow>
         act_bind (ask (find_wallet_address (msg_safe m))) (\<lambda>found.
         case found of
           None \<Rightarrow> act_return None
         | Some w \<Rightarrow>
             act_bind (draft_in now nextID w) (\<lambda>i.
             act_bind (the_transaction i) (\<lambda>tx.
             act_bind (act_change (update_with_message A now m tx)) (\<lambda>tx.
             let hash = out_hash (app_out A) tx in
             if hash \<noteq> msg_hash m
             then act_bind (in_registry (act_do (remove_tx (tx_id tx)))) (\<lambda>_. act_return None)
             else
               act_bind (act_change (change_hash now (Some hash) tx)) (\<lambda>tx.
               act_bind (ask (signed_by_extension A (msg_hash m) (msg_signature m))) (\<lambda>r.
               act_bind (act_lift r) (\<lambda>found.
               case found of
                 None \<Rightarrow> act_bind (in_registry (act_do (remove_tx (tx_id tx)))) (\<lambda>_. act_return None)
               | Some ext \<Rightarrow>
                   act_bind (act_change (proceed now tx)) (\<lambda>tx.
                   act_bind (act_lift (address_init (out_lib (app_out A)) ext)) (\<lambda>ext.
                   act_bind (act_change (add_signature now
                     \<lparr>sig_address = ext, sig_data = app_signature_data A (msg_signature m)\<rparr> tx)) (\<lambda>tx.
                   act_bind (in_registry (act_do (save_tx tx))) (\<lambda>_.
                   act_return (Some i)))))))))))))"

definition receive :: "'x app_services \<Rightarrow> date \<Rightarrow> transactionID \<Rightarrow> userInfo \<Rightarrow> ('x, transactionID option) app" where
  "receive A now nextID u = (case message_create (app_numbers A) (out_lib (app_out A)) u of
      None \<Rightarrow> act_return None
    | Some (TransactionConfirmedMessage m) \<Rightarrow> handle_confirmed A now m
    | Some (TransactionRejectedMessage m) \<Rightarrow> handle_rejected A now m
    | Some (SendTransactionMessage m) \<Rightarrow> handle_send A now nextID m)"

subsection \<open>What a message may change\<close>

text \<open>A signature of the hash from which the key of the paired browser extension is recovered.\<close>

definition authentic :: "'x app_services \<Rightarrow> 'r registry \<Rightarrow> bytes \<Rightarrow> ethSignature \<Rightarrow> address \<Rightarrow> bool" where
  "authentic A s hash sig ext \<longleftrightarrow> role_address browserExtension s = Some ext \<and>
     (\<exists>from. app_recover A hash sig = Some from \<and> lowercased from = lowercased ext)"

text \<open>
  The transactions that messages may store, as a specification: a confirmation of a transaction that waits for signatures, signed on
  its hash; a rejection of such a transaction, signed on the hash of the rejection text; a new transaction for a known safe, signed
  on the hash of its own parameters.
\<close>

inductive message_stores :: "'x app_services \<Rightarrow> date \<Rightarrow> transactionID \<Rightarrow> 'r registry \<Rightarrow> transaction \<Rightarrow> bool"
  for A now nextID s where
  confirmed: "find_hash_status h signing s = Some old \<Longrightarrow> authentic A s h sig ext \<Longrightarrow>
     add_signature now \<lparr>sig_address = ext, sig_data = app_signature_data A sig\<rparr> old = Ok tx \<Longrightarrow>
     message_stores A now nextID s tx"
| rejected: "find_hash_status h signing s = Some old \<Longrightarrow>
     authentic A s (hash_of (out_lib (app_out A))
       (ascii (''GNO0x'' @ toHexString (out_lib (app_out A)) h @ ''rejectTransaction''))) sig ext \<Longrightarrow>
     reject now old = Ok tx \<Longrightarrow> message_stores A now nextID s tx"
| sent: "find_hash h s = None \<Longrightarrow> find_wallet_address safe s = Some w \<Longrightarrow> sender d = Some safe \<Longrightarrow> tx_walletID d = wallet_id w \<Longrightarrow>
     tx_id d = nextID \<Longrightarrow> out_hash (app_out A) d = h \<Longrightarrow> authentic A s h sig ext \<Longrightarrow>
     tx = d\<lparr>tx_hash := Some h, status := signing, updatedDate := Some now,
       signatures := [\<lparr>sig_address = ext, sig_data = app_signature_data A sig\<rparr>]\<rparr> \<Longrightarrow>
     message_stores A now nextID s tx"

lemma signed_by_extension_cases:
  obtains (trap) "signed_by_extension A hash sig s = (Trap :: ('e, address option) outcome)"
  | (no) "signed_by_extension A hash sig s = (Ok None :: ('e, address option) outcome)"
  | (yes) ext where "signed_by_extension A hash sig s = (Ok (Some ext) :: ('e, address option) outcome)" "authentic A s hash sig ext"
proof (cases "app_recover A hash sig")
  case None
  then show ?thesis by (intro no) (simp add: signed_by_extension_def eth_address_def)
next
  case (Some signer)
  let ?L = "out_lib (app_out A)"
  show ?thesis
  proof (cases "address_init ?L signer :: ('e, address) outcome")
    case (Ok a)
    then have "a = signer" by (simp add: address_init_def obind_eq_Ok)
    then show ?thesis
      using Some Ok no yes by (cases "role_address browserExtension s"; cases "lowercased signer = lowercased (the (role_address browserExtension s))")
        (auto simp: signed_by_extension_def eth_address_def authentic_def)
  next
    case (Throw e)
    then show ?thesis by (simp add: address_init_def precondition_def split: if_splits)
  next
    case Trap
    then show ?thesis using Some by (intro trap) (simp add: signed_by_extension_def eth_address_def)
  qed
qed

lemma find_hash_status_signing: "find_hash_status h signing s = Some tx \<Longrightarrow> status tx = signing \<and> tx_hash tx = Some h"
  by (auto simp: find_hash_status_def mem_find_hash_status_def dest: find_SomeD)

text \<open>
  The effect of a message: nothing, or one transaction of the specification stored. A run that traps may leave the empty draft it
  began with, which has no hash, no signature, no recipient and no amount.
\<close>

definition empty_draft :: "transactionID \<Rightarrow> 'r registry \<Rightarrow> transaction \<Rightarrow> bool" where
  "empty_draft nextID s tx \<longleftrightarrow> tx_id tx = nextID \<and> status tx = draft \<and> tx_hash tx = None \<and> signatures tx = [] \<and>
     recipient tx = None \<and> amount tx = None \<and> tx_data tx = None \<and>
     (\<exists>safe w. find_wallet_address safe s = Some w \<and> sender tx = Some safe \<and> tx_walletID tx = wallet_id w)"

definition message_effect :: "'x app_services \<Rightarrow> date \<Rightarrow> transactionID \<Rightarrow> 'x app_world \<Rightarrow> ('x app_error, transactionID option) outcome
    \<Rightarrow> 'x app_world \<Rightarrow> bool" where
  "message_effect A now nextID x r x' \<longleftrightarrow> (\<exists>res. r = Ok res \<and> (x' = x \<or>
     (\<exists>tx. message_stores A now nextID (app_registry x) tx \<and> res = Some (tx_id tx) \<and>
       x' = x\<lparr>app_registry := save_tx tx (app_registry x)\<rparr>))) \<or>
     r = Trap \<and> (x' = x \<or> (\<exists>tx. empty_draft nextID (app_registry x) tx \<and> x' = x\<lparr>app_registry := save_tx tx (app_registry x)\<rparr>))"

lemma handle_confirmed_effect:
  assumes "handle_confirmed A now m x = (r, x')"
  shows "message_effect A now nextID x r x'"
proof (cases "find_hash_status (dec_hash m) signing (app_registry x)")
  case None
  then show ?thesis using assms by (auto simp: handle_confirmed_def transaction_from_def message_effect_def)
next
  case (Some old)
  then have st: "status old = signing" by (simp add: find_hash_status_signing)
  show ?thesis
  proof (cases rule: signed_by_extension_cases [of A "dec_hash m" "dec_signature m" "app_registry x", where ?'e = "'a app_error"])
    case (yes ext)
    obtain tx where tx: "add_signature now \<lparr>sig_address = ext, sig_data = app_signature_data A (dec_signature m)\<rparr> old = Ok tx"
      using add_signature_eq_Ok [of now _ old] st by blast
    have "message_stores A now nextID (app_registry x) tx" by (rule message_stores.confirmed [OF Some yes(2) tx])
    moreover have "role_address browserExtension (app_registry x) = Some ext" using yes(2) by (simp add: authentic_def)
    ultimately show ?thesis
      using assms Some yes(1) tx by (auto simp: handle_confirmed_def transaction_from_def in_registry_def message_effect_def)
  next
    case no
    then have "(r, x') = (Ok None, x)" using assms(1) Some by (simp add: handle_confirmed_def transaction_from_def)
    then show ?thesis by (simp add: message_effect_def)
  next
    case trap
    then show ?thesis using assms Some by (simp add: handle_confirmed_def transaction_from_def message_effect_def)
  qed
qed

lemma handle_rejected_effect:
  assumes "handle_rejected A now m x = (r, x')"
  shows "message_effect A now nextID x r x'"
proof (cases "find_hash_status (dec_hash m) signing (app_registry x)")
  case None
  then show ?thesis using assms by (auto simp: handle_rejected_def transaction_from_def message_effect_def)
next
  case (Some old)
  then have tx: "reject now old = Ok (signing_reject now old)" by (simp add: find_hash_status_signing reject_def)
  show ?thesis
  proof (cases rule: signed_by_extension_cases [of A "rejection_hash A m" "dec_signature m" "app_registry x", where ?'e = "'a app_error"])
    case (yes ext)
    then have "message_stores A now nextID (app_registry x) (signing_reject now old)"
      by (intro message_stores.rejected [OF Some _ tx]) (simp add: rejection_hash_def rejected_messageType_def Let_def)
    then show ?thesis
      using assms(1) Some yes(1) tx
      by (auto simp: handle_rejected_def transaction_from_def in_registry_def message_effect_def)
  next
    case no
    then have "(r, x') = (Ok None, x)" using assms(1) Some by (simp add: handle_rejected_def transaction_from_def)
    then show ?thesis by (simp add: message_effect_def)
  next
    case trap
    then show ?thesis using assms Some by (simp add: handle_rejected_def transaction_from_def message_effect_def)
  qed
qed

lemma remove_saved_tx: "find_tx (tx_id tx) s = None \<Longrightarrow> remove_tx (tx_id tx) (save_tx tx s) = s"
proof -
  have "store_del tx_id (tx_id tx) (store_put tx_id tx xs) = xs" if "store_get tx_id (tx_id tx) xs = None" for xs
    using that by (induction xs) (auto simp: store_get_def store_del_def find_None_iff intro!: filter_True split: if_splits)
  then show "find_tx (tx_id tx) s = None \<Longrightarrow> ?thesis" by (simp add: find_tx_def remove_tx_def save_tx_def)
qed

definition first_draft :: "date \<Rightarrow> transactionID \<Rightarrow> wallet \<Rightarrow> address \<Rightarrow> transaction" where
  "first_draft now i w a = (tx_init now i Tx.transfer (wallet_id w) (token_id Ether @ '':'' @ wallet_id w))
     \<lparr>sender := Some a, updatedDate := Some now\<rparr>"

lemma first_draft_sel [simp]:
  "tx_id (first_draft now i w a) = i" "status (first_draft now i w a) = draft" "sender (first_draft now i w a) = Some a"
  "tx_walletID (first_draft now i w a) = wallet_id w" "signatures (first_draft now i w a) = []"
  "tx_hash (first_draft now i w a) = None" "recipient (first_draft now i w a) = None" "amount (first_draft now i w a) = None"
  "tx_data (first_draft now i w a) = None"
  by (simp_all add: first_draft_def tx_init_def tx_stamp_defs)

lemma the_transaction_run [outcome_simps]:
  "find_tx i (app_registry x) = Some tx \<Longrightarrow> act_bind (the_transaction i) f x = f tx x"
  "find_tx i (app_registry x) = None \<Longrightarrow> act_bind (the_transaction i) f x = (Trap, x)"
  by (simp_all add: the_transaction_def act_bind_def ask_def)

lemma draft_in_run: "address_of w = Some a \<Longrightarrow>
  act_bind (draft_in now i w) f x = f i (x\<lparr>app_registry := save_tx (first_draft now i w a) (app_registry x)\<rparr>)"
  by (simp add: draft_in_def act_bind_def newDraftTransaction_def registry_txs_def first_draft_def change_sender_def changing_def
      assertCanChangeParameters_def canChangeParameters_def tx_init_def tx_stamp_defs)

lemma update_with_message_Ok:
  assumes "update_with_message A now m tx = Ok tx'"
  shows "status tx = draft" "status tx' = draft" "tx_id tx' = tx_id tx" "sender tx' = sender tx" "tx_walletID tx' = tx_walletID tx"
    "signatures tx' = signatures tx" "recipient tx' \<noteq> None" "amount tx' \<noteq> None" "fee tx' \<noteq> None" "tx_hash tx' = tx_hash tx"
  using assms
  by (auto simp: update_with_message_def obind_eq_Ok change_recipient_def change_data_def change_amount_def change_operation_def
      change_feeEstimate_def change_fee_def change_nonce_def changing_eq_Ok split: option.splits prod.splits)


lemma signed_by_extension_saved [simp]: "signed_by_extension A h sig (save_tx tx s) = signed_by_extension A h sig s"
  by (simp add: signed_by_extension_def role_address_def)

text \<open>The transaction that an accepted message leaves.\<close>

definition accepted_tx :: "'x app_services \<Rightarrow> date \<Rightarrow> sendTransactionMessage \<Rightarrow> address \<Rightarrow> transaction \<Rightarrow> transaction" where
  "accepted_tx A now m ext tx = tx\<lparr>tx_hash := Some (msg_hash m), status := signing, updatedDate := Some now,
     signatures := [\<lparr>sig_address = ext, sig_data = app_signature_data A (msg_signature m)\<rparr>]\<rparr>"

text \<open>A message for a known safe that was not seen before, and the draft after its parameters were taken over.\<close>

definition new_for :: "'x app_services \<Rightarrow> date \<Rightarrow> transactionID \<Rightarrow> sendTransactionMessage \<Rightarrow> 'r registry \<Rightarrow> wallet \<Rightarrow> transaction \<Rightarrow> bool" where
  "new_for A now nextID m s w tx \<longleftrightarrow> find_hash (msg_hash m) s = None \<and> find_wallet_address (msg_safe m) s = Some w \<and>
     update_with_message A now m (first_draft now nextID w (msg_safe m)) = Ok tx"

lemma new_for_facts:
  assumes "new_for A now nextID m s w tx"
  shows "address_of w = Some (msg_safe m)"
    "find_tx nextID (save_tx (first_draft now nextID w (msg_safe m)) s) = Some (first_draft now nextID w (msg_safe m))"
    "change_hash now (Some h) tx = Ok (tx\<lparr>tx_hash := Some h, updatedDate := Some now\<rparr>)"
    "status tx = draft" "tx_id tx = nextID" "sender tx = Some (msg_safe m)" "tx_walletID tx = wallet_id w" "signatures tx = []"
    "recipient tx \<noteq> None" "amount tx \<noteq> None" "fee tx \<noteq> None"
proof -
  have n: "find_wallet_address (msg_safe m) s = Some w"
      "update_with_message A now m (first_draft now nextID w (msg_safe m)) = Ok tx"
    using assms by (simp_all add: new_for_def)
  note u = update_with_message_Ok [OF n(2), simplified]
  show "address_of w = Some (msg_safe m)" using n(1) by (auto simp: find_wallet_address_def dest: find_SomeD)
  show "find_tx nextID (save_tx (first_draft now nextID w (msg_safe m)) s) = Some (first_draft now nextID w (msg_safe m))"
    using tx_repo.find_save [of nextID "first_draft now nextID w (msg_safe m)"] by simp
  show "change_hash now (Some h) tx = Ok (tx\<lparr>tx_hash := Some h, updatedDate := Some now\<rparr>)"
    using u by (simp add: change_hash_def changing_eq_Ok)
  show "status tx = draft" "tx_id tx = nextID" "sender tx = Some (msg_safe m)" "tx_walletID tx = wallet_id w" "signatures tx = []"
    "recipient tx \<noteq> None" "amount tx \<noteq> None" "fee tx \<noteq> None"
    using u by simp_all
qed

lemma handle_send_refused:
  fixes A :: "'x app_services"
  assumes n: "new_for A now nextID m (app_registry x) w tx" and fresh: "find_tx nextID (app_registry x) = None"
    and no: "out_hash (app_out A) tx \<noteq> msg_hash m \<or>
      signed_by_extension A (msg_hash m) (msg_signature m) (app_registry x) = (Ok None :: ('x app_error, address option) outcome)"
  shows "handle_send A now nextID m x = (Ok None, x)"
proof -
  note f = new_for_facts [OF n]
  have "remove_tx nextID (save_tx (first_draft now nextID w (msg_safe m)) (app_registry x)) = app_registry x"
    using remove_saved_tx [of "first_draft now nextID w (msg_safe m)" "app_registry x"] fresh by simp
  with no n f show ?thesis by (auto simp: handle_send_def new_for_def draft_in_run the_transaction_run Let_def)
qed

lemma handle_send_accepted:
  fixes A :: "'x app_services"
  assumes n: "new_for A now nextID m (app_registry x) w tx" and hash: "out_hash (app_out A) tx = msg_hash m"
    and sig: "signed_by_extension A (msg_hash m) (msg_signature m) (app_registry x) = (Ok (Some ext) :: ('x app_error, address option) outcome)"
  shows "handle_send A now nextID m x = (if \<exists>a. address_init (out_lib (app_out A)) ext = (Ok a :: ('x app_error, address) outcome)
     then (Ok (Some nextID), x\<lparr>app_registry := save_tx (accepted_tx A now m ext tx) (app_registry x)\<rparr>)
     else (Trap, x\<lparr>app_registry := save_tx (first_draft now nextID w (msg_safe m)) (app_registry x)\<rparr>))"
proof -
  note f = new_for_facts [OF n]
  let ?h = "tx\<lparr>tx_hash := Some (msg_hash m), updatedDate := Some now\<rparr>"
  let ?t = "tx\<lparr>tx_hash := Some (msg_hash m), status := signing, updatedDate := Some now\<rparr>"
  have go: "proceed now ?h = Ok ?t" using f by (auto simp: proceed_def draft_proceed_def tx_stamp_defs)
  have sign: "add_signature now \<lparr>sig_address = ext, sig_data = app_signature_data A (msg_signature m)\<rparr> ?t = Ok (accepted_tx A now m ext tx)"
    using f by (simp add: add_signature_eq_Ok accepted_tx_def)
  have twice: "save_tx (accepted_tx A now m ext tx) (save_tx (first_draft now nextID w (msg_safe m)) (app_registry x)) =
      save_tx (accepted_tx A now m ext tx) (app_registry x)"
    using f by (intro save_tx_twice) (simp add: accepted_tx_def)
  have "a = ext" if "address_init (out_lib (app_out A)) ext = (Ok a :: ('x app_error, address) outcome)" for a
    using that by (simp add: address_init_def obind_eq_Ok)
  moreover have "address_init (out_lib (app_out A)) ext \<noteq> (Throw e :: ('x app_error, address) outcome)" for e
    by (simp add: address_init_def precondition_def)
  ultimately show ?thesis
    using n f hash sig go sign twice
    by (cases "address_init (out_lib (app_out A)) ext :: ('x app_error, address) outcome")
       (auto simp: handle_send_def new_for_def draft_in_run the_transaction_run Let_def in_registry_def)
qed

lemma handle_send_effect:
  fixes A :: "'x app_services"
  assumes "handle_send A now nextID m x = (r, x')" "find_tx nextID (app_registry x) = None"
  shows "message_effect A now nextID x r x'"
proof -
  let ?s = "app_registry x"
  have stuck: "message_effect A now nextID x Trap (x\<lparr>app_registry := save_tx (first_draft now nextID w (msg_safe m)) ?s\<rparr>)"
    if "find_wallet_address (msg_safe m) ?s = Some w" for w
  proof -
    have "empty_draft nextID ?s (first_draft now nextID w (msg_safe m))" using that by (simp add: empty_draft_def)
    then show ?thesis by (auto simp: message_effect_def)
  qed
  consider (known) tx where "find_hash (msg_hash m) ?s = Some tx"
    | (foreign) "find_hash (msg_hash m) ?s = None" "find_wallet_address (msg_safe m) ?s = None"
    | (broken) w where "find_hash (msg_hash m) ?s = None" "find_wallet_address (msg_safe m) ?s = Some w"
        "\<forall>tx. update_with_message A now m (first_draft now nextID w (msg_safe m)) \<noteq> Ok tx"
    | (new) w tx where "new_for A now nextID m ?s w tx"
    by (cases "find_hash (msg_hash m) ?s"; cases "find_wallet_address (msg_safe m) ?s") (auto simp: new_for_def)
  then show ?thesis
  proof cases
    case broken
    then have "address_of w = Some (msg_safe m)" by (auto simp: find_wallet_address_def dest: find_SomeD)
    moreover have "find_tx nextID (save_tx (first_draft now nextID w (msg_safe m)) ?s) = Some (first_draft now nextID w (msg_safe m))"
      using tx_repo.find_save [of nextID "first_draft now nextID w (msg_safe m)"] by simp
    ultimately show ?thesis
      using assms(1) broken stuck [OF broken(2)]
      by (cases "update_with_message A now m (first_draft now nextID w (msg_safe m))")
         (auto simp: handle_send_def draft_in_run the_transaction_run)
  next
    case new
    note f = new_for_facts [OF new] new [unfolded new_for_def]
    show ?thesis
    proof (cases rule: signed_by_extension_cases [of A "msg_hash m" "msg_signature m" ?s, where ?'e = "'x app_error"])
      case (yes ext)
      show ?thesis
      proof (cases "out_hash (app_out A) tx = msg_hash m")
        case True
        have "message_stores A now nextID ?s (accepted_tx A now m ext tx)"
          using f True yes(2) by (intro message_stores.sent [of "msg_hash m" _ "msg_safe m"]) (simp_all add: accepted_tx_def)
        moreover have "tx_id (accepted_tx A now m ext tx) = nextID" using f by (simp add: accepted_tx_def)
        ultimately show ?thesis
          using assms(1) handle_send_accepted [OF new True yes(1)] stuck [of w] new
          by (auto simp: message_effect_def new_for_def split: if_splits)
      qed (use assms handle_send_refused [OF new assms(2)] in \<open>auto simp: message_effect_def\<close>)
    next
      case no
      then have "(r, x') = (Ok None, x)" using assms(1) handle_send_refused [OF new assms(2)] by simp
      then show ?thesis by (simp add: message_effect_def)
    next
      case trap
      then show ?thesis
        using assms f handle_send_refused [OF new assms(2)] stuck [of w]
        by (cases "out_hash (app_out A) tx = msg_hash m")
           (auto simp: handle_send_def draft_in_run the_transaction_run Let_def, simp add: message_effect_def)
    qed
  qed (use assms in \<open>auto simp: handle_send_def message_effect_def\<close>)
qed

text \<open>
  C4. Push messages: whatever arrives, receiving it either leaves everything as it is or stores exactly one transaction, one that the
  specification \<open>message_stores\<close> allows, and answers with its identifier: a transaction waiting for signatures confirmed or
  rejected, or a new one for a known safe, each only on a signature of the paired browser extension over the hash of that very
  transaction. It never throws and sends nothing. A run that ends the program stores at most an empty draft for a known safe, without
  hash, signature, recipient, amount or data. The identifier for a new transaction is not in use yet.
\<close>

theorem push_messages_authenticated:
  assumes "receive A now nextID u x = (r, x')" "find_tx nextID (app_registry x) = None"
  shows "app_requests x' = app_requests x \<and>
    ((\<exists>res. r = Ok res \<and> (x' = x \<or> (\<exists>tx. message_stores A now nextID (app_registry x) tx \<and> res = Some (tx_id tx) \<and>
        x' = x\<lparr>app_registry := save_tx tx (app_registry x)\<rparr>))) \<or>
     r = Trap \<and> (x' = x \<or> (\<exists>tx safe w. tx_id tx = nextID \<and> status tx = draft \<and> tx_hash tx = None \<and> signatures tx = [] \<and>
        recipient tx = None \<and> amount tx = None \<and> tx_data tx = None \<and> find_wallet_address safe (app_registry x) = Some w \<and>
        sender tx = Some safe \<and> tx_walletID tx = wallet_id w \<and> x' = x\<lparr>app_registry := save_tx tx (app_registry x)\<rparr>)))"
proof -
  have "message_effect A now nextID x r x'"
    using assms handle_confirmed_effect [of A now _ x r x' nextID] handle_rejected_effect [of A now _ x r x' nextID]
      handle_send_effect [of A now nextID _ x r x']
    by (auto simp: receive_def message_effect_def split: option.splits message.splits)
  then show ?thesis unfolding message_effect_def empty_draft_def by (elim disjE exE conjE) (simp_all, blast+)
qed

definition sample_app :: "unit app_services" where
  "sample_app = \<lparr>app_out = \<lparr>out_lib = reference_library,
       out_node = \<lparr>node_getBalance = (\<lambda>a. Throw (OtherError NotificationValidationFailed)),
         node_call = (\<lambda>a d. Throw (OtherError NotificationValidationFailed))\<rparr>,
       out_getStorageAt = (\<lambda>a n. Throw (OtherError NotificationValidationFailed)),
       out_metadata = out_metadata sample_outside, out_address = Some, out_hash = (\<lambda>tx. [1]), out_sign = (\<lambda>tx k. k),
       out_ethSignature = (\<lambda>g. \<lparr>sig_r = sig_address g, sig_s = '''', sig_v = 27\<rparr>), out_derive_phrase = (\<lambda>p. None),
       out_derive_at = (\<lambda>e n. e), out_estimate = (\<lambda>q. Ok \<lparr>rsp_safeTxGas = 3, rsp_dataGas = 4, rsp_gasPrice = 5,
         rsp_operationalGas = 6, rsp_lastUsedNonce = Some 7, rsp_gasToken = token_id Ether\<rparr>),
       out_submit = (\<lambda>q. Ok ''0xabc'')\<rparr>,
     app_numbers = reference_numbers, app_json = concat \<circ> map snd, app_url = Some, app_read_code = (\<lambda>t. None),
     app_extension_address = (\<lambda>t. None), app_sign_message = (\<lambda>t k. \<lparr>sig_r = t, sig_s = '''', sig_v = 27\<rparr>),
     app_recover = (\<lambda>h g. Some (sample_address 3)), app_signature_data = (\<lambda>g. [2]), app_send = (\<lambda>q. Ok ()),
     app_pair = (\<lambda>q. Ok []), app_deletePair = (\<lambda>q. Ok ()), app_auth = (\<lambda>q. Ok []), app_estimateCreation = (\<lambda>n. Ok [])\<rparr>"

definition waiting_tx :: transaction where
  "waiting_tx = sample_request_tx\<lparr>tx_walletID := ''w'', status := signing, tx_hash := Some [1], fee := Some (ether 42)\<rparr>"

definition device_key :: eoa where
  "device_key = \<lparr>eoa_address = sample_address 7, eoa_mnemonic = [], privateKey = [7], publicKey = [], derivedIndex = 0\<rparr>"

definition paired_world :: "transaction list \<Rightarrow> unit app_world" where
  "paired_world txs = \<lparr>app_registry = \<lparr>reg_wallets = [paired_wallet],
       reg_portfolio = Some \<lparr>portfolio_id = ''p'', selectedWallet = Some ''w'', wallets = [''w'']\<rparr>, reg_accounts = [],
       reg_txs = txs, reg_eoas = [device_key], reg_items = [], reg_monitor = [], reg_events = [], reg_errors = []\<rparr>,
     app_requests = []\<rparr>"

definition confirmation :: userInfo where
  "confirmation = map_of [(''type'', ''confirmTransaction''), (''hash'', ''0x01''), (''r'', ''10''), (''s'', ''11''), (''v'', ''27'')]"

lemma paired_world_found:
  "selectedWallet_of (app_registry (paired_world txs)) = Some paired_wallet"
  "role_address browserExtension (app_registry (paired_world txs)) = Some (sample_address 3)"
  "role_address thisDevice (app_registry (paired_world txs)) = Some (sample_address 7)"
  "find_tx (tx_id tx) (app_registry (paired_world [tx])) = Some tx"
  "find_eoa (sample_address 7) (app_registry (paired_world txs)) = Some device_key"
  by (simp_all add: paired_world_def selectedWallet_of_def find_wallet_def find_tx_def find_eoa_def store_get_def paired_wallet_def
      wallet_empty_def role_address_def owner_with_def first_with_def sample_known_def device_key_def)

lemma confirmation_read:
  "message_create reference_numbers reference_library confirmation =
     Some (TransactionConfirmedMessage \<lparr>dec_hash = [1], dec_signature = \<lparr>sig_r = ''10'', sig_s = ''11'', sig_v = 27\<rparr>\<rparr>)"
proof -
  have dec: "''10'' = decimal (int 10)" "''11'' = decimal (int 11)" "''27'' = decimal 27" by code_simp+
  have "Int_text ''27'' = Some 27" unfolding dec by (intro Int_text_decimal) (simp add: int_range_def)
  moreover have "isWithinBounds_text reference_numbers ''10'' ''11'' 27"
    unfolding dec reference_numbers.bounds_text by (simp add: isWithinBounds_def secp256k1n_def)
  moreover have "ethHex reference_library ''0x01'' = [1]" by code_simp
  ultimately show ?thesis
    by (simp add: message_create_def decision_init_def confirmation_def guarded_def confirmed_messageType_def)
qed

lemma sample_app_sel:
  "app_numbers sample_app = reference_numbers" "out_lib (app_out sample_app) = reference_library"
  "app_recover sample_app h g = Some (sample_address 3)" "app_signature_data sample_app g = [2]"
  "out_hash (app_out sample_app) tx = [1]" "out_address (app_out sample_app) a = Some a"
  "out_submit (app_out sample_app) q = Ok ''0xabc''" "app_send sample_app n = Ok ()" "out_sign (app_out sample_app) tx k = k"
  "out_ethSignature (app_out sample_app) e = \<lparr>sig_r = sig_address e, sig_s = '''', sig_v = 27\<rparr>"
  by (simp_all add: sample_app_def)

lemma sample_address_init: "address_init reference_library (sample_address k) = Ok (sample_address k)"
  using sample_address_valid [of k] by (auto simp: valid_address_def address_init_def)

lemma waiting_tx_sel: "tx_id waiting_tx = ''tx1''" "status waiting_tx = signing" "tx_hash waiting_tx = Some [1]" "signatures waiting_tx = []"
  by (simp_all add: waiting_tx_def sample_request_tx_def tx_init_def tx_stamp_defs)

theorem push_messages_authenticated_witness:
  "\<exists>x' tx. receive sample_app 5 ''new'' confirmation (paired_world [waiting_tx]) = (Ok (Some (tx_id tx)), x') \<and>
     message_stores sample_app 5 ''new'' (app_registry (paired_world [waiting_tx])) tx \<and>
     find_tx ''tx1'' (app_registry x') = Some tx"
proof -
  let ?x = "paired_world [waiting_tx]"
  let ?g = "\<lparr>sig_address = sample_address 3, sig_data = [2]\<rparr>"
  let ?t = "waiting_tx\<lparr>signatures := [?g], updatedDate := Some 5\<rparr>"
  let ?x' = "?x\<lparr>app_registry := save_tx ?t (app_registry ?x)\<rparr>"
  have found: "find_hash_status [1] signing (app_registry ?x) = Some waiting_tx"
    by (simp add: paired_world_def find_hash_status_def mem_find_hash_status_def waiting_tx_sel)
  have run: "receive sample_app 5 ''new'' confirmation ?x = (Ok (Some ''tx1''), ?x')"
    by (simp add: receive_def sample_app_sel confirmation_read handle_confirmed_def transaction_from_def found signed_by_extension_def
        eth_address_def sample_address_init paired_world_found add_signature_def assertSignaturesEditable_def waiting_tx_sel
        canChangeSignatures_def timestampUpdated_def in_registry_def)
  have new: "find_tx ''new'' (app_registry ?x) = None" by (simp add: paired_world_def find_tx_def store_get_def waiting_tx_sel)
  have old: "find_tx ''tx1'' (app_registry ?x) = Some waiting_tx" and stored: "find_tx ''tx1'' (app_registry ?x') = Some ?t"
    using paired_world_found(4) [of waiting_tx] by (simp_all add: waiting_tx_sel tx_repo.find_save)
  have "signatures ?t \<noteq> signatures waiting_tx" by (simp add: waiting_tx_sel)
  then have "?x' \<noteq> ?x" using old stored by (metis option.inject)
  then obtain tx where tx: "message_stores sample_app 5 ''new'' (app_registry ?x) tx" "tx_id tx = ''tx1''"
      "?x' = ?x\<lparr>app_registry := save_tx tx (app_registry ?x)\<rparr>"
    using push_messages_authenticated [OF run new] by auto
  then have "find_tx ''tx1'' (app_registry ?x') = Some tx" by (metis app_world.select_convs(1) app_world.surjective app_world.update_convs(1) tx_repo.find_save)
  with run tx show ?thesis by auto
qed

text \<open>
  C31. Unauthenticated crash: a message for a known safe whose two gas numbers add up beyond the range of \<open>Int\<close> ends the program while
  the fee is computed, before the signature is looked at, so for every signature; the draft made for it stays stored.
\<close>

theorem unauthenticated_message_traps:
  assumes "message_create (app_numbers A) (out_lib (app_out A)) u = Some (SendTransactionMessage m)"
    and "find_hash (msg_hash m) (app_registry x) = None" "find_wallet_address (msg_safe m) (app_registry x) = Some w"
    and "\<not> int_range (msg_txGas m + msg_dataGas m)"
  shows "receive A now nextID u x =
     (Trap, x\<lparr>app_registry := save_tx (first_draft now nextID w (msg_safe m)) (app_registry x)\<rparr>)"
proof -
  let ?d = "first_draft now nextID w (msg_safe m)"
  have w: "address_of w = Some (msg_safe m)" using assms(3) by (auto simp: find_wallet_address_def dest: find_SomeD)
  have load: "find_tx nextID (save_tx ?d (app_registry x)) = Some ?d" using tx_repo.find_save [of nextID ?d] by simp
  have "message_fee m = (Trap :: (tx_error, tokenAmount) outcome)" using assms(4) by (simp add: message_fee_def message_estimation_def swift_int_def Let_def)
  then have "update_with_message A now m ?d = Trap"
    by (simp add: update_with_message_def tx_edit_defs canChangeParameters_def timestampUpdated_def)
  then show ?thesis using assms(1-3) w load by (simp add: receive_def handle_send_def draft_in_run the_transaction_run)
qed

definition overflowing_tx :: transaction where
  "overflowing_tx = sample_request_tx\<lparr>sender := Some (sample_address 9),
     fee_estimate := Some \<lparr>gas = 2 ^ 63 - 1, dataGas = 1, operationalGas = 0, gasPrice = ether 0\<rparr>\<rparr>"

lemma overflowing_request:
  "\<exists>u m. message_create reference_numbers reference_library u = Some (SendTransactionMessage m) \<and>
     msg_hash m = [5] \<and> msg_safe m = sample_address 9 \<and> msg_txGas m = 2 ^ 63 - 1 \<and> msg_dataGas m = 1"
proof -
  let ?e = "\<lparr>gas = 2 ^ 63 - 1, dataGas = 1, operationalGas = 0, gasPrice = ether 0\<rparr>"
  have tx: "sender overflowing_tx = Some (sample_address 9)" "ethTo overflowing_tx = sample_address 2"
      "operation overflowing_tx = Some call" "nonce overflowing_tx = Some (decimal 7)" "fee_estimate overflowing_tx = Some ?e"
    by (simp_all add: overflowing_tx_def sample_request_tx_def ethTo_def isERC20Transfer_def ether_def)
  then obtain F where F: "requestConfirmationMessage reference_library Some overflowing_tx [5] = (Ok F :: (unit, json_object) outcome)"
    by (simp add: requestConfirmationMessage_def)
  have w: "written_address reference_library (sample_address 9)" "written_address reference_library (sample_address 2)"
      "written_address reference_library (token_address (token_of (gasPrice ?e)))"
    using Ether_written by (simp_all add: sample_address_def text_written ether_def)
  have "isWithinBounds 10 11 27" by (simp add: isWithinBounds_def secp256k1n_def)
  then show ?thesis
    using returned_request_read [OF reference.hex_library_axioms reference_numbers.number_library_axioms F,
        of "sample_address 9" "sample_address 2" call ?e 7 10 11 27] tx w
    by (auto simp: int_range_def intro!: exI [of _ "returned_request F 10 11 27"])
qed

theorem unauthenticated_message_traps_witness:
  "\<exists>u. receive sample_app 5 ''new'' u (paired_world []) =
     (Trap, (paired_world [])\<lparr>app_registry := save_tx (first_draft 5 ''new'' paired_wallet (sample_address 9)) (app_registry (paired_world []))\<rparr>)"
proof -
  obtain u m where u: "message_create reference_numbers reference_library u = Some (SendTransactionMessage m)"
      "msg_hash m = [5]" "msg_safe m = sample_address 9" "msg_txGas m = 2 ^ 63 - 1" "msg_dataGas m = 1"
    using overflowing_request by blast
  have "find_hash (msg_hash m) (app_registry (paired_world [])) = None"
      "find_wallet_address (msg_safe m) (app_registry (paired_world [])) = Some paired_wallet"
    by (simp_all add: paired_world_def find_hash_def mem_find_hash_def find_wallet_address_def u(3) paired_wallet_def)
  then show ?thesis
    using unauthenticated_message_traps [of sample_app u m "paired_world []" paired_wallet 5 "''new''"] u
    by (auto simp: sample_app_sel int_range_def)
qed

subsection \<open>Submission\<close>

text \<open>The transaction with the signature of the device, and what is sent for it.\<close>

definition device_signed :: "'x app_services \<Rightarrow> date \<Rightarrow> address \<Rightarrow> eoa \<Rightarrow> transaction \<Rightarrow> transaction" where
  "device_signed A now me k tx = (if isSignedBy tx me then tx
     else tx\<lparr>signatures := signatures tx @ [\<lparr>sig_address = me, sig_data = out_sign (app_out A) tx (privateKey k)\<rparr>],
             updatedDate := Some now\<rparr>)"

definition submit_request_of :: "'x app_services \<Rightarrow> transaction \<Rightarrow> ('e, submitRequest) outcome" where
  "submit_request_of A tx = submitRequest_init (out_lib (app_out A)) (out_address (app_out A)) tx
     (map (out_ethSignature (app_out A)) (sorted_by sig_less (signatures tx)))"

lemma act_bind_assoc: "act_bind (act_bind m f) g x = act_bind m (\<lambda>a. act_bind (f a) g) x"
  by (simp add: act_bind_def split: outcome.splits prod.splits)

lemma signTransaction_run:
  assumes "role_address thisDevice (app_registry x) = Some me" "find_eoa me (app_registry x) = Some k"
    and "status tx \<in> {draft, signing}"
    and "\<forall>ext. role_address browserExtension (app_registry x) = Some ext \<longrightarrow> isSignedBy tx ext"
  shows "act_bind (signTransaction A now tx) f x = f (device_signed A now me k tx) x"
proof -
  let ?g = "\<lparr>sig_address = me, sig_data = out_sign (app_out A) tx (privateKey k)\<rparr>"
  have "?g \<notin> set (signatures tx)" if "\<not> isSignedBy tx me" using that by (auto simp: isSignedBy_def list_ex_iff)
  then have "signTransaction A now tx x = (Ok (device_signed A now me k tx), x)"
    using assms add_signature_eq_Ok [of now ?g tx "device_signed A now me k tx"]
    by (cases "role_address browserExtension (app_registry x)") (auto simp: signTransaction_def device_signed_def)
  then show ?thesis by (simp add: act_bind_apply)
qed

lemma submit_to_relay_run:
  assumes "submit_request_of A tx = (Ok q :: ('x app_error, submitRequest) outcome)"
  shows "submit_to_relay (A :: 'x app_services) tx x = (rethrow relay_error (out_submit (app_out A) q),
     x\<lparr>app_requests := app_requests x @ [SubmitRequest q]\<rparr>)"
  using assms
  by (cases "out_submit (app_out A) q")
     (simp_all add: submit_to_relay_def submit_request_of_def handleRelayServiceErrors_def mapping_errors_run Let_def leaving_def)

text \<open>The notification that follows, if there is a browser extension to notify.\<close>

definition notified :: "'x app_services \<Rightarrow> string \<Rightarrow> eoa \<Rightarrow> 'r registry \<Rightarrow> app_request list" where
  "notified A message k s = (case role_address browserExtension s of
      None \<Rightarrow> []
    | Some ext \<Rightarrow> [NotificationRequest (sendNotificationRequest_init message ext
        (app_sign_message A (''GNO'' @ message) (privateKey k)))])"

lemma notify_run:
  fixes A :: "'x app_services"
  assumes "role_address thisDevice (app_registry x) = Some me" "find_eoa me (app_registry x) = Some k"
    and "address_init (out_lib (app_out A)) me = (Ok me :: ('x app_error, address) outcome)" "\<forall>r. app_send A r \<noteq> Trap"
  shows "act_bind (try_optional (notifyBrowserExtension A message)) (\<lambda>_. f) x =
    f (x\<lparr>app_requests := app_requests x @ notified A message k (app_registry x)\<rparr>)"
proof (cases "role_address browserExtension (app_registry x)")
  case None
  then have "notifyBrowserExtension A message x = (Ok (), x)" by (simp add: notifyBrowserExtension_def)
  with None show ?thesis by (simp add: try_optional_run notified_def act_bind_def)
next
  case (Some ext)
  let ?q = "sendNotificationRequest_init message ext (app_sign_message A (''GNO'' @ message) (privateKey k))"
  have "eth_sign A (''GNO'' @ message) me x = (Ok (Some (app_sign_message A (''GNO'' @ message) (privateKey k))), x)"
    using assms by (simp add: eth_sign_def ask_def)
  then have "notifyBrowserExtension A message x = (rethrow notification_error (app_send A ?q),
      x\<lparr>app_requests := app_requests x @ [NotificationRequest ?q]\<rparr>)"
    using Some assms(1)
    by (cases "app_send A ?q") (simp_all add: notifyBrowserExtension_def act_bind_apply handleNotificationServiceError_def
        mapping_errors_run http_send_def leaving_def)
  then show ?thesis
    using Some assms(4) by (cases "app_send A ?q") (auto simp: act_bind_def try_optional_run notified_def)
qed

lemma role_address_saved [simp]: "role_address r (save_tx tx s) = role_address r s"
  by (simp add: role_address_def)

lemma transactionData_saved: "tx_type p \<notin> {replaceBrowserExtension, disconnectBrowserExtension} \<Longrightarrow>
  transactionData_of A now p (save_tx tx s) = transactionData_of A now p s"
  by (simp add: transactionData_of_def status_of_def)

text \<open>
  C12. Submission of a payment that waits for signatures. Without the signature of a paired browser extension the program traps and
  nothing is sent. Otherwise the device signs if it has not, the relay gets one request with all signatures in the order
  of the signers, and an answer makes the stored transaction pending under the relay's hash and notifies the extension; an error
  of the relay is thrown as an error of the application and the stored transaction is as before.
\<close>

theorem payment_submission:
  fixes A :: "'x app_services"
  assumes "s = app_registry x" "find_tx i s = Some tx" "status tx = signing"
    and "tx_type tx \<notin> {replaceBrowserExtension, disconnectBrowserExtension}"
    and "role_address thisDevice s = Some me" "find_eoa me s = Some k"
    and "address_init (out_lib (app_out A)) me = (Ok me :: ('x app_error, address) outcome)" "\<forall>r. app_send A r \<noteq> Trap"
    and "t = device_signed A now me k tx" "submit_request_of A t = (Ok q :: ('x app_error, submitRequest) outcome)"
    and "p = (\<lambda>hash. t\<lparr>transactionHash := Some hash, status := pending, submittedDate := Some now, updatedDate := Some now\<rparr>)"
    and "\<forall>hash. transactionSentMessage (out_lib (app_out A)) (out_address (app_out A)) (p hash) =
       (Ok (msg hash) :: ('x app_error, json_object) outcome)"
  shows "submitTransaction A now i x =
    (if \<exists>ext. role_address browserExtension s = Some ext \<and> \<not> isSignedBy tx ext then (Trap, x)
     else case out_submit (app_out A) q of
         Ok hash \<Rightarrow> (transactionData_of A now (p hash) s, x\<lparr>app_registry := save_tx (p hash) s,
           app_requests := app_requests x @ SubmitRequest q # notified A (app_json A (msg hash)) k s\<rparr>)
       | Throw e \<Rightarrow> (Throw (relay_error e), x\<lparr>app_requests := app_requests x @ [SubmitRequest q]\<rparr>)
       | Trap \<Rightarrow> (Trap, x\<lparr>app_requests := app_requests x @ [SubmitRequest q]\<rparr>))"
proof (cases "\<exists>ext. role_address browserExtension s = Some ext \<and> \<not> isSignedBy tx ext")
  case True
  then show ?thesis using assms(1-4) by (auto simp: submitTransaction_def the_transaction_run signTransaction_def act_bind_assoc)
next
  case False
  have st: "status t = signing" "tx_id t = i" "tx_type t = tx_type tx"
    using assms(2,3,9) tx_repo.find_key [of i s tx] by (auto simp: device_signed_def)
  have sign: "act_bind (signTransaction A now tx) f x = f t x" for f :: "transaction \<Rightarrow> ('x, 'b) app"
    using signTransaction_run [of x me k tx A now f] assms(1,3,5,6,9) False by auto
  have set: "set_hash now hash t = Ok (t\<lparr>transactionHash := Some hash, updatedDate := Some now\<rparr>)" for hash
    using st by (simp add: set_hash_eq_Ok)
  have go: "proceed now (t\<lparr>transactionHash := Some hash, updatedDate := Some now\<rparr>) = Ok (p hash)" for hash
    using st by (simp add: proceed_def signing_proceed_def tx_stamp_defs assms(11))
  have go_on: "act_bind (proceedTransaction A now t) f x = (case out_submit (app_out A) q of
        Ok hash \<Rightarrow> f (p hash) (x\<lparr>app_requests := app_requests x @ [SubmitRequest q], app_registry := save_tx (p hash) s\<rparr>)
      | Throw e \<Rightarrow> (Throw (relay_error e), x\<lparr>app_requests := app_requests x @ [SubmitRequest q]\<rparr>)
      | Trap \<Rightarrow> (Trap, x\<lparr>app_requests := app_requests x @ [SubmitRequest q]\<rparr>))" for f :: "transaction \<Rightarrow> ('x, 'b) app"
    using submit_to_relay_run [OF assms(10), of x] set go assms(1)
    by (cases "out_submit (app_out A) q") (simp_all add: proceedTransaction_def act_bind_assoc act_bind_apply)
  show ?thesis
  proof (cases "out_submit (app_out A) q")
    case (Ok hash)
    let ?x = "x\<lparr>app_requests := app_requests x @ [SubmitRequest q], app_registry := save_tx (p hash) s\<rparr>"
    have told: "act_bind (try_optional (notifyBrowserExtension A m)) (\<lambda>_. f) ?x =
        f (?x\<lparr>app_requests := app_requests ?x @ notified A m k s\<rparr>)" for m and f :: "('x, 'b) app"
      using notify_run [of ?x me k A m f] assms(1,5-8) by (simp add: notified_def)
    have "tx_id (p hash) = i" "tx_type (p hash) = tx_type tx" using st by (simp_all add: assms(11))
    then have load: "find_tx i (save_tx (p hash) s) = Some (p hash)"
        "transactionData_of A now (p hash) (save_tx (p hash) s) = (transactionData_of A now (p hash) s :: ('x app_error, transactionData) outcome)"
      using tx_repo.find_save [of i "p hash" s] assms(4) by (simp_all add: transactionData_saved)
    then show ?thesis
      using False assms(1-4,12) Ok
      by (auto simp: submitTransaction_def the_transaction_run sign go_on told [unfolded assms(1)] act_bind_assoc the_transactionData_def)
  qed (use False assms(1-4) in \<open>auto simp: submitTransaction_def the_transaction_run sign go_on act_bind_assoc\<close>)
qed

definition confirmed_tx :: transaction where
  "confirmed_tx = waiting_tx\<lparr>signatures := [\<lparr>sig_address = sample_address 3, sig_data = [2]\<rparr>]\<rparr>"

theorem payment_submission_witness:
  "\<exists>d x' p. submitTransaction sample_app 5 ''tx1'' (paired_world [confirmed_tx]) = (Ok d, x') \<and> data_status d = td_pending \<and>
     find_tx ''tx1'' (app_registry x') = Some p \<and> status p = pending \<and> transactionHash p = Some ''0xabc'' \<and>
     length (app_requests x') = 2"
proof -
  let ?x = "paired_world [confirmed_tx]"
  let ?t = "device_signed sample_app 5 (sample_address 7) device_key confirmed_tx"
  let ?p = "\<lambda>hash. ?t\<lparr>transactionHash := Some hash, status := pending, submittedDate := Some 5, updatedDate := Some 5\<rparr>"
  have c: "tx_id confirmed_tx = ''tx1''" "status confirmed_tx = signing" "tx_type confirmed_tx = Tx.transfer"
      "isSignedBy confirmed_tx (sample_address 3)" "sender confirmed_tx = Some (sample_address 1)" "operation confirmed_tx = Some call"
      "nonce confirmed_tx = Some (decimal 7)" "fee_estimate confirmed_tx \<noteq> None" "tx_hash confirmed_tx = Some [1]"
    by (simp_all add: confirmed_tx_def waiting_tx_def sample_request_tx_def tx_init_def tx_stamp_defs isSignedBy_def)
  have t: "sender ?t = Some (sample_address 1)" "operation ?t = Some call" "nonce ?t = Some (decimal 7)" "fee_estimate ?t \<noteq> None"
      "tx_hash ?t = Some [1]" "tx_id ?t = ''tx1''" "tx_type ?t = Tx.transfer"
    using c by (simp_all add: device_signed_def)
  obtain q where q: "submit_request_of sample_app ?t = (Ok q :: (unit app_error, submitRequest) outcome)"
    using t by (auto simp: submit_request_of_def submitRequest_init_def sample_app_sel)
  let ?msg = "\<lambda>hash. [(''type'', ''sendTransactionHash''), (''hash'', ''0x'' @ toHexString reference_library [1]), (''chainHash'', hash)]"
  have msg: "\<forall>hash. transactionSentMessage (out_lib (app_out sample_app)) (out_address (app_out sample_app)) (?p hash) =
      (Ok (?msg hash) :: (unit app_error, json_object) outcome)"
    using t by (simp add: transactionSentMessage_def sample_app_sel)
  have "submitTransaction sample_app 5 ''tx1'' ?x = (transactionData_of sample_app 5 (?p ''0xabc'') (app_registry ?x),
      ?x\<lparr>app_registry := save_tx (?p ''0xabc'') (app_registry ?x), app_requests := app_requests ?x @
        SubmitRequest q # notified sample_app (app_json sample_app (?msg ''0xabc'')) device_key (app_registry ?x)\<rparr>)"
    using payment_submission [of "app_registry ?x" ?x "''tx1''" confirmed_tx "sample_address 7" device_key sample_app ?t 5 q ?p ?msg]
      paired_world_found(2,3,5) paired_world_found(4) [of confirmed_tx] c q msg
    by (simp add: sample_app_sel sample_address_init)
  moreover have "find_tx ''tx1'' (save_tx (?p ''0xabc'') (app_registry ?x)) = Some (?p ''0xabc'')"
    using tx_repo.find_save [of "''tx1''" "?p ''0xabc''"] t by simp
  moreover have "app_requests ?x = []" by (simp add: paired_world_def)
  ultimately show ?thesis
    using t paired_world_found(2) [of "[confirmed_tx]"] by (simp add: transactionData_of_def status_of_def notified_def)
qed

end
