(* ===== verification/Encryption.thy ===== *)
theory Encryption
  imports Messages
begin

section \<open>The hash that the owners of a safe sign\<close>

text \<open>
  The hash of a transaction in \<^verbatim>\<open>MultisigWalletImplementations/Services/EncryptionService.swift\<close>, with \<^verbatim>\<open>BigInt+Hex.swift\<close> and
  \<^verbatim>\<open>EthData.swift\<close> as far as it uses them, and the words of a recovery phrase. The order of the forced unwraps is that of the array
  literals. A negative integer writes its sign into the hex text. Hash and text functions are those of \<open>hex_functions\<close> and
  \<open>number_functions\<close>; the locale \<open>hash_texts\<close> adds that both read hex text as the same number.
\<close>

subsection \<open>Integers and addresses as words\<close>

text \<open>\<open>TokenInt.data\<close>: padded to 32 bytes, never cut.\<close>

definition int_data :: "hex_functions \<Rightarrow> int \<Rightarrow> bytes" where
  "int_data L i = leftPadded 32 (ethHex L (''0x'' @ (if i < 0 then ''-'' else '''') @ hexText L (nat \<bar>i\<bar>)))"

text \<open>\<open>stripHexPrefix()\<close>.\<close>

definition strip_hex_prefix :: "string \<Rightarrow> string" where
  "strip_hex_prefix s = (if take 2 s = ''0x'' then drop 2 s else s)"

definition address_data :: "number_functions \<Rightarrow> hex_functions \<Rightarrow> address \<Rightarrow> ('e, bytes) outcome" where
  "address_data N L a = omap (int_data L) (unwrap (readHex N (strip_hex_prefix a)))"

subsection \<open>Type hashes\<close>

definition DefaultEIP712SafeAppDomainSeparatorTypeHash :: "hex_functions \<Rightarrow> bytes" where
  "DefaultEIP712SafeAppDomainSeparatorTypeHash L =
     ethHex L ''0x035aff83d86937d35b32e04f0ddc6ff469290eef2f1b692d8a815c89404d4749''"

definition DefaultEIP712SafeAppTxTypeHash :: "hex_functions \<Rightarrow> bytes" where
  "DefaultEIP712SafeAppTxTypeHash L =
     ethHex L ''0x14d461bc7412367e924637b363c7bf29b8f47e2f84869f4426e5633d8af47b20''"

definition txTypeHash_of :: "hex_functions \<Rightarrow> safeContractMetadata \<Rightarrow> 'e registry \<Rightarrow> transaction \<Rightarrow> bytes" where
  "txTypeHash_of L md s tx =
     (case do { w \<leftarrow> find_wallet (tx_walletID tx) s; m \<leftarrow> masterCopyAddress w; EIP712SafeAppTxTypeHash md m } of
        Some r \<Rightarrow> r | None \<Rightarrow> DefaultEIP712SafeAppTxTypeHash L)"

definition domainSeparatorTypeHash :: "hex_functions \<Rightarrow> safeContractMetadata \<Rightarrow> 'e registry \<Rightarrow> transaction \<Rightarrow> bytes" where
  "domainSeparatorTypeHash L md s tx =
     (case do { w \<leftarrow> find_wallet (tx_walletID tx) s; m \<leftarrow> masterCopyAddress w; EIP712SafeAppDomainSeparatorTypeHash md m } of
        Some r \<Rightarrow> r | None \<Rightarrow> DefaultEIP712SafeAppDomainSeparatorTypeHash L)"

subsection \<open>The hash of a transaction\<close>

definition domainData :: "number_functions \<Rightarrow> hex_functions \<Rightarrow> safeContractMetadata \<Rightarrow> 'r registry \<Rightarrow> transaction \<Rightarrow> ('e, bytes) outcome" where
  "domainData N L md s tx =
     obind (unwrap (sender tx)) (\<lambda>a.
     obind (address_data N L a) (\<lambda>d.
     Ok (concat [domainSeparatorTypeHash L md s tx, d])))"

definition valueData :: "number_functions \<Rightarrow> hex_functions \<Rightarrow> safeContractMetadata \<Rightarrow> 'r registry \<Rightarrow> transaction \<Rightarrow> ('e, bytes) outcome" where
  "valueData N L md s tx =
     obind (address_data N L (ethTo tx)) (\<lambda>to.
     obind (unwrap (operation tx)) (\<lambda>op.
     obind (unwrap (fee_estimate tx)) (\<lambda>e.
     obind (address_data N L (token_address (token_of (gasPrice e)))) (\<lambda>gasToken.
     obind (unwrap (nonce tx)) (\<lambda>nonceText.
     obind (unwrap (readBigInt N nonceText)) (\<lambda>n.
     Ok (concat [
       txTypeHash_of L md s tx,
       to,
       int_data L (ethValue tx),
       hash_of L (case tx_data tx of Some d \<Rightarrow> d | None \<Rightarrow> []),
       int_data L (operation_rawValue op),
       int_data L (gas e),
       int_data L (dataGas e),
       int_data L (amount_of (gasPrice e)),
       gasToken,
       int_data L 0,
       int_data L n])))))))"

definition hashData :: "number_functions \<Rightarrow> hex_functions \<Rightarrow> safeContractMetadata \<Rightarrow> 'r registry \<Rightarrow> transaction \<Rightarrow> ('e, bytes) outcome" where
  "hashData N L md s tx =
     obind (domainData N L md s tx) (\<lambda>domain.
     obind (valueData N L md s tx) (\<lambda>values.
     Ok (concat [[0x19], [0x01], hash_of L domain, hash_of L values])))"

definition hash_of_tx :: "number_functions \<Rightarrow> hex_functions \<Rightarrow> safeContractMetadata \<Rightarrow> 'r registry \<Rightarrow> transaction \<Rightarrow> ('e, bytes) outcome" where
  "hash_of_tx N L md s tx = omap (hash_of L) (hashData N L md s tx)"

subsection \<open>Recovery phrases\<close>

text \<open>\<open>components(separatedBy: .whitespacesAndNewlines)\<close> without the empty ones.\<close>

fun words_of :: "string \<Rightarrow> string \<Rightarrow> string list" where
  "words_of acc [] = (if acc = [] then [] else [acc])"
| "words_of acc (c # s) = (if is_blank c then (if acc = [] then [] else [acc]) @ words_of [] s else words_of (acc @ [c]) s)"

definition phrase_words :: "string \<Rightarrow> string list" where
  "phrase_words phrase = words_of [] (lowercased (trimmed phrase))"

subsection \<open>The parameters under the hash\<close>

locale hash_texts = hex_library L + number_library N for L :: hex_functions and N :: number_functions +
  assumes hex_value_read: "s \<noteq> [] \<Longrightarrow> hex_string (lowercased s) \<Longrightarrow> readHex N s = Some (int (big_endian (ethHex L s)))"

definition uint256 :: "int \<Rightarrow> bool" where
  "uint256 i \<longleftrightarrow> 0 \<le> i \<and> i < 2 ^ 256"

text \<open>A transaction with all parameters set, its numbers in the range of the contract and its addresses written out.\<close>

definition encodable :: "number_functions \<Rightarrow> hex_functions \<Rightarrow> transaction \<Rightarrow> bool" where
  "encodable N L tx = (case (sender tx, fee_estimate tx, nonce tx) of
      (Some a, Some e, Some n) \<Rightarrow> operation tx \<noteq> None \<and> written_address L a \<and> written_address L (ethTo tx) \<and>
        written_address L (token_address (token_of (gasPrice e))) \<and> uint256 (ethValue tx) \<and> uint256 (gas e) \<and>
        uint256 (dataGas e) \<and> uint256 (amount_of (gasPrice e)) \<and> (case readBigInt N n of Some k \<Rightarrow> uint256 k | None \<Rightarrow> False)
    | _ \<Rightarrow> False)"

text \<open>What the safe executes: the numbers behind safe, receiver, value, operation, gas limits, gas price, gas token and nonce, and the data.\<close>

definition safe_numbers :: "number_functions \<Rightarrow> hex_functions \<Rightarrow> transaction \<Rightarrow> int list" where
  "safe_numbers N L tx = (let e = the (fee_estimate tx) in
     [int (big_endian (ethHex L (ethTo tx))), ethValue tx, operation_rawValue (the (operation tx)), gas e, dataGas e,
      amount_of (gasPrice e), int (big_endian (ethHex L (token_address (token_of (gasPrice e))))),
      the (readBigInt N (the (nonce tx)))])"

definition safe_number :: "hex_functions \<Rightarrow> transaction \<Rightarrow> int" where
  "safe_number L tx = int (big_endian (ethHex L (the (sender tx))))"

definition call_data :: "transaction \<Rightarrow> bytes" where
  "call_data tx = (case tx_data tx of Some d \<Rightarrow> d | None \<Rightarrow> [])"

definition value_words :: "hex_functions \<Rightarrow> bytes \<Rightarrow> bytes \<Rightarrow> int list \<Rightarrow> bytes" where
  "value_words L th d ns = th @ int_data L (ns ! 0) @ int_data L (ns ! 1) @ hash_of L d @ int_data L (ns ! 2) @ int_data L (ns ! 3) @
     int_data L (ns ! 4) @ int_data L (ns ! 5) @ int_data L (ns ! 6) @ int_data L 0 @ int_data L (ns ! 7)"

definition domain_words :: "hex_functions \<Rightarrow> bytes \<Rightarrow> int \<Rightarrow> bytes" where
  "domain_words L dh n = dh @ int_data L n"

lemma written_address_number: "written_address L a \<Longrightarrow> uint256 (int (big_endian (ethHex L a)))"
proof -
  assume "written_address L a"
  then have "big_endian (ethHex L a) < 256 ^ 20" using big_endian_less [of "ethHex L a"] by (simp add: written_address_def)
  then show ?thesis by (simp add: uint256_def)
qed

lemma encodable_numbers:
  assumes "encodable N L tx"
  shows "list_all uint256 (safe_numbers N L tx)" "uint256 (safe_number L tx)" "length (safe_numbers N L tx) = 8"
proof -
  have "uint256 (operation_rawValue op)" for op by (cases op) (simp_all add: operation_rawValue_def uint256_def)
  then show "list_all uint256 (safe_numbers N L tx)" "uint256 (safe_number L tx)" "length (safe_numbers N L tx) = 8"
    using assms written_address_number [of L]
    by (auto simp: encodable_def safe_numbers_def safe_number_def Let_def split: option.splits)
qed

context hash_texts
begin

lemma int_data_word:
  assumes "uint256 i"
  shows "length (int_data L i) = 32" "int (big_endian (int_data L i)) = i"
proof -
  have eq: "int_data L i = leftPadded 32 (ethHex L (hexText L (nat i)))"
    using assms strip_prefixes_0x [of "hexText L (nat i)"] by (simp add: int_data_def uint256_def ethHex_def Let_def)
  have "nat i < 256 ^ 32" using assms by (simp add: uint256_def nat_less_iff)
  then have "length (ethHex L (hexText L (nat i))) \<le> 32" by (intro size_of_text) simp_all
  then show "length (int_data L i) = 32" "int (big_endian (int_data L i)) = i"
    using assms by (simp_all add: eq uint256_def)
qed

lemma int_data_inject: "uint256 i \<Longrightarrow> uint256 j \<Longrightarrow> int_data L i = int_data L j \<longleftrightarrow> i = j"
  using int_data_word(2) by metis

lemma address_data_written: "written_address L a \<Longrightarrow> address_data N L a = Ok (int_data L (int (big_endian (ethHex L a))))"
proof -
  assume "written_address L a"
  then obtain t where t: "a = ''0x'' @ t" "length t = 40" "hex_string (lowercased t)" by (rule written_address_parts)
  then have "readHex N t = Some (int (big_endian (ethHex L t)))" by (intro hex_value_read) auto
  moreover have "ethHex L a = ethHex L t" using t strip_prefixes_0x [of t] by (simp add: ethHex_def Let_def)
  ultimately show ?thesis using t by (simp add: address_data_def strip_hex_prefix_def)
qed

lemma value_words_inject:
  assumes "list_all uint256 ns" "list_all uint256 ms" "length ns = 8" "length ms = 8"
  shows "value_words L th d ns = value_words L th c ms \<longleftrightarrow> hash_of L d = hash_of L c \<and> ns = ms"
proof -
  have n: "uint256 (ns ! i)" "uint256 (ms ! i)" if "i < 8" for i using assms that by (simp_all add: list_all_length)
  have "value_words L th d ns = value_words L th c ms \<longleftrightarrow> hash_of L d = hash_of L c \<and> (\<forall>i < 8. ns ! i = ms ! i)"
    unfolding value_words_def using n
    by (auto simp: int_data_word hash_size int_data_inject numeral_eq_Suc less_Suc_eq)
  then show ?thesis using assms(3,4) by (auto simp: list_eq_iff_nth_eq)
qed

lemma data_closed:
  assumes "encodable N L tx"
  shows "domainData N L md s tx = Ok (domain_words L (domainSeparatorTypeHash L md s tx) (safe_number L tx))"
    and "valueData N L md s tx = Ok (value_words L (txTypeHash_of L md s tx) (call_data tx) (safe_numbers N L tx))"
  using assms
  by (auto simp: encodable_def domainData_def valueData_def address_data_written safe_numbers_def
      safe_number_def call_data_def value_words_def domain_words_def Let_def split: option.splits)

end

subsection \<open>The reference libraries\<close>

lemma digit_of_zero: "CHR ''0'' \<in> digit ` {..<16}" "digit_value CHR ''0'' = 0" "lower CHR ''0'' = CHR ''0''"
proof -
  have "CHR ''0'' = digit 0" by code_simp
  then show "CHR ''0'' \<in> digit ` {..<16}" by (rule image_eqI) simp
qed code_simp+

lemma reference_ethHex: "hex_string (lowercased s) \<Longrightarrow> big_endian (ethHex reference_library s) = hex_value (lowercased s)"
proof -
  assume s: "hex_string (lowercased s)"
  let ?t = "(if length s mod 2 = 1 then ''0'' else '''') @ s"
  have x: "c \<noteq> CHR ''x'' \<and> c \<noteq> CHR ''X''" if "lower c \<in> digit ` {..<16}" for c
  proof -
    have "lower CHR ''x'' = CHR ''x''" "lower CHR ''X'' = CHR ''x''" by code_simp+
    then show ?thesis using that digit_not_x by (metis imageE lessThan_iff)
  qed
  have plain: "\<not> has_hex_prefix t" if "hex_string (lowercased t)" for t
    using that x by (cases t rule: strip_prefixes.cases) (auto simp: has_hex_prefix_def lowercased_def)
  have t: "hex_string (lowercased ?t)" using s digit_of_zero by (simp add: lowercased_def)
  have "strip_prefixes s = s"
    using plain [OF s] by (cases s rule: strip_prefixes.cases) (auto simp: has_hex_prefix_def)
  then have "ethHex reference_library s = read_hex ?t"
    using read_prefixed_plain [OF plain [OF t]] by (simp add: ethHex_def Let_def reference_library_def)
  also have "\<dots> = read_hex (lowercased ?t)" by (rule read_hex_lowercased [symmetric])
  finally have "ethHex reference_library s = read_hex (lowercased ?t)" .
  moreover have "even (length (lowercased ?t))" by (auto simp: lowercased_def)
  ultimately have "big_endian (ethHex reference_library s) = hex_value (lowercased ?t)"
    using t by (simp only: read_hex_value)
  then show ?thesis using digit_of_zero by (auto simp: lowercased_def hex_value_Cons)
qed

interpretation reference_hash: hash_texts reference_library reference_numbers
  by unfold_locales (simp add: reference_numbers_def reference_ethHex)

text \<open>A library with another hash function of the same size keeps its laws.\<close>

lemma ethHex_other_hash [simp]: "ethHex (L\<lparr>hash_of := h\<rparr>) = ethHex L" "int_data (L\<lparr>hash_of := h\<rparr>) = int_data L"
  "written_address (L\<lparr>hash_of := h\<rparr>) = written_address L" "encodable N (L\<lparr>hash_of := h\<rparr>) = encodable N L"
  by (simp_all add: fun_eq_iff ethHex_def int_data_def written_address_def encodable_def cong: option.case_cong)

lemma hash_texts_other_hash: "hash_texts L N \<Longrightarrow> (\<And>d. length (h d) = 32) \<Longrightarrow> hash_texts (L\<lparr>hash_of := h\<rparr>) N"
  by (simp add: hash_texts_def hash_texts_axioms_def hex_library_def)

text \<open>The last 32 bytes as a hash: it tells transactions apart that differ in their last word.\<close>

definition tail_library :: hex_functions where
  "tail_library = reference_library\<lparr>hash_of := \<lambda>d. drop (length d) (replicate 32 0 @ d)\<rparr>"

lemma tail_library_ok: "hash_texts tail_library reference_numbers"
  unfolding tail_library_def by (rule hash_texts_other_hash [OF reference_hash.hash_texts_axioms]) simp

subsection \<open>Properties of the hash\<close>

definition no_collision :: "hex_functions \<Rightarrow> bytes \<Rightarrow> bytes \<Rightarrow> bool" where
  "no_collision L x y \<longleftrightarrow> (hash_of L x = hash_of L y \<longrightarrow> x = y)"

text \<open>C5. Equal hashes are equal calls: two complete transactions of a wallet have the same hash to sign exactly when they name the same
  safe, receiver, value, operation, gas limits, gas price, gas token and nonce and the same data, as long as the hash function has no
  collision on the four pairs of byte sequences it is applied to. The operational gas and the texts around the numbers play no role.\<close>

theorem hash_commits:
  assumes "hash_texts L N" "encodable N L t" "encodable N L u" "tx_walletID t = tx_walletID u"
    and "no_collision L (call_data t) (call_data u)"
    and "domainData N L md s t = (Ok dt :: ('e, bytes) outcome)" "domainData N L md s u = (Ok du :: ('e, bytes) outcome)"
      "no_collision L dt du"
    and "valueData N L md s t = (Ok vt :: ('e, bytes) outcome)" "valueData N L md s u = (Ok vu :: ('e, bytes) outcome)"
      "no_collision L vt vu"
    and "hashData N L md s t = (Ok ht :: ('e, bytes) outcome)" "hashData N L md s u = (Ok hu :: ('e, bytes) outcome)"
      "no_collision L ht hu"
  shows "(hash_of_tx N L md s t :: ('e, bytes) outcome) = hash_of_tx N L md s u \<longleftrightarrow>
    safe_number L t = safe_number L u \<and> safe_numbers N L t = safe_numbers N L u \<and> call_data t = call_data u"
proof -
  note closed = hash_texts.data_closed [OF assms(1)]
  have d: "dt = domain_words L (domainSeparatorTypeHash L md s t) (safe_number L t)"
      "du = domain_words L (domainSeparatorTypeHash L md s u) (safe_number L u)"
    using assms(6,7) by (simp_all add: closed(1) [OF assms(2)] closed(1) [OF assms(3)])
  have v: "vt = value_words L (txTypeHash_of L md s t) (call_data t) (safe_numbers N L t)"
      "vu = value_words L (txTypeHash_of L md s u) (call_data u) (safe_numbers N L u)"
    using assms(9,10) by (simp_all add: closed(2) [OF assms(2)] closed(2) [OF assms(3)])
  have th: "domainSeparatorTypeHash L md s t = domainSeparatorTypeHash L md s u" "txTypeHash_of L md s t = txTypeHash_of L md s u"
    using assms(4) by (simp_all add: domainSeparatorTypeHash_def txTypeHash_of_def)
  note size = hex_library.hash_size [OF hash_texts.axioms(1) [OF assms(1)]]
  have "(hash_of_tx N L md s t :: ('e, bytes) outcome) = hash_of_tx N L md s u \<longleftrightarrow> dt = du \<and> vt = vu"
    using assms(6-) by (auto simp: hash_of_tx_def hashData_def no_collision_def size)
  moreover have "dt = du \<longleftrightarrow> safe_number L t = safe_number L u"
    using d th hash_texts.int_data_inject [OF assms(1)] encodable_numbers(2) [OF assms(2)] encodable_numbers(2) [OF assms(3)]
    by (auto simp: domain_words_def)
  moreover have "vt = vu \<longleftrightarrow> call_data t = call_data u \<and> safe_numbers N L t = safe_numbers N L u"
    using v assms(5) th hash_texts.value_words_inject [OF assms(1) encodable_numbers(1) [OF assms(2)] encodable_numbers(1) [OF assms(3)]
      encodable_numbers(3) [OF assms(2)] encodable_numbers(3) [OF assms(3)]]
    by (auto simp: no_collision_def)
  ultimately show ?thesis by blast
qed

definition next_nonce_tx :: transaction where
  "next_nonce_tx = sample_request_tx\<lparr>nonce := Some (decimal 8)\<rparr>"

lemma tail_hash: "length y = 32 \<Longrightarrow> hash_of tail_library (x @ y) = y"
  by (simp add: tail_library_def)

lemma sample_encodable: "encodable reference_numbers tail_library sample_request_tx"
  "encodable reference_numbers tail_library next_nonce_tx"
  using text_written [of "replicate 20 1"] text_written [of "replicate 20 2"] Ether_written
  by (simp_all add: encodable_def next_nonce_tx_def sample_request_tx_def tail_library_def sample_address_def uint256_def
      ethTo_def ethValue_def isERC20Transfer_def ether_def reference_numbers.bigInt_decimal)

definition no_masters :: safeContractMetadata where
  "no_masters = \<lparr>multiSendContractAddress = sample_address 8, proxyFactoryAddress = sample_address 8,
     safeFunderAddress = sample_address 8, md_metadata = []\<rparr>"

theorem hash_commits_witness:
  "(hash_of_tx reference_numbers tail_library no_masters sample_registry sample_request_tx :: (unit, bytes) outcome) \<noteq>
     hash_of_tx reference_numbers tail_library no_masters sample_registry next_nonce_tx"
proof -
  let ?N = reference_numbers and ?L = tail_library and ?t = sample_request_tx and ?u = next_nonce_tx
  note closed = hash_texts.data_closed [OF tail_library_ok, where md = no_masters and s = sample_registry]
  note numbers = encodable_numbers [OF sample_encodable(1)] encodable_numbers [OF sample_encodable(2)]
  have same: "call_data ?t = call_data ?u" "safe_number ?L ?t = safe_number ?L ?u" "tx_walletID ?t = tx_walletID ?u"
    by (simp_all add: call_data_def safe_number_def next_nonce_tx_def)
  have last: "safe_numbers ?N ?L ?t ! 7 = 7" "safe_numbers ?N ?L ?u ! 7 = 8"
    by (simp_all add: safe_numbers_def next_nonce_tx_def sample_request_tx_def reference_numbers.bigInt_decimal Let_def)
  have word: "length (int_data ?L i) = 32" if "uint256 i" for i by (rule hash_texts.int_data_word(1) [OF tail_library_ok that])
  have small: "uint256 7" "uint256 8" by (simp_all add: uint256_def)
  have differ: "int_data ?L 7 \<noteq> int_data ?L 8" using hash_texts.int_data_inject [OF tail_library_ok small] by simp
  have vals: "hash_of ?L (value_words ?L th d ns) = int_data ?L (ns ! 7)" if "uint256 (ns ! 7)" for th d ns
    using word [OF that] tail_hash [of "int_data ?L (ns ! 7)"] unfolding value_words_def append_assoc [symmetric] by blast
  have hash: "hashData ?N ?L no_masters sample_registry x = (Ok ([0x19, 0x01] @
      hash_of ?L (domain_words ?L (domainSeparatorTypeHash ?L no_masters sample_registry x) (safe_number ?L x)) @
      hash_of ?L (value_words ?L (txTypeHash_of ?L no_masters sample_registry x) (call_data x) (safe_numbers ?N ?L x))) :: (unit, bytes) outcome)"
    if "encodable ?N ?L x" for x by (simp add: hashData_def closed [OF that])
  have tails: "no_collision ?L (x @ hash_of ?L (value_words ?L th d (safe_numbers ?N ?L ?t)))
      (y @ hash_of ?L (value_words ?L th' d' (safe_numbers ?N ?L ?u)))"
    "no_collision ?L (value_words ?L th d (safe_numbers ?N ?L ?t)) (value_words ?L th' d' (safe_numbers ?N ?L ?u))" for x y th th' d d'
    using differ by (simp_all add: vals last small tail_hash word no_collision_def)
  have "no_collision ?L (call_data ?t) (call_data ?u)" "no_collision ?L
      (domain_words ?L (domainSeparatorTypeHash ?L no_masters sample_registry ?t) (safe_number ?L ?t))
      (domain_words ?L (domainSeparatorTypeHash ?L no_masters sample_registry ?u) (safe_number ?L ?u))"
    using same by (simp_all add: no_collision_def domainSeparatorTypeHash_def)
  note commits = hash_commits [OF tail_library_ok sample_encodable same(3) this(1) closed(1) [OF sample_encodable(1)]
      closed(1) [OF sample_encodable(2)] this(2) closed(2) [OF sample_encodable(1)] closed(2) [OF sample_encodable(2)] tails(2)
      hash [OF sample_encodable(1)] hash [OF sample_encodable(2)] tails(1) [of "_ @ _" _ _ "_ @ _", unfolded append_assoc]]
  have "safe_numbers ?N ?L ?t \<noteq> safe_numbers ?N ?L ?u" using last by force
  then show ?thesis unfolding commits by blast
qed

end
