(* ===== verification/Polling.thy ===== *)
theory Polling
  imports App Retry
begin

section \<open>Polling the network\<close>

text \<open>
  \<^verbatim>\<open>MultisigWalletDomainModel/Worker.swift\<close> and the polling of \<^verbatim>\<open>MultisigWalletApplication/EthereumApplicationService.swift\<close>. A worker
  calls its closure until it answers that it is done; on a background thread the caller waits for that, on the main thread
  \<open>start\<close> schedules the loop and returns before the first call. The loop may not end, so it is a partial function with
  \<open>None\<close> for not returning. The microseconds of \<open>usleep\<close> are logged. \<open>repeatBlock\<close> ends a worker after three failures in a row.
\<close>

subsection \<open>Worker\<close>

record 's work =
  work_inner :: 's
  slept :: "nat list"

text \<open>\<open>UInt32(interval) * 1_000_000\<close>: the conversion drops the fraction, both operations trap out of range.\<close>

definition blockingWait :: "real \<Rightarrow> ('e, nat) outcome" where
  "blockingWait interval =
     obind (precondition (\<lfloor>interval\<rfloor> < 2 ^ 32)) (\<lambda>_.
     obind (precondition (\<lfloor>interval\<rfloor> * 1000000 < 2 ^ 32)) (\<lambda>_.
     Ok (nat \<lfloor>interval\<rfloor> * 1000000)))"

partial_function (option) worker_loop ::
  "real \<Rightarrow> ('s, 'e, bool) action \<Rightarrow> 's work \<Rightarrow> (('e, unit) outcome \<times> 's work) option" where
  "worker_loop interval job w = (case job (work_inner w) of
      (Ok stop, x) \<Rightarrow>
        if stop then Some (Ok (), w\<lparr>work_inner := x\<rparr>)
        else (case blockingWait interval :: ('e, nat) outcome of
            Ok m \<Rightarrow> worker_loop interval job (w\<lparr>work_inner := x, slept := slept w @ [m]\<rparr>)
          | Throw e \<Rightarrow> Some (Throw e, w\<lparr>work_inner := x\<rparr>)
          | Trap \<Rightarrow> Some (Trap, w\<lparr>work_inner := x\<rparr>))
    | (Throw e, x) \<Rightarrow> Some (Throw e, w\<lparr>work_inner := x\<rparr>)
    | (Trap, x) \<Rightarrow> Some (Trap, w\<lparr>work_inner := x\<rparr>))"

text \<open>\<open>Worker.start(repeating:block:)\<close>, with \<open>try! assertTrue\<close> of the initialiser.\<close>

definition worker_start :: "bool \<Rightarrow> real \<Rightarrow> ('s, 'e, bool) action \<Rightarrow> 's work \<Rightarrow> (('e, unit) outcome \<times> 's work) option" where
  "worker_start isMainThread interval job w =
     (if \<not> interval > 0 then Some (Trap, w)
      else if isMainThread then Some (Ok (), w)
      else worker_loop interval job w)"

subsection \<open>repeatBlock\<close>

record ('s, 'e) polled =
  outer :: 's
  poll_error :: "'e option"
  retryCount :: int

text \<open>The closure of the worker; \<open>present\<close> says that the service is still there.\<close>

definition repeat_job :: "('s \<Rightarrow> bool) \<Rightarrow> ('s, 'e, bool) action \<Rightarrow> (('s, 'e) polled, 'e, bool) action" where
  "repeat_job present block p =
     (if \<not> present (outer p) then (Ok True, p)
      else case block (outer p) of
          (Ok result, x) \<Rightarrow> (Ok result, p\<lparr>outer := x, retryCount := 3, poll_error := None\<rparr>)
        | (Throw e, x) \<Rightarrow>
            (Ok (retryCount p - 1 = 0), p\<lparr>outer := x, poll_error := Some e, retryCount := retryCount p - 1\<rparr>)
        | (Trap, x) \<Rightarrow> (Trap, p\<lparr>outer := x\<rparr>))"

definition repeatBlock ::
  "bool \<Rightarrow> ('s \<Rightarrow> bool) \<Rightarrow> real \<Rightarrow> ('s, 'e, bool) action \<Rightarrow> 's work \<Rightarrow> (('e, unit) outcome \<times> 's work) option" where
  "repeatBlock isMainThread present interval block w =
     map_option (\<lambda>(r, v).
         (case r of
            Ok u \<Rightarrow> (case poll_error (work_inner v) of Some e \<Rightarrow> Throw e | None \<Rightarrow> Ok ())
          | Throw e \<Rightarrow> Throw e
          | Trap \<Rightarrow> Trap,
          \<lparr>work_inner = outer (work_inner v), slept = slept v\<rparr>))
       (worker_start isMainThread interval (repeat_job present block)
          \<lparr>work_inner = \<lparr>outer = work_inner w, poll_error = None, retryCount = 3\<rparr>, slept = slept w\<rparr>)"

subsection \<open>EthereumApplicationService\<close>

datatype ethereumApplicationError = eth_invalidSignature | eth_invalidTransaction | eth_networkError | eth_serverError | eth_clientError

definition isNetworkError :: "ethereumApplicationError \<Rightarrow> bool" where
  "isNetworkError e \<longleftrightarrow> e = eth_networkError \<or> e = eth_clientError"

text \<open>What the two services throw: a network error of the domain, a threw request with the status code of an HTTP response, or another error.\<close>

datatype 'x eth_failure = EthNetwork networkServiceError | EthRequestFailed "int option" | EthError ethereumApplicationError | EthOther 'x

definition eth_error_from_response :: "int option \<Rightarrow> ethereumApplicationError" where
  "eth_error_from_response response = (case response of
      Some c \<Rightarrow> if 400 \<le> c \<and> c < 500 then eth_clientError else eth_serverError
    | None \<Rightarrow> eth_networkError)"

definition eth_error_from_network :: "networkServiceError \<Rightarrow> ethereumApplicationError" where
  "eth_error_from_network e = (case e of
      net_clientError \<Rightarrow> eth_clientError
    | net_networkError \<Rightarrow> eth_networkError
    | net_serverError \<Rightarrow> eth_serverError)"

text \<open>\<open>handleNodeServiceErrors\<close> and \<open>handleRelayServiceErrors\<close> have the same body.\<close>

definition handleServiceErrors :: "('s, 'x eth_failure, 'a) action \<Rightarrow> ('s, 'x eth_failure, 'a) action" where
  "handleServiceErrors = mapping_errors (\<lambda>e. case e of
      EthNetwork n \<Rightarrow> EthError (eth_error_from_network n)
    | EthRequestFailed r \<Rightarrow> EthError (eth_error_from_response r)
    | _ \<Rightarrow> e)"

text \<open>The block of the two waits: the captured variable takes what the query returned and keeps its value when the query throws.\<close>

definition wait_block :: "('s, 'x eth_failure, 'a option) action \<Rightarrow> ('s \<times> 'a option, 'x eth_failure, bool) action" where
  "wait_block query p = (case handleServiceErrors query (fst p) of
      (Ok v, x) \<Rightarrow> (Ok (v \<noteq> None), (x, v))
    | (Throw e, x) \<Rightarrow> (Throw e, (x, snd p))
    | (Trap, x) \<Rightarrow> (Trap, (x, snd p)))"

definition wait_for :: "bool \<Rightarrow> ('s \<Rightarrow> bool) \<Rightarrow> real \<Rightarrow> ('s, 'x eth_failure, 'a option) action \<Rightarrow> 's work
    \<Rightarrow> (('x eth_failure, 'a) outcome \<times> 's work) option" where
  "wait_for isMainThread present interval query w =
     map_option (\<lambda>(r, v).
         (obind r (\<lambda>_. unwrap (snd (work_inner v))), \<lparr>work_inner = fst (work_inner v), slept = slept v\<rparr>))
       (repeatBlock isMainThread (present \<circ> fst) interval (wait_block query) \<lparr>work_inner = (work_inner w, None), slept = slept w\<rparr>)"

definition waitForCreationTransaction :: "bool \<Rightarrow> ('s \<Rightarrow> bool) \<Rightarrow> (address \<Rightarrow> ('s, 'x eth_failure, string option) action) \<Rightarrow> address
    \<Rightarrow> 's work \<Rightarrow> (('x eth_failure, string) outcome \<times> 's work) option" where
  "waitForCreationTransaction isMainThread present safeCreationTransactionHash a =
     wait_for isMainThread present 5 (safeCreationTransactionHash a)"

definition waitForPendingTransaction :: "bool \<Rightarrow> ('s \<Rightarrow> bool) \<Rightarrow> (string \<Rightarrow> ('s, 'x eth_failure, transactionReceipt option) action) \<Rightarrow> string
    \<Rightarrow> 's work \<Rightarrow> (('x eth_failure, bool) outcome \<times> 's work) option" where
  "waitForPendingTransaction isMainThread present getReceipt hash w =
     map_option (\<lambda>(r, v). (omap (\<lambda>receipt. receipt_status receipt = success) r, v))
       (wait_for isMainThread present 2 (getReceipt hash) w)"

definition eth_balance :: "hex_functions \<Rightarrow> (address \<Rightarrow> ('s, 'x eth_failure, int) action) \<Rightarrow> string \<Rightarrow> ('s, 'x eth_failure, int) action" where
  "eth_balance L getBalance a = handleServiceErrors (act_bind (act_lift (address_init L a)) getBalance)"

definition balance_block :: "('s, 'x eth_failure, int) action \<Rightarrow> (int \<Rightarrow> 's \<Rightarrow> bool \<times> 's) \<Rightarrow> ('s \<times> int option, 'x eth_failure, bool) action" where
  "balance_block query didUpdateBalance p = (case query (fst p) of
      (Ok newBalance, x) \<Rightarrow>
        if Some newBalance \<noteq> snd p
        then (case didUpdateBalance newBalance x of (stop, y) \<Rightarrow> (Ok stop, (y, Some newBalance)))
        else (Ok False, (x, Some newBalance))
    | (Throw e, x) \<Rightarrow> (Throw e, (x, snd p))
    | (Trap, x) \<Rightarrow> (Trap, (x, snd p)))"

definition observeChangesInBalance :: "bool \<Rightarrow> ('s \<Rightarrow> bool) \<Rightarrow> hex_functions \<Rightarrow> (address \<Rightarrow> ('s, 'x eth_failure, int) action) \<Rightarrow> string
    \<Rightarrow> real \<Rightarrow> (int \<Rightarrow> 's \<Rightarrow> bool \<times> 's) \<Rightarrow> 's work \<Rightarrow> (('x eth_failure, unit) outcome \<times> 's work) option" where
  "observeChangesInBalance isMainThread present L getBalance a interval didUpdateBalance w =
     map_option (\<lambda>(r, v). (r, \<lparr>work_inner = fst (work_inner v), slept = slept v\<rparr>))
       (repeatBlock isMainThread (present \<circ> fst) interval (balance_block (eth_balance L getBalance a) didUpdateBalance)
          \<lparr>work_inner = (work_inner w, None), slept = slept w\<rparr>)"

subsection \<open>Rounds of a worker\<close>

text \<open>The state after \<open>k\<close> calls that all asked for another one.\<close>

fun going :: "nat \<Rightarrow> ('s, 'e, bool) action \<Rightarrow> 's \<Rightarrow> 's option" where
  "going 0 job x = Some x"
| "going (Suc k) job x = (case going k job x of
      None \<Rightarrow> None
    | Some y \<Rightarrow> (case job y of (Ok False, z) \<Rightarrow> Some z | _ \<Rightarrow> None))"

lemma going_first: "job x = (Ok False, y) \<Longrightarrow> going (Suc k) job x = going k job y"
  by (induction k) simp_all

text \<open>How a call that asks for no other one ends the loop.\<close>

definition ends :: "('s, 'e, bool) action \<Rightarrow> 's \<Rightarrow> ('e, unit) outcome \<Rightarrow> 's \<Rightarrow> bool" where
  "ends job y r z \<longleftrightarrow> (case job y of
      (Ok stop, x) \<Rightarrow> stop \<and> r = Ok () \<and> z = x
    | (Throw e, x) \<Rightarrow> r = Throw e \<and> z = x
    | (Trap, x) \<Rightarrow> r = Trap \<and> z = x)"

lemma worker_loop_going:
  assumes "blockingWait interval = (Ok m :: ('e, nat) outcome)" and "going k job (work_inner w) = Some y"
  shows "worker_loop interval (job :: ('s, 'e, bool) action) w =
    worker_loop interval job (w\<lparr>work_inner := y, slept := slept w @ replicate k m\<rparr>)"
  using assms(2)
proof (induction k arbitrary: y)
  case (Suc k)
  then obtain x where x: "going k job (work_inner w) = Some x" "job x = (Ok False, y)"
    by (auto split: option.splits prod.splits outcome.splits bool.splits)
  have "worker_loop interval job (w\<lparr>work_inner := x, slept := slept w @ replicate k m\<rparr>) =
      worker_loop interval job (w\<lparr>work_inner := y, slept := slept w @ replicate (Suc k) m\<rparr>)"
    by (subst worker_loop.simps) (simp add: x(2) assms(1) replicate_append_same)
  with Suc.IH [OF x(1)] show ?case by simp
qed simp

lemma worker_loop_ends:
  assumes "blockingWait interval = (Ok m :: ('e, nat) outcome)" and "going k job (work_inner w) = Some y"
    and "ends (job :: ('s, 'e, bool) action) y r z"
  shows "worker_loop interval job w = Some (r, w\<lparr>work_inner := z, slept := slept w @ replicate k m\<rparr>)"
  unfolding worker_loop_going [OF assms(1,2)] using assms(3)
  by (subst worker_loop.simps) (auto simp: ends_def split: prod.splits outcome.splits)

lemma worker_loop_returns:
  fixes job :: "('s, 'e, bool) action"
  assumes "blockingWait interval = (Ok m :: ('e, nat) outcome)" and "worker_loop interval job w = Some res"
  shows "\<exists>k y r z. going k job (work_inner w) = Some y \<and> ends job y r z"
proof -
  have "interval = interval \<longrightarrow> (\<exists>k y r z. going k job (work_inner w) = Some y \<and> ends job y r z)"
  proof (rule worker_loop.raw_induct [where P = "\<lambda>i job w res. i = interval \<longrightarrow>
      (\<exists>k y r z. going k job (work_inner w) = Some y \<and> ends job y r z)", OF _ assms(2)], rule impI)
    fix loop i res and job :: "('s, 'e, bool) action" and w :: "'s work"
    assume IH: "\<And>i (job :: ('s, 'e, bool) action) w res. loop i job w = Some res \<Longrightarrow> i = interval \<longrightarrow>
        (\<exists>k y r z. going k job (work_inner w) = Some y \<and> ends job y r z)"
      and body: "(case job (work_inner w) of
        (Ok stop, x) \<Rightarrow>
          if stop then Some (Ok (), w\<lparr>work_inner := x\<rparr>)
          else (case blockingWait i :: ('e, nat) outcome of
              Ok m \<Rightarrow> loop i job (w\<lparr>work_inner := x, slept := slept w @ [m]\<rparr>)
            | Throw e \<Rightarrow> Some (Throw e, w\<lparr>work_inner := x\<rparr>)
            | Trap \<Rightarrow> Some (Trap, w\<lparr>work_inner := x\<rparr>))
      | (Throw e, x) \<Rightarrow> Some (Throw e, w\<lparr>work_inner := x\<rparr>)
      | (Trap, x) \<Rightarrow> Some (Trap, w\<lparr>work_inner := x\<rparr>)) = Some res" and i: "i = interval"
    show "\<exists>k y r z. going k job (work_inner w) = Some y \<and> ends job y r z"
    proof (cases "\<exists>x. job (work_inner w) = (Ok False, x)")
      case True
      then obtain x where x: "job (work_inner w) = (Ok False, x)" ..
      then obtain k y r z where "going k job x = Some y" "ends job y r z"
        using body IH [of interval job "w\<lparr>work_inner := x, slept := slept w @ [m]\<rparr>"] assms(1) i by auto
      then show ?thesis using going_first [of job "work_inner w", OF x] by (intro exI [of _ "Suc k"] exI [of _ y]) (auto simp del: going.simps)
    next
      case False
      obtain a x where a: "job (work_inner w) = (a, x)" by (rule prod.exhaust)
      have "\<exists>r z. ends job (work_inner w) r z" using False a by (cases a) (auto simp: ends_def)
      then show ?thesis by (intro exI [of _ 0]) simp
    qed
  qed
  then show ?thesis by simp
qed

subsection \<open>Answers of a block\<close>

text \<open>The answers of the first \<open>n\<close> calls and the state after them; an answer may also be an error or a trap.\<close>

fun calls :: "nat \<Rightarrow> ('s, 'e, bool) action \<Rightarrow> 's \<Rightarrow> ('e, bool) outcome list \<times> 's" where
  "calls 0 block x = ([], x)"
| "calls (Suc n) block x = (case calls n block x of (as, y) \<Rightarrow> case block y of (a, z) \<Rightarrow> (as @ [a], z))"

definition threw :: "('e, 'a) outcome \<Rightarrow> bool" where
  "threw a \<longleftrightarrow> (\<exists>e. a = Throw e)"

text \<open>The polling is over: the last answer is to stop, the last call trapped, or the last three calls threw.\<close>

definition over :: "('e, bool) outcome list \<Rightarrow> bool" where
  "over as \<longleftrightarrow> as \<noteq> [] \<and> (last as = Ok True \<or> last as = Trap \<or> 3 \<le> length (takeWhile threw (rev as)))"

definition verdict :: "('e, bool) outcome list \<Rightarrow> ('e, unit) outcome" where
  "verdict as = (case last as of Ok b \<Rightarrow> Ok () | Throw e \<Rightarrow> Throw e | Trap \<Rightarrow> Trap)"

lemma threw_simps [simp]: "\<not> threw (Ok a)" "threw (Throw e)" "\<not> threw Trap"
  by (simp_all add: threw_def)

lemma repeat_job_run:
  "block (outer p) = (Ok b, x) \<Longrightarrow> repeat_job (\<lambda>_. True) block p = (Ok b, p\<lparr>outer := x, retryCount := 3, poll_error := None\<rparr>)"
  "block (outer p) = (Throw e, x) \<Longrightarrow> repeat_job (\<lambda>_. True) block p =
     (Ok (retryCount p - 1 = 0), p\<lparr>outer := x, poll_error := Some e, retryCount := retryCount p - 1\<rparr>)"
  "block (outer p) = (Trap, x) \<Longrightarrow> repeat_job (\<lambda>_. True) block p = (Trap, p\<lparr>outer := x\<rparr>)"
  by (simp_all add: repeat_job_def)

lemma calls_length [simp]: "length (fst (calls n block x)) = n"
  by (induction n) (auto split: prod.splits)

abbreviation poll_start :: "'s \<Rightarrow> ('s, 'e) polled" where
  "poll_start x \<equiv> \<lparr>outer = x, poll_error = None, retryCount = 3\<rparr>"

lemma going_poll:
  assumes "\<And>m. m \<le> n \<Longrightarrow> \<not> over (fst (calls m block x))"
  shows "\<exists>p. going n (repeat_job (\<lambda>_. True) block) (poll_start x) = Some p \<and> outer p = snd (calls n block x) \<and>
    retryCount p = 3 - int (length (takeWhile threw (rev (fst (calls n block x)))))"
  using assms
proof (induction n)
  case (Suc n)
  then obtain p where p: "going n (repeat_job (\<lambda>_. True) block) (poll_start x) = Some p" "outer p = snd (calls n block x)"
    "retryCount p = 3 - int (length (takeWhile threw (rev (fst (calls n block x)))))" by auto
  obtain as y where as: "calls n block x = (as, y)" by (rule prod.exhaust)
  obtain a z where a: "block y = (a, z)" by (rule prod.exhaust)
  have "\<not> over (as @ [a])" using Suc.prems [of "Suc n"] as a by simp
  then show ?case using p as a by (cases a) (auto simp: repeat_job_run over_def split: bool.splits)
qed simp

lemma ends_poll:
  assumes "\<And>m. m \<le> n \<Longrightarrow> \<not> over (fst (calls m block x))" "over (fst (calls (Suc n) block x))"
    and "going n (repeat_job (\<lambda>_. True) block) (poll_start x) = Some p"
  shows "\<exists>r q. ends (repeat_job (\<lambda>_. True) block) p r q \<and> outer q = snd (calls (Suc n) block x) \<and>
    (case r of Ok u \<Rightarrow> (case poll_error q of Some e \<Rightarrow> Throw e | None \<Rightarrow> Ok ()) | Throw e \<Rightarrow> Throw e | Trap \<Rightarrow> Trap) =
      verdict (fst (calls (Suc n) block x))"
proof -
  have p: "outer p = snd (calls n block x)" "retryCount p = 3 - int (length (takeWhile threw (rev (fst (calls n block x)))))"
    using going_poll [of n block x] assms(1,3) by auto
  obtain as y where as: "calls n block x = (as, y)" by (rule prod.exhaust)
  obtain a z where a: "block y = (a, z)" by (rule prod.exhaust)
  have "over (as @ [a])" using assms(2) as a by simp
  moreover have "\<not> 3 \<le> length (takeWhile threw (rev as))" using assms(1) [of n] as
    by (cases "as = []") (auto simp: over_def)
  ultimately show ?thesis using p as a
    by (cases a) (auto simp: ends_def repeat_job_run over_def verdict_def)
qed

lemma blockingWait_ok: "0 < interval \<Longrightarrow> interval < 4295 \<Longrightarrow> blockingWait interval = Ok (nat \<lfloor>interval\<rfloor> * 1000000)"
proof -
  assume "0 < interval" "interval < 4295"
  then have "\<lfloor>interval\<rfloor> \<le> 4294" by linarith
  moreover have "(2 :: int) ^ 32 = 4294967296" by simp
  ultimately have "\<lfloor>interval\<rfloor> < 2 ^ 32" "\<lfloor>interval\<rfloor> * 1000000 < 2 ^ 32" by linarith+
  then show ?thesis by (simp only: blockingWait_def precondition_simps obind_simps)
qed

lemma repeatBlock_ends:
  fixes block :: "('s, 'e, bool) action"
  assumes "0 < interval" "interval < 4295" and "\<And>m. m \<le> n \<Longrightarrow> \<not> over (fst (calls m block (work_inner w)))"
    and "over (fst (calls (Suc n) block (work_inner w)))"
  shows "repeatBlock False (\<lambda>_. True) interval block w = Some (verdict (fst (calls (Suc n) block (work_inner w))),
    \<lparr>work_inner = snd (calls (Suc n) block (work_inner w)), slept = slept w @ replicate n (nat \<lfloor>interval\<rfloor> * 1000000)\<rparr>)"
proof -
  let ?job = "repeat_job (\<lambda>_. True) block" and ?v = "\<lparr>work_inner = poll_start (work_inner w), slept = slept w\<rparr>"
  obtain p where p: "going n ?job (poll_start (work_inner w)) = Some p"
    using going_poll [of n block "work_inner w"] assms(3) by auto
  obtain r q where q: "ends ?job p r q" "outer q = snd (calls (Suc n) block (work_inner w))"
    "(case r of Ok u \<Rightarrow> (case poll_error q of Some e \<Rightarrow> Throw e | None \<Rightarrow> Ok ()) | Throw e \<Rightarrow> Throw e | Trap \<Rightarrow> Trap) =
      verdict (fst (calls (Suc n) block (work_inner w)))" using ends_poll [OF assms(3,4) p] by blast
  have "worker_loop interval ?job ?v = Some (r, ?v\<lparr>work_inner := q, slept := slept w @ replicate n (nat \<lfloor>interval\<rfloor> * 1000000)\<rparr>)"
    using worker_loop_ends [OF blockingWait_ok [OF assms(1,2)], of n ?job ?v p r q] p q(1) by simp
  then show ?thesis using assms(1) unfolding q(2,3) [symmetric]
    by (cases r) (simp_all add: repeatBlock_def worker_start_def del: calls.simps)
qed

lemma repeatBlock_forever:
  fixes block :: "('s, 'e, bool) action"
  assumes "0 < interval" "interval < 4295" and "\<And>n. \<not> over (fst (calls n block (work_inner w)))"
  shows "repeatBlock False (\<lambda>_. True) interval block w = None"
proof -
  let ?job = "repeat_job (\<lambda>_. True) block" and ?v = "\<lparr>work_inner = poll_start (work_inner w), slept = slept w\<rparr>"
  have "going (Suc k) ?job (poll_start (work_inner w)) \<noteq> None" for k using going_poll [of "Suc k" block] assms(3) by fastforce
  then have "\<not> ends ?job y r z" if "going k ?job (poll_start (work_inner w)) = Some y" for k y r z
    using that by (fastforce simp: ends_def split: prod.splits outcome.splits bool.splits option.splits)
  then have "worker_loop interval ?job ?v \<noteq> Some res" for res
    using worker_loop_returns [OF blockingWait_ok [OF assms(1,2)], of ?job ?v] by (metis work.select_convs(1))
  then have "worker_loop interval ?job ?v = None" by (cases "worker_loop interval ?job ?v") blast+
  then show ?thesis using assms(1) by (simp add: repeatBlock_def worker_start_def)
qed

subsection \<open>Properties of polling\<close>

text \<open>C22. Termination of polling: on a background thread a repeated block returns if and only if some call answers to stop or traps or
  three calls in a row throw; then it returns after the first such call what that call answered, the last of three errors in a row
  included, and it slept once, in whole seconds, between two calls. On the main thread it returns before the first call.\<close>

theorem polling_ends:
  fixes block :: "('s, 'e, bool) action"
  assumes "0 < interval" "interval < 4295"
  shows "(\<forall>n. over (fst (calls (Suc n) block (work_inner w))) \<and> (\<forall>m \<le> n. \<not> over (fst (calls m block (work_inner w)))) \<longrightarrow>
      repeatBlock False (\<lambda>_. True) interval block w = Some (verdict (fst (calls (Suc n) block (work_inner w))),
        \<lparr>work_inner = snd (calls (Suc n) block (work_inner w)), slept = slept w @ replicate n (nat \<lfloor>interval\<rfloor> * 1000000)\<rparr>)) \<and>
    (repeatBlock False (\<lambda>_. True) interval block w = None \<longleftrightarrow> (\<forall>n. \<not> over (fst (calls n block (work_inner w))))) \<and>
    repeatBlock True (\<lambda>_. True) interval block w = Some (Ok (), w)"
proof -
  let ?over = "\<lambda>n. over (fst (calls n block (work_inner w)))"
  have "repeatBlock False (\<lambda>_. True) interval block w \<noteq> None" if ov: "?over n" for n
  proof -
    obtain k where k: "?over k" "\<And>m. m < k \<Longrightarrow> \<not> ?over m" using ov exists_least_iff [of ?over] by blast
    then obtain j where "k = Suc j" by (cases k) (auto simp: over_def)
    then show ?thesis using repeatBlock_ends [OF assms, of j block w] k by (simp del: calls.simps add: less_Suc_eq_le)
  qed
  moreover have "repeatBlock True (\<lambda>_. True) interval block w = Some (Ok (), w)"
    using assms by (simp add: repeatBlock_def worker_start_def)
  moreover have "repeatBlock False (\<lambda>_. True) interval block w = None" if "\<forall>n. \<not> ?over n"
    using repeatBlock_forever [OF assms, of block w] that by simp
  ultimately have "repeatBlock False (\<lambda>_. True) interval block w = None \<longleftrightarrow> (\<forall>n. \<not> ?over n)"
    "repeatBlock True (\<lambda>_. True) interval block w = Some (Ok (), w)" by blast+
  then show ?thesis by (intro conjI allI impI repeatBlock_ends [OF assms]) blast+
qed

definition sample_block :: "(nat, string, bool) action" where
  "sample_block k = ([Throw ''a'', Throw ''b'', Ok False, Throw ''c'', Throw ''d'', Throw ''e'', Ok True] ! k, Suc k)"

theorem polling_ends_witness:
  "repeatBlock False (\<lambda>_. True) (5 / 2) sample_block \<lparr>work_inner = 0, slept = []\<rparr> =
     Some (Throw ''e'', \<lparr>work_inner = 6, slept = replicate 5 2000000\<rparr>)"
proof -
  have c: "calls k sample_block 0 = (take k [Throw ''a'', Throw ''b'', Ok False, Throw ''c'', Throw ''d'', Throw ''e''], k)" if "k \<le> 6" for k
    using that by (induction k) (auto simp: sample_block_def take_Suc_conv_app_nth nth_append less_Suc_eq_le le_Suc_eq numeral_eq_Suc)
  have "\<not> over (fst (calls m sample_block 0))" if "m \<le> 5" for m
    using that unfolding c [OF order_trans [OF that, of 6, simplified]]
    by (auto simp: over_def numeral_eq_Suc le_Suc_eq)
  moreover have "over (fst (calls (Suc 5) sample_block 0))" "verdict (fst (calls (Suc 5) sample_block 0)) = Throw ''e''"
    "snd (calls (Suc 5) sample_block 0) = 6"
    using c [of "Suc 5"] by (simp_all add: over_def verdict_def numeral_eq_Suc)
  moreover have "0 < (5 / 2 :: real)" "(5 / 2 :: real) < 4295" by simp_all
  note conjunct1 [OF polling_ends [OF this, of sample_block "\<lparr>work_inner = 0, slept = []\<rparr>"], THEN spec [of _ 5]]
  ultimately show ?thesis by (simp del: calls.simps)
qed

lemma repeatBlock_last:
  fixes block :: "('s, 'e, bool) action"
  assumes "0 < interval" "interval < 4295" and "repeatBlock False (\<lambda>_. True) interval block w = Some (r, v)"
  obtains a y where "block y = (a, work_inner v)" "(a = Ok True \<and> r = Ok ()) \<or> (\<exists>e. a = Throw e \<and> r = Throw e) \<or> (a = Trap \<and> r = Trap)"
proof -
  let ?over = "\<lambda>n. over (fst (calls n block (work_inner w)))"
  have "\<exists>n. ?over n" using repeatBlock_forever [OF assms(1,2), of block w] assms(3) by fastforce
  then obtain k where k: "?over k" "\<And>m. m < k \<Longrightarrow> \<not> ?over m" using exists_least_iff [of ?over] by blast
  then obtain n where n: "k = Suc n" by (cases k) (auto simp: over_def)
  obtain as y where as: "calls n block (work_inner w) = (as, y)" by (rule prod.exhaust)
  obtain a z where a: "block y = (a, z)" by (rule prod.exhaust)
  have "repeatBlock False (\<lambda>_. True) interval block w = Some (verdict (as @ [a]), \<lparr>work_inner = z,
      slept = slept w @ replicate n (nat \<lfloor>interval\<rfloor> * 1000000)\<rparr>)"
    using repeatBlock_ends [OF assms(1,2), of n block w] k as a by (simp add: n less_Suc_eq_le)
  then have "r = verdict (as @ [a])" "work_inner v = z" using assms(3) by auto
  moreover have "over (as @ [a])" using k(1) as a by (simp add: n)
  ultimately show thesis using that [of y a] a by (cases a) (auto simp: verdict_def over_def)
qed

text \<open>Waiting for the creation transaction: on a background thread the wait returns only a hash that the relay service answered with
  and throws only an error after three in a row, it never unwraps a missing hash; on the main thread the unwrapping always traps,
  because the worker has not called the relay service yet.\<close>

theorem waiting_results:
  fixes hashes :: "address \<Rightarrow> ('s, 'x eth_failure, string option) action"
  assumes "\<And>x. fst (hashes a x) \<noteq> Trap"
  shows "(waitForCreationTransaction False (\<lambda>_. True) hashes a w = Some (r, v) \<longrightarrow>
      (\<exists>h x. r = Ok h \<and> hashes a x = (Ok (Some h), work_inner v)) \<or> (\<exists>e. r = Throw e)) \<and>
    waitForCreationTransaction True (\<lambda>_. True) hashes a w = Some (Trap, \<lparr>work_inner = work_inner w, slept = slept w\<rparr>)"
proof (intro conjI impI)
  show "waitForCreationTransaction True (\<lambda>_. True) hashes a w = Some (Trap, \<lparr>work_inner = work_inner w, slept = slept w\<rparr>)"
    by (simp add: waitForCreationTransaction_def wait_for_def repeatBlock_def worker_start_def)
next
  let ?w = "\<lparr>work_inner = (work_inner w, None), slept = slept w\<rparr>"
  assume "waitForCreationTransaction False (\<lambda>_. True) hashes a w = Some (r, v)"
  then obtain q u where q: "repeatBlock False (\<lambda>_. True) 5 (wait_block (hashes a)) ?w = Some (q, u)"
    "r = obind q (\<lambda>_. unwrap (snd (work_inner u)))" "work_inner v = fst (work_inner u)"
    by (auto simp: waitForCreationTransaction_def wait_for_def comp_def)
  have five: "0 < (5 :: real)" "(5 :: real) < 4295" by simp_all
  obtain ans y where y: "wait_block (hashes a) y = (ans, work_inner u)"
    "(ans = Ok True \<and> q = Ok ()) \<or> (\<exists>e. ans = Throw e \<and> q = Throw e) \<or> (ans = Trap \<and> q = Trap)"
    by (rule repeatBlock_last [OF five q(1)])
  have "ans \<noteq> Trap" using y(1) assms [of "fst y"]
    by (auto simp: wait_block_def handleServiceErrors_def mapping_errors_run split: prod.splits outcome.splits)
  moreover have "\<exists>h x. hashes a x = (Ok (Some h), work_inner v) \<and> snd (work_inner u) = Some h" if "ans = Ok True"
    using y(1) that q(3) by (cases "work_inner u")
      (auto simp: wait_block_def handleServiceErrors_def mapping_errors_run split: prod.splits outcome.splits)
  ultimately consider e where "r = Throw e" | h x where "hashes a x = (Ok (Some h), work_inner v)" "r = Ok h"
    using y(2) q(2) by auto
  then show "(\<exists>h x. r = Ok h \<and> hashes a x = (Ok (Some h), work_inner v)) \<or> (\<exists>e. r = Throw e)"
    by cases blast+
qed

definition sample_hashes :: "address \<Rightarrow> (nat, unit eth_failure, string option) action" where
  "sample_hashes a n = (if n < 2 then (Ok None, Suc n) else (Ok (Some ''0x1''), Suc n))"

theorem waiting_results_witness:
  "waitForCreationTransaction True (\<lambda>_. True) sample_hashes ''0xa'' \<lparr>work_inner = 0, slept = []\<rparr> =
     Some (Trap, \<lparr>work_inner = 0, slept = []\<rparr>)"
  using waiting_results [of sample_hashes "''0xa''" "\<lparr>work_inner = 0, slept = []\<rparr>"] by (simp add: sample_hashes_def)

end
