(* ===== verification/Events.thy ===== *)
theory Events
  imports Prelude "HOL-Library.Multiset"
begin

section \<open>Publishing events and errors\<close>

text \<open>
  \<^verbatim>\<open>MultisigWalletDomainModel/Wallet/EventPublisher.swift\<close> and \<^verbatim>\<open>ErrorStream.swift\<close>, \<^verbatim>\<open>MultisigWalletApplication/EventRelay.swift\<close> and the
  subscriptions of \<^verbatim>\<open>WalletApplicationService.swift\<close>. Every operation of the publisher is a block on a serial queue; the calls of
  subscribers are blocks on the concurrent global queue, which runs them in any order. Subscribers are objects held by weak references:
  the state has the objects that are alive, and a block that mentions an object keeps it alive until the block has run.
  The error stream calls its handlers one after another on a queue of its own, the relay calls its subscribers at once.
\<close>

type_synonym object = nat

text \<open>A class of events; \<open>DomainEvent\<close> is the base class, which stands for all of them in a subscription.\<close>

datatype eventType = DomainEvent | EventClass string

definition accepts :: "eventType \<Rightarrow> eventType \<Rightarrow> bool" where
  "accepts t e \<longleftrightarrow> t = e \<or> t = DomainEvent"

subsection \<open>EventPublisher\<close>

datatype 'c publisher_op = Subscribe object eventType 'c | Unsubscribe object | Publish eventType

record 'c publisher =
  subscriptions :: "(object \<times> eventType \<times> 'c) list"
  serial_queue :: "'c publisher_op list"
  global_queue :: "('c \<times> eventType) list"
  called :: "('c \<times> eventType) list"
  alive :: "object set"

definition publisher_init :: "object set \<Rightarrow> 'c publisher" where
  "publisher_init as = \<lparr>subscriptions = [], serial_queue = [], global_queue = [], called = [], alive = as\<rparr>"

text \<open>\<open>subscribe\<close>, \<open>unsubscribe\<close> and \<open>publish\<close> put a block on the serial queue.\<close>

definition publisher_call :: "'c publisher_op \<Rightarrow> 'c publisher \<Rightarrow> 'c publisher" where
  "publisher_call op s = s\<lparr>serial_queue := serial_queue s @ [op]\<rparr>"

definition publisher_removeWeakNils :: "'c publisher \<Rightarrow> 'c publisher" where
  "publisher_removeWeakNils s = s\<lparr>subscriptions := filter (\<lambda>(r, _). r \<in> alive s) (subscriptions s)\<rparr>"

text \<open>The blocks.\<close>

fun perform :: "'c publisher_op \<Rightarrow> 'c publisher \<Rightarrow> 'c publisher" where
  "perform (Subscribe r t c) s = s\<lparr>subscriptions := subscriptions s @ [(r, t, c)]\<rparr>"
| "perform (Unsubscribe r) s = s\<lparr>subscriptions := filter (\<lambda>(x, _). x \<noteq> r) (subscriptions s)\<rparr>"
| "perform (Publish e) s = (let s' = publisher_removeWeakNils s in
     s'\<lparr>global_queue := global_queue s' @ map (\<lambda>(_, _, c). (c, e)) (filter (\<lambda>(_, t, _). accepts t e) (subscriptions s'))\<rparr>)"

fun objects_of :: "'c publisher_op \<Rightarrow> object set" where
  "objects_of (Subscribe r _ _) = {r}"
| "objects_of (Unsubscribe r) = {r}"
| "objects_of (Publish _) = {}"

datatype 'c publisher_label = Called "'c publisher_op" | Performed "'c publisher_op" | Delivered | Released object

inductive publisher_step :: "'c publisher \<Rightarrow> 'c publisher_label \<Rightarrow> 'c publisher \<Rightarrow> bool" where
  calling: "objects_of op \<subseteq> alive s \<Longrightarrow> publisher_step s (Called op) (publisher_call op s)"
| performing: "serial_queue s = op # ops \<Longrightarrow> publisher_step s (Performed op) (perform op (s\<lparr>serial_queue := ops\<rparr>))"
| delivering: "i < length (global_queue s) \<Longrightarrow> publisher_step s Delivered
    (s\<lparr>global_queue := take i (global_queue s) @ drop (Suc i) (global_queue s), called := called s @ [global_queue s ! i]\<rparr>)"
| releasing: "r \<in> alive s \<Longrightarrow> r \<notin> \<Union> (objects_of ` set (serial_queue s)) \<Longrightarrow> publisher_step s (Released r) (s\<lparr>alive := alive s - {r}\<rparr>)"

inductive publisher_run :: "'c publisher \<Rightarrow> 'c publisher_label list \<Rightarrow> 'c publisher \<Rightarrow> bool" where
  run_nil: "publisher_run s [] s"
| run_snoc: "publisher_run s ls t \<Longrightarrow> publisher_step t l u \<Longrightarrow> publisher_run s (ls @ [l]) u"

inductive_cases publisher_stepE: "publisher_step s l t"

subsection \<open>ErrorStream\<close>

record ('c, 'e) errorStream =
  handlers :: "(object \<times> 'c) list"
  operations :: "('c list \<times> 'e) list"
  handled :: "('c \<times> 'e) list"

definition post :: "object set \<Rightarrow> 'e \<Rightarrow> ('c, 'e) errorStream \<Rightarrow> ('c, 'e) errorStream" where
  "post live e s = (let hs = filter (\<lambda>(r, _). r \<in> live) (handlers s) in
     s\<lparr>handlers := hs, operations := operations s @ [(map snd hs, e)]\<rparr>)"

definition addHandler :: "object \<Rightarrow> 'c \<Rightarrow> ('c, 'e) errorStream \<Rightarrow> ('c, 'e) errorStream" where
  "addHandler r c s = s\<lparr>handlers := handlers s @ [(r, c)]\<rparr>"

definition removeHandler :: "object \<Rightarrow> ('c, 'e) errorStream \<Rightarrow> ('c, 'e) errorStream" where
  "removeHandler r s = s\<lparr>handlers := filter (\<lambda>(x, _). x \<noteq> r) (handlers s)\<rparr>"

text \<open>The queue runs one operation at a time.\<close>

definition run_operation :: "('c, 'e) errorStream \<Rightarrow> ('c, 'e) errorStream" where
  "run_operation s = (case operations s of
      [] \<Rightarrow> s
    | (cs, e) # ops \<Rightarrow> s\<lparr>operations := ops, handled := handled s @ map (\<lambda>c. (c, e)) cs\<rparr>)"

subsection \<open>EventRelay\<close>

type_synonym relay = "(eventType \<times> object) list"

definition relay_subscribe :: "object \<Rightarrow> eventType \<Rightarrow> relay \<Rightarrow> relay" where
  "relay_subscribe subject event ss = ss @ [(event, subject)]"

text \<open>\<open>firstIndex(where:)\<close> and \<open>remove(at:)\<close>.\<close>

definition relay_unsubscribe :: "object \<Rightarrow> relay \<Rightarrow> relay" where
  "relay_unsubscribe subject ss = (case firstIndex (\<lambda>(_, r). r = subject) ss of
      None \<Rightarrow> ss
    | Some i \<Rightarrow> take i ss @ drop (Suc i) ss)"

text \<open>\<open>handleEvent\<close>: the subscribers that are kept and those that are notified.\<close>

definition handleEvent :: "object set \<Rightarrow> eventType \<Rightarrow> relay \<Rightarrow> relay \<times> object list" where
  "handleEvent live event ss = (let kept = filter (\<lambda>(_, r). r \<in> live) ss in
     (kept, map snd (filter (\<lambda>(t, _). accepts t event) kept)))"

subsection \<open>Subscriptions of the application\<close>

record ('c, 'e) app_events =
  eventRelay :: relay
  errorStream :: "('c, 'e) errorStream"

text \<open>\<open>deployWallet\<close> up to the start of the deployment service.\<close>

definition deployWallet_events :: "object \<Rightarrow> 'c option \<Rightarrow> ('c, 'e) app_events \<Rightarrow> ('c, 'e) app_events" where
  "deployWallet_events subscriber onError s =
     (let errors = (case onError of
             Some errorHandler \<Rightarrow> addHandler subscriber errorHandler (removeHandler subscriber (errorStream s))
           | None \<Rightarrow> errorStream s);
          events = [''DeploymentStarted'', ''StartedWaitingForFirstDeposit'', ''StartedWaitingForRemainingFeeAmount'', ''DeploymentFunded'',
            ''CreationStarted'', ''WalletTransactionHashIsKnown'', ''WalletCreated'', ''WalletCreationFailed'']
      in s\<lparr>errorStream := errors,
           eventRelay := foldl (\<lambda>ss e. relay_subscribe subscriber (EventClass e) ss) (relay_unsubscribe subscriber (eventRelay s)) events\<rparr>)"

definition AccountsBalancesUpdated :: eventType where
  "AccountsBalancesUpdated = EventClass ''AccountsBalancesUpdated''"

definition TokensDisplayListChanged :: eventType where
  "TokensDisplayListChanged = EventClass ''TokensDisplayListChanged''"

definition subscribeOnTokensUpdates :: "'c \<Rightarrow> object \<Rightarrow> ('c, 'e) app_events \<Rightarrow> ('c, 'e) app_events" where
  "subscribeOnTokensUpdates tokensListUpdatesErrorHandler subscriber s =
     (let errors = addHandler subscriber tokensListUpdatesErrorHandler (removeHandler subscriber (errorStream s));
          ss = relay_unsubscribe subscriber (eventRelay s);
          ss = relay_subscribe subscriber AccountsBalancesUpdated ss;
          ss = relay_subscribe subscriber TokensDisplayListChanged ss
      in s\<lparr>errorStream := errors, eventRelay := ss\<rparr>)"

definition subscribeForTransactionUpdates :: "object \<Rightarrow> ('c, 'e) app_events \<Rightarrow> ('c, 'e) app_events" where
  "subscribeForTransactionUpdates subscriber s =
     s\<lparr>eventRelay := relay_subscribe subscriber (EventClass ''TransactionStatusUpdated'') (relay_unsubscribe subscriber (eventRelay s))\<rparr>"

subsection \<open>What is due\<close>

text \<open>The calls that a history of the publisher owes: one for every publication and every earlier subscription that accepts the event and
  whose object was neither unsubscribed nor released in between.\<close>

fun ended_by :: "object \<Rightarrow> 'c publisher_label \<Rightarrow> bool" where
  "ended_by r (Performed (Unsubscribe x)) = (r = x)"
| "ended_by r (Released x) = (r = x)"
| "ended_by r _ = False"

fun subscription_of :: "'c publisher_label \<Rightarrow> (object \<times> eventType \<times> 'c) option" where
  "subscription_of (Performed (Subscribe r t c)) = Some (r, t, c)"
| "subscription_of _ = None"

definition active_at :: "'c publisher_label list \<Rightarrow> nat \<Rightarrow> (object \<times> eventType \<times> 'c) list" where
  "active_at h i = concat (map (\<lambda>j. case subscription_of (h ! j) of
      Some (r, t, c) \<Rightarrow> if \<exists>k \<in> {j<..<i}. ended_by r (h ! k) then [] else [(r, t, c)]
    | None \<Rightarrow> []) [0..<i])"

fun publication_of :: "'c publisher_label \<Rightarrow> eventType option" where
  "publication_of (Performed (Publish e)) = Some e"
| "publication_of _ = None"

definition deliveries :: "'c publisher_label list \<Rightarrow> ('c \<times> eventType) list" where
  "deliveries h = concat (map (\<lambda>i. case publication_of (h ! i) of
      Some e \<Rightarrow> map (\<lambda>(_, _, c). (c, e)) (filter (\<lambda>(_, t, _). accepts t e) (active_at h i))
    | None \<Rightarrow> []) [0..<length h])"

fun requested :: "'c publisher_label list \<Rightarrow> 'c publisher_op list" where
  "requested [] = []"
| "requested (Called op # h) = op # requested h"
| "requested (_ # h) = requested h"

fun performed :: "'c publisher_label list \<Rightarrow> 'c publisher_op list" where
  "performed [] = []"
| "performed (Performed op # h) = op # performed h"
| "performed (_ # h) = performed h"

lemma requested_append [simp]: "requested (g @ h) = requested g @ requested h"
  by (induction g rule: requested.induct) simp_all

lemma performed_append [simp]: "performed (g @ h) = performed g @ performed h"
  by (induction g rule: performed.induct) simp_all

lemma active_at_append: "i \<le> length h \<Longrightarrow> active_at (h @ g) i = active_at h i"
  unfolding active_at_def by (intro arg_cong [where f = concat] map_cong refl) (auto simp: nth_append split: option.splits)

lemma deliveries_snoc: "deliveries (h @ [l]) = deliveries h @ (case publication_of l of
      Some e \<Rightarrow> map (\<lambda>(_, _, c). (c, e)) (filter (\<lambda>(_, t, _). accepts t e) (active_at h (length h)))
    | None \<Rightarrow> [])"
proof -
  have "map (\<lambda>i. case publication_of ((h @ [l]) ! i) of
        Some e \<Rightarrow> map (\<lambda>(_, _, c). (c, e)) (filter (\<lambda>(_, t, _). accepts t e) (active_at (h @ [l]) i)) | None \<Rightarrow> []) [0..<length h] =
      map (\<lambda>i. case publication_of (h ! i) of
        Some e \<Rightarrow> map (\<lambda>(_, _, c). (c, e)) (filter (\<lambda>(_, t, _). accepts t e) (active_at h i)) | None \<Rightarrow> []) [0..<length h]"
    by (intro map_cong refl) (simp add: nth_append active_at_append split: option.splits)
  moreover have "[0..<length (h @ [l])] = [0..<length h] @ [length h]" by simp
  ultimately show ?thesis unfolding deliveries_def map_append concat_append by (simp only: map_append concat_append) (simp add: active_at_append split: option.split)
qed

lemma active_at_snoc: "active_at (h @ [l]) (Suc (length h)) =
    filter (\<lambda>(r, _). \<not> ended_by r l) (active_at h (length h)) @ (case subscription_of l of Some x \<Rightarrow> [x] | None \<Rightarrow> [])"
proof -
  have ends: "(\<exists>k \<in> {j<..<Suc (length h)}. ended_by r ((h @ [l]) ! k)) \<longleftrightarrow>
      (\<exists>k \<in> {j<..<length h}. ended_by r (h ! k)) \<or> ended_by r l" if "j < length h" for j r
    using that by (auto simp: nth_append less_Suc_eq)
  have "concat (map (\<lambda>j. case subscription_of ((h @ [l]) ! j) of
        Some (r, t, c) \<Rightarrow> if \<exists>k \<in> {j<..<Suc (length h)}. ended_by r ((h @ [l]) ! k) then [] else [(r, t, c)] | None \<Rightarrow> []) [0..<length h]) =
      filter (\<lambda>(r, _). \<not> ended_by r l) (active_at h (length h))"
    unfolding active_at_def filter_concat map_map
    by (intro arg_cong [where f = concat] map_cong refl) (auto simp: nth_append ends split: option.splits)
  moreover have "{length h<..<Suc (length h)} = {}" by auto
  ultimately show ?thesis by (simp add: active_at_def split: option.splits)
qed

subsection \<open>The publisher keeps what is due\<close>

text \<open>The invariant of a run with history \<open>h\<close>.\<close>

definition publisher_inv :: "'c publisher_label list \<Rightarrow> 'c publisher \<Rightarrow> bool" where
  "publisher_inv h s \<longleftrightarrow>
     filter (\<lambda>(r, _). r \<in> alive s) (subscriptions s) = active_at h (length h) \<and>
     \<Union> (objects_of ` set (serial_queue s)) \<subseteq> alive s \<and>
     performed h @ serial_queue s = requested h \<and>
     mset (called s @ global_queue s) = mset (deliveries h)"

lemma inv_init: "publisher_inv [] (publisher_init as)"
  by (simp add: publisher_inv_def publisher_init_def active_at_def deliveries_def)

lemma mset_moved: "i < length xs \<Longrightarrow> add_mset (xs ! i) (mset (take i xs) + mset (drop (Suc i) xs)) = mset xs"
  using id_take_nth_drop [of i xs] by (metis mset.simps(2) mset_append union_mset_add_mset_right)

lemma inv_step:
  assumes "publisher_step s l t" "publisher_inv h s"
  shows "publisher_inv (h @ [l]) t"
  using assms
proof (cases rule: publisher_step.cases)
  case (calling op)
  then show ?thesis using assms(2) by (simp add: publisher_inv_def active_at_snoc deliveries_snoc publisher_call_def Un_commute)
next
  case (performing op ops)
  have "objects_of op \<subseteq> alive s" using assms(2) performing(3) by (auto simp: publisher_inv_def)
  moreover have act: "active_at h (length h) = filter (\<lambda>(r, _). r \<in> alive s) (subscriptions s)"
    and rest: "\<Union> (objects_of ` set ops) \<subseteq> alive s" "performed h @ op # ops = requested h"
      "mset (called s @ global_queue s) = mset (deliveries h)"
    using assms(2) performing(3) by (auto simp: publisher_inv_def)
  ultimately show ?thesis using performing(1,2)
    by (cases op) (auto simp: publisher_inv_def active_at_snoc deliveries_snoc publisher_removeWeakNils_def Let_def act case_prod_unfold
        conj_commute simp flip: union_assoc)
next
  case (delivering i)
  then show ?thesis using assms(2) mset_moved [of i "global_queue s"]
    by (simp add: publisher_inv_def active_at_snoc deliveries_snoc)
next
  case (releasing r)
  have "active_at h (length h) = filter (\<lambda>(r, _). r \<in> alive s) (subscriptions s)" using assms(2) by (simp add: publisher_inv_def)
  then show ?thesis using assms(2) releasing by (auto simp: publisher_inv_def active_at_snoc deliveries_snoc case_prod_unfold conj_commute)
qed

lemma inv_run: "publisher_run s h t \<Longrightarrow> publisher_inv [] s \<Longrightarrow> publisher_inv h t"
  by (induction rule: publisher_run.induct) (auto intro: inv_step)

subsection \<open>Properties of the publisher\<close>

text \<open>C24. Every event reaches every subscriber once: whatever the callers, the two queues and the memory do, the calls made and the calls
  still waiting are, each as often, one call for every publication and every subscription that was performed before it, accepts the
  event and whose object was neither unsubscribed nor released since; operations are performed in the order they were called in.\<close>

theorem delivered_once:
  assumes "publisher_run (publisher_init as) h s"
  shows "mset (called s) + mset (global_queue s) = mset (deliveries h) \<and> requested h = performed h @ serial_queue s"
  using inv_run [OF assms inv_init] by (simp add: publisher_inv_def)

text \<open>Histories that can be computed; the number says which waiting call the global queue picks.\<close>

fun take_step :: "'c publisher_label \<times> nat \<Rightarrow> 'c publisher \<Rightarrow> 'c publisher option" where
  "take_step (Called op, _) s = (if objects_of op \<subseteq> alive s then Some (publisher_call op s) else None)"
| "take_step (Performed op, _) s = (case serial_queue s of
      [] \<Rightarrow> None
    | x # ops \<Rightarrow> if x = op then Some (perform op (s\<lparr>serial_queue := ops\<rparr>)) else None)"
| "take_step (Delivered, i) s = (if i < length (global_queue s) then Some (s\<lparr>global_queue := take i (global_queue s) @ drop (Suc i) (global_queue s),
      called := called s @ [global_queue s ! i]\<rparr>) else None)"
| "take_step (Released r, _) s = (if r \<in> alive s \<and> r \<notin> \<Union> (objects_of ` set (serial_queue s))
      then Some (s\<lparr>alive := alive s - {r}\<rparr>) else None)"

fun take_steps :: "('c publisher_label \<times> nat) list \<Rightarrow> 'c publisher \<Rightarrow> 'c publisher option" where
  "take_steps [] s = Some s"
| "take_steps (l # ls) s = (case take_step l s of None \<Rightarrow> None | Some t \<Rightarrow> take_steps ls t)"

lemma take_step_step: "take_step l s = Some t \<Longrightarrow> publisher_step s (fst l) t"
  by (cases "(l, s)" rule: take_step.cases) (auto intro: publisher_step.intros split: if_splits list.splits)

lemma run_Cons: "publisher_run t ls u \<Longrightarrow> publisher_step s l t \<Longrightarrow> publisher_run s (l # ls) u"
proof (induction rule: publisher_run.induct)
  case (run_nil t)
  then show ?case using run_snoc [OF publisher_run.run_nil, of s l t] by simp
next
  case (run_snoc t ls v m u)
  then show ?case using publisher_run.run_snoc [of s "l # ls"] by simp
qed

lemma take_steps_run: "take_steps ls s = Some t \<Longrightarrow> publisher_run s (map fst ls) t"
  by (induction ls s rule: take_steps.induct) (auto intro: run_nil run_Cons take_step_step split: option.splits)

definition one_event :: "(nat publisher_label \<times> nat) list" where
  "one_event = [(Called (Subscribe 1 DomainEvent 11), 0), (Called (Subscribe 2 DomainEvent 22), 0), (Called (Publish (EventClass ''A'')), 0),
     (Performed (Subscribe 1 DomainEvent 11), 0), (Performed (Subscribe 2 DomainEvent 22), 0), (Performed (Publish (EventClass ''A'')), 0),
     (Called (Unsubscribe 1), 0), (Performed (Unsubscribe 1), 0), (Delivered, 1), (Delivered, 0)]"

lemma one_event_run: "publisher_run (publisher_init {1, 2}) (map fst one_event)
   \<lparr>subscriptions = [(2, DomainEvent, 22)], serial_queue = [], global_queue = [],
    called = [(22, EventClass ''A''), (11, EventClass ''A'')], alive = {1, 2}\<rparr>"
  by (intro take_steps_run)
     (simp add: one_event_def publisher_init_def publisher_call_def publisher_removeWeakNils_def accepts_def)

theorem delivered_once_witness:
  "mset (deliveries (map fst one_event)) = {#(11, EventClass ''A''), (22, EventClass ''A'')#}"
  using delivered_once [OF one_event_run] by (simp add: add_mset_commute)

text \<open>The order of the subscriptions is not the order of the calls, and a call may come after the subscriber has unsubscribed.\<close>

lemma calls_out_of_order:
  "\<exists>h s. publisher_run (publisher_init {1, 2}) h s \<and>
     performed h = [Subscribe 1 DomainEvent 11, Subscribe 2 DomainEvent 22, Publish (EventClass ''A''), Unsubscribe 1] \<and>
     called s = [(22, EventClass ''A''), (11 :: nat, EventClass ''A'')]"
  using one_event_run by (intro exI [of _ "map fst one_event"] exI conjI) (assumption, simp_all add: one_event_def)

subsection \<open>The relay and the error stream\<close>

abbreviation of_object :: "object \<Rightarrow> eventType \<times> object \<Rightarrow> bool" where
  "of_object r \<equiv> (\<lambda>x. snd x = r)"

lemma relay_unsubscribe_first:
  "filter (of_object r) (relay_unsubscribe r ss) = tl (filter (of_object r) ss)"
  "filter (\<lambda>x. \<not> of_object r x) (relay_unsubscribe r ss) = filter (\<lambda>x. \<not> of_object r x) ss"
proof -
  have "filter (of_object r) (relay_unsubscribe r ss) = tl (filter (of_object r) ss) \<and>
    filter (\<lambda>x. \<not> of_object r x) (relay_unsubscribe r ss) = filter (\<lambda>x. \<not> of_object r x) ss"
    by (induction ss) (auto simp: relay_unsubscribe_def split: option.splits)
  then show "filter (of_object r) (relay_unsubscribe r ss) = tl (filter (of_object r) ss)"
    "filter (\<lambda>x. \<not> of_object r x) (relay_unsubscribe r ss) = filter (\<lambda>x. \<not> of_object r x) ss" by blast+
qed

definition token_event :: "nat \<Rightarrow> eventType" where
  "token_event i = (if even i then TokensDisplayListChanged else AccountsBalancesUpdated)"

lemma map_shift: "map (\<lambda>i. f (i + a)) [0..<k] = map f [a..<a + k]"
  by (induction k) (simp_all add: add.commute)

lemma tokens_step:
  assumes "rev (map fst (filter (of_object r) (eventRelay s))) = map token_event [0..<n]"
  shows "rev (map fst (filter (of_object r) (eventRelay (subscribeOnTokensUpdates c r s)))) =
      map token_event [0..<2 + (n - 1)]"
proof -
  let ?xs = "map fst (filter (of_object r) (eventRelay s))"
  have "map fst (filter (of_object r) (eventRelay (subscribeOnTokensUpdates c r s))) =
      tl ?xs @ [AccountsBalancesUpdated, TokensDisplayListChanged]"
    by (simp add: subscribeOnTokensUpdates_def Let_def relay_subscribe_def relay_unsubscribe_first map_tl)
  then have "rev (map fst (filter (of_object r) (eventRelay (subscribeOnTokensUpdates c r s)))) =
      [token_event 0, token_event 1] @ butlast (rev ?xs)"
    by (simp add: token_event_def butlast_rev)
  also have "butlast (rev ?xs) = map token_event [0..<n - 1]" using assms by (cases n) (simp_all add: map_butlast [symmetric])
  also have "\<dots> = map (\<lambda>i. token_event (i + 2)) [0..<n - 1]" by (simp add: token_event_def)
  also have "\<dots> = map token_event [2..<2 + (n - 1)]" by (rule map_shift)
  also have "[token_event 0, token_event 1] @ map token_event [2..<2 + (n - 1)] = map token_event [0..<2 + (n - 1)]"
    using upt_add_eq_append [of 0 2 "n - 1"] by (simp add: numeral_2_eq_2)
  finally show ?thesis .
qed

lemma tokens_steps:
  assumes "\<forall>x \<in> set (eventRelay s). snd x \<noteq> r"
  shows "rev (map fst (filter (of_object r) (eventRelay ((subscribeOnTokensUpdates c r ^^ Suc n) s)))) = map token_event [0..<n + 2]"
proof (induction n)
  case 0
  have "filter (of_object r) (eventRelay s) = []" using assms by (simp add: filter_empty_conv)
  then have "rev (map fst (filter (of_object r) (eventRelay s))) = map token_event [0..<0]" by simp
  from tokens_step [OF this, of c] show ?case by (simp add: numeral_2_eq_2)
next
  case (Suc n)
  from tokens_step [OF this, of c] show ?case by (simp add: numeral_2_eq_2)
qed

lemma notified_count:
  "r \<in> live \<Longrightarrow> count_list (snd (handleEvent live e ss)) r = length (filter (\<lambda>t. accepts t e) (rev (map fst (filter (of_object r) ss))))"
  by (induction ss) (auto simp: handleEvent_def Let_def)

lemma evens_and_odds: "length (filter even [0..<m]) = (m + 1) div 2" "length (filter odd [0..<m]) = m div 2"
  by (induction m) auto

text \<open>Unsubscribing removes one subscription only: a subscriber that asks \<open>n + 1\<close> times for updates of the tokens has one error
  handler but \<open>n + 2\<close> subscriptions, and from the second time on one change of the list notifies it more than once.\<close>

theorem token_subscriptions_pile_up:
  assumes "\<forall>x \<in> set (eventRelay s). snd x \<noteq> r" "r \<in> live"
  shows "let s' = (subscribeOnTokensUpdates c r ^^ Suc n) s in
    count_list (snd (handleEvent live TokensDisplayListChanged (eventRelay s'))) r = (n + 3) div 2 \<and>
    count_list (snd (handleEvent live AccountsBalancesUpdated (eventRelay s'))) r = (n + 2) div 2 \<and>
    filter (\<lambda>x. snd x \<noteq> r) (eventRelay s') = eventRelay s \<and>
    filter (\<lambda>h. fst h = r) (handlers (errorStream s')) = [(r, c)]"
proof -
  let ?s = "(subscribeOnTokensUpdates c r ^^ Suc n) s"
  have acc: "accepts (token_event i) TokensDisplayListChanged \<longleftrightarrow> even i" "accepts (token_event i) AccountsBalancesUpdated \<longleftrightarrow> odd i" for i
    by (simp_all add: accepts_def token_event_def TokensDisplayListChanged_def AccountsBalancesUpdated_def)
  have keep: "filter (\<lambda>x. snd x \<noteq> r) (eventRelay ((subscribeOnTokensUpdates c r ^^ k) s)) = eventRelay s" for k
    using assms(1) by (induction k) (simp_all add: subscribeOnTokensUpdates_def Let_def relay_subscribe_def relay_unsubscribe_first)
  have once: "filter (\<lambda>h. fst h = r) (handlers (errorStream (subscribeOnTokensUpdates c r x))) = [(r, c)]" for x :: "('a, 'b) app_events"
    by (simp add: subscribeOnTokensUpdates_def addHandler_def removeHandler_def Let_def case_prod_unfold filter_empty_conv)
  have "count_list (snd (handleEvent live TokensDisplayListChanged (eventRelay ?s))) r = (n + 2 + 1) div 2"
    "count_list (snd (handleEvent live AccountsBalancesUpdated (eventRelay ?s))) r = (n + 2) div 2"
    unfolding notified_count [OF assms(2)] tokens_steps [OF assms(1)] filter_map comp_def acc length_map by (rule evens_and_odds)+
  then show ?thesis using keep [of "Suc n"] once [of "(subscribeOnTokensUpdates c r ^^ n) s"] by (simp add: Let_def add.assoc)
qed

theorem token_subscriptions_pile_up_witness:
  "let s' = (subscribeOnTokensUpdates (7 :: nat) 1 ^^ Suc 2) \<lparr>eventRelay = [(DomainEvent, 2)],
       errorStream = \<lparr>handlers = [], operations = [], handled = ([] :: (nat \<times> unit) list)\<rparr>\<rparr> in
    count_list (snd (handleEvent {1, 2} TokensDisplayListChanged (eventRelay s'))) 1 = 2"
  using token_subscriptions_pile_up [of "\<lparr>eventRelay = [(DomainEvent, 2)],
       errorStream = \<lparr>handlers = [], operations = [], handled = ([] :: (nat \<times> unit) list)\<rparr>\<rparr>" 1 "{1, 2}" 2 7]
  by (simp add: Let_def)

text \<open>The calls of the error stream, made or waiting: only posting adds to them, the handlers of the moment in their order, and running
  an operation keeps their sequence.\<close>

definition error_calls :: "('c, 'e) errorStream \<Rightarrow> ('c \<times> 'e) list" where
  "error_calls s = handled s @ concat (map (\<lambda>(cs, e). map (\<lambda>c. (c, e)) cs) (operations s))"

lemma error_stream_order:
  "error_calls (post live e s) = error_calls s @ map (\<lambda>h. (snd h, e)) (filter (\<lambda>h. fst h \<in> live) (handlers s))"
  "error_calls (addHandler r c s) = error_calls s" "error_calls (removeHandler r s) = error_calls s"
  "error_calls (run_operation s) = error_calls s"
  by (simp_all add: error_calls_def post_def addHandler_def removeHandler_def run_operation_def Let_def case_prod_unfold comp_def
      split: list.splits)

end
