(* ===== verification/Sqlite.thy ===== *)
theory Sqlite
  imports Prelude
begin

section \<open>The database layer\<close>

text \<open>
  \<^verbatim>\<open>Common/Database\<close>: \<open>SQLiteDatabase\<close>, \<open>SQLiteConnection\<close>, \<open>SQLiteStatement\<close>, \<open>SQLiteResultSet\<close> and the \<open>execute\<close>
  methods of \<^verbatim>\<open>Database.swift\<close>. SQLite itself and the file manager are not part of the repository: they are the
  records \<open>csqlite3\<close> and \<open>fileManager\<close> of functions on a world of any type \<open>'c\<close>, and what the code relies on is stated as a locale.
  The Swift objects live in a store: a statement or connection is referred to by its index in the list of the store, and new objects
  are appended. Loops that wait while the database is busy may not end: \<open>None\<close> stands for a call that does not return. The
  waiting itself (\<open>Timer.wait\<close>) has no effect in the model.
\<close>

subsection \<open>SQLite and the file manager\<close>

text \<open>
  The result codes that the sources distinguish, \<open>SQLITE_code\<close> for all others, the types of columns, and the values that the five
  functions \<open>sqlite3_bind_text\<close>, \<open>_blob\<close>, \<open>_int64\<close>, \<open>_double\<close> and \<open>_null\<close> set.
\<close>

datatype resultCode = SQLITE_OK | SQLITE_ERROR | SQLITE_BUSY | SQLITE_IOERR | SQLITE_MISUSE | SQLITE_AUTH | SQLITE_RANGE
  | SQLITE_ROW | SQLITE_DONE | SQLITE_code int

datatype columnType = SQLITE_INTEGER | SQLITE_FLOAT | SQLITE_TEXT | SQLITE_BLOB | SQLITE_NULL

datatype parameterValue = Bind_text string | Bind_blob "8 word list" | Bind_int64 int | Bind_double real | Bind_null

type_synonym pointer = nat

record 'c csqlite3 =
  sqlite3_open :: "string \<Rightarrow> 'c \<Rightarrow> (resultCode \<times> pointer option) \<times> 'c"
  sqlite3_close :: "pointer option \<Rightarrow> 'c \<Rightarrow> resultCode \<times> 'c"
  sqlite3_prepare_v2 :: "pointer option \<Rightarrow> string \<Rightarrow> 'c \<Rightarrow> (resultCode \<times> pointer option) \<times> 'c"
  sqlite3_finalize :: "pointer \<Rightarrow> 'c \<Rightarrow> resultCode \<times> 'c"
  sqlite3_step :: "pointer \<Rightarrow> 'c \<Rightarrow> resultCode \<times> 'c"
  sqlite3_reset :: "pointer \<Rightarrow> 'c \<Rightarrow> resultCode \<times> 'c"
  sqlite3_bind :: "pointer \<Rightarrow> int \<Rightarrow> parameterValue \<Rightarrow> 'c \<Rightarrow> resultCode \<times> 'c"
  sqlite3_bind_parameter_index :: "pointer \<Rightarrow> string \<Rightarrow> 'c \<Rightarrow> int"
  sqlite3_get_autocommit :: "pointer \<Rightarrow> 'c \<Rightarrow> int"
  sqlite3_errmsg :: "pointer \<Rightarrow> 'c \<Rightarrow> string option"
  sqlite3_errstr :: "resultCode \<Rightarrow> string"
  status_text :: "resultCode \<Rightarrow> string"
  sqlite3_column_count :: "pointer \<Rightarrow> 'c \<Rightarrow> int"
  sqlite3_column_name :: "pointer \<Rightarrow> int \<Rightarrow> 'c \<Rightarrow> string option"
  sqlite3_column_type :: "pointer \<Rightarrow> int \<Rightarrow> 'c \<Rightarrow> columnType"
  sqlite3_column_text :: "pointer \<Rightarrow> int \<Rightarrow> 'c \<Rightarrow> string option"
  sqlite3_column_blob :: "pointer \<Rightarrow> int \<Rightarrow> 'c \<Rightarrow> 8 word list option"
  sqlite3_column_bytes :: "pointer \<Rightarrow> int \<Rightarrow> 'c \<Rightarrow> int"
  sqlite3_column_int64 :: "pointer \<Rightarrow> int \<Rightarrow> 'c \<Rightarrow> int"
  sqlite3_column_double :: "pointer \<Rightarrow> int \<Rightarrow> 'c \<Rightarrow> real"
  sqlite3_libversion :: string
  sqlite3_libversion_number :: int
  sqlite3_sourceid :: string
  SQLITE_VERSION :: string
  SQLITE_VERSION_NUMBER :: int
  SQLITE_SOURCE_ID :: string

record ('c, 'x) fileManager =
  applicationSupportDirectory :: "'c \<Rightarrow> ('x, string) outcome \<times> 'c"
  fileExists :: "string \<Rightarrow> 'c \<Rightarrow> bool"
  createDirectory :: "string \<Rightarrow> 'c \<Rightarrow> ('x, unit) outcome \<times> 'c"
  createFile :: "string \<Rightarrow> 'c \<Rightarrow> bool \<times> 'c"
  removeItem :: "string \<Rightarrow> 'c \<Rightarrow> ('x, unit) outcome \<times> 'c"

subsection \<open>State and errors\<close>

datatype sqlite_error = applicationSupportDirNotFound | bundleIdentifierNotFound | databaseAlreadyExists | failedToCreateDatabase
  | databaseDoesNotExist | invalidSQLiteVersion | failedToOpenDatabase string | failedToCloseDatabase string | databaseBusy
  | connectionIsNotOpened | invalidSQLStatement string | attemptToExecuteFinalizedStatement | connectionIsAlreadyClosed
  | invalidConnection | statementWasAlreadyExecuted | runtimeError string | invalidStatementState | transactionMustBeRolledBack
  | invalidStringBindingValue | failedToSetStatementParameter string | statementParameterIndexOutOfRange | invalidStatementKeyValue
  | attemptToBindExecutedStatement | attemptToBindFinalizedStatement | foreignKeyCheckFailed string

text \<open>\<open>Foreign\<close> holds an error of the file manager or of a closure that the caller passes.\<close>

datatype 'x db_error = SQLiteError sqlite_error | Foreign 'x

record sqliteStatement =
  stmt_sql :: string
  stmt_db :: pointer
  stmt_stmt :: pointer
  isFinalized :: bool
  isExecuted :: bool

record sqliteConnection =
  conn_db :: "pointer option"
  isOpened :: bool
  isClosed :: bool
  statements :: "nat list"

record resultSet =
  rs_db :: pointer
  rs_stmt :: pointer
  columnIndexes :: "string \<rightharpoonup> int"

text \<open>The state of one thread: \<open>connections\<close> is the entry \<open>sqlite_connections\<close> of the thread dictionary.\<close>

record 'c dbState =
  world :: 'c
  all_statements :: "sqliteStatement list"
  all_connections :: "sqliteConnection list"
  connections :: "nat list"
  db_url :: "string option"

type_synonym ('s, 'e, 'a) program = "'s \<Rightarrow> (('e, 'a) outcome \<times> 's) option"

definition pbind :: "('s, 'e, 'a) program \<Rightarrow> ('a \<Rightarrow> ('s, 'e, 'b) program) \<Rightarrow> ('s, 'e, 'b) program" where
  "pbind m f = (\<lambda>s. case m s of
      None \<Rightarrow> None
    | Some (Ok a, s') \<Rightarrow> f a s'
    | Some (Throw e, s') \<Rightarrow> Some (Throw e, s')
    | Some (Trap, s') \<Rightarrow> Some (Trap, s'))"

definition plift :: "('e, 'a) outcome \<Rightarrow> ('s, 'e, 'a) program" where
  "plift r = (\<lambda>s. Some (r, s))"

definition pact :: "('s, 'e, 'a) action \<Rightarrow> ('s, 'e, 'a) program" where
  "pact m = (\<lambda>s. Some (m s))"

lemma pbind_simps [simp, outcome_simps]:
  "m s = None \<Longrightarrow> pbind m f s = None"
  "m s = Some (Ok a, s') \<Longrightarrow> pbind m f s = f a s'"
  "m s = Some (Throw e, s') \<Longrightarrow> pbind m f s = Some (Throw e, s')"
  "m s = Some (Trap, s') \<Longrightarrow> pbind m f s = Some (Trap, s')"
  by (simp_all add: pbind_def)

lemma plift_apply [simp, outcome_simps]: "plift r s = Some (r, s)"
  by (simp add: plift_def)

lemma pact_apply [simp, outcome_simps]: "pact m s = Some (m s)"
  by (simp add: pact_def)

text \<open>A call of the C library, and one that the source wraps in \<open>waitWhileBusy\<close>: it is repeated while the database is busy, and
  up to three times after a missing authorisation or a failure of the disk.\<close>

partial_function (option) waitWhileBusy :: "('c \<Rightarrow> (resultCode \<times> 'r) \<times> 'c) \<Rightarrow> nat \<Rightarrow> 'c \<Rightarrow> ((resultCode \<times> 'r) \<times> 'c) option" where
  "waitWhileBusy expression ioErrorRetry c = (case expression c of ((status, r), c') \<Rightarrow>
     if status = SQLITE_BUSY then waitWhileBusy expression ioErrorRetry c'
     else if (status = SQLITE_AUTH \<or> status = SQLITE_IOERR) \<and> \<not> ioErrorRetry \<ge> 3 then waitWhileBusy expression (ioErrorRetry + 1) c'
     else Some ((status, r), c'))"

definition c_call :: "('c \<Rightarrow> 'r \<times> 'c) \<Rightarrow> ('c dbState, 'e, 'r) program" where
  "c_call f = (\<lambda>s. case f (world s) of (r, c) \<Rightarrow> Some (Ok r, s\<lparr>world := c\<rparr>))"

definition busy_call :: "('c \<Rightarrow> (resultCode \<times> 'r) \<times> 'c) \<Rightarrow> ('c dbState, 'e, resultCode \<times> 'r) program" where
  "busy_call f = (\<lambda>s. map_option (\<lambda>(r, c). (Ok r, s\<lparr>world := c\<rparr>)) (waitWhileBusy f 0 (world s)))"

definition errorMessage :: "'c csqlite3 \<Rightarrow> resultCode \<Rightarrow> pointer option \<Rightarrow> 'c \<Rightarrow> string" where
  "errorMessage L status db c = (case db of
      None \<Rightarrow> sqlite3_errstr L status
    | Some p \<Rightarrow> (case sqlite3_errmsg L p c of None \<Rightarrow> sqlite3_errstr L status | Some m \<Rightarrow> m))"

definition sql_assert :: "(sqlite_error, 'a) outcome \<Rightarrow> ('c dbState, 'x db_error, 'a) program" where
  "sql_assert r = plift (rethrow SQLiteError r)"

definition sql_throw :: "sqlite_error \<Rightarrow> ('c dbState, 'x db_error, 'a) program" where
  "sql_throw e = plift (Throw (SQLiteError e))"

definition update_statement :: "nat \<Rightarrow> (sqliteStatement \<Rightarrow> sqliteStatement) \<Rightarrow> 'c dbState \<Rightarrow> 'c dbState" where
  "update_statement r f s = s\<lparr>all_statements := (all_statements s)[r := f (all_statements s ! r)]\<rparr>"

definition update_connection :: "nat \<Rightarrow> (sqliteConnection \<Rightarrow> sqliteConnection) \<Rightarrow> 'c dbState \<Rightarrow> 'c dbState" where
  "update_connection k f s = s\<lparr>all_connections := (all_connections s)[k := f (all_connections s ! k)]\<rparr>"

subsection \<open>SQLiteConnection\<close>

text \<open>\<open>open(url:)\<close>. The message of a failed call is taken from the pointer of the object, which is still nil.\<close>

definition connection_open :: "'c csqlite3 \<Rightarrow> nat \<Rightarrow> string \<Rightarrow> ('c dbState, 'x db_error, unit) program" where
  "connection_open L k url = (\<lambda>s.
     pbind (sql_assert (assertFalse (isClosed (all_connections s ! k)) connectionIsAlreadyClosed)) (\<lambda>_.
     pbind (busy_call (sqlite3_open L url)) (\<lambda>(status, conn) s.
       (if status \<noteq> SQLITE_OK
        then sql_throw (failedToOpenDatabase (''status: ('' @ status_text L status @ '') '' @
          errorMessage L status (conn_db (all_connections s ! k)) (world s)))
        else pbind (sql_assert (assertNotNil conn (failedToOpenDatabase ''connection is nil''))) (\<lambda>_.
          pact (\<lambda>s. (Ok (), update_connection k (\<lambda>c. c\<lparr>conn_db := conn, isOpened := True\<rparr>) s)))) s)) s)"

definition assertOpened :: "sqliteConnection \<Rightarrow> (sqlite_error, unit) outcome" where
  "assertOpened c = obind (assertTrue (isOpened c) connectionIsNotOpened) (\<lambda>_. assertFalse (isClosed c) connectionIsAlreadyClosed)"

text \<open>\<open>prepare(statement:)\<close> returns a new statement object, which the connection keeps.\<close>

definition prepare :: "'c csqlite3 \<Rightarrow> nat \<Rightarrow> string \<Rightarrow> ('c dbState, 'x db_error, nat) program" where
  "prepare L k sql = (\<lambda>s.
     pbind (sql_assert (assertOpened (all_connections s ! k))) (\<lambda>_.
     pbind (busy_call (sqlite3_prepare_v2 L (conn_db (all_connections s ! k)) sql)) (\<lambda>(status, outStmt) s.
       (if status \<noteq> SQLITE_OK
        then sql_throw (invalidSQLStatement (''status: ('' @ status_text L status @ '') '' @
          errorMessage L status (conn_db (all_connections s ! k)) (world s) @ '': '' @ sql))
        else pbind (sql_assert (assertNotNil outStmt (invalidSQLStatement (''unknown error: '' @ sql)))) (\<lambda>_.
          pbind (plift (unwrap (conn_db (all_connections s ! k)))) (\<lambda>db.
          pbind (plift (unwrap outStmt)) (\<lambda>stmt.
          pact (\<lambda>s. let r = length (all_statements s) in (Ok r,
            update_connection k (\<lambda>c. c\<lparr>statements := statements c @ [r]\<rparr>)
              (s\<lparr>all_statements := all_statements s @ [\<lparr>stmt_sql = sql, stmt_db = db, stmt_stmt = stmt,
                 isFinalized = False, isExecuted = False\<rparr>]\<rparr>))))))) s)) s)"

definition finalize :: "'c csqlite3 \<Rightarrow> nat \<Rightarrow> 'c dbState \<Rightarrow> 'c dbState" where
  "finalize L r s = update_statement r (\<lambda>t. t\<lparr>isFinalized := True\<rparr>)
     (s\<lparr>world := snd (sqlite3_finalize L (stmt_stmt (all_statements s ! r)) (world s))\<rparr>)"

definition destroyAllStatements :: "'c csqlite3 \<Rightarrow> nat \<Rightarrow> 'c dbState \<Rightarrow> 'c dbState" where
  "destroyAllStatements L k s = fold (finalize L) (statements (all_connections s ! k)) s"

definition connection_close :: "'c csqlite3 \<Rightarrow> nat \<Rightarrow> ('c dbState, 'x db_error, unit) program" where
  "connection_close L k = (\<lambda>s.
     pbind (sql_assert (assertOpened (all_connections s ! k))) (\<lambda>_.
     pbind (pact (\<lambda>s. (Ok (), destroyAllStatements L k s))) (\<lambda>_.
     pbind (busy_call (\<lambda>c. case sqlite3_close L (conn_db (all_connections s ! k)) c of (st, c') \<Rightarrow> ((st, ()), c'))) (\<lambda>(status, _) s.
       (if status \<noteq> SQLITE_OK
        then sql_throw (failedToCloseDatabase (errorMessage L status (conn_db (all_connections s ! k)) (world s)))
        else pact (\<lambda>s. (Ok (), update_connection k (\<lambda>c. c\<lparr>isClosed := True\<rparr>) s))) s))) s)"

subsection \<open>SQLiteResultSet\<close>

partial_function (option) reset_loop :: "'c csqlite3 \<Rightarrow> pointer \<Rightarrow> 'c \<Rightarrow> (resultCode \<times> 'c) option" where
  "reset_loop L p c = (case sqlite3_reset L p c of (status, c') \<Rightarrow>
     if status = SQLITE_BUSY then reset_loop L p c' else Some (status, c'))"

definition columnCount :: "'c csqlite3 \<Rightarrow> pointer \<Rightarrow> 'c \<Rightarrow> int" where
  "columnCount L p c = sqlite3_column_count L p c"

text \<open>\<open>reloadColumNames\<close>: of two columns with one name the last one counts.\<close>

definition column_names :: "'c csqlite3 \<Rightarrow> pointer \<Rightarrow> 'c \<Rightarrow> (string \<rightharpoonup> int)" where
  "column_names L p c = fold (\<lambda>i m. case sqlite3_column_name L p (int i) c of None \<Rightarrow> m | Some name \<Rightarrow> m(name \<mapsto> int i))
     [0..<nat (columnCount L p c)] Map.empty"

text \<open>The initialiser resets the statement, so that the first row is read again.\<close>

definition resultSet_init :: "'c csqlite3 \<Rightarrow> pointer \<Rightarrow> pointer \<Rightarrow> ('c dbState, 'e, resultSet) program" where
  "resultSet_init L db stmt = (\<lambda>s. case reset_loop L stmt (world s) of
      None \<Rightarrow> None
    | Some (status, c) \<Rightarrow>
        if status = SQLITE_OK
        then Some (Ok \<lparr>rs_db = db, rs_stmt = stmt, columnIndexes = column_names L stmt c\<rparr>, s\<lparr>world := c\<rparr>)
        else Some (Trap, s\<lparr>world := c\<rparr>))"

definition column_at :: "'c csqlite3 \<Rightarrow> (pointer \<Rightarrow> int \<Rightarrow> 'c \<Rightarrow> 'v option) \<Rightarrow> resultSet \<Rightarrow> int \<Rightarrow> 'c \<Rightarrow> ('e, 'v option) outcome" where
  "column_at L read rs i c = obind (precondition (0 \<le> i \<and> i < columnCount L (rs_stmt rs) c)) (\<lambda>_.
     Ok (if sqlite3_column_type L (rs_stmt rs) i c = SQLITE_NULL then None else read (rs_stmt rs) i c))"

text \<open>\<open>String(cString:)\<close> reads up to the first NUL character.\<close>

definition c_string :: "string \<Rightarrow> string" where
  "c_string bytes = takeWhile (\<lambda>x. x \<noteq> CHR 0x00) bytes"

definition string_at :: "'c csqlite3 \<Rightarrow> resultSet \<Rightarrow> int \<Rightarrow> 'c \<Rightarrow> ('e, string option) outcome" where
  "string_at L = column_at L (\<lambda>p i c. map_option c_string (sqlite3_column_text L p i c))"

definition data_at :: "'c csqlite3 \<Rightarrow> resultSet \<Rightarrow> int \<Rightarrow> 'c \<Rightarrow> ('e, 8 word list option) outcome" where
  "data_at L = column_at L (\<lambda>p i c. map_option (take (nat (sqlite3_column_bytes L p i c))) (sqlite3_column_blob L p i c))"

definition int_at :: "'c csqlite3 \<Rightarrow> resultSet \<Rightarrow> int \<Rightarrow> 'c \<Rightarrow> ('e, int option) outcome" where
  "int_at L = column_at L (\<lambda>p i c. Some (sqlite3_column_int64 L p i c))"

definition bool_at :: "'c csqlite3 \<Rightarrow> resultSet \<Rightarrow> int \<Rightarrow> 'c \<Rightarrow> ('e, bool option) outcome" where
  "bool_at L rs i c = omap (\<lambda>n. Some (n \<noteq> Some 0)) (int_at L rs i c)"

definition double_at :: "'c csqlite3 \<Rightarrow> resultSet \<Rightarrow> int \<Rightarrow> 'c \<Rightarrow> ('e, real option) outcome" where
  "double_at L = column_at L (\<lambda>p i c. Some (sqlite3_column_double L p i c))"

text \<open>\<open>string(column:)\<close> and its siblings.\<close>

definition by_column :: "(resultSet \<Rightarrow> int \<Rightarrow> 'c \<Rightarrow> ('e, 'v option) outcome) \<Rightarrow> resultSet \<Rightarrow> string \<Rightarrow> 'c \<Rightarrow> ('e, 'v option) outcome" where
  "by_column get rs column c = (case columnIndexes rs column of None \<Rightarrow> Ok None | Some i \<Rightarrow> get rs i c)"

partial_function (option) advanceToNextRow :: "'c csqlite3 \<Rightarrow> resultSet \<Rightarrow> 'c dbState \<Rightarrow> (('x db_error, bool) outcome \<times> 'c dbState) option" where
  "advanceToNextRow L rs s = (case sqlite3_step L (rs_stmt rs) (world s) of (status, c) \<Rightarrow>
     if status = SQLITE_DONE then Some (Ok False, s\<lparr>world := c\<rparr>)
     else if status = SQLITE_ROW then Some (Ok True, s\<lparr>world := c\<rparr>)
     else if status = SQLITE_BUSY then
       (if sqlite3_get_autocommit L (rs_db rs) c \<noteq> 0 then advanceToNextRow L rs (s\<lparr>world := c\<rparr>)
        else Some (Throw (SQLiteError transactionMustBeRolledBack), s\<lparr>world := c\<rparr>))
     else Some (Trap, s\<lparr>world := c\<rparr>))"

subsection \<open>SQLiteStatement\<close>

primrec contains_text :: "string \<Rightarrow> string \<Rightarrow> bool" where
  "contains_text pat [] = (pat = [])"
| "contains_text pat (x # xs) = (take (length pat) (x # xs) = pat \<or> contains_text pat xs)"

definition isCommitStatement :: "string \<Rightarrow> bool" where
  "isCommitStatement sql = contains_text ''commit'' (lowercased sql)"

text \<open>\<open>execute()\<close>: one step of the prepared statement, repeated while the database is busy, but not inside a transaction that can still be
  rolled back.\<close>

partial_function (option) statement_execute :: "'c csqlite3 \<Rightarrow> nat \<Rightarrow> 'c dbState \<Rightarrow> (('x db_error, resultSet option) outcome \<times> 'c dbState) option" where
  "statement_execute L r s =
    (let t = all_statements s ! r in
     if isFinalized t then Some (Throw (SQLiteError attemptToExecuteFinalizedStatement), s)
     else if isExecuted t then Some (Throw (SQLiteError statementWasAlreadyExecuted), s)
     else case sqlite3_step L (stmt_stmt t) (world s) of (status, c) \<Rightarrow>
       let s' = s\<lparr>world := c\<rparr>; done = update_statement r (\<lambda>t. t\<lparr>isExecuted := True\<rparr>) s' in
       if status = SQLITE_DONE then Some (Ok None, done)
       else if status = SQLITE_ROW then pbind (resultSet_init L (stmt_db t) (stmt_stmt t)) (\<lambda>rs. plift (Ok (Some rs))) done
       else if status = SQLITE_BUSY then
         (if isCommitStatement (stmt_sql t) \<or> \<not> sqlite3_get_autocommit L (stmt_db t) c = 0 then statement_execute L r s'
          else Some (Throw (SQLiteError transactionMustBeRolledBack), s'))
       else if status = SQLITE_ERROR
         then Some (Throw (SQLiteError (runtimeError (case sqlite3_errmsg L (stmt_db t) c of None \<Rightarrow> [] | Some m \<Rightarrow> m))), s')
       else if status = SQLITE_MISUSE then Some (Throw (SQLiteError invalidStatementState), s')
       else Some (Trap, s'))"

definition assertCanBind :: "sqliteStatement \<Rightarrow> (sqlite_error, unit) outcome" where
  "assertCanBind t = obind (assertFalse (isExecuted t) attemptToBindExecutedStatement) (\<lambda>_.
     assertFalse (isFinalized t) attemptToBindFinalizedStatement)"

definition assertBindSuccess :: "'c csqlite3 \<Rightarrow> sqliteStatement \<Rightarrow> resultCode \<Rightarrow> 'c \<Rightarrow> (sqlite_error, unit) outcome" where
  "assertBindSuccess L t status c = obind (assertNotEqual status SQLITE_RANGE statementParameterIndexOutOfRange) (\<lambda>_.
     if status = SQLITE_OK then Ok () else Throw (failedToSetStatementParameter (errorMessage L status (Some (stmt_db t)) c)))"

text \<open>The five \<open>set(_:at:)\<close> methods; \<open>Int32(index)\<close> traps out of range. A string is bound with the NUL character at its end.\<close>

definition set_at :: "'c csqlite3 \<Rightarrow> nat \<Rightarrow> parameterValue \<Rightarrow> int \<Rightarrow> ('c dbState, 'x db_error, unit) program" where
  "set_at L r v i = (\<lambda>s.
     pbind (sql_assert (assertCanBind (all_statements s ! r))) (\<lambda>_.
     pbind (plift (precondition (- (2 ^ 31) \<le> i \<and> i < 2 ^ 31))) (\<lambda>_.
     pbind (c_call (sqlite3_bind L (stmt_stmt (all_statements s ! r)) i v)) (\<lambda>status s.
       sql_assert (assertBindSuccess L (all_statements s ! r) status (world s)) s))) s)"

datatype sqlBindable = BInt int | BDouble real | BString string | BData "8 word list" | BBool bool

fun bound_value :: "sqlBindable option \<Rightarrow> parameterValue" where
  "bound_value None = Bind_null"
| "bound_value (Some (BInt n)) = Bind_int64 n"
| "bound_value (Some (BDouble x)) = Bind_double x"
| "bound_value (Some (BString t)) = Bind_text (t @ [CHR 0x00])"
| "bound_value (Some (BData d)) = Bind_blob d"
| "bound_value (Some (BBool b)) = Bind_int64 (if b = False then 0 else 1)"

primrec pforEach :: "('a \<Rightarrow> ('s, 'e, unit) program) \<Rightarrow> 'a list \<Rightarrow> ('s, 'e, unit) program" where
  "pforEach f [] = plift (Ok ())"
| "pforEach f (x # xs) = pbind (f x) (\<lambda>_. pforEach f xs)"

definition bind_positions :: "'c csqlite3 \<Rightarrow> nat \<Rightarrow> sqlBindable option list \<Rightarrow> ('c dbState, 'x db_error, unit) program" where
  "bind_positions L r bindings = pforEach (\<lambda>(i, v). set_at L r (bound_value v) (int i + 1)) (enumerate 0 bindings)"

text \<open>\<open>parameterIndex(for:)\<close> and \<open>set(_:forKey:)\<close>; the dictionary comes as the list of its pairs in the order of its iteration.\<close>

definition set_forKey :: "'c csqlite3 \<Rightarrow> nat \<Rightarrow> parameterValue \<Rightarrow> string \<Rightarrow> ('c dbState, 'x db_error, unit) program" where
  "set_forKey L r v key = (\<lambda>s. set_at L r v (sqlite3_bind_parameter_index L (stmt_stmt (all_statements s ! r)) key (world s)) s)"

definition bind_keys :: "'c csqlite3 \<Rightarrow> nat \<Rightarrow> (string \<times> sqlBindable option) list \<Rightarrow> ('c dbState, 'x db_error, unit) program" where
  "bind_keys L r bindings = pforEach (\<lambda>(key, v). set_forKey L r (bound_value v) key) bindings"

subsection \<open>Executing on a connection\<close>

text \<open>A transform reads the current row of a result set; those of the repository change nothing.\<close>

type_synonym ('c, 'x, 't) resultMap = "resultSet \<Rightarrow> 'c \<Rightarrow> ('x db_error, 't option) outcome"

partial_function (option) collect_rows ::
  "'c csqlite3 \<Rightarrow> ('c, 'x, 't) resultMap \<Rightarrow> resultSet \<Rightarrow> 't option list \<Rightarrow> 'c dbState \<Rightarrow> (('x db_error, 't option list) outcome \<times> 'c dbState) option" where
  "collect_rows L resultMap rs result s = Option.bind (advanceToNextRow L rs s :: (('x db_error, bool) outcome \<times> 'c dbState) option) (\<lambda>(more, s').
     case more of
       Ok b \<Rightarrow>
         if b then (case resultMap rs (world s') of
             Ok x \<Rightarrow> collect_rows L resultMap rs (result @ [x]) s'
           | Throw e \<Rightarrow> Some (Throw e, s')
           | Trap \<Rightarrow> Some (Trap, s'))
         else Some (Ok result, s')
     | Throw e \<Rightarrow> Some (Throw e, s')
     | Trap \<Rightarrow> Some (Trap, s'))"

definition connection_execute :: "'c csqlite3 \<Rightarrow> nat \<Rightarrow> string \<Rightarrow> sqlBindable option list \<Rightarrow> (string \<times> sqlBindable option) list
    \<Rightarrow> ('c, 'x, 't) resultMap \<Rightarrow> ('c dbState, 'x db_error, 't option list) program" where
  "connection_execute L k sql bindings dict resultMap =
     pbind (prepare L k sql) (\<lambda>r.
     pbind (bind_positions L r bindings) (\<lambda>_.
     pbind (bind_keys L r dict) (\<lambda>_.
     pbind (statement_execute L r) (\<lambda>rs. case rs of
         None \<Rightarrow> plift (Ok [])
       | Some rs \<Rightarrow> collect_rows L resultMap rs []))))"

definition connection_update :: "'c csqlite3 \<Rightarrow> nat \<Rightarrow> string \<Rightarrow> sqlBindable option list \<Rightarrow> (string \<times> sqlBindable option) list
    \<Rightarrow> ('c dbState, 'x db_error, unit) program" where
  "connection_update L k sql bindings dict = pbind (connection_execute L k sql bindings dict (\<lambda>_ _. Ok (None :: unit option))) (\<lambda>_. plift (Ok ()))"

subsection \<open>SQLiteDatabase\<close>

definition appendingPathComponent :: "string \<Rightarrow> string \<Rightarrow> string" where
  "appendingPathComponent url name = url @ ''/'' @ name"

definition fm_call :: "('c \<Rightarrow> ('x, 'a) outcome \<times> 'c) \<Rightarrow> ('c dbState, 'x db_error, 'a) program" where
  "fm_call f = (\<lambda>s. case f (world s) of (r, c) \<Rightarrow> Some (rethrow Foreign r, s\<lparr>world := c\<rparr>))"

record database =
  db_name :: string
  bundleIdentifier :: string

text \<open>\<open>init\<close> sets the list of the thread, which all databases share, to the empty one.\<close>

definition database_init :: "'c dbState \<Rightarrow> 'c dbState" where
  "database_init s = s\<lparr>connections := [], db_url := None\<rparr>"

definition buildURL :: "('c, 'x) fileManager \<Rightarrow> database \<Rightarrow> ('c dbState, 'x db_error, unit) program" where
  "buildURL F D = (\<lambda>s. if db_url s \<noteq> None then Some (Ok (), s) else
     pbind (fm_call (applicationSupportDirectory F)) (\<lambda>dir s.
     pbind (sql_assert (assertTrue (fileExists F dir (world s)) applicationSupportDirNotFound)) (\<lambda>_.
     (let bundleDir = appendingPathComponent dir (bundleIdentifier D) in
      pbind (if \<not> fileExists F bundleDir (world s) then fm_call (createDirectory F bundleDir) else plift (Ok ())) (\<lambda>_.
      pact (\<lambda>s. (Ok (), s\<lparr>db_url := Some (appendingPathComponent bundleDir (db_name D) @ ''.db'')\<rparr>))))) s) s)"

definition ptry :: "('s, 'e, unit) program \<Rightarrow> ('s, 'e, unit) program" where
  "ptry m = (\<lambda>s. case m s of Some (Throw e, s') \<Rightarrow> Some (Ok (), s') | r \<Rightarrow> r)"

definition database_exists :: "('c, 'x) fileManager \<Rightarrow> database \<Rightarrow> ('c dbState, 'x db_error, bool) program" where
  "database_exists F D = pbind (ptry (buildURL F D)) (\<lambda>_ s.
     Some (Ok (case db_url s of None \<Rightarrow> False | Some url \<Rightarrow> fileExists F url (world s)), s))"

definition database_create :: "('c, 'x) fileManager \<Rightarrow> database \<Rightarrow> ('c dbState, 'x db_error, unit) program" where
  "database_create F D =
     pbind (buildURL F D) (\<lambda>_ s.
     pbind (plift (unwrap (db_url s))) (\<lambda>url.
     pbind (sql_assert (assertFalse (fileExists F url (world s)) databaseAlreadyExists)) (\<lambda>_.
     pbind (c_call (createFile F url)) (\<lambda>didCreate.
     if \<not> didCreate then sql_throw failedToCreateDatabase else plift (Ok ())))) s)"

fun components :: "char \<Rightarrow> string \<Rightarrow> string list" where
  "components d [] = [[]]"
| "components d (x # xs) = (if x = d then [] # components d xs else (case components d xs of [] \<Rightarrow> [[x]] | y # ys \<Rightarrow> (x # y) # ys))"

definition version_of :: "string \<Rightarrow> string \<times> string \<times> string" where
  "version_of str = (let parts = components CHR ''.'' str; part = (\<lambda>i. case safe_get parts i of None \<Rightarrow> [] | Some p \<Rightarrow> p)
     in (part 0, part 1, part 2))"

definition check_version :: "'c csqlite3 \<Rightarrow> (sqlite_error, unit) outcome" where
  "check_version L = (let libVersion = version_of (sqlite3_libversion L); headerVersion = version_of (SQLITE_VERSION L) in
     obind (assertEqual (fst libVersion) (fst headerVersion) invalidSQLiteVersion) (\<lambda>_.
     if libVersion = headerVersion
     then obind (assertEqual (take 80 (sqlite3_sourceid L)) (take 80 (SQLITE_SOURCE_ID L)) invalidSQLiteVersion) (\<lambda>_.
       assertEqual (sqlite3_libversion_number L) (SQLITE_VERSION_NUMBER L) invalidSQLiteVersion)
     else Ok ()))"

definition database_connection :: "'c csqlite3 \<Rightarrow> ('c, 'x) fileManager \<Rightarrow> database \<Rightarrow> ('c dbState, 'x db_error, nat) program" where
  "database_connection L F D =
     pbind (buildURL F D) (\<lambda>_ s.
     pbind (plift (unwrap (db_url s))) (\<lambda>url.
     pbind (sql_assert (assertTrue (fileExists F url (world s)) databaseDoesNotExist)) (\<lambda>_.
     pbind (sql_assert (check_version L)) (\<lambda>_.
     pbind (pact (\<lambda>s. (Ok (length (all_connections s)), s\<lparr>all_connections := all_connections s @
         [\<lparr>conn_db = None, isOpened = False, isClosed = False, statements = []\<rparr>]\<rparr>))) (\<lambda>k.
     pbind (connection_open L k url) (\<lambda>_.
     pact (\<lambda>s. (Ok k, s\<lparr>connections := connections s @ [k]\<rparr>))))))) s)"

definition database_close :: "'c csqlite3 \<Rightarrow> nat \<Rightarrow> ('c dbState, 'x db_error, unit) program" where
  "database_close L k = pbind (connection_close L k) (\<lambda>_. pact (\<lambda>s. (Ok (), s\<lparr>connections := remove1 k (connections s)\<rparr>)))"

definition database_destroy :: "'c csqlite3 \<Rightarrow> ('c, 'x) fileManager \<Rightarrow> database \<Rightarrow> ('c dbState, 'x db_error, unit) program" where
  "database_destroy L F D = (\<lambda>s.
     pbind (pforEach (connection_close L) (connections s)) (\<lambda>_.
     pbind (pact (\<lambda>s. (Ok (), s\<lparr>connections := []\<rparr>))) (\<lambda>_.
     pbind (ptry (buildURL F D)) (\<lambda>_ s.
       (case db_url s of
          None \<Rightarrow> Some (Ok (), s)
        | Some url \<Rightarrow> if fileExists F url (world s) then fm_call (removeItem F url) s else Some (Ok (), s))))) s)"

text \<open>\<open>defer { try? close(conn) }\<close>: the connection is closed on every way out of the body that is no trap, and errors of closing are dropped.\<close>

definition pdefer :: "('s, 'e, unit) program \<Rightarrow> ('s, 'e, 'a) program \<Rightarrow> ('s, 'e, 'a) program" where
  "pdefer final m = (\<lambda>s. case m s of
      None \<Rightarrow> None
    | Some (Trap, s') \<Rightarrow> Some (Trap, s')
    | Some (r, s') \<Rightarrow> (case ptry final s' of None \<Rightarrow> None | Some (Ok _, s'') \<Rightarrow> Some (r, s'') | Some (_, s'') \<Rightarrow> Some (Trap, s'')))"

definition database_execute :: "'c csqlite3 \<Rightarrow> ('c, 'x) fileManager \<Rightarrow> database \<Rightarrow> string \<Rightarrow> sqlBindable option list
    \<Rightarrow> (string \<times> sqlBindable option) list \<Rightarrow> ('c, 'x, 't) resultMap \<Rightarrow> ('c dbState, 'x db_error, 't option list) program" where
  "database_execute L F D sql bindings dict resultMap =
     pbind (database_connection L F D) (\<lambda>k. pdefer (database_close L k) (connection_execute L k sql bindings dict resultMap))"

definition database_update :: "'c csqlite3 \<Rightarrow> ('c, 'x) fileManager \<Rightarrow> database \<Rightarrow> string \<Rightarrow> sqlBindable option list
    \<Rightarrow> (string \<times> sqlBindable option) list \<Rightarrow> ('c dbState, 'x db_error, unit) program" where
  "database_update L F D sql bindings dict =
     pbind (database_execute L F D sql bindings dict (\<lambda>_ _. Ok (None :: unit option))) (\<lambda>_. plift (Ok ()))"

end
