(* ===== verification/Sqlite_Safety.thy ===== *)
theory Sqlite_Safety
  imports Sqlite
begin

section \<open>Handles of the database\<close>

text \<open>
  What the database layer does with the handles of SQLite. The locale \<open>sqlite_handles\<close> states what the documentation of
  SQLite says about the life of connections and prepared statements: \<open>dbs\<close> are the open connections, \<open>stmts\<close> the
  prepared statements with the connection they belong to.
\<close>

locale sqlite_handles =
  fixes L :: "'c csqlite3" and dbs :: "'c \<Rightarrow> pointer set" and stmts :: "'c \<Rightarrow> (pointer \<rightharpoonup> pointer)"
  assumes open_new: "sqlite3_open L url c = ((SQLITE_OK, p), c') \<Longrightarrow>
      stmts c' = stmts c \<and> set_option p \<inter> (dbs c \<union> ran (stmts c)) = {} \<and> dbs c' = set_option p \<union> dbs c"
    and prepare_new: "d \<in> dbs c \<Longrightarrow> sqlite3_prepare_v2 L (Some d) sql c = ((st, p), c') \<Longrightarrow>
      dbs c' = dbs c \<and> (st \<noteq> SQLITE_OK \<longrightarrow> p = None) \<and>
      (case p of None \<Rightarrow> stmts c' = stmts c | Some q \<Rightarrow> stmts c q = None \<and> stmts c' = (stmts c)(q \<mapsto> d))"
    and finalize_frees: "stmts c q \<noteq> None \<Longrightarrow> sqlite3_finalize L q c = (st, c') \<Longrightarrow> dbs c' = dbs c \<and> stmts c' = (stmts c)(q := None)"
    and close_frees: "d \<in> dbs c \<Longrightarrow> d \<notin> ran (stmts c) \<Longrightarrow> sqlite3_close L (Some d) c = (st, c') \<Longrightarrow>
      st = SQLITE_OK \<and> dbs c' = dbs c - {d} \<and> stmts c' = stmts c"
    and step_keeps: "sqlite3_step L q c = (st, c') \<Longrightarrow> dbs c' = dbs c \<and> stmts c' = stmts c"
    and reset_keeps: "sqlite3_reset L q c = (st, c') \<Longrightarrow> dbs c' = dbs c \<and> stmts c' = stmts c"
    and bind_keeps: "sqlite3_bind L q i v c = (st, c') \<Longrightarrow> dbs c' = dbs c \<and> stmts c' = stmts c"
begin

text \<open>States that hold the same handles: only flags of statement objects and the inside of the library differ.\<close>

definition same_handles :: "'c dbState \<Rightarrow> 'c dbState \<Rightarrow> bool" where
  "same_handles s s' \<longleftrightarrow> connections s' = connections s \<and> all_connections s' = all_connections s \<and>
     map stmt_stmt (all_statements s') = map stmt_stmt (all_statements s) \<and>
     dbs (world s') = dbs (world s) \<and> stmts (world s') = stmts (world s)"

lemma same_handles_refl [simp]: "same_handles s s"
  by (simp add: same_handles_def)

lemma same_handles_trans: "same_handles s s' \<Longrightarrow> same_handles s' s'' \<Longrightarrow> same_handles s s''"
  by (simp add: same_handles_def)

lemma same_handles_world: "dbs c' = dbs (world s) \<Longrightarrow> stmts c' = stmts (world s) \<Longrightarrow> same_handles s (s\<lparr>world := c'\<rparr>)"
  by (simp add: same_handles_def)

lemma same_handles_flag: "(\<And>t. stmt_stmt (f t) = stmt_stmt t) \<Longrightarrow> same_handles s (update_statement r f s)"
  by (cases "r < length (all_statements s)")
    (simp_all add: same_handles_def update_statement_def map_update list_update_same_conv list_update_beyond)

text \<open>Results of programs that keep the handles.\<close>

definition stays :: "'c dbState \<Rightarrow> (('e, 'a) outcome \<times> 'c dbState) option \<Rightarrow> bool" where
  "stays s res \<longleftrightarrow> (\<forall>r s'. res = Some (r, s') \<longrightarrow> same_handles s s')"

lemma staysD: "stays s res \<Longrightarrow> res = Some (r, s') \<Longrightarrow> same_handles s s'"
  by (simp add: stays_def)

lemma stays_bind: "stays s (m s) \<Longrightarrow> (\<And>a s'. stays s' (f a s')) \<Longrightarrow> stays s (pbind m f s)"
  unfolding stays_def pbind_def by (auto split: option.splits outcome.splits) (meson same_handles_trans)+

lemma stays_result [simp]: "stays s None" "stays s (Some (r, s')) \<longleftrightarrow> same_handles s s'"
  by (simp_all add: stays_def)

lemma stays_lift [simp]: "stays s (plift r s)" "stays s (sql_assert x s)" "stays s (sql_throw e s)"
  by (simp_all add: stays_def sql_assert_def sql_throw_def)

lemma stays_forEach: "(\<And>x s. x \<in> set xs \<Longrightarrow> stays s (f x s)) \<Longrightarrow> stays s (pforEach f xs s)"
  by (induction xs arbitrary: s) (auto intro: stays_bind)

lemma step_same: "sqlite3_step L q (world s) = (st, c) \<Longrightarrow> same_handles s (s\<lparr>world := c\<rparr>)"
  using step_keeps same_handles_world by blast

lemma set_at_stays: "stays s (set_at L r v i s)"
proof -
  have "stays s' (c_call (sqlite3_bind L q i v) s')" for q s'
    using bind_keeps by (auto simp: stays_def c_call_def split: prod.splits intro!: same_handles_world)
  then show ?thesis unfolding set_at_def by (intro stays_bind) simp_all
qed

lemma binding_stays: "stays s (bind_positions L r bs s)" "stays s (bind_keys L r ds s)"
  unfolding bind_positions_def bind_keys_def set_forKey_def
  by (auto intro!: stays_forEach set_at_stays)

lemma reset_loop_keeps: "reset_loop L q c = Some (st, c') \<Longrightarrow> dbs c' = dbs c \<and> stmts c' = stmts c"
proof -
  have "K = L \<longrightarrow> dbs (snd res) = dbs c \<and> stmts (snd res) = stmts c" if "reset_loop K q c = Some res" for K q c res
    by (rule reset_loop.raw_induct [where P = "\<lambda>K q c res. K = L \<longrightarrow> dbs (snd res) = dbs c \<and> stmts (snd res) = stmts c", OF _ that])
      (auto split: prod.splits if_splits dest: reset_keeps)
  then show "reset_loop L q c = Some (st, c') \<Longrightarrow> dbs c' = dbs c \<and> stmts c' = stmts c" by fastforce
qed

lemma resultSet_init_stays: "stays s (resultSet_init L d q s)"
  using reset_loop_keeps [of q "world s"]
  by (auto simp: stays_def resultSet_init_def split: option.splits prod.splits if_splits intro!: same_handles_world)

lemma advance_stays: "stays s (advanceToNextRow L rs s)"
proof -
  have "K = L \<longrightarrow> same_handles s (snd res)" if "advanceToNextRow K rs s = Some res" for K rs s and res :: "('x db_error, bool) outcome \<times> 'c dbState"
    by (rule advanceToNextRow.raw_induct [where P = "\<lambda>K rs s res. K = L \<longrightarrow> same_handles s (snd res)", OF _ that])
      (auto split: prod.splits if_splits dest: step_same, metis same_handles_trans snd_conv step_same)
  then show ?thesis by (fastforce simp: stays_def)
qed

lemma executed_same: "sqlite3_step L q (world s) = (st, c) \<Longrightarrow> same_handles s (update_statement r (\<lambda>t. t\<lparr>isExecuted := True\<rparr>) (s\<lparr>world := c\<rparr>))"
  using same_handles_trans [OF step_same same_handles_flag] by auto

lemma first_row_same:
  assumes "pbind (resultSet_init L d q) (\<lambda>rs. plift (Ok (Some rs))) (update_statement r (\<lambda>t. t\<lparr>isExecuted := True\<rparr>) (s\<lparr>world := c\<rparr>)) =
      Some (res, s')" "sqlite3_step L p (world s) = (st, c)"
  shows "same_handles s s'"
proof -
  have "stays (update_statement r (\<lambda>t. t\<lparr>isExecuted := True\<rparr>) (s\<lparr>world := c\<rparr>)) (Some (res, s'))"
    unfolding assms(1) [symmetric] by (intro stays_bind resultSet_init_stays stays_lift)
  then show ?thesis using same_handles_trans [OF executed_same [OF assms(2)]] by simp
qed

lemma statement_execute_stays: "stays s (statement_execute L r s)"
proof -
  have "K = L \<longrightarrow> same_handles s (snd res)" if "statement_execute K r s = Some res"
    for K r s and res :: "('x db_error, resultSet option) outcome \<times> 'c dbState"
    by (rule statement_execute.raw_induct [where P = "\<lambda>K r s res. K = L \<longrightarrow> same_handles s (snd res)", OF _ that])
      (auto simp: Let_def split: prod.splits if_splits dest: step_same executed_same first_row_same, (metis same_handles_trans step_same)+)
  then show ?thesis by (fastforce simp: stays_def)
qed

lemma advance_same: "advanceToNextRow L rs s = Some (r, s') \<Longrightarrow> same_handles s s'"
  by (rule staysD [OF advance_stays])

lemma bind_SomeE: "Option.bind x f = Some y \<Longrightarrow> (\<And>r s. x = Some (r, s) \<Longrightarrow> f (r, s) = Some y \<Longrightarrow> P) \<Longrightarrow> P"
  by (cases x) auto

lemma collect_rows_stays: "stays s (collect_rows L f rs acc s)"
proof -
  have "K = L \<longrightarrow> same_handles s (snd res)" if "collect_rows K f rs acc s = Some res"
    for K f rs acc s and res :: "('x db_error, 't option list) outcome \<times> 'c dbState"
    by (rule collect_rows.raw_induct [where P = "\<lambda>K f rs acc s res. K = L \<longrightarrow> same_handles s (snd res)", OF _ that])
      (auto elim!: bind_SomeE split: if_split_asm outcome.split_asm dest!: advance_same, blast intro: same_handles_trans)
  then show ?thesis by (fastforce simp: stays_def)
qed

text \<open>
  The state while connection \<open>k\<close>, opened in the world \<open>c0\<close>, is in use: its pointer \<open>d\<close> and the statements of its list are the only handles
  that were not there before.
\<close>

definition pointers :: "nat \<Rightarrow> 'c dbState \<Rightarrow> pointer list" where
  "pointers k s = map (\<lambda>r. stmt_stmt (all_statements s ! r)) (statements (all_connections s ! k))"

definition owning :: "'c \<Rightarrow> nat list \<Rightarrow> nat \<Rightarrow> pointer \<Rightarrow> 'c dbState \<Rightarrow> bool" where
  "owning c0 others k d s \<longleftrightarrow> k < length (all_connections s) \<and> connections s = others \<and>
     conn_db (all_connections s ! k) = Some d \<and> isOpened (all_connections s ! k) \<and> \<not> isClosed (all_connections s ! k) \<and>
     (\<forall>r \<in> set (statements (all_connections s ! k)). r < length (all_statements s)) \<and>
     d \<notin> dbs c0 \<and> d \<notin> ran (stmts c0) \<and> dbs (world s) = insert d (dbs c0) \<and>
     distinct (pointers k s) \<and> set (pointers k s) \<inter> dom (stmts c0) = {} \<and>
     stmts (world s) = stmts c0 ++ (\<lambda>q. if q \<in> set (pointers k s) then Some d else None)"

lemma owning_same:
  assumes "owning c0 others k d s" "same_handles s s'"
  shows "owning c0 others k d s'"
proof -
  have maps: "map stmt_stmt (all_statements s') = map stmt_stmt (all_statements s)" using assms(2) by (simp add: same_handles_def)
  then have len: "length (all_statements s') = length (all_statements s)" by (rule map_eq_imp_length_eq)
  have "stmt_stmt (all_statements s' ! r) = stmt_stmt (all_statements s ! r)" if "r < length (all_statements s)" for r
    using maps that len by (metis nth_map)
  then have "pointers k s' = pointers k s"
    using assms by (auto simp: pointers_def owning_def same_handles_def)
  then show ?thesis using assms len by (simp add: owning_def same_handles_def)
qed

lemma wait_prepare:
  assumes "waitWhileBusy (sqlite3_prepare_v2 L (Some d) sql) n c = Some ((st, p), c')" "d \<in> dbs c"
  shows "dbs c' = dbs c \<and> (st \<noteq> SQLITE_OK \<longrightarrow> p = None) \<and>
    (case p of None \<Rightarrow> stmts c' = stmts c | Some q \<Rightarrow> stmts c q = None \<and> stmts c' = (stmts c)(q \<mapsto> d))"
proof -
  let ?P = "\<lambda>f n c res. f = sqlite3_prepare_v2 L (Some d) sql \<longrightarrow> d \<in> dbs c \<longrightarrow>
    (case res of ((st, p), c') \<Rightarrow> dbs c' = dbs c \<and> (st \<noteq> SQLITE_OK \<longrightarrow> p = None) \<and>
      (case p of None \<Rightarrow> stmts c' = stmts c | Some q \<Rightarrow> stmts c q = None \<and> stmts c' = (stmts c)(q \<mapsto> d)))"
  have "?P (sqlite3_prepare_v2 L (Some d) sql) n c ((st, p), c')"
  proof (rule waitWhileBusy.raw_induct [where P = ?P, OF _ assms(1)])
    fix g f n c res
    assume IH: "\<And>f n c y. g f n c = Some y \<Longrightarrow> ?P f n c y"
      and eq: "(case f c of ((status, r), c') \<Rightarrow> if status = SQLITE_BUSY then g f n c'
        else if (status = SQLITE_AUTH \<or> status = SQLITE_IOERR) \<and> \<not> 3 \<le> n then g f (n + 1) c' else Some ((status, r), c')) = Some res"
    obtain status r c1 where call: "f c = ((status, r), c1)" by (metis prod.exhaust)
    show "?P f n c res"
    proof (intro impI)
      assume f: "f = sqlite3_prepare_v2 L (Some d) sql" and d: "d \<in> dbs c"
      note step = prepare_new [OF d call [unfolded f]]
      show "case res of ((st, p), c') \<Rightarrow> dbs c' = dbs c \<and> (st \<noteq> SQLITE_OK \<longrightarrow> p = None) \<and>
          (case p of None \<Rightarrow> stmts c' = stmts c | Some q \<Rightarrow> stmts c q = None \<and> stmts c' = (stmts c)(q \<mapsto> d))"
      proof (cases "res = ((status, r), c1)")
        case False
        then obtain m where "g f m c1 = Some res" "status \<noteq> SQLITE_OK" using eq call by (auto split: if_splits)
        then show ?thesis using IH [of f m c1 res] step f d by (auto split: prod.splits option.splits)
      qed (use step in simp)
    qed
  qed
  then show ?thesis using assms(2) by simp
qed

lemma owning_prepare:
  assumes own: "owning c0 others k d s" and run: "prepare L k sql s = Some (r, s')"
  shows "owning c0 others k d s'"
proof -
  have d: "d \<in> dbs (world s)" and k: "k < length (all_connections s)" and conn: "conn_db (all_connections s ! k) = Some d"
    and opened: "assertOpened (all_connections s ! k) = Ok ()"
    using own by (auto simp: owning_def assertOpened_def)
  obtain st p c1 where wait: "waitWhileBusy (sqlite3_prepare_v2 L (Some d) sql) 0 (world s) = Some ((st, p), c1)"
    using run by (auto simp: prepare_def sql_assert_def opened conn pbind_def busy_call_def split: option.splits)
  note new = wait_prepare [OF wait d]
  show ?thesis
  proof (cases "st = SQLITE_OK \<and> p \<noteq> None")
    case False
    then have "same_handles s (s\<lparr>world := c1\<rparr>)" using new by (intro same_handles_world) auto
    moreover have "s' = s\<lparr>world := c1\<rparr>" using run False
      by (auto simp: prepare_def sql_assert_def sql_throw_def opened conn wait busy_call_def pbind_def split: if_splits option.splits)
    ultimately show ?thesis using owning_same [OF own] by simp
  next
    case True
    then obtain q where q: "p = Some q" "stmts (world s) q = None" "stmts c1 = (stmts (world s))(q \<mapsto> d)" "dbs c1 = dbs (world s)"
      using new by auto
    let ?t = "\<lparr>stmt_sql = sql, stmt_db = d, stmt_stmt = q, isFinalized = False, isExecuted = False\<rparr>"
    have s': "s' = update_connection k (\<lambda>c. c\<lparr>statements := statements c @ [length (all_statements s)]\<rparr>)
        (s\<lparr>world := c1, all_statements := all_statements s @ [?t]\<rparr>)"
      using run True q(1) by (auto simp: prepare_def sql_assert_def opened conn wait busy_call_def pbind_def Let_def)
    have old: "\<forall>r \<in> set (statements (all_connections s ! k)). r < length (all_statements s)" using own by (simp add: owning_def)
    have "pointers k s' = pointers k s @ [q]"
      using k old by (auto simp: s' pointers_def update_connection_def nth_append)
    moreover have "q \<notin> set (pointers k s) \<union> dom (stmts c0)" using own q(2) by (auto simp: owning_def map_add_def split: if_splits option.splits)
    moreover have "stmts c1 = stmts c0 ++ (\<lambda>x. if x \<in> insert q (set (pointers k s)) then Some d else None)"
      unfolding q(3) using own by (auto simp: owning_def map_add_def fun_eq_iff)
    ultimately show ?thesis
      using own k q(4) by (auto simp: owning_def s' update_connection_def)
  qed
qed

lemma finalize_all:
  assumes "distinct (map (\<lambda>r. stmt_stmt (all_statements s ! r)) rs)" "\<forall>r \<in> set rs. r < length (all_statements s)"
    and "set (map (\<lambda>r. stmt_stmt (all_statements s ! r)) rs) \<inter> dom m = {}"
    and "stmts (world s) = m ++ (\<lambda>q. if q \<in> set (map (\<lambda>r. stmt_stmt (all_statements s ! r)) rs) then Some d else None)"
  shows "stmts (world (fold (finalize L) rs s)) = m \<and> dbs (world (fold (finalize L) rs s)) = dbs (world s) \<and>
    all_connections (fold (finalize L) rs s) = all_connections s \<and> connections (fold (finalize L) rs s) = connections s"
  using assms
proof (induction rs arbitrary: s)
  case (Cons r rs)
  let ?q = "stmt_stmt (all_statements s ! r)" and ?s = "finalize L r s"
  have ptr: "stmt_stmt (all_statements ?s ! x) = stmt_stmt (all_statements s ! x)" for x
    using Cons.prems(2) by (cases "x = r") (auto simp: finalize_def update_statement_def)
  have live: "stmts (world s) ?q \<noteq> None" using Cons.prems(4) by (simp add: map_add_def)
  obtain st c where fin: "sqlite3_finalize L ?q (world s) = (st, c)" by (rule prod.exhaust)
  have s: "world ?s = c" "all_connections ?s = all_connections s" "connections ?s = connections s"
    "length (all_statements ?s) = length (all_statements s)"
    by (simp_all add: finalize_def update_statement_def fin)
  have "stmts c = m ++ (\<lambda>q. if q \<in> set (map (\<lambda>r. stmt_stmt (all_statements s ! r)) rs) then Some d else None)"
    using finalize_frees [OF live fin] Cons.prems(1,3,4) by (auto simp: map_add_def fun_eq_iff)
  then have "stmts (world (fold (finalize L) rs ?s)) = m \<and> dbs (world (fold (finalize L) rs ?s)) = dbs (world ?s) \<and>
    all_connections (fold (finalize L) rs ?s) = all_connections ?s \<and> connections (fold (finalize L) rs ?s) = connections ?s"
    by (intro Cons.IH) (use Cons.prems in \<open>simp_all add: ptr s\<close>)
  then show ?case using finalize_frees [OF live fin] s by simp
qed simp

lemma owning_close:
  assumes own: "owning c0 others k d s"
  shows "\<exists>s'. connection_close L k s = Some (Ok (), s') \<and> dbs (world s') = dbs c0 \<and> stmts (world s') = stmts c0 \<and> connections s' = others"
proof -
  let ?s = "destroyAllStatements L k s"
  have opened: "assertOpened (all_connections s ! k) = Ok ()" and conn: "conn_db (all_connections s ! k) = Some d"
    using own by (auto simp: owning_def assertOpened_def)
  have fin: "stmts (world ?s) = stmts c0 \<and> dbs (world ?s) = dbs (world s) \<and> all_connections ?s = all_connections s \<and> connections ?s = connections s"
    unfolding destroyAllStatements_def by (rule finalize_all [where d = d]) (use own in \<open>simp_all add: owning_def pointers_def\<close>)
  obtain st c where close: "sqlite3_close L (Some d) (world ?s) = (st, c)" by (rule prod.exhaust)
  have "d \<in> dbs (world ?s)" "d \<notin> ran (stmts (world ?s))" "dbs (world ?s) - {d} = dbs c0" using own fin by (auto simp: owning_def)
  then have closed: "st = SQLITE_OK" "dbs c = dbs c0" "stmts c = stmts c0" using close_frees [OF _ _ close] fin by auto
  have "waitWhileBusy (\<lambda>c. case sqlite3_close L (Some d) c of (st, c') \<Rightarrow> ((st, ()), c')) 0 (world ?s) = Some ((SQLITE_OK, ()), c)"
    by (subst waitWhileBusy.simps) (simp add: close closed(1))
  then show ?thesis using closed own fin
    by (simp add: connection_close_def sql_assert_def opened conn busy_call_def pbind_def owning_def update_connection_def)
qed

lemma pbind_started: "pbind m f s = Some (r, s') \<Longrightarrow> \<exists>r1 s1. m s = Some (r1, s1)"
  by (cases "m s") (auto simp: pbind_def)

lemma owning_execute:
  fixes f :: "('c, 'x, 't) resultMap"
  assumes own: "owning c0 others k d s" and run: "connection_execute L k sql bs ds f s = Some (r, s')"
  shows "owning c0 others k d s'"
proof -
  obtain r1 :: "('x db_error, nat) outcome" and s1 where prep: "prepare L k sql s = Some (r1, s1)"
    using pbind_started [OF run [unfolded connection_execute_def]] by blast
  note own1 = owning_prepare [OF own prep]
  show ?thesis
  proof (cases r1)
    case (Ok t)
    have "stays s1 (pbind (bind_positions L t bs) (\<lambda>_. pbind (bind_keys L t ds) (\<lambda>_.
        pbind (statement_execute L t) (\<lambda>rs. case rs of None \<Rightarrow> plift (Ok []) | Some rs \<Rightarrow> collect_rows L f rs []))) s1)"
      by (intro stays_bind binding_stays statement_execute_stays) (simp add: collect_rows_stays split: option.splits)
    then have "same_handles s1 s'" using run Ok prep by (simp add: connection_execute_def)
    then show ?thesis by (rule owning_same [OF own1])
  qed (use run prep own1 in \<open>simp_all add: connection_execute_def\<close>)
qed

lemma connection_owns:
  assumes url: "db_url s = Some u" and opened: "sqlite3_open L u (world s) = ((SQLITE_OK, p), c)"
    and run: "database_connection L F D s = Some (r, s')"
  shows "(case r of Ok k \<Rightarrow> k = length (all_connections s) \<and> (\<exists>d. owning (world s) (connections s @ [k]) k d s') | _ \<Rightarrow>
    dbs (world s') = dbs (world s) \<and> stmts (world s') = stmts (world s) \<and> connections s' = connections s)"
proof -
  note new = open_new [OF opened]
  have wait: "waitWhileBusy (sqlite3_open L u) 0 (world s) = Some ((SQLITE_OK, p), c)"
    by (subst waitWhileBusy.simps) (simp add: opened)
  have build: "buildURL F D s = Some (Ok (), s)" by (simp add: buildURL_def url)
  show ?thesis
  proof (cases "fileExists F u (world s) \<and> check_version L = Ok ()")
    case False
    then have "s' = s \<and> (\<forall>k. r \<noteq> Ok k)" using run
      by (cases "check_version L"; cases "fileExists F u (world s)")
        (auto simp: database_connection_def build url sql_assert_def)
    then show ?thesis by (simp split: outcome.splits)
  next
    case True
    then show ?thesis using run new
      by (cases p) (auto simp: database_connection_def build url sql_assert_def connection_open_def busy_call_def wait pbind_def
          update_connection_def owning_def pointers_def)
  qed
qed

lemma closed_after_use:
  fixes f :: "('c, 'x, 't) resultMap"
  assumes "db_url s = Some u" "sqlite3_open L u (world s) = ((SQLITE_OK, p), c)" "\<forall>k \<in> set (connections s). k < length (all_connections s)"
    and run: "database_execute L F D sql bs ds f s = Some (r, s')" "r \<noteq> Trap"
  shows "dbs (world s') = dbs (world s) \<and> stmts (world s') = stmts (world s) \<and> connections s' = connections s"
proof -
  obtain r1 :: "('x db_error, nat) outcome" and s1 where conn: "database_connection L F D s = Some (r1, s1)"
    using pbind_started [OF run(1) [unfolded database_execute_def]] by blast
  note own = connection_owns [OF assms(1,2) conn]
  show ?thesis
  proof (cases r1)
    case (Ok k)
    then obtain d where k: "k = length (all_connections s)" and d: "owning (world s) (connections s @ [k]) k d s1" using own by auto
    have body: "pdefer (database_close L k) (connection_execute L k sql bs ds f) s1 = Some (r, s')"
      using run(1) conn Ok by (simp add: database_execute_def)
    then obtain r2 s2 where s2: "connection_execute L k sql bs ds f s1 = Some (r2, s2)" "r2 \<noteq> Trap"
      using run(2) by (auto simp: pdefer_def split: option.splits outcome.splits)
    obtain s3 where s3: "connection_close L k s2 = (Some (Ok (), s3) :: (('x db_error, unit) outcome \<times> 'c dbState) option)"
        "dbs (world s3) = dbs (world s)" "stmts (world s3) = stmts (world s)" "connections s3 = connections s @ [k]"
      using owning_close [OF owning_execute [OF d s2(1)]] by blast
    have "ptry (database_close L k) s2 = (Some (Ok (), s3\<lparr>connections := remove1 k (connections s3)\<rparr>) :: (('x db_error, unit) outcome \<times> 'c dbState) option)"
      using s3(1) by (simp add: ptry_def database_close_def)
    then have "s' = s3\<lparr>connections := remove1 k (connections s3)\<rparr>"
      using body s2 by (cases r2) (auto simp: pdefer_def)
    moreover have "remove1 k (connections s @ [k]) = connections s" using assms(3) k by (auto simp: remove1_append)
    ultimately show ?thesis using s3 by simp
  qed (use run conn own in \<open>auto simp: database_execute_def\<close>)
qed

end

section \<open>Queries\<close>

text \<open>
  What a query returns. \<open>sqlite_queries\<close> adds to the handles what the documentation says about stepping through the rows of a statement:
  \<open>result\<close> are the rows the statement yields with its present parameters, \<open>todo\<close> those that are still to come, and
  \<open>current\<close> is the row the columns are read from. A step may answer \<open>SQLITE_ROW\<close>, and one more row was read, \<open>SQLITE_DONE\<close>, and there was
  none left, \<open>SQLITE_BUSY\<close>, and the statement is where it was, or any error, about which nothing is said. A reset that succeeds
  goes back to the first row.
\<close>

locale sqlite_queries = sqlite_handles +
  fixes result todo :: "'a \<Rightarrow> pointer \<Rightarrow> 'row list" and current :: "'a \<Rightarrow> pointer \<Rightarrow> 'row"
  assumes prepare_rows: "sqlite3_prepare_v2 L (Some d) sql c = ((SQLITE_OK, Some q), c') \<Longrightarrow> todo c' q = result c' q"
    and bind_rows: "sqlite3_bind L q i v c = (SQLITE_OK, c') \<Longrightarrow> todo c q = result c q \<Longrightarrow> todo c' q = result c' q"
    and step_done: "stmts c q \<noteq> None \<Longrightarrow> sqlite3_step L q c = (SQLITE_DONE, c') \<Longrightarrow> todo c q = []"
    and step_row: "stmts c q \<noteq> None \<Longrightarrow> sqlite3_step L q c = (SQLITE_ROW, c') \<Longrightarrow>
      todo c q = current c' q # todo c' q \<and> result c' q = result c q"
    and step_busy: "stmts c q \<noteq> None \<Longrightarrow> sqlite3_step L q c = (SQLITE_BUSY, c') \<Longrightarrow> todo c' q = todo c q \<and> result c' q = result c q"
    and reset_rows: "stmts c q \<noteq> None \<Longrightarrow> sqlite3_reset L q c = (SQLITE_OK, c') \<Longrightarrow> todo c' q = result c q"
    and reset_busy: "stmts c q \<noteq> None \<Longrightarrow> sqlite3_reset L q c = (SQLITE_BUSY, c') \<Longrightarrow> result c' q = result c q"

text \<open>
  The answers with which a query ends: rows, no more rows, or busy outside a transaction, and busy not for ever: \<open>busy\<close> bounds
  the busy answers that can still come before another one.
\<close>

definition stepping_ends :: "'c csqlite3 \<Rightarrow> ('c \<Rightarrow> (pointer \<rightharpoonup> pointer)) \<Rightarrow> ('c \<Rightarrow> nat) \<Rightarrow> pointer \<Rightarrow> pointer \<Rightarrow> bool" where
  "stepping_ends L stmts busy d q \<longleftrightarrow> (\<forall>c st c'. stmts c q \<noteq> None \<longrightarrow>
     (sqlite3_step L q c = (st, c') \<longrightarrow>
        st \<in> {SQLITE_ROW, SQLITE_DONE} \<or> st = SQLITE_BUSY \<and> busy c' < busy c \<and> sqlite3_get_autocommit L d c' \<noteq> 0) \<and>
     (sqlite3_reset L q c = (st, c') \<longrightarrow> st = SQLITE_OK \<or> st = SQLITE_BUSY \<and> busy c' < busy c))"

text \<open>How a query fails on an answer of SQLite.\<close>

definition sqlite_failure :: "('x db_error, 'a) outcome \<Rightarrow> bool" where
  "sqlite_failure r \<longleftrightarrow> r = Trap \<or>
     (\<exists>e. r = Throw (SQLiteError e) \<and> e \<in> {transactionMustBeRolledBack, invalidStatementState} \<union> range runtimeError)"

text \<open>The rows transformed in order, up to the first one whose transformation fails, and the parameters set one after the other.\<close>

fun map_rows :: "('row \<Rightarrow> ('e, 'b) outcome) \<Rightarrow> 'row list \<Rightarrow> ('e, 'b list) outcome" where
  "map_rows g [] = Ok []"
| "map_rows g (x # xs) = obind (g x) (\<lambda>y. omap (\<lambda>ys. y # ys) (map_rows g xs))"

fun bind_all :: "'c csqlite3 \<Rightarrow> pointer \<Rightarrow> int \<Rightarrow> parameterValue list \<Rightarrow> 'c \<Rightarrow> 'c option" where
  "bind_all L q i [] c = Some c"
| "bind_all L q i (v # vs) c = (if fst (sqlite3_bind L q i v c) = SQLITE_OK then bind_all L q (i + 1) vs (snd (sqlite3_bind L q i v c)) else None)"

context sqlite_queries
begin

lemma bind_all_rows: "bind_all L q i vs c = Some c' \<Longrightarrow> todo c q = result c q \<Longrightarrow> todo c' q = result c' q \<and> stmts c' = stmts c \<and> dbs c' = dbs c"
proof (induction vs arbitrary: i c)
  case (Cons v vs)
  obtain st c1 where call: "sqlite3_bind L q i v c = (st, c1)" by (rule prod.exhaust)
  with Cons.prems have "st = SQLITE_OK" "bind_all L q (i + 1) vs c1 = Some c'" by (auto split: if_splits)
  then show ?case using Cons.IH [of "i + 1" c1] bind_rows [of q i v c c1] bind_keeps [OF call] call Cons.prems(2) by simp
qed simp

lemma bind_positions_run:
  assumes "bind_all L (stmt_stmt (all_statements s ! r)) (int n + 1) (map bound_value bs) (world s) = Some c"
    and "\<not> isExecuted (all_statements s ! r)" "\<not> isFinalized (all_statements s ! r)" "int n + int (length bs) < 2 ^ 31"
  shows "pforEach (\<lambda>(i, v). set_at L r (bound_value v) (int i + 1)) (enumerate n bs) s =
    (Some (Ok (), s\<lparr>world := c\<rparr>) :: (('x db_error, unit) outcome \<times> 'a dbState) option)"
  using assms
proof (induction bs arbitrary: n s)
  case (Cons b bs)
  let ?q = "stmt_stmt (all_statements s ! r)"
  obtain c1 where call: "sqlite3_bind L ?q (int n + 1) (bound_value b) (world s) = (SQLITE_OK, c1)"
    using Cons.prems(1) by (cases "sqlite3_bind L ?q (int n + 1) (bound_value b) (world s)") (auto split: if_splits)
  have "set_at L r (bound_value b) (int n + 1) s = (Some (Ok (), s\<lparr>world := c1\<rparr>) :: (('x db_error, unit) outcome \<times> 'a dbState) option)"
    using Cons.prems(2-4) call
    by (simp add: set_at_def sql_assert_def assertCanBind_def c_call_def assertBindSuccess_def assertNotEqual_def pbind_def)
  moreover have "pforEach (\<lambda>(i, v). set_at L r (bound_value v) (int i + 1)) (enumerate (Suc n) bs) (s\<lparr>world := c1\<rparr>) =
      (Some (Ok (), s\<lparr>world := c1, world := c\<rparr>) :: (('x db_error, unit) outcome \<times> 'a dbState) option)"
    by (rule Cons.IH) (use Cons.prems call in \<open>simp_all add: algebra_simps\<close>)
  ultimately show ?case by simp
qed simp

text \<open>One step of a result set: the next row, or no row when there is none, or a failure.\<close>

lemma advance_rows:
  assumes "advanceToNextRow L rs s = (Some res :: (('x db_error, bool) outcome \<times> 'a dbState) option)" "stmts (world s) (rs_stmt rs) \<noteq> None"
  shows "fst res = Ok False \<and> todo (world s) (rs_stmt rs) = [] \<or> sqlite_failure (fst res) \<or>
    fst res = Ok True \<and> todo (world s) (rs_stmt rs) = current (world (snd res)) (rs_stmt rs) # todo (world (snd res)) (rs_stmt rs)"
proof -
  let ?Q = "\<lambda>rs s res. fst res = Ok False \<and> todo (world s) (rs_stmt rs) = [] \<or> sqlite_failure (fst res) \<or>
    fst res = Ok True \<and> todo (world s) (rs_stmt rs) = current (world (snd res)) (rs_stmt rs) # todo (world (snd res)) (rs_stmt rs)"
  let ?P = "\<lambda>K rs s (res :: ('x db_error, bool) outcome \<times> 'a dbState). K = L \<longrightarrow> stmts (world s) (rs_stmt rs) \<noteq> None \<longrightarrow> ?Q rs s res"
  have "?P L rs s res"
  proof (rule advanceToNextRow.raw_induct [where P = ?P, OF _ assms(1)], intro impI)
    fix advance K rs s and res :: "('x db_error, bool) outcome \<times> 'a dbState"
    assume IH: "\<And>K rs s y. advance K rs s = Some y \<Longrightarrow> ?P K rs s y"
      and eq: "(case sqlite3_step K (rs_stmt rs) (world s) of (status, c) \<Rightarrow>
        if status = SQLITE_DONE then Some (Ok False, s\<lparr>world := c\<rparr>)
        else if status = SQLITE_ROW then Some (Ok True, s\<lparr>world := c\<rparr>)
        else if status = SQLITE_BUSY then
          (if sqlite3_get_autocommit K (rs_db rs) c \<noteq> 0 then advance K rs (s\<lparr>world := c\<rparr>)
           else Some (Throw (SQLiteError transactionMustBeRolledBack), s\<lparr>world := c\<rparr>))
        else Some (Trap, s\<lparr>world := c\<rparr>)) = Some res"
      and K: "K = L" and live: "stmts (world s) (rs_stmt rs) \<noteq> None"
    obtain st c where call: "sqlite3_step L (rs_stmt rs) (world s) = (st, c)" by (rule prod.exhaust)
    show "?Q rs s res"
    proof (cases "st = SQLITE_BUSY \<and> sqlite3_get_autocommit L (rs_db rs) c \<noteq> 0")
      case True
      then have "advance L rs (s\<lparr>world := c\<rparr>) = Some res" using eq call K by simp
      from IH [OF this] show ?thesis using step_busy [OF live] step_keeps [OF call] True call live by auto
    next
      case False
      then show ?thesis using eq call K step_done [OF live] step_row [OF live] by (auto simp: sqlite_failure_def split: if_splits)
    qed
  qed
  then show ?thesis using assms(2) by blast
qed

lemma collect_rows_rows:
  assumes "collect_rows L f rs acc s = (Some res :: (('x db_error, 't option list) outcome \<times> 'a dbState) option)"
    and "stmts (world s) (rs_stmt rs) \<noteq> None" and f: "\<And>c. f rs c = g (current c (rs_stmt rs))"
  shows "fst res = omap (\<lambda>ys. acc @ ys) (map_rows g (todo (world s) (rs_stmt rs))) \<or> sqlite_failure (fst res)"
proof -
  let ?Q = "\<lambda>rs acc s res. fst res = omap (\<lambda>ys. acc @ ys) (map_rows g (todo (world s) (rs_stmt rs))) \<or> sqlite_failure (fst res)"
  let ?P = "\<lambda>K h rs' acc s (res :: ('x db_error, 't option list) outcome \<times> 'a dbState).
    K = L \<longrightarrow> h = f \<longrightarrow> rs' = rs \<longrightarrow> stmts (world s) (rs_stmt rs) \<noteq> None \<longrightarrow> ?Q rs acc s res"
  have "?P L f rs acc s res"
  proof (rule collect_rows.raw_induct [where P = ?P, OF _ assms(1)], intro impI)
    fix collect K h rs' acc s and res :: "('x db_error, 't option list) outcome \<times> 'a dbState"
    assume IH: "\<And>K h rs' acc s y. collect K h rs' acc s = Some y \<Longrightarrow> ?P K h rs' acc s y"
      and eq: "Option.bind (advanceToNextRow K rs' s :: (('x db_error, bool) outcome \<times> 'a dbState) option) (\<lambda>(more, s').
        case more of
          Ok b \<Rightarrow>
            if b then (case h rs' (world s') of
                Ok x \<Rightarrow> collect K h rs' (acc @ [x]) s'
              | Throw e \<Rightarrow> Some (Throw e, s')
              | Trap \<Rightarrow> Some (Trap, s'))
            else Some (Ok acc, s')
        | Throw e \<Rightarrow> Some (Throw e, s')
        | Trap \<Rightarrow> Some (Trap, s')) = Some res"
      and K: "K = L" "h = f" "rs' = rs" and live: "stmts (world s) (rs_stmt rs) \<noteq> None"
    obtain more s1 where adv: "advanceToNextRow L rs s = (Some (more, s1) :: (('x db_error, bool) outcome \<times> 'a dbState) option)"
      using eq K by (cases "advanceToNextRow L rs s :: (('x db_error, bool) outcome \<times> 'a dbState) option") auto
    have live1: "stmts (world s1) (rs_stmt rs) \<noteq> None" using advance_same [OF adv] live by (simp add: same_handles_def)
    show "?Q rs acc s res"
      using advance_rows [OF adv live]
    proof (elim disjE conjE)
      assume "fst (more, s1) = Ok False" "todo (world s) (rs_stmt rs) = []"
      then show ?thesis using eq adv K by auto
    next
      assume "sqlite_failure (fst (more, s1))"
      then show ?thesis using eq adv K by (auto simp: sqlite_failure_def)
    next
      assume row: "fst (more, s1) = Ok True"
        "todo (world s) (rs_stmt rs) = current (world (snd (more, s1))) (rs_stmt rs) # todo (world (snd (more, s1))) (rs_stmt rs)"
      show ?thesis
      proof (cases "g (current (world s1) (rs_stmt rs))")
        case (Ok x)
        then have "collect L f rs (acc @ [x]) s1 = Some res" using eq adv K row f by simp
        from IH [OF this] live1 have "?Q rs (acc @ [x]) s1 res" by blast
        then show ?thesis using row Ok by (cases "map_rows g (todo (world s1) (rs_stmt rs))") auto
      qed (use eq adv K row f in auto)
    qed
  qed
  then show ?thesis using assms(2) by blast
qed

lemma reset_loop_rows:
  assumes "reset_loop L q c = Some res" "stmts c q \<noteq> None" "fst res = SQLITE_OK"
  shows "todo (snd res) q = result c q"
proof -
  let ?P = "\<lambda>K p c res. K = L \<longrightarrow> p = q \<longrightarrow> stmts c q \<noteq> None \<longrightarrow> fst res = SQLITE_OK \<longrightarrow> todo (snd res) q = result c q"
  have "?P L q c res"
  proof (rule reset_loop.raw_induct [where P = ?P, OF _ assms(1)], intro impI)
    fix loop K p c res
    assume IH: "\<And>K p c y. loop K p c = Some y \<Longrightarrow> ?P K p c y"
      and eq: "(case sqlite3_reset K p c of (status, c') \<Rightarrow> if status = SQLITE_BUSY then loop K p c' else Some (status, c')) = Some res"
      and K: "K = L" "p = q" and live: "stmts c q \<noteq> None" and ok: "fst res = SQLITE_OK"
    obtain st c1 where call: "sqlite3_reset L q c = (st, c1)" by (rule prod.exhaust)
    show "todo (snd res) q = result c q"
    proof (cases "st = SQLITE_BUSY")
      case True
      then have "loop L q c1 = Some res" using eq call K by simp
      from IH [OF this] show ?thesis using reset_busy [OF live] reset_keeps [OF call] True call live ok by simp
    qed (use eq call K ok reset_rows [OF live] in auto)
  qed
  then show ?thesis using assms(2,3) by blast
qed

text \<open>The first step of a statement.\<close>

lemma statement_execute_rows:
  assumes "statement_execute L r s = (Some res :: (('x db_error, resultSet option) outcome \<times> 'a dbState) option)"
    and "all_statements s ! r = t" "\<not> isExecuted t" "\<not> isFinalized t" "stmts (world s) (stmt_stmt t) \<noteq> None"
  shows "fst res = Ok None \<and> todo (world s) (stmt_stmt t) = [] \<or> sqlite_failure (fst res) \<or>
    (\<exists>rs. fst res = Ok (Some rs) \<and> rs_stmt rs = stmt_stmt t \<and> rs_db rs = stmt_db t \<and>
       todo (world (snd res)) (stmt_stmt t) = result (world s) (stmt_stmt t))"
proof -
  let ?q = "stmt_stmt t"
  let ?Q = "\<lambda>s res. fst res = Ok None \<and> todo (world s) ?q = [] \<or> sqlite_failure (fst res) \<or>
    (\<exists>rs. fst res = Ok (Some rs) \<and> rs_stmt rs = ?q \<and> rs_db rs = stmt_db t \<and> todo (world (snd res)) ?q = result (world s) ?q)"
  let ?P = "\<lambda>K r s (res :: ('x db_error, resultSet option) outcome \<times> 'a dbState).
    K = L \<longrightarrow> all_statements s ! r = t \<longrightarrow> stmts (world s) ?q \<noteq> None \<longrightarrow> ?Q s res"
  have "?P L r s res"
  proof (rule statement_execute.raw_induct [where P = ?P, OF _ assms(1)], intro impI)
    fix run K r s and res :: "('x db_error, resultSet option) outcome \<times> 'a dbState"
    assume IH: "\<And>K r s y. run K r s = Some y \<Longrightarrow> ?P K r s y"
      and eq: "(let t = all_statements s ! r in
         if isFinalized t then Some (Throw (SQLiteError attemptToExecuteFinalizedStatement), s)
         else if isExecuted t then Some (Throw (SQLiteError statementWasAlreadyExecuted), s)
         else case sqlite3_step K (stmt_stmt t) (world s) of (status, c) \<Rightarrow>
           let s' = s\<lparr>world := c\<rparr>; done = update_statement r (\<lambda>t. t\<lparr>isExecuted := True\<rparr>) s' in
           if status = SQLITE_DONE then Some (Ok None, done)
           else if status = SQLITE_ROW then pbind (resultSet_init K (stmt_db t) (stmt_stmt t)) (\<lambda>rs. plift (Ok (Some rs))) done
           else if status = SQLITE_BUSY then
             (if isCommitStatement (stmt_sql t) \<or> \<not> sqlite3_get_autocommit K (stmt_db t) c = 0 then run K r s'
              else Some (Throw (SQLiteError transactionMustBeRolledBack), s'))
           else if status = SQLITE_ERROR
             then Some (Throw (SQLiteError (runtimeError (case sqlite3_errmsg K (stmt_db t) c of None \<Rightarrow> [] | Some m \<Rightarrow> m))), s')
           else if status = SQLITE_MISUSE then Some (Throw (SQLiteError invalidStatementState), s')
           else Some (Trap, s')) = Some res"
      and K: "K = L" and t: "all_statements s ! r = t" and live: "stmts (world s) ?q \<noteq> None"
    obtain st c where call: "sqlite3_step L ?q (world s) = (st, c)" by (rule prod.exhaust)
    have live': "stmts c ?q \<noteq> None" using step_keeps [OF call] live by simp
    show "?Q s res"
    proof (cases "st = SQLITE_BUSY \<and> (isCommitStatement (stmt_sql t) \<or> sqlite3_get_autocommit L (stmt_db t) c \<noteq> 0)")
      case True
      then have "run L r (s\<lparr>world := c\<rparr>) = Some res" using eq call K t assms(3,4) by (simp add: Let_def)
      from IH [OF this] show ?thesis using step_busy [OF live] True call live' t by simp
    next
      case False
      show ?thesis
      proof (cases "st = SQLITE_ROW")
        case row: True
        then have eq': "pbind (resultSet_init L (stmt_db t) ?q) (\<lambda>rs. plift (Ok (Some rs)))
            (update_statement r (\<lambda>t. t\<lparr>isExecuted := True\<rparr>) (s\<lparr>world := c\<rparr>)) = Some res"
          using eq call K t assms(3,4) by (simp add: Let_def)
        then obtain st' c' where loop: "reset_loop L ?q c = Some (st', c')"
          by (auto simp: pbind_def resultSet_init_def update_statement_def split: option.splits)
        show ?thesis
          using eq' loop reset_loop_rows [OF loop live'] step_row [OF live] call row
          by (cases "st' = SQLITE_OK") (auto simp: pbind_def resultSet_init_def update_statement_def sqlite_failure_def)
      qed (use eq call K t assms(3,4) False step_done [OF live] in \<open>auto simp: Let_def sqlite_failure_def split: if_splits\<close>)
    qed
  qed
  then show ?thesis using assms(2,5) by blast
qed

lemma execute_then_collect:
  fixes f :: "('a, 'x, 't) resultMap"
  assumes t: "all_statements s ! r = t" "\<not> isExecuted t" "\<not> isFinalized t" "stmts (world s) (stmt_stmt t) \<noteq> None"
    and rows: "todo (world s) (stmt_stmt t) = result (world s) (stmt_stmt t)"
    and f: "\<And>rs c. rs_stmt rs = stmt_stmt t \<Longrightarrow> f rs c = g (current c (stmt_stmt t))"
    and run: "pbind (statement_execute L r) (\<lambda>rs. case rs of None \<Rightarrow> plift (Ok []) | Some rs \<Rightarrow> collect_rows L f rs []) s = Some (a, s')"
  shows "a = map_rows g (result (world s) (stmt_stmt t)) \<or> sqlite_failure a"
proof -
  obtain b s1 where ex: "statement_execute L r s = (Some (b, s1) :: (('x db_error, resultSet option) outcome \<times> 'a dbState) option)"
    using run by (auto simp: pbind_def split: option.splits)
  have live: "stmts (world s1) (stmt_stmt t) \<noteq> None"
    using staysD [OF statement_execute_stays ex] t(4) by (simp add: same_handles_def)
  show ?thesis
    using statement_execute_rows [OF ex t]
  proof (elim disjE conjE exE)
    assume "fst (b, s1) = Ok None" "todo (world s) (stmt_stmt t) = []"
    then show ?thesis using run ex rows by (auto simp: pbind_def)
  next
    assume "sqlite_failure (fst (b, s1))"
    then show ?thesis using run ex by (auto simp: pbind_def sqlite_failure_def)
  next
    fix rs assume rs: "fst (b, s1) = Ok (Some rs)" "rs_stmt rs = stmt_stmt t"
      "todo (world (snd (b, s1))) (stmt_stmt t) = result (world s) (stmt_stmt t)"
    then have "collect_rows L f rs [] s1 = Some (a, s')" using run ex by (simp add: pbind_def)
    from collect_rows_rows [OF this, of g] live rs f show ?thesis
      by (cases "map_rows g (result (world s) (stmt_stmt t))") auto
  qed
qed

text \<open>Termination, when the busy answers end.\<close>

lemma advance_returns:
  assumes "stepping_ends L stmts busy d q" "rs_stmt rs = q" "rs_db rs = d" "stmts (world s) q \<noteq> None"
  shows "\<exists>b s'. advanceToNextRow L rs s = (Some (Ok b, s') :: (('x db_error, bool) outcome \<times> 'a dbState) option)"
  using assms(4)
proof (induction "busy (world s)" arbitrary: s rule: less_induct)
  case less
  obtain st c where call: "sqlite3_step L q (world s) = (st, c)" by (rule prod.exhaust)
  then have st: "st \<in> {SQLITE_ROW, SQLITE_DONE} \<or> st = SQLITE_BUSY \<and> busy c < busy (world s) \<and> sqlite3_get_autocommit L d c \<noteq> 0"
    using assms(1) less.prems by (simp add: stepping_ends_def)
  show ?case
  proof (cases "st = SQLITE_BUSY")
    case True
    then show ?thesis
      using less.hyps [of "s\<lparr>world := c\<rparr>"] st step_keeps [OF call] less.prems call assms(2,3) by (subst advanceToNextRow.simps) simp
  qed (use st call assms(2) in \<open>subst advanceToNextRow.simps, auto\<close>)
qed

lemma reset_returns:
  assumes "stepping_ends L stmts busy d q" "stmts c q \<noteq> None"
  shows "\<exists>c'. reset_loop L q c = Some (SQLITE_OK, c')"
  using assms(2)
proof (induction "busy c" arbitrary: c rule: less_induct)
  case less
  obtain st c1 where call: "sqlite3_reset L q c = (st, c1)" by (rule prod.exhaust)
  then have st: "st = SQLITE_OK \<or> st = SQLITE_BUSY \<and> busy c1 < busy c" using assms(1) less.prems by (simp add: stepping_ends_def)
  show ?case
  proof (cases "st = SQLITE_BUSY")
    case True
    then show ?thesis using less.hyps [of c1] st reset_keeps [OF call] less.prems call by (subst reset_loop.simps) simp
  qed (use st call in \<open>subst reset_loop.simps, simp\<close>)
qed

lemma statement_execute_returns:
  assumes "stepping_ends L stmts busy (stmt_db t) (stmt_stmt t)"
    and "all_statements s ! r = t" "\<not> isExecuted t" "\<not> isFinalized t" "stmts (world s) (stmt_stmt t) \<noteq> None"
  shows "\<exists>b s'. statement_execute L r s = (Some (Ok b, s') :: (('x db_error, resultSet option) outcome \<times> 'a dbState) option)"
  using assms(2,5)
proof (induction "busy (world s)" arbitrary: s rule: less_induct)
  case less
  obtain st c where call: "sqlite3_step L (stmt_stmt t) (world s) = (st, c)" by (rule prod.exhaust)
  then have st: "st \<in> {SQLITE_ROW, SQLITE_DONE} \<or> st = SQLITE_BUSY \<and> busy c < busy (world s) \<and> sqlite3_get_autocommit L (stmt_db t) c \<noteq> 0"
    using assms(1) less.prems by (simp add: stepping_ends_def)
  have live: "stmts c (stmt_stmt t) \<noteq> None" using step_keeps [OF call] less.prems by simp
  obtain c' where "reset_loop L (stmt_stmt t) c = Some (SQLITE_OK, c')" using reset_returns [OF assms(1) live] by blast
  then show ?case
    using less.hyps [of "s\<lparr>world := c\<rparr>"] st live less.prems call assms(3,4)
    by (subst statement_execute.simps) (auto simp: Let_def pbind_def resultSet_init_def update_statement_def)
qed

lemma collect_rows_returns:
  fixes f :: "('a, 'x, 't) resultMap"
  assumes "stepping_ends L stmts busy d q" "rs_stmt rs = q" "rs_db rs = d" "stmts (world s) q \<noteq> None"
    and f: "\<And>c. f rs c = g (current c q)"
  shows "\<exists>s'. collect_rows L f rs acc s = Some (omap (\<lambda>ys. acc @ ys) (map_rows g (todo (world s) q)), s')"
  using assms(4)
proof (induction "todo (world s) q" arbitrary: s acc)
  case Nil
  then obtain b s1 where adv: "advanceToNextRow L rs s = (Some (Ok b, s1) :: (('x db_error, bool) outcome \<times> 'a dbState) option)"
    using advance_returns [OF assms(1-3)] by blast
  then have "\<not> b" using advance_rows [OF adv] Nil assms(2) by (auto simp: sqlite_failure_def)
  then show ?case using Nil(1) by (subst collect_rows.simps) (simp add: adv)
next
  case (Cons x xs)
  obtain b s1 where adv: "advanceToNextRow L rs s = (Some (Ok b, s1) :: (('x db_error, bool) outcome \<times> 'a dbState) option)"
    using advance_returns [OF assms(1-3) Cons.prems] by blast
  then have b: "b" "current (world s1) q = x" "todo (world s1) q = xs"
    using advance_rows [OF adv] Cons assms(2) by (auto simp: sqlite_failure_def)
  have live: "stmts (world s1) q \<noteq> None" using advance_same [OF adv] Cons.prems by (simp add: same_handles_def)
  show ?case
  proof (cases "g x")
    case (Ok y)
    obtain s' where "collect_rows L f rs (acc @ [y]) s1 = Some (omap (\<lambda>ys. (acc @ [y]) @ ys) (map_rows g xs), s')"
      using Cons.hyps(1) [of s1 "acc @ [y]"] live unfolding b(3) by blast
    then show ?thesis
      unfolding Cons.hyps(2) [symmetric] by (subst collect_rows.simps) (cases "map_rows g xs"; simp add: adv f b Ok)
  qed (subst collect_rows.simps, simp add: adv f b Cons.hyps(2) [symmetric])+
qed

lemma execute_returns:
  fixes f :: "('a, 'x, 't) resultMap"
  assumes ends: "stepping_ends L stmts busy (stmt_db t) (stmt_stmt t)"
    and t: "all_statements s ! r = t" "\<not> isExecuted t" "\<not> isFinalized t" "stmts (world s) (stmt_stmt t) \<noteq> None"
    and rows: "todo (world s) (stmt_stmt t) = result (world s) (stmt_stmt t)"
    and f: "\<And>rs c. rs_stmt rs = stmt_stmt t \<Longrightarrow> f rs c = g (current c (stmt_stmt t))"
  shows "\<exists>s'. pbind (statement_execute L r) (\<lambda>rs. case rs of None \<Rightarrow> plift (Ok []) | Some rs \<Rightarrow> collect_rows L f rs []) s =
    Some (map_rows g (result (world s) (stmt_stmt t)), s')"
proof -
  obtain b s1 where ex: "statement_execute L r s = (Some (Ok b, s1) :: (('x db_error, resultSet option) outcome \<times> 'a dbState) option)"
    using statement_execute_returns [OF ends t] by blast
  have live: "stmts (world s1) (stmt_stmt t) \<noteq> None"
    using staysD [OF statement_execute_stays ex] t(4) by (simp add: same_handles_def)
  have shape: "b = None \<and> todo (world s) (stmt_stmt t) = [] \<or> (\<exists>rs. b = Some rs \<and> rs_stmt rs = stmt_stmt t \<and> rs_db rs = stmt_db t \<and>
      todo (world s1) (stmt_stmt t) = result (world s) (stmt_stmt t))"
    using statement_execute_rows [OF ex t] by (auto simp: sqlite_failure_def)
  show ?thesis
  proof (cases b)
    case None
    then show ?thesis using shape ex rows by (simp add: pbind_def)
  next
    case (Some rs)
    with shape have rs: "rs_stmt rs = stmt_stmt t" "rs_db rs = stmt_db t" "todo (world s1) (stmt_stmt t) = result (world s) (stmt_stmt t)" by auto
    obtain s' where "collect_rows L f rs [] s1 = Some (omap (\<lambda>ys. [] @ ys) (map_rows g (result (world s) (stmt_stmt t))), s')"
      using collect_rows_returns [OF ends rs(1,2) live, of f g "[]"] f rs by auto
    then show ?thesis using ex Some by (cases "map_rows g (result (world s) (stmt_stmt t))") (simp_all add: pbind_def)
  qed
qed

text \<open>A query on a connection, from the moment the statement is prepared and has its parameters.\<close>

lemma connection_prepared:
  fixes f :: "('a, 'x, 't) resultMap"
  assumes conn: "assertOpened (all_connections s ! k) = Ok ()" "conn_db (all_connections s ! k) = Some d" "d \<in> dbs (world s)"
    and prep: "sqlite3_prepare_v2 L (Some d) sql (world s) = ((SQLITE_OK, Some q), c1)"
    and bound: "bind_all L q 1 (map bound_value bs) c1 = Some c2" "length bs < 2 ^ 31"
  obtains s1 r t where "connection_execute L k sql bs [] f s =
      pbind (statement_execute L r) (\<lambda>rs. case rs of None \<Rightarrow> plift (Ok []) | Some rs \<Rightarrow> collect_rows L f rs []) s1"
    "all_statements s1 ! r = t" "stmt_stmt t = q" "stmt_db t = d" "\<not> isExecuted t" "\<not> isFinalized t" "world s1 = c2"
    "stmts c2 q \<noteq> None" "todo c2 q = result c2 q"
proof -
  let ?t = "\<lparr>stmt_sql = sql, stmt_db = d, stmt_stmt = q, isFinalized = False, isExecuted = False\<rparr>" and ?r = "length (all_statements s)"
  define s1 where "s1 = update_connection k (\<lambda>c. c\<lparr>statements := statements c @ [?r]\<rparr>) (s\<lparr>world := c1, all_statements := all_statements s @ [?t]\<rparr>)"
  have s1: "all_statements s1 = all_statements s @ [?t]" "world s1 = c1" by (simp_all add: s1_def update_connection_def)
  have wait: "waitWhileBusy (sqlite3_prepare_v2 L (Some d) sql) 0 (world s) = Some ((SQLITE_OK, Some q), c1)"
    by (subst waitWhileBusy.simps) (simp add: prep)
  have p: "prepare L k sql s = (Some (Ok ?r, s1) :: (('x db_error, nat) outcome \<times> 'a dbState) option)"
    by (simp add: prepare_def sql_assert_def conn busy_call_def wait pbind_def Let_def s1_def)
  have live: "stmts c1 q = Some d" using prepare_new [OF conn(3) prep] by simp
  have rows: "todo c2 q = result c2 q" "stmts c2 = stmts c1" using bind_all_rows [OF bound(1) prepare_rows [OF prep]] by auto
  have b: "bind_positions L ?r bs s1 = (Some (Ok (), s1\<lparr>world := c2\<rparr>) :: (('x db_error, unit) outcome \<times> 'a dbState) option)"
    unfolding bind_positions_def by (rule bind_positions_run) (use bound s1 in simp_all)
  have keys: "bind_keys L ?r [] (s1\<lparr>world := c2\<rparr>) = (Some (Ok (), s1\<lparr>world := c2\<rparr>) :: (('x db_error, unit) outcome \<times> 'a dbState) option)"
    by (simp add: bind_keys_def)
  show thesis
    by (rule that [of ?r "s1\<lparr>world := c2\<rparr>" ?t]) (use p b keys s1 live rows in \<open>simp_all add: connection_execute_def\<close>)
qed

text \<open>A query on the database answers what it answers on its connection, which is closed afterwards.\<close>

lemma database_runs:
  fixes f :: "('a, 'x, 't) resultMap"
  assumes there: "db_url s = Some u" "fileExists F u (world s)" "check_version L = Ok ()"
    and opened: "sqlite3_open L u (world s) = ((SQLITE_OK, Some d), c0)"
  obtains s1 k where "assertOpened (all_connections s1 ! k) = Ok ()" "conn_db (all_connections s1 ! k) = Some d" "d \<in> dbs (world s1)" "world s1 = c0"
    "\<And>r. (\<exists>s'. database_execute L F D sql bs [] f s = Some (r, s')) = (\<exists>s'. connection_execute L k sql bs [] f s1 = Some (r, s'))"
proof -
  let ?k = "length (all_connections s)"
  have build: "buildURL F D s = Some (Ok (), s)" by (simp add: buildURL_def there(1))
  have wait: "waitWhileBusy (sqlite3_open L u) 0 (world s) = Some ((SQLITE_OK, Some d), c0)"
    by (subst waitWhileBusy.simps) (simp add: opened)
  define s1 where "s1 = s\<lparr>world := c0, all_connections := all_connections s @ [\<lparr>conn_db = Some d, isOpened = True, isClosed = False, statements = []\<rparr>],
      connections := connections s @ [?k]\<rparr>"
  have conn: "database_connection L F D s = (Some (Ok ?k, s1) :: (('x db_error, nat) outcome \<times> 'a dbState) option)"
    by (simp add: database_connection_def build there sql_assert_def connection_open_def busy_call_def wait pbind_def update_connection_def s1_def)
  have own: "owning (world s) (connections s @ [?k]) ?k d s1" using connection_owns [OF there(1) opened conn] open_new [OF opened]
    by (auto simp: owning_def s1_def pointers_def)
  have closes: "\<exists>s3. connection_close L ?k s2 = (Some (Ok (), s3) :: (('x db_error, unit) outcome \<times> 'a dbState) option)"
    if "connection_execute L ?k sql bs [] f s1 = Some (r, s2)" for r s2
    using owning_close [OF owning_execute [OF own that]] by blast
  have "(\<exists>s'. database_execute L F D sql bs [] f s = Some (r, s')) = (\<exists>s'. connection_execute L ?k sql bs [] f s1 = Some (r, s'))" for r
  proof (cases "connection_execute L ?k sql bs [] f s1")
    case None
    then show ?thesis using conn by (simp add: database_execute_def pdefer_def)
  next
    case (Some res)
    then obtain r' s2 s3 where "connection_execute L ?k sql bs [] f s1 = Some (r', s2)"
      "connection_close L ?k s2 = (Some (Ok (), s3) :: (('x db_error, unit) outcome \<times> 'a dbState) option)"
      using closes by (cases res) blast
    then show ?thesis using conn by (cases r') (auto simp: database_execute_def pdefer_def ptry_def database_close_def)
  qed
  then show thesis
    by (intro that [of s1 ?k]) (use open_new [OF opened] in \<open>simp_all add: s1_def assertOpened_def\<close>)
qed

text \<open>A query answers all its rows or fails, and it answers when the busy answers end.\<close>

lemma database_rows:
  fixes f :: "('a, 'x, 't) resultMap"
  assumes there: "db_url s = Some u" "fileExists F u (world s)" "check_version L = Ok ()"
    and opened: "sqlite3_open L u (world s) = ((SQLITE_OK, Some d), c0)"
    and prep: "sqlite3_prepare_v2 L (Some d) sql c0 = ((SQLITE_OK, Some q), c1)"
    and bound: "bind_all L q 1 (map bound_value bs) c1 = Some c2" "length bs < 2 ^ 31"
    and f: "\<And>rs c. rs_stmt rs = q \<Longrightarrow> f rs c = g (current c q)"
  shows "database_execute L F D sql bs [] f s = Some (a, s') \<Longrightarrow> a = map_rows g (result c2 q) \<or> sqlite_failure a"
    and "stepping_ends L stmts busy d q \<Longrightarrow> \<exists>s'. database_execute L F D sql bs [] f s = Some (map_rows g (result c2 q), s')"
proof -
  obtain s1 k where conn: "assertOpened (all_connections s1 ! k) = Ok ()" "conn_db (all_connections s1 ! k) = Some d" "d \<in> dbs (world s1)" "world s1 = c0"
    and same: "\<And>r. (\<exists>s'. database_execute L F D sql bs [] f s = Some (r, s')) = (\<exists>s'. connection_execute L k sql bs [] f s1 = Some (r, s'))"
    using database_runs [OF there opened] by metis
  obtain s2 r t where run: "connection_execute L k sql bs [] f s1 =
      pbind (statement_execute L r) (\<lambda>rs. case rs of None \<Rightarrow> plift (Ok []) | Some rs \<Rightarrow> collect_rows L f rs []) s2"
    and t: "all_statements s2 ! r = t" "stmt_stmt t = q" "stmt_db t = d" "\<not> isExecuted t" "\<not> isFinalized t" "world s2 = c2"
      "stmts c2 q \<noteq> None" "todo c2 q = result c2 q"
    using connection_prepared [OF conn(1-3) prep [folded conn(4)] bound, of f] by metis
  show "a = map_rows g (result c2 q) \<or> sqlite_failure a" if ended: "database_execute L F D sql bs [] f s = Some (a, s')"
  proof -
    obtain s3 where "connection_execute L k sql bs [] f s1 = Some (a, s3)" using same [of a] ended by blast
    then show ?thesis using execute_then_collect [OF t(1,4,5), of f g a s3] t f run by simp
  qed
  show "\<exists>s'. database_execute L F D sql bs [] f s = Some (map_rows g (result c2 q), s')" if "stepping_ends L stmts busy d q"
    using execute_returns [of busy t s2 r f g] t f run that same by simp
qed

end

end
