(* ===== verification/Sqlite_Reference.thy ===== *)
theory Sqlite_Reference
  imports Sqlite_Safety
begin

section \<open>A reference library\<close>

text \<open>
  A small library with the documented behaviour: a handle is an index into a list, the rows of a statement are given with its text. It
  shows that the laws of both locales can hold together.
\<close>

datatype ref_handle = RefDb | RefStmt nat "string list" "parameterValue list list" nat | RefFreed

definition ref_get :: "ref_handle list \<Rightarrow> pointer \<Rightarrow> ref_handle" where
  "ref_get c p = (if p < length c then c ! p else RefFreed)"

definition ref_dbs :: "ref_handle list \<Rightarrow> pointer set" where
  "ref_dbs c = {d. ref_get c d = RefDb}"

definition ref_stmts :: "ref_handle list \<Rightarrow> (pointer \<rightharpoonup> pointer)" where
  "ref_stmts c q = (case ref_get c q of RefStmt d _ _ _ \<Rightarrow> if d < q then Some d else None | _ \<Rightarrow> None)"

definition ref_result :: "ref_handle list \<Rightarrow> pointer \<Rightarrow> (string list \<times> parameterValue list) list" where
  "ref_result c q = (case ref_get c q of RefStmt _ cols rows _ \<Rightarrow> map (Pair cols) rows | _ \<Rightarrow> [])"

definition ref_todo :: "ref_handle list \<Rightarrow> pointer \<Rightarrow> (string list \<times> parameterValue list) list" where
  "ref_todo c q = (case ref_get c q of RefStmt _ cols rows n \<Rightarrow> map (Pair cols) (drop n rows) | _ \<Rightarrow> [])"

definition ref_current :: "ref_handle list \<Rightarrow> pointer \<Rightarrow> string list \<times> parameterValue list" where
  "ref_current c q = (case ref_get c q of RefStmt _ cols rows n \<Rightarrow> (cols, if n = 0 then [] else rows ! (n - 1)) | _ \<Rightarrow> ([], []))"

definition ref_value :: "ref_handle list \<Rightarrow> pointer \<Rightarrow> int \<Rightarrow> parameterValue" where
  "ref_value c q i = (case safe_get (snd (ref_current c q)) i of None \<Rightarrow> Bind_null | Some v \<Rightarrow> v)"

definition ref_step :: "pointer \<Rightarrow> ref_handle list \<Rightarrow> resultCode \<times> ref_handle list" where
  "ref_step q c = (case ref_get c q of
      RefStmt d cols rows n \<Rightarrow> if n < length rows then (SQLITE_ROW, c[q := RefStmt d cols rows (Suc n)]) else (SQLITE_DONE, c)
    | _ \<Rightarrow> (SQLITE_MISUSE, c))"

definition ref_reset :: "pointer \<Rightarrow> ref_handle list \<Rightarrow> resultCode \<times> ref_handle list" where
  "ref_reset q c = (case ref_get c q of RefStmt d cols rows n \<Rightarrow> (SQLITE_OK, c[q := RefStmt d cols rows 0]) | _ \<Rightarrow> (SQLITE_MISUSE, c))"

definition ref_finalize :: "pointer \<Rightarrow> ref_handle list \<Rightarrow> resultCode \<times> ref_handle list" where
  "ref_finalize q c = (case ref_get c q of RefStmt _ _ _ _ \<Rightarrow> (SQLITE_OK, c[q := RefFreed]) | _ \<Rightarrow> (SQLITE_MISUSE, c))"

definition ref_close :: "pointer option \<Rightarrow> ref_handle list \<Rightarrow> resultCode \<times> ref_handle list" where
  "ref_close p c = (case p of None \<Rightarrow> (SQLITE_MISUSE, c) | Some d \<Rightarrow>
     if ref_get c d \<noteq> RefDb then (SQLITE_MISUSE, c)
     else if list_ex (\<lambda>q. ref_stmts c q = Some d) [0..<length c] then (SQLITE_BUSY, c) else (SQLITE_OK, c[d := RefFreed]))"

definition ref_prepare :: "(string \<Rightarrow> string list \<times> parameterValue list list) \<Rightarrow> pointer option \<Rightarrow> string \<Rightarrow> ref_handle list
    \<Rightarrow> (resultCode \<times> pointer option) \<times> ref_handle list" where
  "ref_prepare answers p sql c = (case p of None \<Rightarrow> ((SQLITE_MISUSE, None), c) | Some d \<Rightarrow>
     if ref_get c d \<noteq> RefDb then ((SQLITE_MISUSE, None), c)
     else ((SQLITE_OK, Some (length c)), c @ [RefStmt d (fst (answers sql)) (snd (answers sql)) 0]))"

definition ref_sqlite :: "(string \<Rightarrow> string list \<times> parameterValue list list) \<Rightarrow> ref_handle list csqlite3" where
  "ref_sqlite answers = \<lparr>
     sqlite3_open = (\<lambda>_ c. ((SQLITE_OK, Some (length c)), c @ [RefDb])), sqlite3_close = ref_close,
     sqlite3_prepare_v2 = ref_prepare answers, sqlite3_finalize = ref_finalize, sqlite3_step = ref_step, sqlite3_reset = ref_reset,
     sqlite3_bind = (\<lambda>_ i _ c. (if 1 \<le> i then SQLITE_OK else SQLITE_RANGE, c)), sqlite3_bind_parameter_index = (\<lambda>_ _ _. 0),
     sqlite3_get_autocommit = (\<lambda>_ _. 1), sqlite3_errmsg = (\<lambda>_ _. None), sqlite3_errstr = (\<lambda>_. []), status_text = (\<lambda>_. []),
     sqlite3_column_count = (\<lambda>q c. int (length (fst (ref_current c q)))),
     sqlite3_column_name = (\<lambda>q i c. safe_get (fst (ref_current c q)) i),
     sqlite3_column_type = (\<lambda>q i c. case ref_value c q i of Bind_text _ \<Rightarrow> SQLITE_TEXT | Bind_blob _ \<Rightarrow> SQLITE_BLOB | Bind_int64 _ \<Rightarrow> SQLITE_INTEGER
       | Bind_double _ \<Rightarrow> SQLITE_FLOAT | Bind_null \<Rightarrow> SQLITE_NULL),
     sqlite3_column_text = (\<lambda>q i c. case ref_value c q i of Bind_text t \<Rightarrow> Some t | _ \<Rightarrow> None),
     sqlite3_column_blob = (\<lambda>q i c. case ref_value c q i of Bind_blob d \<Rightarrow> if d = [] then None else Some d | _ \<Rightarrow> None),
     sqlite3_column_bytes = (\<lambda>q i c. case ref_value c q i of Bind_text t \<Rightarrow> int (length t) | Bind_blob d \<Rightarrow> int (length d) | _ \<Rightarrow> 0),
     sqlite3_column_int64 = (\<lambda>q i c. case ref_value c q i of Bind_int64 n \<Rightarrow> n | _ \<Rightarrow> 0),
     sqlite3_column_double = (\<lambda>q i c. case ref_value c q i of Bind_double x \<Rightarrow> x | _ \<Rightarrow> 0),
     sqlite3_libversion = ''3.24.0'', sqlite3_libversion_number = 3024000, sqlite3_sourceid = [],
     SQLITE_VERSION = ''3.24.0'', SQLITE_VERSION_NUMBER = 3024000, SQLITE_SOURCE_ID = []\<rparr>"

lemma ref_get_append: "ref_get (c @ [h]) p = (if p = length c then h else ref_get c p)"
  by (simp add: ref_get_def nth_append)

lemma ref_get_update: "ref_get (c[q := h]) p = (if p = q \<and> q < length c then h else ref_get c p)"
  by (simp add: ref_get_def nth_list_update)

lemma ref_get_live: "ref_get c q = RefStmt d cols rows n \<Longrightarrow> q < length c" "ref_get c q = RefDb \<Longrightarrow> q < length c"
  by (auto simp: ref_get_def split: if_splits)

lemma ref_stmts_Some: "ref_stmts c q = Some d \<longleftrightarrow> (\<exists>cols rows n. ref_get c q = RefStmt d cols rows n \<and> d < q)"
  by (auto simp: ref_stmts_def split: ref_handle.splits)

lemma ref_stmts_bound: "ref_stmts c q = Some d \<Longrightarrow> q < length c \<and> d < q"
  using ref_get_live by (auto simp: ref_stmts_Some)

lemma ref_moved:
  assumes "ref_get c q = RefStmt d cols rows n"
  shows "ref_dbs (c[q := RefStmt d cols rows m]) = ref_dbs c" "ref_stmts (c[q := RefStmt d cols rows m]) = ref_stmts c"
  using assms by (auto simp: ref_dbs_def ref_stmts_def ref_get_update fun_eq_iff)

lemma ref_moves:
  "ref_step q c = (st, c') \<Longrightarrow> ref_dbs c' = ref_dbs c \<and> ref_stmts c' = ref_stmts c"
  "ref_reset q c = (st, c') \<Longrightarrow> ref_dbs c' = ref_dbs c \<and> ref_stmts c' = ref_stmts c"
  by (auto simp: ref_step_def ref_reset_def ref_moved split: ref_handle.splits if_splits)

lemma ref_open_new: "ref_stmts (c @ [RefDb]) = ref_stmts c" "length c \<notin> ref_dbs c \<union> ran (ref_stmts c)" "ref_dbs (c @ [RefDb]) = insert (length c) (ref_dbs c)"
proof -
  have gone: "ref_get c (length c) = RefFreed" by (simp add: ref_get_def)
  show "ref_stmts (c @ [RefDb]) = ref_stmts c" by (auto simp: ref_stmts_def ref_get_append gone)
  show "length c \<notin> ref_dbs c \<union> ran (ref_stmts c)" using ref_stmts_bound [of c] by (fastforce simp: ref_dbs_def gone ran_def)
  show "ref_dbs (c @ [RefDb]) = insert (length c) (ref_dbs c)" by (auto simp: ref_dbs_def ref_get_append gone)
qed

lemma ref_prepare_new:
  assumes "ref_get c d = RefDb"
  shows "ref_stmts c (length c) = None" "ref_stmts (c @ [RefStmt d cols rows n]) = (ref_stmts c)(length c \<mapsto> d)"
    "ref_dbs (c @ [RefStmt d cols rows n]) = ref_dbs c"
  using ref_get_live(2) [OF assms] by (auto simp: ref_stmts_def ref_dbs_def ref_get_append fun_eq_iff) (auto simp: ref_get_def)

lemma ref_freed:
  assumes "q < length c"
  shows "ref_stmts (c[q := RefFreed]) = (ref_stmts c)(q := None)" "ref_dbs (c[q := RefFreed]) = ref_dbs c - {q}"
  using assms by (auto simp: ref_stmts_def ref_dbs_def ref_get_update fun_eq_iff)

interpretation ref_handles: sqlite_handles "ref_sqlite answers" ref_dbs ref_stmts
proof
  show "ref_stmts c' = ref_stmts c \<and> set_option p \<inter> (ref_dbs c \<union> ran (ref_stmts c)) = {} \<and> ref_dbs c' = set_option p \<union> ref_dbs c"
    if "sqlite3_open (ref_sqlite answers) url c = ((SQLITE_OK, p), c')" for url c p c'
    using that ref_open_new [of c] by (auto simp: ref_sqlite_def)
  show "ref_dbs c' = ref_dbs c \<and> (st \<noteq> SQLITE_OK \<longrightarrow> p = None) \<and>
      (case p of None \<Rightarrow> ref_stmts c' = ref_stmts c | Some q \<Rightarrow> ref_stmts c q = None \<and> ref_stmts c' = (ref_stmts c)(q \<mapsto> d))"
    if "d \<in> ref_dbs c" "sqlite3_prepare_v2 (ref_sqlite answers) (Some d) sql c = ((st, p), c')" for d c sql st p c'
  proof -
    have db: "ref_get c d = RefDb" using that(1) by (simp add: ref_dbs_def)
    then show ?thesis using that(2) ref_prepare_new [OF db] by (auto simp: ref_sqlite_def ref_prepare_def)
  qed
  show "ref_dbs c' = ref_dbs c \<and> ref_stmts c' = (ref_stmts c)(q := None)"
    if "ref_stmts c q \<noteq> None" "sqlite3_finalize (ref_sqlite answers) q c = (st, c')" for c q st c'
    using that ref_freed [of q c] ref_get_live(1) [of c q]
    by (auto simp: ref_sqlite_def ref_finalize_def ref_stmts_Some ref_dbs_def)
  show "st = SQLITE_OK \<and> ref_dbs c' = ref_dbs c - {d} \<and> ref_stmts c' = ref_stmts c"
    if "d \<in> ref_dbs c" "d \<notin> ran (ref_stmts c)" "sqlite3_close (ref_sqlite answers) (Some d) c = (st, c')" for d c st c'
  proof -
    have d: "ref_get c d = RefDb" "d < length c" using that(1) ref_get_live(2) [of c d] by (simp_all add: ref_dbs_def)
    have "\<not> list_ex (\<lambda>q. ref_stmts c q = Some d) [0..<length c]" using that(2) by (auto simp: list_ex_iff ran_def)
    then have c': "st = SQLITE_OK" "c' = c[d := RefFreed]" using that(3) d(1) by (simp_all add: ref_sqlite_def ref_close_def)
    have "ref_stmts c d = None" using d(1) by (simp add: ref_stmts_def)
    then show ?thesis by (simp add: c' ref_freed [OF d(2)] fun_upd_idem)
  qed
qed (auto simp: ref_sqlite_def dest: ref_moves)

lemma ref_step_answers:
  assumes "ref_stmts c q \<noteq> None" "ref_step q c = (st, c')"
  shows "st = SQLITE_DONE \<and> ref_todo c q = [] \<and> c' = c \<or>
    st = SQLITE_ROW \<and> ref_todo c q = ref_current c' q # ref_todo c' q \<and> ref_result c' q = ref_result c q"
proof -
  obtain d cols rows n where q: "ref_get c q = RefStmt d cols rows n" using assms(1) by (auto simp: ref_stmts_Some)
  show ?thesis
  proof (cases "n < length rows")
    case True
    then have "st = SQLITE_ROW" "c' = c[q := RefStmt d cols rows (Suc n)]" using assms(2) q by (simp_all add: ref_step_def)
    then show ?thesis
      using q ref_get_live(1) [OF q] Cons_nth_drop_Suc [OF True, symmetric]
      by (simp add: ref_todo_def ref_current_def ref_result_def ref_get_update)
  qed (use assms(2) q in \<open>simp add: ref_step_def ref_todo_def\<close>)
qed

lemma ref_reset_answers: "ref_stmts c q \<noteq> None \<Longrightarrow> ref_reset q c = (st, c') \<Longrightarrow> st = SQLITE_OK \<and> ref_todo c' q = ref_result c q"
  using ref_get_live(1) [of c q] by (auto simp: ref_reset_def ref_todo_def ref_result_def ref_stmts_Some ref_get_update)

lemma ref_sel [simp]: "sqlite3_step (ref_sqlite answers) = ref_step" "sqlite3_reset (ref_sqlite answers) = ref_reset"
  "sqlite3_get_autocommit (ref_sqlite answers) d c = 1"
  by (simp_all add: ref_sqlite_def)

interpretation ref_queries: sqlite_queries "ref_sqlite answers" ref_dbs ref_stmts ref_result ref_todo ref_current
proof
  show "ref_todo c' q = ref_result c' q"
    if "sqlite3_prepare_v2 (ref_sqlite answers) (Some d) sql c = ((SQLITE_OK, Some q), c')" for d sql c q c'
    using that by (auto simp: ref_sqlite_def ref_prepare_def ref_todo_def ref_result_def ref_get_append split: if_splits)
  show "ref_todo c' q = ref_result c' q"
    if "sqlite3_bind (ref_sqlite answers) q i v c = (SQLITE_OK, c')" "ref_todo c q = ref_result c q" for q i v c c'
    using that by (auto simp: ref_sqlite_def)
qed (use ref_step_answers ref_reset_answers in fastforce)+

lemma ref_stepping_ends: "stepping_ends (ref_sqlite answers) ref_stmts (\<lambda>_. 0) d q"
  using ref_step_answers ref_reset_answers by (fastforce simp: stepping_ends_def)

section \<open>A library that is busy\<close>

text \<open>
  A library with the same rows that answers \<open>SQLITE_BUSY\<close> to every other step, as often as the counter of its state says. The
  laws of the locale hold for it as well.
\<close>

definition on_fst :: "('c \<Rightarrow> 'r \<times> 'c) \<Rightarrow> 'c \<times> nat \<Rightarrow> 'r \<times> 'c \<times> nat" where
  "on_fst f x = (case f (fst x) of (r, c) \<Rightarrow> (r, c, snd x))"

definition busy_step :: "('c \<Rightarrow> resultCode \<times> 'c) \<Rightarrow> 'c \<times> nat \<Rightarrow> resultCode \<times> 'c \<times> nat" where
  "busy_step f x = (if odd (snd x) then (SQLITE_BUSY, fst x, snd x - 1) else on_fst f (fst x, snd x - 1))"

definition busy_sqlite :: "'c csqlite3 \<Rightarrow> ('c \<times> nat) csqlite3" where
  "busy_sqlite L = \<lparr>
     sqlite3_open = (\<lambda>u. on_fst (sqlite3_open L u)), sqlite3_close = (\<lambda>p. on_fst (sqlite3_close L p)),
     sqlite3_prepare_v2 = (\<lambda>p sql. on_fst (sqlite3_prepare_v2 L p sql)), sqlite3_finalize = (\<lambda>q. on_fst (sqlite3_finalize L q)),
     sqlite3_step = (\<lambda>q. busy_step (sqlite3_step L q)), sqlite3_reset = (\<lambda>q. on_fst (sqlite3_reset L q)),
     sqlite3_bind = (\<lambda>q i v. on_fst (sqlite3_bind L q i v)),
     sqlite3_bind_parameter_index = (\<lambda>q k x. sqlite3_bind_parameter_index L q k (fst x)),
     sqlite3_get_autocommit = (\<lambda>d x. sqlite3_get_autocommit L d (fst x)), sqlite3_errmsg = (\<lambda>d x. sqlite3_errmsg L d (fst x)),
     sqlite3_errstr = sqlite3_errstr L, status_text = status_text L,
     sqlite3_column_count = (\<lambda>q x. sqlite3_column_count L q (fst x)), sqlite3_column_name = (\<lambda>q i x. sqlite3_column_name L q i (fst x)),
     sqlite3_column_type = (\<lambda>q i x. sqlite3_column_type L q i (fst x)), sqlite3_column_text = (\<lambda>q i x. sqlite3_column_text L q i (fst x)),
     sqlite3_column_blob = (\<lambda>q i x. sqlite3_column_blob L q i (fst x)), sqlite3_column_bytes = (\<lambda>q i x. sqlite3_column_bytes L q i (fst x)),
     sqlite3_column_int64 = (\<lambda>q i x. sqlite3_column_int64 L q i (fst x)), sqlite3_column_double = (\<lambda>q i x. sqlite3_column_double L q i (fst x)),
     sqlite3_libversion = sqlite3_libversion L, sqlite3_libversion_number = sqlite3_libversion_number L, sqlite3_sourceid = sqlite3_sourceid L,
     SQLITE_VERSION = SQLITE_VERSION L, SQLITE_VERSION_NUMBER = SQLITE_VERSION_NUMBER L, SQLITE_SOURCE_ID = SQLITE_SOURCE_ID L\<rparr>"

lemma on_fst_eq: "on_fst f x = (r, y) \<longleftrightarrow> f (fst x) = (r, fst y) \<and> snd y = snd x"
  by (cases y) (auto simp: on_fst_def split: prod.splits)

lemma busy_step_eq: "busy_step f x = (r, y) \<longleftrightarrow>
  (if odd (snd x) then r = SQLITE_BUSY \<and> fst y = fst x \<and> snd y = snd x - 1 else f (fst x) = (r, fst y) \<and> snd y = snd x - 1)"
  by (cases y) (auto simp: busy_step_def on_fst_eq)

interpretation busy_queries: sqlite_queries "busy_sqlite (ref_sqlite answers)" "ref_dbs \<circ> fst" "ref_stmts \<circ> fst" "ref_result \<circ> fst"
  "ref_todo \<circ> fst" "ref_current \<circ> fst"
proof (unfold_locales, unfold busy_sqlite_def csqlite3.simps comp_apply on_fst_eq busy_step_eq, goal_cases)
  case (1 url c p c')
  then show ?case using ref_handles.open_new by blast
next
  case (2 d c sql st p c')
  then show ?case using ref_handles.prepare_new by blast
next
  case (3 c q st c')
  then show ?case using ref_handles.finalize_frees by blast
next
  case (4 d c st c')
  then show ?case using ref_handles.close_frees by blast
next
  case (5 q c st c')
  then show ?case using ref_handles.step_keeps by (auto split: if_splits)
next
  case (6 q c st c')
  then show ?case using ref_handles.reset_keeps by blast
next
  case (7 q i v c st c')
  then show ?case using ref_handles.bind_keeps by blast
next
  case (8 d sql c q c')
  then show ?case using ref_queries.prepare_rows by blast
next
  case (9 q i v c c')
  then show ?case using ref_queries.bind_rows by blast
next
  case (10 c q c')
  then show ?case using ref_queries.step_done by (auto split: if_splits)
next
  case (11 c q c')
  then show ?case using ref_queries.step_row by (auto split: if_splits)
next
  case (12 c q c')
  then show ?case using ref_queries.step_busy by (auto split: if_splits)
next
  case (13 c q c')
  then show ?case using ref_queries.reset_rows by blast
next
  case (14 c q c')
  then show ?case using ref_queries.reset_busy by blast
qed

lemma busy_stepping_ends: "stepping_ends (busy_sqlite (ref_sqlite answers)) (ref_stmts \<circ> fst) snd d q"
  unfolding stepping_ends_def busy_sqlite_def csqlite3.simps on_fst_eq busy_step_eq comp_apply
  using ref_step_answers ref_reset_answers by (fastforce split: if_splits simp: odd_pos)

section \<open>What the database layer guarantees\<close>

text \<open>
  C14. A query returns its rows: when the file is there, the versions agree, and SQLite opens the file, accepts the text and the parameters,
  then whatever \<open>sqlite3_step\<close> answers, executing a statement on the database, if it returns, returns the transforms of all rows the
  statement yields, in their order and each once, although the statement is stepped once before the rows are read, or the first error of a
  transform, or it fails: it traps, or throws that the transaction must be rolled back, that the statement is in a wrong state or the
  message of SQLite. A busy answer drops no row. When SQLite answers only rows, the end, or busy outside a
  transaction, and busy not for ever, the call returns the transforms of all rows.
\<close>

theorem query_returns_rows:
  fixes f :: "('c, 'x, 't) resultMap"
  assumes "sqlite_queries L dbs stmts result todo current"
    and "db_url s = Some u" "fileExists F u (world s)" "check_version L = Ok ()"
    and "sqlite3_open L u (world s) = ((SQLITE_OK, Some d), c0)" "sqlite3_prepare_v2 L (Some d) sql c0 = ((SQLITE_OK, Some q), c1)"
    and "bind_all L q 1 (map bound_value bs) c1 = Some c2" "length bs < 2 ^ 31"
    and "\<And>rs c. rs_stmt rs = q \<Longrightarrow> f rs c = g (current c q)"
  shows "(\<forall>a s'. database_execute L F D sql bs [] f s = Some (a, s') \<longrightarrow> a = map_rows g (result c2 q) \<or> a = Trap \<or>
      (\<exists>e. a = Throw (SQLiteError e) \<and> e \<in> {transactionMustBeRolledBack, invalidStatementState} \<union> range runtimeError)) \<and>
    (stepping_ends L stmts busy d q \<longrightarrow> (\<exists>s'. database_execute L F D sql bs [] f s = Some (map_rows g (result c2 q), s')))"
proof (intro conjI allI impI)
  fix a s'
  assume "database_execute L F D sql bs [] f s = Some (a, s')"
  then have "a = map_rows g (result c2 q) \<or> sqlite_failure a"
    by (rule sqlite_queries.database_rows(1) [OF assms(1-8), rotated]) (rule assms(9))
  then show "a = map_rows g (result c2 q) \<or> a = Trap \<or>
      (\<exists>e. a = Throw (SQLiteError e) \<and> e \<in> {transactionMustBeRolledBack, invalidStatementState} \<union> range runtimeError)"
    unfolding sqlite_failure_def .
next
  assume "stepping_ends L stmts busy d q"
  then show "\<exists>s'. database_execute L F D sql bs [] f s = Some (map_rows g (result c2 q), s')"
    by (rule sqlite_queries.database_rows(2) [OF assms(1-8), rotated]) (rule assms(9))
qed

definition ref_files :: "('c, unit) fileManager" where
  "ref_files = \<lparr>applicationSupportDirectory = (\<lambda>c. (Ok ''/a'', c)), fileExists = (\<lambda>_ _. True), createDirectory = (\<lambda>_ c. (Ok (), c)),
     createFile = (\<lambda>_ c. (True, c)), removeItem = (\<lambda>_ c. (Ok (), c))\<rparr>"

definition fresh_state :: "'c \<Rightarrow> 'c dbState" where
  "fresh_state c = \<lparr>world = c, all_statements = [], all_connections = [], connections = [], db_url = Some ''/a/b/n.db''\<rparr>"

definition ref_state :: "ref_handle list dbState" where
  "ref_state = fresh_state []"

definition ref_answers :: "string \<Rightarrow> string list \<times> parameterValue list list" where
  "ref_answers sql = ([''id''], [[Bind_text (''a'' @ [CHR 0x00])], [Bind_null], [Bind_text (''b'' @ [CHR 0x00])]])"

definition ref_reading :: "string list \<times> parameterValue list \<Rightarrow> (unit db_error, string option) outcome" where
  "ref_reading row = (if fst row = [] then Trap else Ok (case safe_get (snd row) 0 of Some (Bind_text t) \<Rightarrow> Some (c_string t) | _ \<Rightarrow> None))"

text \<open>The library answers busy to the first, third, fifth and seventh step.\<close>

theorem query_returns_rows_witness:
  "\<exists>s'. database_execute (busy_sqlite (ref_sqlite ref_answers)) ref_files \<lparr>db_name = ''n'', bundleIdentifier = ''b''\<rparr> ''SELECT id FROM t;'' [] []
     (\<lambda>rs c. string_at (busy_sqlite (ref_sqlite ref_answers)) rs 0 c) (fresh_state ([], 7)) = Some (Ok [Some ''a'', None, Some ''b''], s')"
proof -
  let ?L = "busy_sqlite (ref_sqlite ref_answers)"
  let ?c = "[RefDb, RefStmt 0 (fst (ref_answers '''')) (snd (ref_answers '''')) 0]"
  have reads: "string_at ?L rs 0 c = ref_reading ((ref_current \<circ> fst) c 1)" if "rs_stmt rs = 1" for rs c
    using that
    by (auto simp: string_at_def column_at_def columnCount_def busy_sqlite_def ref_sqlite_def ref_reading_def ref_value_def
        split: option.splits parameterValue.splits)
  have version: "check_version ?L = Ok ()" by (simp add: check_version_def busy_sqlite_def ref_sqlite_def assertEqual_def)
  have opens: "sqlite3_open ?L ''/a/b/n.db'' (world (fresh_state ([], 7))) = ((SQLITE_OK, Some 0), [RefDb], 7)"
    by (simp add: busy_sqlite_def ref_sqlite_def on_fst_def fresh_state_def)
  have prep: "sqlite3_prepare_v2 ?L (Some 0) ''SELECT id FROM t;'' ([RefDb], 7) = ((SQLITE_OK, Some 1), ?c, 7)"
    by (simp add: busy_sqlite_def on_fst_def ref_sqlite_def ref_prepare_def ref_get_def ref_answers_def)
  have "\<exists>s'. database_execute ?L ref_files \<lparr>db_name = ''n'', bundleIdentifier = ''b''\<rparr> ''SELECT id FROM t;'' [] []
      (\<lambda>rs c. string_at ?L rs 0 c) (fresh_state ([], 7)) = Some (map_rows ref_reading ((ref_result \<circ> fst) (?c, 7 :: nat) 1), s')"
    by (rule query_returns_rows [OF busy_queries.sqlite_queries_axioms _ _ version opens prep, THEN conjunct2, THEN mp, OF _ _ _ _ _ busy_stepping_ends])
      (use reads in \<open>simp_all add: fresh_state_def ref_files_def\<close>)
  then show ?thesis by (simp add: ref_result_def ref_get_def ref_answers_def ref_reading_def safe_get_def c_string_def)
qed

text \<open>
  C15. Executing a statement leaves no handle behind, once SQLite has opened the file: whether the statement then returns rows, fails to prepare, to
  bind or to run, or the transform throws, after the call the same connections and prepared statements are open as before it, and the
  thread knows the same connections. The call must return or throw, not trap. When SQLite fails to open the file, the handle it hands out all the
  same is never closed (\<open>failed_open_forgets\<close>).
\<close>

theorem no_handle_left:
  fixes f :: "('c, 'x, 't) resultMap"
  assumes "sqlite_handles L dbs stmts" and "db_url s = Some u" "sqlite3_open L u (world s) = ((SQLITE_OK, p), c)"
    and "\<forall>k \<in> set (connections s). k < length (all_connections s)"
    and "database_execute L F D sql bs ds f s = Some (r, s')" "r \<noteq> Trap"
  shows "dbs (world s') = dbs (world s) \<and> stmts (world s') = stmts (world s) \<and> connections s' = connections s"
  by (rule sqlite_handles.closed_after_use [OF assms])

theorem no_handle_left_witness:
  "\<exists>r s'. database_execute (ref_sqlite ref_answers) ref_files \<lparr>db_name = ''n'', bundleIdentifier = ''b''\<rparr> ''SELECT id FROM t;'' [] []
       (\<lambda>rs c. Throw (Foreign ()) :: (unit db_error, unit option) outcome) ref_state = Some (r, s') \<and> r = Throw (Foreign ()) \<and>
     ref_dbs (world s') = {} \<and> ref_stmts (world s') = Map.empty"
proof -
  let ?L = "ref_sqlite ref_answers" and ?f = "\<lambda>rs c. Throw (Foreign ()) :: (unit db_error, unit option) outcome"
  let ?D = "\<lparr>db_name = ''n'', bundleIdentifier = ''b''\<rparr>"
  have prep: "sqlite3_prepare_v2 ?L (Some 0) ''SELECT id FROM t;'' [RefDb] =
      ((SQLITE_OK, Some 1), [RefDb, RefStmt 0 (fst (ref_answers '''')) (snd (ref_answers '''')) 0])"
    by (simp add: ref_sqlite_def ref_prepare_def ref_get_def ref_answers_def)
  have version: "check_version ?L = Ok ()" by (simp add: check_version_def ref_sqlite_def assertEqual_def)
  have "\<exists>s'. database_execute ?L ref_files ?D ''SELECT id FROM t;'' [] [] ?f ref_state =
      Some (map_rows (\<lambda>_. Throw (Foreign ())) (ref_result [RefDb, RefStmt 0 (fst (ref_answers '''')) (snd (ref_answers '''')) 0] 1), s')"
    by (rule ref_queries.database_rows(2) [OF _ _ version _ prep _ _ _ ref_stepping_ends])
      (simp_all add: ref_state_def fresh_state_def ref_files_def ref_sqlite_def)
  then obtain s' where run: "database_execute ?L ref_files ?D ''SELECT id FROM t;'' [] [] ?f ref_state = Some (Throw (Foreign ()), s')"
    by (auto simp: ref_result_def ref_get_def ref_answers_def)
  have "ref_dbs (world s') = ref_dbs (world ref_state) \<and> ref_stmts (world s') = ref_stmts (world ref_state) \<and> connections s' = connections ref_state"
    by (rule no_handle_left [OF ref_handles.sqlite_handles_axioms _ _ _ run]) (simp_all add: ref_state_def fresh_state_def ref_sqlite_def)
  then show ?thesis using run by (auto simp: ref_state_def fresh_state_def ref_dbs_def ref_stmts_def ref_get_def)
qed

subsection \<open>Waiting for the database\<close>

text \<open>The codes of the first \<open>n\<close> calls and the world after them.\<close>

fun statuses :: "('c \<Rightarrow> (resultCode \<times> 'r) \<times> 'c) \<Rightarrow> nat \<Rightarrow> 'c \<Rightarrow> resultCode list" where
  "statuses f 0 c = []"
| "statuses f (Suc n) c = fst (fst (f c)) # statuses f n (snd (f c))"

fun after_calls :: "('c \<Rightarrow> 'r \<times> 'c) \<Rightarrow> nat \<Rightarrow> 'c \<Rightarrow> 'c" where
  "after_calls f 0 c = c"
| "after_calls f (Suc n) c = after_calls f n (snd (f c))"

definition disk_failure :: "resultCode \<Rightarrow> bool" where
  "disk_failure st \<longleftrightarrow> st = SQLITE_AUTH \<or> st = SQLITE_IOERR"

definition stops_at :: "('c \<Rightarrow> (resultCode \<times> 'r) \<times> 'c) \<Rightarrow> nat \<Rightarrow> nat \<Rightarrow> 'c \<Rightarrow> ((resultCode \<times> 'r) \<times> 'c) \<Rightarrow> bool" where
  "stops_at f m n c res \<longleftrightarrow> f (after_calls f n c) = res \<and> (\<forall>st \<in> set (statuses f n c). st = SQLITE_BUSY \<or> disk_failure st) \<and>
     m + length (filter disk_failure (statuses f n c)) \<le> 3 \<and> fst (fst res) \<noteq> SQLITE_BUSY \<and>
     (disk_failure (fst (fst res)) \<longrightarrow> m + length (filter disk_failure (statuses f n c)) = 3)"

lemma wait_unfold: "waitWhileBusy f m c =
  (if fst (fst (f c)) = SQLITE_BUSY then waitWhileBusy f m (snd (f c))
   else if disk_failure (fst (fst (f c))) \<and> m < 3 then waitWhileBusy f (m + 1) (snd (f c)) else Some (f c))"
  by (subst waitWhileBusy.simps) (auto simp: disk_failure_def split: prod.splits)

lemma wait_stops: "stops_at f m n c res \<Longrightarrow> waitWhileBusy f m c = Some res"
proof (induction n arbitrary: m c)
  case 0
  then show ?case by (subst wait_unfold) (auto simp: stops_at_def)
next
  case (Suc n)
  let ?st = "fst (fst (f c))"
  consider "?st = SQLITE_BUSY" | "disk_failure ?st" "?st \<noteq> SQLITE_BUSY" using Suc.prems by (auto simp: stops_at_def)
  then show ?case
  proof cases
    case 1
    then have "stops_at f m n (snd (f c)) res" using Suc.prems by (simp add: stops_at_def disk_failure_def)
    then show ?thesis using Suc.IH 1 by (subst wait_unfold) simp
  next
    case 2
    then have "stops_at f (m + 1) n (snd (f c)) res" "m < 3" using Suc.prems by (simp_all add: stops_at_def)
    then show ?thesis using Suc.IH 2 by (subst wait_unfold) simp
  qed
qed

lemma wait_stopped: "waitWhileBusy f m c = Some res \<Longrightarrow> m \<le> 3 \<Longrightarrow> \<exists>n. stops_at f m n c res"
proof -
  let ?P = "\<lambda>f m c res. m \<le> 3 \<longrightarrow> (\<exists>n. stops_at f m n c res)"
  assume run: "waitWhileBusy f m c = Some res" and m: "m \<le> 3"
  have "?P f m c res"
  proof (rule waitWhileBusy.raw_induct [where P = ?P, OF _ run])
    fix g f m c res
    assume IH: "\<And>f m c y. g f m c = Some y \<Longrightarrow> ?P f m c y"
      and eq: "(case f c of ((status, r), c') \<Rightarrow> if status = SQLITE_BUSY then g f m c'
        else if (status = SQLITE_AUTH \<or> status = SQLITE_IOERR) \<and> \<not> 3 \<le> m then g f (m + 1) c' else Some ((status, r), c')) = Some res"
    obtain st r c1 where call: "f c = ((st, r), c1)" by (metis prod.exhaust)
    show "?P f m c res"
    proof
      assume m: "m \<le> 3"
      consider "st = SQLITE_BUSY" "g f m c1 = Some res" | "disk_failure st" "m < 3" "g f (m + 1) c1 = Some res" "st \<noteq> SQLITE_BUSY"
        | "res = f c" "st \<noteq> SQLITE_BUSY" "disk_failure st \<longrightarrow> m = 3"
        using eq m by (auto simp: call disk_failure_def split: if_splits)
      then show "\<exists>n. stops_at f m n c res"
      proof cases
        case 1
        then obtain n where "stops_at f m n c1 res" using IH m by blast
        then have "stops_at f m (Suc n) c res" using 1 by (simp add: stops_at_def call disk_failure_def)
        then show ?thesis ..
      next
        case 2
        then obtain n where "stops_at f (m + 1) n c1 res" using IH [of f "m + 1" c1 res] by auto
        then have "stops_at f m (Suc n) c res" using 2 by (simp add: stops_at_def call)
        then show ?thesis ..
      next
        case 3
        then have "stops_at f m 0 c res" using m by (auto simp: stops_at_def call)
        then show ?thesis ..
      qed
    qed
  qed
  then show ?thesis using m by blast
qed

text \<open>
  C23. A call of SQLite that is wrapped in \<open>waitWhileBusy\<close> returns exactly when some answer is not \<open>SQLITE_BUSY\<close> and is no missing authorisation or
  failure of the disk with less than three of these before it. The first such answer is the result: a busy database is asked again
  without limit, a failing disk at most three times more.
\<close>

theorem busy_wait_ends:
  "waitWhileBusy f 0 c = Some res \<longleftrightarrow>
   (\<exists>n. f (after_calls f n c) = res \<and> (\<forall>st \<in> set (statuses f n c). st = SQLITE_BUSY \<or> disk_failure st) \<and>
      length (filter disk_failure (statuses f n c)) \<le> 3 \<and> fst (fst res) \<noteq> SQLITE_BUSY \<and>
      (disk_failure (fst (fst res)) \<longrightarrow> length (filter disk_failure (statuses f n c)) = 3))"
  using wait_stops [of f 0 _ c res] wait_stopped [of f 0 c res] by (auto simp: stops_at_def)

text \<open>A disk that keeps failing is tried four times, and the database is busy in between.\<close>

theorem busy_wait_ends_witness:
  "waitWhileBusy (\<lambda>c :: resultCode list. ((hd c, ()), tl c)) 0 [SQLITE_IOERR, SQLITE_BUSY, SQLITE_IOERR, SQLITE_AUTH, SQLITE_IOERR, SQLITE_OK] =
     Some ((SQLITE_IOERR, ()), [SQLITE_OK])"
  by (rule busy_wait_ends [THEN iffD2], rule exI [of _ 4]) (simp add: numeral_eq_Suc disk_failure_def)

subsection \<open>Statements and values\<close>

text \<open>A statement runs once: after a run that returned, neither running it again nor setting a parameter reaches SQLite.\<close>

lemma statement_runs_once:
  assumes "isExecuted (all_statements s ! r)" "\<not> isFinalized (all_statements s ! r)"
  shows "statement_execute L r s = Some (Throw (SQLiteError statementWasAlreadyExecuted), s)"
    "set_at L r v i s = Some (Throw (SQLiteError attemptToBindExecutedStatement), s)"
  using assms by (subst statement_execute.simps, simp, simp add: set_at_def sql_assert_def assertCanBind_def)

text \<open>A string is stored with a NUL character after it and comes back as it was unless it has one inside.\<close>

lemma text_round_trip: "bound_value (Some (BString t)) = Bind_text b \<Longrightarrow> c_string b = t \<longleftrightarrow> CHR 0x00 \<notin> set t"
  by (auto simp: c_string_def takeWhile_append dest: set_takeWhileD split: if_splits)

text \<open>A missing value read as \<open>Bool\<close> is true, not nil.\<close>

lemma null_is_true:
  assumes "0 \<le> i" "i < columnCount L (rs_stmt rs) c" "sqlite3_column_type L (rs_stmt rs) i c = SQLITE_NULL"
  shows "bool_at L rs i c = Ok (Some True)" "int_at L rs i c = Ok None"
  using assms by (simp_all add: bool_at_def int_at_def column_at_def)

text \<open>A name that the statement does not have gives the index 0, and SQLite's answer that the index is out of range.\<close>

lemma unknown_key:
  assumes "assertCanBind (all_statements s ! r) = Ok ()"
    and "sqlite3_bind_parameter_index L (stmt_stmt (all_statements s ! r)) key (world s) = 0"
    and "sqlite3_bind L (stmt_stmt (all_statements s ! r)) 0 v (world s) = (SQLITE_RANGE, c)"
  shows "set_forKey L r v key s = Some (Throw (SQLiteError statementParameterIndexOutOfRange), s\<lparr>world := c\<rparr>)"
  using assms by (simp add: set_forKey_def set_at_def sql_assert_def c_call_def pbind_def assertBindSuccess_def assertNotEqual_def)

text \<open>A connection that SQLite did not close keeps its finalized statements, and closing it again finalizes them again.\<close>

lemma finalize_fold:
  "all_connections (fold (finalize L) rs s) = all_connections s \<and>
   map stmt_stmt (all_statements (fold (finalize L) rs s)) = map stmt_stmt (all_statements s)"
proof (induction rs arbitrary: s)
  case (Cons r rs)
  have "map stmt_stmt (all_statements (finalize L r s)) = map stmt_stmt (all_statements s)"
    by (cases "r < length (all_statements s)") (simp_all add: finalize_def update_statement_def map_update list_update_same_conv list_update_beyond)
  moreover have "all_connections (finalize L r s) = all_connections s" by (simp add: finalize_def update_statement_def)
  ultimately show ?case using Cons by simp
qed simp

lemma failed_close_repeats:
  assumes "connection_close L k s = Some (Throw (SQLiteError (failedToCloseDatabase m)), s')"
  shows "all_connections s' = all_connections s" "map stmt_stmt (all_statements s') = map stmt_stmt (all_statements s)"
    "assertOpened (all_connections s' ! k) = Ok ()"
proof -
  have opened: "assertOpened (all_connections s ! k) = Ok ()" using assms
    by (cases "assertOpened (all_connections s ! k)") (auto simp: connection_close_def sql_assert_def assertOpened_def assert_defs split: if_splits)
  moreover obtain c where "s' = (destroyAllStatements L k s)\<lparr>world := c\<rparr>" using assms opened
    by (auto simp: connection_close_def sql_assert_def sql_throw_def busy_call_def pbind_def split: option.splits if_splits)
  ultimately show "all_connections s' = all_connections s" "map stmt_stmt (all_statements s') = map stmt_stmt (all_statements s)"
    "assertOpened (all_connections s' ! k) = Ok ()"
    by (simp_all add: destroyAllStatements_def finalize_fold)
qed

text \<open>The handle that SQLite returns with an error, and that has to be closed all the same, is forgotten.\<close>

lemma failed_open_forgets:
  assumes "\<not> isClosed (all_connections s ! k)" "waitWhileBusy (sqlite3_open L u) 0 (world s) = Some ((st, Some p), c)" "st \<noteq> SQLITE_OK"
  shows "\<exists>m. connection_open L k u s = Some (Throw (SQLiteError (failedToOpenDatabase m)), s\<lparr>world := c\<rparr>)"
  using assms by (simp add: connection_open_def sql_assert_def sql_throw_def busy_call_def pbind_def)

end
