(* ===== verification/Storage.thy ===== *)
theory Storage
  imports Messages Sqlite_Reference
begin

section \<open>Stored entities\<close>

text \<open>
  How transactions, wallets and portfolios are written to the rows of the database and read back: the serialisers of
  \<^verbatim>\<open>MultisigWalletImplementations/Repositories/DBSerializable\<close> and the repositories \<^verbatim>\<open>DBTransactionRepository.swift\<close>,
  \<^verbatim>\<open>DBWalletRepository.swift\<close> and \<^verbatim>\<open>DBSinglePortfolioRepository.swift\<close>. Reading goes through the result set of \<open>Sqlite\<close>. The
  conversions of BigInt, CryptoSwift and \<open>Double\<close> are parameters; \<open>storage_library\<close> states what is used of them.
\<close>

record storage_functions =
  st_hex :: hex_functions
  st_numbers :: number_functions
  printDouble :: "real \<Rightarrow> string"
  readDouble :: "string \<Rightarrow> real option"

subsection \<open>Lists in a text\<close>

text \<open>\<open>components(separatedBy:)\<close> with a separator of several characters, and \<open>joined(separator:)\<close>.\<close>

function parts :: "string \<Rightarrow> string \<Rightarrow> string \<Rightarrow> string list" where
  "parts sep acc s = (if sep \<noteq> [] \<and> take (length sep) s = sep then acc # parts sep [] (drop (length sep) s)
     else case s of [] \<Rightarrow> [acc] | c # cs \<Rightarrow> parts sep (acc @ [c]) cs)"
  by pat_completeness auto
termination
proof (relation "measure (\<lambda>(sep, acc, s). length s)")
  show "((sep, [], drop (length sep) s), sep, acc, s) \<in> measure (\<lambda>(sep, acc, s). length s)"
    if "sep \<noteq> [] \<and> take (length sep) s = sep" for sep acc s :: string
  proof -
    have "length (take (length sep) s) = length sep" "0 < length sep" using that by auto
    then show ?thesis by (cases s) auto
  qed
qed auto

declare parts.simps [simp del]

definition components_by :: "string \<Rightarrow> string \<Rightarrow> string list" where
  "components_by sep s = parts sep [] s"

fun joined :: "string \<Rightarrow> string list \<Rightarrow> string" where
  "joined sep [] = []"
| "joined sep [x] = x"
| "joined sep (x # y # xs) = x @ sep @ joined sep (y # xs)"

lemma parts_field: "sep \<noteq> [] \<Longrightarrow> set f \<inter> set sep = {} \<Longrightarrow> parts sep acc (f @ sep @ rest) = (acc @ f) # parts sep [] rest"
proof (induction f arbitrary: acc)
  case Nil
  then show ?case by (subst parts.simps) simp
next
  case (Cons c f)
  have "take (length sep) (c # f @ sep @ rest) \<noteq> sep" using Cons.prems by (cases sep) auto
  then show ?case using Cons by (subst parts.simps) simp
qed

lemma parts_last: "sep \<noteq> [] \<Longrightarrow> \<not> contains_text sep g \<Longrightarrow> parts sep acc g = [acc @ g]"
proof (induction g arbitrary: acc)
  case Nil
  then show ?case by (subst parts.simps) simp
next
  case (Cons c g)
  then show ?case by (subst parts.simps) auto
qed

lemma no_text: "sep \<noteq> [] \<Longrightarrow> set g \<inter> set sep = {} \<Longrightarrow> \<not> contains_text sep g"
proof (induction g)
  case (Cons c g)
  then show ?case by (cases sep) auto
qed simp

lemma components_joined:
  assumes "sep \<noteq> []" "fs \<noteq> []" "\<forall>f \<in> set (butlast fs). set f \<inter> set sep = {}" "\<not> contains_text sep (last fs)"
  shows "components_by sep (joined sep fs) = fs"
  using assms unfolding components_by_def
proof (induction sep fs rule: joined.induct)
  case (3 sep x y xs)
  then have "parts sep [] (joined sep (y # xs)) = y # xs" by auto
  then show ?case using parts_field [of sep x "[]" "joined sep (y # xs)"] 3 by simp
qed (simp_all add: parts_last)

subsection \<open>Serialisers\<close>

text \<open>\<open>compactMap\<close> with a closure that may trap.\<close>

primrec compactMap :: "('a \<Rightarrow> ('e, 'b option) outcome) \<Rightarrow> 'a list \<Rightarrow> ('e, 'b list) outcome" where
  "compactMap f [] = Ok []"
| "compactMap f (x # xs) = obind (f x) (\<lambda>y. omap (\<lambda>ys. (case y of None \<Rightarrow> ys | Some z \<Rightarrow> z # ys)) (compactMap f xs))"

primrec role_rawValue :: "ownerRole \<Rightarrow> string" where
  "role_rawValue thisDevice = ''thisDevice''"
| "role_rawValue browserExtension = ''browserExtension''"
| "role_rawValue paperWallet = ''paperWallet''"
| "role_rawValue paperWalletDerived = ''paperWalletDerived''"
| "role_rawValue unknown = ''unknown''"

definition role_of_text :: "string \<Rightarrow> ownerRole option" where
  "role_of_text s = List.find (\<lambda>r. role_rawValue r = s) [thisDevice, browserExtension, paperWallet, paperWalletDerived, unknown]"

definition owners_text :: "ownerList \<Rightarrow> string" where
  "owners_text os = joined '','' (map (\<lambda>x. owner_address x @ '':'' @ role_rawValue (owner_role x)) os)"

definition owner_of_text :: "hex_functions \<Rightarrow> string \<Rightarrow> ('e, owner option) outcome" where
  "owner_of_text H keyValue = (let cs = components_by '':'' keyValue in
     case (if length cs = 2 then role_of_text (cs ! 1) else None) of
       None \<Rightarrow> Ok None
     | Some r \<Rightarrow> obind (address_init H (cs ! 0)) (\<lambda>a. Ok (Some \<lparr>owner_address = a, owner_role = r\<rparr>)))"

definition owners_of_text :: "hex_functions \<Rightarrow> string \<Rightarrow> ('e, ownerList) outcome" where
  "owners_of_text H s = compactMap (owner_of_text H) (components_by '','' s)"

definition wallets_text :: "walletID list \<Rightarrow> string" where
  "wallets_text ws = joined '','' ws"

definition wallets_of_text :: "string \<Rightarrow> walletID list" where
  "wallets_of_text s = components_by '','' s"

definition token_text :: "token \<Rightarrow> string" where
  "token_text t = joined ''~~~'' [token_code t, token_name t, decimal (decimals t), token_address t, logoUrl t]"

definition token_of_text :: "hex_functions \<Rightarrow> string \<Rightarrow> ('e, token option) outcome" where
  "token_of_text H s = (let cs = components_by ''~~~'' s in
     if length cs \<noteq> 5 then Ok None
     else case Int_text (cs ! 2) of
       None \<Rightarrow> Ok None
     | Some d \<Rightarrow> obind (address_init H (cs ! 3)) (\<lambda>a.
         Ok (Some \<lparr>token_code = cs ! 0, token_name = cs ! 1, decimals = d, token_address = a, logoUrl = cs ! 4\<rparr>)))"

definition amount_text :: "tokenAmount \<Rightarrow> string" where
  "amount_text a = joined ''==='' [decimal (amount_of a), token_text (token_of a)]"

text \<open>The guard reads the first part, then the second, which is a trap when there is none, and counts the parts last.\<close>

definition amount_of_text :: "storage_functions \<Rightarrow> string \<Rightarrow> ('e, tokenAmount option) outcome" where
  "amount_of_text S s = (let cs = components_by ''==='' s in
     case readBigInt (st_numbers S) (cs ! 0) of
       None \<Rightarrow> Ok None
     | Some n \<Rightarrow>
         if length cs < 2 then Trap
         else obind (token_of_text (st_hex S) (cs ! 1)) (\<lambda>t. Ok (case t of
             None \<Rightarrow> None
           | Some t \<Rightarrow> if length cs = 2 then Some \<lparr>amount_of = n, token_of = t\<rparr> else None)))"

definition signatures_text :: "hex_functions \<Rightarrow> signature list \<Rightarrow> string" where
  "signatures_text H ss = joined '';'' (map (\<lambda>g. sig_address g @ '','' @ toHexString H (sig_data g)) ss)"

definition signature_of_text :: "hex_functions \<Rightarrow> string \<Rightarrow> ('e, signature option) outcome" where
  "signature_of_text H value = (let ps = components_by '','' value in
     if length ps \<noteq> 2 then Ok None
     else obind (address_init H (ps ! 0)) (\<lambda>a. Ok (Some \<lparr>sig_address = a, sig_data = ethHex H (ps ! 1)\<rparr>)))"

definition signatures_of_text :: "hex_functions \<Rightarrow> string \<Rightarrow> ('e, signature list) outcome" where
  "signatures_of_text H s = compactMap (signature_of_text H) (components_by '';'' s)"

locale storage_library =
  fixes S :: storage_functions
  assumes hex: "hex_library (st_hex S)" and numbers: "number_library (st_numbers S)"
    and hex_alphabet: "set (toHexString (st_hex S) d) \<subseteq> set ''0123456789abcdef''"

text \<open>Addresses as they are stored: readable, and without the characters that separate fields.\<close>

definition plain_address :: "hex_functions \<Rightarrow> address \<Rightarrow> bool" where
  "plain_address H a \<longleftrightarrow> take 2 a = ''0x'' \<and> (length (ethHex H a) = 20 \<or> ethHex H a = []) \<and> set a \<inter> set '',:;~='' = {} \<and> CHR 0x00 \<notin> set a"

definition plain_token :: "token \<Rightarrow> bool" where
  "plain_token t \<longleftrightarrow> CHR ''~'' \<notin> set (token_code t @ token_name t) \<and> \<not> contains_text ''~~~'' (logoUrl t) \<and> int_range (decimals t) \<and>
     \<not> contains_text ''==='' (token_text t)"

lemma plain_init: "plain_address H a \<Longrightarrow> address_init H a = Ok a"
  by (auto simp: plain_address_def address_init_def)

lemma compactMap_all: "(\<And>x. x \<in> set xs \<Longrightarrow> f (g x) = Ok (Some x)) \<Longrightarrow> compactMap f (map g xs) = Ok xs"
  by (induction xs) simp_all

lemma role_round_trip: "role_of_text (role_rawValue r) = Some r"
  by (cases r) (simp_all add: role_of_text_def)

lemma role_letters: "set (role_rawValue r) \<inter> set '',:'' = {}"
  by (cases r) simp_all

lemma owner_round_trip:
  assumes "plain_address H (owner_address x)"
  shows "owner_of_text H (owner_address x @ '':'' @ role_rawValue (owner_role x)) = Ok (Some x)"
proof -
  have "components_by '':'' (joined '':'' [owner_address x, role_rawValue (owner_role x)]) = [owner_address x, role_rawValue (owner_role x)]"
    using assms role_letters [of "owner_role x"] by (intro components_joined no_text) (auto simp: plain_address_def)
  then show ?thesis using assms by (simp add: owner_of_text_def role_round_trip plain_init)
qed

lemma owners_round_trip:
  assumes "\<forall>x \<in> set os. plain_address H (owner_address x)"
  shows "owners_of_text H (owners_text os) = Ok os"
proof (cases "os = []")
  case True
  then show ?thesis
    by (simp add: owners_text_def owners_of_text_def components_by_def parts.simps owner_of_text_def)
next
  case False
  let ?f = "\<lambda>x. owner_address x @ '':'' @ role_rawValue (owner_role x)"
  have plain: "set (?f x) \<inter> set '','' = {}" if "x \<in> set os" for x
    using assms that role_letters [of "owner_role x"] by (auto simp: plain_address_def)
  have "components_by '','' (owners_text os) = map ?f os"
    unfolding owners_text_def using False plain
    by (intro components_joined no_text) (auto simp: last_map map_butlast [symmetric] dest: in_set_butlastD)
  then show ?thesis unfolding owners_of_text_def using compactMap_all [of os "owner_of_text H" ?f] owner_round_trip assms by metis
qed

lemma wallets_round_trip: "ws \<noteq> [] \<Longrightarrow> \<forall>w \<in> set ws. CHR '','' \<notin> set w \<Longrightarrow> wallets_of_text (wallets_text ws) = ws"
  unfolding wallets_text_def wallets_of_text_def by (intro components_joined no_text) (auto dest: in_set_butlastD)

text \<open>The text of an empty list is the text of a list with an empty identifier.\<close>

lemma no_wallets_text: "wallets_of_text (wallets_text []) = ['''']"
  by (simp add: wallets_text_def wallets_of_text_def components_by_def parts.simps)

lemma decimal_letters: "set (decimal i) \<subseteq> insert CHR ''-'' {c. is_digit c}"
proof -
  have "list_all is_digit (decimal_nat n)" for n using decimal_nat_digits by blast
  then show ?thesis by (auto simp: decimal_def list_all_iff)
qed

lemma token_round_trip:
  assumes "plain_token t" "plain_address H (token_address t)"
  shows "token_of_text H (token_text t) = Ok (Some t)"
proof -
  have "CHR ''~'' \<notin> set (decimal (decimals t))" using decimal_letters [of "decimals t"] by (auto simp: is_digit_def)
  then have "components_by ''~~~'' (token_text t) = [token_code t, token_name t, decimal (decimals t), token_address t, logoUrl t]"
    unfolding token_text_def using assms by (intro components_joined) (auto simp: plain_token_def plain_address_def)
  then show ?thesis using assms by (simp add: token_of_text_def plain_init plain_token_def)
qed

context storage_library
begin

lemma amount_round_trip:
  assumes "plain_token (token_of a)" "plain_address (st_hex S) (token_address (token_of a))"
  shows "amount_of_text S (amount_text a) = Ok (Some a)"
proof -
  have "CHR ''='' \<notin> set (decimal (amount_of a))" using decimal_letters [of "amount_of a"] by (auto simp: is_digit_def)
  then have "components_by ''==='' (amount_text a) = [decimal (amount_of a), token_text (token_of a)]"
    unfolding amount_text_def using assms by (intro components_joined) (auto simp: plain_token_def)
  then show ?thesis by (simp add: amount_of_text_def token_round_trip [OF assms] number_library.bigInt_decimal [OF numbers])
qed

lemma ethHex_plain: "ethHex (st_hex S) (toHexString (st_hex S) d) = d"
proof -
  have "strip_prefixes (toHexString (st_hex S) d) = toHexString (st_hex S) d"
    using hex_library.hex_plain [OF hex, of d]
    by (cases "toHexString (st_hex S) d" rule: strip_prefixes.cases) (auto simp: has_hex_prefix_def)
  then show ?thesis using hex_library.hex_round_trip [OF hex] hex_library.hex_even [OF hex, of d]
    by (simp add: ethHex_def Let_def even_iff_mod_2_eq_zero)
qed

lemma signature_round_trip:
  assumes "plain_address (st_hex S) (sig_address g)"
  shows "signature_of_text (st_hex S) (sig_address g @ '','' @ toHexString (st_hex S) (sig_data g)) = Ok (Some g)"
proof -
  have "components_by '','' (joined '','' [sig_address g, toHexString (st_hex S) (sig_data g)]) = [sig_address g, toHexString (st_hex S) (sig_data g)]"
    using assms hex_alphabet [of "sig_data g"] by (intro components_joined no_text) (auto simp: plain_address_def)
  then show ?thesis using assms by (simp add: signature_of_text_def plain_init ethHex_plain)
qed

lemma signatures_round_trip:
  assumes "\<forall>g \<in> set ss. plain_address (st_hex S) (sig_address g)"
  shows "signatures_of_text (st_hex S) (signatures_text (st_hex S) ss) = Ok ss"
proof (cases "ss = []")
  case True
  then show ?thesis
    by (simp add: signatures_text_def signatures_of_text_def components_by_def parts.simps signature_of_text_def)
next
  case False
  let ?f = "\<lambda>g. sig_address g @ '','' @ toHexString (st_hex S) (sig_data g)"
  have plain: "set (?f g) \<inter> set '';'' = {}" if "g \<in> set ss" for g
    using assms that hex_alphabet [of "sig_data g"] by (auto simp: plain_address_def)
  have "components_by '';'' (signatures_text (st_hex S) ss) = map ?f ss"
    unfolding signatures_text_def using False plain
    by (intro components_joined no_text) (auto simp: last_map map_butlast [symmetric] dest: in_set_butlastD)
  then show ?thesis unfolding signatures_of_text_def using compactMap_all [of ss "signature_of_text (st_hex S)" ?f] signature_round_trip assms by metis
qed

end

subsection \<open>Raw values\<close>

definition of_rawValue :: "('a \<Rightarrow> int) \<Rightarrow> 'a list \<Rightarrow> int \<Rightarrow> 'a option" where
  "of_rawValue raw cases n = List.find (\<lambda>x. raw x = n) cases"

primrec type_rawValue :: "transactionType \<Rightarrow> int" where
  "type_rawValue transactionType.transfer = 0"
| "type_rawValue walletRecovery = 1"
| "type_rawValue replaceRecoveryPhrase = 2"
| "type_rawValue replaceBrowserExtension = 3"
| "type_rawValue connectBrowserExtension = 4"
| "type_rawValue disconnectBrowserExtension = 5"

definition type_of_rawValue :: "int \<Rightarrow> transactionType option" where
  "type_of_rawValue = of_rawValue type_rawValue [transactionType.transfer, walletRecovery, replaceRecoveryPhrase, replaceBrowserExtension,
     connectBrowserExtension, disconnectBrowserExtension]"

definition code_of_rawValue :: "int \<Rightarrow> code option" where
  "code_of_rawValue = of_rawValue code_rawValue [draft, signing, pending, rejected, failed, success, discarded]"

definition operation_of_rawValue :: "int \<Rightarrow> walletOperation option" where
  "operation_of_rawValue = of_rawValue operation_rawValue [call, delegateCall, create]"

primrec state_rawValue :: "wstate \<Rightarrow> int" where
  "state_rawValue DraftState = 0"
| "state_rawValue DeployingState = 1"
| "state_rawValue NotEnoughFundsState = 2"
| "state_rawValue CreationStartedState = 3"
| "state_rawValue FinalizingDeploymentState = 4"
| "state_rawValue ReadyToUseState = 5"
| "state_rawValue RecoveryDraftState = 6"
| "state_rawValue RecoveryInProgressState = 7"
| "state_rawValue RecoveryPostProcessingState = 8"
| "state_rawValue WaitingForFirstDepositState = 9"

definition state_of_rawValue :: "int \<Rightarrow> wstate option" where
  "state_of_rawValue = of_rawValue state_rawValue [DraftState, DeployingState, NotEnoughFundsState, CreationStartedState,
     FinalizingDeploymentState, ReadyToUseState, RecoveryDraftState, RecoveryInProgressState, RecoveryPostProcessingState,
     WaitingForFirstDepositState]"

lemma type_round_trip [simp]: "type_of_rawValue (type_rawValue y) = Some y"
  by (cases y) (simp_all add: type_of_rawValue_def of_rawValue_def)

lemma code_round_trip [simp]: "code_of_rawValue (code_rawValue c) = Some c"
  by (cases c) (simp_all add: code_of_rawValue_def of_rawValue_def code_rawValue_def)

lemma operation_round_trip [simp]: "operation_of_rawValue (operation_rawValue p) = Some p"
  by (cases p) (simp_all add: operation_of_rawValue_def of_rawValue_def operation_rawValue_def)

lemma state_round_trip [simp]: "state_of_rawValue (state_rawValue w) = Some w"
  by (cases w) (simp_all add: state_of_rawValue_def of_rawValue_def)

subsection \<open>Transactions\<close>

text \<open>The values that \<open>save\<close> binds, in the order of the columns of \<open>tbl_transactions\<close>.\<close>

definition serialized_date :: "storage_functions \<Rightarrow> date option \<Rightarrow> sqlBindable option" where
  "serialized_date S d = map_option (BString \<circ> printDouble S) d"

definition transaction_row :: "storage_functions \<Rightarrow> transaction \<Rightarrow> sqlBindable option list" where
  "transaction_row S tx =
    [Some (BString (tx_id tx)), Some (BString (tx_walletID tx)), Some (BString (tx_accountID tx)),
     Some (BInt (type_rawValue (tx_type tx))), Some (BInt (code_rawValue (status tx))),
     map_option BString (sender tx), map_option BString (recipient tx),
     map_option (BString \<circ> amount_text) (amount tx), map_option (BString \<circ> amount_text) (fee tx),
     Some (BString (signatures_text (st_hex S) (signatures tx))),
     serialized_date S (createdDate tx), serialized_date S (updatedDate tx), serialized_date S (rejectedDate tx),
     serialized_date S (submittedDate tx), serialized_date S (processedDate tx),
     map_option BString (transactionHash tx),
     map_option (BInt \<circ> gas) (fee_estimate tx), map_option (BInt \<circ> dataGas) (fee_estimate tx), map_option (BInt \<circ> operationalGas) (fee_estimate tx),
     map_option (BString \<circ> amount_text \<circ> gasPrice) (fee_estimate tx),
     map_option BData (tx_data tx), map_option (BInt \<circ> operation_rawValue) (operation tx), map_option BString (nonce tx), map_option BData (tx_hash tx)]"

text \<open>\<open>ResultSetRowIterator\<close>: the next column of the row, whatever it holds.\<close>

definition nextString :: "'c csqlite3 \<Rightarrow> resultSet \<Rightarrow> 'c \<Rightarrow> (int, 'e, string option) action" where
  "nextString L rs c = (\<lambda>i. (string_at L rs i c, i + 1))"

definition nextInt :: "'c csqlite3 \<Rightarrow> resultSet \<Rightarrow> 'c \<Rightarrow> (int, 'e, int option) action" where
  "nextInt L rs c = (\<lambda>i. (int_at L rs i c, i + 1))"

definition nextData :: "'c csqlite3 \<Rightarrow> resultSet \<Rightarrow> 'c \<Rightarrow> (int, 'e, bytes option) action" where
  "nextData L rs c = (\<lambda>i. (data_at L rs i c, i + 1))"

definition deserializedDate :: "storage_functions \<Rightarrow> string option \<Rightarrow> date option" where
  "deserializedDate S s = (case s of None \<Rightarrow> None | Some t \<Rightarrow> readDouble S t)"

text \<open>\<open>if let v = value { tx.change(v) }\<close>.\<close>

definition if_let :: "'a option \<Rightarrow> ('a \<Rightarrow> (tx_error, transaction) outcome) \<Rightarrow> transaction \<Rightarrow> (int, tx_error, transaction) action" where
  "if_let v f tx = act_lift (case v of None \<Rightarrow> Ok tx | Some x \<Rightarrow> f x)"

definition if_amount :: "storage_functions \<Rightarrow> string option \<Rightarrow> (tokenAmount \<Rightarrow> (tx_error, transaction) outcome) \<Rightarrow> transaction
    \<Rightarrow> (int, tx_error, transaction) action" where
  "if_amount S v f tx = act_lift (case v of None \<Rightarrow> Ok tx | Some t \<Rightarrow>
     obind (amount_of_text S t) (\<lambda>a. case a of None \<Rightarrow> Ok tx | Some a \<Rightarrow> f a))"

fun add_signatures :: "date \<Rightarrow> signature list \<Rightarrow> transaction \<Rightarrow> (tx_error, transaction) outcome" where
  "add_signatures now [] tx = Ok tx"
| "add_signatures now (g # gs) tx = obind (add_signature now g tx) (add_signatures now gs)"

type_synonym timestamps = "date option \<times> date option \<times> date option \<times> date option \<times> date option"

definition fetchTimestamps :: "'c csqlite3 \<Rightarrow> storage_functions \<Rightarrow> resultSet \<Rightarrow> 'c \<Rightarrow> (int, tx_error, timestamps) action" where
  "fetchTimestamps L S rs c =
     act_bind (nextString L rs c) (\<lambda>created. act_bind (nextString L rs c) (\<lambda>updated. act_bind (nextString L rs c) (\<lambda>rejectedAt.
     act_bind (nextString L rs c) (\<lambda>submitted. act_bind (nextString L rs c) (\<lambda>processed.
     act_return (deserializedDate S created, deserializedDate S updated, deserializedDate S rejectedAt, deserializedDate S submitted,
       deserializedDate S processed))))))"

definition updateRemaining :: "'c csqlite3 \<Rightarrow> storage_functions \<Rightarrow> date \<Rightarrow> resultSet \<Rightarrow> 'c \<Rightarrow> transaction \<Rightarrow> (int, tx_error, transaction) action" where
  "updateRemaining L S now rs c tx =
     act_bind (nextInt L rs c) (\<lambda>gasOrNil. act_bind (nextInt L rs c) (\<lambda>dataGasOrNil. act_bind (nextInt L rs c) (\<lambda>operationalGasOrNil.
     act_bind (nextString L rs c) (\<lambda>gasPriceStringOrNil.
     act_bind (case (gasOrNil, dataGasOrNil, operationalGasOrNil) of
         (Some g, Some d, Some p) \<Rightarrow> if_amount S gasPriceStringOrNil (\<lambda>price. change_feeEstimate now (Some
           \<lparr>gas = g, dataGas = d, operationalGas = p, gasPrice = price\<rparr>) tx) tx
       | _ \<Rightarrow> act_return tx) (\<lambda>tx.
     act_bind (nextData L rs c) (\<lambda>v. act_bind (if_let v (\<lambda>d. change_data now (Some d) tx) tx) (\<lambda>tx.
     act_bind (nextInt L rs c) (\<lambda>v. act_bind (if_let (Option.bind v operation_of_rawValue) (\<lambda>p. change_operation now (Some p) tx) tx) (\<lambda>tx.
     act_bind (nextString L rs c) (\<lambda>v. act_bind (if_let v (\<lambda>n. change_nonce now (Some n) tx) tx) (\<lambda>tx.
     act_bind (nextData L rs c) (\<lambda>v. if_let v (\<lambda>d. change_hash now (Some d) tx) tx))))))))))))"

text \<open>\<open>update(_:_:)\<close>; \<open>Address(_:)\<close> traps on a text that is no address.\<close>

definition update_from :: "'c csqlite3 \<Rightarrow> storage_functions \<Rightarrow> date \<Rightarrow> resultSet \<Rightarrow> 'c \<Rightarrow> transaction \<Rightarrow> (int, tx_error, transaction \<times> timestamps) action" where
  "update_from L S now rs c tx =
     act_bind (nextString L rs c) (\<lambda>v. act_bind (if_let v (\<lambda>t. obind (address_init (st_hex S) t) (\<lambda>a. change_sender now (Some a) tx)) tx) (\<lambda>tx.
     act_bind (nextString L rs c) (\<lambda>v. act_bind (if_let v (\<lambda>t. obind (address_init (st_hex S) t) (\<lambda>a. change_recipient now (Some a) tx)) tx) (\<lambda>tx.
     act_bind (nextString L rs c) (\<lambda>v. act_bind (if_amount S v (\<lambda>a. change_amount now (Some a) tx) tx) (\<lambda>tx.
     act_bind (nextString L rs c) (\<lambda>v. act_bind (if_amount S v (\<lambda>a. change_fee now (Some a) tx) tx) (\<lambda>tx.
     act_bind (nextString L rs c) (\<lambda>v. act_bind (if_let v (\<lambda>t. obind (signatures_of_text (st_hex S) t) (\<lambda>gs. add_signatures now gs tx)) tx) (\<lambda>tx.
     act_bind (fetchTimestamps L S rs c) (\<lambda>stamps.
     act_bind (nextString L rs c) (\<lambda>v. act_bind (if_let v (\<lambda>h. set_hash now h tx) tx) (\<lambda>tx.
     act_bind (updateRemaining L S now rs c tx) (\<lambda>tx. act_return (tx, stamps)))))))))))))))"

text \<open>The status is reached from the draft by the operations of the entity.\<close>

definition restore_status :: "date \<Rightarrow> code \<Rightarrow> transaction \<Rightarrow> (tx_error, transaction) outcome" where
  "restore_status now c tx = (case c of
      draft \<Rightarrow> Ok tx
    | signing \<Rightarrow> proceed now tx
    | pending \<Rightarrow> obind (proceed now tx) (proceed now)
    | rejected \<Rightarrow> obind (proceed now tx) (reject now)
    | failed \<Rightarrow> obind (obind (proceed now tx) (proceed now)) (fail now)
    | success \<Rightarrow> obind (obind (proceed now tx) (proceed now)) (succeed now)
    | discarded \<Rightarrow> discard now tx)"

definition stamp :: "date option \<Rightarrow> (transaction \<Rightarrow> date \<Rightarrow> transaction) \<Rightarrow> transaction \<Rightarrow> transaction" where
  "stamp d f tx = (case d of None \<Rightarrow> tx | Some d \<Rightarrow> f tx d)"

definition timestamp_with :: "timestamps \<Rightarrow> transaction \<Rightarrow> transaction" where
  "timestamp_with t tx = (case t of (created, updated, rejectedAt, submitted, processed) \<Rightarrow>
     stamp processed timestampProcessed (stamp submitted timestampSubmitted (stamp rejectedAt timestampRejected
       (stamp updated timestampUpdated (stamp created timestampCreated tx)))))"

definition transactionFromResultSet :: "'c csqlite3 \<Rightarrow> storage_functions \<Rightarrow> date \<Rightarrow> resultSet \<Rightarrow> 'c \<Rightarrow> (tx_error, transaction option) outcome" where
  "transactionFromResultSet L S now rs c = fst (
     (act_bind (nextString L rs c) (\<lambda>idOrNil. act_bind (nextString L rs c) (\<lambda>walletIDOrNil. act_bind (nextString L rs c) (\<lambda>accountIDOrNil.
      act_bind (nextInt L rs c) (\<lambda>rawTypeOrNil. act_bind (nextInt L rs c) (\<lambda>rawStatusOrNil.
      case (idOrNil, walletIDOrNil, accountIDOrNil, Option.bind rawTypeOrNil type_of_rawValue, Option.bind rawStatusOrNil code_of_rawValue) of
        (Some i, Some w, Some a, Some ty, Some target) \<Rightarrow>
          act_bind (update_from L S now rs c (tx_init now i ty w a)) (\<lambda>(tx, stamps).
          act_bind (act_lift (restore_status now target tx)) (\<lambda>tx. act_return (Some (timestamp_with stamps tx))))
      | _ \<Rightarrow> act_return None)))))) 0)"

subsection \<open>Rows that hold what was bound\<close>

text \<open>
  What SQLite documents about a row whose values were bound as they are declared: the columns give the values back; text comes with the
  bytes that were bound, and an empty blob as a null pointer.
\<close>

definition column_holds :: "'c csqlite3 \<Rightarrow> pointer \<Rightarrow> int \<Rightarrow> sqlBindable option \<Rightarrow> 'c \<Rightarrow> bool" where
  "column_holds L q i v c \<longleftrightarrow> (sqlite3_column_type L q i c = SQLITE_NULL \<longleftrightarrow> v = None) \<and> (case v of
      None \<Rightarrow> True
    | Some (BString t) \<Rightarrow> sqlite3_column_text L q i c = Some (t @ [CHR 0x00])
    | Some (BInt n) \<Rightarrow> sqlite3_column_int64 L q i c = n
    | Some (BData d) \<Rightarrow> sqlite3_column_blob L q i c = (if d = [] then None else Some d) \<and> sqlite3_column_bytes L q i c = int (length d)
    | Some (BDouble x) \<Rightarrow> sqlite3_column_double L q i c = x
    | Some (BBool b) \<Rightarrow> sqlite3_column_int64 L q i c = (if b then 1 else 0))"

definition row_holds :: "'c csqlite3 \<Rightarrow> pointer \<Rightarrow> sqlBindable option list \<Rightarrow> 'c \<Rightarrow> bool" where
  "row_holds L q vs c \<longleftrightarrow> columnCount L q c = int (length vs) \<and> (\<forall>i < length vs. column_holds L q (int i) (vs ! i) c)"

text \<open>Texts without a NUL character.\<close>

definition clean_row :: "sqlBindable option list \<Rightarrow> bool" where
  "clean_row vs \<longleftrightarrow> (\<forall>t. Some (BString t) \<in> set vs \<longrightarrow> CHR 0x00 \<notin> set t)"

lemma row_column:
  assumes "row_holds L (rs_stmt rs) vs c" "0 \<le> i" "nat i < length vs"
  shows "column_at L read rs i c = Ok (if vs ! nat i = None then None else read (rs_stmt rs) i c)"
    "column_holds L (rs_stmt rs) i (vs ! nat i) c"
proof -
  have "i < columnCount L (rs_stmt rs) c" using assms by (simp add: row_holds_def nat_less_iff)
  moreover show holds: "column_holds L (rs_stmt rs) i (vs ! nat i) c" using assms by (metis int_nat_eq row_holds_def)
  ultimately show "column_at L read rs i c = Ok (if vs ! nat i = None then None else read (rs_stmt rs) i c)"
    using assms(2) by (simp add: column_at_def column_holds_def)
qed

fun text_value :: "sqlBindable option \<Rightarrow> string option" where
  "text_value (Some (BString t)) = Some t"
| "text_value _ = None"

fun int_value :: "sqlBindable option \<Rightarrow> int option" where
  "int_value (Some (BInt n)) = Some n"
| "int_value _ = None"

fun blob_value :: "sqlBindable option \<Rightarrow> bytes option" where
  "blob_value (Some (BData d)) = Some d"
| "blob_value _ = None"

lemma text_value_option [simp]: "text_value (map_option BString t) = t" "text_value (map_option (\<lambda>x. BString (f x)) y) = map_option f y"
  by (cases t; simp) (cases y; simp)

lemma int_value_option [simp]: "int_value (map_option BInt n) = n" "int_value (map_option (\<lambda>x. BInt (f x)) y) = map_option f y"
  by (cases n; simp) (cases y; simp)

lemma blob_value_option [simp]: "blob_value (map_option BData d) = d" "map_option BData d = Some (BData []) \<longleftrightarrow> d = Some []"
  by (cases d; simp)+

lemma string_row:
  assumes "row_holds L (rs_stmt rs) vs c" "clean_row vs" "0 \<le> i" "nat i < length vs" "vs ! nat i = map_option BString (text_value (vs ! nat i))"
  shows "string_at L rs i c = Ok (text_value (vs ! nat i))"
proof (cases "text_value (vs ! nat i)")
  case (Some x)
  then have x: "vs ! nat i = Some (BString x)" using assms(5) by simp
  then have "c_string (x @ [CHR 0x00]) = x"
    using assms(2) nth_mem [OF assms(4)] by (auto simp: clean_row_def c_string_def takeWhile_append split: if_splits)
  then show ?thesis using row_column(2) [OF assms(1,3,4)] x by (simp add: string_at_def row_column(1) [OF assms(1,3,4)] column_holds_def)
qed (use assms(5) in \<open>simp add: string_at_def row_column(1) [OF assms(1,3,4)]\<close>)

lemma int_row:
  assumes "row_holds L (rs_stmt rs) vs c" "0 \<le> i" "nat i < length vs" "vs ! nat i = map_option BInt (int_value (vs ! nat i))"
  shows "int_at L rs i c = Ok (int_value (vs ! nat i))"
  using row_column(2) [OF assms(1-3)] assms(4)
  by (cases "int_value (vs ! nat i)") (simp_all add: int_at_def row_column(1) [OF assms(1-3)] column_holds_def)

lemma data_row:
  assumes "row_holds L (rs_stmt rs) vs c" "0 \<le> i" "nat i < length vs" "vs ! nat i = map_option BData (blob_value (vs ! nat i))" "vs ! nat i \<noteq> Some (BData [])"
  shows "data_at L rs i c = Ok (blob_value (vs ! nat i))"
  using row_column(2) [OF assms(1-3)] assms(4,5)
  by (cases "blob_value (vs ! nat i)") (auto simp: data_at_def row_column(1) [OF assms(1-3)] column_holds_def)

text \<open>An empty blob is read as nil.\<close>

lemma empty_data_lost:
  "row_holds L (rs_stmt rs) vs c \<Longrightarrow> 0 \<le> i \<Longrightarrow> nat i < length vs \<Longrightarrow> vs ! nat i = Some (BData []) \<Longrightarrow> data_at L rs i c = Ok None"
  using row_column(2) [of L rs vs c i] by (simp add: data_at_def row_column(1) column_holds_def)

subsection \<open>Reading a transaction\<close>

definition storable_amount :: "storage_functions \<Rightarrow> tokenAmount \<Rightarrow> bool" where
  "storable_amount S a \<longleftrightarrow> plain_token (token_of a) \<and> plain_address (st_hex S) (token_address (token_of a))"

text \<open>A date as a \<open>Double\<close> whose text reads as the same number.\<close>

definition date_ok :: "storage_functions \<Rightarrow> date option \<Rightarrow> bool" where
  "date_ok S d \<longleftrightarrow> pred_option (\<lambda>x. readDouble S (printDouble S x) = Some x) d"

text \<open>What a transaction must look like to be read back: texts without the separators, valid addresses, no empty data.\<close>

definition storable :: "storage_functions \<Rightarrow> transaction \<Rightarrow> bool" where
  "storable S tx \<longleftrightarrow> clean_row (transaction_row S tx) \<and>
     pred_option (plain_address (st_hex S)) (sender tx) \<and> pred_option (plain_address (st_hex S)) (recipient tx) \<and>
     pred_option (storable_amount S) (amount tx) \<and> pred_option (storable_amount S) (fee tx) \<and>
     pred_option (\<lambda>e. storable_amount S (gasPrice e)) (fee_estimate tx) \<and>
     (\<forall>g \<in> set (signatures tx). plain_address (st_hex S) (sig_address g)) \<and> tx_data tx \<noteq> Some [] \<and> tx_hash tx \<noteq> Some [] \<and>
     date_ok S (createdDate tx) \<and> date_ok S (updatedDate tx) \<and> date_ok S (rejectedDate tx) \<and> date_ok S (submittedDate tx) \<and>
     date_ok S (processedDate tx)"

definition fresh :: "date \<Rightarrow> transaction \<Rightarrow> bool" where
  "fresh now tx \<longleftrightarrow> status tx = draft \<and> updatedDate tx = Some now"

lemma fresh_changing: "fresh now tx \<Longrightarrow> fresh now (f tx) \<Longrightarrow> changing now f tx = Ok (f tx)"
  by (simp add: changing_eq_Ok fresh_def)

lemma fresh_keeps [simp]:
  "fresh now (tx\<lparr>sender := a\<rparr>) = fresh now tx" "fresh now (tx\<lparr>recipient := a\<rparr>) = fresh now tx" "fresh now (tx\<lparr>amount := v\<rparr>) = fresh now tx"
  "fresh now (tx\<lparr>fee := v\<rparr>) = fresh now tx" "fresh now (tx\<lparr>signatures := gs\<rparr>) = fresh now tx" "fresh now (tx\<lparr>transactionHash := h\<rparr>) = fresh now tx"
  "fresh now (tx\<lparr>fee_estimate := e\<rparr>) = fresh now tx" "fresh now (tx\<lparr>tx_data := d\<rparr>) = fresh now tx" "fresh now (tx\<lparr>operation := p\<rparr>) = fresh now tx"
  "fresh now (tx\<lparr>nonce := n\<rparr>) = fresh now tx" "fresh now (tx\<lparr>tx_hash := d\<rparr>) = fresh now tx"
  by (simp_all add: fresh_def)

lemma let_text:
  assumes "fresh now tx" shows
  "sender tx = None \<Longrightarrow> pred_option (plain_address H) v \<Longrightarrow>
    if_let v (\<lambda>t. obind (address_init H t) (\<lambda>a. change_sender now (Some a) tx)) tx i = (Ok (tx\<lparr>sender := v\<rparr>), i)"
  "recipient tx = None \<Longrightarrow> pred_option (plain_address H) v \<Longrightarrow>
    if_let v (\<lambda>t. obind (address_init H t) (\<lambda>a. change_recipient now (Some a) tx)) tx i = (Ok (tx\<lparr>recipient := v\<rparr>), i)"
  "transactionHash tx = None \<Longrightarrow> if_let v (\<lambda>h. set_hash now h tx) tx i = (Ok (tx\<lparr>transactionHash := v\<rparr>), i)"
  "tx_data tx = None \<Longrightarrow> if_let d (\<lambda>d. change_data now (Some d) tx) tx i = (Ok (tx\<lparr>tx_data := d\<rparr>), i)"
  "operation tx = None \<Longrightarrow> if_let p (\<lambda>p. change_operation now (Some p) tx) tx i = (Ok (tx\<lparr>operation := p\<rparr>), i)"
  "nonce tx = None \<Longrightarrow> if_let v (\<lambda>n. change_nonce now (Some n) tx) tx i = (Ok (tx\<lparr>nonce := v\<rparr>), i)"
  "tx_hash tx = None \<Longrightarrow> if_let d (\<lambda>d. change_hash now (Some d) tx) tx i = (Ok (tx\<lparr>tx_hash := d\<rparr>), i)"
proof -
  note defs = if_let_def change_sender_def change_recipient_def change_data_def change_operation_def change_nonce_def change_hash_def
    set_hash_eq_Ok fresh_changing [OF assms] plain_init
  show "sender tx = None \<Longrightarrow> pred_option (plain_address H) v \<Longrightarrow>
      if_let v (\<lambda>t. obind (address_init H t) (\<lambda>a. change_sender now (Some a) tx)) tx i = (Ok (tx\<lparr>sender := v\<rparr>), i)"
    using assms by (cases v) (simp_all add: defs)
  show "recipient tx = None \<Longrightarrow> pred_option (plain_address H) v \<Longrightarrow>
      if_let v (\<lambda>t. obind (address_init H t) (\<lambda>a. change_recipient now (Some a) tx)) tx i = (Ok (tx\<lparr>recipient := v\<rparr>), i)"
    using assms by (cases v) (simp_all add: defs)
  show "transactionHash tx = None \<Longrightarrow> if_let v (\<lambda>h. set_hash now h tx) tx i = (Ok (tx\<lparr>transactionHash := v\<rparr>), i)"
    using assms by (cases v) (simp_all add: defs fresh_def)
  show "tx_data tx = None \<Longrightarrow> if_let d (\<lambda>d. change_data now (Some d) tx) tx i = (Ok (tx\<lparr>tx_data := d\<rparr>), i)"
    using assms by (cases d) (simp_all add: defs)
  show "operation tx = None \<Longrightarrow> if_let p (\<lambda>p. change_operation now (Some p) tx) tx i = (Ok (tx\<lparr>operation := p\<rparr>), i)"
    using assms by (cases p) (simp_all add: defs)
  show "nonce tx = None \<Longrightarrow> if_let v (\<lambda>n. change_nonce now (Some n) tx) tx i = (Ok (tx\<lparr>nonce := v\<rparr>), i)"
    using assms by (cases v) (simp_all add: defs)
  show "tx_hash tx = None \<Longrightarrow> if_let d (\<lambda>d. change_hash now (Some d) tx) tx i = (Ok (tx\<lparr>tx_hash := d\<rparr>), i)"
    using assms by (cases d) (simp_all add: defs)
qed

lemma add_signatures_run:
  "fresh now tx \<Longrightarrow> distinct (signatures tx @ gs) \<Longrightarrow> add_signatures now gs tx = Ok (tx\<lparr>signatures := signatures tx @ gs\<rparr>)"
proof (induction gs arbitrary: tx)
  case (Cons g gs)
  have "add_signature now g tx = Ok (tx\<lparr>signatures := signatures tx @ [g]\<rparr>)"
    using Cons.prems by (auto simp: add_signature_eq_Ok fresh_def)
  then show ?case using Cons.IH [of "tx\<lparr>signatures := signatures tx @ [g]\<rparr>"] Cons.prems by simp
qed simp

lemma transaction_reads:
  assumes row: "row_holds L (rs_stmt rs) (transaction_row S tx) c" and "storable S tx"
  shows "string_at L rs 0 c = Ok (Some (tx_id tx))" "string_at L rs 1 c = Ok (Some (tx_walletID tx))" "string_at L rs 2 c = Ok (Some (tx_accountID tx))"
    "int_at L rs 3 c = Ok (Some (type_rawValue (tx_type tx)))" "int_at L rs 4 c = Ok (Some (code_rawValue (status tx)))"
    "string_at L rs 5 c = Ok (sender tx)" "string_at L rs 6 c = Ok (recipient tx)"
    "string_at L rs 7 c = Ok (map_option amount_text (amount tx))" "string_at L rs 8 c = Ok (map_option amount_text (fee tx))"
    "string_at L rs 9 c = Ok (Some (signatures_text (st_hex S) (signatures tx)))"
    "string_at L rs 10 c = Ok (map_option (printDouble S) (createdDate tx))" "string_at L rs 11 c = Ok (map_option (printDouble S) (updatedDate tx))"
    "string_at L rs 12 c = Ok (map_option (printDouble S) (rejectedDate tx))" "string_at L rs 13 c = Ok (map_option (printDouble S) (submittedDate tx))"
    "string_at L rs 14 c = Ok (map_option (printDouble S) (processedDate tx))" "string_at L rs 15 c = Ok (transactionHash tx)"
    "int_at L rs 16 c = Ok (map_option gas (fee_estimate tx))" "int_at L rs 17 c = Ok (map_option dataGas (fee_estimate tx))"
    "int_at L rs 18 c = Ok (map_option operationalGas (fee_estimate tx))"
    "string_at L rs 19 c = Ok (map_option (amount_text \<circ> gasPrice) (fee_estimate tx))"
    "data_at L rs 20 c = Ok (tx_data tx)" "int_at L rs 21 c = Ok (map_option operation_rawValue (operation tx))"
    "string_at L rs 22 c = Ok (nonce tx)" "data_at L rs 23 c = Ok (tx_hash tx)"
  using assms(2)
  by (simp_all add: storable_def transaction_row_def serialized_date_def comp_def option.map_comp option.map_ident
      string_row [OF row] int_row [OF row] data_row [OF row])

lemma tx_init_fresh: "fresh now (tx_init now i ty w a)" "sender (tx_init now i ty w a) = None" "recipient (tx_init now i ty w a) = None"
  "amount (tx_init now i ty w a) = None" "fee (tx_init now i ty w a) = None" "signatures (tx_init now i ty w a) = []"
  "transactionHash (tx_init now i ty w a) = None" "fee_estimate (tx_init now i ty w a) = None" "tx_data (tx_init now i ty w a) = None"
  "operation (tx_init now i ty w a) = None" "nonce (tx_init now i ty w a) = None" "tx_hash (tx_init now i ty w a) = None"
  by (simp_all add: fresh_def tx_init_def tx_stamp_defs)

text \<open>The draft with the parameters of a transaction, as it is before the status and the dates are restored.\<close>

definition unstamped :: "date \<Rightarrow> transaction \<Rightarrow> transaction" where
  "unstamped now tx = (tx_init now (tx_id tx) (tx_type tx) (tx_walletID tx) (tx_accountID tx))\<lparr>sender := sender tx, recipient := recipient tx,
     amount := amount tx, fee := fee tx, signatures := signatures tx, transactionHash := transactionHash tx, fee_estimate := fee_estimate tx,
     tx_data := tx_data tx, operation := operation tx, nonce := nonce tx, tx_hash := tx_hash tx\<rparr>"

lemma next_apply: "nextString L rs c i = (string_at L rs i c, i + 1)" "nextInt L rs c i = (int_at L rs i c, i + 1)" "nextData L rs c i = (data_at L rs i c, i + 1)"
  by (simp_all add: nextString_def nextInt_def nextData_def)

lemma restored_status:
  assumes "tx_ok tx"
  shows "\<exists>y. restore_status now (status tx) (unstamped now tx) = Ok y \<and>
    timestamp_with (createdDate tx, updatedDate tx, rejectedDate tx, submittedDate tx, processedDate tx) y =
      tx\<lparr>createdDate := Some (case createdDate tx of None \<Rightarrow> now | Some d \<Rightarrow> d), updatedDate := Some (case updatedDate tx of None \<Rightarrow> now | Some d \<Rightarrow> d)\<rparr>"
  using assms
  by (cases "status tx"; cases "createdDate tx"; cases "updatedDate tx"; cases "rejectedDate tx"; cases "submittedDate tx"; cases "processedDate tx")
    (auto simp: tx_ok_def restore_status_def timestamp_with_def stamp_def unstamped_def tx_init_def tx_stamp_defs tx_status_defs tx_event_defs
      assert_defs)

context storage_library
begin

lemma let_amount:
  assumes "fresh now tx" shows
  "amount tx = None \<Longrightarrow> pred_option (storable_amount S) v \<Longrightarrow>
    if_amount S (map_option amount_text v) (\<lambda>a. change_amount now (Some a) tx) tx i = (Ok (tx\<lparr>amount := v\<rparr>), i)"
  "fee tx = None \<Longrightarrow> pred_option (storable_amount S) v \<Longrightarrow>
    if_amount S (map_option amount_text v) (\<lambda>a. change_fee now (Some a) tx) tx i = (Ok (tx\<lparr>fee := v\<rparr>), i)"
  "storable_amount S p \<Longrightarrow>
    if_amount S (Some (amount_text p)) (\<lambda>a. change_feeEstimate now (Some \<lparr>gas = g, dataGas = d, operationalGas = o', gasPrice = a\<rparr>) tx) tx i =
      (Ok (tx\<lparr>fee_estimate := Some \<lparr>gas = g, dataGas = d, operationalGas = o', gasPrice = p\<rparr>\<rparr>), i)"
proof -
  note defs = if_amount_def storable_amount_def amount_round_trip change_amount_def change_fee_def change_feeEstimate_def fresh_changing [OF assms]
  show "amount tx = None \<Longrightarrow> pred_option (storable_amount S) v \<Longrightarrow>
      if_amount S (map_option amount_text v) (\<lambda>a. change_amount now (Some a) tx) tx i = (Ok (tx\<lparr>amount := v\<rparr>), i)"
    using assms by (cases v) (simp_all add: defs)
  show "fee tx = None \<Longrightarrow> pred_option (storable_amount S) v \<Longrightarrow>
      if_amount S (map_option amount_text v) (\<lambda>a. change_fee now (Some a) tx) tx i = (Ok (tx\<lparr>fee := v\<rparr>), i)"
    using assms by (cases v) (simp_all add: defs)
  show "storable_amount S p \<Longrightarrow>
      if_amount S (Some (amount_text p)) (\<lambda>a. change_feeEstimate now (Some \<lparr>gas = g, dataGas = d, operationalGas = o', gasPrice = a\<rparr>) tx) tx i =
        (Ok (tx\<lparr>fee_estimate := Some \<lparr>gas = g, dataGas = d, operationalGas = o', gasPrice = p\<rparr>\<rparr>), i)"
    using assms by (simp add: defs)
qed

lemma let_signatures:
  assumes "fresh now tx" "signatures tx = []" "distinct gs" "\<forall>g \<in> set gs. plain_address (st_hex S) (sig_address g)"
  shows "if_let (Some (signatures_text (st_hex S) gs)) (\<lambda>t. obind (signatures_of_text (st_hex S) t) (\<lambda>gs. add_signatures now gs tx)) tx i =
    (Ok (tx\<lparr>signatures := gs\<rparr>), i)"
  using add_signatures_run [OF assms(1), of gs] assms by (simp add: if_let_def signatures_round_trip)

lemma read_date: "date_ok S d \<Longrightarrow> deserializedDate S (map_option (printDouble S) d) = d"
  by (cases d) (simp_all add: deserializedDate_def date_ok_def)

lemma remaining_run:
  assumes row: "row_holds L (rs_stmt rs) (transaction_row S tx) c" and st: "storable S tx" and y: "fresh now y"
    "fee_estimate y = None" "tx_data y = None" "operation y = None" "nonce y = None" "tx_hash y = None"
  shows "updateRemaining L S now rs c y 16 = (Ok (y\<lparr>fee_estimate := fee_estimate tx, tx_data := tx_data tx, operation := operation tx,
    nonce := nonce tx, tx_hash := tx_hash tx\<rparr>), 24)"
proof -
  note reads = transaction_reads [OF row st]
  have op: "Option.bind (map_option operation_rawValue (operation tx)) operation_of_rawValue = operation tx" by (cases "operation tx") simp_all
  note defs = updateRemaining_def act_bind_def next_apply reads let_text let_amount op y
  show ?thesis
  proof (cases "fee_estimate tx")
    case (Some e)
    then have "storable_amount S (gasPrice e)" using st by (simp add: storable_def)
    then show ?thesis by (simp add: defs Some)
  qed (simp add: defs)
qed

lemma update_run:
  assumes row: "row_holds L (rs_stmt rs) (transaction_row S tx) c" and st: "storable S tx" and sigs: "distinct (signatures tx)"
  shows "update_from L S now rs c (tx_init now (tx_id tx) (tx_type tx) (tx_walletID tx) (tx_accountID tx)) 5 =
    (Ok (unstamped now tx, createdDate tx, updatedDate tx, rejectedDate tx, submittedDate tx, processedDate tx), 24)"
proof -
  note reads = transaction_reads [OF row st]
  have ok: "pred_option (plain_address (st_hex S)) (sender tx)" "pred_option (plain_address (st_hex S)) (recipient tx)"
    "pred_option (storable_amount S) (amount tx)" "pred_option (storable_amount S) (fee tx)"
    "\<forall>g \<in> set (signatures tx). plain_address (st_hex S) (sig_address g)"
    "date_ok S (createdDate tx)" "date_ok S (updatedDate tx)" "date_ok S (rejectedDate tx)" "date_ok S (submittedDate tx)" "date_ok S (processedDate tx)"
    using st by (simp_all add: storable_def)
  show ?thesis
    by (simp add: update_from_def fetchTimestamps_def act_bind_def next_apply reads tx_init_fresh let_text let_amount
        let_signatures ok sigs read_date remaining_run [OF row st] unstamped_def)
qed

end

subsection \<open>Wallets and portfolios\<close>

definition wallet_columns :: "string list" where
  "wallet_columns = [''id'', ''state'', ''owners'', ''address'', ''fee_payment_token_address'', ''minimum_deployment_tx_amount'',
     ''creation_tx_hash'', ''confirmation_count'', ''master_copy_address'', ''contract_version'']"

definition wallet_row :: "wallet \<Rightarrow> sqlBindable option list" where
  "wallet_row w =
    [Some (BString (wallet_id w)), Some (BInt (state_rawValue (state w))), Some (BString (owners_text (owners w))),
     map_option BString (address_of w), map_option BString (feePaymentTokenAddress w),
     map_option (BString \<circ> decimal) (minimumDeploymentTransactionAmount w), map_option BString (creationTransactionHash w),
     Some (BInt (confirmationCount w)), map_option BString (masterCopyAddress w), map_option BString (contractVersion w)]"

text \<open>\<open>Address(serializedValue:)\<close> and \<open>TokenInt(serializedValue:)\<close>.\<close>

definition serialized_address :: "hex_functions \<Rightarrow> string option \<Rightarrow> ('e, address option) outcome" where
  "serialized_address H v = (case v of None \<Rightarrow> Ok None | Some t \<Rightarrow> omap Some (address_init H t))"

definition serialized_tokenInt :: "number_functions \<Rightarrow> string option \<Rightarrow> int option" where
  "serialized_tokenInt N v = (case v of None \<Rightarrow> None | Some t \<Rightarrow> readBigInt N t)"

definition walletFromResultSet :: "'c csqlite3 \<Rightarrow> storage_functions \<Rightarrow> resultSet \<Rightarrow> 'c \<Rightarrow> (wallet_error, wallet option) outcome" where
  "walletFromResultSet L S rs c =
     (let string = (\<lambda>column. by_column (string_at L) rs column c); number = (\<lambda>column. by_column (int_at L) rs column c) in
      obind (string ''id'') (\<lambda>idOrNil. obind (number ''state'') (\<lambda>stateOrNil. obind (string ''owners'') (\<lambda>ownersOrNil.
      obind (number ''confirmation_count'') (\<lambda>countOrNil.
      case (idOrNil, Option.bind stateOrNil state_of_rawValue, ownersOrNil, countOrNil) of
        (Some i, Some st, Some ownersString, Some confs) \<Rightarrow>
          obind (string ''minimum_deployment_tx_amount'') (\<lambda>minimum.
          obind (owners_of_text (st_hex S) ownersString) (\<lambda>os.
          obind (string ''address'') (\<lambda>a. obind (serialized_address (st_hex S) a) (\<lambda>a.
          obind (string ''fee_payment_token_address'') (\<lambda>f. obind (serialized_address (st_hex S) f) (\<lambda>f.
          obind (string ''creation_tx_hash'') (\<lambda>h.
          obind (string ''master_copy_address'') (\<lambda>m. obind (serialized_address (st_hex S) m) (\<lambda>m.
          obind (string ''contract_version'') (\<lambda>v.
          omap Some (wallet_restore i st os a f (serialized_tokenInt (st_numbers S) minimum) h confs m v)))))))))))
      | _ \<Rightarrow> Ok None)))))"

definition portfolio_columns :: "string list" where
  "portfolio_columns = [''id'', ''wallets'', ''selected_wallet'']"

definition portfolio_row :: "portfolio \<Rightarrow> sqlBindable option list" where
  "portfolio_row p = [Some (BString (portfolio_id p)), Some (BString (wallets_text (wallets p))), map_option BString (selectedWallet p)]"

definition portfolioFromResultSet :: "'c csqlite3 \<Rightarrow> resultSet \<Rightarrow> 'c \<Rightarrow> (portfolio_error, portfolio option) outcome" where
  "portfolioFromResultSet L rs c =
     (let string = (\<lambda>column. by_column (string_at L) rs column c) in
      obind (string ''id'') (\<lambda>idOrNil. obind (string ''wallets'') (\<lambda>walletsOrNil.
      case (idOrNil, walletsOrNil) of
        (Some i, Some ws) \<Rightarrow> obind (string ''selected_wallet'') (\<lambda>sel. omap Some (portfolio_restore i (wallets_of_text ws) sel))
      | _ \<Rightarrow> Ok None)))"

text \<open>The indexes that the result set of a query for these columns has.\<close>

definition column_index :: "string list \<Rightarrow> string \<rightharpoonup> int" where
  "column_index names = map_of (zip names (map int [0..<length names]))"

lemma wallet_reads:
  assumes row: "row_holds L (rs_stmt rs) (wallet_row w) c" and clean: "clean_row (wallet_row w)" and cols: "columnIndexes rs = column_index wallet_columns"
  shows "by_column (string_at L) rs ''id'' c = Ok (Some (wallet_id w))" "by_column (int_at L) rs ''state'' c = Ok (Some (state_rawValue (state w)))"
    "by_column (string_at L) rs ''owners'' c = Ok (Some (owners_text (owners w)))" "by_column (string_at L) rs ''address'' c = Ok (address_of w)"
    "by_column (string_at L) rs ''fee_payment_token_address'' c = Ok (feePaymentTokenAddress w)"
    "by_column (string_at L) rs ''minimum_deployment_tx_amount'' c = Ok (map_option decimal (minimumDeploymentTransactionAmount w))"
    "by_column (string_at L) rs ''creation_tx_hash'' c = Ok (creationTransactionHash w)"
    "by_column (int_at L) rs ''confirmation_count'' c = Ok (Some (confirmationCount w))"
    "by_column (string_at L) rs ''master_copy_address'' c = Ok (masterCopyAddress w)" "by_column (string_at L) rs ''contract_version'' c = Ok (contractVersion w)"
  using clean
  by (simp_all add: by_column_def cols column_index_def wallet_columns_def wallet_row_def comp_def option.map_comp option.map_ident upt_rec
      string_row [OF row] int_row [OF row])

lemma portfolio_reads:
  assumes row: "row_holds L (rs_stmt rs) (portfolio_row p) c" and clean: "clean_row (portfolio_row p)" and cols: "columnIndexes rs = column_index portfolio_columns"
  shows "by_column (string_at L) rs ''id'' c = Ok (Some (portfolio_id p))" "by_column (string_at L) rs ''wallets'' c = Ok (Some (wallets_text (wallets p)))"
    "by_column (string_at L) rs ''selected_wallet'' c = Ok (selectedWallet p)"
  using clean
  by (simp_all add: by_column_def cols column_index_def portfolio_columns_def portfolio_row_def comp_def option.map_comp option.map_ident upt_rec
      string_row [OF row])

lemma serialized_plain: "pred_option (plain_address H) a \<Longrightarrow> serialized_address H a = Ok a"
  by (cases a) (simp_all add: serialized_address_def plain_init)

text \<open>A wallet with one owner per role is restored from its parts; a portfolio is rebuilt wallet by wallet.\<close>

lemma restore_parts:
  assumes "roles_unique (owners w)"
  shows "wallet_restore (wallet_id w) (state w) (owners w) (address_of w) (feePaymentTokenAddress w) (minimumDeploymentTransactionAmount w)
    (creationTransactionHash w) (confirmationCount w) (masterCopyAddress w) (contractVersion w) = Ok w"
  using addOwners_unique [of "wallet_empty (wallet_id w)" "owners w"] assms
  by (simp add: wallet_restore_def wallet_empty_def canChangeOwners_def)

lemma addWallets_run: "distinct (wallets p @ ws) \<Longrightarrow> addWallets p ws = Ok (p\<lparr>wallets := wallets p @ ws,
  selectedWallet := (if wallets p = [] \<and> ws \<noteq> [] then Some (hd ws) else selectedWallet p)\<rparr>)"
proof (induction ws arbitrary: p)
  case (Cons w ws)
  have "addWallet p w = Ok (p\<lparr>wallets := wallets p @ [w], selectedWallet := (if wallets p = [] then Some w else selectedWallet p)\<rparr>)"
    using Cons.prems by (auto simp: addWallet_def hasWallet_def Let_def)
  then show ?case using Cons.IH [of "p\<lparr>wallets := wallets p @ [w], selectedWallet := (if wallets p = [] then Some w else selectedWallet p)\<rparr>"] Cons.prems
    by simp
qed simp

end
