(* ===== verification/Storage_Check.thy ===== *)
theory Storage_Check
  imports Storage
begin

section \<open>Entities come back from the database\<close>

text \<open>The properties of \<open>Storage\<close>, with a reference for the conversions of the libraries.\<close>

definition reference_storage :: storage_functions where
  "reference_storage = \<lparr>st_hex = reference_library, st_numbers = reference_numbers, printDouble = (\<lambda>x. decimal \<lfloor>x\<rfloor>),
     readDouble = (\<lambda>s. map_option real_of_int (signed_text s))\<rparr>"

interpretation reference_storage: storage_library reference_storage
proof (rule storage_library.intro)
  have "digit k \<in> set ''0123456789abcdef''" if "k < 16" for k unfolding digit_def by (rule nth_mem) (use that in simp)
  then have "digit ` {..<16} \<subseteq> set ''0123456789abcdef''" by blast
  moreover have "set (toHexString (st_hex reference_storage) d) \<subseteq> digit ` {..<16}" for d
    using hex_string_write [of d] unfolding list_all_iff by (simp only: reference_storage_def reference_library_def storage_functions.simps hex_functions.simps) blast
  ultimately show "set (toHexString (st_hex reference_storage) d) \<subseteq> set ''0123456789abcdef''" for d by (rule order_trans [rotated])
qed (simp_all add: reference_storage_def reference.hex_library_axioms reference_numbers.number_library_axioms)

lemma ref_row_holds: "row_holds (ref_sqlite answers) 0 vs [RefStmt 0 (replicate (length vs) []) [map bound_value vs] 1]"
proof -
  have "column_holds (ref_sqlite answers) 0 (int i) (vs ! i) [RefStmt 0 (replicate (length vs) []) [map bound_value vs] 1]" if "i < length vs" for i
    using that by (cases "vs ! i" rule: bound_value.cases)
      (auto simp: column_holds_def ref_sqlite_def ref_value_def ref_current_def ref_get_def safe_get_def)
  then show ?thesis by (simp add: row_holds_def columnCount_def ref_sqlite_def ref_current_def ref_get_def)
qed

definition nul_free :: "string \<Rightarrow> bool" where
  "nul_free t \<longleftrightarrow> CHR 0x00 \<notin> set t"

lemma clean_rows [simp]: "clean_row []" "clean_row (None # vs) = clean_row vs" "clean_row (Some (BString t) # vs) \<longleftrightarrow> nul_free t \<and> clean_row vs"
  "clean_row (Some (BInt n) # vs) = clean_row vs" "clean_row (Some (BData d) # vs) = clean_row vs"
  by (auto simp: clean_row_def nul_free_def)

lemma nul_free_texts [simp]: "nul_free (decimal i)" "nul_free (sample_address k)" "nul_free (x @ y) \<longleftrightarrow> nul_free x \<and> nul_free y"
  "nul_free []" "nul_free (c # x) \<longleftrightarrow> c \<noteq> CHR 0x00 \<and> nul_free x" "nul_free (toHexString reference_library d)"
proof -
  show "nul_free (decimal i)" using decimal_letters [of i] by (auto simp: nul_free_def is_digit_def)
  have hex: "nul_free (toHexString reference_library d)" for d
    using reference_storage.hex_alphabet [of d] by (auto simp: nul_free_def reference_storage_def)
  then show "nul_free (toHexString reference_library d)" .
  show "nul_free (sample_address k)" using hex by (simp add: sample_address_def address_text_def nul_free_def)
qed (auto simp: nul_free_def)

lemma plain_sample: "plain_address reference_library (sample_address k)"
proof -
  have "set (toHexString reference_library d) \<inter> set '',:;~='' = {}" for d
    using reference_storage.hex_alphabet [of d] by (auto simp: reference_storage_def)
  then show ?thesis using sample_address_valid [of k] nul_free_texts(2) [of k]
    by (auto simp: plain_address_def valid_address_def nul_free_def sample_address_def address_text_def)
qed

subsection \<open>Transactions\<close>

text \<open>
  C7. Stored transactions survive: for every transaction that the operations of the entity can reach, if its texts have no separators inside, its addresses
  are valid and its data not empty, reading the row that saving it binds does not trap and gives the same transaction back: parameters,
  signatures in their order, status and all dates. The two dates that a reset has cleared, of creation and of the last change, come back as
  the date of reading.
\<close>

theorem stored_transaction_read:
  assumes "storage_library S" and "tx_reachable tx" and "storable S tx" and "row_holds L (rs_stmt rs) (transaction_row S tx) c"
  shows "transactionFromResultSet L S now rs c = Ok (Some (tx\<lparr>createdDate := Some (case createdDate tx of None \<Rightarrow> now | Some d \<Rightarrow> d),
    updatedDate := Some (case updatedDate tx of None \<Rightarrow> now | Some d \<Rightarrow> d)\<rparr>))"
proof -
  have ok: "tx_ok tx" by (rule tx_reachable_ok [OF assms(2)])
  then have "distinct (signatures tx)" by (simp add: tx_ok_def)
  note update = storage_library.update_run [OF assms(1,4,3) this]
  obtain y where "restore_status now (status tx) (unstamped now tx) = Ok y"
    "timestamp_with (createdDate tx, updatedDate tx, rejectedDate tx, submittedDate tx, processedDate tx) y =
      tx\<lparr>createdDate := Some (case createdDate tx of None \<Rightarrow> now | Some d \<Rightarrow> d), updatedDate := Some (case updatedDate tx of None \<Rightarrow> now | Some d \<Rightarrow> d)\<rparr>"
    using restored_status [OF ok] by blast
  then show ?thesis
    by (simp add: transactionFromResultSet_def act_bind_def next_apply transaction_reads [OF assms(4,3)] update)
qed

definition stored_tx :: transaction where
  "stored_tx = (tx_init 1 ''t'' transactionType.transfer ''w'' ''0x0:w'')\<lparr>sender := Some (sample_address 1), recipient := Some (sample_address 2),
     amount := Some (ether 5), fee := Some (ether 1), signatures := [\<lparr>sig_address = sample_address 3, sig_data = [7, 8]\<rparr>],
     transactionHash := Some ''0xab'', status := pending, submittedDate := Some 4, updatedDate := Some 4\<rparr>"

lemma stored_tx_reachable: "tx_reachable stored_tx"
proof -
  let ?t0 = "tx_init 1 ''t'' transactionType.transfer ''w'' ''0x0:w''" and ?g = "\<lparr>sig_address = sample_address 3, sig_data = [7, 8]\<rparr> :: signature"
  let ?t1 = "?t0\<lparr>sender := Some (sample_address 1)\<rparr>" let ?t2 = "?t1\<lparr>recipient := Some (sample_address 2)\<rparr>"
  let ?t3 = "?t2\<lparr>amount := Some (ether 5)\<rparr>" let ?t4 = "?t3\<lparr>fee := Some (ether 1)\<rparr>"
  let ?t5 = "?t4\<lparr>status := signing, updatedDate := Some 2\<rparr>" let ?t6 = "?t5\<lparr>signatures := [?g], updatedDate := Some 3\<rparr>"
  let ?t7 = "?t6\<lparr>transactionHash := Some ''0xab'', updatedDate := Some 3\<rparr>"
  note init = tx_init_def tx_stamp_defs
  have "tx_reachable ?t0" by (rule tx_reachable.start)
  then have "tx_reachable ?t1" by (rule tx_reachable.step, intro tx_step.senderS [of 1]) (simp add: tx_edit_eq_Ok init)
  then have "tx_reachable ?t2" by (rule tx_reachable.step, intro tx_step.recipientS [of 1]) (simp add: tx_edit_eq_Ok init)
  then have "tx_reachable ?t3" by (rule tx_reachable.step, intro tx_step.amountS [of 1]) (simp add: tx_edit_eq_Ok init)
  then have "tx_reachable ?t4" by (rule tx_reachable.step, intro tx_step.feeS [of 1]) (simp add: tx_edit_eq_Ok init)
  then have "tx_reachable ?t5" by (rule tx_reachable.step, intro tx_step.event [of "Proceed 2"]) (simp add: tx_apply_eq init)
  then have "tx_reachable ?t6" by (rule tx_reachable.step, intro tx_step.addS [of 3 ?g]) (simp add: tx_edit_eq_Ok init)
  then have "tx_reachable ?t7" by (rule tx_reachable.step, intro tx_step.setHashS [of 3]) (simp add: tx_edit_eq_Ok init)
  then show ?thesis unfolding stored_tx_def by (rule tx_reachable.step, intro tx_step.event [of "Proceed 4"]) (simp add: tx_apply_eq init)
qed

lemma Ether_plain: "plain_token Ether" "plain_address reference_library (token_address Ether)" "nul_free (token_text Ether)"
  by (code_simp, code_simp, code_simp)

lemma stored_tx_storable: "storable reference_storage stored_tx"
proof -
  have amounts: "nul_free (amount_text (ether n))" "storable_amount reference_storage (ether n)" for n
    using Ether_plain by (simp_all add: amount_text_def ether_def storable_amount_def reference_storage_def)
  show ?thesis using amounts plain_sample
    by (simp add: storable_def stored_tx_def tx_init_def tx_stamp_defs transaction_row_def serialized_date_def signatures_text_def reference_storage_def
        date_ok_def signed_text_decimal)
qed

theorem stored_transaction_read_witness:
  "transactionFromResultSet (ref_sqlite ref_answers) reference_storage 9 \<lparr>rs_db = 1, rs_stmt = 0, columnIndexes = Map.empty\<rparr>
     [RefStmt 0 (replicate 24 []) [map bound_value (transaction_row reference_storage stored_tx)] 1] = Ok (Some stored_tx)"
proof -
  have len: "length (transaction_row reference_storage stored_tx) = 24" by (simp add: transaction_row_def)
  have "stored_tx\<lparr>createdDate := Some (case createdDate stored_tx of None \<Rightarrow> 9 | Some d \<Rightarrow> d),
      updatedDate := Some (case updatedDate stored_tx of None \<Rightarrow> 9 | Some d \<Rightarrow> d)\<rparr> = stored_tx"
    by (simp add: stored_tx_def tx_init_def tx_stamp_defs)
  then show ?thesis
    using stored_transaction_read [OF reference_storage.storage_library_axioms stored_tx_reachable stored_tx_storable,
        of "ref_sqlite ref_answers" "\<lparr>rs_db = 1, rs_stmt = 0, columnIndexes = Map.empty\<rparr>" _ 9]
      ref_row_holds [of ref_answers "transaction_row reference_storage stored_tx"] len by simp
qed

subsection \<open>Wallets\<close>

text \<open>
  C8. Stored wallets survive: for every wallet that the operations of the entity can reach, if its addresses are valid and its texts
  have no terminating character inside, reading the row that saving it binds does not trap and gives the same wallet back, with its state, its
  owners in their order and all optional fields.
\<close>

theorem stored_wallet_read:
  assumes S: "storage_library S" and "world_reachable x" and clean: "clean_row (wallet_row (the_wallet x))"
    and plain: "\<forall>a \<in> set [address_of (the_wallet x), feePaymentTokenAddress (the_wallet x), masterCopyAddress (the_wallet x)].
      pred_option (plain_address (st_hex S)) a"
    and owners: "\<forall>y \<in> set (owners (the_wallet x)). plain_address (st_hex S) (owner_address y)"
    and row: "row_holds L (rs_stmt rs) (wallet_row (the_wallet x)) c" and cols: "columnIndexes rs = column_index wallet_columns"
  shows "walletFromResultSet L S rs c = Ok (Some (the_wallet x))"
proof -
  have minimum: "serialized_tokenInt (st_numbers S) (map_option decimal m) = m" for m
    by (cases m) (simp_all add: serialized_tokenInt_def number_library.bigInt_decimal [OF storage_library.numbers [OF S]])
  show ?thesis
    using plain by (simp add: walletFromResultSet_def Let_def wallet_reads [OF row clean cols] minimum serialized_plain
      owners_round_trip [OF owners] restore_parts [OF world_reachable_unique [OF assms(2)]])
qed

definition stored_wallet :: wallet where
  "stored_wallet = (wallet_empty ''w1'')\<lparr>owners := [\<lparr>owner_address = sample_address 1, owner_role = thisDevice\<rparr>],
     feePaymentTokenAddress := Some (sample_address 2)\<rparr>"

lemma stored_wallet_reachable:
  "world_reachable \<lparr>the_wallet = stored_wallet, saved = None, published = [], ether_account = None\<rparr>" (is "world_reachable ?x")
proof -
  let ?w = "(wallet_empty ''w1'')\<lparr>owners := [\<lparr>owner_address = sample_address 1, owner_role = thisDevice\<rparr>]\<rparr>"
  let ?y = "\<lparr>the_wallet = ?w, saved = None, published = [], ether_account = None\<rparr> :: world"
  have "wallet_init ''w1'' (sample_address 1) = Ok ?w"
    by (simp add: wallet_init_def addOwner_eq_Ok wallet_empty_def canChangeOwners_def remove_with_def)
  then have "world_reachable ?y" by (rule world_reachable.start)
  moreover have "world_step ?y (?y\<lparr>the_wallet := changeFeePaymentToken (the_wallet ?y) (sample_address 2)\<rparr>)" by (rule world_step.feeTokenW)
  moreover have "?y\<lparr>the_wallet := changeFeePaymentToken (the_wallet ?y) (sample_address 2)\<rparr> = ?x"
    by (simp add: changeFeePaymentToken_def stored_wallet_def wallet_empty_def)
  ultimately show ?thesis using world_reachable.step by metis
qed

theorem stored_wallet_read_witness:
  "walletFromResultSet (ref_sqlite ref_answers) reference_storage \<lparr>rs_db = 1, rs_stmt = 0, columnIndexes = column_index wallet_columns\<rparr>
     [RefStmt 0 (replicate 10 []) [map bound_value (wallet_row stored_wallet)] 1] = Ok (Some stored_wallet)"
proof -
  have len: "length (wallet_row stored_wallet) = 10" by (simp add: wallet_row_def)
  have clean: "clean_row (wallet_row stored_wallet)" by (simp add: wallet_row_def stored_wallet_def wallet_empty_def owners_text_def)
  have plain: "\<forall>a \<in> set [address_of stored_wallet, feePaymentTokenAddress stored_wallet, masterCopyAddress stored_wallet].
      pred_option (plain_address (st_hex reference_storage)) a"
    "\<forall>y \<in> set (owners stored_wallet). plain_address (st_hex reference_storage) (owner_address y)"
    by (simp_all add: stored_wallet_def wallet_empty_def plain_sample reference_storage_def)
  show ?thesis
    using stored_wallet_read [OF reference_storage.storage_library_axioms stored_wallet_reachable,
        of "ref_sqlite ref_answers" "\<lparr>rs_db = 1, rs_stmt = 0, columnIndexes = column_index wallet_columns\<rparr>"]
      ref_row_holds [of ref_answers "wallet_row stored_wallet"] len clean plain by simp
qed

subsection \<open>Portfolios\<close>

text \<open>
  C28. What becomes of a stored portfolio: of one that the operations of the entity can reach, if no wallet identifier has a comma, the row that saving
  it binds is read as follows. Without wallets, one wallet with the empty identifier appears and is selected; with a selected wallet that is one of the
  wallets the same portfolio comes back; if the selected wallet has been removed from the list, reading traps.
\<close>

theorem stored_portfolio_read:
  assumes "portfolio_reachable p" and ids: "\<forall>w \<in> set (wallets p). CHR '','' \<notin> set w" and clean: "clean_row (portfolio_row p)"
    and row: "row_holds L (rs_stmt rs) (portfolio_row p) c" and cols: "columnIndexes rs = column_index portfolio_columns"
  shows "portfolioFromResultSet L rs c =
    (if wallets p = [] then Ok (Some (p\<lparr>wallets := [''''], selectedWallet := Some ''''\<rparr>))
     else if \<exists>w \<in> set (wallets p). selectedWallet p = Some w then Ok (Some p) else Trap)"
proof -
  note reads = portfolio_reads [OF row clean cols]
  have p: "distinct (wallets p)" "selectedWallet p = None \<longleftrightarrow> wallets p = []" using portfolio_reachable_ok [OF assms(1)] by auto
  show ?thesis
  proof (cases "wallets p = []")
    case True
    then have "wallets_of_text (wallets_text (wallets p)) = ['''']" "selectedWallet p = None" using p by (simp_all add: no_wallets_text)
    then show ?thesis using True
      by (simp add: portfolioFromResultSet_def Let_def reads portfolio_restore_def addWallet_def hasWallet_def portfolio_init_def assert_eq_Ok)
  next
    case False
    then obtain w where sel: "selectedWallet p = Some w" using p by auto
    have add: "addWallets (portfolio_init (portfolio_id p)) (wallets p) = Ok (p\<lparr>selectedWallet := Some (hd (wallets p))\<rparr>)"
      using p(1) False by (simp add: addWallets_run portfolio_init_def)
    show ?thesis
    proof (cases "w \<in> set (wallets p)")
      case True
      then have "selectWallet (p\<lparr>selectedWallet := Some (hd (wallets p))\<rparr>) w = Ok p" using sel
        by (simp add: selectWallet_def hasWallet_def)
      then show ?thesis using add sel True False
        by (simp add: portfolioFromResultSet_def Let_def reads portfolio_restore_def wallets_round_trip [OF False ids])
    next
      case absent: False
      then have "selectWallet (p\<lparr>selectedWallet := Some (hd (wallets p))\<rparr>) w = Trap"
        by (simp add: selectWallet_def hasWallet_def)
      then show ?thesis using add sel absent False
        by (simp add: portfolioFromResultSet_def Let_def reads portfolio_restore_def wallets_round_trip [OF False ids])
    qed
  qed
qed

definition stored_portfolio :: portfolio where
  "stored_portfolio = \<lparr>portfolio_id = ''p'', selectedWallet = Some ''a'', wallets = [''b'']\<rparr>"

lemma stored_portfolio_reachable: "portfolio_reachable stored_portfolio"
proof -
  let ?p = "\<lambda>ws. \<lparr>portfolio_id = ''p'', selectedWallet = Some ''a'', wallets = ws\<rparr>"
  have "portfolio_reachable (portfolio_init ''p'')" by (rule portfolio_reachable.start)
  moreover have "addWallet (portfolio_init ''p'') ''a'' = Ok (?p [''a''])" by (simp add: addWallet_def hasWallet_def portfolio_init_def Let_def)
  ultimately have "portfolio_reachable (?p [''a''])" by (rule portfolio_reachable.addP)
  moreover have "addWallet (?p [''a'']) ''b'' = Ok (?p [''a'', ''b''])" by (simp add: addWallet_def hasWallet_def Let_def)
  ultimately have "portfolio_reachable (?p [''a'', ''b''])" by (rule portfolio_reachable.addP)
  moreover have "removeWallet (?p [''a'', ''b'']) ''a'' = Ok stored_portfolio" by (simp add: removeWallet_def stored_portfolio_def)
  ultimately show ?thesis by (rule portfolio_reachable.removeP)
qed

text \<open>The selected wallet of two is removed, and the portfolio that is left cannot be loaded.\<close>

theorem stored_portfolio_read_witness:
  "portfolioFromResultSet (ref_sqlite ref_answers) \<lparr>rs_db = 1, rs_stmt = 0, columnIndexes = column_index portfolio_columns\<rparr>
     [RefStmt 0 (replicate 3 []) [map bound_value (portfolio_row stored_portfolio)] 1] = Trap"
proof -
  have len: "length (portfolio_row stored_portfolio) = 3" by (simp add: portfolio_row_def)
  have clean: "clean_row (portfolio_row stored_portfolio)" by (simp add: portfolio_row_def stored_portfolio_def wallets_text_def)
  show ?thesis
    using stored_portfolio_read [OF stored_portfolio_reachable _ clean,
        of "ref_sqlite ref_answers" "\<lparr>rs_db = 1, rs_stmt = 0, columnIndexes = column_index portfolio_columns\<rparr>"]
      ref_row_holds [of ref_answers "portfolio_row stored_portfolio"] len by (simp add: stored_portfolio_def)
qed

end
