(* ===== verification/Guard.thy ===== *)
theory Guard
  imports Prelude
begin

section \<open>Waiting for the file system\<close>

text \<open>
  \<^verbatim>\<open>Common/Database/SQLite/FileSystemGuard.swift\<close> and \<^verbatim>\<open>DataProtectionAwareCSQLite3.swift\<close>: while the device is locked, files cannot be opened,
  and opening a database waits until it is unlocked. The guard has a serial queue, which runs the blocks in the order in which they
  were handed over, at any later time; all threads that open, and the system that reports locking and unlocking, are the labelled
  steps of one relation.
\<close>

subsection \<open>The guard\<close>

type_synonym semaphore = nat

text \<open>The blocks of \<open>addUnlockSemaphore\<close>, \<open>didUnlock\<close> and \<open>didLock\<close>.\<close>

datatype block = AddSemaphore semaphore | DidUnlock | DidLock

record fileSystemGuard =
  guard_hasAccess :: bool
  semaphores :: "semaphore list"
  guard_queue :: "block list"
  counts :: "semaphore \<Rightarrow> nat"

definition guard_init :: fileSystemGuard where
  "guard_init = \<lparr>guard_hasAccess = True, semaphores = [], guard_queue = [], counts = (\<lambda>_. 0)\<rparr>"

definition signal :: "semaphore \<Rightarrow> fileSystemGuard \<Rightarrow> fileSystemGuard" where
  "signal x g = g\<lparr>counts := (counts g)(x := counts g x + 1)\<rparr>"

definition checkSemaphore :: "semaphore \<Rightarrow> fileSystemGuard \<Rightarrow> bool \<times> fileSystemGuard" where
  "checkSemaphore x g = (guard_hasAccess g, if guard_hasAccess g then signal x g else g)"

definition add_block :: "semaphore \<Rightarrow> fileSystemGuard \<Rightarrow> fileSystemGuard" where
  "add_block x g = (case checkSemaphore x g of (checked, g') \<Rightarrow> if \<not> checked then g'\<lparr>semaphores := semaphores g' @ [x]\<rparr> else g')"

text \<open>\<open>while !semaphores.isEmpty\<close>.\<close>

function check_all :: "fileSystemGuard \<Rightarrow> fileSystemGuard" where
  "check_all g = (case semaphores g of [] \<Rightarrow> g | x # xs \<Rightarrow> check_all (snd (checkSemaphore x (g\<lparr>semaphores := xs\<rparr>))))"
  by pat_completeness auto
termination by (relation "measure (length \<circ> semaphores)") (auto simp: checkSemaphore_def signal_def)

declare check_all.simps [simp del]

definition unlock_block :: "fileSystemGuard \<Rightarrow> fileSystemGuard" where
  "unlock_block g = check_all (g\<lparr>guard_hasAccess := True\<rparr>)"

definition lock_block :: "fileSystemGuard \<Rightarrow> fileSystemGuard" where
  "lock_block g = g\<lparr>guard_hasAccess := False\<rparr>"

primrec run_block :: "block \<Rightarrow> fileSystemGuard \<Rightarrow> fileSystemGuard" where
  "run_block (AddSemaphore x) = add_block x"
| "run_block DidUnlock = unlock_block"
| "run_block DidLock = lock_block"

definition queue_async :: "block \<Rightarrow> fileSystemGuard \<Rightarrow> fileSystemGuard" where
  "queue_async b g = g\<lparr>guard_queue := guard_queue g @ [b]\<rparr>"

definition addUnlockSemaphore :: "semaphore \<Rightarrow> fileSystemGuard \<Rightarrow> fileSystemGuard" where
  "addUnlockSemaphore x = queue_async (AddSemaphore x)"

definition didUnlock :: "fileSystemGuard \<Rightarrow> fileSystemGuard" where
  "didUnlock = queue_async DidUnlock"

definition didLock :: "fileSystemGuard \<Rightarrow> fileSystemGuard" where
  "didLock = queue_async DidLock"

subsection \<open>Threads that open a database\<close>

text \<open>
  \<open>sqlite3_open\<close> makes a new semaphore and hands it to the guard; the main thread then asks for access every tenth of a second, any other thread waits for
  the semaphore.
\<close>

record openers =
  the_guard :: fileSystemGuard
  used :: nat
  waiting :: "semaphore set"
  polling :: "semaphore set"
  passed :: "semaphore list"

definition opening_init :: openers where
  "opening_init = \<lparr>the_guard = guard_init, used = 0, waiting = {}, polling = {}, passed = []\<rparr>"

definition open_begin :: "bool \<Rightarrow> openers \<Rightarrow> openers" where
  "open_begin isMainThread p = (let x = used p; q = p\<lparr>used := x + 1, the_guard := addUnlockSemaphore x (the_guard p)\<rparr> in
     if isMainThread then q\<lparr>polling := insert x (polling q)\<rparr> else q\<lparr>waiting := insert x (waiting q)\<rparr>)"

inductive opening_step :: "openers \<Rightarrow> openers \<Rightarrow> bool" where
  begins: "opening_step p (open_begin isMainThread p)"
| wakes: "x \<in> waiting p \<Longrightarrow> 0 < counts (the_guard p) x \<Longrightarrow>
    opening_step p (p\<lparr>waiting := waiting p - {x}, passed := passed p @ [x], the_guard := (the_guard p)\<lparr>counts := (counts (the_guard p))(x := counts (the_guard p) x - 1)\<rparr>\<rparr>)"
| polls: "x \<in> polling p \<Longrightarrow> guard_hasAccess (the_guard p) \<Longrightarrow>
    opening_step p (p\<lparr>polling := polling p - {x}, passed := passed p @ [x]\<rparr>)"
| unlocks: "opening_step p (p\<lparr>the_guard := didUnlock (the_guard p)\<rparr>)"
| locks: "opening_step p (p\<lparr>the_guard := didLock (the_guard p)\<rparr>)"
| runs: "guard_queue (the_guard p) = b # bs \<Longrightarrow> opening_step p (p\<lparr>the_guard := run_block b ((the_guard p)\<lparr>guard_queue := bs\<rparr>)\<rparr>)"

inductive opening_reachable :: "openers \<Rightarrow> bool" where
  start: "opening_reachable opening_init"
| step: "opening_reachable p \<Longrightarrow> opening_step p q \<Longrightarrow> opening_reachable q"

subsection \<open>Lemmas\<close>

definition added :: "block list \<Rightarrow> semaphore list" where
  "added bs = concat (map (\<lambda>b. case b of AddSemaphore x \<Rightarrow> [x] | _ \<Rightarrow> []) bs)"

lemma added_simps [simp]: "added [] = []" "added (AddSemaphore x # bs) = x # added bs" "added (DidUnlock # bs) = added bs"
  "added (DidLock # bs) = added bs" "added (bs @ cs) = added bs @ added cs"
  by (simp_all add: added_def)

lemma check_all_access:
  "guard_hasAccess g \<Longrightarrow> distinct (semaphores g) \<Longrightarrow> check_all g = g\<lparr>semaphores := [], counts := (\<lambda>x. counts g x + (if x \<in> set (semaphores g) then 1 else 0))\<rparr>"
proof (induction g rule: check_all.induct)
  case (1 g)
  show ?case
  proof (cases "semaphores g")
    case (Cons x xs)
    then show ?thesis using 1
      by (subst check_all.simps) (auto simp: checkSemaphore_def signal_def fun_eq_iff)
  qed (subst check_all.simps, simp)
qed

text \<open>What a semaphore has got so far: it is on its way, kept, or signalled, exactly once, and kept only without access.\<close>

definition guard_ok :: "openers \<Rightarrow> bool" where
  "guard_ok p \<longleftrightarrow> (let g = the_guard p in
     distinct (added (guard_queue g) @ semaphores g) \<and> (guard_hasAccess g \<longrightarrow> semaphores g = []) \<and>
     (\<forall>x \<in> set (added (guard_queue g)) \<union> set (semaphores g) \<union> waiting p \<union> polling p \<union> set (passed p). x < used p) \<and>
     (\<forall>x \<in> set (added (guard_queue g)) \<union> set (semaphores g). counts g x = 0 \<and> x \<in> waiting p \<union> polling p \<union> set (passed p)) \<and>
     (\<forall>x. counts g x \<le> 1 \<and> (counts g x \<noteq> 0 \<longrightarrow> x < used p)) \<and> waiting p \<inter> polling p = {} \<and> distinct (passed p) \<and> set (passed p) \<inter> (waiting p \<union> polling p) = {} \<and>
     (\<forall>x \<in> waiting p. counts g x = 1 \<or> x \<in> set (added (guard_queue g)) \<union> set (semaphores g)))"

lemmas guard_defs = add_block_def checkSemaphore_def signal_def unlock_block_def lock_block_def addUnlockSemaphore_def didUnlock_def didLock_def queue_async_def

lemma ok_begins: "guard_ok p \<Longrightarrow> guard_ok (open_begin m p)"
  by (auto simp: guard_ok_def open_begin_def Let_def guard_defs less_Suc_eq)

lemma ok_runs:
  assumes "guard_ok p" "guard_queue (the_guard p) = b # bs"
  shows "guard_ok (p\<lparr>the_guard := run_block b ((the_guard p)\<lparr>guard_queue := bs\<rparr>)\<rparr>)"
proof (cases b)
  case (AddSemaphore x)
  then show ?thesis using assms by (cases "guard_hasAccess (the_guard p)") (auto simp: guard_ok_def Let_def guard_defs)
next
  case DidUnlock
  have d: "distinct (semaphores (the_guard p))" using assms by (auto simp: guard_ok_def Let_def)
  show ?thesis using assms d DidUnlock by (auto simp: guard_ok_def Let_def guard_defs check_all_access)
next
  case DidLock
  then show ?thesis using assms by (auto simp: guard_ok_def Let_def guard_defs)
qed

lemma ok_step: "opening_step p q \<Longrightarrow> guard_ok p \<Longrightarrow> guard_ok q"
proof (induction rule: opening_step.induct)
  case (begins p m)
  then show ?case by (rule ok_begins)
next
  case (runs p b bs)
  then show ?case using ok_runs by blast
qed (auto simp: guard_ok_def Let_def guard_defs)

lemma reachable_ok: "opening_reachable p \<Longrightarrow> guard_ok p"
proof (induction rule: opening_reachable.induct)
  case start
  show ?case by (simp add: guard_ok_def opening_init_def guard_init_def)
next
  case (step p q)
  then show ?case by (blast intro: ok_step)
qed

text \<open>The queue runs the first \<open>n\<close> of its blocks.\<close>

fun run_queue :: "nat \<Rightarrow> fileSystemGuard \<Rightarrow> fileSystemGuard" where
  "run_queue 0 g = g"
| "run_queue (Suc n) g = (case guard_queue g of [] \<Rightarrow> g | b # bs \<Rightarrow> run_queue n (run_block b (g\<lparr>guard_queue := bs\<rparr>)))"

lemma run_queue_reachable: "opening_reachable p \<Longrightarrow> opening_reachable (p\<lparr>the_guard := run_queue n (the_guard p)\<rparr>)"
proof (induction n arbitrary: p)
  case (Suc n)
  show ?case
  proof (cases "guard_queue (the_guard p)")
    case (Cons b bs)
    then have "opening_reachable (p\<lparr>the_guard := run_block b ((the_guard p)\<lparr>guard_queue := bs\<rparr>)\<rparr>)"
      using Suc.prems opening_step.runs opening_reachable.step by blast
    then show ?thesis using Suc.IH Cons by fastforce
  qed (use Suc.prems in simp)
qed simp

lemma check_all_queue: "guard_queue (check_all g) = guard_queue g \<and> guard_hasAccess (check_all g) = guard_hasAccess g \<and> semaphores (check_all g) = []"
proof (induction g rule: check_all.induct)
  case (1 g)
  then show ?case by (subst (1 2 3) check_all.simps) (auto simp: checkSemaphore_def signal_def split: list.splits)
qed

lemma run_block_queue [simp]: "guard_queue (run_block b g) = guard_queue g"
  by (cases b) (simp_all add: guard_defs check_all_queue)

lemma run_block_kept: "set (semaphores (run_block b g)) \<subseteq> set (semaphores g) \<union> set (added [b])"
  by (cases b) (auto simp: guard_defs check_all_queue)

lemma run_queue_kept: "set (semaphores (run_queue n g)) \<subseteq> set (semaphores g) \<union> set (added (guard_queue g))"
proof (induction n arbitrary: g)
  case (Suc n)
  show ?case
  proof (cases "guard_queue g")
    case (Cons b bs)
    have "set (semaphores (run_block b (g\<lparr>guard_queue := bs\<rparr>))) \<subseteq> set (semaphores g) \<union> set (added [b])"
      using run_block_kept [of b "g\<lparr>guard_queue := bs\<rparr>"] by simp
    moreover have "added (b # bs) = added [b] @ added bs" using added_simps(5) [of "[b]" bs] by simp
    ultimately show ?thesis using Suc.IH [of "run_block b (g\<lparr>guard_queue := bs\<rparr>)"] Cons by auto
  qed simp
qed simp

lemma run_queue_length: "guard_queue g = bs @ cs \<Longrightarrow> guard_queue (run_queue (length bs) g) = cs"
  by (induction bs arbitrary: g) auto

lemma run_queue_empty: "guard_queue g = [] \<Longrightarrow> run_queue n g = g"
  by (cases n) simp_all

lemma run_queue_add: "run_queue (m + n) g = run_queue n (run_queue m g)"
proof (induction m arbitrary: g)
  case (Suc m)
  then show ?case by (cases "guard_queue g") (simp_all add: run_queue_empty)
qed simp

text \<open>After the block of \<open>didUnlock\<close> no semaphore is kept.\<close>

lemma unlocked_now:
  assumes "guard_queue g = bs @ DidUnlock # cs"
  shows "guard_queue (run_queue (Suc (length bs)) g) = cs" "semaphores (run_queue (Suc (length bs)) g) = []"
proof -
  have "run_queue (Suc (length bs)) g = run_queue 1 (run_queue (length bs) g)" using run_queue_add [of "length bs" 1 g] by simp
  moreover have "guard_queue (run_queue (length bs) g) = DidUnlock # cs" by (rule run_queue_length [OF assms])
  ultimately show "guard_queue (run_queue (Suc (length bs)) g) = cs" "semaphores (run_queue (Suc (length bs)) g) = []"
    by (simp_all add: unlock_block_def check_all_queue)
qed

subsection \<open>Nobody waits for ever\<close>

text \<open>
  Opening a database waits no longer than the device is locked. A thread that waits for its semaphore has it signalled once the queue of the guard has run
  all its blocks, if the guard then has access, and also if the device was unlocked after the thread began to wait and locked
  again since. No thread is signalled twice, and no opening passes twice.
\<close>

theorem opening_not_stuck:
  assumes "opening_reachable p" "x \<in> waiting p"
  shows "let g = the_guard p; g' = run_queue (length (guard_queue g)) g in
    (guard_hasAccess g' \<longrightarrow> counts g' x = 1) \<and>
    (\<forall>bs cs. guard_queue g = bs @ DidUnlock # cs \<and> AddSemaphore x \<notin> set cs \<longrightarrow> counts g' x = 1) \<and>
    counts g' x \<le> 1 \<and> x \<notin> set (passed p) \<and> distinct (passed p)"
proof -
  define g where "g = the_guard p"
  define g' where "g' = run_queue (length (guard_queue (the_guard p))) (the_guard p)"
  have ok: "guard_ok (p\<lparr>the_guard := run_queue n g\<rparr>)" for n
    unfolding g_def by (rule reachable_ok [OF run_queue_reachable [OF assms(1)]])
  have "guard_queue g' = []" unfolding g'_def using run_queue_length [of "the_guard p" "guard_queue (the_guard p)" "[]"] by simp
  then have end_ok: "counts g' x = 1 \<or> x \<in> set (semaphores g')" "guard_hasAccess g' \<longrightarrow> semaphores g' = []" "counts g' x \<le> 1"
    "x \<notin> set (passed p)" "distinct (passed p)"
    using ok [of "length (guard_queue g)"] assms(2) by (auto simp: guard_ok_def Let_def g_def g'_def)
  have "counts g' x = 1" if q: "guard_queue g = bs @ DidUnlock # cs" and x: "AddSemaphore x \<notin> set cs" for bs cs
  proof -
    let ?h = "run_queue (Suc (length bs)) g"
    have "g' = run_queue (length cs) ?h" using run_queue_add [of "Suc (length bs)" "length cs" g] q by (simp add: g_def g'_def)
    then have "set (semaphores g') \<subseteq> set (added cs)" using run_queue_kept [of "length cs" ?h] unlocked_now [OF q] by simp
    moreover have "x \<notin> set (added cs)" using x by (auto simp: added_def split: block.splits)
    ultimately show ?thesis using end_ok(1) by blast
  qed
  then have "\<forall>bs cs. guard_queue g = bs @ DidUnlock # cs \<and> AddSemaphore x \<notin> set cs \<longrightarrow> counts g' x = 1" by blast
  moreover have "guard_hasAccess g' \<longrightarrow> counts g' x = 1" using end_ok by auto
  ultimately show ?thesis using end_ok unfolding Let_def g_def g'_def by (intro conjI)
qed

text \<open>The device is locked, a thread begins to open, the device is unlocked and locked again: the thread wakes.\<close>

definition sample_locked :: openers where
  "sample_locked = opening_init\<lparr>the_guard := didLock (the_guard opening_init)\<rparr>"

definition sample_opening :: openers where
  "sample_opening = (let p = open_begin False sample_locked; q = p\<lparr>the_guard := didUnlock (the_guard p)\<rparr> in q\<lparr>the_guard := didLock (the_guard q)\<rparr>)"

lemma sample_opening_reachable: "opening_reachable sample_opening"
  unfolding sample_opening_def sample_locked_def Let_def
  by (rule opening_reachable.step [OF _ opening_step.locks] opening_reachable.step [OF _ opening_step.unlocks]
      opening_reachable.step [OF _ opening_step.begins] opening_reachable.start)+

lemma sample_opening_sel:
  "guard_queue (the_guard sample_opening) = [DidLock, AddSemaphore 0] @ DidUnlock # [DidLock]" "0 \<in> waiting sample_opening"
  by (simp_all add: sample_opening_def sample_locked_def opening_init_def guard_init_def open_begin_def Let_def guard_defs)

theorem opening_not_stuck_witness: "counts (run_queue 4 (the_guard sample_opening)) 0 = 1"
proof -
  have "length (guard_queue (the_guard sample_opening)) = 4" by (simp add: sample_opening_sel)
  then have "\<forall>bs cs. guard_queue (the_guard sample_opening) = bs @ DidUnlock # cs \<and> AddSemaphore 0 \<notin> set cs \<longrightarrow>
      counts (run_queue 4 (the_guard sample_opening)) 0 = 1"
    using opening_not_stuck [OF sample_opening_reachable sample_opening_sel(2)] by (simp del: run_queue.simps add: Let_def)
  from this [rule_format, OF conjI, OF sample_opening_sel(1)] show ?thesis by simp
qed

end
