(* ===== verification/Migrations.thy ===== *)
theory Migrations
  imports Storage
begin

section \<open>Repositories and migrations of the database\<close>

text \<open>
  \<^verbatim>\<open>Common/CommonImplementations\<close>: \<open>TableSchema\<close>, which writes the SQL text of a table, \<open>DBEntityRepository\<close>, the base class of the
  repositories, and \<open>DBMigrationService\<close>, which brings an old database up to date; the migrations of \<^verbatim>\<open>safe/safe/Migrations\<close>.
\<close>

subsection \<open>TableSchema\<close>

definition upper :: "char \<Rightarrow> char" where
  "upper c = (if 97 \<le> (of_char c :: nat) \<and> (of_char c :: nat) \<le> 122 then char_of (of_char c - 32 :: nat) else c)"

definition uppercased :: "string \<Rightarrow> string" where
  "uppercased = map upper"

record field =
  field_name :: string
  field_decl :: string

definition field_sql :: "string \<Rightarrow> field" where
  "field_sql sql = \<lparr>field_name = components_by '' '' sql ! 0, field_decl = sql\<rparr>"

record tableSchema =
  tableName :: string
  table_fields :: "field list"

definition tableSchema_init :: "string \<Rightarrow> string list \<Rightarrow> tableSchema" where
  "tableSchema_init name sqls = \<lparr>tableName = name, table_fields = map field_sql sqls\<rparr>"

definition primaryKey :: "tableSchema \<Rightarrow> ('e, field) outcome" where
  "primaryKey t = unwrap (List.find (\<lambda>f. contains_text ''PRIMARY KEY'' (uppercased (field_decl f))) (table_fields t))"

definition list_of :: "string list \<Rightarrow> string" where
  "list_of vs = joined '', '' vs"

definition fieldDeclarationList :: "tableSchema \<Rightarrow> string" where
  "fieldDeclarationList t = list_of (map field_decl (table_fields t))"

definition fieldNameList :: "tableSchema \<Rightarrow> string" where
  "fieldNameList t = list_of (map field_name (table_fields t))"

definition anonymousFieldParameterList :: "tableSchema \<Rightarrow> string" where
  "anonymousFieldParameterList t = list_of (map (\<lambda>_. ''?'') (table_fields t))"

definition createTableSQL :: "tableSchema \<Rightarrow> string" where
  "createTableSQL t = ''CREATE TABLE IF NOT EXISTS '' @ tableName t @ '' ('' @ fieldDeclarationList t @ '');''"

definition insertSQL :: "tableSchema \<Rightarrow> string" where
  "insertSQL t = ''INSERT OR REPLACE INTO '' @ tableName t @ ''('' @ fieldNameList t @ '') VALUES ('' @ anonymousFieldParameterList t @ '');''"

definition deleteSQL :: "tableSchema \<Rightarrow> ('e, string) outcome" where
  "deleteSQL t = omap (\<lambda>f. ''DELETE FROM '' @ tableName t @ '' WHERE '' @ field_name f @ '' = ?;'') (primaryKey t)"

definition findFirstSQL :: "tableSchema \<Rightarrow> string" where
  "findFirstSQL t = ''SELECT '' @ fieldNameList t @ '' FROM '' @ tableName t @ '' ORDER BY rowid LIMIT 1;''"

definition findByPrimaryKeySQL :: "tableSchema \<Rightarrow> ('e, string) outcome" where
  "findByPrimaryKeySQL t = omap (\<lambda>f. ''SELECT '' @ fieldNameList t @ '' FROM '' @ tableName t @ '' WHERE '' @ field_name f @
     '' = ? ORDER BY rowid LIMIT 1;'') (primaryKey t)"

definition findAllSQL :: "tableSchema \<Rightarrow> string" where
  "findAllSQL t = ''SELECT '' @ fieldNameList t @ '' FROM '' @ tableName t @ '';''"

definition findSQL :: "tableSchema \<Rightarrow> string \<Rightarrow> string \<Rightarrow> string" where
  "findSQL t key orderBy = ''SELECT '' @ fieldNameList t @ '' FROM '' @ tableName t @ '' WHERE '' @ key @ '' = ? ORDER BY '' @ orderBy @ '';''"

subsection \<open>DBEntityRepository\<close>

text \<open>The methods that a repository overrides are the fields of the record; \<open>try!\<close> turns an error into a trap.\<close>

record ('c, 'x, 'o) entityRepository =
  entity_table :: tableSchema
  insertionBindings :: "'o \<Rightarrow> sqlBindable option list"
  objectFromResultSet :: "('c, 'x, 'o) resultMap"
  entity_id :: "'o \<Rightarrow> string"

definition ptryBang :: "('s, 'e, 'a) program \<Rightarrow> ('s, 'f, 'a) program" where
  "ptryBang m = (\<lambda>s. map_option (\<lambda>(r, s'). (tryBang r, s')) (m s))"

definition unwrapped :: "'o option list \<Rightarrow> 'o list" where
  "unwrapped vs = List.map_filter (\<lambda>v. v) vs"

definition first_of :: "'o option list \<Rightarrow> 'o option" where
  "first_of vs = (case unwrapped vs of [] \<Rightarrow> None | v # _ \<Rightarrow> Some v)"

definition primaryKeyBindings :: "string \<Rightarrow> sqlBindable option list" where
  "primaryKeyBindings i = [Some (BString i)]"

definition entity_setUp :: "'c csqlite3 \<Rightarrow> ('c, 'x) fileManager \<Rightarrow> database \<Rightarrow> ('c, 'x, 'o) entityRepository \<Rightarrow> ('c dbState, 'e, unit) program" where
  "entity_setUp L F D R = ptryBang (database_update L F D (createTableSQL (entity_table R)) [] [])"

definition entity_save :: "'c csqlite3 \<Rightarrow> ('c, 'x) fileManager \<Rightarrow> database \<Rightarrow> ('c, 'x, 'o) entityRepository \<Rightarrow> 'o \<Rightarrow> ('c dbState, 'e, unit) program" where
  "entity_save L F D R object = ptryBang (database_update L F D (insertSQL (entity_table R)) (insertionBindings R object) [])"

definition entity_remove :: "'c csqlite3 \<Rightarrow> ('c, 'x) fileManager \<Rightarrow> database \<Rightarrow> ('c, 'x, 'o) entityRepository \<Rightarrow> 'o \<Rightarrow> ('c dbState, 'e, unit) program" where
  "entity_remove L F D R object = ptryBang (pbind (plift (deleteSQL (entity_table R))) (\<lambda>sql.
     database_update L F D sql (primaryKeyBindings (entity_id R object)) []))"

definition findFirst :: "'c csqlite3 \<Rightarrow> ('c, 'x) fileManager \<Rightarrow> database \<Rightarrow> ('c, 'x, 'o) entityRepository \<Rightarrow> ('c dbState, 'e, 'o option) program" where
  "findFirst L F D R = pbind (ptryBang (database_execute L F D (findFirstSQL (entity_table R)) [] [] (objectFromResultSet R))) (\<lambda>vs. plift (Ok (first_of vs)))"

definition entity_find :: "'c csqlite3 \<Rightarrow> ('c, 'x) fileManager \<Rightarrow> database \<Rightarrow> ('c, 'x, 'o) entityRepository \<Rightarrow> string \<Rightarrow> ('c dbState, 'e, 'o option) program" where
  "entity_find L F D R i = pbind (ptryBang (pbind (plift (findByPrimaryKeySQL (entity_table R))) (\<lambda>sql.
     database_execute L F D sql (primaryKeyBindings i) [] (objectFromResultSet R)))) (\<lambda>vs. plift (Ok (first_of vs)))"

definition entity_find_key :: "'c csqlite3 \<Rightarrow> ('c, 'x) fileManager \<Rightarrow> database \<Rightarrow> ('c, 'x, 'o) entityRepository \<Rightarrow> string \<Rightarrow> sqlBindable \<Rightarrow> string
    \<Rightarrow> ('c dbState, 'e, 'o list) program" where
  "entity_find_key L F D R key v orderBy = pbind (ptryBang (database_execute L F D (findSQL (entity_table R) key orderBy) [Some v] [] (objectFromResultSet R)))
     (\<lambda>vs. plift (Ok (unwrapped vs)))"

definition entity_all :: "'c csqlite3 \<Rightarrow> ('c, 'x) fileManager \<Rightarrow> database \<Rightarrow> ('c, 'x, 'o) entityRepository \<Rightarrow> ('c dbState, 'e, 'o list) program" where
  "entity_all L F D R = pbind (ptryBang (database_execute L F D (findAllSQL (entity_table R)) [] [] (objectFromResultSet R))) (\<lambda>vs. plift (Ok (unwrapped vs)))"

subsection \<open>DBMigrationService\<close>

text \<open>A migration is its identifier and what \<open>setUp(connection:)\<close> does; migrations are equal when their identifiers are.\<close>

record ('c, 'x) migration =
  migration_id :: string
  migration_setUp :: "nat \<Rightarrow> ('c dbState, 'x db_error, unit) program"

definition migration_table :: tableSchema where
  "migration_table = tableSchema_init ''tbl_migrations'' [''id TEXT NOT NULL PRIMARY KEY'']"

definition migration_row :: "string \<Rightarrow> sqlBindable option list" where
  "migration_row i = [Some (BString i)]"

definition migrationFromResultSet :: "'c csqlite3 \<Rightarrow> ('c, 'x, string) resultMap" where
  "migrationFromResultSet L rs c = by_column (string_at L) rs ''id'' c"

definition findLatestSQL :: "('e, string) outcome" where
  "findLatestSQL = omap (\<lambda>f. ''SELECT '' @ fieldNameList migration_table @ [CHR 0x0A] @ ''FROM '' @ tableName migration_table @ [CHR 0x0A] @
     ''ORDER BY '' @ field_name f @ '' DESC'' @ [CHR 0x0A] @ ''LIMIT 1;'') (primaryKey migration_table)"

definition findLatest :: "'c csqlite3 \<Rightarrow> ('c, 'x) fileManager \<Rightarrow> database \<Rightarrow> ('c dbState, 'x db_error, string option) program" where
  "findLatest L F D = pbind (ptryBang (pbind (plift findLatestSQL) (\<lambda>sql.
     database_execute L F D sql [] [] (migrationFromResultSet L :: ('c, 'x, string) resultMap)))) (\<lambda>vs. plift (Ok (first_of vs)))"

definition register_migration :: "('c, 'x) migration \<Rightarrow> ('c, 'x) migration list \<Rightarrow> ('c, 'x) migration list" where
  "register_migration m ms = ms @ [m]"

definition unregister_migration :: "('c, 'x) migration \<Rightarrow> ('c, 'x) migration list \<Rightarrow> ('c, 'x) migration list" where
  "unregister_migration m ms = (case firstIndex (\<lambda>x. migration_id x = migration_id m) ms of None \<Rightarrow> ms | Some i \<Rightarrow> take i ms @ drop (Suc i) ms)"

definition pending_of :: "string option \<Rightarrow> ('c, 'x) migration list \<Rightarrow> ('c, 'x) migration list" where
  "pending_of latestInDB registered = (let ms = sort_key migration_id registered in
     case Option.bind latestInDB (\<lambda>l. firstIndex (\<lambda>m. migration_id m = l) ms) of
       Some index \<Rightarrow> if int index < int (length ms) - 1 then drop (index + 1) ms else []
     | None \<Rightarrow> ms)"

definition pendingMigrations :: "'c csqlite3 \<Rightarrow> ('c, 'x) fileManager \<Rightarrow> database \<Rightarrow> ('c, 'x) migration list \<Rightarrow> ('c dbState, 'x db_error, ('c, 'x) migration list) program" where
  "pendingMigrations L F D ms = pbind (findLatest L F D) (\<lambda>latestInDB. plift (Ok (pending_of latestInDB ms)))"

text \<open>\<open>do { ... } catch let error { try? rollback; throw error }\<close>.\<close>

definition pcatch :: "('s, 'e, 'a) program \<Rightarrow> ('e \<Rightarrow> ('s, 'e, 'a) program) \<Rightarrow> ('s, 'e, 'a) program" where
  "pcatch m h = (\<lambda>s. case m s of Some (Throw e, s') \<Rightarrow> h e s' | r \<Rightarrow> r)"

definition executeInTransaction :: "'c csqlite3 \<Rightarrow> ('c, 'x) fileManager \<Rightarrow> database \<Rightarrow> (nat \<Rightarrow> ('c dbState, 'x db_error, unit) program)
    \<Rightarrow> ('c dbState, 'x db_error, unit) program" where
  "executeInTransaction L F D closure =
     pbind (database_connection L F D) (\<lambda>k. pdefer (database_close L k)
       (pbind (connection_update L k ''BEGIN;'' [] []) (\<lambda>_.
        pcatch (pbind (closure k) (\<lambda>_. connection_update L k ''COMMIT;'' [] []))
          (\<lambda>e. pbind (ptry (connection_update L k ''ROLLBACK;'' [] [])) (\<lambda>_. plift (Throw e))))))"

definition save_migration :: "'c csqlite3 \<Rightarrow> nat \<Rightarrow> string \<Rightarrow> ('c dbState, 'x db_error, unit) program" where
  "save_migration L k i = ptryBang (connection_update L k (insertSQL migration_table) (migration_row i) [] :: ('c dbState, 'x db_error, unit) program)"

definition migrate :: "'c csqlite3 \<Rightarrow> ('c, 'x) fileManager \<Rightarrow> database \<Rightarrow> ('c, 'x) migration list \<Rightarrow> ('c dbState, 'x db_error, unit) program" where
  "migrate L F D registered = pbind (pendingMigrations L F D registered) (\<lambda>pending.
     if pending = [] then plift (Ok ())
     else executeInTransaction L F D (\<lambda>k. pforEach (\<lambda>m. pbind (migration_setUp m k) (\<lambda>_. save_migration L k (migration_id m))) pending))"

definition skipMigrationsBeforeAndIncluding :: "'c csqlite3 \<Rightarrow> ('c, 'x) fileManager \<Rightarrow> database \<Rightarrow> string \<Rightarrow> ('c dbState, 'x db_error, unit) program" where
  "skipMigrationsBeforeAndIncluding L F D i = executeInTransaction L F D (\<lambda>k. save_migration L k i)"

subsection \<open>The migrations of the application\<close>

text \<open>\<open>syncProcessedTransactions\<close>, which the first one calls, is an argument.\<close>

definition M0001_UpdateProcessedTransactionsMigration :: "('c dbState, 'x db_error, unit) program \<Rightarrow> ('c, 'x) migration" where
  "M0001_UpdateProcessedTransactionsMigration sync = \<lparr>migration_id = ''0001_UpdateProcessedTransactionsMigration'', migration_setUp = (\<lambda>_. sync)\<rparr>"

definition M0002_AddFeeTokenToWallet :: "'c csqlite3 \<Rightarrow> ('c, 'x) migration" where
  "M0002_AddFeeTokenToWallet L = \<lparr>migration_id = ''M0002_AddFeeTokenToWallet'', migration_setUp = (\<lambda>k.
     connection_update L k ''ALTER TABLE tbl_wallets ADD fee_payment_token_address TEXT;'' [] [])\<rparr>"

definition M0003_AddCanPayTransactionFeeToTokenListItem :: "'c csqlite3 \<Rightarrow> ('c, 'x) migration" where
  "M0003_AddCanPayTransactionFeeToTokenListItem L = \<lparr>migration_id = ''M0003_AddCanPayTransactionFeeToTokenListItem'', migration_setUp = (\<lambda>k.
     connection_update L k ''ALTER TABLE tbl_token_list_items ADD can_pay_transaction_fee BOOLEAN DEFAULT 0;'' [] [])\<rparr>"

definition M0004_AddColumnsToWallet :: "'c csqlite3 \<Rightarrow> ('c, 'x) migration" where
  "M0004_AddColumnsToWallet L = \<lparr>migration_id = ''M0004_AddColumnsToWallet'', migration_setUp = (\<lambda>k.
     pbind (connection_update L k ''ALTER TABLE tbl_wallets ADD master_copy_address TEXT;'' [] []) (\<lambda>_.
     connection_update L k ''ALTER TABLE tbl_wallets ADD contract_version TEXT;'' [] []))\<rparr>"

definition walletMigrations :: "'c csqlite3 \<Rightarrow> ('c dbState, 'x db_error, unit) program \<Rightarrow> ('c, 'x) migration list" where
  "walletMigrations L sync = [M0001_UpdateProcessedTransactionsMigration sync, M0002_AddFeeTokenToWallet L,
     M0003_AddCanPayTransactionFeeToTokenListItem L, M0004_AddColumnsToWallet L]"

end
