(* ===== verification/Sqlite_Transactions.thy ===== *)
theory Sqlite_Transactions
  imports Sqlite_Safety
begin

section \<open>Transactions of the database\<close>

text \<open>
  What SQLite documents about transactions, as the locale \<open>sqlite_transactions\<close>, and that a migration that fails leaves the tables as they
  were.
\<close>

subsection \<open>Invariants of executing a statement\<close>

lemma wait_invariant:
  assumes "waitWhileBusy f n c = Some (r, c')" and "I c" and "\<And>c r c'. I c \<Longrightarrow> f c = (r, c') \<Longrightarrow> I c' \<and> J r c'"
  shows "I c' \<and> J r c'"
proof -
  let ?P = "\<lambda>g n c res. g = f \<longrightarrow> I c \<longrightarrow> I (snd res) \<and> J (fst res) (snd res)"
  have "?P f n c (r, c')"
  proof (rule waitWhileBusy.raw_induct [where P = ?P, OF _ assms(1)])
    fix h g n c res
    assume IH: "\<And>g n c y. h g n c = Some y \<Longrightarrow> ?P g n c y"
      and eq: "(case g c of ((status, r), c') \<Rightarrow> if status = SQLITE_BUSY then h g n c'
        else if (status = SQLITE_AUTH \<or> status = SQLITE_IOERR) \<and> \<not> 3 \<le> n then h g (n + 1) c' else Some ((status, r), c')) = Some res"
    obtain st r c1 where call: "g c = ((st, r), c1)" by (metis prod.exhaust)
    have "h g n c1 = Some res \<or> h g (n + 1) c1 = Some res \<or> Some ((st, r), c1) = Some res" using eq by (simp add: call split: if_split_asm)
    then consider m where "h g m c1 = Some res" | "res = ((st, r), c1)" by blast
    then show "?P g n c res"
    proof (cases, intro impI)
      fix m
      assume "h g m c1 = Some res" "g = f" "I c"
      then show "I (snd res) \<and> J (fst res) (snd res)" using IH [of g m c1 res] assms(3) [of c "(st, r)" c1] call by simp
    qed (use assms(3) call in auto)
  qed
  then show ?thesis using assms(2) by simp
qed

text \<open>
  \<open>P\<close> holds before the first step and after a step that finds the database busy, \<open>R\<close> after one that finds a row, \<open>Z\<close> after the last one and \<open>Q\<close>
  after an error.
\<close>

lemma statement_execute_invariant:
  fixes res :: "('x db_error, resultSet option) outcome"
  assumes run: "statement_execute L r s = Some (res, s')" and q: "stmt_stmt (all_statements s ! r) = q" and start: "P (world s)"
    and step: "\<And>c st c'. P c \<Longrightarrow> sqlite3_step L q c = (st, c') \<Longrightarrow> (if st = SQLITE_BUSY then P c' else if st = SQLITE_ROW then R c'
      else if st = SQLITE_DONE then Z c' else Q c')"
    and reset: "\<And>c st c'. R c \<Longrightarrow> sqlite3_reset L q c = (st, c') \<Longrightarrow> R c'" and PQ: "\<And>c. P c \<Longrightarrow> Q c"
  shows "case res of Ok None \<Rightarrow> Z (world s') | Ok (Some rs) \<Rightarrow> R (world s') \<and> rs_stmt rs = q | Throw e \<Rightarrow> Q (world s') | Trap \<Rightarrow> True"
proof -
  have reset_loop: "reset_loop L q c = Some (st, c') \<Longrightarrow> R c \<Longrightarrow> R c'" for c st c'
  proof -
    assume run: "reset_loop L q c = Some (st, c')" and start: "R c"
    have "K = L \<longrightarrow> p = q \<longrightarrow> R c \<longrightarrow> R (snd res)" if "reset_loop K p c = Some res" for K p c res
      by (rule reset_loop.raw_induct [where P = "\<lambda>K p c res. K = L \<longrightarrow> p = q \<longrightarrow> R c \<longrightarrow> R (snd res)", OF _ that])
        (auto split: prod.splits if_splits dest: reset)
    then show "R c'" using run start by fastforce
  qed
  let ?G = "\<lambda>(res :: ('x db_error, resultSet option) outcome, s'). case res of Ok None \<Rightarrow> Z (world s')
    | Ok (Some rs) \<Rightarrow> R (world s') \<and> rs_stmt rs = q | Throw e \<Rightarrow> Q (world s') | Trap \<Rightarrow> True"
  let ?I = "\<lambda>K i s out. K = L \<longrightarrow> i = r \<longrightarrow> stmt_stmt (all_statements s ! r) = q \<longrightarrow> P (world s) \<longrightarrow> ?G out"
  have "?I L r s (res, s')"
  proof (rule statement_execute.raw_induct [where P = ?I, OF _ run])
    fix h :: "'a csqlite3 \<Rightarrow> nat \<Rightarrow> 'a dbState \<Rightarrow> (('x db_error, resultSet option) outcome \<times> 'a dbState) option"
    fix K i s out
    assume IH: "\<And>K i s y. h K i s = Some y \<Longrightarrow> ?I K i s y"
      and eq: "(let t = all_statements s ! i in
     if isFinalized t then Some (Throw (SQLiteError attemptToExecuteFinalizedStatement), s)
     else if isExecuted t then Some (Throw (SQLiteError statementWasAlreadyExecuted), s)
     else case sqlite3_step K (stmt_stmt t) (world s) of (status, c) \<Rightarrow>
       let s' = s\<lparr>world := c\<rparr>; done = update_statement i (\<lambda>t. t\<lparr>isExecuted := True\<rparr>) s' in
       if status = SQLITE_DONE then Some (Ok None, done)
       else if status = SQLITE_ROW then pbind (resultSet_init K (stmt_db t) (stmt_stmt t)) (\<lambda>rs. plift (Ok (Some rs))) done
       else if status = SQLITE_BUSY then
         (if isCommitStatement (stmt_sql t) \<or> \<not> sqlite3_get_autocommit K (stmt_db t) c = 0 then h K i s'
          else Some (Throw (SQLiteError transactionMustBeRolledBack), s'))
       else if status = SQLITE_ERROR
         then Some (Throw (SQLiteError (runtimeError (case sqlite3_errmsg K (stmt_db t) c of None \<Rightarrow> [] | Some m \<Rightarrow> m))), s')
       else if status = SQLITE_MISUSE then Some (Throw (SQLiteError invalidStatementState), s')
       else Some (Trap, s')) = Some out"
    show "?I K i s out"
    proof (intro impI)
      assume K: "K = L" "i = r" and q: "stmt_stmt (all_statements s ! r) = q" and start: "P (world s)"
      obtain st c where call: "sqlite3_step L q (world s) = (st, c)" by (rule prod.exhaust)
      note next_world = step [OF start call]
      show "?G out"
      proof (cases "isFinalized (all_statements s ! r) \<or> isExecuted (all_statements s ! r)")
        case True
        then show ?thesis using eq PQ [OF start] K by (auto simp: Let_def split: if_splits)
      next
        case False
        then show ?thesis using eq K call next_world PQ IH [of L r "s\<lparr>world := c\<rparr>" out]
          by (auto simp: q Let_def resultSet_init_def pbind_def update_statement_def split: if_splits option.splits outcome.splits dest!: reset_loop)
      qed
    qed
  qed
  then show ?thesis using q start by simp
qed

text \<open>Reading on: \<open>R\<close> holds after every row, \<open>Z\<close> after the last one.\<close>

lemma advance_invariant:
  fixes res :: "('x db_error, bool) outcome"
  assumes run: "advanceToNextRow L rs s = Some (res, s')" and start: "R (world s)"
    and step: "\<And>c st c'. R c \<Longrightarrow> sqlite3_step L (rs_stmt rs) c = (st, c') \<Longrightarrow> (st = SQLITE_BUSY \<or> st = SQLITE_ROW \<longrightarrow> R c') \<and> (st = SQLITE_DONE \<longrightarrow> Z c')"
  shows "case res of Ok b \<Rightarrow> if b then R (world s') else Z (world s') | Throw e \<Rightarrow> R (world s') | Trap \<Rightarrow> True"
proof -
  let ?G = "\<lambda>(res :: ('x db_error, bool) outcome, s'). case res of Ok b \<Rightarrow> if b then R (world s') else Z (world s') | Throw e \<Rightarrow> R (world s') | Trap \<Rightarrow> True"
  let ?I = "\<lambda>K t s out. K = L \<longrightarrow> t = rs \<longrightarrow> R (world s) \<longrightarrow> ?G out"
  have "?I L rs s (res, s')"
  proof (rule advanceToNextRow.raw_induct [where P = ?I, OF _ run])
    fix h :: "'a csqlite3 \<Rightarrow> resultSet \<Rightarrow> 'a dbState \<Rightarrow> (('x db_error, bool) outcome \<times> 'a dbState) option" and K t s out
    assume IH: "\<And>K t s y. h K t s = Some y \<Longrightarrow> ?I K t s y"
      and eq: "(case sqlite3_step K (rs_stmt t) (world s) of (status, c) \<Rightarrow>
       if status = SQLITE_DONE then Some (Ok False, s\<lparr>world := c\<rparr>)
       else if status = SQLITE_ROW then Some (Ok True, s\<lparr>world := c\<rparr>)
       else if status = SQLITE_BUSY then
         (if sqlite3_get_autocommit K (rs_db t) c \<noteq> 0 then h K t (s\<lparr>world := c\<rparr>)
          else Some (Throw (SQLiteError transactionMustBeRolledBack), s\<lparr>world := c\<rparr>))
       else Some (Trap, s\<lparr>world := c\<rparr>)) = Some out"
    show "?I K t s out"
    proof (intro impI)
      assume K: "K = L" "t = rs" and start: "R (world s)"
      obtain st c where call: "sqlite3_step L (rs_stmt rs) (world s) = (st, c)" by (rule prod.exhaust)
      show "?G out" using eq K call step [OF start call] IH [of L rs "s\<lparr>world := c\<rparr>" out] by (auto split: if_splits outcome.splits)
    qed
  qed
  then show ?thesis using start by simp
qed

lemma collect_rows_invariant:
  fixes res :: "('x db_error, 't option list) outcome"
  assumes run: "collect_rows L f rs acc s = Some (res, s')" and start: "R (world s)"
    and step: "\<And>c st c'. R c \<Longrightarrow> sqlite3_step L (rs_stmt rs) c = (st, c') \<Longrightarrow> (st = SQLITE_BUSY \<or> st = SQLITE_ROW \<longrightarrow> R c') \<and> (st = SQLITE_DONE \<longrightarrow> Z c')"
  shows "case res of Ok x \<Rightarrow> Z (world s') | Throw e \<Rightarrow> R (world s') | Trap \<Rightarrow> True"
proof -
  let ?G = "\<lambda>(res :: ('x db_error, 't option list) outcome, s'). case res of Ok x \<Rightarrow> Z (world s') | Throw e \<Rightarrow> R (world s') | Trap \<Rightarrow> True"
  let ?I = "\<lambda>K g t acc s out. K = L \<longrightarrow> g = f \<longrightarrow> t = rs \<longrightarrow> R (world s) \<longrightarrow> ?G out"
  have "?I L f rs acc s (res, s')"
  proof (rule collect_rows.raw_induct [where P = ?I, OF _ run])
    fix h :: "'a csqlite3 \<Rightarrow> ('a, 'x, 't) resultMap \<Rightarrow> resultSet \<Rightarrow> 't option list \<Rightarrow> 'a dbState \<Rightarrow> (('x db_error, 't option list) outcome \<times> 'a dbState) option"
      and K g t acc s out
    assume IH: "\<And>K g t acc s y. h K g t acc s = Some y \<Longrightarrow> ?I K g t acc s y"
      and eq: "Option.bind (advanceToNextRow K t s) (\<lambda>(more, s'). case more of
         Ok b \<Rightarrow> if b then (case g t (world s') of Ok x \<Rightarrow> h K g t (acc @ [x]) s' | Throw e \<Rightarrow> Some (Throw e, s') | Trap \<Rightarrow> Some (Trap, s'))
           else Some (Ok acc, s')
       | Throw e \<Rightarrow> Some (Throw e, s') | Trap \<Rightarrow> Some (Trap, s')) = Some out"
    show "?I K g t acc s out"
    proof (intro impI)
      assume K: "K = L" "g = f" "t = rs" and start: "R (world s)"
      obtain more s1 where adv: "advanceToNextRow L rs s = Some (more :: ('x db_error, bool) outcome, s1)"
        using eq K by (cases "advanceToNextRow L rs s :: (('x db_error, bool) outcome \<times> 'a dbState) option") auto
      have ok: "case more of Ok b \<Rightarrow> if b then R (world s1) else Z (world s1) | Throw e \<Rightarrow> R (world s1) | Trap \<Rightarrow> True"
        by (rule advance_invariant [where R = R and Z = Z, OF adv start step])
      show "?G out"
      proof (cases more)
        case (Ok b)
        show ?thesis using eq K adv ok Ok IH [of L f rs "acc @ [x]" s1 out for x]
          by (cases "f rs (world s1)") (auto split: if_splits)
      qed (use eq K adv ok in auto)
    qed
  qed
  then show ?thesis using start by simp
qed

definition keeps :: "('s \<Rightarrow> bool) \<Rightarrow> ('s, 'e, 'a) program \<Rightarrow> bool" where
  "keeps I m \<longleftrightarrow> (\<forall>s r s'. I s \<longrightarrow> m s = Some (r, s') \<longrightarrow> I s')"

lemma keepsD: "keeps I m \<Longrightarrow> m s = Some (r, s') \<Longrightarrow> I s \<Longrightarrow> I s'"
  by (auto simp: keeps_def)

lemma keeps_bind: "keeps I m \<Longrightarrow> (\<And>a. keeps I (f a)) \<Longrightarrow> keeps I (pbind m f)"
proof -
  assume m: "keeps I m" and f: "\<And>a. keeps I (f a)"
  have "I s'" if "I s" "pbind m f s = Some (r, s')" for s r s'
  proof (cases "m s")
    case (Some out)
    then obtain r1 s1 where run: "m s = Some (r1, s1)" by (cases out) simp
    then have "I s1" using m that(1) by (auto simp: keeps_def)
    then show ?thesis using that(2) run f by (cases r1) (auto dest: keepsD)
  qed (use that in simp)
  then show ?thesis by (auto simp: keeps_def)
qed

lemma keeps_lift: "keeps I (plift r)"
  by (simp add: keeps_def)

lemma keeps_forEach: "(\<And>x. keeps I (f x)) \<Longrightarrow> keeps I (pforEach f xs)"
  by (induction xs) (simp_all add: keeps_lift keeps_bind)

text \<open>Nothing that is executed changes the place of the database.\<close>

lemma advance_url: "keeps (\<lambda>s. db_url s = u) (advanceToNextRow L rs)"
proof -
  have "db_url s = db_url (snd out)" if "advanceToNextRow K rs s = Some out" for K rs s and out :: "('x db_error, bool) outcome \<times> 'a dbState"
    by (rule advanceToNextRow.raw_induct [where P = "\<lambda>K rs s out. db_url s = db_url (snd out)", OF _ that])
      (auto split: prod.splits if_splits, (drule meta_spec)+, drule (1) meta_mp, simp)
  then show ?thesis by (fastforce simp: keeps_def)
qed

lemma collect_rows_url: "keeps (\<lambda>s. db_url s = u) (collect_rows L f rs acc)"
proof -
  have "db_url s = db_url (snd out)" if "collect_rows K f rs acc s = Some out"
    for K f rs acc s and out :: "('x db_error, 't option list) outcome \<times> 'a dbState"
    by (rule collect_rows.raw_induct [where P = "\<lambda>K f rs acc s out. db_url s = db_url (snd out)", OF _ that])
      (auto split: if_split_asm outcome.split_asm bind_splits dest: keepsD [OF advance_url _ refl])
  then show ?thesis by (fastforce simp: keeps_def)
qed

lemma statement_execute_url: "keeps (\<lambda>s. db_url s = u) (statement_execute L r)"
proof -
  have "db_url s = db_url (snd out)" if "statement_execute K r s = Some out" for K r s and out :: "('x db_error, resultSet option) outcome \<times> 'a dbState"
    by (rule statement_execute.raw_induct [where P = "\<lambda>K r s out. db_url s = db_url (snd out)", OF _ that])
      (auto simp: Let_def resultSet_init_def pbind_def update_statement_def split: prod.splits if_splits option.splits outcome.splits,
        ((drule meta_spec)+, drule (1) meta_mp, simp)+)
  then show ?thesis by (fastforce simp: keeps_def)
qed

lemma set_at_url: "keeps (\<lambda>s. db_url s = u) (set_at L r v i)"
  by (auto simp: keeps_def set_at_def c_call_def pbind_def sql_assert_def split: outcome.splits prod.splits)

lemma set_forKey_url: "keeps (\<lambda>s. db_url s = u) (set_forKey L r v key)"
  unfolding set_forKey_def keeps_def using keepsD [OF set_at_url] by blast

lemma connection_execute_url: "keeps (\<lambda>s. db_url s = u) (connection_execute L k sql bs ds f)"
proof -
  have "keeps (\<lambda>s. db_url s = u) (prepare L k sql)"
    by (auto simp: keeps_def prepare_def busy_call_def pbind_def sql_assert_def sql_throw_def update_connection_def Let_def
        split: outcome.splits prod.splits option.splits if_splits)
  moreover have "keeps (\<lambda>s. db_url s = u) (bind_positions L r bs)" "keeps (\<lambda>s. db_url s = u) (bind_keys L r ds)" for r
    unfolding bind_positions_def bind_keys_def by (intro keeps_forEach, simp add: set_at_url set_forKey_url split: prod.split)+
  ultimately show ?thesis unfolding connection_execute_def
    by (intro keeps_bind statement_execute_url) (auto simp: keeps_lift collect_rows_url split: option.splits)
qed

lemma finalize_url: "db_url (fold (finalize L) rs s) = db_url s"
  by (induction rs arbitrary: s) (simp_all add: finalize_def update_statement_def)

lemma close_url: "keeps (\<lambda>s. db_url s = u) (database_close L k)"
proof -
  have "keeps (\<lambda>s. db_url s = u) (connection_close L k)"
    by (auto simp: keeps_def connection_close_def busy_call_def pbind_def sql_assert_def sql_throw_def update_connection_def destroyAllStatements_def finalize_url
        split: outcome.splits prod.splits option.splits if_splits)
  then show ?thesis unfolding database_close_def by (intro keeps_bind) (auto simp: keeps_def)
qed

lemma connection_url: "keeps (\<lambda>s. db_url s = Some u) (database_connection L F D)"
  by (auto simp: keeps_def database_connection_def buildURL_def connection_open_def busy_call_def pbind_def sql_assert_def sql_throw_def update_connection_def
      split: outcome.splits prod.splits option.splits if_splits)

lemma keeps_defer: "keeps I n \<Longrightarrow> keeps I m \<Longrightarrow> keeps I (pdefer n m)"
proof -
  assume n: "keeps I n" and m: "keeps I m"
  have "I s'" if start: "I s" and run: "pdefer n m s = Some (r, s')" for s r s'
  proof -
    obtain r1 s1 where s1: "m s = Some (r1, s1)" using run by (cases "m s") (auto simp: pdefer_def)
    note I1 = keepsD [OF m s1 start]
    show ?thesis
    proof (cases "n s1")
      case None
      then show ?thesis using run s1 I1 by (cases r1) (auto simp: pdefer_def ptry_def)
    next
      case (Some out)
      then obtain r2 s2 where s2: "n s1 = Some (r2, s2)" by (cases out) simp
      then show ?thesis using run s1 I1 keepsD [OF n s2 I1] by (cases r1; cases r2) (auto simp: pdefer_def ptry_def)
    qed
  qed
  then show ?thesis by (auto simp: keeps_def)
qed

lemma database_execute_url: "keeps (\<lambda>s. db_url s = Some u) (database_execute L F D sql bs ds f)"
  unfolding database_execute_def by (intro keeps_bind keeps_defer connection_url close_url connection_execute_url)

subsection \<open>Transactions\<close>

text \<open>
  What SQLite documents about explicit transactions. \<open>tables\<close> is the content of the database as connections in use see it, \<open>saved\<close> what it was when the
  connection began its transaction, if it is in one, and \<open>sql_of\<close> the text of a prepared statement. Closing a connection ends its
  transaction by a rollback. A statement that fails may have rolled back the transaction by itself.
\<close>

definition recover :: "'t \<Rightarrow> 't option \<Rightarrow> 't" where
  "recover now before = (case before of None \<Rightarrow> now | Some t \<Rightarrow> t)"

definition ordinary :: "string \<Rightarrow> bool" where
  "ordinary sql \<longleftrightarrow> take 12 sql = ''ALTER TABLE '' \<or> take 23 sql = ''INSERT OR REPLACE INTO ''"

definition selects :: "string \<Rightarrow> bool" where
  "selects sql \<longleftrightarrow> take 7 sql = ''SELECT ''"

locale sqlite_transactions = sqlite_handles L dbs stmts
  for L :: "'c csqlite3" and dbs :: "'c \<Rightarrow> pointer set" and stmts :: "'c \<Rightarrow> (pointer \<rightharpoonup> pointer)" +
  fixes tables :: "'c \<Rightarrow> 't" and saved :: "'c \<Rightarrow> pointer \<Rightarrow> 't option" and sql_of :: "'c \<Rightarrow> pointer \<Rightarrow> string"
  assumes open_tables: "sqlite3_open L url c = ((SQLITE_OK, p), c') \<Longrightarrow> tables c' = tables c \<and> (\<forall>d \<in> set_option p. saved c' d = None)"
    and prepare_tables: "d \<in> dbs c \<Longrightarrow> sqlite3_prepare_v2 L (Some d) sql c = ((st, p), c') \<Longrightarrow>
      tables c' = tables c \<and> saved c' d = saved c d \<and> (\<forall>q \<in> set_option p. sql_of c' q = sql)"
    and bind_tables: "stmts c q = Some d \<Longrightarrow> sqlite3_bind L q i v c = (st, c') \<Longrightarrow>
      tables c' = tables c \<and> saved c' d = saved c d \<and> sql_of c' q = sql_of c q"
    and reset_tables: "stmts c q = Some d \<Longrightarrow> sqlite3_reset L q c = (st, c') \<Longrightarrow>
      tables c' = tables c \<and> saved c' d = saved c d \<and> sql_of c' q = sql_of c q"
    and finalize_tables: "stmts c q \<noteq> None \<Longrightarrow> sqlite3_finalize L q c = (st, c') \<Longrightarrow> tables c' = tables c \<and> saved c' = saved c"
    and close_tables: "d \<in> dbs c \<Longrightarrow> d \<notin> ran (stmts c) \<Longrightarrow> sqlite3_close L (Some d) c = (st, c') \<Longrightarrow> tables c' = recover (tables c) (saved c d)"
    and step_text: "stmts c q = Some d \<Longrightarrow> sqlite3_step L q c = (st, c') \<Longrightarrow> sql_of c' q = sql_of c q"
    and step_begin: "stmts c q = Some d \<Longrightarrow> sql_of c q = ''BEGIN;'' \<Longrightarrow> saved c d = None \<Longrightarrow> sqlite3_step L q c = (st, c') \<Longrightarrow>
      st \<noteq> SQLITE_ROW \<and> tables c' = tables c \<and> saved c' d = (if st = SQLITE_DONE then Some (tables c) else None)"
    and step_commit: "stmts c q = Some d \<Longrightarrow> sql_of c q = ''COMMIT;'' \<Longrightarrow> saved c d = Some t \<Longrightarrow> sqlite3_step L q c = (st, c') \<Longrightarrow>
      st \<noteq> SQLITE_ROW \<and> (st = SQLITE_DONE \<longrightarrow> tables c' = tables c \<and> saved c' d = None) \<and>
      (st = SQLITE_BUSY \<longrightarrow> tables c' = tables c \<and> saved c' d = Some t) \<and> (st \<noteq> SQLITE_DONE \<longrightarrow> recover (tables c') (saved c' d) = t)"
    and step_rollback: "stmts c q = Some d \<Longrightarrow> sql_of c q = ''ROLLBACK;'' \<Longrightarrow> sqlite3_step L q c = (st, c') \<Longrightarrow>
      st \<noteq> SQLITE_ROW \<and> recover (tables c') (saved c' d) = recover (tables c) (saved c d)"
    and step_ordinary: "stmts c q = Some d \<Longrightarrow> ordinary (sql_of c q) \<Longrightarrow> saved c d = Some t \<Longrightarrow> sqlite3_step L q c = (st, c') \<Longrightarrow>
      recover (tables c') (saved c' d) = t \<and> (st = SQLITE_ROW \<or> st = SQLITE_DONE \<or> st = SQLITE_BUSY \<longrightarrow> saved c' d = Some t)"
    and step_select: "stmts c q = Some d \<Longrightarrow> selects (sql_of c q) \<Longrightarrow> sqlite3_step L q c = (st, c') \<Longrightarrow>
      tables c' = tables c \<and> saved c' d = saved c d"
begin

text \<open>A condition on the tables now and before the transaction, for one connection and one of its statements.\<close>

definition holds :: "pointer \<Rightarrow> pointer \<Rightarrow> string \<Rightarrow> ('t \<Rightarrow> 't option \<Rightarrow> bool) \<Rightarrow> 'c \<Rightarrow> bool" where
  "holds d q sql p c \<longleftrightarrow> stmts c q = Some d \<and> sql_of c q = sql \<and> p (tables c) (saved c d)"

lemma prepare_effect:
  assumes own: "owning c0 others k d s" and run: "prepare L k sql s = Some (r, s')"
  shows "tables (world s') = tables (world s) \<and> saved (world s') d = saved (world s) d \<and>
    (\<forall>i. r = Ok i \<longrightarrow> (let q = stmt_stmt (all_statements s' ! i) in stmts (world s') q = Some d \<and> sql_of (world s') q = sql))"
proof -
  have d: "d \<in> dbs (world s)" and k: "k < length (all_connections s)" and conn: "conn_db (all_connections s ! k) = Some d"
    and opened: "assertOpened (all_connections s ! k) = Ok ()"
    using own by (auto simp: owning_def assertOpened_def)
  obtain st p c1 where wait: "waitWhileBusy (sqlite3_prepare_v2 L (Some d) sql) 0 (world s) = Some ((st, p), c1)"
    using run by (auto simp: prepare_def sql_assert_def opened conn pbind_def busy_call_def split: option.splits)
  have world: "world s' = c1" using run
    by (cases p) (auto simp: prepare_def sql_assert_def sql_throw_def opened conn wait busy_call_def pbind_def update_connection_def Let_def split: if_splits option.splits)
  let ?I = "\<lambda>c. d \<in> dbs c \<and> tables c = tables (world s) \<and> saved c d = saved (world s) d"
  have step: "?I c' \<and> (\<forall>q \<in> set_option (snd r). sql_of c' q = sql)" if "?I c" "sqlite3_prepare_v2 L (Some d) sql c = (r, c')" for c r c'
    using that prepare_tables [of d c sql "fst r" "snd r" c'] prepare_new [of d c sql "fst r" "snd r" c'] by simp
  have same: "?I c1 \<and> (\<forall>q \<in> set_option p. sql_of c1 q = sql)"
    using wait_invariant [where I = ?I and J = "\<lambda>r c. \<forall>q \<in> set_option (snd r). sql_of c q = sql", OF wait _ step] d by simp
  have "let q = stmt_stmt (all_statements s' ! i) in stmts c1 q = Some d \<and> sql_of c1 q = sql" if res: "r = Ok i" for i
  proof -
    obtain q where q: "p = Some q" "st = SQLITE_OK" using run res
      by (cases p) (auto simp: prepare_def sql_assert_def sql_throw_def opened conn wait busy_call_def pbind_def split: if_splits)
    then have "stmt_stmt (all_statements s' ! i) = q" using run res
      by (auto simp: prepare_def sql_assert_def opened conn wait busy_call_def pbind_def update_connection_def Let_def)
    then show ?thesis using same q wait_prepare [OF wait d] by simp
  qed
  then show ?thesis using same world by blast
qed

lemma binding_keeps:
  fixes q sql d p r
  defines "I \<equiv> \<lambda>s. holds d q sql p (world s) \<and> stmt_stmt (all_statements s ! r) = q"
  shows "keeps I (bind_positions L r bs)" "keeps I (bind_keys L r ds)"
proof -
  have one: "keeps I (set_at L r v i)" for v i
  proof -
    have "holds d q sql p c'" if "sqlite3_bind L q i v c = (st, c')" "holds d q sql p c" for c st c'
      using that bind_tables [of c q d i v st c'] bind_keeps [of q i v c st c'] by (simp add: holds_def)
    then show ?thesis
      by (auto simp: keeps_def I_def set_at_def c_call_def pbind_def sql_assert_def split: outcome.splits prod.splits)
  qed
  have "keeps I (set_forKey L r v key)" for v key 
    unfolding set_forKey_def keeps_def using keepsD [OF one] by blast
  with one show "keeps I (bind_positions L r bs)" "keeps I (bind_keys L r ds)"
    unfolding bind_positions_def bind_keys_def by (auto intro!: keeps_forEach)
qed

text \<open>
  Executing a statement: \<open>p\<close> holds before, \<open>z\<close> after success, \<open>e\<close> after an error and \<open>w\<close> after each row.
\<close>

lemma execute_effect:
  fixes f :: "('c, 'x, 'r) resultMap" and res :: "('x db_error, 'r option list) outcome"
  assumes own: "owning c0 others k d s" and run: "connection_execute L k sql bs ds f s = Some (res, s')" and start: "p (tables (world s)) (saved (world s) d)"
    and step: "\<And>q c st c'. stmts c q = Some d \<Longrightarrow> sql_of c q = sql \<Longrightarrow> p (tables c) (saved c d) \<Longrightarrow> sqlite3_step L q c = (st, c') \<Longrightarrow>
      (if st = SQLITE_BUSY then p else if st = SQLITE_ROW then w else if st = SQLITE_DONE then z else e) (tables c') (saved c' d)"
    and more: "\<And>q c st c'. stmts c q = Some d \<Longrightarrow> sql_of c q = sql \<Longrightarrow> w (tables c) (saved c d) \<Longrightarrow> sqlite3_step L q c = (st, c') \<Longrightarrow>
      (st = SQLITE_BUSY \<or> st = SQLITE_ROW \<longrightarrow> w (tables c') (saved c' d)) \<and> (st = SQLITE_DONE \<longrightarrow> z (tables c') (saved c' d))"
    and error: "\<And>t u. p t u \<or> w t u \<Longrightarrow> e t u"
  shows "case res of Ok x \<Rightarrow> z (tables (world s')) (saved (world s') d) | Throw x \<Rightarrow> e (tables (world s')) (saved (world s') d) | Trap \<Rightarrow> True"
proof -
  let ?at = "\<lambda>q y. holds d q sql y"
  obtain r1 :: "('x db_error, nat) outcome" and s1 where prep: "prepare L k sql s = Some (r1, s1)"
    using pbind_started [OF run [unfolded connection_execute_def]] by blast
  note effect = prepare_effect [OF own prep]
  show ?thesis
  proof (cases r1)
    case (Ok i)
    define q where "q = stmt_stmt (all_statements s1 ! i)"
    have I1: "?at q p (world s1) \<and> stmt_stmt (all_statements s1 ! i) = q"
      using effect Ok start by (simp add: holds_def Let_def q_def)
    have step': "if st = SQLITE_BUSY then ?at q p c' else if st = SQLITE_ROW then ?at q w c' else if st = SQLITE_DONE then ?at q z c' else ?at q e c'"
      if "?at q p c" "sqlite3_step L q c = (st, c')" for c st c'
      using that step [of c q st c'] step_keeps [of q c st c'] step_text [of c q d st c'] by (simp add: holds_def split: if_splits)
    have more': "(st = SQLITE_BUSY \<or> st = SQLITE_ROW \<longrightarrow> ?at q w c') \<and> (st = SQLITE_DONE \<longrightarrow> ?at q z c')"
      if "?at q w c" "sqlite3_step L q c = (st, c')" for c st c'
      using that more [of c q st c'] step_keeps [of q c st c'] step_text [of c q d st c'] by (simp add: holds_def)
    have reset': "?at q w c'" if "?at q w c" "sqlite3_reset L q c = (st, c')" for c st c'
      using that reset_tables [of c q d st c'] reset_keeps [of q c st c'] by (simp add: holds_def)
    have error': "?at q p c \<Longrightarrow> ?at q e c" "?at q w c \<Longrightarrow> ?at q e c" for c using error by (simp_all add: holds_def)
    let ?rest = "pbind (statement_execute L i) (\<lambda>rs. case rs of None \<Rightarrow> plift (Ok []) | Some rs \<Rightarrow> collect_rows L f rs [])"
    have run1: "pbind (bind_positions L i bs) (\<lambda>_. pbind (bind_keys L i ds) (\<lambda>_. ?rest)) s1 = Some (res, s')"
      using run prep Ok by (simp add: connection_execute_def)
    have bound: "(\<exists>s2. ?rest s2 = Some (res, s') \<and> ?at q p (world s2) \<and> stmt_stmt (all_statements s2 ! i) = q) \<or>
        (?at q p (world s') \<and> (\<forall>x. res \<noteq> Ok x))"
    proof (cases "bind_positions L i bs s1 :: (('x db_error, unit) outcome \<times> 'c dbState) option")
      case (Some out)
      then obtain r2 s2 where b: "bind_positions L i bs s1 = Some (r2 :: ('x db_error, unit) outcome, s2)" by (cases out) auto
      note I2 = keepsD [OF binding_keeps(1) b I1]
      show ?thesis
      proof (cases r2)
        case (Ok u)
        with run1 b obtain r3 s3 where b3: "bind_keys L i ds s2 = Some (r3 :: ('x db_error, unit) outcome, s3)"
          by (cases "bind_keys L i ds s2 :: (('x db_error, unit) outcome \<times> 'c dbState) option") auto
        note I3 = keepsD [OF binding_keeps(2) b3 I2]
        show ?thesis using run1 b Ok b3 I3 by (cases r3) auto
      qed (use run1 b I2 in auto)
    qed (use run1 in simp)
    then show ?thesis
    proof (elim disjE exE conjE)
      fix s2
      assume rest: "?rest s2 = Some (res, s')" and s2: "?at q p (world s2)" "stmt_stmt (all_statements s2 ! i) = q"
      obtain r3 s3 where ex: "statement_execute L i s2 = Some (r3 :: ('x db_error, resultSet option) outcome, s3)" using pbind_started [OF rest] by blast
      have after: "case r3 of Ok None \<Rightarrow> ?at q z (world s3) | Ok (Some rs) \<Rightarrow> ?at q w (world s3) \<and> rs_stmt rs = q | Throw x \<Rightarrow> ?at q e (world s3) | Trap \<Rightarrow> True"
        by (rule statement_execute_invariant [where P = "?at q p" and R = "?at q w" and Z = "?at q z" and Q = "?at q e", OF ex s2(2,1) step' reset' error'(1)])
      show ?thesis
      proof (cases "\<exists>rs. r3 = Ok (Some rs)")
        case True
        then obtain rs where rs: "r3 = Ok (Some rs)" "rs_stmt rs = q" "?at q w (world s3)" using after by auto
        then have "collect_rows L f rs [] s3 = Some (res, s')" using rest ex by simp
        then have "case res of Ok x \<Rightarrow> ?at q z (world s') | Throw x \<Rightarrow> ?at q w (world s') | Trap \<Rightarrow> True"
          by (rule collect_rows_invariant [where R = "?at q w" and Z = "?at q z" and rs = rs, unfolded rs(2), OF _ rs(3) more'])
        then show ?thesis using error'(2) [of "world s'"] by (cases res) (simp_all add: holds_def)
      next
        case False
        then show ?thesis using rest ex after by (cases r3) (auto simp: holds_def split: option.splits)
      qed
    next
      assume "?at q p (world s')" "\<forall>x. res \<noteq> Ok x"
      then show ?thesis using error'(1) [of "world s'"] by (cases res) (simp_all add: holds_def)
    qed
  next
    case (Throw x)
    then have "res = Throw x" "s' = s1" using run prep by (simp_all add: connection_execute_def)
    then show ?thesis using effect start error [of "tables (world s)" "saved (world s) d"] by simp
  next
    case Trap
    then have "res = Trap" using run prep by (simp add: connection_execute_def)
    then show ?thesis by simp
  qed
qed

lemma finalize_all_tables:
  assumes "distinct (map (\<lambda>r. stmt_stmt (all_statements s ! r)) rs)" "\<forall>r \<in> set rs. r < length (all_statements s)"
    "\<forall>r \<in> set rs. stmts (world s) (stmt_stmt (all_statements s ! r)) \<noteq> None"
  shows "tables (world (fold (finalize L) rs s)) = tables (world s) \<and> saved (world (fold (finalize L) rs s)) = saved (world s)"
  using assms
proof (induction rs arbitrary: s)
  case (Cons r rs)
  let ?q = "stmt_stmt (all_statements s ! r)" and ?s = "finalize L r s"
  have ptr: "stmt_stmt (all_statements ?s ! x) = stmt_stmt (all_statements s ! x)" for x
    using Cons.prems(2) by (cases "x = r") (auto simp: finalize_def update_statement_def)
  obtain st c where fin: "sqlite3_finalize L ?q (world s) = (st, c)" by (rule prod.exhaust)
  have s: "world ?s = c" "length (all_statements ?s) = length (all_statements s)" by (simp_all add: finalize_def update_statement_def fin)
  have live: "stmts (world s) ?q \<noteq> None" using Cons.prems(3) by simp
  have "\<forall>x \<in> set rs. stmts c (stmt_stmt (all_statements s ! x)) \<noteq> None"
    using Cons.prems(1,3) finalize_frees [OF live fin] by (auto simp: image_iff)
  then have "tables (world (fold (finalize L) rs ?s)) = tables (world ?s) \<and> saved (world (fold (finalize L) rs ?s)) = saved (world ?s)"
    by (intro Cons.IH) (use Cons.prems in \<open>simp_all add: ptr s\<close>)
  then show ?case using finalize_tables [OF live fin] s by simp
qed simp

lemma close_effect:
  assumes own: "owning c0 others k d s" and run: "connection_close L k s = Some (r, s')"
  shows "r = Ok () \<and> tables (world s') = recover (tables (world s)) (saved (world s) d)"
proof -
  let ?s = "destroyAllStatements L k s"
  have opened: "assertOpened (all_connections s ! k) = Ok ()" and conn: "conn_db (all_connections s ! k) = Some d"
    using own by (auto simp: owning_def assertOpened_def)
  have fin: "stmts (world ?s) = stmts c0 \<and> dbs (world ?s) = dbs (world s) \<and> all_connections ?s = all_connections s \<and> connections ?s = connections s"
    unfolding destroyAllStatements_def by (rule finalize_all [where d = d]) (use own in \<open>simp_all add: owning_def pointers_def\<close>)
  have same: "tables (world ?s) = tables (world s) \<and> saved (world ?s) = saved (world s)"
    unfolding destroyAllStatements_def by (rule finalize_all_tables) (use own in \<open>auto simp: owning_def pointers_def map_add_def\<close>)
  obtain st c where close: "sqlite3_close L (Some d) (world ?s) = (st, c)" by (rule prod.exhaust)
  have d: "d \<in> dbs (world ?s)" "d \<notin> ran (stmts (world ?s))" using own fin by (auto simp: owning_def)
  have "waitWhileBusy (\<lambda>c. case sqlite3_close L (Some d) c of (st, c') \<Rightarrow> ((st, ()), c')) 0 (world ?s) = Some ((SQLITE_OK, ()), c)"
    by (subst waitWhileBusy.simps) (use close close_frees [OF d close] in simp)
  then have "r = Ok ()" "world s' = c" using run
    by (auto simp: connection_close_def sql_assert_def opened conn busy_call_def pbind_def update_connection_def)
  then show ?thesis using close_tables [OF d close] same by simp
qed

lemma update_executes:
  fixes r :: "('x db_error, unit) outcome"
  assumes "connection_update L k sql bs ds s = Some (r, s')"
  shows "\<exists>r'. connection_execute L k sql bs ds (\<lambda>_ _. Ok (None :: unit option)) s = Some (r', s') \<and> r = omap (\<lambda>_. ()) r'"
proof -
  obtain r1 :: "('x db_error, unit option list) outcome" and s1
    where run: "connection_execute L k sql bs ds (\<lambda>_ _. Ok (None :: unit option)) s = Some (r1, s1)"
    using pbind_started [OF assms [unfolded connection_update_def]] by blast
  then show ?thesis using assms by (cases r1) (auto simp: connection_update_def)
qed

lemma owning_update: "owning c0 others k d s \<Longrightarrow> connection_update L k sql bs ds s = Some (r, s') \<Longrightarrow> owning c0 others k d s'"
  using update_executes owning_execute by blast

text \<open>The statements that begin and end a transaction, and those inside it.\<close>

lemma begin_effect:
  assumes own: "owning c0 others k d s" and run: "connection_update L k ''BEGIN;'' bs ds s = Some (r, s')" and out: "saved (world s) d = None"
  shows "tables (world s') = tables (world s) \<or> r = Trap" "r = Ok () \<Longrightarrow> saved (world s') d = Some (tables (world s))" "r = Throw x \<Longrightarrow> saved (world s') d = None"
proof -
  let ?p = "\<lambda>t u. t = tables (world s) \<and> u = None"
  obtain r' where r': "connection_execute L k ''BEGIN;'' bs ds (\<lambda>_ _. Ok (None :: unit option)) s = Some (r', s')" "r = omap (\<lambda>_. ()) r'"
    using update_executes [OF run] by blast
  have "case r' of Ok x \<Rightarrow> tables (world s') = tables (world s) \<and> saved (world s') d = Some (tables (world s))
      | Throw x \<Rightarrow> ?p (tables (world s')) (saved (world s') d) | Trap \<Rightarrow> True"
    by (rule execute_effect [where p = ?p and w = "\<lambda>_ _. False" and e = ?p and z = "\<lambda>t u. t = tables (world s) \<and> u = Some (tables (world s))",
          OF own r'(1)]) (use out in \<open>auto dest: step_begin\<close>)
  then show "tables (world s') = tables (world s) \<or> r = Trap" "r = Ok () \<Longrightarrow> saved (world s') d = Some (tables (world s))" "r = Throw x \<Longrightarrow> saved (world s') d = None"
    using r'(2) by (auto split: outcome.splits)
qed

lemma commit_effect:
  assumes own: "owning c0 others k d s" and run: "connection_update L k ''COMMIT;'' bs ds s = Some (r, s')" and inside: "saved (world s) d = Some t"
  shows "r = Ok () \<Longrightarrow> tables (world s') = tables (world s) \<and> saved (world s') d = None" "r = Throw x \<Longrightarrow> recover (tables (world s')) (saved (world s') d) = t"
proof -
  let ?p = "\<lambda>v u. v = tables (world s) \<and> u = Some t" and ?z = "\<lambda>v u. v = tables (world s) \<and> u = None" and ?e = "\<lambda>v u. recover v u = t"
  obtain r' where r': "connection_execute L k ''COMMIT;'' bs ds (\<lambda>_ _. Ok (None :: unit option)) s = Some (r', s')" "r = omap (\<lambda>_. ()) r'"
    using update_executes [OF run] by blast
  have step: "(if st = SQLITE_BUSY then ?p else if st = SQLITE_ROW then (\<lambda>_ _. False) else if st = SQLITE_DONE then ?z else ?e) (tables c') (saved c' d)"
    if "stmts c q = Some d" "sql_of c q = ''COMMIT;''" "?p (tables c) (saved c d)" "sqlite3_step L q c = (st, c')" for q c st c'
    using that step_commit [OF that(1,2) _ that(4), of t] by simp
  have "case r' of Ok x \<Rightarrow> tables (world s') = tables (world s) \<and> saved (world s') d = None
      | Throw x \<Rightarrow> recover (tables (world s')) (saved (world s') d) = t | Trap \<Rightarrow> True"
    by (rule execute_effect [where p = ?p and w = "\<lambda>_ _. False" and e = ?e and z = ?z, OF own r'(1) _ step]) (use inside in \<open>auto simp: recover_def\<close>)
  then show "r = Ok () \<Longrightarrow> tables (world s') = tables (world s) \<and> saved (world s') d = None" "r = Throw x \<Longrightarrow> recover (tables (world s')) (saved (world s') d) = t"
    using r'(2) by (auto split: outcome.splits)
qed

lemma rollback_effect:
  assumes own: "owning c0 others k d s" and run: "connection_update L k ''ROLLBACK;'' bs ds s = Some (r, s')"
  shows "r \<noteq> Trap \<Longrightarrow> recover (tables (world s')) (saved (world s') d) = recover (tables (world s)) (saved (world s) d)"
proof -
  let ?p = "\<lambda>v u. recover v u = recover (tables (world s)) (saved (world s) d)"
  obtain r' where r': "connection_execute L k ''ROLLBACK;'' bs ds (\<lambda>_ _. Ok (None :: unit option)) s = Some (r', s')" "r = omap (\<lambda>_. ()) r'"
    using update_executes [OF run] by blast
  have step: "(if st = SQLITE_BUSY then ?p else if st = SQLITE_ROW then (\<lambda>_ _. False) else if st = SQLITE_DONE then ?p else ?p) (tables c') (saved c' d)"
    if "stmts c q = Some d" "sql_of c q = ''ROLLBACK;''" "?p (tables c) (saved c d)" "sqlite3_step L q c = (st, c')" for q c st c'
    using that step_rollback [OF that(1,2,4)] by simp
  have "case r' of Ok x \<Rightarrow> ?p (tables (world s')) (saved (world s') d) | Throw x \<Rightarrow> ?p (tables (world s')) (saved (world s') d) | Trap \<Rightarrow> True"
    by (rule execute_effect [where p = ?p and w = "\<lambda>_ _. False" and e = ?p and z = ?p, OF own r'(1) _ step]) auto
  then show "r \<noteq> Trap \<Longrightarrow> recover (tables (world s')) (saved (world s') d) = recover (tables (world s)) (saved (world s) d)"
    using r'(2) by (auto split: outcome.splits)
qed

lemma ordinary_effect:
  assumes own: "owning c0 others k d s" and run: "connection_update L k sql bs ds s = Some (r, s')" and sql: "ordinary sql"
    and inside: "saved (world s) d = Some t"
  shows "r = Ok () \<Longrightarrow> saved (world s') d = Some t" "r = Throw x \<Longrightarrow> recover (tables (world s')) (saved (world s') d) = t"
proof -
  let ?p = "\<lambda>v u. u = Some t" and ?e = "\<lambda>v u. recover v u = t"
  obtain r' where r': "connection_execute L k sql bs ds (\<lambda>_ _. Ok (None :: unit option)) s = Some (r', s')" "r = omap (\<lambda>_. ()) r'"
    using update_executes [OF run] by blast
  have step: "(if st = SQLITE_BUSY then ?p else if st = SQLITE_ROW then ?p else if st = SQLITE_DONE then ?p else ?e) (tables c') (saved c' d)"
    if "stmts c q = Some d" "sql_of c q = sql" "?p (tables c) (saved c d)" "sqlite3_step L q c = (st, c')" for q c st c'
    using that step_ordinary [OF that(1) _ that(3,4)] sql by simp
  have more: "(st = SQLITE_BUSY \<or> st = SQLITE_ROW \<longrightarrow> ?p (tables c') (saved c' d)) \<and> (st = SQLITE_DONE \<longrightarrow> ?p (tables c') (saved c' d))"
    if "stmts c q = Some d" "sql_of c q = sql" "?p (tables c) (saved c d)" "sqlite3_step L q c = (st, c')" for q c st c'
    using that step_ordinary [OF that(1) _ that(3,4)] sql by simp
  have "case r' of Ok x \<Rightarrow> ?p (tables (world s')) (saved (world s') d) | Throw x \<Rightarrow> ?e (tables (world s')) (saved (world s') d) | Trap \<Rightarrow> True"
    by (rule execute_effect [where p = ?p and w = ?p and e = ?e and z = ?p, OF own r'(1) _ step more]) (use inside in \<open>auto simp: recover_def\<close>)
  then show "r = Ok () \<Longrightarrow> saved (world s') d = Some t" "r = Throw x \<Longrightarrow> recover (tables (world s')) (saved (world s') d) = t"
    using r'(2) by (auto split: outcome.splits)
qed

lemma select_effect:
  assumes own: "owning c0 others k d s" and run: "connection_execute L k sql bs ds f s = Some (r, s')" and sql: "selects sql"
  shows "r \<noteq> Trap \<Longrightarrow> tables (world s') = tables (world s) \<and> saved (world s') d = saved (world s) d"
proof -
  let ?p = "\<lambda>v u. v = tables (world s) \<and> u = saved (world s) d"
  have step: "?p (tables c') (saved c' d)"
    if "stmts c q = Some d" "sql_of c q = sql" "?p (tables c) (saved c d)" "sqlite3_step L q c = (st, c')" for q c st c'
    using that step_select [OF that(1) _ that(4)] sql by simp
  have "case r of Ok x \<Rightarrow> ?p (tables (world s')) (saved (world s') d) | Throw x \<Rightarrow> ?p (tables (world s')) (saved (world s') d) | Trap \<Rightarrow> True"
    by (rule execute_effect [where p = ?p and w = ?p and e = ?p and z = ?p, OF own run]) (simp, frule (3) step, simp, frule (3) step, simp, simp)
  then show "r \<noteq> Trap \<Longrightarrow> tables (world s') = tables (world s) \<and> saved (world s') d = saved (world s) d"
    by (auto split: outcome.splits)
qed

text \<open>The connection that a database opens sees the tables as they are and is in no transaction; using and closing it.\<close>

lemma opened_effect:
  assumes url: "db_url s = Some u" and opened: "sqlite3_open L u (world s) = ((SQLITE_OK, p), c)"
    and run: "database_connection L F D s = Some (r, s')"
  shows "tables (world s') = tables (world s) \<and> (\<forall>k. r = Ok k \<longrightarrow> (\<exists>d. owning (world s) (connections s @ [k]) k d s' \<and> saved (world s') d = None))"
proof -
  note own = connection_owns [OF url opened run]
  have wait: "waitWhileBusy (sqlite3_open L u) 0 (world s) = Some ((SQLITE_OK, p), c)"
    by (subst waitWhileBusy.simps) (simp add: opened)
  have build: "buildURL F D s = Some (Ok (), s)" by (simp add: buildURL_def url)
  show ?thesis
  proof (cases "fileExists F u (world s) \<and> check_version L = Ok ()")
    case False
    then have "s' = s \<and> (\<forall>k. r \<noteq> Ok k)" using run
      by (cases "check_version L"; cases "fileExists F u (world s)") (auto simp: database_connection_def build url sql_assert_def)
    then show ?thesis by simp
  next
    case True
    then have w: "world s' = c" using run
      by (cases p) (auto simp: database_connection_def build url sql_assert_def connection_open_def busy_call_def wait pbind_def update_connection_def)
    have "\<exists>d. owning (world s) (connections s @ [k]) k d s' \<and> saved (world s') d = None" if k: "r = Ok k" for k
    proof -
      obtain d where d: "owning (world s) (connections s @ [k]) k d s'" using own k by auto
      then have "d \<in> dbs c" "d \<notin> dbs (world s)" by (simp_all add: owning_def w)
      then have "d \<in> set_option p" using open_new [OF opened] by auto
      then show ?thesis using d open_tables [OF opened] w by auto
    qed
    then show ?thesis using w open_tables [OF opened] by simp
  qed
qed

lemma defer_close:
  fixes r :: "('x db_error, 'r) outcome"
  assumes run: "pdefer (database_close L k) m s = Some (r, s')" "r \<noteq> Trap"
    and own: "\<And>s1. m s = Some (r, s1) \<Longrightarrow> owning c0 others k d s1"
  shows "\<exists>s1. m s = Some (r, s1) \<and> tables (world s') = recover (tables (world s1)) (saved (world s1) d)"
proof -
  obtain r1 s1 where m: "m s = Some (r1, s1)" using run(1) by (cases "m s") (auto simp: pdefer_def)
  then have r1: "r1 \<noteq> Trap" using run by (auto simp: pdefer_def)
  let ?closes = "ptry (database_close L k) s1 :: (('x db_error, unit) outcome \<times> 'c dbState) option"
  have eq: "(case ?closes of None \<Rightarrow> None | Some (Ok _, s2) \<Rightarrow> Some (r1, s2) | Some (_, s2) \<Rightarrow> Some (Trap, s2)) = Some (r, s')"
    using run(1) m r1 by (cases r1) (auto simp: pdefer_def)
  then have r: "r1 = r" using run(2) by (auto split: option.splits outcome.splits)
  obtain s2 where close: "connection_close L k s1 = (Some (Ok (), s2) :: (('x db_error, unit) outcome \<times> 'c dbState) option)"
    using owning_close [OF own] m r by blast
  then have "?closes = Some (Ok (), s2\<lparr>connections := remove1 k (connections s2)\<rparr>)" by (simp add: ptry_def database_close_def)
  then have "world s' = world s2" using eq by auto
  then show ?thesis using close_effect [OF own close] m r by auto
qed

lemma query_effect:
  fixes r :: "('x db_error, 'r option list) outcome"
  assumes url: "db_url s = Some u" and opened: "sqlite3_open L u (world s) = ((SQLITE_OK, p), c)" and sql: "selects sql"
    and run: "database_execute L F D sql bs ds f s = Some (r, s')" "r \<noteq> Trap"
  shows "tables (world s') = tables (world s)"
proof -
  obtain r1 :: "('x db_error, nat) outcome" and s1 where conn: "database_connection L F D s = Some (r1, s1)"
    using pbind_started [OF run(1) [unfolded database_execute_def]] by blast
  note effect = opened_effect [OF url opened conn]
  show ?thesis
  proof (cases r1)
    case (Ok k)
    then obtain d where d: "owning (world s) (connections s @ [k]) k d s1" "saved (world s1) d = None" using effect by blast
    have body: "pdefer (database_close L k) (connection_execute L k sql bs ds f) s1 = Some (r, s')"
      using run(1) conn Ok by (simp add: database_execute_def)
    have own2: "owning (world s) (connections s @ [k]) k d s2" if "connection_execute L k sql bs ds f s1 = Some (r, s2)" for s2
      by (rule owning_execute [OF d(1) that])
    obtain s2 where s2: "connection_execute L k sql bs ds f s1 = Some (r, s2)" "tables (world s') = recover (tables (world s2)) (saved (world s2) d)"
      using defer_close [OF body run(2) own2] by blast
    then show ?thesis using select_effect [OF d(1) s2(1) sql run(2)] d(2) effect by (simp add: recover_def)
  qed (use run conn effect in \<open>auto simp: database_execute_def\<close>)
qed

end

end
