(* ===== verification/Migration_Safety.thy ===== *)
theory Migration_Safety
  imports Migrations Sqlite_Transactions
begin

section \<open>Migrations are atomic\<close>

text \<open>
  Which migrations run, and that the tables are either those after all of them or those before.
\<close>

subsection \<open>The pending migrations\<close>

lemma drop_greater:
  assumes "sorted (map key ms)" "distinct (map key ms)" "i < length ms"
  shows "drop (i + 1) ms = filter (\<lambda>m. key (ms ! i) < key m) ms"
proof -
  have "sorted_wrt (<) (map key ms)" using assms(1,2) by (simp add: strict_sorted_iff)
  then have less: "key (ms ! a) < key (ms ! b)" if "a < b" "b < length ms" for a b
    using that sorted_wrt_nth_less [of "(<)" "map key ms" a b] by simp
  have "\<not> key (ms ! i) < key m" if m: "m \<in> set (take (i + 1) ms)" for m
  proof -
    obtain j where "j \<le> i" "m = ms ! j" using m assms(3) by (auto simp: in_set_conv_nth less_Suc_eq_le)
    then show ?thesis using less [of j i] assms(3) by (cases "j = i") auto
  qed
  moreover have "key (ms ! i) < key m" if m: "m \<in> set (drop (i + 1) ms)" for m
  proof -
    obtain j where "j < length ms - (i + 1)" "m = ms ! (i + 1 + j)" using m by (auto simp: in_set_conv_nth)
    then show ?thesis using less [of i "i + 1 + j"] by simp
  qed
  ultimately have "filter (\<lambda>m. key (ms ! i) < key m) (take (i + 1) ms) = []" "filter (\<lambda>m. key (ms ! i) < key m) (drop (i + 1) ms) = drop (i + 1) ms"
    by (simp_all add: filter_empty_conv filter_id_conv)
  then show ?thesis by (metis append_Nil append_take_drop_id filter_append)
qed

text \<open>If the latest migration of the database is registered, those with greater identifiers are pending, in their order; otherwise all are.\<close>

lemma pending_after_latest:
  assumes "distinct (map migration_id registered)"
  shows "pending_of latest registered = (case latest of
      Some l \<Rightarrow> if l \<in> migration_id ` set registered then filter (\<lambda>m. l < migration_id m) (sort_key migration_id registered)
        else sort_key migration_id registered
    | None \<Rightarrow> sort_key migration_id registered)"
proof -
  let ?ms = "sort_key migration_id registered"
  have sorted: "sorted (map migration_id ?ms)" "distinct (map migration_id ?ms)" using assms by (simp_all add: distinct_map)
  show ?thesis
  proof (cases "Option.bind latest (\<lambda>l. firstIndex (\<lambda>m. migration_id m = l) ?ms)")
    case None
    then show ?thesis by (auto simp: pending_of_def Let_def firstIndex_None split: option.splits bind_splits)
  next
    case (Some i)
    then obtain l where l: "latest = Some l" "firstIndex (\<lambda>m. migration_id m = l) ?ms = Some i" by (auto split: bind_splits)
    then have i: "i < length ?ms" "migration_id (?ms ! i) = l" using firstIndex_Some by blast+
    then have "l \<in> migration_id ` set registered" by (metis image_eqI nth_mem set_sort)
    moreover have "pending_of latest registered = drop (i + 1) ?ms" using Some i(1) by (auto simp: pending_of_def Let_def)
    ultimately show ?thesis using drop_greater [OF sorted i(1)] l(1) i(2) by simp
  qed
qed

text \<open>A migration whose set-up executes statements on the connection, none of which begins or ends a transaction.\<close>

definition alters :: "'c csqlite3 \<Rightarrow> ('c, 'x) migration \<Rightarrow> bool" where
  "alters L m \<longleftrightarrow> (\<exists>sqls. (\<forall>sql \<in> set sqls. ordinary sql) \<and> migration_setUp m = (\<lambda>k. pforEach (\<lambda>sql. connection_update L k sql [] []) sqls))"

text \<open>The migrations one after the other, each followed by its entry in the table of migrations; a failure to write it traps.\<close>

definition run_migrations :: "'c csqlite3 \<Rightarrow> ('c, 'x) migration list \<Rightarrow> nat \<Rightarrow> ('c dbState, 'x db_error, unit) program" where
  "run_migrations L ms k = pforEach (\<lambda>m. pbind (migration_setUp m k) (\<lambda>_. ptryBang (connection_update L k
     ''INSERT OR REPLACE INTO tbl_migrations(id) VALUES (?);'' [Some (BString (migration_id m))] [] :: ('c dbState, 'x db_error, unit) program))) ms"

lemma run_migrations_eq: "run_migrations L ms k = pforEach (\<lambda>m. pbind (migration_setUp m k) (\<lambda>_. save_migration L k (migration_id m))) ms"
proof -
  have "insertSQL migration_table = ''INSERT OR REPLACE INTO tbl_migrations(id) VALUES (?);''" by code_simp
  then show ?thesis by (simp add: run_migrations_def save_migration_def migration_row_def)
qed

lemma ordinary_insert: "ordinary (insertSQL migration_table)"
  by code_simp

lemma bind_unit: "pbind m (\<lambda>_. plift (Ok ())) = m"
proof
  fix s
  show "pbind m (\<lambda>_. plift (Ok ())) s = m s"
  proof (cases "m s")
    case (Some out)
    then show ?thesis by (cases "fst out"; cases out) auto
  qed simp
qed

lemma wallet_migrations_alter: "\<forall>m \<in> set (tl (walletMigrations L sync)). alters L m"
proof -
  have one: "alters L \<lparr>migration_id = i, migration_setUp = (\<lambda>k. connection_update L k sql [] [])\<rparr>" if "ordinary sql" for i sql
    unfolding alters_def by (rule exI [of _ "[sql]"]) (simp add: that bind_unit)
  have "alters L (M0004_AddColumnsToWallet L)" unfolding alters_def M0004_AddColumnsToWallet_def
    by (rule exI [of _ "[''ALTER TABLE tbl_wallets ADD master_copy_address TEXT;'', ''ALTER TABLE tbl_wallets ADD contract_version TEXT;'']"])
      (simp add: bind_unit ordinary_def)
  then show ?thesis
    by (simp add: walletMigrations_def M0002_AddFeeTokenToWallet_def M0003_AddCanPayTransactionFeeToTokenListItem_def one ordinary_def)
qed

definition latest_text :: string where
  "latest_text = ''SELECT id'' @ [CHR 0x0A] @ ''FROM tbl_migrations'' @ [CHR 0x0A] @ ''ORDER BY id DESC'' @ [CHR 0x0A] @ ''LIMIT 1;''"

lemma latest_sql: "findLatestSQL = Ok latest_text"
proof -
  have "List.find (\<lambda>f. contains_text ''PRIMARY KEY'' (uppercased (field_decl f))) (table_fields migration_table) =
      Some \<lparr>field_name = ''id'', field_decl = ''id TEXT NOT NULL PRIMARY KEY''\<rparr>" by code_simp
  moreover have "fieldNameList migration_table = ''id''" by code_simp
  moreover have "tableName migration_table = ''tbl_migrations''" by code_simp
  ultimately show ?thesis by (simp add: findLatestSQL_def primaryKey_def latest_text_def)
qed

lemma latest_selects: "selects latest_text"
  by code_simp

subsection \<open>Inside the transaction\<close>

context sqlite_transactions
begin

text \<open>What running a part of the transaction leaves: the connection in use, and the tables that a rollback gives.\<close>

definition inside :: "'c \<Rightarrow> nat list \<Rightarrow> nat \<Rightarrow> pointer \<Rightarrow> 't \<Rightarrow> (('e, 'a) outcome \<times> 'c dbState) \<Rightarrow> bool" where
  "inside c0 others k d t out \<longleftrightarrow> owning c0 others k d (snd out) \<and> (case fst out of
      Ok x \<Rightarrow> saved (world (snd out)) d = Some t
    | Throw e \<Rightarrow> recover (tables (world (snd out))) (saved (world (snd out)) d) = t
    | Trap \<Rightarrow> True)"

lemma inside_ordinary:
  assumes "owning c0 others k d s" "saved (world s) d = Some t" "ordinary sql" "connection_update L k sql bs ds s = Some out"
  shows "inside c0 others k d t out"
proof -
  obtain r s' where out: "out = (r, s')" by (rule prod.exhaust)
  note run = assms(4) [unfolded out]
  show ?thesis using owning_update [OF assms(1) run] ordinary_effect [OF assms(1) run assms(3,2)] out
    by (cases r) (simp_all add: inside_def)
qed

lemma inside_bind:
  assumes "owning c0 others k d s" "saved (world s) d = Some t" "pbind m f s = Some out"
    and "\<And>out. m s = Some out \<Longrightarrow> inside c0 others k d t out"
    and "\<And>x s' out. owning c0 others k d s' \<Longrightarrow> saved (world s') d = Some t \<Longrightarrow> f x s' = Some out \<Longrightarrow> inside c0 others k d t out"
  shows "inside c0 others k d t out"
proof -
  obtain r s' where m: "m s = Some (r, s')" using assms(3) by (cases "m s") (auto simp: pbind_def)
  have "inside c0 others k d t (r, s')" by (rule assms(4) [OF m])
  then show ?thesis using assms(3) assms(5) [of s' _ out] m by (cases r) (auto simp: inside_def)
qed

lemma inside_forEach:
  assumes "owning c0 others k d s" "saved (world s) d = Some t" "pforEach f xs s = Some out"
    and "\<And>x s' out. x \<in> set xs \<Longrightarrow> owning c0 others k d s' \<Longrightarrow> saved (world s') d = Some t \<Longrightarrow> f x s' = Some out \<Longrightarrow> inside c0 others k d t out"
  shows "inside c0 others k d t out"
  using assms
proof (induction xs arbitrary: s out)
  case Nil
  then show ?case by (auto simp: inside_def)
next
  case (Cons x xs)
  show ?case
  proof (rule inside_bind [OF Cons.prems(1,2) Cons.prems(3) [unfolded pforEach.simps]])
    show "inside c0 others k d t out" if "f x s = Some out" for out using Cons.prems(4) [OF _ Cons.prems(1,2) that] by simp
    show "inside c0 others k d t out" if "owning c0 others k d s'" "saved (world s') d = Some t" "pforEach f xs s' = Some out" for s' out
      by (rule Cons.IH [OF that]) (use Cons.prems(4) in \<open>meson list.set_intros(2)\<close>)
  qed
qed

lemma inside_migrations:
  fixes out :: "('x db_error, unit) outcome \<times> 'c dbState"
  assumes "owning c0 others k d s" "saved (world s) d = Some t" "run_migrations L ms k s = Some out" "\<forall>m \<in> set ms. alters L m"
  shows "inside c0 others k d t out"
proof (rule inside_forEach [OF assms(1,2) assms(3) [unfolded run_migrations_eq]])
  fix m s' and out :: "('x db_error, unit) outcome \<times> 'c dbState"
  assume m: "m \<in> set ms" and s': "owning c0 others k d s'" "saved (world s') d = Some t"
    and run: "pbind (migration_setUp m k) (\<lambda>_. save_migration L k (migration_id m)) s' = Some out"
  obtain sqls where sqls: "\<forall>sql \<in> set sqls. ordinary sql" "migration_setUp m = (\<lambda>k. pforEach (\<lambda>sql. connection_update L k sql [] []) sqls)"
    using assms(4) m by (auto simp: alters_def)
  show "inside c0 others k d t out"
  proof (rule inside_bind [OF s' run])
    show "inside c0 others k d t out" if "migration_setUp m k s' = Some out" for out
      using inside_forEach [OF s' that [unfolded sqls(2)]] inside_ordinary sqls(1) by blast
    show "inside c0 others k d t out" if s: "owning c0 others k d s" "saved (world s) d = Some t" and save: "save_migration L k (migration_id m) s = Some out"
      for s and out :: "('x db_error, unit) outcome \<times> 'c dbState"
    proof -
      obtain r s1 where run: "connection_update L k (insertSQL migration_table) (migration_row (migration_id m)) [] s =
          Some (r :: ('x db_error, unit) outcome, s1)" "out = (tryBang r, s1)" using save by (auto simp: save_migration_def ptryBang_def)
      then show ?thesis using inside_ordinary [OF s ordinary_insert run(1)] by (cases r) (auto simp: inside_def)
    qed
  qed
qed

text \<open>A transaction as a whole, for a body that stays inside.\<close>

lemma committed:
  fixes closure :: "nat \<Rightarrow> ('c dbState, 'x db_error, unit) program"
  assumes own: "owning c0 others k d s" and s: "saved (world s) d = Some t"
    and body: "\<And>out. closure k s = Some out \<Longrightarrow> inside c0 others k d t out"
    and run: "pcatch (pbind (closure k) (\<lambda>_. connection_update L k ''COMMIT;'' [] []))
      (\<lambda>e. pbind (ptry (connection_update L k ''ROLLBACK;'' [] [])) (\<lambda>_. plift (Throw e))) s = Some (r, s')" and "r \<noteq> Trap"
  shows "owning c0 others k d s'" "r = Throw e \<Longrightarrow> recover (tables (world s')) (saved (world s') d) = t"
    "r = Ok () \<Longrightarrow> \<exists>s2. closure k s = Some (Ok (), s2) \<and> tables (world s') = tables (world s2) \<and> saved (world s') d = None"
proof -
  let ?commit = "pbind (closure k) (\<lambda>_. connection_update L k ''COMMIT;'' [] []) s" and ?roll = "connection_update L k ''ROLLBACK;'' [] []"
  have commit: "owning c0 others k d s1 \<and> (r1 = Ok () \<longrightarrow> (\<exists>s2. closure k s = Some (Ok (), s2) \<and> tables (world s1) = tables (world s2) \<and> saved (world s1) d = None)) \<and>
      (\<forall>e. r1 = Throw e \<longrightarrow> recover (tables (world s1)) (saved (world s1) d) = t)" if c: "?commit = Some (r1, s1)" for r1 s1
  proof -
    obtain r2 s2 where s2: "closure k s = Some (r2, s2)" using pbind_started [OF c] by blast
    note i = body [OF s2]
    show ?thesis
    proof (cases r2)
      case (Ok x)
      then have run2: "connection_update L k ''COMMIT;'' [] [] s2 = Some (r1, s1)" using c s2 by simp
      have own2: "owning c0 others k d s2" "saved (world s2) d = Some t" using i Ok by (simp_all add: inside_def)
      show ?thesis using owning_update [OF own2(1) run2] commit_effect [OF own2(1) run2 own2(2)] s2 Ok by auto
    qed (use c s2 i in \<open>auto simp: inside_def\<close>)
  qed
  obtain r1 s1 where s1: "?commit = Some (r1, s1)" using run by (cases ?commit) (auto simp: pcatch_def)
  note c = commit [OF s1]
  have "owning c0 others k d s' \<and> (r = Throw e \<longrightarrow> recover (tables (world s')) (saved (world s') d) = t) \<and>
    (r = Ok () \<longrightarrow> (\<exists>s2. closure k s = Some (Ok (), s2) \<and> tables (world s') = tables (world s2) \<and> saved (world s') d = None))"
  proof (cases r1)
    case (Throw x)
    then have roll: "pbind (ptry ?roll) (\<lambda>_. plift (Throw x)) s1 = Some (r, s')" using run s1 by (simp add: pcatch_def)
    obtain r3 s3 where s3: "?roll s1 = Some (r3 :: ('x db_error, unit) outcome, s3)"
      using pbind_started [OF roll] by (cases "?roll s1 :: (('x db_error, unit) outcome \<times> 'c dbState) option") (auto simp: ptry_def)
    then have r3: "r3 \<noteq> Trap" "r = Throw x" "s' = s3" using roll assms(5) by (cases r3; simp add: pbind_def ptry_def; fail)+
    show ?thesis using owning_update [OF _ s3] rollback_effect [OF _ s3 r3(1)] c Throw r3(2,3) by auto
  qed (use run s1 c assms(5) in \<open>auto simp: pcatch_def\<close>)
  then show "owning c0 others k d s'" "r = Throw e \<Longrightarrow> recover (tables (world s')) (saved (world s') d) = t"
    "r = Ok () \<Longrightarrow> \<exists>s2. closure k s = Some (Ok (), s2) \<and> tables (world s') = tables (world s2) \<and> saved (world s') d = None"
    by blast+
qed

definition transaction_body :: "nat \<Rightarrow> (nat \<Rightarrow> ('c dbState, 'x db_error, unit) program) \<Rightarrow> ('c dbState, 'x db_error, unit) program" where
  "transaction_body k closure = pbind (connection_update L k ''BEGIN;'' [] []) (\<lambda>_.
     pcatch (pbind (closure k) (\<lambda>_. connection_update L k ''COMMIT;'' [] []))
       (\<lambda>e. pbind (ptry (connection_update L k ''ROLLBACK;'' [] [])) (\<lambda>_. plift (Throw e))))"

lemma body_effect:
  fixes closure :: "nat \<Rightarrow> ('c dbState, 'x db_error, unit) program"
  assumes own: "owning c0 others k d s" and out: "saved (world s) d = None"
    and body: "\<And>c0 others k d t s out. owning c0 others k d s \<Longrightarrow> saved (world s) d = Some t \<Longrightarrow> closure k s = Some out \<Longrightarrow> inside c0 others k d t out"
    and run: "transaction_body k closure s = Some (r, s')" "r \<noteq> Trap"
  shows "owning c0 others k d s' \<and> (\<forall>e. r = Throw e \<longrightarrow> recover (tables (world s')) (saved (world s') d) = tables (world s)) \<and>
    (r = Ok () \<longrightarrow> (\<exists>s1 s2. tables (world s1) = tables (world s) \<and> closure k s1 = Some (Ok (), s2) \<and> tables (world s') = tables (world s2) \<and> saved (world s') d = None))"
proof -
  obtain r1 :: "('x db_error, unit) outcome" and s1 where s1: "connection_update L k ''BEGIN;'' [] [] s = Some (r1, s1)"
    using pbind_started [OF run(1) [unfolded transaction_body_def]] by blast
  note own1 = owning_update [OF own s1] and began = begin_effect [OF own s1 out]
  show ?thesis
  proof (cases r1)
    case (Ok x)
    then have s1': "tables (world s1) = tables (world s)" "saved (world s1) d = Some (tables (world s))" using began by auto
    have rest: "pcatch (pbind (closure k) (\<lambda>_. connection_update L k ''COMMIT;'' [] []))
        (\<lambda>e. pbind (ptry (connection_update L k ''ROLLBACK;'' [] [])) (\<lambda>_. plift (Throw e))) s1 = Some (r, s')"
      using run(1) s1 Ok by (simp add: transaction_body_def)
    note c = committed [where closure = closure and k = k, OF own1 s1'(2) body [OF own1 s1'(2)] rest run(2)]
    show ?thesis using c s1'(1) by blast
  next
    case (Throw x)
    then show ?thesis using run(1) s1 own1 began by (auto simp: transaction_body_def recover_def)
  qed (use run s1 in \<open>simp add: transaction_body_def\<close>)
qed

lemma transaction_effect:
  fixes closure :: "nat \<Rightarrow> ('c dbState, 'x db_error, unit) program"
  assumes url: "db_url s = Some u" and opened: "sqlite3_open L u (world s) = ((SQLITE_OK, p), c)"
    and body: "\<And>c0 others k d t s out. owning c0 others k d s \<Longrightarrow> saved (world s) d = Some t \<Longrightarrow> closure k s = Some out \<Longrightarrow> inside c0 others k d t out"
    and run: "executeInTransaction L F D closure s = Some (r, s')" "r \<noteq> Trap"
  shows "(\<forall>e. r = Throw e \<longrightarrow> tables (world s') = tables (world s)) \<and>
    (r = Ok () \<longrightarrow> (\<exists>k s1 s2. tables (world s1) = tables (world s) \<and> closure k s1 = Some (Ok (), s2) \<and> tables (world s') = tables (world s2)))"
proof -
  have run': "pbind (database_connection L F D) (\<lambda>k. pdefer (database_close L k) (transaction_body k closure)) s = Some (r, s')"
    using run(1) by (simp only: executeInTransaction_def transaction_body_def)
  obtain r1 :: "('x db_error, nat) outcome" and s1 where conn: "database_connection L F D s = Some (r1, s1)" using pbind_started [OF run'] by blast
  note effect = opened_effect [OF url opened conn]
  show ?thesis
  proof (cases r1)
    case (Ok k)
    then obtain d where d: "owning (world s) (connections s @ [k]) k d s1" "saved (world s1) d = None" using effect by blast
    have deferred: "pdefer (database_close L k) (transaction_body k closure) s1 = Some (r, s')" using run' conn Ok by simp
    have b: "owning (world s) (connections s @ [k]) k d s2 \<and> (\<forall>e. r = Throw e \<longrightarrow> recover (tables (world s2)) (saved (world s2) d) = tables (world s1)) \<and>
        (r = Ok () \<longrightarrow> (\<exists>s3 s4. tables (world s3) = tables (world s1) \<and> closure k s3 = Some (Ok (), s4) \<and> tables (world s2) = tables (world s4) \<and>
          saved (world s2) d = None))"
      if body2: "transaction_body k closure s1 = Some (r, s2)" for s2
      by (rule body_effect [OF d body body2 run(2)])
    then have own2: "owning (world s) (connections s @ [k]) k d s2" if "transaction_body k closure s1 = Some (r, s2)" for s2 using that by blast
    obtain s2 where s2: "transaction_body k closure s1 = Some (r, s2)" "tables (world s') = recover (tables (world s2)) (saved (world s2) d)"
      using defer_close [OF deferred run(2) own2] by blast
    have "tables (world s') = tables (world s)" if "r = Throw e" for e using b [OF s2(1)] s2(2) effect that by simp
    moreover have "\<exists>s3 s4. tables (world s3) = tables (world s) \<and> closure k s3 = Some (Ok (), s4) \<and> tables (world s') = tables (world s4)" if "r = Ok ()"
      using b [OF s2(1)] s2(2) effect that by (auto simp: recover_def)
    ultimately show ?thesis by blast
  qed (use run' conn effect run(2) in auto)
qed

lemma latest_effect:
  fixes r :: "('x db_error, string option) outcome"
  assumes url: "db_url s = Some u" and opened: "sqlite3_open L u (world s) = ((SQLITE_OK, p), c)" and run: "findLatest L F D s = Some (r, s')"
  shows "(\<forall>e. r \<noteq> Throw e) \<and> (\<forall>l. r = Ok l \<longrightarrow> tables (world s') = tables (world s) \<and> db_url s' = Some u)"
proof -
  let ?query = "database_execute L F D latest_text [] [] (migrationFromResultSet L :: ('c, 'x, string) resultMap)"
  obtain r1 s1 where q: "?query s = Some (r1, s1)" using run
    by (cases "?query s") (auto simp: findLatest_def ptryBang_def latest_sql pbind_def)
  then have r: "r = omap first_of (tryBang r1)" "s' = s1" using run
    by (cases r1; simp add: findLatest_def ptryBang_def latest_sql pbind_def; fail)+
  show ?thesis
  proof (cases r1)
    case (Ok vs)
    then show ?thesis using query_effect [OF url opened latest_selects q] keepsD [OF database_execute_url q url] r by simp
  qed (use r in simp_all)
qed

lemma migrate_effect:
  fixes registered :: "('c, 'x) migration list"
  assumes url: "db_url s = Some u" and opens: "\<forall>c. \<exists>p c'. sqlite3_open L u c = ((SQLITE_OK, p), c')" and alter: "\<forall>m \<in> set registered. alters L m"
    and run: "migrate L F D registered s = Some (r, s')"
  shows "(\<forall>e. r = Throw e \<longrightarrow> tables (world s') = tables (world s)) \<and>
    (r = Ok () \<longrightarrow> (\<exists>s0 latest. findLatest L F D s = Some (Ok latest, s0) \<and> (pending_of latest registered = [] \<and> tables (world s') = tables (world s) \<or>
      (\<exists>k s1 s2. tables (world s1) = tables (world s) \<and> run_migrations L (pending_of latest registered) k s1 = Some (Ok (), s2) \<and>
        tables (world s') = tables (world s2)))))"
proof -
  obtain r0 s0 where latest: "findLatest L F D s = Some (r0 :: ('x db_error, string option) outcome, s0)"
    using run by (cases "findLatest L F D s :: (('x db_error, string option) outcome \<times> 'c dbState) option") (auto simp: migrate_def pendingMigrations_def pbind_def)
  obtain p c where "sqlite3_open L u (world s) = ((SQLITE_OK, p), c)" using opens by blast
  note effect = latest_effect [OF url this latest]
  show ?thesis
  proof (cases r0)
    case (Ok l)
    let ?pending = "pending_of l registered"
    have s0: "tables (world s0) = tables (world s)" "db_url s0 = Some u" using effect Ok by auto
    have run0: "(if ?pending = [] then plift (Ok ()) else executeInTransaction L F D (run_migrations L ?pending)) s0 = Some (r, s')"
      using run latest Ok by (simp add: migrate_def pendingMigrations_def run_migrations_eq [abs_def] split: if_splits)
    show ?thesis
    proof (cases "?pending = []")
      case True
      then show ?thesis using run0 latest Ok s0 by auto
    next
      case False
      have sub: "\<forall>m \<in> set ?pending. alters L m" using alter
        by (auto simp: pending_of_def Let_def split: option.splits if_splits dest: in_set_dropD)
      obtain p c where o: "sqlite3_open L u (world s0) = ((SQLITE_OK, p), c)" using opens by blast
      have t: "executeInTransaction L F D (run_migrations L ?pending) s0 = Some (r, s')" using run0 False by simp
      show ?thesis
      proof (cases "r = Trap")
        case False
        have "(\<forall>e. r = Throw e \<longrightarrow> tables (world s') = tables (world s0)) \<and> (r = Ok () \<longrightarrow> (\<exists>k s1 s2. tables (world s1) = tables (world s0) \<and>
            run_migrations L ?pending k s1 = Some (Ok (), s2) \<and> tables (world s') = tables (world s2)))"
          by (rule transaction_effect [OF s0(2) o _ t False]) (rule inside_migrations [OF _ _ _ sub])
        then show ?thesis using latest Ok s0 by auto
      qed simp
    qed
  qed (use run latest effect in \<open>auto simp: migrate_def pendingMigrations_def\<close>)
qed

end

end
