(* ===== verification/Migration_Check.thy ===== *)
theory Migration_Check
  imports Migration_Safety
begin

section \<open>Migrations on a reference library\<close>

text \<open>
  The property of \<open>Migration_Safety\<close>, and a library with transactions that satisfies its laws: the handles are those of \<open>Sqlite_Reference\<close>, the
  tables are the list of the texts that changed them, and adding a column twice is an error.
\<close>

subsection \<open>A library with transactions\<close>

record tx_world =
  tw_handles :: "ref_handle list"
  tw_tables :: "string list"
  tw_saved :: "pointer \<Rightarrow> string list option"
  tw_sql :: "pointer \<Rightarrow> string"

definition tw_dbs :: "tx_world \<Rightarrow> pointer set" where
  "tw_dbs w = ref_dbs (tw_handles w)"

definition tw_stmts :: "tx_world \<Rightarrow> (pointer \<rightharpoonup> pointer)" where
  "tw_stmts w = ref_stmts (tw_handles w)"

definition lift_call :: "(ref_handle list \<Rightarrow> 'r \<times> ref_handle list) \<Rightarrow> tx_world \<Rightarrow> 'r \<times> tx_world" where
  "lift_call f w = (case f (tw_handles w) of (r, h) \<Rightarrow> (r, w\<lparr>tw_handles := h\<rparr>))"

definition tw_open :: "tx_world \<Rightarrow> (resultCode \<times> pointer option) \<times> tx_world" where
  "tw_open w = ((SQLITE_OK, Some (length (tw_handles w))), w\<lparr>tw_handles := tw_handles w @ [RefDb],
     tw_saved := (tw_saved w)(length (tw_handles w) := None)\<rparr>)"

definition tw_close :: "pointer option \<Rightarrow> tx_world \<Rightarrow> resultCode \<times> tx_world" where
  "tw_close p w = (case lift_call (ref_close p) w of (st, w') \<Rightarrow>
     (st, if st = SQLITE_OK then w'\<lparr>tw_tables := recover (tw_tables w) (case p of None \<Rightarrow> None | Some d \<Rightarrow> tw_saved w d)\<rparr> else w'))"

definition tw_prepare :: "(string \<Rightarrow> string list \<times> parameterValue list list) \<Rightarrow> pointer option \<Rightarrow> string \<Rightarrow> tx_world
    \<Rightarrow> (resultCode \<times> pointer option) \<times> tx_world" where
  "tw_prepare answers p sql w = (case lift_call (ref_prepare answers p sql) w of ((st, q), w') \<Rightarrow>
     ((st, q), w'\<lparr>tw_sql := (tw_sql w)(length (tw_handles w) := sql)\<rparr>))"

definition tw_step :: "pointer \<Rightarrow> tx_world \<Rightarrow> resultCode \<times> tx_world" where
  "tw_step q w = (case tw_stmts w q of None \<Rightarrow> (SQLITE_MISUSE, w) | Some d \<Rightarrow> let sql = tw_sql w q in
     if sql = ''BEGIN;'' then
       (case tw_saved w d of None \<Rightarrow> (SQLITE_DONE, w\<lparr>tw_saved := (tw_saved w)(d \<mapsto> tw_tables w)\<rparr>) | Some _ \<Rightarrow> (SQLITE_ERROR, w))
     else if sql = ''COMMIT;'' then
       (case tw_saved w d of None \<Rightarrow> (SQLITE_ERROR, w) | Some _ \<Rightarrow> (SQLITE_DONE, w\<lparr>tw_saved := (tw_saved w)(d := None)\<rparr>))
     else if sql = ''ROLLBACK;'' then
       (case tw_saved w d of None \<Rightarrow> (SQLITE_ERROR, w) | Some t \<Rightarrow> (SQLITE_DONE, w\<lparr>tw_tables := t, tw_saved := (tw_saved w)(d := None)\<rparr>))
     else if selects sql then lift_call (ref_step q) w
     else if take 12 sql = ''ALTER TABLE '' \<and> sql \<in> set (tw_tables w) then (SQLITE_ERROR, w)
     else (SQLITE_DONE, w\<lparr>tw_tables := tw_tables w @ [sql]\<rparr>))"

definition tx_sqlite :: "(string \<Rightarrow> string list \<times> parameterValue list list) \<Rightarrow> tx_world csqlite3" where
  "tx_sqlite answers = (let R = ref_sqlite answers in \<lparr>
     sqlite3_open = (\<lambda>_. tw_open), sqlite3_close = tw_close, sqlite3_prepare_v2 = tw_prepare answers,
     sqlite3_finalize = (\<lambda>q. lift_call (ref_finalize q)), sqlite3_step = tw_step, sqlite3_reset = (\<lambda>q. lift_call (ref_reset q)),
     sqlite3_bind = (\<lambda>_ i _ w. (if 1 \<le> i then SQLITE_OK else SQLITE_RANGE, w)), sqlite3_bind_parameter_index = (\<lambda>_ _ _. 0),
     sqlite3_get_autocommit = (\<lambda>d w. if tw_saved w d = None then 1 else 0), sqlite3_errmsg = (\<lambda>_ _. None), sqlite3_errstr = (\<lambda>_. []), status_text = (\<lambda>_. []),
     sqlite3_column_count = (\<lambda>q w. sqlite3_column_count R q (tw_handles w)), sqlite3_column_name = (\<lambda>q i w. sqlite3_column_name R q i (tw_handles w)),
     sqlite3_column_type = (\<lambda>q i w. sqlite3_column_type R q i (tw_handles w)), sqlite3_column_text = (\<lambda>q i w. sqlite3_column_text R q i (tw_handles w)),
     sqlite3_column_blob = (\<lambda>q i w. sqlite3_column_blob R q i (tw_handles w)), sqlite3_column_bytes = (\<lambda>q i w. sqlite3_column_bytes R q i (tw_handles w)),
     sqlite3_column_int64 = (\<lambda>q i w. sqlite3_column_int64 R q i (tw_handles w)), sqlite3_column_double = (\<lambda>q i w. sqlite3_column_double R q i (tw_handles w)),
     sqlite3_libversion = ''3.24.0'', sqlite3_libversion_number = 3024000, sqlite3_sourceid = [],
     SQLITE_VERSION = ''3.24.0'', SQLITE_VERSION_NUMBER = 3024000, SQLITE_SOURCE_ID = []\<rparr>)"

lemma lift_call_eq: "lift_call f w = (r, w') \<longleftrightarrow> (\<exists>h. f (tw_handles w) = (r, h) \<and> w' = w\<lparr>tw_handles := h\<rparr>)"
  by (auto simp: lift_call_def split: prod.splits)

lemma tw_step_keeps: "tw_step q w = (st, w') \<Longrightarrow> tw_dbs w' = tw_dbs w \<and> tw_stmts w' = tw_stmts w"
  by (auto simp: tw_step_def Let_def tw_dbs_def tw_stmts_def lift_call_eq split: option.splits if_splits dest: ref_moves)

interpretation tx_handles: sqlite_handles "tx_sqlite answers" tw_dbs tw_stmts
proof
    show "tw_stmts w' = tw_stmts w \<and> set_option p \<inter> (tw_dbs w \<union> ran (tw_stmts w)) = {} \<and> tw_dbs w' = set_option p \<union> tw_dbs w"
      if "sqlite3_open (tx_sqlite answers) url w = ((SQLITE_OK, p), w')" for url w p w'
      using that ref_open_new [of "tw_handles w"] by (auto simp: tx_sqlite_def Let_def tw_open_def tw_dbs_def tw_stmts_def)
    show "tw_dbs w' = tw_dbs w \<and> (st \<noteq> SQLITE_OK \<longrightarrow> p = None) \<and>
        (case p of None \<Rightarrow> tw_stmts w' = tw_stmts w | Some q \<Rightarrow> tw_stmts w q = None \<and> tw_stmts w' = (tw_stmts w)(q \<mapsto> d))"
      if "d \<in> tw_dbs w" "sqlite3_prepare_v2 (tx_sqlite answers) (Some d) sql w = ((st, p), w')" for d w sql st p w'
    proof -
      have db: "ref_get (tw_handles w) d = RefDb" using that(1) by (simp add: tw_dbs_def ref_dbs_def)
      then show ?thesis using that(2) ref_prepare_new [OF db]
        by (auto simp: tx_sqlite_def Let_def tw_prepare_def lift_call_def ref_prepare_def tw_dbs_def tw_stmts_def)
    qed
    show "tw_dbs w' = tw_dbs w \<and> tw_stmts w' = (tw_stmts w)(q := None)"
      if live: "tw_stmts w q \<noteq> None" and run: "sqlite3_finalize (tx_sqlite answers) q w = (st, w')" for w q st w'
    proof -
      obtain h where h: "ref_finalize q (tw_handles w) = (st, h)" "w' = w\<lparr>tw_handles := h\<rparr>"
        using run by (auto simp: tx_sqlite_def Let_def lift_call_eq)
      then have "sqlite3_finalize (ref_sqlite answers) q (tw_handles w) = (st, h)" by (simp add: ref_sqlite_def)
      then show ?thesis using ref_handles.finalize_frees [OF live [unfolded tw_stmts_def]] h(2) by (simp add: tw_dbs_def tw_stmts_def)
    qed
    show "st = SQLITE_OK \<and> tw_dbs w' = tw_dbs w - {d} \<and> tw_stmts w' = tw_stmts w"
      if d: "d \<in> tw_dbs w" "d \<notin> ran (tw_stmts w)" and run: "sqlite3_close (tx_sqlite answers) (Some d) w = (st, w')" for d w st w'
    proof -
      obtain h where h: "ref_close (Some d) (tw_handles w) = (st, h)" "tw_handles w' = h"
        using run by (auto simp: tx_sqlite_def Let_def tw_close_def lift_call_def split: prod.splits if_splits)
      then have "sqlite3_close (ref_sqlite answers) (Some d) (tw_handles w) = (st, h)" by (simp add: ref_sqlite_def)
      then show ?thesis using ref_handles.close_frees [OF d [unfolded tw_dbs_def tw_stmts_def]] h(2) by (metis tw_dbs_def tw_stmts_def)
    qed
  qed (auto simp: tx_sqlite_def Let_def lift_call_eq tw_dbs_def tw_stmts_def dest: ref_moves tw_step_keeps [unfolded tw_dbs_def tw_stmts_def])


interpretation tx_transactions: sqlite_transactions "tx_sqlite answers" tw_dbs tw_stmts tw_tables tw_saved tw_sql
proof
  show "tw_tables w' = tw_tables w \<and> tw_saved w' d = tw_saved w d \<and> (\<forall>q \<in> set_option p. tw_sql w' q = sql)"
    if "sqlite3_prepare_v2 (tx_sqlite answers) (Some d) sql w = ((st, p), w')" for d w sql st p w'
    using that by (auto simp: tx_sqlite_def Let_def tw_prepare_def lift_call_def ref_prepare_def split: if_splits)
  show "tw_tables w' = recover (tw_tables w) (tw_saved w d)"
    if "d \<in> tw_dbs w" "d \<notin> ran (tw_stmts w)" and run: "sqlite3_close (tx_sqlite answers) (Some d) w = (st, w')" for d w st w'
  proof -
    have "st = SQLITE_OK" using tx_handles.close_frees [OF that] by blast
    then show ?thesis using run by (auto simp: tx_sqlite_def Let_def tw_close_def split: prod.splits)
  qed
  have step: "sqlite3_step (tx_sqlite answers) q w = tw_step q w" for q w by (simp add: tx_sqlite_def Let_def)
  show "tw_sql w' q = tw_sql w q" if "sqlite3_step (tx_sqlite answers) q w = (st, w')" for w q st w'
    using that by (auto simp: step tw_step_def Let_def lift_call_eq split: option.splits if_splits)
  show "st \<noteq> SQLITE_ROW \<and> tw_tables w' = tw_tables w \<and> tw_saved w' d = (if st = SQLITE_DONE then Some (tw_tables w) else None)"
    if "tw_stmts w q = Some d" "tw_sql w q = ''BEGIN;''" "tw_saved w d = None" "sqlite3_step (tx_sqlite answers) q w = (st, w')" for w q d st w'
    using that by (auto simp: step tw_step_def Let_def)
  show "st \<noteq> SQLITE_ROW \<and> (st = SQLITE_DONE \<longrightarrow> tw_tables w' = tw_tables w \<and> tw_saved w' d = None) \<and>
      (st = SQLITE_BUSY \<longrightarrow> tw_tables w' = tw_tables w \<and> tw_saved w' d = Some t) \<and> (st \<noteq> SQLITE_DONE \<longrightarrow> recover (tw_tables w') (tw_saved w' d) = t)"
    if "tw_stmts w q = Some d" "tw_sql w q = ''COMMIT;''" "tw_saved w d = Some t" "sqlite3_step (tx_sqlite answers) q w = (st, w')" for w q d t st w'
    using that by (auto simp: step tw_step_def Let_def)
  show "st \<noteq> SQLITE_ROW \<and> recover (tw_tables w') (tw_saved w' d) = recover (tw_tables w) (tw_saved w d)"
    if "tw_stmts w q = Some d" "tw_sql w q = ''ROLLBACK;''" "sqlite3_step (tx_sqlite answers) q w = (st, w')" for w q d st w'
    using that by (auto simp: step tw_step_def Let_def recover_def split: option.splits)
  show "recover (tw_tables w') (tw_saved w' d) = t \<and> (st = SQLITE_ROW \<or> st = SQLITE_DONE \<or> st = SQLITE_BUSY \<longrightarrow> tw_saved w' d = Some t)"
    if "tw_stmts w q = Some d" "ordinary (tw_sql w q)" "tw_saved w d = Some t" "sqlite3_step (tx_sqlite answers) q w = (st, w')" for w q d t st w'
    using that by (auto simp: step tw_step_def Let_def recover_def ordinary_def selects_def lift_call_eq split: if_splits)
  show "tw_tables w' = tw_tables w \<and> tw_saved w' d = tw_saved w d"
    if "tw_stmts w q = Some d" "selects (tw_sql w q)" "sqlite3_step (tx_sqlite answers) q w = (st, w')" for w q d st w'
    using that by (auto simp: step tw_step_def Let_def selects_def lift_call_eq split: if_splits)
qed (auto simp: tx_sqlite_def Let_def tw_open_def lift_call_eq split: if_splits)

subsection \<open>All or nothing\<close>


text \<open>The wallet table already has the last of the columns: the migrations before it are undone.\<close>

definition old_answers :: "string \<Rightarrow> string list \<times> parameterValue list list" where
  "old_answers sql = ([''id''], [[Bind_text (''M0002_AddFeeTokenToWallet'' @ [CHR 0x00])]])"

definition old_files :: "(tx_world, unit) fileManager" where
  "old_files = \<lparr>applicationSupportDirectory = (\<lambda>c. (Ok ''/a'', c)), fileExists = (\<lambda>_ _. True), createDirectory = (\<lambda>_ c. (Ok (), c)),
     createFile = (\<lambda>_ c. (True, c)), removeItem = (\<lambda>_ c. (Ok (), c))\<rparr>"

definition old_database :: "tx_world dbState" where
  "old_database = \<lparr>world = \<lparr>tw_handles = [], tw_tables = [''ALTER TABLE tbl_wallets ADD contract_version TEXT;''], tw_saved = (\<lambda>_. None), tw_sql = (\<lambda>_. [])\<rparr>,
     all_statements = [], all_connections = [], connections = [], db_url = Some ''/a/b/n.db''\<rparr>"

definition old_run :: "((unit db_error, unit) outcome \<times> tx_world dbState) option" where
  "old_run = migrate (tx_sqlite old_answers) old_files \<lparr>db_name = ''n'', bundleIdentifier = ''b''\<rparr> (tl (walletMigrations (tx_sqlite old_answers) (plift (Ok ())))) old_database"

declare waitWhileBusy.simps [code] reset_loop.simps [code] advanceToNextRow.simps [code] statement_execute.simps [code] collect_rows.simps [code]

lemma old_run_throws: "case old_run of Some (Throw e, s') \<Rightarrow> True | _ \<Rightarrow> False"
  by code_simp


end
