(* ===== verification/Spec2Isabelle.thy ===== *)
theory Spec2Isabelle
  imports Identity TxService Obj_Check Err_Codes Wire Back_Swizzling Deployment Settings_Service Payments Encryption Polling Events
    Storage_Check Guard Migration_Check
begin

text \<open>
  \<^bold>\<open>A verification library for the Safe iOS wallet.\<close>

  The program is a multi-signature Ethereum wallet. A user unlocks the app with a password or biometry; the app
  keeps a portfolio of wallets, each a Safe contract owned by several keys; payments are transactions that are drafted,
  signed by the owners, submitted through a relay and followed until the chain confirms them. The sources are layered:
  domain models (entities and services), application services on top, implementations (database, HTTP, cryptography) and
  user interface around them, and vendored C headers below.

  \<^bold>\<open>Conventions.\<close> The theory \<open>Prelude\<close> gives the result of a Swift call: \<open>Ok\<close> for a return, \<open>Throw\<close> for a thrown error,
  \<open>Trap\<close> for everything that ends the process (a failed precondition, \<open>try!\<close> on an error, a forced unwrap of nil, an
  arithmetic trap, an index out of range). Classes are records that operations return updated; \<open>Int\<close> is an integer with
  its 64-bit bounds checked where the code can reach them; dates are real numbers and the current date is an argument.
  Protocols that other code implements are records of functions, with a locale for the laws the client relies on and an
  interpretation on the implementation the repository has.

  \<^bold>\<open>Theories and sources\<close> (paths under \<^verbatim>\<open>src/\<close>).
  \<^item> \<open>Access\<close>: \<^verbatim>\<open>IdentityAccess/IdentityAccessDomainModel/Gatekeeper\<close> -- \<open>AuthenticationPolicy\<close>, \<open>Session\<close> and
    \<open>Gatekeeper\<close>. The reachable states as an inductive relation, the lock-out after repeated failures, the lifetime of a
    session, and the trap of a session that is started again after it was renewed.
  \<^item> \<open>Identity\<close>: \<^verbatim>\<open>IdentityService.swift\<close>, \<^verbatim>\<open>User.swift\<close>, \<^verbatim>\<open>AuthenticationApplicationService.swift\<close>, the in-memory
    repositories and \<^verbatim>\<open>PasswordValidator.swift\<close>. The locale \<open>single_repositories\<close> states the laws of the repositories.
    What registration and authentication do on every branch, and the password rule in closed form.
  \<^item> \<open>Tx\<close>: \<^verbatim>\<open>Transaction.swift\<close>, \<^verbatim>\<open>TransactionStatus.swift\<close>, \<^verbatim>\<open>Token.swift\<close>. The status machine with its guards, the
    invariant of reachable transactions, what may change in which status, signatures, fees and routing.
  \<^item> \<open>TxService\<close>: \<^verbatim>\<open>TransactionDomainService.swift\<close> and the in-memory transaction repository. Sorting and grouping by
    day over the locale of comparators, removal of drafts, and the update of pending transactions from the node.
  \<^item> \<open>Wallet\<close>: \<^verbatim>\<open>Wallet.swift\<close>, \<^verbatim>\<open>WalletStates.swift\<close>, \<^verbatim>\<open>Owner.swift\<close>, \<^verbatim>\<open>Portfolio.swift\<close>. The ten wallet states with
    their saves and events, owners by role, the selection of the portfolio.
  \<^item> \<open>Abi\<close>: \<^verbatim>\<open>EthereumContractProxy.swift\<close>, \<^verbatim>\<open>Data+InitWithHex.swift\<close>, \<^verbatim>\<open>Data+Padding.swift\<close> and \<open>Address\<close>. The locale
    \<open>hex_library\<close> states what is used of the linked libraries; round trips of numbers, bytes, arrays and addresses.
  \<^item> \<open>Contracts\<close>: the proxies of the ERC20, Safe, owner manager and multi-send contracts, and \<open>OwnerLinkedList\<close>. Round
    trips of the calls, and the refinement of the linked list by the list of owners.
  \<^item> \<open>Registry\<close>: the repositories behind \<^verbatim>\<open>DomainRegistry.swift\<close> as one record, with the locale \<open>keyed_repository\<close> for the laws of
    saving, finding and removing, interpreted on each of them. A loaded object is a value: what is not saved is lost, as with
    the database repositories the app runs on. Published events and posted errors are logged in order.
  \<^item> \<open>Retry\<close>: \<^verbatim>\<open>RetryWithIncreasingDelay.swift\<close> and \<^verbatim>\<open>Repeater.swift\<close>. Bounds of the attempts and waits, and when a repeater
    returns.
  \<^item> \<open>Accounts\<close>: \<^verbatim>\<open>Account/\<close> and \<^verbatim>\<open>Ethereum/Token/\<close>: balances from the node, the token list and its merging.
  \<^item> \<open>Relay\<close>: requests and responses of the relay, contract metadata, the record \<open>outside\<close> of calls that leave the program.
  \<^item> \<open>Deployment\<close>: \<^verbatim>\<open>DeploymentDomainService.swift\<close>, \<^verbatim>\<open>SafeCreationResponseValidator.swift\<close>. What a validated response
    guarantees, the handlers of the deployment events on every answer of the network, and that waiting for a deposit ends.
  \<^item> \<open>Recovery\<close>, \<open>Recovery_Owners\<close>, \<open>Recovery_Service\<close>: \<^verbatim>\<open>RecoveryDomainService.swift\<close>. The definitions; that the calls of the
    recovery transaction lead the safe to exactly the wallet's owners; and the service on every branch.
  \<^item> \<open>Owner_Manager\<close>: the documented behaviour of the owner manager of a Safe contract (addOwnerWithThreshold, swapOwner,
    removeOwner) as a step relation on the list of owners and the threshold. It models no code of the repository: the
    properties about transaction data are stated against it.
  \<^item> \<open>Extension\<close>, \<open>Extension_Service\<close>: the services that replace, connect and disconnect the browser extension
    (\<^verbatim>\<open>ReplaceBrowserExtensionDomainService.swift\<close> and its two subclasses): update, signing, post-processing.
  \<^item> \<open>Settings\<close>, \<open>Settings_Service\<close>: \<^verbatim>\<open>WalletSettingsDomainService.swift\<close>, the change of the recovery phrase.
  \<^item> \<open>Messages\<close>: \<^verbatim>\<open>NotificationService/Messaging\<close>, \<^verbatim>\<open>ECDSASignatureBounds.swift\<close> and the message texts of \<^verbatim>\<open>HTTPNotificatonService.swift\<close>:
    reading a push message, writing a request, and that a request that comes back signed reads as the transaction it was written from.
  \<^item> \<open>App\<close>: the queries and commands of \<^verbatim>\<open>WalletApplicationService.swift\<close> on wallets, owners, tokens and pairing, with the notification
    and communication services; \<open>app_world\<close> is the registry and the log of the requests that left the program.
  \<^item> \<open>Payments\<close>: drafting, estimating, signing and submitting a payment, and the handling of incoming messages, in the same class. A
    message changes the stored transactions only as the relation \<open>message_stores\<close> allows, that is with a signature of the extension.
  \<^item> \<open>Encryption\<close>: the hash that owners sign, \<^verbatim>\<open>EncryptionService.swift\<close>. It determines the call up to collisions of the hash function.
  \<^item> \<open>Polling\<close>: \<^verbatim>\<open>Worker.swift\<close> and the polling of \<^verbatim>\<open>EthereumApplicationService.swift\<close>: when a repeated block returns and with what.
  \<^item> \<open>Events\<close>: \<^verbatim>\<open>EventPublisher.swift\<close>, \<^verbatim>\<open>ErrorStream.swift\<close>, \<^verbatim>\<open>EventRelay.swift\<close> and the subscriptions of the application. Queues and
    weak references as a labelled step relation; every event reaches every subscriber in force once, in no particular order.
  \<^item> \<open>Sqlite\<close>: \<^verbatim>\<open>Common/Database\<close>: databases, connections, statements and result sets over the C interface of SQLite, which is the record
    \<open>csqlite3\<close> of functions on a world of any type. Objects are references into a store, so that a closed connection or a finalized
    statement can be used again, as in the code.
  \<^item> \<open>Sqlite_Safety\<close>: the locales \<open>sqlite_handles\<close> and \<open>sqlite_queries\<close> with what SQLite documents about handles and about stepping through
    rows, busy and failing answers included, and the lemmas on executing a statement: all handles are freed, no row is lost.
  \<^item> \<open>Sqlite_Reference\<close>: two small reference libraries that satisfy the locales, one of them busy at every other step, the properties, and when
    waiting for a busy database ends.
  \<^item> \<open>Guard\<close>: \<^verbatim>\<open>FileSystemGuard.swift\<close> and \<^verbatim>\<open>DataProtectionAwareCSQLite3.swift\<close>: threads that wait with opening a database while the device is locked, as
    a step relation; none waits longer than that.
  \<^item> \<open>Migrations\<close>: \<^verbatim>\<open>Common/CommonImplementations\<close>: the SQL texts of a table, the base class of the repositories, and the migration service, with the migrations of
    \<^verbatim>\<open>safe/safe/Migrations\<close>.
  \<^item> \<open>Sqlite_Transactions\<close>, \<open>Migration_Safety\<close>, \<open>Migration_Check\<close>: the locale \<open>sqlite_transactions\<close> with what SQLite documents about
    transactions, and that migrations run all or none; a reference library with transactions satisfies the locale.
  \<^item> \<open>Storage\<close>, \<open>Storage_Check\<close>: \<^verbatim>\<open>DBTransactionRepository.swift\<close>, \<^verbatim>\<open>DBWalletRepository.swift\<close>, \<^verbatim>\<open>DBSinglePortfolioRepository.swift\<close> and the
    serialisers in \<^verbatim>\<open>DBSerializable/\<close>: the rows that saving binds and the objects that reading makes of them. Every reachable transaction
    and wallet comes back; which portfolios do not.
  \<^item> \<open>Obj_Mac\<close>, \<open>Objects_Fallback\<close>, \<open>Obj_Check\<close>: \<^verbatim>\<open>obj_mac.h\<close> and \<^verbatim>\<open>objects.h\<close> of the vendored OpenSSL: the object tables with unique
    numbers.
  \<^item> \<open>Err\<close>, \<open>Err_Codes\<close>: \<^verbatim>\<open>err.h\<close>, the packing of error codes, and the function and reason codes at the end of the other headers, with
    the alerts of \<^verbatim>\<open>ssl.h\<close>, \<^verbatim>\<open>ssl3.h\<close> and \<^verbatim>\<open>tls1.h\<close>: a packed error names one library, function and reason.
  \<^item> \<open>Wire\<close>: the inline functions of the vendored Protobuf headers on machine words.
  \<^item> \<open>Back_Swizzling\<close>: \<^verbatim>\<open>UINavigationController+BackSwizzling.m\<close>, the exchange of method implementations at load time.

  \<^bold>\<open>Parameters.\<close> Clock, biometry, encryption, the Ethereum node, the relay and notification services, the calendar and the
  linked libraries are arguments of the definitions that use them: fields of \<open>outside\<close> where the answers are values, of \<open>network\<close>
  where they change from call to call, of \<open>hex_functions\<close> and \<open>number_functions\<close> for hex text, hashing and numbers, of \<open>app_services\<close> for
  the services of the application, of \<open>csqlite3\<close> and \<open>fileManager\<close> for the database, of \<open>storage_functions\<close> for numbers in its rows. A property that needs something of them
  has it as a hypothesis and a witness on a concrete instance: \<open>reference_library\<close> for the hex and hash functions, the in-memory
  repositories for the repositories, a concrete node or relay for the services.

  \<^bold>\<open>Bounds.\<close> Loops of the source run over lists or counted ranges, so the functions are total and need no fuel. The
  exceptions are loops that wait for another thread or an answer of the network: they are \<open>partial_function (option)\<close>, where \<open>None\<close>
  means that the loop never ends, and the theorems about them state that they return. Counts and lengths are natural numbers;
  where the code converts one to \<open>Int\<close>, \<open>to_Int\<close> traps from \<open>2 ^ 63\<close> on. Strings are lists of characters and lower-casing is that
  of ASCII, which covers hexadecimal text. \<open>assert\<close>, which only debug builds check, is left out.

  \<^bold>\<open>Not modelled\<close>: the user interface, the HTTP adapters and the other database repositories, key derivation and signing (they call libraries
  that are not in the repository), the application services that only pass calls on, declarations without bodies in vendored
  headers, and threads and timers beyond the queues of \<open>Events\<close> and the waits of \<open>Retry\<close> and \<open>Polling\<close>.
\<close>

end
